(* ===== verification/Prelude.thy ===== *)
theory Prelude
  imports Main "HOL-Library.Word" "HOL-Library.Monad_Syntax"
begin

text \<open>
  Prelude: the machine integers of the C code, the status values every AVED
  interface shares, and the generic facts about lists and 32-bit words on which
  the component theories rest.

  A C function that may have undefined behaviour (a NULL dereference, an access
  past the end of an array) or that may not return is modelled with result type
  \<^typ>\<open>'a option\<close>: \<^term>\<open>None\<close> is that outcome, so that a theorem concluding
  \<^term>\<open>f x = Some y\<close> says that the code is free of it.
\<close>

unbundle bit_operations_syntax

section \<open>Machine integers and status values\<close>

type_synonym u8 = "8 word"
type_synonym u16 = "16 word"
type_synonym u32 = "32 word"
type_synonym u64 = "64 word"

text \<open>\<open>OK\<close> and \<open>ERROR\<close> of src/fw/AMC/src/common/include/standard.h.\<close>

abbreviation (input) OK :: int where "OK \<equiv> 0"
abbreviation (input) ERROR :: int where "ERROR \<equiv> - 1"

section \<open>Facts about modular distance on words\<close>

named_theorems ring_dist \<open>distance between free-running ring pointers\<close>

lemma unat_succ_sub [ring_dist]:
  fixes p c :: "'a::len word"
  assumes "unat (p - c) < 2 ^ LENGTH('a) - 1"
  shows "unat (p + 1 - c) = unat (p - c) + 1"
proof -
  have "p + 1 - c = (p - c) + 1" by simp
  moreover have "unat ((p - c) + 1) = unat (p - c) + 1"
    using assms by (metis add.commute less_diff_conv One_nat_def Suc_eq_plus1 unat_1 unat_add_lem)
  ultimately show ?thesis by (simp only:)
qed

lemma unat_sub_succ [ring_dist]:
  fixes p c :: "'a::len word"
  assumes "p \<noteq> c"
  shows "unat (p - (c + 1)) = unat (p - c) - 1"
proof -
  have "p - (c + 1) = (p - c) - 1" by simp
  moreover have "p - c \<noteq> 0" using assms by simp
  ultimately show ?thesis by (metis unat_minus_one)
qed

lemma unat_sub_eq_0 [simp]: "unat (p - c) = 0 \<longleftrightarrow> p = (c :: 'a::len word)"
  by (simp add: unat_eq_zero)

lemma add_of_nat_dist:
  fixes p c :: "'a::len word"
  shows "c + of_nat (unat (p - c)) = p"
  by simp

section \<open>Word masking by a power of two\<close>

lemma unat_and_pow2_minus_1:
  fixes p n :: u32
  assumes "n = 2 ^ k" "k < 32"
  shows "unat (p AND (n - 1)) = unat p mod 2 ^ k"
proof -
  have "n - 1 = mask k" using assms by (simp add: mask_eq_decr_exp)
  then have "p AND (n - 1) = take_bit k p" by (simp add: take_bit_eq_mask)
  then show ?thesis by (simp only: unsigned_take_bit_eq) (simp only: take_bit_eq_mod)
qed

lemma unat_pow2 [simp]: "k < LENGTH('a) \<Longrightarrow> unat (2 ^ k :: 'a::len word) = 2 ^ k"
  by (metis (no_types) less_imp_le_nat mult.right_neutral nat_mask_eq not_less push_bit_of_1
      take_bit_push_bit unsigned_of_nat of_nat_numeral of_nat_power take_bit_nat_eq_self
      power_strict_increasing_iff one_less_numeral_iff semiring_norm(76))

lemma unat_ucast_wider:
  assumes "LENGTH('a) \<le> LENGTH('b)"
  shows "unat (ucast (x :: 'a::len word) :: 'b::len word) = unat x"
proof -
  have "unat x < 2 ^ LENGTH('a)" by simp
  also have "\<dots> \<le> 2 ^ LENGTH('b)" using assms by simp
  finally show ?thesis by (simp add: unsigned_ucast_eq take_bit_nat_eq_self)
qed

lemma unat_u32_less: "unat (x :: u32) < 2 ^ 32"
  using unsigned_less[where 'b = 32 and 'a = nat, of x] by simp

lemma unat_of_nat_less: "n < 2 ^ LENGTH('a) \<Longrightarrow> unat (of_nat n :: 'a::len word) = n"
  by (simp only: unsigned_of_nat take_bit_nat_eq_self of_nat_id)

lemma ucast_of_nat_small:
  "n < 2 ^ LENGTH('a) \<Longrightarrow> (ucast (of_nat n :: 'a::len word) :: 'b::len word) = of_nat n"
  by (metis of_nat_unat unat_of_nat_less)

lemma all_ones: "(0xFFFFFFFF :: u32) = - 1"
  by (simp add: word_uint_eq_iff unsigned_minus_1_eq_mask mask_eq_exp_minus_1)

lemma unat_ucast_32_64 [simp]: "unat (ucast (x :: u32) :: u64) = unat x"
  by (rule unat_ucast_wider) simp

section \<open>Lists\<close>

lemma map_upt_shift:
  "map f [0..<n] = (if n = 0 then [] else f 0 # map (\<lambda>i. f (Suc i)) [0..<n - 1])"
  by (cases n) (simp_all add: map_upt_Suc del: upt_Suc)

lemma list_eq_map_nth: "length xs = n \<Longrightarrow> map (\<lambda>i. xs ! i) [0..<n] = xs"
  by (metis map_nth)

lemma rotate_update_head:
  assumes "i < length xs"
  shows "rotate ((i + 1) mod length xs) (xs[i := y]) = tl (rotate i xs) @ [y]"
proof -
  have ne: "xs \<noteq> []" using assms by auto
  have len: "length (xs[i := y]) = length xs" by simp
  have "rotate ((i + 1) mod length xs) (xs[i := y]) = rotate (Suc i) (xs[i := y])"
    by (metis Suc_eq_plus1 len rotate_conv_mod)
  also have "\<dots> = rotate1 (rotate i (xs[i := y]))" by simp
  also have "rotate i (xs[i := y]) = drop i (xs[i := y]) @ take i (xs[i := y])"
    using assms by (simp add: rotate_drop_take)
  also have "drop i (xs[i := y]) = y # drop (Suc i) xs"
    using assms by (simp add: drop_update_swap Cons_nth_drop_Suc[symmetric])
  finally have "rotate ((i + 1) mod length xs) (xs[i := y]) = drop (Suc i) xs @ take i xs @ [y]" by simp
  moreover have "rotate i xs = drop i xs @ take i xs" using assms by (simp add: rotate_drop_take)
  then have "tl (rotate i xs) = drop (Suc i) xs @ take i xs"
    using assms by (simp add: Cons_nth_drop_Suc[symmetric])
  ultimately show ?thesis by simp
qed

lemma rotate_update_at:
  assumes "i < length xs" "k < length xs"
  shows "rotate i (xs[(i + k) mod length xs := y]) = (rotate i xs)[k := y]"
proof (rule nth_equalityI)
  fix j assume "j < length (rotate i (xs[(i + k) mod length xs := y]))"
  then have j: "j < length xs" and m: "(i + j) mod length xs < length xs"
    by (simp, intro mod_less_divisor, cases xs) auto
  have "(i + k) mod length xs = (i + j) mod length xs \<longleftrightarrow> k = j"
  proof
    assume e: "(i + k) mod length xs = (i + j) mod length xs"
    have "(i + n) mod length xs = (if i + n < length xs then i + n else i + n - length xs)"
      if "n < length xs" for n using assms(1) that by (simp add: mod_if)
    then show "k = j" using e assms j by (simp split: if_splits)
  qed simp
  then show "rotate i (xs[(i + k) mod length xs := y]) ! j = (rotate i xs)[k := y] ! j"
    using j assms m by (cases "k = j") (simp_all add: nth_rotate nth_list_update add.commute m)
qed simp

end
