(* ===== verification/GcqIo.thy ===== *)
theory GcqIo
  imports Prelude
begin

text \<open>
  The generic command queue (GCQ) driver's view of the hardware: the enumerations
  and the I/O access table of gcq.h, the register map of gcq_regmap.h, and the
  double-read work-around of gcq_features.c.

  The bound-in access functions are parameters of the driver: the fields of
  \<open>GCQ_IO_ACCESS_TYPE\<close>, each \<^term>\<open>None\<close> for a NULL function pointer, over
  a world \<open>'w\<close> that holds the registers and the memory. The locale \<open>gcq_bus\<close>
  states what the driver relies on: some of the addresses are cells that read back
  what was last written to them.
\<close>

section \<open>Enumerations of gcq.h\<close>

datatype GCQ_ERRORS_TYPE =
    GCQ_ERRORS_NONE
  | GCQ_ERRORS_DRIVER_NOT_INITIALISED
  | GCQ_ERRORS_NO_FREE_INSTANCES
  | GCQ_ERRORS_INVALID_INSTANCE
  | GCQ_ERRORS_INVALID_ARG
  | GCQ_ERRORS_INVALID_SLOT_SIZE
  | GCQ_ERRORS_INVALID_VERSION
  | GCQ_ERRORS_INVALID_NUM_SLOTS
  | GCQ_ERRORS_CONSUMER_NOT_ATTACHED
  | GCQ_ERRORS_CONSUMER_NOT_AVAILABLE
  | GCQ_ERRORS_CONSUMER_NO_DATA_RECEIVED
  | GCQ_ERRORS_PRODUCER_NO_FREE_SLOTS

datatype GCQ_MODE_TYPE =
    GCQ_MODE_TYPE_CONSUMER_MODE
  | GCQ_MODE_TYPE_PRODUCER_MODE
  | MAX_GCQ_MODE_TYPE

datatype GCQ_INTERRUPT_MODE_TYPE =
    GCQ_INTERRUPT_MODE_POLLING
  | GCQ_INTERRUPT_MODE_TAIL_POINTER
  | GCQ_INTERRUPT_MODE_INTERRUPT_REG
  | MAX_GCQ_INTERRUPT_MODE

text \<open>\<open>GCQ_FLAGS_TYPE\<close> is a bit set, kept as the machine word it is in C.\<close>

type_synonym GCQ_FLAGS_TYPE = u32

definition GCQ_FLAGS_TYPE_DOUBLE_READ_ENABLE :: u32 where
  "GCQ_FLAGS_TYPE_DOUBLE_READ_ENABLE = 1"

definition GCQ_FLAGS_TYPE_IN_MEM_PTR_ENABLE :: u32 where
  "GCQ_FLAGS_TYPE_IN_MEM_PTR_ENABLE = 2"

section \<open>The bound-in access functions\<close>

record 'w GCQ_IO_ACCESS_TYPE =
  xGCQReadReg32 :: "(u64 \<Rightarrow> 'w \<Rightarrow> u32 \<times> 'w) option"
  xGCQWriteReg32 :: "(u64 \<Rightarrow> u32 \<Rightarrow> 'w \<Rightarrow> 'w) option"
  xGCQReadMem32 :: "(u64 \<Rightarrow> 'w \<Rightarrow> u32 \<times> 'w) option"
  xGCQWriteMem32 :: "(u64 \<Rightarrow> u32 \<Rightarrow> 'w \<Rightarrow> 'w) option"

text \<open>A call through a NULL pointer has undefined behaviour.\<close>

definition read_reg :: "'w GCQ_IO_ACCESS_TYPE \<Rightarrow> u64 \<Rightarrow> 'w \<Rightarrow> (u32 \<times> 'w) option" where
  "read_reg io a w = map_option (\<lambda>f. f a w) (xGCQReadReg32 io)"

definition write_reg :: "'w GCQ_IO_ACCESS_TYPE \<Rightarrow> u64 \<Rightarrow> u32 \<Rightarrow> 'w \<Rightarrow> 'w option" where
  "write_reg io a v w = map_option (\<lambda>f. f a v w) (xGCQWriteReg32 io)"

definition read_mem :: "'w GCQ_IO_ACCESS_TYPE \<Rightarrow> u64 \<Rightarrow> 'w \<Rightarrow> (u32 \<times> 'w) option" where
  "read_mem io a w = map_option (\<lambda>f. f a w) (xGCQReadMem32 io)"

definition write_mem :: "'w GCQ_IO_ACCESS_TYPE \<Rightarrow> u64 \<Rightarrow> u32 \<Rightarrow> 'w \<Rightarrow> 'w option" where
  "write_mem io a v w = map_option (\<lambda>f. f a v w) (xGCQWriteMem32 io)"

text \<open>\<open>CHECK_REG_IO_ACCESS\<close> of gcq_internal.h: true when a function is missing.\<close>

definition CHECK_REG_IO_ACCESS :: "'w GCQ_IO_ACCESS_TYPE \<Rightarrow> bool" where
  "CHECK_REG_IO_ACCESS io \<longleftrightarrow>
     xGCQReadReg32 io = None \<or> xGCQWriteReg32 io = None \<or>
     xGCQReadMem32 io = None \<or> xGCQWriteMem32 io = None"

section \<open>Register fields (gcq_regmap.h)\<close>

text \<open>The number of trailing zero bits, by bisection; 0 for the value 0.\<close>

definition ctz_step :: "nat \<Rightarrow> nat \<times> u64 \<Rightarrow> nat \<times> u64" where
  "ctz_step k pv = (case pv of (pos, v) \<Rightarrow>
     if v AND mask k = 0 then (pos + k, drop_bit k v) else (pos, v))"

definition prvulGetTrailingZeros :: "u64 \<Rightarrow> nat" where
  "prvulGetTrailingZeros v =
     (if v > 0 then
        fst (ctz_step 1 (ctz_step 2 (ctz_step 4 (ctz_step 8 (ctz_step 16 (ctz_step 32 (0, v)))))))
      else 0)"

definition BIT :: "nat \<Rightarrow> u32" where
  "BIT n = push_bit n 1"

definition FIELD_SET :: "u32 \<Rightarrow> u32 \<Rightarrow> u32" where
  "FIELD_SET msk val = push_bit (prvulGetTrailingZeros (ucast msk)) val AND msk"

definition FIELD_GET :: "u32 \<Rightarrow> u32 \<Rightarrow> u32" where
  "FIELD_GET msk reg = drop_bit (prvulGetTrailingZeros (ucast msk)) (reg AND msk)"

section \<open>Feature flags (gcq_features.h, gcq_features.c)\<close>

definition GCQ_FEATURES_IS_IN_MEM_PTR :: "GCQ_FLAGS_TYPE \<Rightarrow> bool" where
  "GCQ_FEATURES_IS_IN_MEM_PTR flags \<longleftrightarrow> flags AND GCQ_FLAGS_TYPE_IN_MEM_PTR_ENABLE \<noteq> 0"

definition GCQ_FEATURES_NEED_DOUBLE_MEM_READ :: "GCQ_FLAGS_TYPE \<Rightarrow> bool" where
  "GCQ_FEATURES_NEED_DOUBLE_MEM_READ flags \<longleftrightarrow>
     flags AND GCQ_FLAGS_TYPE_DOUBLE_READ_ENABLE \<noteq> 0"

definition GCQ_FEATURES_DOUBLE_MEM_READ_RETRY_COUNT :: nat where
  "GCQ_FEATURES_DOUBLE_MEM_READ_RETRY_COUNT = 1000"

text \<open>
  The loop of \<open>ulGCQFeaturesHandleDoubleRead32\<close>: \<open>v0\<close>, \<open>v1\<close> are the two array
  elements, read alternately, until they agree. Running out of retries fails the
  driver's assertion, which is \<^term>\<open>None\<close>.
\<close>

function double_read_loop ::
  "'w GCQ_IO_ACCESS_TYPE \<Rightarrow> u64 \<Rightarrow> nat \<Rightarrow> u32 \<Rightarrow> u32 \<Rightarrow> 'w \<Rightarrow> (u32 \<times> 'w) option" where
  "double_read_loop io a i v0 v1 w =
     (if v0 = v1 then Some (v0, w)
      else do {
        (v, w1) \<leftarrow> read_mem io a w;
        if GCQ_FEATURES_DOUBLE_MEM_READ_RETRY_COUNT < i + 1 then None
        else if even i then double_read_loop io a (i + 1) v v1 w1
        else double_read_loop io a (i + 1) v0 v w1 })"
  by pat_completeness auto
termination
  by (relation "measure (\<lambda>(io, a, i, v0, v1, w). 1001 - i)")
    (auto simp: GCQ_FEATURES_DOUBLE_MEM_READ_RETRY_COUNT_def)

declare double_read_loop.simps [simp del]

definition ulGCQFeaturesHandleDoubleRead32 ::
  "'w GCQ_IO_ACCESS_TYPE \<Rightarrow> u64 \<Rightarrow> 'w \<Rightarrow> (u32 \<times> 'w) option" where
  "ulGCQFeaturesHandleDoubleRead32 io a w =
     do { (v, w1) \<leftarrow> read_mem io a w; double_read_loop io a 0 (v - 1) v w1 }"

section \<open>The bus contract\<close>

text \<open>
  \<open>loc w a\<close> names the cell an address is mapped to, \<open>get w\<close> its contents. A read of
  a cell returns its contents and changes none; a write to a writable cell stores the
  value. A write to an address that is not a cell changes no cell unless it is one of
  the \<open>hot\<close> writes (those that request the soft reset of the tail registers).
\<close>

locale gcq_bus =
  fixes io :: "'w GCQ_IO_ACCESS_TYPE"
    and loc :: "'w \<Rightarrow> u64 \<Rightarrow> 'c option"
    and get :: "'w \<Rightarrow> 'c \<Rightarrow> u32"
    and rw :: "'c \<Rightarrow> bool"
    and hot :: "'w \<Rightarrow> u64 \<Rightarrow> u32 \<Rightarrow> bool"
    and layout :: "'w \<Rightarrow> 'l"
  assumes io_law: "\<not> CHECK_REG_IO_ACCESS io"
    and read_reg_law: "\<exists>v w'. read_reg io a w = Some (v, w') \<and> get w' = get w
      \<and> layout w' = layout w \<and> (\<forall>c. loc w a = Some c \<longrightarrow> v = get w c)"
    and read_mem_law: "\<exists>v w'. read_mem io a w = Some (v, w') \<and> get w' = get w
      \<and> layout w' = layout w \<and> (\<forall>c. loc w a = Some c \<longrightarrow> v = get w c)"
    and write_reg_law: "\<not> hot w a v \<Longrightarrow> \<exists>w'. write_reg io a v w = Some w' \<and> layout w' = layout w
      \<and> get w' = (case loc w a of Some c \<Rightarrow> if rw c then (get w)(c := v) else get w | None \<Rightarrow> get w)"
    and write_mem_law: "\<not> hot w a v \<Longrightarrow> \<exists>w'. write_mem io a v w = Some w' \<and> layout w' = layout w
      \<and> get w' = (case loc w a of Some c \<Rightarrow> if rw c then (get w)(c := v) else get w | None \<Rightarrow> get w)"
    and layout_law: "layout w = layout w' \<Longrightarrow> loc w = loc w' \<and> hot w = hot w'"
    and cold_law: "loc w a = Some c \<Longrightarrow> \<not> hot w a v"
begin

lemma read_reg_cell:
  assumes "loc w a = Some c"
  shows "\<exists>w'. read_reg io a w = Some (get w c, w') \<and> get w' = get w \<and> layout w' = layout w"
  using read_reg_law[of a w] assms by force

lemma read_mem_cell:
  assumes "loc w a = Some c"
  shows "\<exists>w'. read_mem io a w = Some (get w c, w') \<and> get w' = get w \<and> layout w' = layout w"
  using read_mem_law[of a w] assms by force

lemma write_reg_cell:
  assumes "loc w a = Some c" "rw c"
  shows "\<exists>w'. write_reg io a v w = Some w' \<and> get w' = (get w)(c := v) \<and> layout w' = layout w"
  using write_reg_law[of w a v] cold_law[of w a c v] assms by auto

lemma write_mem_cell:
  assumes "loc w a = Some c" "rw c"
  shows "\<exists>w'. write_mem io a v w = Some w' \<and> get w' = (get w)(c := v) \<and> layout w' = layout w"
  using write_mem_law[of w a v] cold_law[of w a c v] assms by auto

text \<open>On a cell, the double read returns after the second access.\<close>

lemma double_read_cell:
  assumes "loc w a = Some c"
  shows "\<exists>w'. ulGCQFeaturesHandleDoubleRead32 io a w = Some (get w c, w')
    \<and> get w' = get w \<and> layout w' = layout w"
proof -
  from read_mem_cell[OF assms] obtain w1 where
    1: "read_mem io a w = Some (get w c, w1)" "get w1 = get w" "layout w1 = layout w" by blast
  have "loc w1 a = Some c" using layout_law[OF 1(3)] assms by simp
  from read_mem_cell[OF this] obtain w2 where
    2: "read_mem io a w1 = Some (get w1 c, w2)" "get w2 = get w1" "layout w2 = layout w1" by blast
  have "double_read_loop io a 0 (get w c - 1) (get w c) w1 = Some (get w c, w2)"
    using 1 2 by (subst double_read_loop.simps)
      (simp add: GCQ_FEATURES_DOUBLE_MEM_READ_RETRY_COUNT_def double_read_loop.simps)
  with 1 2 show ?thesis unfolding ulGCQFeaturesHandleDoubleRead32_def by simp
qed

end

end
