(* ===== verification/GcqRing.thy ===== *)
theory GcqRing
  imports GcqIo
begin

text \<open>
  The ring buffer of the GCQ driver, gcq_ring.h: the shared-memory header, the ring
  record with its free-running 32-bit produced and consumed counters, the copies
  between a buffer and the ring memory, and the full/empty tests and slot addresses.
  A ring passed by pointer and updated is returned updated.
\<close>

section \<open>Header and ring records\<close>

record GCQ_HEADER_TYPE =
  ulHdrMagic :: u32
  ulHdrVersion :: u32
  ulHdrSlotNum :: u32
  ulHdrSQOffset :: u32
  ulHdrSQSlotSize :: u32
  ulHdrCQOffset :: u32
  ulHdrSQConsumed :: u32
  ulHdrCQConsumed :: u32
  ulHdrFlags :: u32
  ulHdrSQProduced :: u32
  ulHdrCQProduced :: u32

text \<open>The header as the eleven words it occupies, in the order of its members.\<close>

definition header_words :: "GCQ_HEADER_TYPE \<Rightarrow> u32 list" where
  "header_words h =
     [ulHdrMagic h, ulHdrVersion h, ulHdrSlotNum h, ulHdrSQOffset h, ulHdrSQSlotSize h,
      ulHdrCQOffset h, ulHdrSQConsumed h, ulHdrCQConsumed h, ulHdrFlags h,
      ulHdrSQProduced h, ulHdrCQProduced h]"

definition words_header :: "u32 list \<Rightarrow> GCQ_HEADER_TYPE" where
  "words_header ws =
     \<lparr> ulHdrMagic = ws ! 0, ulHdrVersion = ws ! 1, ulHdrSlotNum = ws ! 2,
       ulHdrSQOffset = ws ! 3, ulHdrSQSlotSize = ws ! 4, ulHdrCQOffset = ws ! 5,
       ulHdrSQConsumed = ws ! 6, ulHdrCQConsumed = ws ! 7, ulHdrFlags = ws ! 8,
       ulHdrSQProduced = ws ! 9, ulHdrCQProduced = ws ! 10 \<rparr>"

definition GCQ_HEADER_SIZE :: u32 where "GCQ_HEADER_SIZE = 44"
definition OFFSET_SQ_CONSUMED :: u64 where "OFFSET_SQ_CONSUMED = 24"
definition OFFSET_CQ_CONSUMED :: u64 where "OFFSET_CQ_CONSUMED = 28"
definition OFFSET_SQ_PRODUCED :: u64 where "OFFSET_SQ_PRODUCED = 36"
definition OFFSET_CQ_PRODUCED :: u64 where "OFFSET_CQ_PRODUCED = 40"

record GCQ_RING_TYPE =
  ulRingSlotNum :: u32
  ulRingSlotSize :: u32
  ulRingProduced :: u32
  ulRingConsumed :: u32
  ullRingProducedAddr :: u64
  ullRingConsumedAddr :: u64
  ullRingSlotAddr :: u64

definition prvvGCQInitRing :: "u64 \<Rightarrow> u64 \<Rightarrow> u64 \<Rightarrow> u32 \<Rightarrow> u32 \<Rightarrow> GCQ_RING_TYPE" where
  "prvvGCQInitRing ullProducedAddr ullConsumedAddr ullSlotAddr ulSlotNum ulSlotSize =
     \<lparr> ulRingSlotNum = ulSlotNum, ulRingSlotSize = ulSlotSize,
       ulRingProduced = 0, ulRingConsumed = 0,
       ullRingProducedAddr = ullProducedAddr, ullRingConsumedAddr = ullConsumedAddr,
       ullRingSlotAddr = ullSlotAddr \<rparr>"

definition prvulGCQRingLen :: "u32 \<Rightarrow> u32 \<Rightarrow> u32 \<Rightarrow> u32" where
  "prvulGCQRingLen ulNumSlots ulSQSlotSize ulCQSlotSize =
     GCQ_HEADER_SIZE + ulNumSlots * (ulSQSlotSize + ulCQSlotSize)"

section \<open>Copies to and from the ring memory\<close>

text \<open>One 32-bit access per word, at addresses four bytes apart.\<close>

fun write_words ::
  "'w GCQ_IO_ACCESS_TYPE \<Rightarrow> u64 \<Rightarrow> u32 list \<Rightarrow> 'w \<Rightarrow> 'w option" where
  "write_words io a [] w = Some w"
| "write_words io a (x # xs) w =
     do { w1 \<leftarrow> write_mem io a x w; write_words io (a + 4) xs w1 }"

fun read_words ::
  "'w GCQ_IO_ACCESS_TYPE \<Rightarrow> u64 \<Rightarrow> nat \<Rightarrow> 'w \<Rightarrow> (u32 list \<times> 'w) option" where
  "read_words io a 0 w = Some ([], w)"
| "read_words io a (Suc n) w =
     do { (x, w1) \<leftarrow> read_mem io a w;
          (xs, w2) \<leftarrow> read_words io (a + 4) n w1;
          Some (x # xs, w2) }"

text \<open>
  The buffer is the list of the 32-bit words the driver reads it as; reading or
  writing past its end is undefined behaviour.
\<close>

definition prvvGCQCopyToRing ::
  "'w GCQ_IO_ACCESS_TYPE \<Rightarrow> u32 list \<Rightarrow> u64 \<Rightarrow> u32 \<Rightarrow> 'w \<Rightarrow> 'w option" where
  "prvvGCQCopyToRing io pucBuffer ullDestAddr ulLen w =
     (if unat ulLen div 4 \<le> length pucBuffer
      then write_words io ullDestAddr (take (unat ulLen div 4) pucBuffer) w else None)"

definition prvvGCQCopyFromRing ::
  "'w GCQ_IO_ACCESS_TYPE \<Rightarrow> u32 list \<Rightarrow> u64 \<Rightarrow> u32 \<Rightarrow> 'w \<Rightarrow> (u32 list \<times> 'w) option" where
  "prvvGCQCopyFromRing io pucBuffer ullSrcAddr ulLen w =
     (if unat ulLen div 4 \<le> length pucBuffer
      then do { (xs, w1) \<leftarrow> read_words io ullSrcAddr (unat ulLen div 4) w;
                Some (xs @ drop (unat ulLen div 4) pucBuffer, w1) }
      else None)"

section \<open>Pointer accesses\<close>

definition prvvGCQRingReadProduced ::
  "'w GCQ_IO_ACCESS_TYPE \<Rightarrow> GCQ_FLAGS_TYPE \<Rightarrow> GCQ_RING_TYPE \<Rightarrow> 'w
   \<Rightarrow> (GCQ_RING_TYPE \<times> 'w) option" where
  "prvvGCQRingReadProduced io flags r w =
     do { (v, w1) \<leftarrow>
            (if GCQ_FEATURES_NEED_DOUBLE_MEM_READ flags
             then ulGCQFeaturesHandleDoubleRead32 io (ullRingProducedAddr r) w
             else if GCQ_FEATURES_IS_IN_MEM_PTR flags
             then read_mem io (ullRingProducedAddr r) w
             else read_reg io (ullRingProducedAddr r) w);
          Some (r\<lparr>ulRingProduced := v\<rparr>, w1) }"

definition prvvGCQRingWriteProduced ::
  "'w GCQ_IO_ACCESS_TYPE \<Rightarrow> GCQ_FLAGS_TYPE \<Rightarrow> GCQ_RING_TYPE \<Rightarrow> 'w \<Rightarrow> 'w option" where
  "prvvGCQRingWriteProduced io flags r w =
     (if GCQ_FEATURES_IS_IN_MEM_PTR flags
      then write_mem io (ullRingProducedAddr r) (ulRingProduced r) w
      else write_reg io (ullRingProducedAddr r) (ulRingProduced r) w)"

definition prvvGCQRingReadConsumed ::
  "'w GCQ_IO_ACCESS_TYPE \<Rightarrow> GCQ_FLAGS_TYPE \<Rightarrow> GCQ_RING_TYPE \<Rightarrow> 'w
   \<Rightarrow> (GCQ_RING_TYPE \<times> 'w) option" where
  "prvvGCQRingReadConsumed io flags r w =
     do { (v, w1) \<leftarrow>
            (if GCQ_FEATURES_NEED_DOUBLE_MEM_READ flags
             then ulGCQFeaturesHandleDoubleRead32 io (ullRingConsumedAddr r) w
             else if GCQ_FEATURES_IS_IN_MEM_PTR flags
             then read_mem io (ullRingConsumedAddr r) w
             else read_reg io (ullRingConsumedAddr r) w);
          Some (r\<lparr>ulRingConsumed := v\<rparr>, w1) }"

definition prvvGCQRingWriteConsumed ::
  "'w GCQ_IO_ACCESS_TYPE \<Rightarrow> GCQ_FLAGS_TYPE \<Rightarrow> GCQ_RING_TYPE \<Rightarrow> 'w \<Rightarrow> 'w option" where
  "prvvGCQRingWriteConsumed io flags r w =
     (if GCQ_FEATURES_IS_IN_MEM_PTR flags
      then write_mem io (ullRingConsumedAddr r) (ulRingConsumed r) w
      else write_reg io (ullRingConsumedAddr r) (ulRingConsumed r) w)"

section \<open>Full, empty and slot addresses\<close>

definition prvucGCQRingIsFull :: "GCQ_RING_TYPE \<Rightarrow> bool" where
  "prvucGCQRingIsFull r \<longleftrightarrow> ulRingProduced r - ulRingConsumed r \<ge> ulRingSlotNum r"

definition prvucGCQRingIsEmpty :: "GCQ_RING_TYPE \<Rightarrow> bool" where
  "prvucGCQRingIsEmpty r \<longleftrightarrow> ulRingProduced r = ulRingConsumed r"

definition prvullGCQRingGetSlotPtrProduced :: "GCQ_RING_TYPE \<Rightarrow> u64" where
  "prvullGCQRingGetSlotPtrProduced r =
     ullRingSlotAddr r
       + ucast (ulRingSlotSize r) * ucast (ulRingProduced r AND (ulRingSlotNum r - 1))"

definition prvullGCQRingGetSlotPtrConsumed :: "GCQ_RING_TYPE \<Rightarrow> u64" where
  "prvullGCQRingGetSlotPtrConsumed r =
     ullRingSlotAddr r
       + ucast (ulRingSlotSize r) * ucast (ulRingConsumed r AND (ulRingSlotNum r - 1))"

section \<open>Facts\<close>

lemma header_roundtrip: "words_header (header_words h) = h"
  by (simp add: words_header_def header_words_def)

lemma length_header_words [simp]: "length (header_words h) = 11"
  by (simp add: header_words_def)

lemma ring_not_full_iff:
  assumes "unat (ulRingProduced r - ulRingConsumed r) \<le> unat (ulRingSlotNum r)"
  shows "prvucGCQRingIsFull r \<longleftrightarrow>
    unat (ulRingProduced r - ulRingConsumed r) = unat (ulRingSlotNum r)"
  using assms by (auto simp: prvucGCQRingIsFull_def word_le_nat_alt)

text \<open>The slot index of a counter value, and the address arithmetic it stands for.\<close>

definition slot_ix :: "nat \<Rightarrow> u32 \<Rightarrow> nat" where
  "slot_ix k p = unat p mod 2 ^ k"

lemma slot_ix_less [simp]: "slot_ix k p < 2 ^ k"
  by (simp add: slot_ix_def)

lemma slot_ix_add:
  assumes "k < 32"
  shows "slot_ix k (c + of_nat i) = (unat c + i) mod 2 ^ k"
proof -
  have "unat (c + of_nat i) = (unat c + i) mod 2 ^ 32"
    by (simp add: unat_word_ariths unat_of_nat mod_simps)
  moreover have "(2::nat) ^ k dvd 2 ^ 32" using assms by (intro le_imp_power_dvd) simp
  ultimately show ?thesis unfolding slot_ix_def by (simp add: mod_mod_cancel)
qed

text \<open>Counter values less than \<open>2 ^ k\<close> apart use distinct slots.\<close>

lemma slot_ix_inj:
  assumes "k < 32" "i < j" "j < i + 2 ^ k"
  shows "slot_ix k (c + of_nat i) \<noteq> slot_ix k (c + of_nat j)"
proof
  assume "slot_ix k (c + of_nat i) = slot_ix k (c + of_nat j)"
  then have "(unat c + i) mod 2 ^ k = (unat c + j) mod 2 ^ k"
    by (simp add: slot_ix_add[OF assms(1)])
  then have "2 ^ k dvd (unat c + j) - (unat c + i)"
    using assms(2) by (metis add_le_cancel_left less_imp_le mod_eq_dvd_iff_nat)
  then show False using assms(2,3) by (auto dest: dvd_imp_le)
qed

lemma slot_ptr_produced:
  assumes "ulRingSlotNum r = 2 ^ k" "k < 32" "ulRingSlotSize r = of_nat (4 * m)" "4 * m < 2 ^ 32"
  shows "prvullGCQRingGetSlotPtrProduced r =
    ullRingSlotAddr r + of_nat (4 * (m * slot_ix k (ulRingProduced r)))"
proof -
  have 1: "ucast (ulRingSlotSize r) = (of_nat (4 * m) :: u64)"
    unfolding assms(3) unsigned_of_nat using assms(4)
    by (simp only: take_bit_nat_eq_self_iff len_num1 len_bit0 take_bit_eq_mod mod_less) simp
  have "unat (ulRingProduced r AND (ulRingSlotNum r - 1)) = slot_ix k (ulRingProduced r)"
    using unat_and_pow2_minus_1[OF assms(1,2)] by (simp add: slot_ix_def)
  then have 2: "ucast (ulRingProduced r AND (ulRingSlotNum r - 1))
      = (of_nat (slot_ix k (ulRingProduced r)) :: u64)"
    by (metis of_nat_unat)
  show ?thesis unfolding prvullGCQRingGetSlotPtrProduced_def 1 2 by (simp add: algebra_simps)
qed

lemma slot_ptr_consumed:
  assumes "ulRingSlotNum r = 2 ^ k" "k < 32" "ulRingSlotSize r = of_nat (4 * m)" "4 * m < 2 ^ 32"
  shows "prvullGCQRingGetSlotPtrConsumed r =
    ullRingSlotAddr r + of_nat (4 * (m * slot_ix k (ulRingConsumed r)))"
  using slot_ptr_produced[of "r\<lparr>ulRingProduced := ulRingConsumed r\<rparr>" k m] assms
  by (simp add: prvullGCQRingGetSlotPtrProduced_def prvullGCQRingGetSlotPtrConsumed_def)

section \<open>Ring accesses on the bus\<close>

context gcq_bus begin

lemma ring_read_produced_cell:
  assumes "loc w (ullRingProducedAddr r) = Some c"
  shows "\<exists>w'. prvvGCQRingReadProduced io flags r w = Some (r\<lparr>ulRingProduced := get w c\<rparr>, w')
    \<and> get w' = get w \<and> layout w' = layout w"
  using read_reg_cell[OF assms] read_mem_cell[OF assms] double_read_cell[OF assms]
  by (auto simp: prvvGCQRingReadProduced_def)

lemma ring_read_consumed_cell:
  assumes "loc w (ullRingConsumedAddr r) = Some c"
  shows "\<exists>w'. prvvGCQRingReadConsumed io flags r w = Some (r\<lparr>ulRingConsumed := get w c\<rparr>, w')
    \<and> get w' = get w \<and> layout w' = layout w"
  using read_reg_cell[OF assms] read_mem_cell[OF assms] double_read_cell[OF assms]
  by (auto simp: prvvGCQRingReadConsumed_def)

lemma ring_write_produced_cell:
  assumes "loc w (ullRingProducedAddr r) = Some c" "rw c"
  shows "\<exists>w'. prvvGCQRingWriteProduced io flags r w = Some w'
    \<and> get w' = (get w)(c := ulRingProduced r) \<and> layout w' = layout w"
  using write_reg_cell[OF assms] write_mem_cell[OF assms]
  by (auto simp: prvvGCQRingWriteProduced_def)

lemma ring_write_consumed_cell:
  assumes "loc w (ullRingConsumedAddr r) = Some c" "rw c"
  shows "\<exists>w'. prvvGCQRingWriteConsumed io flags r w = Some w'
    \<and> get w' = (get w)(c := ulRingConsumed r) \<and> layout w' = layout w"
  using write_reg_cell[OF assms] write_mem_cell[OF assms]
  by (auto simp: prvvGCQRingWriteConsumed_def)

lemma write_words_cells:
  assumes "\<forall>j<length xs. loc w (a + of_nat (4 * j)) = Some (cs j) \<and> rw (cs j)"
    "inj_on cs {..<length xs}"
  shows "\<exists>w'. write_words io a xs w = Some w' \<and> layout w' = layout w
    \<and> (\<forall>j<length xs. get w' (cs j) = xs ! j)
    \<and> (\<forall>c. c \<notin> cs ` {..<length xs} \<longrightarrow> get w' c = get w c)"
  using assms
proof (induction xs arbitrary: a w cs)
  case Nil
  then show ?case by simp
next
  case (Cons x xs)
  have c0: "loc w a = Some (cs 0)" "rw (cs 0)" using Cons.prems(1) by auto
  from write_mem_cell[OF this] obtain w1 where w1: "write_mem io a x w = Some w1"
    "get w1 = (get w)(cs 0 := x)" "layout w1 = layout w" by blast
  have loc: "loc w1 = loc w" using layout_law[OF w1(3)] by simp
  have tl: "\<forall>j<length xs. loc w1 (a + 4 + of_nat (4 * j)) = Some ((cs \<circ> Suc) j) \<and> rw ((cs \<circ> Suc) j)"
  proof (intro allI impI)
    fix j assume "j < length xs"
    with Cons.prems(1)[rule_format, of "Suc j"]
    show "loc w1 (a + 4 + of_nat (4 * j)) = Some ((cs \<circ> Suc) j) \<and> rw ((cs \<circ> Suc) j)"
      by (simp add: loc algebra_simps)
  qed
  have inj: "inj_on (cs \<circ> Suc) {..<length xs}" using Cons.prems(2) by (auto simp: inj_on_def)
  from Cons.IH[OF tl inj] obtain w' where w': "write_words io (a + 4) xs w1 = Some w'"
    "layout w' = layout w1" "\<forall>j<length xs. get w' ((cs \<circ> Suc) j) = xs ! j"
    "\<forall>c. c \<notin> (cs \<circ> Suc) ` {..<length xs} \<longrightarrow> get w' c = get w1 c" by blast
  have "cs 0 \<notin> (cs \<circ> Suc) ` {..<length xs}" using Cons.prems(2) by (auto simp: inj_on_def)
  then have hd: "get w' (cs 0) = x" using w'(4) w1(2) by simp
  have all: "get w' (cs j) = (x # xs) ! j" if "j < length (x # xs)" for j
    using that hd w'(3) by (cases j) auto
  have rest: "get w' c = get w c" if "c \<notin> cs ` {..<length (x # xs)}" for c
  proof -
    have "c \<noteq> cs 0" "c \<notin> (cs \<circ> Suc) ` {..<length xs}" using that by auto
    then show ?thesis using w'(4) w1(2) by simp
  qed
  show ?case using w1 w'(1,2) all rest by auto
qed

lemma read_words_cells:
  assumes "\<forall>j<n. loc w (a + of_nat (4 * j)) = Some (cs j)"
  shows "\<exists>w'. read_words io a n w = Some (map (\<lambda>j. get w (cs j)) [0..<n], w')
    \<and> get w' = get w \<and> layout w' = layout w"
  using assms
proof (induction n arbitrary: a w cs)
  case 0
  then show ?case by simp
next
  case (Suc n)
  have "loc w a = Some (cs 0)" using Suc.prems[rule_format, of 0] by simp
  from read_mem_cell[OF this] obtain w1 where w1: "read_mem io a w = Some (get w (cs 0), w1)"
    "get w1 = get w" "layout w1 = layout w" by blast
  have "\<forall>j<n. loc w1 (a + 4 + of_nat (4 * j)) = Some ((cs \<circ> Suc) j)"
  proof (intro allI impI)
    fix j assume "j < n"
    with Suc.prems[rule_format, of "Suc j"] layout_law[OF w1(3)]
    show "loc w1 (a + 4 + of_nat (4 * j)) = Some ((cs \<circ> Suc) j)" by (simp add: algebra_simps)
  qed
  from Suc.IH[OF this] obtain w' where
    "read_words io (a + 4) n w1 = Some (map (\<lambda>j. get w1 ((cs \<circ> Suc) j)) [0..<n], w')"
    "get w' = get w1" "layout w' = layout w1" by blast
  then show ?case using w1
    by (auto simp: map_upt_shift[of "\<lambda>j. get w (cs j)" "Suc n"] simp del: upt_Suc)
qed

end

end
