(* ===== verification/GcqHw.thy ===== *)
theory GcqHw
  imports GcqRing
begin

text \<open>
  Configuration of the GCQ IP block, gcq_hw.c: the mode and interrupt set-up written
  at initialisation, and the interrupt trigger and clear of the interrupt-register
  mode. The offsets and field masks are those of gcq_regmap.h.
\<close>

section \<open>Register offsets and masks\<close>

definition GCQ_PRODUCER_SQ_TAIL_POINTER :: u64 where "GCQ_PRODUCER_SQ_TAIL_POINTER = 0x0000"
definition GCQ_PRODUCER_SQ_INTERRUPT_REG :: u64 where "GCQ_PRODUCER_SQ_INTERRUPT_REG = 0x0004"
definition GCQ_PRODUCER_SQ_QUEUE_MEM_ADDR_LOW :: u64 where
  "GCQ_PRODUCER_SQ_QUEUE_MEM_ADDR_LOW = 0x0008"
definition GCQ_PRODUCER_SQ_RESET_INTERRUPT_CTRL :: u64 where
  "GCQ_PRODUCER_SQ_RESET_INTERRUPT_CTRL = 0x000C"
definition GCQ_PRODUCER_SQ_QUEUE_MEM_ADDR_HIGH :: u64 where
  "GCQ_PRODUCER_SQ_QUEUE_MEM_ADDR_HIGH = 0x0010"
definition GCQ_PRODUCER_CQ_TAIL_POINTER :: u64 where "GCQ_PRODUCER_CQ_TAIL_POINTER = 0x0100"

definition GCQ_CONSUMER_CQ_TAIL_POINTER :: u64 where "GCQ_CONSUMER_CQ_TAIL_POINTER = 0x0000"
definition GCQ_CONSUMER_CQ_INTERRUPT_REG :: u64 where "GCQ_CONSUMER_CQ_INTERRUPT_REG = 0x0004"
definition GCQ_CONSUMER_CQ_QUEUE_MEM_ADDR_LOW :: u64 where
  "GCQ_CONSUMER_CQ_QUEUE_MEM_ADDR_LOW = 0x0008"
definition GCQ_CONSUMER_CQ_RESET_INTERRUPT_CTRL :: u64 where
  "GCQ_CONSUMER_CQ_RESET_INTERRUPT_CTRL = 0x000C"
definition GCQ_CONSUMER_CQ_QUEUE_MEM_ADDR_HIGH :: u64 where
  "GCQ_CONSUMER_CQ_QUEUE_MEM_ADDR_HIGH = 0x0010"
definition GCQ_CONSUMER_SQ_TAIL_POINTER :: u64 where "GCQ_CONSUMER_SQ_TAIL_POINTER = 0x0100"

definition INTERRUPT_REG_INT_REG_MASK :: u32 where "INTERRUPT_REG_INT_REG_MASK = BIT 0"
definition INTERRUPT_CTRL_ENABLE_MASK :: u32 where "INTERRUPT_CTRL_ENABLE_MASK = BIT 0"
definition INTERRUPT_CTRL_TYPE_MASK :: u32 where "INTERRUPT_CTRL_TYPE_MASK = BIT 1"
definition INTERRUPT_CTRL_RESET_MASK :: u32 where "INTERRUPT_CTRL_RESET_MASK = BIT 31"

definition GCQ_INTERRUPT_CTRL_DISABLE :: u32 where "GCQ_INTERRUPT_CTRL_DISABLE = 0"
definition GCQ_INTERRUPT_CTRL_ENABLE :: u32 where "GCQ_INTERRUPT_CTRL_ENABLE = 1"
definition GCQ_INTERRUPT_CTRL_TYPE_TAIL_POINTER_WRITE :: u32 where
  "GCQ_INTERRUPT_CTRL_TYPE_TAIL_POINTER_WRITE = 0"
definition GCQ_INTERRUPT_CTRL_TYPE_INTE_REG_WRITE :: u32 where
  "GCQ_INTERRUPT_CTRL_TYPE_INTE_REG_WRITE = 1"
definition GCQ_INTERRUPT_CTRL_RESET :: u32 where "GCQ_INTERRUPT_CTRL_RESET = 1"
definition GCQ_INTERRUPT_REG_INT_REG_TRIGGER :: u32 where "GCQ_INTERRUPT_REG_INT_REG_TRIGGER = 1"

definition GCQ_HW_LOWER_32 :: "u64 \<Rightarrow> u32" where
  "GCQ_HW_LOWER_32 val = ucast (val AND 0xffffffff)"

definition GCQ_HW_UPPER_32 :: "u64 \<Rightarrow> u32" where
  "GCQ_HW_UPPER_32 val = ucast (drop_bit 32 val AND 0xffffffff)"

lemmas gcq_regmap =
  GCQ_PRODUCER_SQ_TAIL_POINTER_def GCQ_PRODUCER_SQ_INTERRUPT_REG_def
  GCQ_PRODUCER_SQ_QUEUE_MEM_ADDR_LOW_def GCQ_PRODUCER_SQ_RESET_INTERRUPT_CTRL_def
  GCQ_PRODUCER_SQ_QUEUE_MEM_ADDR_HIGH_def GCQ_PRODUCER_CQ_TAIL_POINTER_def
  GCQ_CONSUMER_CQ_TAIL_POINTER_def GCQ_CONSUMER_CQ_INTERRUPT_REG_def
  GCQ_CONSUMER_CQ_QUEUE_MEM_ADDR_LOW_def GCQ_CONSUMER_CQ_RESET_INTERRUPT_CTRL_def
  GCQ_CONSUMER_CQ_QUEUE_MEM_ADDR_HIGH_def GCQ_CONSUMER_SQ_TAIL_POINTER_def

section \<open>Operations\<close>

text \<open>
  The masks passed to \<open>FIELD_SET\<close> for the queue address are the register offsets,
  not the \<open>_MASK\<close> constants: the code is modelled as it is.
\<close>

definition xGCQHWInit ::
  "GCQ_MODE_TYPE \<Rightarrow> u64 \<Rightarrow> u64 \<Rightarrow> 'w GCQ_IO_ACCESS_TYPE \<Rightarrow> 'w
   \<Rightarrow> (GCQ_ERRORS_TYPE \<times> 'w) option" where
  "xGCQHWInit xMode ullBaseAddr ullRingAddr io w =
     (if CHECK_REG_IO_ACCESS io then Some (GCQ_ERRORS_INVALID_ARG, w)
      else case xMode of
        GCQ_MODE_TYPE_CONSUMER_MODE \<Rightarrow> do {
          w1 \<leftarrow> write_reg io (ullBaseAddr + GCQ_CONSUMER_CQ_QUEUE_MEM_ADDR_LOW)
            (FIELD_SET (ucast GCQ_CONSUMER_CQ_QUEUE_MEM_ADDR_LOW) (GCQ_HW_LOWER_32 ullRingAddr)) w;
          w2 \<leftarrow> write_reg io (ullBaseAddr + GCQ_CONSUMER_CQ_QUEUE_MEM_ADDR_HIGH)
            (FIELD_SET (ucast GCQ_CONSUMER_CQ_QUEUE_MEM_ADDR_HIGH) (GCQ_HW_UPPER_32 ullRingAddr)) w1;
          Some (GCQ_ERRORS_NONE, w2) }
      | GCQ_MODE_TYPE_PRODUCER_MODE \<Rightarrow> do {
          (v, w1) \<leftarrow> read_reg io (ullBaseAddr + GCQ_PRODUCER_SQ_RESET_INTERRUPT_CTRL) w;
          w2 \<leftarrow> write_reg io (ullBaseAddr + GCQ_PRODUCER_SQ_RESET_INTERRUPT_CTRL)
            (v OR FIELD_SET INTERRUPT_CTRL_ENABLE_MASK GCQ_INTERRUPT_CTRL_RESET) w1;
          w3 \<leftarrow> write_reg io (ullBaseAddr + GCQ_PRODUCER_SQ_QUEUE_MEM_ADDR_LOW)
            (FIELD_SET (ucast GCQ_PRODUCER_SQ_QUEUE_MEM_ADDR_LOW) (GCQ_HW_LOWER_32 ullRingAddr)) w2;
          w4 \<leftarrow> write_reg io (ullBaseAddr + GCQ_PRODUCER_SQ_QUEUE_MEM_ADDR_HIGH)
            (FIELD_SET (ucast GCQ_PRODUCER_SQ_QUEUE_MEM_ADDR_HIGH) (GCQ_HW_UPPER_32 ullRingAddr)) w3;
          Some (GCQ_ERRORS_NONE, w4) }
      | MAX_GCQ_MODE_TYPE \<Rightarrow> Some (GCQ_ERRORS_INVALID_ARG, w))"

text \<open>The value of the interrupt control register, shared by the two mode branches.\<close>

definition interrupt_ctrl_value :: "GCQ_INTERRUPT_MODE_TYPE \<Rightarrow> u32 option" where
  "interrupt_ctrl_value xIntMode = (case xIntMode of
       GCQ_INTERRUPT_MODE_POLLING \<Rightarrow>
         Some (FIELD_SET INTERRUPT_CTRL_ENABLE_MASK GCQ_INTERRUPT_CTRL_DISABLE)
     | GCQ_INTERRUPT_MODE_TAIL_POINTER \<Rightarrow>
         Some (FIELD_SET INTERRUPT_CTRL_ENABLE_MASK GCQ_INTERRUPT_CTRL_ENABLE OR
               FIELD_SET INTERRUPT_CTRL_TYPE_MASK GCQ_INTERRUPT_CTRL_TYPE_TAIL_POINTER_WRITE)
     | GCQ_INTERRUPT_MODE_INTERRUPT_REG \<Rightarrow>
         Some (FIELD_SET INTERRUPT_CTRL_ENABLE_MASK GCQ_INTERRUPT_CTRL_ENABLE OR
               FIELD_SET INTERRUPT_CTRL_TYPE_MASK GCQ_INTERRUPT_CTRL_TYPE_INTE_REG_WRITE)
     | MAX_GCQ_INTERRUPT_MODE \<Rightarrow> None)"

definition xGCQHWConfigureInterruptMode ::
  "GCQ_MODE_TYPE \<Rightarrow> GCQ_INTERRUPT_MODE_TYPE \<Rightarrow> u64 \<Rightarrow> 'w GCQ_IO_ACCESS_TYPE \<Rightarrow> 'w
   \<Rightarrow> (GCQ_ERRORS_TYPE \<times> 'w) option" where
  "xGCQHWConfigureInterruptMode xMode xIntMode ullBaseAddr io w =
     (if CHECK_REG_IO_ACCESS io then Some (GCQ_ERRORS_INVALID_ARG, w)
      else
        let reg = (case xMode of
              GCQ_MODE_TYPE_CONSUMER_MODE \<Rightarrow> Some (ullBaseAddr + GCQ_CONSUMER_CQ_RESET_INTERRUPT_CTRL)
            | GCQ_MODE_TYPE_PRODUCER_MODE \<Rightarrow> Some (ullBaseAddr + GCQ_PRODUCER_SQ_RESET_INTERRUPT_CTRL)
            | MAX_GCQ_MODE_TYPE \<Rightarrow> None)
        in case (reg, interrupt_ctrl_value xIntMode) of
             (Some a, Some v) \<Rightarrow> do { w1 \<leftarrow> write_reg io a v w; Some (GCQ_ERRORS_NONE, w1) }
           | _ \<Rightarrow> Some (GCQ_ERRORS_INVALID_ARG, w))"

definition interrupt_reg_addr :: "GCQ_MODE_TYPE \<Rightarrow> u64 \<Rightarrow> u64 option" where
  "interrupt_reg_addr xMode ullBaseAddr = (case xMode of
       GCQ_MODE_TYPE_CONSUMER_MODE \<Rightarrow> Some (ullBaseAddr + GCQ_CONSUMER_CQ_INTERRUPT_REG)
     | GCQ_MODE_TYPE_PRODUCER_MODE \<Rightarrow> Some (ullBaseAddr + GCQ_PRODUCER_SQ_INTERRUPT_REG)
     | MAX_GCQ_MODE_TYPE \<Rightarrow> None)"

definition xGCQHWTriggerInterrupt ::
  "GCQ_MODE_TYPE \<Rightarrow> u64 \<Rightarrow> 'w GCQ_IO_ACCESS_TYPE \<Rightarrow> 'w \<Rightarrow> (GCQ_ERRORS_TYPE \<times> 'w) option" where
  "xGCQHWTriggerInterrupt xMode ullBaseAddr io w =
     (if CHECK_REG_IO_ACCESS io then Some (GCQ_ERRORS_INVALID_ARG, w)
      else case interrupt_reg_addr xMode ullBaseAddr of
        None \<Rightarrow> Some (GCQ_ERRORS_INVALID_ARG, w)
      | Some reg \<Rightarrow> do {
          w1 \<leftarrow> write_reg io reg
            (FIELD_SET INTERRUPT_REG_INT_REG_MASK GCQ_INTERRUPT_REG_INT_REG_TRIGGER) w;
          Some (GCQ_ERRORS_NONE, w1) })"

definition xGCQHWClearInterrupt ::
  "GCQ_MODE_TYPE \<Rightarrow> u64 \<Rightarrow> 'w GCQ_IO_ACCESS_TYPE \<Rightarrow> 'w \<Rightarrow> (GCQ_ERRORS_TYPE \<times> 'w) option" where
  "xGCQHWClearInterrupt xMode ullBaseAddr io w =
     (if CHECK_REG_IO_ACCESS io then Some (GCQ_ERRORS_INVALID_ARG, w)
      else case interrupt_reg_addr xMode ullBaseAddr of
        None \<Rightarrow> Some (GCQ_ERRORS_INVALID_ARG, w)
      | Some reg \<Rightarrow> do { (_, w1) \<leftarrow> read_reg io reg w; Some (GCQ_ERRORS_NONE, w1) })"

section \<open>Facts\<close>

text \<open>
  The bisection: when one of the low \<open>2 * k\<close> bits is set, a step leaves a value one
  of whose low \<open>k\<close> bits is set, and the position accounts for the bits shifted out.
\<close>

definition ctz_inv :: "u64 \<Rightarrow> nat \<Rightarrow> nat \<Rightarrow> nat \<times> u64 \<Rightarrow> bool" where
  "ctz_inv V n k pv \<longleftrightarrow>
     fst pv \<le> n \<and> V = push_bit (fst pv) (snd pv) \<and> snd pv AND mask k \<noteq> 0"

lemma ctz_step_inv:
  assumes "ctz_inv V n (2 * k) pv"
  shows "ctz_inv V (n + k) k (ctz_step k pv)"
proof (cases pv)
  case (Pair pos v)
  show ?thesis
  proof (cases "v AND mask k = 0")
    case True
    have "v = push_bit k (drop_bit k v) OR (v AND mask k)"
      by (rule bit_word_eqI) (auto simp: bit_simps)
    then have 1: "v = push_bit k (drop_bit k v)" by (simp add: True)
    have "v AND mask (2 * k) = push_bit k (drop_bit k v AND mask k) OR (v AND mask k)"
      by (rule bit_word_eqI) (auto simp: bit_simps)
    then have "drop_bit k v AND mask k \<noteq> 0"
      using assms Pair by (metis True ctz_inv_def or.right_neutral push_bit_of_0 snd_conv)
    moreover have "push_bit pos v = push_bit (pos + k) (drop_bit k v)"
      by (subst 1) (simp add: push_bit_push_bit)
    ultimately show ?thesis using assms Pair True by (simp add: ctz_step_def ctz_inv_def)
  next
    case False
    with assms Pair show ?thesis by (simp add: ctz_step_def ctz_inv_def)
  qed
qed

lemma ctz_lowest_bit:
  assumes "v \<noteq> 0"
  shows "bit v (prvulGetTrailingZeros v) \<and> (\<forall>i<prvulGetTrailingZeros v. \<not> bit v i)"
proof -
  define s5 where "s5 = ctz_step 32 (0, v)"
  define s4 where "s4 = ctz_step 16 s5"
  define s3 where "s3 = ctz_step 8 s4"
  define s2 where "s2 = ctz_step 4 s3"
  define s1 where "s1 = ctz_step 2 s2"
  define s0 where "s0 = ctz_step 1 s1"
  have "v AND mask 64 = v" by (rule bit_word_eqI) (auto simp: bit_simps)
  then have "ctz_inv v 0 64 (0, v)" using assms by (simp add: ctz_inv_def)
  then have "ctz_inv v 32 32 s5" using ctz_step_inv[of v 0 32] unfolding s5_def by simp
  then have "ctz_inv v 48 16 s4" using ctz_step_inv[of v 32 16 s5] unfolding s4_def by simp
  then have "ctz_inv v 56 8 s3" using ctz_step_inv[of v 48 8 s4] unfolding s3_def by simp
  then have "ctz_inv v 60 4 s2" using ctz_step_inv[of v 56 4 s3] unfolding s2_def by simp
  then have "ctz_inv v 62 2 s1" using ctz_step_inv[of v 60 2 s2] unfolding s1_def by simp
  then have 0: "ctz_inv v 63 1 s0" using ctz_step_inv[of v 62 1 s1] unfolding s0_def by simp
  have ctz: "prvulGetTrailingZeros v = fst s0" using assms
    by (simp add: prvulGetTrailingZeros_def s0_def s1_def s2_def s3_def s4_def s5_def
        word_neq_0_conv)
  have "bit (snd s0) 0" using 0 by (simp add: ctz_inv_def and_one_eq mod_2_eq_odd bit_0)
  moreover have f: "fst s0 < 64" "v = push_bit (fst s0) (snd s0)" using 0 by (auto simp: ctz_inv_def)
  ultimately have "bit (push_bit (fst s0) (snd s0)) (fst s0)" by (simp add: bit_simps)
  moreover have "\<not> bit (push_bit (fst s0) (snd s0)) i" if "i < fst s0" for i
    using that by (simp add: bit_simps)
  ultimately show ?thesis unfolding ctz by (metis f(2))
qed

text \<open>A value written to a field reads back, as far as the field holds it.\<close>

lemma field_set_get:
  assumes "\<And>i. bit val i \<Longrightarrow> bit msk (i + prvulGetTrailingZeros (ucast msk))"
  shows "FIELD_GET msk (FIELD_SET msk val) = val"
proof (rule bit_word_eqI)
  fix i assume "i < LENGTH(32)"
  from assms[of i] bit_imp_le_length[of msk "i + prvulGetTrailingZeros (ucast msk)"] show "bit (FIELD_GET msk (FIELD_SET msk val)) i = bit val i"
    by (auto simp: FIELD_GET_def FIELD_SET_def bit_simps add.commute simp del: len_num1 len_bit0)
qed

end
