(* ===== verification/GcqDriver.thy ===== *)
theory GcqDriver
  imports GcqHw
begin

text \<open>
  The GCQ driver proper, gcq_driver.c: the table of instances, initialisation and
  slot allocation, attaching a consumer, and producing and consuming messages.

  A pointer to an instance is an index into the driver's static array
  (\<^term>\<open>None\<close> is NULL); a message buffer is the list of 32-bit words the driver
  accesses it as. Debug prints are left out. Results are \<^term>\<open>None\<close> where the C
  code has undefined behaviour or does not return.
\<close>

section \<open>State\<close>

datatype ring_ptr = RING_SQ | RING_CQ

record 'w GCQ_INSTANCE_TYPE =
  iInitialised :: bool
  ullBaseAddr :: u64
  xMode :: GCQ_MODE_TYPE
  xIntMode :: GCQ_INTERRUPT_MODE_TYPE
  pxGCQIOAccess :: "'w GCQ_IO_ACCESS_TYPE option"
  ullRingAddr :: u64
  ulConsumerSlotSize :: u32
  ulProducerSlotSize :: u32
  ullGCQHeaderAddr :: u64
  xGCQFlags :: GCQ_FLAGS_TYPE
  xGCQSq :: GCQ_RING_TYPE
  xGCQCq :: GCQ_RING_TYPE
  pxGCQProducer :: "ring_ptr option"
  pxGCQConsumer :: "ring_ptr option"
  ulInstUpperFirewall :: u32
  ulInstLowerFirewall :: u32

record 'w GCQ_PRIVATE_DATA =
  ulUpperFirewall :: u32
  ucConsumerAttached :: bool
  ucInstancesAllocated :: u8
  xGCQInstances :: "'w GCQ_INSTANCE_TYPE list"
  ulLowerFirewall :: u32

definition GCQ_INSTANCE_UPPER_FIREWALL :: u32 where "GCQ_INSTANCE_UPPER_FIREWALL = 0xBEEFCAFE"
definition GCQ_INSTANCE_LOWER_FIREWALL :: u32 where "GCQ_INSTANCE_LOWER_FIREWALL = 0xDEADFACE"
definition GCQ_MAX_INSTANCES :: nat where "GCQ_MAX_INSTANCES = 4"
definition GCQ_MIN_NUM_SLOTS :: u32 where "GCQ_MIN_NUM_SLOTS = 2"
definition GCQ_ALLOC_MAGIC :: u32 where "GCQ_ALLOC_MAGIC = 0x5847513F"
definition GIT_TAG_VER_MAJOR :: u32 where "GIT_TAG_VER_MAJOR = 1"
definition GIT_TAG_VER_MINOR :: u32 where "GIT_TAG_VER_MINOR = 1"
definition GCQ_VERSION :: u32 where "GCQ_VERSION = push_bit 16 GIT_TAG_VER_MAJOR + GIT_TAG_VER_MINOR"
definition GET_GCQ_MAJOR :: "u32 \<Rightarrow> u32" where "GET_GCQ_MAJOR version = drop_bit 16 version"

definition zero_ring :: GCQ_RING_TYPE where
  "zero_ring = prvvGCQInitRing 0 0 0 0 0"

definition zero_instance :: "'w GCQ_INSTANCE_TYPE" where
  "zero_instance = \<lparr> iInitialised = False, ullBaseAddr = 0, xMode = GCQ_MODE_TYPE_CONSUMER_MODE,
     xIntMode = GCQ_INTERRUPT_MODE_POLLING, pxGCQIOAccess = None, ullRingAddr = 0,
     ulConsumerSlotSize = 0, ulProducerSlotSize = 0, ullGCQHeaderAddr = 0, xGCQFlags = 0,
     xGCQSq = zero_ring, xGCQCq = zero_ring, pxGCQProducer = None, pxGCQConsumer = None,
     ulInstUpperFirewall = 0, ulInstLowerFirewall = 0 \<rparr>"

definition xLocalData :: "'w GCQ_PRIVATE_DATA" where
  "xLocalData = \<lparr> ulUpperFirewall = GCQ_INSTANCE_UPPER_FIREWALL, ucConsumerAttached = False,
     ucInstancesAllocated = 0, xGCQInstances = replicate GCQ_MAX_INSTANCES zero_instance,
     ulLowerFirewall = GCQ_INSTANCE_LOWER_FIREWALL \<rparr>"

definition firewalls_ok :: "'w GCQ_PRIVATE_DATA \<Rightarrow> bool" where
  "firewalls_ok d \<longleftrightarrow> GCQ_INSTANCE_UPPER_FIREWALL = ulUpperFirewall d \<and>
     GCQ_INSTANCE_LOWER_FIREWALL = ulLowerFirewall d"

definition ring_of :: "ring_ptr \<Rightarrow> 'w GCQ_INSTANCE_TYPE \<Rightarrow> GCQ_RING_TYPE" where
  "ring_of p g = (case p of RING_SQ \<Rightarrow> xGCQSq g | RING_CQ \<Rightarrow> xGCQCq g)"

definition set_ring :: "ring_ptr \<Rightarrow> GCQ_RING_TYPE \<Rightarrow> 'w GCQ_INSTANCE_TYPE \<Rightarrow> 'w GCQ_INSTANCE_TYPE"
  where "set_ring p r g = (case p of RING_SQ \<Rightarrow> g\<lparr>xGCQSq := r\<rparr> | RING_CQ \<Rightarrow> g\<lparr>xGCQCq := r\<rparr>)"

definition deref_instance :: "'w GCQ_PRIVATE_DATA \<Rightarrow> nat option \<Rightarrow> 'w GCQ_INSTANCE_TYPE option" where
  "deref_instance d px = (case px of None \<Rightarrow> None
     | Some i \<Rightarrow> if i < length (xGCQInstances d) then Some (xGCQInstances d ! i) else None)"

definition put_instance ::
  "nat option \<Rightarrow> 'w GCQ_INSTANCE_TYPE \<Rightarrow> 'w GCQ_PRIVATE_DATA \<Rightarrow> 'w GCQ_PRIVATE_DATA" where
  "put_instance px g d = (case px of None \<Rightarrow> d
     | Some i \<Rightarrow> d\<lparr>xGCQInstances := (xGCQInstances d)[i := g]\<rparr>)"

section \<open>Slot allocation\<close>

text \<open>
  The total is a 32-bit value compared with a 64-bit length; when every total fits
  below the length the loop does not end, which is \<^term>\<open>None\<close>.
\<close>

partial_function (option) alloc_slots_loop ::
  "u64 \<Rightarrow> u32 \<Rightarrow> u32 \<Rightarrow> u32 \<Rightarrow> u32 \<Rightarrow> u32 option" where
  [code]: "alloc_slots_loop ullRingLen sq cq ulTotalLen ulNumSlots =
     (if ucast ulTotalLen \<le> ullRingLen
      then alloc_slots_loop ullRingLen sq cq
             (prvulGCQRingLen (push_bit 1 ulNumSlots) sq cq) (push_bit 1 ulNumSlots)
      else Some (drop_bit 1 ulNumSlots))"

definition prvulGCQAllocNumSlots :: "u64 \<Rightarrow> u32 \<Rightarrow> u32 \<Rightarrow> u32 option" where
  "prvulGCQAllocNumSlots ullRingLen ulSQSlotSize ulCQSlotSize =
     alloc_slots_loop ullRingLen ulSQSlotSize ulCQSlotSize 0 1"

section \<open>Ring level operations\<close>

definition prvvGCQFastForward ::
  "'w GCQ_INSTANCE_TYPE \<Rightarrow> GCQ_RING_TYPE \<Rightarrow> 'w \<Rightarrow> (GCQ_RING_TYPE \<times> 'w) option" where
  "prvvGCQFastForward g r w =
     do { io \<leftarrow> pxGCQIOAccess g;
          (r1, w1) \<leftarrow> prvvGCQRingReadProduced io (xGCQFlags g) r w;
          prvvGCQRingReadConsumed io (xGCQFlags g) r1 w1 }"

definition prvucGCQCanProduce ::
  "'w GCQ_INSTANCE_TYPE \<Rightarrow> GCQ_RING_TYPE \<Rightarrow> 'w \<Rightarrow> (bool \<times> GCQ_RING_TYPE \<times> 'w) option" where
  "prvucGCQCanProduce g r w =
     (if \<not> prvucGCQRingIsFull r then Some (True, r, w)
      else do {
        io \<leftarrow> pxGCQIOAccess g;
        (r1, w1) \<leftarrow> prvvGCQRingReadConsumed io (xGCQFlags g) r w;
        Some (\<not> prvucGCQRingIsFull r1, r1, w1) })"

definition prvucGCQCanConsume ::
  "'w GCQ_INSTANCE_TYPE \<Rightarrow> GCQ_RING_TYPE \<Rightarrow> 'w \<Rightarrow> (bool \<times> GCQ_RING_TYPE \<times> 'w) option" where
  "prvucGCQCanConsume g r w =
     do { io \<leftarrow> pxGCQIOAccess g;
          (sq, w1) \<leftarrow> read_reg io (ullBaseAddr g + GCQ_PRODUCER_SQ_TAIL_POINTER) w;
          (cq, w2) \<leftarrow> read_reg io (ullBaseAddr g + GCQ_PRODUCER_CQ_TAIL_POINTER) w1;
          if sq = - 1 \<and> cq = - 1 then Some (False, r, w2)
          else if \<not> prvucGCQRingIsEmpty r then Some (True, r, w2)
          else do {
            (r1, w3) \<leftarrow> prvvGCQRingReadProduced io (xGCQFlags g) r w2;
            Some (\<not> prvucGCQRingIsEmpty r1, r1, w3) } }"

definition prvvGCQSoftReset ::
  "'w GCQ_INSTANCE_TYPE \<Rightarrow> GCQ_RING_TYPE \<Rightarrow> 'w \<Rightarrow> (GCQ_RING_TYPE \<times> 'w) option" where
  "prvvGCQSoftReset g r w =
     do { io \<leftarrow> pxGCQIOAccess g;
          (r1, w1) \<leftarrow> prvvGCQRingReadProduced io (xGCQFlags g) r w;
          let r2 = r1\<lparr>ulRingConsumed := ulRingProduced r1\<rparr>;
          w2 \<leftarrow> prvvGCQRingWriteConsumed io (xGCQFlags g) r2 w1;
          Some (r2, w2) }"

text \<open>The status, the slot address written through the pointer argument, the instance.\<close>

definition prvxGCQProduce ::
  "'w GCQ_INSTANCE_TYPE \<Rightarrow> u64 \<Rightarrow> 'w
   \<Rightarrow> (GCQ_ERRORS_TYPE \<times> u64 \<times> 'w GCQ_INSTANCE_TYPE \<times> 'w) option" where
  "prvxGCQProduce g ullSlotAddr w =
     do { p \<leftarrow> pxGCQProducer g;
          (ok, r, w1) \<leftarrow> prvucGCQCanProduce g (ring_of p g) w;
          if ok
          then Some (GCQ_ERRORS_NONE, prvullGCQRingGetSlotPtrProduced r,
                     set_ring p (r\<lparr>ulRingProduced := ulRingProduced r + 1\<rparr>) g, w1)
          else Some (GCQ_ERRORS_PRODUCER_NO_FREE_SLOTS, ullSlotAddr, set_ring p r g, w1) }"

definition prvxGCQConsume ::
  "'w GCQ_INSTANCE_TYPE \<Rightarrow> u64 \<Rightarrow> 'w
   \<Rightarrow> (GCQ_ERRORS_TYPE \<times> u64 \<times> 'w GCQ_INSTANCE_TYPE \<times> 'w) option" where
  "prvxGCQConsume g ullSlotAddr w =
     do { p \<leftarrow> pxGCQConsumer g;
          (ok, r, w1) \<leftarrow> prvucGCQCanConsume g (ring_of p g) w;
          if ok
          then Some (GCQ_ERRORS_NONE, prvullGCQRingGetSlotPtrConsumed r,
                     set_ring p (r\<lparr>ulRingConsumed := ulRingConsumed r + 1\<rparr>) g, w1)
          else Some (GCQ_ERRORS_CONSUMER_NO_DATA_RECEIVED, ullSlotAddr, set_ring p r g, w1) }"

text \<open>The index of the first uninitialised instance, within the first \<open>GCQ_MAX_INSTANCES\<close>.\<close>

fun first_free :: "'w GCQ_INSTANCE_TYPE list \<Rightarrow> nat \<Rightarrow> nat option" where
  "first_free [] i = None"
| "first_free (g # gs) i = (if \<not> iInitialised g then Some i else first_free gs (i + 1))"

definition prviGCQFindNextFreeInstance ::
  "nat option \<Rightarrow> 'w GCQ_PRIVATE_DATA \<Rightarrow> GCQ_ERRORS_TYPE \<times> nat option" where
  "prviGCQFindNextFreeInstance px d =
     (if px \<noteq> None then (GCQ_ERRORS_INVALID_ARG, px)
      else if unat (ucInstancesAllocated d) < GCQ_MAX_INSTANCES
      then (case first_free (xGCQInstances d) 0 of
              Some i \<Rightarrow> (GCQ_ERRORS_NONE, Some i)
            | None \<Rightarrow> (GCQ_ERRORS_NO_FREE_INSTANCES, px))
      else (GCQ_ERRORS_NO_FREE_INSTANCES, px))"

section \<open>Public functions\<close>

text \<open>
  The instance as \<open>xGCQInit\<close> populates it: the addresses of the produced pointers
  by mode, overridden by the header's own members with the in-memory flag.
\<close>

definition gcq_new_instance ::
  "'w GCQ_IO_ACCESS_TYPE \<Rightarrow> GCQ_MODE_TYPE \<Rightarrow> GCQ_INTERRUPT_MODE_TYPE \<Rightarrow> GCQ_FLAGS_TYPE
   \<Rightarrow> u64 \<Rightarrow> u64 \<Rightarrow> u32 \<Rightarrow> u32 \<Rightarrow> u32 \<Rightarrow> 'w GCQ_INSTANCE_TYPE" where
  "gcq_new_instance io mode intmode flags base ring numslots sqsize cqsize =
     (let prod = (mode = GCQ_MODE_TYPE_PRODUCER_MODE);
          cqp = (if prod then base + GCQ_PRODUCER_SQ_TAIL_POINTER
                 else base + GCQ_CONSUMER_SQ_TAIL_POINTER);
          sqp = (if prod then base + GCQ_PRODUCER_CQ_TAIL_POINTER
                 else base + GCQ_CONSUMER_CQ_TAIL_POINTER);
          inmem = GCQ_FEATURES_IS_IN_MEM_PTR flags;
          sqp' = (if inmem then ring + OFFSET_SQ_PRODUCED else sqp);
          cqp' = (if inmem then ring + OFFSET_CQ_PRODUCED else cqp)
      in \<lparr> iInitialised = False, ullBaseAddr = base, xMode = mode, xIntMode = intmode,
           pxGCQIOAccess = Some io, ullRingAddr = ring,
           ulConsumerSlotSize = (if prod then sqsize else cqsize),
           ulProducerSlotSize = (if prod then cqsize else sqsize),
           ullGCQHeaderAddr = ring, xGCQFlags = flags,
           xGCQSq = prvvGCQInitRing sqp' (ring + OFFSET_SQ_CONSUMED)
                      (ring + ucast GCQ_HEADER_SIZE) numslots sqsize,
           xGCQCq = prvvGCQInitRing cqp' (ring + OFFSET_CQ_CONSUMED)
                      (ring + ucast GCQ_HEADER_SIZE + ucast (numslots * sqsize)) numslots cqsize,
           pxGCQProducer = Some (if prod then RING_CQ else RING_SQ),
           pxGCQConsumer = Some (if prod then RING_SQ else RING_CQ),
           ulInstUpperFirewall = GCQ_INSTANCE_UPPER_FIREWALL,
           ulInstLowerFirewall = GCQ_INSTANCE_LOWER_FIREWALL \<rparr>)"

definition gcq_header :: "'w GCQ_INSTANCE_TYPE \<Rightarrow> GCQ_HEADER_TYPE" where
  "gcq_header g =
     \<lparr> ulHdrMagic = 0, ulHdrVersion = GCQ_VERSION, ulHdrSlotNum = ulRingSlotNum (xGCQSq g),
       ulHdrSQOffset = ucast (ullRingSlotAddr (xGCQSq g) - ullRingAddr g),
       ulHdrSQSlotSize = ulRingSlotSize (xGCQSq g),
       ulHdrCQOffset = ucast (ullRingSlotAddr (xGCQCq g) - ullRingAddr g),
       ulHdrSQConsumed = 0, ulHdrCQConsumed = 0, ulHdrFlags = 0,
       ulHdrSQProduced = 0, ulHdrCQProduced = 0 \<rparr>"

text \<open>Producer mode: the header, the soft reset of both rings, the magic number last.\<close>

definition gcq_publish_header ::
  "'w GCQ_INSTANCE_TYPE \<Rightarrow> 'w \<Rightarrow> ('w GCQ_INSTANCE_TYPE \<times> 'w) option" where
  "gcq_publish_header g w =
     do { io \<leftarrow> pxGCQIOAccess g;
          w1 \<leftarrow> prvvGCQCopyToRing io (header_words (gcq_header g)) (ullRingAddr g) GCQ_HEADER_SIZE w;
          (sq, w2) \<leftarrow> prvvGCQSoftReset g (xGCQSq g) w1;
          let g1 = g\<lparr>xGCQSq := sq\<rparr>;
          (cq, w3) \<leftarrow> prvvGCQSoftReset g1 (xGCQCq g1) w2;
          let g2 = g1\<lparr>xGCQCq := cq\<rparr>;
          w4 \<leftarrow> prvvGCQCopyToRing io
                  (header_words ((gcq_header g)\<lparr>ulHdrMagic := GCQ_ALLOC_MAGIC\<rparr>)) (ullRingAddr g) 4 w3;
          Some (g2, w4) }"

text \<open>
  \<open>ppx\<close> is the value of \<open>*ppxGCQInstance\<close>, which the function reads and sets. The
  statuses of the two hardware set-up calls are ignored, as in the code.
\<close>

definition xGCQInit ::
  "nat option \<Rightarrow> 'w GCQ_IO_ACCESS_TYPE \<Rightarrow> GCQ_MODE_TYPE \<Rightarrow> GCQ_INTERRUPT_MODE_TYPE
   \<Rightarrow> GCQ_FLAGS_TYPE \<Rightarrow> u64 \<Rightarrow> u64 \<Rightarrow> u64 \<Rightarrow> u32 \<Rightarrow> u32
   \<Rightarrow> 'w GCQ_PRIVATE_DATA \<Rightarrow> 'w
   \<Rightarrow> (GCQ_ERRORS_TYPE \<times> nat option \<times> 'w GCQ_PRIVATE_DATA \<times> 'w) option" where
  "xGCQInit ppx io mode intmode flags base ring ringlen sqsize cqsize d w =
     (if \<not> firewalls_ok d then Some (GCQ_ERRORS_INVALID_ARG, ppx, d, w)
      else if ppx \<noteq> None \<or> CHECK_REG_IO_ACCESS io then Some (GCQ_ERRORS_INVALID_ARG, ppx, d, w)
      else
        let (st, px) = prviGCQFindNextFreeInstance ppx d in
        if st \<noteq> GCQ_ERRORS_NONE then Some (st, px, d, w)
        else if sqsize mod 4 \<noteq> 0 \<or> cqsize mod 4 \<noteq> 0
        then Some (GCQ_ERRORS_INVALID_SLOT_SIZE, px, d, w)
        else if sqsize = 0 \<or> cqsize = 0 then Some (GCQ_ERRORS_INVALID_SLOT_SIZE, px, d, w)
        else do {
          numslots \<leftarrow> prvulGCQAllocNumSlots ringlen sqsize cqsize;
          if numslots < GCQ_MIN_NUM_SLOTS then Some (GCQ_ERRORS_INVALID_NUM_SLOTS, px, d, w)
          else do {
            (_, w1) \<leftarrow> xGCQHWInit mode base ring io w;
            (_, w2) \<leftarrow> xGCQHWConfigureInterruptMode mode intmode base io w1;
            let g = gcq_new_instance io mode intmode flags base ring numslots sqsize cqsize;
            (g1, w3) \<leftarrow> (if mode = GCQ_MODE_TYPE_PRODUCER_MODE then gcq_publish_header g w2
                         else Some (g, w2));
            let d1 = put_instance px (g1\<lparr>iInitialised := True\<rparr>) d;
            Some (GCQ_ERRORS_NONE, px,
                  d1\<lparr>ucInstancesAllocated := ucInstancesAllocated d1 + 1\<rparr>, w3) } })"

definition xGCQDeinit ::
  "nat option \<Rightarrow> 'w GCQ_PRIVATE_DATA \<Rightarrow> (GCQ_ERRORS_TYPE \<times> 'w GCQ_PRIVATE_DATA) option" where
  "xGCQDeinit px d =
     (if \<not> firewalls_ok d then Some (GCQ_ERRORS_INVALID_ARG, d)
      else if px = None then Some (GCQ_ERRORS_INVALID_INSTANCE, d)
      else do {
        g \<leftarrow> deref_instance d px;
        if \<not> iInitialised g then Some (GCQ_ERRORS_INVALID_INSTANCE, d)
        else let d1 = put_instance px (g\<lparr>iInitialised := False\<rparr>) d in
             Some (GCQ_ERRORS_NONE, d1\<lparr>ucInstancesAllocated := ucInstancesAllocated d1 - 1\<rparr>) })"

text \<open>The checks of the header read from the ring, in their order.\<close>

definition check_header :: "GCQ_HEADER_TYPE \<Rightarrow> 'w GCQ_INSTANCE_TYPE \<Rightarrow> GCQ_ERRORS_TYPE" where
  "check_header h g =
     (if GIT_TAG_VER_MAJOR \<noteq> GET_GCQ_MAJOR (ulHdrVersion h) then GCQ_ERRORS_INVALID_VERSION
      else if ulRingSlotNum (xGCQSq g) \<noteq> ulHdrSlotNum h then GCQ_ERRORS_INVALID_NUM_SLOTS
      else if ulRingSlotSize (xGCQSq g) \<noteq> ulHdrSQSlotSize h then GCQ_ERRORS_INVALID_SLOT_SIZE
      else GCQ_ERRORS_NONE)"

definition xGCQAttachConsumer ::
  "nat option \<Rightarrow> 'w GCQ_PRIVATE_DATA \<Rightarrow> 'w
   \<Rightarrow> (GCQ_ERRORS_TYPE \<times> 'w GCQ_PRIVATE_DATA \<times> 'w) option" where
  "xGCQAttachConsumer px d w =
     (if \<not> firewalls_ok d then Some (GCQ_ERRORS_INVALID_ARG, d, w)
      else if px = None then Some (GCQ_ERRORS_INVALID_INSTANCE, d, w)
      else do {
        g \<leftarrow> deref_instance d px;
        if \<not> iInitialised g then Some (GCQ_ERRORS_INVALID_INSTANCE, d, w)
        else do {
          io \<leftarrow> pxGCQIOAccess g;
          (hw, w1) \<leftarrow> prvvGCQCopyFromRing io (replicate 11 0) (ullRingAddr g) 4 w;
          if ulHdrMagic (words_header hw) \<noteq> GCQ_ALLOC_MAGIC
          then Some (GCQ_ERRORS_CONSUMER_NOT_AVAILABLE, d, w1)
          else do {
            (hw2, w2) \<leftarrow> prvvGCQCopyFromRing io hw (ullRingAddr g) GCQ_HEADER_SIZE w1;
            let st = check_header (words_header hw2) g;
            if st \<noteq> GCQ_ERRORS_NONE then Some (st, d, w2)
            else do {
              (sq, w3) \<leftarrow> prvvGCQFastForward g (xGCQSq g) w2;
              let g1 = g\<lparr>xGCQSq := sq\<rparr>;
              (cq, w4) \<leftarrow> prvvGCQFastForward g1 (xGCQCq g1) w3;
              let g2 = g1\<lparr>xGCQCq := cq\<rparr>;
              Some (GCQ_ERRORS_NONE,
                    (put_instance px g2 d)\<lparr>ucConsumerAttached := True\<rparr>, w4) } } } })"

text \<open>
  The argument checks run one after the other and each overrides the status; the
  last two dereference the instance even when it is NULL.
\<close>

definition consume_arg_status ::
  "'w GCQ_PRIVATE_DATA \<Rightarrow> 'w GCQ_INSTANCE_TYPE \<Rightarrow> u32 list option \<Rightarrow> u32 \<Rightarrow> GCQ_ERRORS_TYPE" where
  "consume_arg_status d g pucData ulDataLen =
     (let st0 = (if \<not> iInitialised g then GCQ_ERRORS_INVALID_INSTANCE else GCQ_ERRORS_NONE);
          st1 = (if xMode g = GCQ_MODE_TYPE_CONSUMER_MODE \<and> \<not> ucConsumerAttached d
                 then GCQ_ERRORS_CONSUMER_NOT_ATTACHED else st0);
          st2 = (if pucData = None then GCQ_ERRORS_INVALID_ARG else st1);
          st3 = (if ulDataLen AND 3 \<noteq> 0 then GCQ_ERRORS_INVALID_ARG else st2)
      in if ulDataLen > ulConsumerSlotSize g then GCQ_ERRORS_INVALID_ARG else st3)"

definition produce_arg_status ::
  "'w GCQ_INSTANCE_TYPE \<Rightarrow> u32 list option \<Rightarrow> u32 \<Rightarrow> GCQ_ERRORS_TYPE" where
  "produce_arg_status g pucData ulDataLen =
     (let st0 = (if \<not> iInitialised g then GCQ_ERRORS_INVALID_INSTANCE else GCQ_ERRORS_NONE);
          st1 = (if pucData = None then GCQ_ERRORS_INVALID_ARG else st0);
          st2 = (if ulDataLen AND 3 \<noteq> 0 then GCQ_ERRORS_INVALID_ARG else st1)
      in if ulDataLen > ulProducerSlotSize g then GCQ_ERRORS_INVALID_ARG else st2)"

definition xGCQConsumeData ::
  "nat option \<Rightarrow> u32 list option \<Rightarrow> u32 \<Rightarrow> 'w GCQ_PRIVATE_DATA \<Rightarrow> 'w
   \<Rightarrow> (GCQ_ERRORS_TYPE \<times> u32 list option \<times> 'w GCQ_PRIVATE_DATA \<times> 'w) option" where
  "xGCQConsumeData px pucData ulDataLen d w =
     (if \<not> firewalls_ok d then Some (GCQ_ERRORS_INVALID_ARG, pucData, d, w)
      else do {
        g \<leftarrow> deref_instance d px;
        let st = consume_arg_status d g pucData ulDataLen;
        if st \<noteq> GCQ_ERRORS_NONE then Some (st, pucData, d, w)
        else do {
          (st1, slot, g1, w1) \<leftarrow> prvxGCQConsume g 0 w;
          if st1 \<noteq> GCQ_ERRORS_NONE then Some (st1, pucData, put_instance px g1 d, w1)
          else do {
            io \<leftarrow> pxGCQIOAccess g1;
            buf \<leftarrow> pucData;
            p \<leftarrow> pxGCQConsumer g1;
            (buf1, w2) \<leftarrow> prvvGCQCopyFromRing io buf slot ulDataLen w1;
            w3 \<leftarrow> prvvGCQRingWriteConsumed io (xGCQFlags g1) (ring_of p g1) w2;
            if xIntMode g1 = GCQ_INTERRUPT_MODE_INTERRUPT_REG
            then do { (st2, w4) \<leftarrow> xGCQHWClearInterrupt (xMode g1) (ullBaseAddr g1) io w3;
                      Some (st2, Some buf1, put_instance px g1 d, w4) }
            else Some (GCQ_ERRORS_NONE, Some buf1, put_instance px g1 d, w3) } } })"

definition xGCQProduceData ::
  "nat option \<Rightarrow> u32 list option \<Rightarrow> u32 \<Rightarrow> 'w GCQ_PRIVATE_DATA \<Rightarrow> 'w
   \<Rightarrow> (GCQ_ERRORS_TYPE \<times> 'w GCQ_PRIVATE_DATA \<times> 'w) option" where
  "xGCQProduceData px pucData ulDataLen d w =
     (if \<not> firewalls_ok d then Some (GCQ_ERRORS_INVALID_ARG, d, w)
      else do {
        g \<leftarrow> deref_instance d px;
        let st = produce_arg_status g pucData ulDataLen;
        if st \<noteq> GCQ_ERRORS_NONE then Some (st, d, w)
        else do {
          (st1, slot, g1, w1) \<leftarrow> prvxGCQProduce g 0 w;
          if st1 \<noteq> GCQ_ERRORS_NONE then Some (st1, put_instance px g1 d, w1)
          else do {
            io \<leftarrow> pxGCQIOAccess g1;
            buf \<leftarrow> pucData;
            p \<leftarrow> pxGCQProducer g1;
            w2 \<leftarrow> prvvGCQCopyToRing io buf slot ulDataLen w1;
            w3 \<leftarrow> prvvGCQRingWriteProduced io (xGCQFlags g1) (ring_of p g1) w2;
            if xIntMode g1 = GCQ_INTERRUPT_MODE_INTERRUPT_REG
            then do { (st2, w4) \<leftarrow> xGCQHWTriggerInterrupt (xMode g1) (ullBaseAddr g1) io w3;
                      Some (st2, put_instance px g1 d, w4) }
            else Some (GCQ_ERRORS_NONE, put_instance px g1 d, w3) } } })"

record GCQ_VERSION_TYPE =
  ucVerMajor :: u8
  ucVerMinor :: u8
  ucVerPatch :: u8
  ucDevCommits :: u8

definition iGCQGetVersion ::
  "GCQ_VERSION_TYPE option \<Rightarrow> 'w GCQ_PRIVATE_DATA \<Rightarrow> GCQ_ERRORS_TYPE \<times> GCQ_VERSION_TYPE option" where
  "iGCQGetVersion pxVersion d =
     (if firewalls_ok d \<and> pxVersion \<noteq> None
      then (GCQ_ERRORS_NONE,
            Some \<lparr>ucVerMajor = 1, ucVerMinor = 1, ucVerPatch = 0, ucDevCommits = 0\<rparr>)
      else (GCQ_ERRORS_INVALID_ARG, pxVersion))"

end
