(* ===== verification/GcqInstances.thy ===== *)
theory GcqInstances
  imports GcqDriver
begin

text \<open>
  Slot allocation of the GCQ driver, and its instance table: the count of allocated instances
  is the number of initialised ones, whatever the access functions do.
\<close>

section \<open>Slots\<close>

text \<open>
  \<open>prvulGCQAllocNumSlots\<close> returns the largest power of two of slots that fits the shared memory, when 32-bit arithmetic can
  express the lengths, and does not return when the shared memory is larger than any
  32-bit length.
\<close>

lemma ring_len_exact:
  assumes "44 + 2 ^ k * (unat sq + unat cq) < 2 ^ 32" "k < 32"
  shows "unat (prvulGCQRingLen (2 ^ k) sq cq) = 44 + 2 ^ k * (unat sq + unat cq)"
proof -
  have p: "unat (2 ^ k :: u32) = 2 ^ k" using assms(2) by simp
  have "unat sq + unat cq \<le> 2 ^ k * (unat sq + unat cq)" by simp
  then have "unat sq + unat cq < 2 ^ 32" using assms(1) by linarith
  then have s: "unat (sq + cq) = unat sq + unat cq" by (intro unat_add_lem[THEN iffD1]) simp
  then have m: "unat ((2 ^ k :: u32) * (sq + cq)) = 2 ^ k * (unat sq + unat cq)"
    using assms(1) p by (simp add: unat_word_ariths)
  then show ?thesis using assms(1)
    by (simp add: prvulGCQRingLen_def GCQ_HEADER_SIZE_def unat_word_ariths)
qed

lemma alloc_loop_fit:
  assumes "unat ringlen < 2 ^ 31" "S = unat sq + unat cq" "0 < S" "1 \<le> k" "k \<le> 31"
    "44 + 2 ^ k * S < 2 ^ 32" "1 < k \<longrightarrow> 44 + 2 ^ (k - 1) * S \<le> unat ringlen"
  shows "\<exists>j < 31. alloc_slots_loop ringlen sq cq (prvulGCQRingLen (2 ^ k) sq cq) (2 ^ k) = Some (2 ^ j)
    \<and> (1 \<le> j \<longrightarrow> 44 + 2 ^ j * S \<le> unat ringlen) \<and> unat ringlen < 44 + 2 ^ (j + 1) * S"
  using assms(4-7)
proof (induction "31 - k" arbitrary: k rule: less_induct)
  case less
  have len: "unat (prvulGCQRingLen (2 ^ k) sq cq) = 44 + 2 ^ k * S"
    using ring_len_exact[of k sq cq] less.prems(2,3) assms(2) by simp
  have cond: "ucast (prvulGCQRingLen (2 ^ k) sq cq) \<le> ringlen \<longleftrightarrow> 44 + 2 ^ k * S \<le> unat ringlen"
    using len by (simp add: word_le_nat_alt)
  show ?case
  proof (cases "44 + 2 ^ k * S \<le> unat ringlen")
    case True
    have "2 ^ k * 1 \<le> 2 ^ k * S" using assms(3) by (intro mult_le_mono2) simp
    then have "(2::nat) ^ k < 2 ^ 31" using True assms(1) by linarith
    then have k: "k < 31" by (rule power_less_imp_less_exp[rotated]) simp
    have "2 ^ (k + 1) * S = 2 * (2 ^ k * S)" by simp
    moreover have "(2::nat) ^ 32 = 2 * 2 ^ 31" by simp
    ultimately have fit: "44 + 2 ^ (k + 1) * S < 2 ^ 32" using True assms(1) by linarith
    have sh: "push_bit 1 (2 ^ k :: u32) = 2 ^ (k + 1)" by (simp add: push_bit_eq_mult)
    have m: "31 - (k + 1) < 31 - k" and k1: "1 \<le> k + 1" "k + 1 \<le> 31" using k by simp_all
    have prev: "1 < k + 1 \<longrightarrow> 44 + 2 ^ (k + 1 - 1) * S \<le> unat ringlen" using True by simp
    note less.hyps[OF m k1 fit prev]
    moreover have "alloc_slots_loop ringlen sq cq (prvulGCQRingLen (2 ^ k) sq cq) (2 ^ k)
      = alloc_slots_loop ringlen sq cq (prvulGCQRingLen (2 ^ (k + 1)) sq cq) (2 ^ (k + 1))"
      using True cond sh by (subst alloc_slots_loop.simps) (simp only: if_True)
    ultimately show ?thesis by (simp only:)
  next
    case False
    have "drop_bit 1 (2 ^ k :: u32) = 2 ^ (k - 1)"
      using less.prems(1,2) by (intro bit_word_eqI) (auto simp: bit_simps)
    then have "alloc_slots_loop ringlen sq cq (prvulGCQRingLen (2 ^ k) sq cq) (2 ^ k) = Some (2 ^ (k - 1))"
      using False cond by (subst alloc_slots_loop.simps) (simp only: if_False)
    moreover have "k - 1 + 1 = k" using less.prems(1) by simp
    ultimately show ?thesis using False less.prems by (intro exI[of _ "k - 1"]) auto
  qed
qed

lemma alloc_slots_fit:
  assumes "unat ringlen < 2 ^ 31" "0 < unat sq + unat cq" "44 + 2 * (unat sq + unat cq) < 2 ^ 32"
  shows "\<exists>j < 31. prvulGCQAllocNumSlots ringlen sq cq = Some (2 ^ j)
    \<and> (1 \<le> j \<longrightarrow> 44 + 2 ^ j * (unat sq + unat cq) \<le> unat ringlen)
    \<and> unat ringlen < 44 + 2 ^ (j + 1) * (unat sq + unat cq)"
proof -
  have "prvulGCQAllocNumSlots ringlen sq cq
      = alloc_slots_loop ringlen sq cq (prvulGCQRingLen (2 ^ 1) sq cq) (2 ^ 1)"
    unfolding prvulGCQAllocNumSlots_def by (subst alloc_slots_loop.simps) simp
  with alloc_loop_fit[OF assms(1) refl assms(2), of 1] assms(3) show ?thesis by auto
qed

lemma alloc_loop_returns:
  "alloc_slots_loop rl sq cq tot n = Some y \<Longrightarrow> unat rl < 2 ^ 32 - 1"
proof (erule alloc_slots_loop.raw_induct[rotated])
  fix f :: "u64 \<Rightarrow> u32 \<Rightarrow> u32 \<Rightarrow> u32 \<Rightarrow> u32 \<Rightarrow> u32 option" and rl :: u64 and sq cq tot n y :: u32
  assume ih: "\<And>rl sq cq tot n y. f rl sq cq tot n = Some y \<Longrightarrow> unat rl < 2 ^ 32 - 1"
    and body: "(if ucast tot \<le> rl then f rl sq cq (prvulGCQRingLen (push_bit 1 n) sq cq) (push_bit 1 n)
      else Some (drop_bit 1 n)) = Some y"
  show "unat rl < 2 ^ 32 - 1"
  proof (cases "ucast tot \<le> rl")
    case True
    with body have "f rl sq cq (prvulGCQRingLen (push_bit 1 n) sq cq) (push_bit 1 n) = Some y" by simp
    then show ?thesis by (rule ih)
  next
    case False
    then show ?thesis using unat_u32_less[of tot] by (simp add: word_le_nat_alt)
  qed
qed

lemma alloc_slots_diverges:
  "2 ^ 32 - 1 \<le> unat ringlen \<Longrightarrow> prvulGCQAllocNumSlots ringlen sq cq = None"
  unfolding prvulGCQAllocNumSlots_def by (meson alloc_loop_returns not_None_eq not_less)

definition instances_ok :: "'w GCQ_PRIVATE_DATA \<Rightarrow> bool" where
  "instances_ok d \<longleftrightarrow> length (xGCQInstances d) = GCQ_MAX_INSTANCES \<and>
     unat (ucInstancesAllocated d) = length (filter iInitialised (xGCQInstances d))"

lemma filter_update_true:
  "i < length xs \<Longrightarrow> \<not> P (xs ! i) \<Longrightarrow> P y \<Longrightarrow> length (filter P (xs[i := y])) = length (filter P xs) + 1"
  by (induction xs arbitrary: i) (auto split: nat.splits)

lemma filter_update_false:
  "i < length xs \<Longrightarrow> P (xs ! i) \<Longrightarrow> \<not> P y \<Longrightarrow> length (filter P (xs[i := y])) + 1 = length (filter P xs)"
  by (induction xs arbitrary: i) (auto split: nat.splits)

lemma first_free_some:
  "first_free gs n = Some i \<Longrightarrow> n \<le> i \<and> i - n < length gs \<and> \<not> iInitialised (gs ! (i - n))"
proof (induction gs n arbitrary: i rule: first_free.induct)
  case (2 g gs n)
  show ?case
  proof (cases "iInitialised g")
    case True
    with 2 have "n + 1 \<le> i \<and> i - (n + 1) < length gs \<and> \<not> iInitialised (gs ! (i - (n + 1)))" by simp
    moreover from this have "i - n = Suc (i - (n + 1))" by linarith
    ultimately show ?thesis by simp
  next
    case False
    with 2 show ?thesis by auto
  qed
qed simp

lemma first_free_none: "first_free gs n = None \<longleftrightarrow> (\<forall>g\<in>set gs. iInitialised g)"
  by (induction gs n rule: first_free.induct) auto

lemma init_ok_shape:
  assumes "xGCQInit ppx io mode im flags base ring len sq cq d w = Some (st, px, d', w')"
  shows "(st \<noteq> GCQ_ERRORS_NONE \<and> d' = d) \<or>
    (st = GCQ_ERRORS_NONE \<and> ppx = None \<and> unat (ucInstancesAllocated d) < GCQ_MAX_INSTANCES \<and>
      (\<exists>i g. px = Some i \<and> first_free (xGCQInstances d) 0 = Some i \<and>
        d' = (put_instance px (g\<lparr>iInitialised := True\<rparr>) d)\<lparr>ucInstancesAllocated := ucInstancesAllocated d + 1\<rparr>))"
proof -
  have f: "prviGCQFindNextFreeInstance ppx d = (GCQ_ERRORS_NONE, q) \<Longrightarrow>
    ppx = None \<and> unat (ucInstancesAllocated d) < GCQ_MAX_INSTANCES \<and>
    (\<exists>i. q = Some i \<and> first_free (xGCQInstances d) 0 = Some i)" for q
    by (cases "first_free (xGCQInstances d) 0")
      (auto simp: prviGCQFindNextFreeInstance_def split: if_splits)
  show ?thesis using assms f
    by (auto simp: xGCQInit_def Let_def put_instance_def bind_eq_Some_conv
        split: if_splits prod.splits option.splits)
qed

lemma init_instances_ok:
  assumes "instances_ok d"
    and init: "xGCQInit ppx io mode im flags base ring len sq cq d w = Some (st, px, d', w')"
  shows "instances_ok d' \<and> unat (ucInstancesAllocated d') =
    unat (ucInstancesAllocated d) + (if st = GCQ_ERRORS_NONE then 1 else 0)"
  using init_ok_shape[OF init]
proof (elim disjE conjE exE)
  fix i g
  assume s: "st = GCQ_ERRORS_NONE" "unat (ucInstancesAllocated d) < GCQ_MAX_INSTANCES"
    "px = Some i" "first_free (xGCQInstances d) 0 = Some i"
    "d' = (put_instance px (g\<lparr>iInitialised := True\<rparr>) d)\<lparr>ucInstancesAllocated := ucInstancesAllocated d + 1\<rparr>"
  have i: "i < length (xGCQInstances d)" "\<not> iInitialised (xGCQInstances d ! i)"
    using first_free_some[OF s(4)] by simp_all
  have "unat (ucInstancesAllocated d + 1) = unat (ucInstancesAllocated d) + 1"
    using s(2) unat_succ_sub[of "ucInstancesAllocated d" 0] by (simp add: GCQ_MAX_INSTANCES_def)
  then show ?thesis using assms(1) s filter_update_true[OF i(1), of iInitialised "g\<lparr>iInitialised := True\<rparr>"] i(2)
    by (simp add: instances_ok_def put_instance_def)
qed (use assms(1) in simp_all)

lemma deinit_instances_ok:
  assumes ok: "instances_ok d" and de: "xGCQDeinit px d = Some (st, d')"
  shows "instances_ok d' \<and> unat (ucInstancesAllocated d') + (if st = GCQ_ERRORS_NONE then 1 else 0)
    = unat (ucInstancesAllocated d)"
proof (cases "st = GCQ_ERRORS_NONE")
  case False
  then have "d' = d" using de
    by (auto simp: xGCQDeinit_def Let_def bind_eq_Some_conv split: if_splits)
  with False ok show ?thesis by simp
next
  case True
  then obtain i g where g: "px = Some i" "i < length (xGCQInstances d)" "g = xGCQInstances d ! i"
    "iInitialised g" "d' = (put_instance px (g\<lparr>iInitialised := False\<rparr>) d)
       \<lparr>ucInstancesAllocated := ucInstancesAllocated d - 1\<rparr>"
    using de by (auto simp: xGCQDeinit_def Let_def bind_eq_Some_conv deref_instance_def
        put_instance_def split: if_splits)
  from g(2,3,4) have "length (filter iInitialised ((xGCQInstances d)[i := g\<lparr>iInitialised := False\<rparr>])) + 1
      = length (filter iInitialised (xGCQInstances d))" by (intro filter_update_false) simp_all
  moreover from this have "ucInstancesAllocated d \<noteq> 0" using ok by (auto simp: instances_ok_def)
  then have "unat (ucInstancesAllocated d - 1) = unat (ucInstancesAllocated d) - 1"
    by (rule unat_minus_one)
  ultimately show ?thesis using ok True g by (auto simp: instances_ok_def put_instance_def)
qed

end
