(* ===== verification/GcqTransfer.thy ===== *)
theory GcqTransfer
  imports GcqInstances
begin

text \<open>
  Producing and consuming one message, stated over the cells of the bus: when the
  ring's pointers and slots are mapped to cells, \<open>xGCQProduceData\<close> either stores
  the message in the slot of the produced counter and publishes the counter, or
  changes no cell; \<open>xGCQConsumeData\<close> is its counterpart.
\<close>

text \<open>
  Where a ring of \<open>2 ^ k\<close> slots of \<open>m\<close> words lies: the cells of its produced and
  consumed pointers, and of word \<open>j\<close> of slot \<open>i\<close>.
\<close>

definition ring_at ::
  "(u64 \<Rightarrow> 'c option) \<Rightarrow> GCQ_RING_TYPE \<Rightarrow> 'c \<Rightarrow> 'c \<Rightarrow> (nat \<Rightarrow> nat \<Rightarrow> 'c) \<Rightarrow> nat \<Rightarrow> nat \<Rightarrow> bool" where
  "ring_at L r pc cc sc k m \<longleftrightarrow>
     L (ullRingProducedAddr r) = Some pc \<and> L (ullRingConsumedAddr r) = Some cc \<and>
     ulRingSlotNum r = 2 ^ k \<and> k < 32 \<and> ulRingSlotSize r = of_nat (4 * m) \<and> 4 * m < 2 ^ 32 \<and>
     (\<forall>i<2 ^ k. \<forall>j<m. L (ullRingSlotAddr r + of_nat (4 * (m * i + j))) = Some (sc i j))"

lemma ring_at_upd [simp]:
  "ring_at L (r\<lparr>ulRingProduced := p\<rparr>) pc cc sc k m = ring_at L r pc cc sc k m"
  "ring_at L (r\<lparr>ulRingConsumed := c\<rparr>) pc cc sc k m = ring_at L r pc cc sc k m"
  by (simp_all add: ring_at_def)

lemma ring_of_set_ring [simp]: "ring_of p (set_ring p r g) = r"
  by (cases p) (simp_all add: ring_of_def set_ring_def)

lemma ring_of_set_ring_other [simp]: "p \<noteq> q \<Longrightarrow> ring_of p (set_ring q r g) = ring_of p g"
  by (cases p; cases q) (simp_all add: ring_of_def set_ring_def)

lemma set_ring_fields [simp]:
  "iInitialised (set_ring p r g) = iInitialised g"
  "ullBaseAddr (set_ring p r g) = ullBaseAddr g"
  "xMode (set_ring p r g) = xMode g"
  "xIntMode (set_ring p r g) = xIntMode g"
  "pxGCQIOAccess (set_ring p r g) = pxGCQIOAccess g"
  "ullRingAddr (set_ring p r g) = ullRingAddr g"
  "ulConsumerSlotSize (set_ring p r g) = ulConsumerSlotSize g"
  "ulProducerSlotSize (set_ring p r g) = ulProducerSlotSize g"
  "xGCQFlags (set_ring p r g) = xGCQFlags g"
  "pxGCQProducer (set_ring p r g) = pxGCQProducer g"
  "pxGCQConsumer (set_ring p r g) = pxGCQConsumer g"
  by (cases p; simp add: set_ring_def)+

definition produce_room :: "GCQ_RING_TYPE \<Rightarrow> u32 \<Rightarrow> bool" where
  "produce_room r c \<longleftrightarrow> \<not> prvucGCQRingIsFull r \<or> \<not> prvucGCQRingIsFull (r\<lparr>ulRingConsumed := c\<rparr>)"

text \<open>The ring after the consumed pointer was read again, which happens only when full.\<close>

definition refresh_consumed :: "GCQ_RING_TYPE \<Rightarrow> u32 \<Rightarrow> GCQ_RING_TYPE" where
  "refresh_consumed r c = (if prvucGCQRingIsFull r then r\<lparr>ulRingConsumed := c\<rparr> else r)"

definition refresh_produced :: "GCQ_RING_TYPE \<Rightarrow> u32 \<Rightarrow> GCQ_RING_TYPE" where
  "refresh_produced r p = (if prvucGCQRingIsEmpty r then r\<lparr>ulRingProduced := p\<rparr> else r)"

lemma ring_at_refresh [simp]:
  "ring_at L (refresh_consumed r c) pc cc sc k m = ring_at L r pc cc sc k m"
  "ring_at L (refresh_produced r c) pc cc sc k m = ring_at L r pc cc sc k m"
  by (simp_all add: refresh_consumed_def refresh_produced_def)

lemma produce_room_refresh:
  "produce_room r c \<longleftrightarrow> \<not> prvucGCQRingIsFull (refresh_consumed r c)"
  by (auto simp: produce_room_def refresh_consumed_def)

lemma aligned_len: "(of_nat (4 * n) :: u32) AND 3 = 0"
proof -
  have 1: "(of_nat (4 * n) :: u32) = push_bit 2 (of_nat n)" by (simp add: push_bit_eq_mult)
  have 2: "(3 :: u32) = mask 2" by (simp add: mask_eq_exp_minus_1)
  show ?thesis unfolding 1 2 by (intro bit_word_eqI) (simp only: bit_simps, simp)
qed

lemma unat_len: "4 * n < 2 ^ 32 \<Longrightarrow> unat (of_nat (4 * n) :: u32) = 4 * n"
  by (rule unat_of_nat_less) simp

context gcq_bus begin

lemma can_produce_cell:
  assumes "pxGCQIOAccess g = Some io" "loc w (ullRingConsumedAddr r) = Some cc"
  shows "\<exists>w'. prvucGCQCanProduce g r w =
      Some (produce_room r (get w cc), refresh_consumed r (get w cc), w')
    \<and> get w' = get w \<and> layout w' = layout w"
  using ring_read_consumed_cell[of w r cc "xGCQFlags g"] assms
  by (auto simp: prvucGCQCanProduce_def produce_room_def refresh_consumed_def)

text \<open>Both tail registers reading all ones makes the driver report that there is no data.\<close>

lemma can_consume_cell:
  assumes "pxGCQIOAccess g = Some io" "loc w (ullRingProducedAddr r) = Some pc"
    "loc w (ullBaseAddr g + GCQ_PRODUCER_SQ_TAIL_POINTER) = Some t1"
    "loc w (ullBaseAddr g + GCQ_PRODUCER_CQ_TAIL_POINTER) = Some t2"
  shows "\<exists>w'. prvucGCQCanConsume g r w =
      (if get w t1 = - 1 \<and> get w t2 = - 1 then Some (False, r, w')
       else Some (\<not> prvucGCQRingIsEmpty (refresh_produced r (get w pc)),
                  refresh_produced r (get w pc), w'))
    \<and> get w' = get w \<and> layout w' = layout w"
proof -
  from read_reg_cell[OF assms(3)] obtain w1 where
    1: "read_reg io (ullBaseAddr g + GCQ_PRODUCER_SQ_TAIL_POINTER) w = Some (get w t1, w1)"
      "get w1 = get w" "layout w1 = layout w" by blast
  have loc1: "loc w1 = loc w" using layout_law 1(3) by blast
  from read_reg_cell[of w1 _ t2, unfolded loc1, OF assms(4)] 1 obtain w2 where
    2: "read_reg io (ullBaseAddr g + GCQ_PRODUCER_CQ_TAIL_POINTER) w1 = Some (get w t2, w2)"
      "get w2 = get w" "layout w2 = layout w" by auto
  have loc2: "loc w2 = loc w" using layout_law 2(3) by blast
  from ring_read_produced_cell[of w2 r pc "xGCQFlags g", unfolded loc2, OF assms(2)] 2
  obtain w3 where
    3: "prvvGCQRingReadProduced io (xGCQFlags g) r w2 = Some (r\<lparr>ulRingProduced := get w pc\<rparr>, w3)"
      "get w3 = get w" "layout w3 = layout w" by auto
  show ?thesis
    using 1 2 3 assms(1)
    by (cases "prvucGCQRingIsEmpty r")
      (auto simp: prvucGCQCanConsume_def refresh_produced_def)
qed

lemma slot_cells:
  assumes "ring_at (loc w) r pc cc sc k m" "i < 2 ^ k" "n \<le> m"
  shows "\<forall>j<n. loc w (ullRingSlotAddr r + of_nat (4 * (m * i)) + of_nat (4 * j)) = Some (sc i j)"
proof (intro allI impI)
  fix j assume "j < n"
  then have "loc w (ullRingSlotAddr r + of_nat (4 * (m * i + j))) = Some (sc i j)"
    using assms by (auto simp: ring_at_def)
  moreover have "of_nat (4 * (m * i + j)) = (of_nat (4 * (m * i)) + of_nat (4 * j) :: u64)"
    by (simp add: algebra_simps)
  ultimately show "loc w (ullRingSlotAddr r + of_nat (4 * (m * i)) + of_nat (4 * j)) = Some (sc i j)"
    by (simp only: add.assoc)
qed

lemma trigger_interrupt_cell:
  assumes "interrupt_reg_addr mode base = Some a" "loc w a = None" "\<And>v. \<not> hot w a v"
  shows "\<exists>w'. xGCQHWTriggerInterrupt mode base io w = Some (GCQ_ERRORS_NONE, w')
    \<and> get w' = get w \<and> layout w' = layout w"
proof -
  let ?v = "FIELD_SET INTERRUPT_REG_INT_REG_MASK GCQ_INTERRUPT_REG_INT_REG_TRIGGER"
  from write_reg_law[OF assms(3), of ?v] assms(2) obtain w' where
    "write_reg io a ?v w = Some w'" "layout w' = layout w" "get w' = get w" by auto
  then show ?thesis using assms(1) io_law by (simp add: xGCQHWTriggerInterrupt_def)
qed

lemma clear_interrupt_cell:
  assumes "interrupt_reg_addr mode base = Some a"
  shows "\<exists>w'. xGCQHWClearInterrupt mode base io w = Some (GCQ_ERRORS_NONE, w')
    \<and> get w' = get w \<and> layout w' = layout w"
  using read_reg_law[of a w] assms io_law by (auto simp: xGCQHWClearInterrupt_def)

lemma produce_step:
  assumes "pxGCQIOAccess g = Some io" "pxGCQProducer g = Some p" "r = ring_of p g"
    "loc w (ullRingConsumedAddr r) = Some cc"
  shows "\<exists>w'. prvxGCQProduce g a w =
      (if produce_room r (get w cc)
       then Some (GCQ_ERRORS_NONE, prvullGCQRingGetSlotPtrProduced (refresh_consumed r (get w cc)),
              set_ring p ((refresh_consumed r (get w cc))\<lparr>ulRingProduced := ulRingProduced r + 1\<rparr>) g, w')
       else Some (GCQ_ERRORS_PRODUCER_NO_FREE_SLOTS, a, set_ring p (refresh_consumed r (get w cc)) g, w'))
    \<and> get w' = get w \<and> layout w' = layout w"
  using can_produce_cell[OF assms(1,4)] assms(2,3)
  by (auto simp: prvxGCQProduce_def refresh_consumed_def)

lemma produce_data_room:
  assumes drv: "firewalls_ok d" "deref_instance d px = Some g" "iInitialised g"
    "pxGCQIOAccess g = Some io" "pxGCQProducer g = Some p" "r = ring_of p g"
    "ulProducerSlotSize g = of_nat (4 * m)"
    and ring: "ring_at (loc w) r pc cc sc k m" "rw pc" "\<forall>i j. rw (sc i j)"
    and cells: "inj_on (sc (slot_ix k (ulRingProduced r))) {..<m}"
      "pc \<notin> sc (slot_ix k (ulRingProduced r)) ` {..<m}"
    and int: "interrupt_reg_addr (xMode g) (ullBaseAddr g) = Some a" "loc w a = None"
      "\<And>v. \<not> hot w a v"
    and len: "length buf \<le> m"
    and room: "produce_room r (get w cc)"
  shows "\<exists>w'. xGCQProduceData px (Some buf) (of_nat (4 * length buf)) d w =
      Some (GCQ_ERRORS_NONE, put_instance px (set_ring p
        ((refresh_consumed r (get w cc))\<lparr>ulRingProduced := ulRingProduced r + 1\<rparr>) g) d, w')
    \<and> layout w' = layout w \<and> get w' pc = ulRingProduced r + 1
    \<and> (\<forall>j<length buf. get w' (sc (slot_ix k (ulRingProduced r)) j) = buf ! j)
    \<and> (\<forall>x. x \<noteq> pc \<longrightarrow> x \<notin> sc (slot_ix k (ulRingProduced r)) ` {..<length buf}
        \<longrightarrow> get w' x = get w x)"
proof -
  let ?r1 = "refresh_consumed r (get w cc)"
  let ?r2 = "?r1\<lparr>ulRingProduced := ulRingProduced r + 1\<rparr>"
  let ?i = "slot_ix k (ulRingProduced r)"
  let ?a = "ullRingSlotAddr r + of_nat (4 * (m * ?i))"
  have m: "4 * m < 2 ^ 32" and k: "k < 32" using ring(1) by (auto simp: ring_at_def)
  have args: "produce_arg_status g (Some buf) (of_nat (4 * length buf)) = GCQ_ERRORS_NONE"
    using drv(3,7) len m unat_len[of "length buf"] unat_len[of m] aligned_len[of "length buf"]
    by (simp add: produce_arg_status_def word_less_nat_alt del: of_nat_mult)
  have "loc w (ullRingConsumedAddr r) = Some cc" using ring(1) by (simp add: ring_at_def)
  from produce_step[OF drv(4,5,6) this, of 0] room obtain w1 where
    1: "prvxGCQProduce g 0 w = Some (GCQ_ERRORS_NONE, prvullGCQRingGetSlotPtrProduced ?r1,
          set_ring p ?r2 g, w1)" "get w1 = get w" "layout w1 = layout w" by auto
  have loc1: "loc w1 = loc w" using layout_law[OF 1(3)] by simp
  have fields: "ulRingProduced ?r1 = ulRingProduced r" "ullRingSlotAddr ?r1 = ullRingSlotAddr r"
    "ullRingProducedAddr ?r2 = ullRingProducedAddr r" by (simp_all add: refresh_consumed_def)
  have ptr: "prvullGCQRingGetSlotPtrProduced ?r1 = ?a"
    using slot_ptr_produced[of ?r1 k m] ring(1) fields
    by (simp add: ring_at_def refresh_consumed_def split: if_splits)
  have "\<forall>j<length buf. loc w1 (?a + of_nat (4 * j)) = Some (sc ?i j) \<and> rw (sc ?i j)"
    using slot_cells[OF ring(1), of ?i "length buf"] len ring(3) unfolding loc1 by simp
  moreover have "inj_on (sc ?i) {..<length buf}" using cells(1) len by (auto intro: inj_on_subset)
  ultimately obtain w2 where
    2: "write_words io ?a buf w1 = Some w2" "layout w2 = layout w1"
       "\<forall>j<length buf. get w2 (sc ?i j) = buf ! j"
       "\<forall>x. x \<notin> sc ?i ` {..<length buf} \<longrightarrow> get w2 x = get w1 x"
    using write_words_cells[of buf w1 ?a "sc ?i"] by blast
  have copy: "prvvGCQCopyToRing io buf ?a (of_nat (4 * length buf)) w1 = Some w2"
    using 2(1) unat_len[of "length buf"] len m
    by (simp add: prvvGCQCopyToRing_def del: of_nat_mult)
  have loc2: "loc w2 = loc w" using layout_law[OF 2(2)] loc1 by simp
  have "loc w2 (ullRingProducedAddr ?r2) = Some pc"
    using ring(1) unfolding loc2 fields by (simp add: ring_at_def)
  from ring_write_produced_cell[OF this ring(2), of "xGCQFlags g"] obtain w3 where
    3: "prvvGCQRingWriteProduced io (xGCQFlags g) ?r2 w2 = Some w3"
       "get w3 = (get w2)(pc := ulRingProduced r + 1)" "layout w3 = layout w2" by auto
  have loc3: "loc w3 = loc w" "hot w3 = hot w"
    using layout_law[of w3 w] 3(3) 2(2) 1(3) by auto
  from trigger_interrupt_cell[of "xMode g" "ullBaseAddr g" a w3] int loc3 obtain w4 where
    4: "xGCQHWTriggerInterrupt (xMode g) (ullBaseAddr g) io w3 = Some (GCQ_ERRORS_NONE, w4)"
       "get w4 = get w3" "layout w4 = layout w3" by auto
  have sub: "pc \<notin> sc ?i ` {..<length buf}" using cells(2) len by auto
  have eff: "get w3 pc = ulRingProduced r + 1" "\<forall>j<length buf. get w3 (sc ?i j) = buf ! j"
    "\<forall>x. x \<noteq> pc \<longrightarrow> x \<notin> sc ?i ` {..<length buf} \<longrightarrow> get w3 x = get w x"
    using 3(2) 2(3,4) 1(2) sub by auto
  show ?thesis
  proof (cases "xIntMode g = GCQ_INTERRUPT_MODE_INTERRUPT_REG")
    case True
    then show ?thesis using drv(1-5) args 1 copy 3(1,3) 4 eff 2(2)
      by (intro exI[of _ w4]) (simp add: xGCQProduceData_def ptr del: of_nat_mult)
  next
    case False
    then show ?thesis using drv(1-5) args 1 copy 3(1,3) eff 2(2)
      by (intro exI[of _ w3]) (simp add: xGCQProduceData_def ptr del: of_nat_mult)
  qed
qed

lemma produce_data_full:
  assumes drv: "firewalls_ok d" "deref_instance d px = Some g" "iInitialised g"
    "pxGCQIOAccess g = Some io" "pxGCQProducer g = Some p" "r = ring_of p g"
    "ulProducerSlotSize g = of_nat (4 * m)"
    and ring: "ring_at (loc w) r pc cc sc k m"
    and len: "length buf \<le> m"
    and room: "\<not> produce_room r (get w cc)"
  shows "\<exists>w'. xGCQProduceData px (Some buf) (of_nat (4 * length buf)) d w =
      Some (GCQ_ERRORS_PRODUCER_NO_FREE_SLOTS,
        put_instance px (set_ring p (refresh_consumed r (get w cc)) g) d, w')
    \<and> layout w' = layout w \<and> get w' = get w"
proof -
  have m: "4 * m < 2 ^ 32" using ring(1) by (auto simp: ring_at_def)
  have args: "produce_arg_status g (Some buf) (of_nat (4 * length buf)) = GCQ_ERRORS_NONE"
    using drv(3,7) len m unat_len[of "length buf"] unat_len[of m] aligned_len[of "length buf"]
    by (simp add: produce_arg_status_def word_less_nat_alt del: of_nat_mult)
  have "loc w (ullRingConsumedAddr r) = Some cc" using ring(1) by (simp add: ring_at_def)
  from produce_step[OF drv(4,5,6) this, of 0] room show ?thesis
    using drv args by (auto simp: xGCQProduceData_def simp del: of_nat_mult)
qed

lemma consume_step:
  assumes "pxGCQIOAccess g = Some io" "pxGCQConsumer g = Some p" "r = ring_of p g"
    "loc w (ullRingProducedAddr r) = Some pc"
    "loc w (ullBaseAddr g + GCQ_PRODUCER_SQ_TAIL_POINTER) = Some t1"
    "loc w (ullBaseAddr g + GCQ_PRODUCER_CQ_TAIL_POINTER) = Some t2"
  shows "\<exists>w'. prvxGCQConsume g a w =
      (if get w t1 = - 1 \<and> get w t2 = - 1
       then Some (GCQ_ERRORS_CONSUMER_NO_DATA_RECEIVED, a, set_ring p r g, w')
       else if prvucGCQRingIsEmpty (refresh_produced r (get w pc))
       then Some (GCQ_ERRORS_CONSUMER_NO_DATA_RECEIVED, a,
              set_ring p (refresh_produced r (get w pc)) g, w')
       else Some (GCQ_ERRORS_NONE, prvullGCQRingGetSlotPtrConsumed (refresh_produced r (get w pc)),
              set_ring p ((refresh_produced r (get w pc))\<lparr>ulRingConsumed := ulRingConsumed r + 1\<rparr>) g, w'))
    \<and> get w' = get w \<and> layout w' = layout w"
  using can_consume_cell[OF assms(1,4-6)] assms(2,3)
  by (auto simp: prvxGCQConsume_def refresh_produced_def)

definition consume_setup ::
  "'w GCQ_PRIVATE_DATA \<Rightarrow> nat option \<Rightarrow> 'w GCQ_INSTANCE_TYPE \<Rightarrow> ring_ptr \<Rightarrow> GCQ_RING_TYPE \<Rightarrow> 'w
   \<Rightarrow> nat \<Rightarrow> nat \<Rightarrow> 'c \<Rightarrow> 'c \<Rightarrow> bool" where
  "consume_setup d px g p r w m n t1 t2 \<longleftrightarrow>
     firewalls_ok d \<and> deref_instance d px = Some g \<and> iInitialised g \<and>
     pxGCQIOAccess g = Some io \<and> pxGCQConsumer g = Some p \<and> r = ring_of p g \<and>
     ulConsumerSlotSize g = of_nat (4 * m) \<and>
     (xMode g = GCQ_MODE_TYPE_CONSUMER_MODE \<longrightarrow> ucConsumerAttached d) \<and> n \<le> m \<and>
     loc w (ullBaseAddr g + GCQ_PRODUCER_SQ_TAIL_POINTER) = Some t1 \<and>
     loc w (ullBaseAddr g + GCQ_PRODUCER_CQ_TAIL_POINTER) = Some t2"

lemma consume_args:
  assumes "consume_setup d px g p r w m n t1 t2" "4 * m < 2 ^ 32"
  shows "consume_arg_status d g (Some buf) (of_nat (4 * n)) = GCQ_ERRORS_NONE"
  using assms unat_len[of n] unat_len[of m] aligned_len[of n]
  by (auto simp: consume_setup_def consume_arg_status_def word_less_nat_alt simp del: of_nat_mult)

lemma consume_data_none:
  assumes su: "consume_setup d px g p r w m n t1 t2"
    and ring: "ring_at (loc w) r pc cc sc k m"
    and none: "(get w t1 = - 1 \<and> get w t2 = - 1) \<or> prvucGCQRingIsEmpty (refresh_produced r (get w pc))"
  shows "\<exists>w' r'. xGCQConsumeData px (Some buf) (of_nat (4 * n)) d w =
      Some (GCQ_ERRORS_CONSUMER_NO_DATA_RECEIVED, Some buf, put_instance px (set_ring p r' g) d, w')
    \<and> r' \<in> {r, refresh_produced r (get w pc)} \<and> layout w' = layout w \<and> get w' = get w"
proof -
  have m: "4 * m < 2 ^ 32" and pc: "loc w (ullRingProducedAddr r) = Some pc"
    using ring by (auto simp: ring_at_def)
  note args = consume_args[OF su m, of buf]
  from su have s: "firewalls_ok d" "deref_instance d px = Some g" "pxGCQIOAccess g = Some io"
    "pxGCQConsumer g = Some p" "r = ring_of p g"
    "loc w (ullBaseAddr g + GCQ_PRODUCER_SQ_TAIL_POINTER) = Some t1"
    "loc w (ullBaseAddr g + GCQ_PRODUCER_CQ_TAIL_POINTER) = Some t2"
    by (auto simp: consume_setup_def)
  from consume_step[OF s(3-5) pc s(6,7), of 0] none obtain w1 r' where
    "prvxGCQConsume g 0 w = Some (GCQ_ERRORS_CONSUMER_NO_DATA_RECEIVED, 0, set_ring p r' g, w1)"
    "r' \<in> {r, refresh_produced r (get w pc)}" "get w1 = get w" "layout w1 = layout w"
    by (auto split: if_splits)
  then show ?thesis using s(1,2) args
    by (intro exI[of _ w1] exI[of _ r']) (simp add: xGCQConsumeData_def del: of_nat_mult)
qed

lemma consume_data_some:
  assumes su: "consume_setup d px g p r w m n t1 t2"
    and ring: "ring_at (loc w) r pc cc sc k m" "rw cc"
    and cells: "cc \<notin> sc (slot_ix k (ulRingConsumed r)) ` {..<m}"
    and int: "interrupt_reg_addr (xMode g) (ullBaseAddr g) = Some a"
    and buf: "length buf = n"
    and some: "\<not> (get w t1 = - 1 \<and> get w t2 = - 1)" "\<not> prvucGCQRingIsEmpty (refresh_produced r (get w pc))"
  shows "\<exists>w'. xGCQConsumeData px (Some buf) (of_nat (4 * n)) d w =
      Some (GCQ_ERRORS_NONE, Some (map (\<lambda>j. get w (sc (slot_ix k (ulRingConsumed r)) j)) [0..<n]),
        put_instance px (set_ring p
          ((refresh_produced r (get w pc))\<lparr>ulRingConsumed := ulRingConsumed r + 1\<rparr>) g) d, w')
    \<and> layout w' = layout w \<and> get w' = (get w)(cc := ulRingConsumed r + 1)"
proof -
  let ?r1 = "refresh_produced r (get w pc)"
  let ?r2 = "?r1\<lparr>ulRingConsumed := ulRingConsumed r + 1\<rparr>"
  let ?i = "slot_ix k (ulRingConsumed r)"
  let ?a = "ullRingSlotAddr r + of_nat (4 * (m * ?i))"
  have m: "4 * m < 2 ^ 32" and k: "k < 32" and pc: "loc w (ullRingProducedAddr r) = Some pc"
    using ring by (auto simp: ring_at_def)
  note args = consume_args[OF su m, of buf]
  from su have s: "firewalls_ok d" "deref_instance d px = Some g" "pxGCQIOAccess g = Some io"
    "pxGCQConsumer g = Some p" "r = ring_of p g"
    "loc w (ullBaseAddr g + GCQ_PRODUCER_SQ_TAIL_POINTER) = Some t1"
    "loc w (ullBaseAddr g + GCQ_PRODUCER_CQ_TAIL_POINTER) = Some t2" "n \<le> m"
    by (auto simp: consume_setup_def)
  from consume_step[OF s(3-5) pc s(6,7), of 0] some obtain w1 where
    1: "prvxGCQConsume g 0 w = Some (GCQ_ERRORS_NONE, prvullGCQRingGetSlotPtrConsumed ?r1,
          set_ring p ?r2 g, w1)" "get w1 = get w" "layout w1 = layout w" by auto
  have loc1: "loc w1 = loc w" using layout_law[OF 1(3)] by simp
  have fields: "ulRingConsumed ?r1 = ulRingConsumed r" "ullRingSlotAddr ?r1 = ullRingSlotAddr r"
    "ullRingConsumedAddr ?r2 = ullRingConsumedAddr r" by (simp_all add: refresh_produced_def)
  have ptr: "prvullGCQRingGetSlotPtrConsumed ?r1 = ?a"
    using slot_ptr_consumed[of ?r1 k m] ring(1) fields
    by (simp add: ring_at_def refresh_produced_def split: if_splits)
  have "\<forall>j<n. loc w1 (?a + of_nat (4 * j)) = Some (sc ?i j)"
    using slot_cells[OF ring(1), of ?i n] s(8) unfolding loc1 by simp
  from read_words_cells[OF this] obtain w2 where
    2: "read_words io ?a n w1 = Some (map (\<lambda>j. get w (sc ?i j)) [0..<n], w2)"
       "get w2 = get w" "layout w2 = layout w" using 1 by auto
  have copy: "prvvGCQCopyFromRing io buf ?a (of_nat (4 * n)) w1
      = Some (map (\<lambda>j. get w (sc ?i j)) [0..<n], w2)"
    using 2(1) unat_len[of n] s(8) m buf by (simp add: prvvGCQCopyFromRing_def del: of_nat_mult)
  have loc2: "loc w2 = loc w" using layout_law[OF 2(3)] by simp
  have "loc w2 (ullRingConsumedAddr ?r2) = Some cc"
    using ring(1) unfolding loc2 fields by (simp add: ring_at_def)
  from ring_write_consumed_cell[OF this ring(2), of "xGCQFlags g"] obtain w3 where
    3: "prvvGCQRingWriteConsumed io (xGCQFlags g) ?r2 w2 = Some w3"
       "get w3 = (get w)(cc := ulRingConsumed r + 1)" "layout w3 = layout w" using 2 by auto
  from clear_interrupt_cell[OF int, of w3] obtain w4 where
    4: "xGCQHWClearInterrupt (xMode g) (ullBaseAddr g) io w3 = Some (GCQ_ERRORS_NONE, w4)"
       "get w4 = get w3" "layout w4 = layout w3" by auto
  show ?thesis
  proof (cases "xIntMode g = GCQ_INTERRUPT_MODE_INTERRUPT_REG")
    case True
    then show ?thesis using s(1-4) args 1(1) copy 3 4
      by (intro exI[of _ w4]) (simp add: xGCQConsumeData_def ptr del: of_nat_mult)
  next
    case False
    then show ?thesis using s(1-4) args 1(1) copy 3
      by (intro exI[of _ w3]) (simp add: xGCQConsumeData_def ptr del: of_nat_mult)
  qed
qed

lemma soft_reset_cell:
  assumes "pxGCQIOAccess g = Some io" "loc w (ullRingProducedAddr r) = Some pc"
    "loc w (ullRingConsumedAddr r) = Some cc" "rw cc"
  shows "\<exists>w'. prvvGCQSoftReset g r w =
      Some (r\<lparr>ulRingProduced := get w pc, ulRingConsumed := get w pc\<rparr>, w')
    \<and> get w' = (get w)(cc := get w pc) \<and> layout w' = layout w"
proof -
  from ring_read_produced_cell[OF assms(2), of "xGCQFlags g"] obtain w1 where
    1: "prvvGCQRingReadProduced io (xGCQFlags g) r w = Some (r\<lparr>ulRingProduced := get w pc\<rparr>, w1)"
       "get w1 = get w" "layout w1 = layout w" by blast
  let ?r2 = "r\<lparr>ulRingProduced := get w pc, ulRingConsumed := get w pc\<rparr>"
  have "loc w1 (ullRingConsumedAddr ?r2) = Some cc" using layout_law[OF 1(3)] assms(3) by simp
  from ring_write_consumed_cell[OF this assms(4), of "xGCQFlags g"] obtain w2 where
    "prvvGCQRingWriteConsumed io (xGCQFlags g) ?r2 w1 = Some w2"
    "get w2 = (get w1)(cc := get w pc)" "layout w2 = layout w1" by auto
  with 1 assms(1) show ?thesis by (simp add: prvvGCQSoftReset_def)
qed

lemma fast_forward_cell:
  assumes "pxGCQIOAccess g = Some io" "loc w (ullRingProducedAddr r) = Some pc"
    "loc w (ullRingConsumedAddr r) = Some cc"
  shows "\<exists>w'. prvvGCQFastForward g r w =
      Some (r\<lparr>ulRingProduced := get w pc, ulRingConsumed := get w cc\<rparr>, w')
    \<and> get w' = get w \<and> layout w' = layout w"
proof -
  from ring_read_produced_cell[OF assms(2), of "xGCQFlags g"] obtain w1 where
    1: "prvvGCQRingReadProduced io (xGCQFlags g) r w = Some (r\<lparr>ulRingProduced := get w pc\<rparr>, w1)"
       "get w1 = get w" "layout w1 = layout w" by blast
  have "loc w1 (ullRingConsumedAddr (r\<lparr>ulRingProduced := get w pc\<rparr>)) = Some cc"
    using layout_law[OF 1(3)] assms(3) by simp
  from ring_read_consumed_cell[OF this, of "xGCQFlags g"] 1 assms(1) show ?thesis
    by (auto simp: prvvGCQFastForward_def)
qed

end

end
