(* ===== verification/GcqQueue.thy ===== *)
theory GcqQueue
  imports GcqTransfer
begin

text \<open>
  One queue seen from both ends, without the hardware: the shared produced and
  consumed counters, the two ends' cached copies of them, and the pending messages
  the slots hold. The counters run freely modulo \<open>2 ^ 32\<close>.
\<close>

text \<open>
  \<open>P\<close>, \<open>C\<close> are the shared counters, \<open>rp\<close> the producing end's ring, \<open>rc\<close> the consuming
  end's. Each end's own counter is exact; its copy of the peer's lags behind.
\<close>

definition queue_inv :: "nat \<Rightarrow> u32 \<Rightarrow> u32 \<Rightarrow> GCQ_RING_TYPE \<Rightarrow> GCQ_RING_TYPE \<Rightarrow> bool" where
  "queue_inv k P C rp rc \<longleftrightarrow>
     ulRingProduced rp = P \<and> ulRingConsumed rc = C \<and>
     unat (P - ulRingConsumed rp) \<le> 2 ^ k \<and> unat (P - C) \<le> unat (P - ulRingConsumed rp) \<and>
     unat (ulRingProduced rc - C) \<le> unat (P - C)"

definition queue_items ::
  "('c \<Rightarrow> u32) \<Rightarrow> (nat \<Rightarrow> nat \<Rightarrow> 'c) \<Rightarrow> nat \<Rightarrow> nat \<Rightarrow> u32 \<Rightarrow> u32 \<Rightarrow> u32 list list" where
  "queue_items get sc k len P C =
     map (\<lambda>i. map (\<lambda>j. get (sc (slot_ix k (C + of_nat i)) j)) [0..<len]) [0..<unat (P - C)]"

lemma length_queue_items [simp]: "length (queue_items get sc k len P C) = unat (P - C)"
  by (simp add: queue_items_def)

lemma ring_full_iff:
  assumes "ulRingSlotNum r = 2 ^ k" "k < 32"
  shows "prvucGCQRingIsFull r \<longleftrightarrow> 2 ^ k \<le> unat (ulRingProduced r - ulRingConsumed r)"
  using assms by (simp add: prvucGCQRingIsFull_def word_le_nat_alt)

lemma room_iff:
  assumes qi: "queue_inv k P C rp rc" and k: "k < 32" and num: "ulRingSlotNum rp = 2 ^ k"
  shows "produce_room rp C \<longleftrightarrow> unat (P - C) < 2 ^ k"
  using qi by (auto simp: produce_room_def queue_inv_def ring_full_iff[OF _ k] num)

lemma inv_produce:
  assumes qi: "queue_inv k P C rp rc" and k: "k < 32" and num: "ulRingSlotNum rp = 2 ^ k"
    and room: "unat (P - C) < 2 ^ k"
  shows "queue_inv k (P + 1) C ((refresh_consumed rp C)\<lparr>ulRingProduced := P + 1\<rparr>) rc"
proof -
  let ?c = "ulRingConsumed (refresh_consumed rp C)"
  have le: "(2::nat) ^ k \<le> 2 ^ 31" using k by (intro power_increasing) auto
  have d: "unat (P - ?c) < 2 ^ k" "unat (P - C) \<le> unat (P - ?c)"
    using qi assms by (auto simp: queue_inv_def refresh_consumed_def ring_full_iff[OF num k])
  have "unat (P + 1 - ?c) = unat (P - ?c) + 1" "unat (P + 1 - C) = unat (P - C) + 1"
    using unat_succ_sub[of P ?c] unat_succ_sub[of P C] d assms le by simp_all
  then show ?thesis using qi d by (auto simp: queue_inv_def)
qed

lemma inv_produce_full:
  assumes qi: "queue_inv k P C rp rc"
  shows "queue_inv k P C (refresh_consumed rp C) rc"
  using qi by (auto simp: queue_inv_def refresh_consumed_def)

lemma empty_iff:
  assumes qi: "queue_inv k P C rp rc"
  shows "prvucGCQRingIsEmpty (refresh_produced rc P) \<longleftrightarrow> P = C"
proof -
  have "P \<noteq> C" if "ulRingProduced rc \<noteq> C"
    using qi that unat_sub_eq_0[of "ulRingProduced rc" C] unat_sub_eq_0[of P C]
    unfolding queue_inv_def by linarith
  then show ?thesis using qi
    by (auto simp: prvucGCQRingIsEmpty_def refresh_produced_def queue_inv_def)
qed

lemma inv_consume:
  assumes qi: "queue_inv k P C rp rc"
    and ne: "P \<noteq> C"
  shows "queue_inv k P (C + 1) rp ((refresh_produced rc P)\<lparr>ulRingConsumed := C + 1\<rparr>)"
proof -
  let ?p = "ulRingProduced (refresh_produced rc P)"
  have p: "?p \<noteq> C" "unat (?p - C) \<le> unat (P - C)"
    using qi assms by (auto simp: queue_inv_def refresh_produced_def prvucGCQRingIsEmpty_def)
  have "unat (?p - (C + 1)) = unat (?p - C) - 1" "unat (P - (C + 1)) = unat (P - C) - 1"
    using unat_sub_succ[OF p(1)] unat_sub_succ[OF ne] by simp_all
  then show ?thesis using qi p by (auto simp: queue_inv_def)
qed

lemma inv_consume_empty:
  assumes qi: "queue_inv k P C rp rc"
    and r: "r \<in> {rc, refresh_produced rc P}"
  shows "queue_inv k P C rp r"
  using qi r by (auto simp: queue_inv_def refresh_produced_def)

lemma items_push:
  assumes "k < 32" "unat (P - C) < 2 ^ k" "length x = len"
    "\<forall>j<len. get' (sc (slot_ix k P) j) = x ! j"
    "\<forall>i<2 ^ k. \<forall>j<len. i \<noteq> slot_ix k P \<longrightarrow> get' (sc i j) = get (sc i j)"
  shows "queue_items get' sc k len (P + 1) C = queue_items get sc k len P C @ [x]"
proof -
  let ?n = "unat (P - C)"
  have "(2::nat) ^ k \<le> 2 ^ 31" using assms(1) by (intro power_increasing) auto
  then have n: "unat (P + 1 - C) = ?n + 1" using assms(2) by (intro unat_succ_sub) auto
  have P: "P = C + of_nat ?n" by simp
  have "slot_ix k (C + of_nat i) \<noteq> slot_ix k P" if "i < ?n" for i
    using slot_ix_inj[OF assms(1) that, of C] assms(2) P by simp
  then have old: "map (\<lambda>j. get' (sc (slot_ix k (C + of_nat i)) j)) [0..<len]
      = map (\<lambda>j. get (sc (slot_ix k (C + of_nat i)) j)) [0..<len]" if "i < ?n" for i
    using that assms(5) by simp
  have new: "map (\<lambda>j. get' (sc (slot_ix k P) j)) [0..<len] = x"
    using assms(3,4) by (intro nth_equalityI) auto
  show ?thesis using old new unfolding queue_items_def n by (simp add: del: upt_Suc) simp
qed

lemma items_pop:
  assumes "P \<noteq> C" "\<forall>i<2 ^ k. \<forall>j<len. get' (sc i j) = get (sc i j)"
  shows "queue_items get sc k len P C =
    map (\<lambda>j. get (sc (slot_ix k C) j)) [0..<len] # queue_items get' sc k len P (C + 1)"
proof -
  have n: "unat (P - (C + 1)) = unat (P - C) - 1" using assms(1) by (rule unat_sub_succ)
  have "unat (P - C) \<noteq> 0" using assms(1) by simp
  then show ?thesis unfolding queue_items_def n
    by (subst map_upt_shift) (simp add: assms(2) add.assoc)
qed

lemma items_frame:
  assumes "\<forall>i<2 ^ k. \<forall>j<len. get' (sc i j) = get (sc i j)"
  shows "queue_items get' sc k len P C = queue_items get sc k len P C"
  using assms by (simp add: queue_items_def)

end
