(* ===== verification/GcqIp.thy ===== *)
theory GcqIp
  imports GcqTransfer
begin

text \<open>
  The IP block as the register map of gcq_regmap.h documents it, with the shared
  memory of the queues: the world on which the driver's bus contract is interpreted.
  Each side has its own tail register at offset 0x000 of its register space and sees
  the other side's, read-only, at 0x100; 0x004 triggers the peer's interrupt and,
  read, clears the own one; 0x00C is the control register, whose reset bit clears the
  tail registers. The two sides may see the registers and the shared memory at
  different addresses.
\<close>

section \<open>State\<close>

datatype gcq_side = PROD_SIDE | CONS_SIDE

datatype gcq_cell = PRODUCER_TAIL | CONSUMER_TAIL | SHARED nat

record gcq_ip =
  ipProdBase :: u64
  ipConsBase :: u64
  ipProdRing :: u64
  ipConsRing :: u64
  ipMemWords :: nat
  ipProdTail :: u32
  ipConsTail :: u32
  ipProdIrq :: bool
  ipConsIrq :: bool
  ipProdRegs :: "u64 \<Rightarrow> u32"
  ipConsRegs :: "u64 \<Rightarrow> u32"
  ipMem :: "nat \<Rightarrow> u32"

definition ip_base :: "gcq_side \<Rightarrow> gcq_ip \<Rightarrow> u64" where
  "ip_base s w = (case s of PROD_SIDE \<Rightarrow> ipProdBase w | CONS_SIDE \<Rightarrow> ipConsBase w)"

definition ip_ring :: "gcq_side \<Rightarrow> gcq_ip \<Rightarrow> u64" where
  "ip_ring s w = (case s of PROD_SIDE \<Rightarrow> ipProdRing w | CONS_SIDE \<Rightarrow> ipConsRing w)"

definition own_tail :: "gcq_side \<Rightarrow> gcq_cell" where
  "own_tail s = (case s of PROD_SIDE \<Rightarrow> PRODUCER_TAIL | CONS_SIDE \<Rightarrow> CONSUMER_TAIL)"

definition peer_tail :: "gcq_side \<Rightarrow> gcq_cell" where
  "peer_tail s = (case s of PROD_SIDE \<Rightarrow> CONSUMER_TAIL | CONS_SIDE \<Rightarrow> PRODUCER_TAIL)"

text \<open>The offset within the shared memory, when the address is a word of it.\<close>

definition mem_word :: "gcq_side \<Rightarrow> gcq_ip \<Rightarrow> u64 \<Rightarrow> nat option" where
  "mem_word s w a =
     (let off = unat (a - ip_ring s w)
      in if off mod 4 = 0 \<and> off div 4 < ipMemWords w then Some (off div 4) else None)"

definition ip_loc :: "gcq_side \<Rightarrow> gcq_ip \<Rightarrow> u64 \<Rightarrow> gcq_cell option" where
  "ip_loc s w a =
     (let off = a - ip_base s w
      in if off = 0x000 then Some (own_tail s)
         else if off = 0x100 then Some (peer_tail s)
         else if off = 0x004 \<or> off = 0x00C then None
         else map_option SHARED (mem_word s w a))"

fun ip_get :: "gcq_ip \<Rightarrow> gcq_cell \<Rightarrow> u32" where
  "ip_get w PRODUCER_TAIL = ipProdTail w"
| "ip_get w CONSUMER_TAIL = ipConsTail w"
| "ip_get w (SHARED i) = ipMem w i"

fun ip_put :: "gcq_cell \<Rightarrow> u32 \<Rightarrow> gcq_ip \<Rightarrow> gcq_ip" where
  "ip_put PRODUCER_TAIL v w = w\<lparr>ipProdTail := v\<rparr>"
| "ip_put CONSUMER_TAIL v w = w\<lparr>ipConsTail := v\<rparr>"
| "ip_put (SHARED i) v w = w\<lparr>ipMem := (ipMem w)(i := v)\<rparr>"

definition ip_writable :: "gcq_side \<Rightarrow> gcq_cell \<Rightarrow> bool" where
  "ip_writable s c \<longleftrightarrow> c \<noteq> peer_tail s"

definition ip_reset_request :: "gcq_side \<Rightarrow> gcq_ip \<Rightarrow> u64 \<Rightarrow> u32 \<Rightarrow> bool" where
  "ip_reset_request s w a v \<longleftrightarrow> a - ip_base s w = 0x00C \<and> bit v 31"

definition ip_layout :: "gcq_ip \<Rightarrow> (u64 \<times> u64) \<times> (u64 \<times> u64) \<times> nat" where
  "ip_layout w = ((ipProdBase w, ipConsBase w), (ipProdRing w, ipConsRing w), ipMemWords w)"

section \<open>Accesses\<close>

definition ip_store_reg :: "gcq_side \<Rightarrow> u64 \<Rightarrow> u32 \<Rightarrow> gcq_ip \<Rightarrow> gcq_ip" where
  "ip_store_reg s off v w = (case s of
       PROD_SIDE \<Rightarrow> w\<lparr>ipProdRegs := (ipProdRegs w)(off := v)\<rparr>
     | CONS_SIDE \<Rightarrow> w\<lparr>ipConsRegs := (ipConsRegs w)(off := v)\<rparr>)"

definition ip_read :: "gcq_side \<Rightarrow> u64 \<Rightarrow> gcq_ip \<Rightarrow> u32 \<times> gcq_ip" where
  "ip_read s a w = (case ip_loc s w a of
       Some c \<Rightarrow> (ip_get w c, w)
     | None \<Rightarrow>
         let off = a - ip_base s w
         in if off = 0x004
            then (case s of
                    PROD_SIDE \<Rightarrow> (if ipProdIrq w then 2 else 0, w\<lparr>ipProdIrq := False\<rparr>)
                  | CONS_SIDE \<Rightarrow> (if ipConsIrq w then 2 else 0, w\<lparr>ipConsIrq := False\<rparr>))
            else ((case s of PROD_SIDE \<Rightarrow> ipProdRegs w off | CONS_SIDE \<Rightarrow> ipConsRegs w off), w))"

definition ip_write :: "gcq_side \<Rightarrow> u64 \<Rightarrow> u32 \<Rightarrow> gcq_ip \<Rightarrow> gcq_ip" where
  "ip_write s a v w = (case ip_loc s w a of
       Some c \<Rightarrow> if ip_writable s c then ip_put c v w else w
     | None \<Rightarrow>
         let off = a - ip_base s w
         in if off = 0x004
            then (if bit v 0
                  then (case s of PROD_SIDE \<Rightarrow> w\<lparr>ipConsIrq := True\<rparr> | CONS_SIDE \<Rightarrow> w\<lparr>ipProdIrq := True\<rparr>)
                  else w)
            else if off = 0x00C \<and> bit v 31
            then ip_store_reg s off (take_bit 31 v) (w\<lparr>ipProdTail := 0, ipConsTail := 0\<rparr>)
            else ip_store_reg s off v w)"

definition ip_io :: "gcq_side \<Rightarrow> gcq_ip GCQ_IO_ACCESS_TYPE" where
  "ip_io s = \<lparr> xGCQReadReg32 = Some (ip_read s), xGCQWriteReg32 = Some (ip_write s),
               xGCQReadMem32 = Some (ip_read s), xGCQWriteMem32 = Some (ip_write s) \<rparr>"

section \<open>The bus contract holds\<close>

lemma ip_access [simp]:
  "read_reg (ip_io s) a w = Some (ip_read s a w)"
  "read_mem (ip_io s) a w = Some (ip_read s a w)"
  "write_reg (ip_io s) a v w = Some (ip_write s a v w)"
  "write_mem (ip_io s) a v w = Some (ip_write s a v w)"
  by (simp_all add: ip_io_def read_reg_def read_mem_def write_reg_def write_mem_def)

lemma ip_get_simps:
  "ip_get (w\<lparr>ipProdIrq := b\<rparr>) = ip_get w" "ip_get (w\<lparr>ipConsIrq := b\<rparr>) = ip_get w"
  "ip_get (ip_store_reg s off v w) = ip_get w"
  "ip_get (ip_put c v w) = (ip_get w)(c := v)"
  by (rule ext, case_tac x; cases s; cases c; simp add: ip_store_reg_def)+

lemma ip_layout_simps:
  "ip_layout (w\<lparr>ipProdIrq := b\<rparr>) = ip_layout w" "ip_layout (w\<lparr>ipConsIrq := b\<rparr>) = ip_layout w"
  "ip_layout (ip_store_reg s off v w) = ip_layout w" "ip_layout (ip_put c v w) = ip_layout w"
  "ip_layout (w\<lparr>ipProdTail := t, ipConsTail := t'\<rparr>) = ip_layout w"
  by (cases s; cases c; simp add: ip_layout_def ip_store_reg_def)+

lemma ip_read_law:
  "\<exists>v w'. ip_read s a w = (v, w') \<and> ip_get w' = ip_get w \<and> ip_layout w' = ip_layout w
    \<and> (\<forall>c. ip_loc s w a = Some c \<longrightarrow> v = ip_get w c)"
  by (cases s) (auto simp: ip_read_def Let_def ip_get_simps ip_layout_simps split: option.splits)

lemma ip_write_law:
  assumes "\<not> ip_reset_request s w a v"
  shows "ip_layout (ip_write s a v w) = ip_layout w \<and> ip_get (ip_write s a v w) =
    (case ip_loc s w a of Some c \<Rightarrow> if ip_writable s c then (ip_get w)(c := v) else ip_get w
     | None \<Rightarrow> ip_get w)"
  using assms by (cases s) (auto simp: ip_write_def ip_reset_request_def Let_def ip_get_simps
      ip_layout_simps split: option.splits)

lemma ip_layout_loc:
  assumes "ip_layout w = ip_layout w'"
  shows "ip_loc s w = ip_loc s w' \<and> ip_reset_request s w = ip_reset_request s w'"
  using assms by (cases s) (auto simp: ip_layout_def ip_loc_def ip_reset_request_def mem_word_def
      ip_base_def ip_ring_def Let_def fun_eq_iff)

interpretation side_bus: gcq_bus "ip_io s" "ip_loc s" ip_get "ip_writable s" "ip_reset_request s" ip_layout
  for s
proof unfold_locales
  show "\<not> CHECK_REG_IO_ACCESS (ip_io s)" by (simp add: CHECK_REG_IO_ACCESS_def ip_io_def)
  show "\<exists>v w'. read_reg (ip_io s) a w = Some (v, w') \<and> ip_get w' = ip_get w
      \<and> ip_layout w' = ip_layout w \<and> (\<forall>c. ip_loc s w a = Some c \<longrightarrow> v = ip_get w c)" for a w
    using ip_read_law[of s a w] by simp
  show "\<exists>v w'. read_mem (ip_io s) a w = Some (v, w') \<and> ip_get w' = ip_get w
      \<and> ip_layout w' = ip_layout w \<and> (\<forall>c. ip_loc s w a = Some c \<longrightarrow> v = ip_get w c)" for a w
    using ip_read_law[of s a w] by simp
  show "\<exists>w'. write_reg (ip_io s) a v w = Some w' \<and> ip_layout w' = ip_layout w \<and> ip_get w' =
      (case ip_loc s w a of Some c \<Rightarrow> if ip_writable s c then (ip_get w)(c := v) else ip_get w
       | None \<Rightarrow> ip_get w)" if "\<not> ip_reset_request s w a v" for w a v
    using ip_write_law[OF that] by simp
  show "\<exists>w'. write_mem (ip_io s) a v w = Some w' \<and> ip_layout w' = ip_layout w \<and> ip_get w' =
      (case ip_loc s w a of Some c \<Rightarrow> if ip_writable s c then (ip_get w)(c := v) else ip_get w
       | None \<Rightarrow> ip_get w)" if "\<not> ip_reset_request s w a v" for w a v
    using ip_write_law[OF that] by simp
  show "ip_loc s w = ip_loc s w' \<and> ip_reset_request s w = ip_reset_request s w'"
    if "ip_layout w = ip_layout w'" for w w'
    using ip_layout_loc[OF that] .
  show "\<not> ip_reset_request s w a v" if "ip_loc s w a = Some c" for w a c v
  proof
    assume "ip_reset_request s w a v"
    then have "a - ip_base s w = 0x00C" by (simp add: ip_reset_request_def)
    then show False using that by (simp add: ip_loc_def)
  qed
qed

end
