(* ===== verification/Fifo.thy ===== *)
theory Fifo
  imports Prelude
begin

text \<open>
  The contract of a bounded first-in first-out channel, the interface every
  message path of the system promises to its client: the two directions of a
  generic command queue (src/fw/AMC/src/device_drivers/gcq_driver) and the event
  buffers of the SMBus driver. The locale states it over an abstract list of
  pending items, and its clients' facts (nothing lost, duplicated or reordered
  over any sequence of operations) are proved once.
\<close>

datatype 'a fifo_op = Enq 'a | Deq

text \<open>A run of operations: what was accepted, what was delivered, the state.\<close>

fun fifo_run ::
  "('a \<Rightarrow> 's \<Rightarrow> (bool \<times> 's) option) \<Rightarrow> ('s \<Rightarrow> ('a option \<times> 's) option)
   \<Rightarrow> 'a fifo_op list \<Rightarrow> 's \<Rightarrow> ('a list \<times> 'a list \<times> 's) option" where
  "fifo_run enq deq [] s = Some ([], [], s)"
| "fifo_run enq deq (Enq x # ops) s =
    do { (b, s1) \<leftarrow> enq x s;
         (acc, del, s2) \<leftarrow> fifo_run enq deq ops s1;
         Some ((if b then x # acc else acc), del, s2) }"
| "fifo_run enq deq (Deq # ops) s =
    do { (r, s1) \<leftarrow> deq s;
         (acc, del, s2) \<leftarrow> fifo_run enq deq ops s1;
         Some (acc, (case r of Some x \<Rightarrow> x # del | None \<Rightarrow> del), s2) }"

fun op_valid :: "('a \<Rightarrow> bool) \<Rightarrow> 'a fifo_op \<Rightarrow> bool" where
  "op_valid ok (Enq x) = ok x"
| "op_valid ok Deq = True"

locale bounded_fifo =
  fixes enq :: "'a \<Rightarrow> 's \<Rightarrow> (bool \<times> 's) option"
    and deq :: "'s \<Rightarrow> ('a option \<times> 's) option"
    and items :: "'s \<Rightarrow> 'a list"
    and inv :: "'s \<Rightarrow> bool"
    and cap :: "'s \<Rightarrow> nat"
    and valid :: "'s \<Rightarrow> 'a \<Rightarrow> bool"
  assumes enq_law: "inv s \<Longrightarrow> valid s x \<Longrightarrow>
      \<exists>b s'. enq x s = Some (b, s') \<and> inv s' \<and> cap s' = cap s \<and> valid s' = valid s
        \<and> b = (length (items s) < cap s)
        \<and> items s' = (if b then items s @ [x] else items s)"
    and deq_law: "inv s \<Longrightarrow>
      \<exists>r s'. deq s = Some (r, s') \<and> inv s' \<and> cap s' = cap s \<and> valid s' = valid s
        \<and> (case r of None \<Rightarrow> items s' = items s | Some x \<Rightarrow> items s = x # items s')"
    and room_law: "inv s \<Longrightarrow> length (items s) \<le> cap s"
begin

lemma run_ok:
  assumes "inv s" "list_all (op_valid (valid s)) ops"
  shows "\<exists>acc del s'. fifo_run enq deq ops s = Some (acc, del, s') \<and> inv s'
      \<and> cap s' = cap s \<and> valid s' = valid s \<and> items s @ acc = del @ items s'
      \<and> length (items s') \<le> cap s"
  using assms
proof (induction ops arbitrary: s)
  case Nil
  then show ?case using room_law by simp
next
  case (Cons oper ops)
  show ?case
  proof (cases oper)
    case (Enq x)
    have "valid s x" using Cons.prems(2) Enq by simp
    with enq_law[OF Cons.prems(1)] obtain b s1 where s1: "enq x s = Some (b, s1)" "inv s1"
      "cap s1 = cap s" "valid s1 = valid s" "items s1 = (if b then items s @ [x] else items s)"
      by blast
    have "list_all (op_valid (valid s1)) ops" using Cons.prems(2) s1(4) by simp
    from Cons.IH[OF s1(2) this] obtain acc del s2 where
      "fifo_run enq deq ops s1 = Some (acc, del, s2)" "inv s2" "cap s2 = cap s1"
      "valid s2 = valid s1" "items s1 @ acc = del @ items s2" "length (items s2) \<le> cap s1" by blast
    then show ?thesis using s1 Enq by (auto split: if_splits)
  next
    case Deq
    from deq_law[OF Cons.prems(1)] obtain r s1 where s1: "deq s = Some (r, s1)" "inv s1"
      "cap s1 = cap s" "valid s1 = valid s"
      "case r of None \<Rightarrow> items s1 = items s | Some x \<Rightarrow> items s = x # items s1" by blast
    have "list_all (op_valid (valid s1)) ops" using Cons.prems(2) s1(4) by simp
    from Cons.IH[OF s1(2) this] obtain acc del s2 where
      "fifo_run enq deq ops s1 = Some (acc, del, s2)" "inv s2" "cap s2 = cap s1"
      "valid s2 = valid s1" "items s1 @ acc = del @ items s2" "length (items s2) \<le> cap s1" by blast
    then show ?thesis using s1 Deq by (auto split: option.splits)
  qed
qed

end

text \<open>
  A channel whose reader, while \<open>ready\<close> holds, is never told that it is empty
  while items are pending: the pending items can then be drained in order.
\<close>

locale responsive_fifo = bounded_fifo +
  fixes ready :: "'s \<Rightarrow> bool"
  assumes ready_law: "inv s \<Longrightarrow> ready s \<Longrightarrow> items s \<noteq> [] \<Longrightarrow> \<exists>x s'. deq s = Some (Some x, s')"
    and ready_keep: "inv s \<Longrightarrow> ready s \<Longrightarrow> deq s = Some (r, s') \<Longrightarrow> ready s'"
begin

lemma drain_ok:
  assumes "inv s" "ready s"
  shows "\<exists>s'. fifo_run enq deq (replicate (length (items s)) Deq) s = Some ([], items s, s')
      \<and> inv s' \<and> items s' = []"
  using assms
proof (induction "items s" arbitrary: s)
  case Nil
  then show ?case by simp
next
  case (Cons y ys)
  from ready_law[OF Cons.prems] Cons.hyps(2) obtain x s1 where d: "deq s = Some (Some x, s1)"
    by (metis list.distinct(1))
  with deq_law[OF Cons.prems(1)] have s1: "inv s1" "items s = x # items s1" by auto
  have "ready s1" using ready_keep[OF Cons.prems d] .
  with Cons.hyps s1 obtain s' where
    "fifo_run enq deq (replicate (length (items s1)) Deq) s1 = Some ([], items s1, s')"
    "inv s'" "items s' = []" by (metis list.inject)
  then show ?case using d s1 by auto
qed

end

text \<open>
  Several channels over one shared state, indexed by a direction: an operation on one
  leaves the pending items of the others alone. Any interleaving of operations on all of
  them keeps every channel in order.
\<close>

fun family_run ::
  "('d \<Rightarrow> 'a \<Rightarrow> 's \<Rightarrow> (bool \<times> 's) option) \<Rightarrow> ('d \<Rightarrow> 's \<Rightarrow> ('a option \<times> 's) option)
   \<Rightarrow> ('d \<times> 'a fifo_op) list \<Rightarrow> 's \<Rightarrow> (('d \<times> 'a) list \<times> ('d \<times> 'a) list \<times> 's) option" where
  "family_run enq deq [] s = Some ([], [], s)"
| "family_run enq deq ((d, Enq x) # ops) s =
    do { (b, s1) \<leftarrow> enq d x s;
         (acc, del, s2) \<leftarrow> family_run enq deq ops s1;
         Some ((if b then (d, x) # acc else acc), del, s2) }"
| "family_run enq deq ((d, Deq) # ops) s =
    do { (r, s1) \<leftarrow> deq d s;
         (acc, del, s2) \<leftarrow> family_run enq deq ops s1;
         Some (acc, (case r of Some x \<Rightarrow> (d, x) # del | None \<Rightarrow> del), s2) }"

definition on_dir :: "'d \<Rightarrow> ('d \<times> 'a) list \<Rightarrow> 'a list" where
  "on_dir d evs = map snd (filter (\<lambda>e. fst e = d) evs)"

lemma on_dir_simps [simp]:
  "on_dir d [] = []" "on_dir d (e # evs) = (if fst e = d then snd e # on_dir d evs else on_dir d evs)"
  by (simp_all add: on_dir_def)

locale fifo_family =
  fixes enq :: "'d \<Rightarrow> 'a \<Rightarrow> 's \<Rightarrow> (bool \<times> 's) option"
    and deq :: "'d \<Rightarrow> 's \<Rightarrow> ('a option \<times> 's) option"
    and items :: "'d \<Rightarrow> 's \<Rightarrow> 'a list"
    and inv :: "'s \<Rightarrow> bool"
    and cap :: "'s \<Rightarrow> nat"
    and valid :: "'d \<Rightarrow> 's \<Rightarrow> 'a \<Rightarrow> bool"
  assumes send_law: "inv s \<Longrightarrow> valid d s x \<Longrightarrow>
      \<exists>b s'. enq d x s = Some (b, s') \<and> inv s' \<and> cap s' = cap s
        \<and> (\<forall>d'. valid d' s' = valid d' s)
        \<and> b = (length (items d s) < cap s)
        \<and> items d s' = (if b then items d s @ [x] else items d s)
        \<and> (\<forall>d'. d' \<noteq> d \<longrightarrow> items d' s' = items d' s)"
    and recv_law: "inv s \<Longrightarrow>
      \<exists>r s'. deq d s = Some (r, s') \<and> inv s' \<and> cap s' = cap s
        \<and> (\<forall>d'. valid d' s' = valid d' s)
        \<and> (case r of None \<Rightarrow> items d s' = items d s | Some x \<Rightarrow> items d s = x # items d s')
        \<and> (\<forall>d'. d' \<noteq> d \<longrightarrow> items d' s' = items d' s)"
    and fit_law: "inv s \<Longrightarrow> length (items d s) \<le> cap s"

sublocale fifo_family \<subseteq> chan: bounded_fifo "enq d" "deq d" "items d" inv cap "valid d" for d
proof unfold_locales
  show "\<exists>b s'. enq d x s = Some (b, s') \<and> inv s' \<and> cap s' = cap s \<and> valid d s' = valid d s
      \<and> b = (length (items d s) < cap s)
      \<and> items d s' = (if b then items d s @ [x] else items d s)"
    if "inv s" "valid d s x" for s x
    using send_law[OF that] by blast
  show "\<exists>r s'. deq d s = Some (r, s') \<and> inv s' \<and> cap s' = cap s \<and> valid d s' = valid d s
      \<and> (case r of None \<Rightarrow> items d s' = items d s | Some x \<Rightarrow> items d s = x # items d s')"
    if "inv s" for s
    using recv_law[OF that] by blast
qed (rule fit_law)

context fifo_family begin

lemma family_run_ok:
  assumes "inv s" "list_all (\<lambda>(d, oper). op_valid (valid d s) oper) ops"
  shows "\<exists>acc del s'. family_run enq deq ops s = Some (acc, del, s') \<and> inv s' \<and> cap s' = cap s
    \<and> (\<forall>d. items d s @ on_dir d acc = on_dir d del @ items d s' \<and> length (items d s') \<le> cap s)"
  using assms
proof (induction ops arbitrary: s)
  case Nil
  then show ?case using fit_law by simp
next
  case (Cons dop ops)
  obtain d oper where [simp]: "dop = (d, oper)" by (cases dop)
  show ?case
  proof (cases oper)
    case (Enq x)
    have "valid d s x" using Cons.prems(2) Enq by simp
    with send_law[OF Cons.prems(1)] obtain b s1 where s1: "enq d x s = Some (b, s1)" "inv s1"
      "cap s1 = cap s" "\<forall>d'. valid d' s1 = valid d' s"
      "items d s1 = (if b then items d s @ [x] else items d s)"
      "\<forall>d'. d' \<noteq> d \<longrightarrow> items d' s1 = items d' s" by blast
    have "list_all (\<lambda>(d, oper). op_valid (valid d s1) oper) ops" using Cons.prems(2) s1(4) by simp
    from Cons.IH[OF s1(2) this] obtain acc del s2 where s2:
      "family_run enq deq ops s1 = Some (acc, del, s2)" "inv s2" "cap s2 = cap s1"
      "\<forall>d. items d s1 @ on_dir d acc = on_dir d del @ items d s2 \<and> length (items d s2) \<le> cap s1"
      by blast
    let ?acc = "if b then (d, x) # acc else acc"
    have each: "items d' s @ on_dir d' ?acc = on_dir d' del @ items d' s2" for d'
      using s2(4)[rule_format, of d'] s1(5,6) by (cases "d' = d") (auto split: if_splits)
    have "family_run enq deq (dop # ops) s = Some (?acc, del, s2)"
      using s1(1) s2(1) Enq by simp
    with each s1(3) s2 show ?thesis by auto
  next
    case Deq
    from recv_law[OF Cons.prems(1), of d] obtain r s1 where s1: "deq d s = Some (r, s1)" "inv s1"
      "cap s1 = cap s" "\<forall>d'. valid d' s1 = valid d' s"
      "case r of None \<Rightarrow> items d s1 = items d s | Some x \<Rightarrow> items d s = x # items d s1"
      "\<forall>d'. d' \<noteq> d \<longrightarrow> items d' s1 = items d' s" by blast
    have "list_all (\<lambda>(d, oper). op_valid (valid d s1) oper) ops" using Cons.prems(2) s1(4) by simp
    from Cons.IH[OF s1(2) this] obtain acc del s2 where s2:
      "family_run enq deq ops s1 = Some (acc, del, s2)" "inv s2" "cap s2 = cap s1"
      "\<forall>d. items d s1 @ on_dir d acc = on_dir d del @ items d s2 \<and> length (items d s2) \<le> cap s1"
      by blast
    let ?del = "case r of Some x \<Rightarrow> (d, x) # del | None \<Rightarrow> del"
    have each: "items d' s @ on_dir d' acc = on_dir d' ?del @ items d' s2" for d'
    proof (cases "d' = d")
      case True
      then show ?thesis using s2(4)[rule_format, of d] s1(5) by (cases r) simp_all
    next
      case False
      have "on_dir d' ?del = on_dir d' del" using False by (cases r) simp_all
      then show ?thesis using s2(4)[rule_format, of d'] s1(6) False by simp
    qed
    have "family_run enq deq (dop # ops) s = Some (acc, ?del, s2)"
      using s1(1) s2(1) Deq by simp
    with each s1(3) s2 show ?thesis by auto
  qed
qed

end

end
