(* ===== verification/GcqLink.thy ===== *)
theory GcqLink
  imports GcqQueue GcqIp Fifo
begin

text \<open>
  Two drivers joined by one IP block: the producer-mode driver (the card's firmware)
  and the consumer-mode driver (the host), each with its own private data. The
  submission queue carries messages from the consumer-mode side, the completion queue
  from the producer-mode side. The link's invariant, its preservation by sending and
  receiving, and the interpretation of the FIFO contract on both queues.
\<close>

section \<open>State and operations\<close>

record gcq_link =
  lkProd :: "gcq_ip GCQ_PRIVATE_DATA"
  lkCons :: "gcq_ip GCQ_PRIVATE_DATA"
  lkProdPx :: nat
  lkConsPx :: nat
  lkIp :: gcq_ip
  lkLogSlots :: nat
  lkSqWords :: nat
  lkCqWords :: nat
  lkSqLen :: nat
  lkCqLen :: nat
  lkInMem :: bool

definition lk_drv :: "gcq_side \<Rightarrow> gcq_link \<Rightarrow> gcq_ip GCQ_PRIVATE_DATA" where
  "lk_drv s l = (case s of PROD_SIDE \<Rightarrow> lkProd l | CONS_SIDE \<Rightarrow> lkCons l)"

definition lk_px :: "gcq_side \<Rightarrow> gcq_link \<Rightarrow> nat" where
  "lk_px s l = (case s of PROD_SIDE \<Rightarrow> lkProdPx l | CONS_SIDE \<Rightarrow> lkConsPx l)"

definition lk_put :: "gcq_side \<Rightarrow> gcq_ip GCQ_PRIVATE_DATA \<Rightarrow> gcq_ip \<Rightarrow> gcq_link \<Rightarrow> gcq_link" where
  "lk_put s d w l = (case s of PROD_SIDE \<Rightarrow> l\<lparr>lkProd := d, lkIp := w\<rparr>
                             | CONS_SIDE \<Rightarrow> l\<lparr>lkCons := d, lkIp := w\<rparr>)"

definition lk_words :: "ring_ptr \<Rightarrow> gcq_link \<Rightarrow> nat" where
  "lk_words q l = (case q of RING_SQ \<Rightarrow> lkSqWords l | RING_CQ \<Rightarrow> lkCqWords l)"

definition lk_len :: "ring_ptr \<Rightarrow> gcq_link \<Rightarrow> nat" where
  "lk_len q l = (case q of RING_SQ \<Rightarrow> lkSqLen l | RING_CQ \<Rightarrow> lkCqLen l)"

text \<open>The side that produces onto a queue, and the side that consumes it.\<close>

definition q_src :: "ring_ptr \<Rightarrow> gcq_side" where
  "q_src q = (case q of RING_SQ \<Rightarrow> CONS_SIDE | RING_CQ \<Rightarrow> PROD_SIDE)"

definition q_dst :: "ring_ptr \<Rightarrow> gcq_side" where
  "q_dst q = (case q of RING_SQ \<Rightarrow> PROD_SIDE | RING_CQ \<Rightarrow> CONS_SIDE)"

text \<open>Send a message of words on a queue: was it accepted; receive a message, if any.\<close>

definition gcq_send :: "ring_ptr \<Rightarrow> u32 list \<Rightarrow> gcq_link \<Rightarrow> (bool \<times> gcq_link) option" where
  "gcq_send q x l =
     do { (st, d, w) \<leftarrow> xGCQProduceData (Some (lk_px (q_src q) l)) (Some x)
            (of_nat (4 * length x)) (lk_drv (q_src q) l) (lkIp l);
          if st = GCQ_ERRORS_NONE then Some (True, lk_put (q_src q) d w l)
          else if st = GCQ_ERRORS_PRODUCER_NO_FREE_SLOTS then Some (False, lk_put (q_src q) d w l)
          else None }"

definition gcq_recv :: "ring_ptr \<Rightarrow> gcq_link \<Rightarrow> (u32 list option \<times> gcq_link) option" where
  "gcq_recv q l =
     do { (st, buf, d, w) \<leftarrow> xGCQConsumeData (Some (lk_px (q_dst q) l))
            (Some (replicate (lk_len q l) 0)) (of_nat (4 * lk_len q l))
            (lk_drv (q_dst q) l) (lkIp l);
          if st = GCQ_ERRORS_NONE then Some (buf, lk_put (q_dst q) d w l)
          else if st = GCQ_ERRORS_CONSUMER_NO_DATA_RECEIVED
          then Some (None, lk_put (q_dst q) d w l)
          else None }"

section \<open>Where the queues lie\<close>

definition q_prod_cell :: "gcq_link \<Rightarrow> ring_ptr \<Rightarrow> gcq_cell" where
  "q_prod_cell l q = (if lkInMem l then SHARED (case q of RING_SQ \<Rightarrow> 9 | RING_CQ \<Rightarrow> 10)
                      else own_tail (q_src q))"

definition q_cons_cell :: "ring_ptr \<Rightarrow> gcq_cell" where
  "q_cons_cell q = SHARED (case q of RING_SQ \<Rightarrow> 6 | RING_CQ \<Rightarrow> 7)"

definition q_slot_cell :: "gcq_link \<Rightarrow> ring_ptr \<Rightarrow> nat \<Rightarrow> nat \<Rightarrow> gcq_cell" where
  "q_slot_cell l q i j = SHARED (case q of
       RING_SQ \<Rightarrow> 11 + lkSqWords l * i + j
     | RING_CQ \<Rightarrow> 11 + 2 ^ lkLogSlots l * lkSqWords l + lkCqWords l * i + j)"

definition lk_inst :: "gcq_side \<Rightarrow> gcq_link \<Rightarrow> gcq_ip GCQ_INSTANCE_TYPE" where
  "lk_inst s l = xGCQInstances (lk_drv s l) ! lk_px s l"

definition lk_ring :: "gcq_side \<Rightarrow> ring_ptr \<Rightarrow> gcq_link \<Rightarrow> GCQ_RING_TYPE" where
  "lk_ring s q l = ring_of q (lk_inst s l)"

definition lk_P :: "ring_ptr \<Rightarrow> gcq_link \<Rightarrow> u32" where
  "lk_P q l = ip_get (lkIp l) (q_prod_cell l q)"

definition lk_C :: "ring_ptr \<Rightarrow> gcq_link \<Rightarrow> u32" where
  "lk_C q l = ip_get (lkIp l) (q_cons_cell q)"

text \<open>The messages pending on a queue, oldest first.\<close>

definition lk_items :: "ring_ptr \<Rightarrow> gcq_link \<Rightarrow> u32 list list" where
  "lk_items q l = queue_items (ip_get (lkIp l)) (q_slot_cell l q) (lkLogSlots l) (lk_len q l)
                    (lk_P q l) (lk_C q l)"

definition lk_cap :: "gcq_link \<Rightarrow> nat" where
  "lk_cap l = 2 ^ lkLogSlots l"

definition lk_valid :: "ring_ptr \<Rightarrow> gcq_link \<Rightarrow> u32 list \<Rightarrow> bool" where
  "lk_valid q l x \<longleftrightarrow> length x = lk_len q l"

definition side_mode :: "gcq_side \<Rightarrow> GCQ_MODE_TYPE" where
  "side_mode s = (case s of PROD_SIDE \<Rightarrow> GCQ_MODE_TYPE_PRODUCER_MODE
                          | CONS_SIDE \<Rightarrow> GCQ_MODE_TYPE_CONSUMER_MODE)"

section \<open>Invariant\<close>

definition side_ok :: "gcq_side \<Rightarrow> gcq_link \<Rightarrow> bool" where
  "side_ok s l \<longleftrightarrow>
     (let d = lk_drv s l; g = lk_inst s l in
        firewalls_ok d \<and> lk_px s l < length (xGCQInstances d) \<and> iInitialised g \<and>
        pxGCQIOAccess g = Some (ip_io s) \<and> xMode g = side_mode s \<and>
        ullBaseAddr g = ip_base s (lkIp l) \<and>
        (s = CONS_SIDE \<longrightarrow> ucConsumerAttached d) \<and>
        (\<forall>q. (q_src q = s \<longrightarrow> pxGCQProducer g = Some q \<and>
                 ulProducerSlotSize g = of_nat (4 * lk_words q l)) \<and>
             (q_dst q = s \<longrightarrow> pxGCQConsumer g = Some q \<and>
                 ulConsumerSlotSize g = of_nat (4 * lk_words q l)) \<and>
             ring_at (ip_loc s (lkIp l)) (ring_of q g) (q_prod_cell l q) (q_cons_cell q)
               (q_slot_cell l q) (lkLogSlots l) (lk_words q l)))"

definition lk_inv :: "gcq_link \<Rightarrow> bool" where
  "lk_inv l \<longleftrightarrow> (\<forall>s. side_ok s l) \<and>
     (\<forall>q. lk_len q l \<le> lk_words q l \<and>
          queue_inv (lkLogSlots l) (lk_P q l) (lk_C q l) (lk_ring (q_src q) q l) (lk_ring (q_dst q) q l))"

text \<open>
  The driver of either side answers while the two tail registers are not both all
  ones, the pattern it takes for an absent device.
\<close>

definition lk_ready :: "gcq_link \<Rightarrow> bool" where
  "lk_ready l \<longleftrightarrow> \<not> (ipProdTail (lkIp l) = - 1 \<and> ipConsTail (lkIp l) = - 1)"

lemma q_src_dst [simp]: "q_src q \<noteq> q_dst q" "q_dst q \<noteq> q_src q"
  by (cases q; simp add: q_src_def q_dst_def)+

section \<open>Updating one ring of one side\<close>

definition lk_upd :: "gcq_side \<Rightarrow> ring_ptr \<Rightarrow> GCQ_RING_TYPE \<Rightarrow> gcq_ip \<Rightarrow> gcq_link \<Rightarrow> gcq_link" where
  "lk_upd s q r w l =
     lk_put s (put_instance (Some (lk_px s l)) (set_ring q r (lk_inst s l)) (lk_drv s l)) w l"

lemma lk_put_same [simp]:
  "lkIp (lk_put s d w l) = w" "lkLogSlots (lk_put s d w l) = lkLogSlots l"
  "lk_words q (lk_put s d w l) = lk_words q l" "lk_len q (lk_put s d w l) = lk_len q l"
  "lkInMem (lk_put s d w l) = lkInMem l" "lk_px s' (lk_put s d w l) = lk_px s' l"
  "lk_drv s (lk_put s d w l) = d" "s' \<noteq> s \<Longrightarrow> lk_drv s' (lk_put s d w l) = lk_drv s' l"
  "lkSqWords (lk_put s d w l) = lkSqWords l" "lkCqWords (lk_put s d w l) = lkCqWords l"
  by (cases s; cases s'; cases q; simp add: lk_put_def lk_words_def lk_len_def lk_px_def lk_drv_def)+

lemma lk_upd_same [simp]:
  "lkIp (lk_upd s q r w l) = w" "lkLogSlots (lk_upd s q r w l) = lkLogSlots l"
  "lk_words q' (lk_upd s q r w l) = lk_words q' l" "lk_len q' (lk_upd s q r w l) = lk_len q' l"
  "lkInMem (lk_upd s q r w l) = lkInMem l" "lk_px s' (lk_upd s q r w l) = lk_px s' l"
  "q_prod_cell (lk_upd s q r w l) q' = q_prod_cell l q'"
  "q_slot_cell (lk_upd s q r w l) q' = q_slot_cell l q'"
  "lk_cap (lk_upd s q r w l) = lk_cap l" "lk_valid q' (lk_upd s q r w l) = lk_valid q' l"
  "s' \<noteq> s \<Longrightarrow> lk_drv s' (lk_upd s q r w l) = lk_drv s' l"
  by (simp_all add: lk_upd_def q_prod_cell_def q_slot_cell_def lk_cap_def lk_valid_def fun_eq_iff
      split: ring_ptr.split)

lemma lk_drv_upd [simp]:
  "firewalls_ok (lk_drv s (lk_upd s q r w l)) = firewalls_ok (lk_drv s l)"
  "ucConsumerAttached (lk_drv s (lk_upd s q r w l)) = ucConsumerAttached (lk_drv s l)"
  "length (xGCQInstances (lk_drv s (lk_upd s q r w l))) = length (xGCQInstances (lk_drv s l))"
  by (simp_all add: lk_upd_def put_instance_def firewalls_ok_def)

lemma lk_inst_upd [simp]:
  "lk_px s l < length (xGCQInstances (lk_drv s l)) \<Longrightarrow>
    lk_inst s (lk_upd s q r w l) = set_ring q r (lk_inst s l)"
  "s' \<noteq> s \<Longrightarrow> lk_inst s' (lk_upd s q r w l) = lk_inst s' l"
  by (simp_all add: lk_inst_def lk_upd_def put_instance_def)

lemma lk_ring_upd [simp]:
  "lk_px s l < length (xGCQInstances (lk_drv s l)) \<Longrightarrow> lk_ring s q (lk_upd s q r w l) = r"
  "lk_px s l < length (xGCQInstances (lk_drv s l)) \<Longrightarrow> s' \<noteq> s \<or> q' \<noteq> q \<Longrightarrow>
    lk_ring s' q' (lk_upd s q r w l) = lk_ring s' q' l"
  by (cases "s' = s"; simp add: lk_ring_def)+

lemma side_ok_px: "side_ok s l \<Longrightarrow> lk_px s l < length (xGCQInstances (lk_drv s l))"
  by (simp add: side_ok_def Let_def)

lemma side_ok_upd:
  assumes "side_ok s l" "side_ok s' l" "ip_layout w = ip_layout (lkIp l)"
    "\<And>(L :: u64 \<Rightarrow> gcq_cell option) pc cc sc k m. ring_at L r pc cc sc k m = ring_at L (lk_ring s q l) pc cc sc k m"
  shows "side_ok s' (lk_upd s q r w l)"
proof -
  have base: "ip_base s' w = ip_base s' (lkIp l)"
    using assms(3) by (cases s') (auto simp: ip_layout_def ip_base_def)
  have loc: "ip_loc s' w = ip_loc s' (lkIp l)" using ip_layout_loc[OF assms(3)] by simp
  show ?thesis
  proof (cases "s' = s")
    case True
    have "ring_at L (ring_of q' (set_ring q r (lk_inst s l))) pc cc sc k m
        = ring_at L (ring_of q' (lk_inst s l)) pc cc sc k m"
      for q' and L :: "u64 \<Rightarrow> gcq_cell option" and pc cc sc k m
      using assms(4) by (cases "q' = q") (auto simp: lk_ring_def)
    then show ?thesis using assms(2) True base loc side_ok_px[OF assms(1)]
      by (simp add: side_ok_def Let_def)
  next
    case False
    then show ?thesis using assms(2) base loc by (simp add: side_ok_def Let_def)
  qed
qed

lemma lk_inv_upd:
  assumes inv: "lk_inv l" and lay: "ip_layout w = ip_layout (lkIp l)"
    and at: "\<And>(L :: u64 \<Rightarrow> gcq_cell option) pc cc sc k m. ring_at L r pc cc sc k m = ring_at L (lk_ring s q l) pc cc sc k m"
    and s: "s = q_src q \<or> s = q_dst q"
    and new: "queue_inv (lkLogSlots l) (ip_get w (q_prod_cell l q)) (ip_get w (q_cons_cell q))
      (if s = q_src q then r else lk_ring (q_src q) q l)
      (if s = q_dst q then r else lk_ring (q_dst q) q l)"
    and frame: "\<And>q'. q' \<noteq> q \<Longrightarrow> ip_get w (q_prod_cell l q') = ip_get (lkIp l) (q_prod_cell l q')"
      "\<And>q'. q' \<noteq> q \<Longrightarrow> ip_get w (q_cons_cell q') = ip_get (lkIp l) (q_cons_cell q')"
  shows "lk_inv (lk_upd s q r w l)"
proof -
  have px: "lk_px s l < length (xGCQInstances (lk_drv s l))"
    using inv by (simp add: lk_inv_def side_ok_px)
  have "side_ok s' (lk_upd s q r w l)" for s'
    using inv lay at by (intro side_ok_upd) (simp_all add: lk_inv_def)
  moreover have "queue_inv (lkLogSlots l) (ip_get w (q_prod_cell l q')) (ip_get w (q_cons_cell q'))
      (lk_ring (q_src q') q' (lk_upd s q r w l)) (lk_ring (q_dst q') q' (lk_upd s q r w l))" for q'
  proof (cases "q' = q")
    case True
    then show ?thesis using s new px by (elim disjE) simp_all
  next
    case False
    then show ?thesis using frame[OF False] inv px by (simp add: lk_inv_def lk_P_def lk_C_def)
  qed
  ultimately show ?thesis using inv by (simp add: lk_inv_def lk_P_def lk_C_def)
qed

section \<open>The cells of the queues are distinct\<close>

lemma cell_disjoint [simp]:
  "q_prod_cell l q \<noteq> q_cons_cell q'" "q_cons_cell q' \<noteq> q_prod_cell l q"
  "q_prod_cell l q \<noteq> q_slot_cell l q' i j" "q_cons_cell q \<noteq> q_slot_cell l q' i j"
  "q_slot_cell l q' i j \<noteq> q_prod_cell l q" "q_slot_cell l q' i j \<noteq> q_cons_cell q"
  "q' \<noteq> q \<Longrightarrow> q_prod_cell l q' \<noteq> q_prod_cell l q" "q' \<noteq> q \<Longrightarrow> q_cons_cell q' \<noteq> q_cons_cell q"
  by (cases q; cases q'; simp add: q_prod_cell_def q_cons_cell_def q_slot_cell_def own_tail_def
      q_src_def)+

lemma mult_add_less_inj:
  fixes m i j i' j' :: nat
  assumes "m * i + j = m * i' + j'" "j < m" "j' < m"
  shows "i = i' \<and> j = j'"
proof -
  have "(m * i + j) div m = i" "(m * i' + j') div m = i'" using assms(2,3) by simp_all
  then show ?thesis using assms(1) by simp
qed

lemma slot_cell_inj:
  assumes "q_slot_cell l q i j = q_slot_cell l q i' j'" "j < lk_words q l" "j' < lk_words q l"
  shows "i = i' \<and> j = j'"
  using assms by (cases q) (auto simp: q_slot_cell_def lk_words_def dest: mult_add_less_inj)

lemma slot_cell_cross:
  assumes "q' \<noteq> q" "i < 2 ^ lkLogSlots l" "j < lk_words q l"
    "i' < 2 ^ lkLogSlots l" "j' < lk_words q' l"
  shows "q_slot_cell l q i j \<noteq> q_slot_cell l q' i' j'"
proof -
  have low: "n * a + b < 2 ^ lkLogSlots l * n" if "a < 2 ^ lkLogSlots l" "b < n" for n a b :: nat
  proof -
    have "n * a + b < n * (a + 1)" using that(2) by simp
    also have "\<dots> \<le> n * 2 ^ lkLogSlots l" using that(1) by (intro mult_le_mono2) simp
    finally show ?thesis by (simp add: mult.commute)
  qed
  show ?thesis using low[OF assms(2,3)] low[OF assms(4,5)] assms(1)
    by (cases q; cases q') (auto simp: q_slot_cell_def lk_words_def)
qed

lemma slot_cell_image:
  assumes "c \<in> q_slot_cell l q i ` {..<n}" "i < 2 ^ lkLogSlots l" "n \<le> lk_words q l"
  shows "c \<noteq> q_prod_cell l q'" "c \<noteq> q_cons_cell q'"
    "q' \<noteq> q \<Longrightarrow> i' < 2 ^ lkLogSlots l \<Longrightarrow> j' < lk_words q' l \<Longrightarrow> c \<noteq> q_slot_cell l q' i' j'"
    "i' \<noteq> i \<Longrightarrow> j' < lk_words q l \<Longrightarrow> c \<noteq> q_slot_cell l q i' j'"
proof -
  from assms(1) obtain x where x: "x < n" "c = q_slot_cell l q i x" by auto
  show "c \<noteq> q_prod_cell l q'" "c \<noteq> q_cons_cell q'" using x(2) by simp_all
  show "c \<noteq> q_slot_cell l q' i' j'"
    if "q' \<noteq> q" "i' < 2 ^ lkLogSlots l" "j' < lk_words q' l"
    using slot_cell_cross[OF that(1) assms(2) _ that(2,3), of x] x assms(3) by simp
  show "c \<noteq> q_slot_cell l q i' j'" if "i' \<noteq> i" "j' < lk_words q l"
    using slot_cell_inj[of l q i x i' j'] x assms(3) that by auto
qed

lemma writable_cells [simp]:
  "ip_writable (q_src q) (q_prod_cell l q)" "ip_writable s (q_cons_cell q)"
  "ip_writable s (q_slot_cell l q i j)"
  by (cases q; cases s; simp add: ip_writable_def q_prod_cell_def q_cons_cell_def q_slot_cell_def
      peer_tail_def own_tail_def q_src_def)+

section \<open>What the invariant says of a side\<close>

lemma side_facts:
  assumes "lk_inv l"
  shows "firewalls_ok (lk_drv s l)" "lk_px s l < length (xGCQInstances (lk_drv s l))"
    "deref_instance (lk_drv s l) (Some (lk_px s l)) = Some (lk_inst s l)"
    "iInitialised (lk_inst s l)" "pxGCQIOAccess (lk_inst s l) = Some (ip_io s)"
    "xMode (lk_inst s l) = side_mode s" "ullBaseAddr (lk_inst s l) = ip_base s (lkIp l)"
    "s = CONS_SIDE \<Longrightarrow> ucConsumerAttached (lk_drv s l)"
    "q_src q = s \<Longrightarrow> pxGCQProducer (lk_inst s l) = Some q"
    "q_src q = s \<Longrightarrow> ulProducerSlotSize (lk_inst s l) = of_nat (4 * lk_words q l)"
    "q_dst q = s \<Longrightarrow> pxGCQConsumer (lk_inst s l) = Some q"
    "q_dst q = s \<Longrightarrow> ulConsumerSlotSize (lk_inst s l) = of_nat (4 * lk_words q l)"
    "ring_at (ip_loc s (lkIp l)) (lk_ring s q l) (q_prod_cell l q) (q_cons_cell q)
       (q_slot_cell l q) (lkLogSlots l) (lk_words q l)"
proof -
  have "side_ok s l" using assms by (simp add: lk_inv_def)
  then show "firewalls_ok (lk_drv s l)" "lk_px s l < length (xGCQInstances (lk_drv s l))"
    "deref_instance (lk_drv s l) (Some (lk_px s l)) = Some (lk_inst s l)"
    "iInitialised (lk_inst s l)" "pxGCQIOAccess (lk_inst s l) = Some (ip_io s)"
    "xMode (lk_inst s l) = side_mode s" "ullBaseAddr (lk_inst s l) = ip_base s (lkIp l)"
    "s = CONS_SIDE \<Longrightarrow> ucConsumerAttached (lk_drv s l)"
    "q_src q = s \<Longrightarrow> pxGCQProducer (lk_inst s l) = Some q"
    "q_src q = s \<Longrightarrow> ulProducerSlotSize (lk_inst s l) = of_nat (4 * lk_words q l)"
    "q_dst q = s \<Longrightarrow> pxGCQConsumer (lk_inst s l) = Some q"
    "q_dst q = s \<Longrightarrow> ulConsumerSlotSize (lk_inst s l) = of_nat (4 * lk_words q l)"
    "ring_at (ip_loc s (lkIp l)) (lk_ring s q l) (q_prod_cell l q) (q_cons_cell q)
       (q_slot_cell l q) (lkLogSlots l) (lk_words q l)"
    by (simp_all add: side_ok_def Let_def lk_ring_def deref_instance_def lk_inst_def)
qed

lemma ip_loc_regs:
  "ip_loc s w (ip_base s w + GCQ_PRODUCER_SQ_TAIL_POINTER) = Some (own_tail s)"
  "ip_loc s w (ip_base s w + GCQ_PRODUCER_CQ_TAIL_POINTER) = Some (peer_tail s)"
  "ip_loc s w (ip_base s w + 4) = None" "\<not> ip_reset_request s w (ip_base s w + 4) v"
  by (simp_all add: ip_loc_def gcq_regmap ip_reset_request_def)

lemma side_interrupt_reg: "interrupt_reg_addr (side_mode s) base = Some (base + 4)"
  by (cases s) (simp_all add: interrupt_reg_addr_def side_mode_def gcq_regmap)

lemma queue_facts:
  assumes "lk_inv l"
  shows "lk_len q l \<le> lk_words q l"
    "queue_inv (lkLogSlots l) (lk_P q l) (lk_C q l) (lk_ring (q_src q) q l) (lk_ring (q_dst q) q l)"
    "lkLogSlots l < 32" "ulRingSlotNum (lk_ring s q l) = 2 ^ lkLogSlots l"
  using assms side_facts(13)[OF assms, where s = s and q = q] by (auto simp: lk_inv_def ring_at_def)

section \<open>Sending and receiving\<close>

lemma send_room:
  assumes inv: "lk_inv l" and x: "lk_valid q l x" and room: "length (lk_items q l) < lk_cap l"
  shows "\<exists>l'. gcq_send q x l = Some (True, l') \<and> lk_inv l' \<and> lk_items q l' = lk_items q l @ [x]
    \<and> lk_P q l' = lk_P q l + 1 \<and> (\<forall>q'. q' \<noteq> q \<longrightarrow> lk_P q' l' = lk_P q' l) \<and> lkInMem l' = lkInMem l
    \<and> (\<forall>q'. q' \<noteq> q \<longrightarrow> lk_items q' l' = lk_items q' l)
    \<and> lk_cap l' = lk_cap l \<and> (\<forall>q'. lk_valid q' l' = lk_valid q' l)"
proof -
  let ?s = "q_src q" and ?k = "lkLogSlots l" and ?m = "lk_words q l" and ?P = "lk_P q l"
  let ?r = "lk_ring ?s q l" and ?C = "lk_C q l" and ?w = "lkIp l"
  let ?r' = "(refresh_consumed ?r ?C)\<lparr>ulRingProduced := ?P + 1\<rparr>"
  note f = side_facts[OF inv, where s = ?s] and qf = queue_facts(1,2)[OF inv, where q = q]
    queue_facts(3)[OF inv] queue_facts(4)[OF inv, where q = q]
  have P: "ulRingProduced ?r = ?P" using qf(2) by (simp add: queue_inv_def)
  have len: "length x = lk_len q l" "length x \<le> ?m" using x qf(1) by (simp_all add: lk_valid_def)
  have dist: "unat (?P - ?C) < 2 ^ ?k" using room by (simp add: lk_items_def lk_cap_def)
  then have rm: "produce_room ?r (ip_get ?w (q_cons_cell q))"
    using room_iff[OF qf(2,3) qf(4)[where s = ?s]] by (simp add: lk_C_def)
  have "\<exists>w'. xGCQProduceData (Some (lk_px ?s l)) (Some x) (of_nat (4 * length x)) (lk_drv ?s l) ?w =
      Some (GCQ_ERRORS_NONE, put_instance (Some (lk_px ?s l)) (set_ring q
        ((refresh_consumed ?r (ip_get ?w (q_cons_cell q)))\<lparr>ulRingProduced := ulRingProduced ?r + 1\<rparr>)
        (lk_inst ?s l)) (lk_drv ?s l), w')
    \<and> ip_layout w' = ip_layout ?w \<and> ip_get w' (q_prod_cell l q) = ulRingProduced ?r + 1
    \<and> (\<forall>j<length x. ip_get w' (q_slot_cell l q (slot_ix ?k (ulRingProduced ?r)) j) = x ! j)
    \<and> (\<forall>c. c \<noteq> q_prod_cell l q \<longrightarrow>
        c \<notin> q_slot_cell l q (slot_ix ?k (ulRingProduced ?r)) ` {..<length x} \<longrightarrow>
        ip_get w' c = ip_get ?w c)"
  proof (rule side_bus.produce_data_room)
    show "inj_on (q_slot_cell l q (slot_ix ?k (ulRingProduced ?r))) {..<?m}"
      by (auto simp: inj_on_def dest: slot_cell_inj)
    show "interrupt_reg_addr (xMode (lk_inst ?s l)) (ullBaseAddr (lk_inst ?s l))
        = Some (ip_base ?s ?w + 4)" using f(6,7) by (simp add: side_interrupt_reg)
  qed (use f(1,3-5) f(9,10)[where q = q, OF refl] f(13)[where q = q] len rm in \<open>auto simp: lk_ring_def ip_loc_regs\<close>)
  then obtain w' where
    w': "xGCQProduceData (Some (lk_px ?s l)) (Some x) (of_nat (4 * length x)) (lk_drv ?s l) ?w =
        Some (GCQ_ERRORS_NONE, put_instance (Some (lk_px ?s l)) (set_ring q ?r' (lk_inst ?s l))
          (lk_drv ?s l), w')" "ip_layout w' = ip_layout ?w" "ip_get w' (q_prod_cell l q) = ?P + 1"
      "\<forall>j<length x. ip_get w' (q_slot_cell l q (slot_ix ?k ?P) j) = x ! j"
      "\<forall>c. c \<noteq> q_prod_cell l q \<longrightarrow> c \<notin> q_slot_cell l q (slot_ix ?k ?P) ` {..<length x} \<longrightarrow>
        ip_get w' c = ip_get ?w c"
    unfolding P lk_C_def by blast
  let ?l' = "lk_upd ?s q ?r' w' l"
  have keep: "ip_get w' c = ip_get ?w c"
    if "c \<noteq> q_prod_cell l q" "c \<notin> q_slot_cell l q (slot_ix ?k ?P) ` {..<length x}" for c
    using w'(5) that by blast
  have cc: "ip_get w' (q_cons_cell q') = ip_get ?w (q_cons_cell q')" for q'
    by (rule keep) auto
  have pc: "ip_get w' (q_prod_cell l q') = ip_get ?w (q_prod_cell l q')" if "q' \<noteq> q" for q'
    by (rule keep) (use that in auto)
  have sent: "gcq_send q x l = Some (True, ?l')"
    using w'(1) by (simp add: gcq_send_def lk_upd_def)
  have inv': "lk_inv ?l'"
  proof (rule lk_inv_upd[OF inv w'(2)])
    show "queue_inv ?k (ip_get w' (q_prod_cell l q)) (ip_get w' (q_cons_cell q))
        (if ?s = q_src q then ?r' else lk_ring (q_src q) q l)
        (if ?s = q_dst q then ?r' else lk_ring (q_dst q) q l)"
      using inv_produce[OF qf(2,3) qf(4) dist] w'(3) cc[of q] by (simp add: lk_C_def)
  qed (use cc pc in auto)
  have same: "ip_get w' (q_slot_cell l q' i j) = ip_get ?w (q_slot_cell l q' i j)"
    if "i < 2 ^ ?k" "j < lk_words q' l" "q' \<noteq> q \<or> i \<noteq> slot_ix ?k ?P" for q' i j
  proof (rule keep)
    show "q_slot_cell l q' i j \<notin> q_slot_cell l q (slot_ix ?k ?P) ` {..<length x}"
    proof
      assume c: "q_slot_cell l q' i j \<in> q_slot_cell l q (slot_ix ?k ?P) ` {..<length x}"
      note im = slot_cell_image(3,4)[OF c slot_ix_less len(2)]
      show False using im(1)[OF _ that(1,2)] im(2)[of i j] that by (cases "q' = q") simp_all
    qed
  qed simp
  have "lk_items q ?l' = lk_items q l @ [x]"
    unfolding lk_items_def lk_P_def lk_C_def
    using items_push[OF qf(3) dist len(1), of "ip_get w'" "q_slot_cell l q" "ip_get ?w"]
      w'(3,4) same[of _ _ q] len cc[of q] by (simp add: lk_P_def lk_C_def)
  moreover have "lk_items q' ?l' = lk_items q' l" if "q' \<noteq> q" for q'
  proof -
    have "\<forall>i<2 ^ ?k. \<forall>j<lk_len q' l.
        ip_get w' (q_slot_cell l q' i j) = ip_get ?w (q_slot_cell l q' i j)"
      using same[of _ _ q'] queue_facts(1)[OF inv, where q = q'] that by simp
    from items_frame[OF this] show ?thesis
      by (simp add: lk_items_def lk_P_def lk_C_def cc pc[OF that])
  qed
  moreover have "lk_P q ?l' = ?P + 1" "\<forall>q'. q' \<noteq> q \<longrightarrow> lk_P q' ?l' = lk_P q' l"
    using w'(3) pc by (simp_all add: lk_P_def)
  ultimately show ?thesis using sent inv' by (intro exI[of _ ?l']) simp
qed

lemma send_full:
  assumes inv: "lk_inv l" and x: "lk_valid q l x" and room: "\<not> length (lk_items q l) < lk_cap l"
  shows "\<exists>l'. gcq_send q x l = Some (False, l') \<and> lk_inv l'
    \<and> (\<forall>q'. lk_items q' l' = lk_items q' l) \<and> lk_cap l' = lk_cap l \<and> (\<forall>q'. lk_valid q' l' = lk_valid q' l)"
proof -
  let ?s = "q_src q" and ?k = "lkLogSlots l" and ?m = "lk_words q l"
  let ?r = "lk_ring ?s q l" and ?C = "lk_C q l" and ?w = "lkIp l"
  let ?r' = "refresh_consumed ?r ?C"
  note f = side_facts[OF inv, where s = ?s] and qf = queue_facts(1,2)[OF inv, where q = q]
    queue_facts(3)[OF inv] queue_facts(4)[OF inv, where q = q]
  have len: "length x \<le> ?m" using x qf(1) by (simp add: lk_valid_def)
  have rm: "\<not> produce_room ?r (ip_get ?w (q_cons_cell q))"
    using room_iff[OF qf(2,3) qf(4)[where s = ?s]] room by (simp add: lk_C_def lk_items_def lk_cap_def)
  from side_bus.produce_data_full[OF f(1,3-5) f(9)[where q = q, OF refl] lk_ring_def
      f(10)[where q = q, OF refl] f(13)[where q = q] len rm]
  obtain w' where w': "xGCQProduceData (Some (lk_px ?s l)) (Some x) (of_nat (4 * length x))
      (lk_drv ?s l) ?w = Some (GCQ_ERRORS_PRODUCER_NO_FREE_SLOTS,
        put_instance (Some (lk_px ?s l)) (set_ring q ?r' (lk_inst ?s l)) (lk_drv ?s l), w')"
    "ip_layout w' = ip_layout ?w" "ip_get w' = ip_get ?w" by (auto simp: lk_C_def)
  let ?l' = "lk_upd ?s q ?r' w' l"
  have "gcq_send q x l = Some (False, ?l')" using w'(1) by (simp add: gcq_send_def lk_upd_def)
  moreover have "lk_inv ?l'"
    by (rule lk_inv_upd[OF inv w'(2)])
      (use inv_produce_full[OF qf(2)] w'(3) in \<open>simp_all add: lk_C_def lk_P_def\<close>)
  moreover have "lk_items q' ?l' = lk_items q' l" for q'
    by (simp add: lk_items_def lk_P_def lk_C_def w'(3))
  ultimately show ?thesis by (intro exI[of _ ?l']) simp
qed

lemma recv_setup:
  assumes inv: "lk_inv l"
  shows "side_bus.consume_setup (q_dst q) (lk_drv (q_dst q) l) (Some (lk_px (q_dst q) l))
    (lk_inst (q_dst q) l) q (lk_ring (q_dst q) q l) (lkIp l) (lk_words q l) (lk_len q l)
    (own_tail (q_dst q)) (peer_tail (q_dst q))"
  using side_facts[OF inv, where s = "q_dst q"] queue_facts(1)[OF inv, where q = q]
  by (auto simp: side_bus.consume_setup_def lk_ring_def ip_loc_regs side_mode_def
      split: gcq_side.splits)

lemma ready_counts:
  "\<not> lkInMem l \<Longrightarrow> lk_ready l \<longleftrightarrow> \<not> (lk_P RING_CQ l = - 1 \<and> lk_P RING_SQ l = - 1)"
  by (simp add: lk_ready_def lk_P_def q_prod_cell_def q_src_def own_tail_def)

lemma tails_ready:
  "(ip_get w (own_tail s) = - 1 \<and> ip_get w (peer_tail s) = - 1) \<longleftrightarrow>
    ipProdTail w = - 1 \<and> ipConsTail w = - 1"
  by (cases s) (auto simp: own_tail_def peer_tail_def)

lemma recv_none:
  assumes inv: "lk_inv l" and none: "\<not> lk_ready l \<or> lk_items q l = []"
  shows "\<exists>l'. gcq_recv q l = Some (None, l') \<and> lk_inv l' \<and> (\<forall>q'. lk_items q' l' = lk_items q' l)
    \<and> lk_cap l' = lk_cap l \<and> (\<forall>q'. lk_valid q' l' = lk_valid q' l) \<and> (lk_ready l' \<longleftrightarrow> lk_ready l)"
proof -
  let ?s = "q_dst q" and ?w = "lkIp l" and ?r = "lk_ring (q_dst q) q l"
  note f = side_facts[OF inv, where s = ?s] and qf = queue_facts(1,2)[OF inv, where q = q]
    queue_facts(3)[OF inv] queue_facts(4)[OF inv, where q = q]
  have "lk_items q l = [] \<longleftrightarrow> lk_P q l = lk_C q l"
    by (metis length_0_conv length_queue_items lk_items_def unat_sub_eq_0)
  then have "(ip_get ?w (own_tail ?s) = - 1 \<and> ip_get ?w (peer_tail ?s) = - 1)
    \<or> prvucGCQRingIsEmpty (refresh_produced ?r (ip_get ?w (q_prod_cell l q)))"
    using none empty_iff[OF qf(2)] tails_ready[of ?w ?s] by (auto simp: lk_ready_def lk_P_def)
  from side_bus.consume_data_none[OF recv_setup[OF inv] f(13)[where q = q] this,
      of "replicate (lk_len q l) 0"]
  obtain w' r' where w': "xGCQConsumeData (Some (lk_px ?s l)) (Some (replicate (lk_len q l) 0))
      (of_nat (4 * lk_len q l)) (lk_drv ?s l) ?w = Some (GCQ_ERRORS_CONSUMER_NO_DATA_RECEIVED,
        Some (replicate (lk_len q l) 0),
        put_instance (Some (lk_px ?s l)) (set_ring q r' (lk_inst ?s l)) (lk_drv ?s l), w')"
    and r': "r' \<in> {?r, refresh_produced ?r (lk_P q l)}"
    and w2: "ip_layout w' = ip_layout ?w" "ip_get w' = ip_get ?w" by (auto simp: lk_P_def)
  let ?l' = "lk_upd ?s q r' w' l"
  have "gcq_recv q l = Some (None, ?l')" using w' by (simp add: gcq_recv_def lk_upd_def)
  moreover have "lk_inv ?l'"
    by (rule lk_inv_upd[OF inv w2(1)])
      (use inv_consume_empty[OF qf(2) r'] r' w2(2) in \<open>auto simp: lk_C_def lk_P_def\<close>)
  moreover have "lk_items q' ?l' = lk_items q' l" for q'
    by (simp add: lk_items_def lk_P_def lk_C_def w2(2))
  moreover have "lk_ready ?l' \<longleftrightarrow> lk_ready l"
    using w2(2) tails_ready[of w' PROD_SIDE] tails_ready[of ?w PROD_SIDE] by (simp add: lk_ready_def)
  ultimately show ?thesis by (intro exI[of _ ?l']) simp
qed

lemma recv_some:
  assumes inv: "lk_inv l" and some: "lk_ready l" "lk_items q l \<noteq> []"
  shows "\<exists>x l'. gcq_recv q l = Some (Some x, l') \<and> lk_inv l' \<and> lk_items q l = x # lk_items q l'
    \<and> (\<forall>q'. q' \<noteq> q \<longrightarrow> lk_items q' l' = lk_items q' l)
    \<and> lk_cap l' = lk_cap l \<and> (\<forall>q'. lk_valid q' l' = lk_valid q' l) \<and> (lk_ready l' \<longleftrightarrow> lk_ready l)"
proof -
  let ?s = "q_dst q" and ?w = "lkIp l" and ?r = "lk_ring (q_dst q) q l"
  let ?k = "lkLogSlots l" and ?P = "lk_P q l" and ?C = "lk_C q l"
  let ?r' = "(refresh_produced ?r ?P)\<lparr>ulRingConsumed := ?C + 1\<rparr>"
  let ?x = "map (\<lambda>j. ip_get ?w (q_slot_cell l q (slot_ix ?k ?C) j)) [0..<lk_len q l]"
  note f = side_facts[OF inv, where s = ?s] and qf = queue_facts(1,2)[OF inv, where q = q]
    queue_facts(3)[OF inv] queue_facts(4)[OF inv, where q = q]
  have C: "ulRingConsumed ?r = ?C" using qf(2) by (simp add: queue_inv_def)
  have ne: "?P \<noteq> ?C" using some(2)
    by (metis length_0_conv length_queue_items lk_items_def unat_sub_eq_0)
  have s1: "\<not> (ip_get ?w (own_tail ?s) = - 1 \<and> ip_get ?w (peer_tail ?s) = - 1)"
    using some(1) tails_ready[of ?w ?s] by (simp add: lk_ready_def)
  have s2: "\<not> prvucGCQRingIsEmpty (refresh_produced ?r (ip_get ?w (q_prod_cell l q)))"
    using ne empty_iff[OF qf(2)] by (simp add: lk_P_def)
  have int: "interrupt_reg_addr (xMode (lk_inst ?s l)) (ullBaseAddr (lk_inst ?s l))
      = Some (ip_base ?s ?w + 4)" using f(6,7) by (simp add: side_interrupt_reg)
  have cells: "q_cons_cell q \<notin> q_slot_cell l q (slot_ix ?k (ulRingConsumed ?r)) ` {..<lk_words q l}"
    by auto
  from side_bus.consume_data_some[OF recv_setup[OF inv] f(13)[where q = q] writable_cells(2)
      cells int length_replicate s1 s2]
  obtain w' where w': "xGCQConsumeData (Some (lk_px ?s l)) (Some (replicate (lk_len q l) 0))
      (of_nat (4 * lk_len q l)) (lk_drv ?s l) ?w = Some (GCQ_ERRORS_NONE, Some ?x,
        put_instance (Some (lk_px ?s l)) (set_ring q ?r' (lk_inst ?s l)) (lk_drv ?s l), w')"
    and w2: "ip_layout w' = ip_layout ?w" "ip_get w' = (ip_get ?w)(q_cons_cell q := ?C + 1)"
    unfolding C by (auto simp: lk_P_def)
  let ?l' = "lk_upd ?s q ?r' w' l"
  have "gcq_recv q l = Some (Some ?x, ?l')" using w' by (simp add: gcq_recv_def lk_upd_def)
  moreover have "lk_inv ?l'"
    by (rule lk_inv_upd[OF inv w2(1)])
      (use inv_consume[OF qf(2) ne] w2(2) in \<open>auto simp: lk_C_def lk_P_def\<close>)
  moreover have "lk_items q l = ?x # lk_items q ?l'"
    using items_pop[OF ne, of ?k "lk_len q l" "ip_get w'" "q_slot_cell l q" "ip_get ?w"]
    by (simp add: lk_items_def lk_P_def lk_C_def w2(2))
  moreover have "lk_items q' ?l' = lk_items q' l" if "q' \<noteq> q" for q'
    using items_frame[of ?k "lk_len q' l" "ip_get w'" "q_slot_cell l q'" "ip_get ?w"] that
    by (simp add: lk_items_def lk_P_def lk_C_def w2(2))
  moreover have "lk_ready ?l' \<longleftrightarrow> lk_ready l"
  proof -
    have "ip_get w' PRODUCER_TAIL = ip_get ?w PRODUCER_TAIL"
      "ip_get w' CONSUMER_TAIL = ip_get ?w CONSUMER_TAIL"
      unfolding w2(2) by (simp_all add: q_cons_cell_def)
    then show ?thesis by (simp add: lk_ready_def)
  qed
  ultimately show ?thesis by (intro exI[of _ ?x] exI[of _ ?l']) simp
qed

section \<open>The queues keep the FIFO contract\<close>

lemma items_fit: "lk_inv l \<Longrightarrow> length (lk_items q l) \<le> lk_cap l"
  using queue_facts(2)[of l q] by (auto simp: lk_items_def lk_cap_def queue_inv_def)

interpretation gcq_fifo: fifo_family gcq_send gcq_recv lk_items lk_inv lk_cap lk_valid
proof unfold_locales
  fix l q x
  assume "lk_inv l" "lk_valid q l x"
  then show "\<exists>b l'. gcq_send q x l = Some (b, l') \<and> lk_inv l' \<and> lk_cap l' = lk_cap l
      \<and> (\<forall>q'. lk_valid q' l' = lk_valid q' l) \<and> b = (length (lk_items q l) < lk_cap l)
      \<and> lk_items q l' = (if b then lk_items q l @ [x] else lk_items q l)
      \<and> (\<forall>q'. q' \<noteq> q \<longrightarrow> lk_items q' l' = lk_items q' l)"
  proof (cases "length (lk_items q l) < lk_cap l")
    case True
    with send_room[OF \<open>lk_inv l\<close> \<open>lk_valid q l x\<close>] show ?thesis by auto
  next
    case False
    with send_full[OF \<open>lk_inv l\<close> \<open>lk_valid q l x\<close>] show ?thesis by auto
  qed
next
  fix l q
  assume "lk_inv l"
  then show "\<exists>r l'. gcq_recv q l = Some (r, l') \<and> lk_inv l' \<and> lk_cap l' = lk_cap l
      \<and> (\<forall>q'. lk_valid q' l' = lk_valid q' l)
      \<and> (case r of None \<Rightarrow> lk_items q l' = lk_items q l | Some x \<Rightarrow> lk_items q l = x # lk_items q l')
      \<and> (\<forall>q'. q' \<noteq> q \<longrightarrow> lk_items q' l' = lk_items q' l)"
  proof (cases "lk_ready l \<and> lk_items q l \<noteq> []")
    case True
    with recv_some[OF \<open>lk_inv l\<close>, of q] obtain x l' where
      "gcq_recv q l = Some (Some x, l')" "lk_inv l'" "lk_items q l = x # lk_items q l'"
      "\<forall>q'. q' \<noteq> q \<longrightarrow> lk_items q' l' = lk_items q' l" "lk_cap l' = lk_cap l"
      "\<forall>q'. lk_valid q' l' = lk_valid q' l" by blast
    then show ?thesis by (intro exI[of _ "Some x"] exI[of _ l']) simp
  next
    case False
    then have "\<not> lk_ready l \<or> lk_items q l = []" by blast
    from recv_none[OF \<open>lk_inv l\<close> this] show ?thesis
      by (elim exE conjE) (intro exI[of _ None], auto)
  qed
qed (rule items_fit)

interpretation gcq_chan: responsive_fifo "gcq_send q" "gcq_recv q" "lk_items q" lk_inv lk_cap
  "lk_valid q" lk_ready for q
proof unfold_locales
  show "\<exists>x l'. gcq_recv q l = Some (Some x, l')" if "lk_inv l" "lk_ready l" "lk_items q l \<noteq> []" for l
    using recv_some[OF that] by blast
  show "lk_ready l'" if "lk_inv l" "lk_ready l" "gcq_recv q l = Some (r, l')" for l r l'
    using recv_some[OF that(1,2)] recv_none[OF that(1)] that(2,3)
    by (cases "lk_items q l = []") force+
qed

end
