(* ===== verification/GcqBringUp.thy ===== *)
theory GcqBringUp
  imports GcqLink
begin

text \<open>
  Bringing the link up: the producer-mode driver initialises and publishes the header,
  the consumer-mode driver initialises with the same parameters and attaches. The
  result is a link that satisfies the invariant, with both queues empty.
\<close>

section \<open>The sequence of calls\<close>

definition gcq_bring_up ::
  "GCQ_INTERRUPT_MODE_TYPE \<Rightarrow> GCQ_INTERRUPT_MODE_TYPE \<Rightarrow> GCQ_FLAGS_TYPE \<Rightarrow> u64 \<Rightarrow> u32 \<Rightarrow> u32
   \<Rightarrow> nat \<Rightarrow> nat \<Rightarrow> gcq_ip \<Rightarrow> gcq_link option" where
  "gcq_bring_up imp imc flags ringlen sq cq sqlen cqlen w =
     do { (st1, px1, d1, w1) \<leftarrow> xGCQInit None (ip_io PROD_SIDE) GCQ_MODE_TYPE_PRODUCER_MODE imp flags
            (ipProdBase w) (ipProdRing w) ringlen sq cq xLocalData w;
          (st2, px2, d2, w2) \<leftarrow> xGCQInit None (ip_io CONS_SIDE) GCQ_MODE_TYPE_CONSUMER_MODE imc flags
            (ipConsBase w) (ipConsRing w) ringlen sq cq xLocalData w1;
          (st3, d3, w3) \<leftarrow> xGCQAttachConsumer px2 d2 w2;
          i1 \<leftarrow> px1; i2 \<leftarrow> px2;
          if st1 = GCQ_ERRORS_NONE \<and> st2 = GCQ_ERRORS_NONE \<and> st3 = GCQ_ERRORS_NONE
          then Some \<lparr> lkProd = d1, lkCons = d3, lkProdPx = i1, lkConsPx = i2, lkIp = w3,
                      lkLogSlots = prvulGetTrailingZeros
                        (ucast (ulRingSlotNum (xGCQSq (xGCQInstances d1 ! i1)))),
                      lkSqWords = unat sq div 4, lkCqWords = unat cq div 4,
                      lkSqLen = sqlen, lkCqLen = cqlen,
                      lkInMem = GCQ_FEATURES_IS_IN_MEM_PTR flags \<rparr>
          else None }"

text \<open>
  The shared memory lies outside each side's register window and within the address
  space.
\<close>

definition ip_separate :: "gcq_side \<Rightarrow> gcq_ip \<Rightarrow> bool" where
  "ip_separate s w \<longleftrightarrow> 4 * ipMemWords w < 2 ^ 64 \<and>
     (\<forall>i<ipMemWords w. 0x200 \<le> unat (ip_ring s w + of_nat (4 * i) - ip_base s w))"

lemma ip_separate_layout:
  "ip_layout w' = ip_layout w \<Longrightarrow> ip_separate s w' = ip_separate s w"
  by (cases s) (auto simp: ip_layout_def ip_separate_def ip_ring_def ip_base_def)

lemma ip_loc_mem:
  assumes "ip_separate s w" "i < ipMemWords w"
  shows "ip_loc s w (ip_ring s w + of_nat (4 * i)) = Some (SHARED i)"
proof -
  let ?a = "ip_ring s w + of_nat (4 * i)"
  have off: "unat (?a - ip_base s w) \<ge> 0x200" using assms by (simp add: ip_separate_def)
  have "4 * i < 2 ^ 64" using assms by (simp add: ip_separate_def)
  then have "unat (?a - ip_ring s w) = 4 * i" by (simp add: unat_of_nat_less del: of_nat_mult)
  then have "mem_word s w ?a = Some i" using assms(2) by (simp add: mem_word_def Let_def)
  moreover have "?a - ip_base s w \<noteq> 0" "?a - ip_base s w \<noteq> 0x100" "?a - ip_base s w \<noteq> 4"
    "?a - ip_base s w \<noteq> 0xC" using off by (auto simp: unat_arith_simps simp del: of_nat_mult)
  ultimately show ?thesis by (simp add: ip_loc_def Let_def del: of_nat_mult)
qed

lemma ip_loc_window:
  assumes "ip_separate s w" "unat off < 0x200" "off \<noteq> 0" "off \<noteq> 0x100"
  shows "ip_loc s w (ip_base s w + off) = None"
proof -
  have "mem_word s w (ip_base s w + off) = None"
  proof (rule ccontr)
    assume "mem_word s w (ip_base s w + off) \<noteq> None"
    then have i: "unat (ip_base s w + off - ip_ring s w) div 4 < ipMemWords w"
      "unat (ip_base s w + off - ip_ring s w) mod 4 = 0"
      by (auto simp: mem_word_def Let_def split: if_splits)
    let ?i = "unat (ip_base s w + off - ip_ring s w) div 4"
    have "4 * ?i = unat (ip_base s w + off - ip_ring s w)" using i(2) by presburger
    then have "of_nat (4 * ?i) = ip_base s w + off - ip_ring s w" by (metis of_nat_unat ucast_id)
    then have "ip_ring s w + of_nat (4 * ?i) - ip_base s w = off" by simp
    then show False using assms(1,2) i(1) by (metis ip_separate_def not_le)
  qed
  then show ?thesis using assms(3,4) by (simp add: ip_loc_def Let_def)
qed

section \<open>Hardware set-up\<close>

lemma ip_write_window:
  assumes "ip_separate s w" "unat off < 0x200" "off \<noteq> 0" "off \<noteq> 0x100" "off = 0xC \<longrightarrow> \<not> bit v 31"
  shows "ip_get (ip_write s (ip_base s w + off) v w) = ip_get w
    \<and> ip_layout (ip_write s (ip_base s w + off) v w) = ip_layout w"
  using ip_write_law[of s w "ip_base s w + off" v] ip_loc_window[OF assms(1-4)] assms(5)
  by (simp add: ip_reset_request_def)

lemma ip_base_layout: "ip_layout w' = ip_layout w \<Longrightarrow> ip_base s w' = ip_base s w"
  by (cases s) (auto simp: ip_layout_def ip_base_def)

lemma ip_ring_layout: "ip_layout w' = ip_layout w \<Longrightarrow> ip_ring s w' = ip_ring s w"
  by (cases s) (auto simp: ip_layout_def ip_ring_def)

lemma ip_words_layout: "ip_layout w' = ip_layout w \<Longrightarrow> ipMemWords w' = ipMemWords w"
  by (auto simp: ip_layout_def)

lemma ip_present [simp]: "\<not> CHECK_REG_IO_ACCESS (ip_io s)"
  by (rule side_bus.io_law)

text \<open>The control value the driver writes never carries the reset bit.\<close>

lemma ctrl_value_no_reset: "interrupt_ctrl_value im = Some v \<Longrightarrow> \<not> bit v 31"
  by (cases im) (auto simp: interrupt_ctrl_value_def FIELD_SET_def bit_simps
      INTERRUPT_CTRL_ENABLE_MASK_def INTERRUPT_CTRL_TYPE_MASK_def BIT_def)

lemma hw_config_ip:
  assumes "ip_separate s w"
  shows "\<exists>st w'. xGCQHWConfigureInterruptMode (side_mode s) im (ip_base s w) (ip_io s) w = Some (st, w')
    \<and> ip_get w' = ip_get w \<and> ip_layout w' = ip_layout w"
proof (cases "interrupt_ctrl_value im")
  case None
  then show ?thesis by (cases s) (simp_all add: xGCQHWConfigureInterruptMode_def side_mode_def)
next
  case (Some v)
  have "ip_get (ip_write s (ip_base s w + 0xC) v w) = ip_get w
    \<and> ip_layout (ip_write s (ip_base s w + 0xC) v w) = ip_layout w"
    using ctrl_value_no_reset[OF Some] by (intro ip_write_window[OF assms]) simp_all
  then show ?thesis using Some
    by (cases s) (simp_all add: xGCQHWConfigureInterruptMode_def side_mode_def gcq_regmap)
qed

lemma hw_init_ip:
  assumes sep: "ip_separate s w" and ctrl: "s = PROD_SIDE \<longrightarrow> \<not> bit (ipProdRegs w 0xC) 31"
  shows "\<exists>w'. xGCQHWInit (side_mode s) (ip_base s w) ring (ip_io s) w = Some (GCQ_ERRORS_NONE, w')
    \<and> ip_get w' = ip_get w \<and> ip_layout w' = ip_layout w"
proof -
  let ?same = "\<lambda>u. ip_get u = ip_get w \<and> ip_layout u = ip_layout w"
  have step: "?same (ip_write s (ip_base s w + off) v u)"
    if "?same u" "off \<in> {8, 0x10} \<or> off = 0xC \<and> \<not> bit v 31" for off v u
  proof -
    have "ip_separate s u" "ip_base s u = ip_base s w"
      using that(1) sep ip_separate_layout[of u w s] ip_base_layout[of u w s] by simp_all
    with ip_write_window[of s u off v] that show ?thesis by auto
  qed
  have two: "?same (ip_write s (ip_base s w + 0x10) v' (ip_write s (ip_base s w + 8) v u))"
    if "?same u" for u v v'
    using step[OF step[OF that]] by simp
  show ?thesis
  proof (cases s)
    case PROD_SIDE
    have rd: "ip_read PROD_SIDE (ip_base PROD_SIDE w + 0xC) w = (ipProdRegs w 0xC, w)"
      using ip_loc_window[OF sep, of "0xC"] PROD_SIDE by (simp add: ip_read_def)
    have "\<not> bit (ipProdRegs w 0xC OR FIELD_SET INTERRUPT_CTRL_ENABLE_MASK GCQ_INTERRUPT_CTRL_RESET) 31"
      using ctrl PROD_SIDE
      by (simp add: bit_simps FIELD_SET_def INTERRUPT_CTRL_ENABLE_MASK_def BIT_def)
    from step[of w "0xC", OF _ disjI2[OF conjI[OF refl this]]] two rd PROD_SIDE show ?thesis
      by (simp add: xGCQHWInit_def side_mode_def gcq_regmap)
  next
    case CONS_SIDE
    then show ?thesis using two[of w]
      by (simp add: xGCQHWInit_def side_mode_def gcq_regmap)
  qed
qed

section \<open>The instance the initialisation builds\<close>

lemma new_instance_rings:
  assumes sep: "ip_separate s w" and l: "lkLogSlots l = k" "lkInMem l = GCQ_FEATURES_IS_IN_MEM_PTR flags"
    and k: "k < 32" and sz: "4 * lkSqWords l < 2 ^ 32" "4 * lkCqWords l < 2 ^ 32"
    and fit: "11 + 2 ^ k * (lkSqWords l + lkCqWords l) \<le> ipMemWords w"
    and low: "2 ^ k * (4 * lkSqWords l) < 2 ^ 32"
  shows "ring_at (ip_loc s w)
    (ring_of q (gcq_new_instance io (side_mode s) im flags (ip_base s w) (ip_ring s w) (2 ^ k)
      (of_nat (4 * lkSqWords l)) (of_nat (4 * lkCqWords l))))
    (q_prod_cell l q) (q_cons_cell q) (q_slot_cell l q) k (lk_words q l)"
proof -
  let ?g = "gcq_new_instance io (side_mode s) im flags (ip_base s w) (ip_ring s w) (2 ^ k)
      (of_nat (4 * lkSqWords l)) (of_nat (4 * lkCqWords l))"
  have loc: "ip_loc s w (ip_ring s w + of_nat (4 * i)) = Some (SHARED i)"
    if "i < 11 + 2 ^ k * (lkSqWords l + lkCqWords l)" for i
    using ip_loc_mem[OF sep, of i] that fit by simp
  have fixed: "ip_loc s w (ip_ring s w + 24) = Some (SHARED 6)" "ip_loc s w (ip_ring s w + 28) = Some (SHARED 7)"
    "ip_loc s w (ip_ring s w + 36) = Some (SHARED 9)" "ip_loc s w (ip_ring s w + 40) = Some (SHARED 10)"
    using loc[of 6] loc[of 7] loc[of 9] loc[of 10] by simp_all
  have prod: "ip_loc s w (ullRingProducedAddr (ring_of q ?g)) = Some (q_prod_cell l q)"
    using fixed ip_loc_regs(1,2)[of s w] l(2)
    by (cases q; cases s) (simp_all add: ring_of_def gcq_new_instance_def Let_def prvvGCQInitRing_def
        q_prod_cell_def side_mode_def gcq_regmap q_src_def own_tail_def peer_tail_def
        OFFSET_SQ_PRODUCED_def OFFSET_CQ_PRODUCED_def)
  have cons: "ip_loc s w (ullRingConsumedAddr (ring_of q ?g)) = Some (q_cons_cell q)"
    using fixed by (cases q) (simp_all add: ring_of_def gcq_new_instance_def Let_def
        prvvGCQInitRing_def q_cons_cell_def OFFSET_SQ_CONSUMED_def OFFSET_CQ_CONSUMED_def)
  have "unat ((2 ^ k :: u32) * of_nat (4 * lkSqWords l)) = 2 ^ k * (4 * lkSqWords l)"
    using low k sz(1) unat_of_nat_less[where 'a = 32, of "4 * lkSqWords l"]
    by (simp add: unat_word_ariths del: of_nat_mult)
  then have cqoff: "ucast ((2 ^ k :: u32) * of_nat (4 * lkSqWords l))
      = (of_nat (2 ^ k * (4 * lkSqWords l)) :: u64)" by (metis of_nat_unat)
  have base: "ullRingSlotAddr (ring_of q ?g) = ip_ring s w + of_nat (4 * (case q of RING_SQ \<Rightarrow> 11
      | RING_CQ \<Rightarrow> 11 + 2 ^ k * lkSqWords l))"
    using cqoff by (cases q) (simp_all add: ring_of_def gcq_new_instance_def Let_def
        prvvGCQInitRing_def GCQ_HEADER_SIZE_def)
  have slots: "ip_loc s w (ullRingSlotAddr (ring_of q ?g) + of_nat (4 * (lk_words q l * i + j)))
      = Some (q_slot_cell l q i j)" if "i < 2 ^ k" "j < lk_words q l" for i j
  proof -
    have "lk_words q l * i + j < lk_words q l * (i + 1)" using that(2) by simp
    also have "\<dots> \<le> lk_words q l * 2 ^ k" using that(1) by (intro mult_le_mono2) simp
    finally have b: "lk_words q l * i + j < 2 ^ k * lk_words q l" by (simp add: mult.commute)
    let ?n = "(case q of RING_SQ \<Rightarrow> 11 | RING_CQ \<Rightarrow> 11 + 2 ^ k * lkSqWords l) + (lk_words q l * i + j)"
    have "?n < 11 + 2 ^ k * (lkSqWords l + lkCqWords l)"
      using b by (cases q) (simp_all add: lk_words_def algebra_simps)
    from loc[OF this] show ?thesis unfolding base
      by (cases q) (simp_all add: q_slot_cell_def lk_words_def l(1) algebra_simps)
  qed
  show ?thesis using prod cons slots k sz unfolding ring_at_def
    by (cases q) (auto simp: ring_of_def gcq_new_instance_def Let_def prvvGCQInitRing_def lk_words_def)
qed

section \<open>Publishing the header\<close>

text \<open>The pending count starts from: the tail register, or the zeroed header member.\<close>

definition start_count :: "gcq_link \<Rightarrow> ring_ptr \<Rightarrow> gcq_ip \<Rightarrow> u32" where
  "start_count l q w = (if lkInMem l then 0 else ip_get w (q_prod_cell l q))"

lemma prod_cell_cases:
  "q_prod_cell l q = (if lkInMem l then SHARED (if q = RING_SQ then 9 else 10)
     else if q = RING_SQ then CONSUMER_TAIL else PRODUCER_TAIL)"
  by (cases q) (simp_all add: q_prod_cell_def q_src_def own_tail_def)

lemma cons_cell_cases: "q_cons_cell q = SHARED (if q = RING_SQ then 6 else 7)"
  by (cases q) (simp_all add: q_cons_cell_def)

lemma publish_ip:
  assumes io: "pxGCQIOAccess g = Some (ip_io s)" and ring: "ullRingAddr g = ip_ring s w"
    and hdr: "\<forall>i<11. ip_loc s w (ip_ring s w + of_nat (4 * i)) = Some (SHARED i)"
    and sq: "ip_loc s w (ullRingProducedAddr (xGCQSq g)) = Some (q_prod_cell l RING_SQ)"
      "ip_loc s w (ullRingConsumedAddr (xGCQSq g)) = Some (q_cons_cell RING_SQ)"
    and cq: "ip_loc s w (ullRingProducedAddr (xGCQCq g)) = Some (q_prod_cell l RING_CQ)"
      "ip_loc s w (ullRingConsumedAddr (xGCQCq g)) = Some (q_cons_cell RING_CQ)"
  shows "\<exists>w'. gcq_publish_header g w = Some (g\<lparr>
        xGCQSq := (xGCQSq g)\<lparr>ulRingProduced := start_count l RING_SQ w,
                             ulRingConsumed := start_count l RING_SQ w\<rparr>,
        xGCQCq := (xGCQCq g)\<lparr>ulRingProduced := start_count l RING_CQ w,
                             ulRingConsumed := start_count l RING_CQ w\<rparr>\<rparr>, w')
    \<and> ip_layout w' = ip_layout w
    \<and> (\<forall>q. ip_get w' (q_prod_cell l q) = start_count l q w)
    \<and> (\<forall>q. ip_get w' (q_cons_cell q) = start_count l q w)
    \<and> ip_get w' (SHARED 0) = GCQ_ALLOC_MAGIC
    \<and> (\<forall>j<6. 0 < j \<longrightarrow> ip_get w' (SHARED j) = header_words (gcq_header g) ! j)"
proof -
  let ?h = "header_words (gcq_header g)" and ?a = "ip_ring s w"
  have "\<forall>j<length ?h. ip_loc s w (?a + of_nat (4 * j)) = Some (SHARED j) \<and> ip_writable s (SHARED j)"
    using hdr by (cases s) (auto simp: ip_writable_def peer_tail_def)
  moreover have "inj_on SHARED {..<length ?h}" by (simp add: inj_on_def)
  ultimately obtain w1 where
    1: "write_words (ip_io s) ?a ?h w = Some w1" "ip_layout w1 = ip_layout w"
       "\<forall>j<length ?h. ip_get w1 (SHARED j) = ?h ! j"
       "\<forall>c. c \<notin> SHARED ` {..<length ?h} \<longrightarrow> ip_get w1 c = ip_get w c"
    using side_bus.write_words_cells[of ?h s w ?a SHARED] by blast
  have copy1: "prvvGCQCopyToRing (ip_io s) ?h ?a GCQ_HEADER_SIZE w = Some w1"
    using 1(1) by (simp add: prvvGCQCopyToRing_def GCQ_HEADER_SIZE_def)
  have p1: "ip_get w1 (q_prod_cell l q) = start_count l q w" for q
    using 1(3) 1(4) by (cases "lkInMem l"; cases q)
      (auto simp: start_count_def prod_cell_cases header_words_def gcq_header_def)
  have loc1: "ip_loc s w1 = ip_loc s w" using ip_layout_loc[OF 1(2)] by simp
  have wr: "ip_writable s (q_cons_cell q)" for q by simp
  from side_bus.soft_reset_cell[OF io, of w1 "xGCQSq g", unfolded loc1, OF sq wr]
  obtain w2 where
    2: "prvvGCQSoftReset g (xGCQSq g) w1 = Some ((xGCQSq g)\<lparr>ulRingProduced := start_count l RING_SQ w,
          ulRingConsumed := start_count l RING_SQ w\<rparr>, w2)"
       "ip_get w2 = (ip_get w1)(q_cons_cell RING_SQ := start_count l RING_SQ w)"
       "ip_layout w2 = ip_layout w" using 1(2) by (auto simp: p1)
  let ?g1 = "g\<lparr>xGCQSq := (xGCQSq g)\<lparr>ulRingProduced := start_count l RING_SQ w,
    ulRingConsumed := start_count l RING_SQ w\<rparr>\<rparr>"
  have loc2: "ip_loc s w2 = ip_loc s w" using ip_layout_loc[OF 2(3)] by simp
  have p2: "ip_get w2 (q_prod_cell l q) = start_count l q w" for q
    using p1 by (simp add: 2(2))
  have io1: "pxGCQIOAccess ?g1 = Some (ip_io s)" using io by simp
  from side_bus.soft_reset_cell[OF io1, of w2 "xGCQCq g", unfolded loc2, OF cq wr]
  obtain w3 where
    3: "prvvGCQSoftReset ?g1 (xGCQCq ?g1) w2 = Some ((xGCQCq g)\<lparr>ulRingProduced := start_count l RING_CQ w,
          ulRingConsumed := start_count l RING_CQ w\<rparr>, w3)"
       "ip_get w3 = (ip_get w2)(q_cons_cell RING_CQ := start_count l RING_CQ w)"
       "ip_layout w3 = ip_layout w" using 2(3) by (auto simp: p2)
  have loc3: "ip_loc s w3 = ip_loc s w" using ip_layout_loc[OF 3(3)] by simp
  have "ip_loc s w3 ?a = Some (SHARED 0)" using hdr[rule_format, of 0] by (simp add: loc3)
  from side_bus.write_mem_cell[OF this, of GCQ_ALLOC_MAGIC] obtain w4 where
    4: "write_mem (ip_io s) ?a GCQ_ALLOC_MAGIC w3 = Some w4"
       "ip_get w4 = (ip_get w3)(SHARED 0 := GCQ_ALLOC_MAGIC)" "ip_layout w4 = ip_layout w"
    using 3(3) by (cases s) (auto simp: ip_writable_def peer_tail_def simp del: ip_access)
  have copy4: "prvvGCQCopyToRing (ip_io s) (header_words ((gcq_header g)\<lparr>ulHdrMagic := GCQ_ALLOC_MAGIC\<rparr>))
      ?a 4 w3 = Some w4"
    using 4(1) by (simp add: prvvGCQCopyToRing_def header_words_def del: ip_access)
  have "ip_get w4 (q_cons_cell q) = start_count l q w" for q
    by (cases q) (simp_all add: 4(2) 3(2) 2(2) cons_cell_cases)
  moreover have "ip_get w4 (q_prod_cell l q) = start_count l q w" for q
    using p2[of q] by (simp add: 4(2) 3(2) prod_cell_cases cons_cell_cases)
  moreover have "\<forall>j<6. 0 < j \<longrightarrow> ip_get w4 (SHARED j) = ?h ! j"
    using 1(3) by (simp add: 4(2) 3(2) 2(2) cons_cell_cases)
  ultimately show ?thesis using copy1 2(1) 3(1) copy4 4(2,3) io ring
    by (intro exI[of _ w4]) (simp add: gcq_publish_header_def Let_def)
qed

section \<open>Attaching\<close>

lemma header_read_magic:
  assumes "\<forall>i<11. ip_loc s w (a + of_nat (4 * i)) = Some (SHARED i)"
  shows "\<exists>w1. prvvGCQCopyFromRing (ip_io s) (replicate 11 0) a 4 w
      = Some (ip_get w (SHARED 0) # drop 1 (replicate 11 0), w1)
    \<and> ip_get w1 = ip_get w \<and> ip_layout w1 = ip_layout w"
proof -
  have "ip_loc s w a = Some (SHARED 0)" using assms[rule_format, of 0] by simp
  from side_bus.read_mem_cell[OF this] obtain w1 where
    1: "read_mem (ip_io s) a w = Some (ip_get w (SHARED 0), w1)" "ip_get w1 = ip_get w"
       "ip_layout w1 = ip_layout w" by blast
  have "prvvGCQCopyFromRing (ip_io s) (replicate 11 0) a 4 w
      = Some (ip_get w (SHARED 0) # drop 1 (replicate 11 0), w1)"
    using 1(1) by (simp add: prvvGCQCopyFromRing_def One_nat_def[symmetric]
        del: ip_access ip_get.simps One_nat_def) (simp del: ip_access ip_get.simps)
  with 1 show ?thesis by blast
qed

lemma header_read_all:
  assumes "\<forall>i<11. ip_loc s w (a + of_nat (4 * i)) = Some (SHARED i)"
  shows "\<exists>w1. prvvGCQCopyFromRing (ip_io s) (x # drop 1 (replicate 11 0)) a GCQ_HEADER_SIZE w
      = Some (map (\<lambda>j. ip_get w (SHARED j)) [0..<11], w1)
    \<and> ip_get w1 = ip_get w \<and> ip_layout w1 = ip_layout w"
proof -
  from side_bus.read_words_cells[OF assms] obtain w2 where
    "read_words (ip_io s) a 11 w = Some (map (\<lambda>j. ip_get w (SHARED j)) [0..<11], w2)"
    "ip_get w2 = ip_get w" "ip_layout w2 = ip_layout w" by auto
  then show ?thesis
    by (intro exI[of _ w2]) (simp add: prvvGCQCopyFromRing_def GCQ_HEADER_SIZE_def del: ip_get.simps)
qed

text \<open>A failed attach reports the first check that fails and changes nothing.\<close>

lemma attach_refused:
  assumes d: "firewalls_ok d" "deref_instance d (Some i) = Some g" "iInitialised g"
    and io: "pxGCQIOAccess g = Some (ip_io s)"
    and hdr: "\<forall>i<11. ip_loc s w (ullRingAddr g + of_nat (4 * i)) = Some (SHARED i)"
    and st: "st = (if ipMem w 0 \<noteq> GCQ_ALLOC_MAGIC then GCQ_ERRORS_CONSUMER_NOT_AVAILABLE
                   else check_header (words_header (map (ipMem w) [0..<11])) g)"
    and bad: "st \<noteq> GCQ_ERRORS_NONE"
  shows "\<exists>w'. xGCQAttachConsumer (Some i) d w = Some (st, d, w') \<and> ip_get w' = ip_get w"
proof -
  from header_read_magic[OF hdr] obtain w1 where
    1: "prvvGCQCopyFromRing (ip_io s) (replicate 11 0) (ullRingAddr g) 4 w
        = Some (ipMem w 0 # drop 1 (replicate 11 0), w1)"
      "ip_get w1 = ip_get w" "ip_layout w1 = ip_layout w" by auto
  have "\<forall>i<11. ip_loc s w1 (ullRingAddr g + of_nat (4 * i)) = Some (SHARED i)"
    using hdr ip_layout_loc[OF 1(3), of s] by simp
  from header_read_all[OF this, of "ipMem w 0"] obtain w2 where
    2: "prvvGCQCopyFromRing (ip_io s) (ipMem w 0 # drop 1 (replicate 11 0)) (ullRingAddr g)
          GCQ_HEADER_SIZE w1 = Some (map (\<lambda>j. ip_get w (SHARED j)) [0..<11], w2)"
       "ip_get w2 = ip_get w" unfolding 1(2) by blast
  have words: "map (\<lambda>j. ip_get w (SHARED j)) [0..<11] = map (ipMem w) [0..<11]"
    by (rule map_cong) simp_all
  have m: "ulHdrMagic (words_header (ipMem w 0 # drop 1 (replicate 11 0))) = ipMem w 0"
    by (simp add: words_header_def)
  show ?thesis
  proof (cases "ipMem w 0 = GCQ_ALLOC_MAGIC")
    case True
    then show ?thesis using d io 1(1) 2 st bad m unfolding words
      by (intro exI[of _ w2]) (simp add: xGCQAttachConsumer_def Let_def del: upt_rec_numeral list.map)
  next
    case False
    then show ?thesis using d io 1 st m
      by (intro exI[of _ w1]) (simp add: xGCQAttachConsumer_def Let_def)
  qed
qed

lemma attach_ip:
  assumes d: "firewalls_ok d" "deref_instance d (Some i) = Some g" "iInitialised g"
    and io: "pxGCQIOAccess g = Some (ip_io s)" and ring: "ullRingAddr g = ip_ring s w"
    and hdr: "\<forall>i<11. ip_loc s w (ip_ring s w + of_nat (4 * i)) = Some (SHARED i)"
    and sq: "ip_loc s w (ullRingProducedAddr (xGCQSq g)) = Some (q_prod_cell l RING_SQ)"
      "ip_loc s w (ullRingConsumedAddr (xGCQSq g)) = Some (q_cons_cell RING_SQ)"
    and cq: "ip_loc s w (ullRingProducedAddr (xGCQCq g)) = Some (q_prod_cell l RING_CQ)"
      "ip_loc s w (ullRingConsumedAddr (xGCQCq g)) = Some (q_cons_cell RING_CQ)"
    and magic: "ip_get w (SHARED 0) = GCQ_ALLOC_MAGIC" "ip_get w (SHARED 1) = GCQ_VERSION"
      "ip_get w (SHARED 2) = ulRingSlotNum (xGCQSq g)" "ip_get w (SHARED 4) = ulRingSlotSize (xGCQSq g)"
  shows "\<exists>w'. xGCQAttachConsumer (Some i) d w = Some (GCQ_ERRORS_NONE,
      (put_instance (Some i) (g\<lparr>
        xGCQSq := (xGCQSq g)\<lparr>ulRingProduced := ip_get w (q_prod_cell l RING_SQ),
                             ulRingConsumed := ip_get w (q_cons_cell RING_SQ)\<rparr>,
        xGCQCq := (xGCQCq g)\<lparr>ulRingProduced := ip_get w (q_prod_cell l RING_CQ),
                             ulRingConsumed := ip_get w (q_cons_cell RING_CQ)\<rparr>\<rparr>) d)
      \<lparr>ucConsumerAttached := True\<rparr>, w')
    \<and> ip_get w' = ip_get w \<and> ip_layout w' = ip_layout w"
proof -
  let ?a = "ip_ring s w" and ?h1 = "GCQ_ALLOC_MAGIC # drop 1 (replicate 11 0)"
  let ?h2 = "map (\<lambda>j. ip_get w (SHARED j)) [0..<11]"
  from header_read_magic[OF hdr, unfolded magic(1)] obtain w1 where
    1: "prvvGCQCopyFromRing (ip_io s) (replicate 11 0) ?a 4 w = Some (?h1, w1)"
       "ip_get w1 = ip_get w" "ip_layout w1 = ip_layout w" by blast
  have "\<forall>i<11. ip_loc s w1 (?a + of_nat (4 * i)) = Some (SHARED i)"
    using hdr ip_layout_loc[OF 1(3), of s] by simp
  from header_read_all[OF this, of GCQ_ALLOC_MAGIC] 1(2,3) obtain w2 where
    2: "prvvGCQCopyFromRing (ip_io s) ?h1 ?a GCQ_HEADER_SIZE w1 = Some (?h2, w2)"
       "ip_get w2 = ip_get w" "ip_layout w2 = ip_layout w" by metis
  have m: "ulHdrMagic (words_header ?h1) = GCQ_ALLOC_MAGIC" by (simp add: words_header_def)
  have ver: "GET_GCQ_MAJOR GCQ_VERSION = GIT_TAG_VER_MAJOR"
    by (simp add: GET_GCQ_MAJOR_def GCQ_VERSION_def GIT_TAG_VER_MAJOR_def GIT_TAG_VER_MINOR_def)
  have chk: "check_header (words_header ?h2) g = GCQ_ERRORS_NONE"
    using magic ver
    by (simp add: check_header_def words_header_def eval_nat_numeral del: ip_get.simps)
  have loc2: "ip_loc s w2 = ip_loc s w" using ip_layout_loc[OF 2(3)] by simp
  from side_bus.fast_forward_cell[OF io, of w2 "xGCQSq g", unfolded loc2, OF sq] obtain w3 where
    3: "prvvGCQFastForward g (xGCQSq g) w2 = Some ((xGCQSq g)\<lparr>ulRingProduced := ip_get w (q_prod_cell l RING_SQ),
          ulRingConsumed := ip_get w (q_cons_cell RING_SQ)\<rparr>, w3)"
       "ip_get w3 = ip_get w" "ip_layout w3 = ip_layout w" using 2(2,3) by auto
  let ?g1 = "g\<lparr>xGCQSq := (xGCQSq g)\<lparr>ulRingProduced := ip_get w (q_prod_cell l RING_SQ),
          ulRingConsumed := ip_get w (q_cons_cell RING_SQ)\<rparr>\<rparr>"
  have io1: "pxGCQIOAccess ?g1 = Some (ip_io s)" using io by simp
  have loc3: "ip_loc s w3 = ip_loc s w" using ip_layout_loc[OF 3(3)] by simp
  from side_bus.fast_forward_cell[OF io1, of w3 "xGCQCq g", unfolded loc3, OF cq] obtain w4 where
    4: "prvvGCQFastForward ?g1 (xGCQCq g) w3 = Some ((xGCQCq g)\<lparr>ulRingProduced := ip_get w (q_prod_cell l RING_CQ),
          ulRingConsumed := ip_get w (q_cons_cell RING_CQ)\<rparr>, w4)"
       "ip_get w4 = ip_get w" "ip_layout w4 = ip_layout w" using 3(2,3) by auto
  show ?thesis using d io ring 1(1) 2(1) m chk 3(1) 4
    by (intro exI[of _ w4]) (simp add: xGCQAttachConsumer_def Let_def del: ip_get.simps)
qed

section \<open>The link is up\<close>

text \<open>Initialisation in general: once the arguments pass, what is left is the set-up.\<close>

lemma init_unfold:
  assumes "\<not> CHECK_REG_IO_ACCESS io" "sq mod 4 = 0" "cq mod 4 = 0" "sq \<noteq> 0" "cq \<noteq> 0"
    "prvulGCQAllocNumSlots ringlen sq cq = Some n" "GCQ_MIN_NUM_SLOTS \<le> n"
    "xGCQHWInit mode base ring io w = Some (st1, w1)"
    "xGCQHWConfigureInterruptMode mode im base io w1 = Some (st2, w2)"
    "(if mode = GCQ_MODE_TYPE_PRODUCER_MODE
      then gcq_publish_header (gcq_new_instance io mode im flags base ring n sq cq) w2
      else Some (gcq_new_instance io mode im flags base ring n sq cq, w2)) = Some (g, w3)"
  shows "xGCQInit None io mode im flags base ring ringlen sq cq xLocalData w =
    Some (GCQ_ERRORS_NONE, Some 0, (put_instance (Some 0) (g\<lparr>iInitialised := True\<rparr>) xLocalData)
      \<lparr>ucInstancesAllocated := 1\<rparr>, w3)"
  using assms
  by (simp add: xGCQInit_def firewalls_ok_def xLocalData_def prviGCQFindNextFreeInstance_def
      GCQ_MAX_INSTANCES_def numeral_eq_Suc zero_instance_def put_instance_def)

text \<open>
  The parameters of a link that can be brought up: word-aligned slot sizes, and a
  shared memory that holds at least two slots of each queue.
\<close>

definition bring_up_config :: "u64 \<Rightarrow> u32 \<Rightarrow> u32 \<Rightarrow> gcq_ip \<Rightarrow> bool" where
  "bring_up_config ringlen sq cq w \<longleftrightarrow>
     unat ringlen < 2 ^ 31 \<and> sq mod 4 = 0 \<and> cq mod 4 = 0 \<and> sq \<noteq> 0 \<and> cq \<noteq> 0 \<and>
     44 + 2 * (unat sq + unat cq) \<le> unat ringlen \<and> unat ringlen \<le> 4 * ipMemWords w \<and>
     ip_separate PROD_SIDE w \<and> ip_separate CONS_SIDE w \<and> \<not> bit (ipProdRegs w 0xC) 31"

text \<open>The geometry the allocation chooses for the shared memory.\<close>

definition link_geometry :: "gcq_link \<Rightarrow> u64 \<Rightarrow> u32 \<Rightarrow> u32 \<Rightarrow> bool \<Rightarrow> bool" where
  "link_geometry l ringlen sq cq inmem \<longleftrightarrow>
     prvulGCQAllocNumSlots ringlen sq cq = Some (2 ^ lkLogSlots l) \<and>
     1 \<le> lkLogSlots l \<and> lkLogSlots l < 31 \<and>
     44 + 2 ^ lkLogSlots l * (unat sq + unat cq) \<le> unat ringlen \<and>
     unat ringlen < 44 + 2 ^ (lkLogSlots l + 1) * (unat sq + unat cq) \<and>
     unat sq = 4 * lkSqWords l \<and> unat cq = 4 * lkCqWords l \<and> lkInMem l = inmem"

lemma geometry_slots:
  assumes "bring_up_config ringlen sq cq w" "link_geometry l ringlen sq cq inmem"
  shows "11 + 2 ^ lkLogSlots l * (lkSqWords l + lkCqWords l) \<le> ipMemWords w"
    "2 ^ lkLogSlots l * (4 * lkSqWords l) < 2 ^ 32" "4 * lkSqWords l < 2 ^ 32" "4 * lkCqWords l < 2 ^ 32"
    "sq = of_nat (4 * lkSqWords l)" "cq = of_nat (4 * lkCqWords l)"
    "GCQ_MIN_NUM_SLOTS \<le> 2 ^ lkLogSlots l"
proof -
  let ?k = "lkLogSlots l"
  note g = assms(2)[unfolded link_geometry_def] and c = assms(1)[unfolded bring_up_config_def]
  have u: "unat sq = 4 * lkSqWords l" "unat cq = 4 * lkCqWords l"
    and h: "44 + 2 ^ ?k * (unat sq + unat cq) \<le> unat ringlen" using g by blast+
  have "unat ringlen \<le> 4 * ipMemWords w" using c by simp
  then have "44 + 2 ^ ?k * (4 * lkSqWords l + 4 * lkCqWords l) \<le> 4 * ipMemWords w"
    using h unfolding u by linarith
  then have "4 * (11 + 2 ^ ?k * (lkSqWords l + lkCqWords l)) \<le> 4 * ipMemWords w"
    by (simp add: algebra_simps)
  then show "11 + 2 ^ ?k * (lkSqWords l + lkCqWords l) \<le> ipMemWords w" by simp
  have "2 ^ ?k * (4 * lkSqWords l) \<le> 2 ^ ?k * (unat sq + unat cq)" using g by simp
  moreover have "unat ringlen < 2 ^ 31" using c by blast
  moreover have "(2::nat) ^ 31 \<le> 2 ^ 32" by simp
  ultimately show "2 ^ ?k * (4 * lkSqWords l) < 2 ^ 32" using h by linarith
  show "4 * lkSqWords l < 2 ^ 32" "4 * lkCqWords l < 2 ^ 32"
    using g unat_u32_less[of sq] unat_u32_less[of cq] by simp_all
  show "sq = of_nat (4 * lkSqWords l)" "cq = of_nat (4 * lkCqWords l)"
    using g by (metis of_nat_unat ucast_id)+
  have "(2::nat) ^ 1 \<le> 2 ^ ?k" using g by (intro power_increasing) simp_all
  then show "GCQ_MIN_NUM_SLOTS \<le> 2 ^ ?k"
    using g by (simp add: GCQ_MIN_NUM_SLOTS_def word_le_nat_alt)
qed

lemma geometry_exists:
  assumes "bring_up_config ringlen sq cq w"
  shows "\<exists>j. prvulGCQAllocNumSlots ringlen sq cq = Some (2 ^ j) \<and> 1 \<le> j \<and> j < 31 \<and>
    44 + 2 ^ j * (unat sq + unat cq) \<le> unat ringlen \<and>
    unat ringlen < 44 + 2 ^ (j + 1) * (unat sq + unat cq)"
proof -
  note c = assms[unfolded bring_up_config_def]
  have s: "0 < unat sq + unat cq" using c by (simp add: unat_gt_0)
  have "44 + 2 * (unat sq + unat cq) < 2 ^ 32" using c by simp
  from alloc_slots_fit[OF _ s this] c obtain j where j: "j < 31" "prvulGCQAllocNumSlots ringlen sq cq = Some (2 ^ j)"
    "1 \<le> j \<longrightarrow> 44 + 2 ^ j * (unat sq + unat cq) \<le> unat ringlen"
    "unat ringlen < 44 + 2 ^ (j + 1) * (unat sq + unat cq)"
    by blast
  have "j \<noteq> 0" using j(4) c by (intro notI) simp
  then show ?thesis using j by (intro exI[of _ j]) simp
qed

abbreviation link_instance ::
  "gcq_side \<Rightarrow> gcq_link \<Rightarrow> GCQ_INTERRUPT_MODE_TYPE \<Rightarrow> u32 \<Rightarrow> u32 \<Rightarrow> u32 \<Rightarrow> gcq_ip \<Rightarrow> gcq_ip GCQ_INSTANCE_TYPE"
  where "link_instance s l im flags sq cq w \<equiv>
    gcq_new_instance (ip_io s) (side_mode s) im flags (ip_base s w) (ip_ring s w) (2 ^ lkLogSlots l) sq cq"

lemma link_instance_rings:
  assumes "bring_up_config ringlen sq cq w"
    "link_geometry l ringlen sq cq (GCQ_FEATURES_IS_IN_MEM_PTR flags)" "ip_layout w' = ip_layout w"
  shows "ring_at (ip_loc s w') (ring_of q (link_instance s l im flags sq cq w))
    (q_prod_cell l q) (q_cons_cell q) (q_slot_cell l q) (lkLogSlots l) (lk_words q l)"
proof -
  have "ip_separate s w" using assms(1) by (cases s) (simp_all add: bring_up_config_def)
  note new_instance_rings[OF this refl, of l flags q "ip_io s" im]
  then show ?thesis using geometry_slots[OF assms(1,2)] assms(2) ip_layout_loc[OF assms(3)]
    by (simp add: link_geometry_def del: of_nat_mult)
qed

lemma init_prod:
  fixes im :: GCQ_INTERRUPT_MODE_TYPE
  assumes cfg: "bring_up_config ringlen sq cq w"
    and geo: "link_geometry l ringlen sq cq (GCQ_FEATURES_IS_IN_MEM_PTR flags)"
  defines "g \<equiv> link_instance PROD_SIDE l im flags sq cq w"
  shows "\<exists>w'. xGCQInit None (ip_io PROD_SIDE) GCQ_MODE_TYPE_PRODUCER_MODE im flags
      (ip_base PROD_SIDE w) (ip_ring PROD_SIDE w) ringlen sq cq xLocalData w =
      Some (GCQ_ERRORS_NONE, Some 0, (put_instance (Some 0) (g\<lparr>
        xGCQSq := (xGCQSq g)\<lparr>ulRingProduced := start_count l RING_SQ w,
                             ulRingConsumed := start_count l RING_SQ w\<rparr>,
        xGCQCq := (xGCQCq g)\<lparr>ulRingProduced := start_count l RING_CQ w,
                             ulRingConsumed := start_count l RING_CQ w\<rparr>,
        iInitialised := True\<rparr>) xLocalData)\<lparr>ucInstancesAllocated := 1\<rparr>, w')
    \<and> ip_layout w' = ip_layout w
    \<and> (\<forall>q. ip_get w' (q_prod_cell l q) = start_count l q w)
    \<and> (\<forall>q. ip_get w' (q_cons_cell q) = start_count l q w)
    \<and> ip_get w' (SHARED 0) = GCQ_ALLOC_MAGIC \<and> ip_get w' (SHARED 1) = GCQ_VERSION
    \<and> ip_get w' (SHARED 2) = 2 ^ lkLogSlots l \<and> ip_get w' (SHARED 4) = sq"
proof -
  note c = cfg[unfolded bring_up_config_def] and gs = geometry_slots[OF cfg geo]
  have sep: "ip_separate PROD_SIDE w" using c by simp
  from hw_init_ip[OF sep, of "ip_ring PROD_SIDE w"] c obtain w1 where
    1: "xGCQHWInit GCQ_MODE_TYPE_PRODUCER_MODE (ip_base PROD_SIDE w) (ip_ring PROD_SIDE w) (ip_io PROD_SIDE) w
        = Some (GCQ_ERRORS_NONE, w1)" "ip_get w1 = ip_get w" "ip_layout w1 = ip_layout w"
    by (auto simp: side_mode_def)
  have "ip_separate PROD_SIDE w1" using sep ip_separate_layout[OF 1(3)] by simp
  from hw_config_ip[OF this, of im] obtain st w2 where
    2: "xGCQHWConfigureInterruptMode GCQ_MODE_TYPE_PRODUCER_MODE im (ip_base PROD_SIDE w) (ip_io PROD_SIDE) w1
        = Some (st, w2)" "ip_get w2 = ip_get w" "ip_layout w2 = ip_layout w"
    using 1(2,3) ip_base_layout[OF 1(3)] by (auto simp: side_mode_def)
  note at = link_instance_rings[OF cfg geo 2(3), where s = PROD_SIDE and im = im, unfolded ring_at_def]
  have "\<forall>i<11. ip_loc PROD_SIDE w2 (ip_ring PROD_SIDE w2 + of_nat (4 * i)) = Some (SHARED i)"
    using ip_loc_mem[of PROD_SIDE w2] sep ip_separate_layout[OF 2(3)] ip_words_layout[OF 2(3)] gs(1)
    by (simp del: of_nat_mult)
  from publish_ip[OF _ _ this, of g l] at[of RING_SQ] at[of RING_CQ] obtain w3 where
    3: "gcq_publish_header g w2 = Some (g\<lparr>
        xGCQSq := (xGCQSq g)\<lparr>ulRingProduced := start_count l RING_SQ w2,
                             ulRingConsumed := start_count l RING_SQ w2\<rparr>,
        xGCQCq := (xGCQCq g)\<lparr>ulRingProduced := start_count l RING_CQ w2,
                             ulRingConsumed := start_count l RING_CQ w2\<rparr>\<rparr>, w3)"
      "ip_layout w3 = ip_layout w2"
      "\<forall>q. ip_get w3 (q_prod_cell l q) = start_count l q w2"
      "\<forall>q. ip_get w3 (q_cons_cell q) = start_count l q w2"
      "ip_get w3 (SHARED 0) = GCQ_ALLOC_MAGIC"
      "\<forall>j<6. 0 < j \<longrightarrow> ip_get w3 (SHARED j) = header_words (gcq_header g) ! j"
    using ip_ring_layout[OF 2(3), of PROD_SIDE]
    by (auto simp: ring_of_def g_def gcq_new_instance_def Let_def simp del: ip_get.simps)
  have st: "start_count l q w2 = start_count l q w" for q using 2(2) by (simp add: start_count_def)
  have hdr: "ip_get w3 (SHARED 1) = GCQ_VERSION" "ip_get w3 (SHARED 2) = 2 ^ lkLogSlots l"
    "ip_get w3 (SHARED 4) = sq"
    using 3(6)[rule_format, of 1] 3(6)[rule_format, of 2] 3(6)[rule_format, of 4]
    by (simp_all add: header_words_def gcq_header_def g_def gcq_new_instance_def Let_def
        prvvGCQInitRing_def del: ip_get.simps)
  have alloc: "prvulGCQAllocNumSlots ringlen sq cq = Some (2 ^ lkLogSlots l)"
    using geo by (simp add: link_geometry_def)
  have mode: "side_mode PROD_SIDE = GCQ_MODE_TYPE_PRODUCER_MODE" by (simp add: side_mode_def)
  note pub = 3(1)[unfolded st g_def mode]
  from c have c': "sq mod 4 = 0" "cq mod 4 = 0" "sq \<noteq> 0" "cq \<noteq> 0" by simp_all
  from init_unfold[OF ip_present c' alloc gs(7) 1(1) 2(1), where flags = flags] pub
  have "xGCQInit None (ip_io PROD_SIDE) GCQ_MODE_TYPE_PRODUCER_MODE im flags
      (ip_base PROD_SIDE w) (ip_ring PROD_SIDE w) ringlen sq cq xLocalData w =
      Some (GCQ_ERRORS_NONE, Some 0, (put_instance (Some 0) (g\<lparr>
        xGCQSq := (xGCQSq g)\<lparr>ulRingProduced := start_count l RING_SQ w,
                             ulRingConsumed := start_count l RING_SQ w\<rparr>,
        xGCQCq := (xGCQCq g)\<lparr>ulRingProduced := start_count l RING_CQ w,
                             ulRingConsumed := start_count l RING_CQ w\<rparr>,
        iInitialised := True\<rparr>) xLocalData)\<lparr>ucInstancesAllocated := 1\<rparr>, w3)"
    unfolding g_def mode by simp
  with 2(3) 3(2-5) hdr show ?thesis unfolding st by (intro exI[of _ w3]) simp
qed

lemma init_cons:
  fixes im :: GCQ_INTERRUPT_MODE_TYPE
  assumes cfg: "bring_up_config ringlen sq cq w0"
    and geo: "link_geometry l ringlen sq cq (GCQ_FEATURES_IS_IN_MEM_PTR flags)"
    and lay: "ip_layout w = ip_layout w0"
  defines "g \<equiv> link_instance CONS_SIDE l im flags sq cq w0"
  shows "\<exists>w'. xGCQInit None (ip_io CONS_SIDE) GCQ_MODE_TYPE_CONSUMER_MODE im flags
      (ip_base CONS_SIDE w0) (ip_ring CONS_SIDE w0) ringlen sq cq xLocalData w =
      Some (GCQ_ERRORS_NONE, Some 0, (put_instance (Some 0) (g\<lparr>iInitialised := True\<rparr>) xLocalData)
        \<lparr>ucInstancesAllocated := 1\<rparr>, w')
    \<and> ip_layout w' = ip_layout w \<and> ip_get w' = ip_get w"
proof -
  note c = cfg[unfolded bring_up_config_def]
  have sep: "ip_separate CONS_SIDE w" using c ip_separate_layout[OF lay] by simp
  have mode: "side_mode CONS_SIDE = GCQ_MODE_TYPE_CONSUMER_MODE" by (simp add: side_mode_def)
  have base: "ip_base CONS_SIDE w = ip_base CONS_SIDE w0" using ip_base_layout[OF lay] by simp
  from hw_init_ip[OF sep, of "ip_ring CONS_SIDE w0", unfolded mode base] obtain w1 where
    1: "xGCQHWInit GCQ_MODE_TYPE_CONSUMER_MODE (ip_base CONS_SIDE w0) (ip_ring CONS_SIDE w0) (ip_io CONS_SIDE) w
        = Some (GCQ_ERRORS_NONE, w1)" "ip_get w1 = ip_get w" "ip_layout w1 = ip_layout w"
    by auto
  have sep1: "ip_separate CONS_SIDE w1" using sep ip_separate_layout[OF 1(3)] by simp
  have base1: "ip_base CONS_SIDE w1 = ip_base CONS_SIDE w0" using ip_base_layout[OF 1(3)] base by simp
  from hw_config_ip[OF sep1, of im, unfolded mode base1] obtain st w2 where
    2: "xGCQHWConfigureInterruptMode GCQ_MODE_TYPE_CONSUMER_MODE im (ip_base CONS_SIDE w0) (ip_io CONS_SIDE) w1
        = Some (st, w2)" "ip_get w2 = ip_get w" "ip_layout w2 = ip_layout w"
    using 1(2,3) by auto
  have alloc: "prvulGCQAllocNumSlots ringlen sq cq = Some (2 ^ lkLogSlots l)"
    using geo by (simp add: link_geometry_def)
  from c have c': "sq mod 4 = 0" "cq mod 4 = 0" "sq \<noteq> 0" "cq \<noteq> 0" by simp_all
  from init_unfold[OF ip_present c' alloc geometry_slots(7)[OF cfg geo] 1(1) 2(1), where flags = flags]
  show ?thesis unfolding g_def mode using 2(2,3) by simp
qed

lemma put_instance_zero [simp]:
  "xGCQInstances (put_instance (Some 0) g xLocalData) ! 0 = g"
  "length (xGCQInstances (put_instance (Some 0) g xLocalData)) = 4"
  "firewalls_ok (put_instance (Some 0) g xLocalData)"
  by (simp_all add: put_instance_def xLocalData_def GCQ_MAX_INSTANCES_def firewalls_ok_def)

lemma firewalls_ok_upd [simp]:
  "firewalls_ok (d\<lparr>ucInstancesAllocated := n\<rparr>) = firewalls_ok d"
  "firewalls_ok (d\<lparr>ucConsumerAttached := b\<rparr>) = firewalls_ok d"
  "firewalls_ok (d\<lparr>xGCQInstances := gs\<rparr>) = firewalls_ok d"
  by (simp_all add: firewalls_ok_def)

lemma ctz_pow2: "k < 32 \<Longrightarrow> prvulGetTrailingZeros (ucast (2 ^ k :: u32)) = k"
proof -
  assume k: "k < 32"
  let ?v = "ucast (2 ^ k :: u32) :: u64"
  have b: "bit ?v n \<longleftrightarrow> n = k" for n using k by (auto simp: bit_simps)
  have "?v \<noteq> 0" using b[of k] by force
  then show ?thesis using ctz_lowest_bit[of ?v] b by simp
qed

text \<open>A link assembled from the two initialised drivers satisfies the invariant.\<close>

lemma queue_inv_reset:
  "queue_inv k p p (r\<lparr>ulRingProduced := p, ulRingConsumed := p\<rparr>) (r'\<lparr>ulRingProduced := p, ulRingConsumed := p\<rparr>)"
  by (simp add: queue_inv_def)

definition reset_rings :: "(ring_ptr \<Rightarrow> u32) \<Rightarrow> gcq_ip GCQ_INSTANCE_TYPE \<Rightarrow> gcq_ip GCQ_INSTANCE_TYPE" where
  "reset_rings c g = g\<lparr>
     xGCQSq := (xGCQSq g)\<lparr>ulRingProduced := c RING_SQ, ulRingConsumed := c RING_SQ\<rparr>,
     xGCQCq := (xGCQCq g)\<lparr>ulRingProduced := c RING_CQ, ulRingConsumed := c RING_CQ\<rparr>,
     iInitialised := True\<rparr>"

lemma ring_of_reset [simp]:
  "ring_of q (reset_rings c g) = (ring_of q g)\<lparr>ulRingProduced := c q, ulRingConsumed := c q\<rparr>"
  by (cases q) (simp_all add: ring_of_def reset_rings_def)

lemma side_ok_new:
  assumes cfg: "bring_up_config ringlen sq cq w"
    and geo: "link_geometry l ringlen sq cq (GCQ_FEATURES_IS_IN_MEM_PTR flags)"
    and lay: "ip_layout (lkIp l) = ip_layout w"
    and d: "firewalls_ok (lk_drv s l)" "lk_px s l < length (xGCQInstances (lk_drv s l))"
      "s = CONS_SIDE \<Longrightarrow> ucConsumerAttached (lk_drv s l)"
      "lk_inst s l = reset_rings c (link_instance s l im flags sq cq w)"
  shows "side_ok s l"
proof -
  note gs = geometry_slots[OF cfg geo]
  have rings: "ring_at (ip_loc s (lkIp l)) (ring_of q (lk_inst s l)) (q_prod_cell l q) (q_cons_cell q)
      (q_slot_cell l q) (lkLogSlots l) (lk_words q l)" for q
    using link_instance_rings[OF cfg geo lay, of s q im] by (simp add: d(4))
  have fields: "iInitialised (lk_inst s l)" "pxGCQIOAccess (lk_inst s l) = Some (ip_io s)"
    "xMode (lk_inst s l) = side_mode s" "ullBaseAddr (lk_inst s l) = ip_base s (lkIp l)"
    unfolding d(4) ip_base_layout[OF lay]
    by (simp_all add: reset_rings_def gcq_new_instance_def Let_def)
  have "(q_src q = s \<longrightarrow> pxGCQProducer (lk_inst s l) = Some q \<and>
            ulProducerSlotSize (lk_inst s l) = of_nat (4 * lk_words q l)) \<and>
        (q_dst q = s \<longrightarrow> pxGCQConsumer (lk_inst s l) = Some q \<and>
            ulConsumerSlotSize (lk_inst s l) = of_nat (4 * lk_words q l))" for q
    unfolding d(4) using gs(5,6)
    by (cases q; cases s) (simp_all add: reset_rings_def gcq_new_instance_def Let_def lk_words_def
        q_src_def q_dst_def side_mode_def del: of_nat_mult)
  with rings fields d(1-3) show ?thesis by (simp add: side_ok_def Let_def del: of_nat_mult)
qed

lemma unat_mod_4: "(x :: u32) mod 4 = 0 \<Longrightarrow> unat x mod 4 = 0"
  using unat_mod[of x 4] by simp

text \<open>The private data of the two drivers once they are initialised.\<close>

abbreviation prod_data ::
  "gcq_link \<Rightarrow> (ring_ptr \<Rightarrow> u32) \<Rightarrow> GCQ_INTERRUPT_MODE_TYPE \<Rightarrow> u32 \<Rightarrow> u32 \<Rightarrow> u32 \<Rightarrow> gcq_ip
   \<Rightarrow> gcq_ip GCQ_PRIVATE_DATA" where
  "prod_data l cnt im flags sq cq w \<equiv>
     (put_instance (Some 0) (reset_rings cnt (link_instance PROD_SIDE l im flags sq cq w)) xLocalData)
       \<lparr>ucInstancesAllocated := 1\<rparr>"

abbreviation cons_data ::
  "gcq_link \<Rightarrow> GCQ_INTERRUPT_MODE_TYPE \<Rightarrow> u32 \<Rightarrow> u32 \<Rightarrow> u32 \<Rightarrow> gcq_ip \<Rightarrow> gcq_ip GCQ_PRIVATE_DATA" where
  "cons_data l im flags sq cq w \<equiv>
     (put_instance (Some 0) ((link_instance CONS_SIDE l im flags sq cq w)\<lparr>iInitialised := True\<rparr>) xLocalData)
       \<lparr>ucInstancesAllocated := 1\<rparr>"

abbreviation attached_data ::
  "gcq_link \<Rightarrow> (ring_ptr \<Rightarrow> u32) \<Rightarrow> GCQ_INTERRUPT_MODE_TYPE \<Rightarrow> u32 \<Rightarrow> u32 \<Rightarrow> u32 \<Rightarrow> gcq_ip
   \<Rightarrow> gcq_ip GCQ_PRIVATE_DATA" where
  "attached_data l cnt im flags sq cq w \<equiv>
     (put_instance (Some 0) (reset_rings cnt (link_instance CONS_SIDE l im flags sq cq w))
       (cons_data l im flags sq cq w))\<lparr>ucConsumerAttached := True\<rparr>"

lemma link_from_parts:
  assumes cfg: "bring_up_config ringlen sq cq w"
    and geo: "link_geometry l ringlen sq cq (GCQ_FEATURES_IS_IN_MEM_PTR flags)"
    and lay: "ip_layout (lkIp l) = ip_layout w"
    and drv: "lkProd l = prod_data l cnt imp flags sq cq w" "lkCons l = attached_data l cnt imc flags sq cq w"
      "lkProdPx l = 0" "lkConsPx l = 0"
    and cnt: "\<And>q. lk_P q l = cnt q" "\<And>q. lk_C q l = cnt q" and len: "\<And>q. lk_len q l \<le> lk_words q l"
  shows "lk_inv l \<and> (\<forall>q. lk_items q l = [])"
proof -
  have inst: "lk_inst PROD_SIDE l = reset_rings cnt (link_instance PROD_SIDE l imp flags sq cq w)"
    "lk_inst CONS_SIDE l = reset_rings cnt (link_instance CONS_SIDE l imc flags sq cq w)"
    using drv by (simp_all add: lk_inst_def lk_drv_def lk_px_def put_instance_def xLocalData_def
        GCQ_MAX_INSTANCES_def)
  have "side_ok s l" for s
  proof (rule side_ok_new[OF cfg geo lay, where c = cnt and im = "case s of PROD_SIDE \<Rightarrow> imp | CONS_SIDE \<Rightarrow> imc"])
    show "firewalls_ok (lk_drv s l)"
      by (cases s) (simp_all add: lk_drv_def drv put_instance_def firewalls_ok_def xLocalData_def)
    show "lk_px s l < length (xGCQInstances (lk_drv s l))"
      by (cases s) (simp_all add: lk_drv_def lk_px_def drv put_instance_def xLocalData_def
          GCQ_MAX_INSTANCES_def)
    show "ucConsumerAttached (lk_drv s l)" if "s = CONS_SIDE" using that
      by (simp add: lk_drv_def drv)
    show "lk_inst s l = reset_rings cnt (link_instance s l
        (case s of PROD_SIDE \<Rightarrow> imp | CONS_SIDE \<Rightarrow> imc) flags sq cq w)"
      using inst by (cases s) simp_all
  qed
  moreover have "queue_inv (lkLogSlots l) (cnt q) (cnt q) (lk_ring (q_src q) q l) (lk_ring (q_dst q) q l)" for q
    unfolding lk_ring_def by (cases q) (simp_all add: q_src_def q_dst_def inst queue_inv_reset)
  ultimately show ?thesis using len by (simp add: lk_inv_def cnt lk_items_def queue_items_def)
qed

text \<open>The three calls, with the state each leaves behind.\<close>

lemma bring_up_calls:
  assumes cfg: "bring_up_config ringlen sq cq w"
    and geo: "link_geometry l ringlen sq cq (GCQ_FEATURES_IS_IN_MEM_PTR flags)"
  defines "cnt \<equiv> \<lambda>q. start_count l q w"
  shows "\<exists>w1 w2 w3. xGCQInit None (ip_io PROD_SIDE) GCQ_MODE_TYPE_PRODUCER_MODE imp flags
        (ip_base PROD_SIDE w) (ip_ring PROD_SIDE w) ringlen sq cq xLocalData w
        = Some (GCQ_ERRORS_NONE, Some 0, prod_data l cnt imp flags sq cq w, w1)
    \<and> xGCQInit None (ip_io CONS_SIDE) GCQ_MODE_TYPE_CONSUMER_MODE imc flags
        (ip_base CONS_SIDE w) (ip_ring CONS_SIDE w) ringlen sq cq xLocalData w1
        = Some (GCQ_ERRORS_NONE, Some 0, cons_data l imc flags sq cq w, w2)
    \<and> xGCQAttachConsumer (Some 0) (cons_data l imc flags sq cq w) w2
        = Some (GCQ_ERRORS_NONE, attached_data l cnt imc flags sq cq w, w3)
    \<and> ip_layout w3 = ip_layout w
    \<and> (\<forall>q. ip_get w3 (q_prod_cell l q) = cnt q) \<and> (\<forall>q. ip_get w3 (q_cons_cell q) = cnt q)"
proof -
  let ?gC = "link_instance CONS_SIDE l imc flags sq cq w"
  from init_prod[OF cfg geo, of imp] obtain w1 where
    1: "xGCQInit None (ip_io PROD_SIDE) GCQ_MODE_TYPE_PRODUCER_MODE imp flags (ip_base PROD_SIDE w)
        (ip_ring PROD_SIDE w) ringlen sq cq xLocalData w
        = Some (GCQ_ERRORS_NONE, Some 0, prod_data l cnt imp flags sq cq w, w1)"
      "ip_layout w1 = ip_layout w" "\<forall>q. ip_get w1 (q_prod_cell l q) = cnt q"
      "\<forall>q. ip_get w1 (q_cons_cell q) = cnt q" "ip_get w1 (SHARED 0) = GCQ_ALLOC_MAGIC"
      "ip_get w1 (SHARED 1) = GCQ_VERSION" "ip_get w1 (SHARED 2) = 2 ^ lkLogSlots l"
      "ip_get w1 (SHARED 4) = sq" unfolding reset_rings_def cnt_def by blast
  from init_cons[OF cfg geo 1(2), of imc] obtain w2 where
    2: "xGCQInit None (ip_io CONS_SIDE) GCQ_MODE_TYPE_CONSUMER_MODE imc flags (ip_base CONS_SIDE w)
        (ip_ring CONS_SIDE w) ringlen sq cq xLocalData w1
        = Some (GCQ_ERRORS_NONE, Some 0, cons_data l imc flags sq cq w, w2)"
      "ip_layout w2 = ip_layout w" "ip_get w2 = ip_get w1" using 1(2) by auto
  have "ip_separate CONS_SIDE w2"
    using cfg ip_separate_layout[OF 2(2)] by (simp add: bring_up_config_def)
  then have hdr: "\<forall>i<11. ip_loc CONS_SIDE w2 (ip_ring CONS_SIDE w2 + of_nat (4 * i)) = Some (SHARED i)"
    using ip_loc_mem[of CONS_SIDE w2] ip_words_layout[OF 2(2)] geometry_slots(1)[OF cfg geo]
    by (simp del: of_nat_mult)
  note at = link_instance_rings[OF cfg geo 2(2), where s = CONS_SIDE and im = imc, unfolded ring_at_def]
  have deref: "deref_instance (cons_data l imc flags sq cq w) (Some 0) = Some (?gC\<lparr>iInitialised := True\<rparr>)"
    by (simp add: deref_instance_def)
  from attach_ip[OF _ deref _ _ _ hdr, of l] at[of RING_SQ] at[of RING_CQ] obtain w3 where
    "xGCQAttachConsumer (Some 0) (cons_data l imc flags sq cq w) w2
        = Some (GCQ_ERRORS_NONE, attached_data l cnt imc flags sq cq w, w3)"
      "ip_get w3 = ip_get w1" "ip_layout w3 = ip_layout w"
    using 1(3-8) 2(2,3) ip_ring_layout[OF 2(2), of CONS_SIDE]
    by (auto simp: ring_of_def gcq_new_instance_def Let_def prvvGCQInitRing_def reset_rings_def
        simp del: ip_get.simps)
  with 1 2 show ?thesis by auto
qed

lemma bring_up_ok:
  assumes cfg: "bring_up_config ringlen sq cq w"
    and len: "4 * sqlen \<le> unat sq" "4 * cqlen \<le> unat cq"
  shows "\<exists>l. gcq_bring_up imp imc flags ringlen sq cq sqlen cqlen w = Some l \<and> lk_inv l
    \<and> link_geometry l ringlen sq cq (GCQ_FEATURES_IS_IN_MEM_PTR flags)
    \<and> lk_len RING_SQ l = sqlen \<and> lk_len RING_CQ l = cqlen \<and> (\<forall>q. lk_items q l = [])
    \<and> (\<forall>q. lk_P q l = start_count l q w)"
proof -
  from geometry_exists[OF cfg] obtain j where
    j: "prvulGCQAllocNumSlots ringlen sq cq = Some (2 ^ j)" "1 \<le> j" "j < 31"
      "44 + 2 ^ j * (unat sq + unat cq) \<le> unat ringlen"
      "unat ringlen < 44 + 2 ^ (j + 1) * (unat sq + unat cq)" by blast
  define mk where "mk = (\<lambda>d1 d3 w3. \<lparr> lkProd = d1, lkCons = d3, lkProdPx = 0, lkConsPx = 0, lkIp = w3,
      lkLogSlots = j, lkSqWords = unat sq div 4, lkCqWords = unat cq div 4, lkSqLen = sqlen,
      lkCqLen = cqlen, lkInMem = GCQ_FEATURES_IS_IN_MEM_PTR flags \<rparr>)"
  define l0 where "l0 = mk xLocalData xLocalData w"
  have "unat sq mod 4 = 0" "unat cq mod 4 = 0" using cfg by (simp_all add: unat_mod_4 bring_up_config_def)
  then have "unat sq = 4 * (unat sq div 4)" "unat cq = 4 * (unat cq div 4)" by presburger+
  then have geo: "link_geometry (mk d1 d3 w3) ringlen sq cq (GCQ_FEATURES_IS_IN_MEM_PTR flags)" for d1 d3 w3
    using j by (simp add: link_geometry_def mk_def)
  let ?cnt = "\<lambda>q. start_count l0 q w"
  let ?d1 = "prod_data l0 ?cnt imp flags sq cq w" and ?d3 = "attached_data l0 ?cnt imc flags sq cq w"
  from bring_up_calls[OF cfg geo, of imp xLocalData xLocalData w imc, folded l0_def] obtain w1 w2 w3 where
    c: "xGCQInit None (ip_io PROD_SIDE) GCQ_MODE_TYPE_PRODUCER_MODE imp flags (ip_base PROD_SIDE w)
        (ip_ring PROD_SIDE w) ringlen sq cq xLocalData w = Some (GCQ_ERRORS_NONE, Some 0, ?d1, w1)"
      "xGCQInit None (ip_io CONS_SIDE) GCQ_MODE_TYPE_CONSUMER_MODE imc flags (ip_base CONS_SIDE w)
        (ip_ring CONS_SIDE w) ringlen sq cq xLocalData w1
        = Some (GCQ_ERRORS_NONE, Some 0, cons_data l0 imc flags sq cq w, w2)"
      "xGCQAttachConsumer (Some 0) (cons_data l0 imc flags sq cq w) w2 = Some (GCQ_ERRORS_NONE, ?d3, w3)"
      "ip_layout w3 = ip_layout w" "\<forall>q. ip_get w3 (q_prod_cell l0 q) = ?cnt q"
      "\<forall>q. ip_get w3 (q_cons_cell q) = ?cnt q" by blast
  define l where "l = mk ?d1 ?d3 w3"
  have l: "lkProd l = ?d1" "lkCons l = ?d3" "lkProdPx l = 0" "lkConsPx l = 0" "lkIp l = w3"
    "lkLogSlots l = lkLogSlots l0" "q_prod_cell l q = q_prod_cell l0 q" "lkInMem l = lkInMem l0"
    "lk_len RING_SQ l = sqlen" "lk_len RING_CQ l = cqlen" for q
    by (simp_all add: l_def mk_def l0_def q_prod_cell_def lk_len_def)
  have cnt: "lk_P q l = ?cnt q" "lk_C q l = ?cnt q" for q
    using c(5,6) by (simp_all only: lk_P_def lk_C_def l)
  have "lk_len q l \<le> lk_words q l" for q
    using len by (cases q) (simp_all add: lk_len_def lk_words_def l_def mk_def)
  then have "lk_inv l \<and> (\<forall>q. lk_items q l = [])"
    using c(4) l(1-6) by (intro link_from_parts[OF cfg geo[of ?d1 ?d3 w3, folded l_def] _ _ _ _ _ cnt]) simp_all
  moreover have "gcq_bring_up imp imc flags ringlen sq cq sqlen cqlen w = Some l"
    using c(1-3) ctz_pow2[of j] j(3)
    by (simp add: gcq_bring_up_def ip_base_def ip_ring_def l_def mk_def)
      (simp add: reset_rings_def gcq_new_instance_def Let_def prvvGCQInitRing_def l0_def mk_def)
  moreover have "start_count l q w = start_count l0 q w" for q by (simp only: start_count_def l)
  ultimately show ?thesis using l(9,10) cnt(1) geo[of ?d1 ?d3 w3, folded l_def] by simp
qed

end
