(* ===== verification/GcqProperties.thy ===== *)
theory GcqProperties
  imports GcqBringUp GcqInstances
begin

text \<open>
  The properties of the generic command queue: what a host and the card may rely on
  when they exchange messages through it, the allocation and the management of
  instances, and the behaviours of the code that depart from what it documents.
\<close>

section \<open>A concrete block, for the witnesses\<close>

definition sample_ip :: "u32 \<Rightarrow> u32 \<Rightarrow> gcq_ip" where
  "sample_ip pt ct = \<lparr> ipProdBase = 0x1000, ipConsBase = 0x2000, ipProdRing = 0x10000,
     ipConsRing = 0x20000, ipMemWords = 15, ipProdTail = pt, ipConsTail = ct, ipProdIrq = False,
     ipConsIrq = False, ipProdRegs = (\<lambda>_. 0), ipConsRegs = (\<lambda>_. 0), ipMem = (\<lambda>_. 0) \<rparr>"

lemma sample_separate: "ip_separate s (sample_ip pt ct)"
proof -
  have far: "0x200 \<le> unat (of_nat (c + 4 * i) :: u64)"
    if "0x200 \<le> c" "c \<le> 0x20000" "i < 15" for c i :: nat
  proof -
    have "c + 4 * i < 2 ^ LENGTH(64)" using that by simp
    then have "unat (of_nat (c + 4 * i) :: u64) = c + 4 * i" by (rule unat_of_nat_less)
    then show ?thesis using that by (simp only:)
  qed
  from far[of "0xF000"] far[of "0x1E000"] show ?thesis
    by (cases s) (simp_all add: ip_separate_def sample_ip_def ip_ring_def ip_base_def)
qed

lemma sample_config: "bring_up_config 60 4 4 (sample_ip pt ct)"
  using sample_separate by (simp add: bring_up_config_def sample_ip_def)

text \<open>A link brought up over the sample block: one-word messages, two slots per queue.\<close>

lemma sample_link:
  "\<exists>l. gcq_bring_up GCQ_INTERRUPT_MODE_POLLING GCQ_INTERRUPT_MODE_POLLING 0 60 4 4 1 1
      (sample_ip pt ct) = Some l
    \<and> lk_inv l \<and> (\<forall>q x. lk_valid q l x = (length x = 1)) \<and> (\<forall>q. lk_items q l = []) \<and> 0 < lk_cap l
    \<and> \<not> lkInMem l \<and> lk_P RING_CQ l = pt \<and> lk_P RING_SQ l = ct"
proof -
  from bring_up_ok[OF sample_config, of 1 1 GCQ_INTERRUPT_MODE_POLLING GCQ_INTERRUPT_MODE_POLLING 0 pt ct]
  obtain l where l: "gcq_bring_up GCQ_INTERRUPT_MODE_POLLING GCQ_INTERRUPT_MODE_POLLING 0 60 4 4 1 1
      (sample_ip pt ct) = Some l" "lk_inv l" "link_geometry l 60 4 4 (GCQ_FEATURES_IS_IN_MEM_PTR 0)"
      "lk_len RING_SQ l = 1" "lk_len RING_CQ l = 1" "\<forall>q. lk_items q l = []"
      "\<forall>q. lk_P q l = start_count l q (sample_ip pt ct)" by fastforce
  have "\<not> lkInMem l" using l(3) by (simp add: link_geometry_def GCQ_FEATURES_IS_IN_MEM_PTR_def)
  moreover have "lk_valid q l x = (length x = 1)" for q x
    using l(4,5) by (cases q) (simp_all add: lk_valid_def)
  ultimately show ?thesis using l
    by (simp add: lk_cap_def start_count_def q_prod_cell_def q_src_def own_tail_def sample_ip_def)
qed

section \<open>Message transport\<close>

text \<open>
  C1: after the card's driver has been initialised in producer mode, the host's in
  consumer mode, and the host has attached, any interleaving of sends and receives in
  both directions runs without undefined behaviour; on each queue what was delivered,
  followed by what is still pending, is exactly what was accepted, in order; and never
  more messages are pending than the slots that were allocated.
\<close>

theorem gcq_end_to_end:
  assumes "bring_up_config ringlen sq cq w"
    and "4 * sqlen \<le> unat sq" "4 * cqlen \<le> unat cq"
    and "list_all (\<lambda>(q, oper). op_valid
           (\<lambda>x. length x = (case q of RING_SQ \<Rightarrow> sqlen | RING_CQ \<Rightarrow> cqlen)) oper) ops"
  shows "\<exists>l acc del l'. gcq_bring_up imp imc flags ringlen sq cq sqlen cqlen w = Some l
    \<and> family_run gcq_send gcq_recv ops l = Some (acc, del, l')
    \<and> (\<forall>q. on_dir q acc = on_dir q del @ lk_items q l' \<and> length (lk_items q l') \<le> 2 ^ lkLogSlots l)"
proof -
  from bring_up_ok[OF assms(1-3)] obtain l where l:
    "gcq_bring_up imp imc flags ringlen sq cq sqlen cqlen w = Some l" "lk_inv l"
    "lk_len RING_SQ l = sqlen" "lk_len RING_CQ l = cqlen" "\<forall>q. lk_items q l = []" by blast
  have "(\<lambda>x. length x = (case q of RING_SQ \<Rightarrow> sqlen | RING_CQ \<Rightarrow> cqlen)) = lk_valid q l" for q
    using l(3,4) by (cases q) (simp_all add: lk_valid_def fun_eq_iff)
  with assms(4) have "list_all (\<lambda>(q, oper). op_valid (lk_valid q l) oper) ops" by simp
  from gcq_fifo.family_run_ok[OF l(2) this] l(1,5) show ?thesis by (auto simp: lk_cap_def)
qed

lemma gcq_end_to_end_witness:
  "\<exists>l acc del l'. gcq_bring_up GCQ_INTERRUPT_MODE_INTERRUPT_REG GCQ_INTERRUPT_MODE_POLLING 0 60 4 4 1 1
      (sample_ip 0xFFFFFFFF 5) = Some l
    \<and> family_run gcq_send gcq_recv [(RING_SQ, Enq [7]), (RING_CQ, Enq [8]), (RING_SQ, Deq)] l
        = Some (acc, del, l')
    \<and> (\<forall>q. on_dir q acc = on_dir q del @ lk_items q l' \<and> length (lk_items q l') \<le> 2 ^ lkLogSlots l)"
  by (rule gcq_end_to_end[OF sample_config]) simp_all

text \<open>
  C2: the bring-up sequence succeeds on every admissible configuration and leaves a
  link whose two drivers, header and hardware pointers agree: the invariant holds,
  both queues are empty whatever the tail registers held, and the number of slots is
  the largest power of two that fits the shared memory.
\<close>

theorem gcq_bring_up_link:
  assumes "bring_up_config ringlen sq cq w" "4 * sqlen \<le> unat sq" "4 * cqlen \<le> unat cq"
  shows "\<exists>l. gcq_bring_up imp imc flags ringlen sq cq sqlen cqlen w = Some l \<and> lk_inv l
    \<and> link_geometry l ringlen sq cq (GCQ_FEATURES_IS_IN_MEM_PTR flags) \<and> (\<forall>q. lk_items q l = [])"
  using bring_up_ok[OF assms] by blast

lemma gcq_bring_up_link_witness:
  "\<exists>l. gcq_bring_up GCQ_INTERRUPT_MODE_TAIL_POINTER GCQ_INTERRUPT_MODE_POLLING 2 60 4 4 1 0
      (sample_ip 3 9) = Some l \<and> lk_inv l
    \<and> link_geometry l 60 4 4 (GCQ_FEATURES_IS_IN_MEM_PTR 2) \<and> (\<forall>q. lk_items q l = [])"
  by (rule gcq_bring_up_link[OF sample_config]) simp_all

text \<open>
  C12: back-pressure. A send on a link in its invariant is accepted exactly when the
  queue holds fewer messages than slots, also when the sender's copy of the consumed
  pointer is stale; a refused send changes no queue.
\<close>

theorem gcq_backpressure:
  assumes "lk_inv l" "lk_valid q l x"
  shows "\<exists>b l'. gcq_send q x l = Some (b, l') \<and> lk_inv l'
    \<and> b = (length (lk_items q l) < lk_cap l)
    \<and> lk_items q l' = (if b then lk_items q l @ [x] else lk_items q l)
    \<and> (\<forall>q'. q' \<noteq> q \<longrightarrow> lk_items q' l' = lk_items q' l)"
  using gcq_fifo.send_law[OF assms] by blast

lemma gcq_backpressure_witness:
  "\<exists>l b l'. lk_inv l \<and> gcq_send RING_CQ [1] l = Some (b, l') \<and> lk_inv l'
    \<and> b = (length (lk_items RING_CQ l) < lk_cap l)"
proof -
  from sample_link[of 3 9] obtain l where l: "lk_inv l" "lk_valid RING_CQ l [1]" by fastforce
  from gcq_backpressure[OF this] l show ?thesis by blast
qed

text \<open>
  C16: no message is stranded. While the tail registers are not both all ones, as many
  receives as there are pending messages deliver all of them, in order, and empty the
  queue.
\<close>

theorem gcq_queue_drains:
  assumes "lk_inv l" "lk_ready l"
  shows "\<exists>l'. fifo_run (gcq_send q) (gcq_recv q) (replicate (length (lk_items q l)) Deq) l
      = Some ([], lk_items q l, l') \<and> lk_inv l' \<and> lk_items q l' = []"
  by (rule gcq_chan.drain_ok[OF assms])

text \<open>After one accepted send, one message is pending.\<close>

lemma sample_sent:
  "\<exists>l. lk_inv l \<and> lk_items RING_CQ l = [[7]] \<and> \<not> lkInMem l \<and> lk_P RING_CQ l = pt + 1 \<and> lk_P RING_SQ l = ct"
proof -
  from sample_link[of pt ct] obtain l where l: "lk_inv l" "lk_valid RING_CQ l [7]"
    "lk_items RING_CQ l = []" "0 < lk_cap l" "\<not> lkInMem l" "lk_P RING_CQ l = pt" "lk_P RING_SQ l = ct"
    by fastforce
  have "length (lk_items RING_CQ l) < lk_cap l" using l(3,4) by simp
  from send_room[OF l(1,2) this] l show ?thesis by fastforce
qed

lemma gcq_queue_drains_witness:
  "\<exists>l l'. lk_inv l \<and> lk_items RING_CQ l = [[7]] \<and>
    fifo_run (gcq_send RING_CQ) (gcq_recv RING_CQ) (replicate (length (lk_items RING_CQ l)) Deq) l
      = Some ([], lk_items RING_CQ l, l') \<and> lk_items RING_CQ l' = []"
proof -
  from sample_sent[of 3 9] obtain l where l: "lk_inv l" "lk_items RING_CQ l = [[7]]"
    "\<not> lkInMem l" "lk_P RING_CQ l = 4" by fastforce
  then have "lk_ready l" by (simp add: ready_counts)
  from gcq_queue_drains[OF l(1) this, of RING_CQ] l show ?thesis by blast
qed

text \<open>
  C27: the guard against an absent device mistakes two wrapped tail pointers for one.
  Exactly when both tail registers hold 0xFFFFFFFF, a state the free-running counters
  reach, every receive reports that there is no data, although messages are pending.
\<close>

theorem gcq_all_ones_stall:
  assumes "lk_inv l" "lk_items q l \<noteq> []"
  shows "(\<exists>l'. gcq_recv q l = Some (None, l')) \<longleftrightarrow>
    ipProdTail (lkIp l) = 0xFFFFFFFF \<and> ipConsTail (lkIp l) = 0xFFFFFFFF"
proof -
  have "(\<exists>l'. gcq_recv q l = Some (None, l')) \<longleftrightarrow> \<not> lk_ready l"
    using recv_none[OF assms(1), of q] recv_some[OF assms(1) _ assms(2)] by fastforce
  then show ?thesis unfolding all_ones by (simp add: lk_ready_def)
qed

lemma gcq_all_ones_stall_witness:
  "\<exists>l l'. lk_inv l \<and> lk_items RING_CQ l = [[7]] \<and> gcq_recv RING_CQ l = Some (None, l')"
proof -
  from sample_sent[of "- 2" "- 1"] obtain l where l: "lk_inv l" "lk_items RING_CQ l = [[7]]"
    "\<not> lkInMem l" "lk_P RING_CQ l = - 1" "lk_P RING_SQ l = - 1" by fastforce
  then have "ipProdTail (lkIp l) = 0xFFFFFFFF" "ipConsTail (lkIp l) = 0xFFFFFFFF"
    unfolding all_ones by (simp_all add: lk_P_def q_prod_cell_def q_src_def own_tail_def)
  with gcq_all_ones_stall[OF l(1), of RING_CQ] l show ?thesis by auto
qed

section \<open>Slot allocation\<close>

text \<open>
  C21: the allocation returns a power of two of slots that, with the header, fits the
  shared memory, and twice as many would not; it returns 1, which initialisation
  rejects, exactly when not even two slots of each queue fit.
\<close>

theorem gcq_alloc_largest_power:
  assumes "unat ringlen < 2 ^ 31" "0 < unat sq + unat cq" "44 + 2 * (unat sq + unat cq) < 2 ^ 32"
  shows "\<exists>j < 31. prvulGCQAllocNumSlots ringlen sq cq = Some (2 ^ j)
    \<and> (1 \<le> j \<longrightarrow> 44 + 2 ^ j * (unat sq + unat cq) \<le> unat ringlen)
    \<and> unat ringlen < 44 + 2 ^ (j + 1) * (unat sq + unat cq)"
  by (rule alloc_slots_fit[OF assms])

lemma gcq_alloc_largest_power_witness:
  "\<exists>j < 31. prvulGCQAllocNumSlots 4096 512 16 = Some (2 ^ j)
    \<and> (1 \<le> j \<longrightarrow> 44 + 2 ^ j * (unat (512 :: u32) + unat (16 :: u32)) \<le> unat (4096 :: u64))
    \<and> unat (4096 :: u64) < 44 + 2 ^ (j + 1) * (unat (512 :: u32) + unat (16 :: u32))"
  by (rule gcq_alloc_largest_power) simp_all

text \<open>
  C34: the allocation loop compares a 32-bit total with the 64-bit length of the shared
  memory: for a length of \<open>2 ^ 32 - 1\<close> bytes or more it does not return, for any slot
  sizes.
\<close>

theorem gcq_alloc_never_returns:
  assumes "2 ^ 32 - 1 \<le> unat ringlen"
  shows "prvulGCQAllocNumSlots ringlen sq cq = None"
  by (rule alloc_slots_diverges[OF assms])

lemma gcq_alloc_never_returns_witness: "prvulGCQAllocNumSlots 0x100000000 512 16 = None"
  by (rule gcq_alloc_never_returns) simp

section \<open>Instances and attaching\<close>

text \<open>
  The instance table stays consistent through initialisation and
  de-initialisation, for any access functions: the count of allocated instances is the
  number of initialised ones, goes up by one exactly when initialisation succeeds and
  down by one exactly when de-initialisation does.
\<close>

theorem gcq_instances_accounted:
  assumes "instances_ok d"
    and "xGCQInit ppx io mode im flags base ring len sq cq d w = Some (st, px, d', w')"
    and "xGCQDeinit px' d' = Some (st', d'')"
  shows "instances_ok d' \<and> instances_ok d''
    \<and> unat (ucInstancesAllocated d') = unat (ucInstancesAllocated d) + (if st = GCQ_ERRORS_NONE then 1 else 0)
    \<and> unat (ucInstancesAllocated d'') + (if st' = GCQ_ERRORS_NONE then 1 else 0)
        = unat (ucInstancesAllocated d')"
  using init_instances_ok[OF assms(1,2)] deinit_instances_ok[OF _ assms(3)] by blast

lemma xLocalData_instances_ok: "instances_ok xLocalData"
  by (simp add: instances_ok_def xLocalData_def zero_instance_def)

lemma gcq_instances_accounted_witness:
  "\<exists>px d' w' d''. xGCQInit None (ip_io PROD_SIDE) GCQ_MODE_TYPE_PRODUCER_MODE
        GCQ_INTERRUPT_MODE_POLLING 0 0x1000 0x10000 60 4 4 xLocalData (sample_ip 0 0)
      = Some (GCQ_ERRORS_NONE, px, d', w')
    \<and> xGCQDeinit px d' = Some (GCQ_ERRORS_NONE, d'')
    \<and> instances_ok d' \<and> instances_ok d'' \<and> unat (ucInstancesAllocated d') = 1"
proof -
  from geometry_exists[OF sample_config] obtain j where j:
    "prvulGCQAllocNumSlots 60 4 4 = Some (2 ^ j)" "1 \<le> j" "j < 31"
    "44 + 2 ^ j * (unat (4 :: u32) + unat (4 :: u32)) \<le> unat (60 :: u64)"
    "unat (60 :: u64) < 44 + 2 ^ (j + 1) * (unat (4 :: u32) + unat (4 :: u32))" by blast
  let ?l = "\<lparr> lkProd = xLocalData, lkCons = xLocalData, lkProdPx = 0, lkConsPx = 0,
    lkIp = sample_ip 0 0, lkLogSlots = j, lkSqWords = 1, lkCqWords = 1, lkSqLen = 1, lkCqLen = 1,
    lkInMem = False \<rparr>"
  have geo: "link_geometry ?l 60 4 4 (GCQ_FEATURES_IS_IN_MEM_PTR 0)"
    using j by (simp add: link_geometry_def GCQ_FEATURES_IS_IN_MEM_PTR_def)
  have addr: "ip_base PROD_SIDE (sample_ip 0 0) = 0x1000" "ip_ring PROD_SIDE (sample_ip 0 0) = 0x10000"
    by (simp_all add: ip_base_def ip_ring_def sample_ip_def)
  let ?d = "prod_data ?l (\<lambda>q. start_count ?l q (sample_ip 0 0)) GCQ_INTERRUPT_MODE_POLLING 0 4 4 (sample_ip 0 0)"
  from bring_up_calls[OF sample_config[of 0 0] geo, of GCQ_INTERRUPT_MODE_POLLING, unfolded addr]
  obtain w' where 1: "xGCQInit None (ip_io PROD_SIDE) GCQ_MODE_TYPE_PRODUCER_MODE GCQ_INTERRUPT_MODE_POLLING 0
          0x1000 0x10000 60 4 4 xLocalData (sample_ip 0 0) = Some (GCQ_ERRORS_NONE, Some 0, ?d, w')"
    unfolding addr by blast
  have "iInitialised (xGCQInstances ?d ! 0)" by (simp add: reset_rings_def)
  then obtain d'' where 2: "xGCQDeinit (Some 0) ?d = Some (GCQ_ERRORS_NONE, d'')"
    by (simp add: xGCQDeinit_def deref_instance_def Let_def)
  have "unat (ucInstancesAllocated (xLocalData :: gcq_ip GCQ_PRIVATE_DATA)) = 0"
    by (simp add: xLocalData_def)
  with gcq_instances_accounted[OF xLocalData_instances_ok 1 2] 1 2 show ?thesis by fastforce
qed

text \<open>
  A consumer attaches only to a queue whose header it agrees with. When the magic
  number is missing, the version, the number of slots or the slot size differ, the
  attach reports that check, in this order, and neither the driver nor the shared
  memory changes.
\<close>

theorem gcq_attach_refuses:
  assumes "firewalls_ok d" "deref_instance d (Some i) = Some g" "iInitialised g"
    and "pxGCQIOAccess g = Some (ip_io s)"
    and "\<forall>i<11. ip_loc s w (ullRingAddr g + of_nat (4 * i)) = Some (SHARED i)"
    and "st = (if ipMem w 0 \<noteq> GCQ_ALLOC_MAGIC then GCQ_ERRORS_CONSUMER_NOT_AVAILABLE
               else check_header (words_header (map (ipMem w) [0..<11])) g)"
    and "st \<noteq> GCQ_ERRORS_NONE"
  shows "\<exists>w'. xGCQAttachConsumer (Some i) d w = Some (st, d, w') \<and> ip_get w' = ip_get w"
  by (rule attach_refused[OF assms])

lemma gcq_attach_refuses_witness:
  "\<exists>d w'. xGCQAttachConsumer (Some 0) d (sample_ip 0 0)
      = Some (GCQ_ERRORS_CONSUMER_NOT_AVAILABLE, d, w')"
proof -
  let ?g = "zero_instance\<lparr>iInitialised := True, pxGCQIOAccess := Some (ip_io CONS_SIDE),
    ullRingAddr := 0x20000\<rparr>"
  let ?d = "put_instance (Some 0) ?g xLocalData"
  have "\<forall>i<11. ip_loc CONS_SIDE (sample_ip 0 0) (0x20000 + of_nat (4 * i)) = Some (SHARED i)"
    using ip_loc_mem[OF sample_separate[of CONS_SIDE 0 0]]
    by (simp add: ip_ring_def sample_ip_def del: of_nat_mult)
  then have h: "\<forall>i<11. ip_loc CONS_SIDE (sample_ip 0 0) (ullRingAddr ?g + of_nat (4 * i)) = Some (SHARED i)"
    by simp
  from gcq_attach_refuses[of ?d 0 ?g CONS_SIDE "sample_ip 0 0" GCQ_ERRORS_CONSUMER_NOT_AVAILABLE, OF _ _ _ _ h]
  show ?thesis by (fastforce simp: deref_instance_def sample_ip_def GCQ_ALLOC_MAGIC_def)
qed

section \<open>Register fields\<close>

text \<open>
  The mask of a register field locates it: for a non-zero value the number of
  trailing zeros the driver computes by bisection is the position of the lowest set
  bit.
\<close>

theorem gcq_trailing_zeros_lowest_bit:
  assumes "v \<noteq> 0"
  shows "bit v (prvulGetTrailingZeros v) \<and> (\<forall>i<prvulGetTrailingZeros v. \<not> bit v i)"
  by (rule ctz_lowest_bit[OF assms])

lemma gcq_trailing_zeros_lowest_bit_witness: "bit (0x50 :: u64) (prvulGetTrailingZeros 0x50)"
  using gcq_trailing_zeros_lowest_bit[of "0x50"] by simp

text \<open>
  The soft reset that initialisation in producer mode documents is not requested.
  The code sets the interrupt-enable bit instead of the reset bit, so \<open>xGCQHWInit\<close>
  leaves both tail registers, and all of the shared memory, as they were.
\<close>

theorem gcq_soft_reset_not_requested:
  assumes "ip_separate PROD_SIDE w" "\<not> bit (ipProdRegs w 0xC) 31"
  shows "\<exists>w'. xGCQHWInit GCQ_MODE_TYPE_PRODUCER_MODE (ip_base PROD_SIDE w) ring (ip_io PROD_SIDE) w
      = Some (GCQ_ERRORS_NONE, w')
    \<and> ipProdTail w' = ipProdTail w \<and> ipConsTail w' = ipConsTail w \<and> ipMem w' = ipMem w"
proof -
  from hw_init_ip[OF assms(1)] assms(2) obtain w' where
    "xGCQHWInit GCQ_MODE_TYPE_PRODUCER_MODE (ip_base PROD_SIDE w) ring (ip_io PROD_SIDE) w
      = Some (GCQ_ERRORS_NONE, w')" "ip_get w' = ip_get w" by (auto simp: side_mode_def)
  then show ?thesis by (metis ext ip_get.simps)
qed

lemma gcq_soft_reset_not_requested_witness:
  "\<exists>w'. xGCQHWInit GCQ_MODE_TYPE_PRODUCER_MODE (ip_base PROD_SIDE (sample_ip 5 6)) 0x10000
      (ip_io PROD_SIDE) (sample_ip 5 6) = Some (GCQ_ERRORS_NONE, w') \<and> ipProdTail w' = 5"
proof -
  have "\<not> bit (ipProdRegs (sample_ip 5 6) 0xC) 31" "ipProdTail (sample_ip 5 6) = 5"
    by (simp_all add: sample_ip_def)
  with gcq_soft_reset_not_requested[OF sample_separate, of 5 6 "0x10000"] show ?thesis by auto
qed

end
