(* ===== verification/SmbusNames.thy ===== *)
theory SmbusNames
  imports Prelude
begin

text \<open>
  The enumerations of the SMBus driver (smbus.h, smbus_internal.h, smbus_event.h) with
  their numeric values, and the functions that name them in the debug log.
\<close>

section \<open>Protocols, states and log events\<close>

datatype SMBus_Command_Protocol_Type =
    SMBUS_PROTOCOL_QUICK_COMMAND_LO
  | SMBUS_PROTOCOL_QUICK_COMMAND_HI
  | SMBUS_PROTOCOL_SEND_BYTE
  | SMBUS_PROTOCOL_RECEIVE_BYTE
  | SMBUS_PROTOCOL_WRITE_BYTE
  | SMBUS_PROTOCOL_WRITE_WORD
  | SMBUS_PROTOCOL_READ_BYTE
  | SMBUS_PROTOCOL_READ_WORD
  | SMBUS_PROTOCOL_PROCESS_CALL
  | SMBUS_PROTOCOL_BLOCK_WRITE
  | SMBUS_PROTOCOL_BLOCK_READ
  | SMBUS_PROTOCOL_BLOCK_WRITE_BLOCK_READ_PROCESS_CALL
  | SMBUS_PROTOCOL_HOST_NOTIFY
  | SMBUS_PROTOCOL_WRITE_32
  | SMBUS_PROTOCOL_READ_32
  | SMBUS_PROTOCOL_WRITE_64
  | SMBUS_PROTOCOL_READ_64
  | SMBUS_ARP_PROTOCOL_PREPARE_TO_ARP
  | SMBUS_ARP_PROTOCOL_RESET_DEVICE
  | SMBUS_ARP_PROTOCOL_GET_UDID
  | SMBUS_ARP_PROTOCOL_ASSIGN_ADDRESS
  | SMBUS_ARP_PROTOCOL_GET_UDID_DIRECTED
  | SMBUS_ARP_PROTOCOL_RESET_DEVICE_DIRECTED
  | SMBUS_PROTOCOL_NONE
  | I2C_PROTOCOL_WRITE
  | I2C_PROTOCOL_READ
  | I2C_PROTOCOL_WRITE_READ
  | I2C_PROTOCOL_NONE

primrec protocol_value :: "SMBus_Command_Protocol_Type \<Rightarrow> u8" where
  "protocol_value SMBUS_PROTOCOL_QUICK_COMMAND_LO = 0"
| "protocol_value SMBUS_PROTOCOL_QUICK_COMMAND_HI = 1"
| "protocol_value SMBUS_PROTOCOL_SEND_BYTE = 2"
| "protocol_value SMBUS_PROTOCOL_RECEIVE_BYTE = 3"
| "protocol_value SMBUS_PROTOCOL_WRITE_BYTE = 4"
| "protocol_value SMBUS_PROTOCOL_WRITE_WORD = 5"
| "protocol_value SMBUS_PROTOCOL_READ_BYTE = 6"
| "protocol_value SMBUS_PROTOCOL_READ_WORD = 7"
| "protocol_value SMBUS_PROTOCOL_PROCESS_CALL = 8"
| "protocol_value SMBUS_PROTOCOL_BLOCK_WRITE = 9"
| "protocol_value SMBUS_PROTOCOL_BLOCK_READ = 10"
| "protocol_value SMBUS_PROTOCOL_BLOCK_WRITE_BLOCK_READ_PROCESS_CALL = 11"
| "protocol_value SMBUS_PROTOCOL_HOST_NOTIFY = 12"
| "protocol_value SMBUS_PROTOCOL_WRITE_32 = 13"
| "protocol_value SMBUS_PROTOCOL_READ_32 = 14"
| "protocol_value SMBUS_PROTOCOL_WRITE_64 = 15"
| "protocol_value SMBUS_PROTOCOL_READ_64 = 16"
| "protocol_value SMBUS_ARP_PROTOCOL_PREPARE_TO_ARP = 17"
| "protocol_value SMBUS_ARP_PROTOCOL_RESET_DEVICE = 18"
| "protocol_value SMBUS_ARP_PROTOCOL_GET_UDID = 19"
| "protocol_value SMBUS_ARP_PROTOCOL_ASSIGN_ADDRESS = 20"
| "protocol_value SMBUS_ARP_PROTOCOL_GET_UDID_DIRECTED = 21"
| "protocol_value SMBUS_ARP_PROTOCOL_RESET_DEVICE_DIRECTED = 22"
| "protocol_value SMBUS_PROTOCOL_NONE = 23"
| "protocol_value I2C_PROTOCOL_WRITE = 24"
| "protocol_value I2C_PROTOCOL_READ = 25"
| "protocol_value I2C_PROTOCOL_WRITE_READ = 26"
| "protocol_value I2C_PROTOCOL_NONE = 27"

datatype SMBus_State_Type =
    SMBUS_STATE_INITIAL
  | SMBUS_STATE_AWAITING_COMMAND_BYTE
  | SMBUS_STATE_AWAITING_BLOCK_SIZE
  | SMBUS_STATE_AWAITING_DATA
  | SMBUS_STATE_AWAITING_READ
  | SMBUS_STATE_READY_TO_SEND_BYTE
  | SMBUS_STATE_CHECK_IF_PEC_REQUIRED
  | SMBUS_STATE_AWAITING_DONE
  | SMBUS_STATE_CONTROLLER_SEND_COMMAND
  | SMBUS_STATE_CONTROLLER_SEND_READ_START
  | SMBUS_STATE_CONTROLLER_READ_BLOCK_SIZE
  | SMBUS_STATE_CONTROLLER_READ_BYTE
  | SMBUS_STATE_CONTROLLER_READ_PEC
  | SMBUS_STATE_CONTROLLER_READ_DONE
  | SMBUS_STATE_CONTROLLER_WRITE_BYTE

primrec state_value :: "SMBus_State_Type \<Rightarrow> u8" where
  "state_value SMBUS_STATE_INITIAL = 0"
| "state_value SMBUS_STATE_AWAITING_COMMAND_BYTE = 1"
| "state_value SMBUS_STATE_AWAITING_BLOCK_SIZE = 2"
| "state_value SMBUS_STATE_AWAITING_DATA = 3"
| "state_value SMBUS_STATE_AWAITING_READ = 4"
| "state_value SMBUS_STATE_READY_TO_SEND_BYTE = 5"
| "state_value SMBUS_STATE_CHECK_IF_PEC_REQUIRED = 6"
| "state_value SMBUS_STATE_AWAITING_DONE = 7"
| "state_value SMBUS_STATE_CONTROLLER_SEND_COMMAND = 8"
| "state_value SMBUS_STATE_CONTROLLER_SEND_READ_START = 9"
| "state_value SMBUS_STATE_CONTROLLER_READ_BLOCK_SIZE = 10"
| "state_value SMBUS_STATE_CONTROLLER_READ_BYTE = 11"
| "state_value SMBUS_STATE_CONTROLLER_READ_PEC = 12"
| "state_value SMBUS_STATE_CONTROLLER_READ_DONE = 13"
| "state_value SMBUS_STATE_CONTROLLER_WRITE_BYTE = 14"

datatype SMBUS_LOG_EVENT_TYPE =
    SMBUS_LOG_EVENT_INTERRUPT_EVENT
  | SMBUS_LOG_EVENT_FSM_EVENT
  | SMBUS_LOG_EVENT_ERROR
  | SMBUS_LOG_EVENT_HW_READ
  | SMBUS_LOG_EVENT_HW_WRITE
  | SMBUS_LOG_EVENT_PROTOCOL
  | SMBUS_LOG_EVENT_DEBUG
  | SMBUS_LOG_EVENT_TRYREAD
  | SMBUS_LOG_EVENT_TRYWRITE

datatype SMBUS_LOG_LEVEL_TYPE =
    SMBUS_LOG_LEVEL_NONE
  | SMBUS_LOG_LEVEL_ERROR
  | SMBUS_LOG_LEVEL_WARNING
  | SMBUS_LOG_LEVEL_INFO
  | SMBUS_LOG_LEVEL_DEBUG
  | SMBUS_LOG_LEVEL_MAX

primrec log_level_value :: "SMBUS_LOG_LEVEL_TYPE \<Rightarrow> nat" where
  "log_level_value SMBUS_LOG_LEVEL_NONE = 0"
| "log_level_value SMBUS_LOG_LEVEL_ERROR = 1"
| "log_level_value SMBUS_LOG_LEVEL_WARNING = 2"
| "log_level_value SMBUS_LOG_LEVEL_INFO = 3"
| "log_level_value SMBUS_LOG_LEVEL_DEBUG = 4"
| "log_level_value SMBUS_LOG_LEVEL_MAX = 5"

section \<open>Event codes\<close>

definition E_TARGET_WRITE_IRQ :: u8 where "E_TARGET_WRITE_IRQ = 0x01"
definition E_TARGET_READ_IRQ :: u8 where "E_TARGET_READ_IRQ = 0x02"
definition E_TARGET_DATA_IRQ :: u8 where "E_TARGET_DATA_IRQ = 0x03"
definition E_TARGET_DONE_IRQ :: u8 where "E_TARGET_DONE_IRQ = 0x04"
definition E_TARGET_DESC_IRQ :: u8 where "E_TARGET_DESC_IRQ = 0x05"
definition E_TARGET_LOA_ERROR_IRQ :: u8 where "E_TARGET_LOA_ERROR_IRQ = 0x06"
definition E_TARGET_PEC_ERROR_IRQ :: u8 where "E_TARGET_PEC_ERROR_IRQ = 0x07"
definition E_TARGET_PHY_TEXT_TIMEOUT_ERROR_IRQ :: u8 where "E_TARGET_PHY_TEXT_TIMEOUT_ERROR_IRQ = 0x08"
definition E_TARGET_RX_FIFO_ERROR_ERROR_IRQ :: u8 where "E_TARGET_RX_FIFO_ERROR_ERROR_IRQ = 0x09"
definition E_TARGET_RX_FIFO_OVERFLOW_ERROR_IRQ :: u8 where "E_TARGET_RX_FIFO_OVERFLOW_ERROR_IRQ = 0x0A"
definition E_TARGET_RX_FIFO_UNDERFLOW_ERROR_IRQ :: u8 where "E_TARGET_RX_FIFO_UNDERFLOW_ERROR_IRQ = 0x0B"
definition E_TARGET_DESC_FIFO_ERROR_IRQ :: u8 where "E_TARGET_DESC_FIFO_ERROR_IRQ = 0x0C"
definition E_TARGET_DESC_FIFO_OVERFLOW_ERROR_IRQ :: u8 where "E_TARGET_DESC_FIFO_OVERFLOW_ERROR_IRQ = 0x0D"
definition E_TARGET_DESC_FIFO_UNDERFLOW_ERROR_IRQ :: u8 where "E_TARGET_DESC_FIFO_UNDERFLOW_ERROR_IRQ = 0x0E"
definition E_TARGET_DESC_ERROR_IRQ :: u8 where "E_TARGET_DESC_ERROR_IRQ = 0x0F"
definition E_TARGET_PHY_UNEXPTD_BUS_IDLE_ERROR_IRQ :: u8 where "E_TARGET_PHY_UNEXPTD_BUS_IDLE_ERROR_IRQ = 0x10"
definition E_TARGET_PHY_SMBDAT_LOW_TIMEOUT_DESC_ERROR_IRQ :: u8 where "E_TARGET_PHY_SMBDAT_LOW_TIMEOUT_DESC_ERROR_IRQ = 0x11"
definition E_TARGET_PHY_SMBCLK_LOW_TIMEOUT_ERROR_IRQ :: u8 where "E_TARGET_PHY_SMBCLK_LOW_TIMEOUT_ERROR_IRQ = 0x12"
definition E_CONTROLLER_WRITE_IRQ :: u8 where "E_CONTROLLER_WRITE_IRQ = 0x13"
definition E_CONTROLLER_READ_IRQ :: u8 where "E_CONTROLLER_READ_IRQ = 0x14"
definition E_CONTROLLER_DATA_IRQ :: u8 where "E_CONTROLLER_DATA_IRQ = 0x15"
definition E_CONTROLLER_DONE_IRQ :: u8 where "E_CONTROLLER_DONE_IRQ = 0x16"
definition E_CONTROLLER_DESC_FIFO_ALMOST_EMPTY_IRQ :: u8 where "E_CONTROLLER_DESC_FIFO_ALMOST_EMPTY_IRQ = 0x17"
definition E_CONTROLLER_LOA_ERROR_IRQ :: u8 where "E_CONTROLLER_LOA_ERROR_IRQ = 0x18"
definition E_CONTROLLER_NACK_ERROR_IRQ :: u8 where "E_CONTROLLER_NACK_ERROR_IRQ = 0x19"
definition E_CONTROLLER_PEC_ERROR_IRQ :: u8 where "E_CONTROLLER_PEC_ERROR_IRQ = 0x1A"
definition E_CONTROLLER_PHY_CTLR_TEXT_TIMEOUT_ERROR_IRQ :: u8 where "E_CONTROLLER_PHY_CTLR_TEXT_TIMEOUT_ERROR_IRQ = 0x1B"
definition E_CONTROLLER_PHY_CTLR_CEXT_TIMEOUT_ERROR_IRQ :: u8 where "E_CONTROLLER_PHY_CTLR_CEXT_TIMEOUT_ERROR_IRQ = 0x1C"
definition E_CONTROLLER_RX_FIFO_ERROR_IRQ :: u8 where "E_CONTROLLER_RX_FIFO_ERROR_IRQ = 0x1D"
definition E_CONTROLLER_RX_FIFO_OVERFLOW_ERROR_IRQ :: u8 where "E_CONTROLLER_RX_FIFO_OVERFLOW_ERROR_IRQ = 0x1E"
definition E_CONTROLLER_RX_FIFO_UNDERFLOW_ERROR_IRQ :: u8 where "E_CONTROLLER_RX_FIFO_UNDERFLOW_ERROR_IRQ = 0x1F"
definition E_CONTROLLER_DESC_FIFO_ERROR_IRQ :: u8 where "E_CONTROLLER_DESC_FIFO_ERROR_IRQ = 0x20"
definition E_CONTROLLER_DESC_FIFO_OVERFLOW_ERROR_IRQ :: u8 where "E_CONTROLLER_DESC_FIFO_OVERFLOW_ERROR_IRQ = 0x21"
definition E_CONTROLLER_DESC_FIFO_UNDERFLOW_ERROR_IRQ :: u8 where "E_CONTROLLER_DESC_FIFO_UNDERFLOW_ERROR_IRQ = 0x22"
definition E_CONTROLLER_DESC_ERROR_IRQ :: u8 where "E_CONTROLLER_DESC_ERROR_IRQ = 0x23"
definition E_SEND_NEXT_BYTE :: u8 where "E_SEND_NEXT_BYTE = 0x24"
definition E_IS_PEC_REQUIRED :: u8 where "E_IS_PEC_REQUIRED = 0x25"
definition E_DESC_FIFO_ALMOST_EMPTY_IRQ :: u8 where "E_DESC_FIFO_ALMOST_EMPTY_IRQ = 0x26"

lemmas smbus_event_codes =
  E_TARGET_WRITE_IRQ_def E_TARGET_READ_IRQ_def
  E_TARGET_DATA_IRQ_def E_TARGET_DONE_IRQ_def
  E_TARGET_DESC_IRQ_def E_TARGET_LOA_ERROR_IRQ_def
  E_TARGET_PEC_ERROR_IRQ_def E_TARGET_PHY_TEXT_TIMEOUT_ERROR_IRQ_def
  E_TARGET_RX_FIFO_ERROR_ERROR_IRQ_def E_TARGET_RX_FIFO_OVERFLOW_ERROR_IRQ_def
  E_TARGET_RX_FIFO_UNDERFLOW_ERROR_IRQ_def E_TARGET_DESC_FIFO_ERROR_IRQ_def
  E_TARGET_DESC_FIFO_OVERFLOW_ERROR_IRQ_def E_TARGET_DESC_FIFO_UNDERFLOW_ERROR_IRQ_def
  E_TARGET_DESC_ERROR_IRQ_def E_TARGET_PHY_UNEXPTD_BUS_IDLE_ERROR_IRQ_def
  E_TARGET_PHY_SMBDAT_LOW_TIMEOUT_DESC_ERROR_IRQ_def E_TARGET_PHY_SMBCLK_LOW_TIMEOUT_ERROR_IRQ_def
  E_CONTROLLER_WRITE_IRQ_def E_CONTROLLER_READ_IRQ_def
  E_CONTROLLER_DATA_IRQ_def E_CONTROLLER_DONE_IRQ_def
  E_CONTROLLER_DESC_FIFO_ALMOST_EMPTY_IRQ_def E_CONTROLLER_LOA_ERROR_IRQ_def
  E_CONTROLLER_NACK_ERROR_IRQ_def E_CONTROLLER_PEC_ERROR_IRQ_def
  E_CONTROLLER_PHY_CTLR_TEXT_TIMEOUT_ERROR_IRQ_def E_CONTROLLER_PHY_CTLR_CEXT_TIMEOUT_ERROR_IRQ_def
  E_CONTROLLER_RX_FIFO_ERROR_IRQ_def E_CONTROLLER_RX_FIFO_OVERFLOW_ERROR_IRQ_def
  E_CONTROLLER_RX_FIFO_UNDERFLOW_ERROR_IRQ_def E_CONTROLLER_DESC_FIFO_ERROR_IRQ_def
  E_CONTROLLER_DESC_FIFO_OVERFLOW_ERROR_IRQ_def E_CONTROLLER_DESC_FIFO_UNDERFLOW_ERROR_IRQ_def
  E_CONTROLLER_DESC_ERROR_IRQ_def E_SEND_NEXT_BYTE_def
  E_IS_PEC_REQUIRED_def E_DESC_FIFO_ALMOST_EMPTY_IRQ_def

section \<open>Names\<close>

definition pcProtocolToString :: "u8 \<Rightarrow> string" where
  "pcProtocolToString p =
     (if p = protocol_value SMBUS_PROTOCOL_QUICK_COMMAND_HI then ''SMBUS_PROTOCOL_QUICK_COMMAND_HI''
     else if p = protocol_value SMBUS_PROTOCOL_QUICK_COMMAND_LO then ''SMBUS_PROTOCOL_QUICK_COMMAND_LO''
     else if p = protocol_value SMBUS_PROTOCOL_SEND_BYTE then ''SMBUS_PROTOCOL_SEND_BYTE''
     else if p = protocol_value SMBUS_PROTOCOL_RECEIVE_BYTE then ''SMBUS_PROTOCOL_RECEIVE_BYTE''
     else if p = protocol_value SMBUS_PROTOCOL_WRITE_BYTE then ''SMBUS_PROTOCOL_WRITE_BYTE''
     else if p = protocol_value SMBUS_PROTOCOL_WRITE_WORD then ''SMBUS_PROTOCOL_WRITE_WORD''
     else if p = protocol_value SMBUS_PROTOCOL_READ_BYTE then ''SMBUS_PROTOCOL_READ_BYTE''
     else if p = protocol_value SMBUS_PROTOCOL_READ_WORD then ''SMBUS_PROTOCOL_READ_WORD''
     else if p = protocol_value SMBUS_PROTOCOL_PROCESS_CALL then ''SMBUS_PROTOCOL_PROCESS_CALL''
     else if p = protocol_value SMBUS_PROTOCOL_BLOCK_WRITE then ''SMBUS_PROTOCOL_BLOCK_WRITE''
     else if p = protocol_value SMBUS_PROTOCOL_BLOCK_READ then ''SMBUS_PROTOCOL_BLOCK_READ''
     else if p = protocol_value SMBUS_PROTOCOL_BLOCK_WRITE_BLOCK_READ_PROCESS_CALL then ''SMBUS_PROTOCOL_BLOCK_WRITE_BLOCK_READ_PROCESS_CALL''
     else if p = protocol_value SMBUS_PROTOCOL_HOST_NOTIFY then ''SMBUS_PROTOCOL_HOST_NOTIFY''
     else if p = protocol_value SMBUS_PROTOCOL_WRITE_32 then ''SMBUS_PROTOCOL_WRITE_32''
     else if p = protocol_value SMBUS_PROTOCOL_READ_32 then ''SMBUS_PROTOCOL_READ_32''
     else if p = protocol_value SMBUS_PROTOCOL_WRITE_64 then ''SMBUS_PROTOCOL_WRITE_64''
     else if p = protocol_value SMBUS_PROTOCOL_READ_64 then ''SMBUS_PROTOCOL_READ_64''
     else if p = protocol_value SMBUS_PROTOCOL_NONE then ''SMBUS_PROTOCOL_NONE''
     else if p = protocol_value SMBUS_ARP_PROTOCOL_PREPARE_TO_ARP then ''SMBUS_ARP_PROTOCOL_PREPARE_TO_ARP''
     else if p = protocol_value SMBUS_ARP_PROTOCOL_RESET_DEVICE then ''SMBUS_ARP_PROTOCOL_RESET_DEVICE''
     else if p = protocol_value SMBUS_ARP_PROTOCOL_GET_UDID then ''SMBUS_ARP_PROTOCOL_GET_UDID''
     else if p = protocol_value SMBUS_ARP_PROTOCOL_ASSIGN_ADDRESS then ''SMBUS_ARP_PROTOCOL_ASSIGN_ADDRESS''
     else if p = protocol_value SMBUS_ARP_PROTOCOL_RESET_DEVICE_DIRECTED then ''SMBUS_ARP_PROTOCOL_RESET_DEVICE_DIRECTED''
     else if p = protocol_value SMBUS_ARP_PROTOCOL_GET_UDID_DIRECTED then ''SMBUS_ARP_PROTOCOL_GET_UDID_DIRECTED''
     else ''SMBUS_PROTOCOL_UNKNOWN'')"

definition pcStateToString :: "u8 \<Rightarrow> string" where
  "pcStateToString s =
     (if s = state_value SMBUS_STATE_INITIAL then ''SMBUS_STATE_INITIAL''
     else if s = state_value SMBUS_STATE_AWAITING_COMMAND_BYTE then ''SMBUS_STATE_AWAITING_COMMAND_BYTE''
     else if s = state_value SMBUS_STATE_AWAITING_BLOCK_SIZE then ''SMBUS_STATE_AWAITING_BLOCK_SIZE''
     else if s = state_value SMBUS_STATE_AWAITING_DATA then ''SMBUS_STATE_AWAITING_DATA''
     else if s = state_value SMBUS_STATE_AWAITING_READ then ''SMBUS_STATE_AWAITING_READ''
     else if s = state_value SMBUS_STATE_READY_TO_SEND_BYTE then ''SMBUS_STATE_READY_TO_SEND_BYTE''
     else if s = state_value SMBUS_STATE_CHECK_IF_PEC_REQUIRED then ''SMBUS_STATE_CHECK_IF_PEC_REQUIRED''
     else if s = state_value SMBUS_STATE_AWAITING_DONE then ''SMBUS_STATE_AWAITING_DONE''
     else if s = state_value SMBUS_STATE_CONTROLLER_SEND_COMMAND then ''SMBUS_STATE_CONTROLLER_SEND_COMMAND''
     else if s = state_value SMBUS_STATE_CONTROLLER_SEND_READ_START then ''SMBUS_STATE_CONTROLLER_SEND_READ_START''
     else if s = state_value SMBUS_STATE_CONTROLLER_READ_BLOCK_SIZE then ''SMBUS_STATE_CONTROLLER_READ_BLOCK_SIZE''
     else if s = state_value SMBUS_STATE_CONTROLLER_READ_BYTE then ''SMBUS_STATE_CONTROLLER_READ_BYTE''
     else if s = state_value SMBUS_STATE_CONTROLLER_READ_PEC then ''SMBUS_STATE_CONTROLLER_READ_PEC''
     else if s = state_value SMBUS_STATE_CONTROLLER_READ_DONE then ''SMBUS_STATE_CONTROLLER_READ_DONE''
     else if s = state_value SMBUS_STATE_CONTROLLER_WRITE_BYTE then ''SMBUS_STATE_CONTROLLER_WRITE_BYTE''
     else ''SMBUS_STATE_UNKNOWN'')"

definition pcEventToString :: "u8 \<Rightarrow> string" where
  "pcEventToString e =
     (if e = E_TARGET_WRITE_IRQ then ''E_TARGET_WRITE_IRQ''
     else if e = E_TARGET_READ_IRQ then ''E_TARGET_READ_IRQ''
     else if e = E_TARGET_DATA_IRQ then ''E_TARGET_DATA_IRQ''
     else if e = E_TARGET_DONE_IRQ then ''E_TARGET_DONE_IRQ''
     else if e = E_TARGET_DESC_IRQ then ''E_TARGET_DESC_IRQ''
     else if e = E_TARGET_LOA_ERROR_IRQ then ''E_TARGET_LOA_ERROR_IRQ''
     else if e = E_TARGET_PEC_ERROR_IRQ then ''E_TARGET_PEC_ERROR_IRQ''
     else if e = E_TARGET_PHY_TEXT_TIMEOUT_ERROR_IRQ then ''E_TARGET_PHY_TEXT_TIMEOUT_ERROR_IRQ''
     else if e = E_TARGET_RX_FIFO_ERROR_ERROR_IRQ then ''E_TARGET_RX_FIFO_ERROR_ERROR_IRQ''
     else if e = E_TARGET_RX_FIFO_OVERFLOW_ERROR_IRQ then ''E_TARGET_RX_FIFO_OVERFLOW_ERROR_IRQ''
     else if e = E_TARGET_RX_FIFO_UNDERFLOW_ERROR_IRQ then ''E_TARGET_RX_FIFO_UNDERFLOW_ERROR_IRQ''
     else if e = E_TARGET_DESC_FIFO_ERROR_IRQ then ''E_TARGET_DESC_FIFO_ERROR_IRQ''
     else if e = E_TARGET_DESC_FIFO_OVERFLOW_ERROR_IRQ then ''E_TARGET_DESC_FIFO_OVERFLOW_ERROR_IRQ''
     else if e = E_TARGET_DESC_FIFO_UNDERFLOW_ERROR_IRQ then ''E_TARGET_DESC_FIFO_UNDERFLOW_ERROR_IRQ''
     else if e = E_TARGET_DESC_ERROR_IRQ then ''E_TARGET_DESC_ERROR_IRQ''
     else if e = E_TARGET_PHY_UNEXPTD_BUS_IDLE_ERROR_IRQ then ''E_TARGET_PHY_UNEXPTD_BUS_IDLE_ERROR_IRQ''
     else if e = E_TARGET_PHY_SMBDAT_LOW_TIMEOUT_DESC_ERROR_IRQ then ''E_TARGET_PHY_SMBDAT_LOW_TIMEOUT_DESC_ERROR_IRQ''
     else if e = E_TARGET_PHY_SMBCLK_LOW_TIMEOUT_ERROR_IRQ then ''E_TARGET_PHY_SMBCLK_LOW_TIMEOUT_ERROR_IRQ''
     else if e = E_CONTROLLER_WRITE_IRQ then ''E_CONTROLLER_WRITE_IRQ''
     else if e = E_CONTROLLER_READ_IRQ then ''E_CONTROLLER_READ_IRQ''
     else if e = E_CONTROLLER_DATA_IRQ then ''E_CONTROLLER_DATA_IRQ''
     else if e = E_CONTROLLER_DONE_IRQ then ''E_CONTROLLER_DONE_IRQ''
     else if e = E_CONTROLLER_DESC_FIFO_ALMOST_EMPTY_IRQ then ''E_CONTROLLER_DESC_FIFO_ALMOST_EMPTY_IRQ''
     else if e = E_CONTROLLER_LOA_ERROR_IRQ then ''E_CONTROLLER_LOA_ERROR_IRQ''
     else if e = E_CONTROLLER_NACK_ERROR_IRQ then ''E_CONTROLLER_NACK_ERROR_IRQ''
     else if e = E_CONTROLLER_PEC_ERROR_IRQ then ''E_CONTROLLER_PEC_ERROR_IRQ''
     else if e = E_CONTROLLER_PHY_CTLR_TEXT_TIMEOUT_ERROR_IRQ then ''E_CONTROLLER_PHY_CTLR_TEXT_TIMEOUT_ERROR_IRQ''
     else if e = E_CONTROLLER_PHY_CTLR_CEXT_TIMEOUT_ERROR_IRQ then ''E_CONTROLLER_PHY_CTLR_CEXT_TIMEOUT_ERROR_IRQ''
     else if e = E_CONTROLLER_RX_FIFO_ERROR_IRQ then ''E_CONTROLLER_RX_FIFO_ERROR_IRQ''
     else if e = E_CONTROLLER_RX_FIFO_OVERFLOW_ERROR_IRQ then ''E_CONTROLLER_RX_FIFO_OVERFLOW_ERROR_IRQ''
     else if e = E_CONTROLLER_RX_FIFO_UNDERFLOW_ERROR_IRQ then ''E_CONTROLLER_RX_FIFO_UNDERFLOW_ERROR_IRQ''
     else if e = E_CONTROLLER_DESC_FIFO_ERROR_IRQ then ''E_CONTROLLER_DESC_FIFO_ERROR_IRQ''
     else if e = E_CONTROLLER_DESC_FIFO_OVERFLOW_ERROR_IRQ then ''E_CONTROLLER_DESC_FIFO_OVERFLOW_ERROR_IRQ''
     else if e = E_CONTROLLER_DESC_FIFO_UNDERFLOW_ERROR_IRQ then ''E_CONTROLLER_DESC_FIFO_UNDERFLOW_ERROR_IRQ''
     else if e = E_CONTROLLER_DESC_ERROR_IRQ then ''E_CONTROLLER_DESC_ERROR_IRQ''
     else if e = E_SEND_NEXT_BYTE then ''E_SEND_NEXT_BYTE''
     else if e = E_IS_PEC_REQUIRED then ''E_IS_PEC_REQUIRED''
     else if e = E_DESC_FIFO_ALMOST_EMPTY_IRQ then ''E_DESC_FIFO_ALMOST_EMPTY_IRQ''
     else ''UNKNOWN'')"

end
