(* ===== verification/SmbusEventBuffer.thy ===== *)
theory SmbusEventBuffer
  imports Fifo
begin

text \<open>
  The event buffer of an SMBus instance, smbus_event_buffer.c: a ring of octets whose
  cells carry an occupied flag, written by the interrupt handler and read by the state
  machine. A NULL pointer is \<^term>\<open>None\<close>; the result is \<^term>\<open>None\<close> where the code would
  leave the array. The buffer is a bounded first-in first-out channel (theory Fifo).
\<close>

section \<open>The buffer and its operations\<close>

definition SMBUS_TRUE :: u8 where "SMBUS_TRUE = 1"
definition SMBUS_FALSE :: u8 where "SMBUS_FALSE = 0"
definition SMBUS_EVENT_BUFFER_SUCCESS :: u8 where "SMBUS_EVENT_BUFFER_SUCCESS = 0"
definition SMBUS_EVENT_BUFFER_FAIL :: u8 where "SMBUS_EVENT_BUFFER_FAIL = 1"

lemmas smbus_values = SMBUS_TRUE_def SMBUS_FALSE_def SMBUS_EVENT_BUFFER_SUCCESS_def
  SMBUS_EVENT_BUFFER_FAIL_def

record SMBUS_EVENT_BUFFER_ELEMENT_TYPE =
  ucIsOccupied :: u8
  ucOctet :: u8

record SMBUS_EVENT_BUFFER_TYPE =
  ulMaxElements :: u32
  ulWrite :: u32
  ulRead :: u32
  pxEventBuffer :: "SMBUS_EVENT_BUFFER_ELEMENT_TYPE list option"

text \<open>The loop that clears the first \<open>n\<close> cells of the array.\<close>

fun clear_cells ::
  "nat \<Rightarrow> SMBUS_EVENT_BUFFER_ELEMENT_TYPE list \<Rightarrow> SMBUS_EVENT_BUFFER_ELEMENT_TYPE list option" where
  "clear_cells 0 es = Some es"
| "clear_cells (Suc n) [] = None"
| "clear_cells (Suc n) (e # es) =
     map_option ((#) (e\<lparr>ucIsOccupied := SMBUS_FALSE, ucOctet := 0\<rparr>)) (clear_cells n es)"

definition vEventBufferInitialize ::
  "SMBUS_EVENT_BUFFER_TYPE option \<Rightarrow> SMBUS_EVENT_BUFFER_ELEMENT_TYPE list option \<Rightarrow> u32
   \<Rightarrow> SMBUS_EVENT_BUFFER_TYPE option option" where
  "vEventBufferInitialize ctx buf n =
     (case (ctx, buf) of
        (Some b, Some es) \<Rightarrow>
          map_option (\<lambda>es'. Some (b\<lparr>ulMaxElements := n, pxEventBuffer := Some es',
            ulWrite := 0, ulRead := 0\<rparr>)) (clear_cells (unat n) es)
      | _ \<Rightarrow> Some ctx)"

definition ulEventBufferInc :: "SMBUS_EVENT_BUFFER_TYPE option \<Rightarrow> u32 \<Rightarrow> u32" where
  "ulEventBufferInc ctx i =
     (case ctx of
        None \<Rightarrow> i
      | Some b \<Rightarrow> if ulMaxElements b \<le> i + 1 then 0 else i + 1)"

definition ucEventBufferTryWrite ::
  "SMBUS_EVENT_BUFFER_TYPE option \<Rightarrow> u8 \<Rightarrow> u32 option
   \<Rightarrow> (u8 \<times> SMBUS_EVENT_BUFFER_TYPE option \<times> u32 option) option" where
  "ucEventBufferTryWrite ctx c pos =
     (case (ctx, pos) of
        (Some b, Some _) \<Rightarrow> do {
          es \<leftarrow> pxEventBuffer b;
          (if unat (ulWrite b) < length es
           then if SMBUS_FALSE = ucIsOccupied (es ! unat (ulWrite b))
             then Some (SMBUS_EVENT_BUFFER_SUCCESS,
                    Some (b\<lparr>pxEventBuffer := Some (es[unat (ulWrite b) :=
                            (es ! unat (ulWrite b))\<lparr>ucOctet := c, ucIsOccupied := SMBUS_TRUE\<rparr>]),
                          ulWrite := ulEventBufferInc (Some b) (ulWrite b)\<rparr>),
                    Some (ulWrite b))
             else Some (SMBUS_EVENT_BUFFER_FAIL, ctx, pos)
           else None) }
      | _ \<Rightarrow> Some (SMBUS_EVENT_BUFFER_FAIL, ctx, pos))"

definition ucEventBufferTryRead ::
  "SMBUS_EVENT_BUFFER_TYPE option \<Rightarrow> u8 option \<Rightarrow> u32 option
   \<Rightarrow> (u8 \<times> SMBUS_EVENT_BUFFER_TYPE option \<times> u8 option \<times> u32 option) option" where
  "ucEventBufferTryRead ctx out pos =
     (case (ctx, out, pos) of
        (Some b, Some _, Some _) \<Rightarrow> do {
          es \<leftarrow> pxEventBuffer b;
          (if unat (ulRead b) < length es
           then if SMBUS_TRUE = ucIsOccupied (es ! unat (ulRead b))
             then Some (SMBUS_TRUE,
                    Some (b\<lparr>pxEventBuffer := Some (es[unat (ulRead b) :=
                            (es ! unat (ulRead b))\<lparr>ucIsOccupied := SMBUS_FALSE\<rparr>]),
                          ulRead := ulEventBufferInc (Some b) (ulRead b)\<rparr>),
                    Some (ucOctet (es ! unat (ulRead b))), Some (ulRead b))
             else Some (SMBUS_FALSE, ctx, Some 0xCC, pos)
           else None) }
      | _ \<Rightarrow> Some (SMBUS_FALSE, ctx, out, pos))"

section \<open>The buffer as a channel\<close>

text \<open>
  Seen from the read index the ring is a block of occupied cells followed by free ones,
  and the write index is where the free ones begin.
\<close>

definition evb_cell :: "u8 \<Rightarrow> SMBUS_EVENT_BUFFER_ELEMENT_TYPE" where
  "evb_cell c = \<lparr>ucIsOccupied = SMBUS_TRUE, ucOctet = c\<rparr>"

definition evb_cells :: "SMBUS_EVENT_BUFFER_TYPE \<Rightarrow> SMBUS_EVENT_BUFFER_ELEMENT_TYPE list" where
  "evb_cells b = (case pxEventBuffer b of Some es \<Rightarrow> rotate (unat (ulRead b)) es | None \<Rightarrow> [])"

definition evb_events :: "SMBUS_EVENT_BUFFER_TYPE \<Rightarrow> u8 list" where
  "evb_events b = map ucOctet (takeWhile (\<lambda>e. ucIsOccupied e = SMBUS_TRUE) (evb_cells b))"

definition evb_rep :: "u8 list \<Rightarrow> SMBUS_EVENT_BUFFER_TYPE \<Rightarrow> bool" where
  "evb_rep cs b \<longleftrightarrow> (\<exists>es free. pxEventBuffer b = Some es \<and> length es = unat (ulMaxElements b) \<and>
     unat (ulRead b) < length es \<and> rotate (unat (ulRead b)) es = map evb_cell cs @ free \<and>
     (\<forall>e \<in> set free. ucIsOccupied e = SMBUS_FALSE) \<and>
     unat (ulWrite b) = (unat (ulRead b) + length cs) mod length es)"

definition evb_inv :: "SMBUS_EVENT_BUFFER_TYPE \<Rightarrow> bool" where
  "evb_inv b \<longleftrightarrow> evb_rep (evb_events b) b"

definition evb_cap :: "SMBUS_EVENT_BUFFER_TYPE \<Rightarrow> nat" where
  "evb_cap b = unat (ulMaxElements b)"

text \<open>One write and one read, with valid pointers for the positions.\<close>

definition evb_enq :: "u8 \<Rightarrow> SMBUS_EVENT_BUFFER_TYPE \<Rightarrow> (bool \<times> SMBUS_EVENT_BUFFER_TYPE) option" where
  "evb_enq c b = do {
     (st, ctx, _) \<leftarrow> ucEventBufferTryWrite (Some b) c (Some 0);
     b' \<leftarrow> ctx;
     Some (st = SMBUS_EVENT_BUFFER_SUCCESS, b') }"

definition evb_deq :: "SMBUS_EVENT_BUFFER_TYPE \<Rightarrow> (u8 option \<times> SMBUS_EVENT_BUFFER_TYPE) option" where
  "evb_deq b = do {
     (st, ctx, out, _) \<leftarrow> ucEventBufferTryRead (Some b) (Some 0) (Some 0);
     b' \<leftarrow> ctx;
     Some (if st = SMBUS_TRUE then out else None, b') }"

lemma evb_rep_events:
  assumes "evb_rep cs b"
  shows "evb_events b = cs"
proof -
  from assms obtain es free where e: "pxEventBuffer b = Some es"
    "rotate (unat (ulRead b)) es = map evb_cell cs @ free"
    "\<forall>e \<in> set free. ucIsOccupied e = SMBUS_FALSE" unfolding evb_rep_def by blast
  have "takeWhile (\<lambda>e. ucIsOccupied e = SMBUS_TRUE) free = []"
    using e(3) by (cases free) (auto simp: smbus_values)
  then have "takeWhile (\<lambda>e. ucIsOccupied e = SMBUS_TRUE) (map evb_cell cs @ free) = map evb_cell cs"
    by (simp add: takeWhile_append evb_cell_def)
  then show ?thesis by (simp add: evb_events_def evb_cells_def e evb_cell_def comp_def)
qed

lemma evb_inv_iff: "evb_inv b \<longleftrightarrow> (\<exists>cs. evb_rep cs b)"
  unfolding evb_inv_def using evb_rep_events by blast

lemma evb_inc:
  assumes "unat i < unat (ulMaxElements b)"
  shows "unat (ulEventBufferInc (Some b) i) = (unat i + 1) mod unat (ulMaxElements b)"
proof -
  have "unat i + 1 < 2 ^ 32" using assms unat_u32_less[of "ulMaxElements b"] by linarith
  then have "unat (i + 1) = unat i + 1" by (simp add: unat_word_ariths)
  then show ?thesis using assms by (auto simp: ulEventBufferInc_def word_le_nat_alt mod_if)
qed

lemma evb_write_ok:
  assumes rep: "evb_rep cs b" and room: "length cs < evb_cap b"
  shows "\<exists>b'. ucEventBufferTryWrite (Some b) c (Some p) =
      Some (SMBUS_EVENT_BUFFER_SUCCESS, Some b', Some (ulWrite b)) \<and>
    evb_rep (cs @ [c]) b' \<and> ulMaxElements b' = ulMaxElements b"
proof -
  from rep obtain es free where e: "pxEventBuffer b = Some es" "length es = unat (ulMaxElements b)"
    "unat (ulRead b) < length es" "rotate (unat (ulRead b)) es = map evb_cell cs @ free"
    "\<forall>e \<in> set free. ucIsOccupied e = SMBUS_FALSE"
    "unat (ulWrite b) = (unat (ulRead b) + length cs) mod length es"
    unfolding evb_rep_def by blast
  have k: "length cs < length es" using room e by (simp add: evb_cap_def)
  have "length (map evb_cell cs @ free) = length es" by (metis e(4) length_rotate)
  with k obtain f fs where f: "free = f # fs" by (cases free) auto
  let ?w = "unat (ulWrite b)"
  have w: "?w < length es" using e k by (simp add: mod_less_divisor)
  have "es ! ?w = rotate (unat (ulRead b)) es ! length cs"
    using k e(6) by (simp add: nth_rotate add.commute)
  then have cell: "es ! ?w = f" unfolding e(4) f by (simp add: nth_append)
  let ?b = "b\<lparr>pxEventBuffer := Some (es[?w := evb_cell c]), ulWrite := ulEventBufferInc (Some b) (ulWrite b)\<rparr>"
  have f': "f\<lparr>ucOctet := c, ucIsOccupied := SMBUS_TRUE\<rparr> = evb_cell c"
    by (simp add: evb_cell_def)
  have "ucEventBufferTryWrite (Some b) c (Some p)
      = Some (SMBUS_EVENT_BUFFER_SUCCESS, Some ?b, Some (ulWrite b))"
    using w e(5) f cell f' by (simp add: ucEventBufferTryWrite_def e(1))
  moreover have "rotate (unat (ulRead b)) (es[?w := evb_cell c]) = map evb_cell (cs @ [c]) @ fs"
    using rotate_update_at[OF e(3) k, of "evb_cell c"] e(6) e(4) f by (simp add: list_update_append)
  moreover have "unat (ulEventBufferInc (Some b) (ulWrite b))
      = (unat (ulRead b) + length (cs @ [c])) mod length es"
    using evb_inc[of "ulWrite b" b] w e(2) e(6) by (simp add: mod_Suc_eq)
  ultimately show ?thesis using e f unfolding evb_rep_def by auto
qed

lemma evb_write_full:
  assumes rep: "evb_rep cs b" and full: "\<not> length cs < evb_cap b"
  shows "ucEventBufferTryWrite (Some b) c (Some p) = Some (SMBUS_EVENT_BUFFER_FAIL, Some b, Some p)"
proof -
  from rep obtain es free where e: "pxEventBuffer b = Some es" "length es = unat (ulMaxElements b)"
    "unat (ulRead b) < length es" "rotate (unat (ulRead b)) es = map evb_cell cs @ free"
    "unat (ulWrite b) = (unat (ulRead b) + length cs) mod length es"
    unfolding evb_rep_def by blast
  have len: "length cs + length free = length es" using e(4) by (metis length_append length_map length_rotate)
  have "length free = 0" using full len e(2) unfolding evb_cap_def by linarith
  with len have k: "length cs = length es" "free = []" by simp_all
  have w: "unat (ulWrite b) = unat (ulRead b)" using e k by simp
  have "es ! unat (ulRead b) = hd (rotate (unat (ulRead b)) es)"
    using e(3) by (metis hd_rotate_conv_nth length_0_conv mod_less not_less0)
  also have "\<dots> = evb_cell (hd cs)" using k e(3,4) by (cases cs) auto
  finally show ?thesis
    using e w by (simp add: ucEventBufferTryWrite_def evb_cell_def smbus_values)
qed

lemma evb_read_ok:
  assumes rep: "evb_rep (c # cs) b"
  shows "\<exists>b'. ucEventBufferTryRead (Some b) (Some x) (Some p) =
      Some (SMBUS_TRUE, Some b', Some c, Some (ulRead b)) \<and>
    evb_rep cs b' \<and> ulMaxElements b' = ulMaxElements b"
proof -
  from rep obtain es free where e: "pxEventBuffer b = Some es" "length es = unat (ulMaxElements b)"
    "unat (ulRead b) < length es" "rotate (unat (ulRead b)) es = map evb_cell (c # cs) @ free"
    "\<forall>e \<in> set free. ucIsOccupied e = SMBUS_FALSE"
    "unat (ulWrite b) = (unat (ulRead b) + length (c # cs)) mod length es"
    unfolding evb_rep_def by blast
  let ?r = "unat (ulRead b)"
  have "es ! ?r = hd (rotate ?r es)"
    using e(3) by (metis hd_rotate_conv_nth length_0_conv mod_less not_less0)
  then have cell: "es ! ?r = evb_cell c" using e(4) by simp
  let ?free = "(evb_cell c)\<lparr>ucIsOccupied := SMBUS_FALSE\<rparr>"
  let ?b = "b\<lparr>pxEventBuffer := Some (es[?r := ?free]), ulRead := ulEventBufferInc (Some b) (ulRead b)\<rparr>"
  have "ucEventBufferTryRead (Some b) (Some x) (Some p)
      = Some (SMBUS_TRUE, Some ?b, Some c, Some (ulRead b))"
    using e(1,3) cell by (simp add: ucEventBufferTryRead_def) (simp add: evb_cell_def)
  moreover have inc: "unat (ulEventBufferInc (Some b) (ulRead b)) = (?r + 1) mod length es"
    using evb_inc[of "ulRead b" b] e(2,3) by simp
  moreover have "rotate ((?r + 1) mod length es) (es[?r := ?free]) = map evb_cell cs @ free @ [?free]"
    using rotate_update_head[OF e(3), of ?free] e(4) by simp
  moreover have "unat (ulWrite b) = ((?r + 1) mod length es + length cs) mod length es"
    using e(6) by (simp add: mod_simps)
  moreover have "(?r + 1) mod length es < length es" using e(3) by (intro mod_less_divisor) auto
  ultimately show ?thesis using e(2,5) unfolding evb_rep_def by auto
qed

lemma evb_read_empty:
  assumes rep: "evb_rep [] b"
  shows "ucEventBufferTryRead (Some b) (Some x) (Some p) =
    Some (SMBUS_FALSE, Some b, Some 0xCC, Some p)"
proof -
  from rep obtain es where e: "pxEventBuffer b = Some es" "unat (ulRead b) < length es"
    "\<forall>e \<in> set es. ucIsOccupied e = SMBUS_FALSE"
    unfolding evb_rep_def by (metis append_Nil list.map_disc_iff set_rotate)
  then have "ucIsOccupied (es ! unat (ulRead b)) = SMBUS_FALSE" by simp
  then show ?thesis using e by (simp add: ucEventBufferTryRead_def smbus_values)
qed

lemma clear_cells_ok:
  "n \<le> length es \<Longrightarrow> \<exists>es'. clear_cells n es = Some es' \<and> length es' = length es
    \<and> (\<forall>e \<in> set (take n es'). ucIsOccupied e = SMBUS_FALSE)"
  by (induction n es rule: clear_cells.induct) auto

lemma evb_init_ok:
  assumes "unat n = length es" "n \<noteq> 0"
  shows "\<exists>b'. vEventBufferInitialize (Some b) (Some es) n = Some (Some b') \<and> evb_rep [] b' \<and>
    ulMaxElements b' = n"
proof -
  obtain es' where es': "clear_cells (unat n) es = Some es'" "length es' = length es"
    "\<forall>e \<in> set es'. ucIsOccupied e = SMBUS_FALSE"
    using clear_cells_ok[of "unat n" es] assms by auto
  have ne: "es \<noteq> []" using assms by (auto simp: unat_eq_zero)
  let ?b = "b\<lparr>ulMaxElements := n, pxEventBuffer := Some es', ulWrite := 0, ulRead := 0\<rparr>"
  have "evb_rep [] ?b" unfolding evb_rep_def using ne es'(2,3) assms(1)
    by (intro exI[of _ es']) simp
  then show ?thesis using es'(1) by (simp add: vEventBufferInitialize_def)
qed

text \<open>The laws of the channel, on the two operations as a client sees them.\<close>

lemma evb_enq_law:
  assumes "evb_inv s"
  shows "\<exists>b s'. evb_enq x s = Some (b, s') \<and> evb_inv s' \<and> evb_cap s' = evb_cap s
      \<and> b = (length (evb_events s) < evb_cap s)
      \<and> evb_events s' = (if b then evb_events s @ [x] else evb_events s)"
proof (cases "length (evb_events s) < evb_cap s")
  case True
  with evb_write_ok[of "evb_events s" s x 0] assms obtain s' where
    "evb_enq x s = Some (True, s')" "evb_rep (evb_events s @ [x]) s'" "ulMaxElements s' = ulMaxElements s"
    by (auto simp: evb_enq_def evb_inv_def)
  then show ?thesis using True evb_rep_events[of _ s'] evb_inv_iff[of s'] by (auto simp: evb_cap_def)
next
  case False
  with evb_write_full[of "evb_events s" s x 0] assms have "evb_enq x s = Some (False, s)"
    by (simp add: evb_enq_def evb_inv_def smbus_values)
  then show ?thesis using False assms by (intro exI[of _ False] exI[of _ s]) simp
qed

lemma evb_deq_law:
  assumes "evb_inv s"
  shows "\<exists>r s'. evb_deq s = Some (r, s') \<and> evb_inv s' \<and> evb_cap s' = evb_cap s
      \<and> (case evb_events s of [] \<Rightarrow> r = None \<and> s' = s | c # cs \<Rightarrow> r = Some c \<and> evb_events s' = cs)"
proof (cases "evb_events s")
  case Nil
  with evb_read_empty[of s 0 0] assms have "evb_deq s = Some (None, s)"
    by (simp add: evb_deq_def evb_inv_def smbus_values)
  then show ?thesis using Nil assms by simp
next
  case (Cons c cs)
  with evb_read_ok[of c cs s 0 0] assms obtain s' where
    "evb_deq s = Some (Some c, s')" "evb_rep cs s'" "ulMaxElements s' = ulMaxElements s"
    by (auto simp: evb_deq_def evb_inv_def)
  then show ?thesis using Cons evb_rep_events[of _ s'] evb_inv_iff[of s'] by (auto simp: evb_cap_def)
qed

lemma evb_room:
  assumes "evb_inv s"
  shows "length (evb_events s) \<le> evb_cap s"
proof -
  obtain es free where "length es = evb_cap s"
    "rotate (unat (ulRead s)) es = map evb_cell (evb_events s) @ free"
    using assms unfolding evb_inv_def evb_rep_def evb_cap_def by blast
  then show ?thesis by (metis length_append length_map length_rotate le_add1)
qed

interpretation smbus_events: responsive_fifo evb_enq evb_deq evb_events evb_inv evb_cap
  "\<lambda>_ _. True" "\<lambda>_. True"
proof unfold_locales
  show "\<exists>b s'. evb_enq x s = Some (b, s') \<and> evb_inv s' \<and> evb_cap s' = evb_cap s
      \<and> (\<lambda>_. True) = (\<lambda>_. True) \<and> b = (length (evb_events s) < evb_cap s)
      \<and> evb_events s' = (if b then evb_events s @ [x] else evb_events s)" if "evb_inv s" for s x
    using evb_enq_law[OF that, of x] by simp
  show "\<exists>r s'. evb_deq s = Some (r, s') \<and> evb_inv s' \<and> evb_cap s' = evb_cap s
      \<and> (\<lambda>_. True) = (\<lambda>_. True)
      \<and> (case r of None \<Rightarrow> evb_events s' = evb_events s | Some x \<Rightarrow> evb_events s = x # evb_events s')"
    if "evb_inv s" for s
    using evb_deq_law[OF that] by (cases "evb_events s") auto
  show "\<exists>x s'. evb_deq s = Some (Some x, s')" if "evb_inv s" "evb_events s \<noteq> []" for s
    using evb_deq_law[OF that(1)] that(2) by (cases "evb_events s") auto
qed (simp_all add: evb_room)

end
