(* ===== verification/SmbusLog.thy ===== *)
theory SmbusLog
  imports SmbusNames SmbusEventBuffer
begin

text \<open>
  The debug log of an SMBus profile, smbus_circular_log.c: filtered by level, written
  into an array of \<open>SMBUS_MAX_CIRCULAR_LOG_ENTRIES\<close> entries, displayed as text. The clock is
  the profile's function pointer over a world \<open>'w\<close>. The result is \<^term>\<open>None\<close> where
  the code would leave the array. The text is returned; the size of the caller's buffer is
  not known to the code and not modelled.
\<close>

section \<open>The log\<close>

definition SMBUS_MAX_CIRCULAR_LOG_ENTRIES :: nat where "SMBUS_MAX_CIRCULAR_LOG_ENTRIES = 5000"
definition SMBUS_LOG_IS_OCCUPIED :: u32 where "SMBUS_LOG_IS_OCCUPIED = 0xAAABACAD"
definition SMBUS_LOG_IS_NOT_OCCUPIED :: u32 where "SMBUS_LOG_IS_NOT_OCCUPIED = 0"

text \<open>\<open>xEvent\<close> is \<^term>\<open>None\<close> when it holds no enumerator, as before the first write.\<close>

record SMBUS_LOG_BUFFER_ELEMENT_TYPE =
  ulIsOccupied :: u32
  ulTicks :: u32
  ulEntry1 :: u32
  ulInstance :: u32
  ulEntry2 :: u32
  xEvent :: "SMBUS_LOG_EVENT_TYPE option"

record SMBUS_LOG_BUFFER_TYPE =
  logWrite :: u32
  logRead :: u32

record 'w SMBUS_PROFILE_TYPE =
  pFnReadTicks :: "('w \<Rightarrow> u32 \<times> 'w) option"
  xLogCircularBuffer :: SMBUS_LOG_BUFFER_TYPE
  xCircularBuffer :: "SMBUS_LOG_BUFFER_ELEMENT_TYPE list"
  xLogLevel :: SMBUS_LOG_LEVEL_TYPE

definition vLogInitialize :: "('w, 'z) SMBUS_PROFILE_TYPE_scheme option \<Rightarrow> ('w, 'z) SMBUS_PROFILE_TYPE_scheme option option" where
  "vLogInitialize prof =
     (case prof of
        None \<Rightarrow> Some None
      | Some p \<Rightarrow>
          if SMBUS_MAX_CIRCULAR_LOG_ENTRIES \<le> length (xCircularBuffer p)
          then Some (Some (p\<lparr>
            xCircularBuffer :=
              map (\<lambda>e. e\<lparr>ulIsOccupied := SMBUS_LOG_IS_NOT_OCCUPIED, ulEntry1 := 0, ulEntry2 := 0,
                         ulTicks := 0\<rparr>) (take SMBUS_MAX_CIRCULAR_LOG_ENTRIES (xCircularBuffer p))
              @ drop SMBUS_MAX_CIRCULAR_LOG_ENTRIES (xCircularBuffer p),
            xLogCircularBuffer := (xLogCircularBuffer p)\<lparr>logWrite := 0, logRead := 0\<rparr>\<rparr>))
          else None)"

definition read_ticks :: "('w, 'z) SMBUS_PROFILE_TYPE_scheme \<Rightarrow> 'w \<Rightarrow> u32 \<times> 'w" where
  "read_ticks p w = (case pFnReadTicks p of Some tick \<Rightarrow> tick w | None \<Rightarrow> (0, w))"

definition vLogAddEntry ::
  "('w, 'z) SMBUS_PROFILE_TYPE_scheme option \<Rightarrow> SMBUS_LOG_LEVEL_TYPE \<Rightarrow> u32 \<Rightarrow> SMBUS_LOG_EVENT_TYPE
   \<Rightarrow> u32 \<Rightarrow> u32 \<Rightarrow> 'w \<Rightarrow> (('w, 'z) SMBUS_PROFILE_TYPE_scheme option \<times> 'w) option" where
  "vLogAddEntry prof level inst ev e1 e2 w =
     (case prof of
        None \<Rightarrow> Some (None, w)
      | Some p \<Rightarrow>
          if log_level_value level \<le> log_level_value (xLogLevel p)
          then let (t, w') = read_ticks p w;
                   wr = unat (logWrite (xLogCircularBuffer p))
            in if wr < length (xCircularBuffer p)
               then Some (Some (p\<lparr>
                   xCircularBuffer := (xCircularBuffer p)[wr :=
                     \<lparr>ulIsOccupied = SMBUS_LOG_IS_OCCUPIED, ulTicks = t, ulEntry1 = e1,
                      ulInstance = inst, ulEntry2 = e2, xEvent = Some ev\<rparr>],
                   xLogCircularBuffer := (xLogCircularBuffer p)\<lparr>logWrite :=
                     (if SMBUS_MAX_CIRCULAR_LOG_ENTRIES - 1 \<le> wr
                      then of_nat (SMBUS_MAX_CIRCULAR_LOG_ENTRIES - 1)
                      else logWrite (xLogCircularBuffer p) + 1)\<rparr>\<rparr>), w')
               else None
          else Some (prof, w))"

section \<open>Display\<close>

definition prvpcConvertEventTypeToText :: "SMBUS_LOG_EVENT_TYPE option \<Rightarrow> string" where
  "prvpcConvertEventTypeToText e =
     (if e = Some SMBUS_LOG_EVENT_INTERRUPT_EVENT then ''INTERRUPT''
      else if e = Some SMBUS_LOG_EVENT_FSM_EVENT then ''FSM      ''
      else if e = Some SMBUS_LOG_EVENT_ERROR then ''ERROR    ''
      else if e = Some SMBUS_LOG_EVENT_HW_READ then ''HW_READ  ''
      else if e = Some SMBUS_LOG_EVENT_HW_WRITE then ''HW_WRITE ''
      else if e = Some SMBUS_LOG_EVENT_PROTOCOL then ''PROTOCOL ''
      else if e = Some SMBUS_LOG_EVENT_DEBUG then ''DEBUG    ''
      else if e = Some SMBUS_LOG_EVENT_TRYREAD then ''TRYREAD  ''
      else if e = Some SMBUS_LOG_EVENT_TRYWRITE then ''TRYWRITE ''
      else ''         '')"

text \<open>
  The conversions of \<open>sprintf\<close> the format strings use: \<open>%0wd\<close> and \<open>%wd\<close> read their
  argument as a signed integer, \<open>%08x\<close> as an unsigned one.
\<close>

function digits :: "nat \<Rightarrow> nat \<Rightarrow> string" where
  "digits base n =
     (if base < 2 \<or> n < base then [''0123456789abcdef'' ! n]
      else digits base (n div base) @ [''0123456789abcdef'' ! (n mod base)])"
  by auto
termination by (relation "measure snd") auto

definition pad :: "char \<Rightarrow> nat \<Rightarrow> string \<Rightarrow> string" where
  "pad c width s = replicate (width - length s) c @ s"

definition fmt_0d :: "nat \<Rightarrow> int \<Rightarrow> string" where
  "fmt_0d width v =
     (if v < 0 then ''-'' @ pad CHR ''0'' (width - 1) (digits 10 (nat (- v)))
      else pad CHR ''0'' width (digits 10 (nat v)))"

definition fmt_d :: "nat \<Rightarrow> int \<Rightarrow> string" where
  "fmt_d width v =
     pad CHR '' '' width ((if v < 0 then ''-'' else []) @ digits 10 (nat \<bar>v\<bar>))"

definition fmt_x8 :: "u32 \<Rightarrow> string" where
  "fmt_x8 v = ''0x'' @ pad CHR ''0'' 8 (digits 16 (unat v))"

definition crlf :: string where "crlf = [CHR 0x0D, CHR 0x0A]"

definition line_prefix :: "nat \<Rightarrow> SMBUS_LOG_BUFFER_ELEMENT_TYPE \<Rightarrow> string" where
  "line_prefix entry e =
     fmt_0d 4 (int entry) @ '' '' @ fmt_0d 7 (sint (ulTicks e)) @ '' ''
     @ prvpcConvertEventTypeToText (xEvent e) @ '' '' @ fmt_d 2 (sint (ulInstance e)) @ '' ''"

text \<open>The text written for an entry; its length is the size returned.\<close>

definition format_entry :: "nat \<Rightarrow> SMBUS_LOG_BUFFER_ELEMENT_TYPE \<Rightarrow> string" where
  "format_entry entry e =
     (case xEvent e of
        None \<Rightarrow> []
      | Some ev \<Rightarrow>
          if ev = SMBUS_LOG_EVENT_TRYWRITE \<or> ev = SMBUS_LOG_EVENT_TRYREAD \<or> ev = SMBUS_LOG_EVENT_DEBUG
          then line_prefix entry e @ fmt_x8 (ulEntry1 e) @ '' line '' @ fmt_d 0 (sint (ulEntry2 e)) @ crlf
          else if ev = SMBUS_LOG_EVENT_PROTOCOL
          then line_prefix entry e @ fmt_x8 (ulEntry1 e) @ '' '' @ pcProtocolToString (ucast (ulEntry2 e)) @ crlf
          else if ev = SMBUS_LOG_EVENT_HW_WRITE \<or> ev = SMBUS_LOG_EVENT_HW_READ \<or>
                  ev = SMBUS_LOG_EVENT_INTERRUPT_EVENT
          then line_prefix entry e @ fmt_x8 (ulEntry1 e) @ '' '' @ fmt_x8 (ulEntry2 e) @ crlf
          else line_prefix entry e @ pcStateToString (ucast (ulEntry1 e)) @ '' ''
               @ pcEventToString (ucast (ulEntry2 e)) @ crlf)"

definition prvvFormatLine :: "('w, 'z) SMBUS_PROFILE_TYPE_scheme \<Rightarrow> nat \<Rightarrow> string" where
  "prvvFormatLine p entry = format_entry entry (xCircularBuffer p ! entry)"

text \<open>One of the two loops over the entries, appending the occupied ones.\<close>

definition log_lines :: "('w, 'z) SMBUS_PROFILE_TYPE_scheme \<Rightarrow> nat list \<Rightarrow> string" where
  "log_lines p is = concat (map (prvvFormatLine p)
     (filter (\<lambda>i. ulIsOccupied (xCircularBuffer p ! i) = SMBUS_LOG_IS_OCCUPIED) is))"

text \<open>The inner \<^term>\<open>None\<close>: a NULL profile, nothing is written.\<close>

definition vLogDisplayLog :: "('w, 'z) SMBUS_PROFILE_TYPE_scheme option \<Rightarrow> (string \<times> u32) option option" where
  "vLogDisplayLog prof =
     (case prof of
        None \<Rightarrow> Some None
      | Some p \<Rightarrow>
          let start = unat (logWrite (xLogCircularBuffer p));
              txt = log_lines p [start..<SMBUS_MAX_CIRCULAR_LOG_ENTRIES] @ log_lines p [0..<start]
          in if max start SMBUS_MAX_CIRCULAR_LOG_ENTRIES \<le> length (xCircularBuffer p)
             then Some (Some (txt, of_nat (length txt))) else None)"

section \<open>What the log holds\<close>

text \<open>
  A sequence of calls, run by the code and by the specification: the entries at or below
  the level, each with the time read when it is added.
\<close>

type_synonym log_call = "SMBUS_LOG_LEVEL_TYPE \<times> u32 \<times> SMBUS_LOG_EVENT_TYPE \<times> u32 \<times> u32"

fun log_run ::
  "log_call list \<Rightarrow> ('w, 'z) SMBUS_PROFILE_TYPE_scheme option \<Rightarrow> 'w \<Rightarrow> (('w, 'z) SMBUS_PROFILE_TYPE_scheme option \<times> 'w) option" where
  "log_run [] prof w = Some (prof, w)"
| "log_run ((level, inst, ev, e1, e2) # cs) prof w =
     do { (prof', w') \<leftarrow> vLogAddEntry prof level inst ev e1 e2 w; log_run cs prof' w' }"

fun log_spec ::
  "('w, 'z) SMBUS_PROFILE_TYPE_scheme \<Rightarrow> log_call list \<Rightarrow> 'w \<Rightarrow> SMBUS_LOG_BUFFER_ELEMENT_TYPE list \<times> 'w" where
  "log_spec p [] w = ([], w)"
| "log_spec p ((level, inst, ev, e1, e2) # cs) w =
     (if log_level_value level \<le> log_level_value (xLogLevel p)
      then let (t, w1) = read_ticks p w; (es, w2) = log_spec p cs w1
           in (\<lparr>ulIsOccupied = SMBUS_LOG_IS_OCCUPIED, ulTicks = t, ulEntry1 = e1, ulInstance = inst,
                ulEntry2 = e2, xEvent = Some ev\<rparr> # es, w2)
      else log_spec p cs w)"

text \<open>
  What remains of the entries added: all of them until the array is full, afterwards the
  ones before the last cell, and the latest in the last cell.
\<close>

definition log_content :: "'e list \<Rightarrow> 'e list" where
  "log_content es = take (SMBUS_MAX_CIRCULAR_LOG_ENTRIES - 1) es @
     (if length es < SMBUS_MAX_CIRCULAR_LOG_ENTRIES then [] else [last es])"

definition log_text :: "SMBUS_LOG_BUFFER_ELEMENT_TYPE list \<Rightarrow> string" where
  "log_text es =
     (let n = SMBUS_MAX_CIRCULAR_LOG_ENTRIES - 1;
          lines = map (\<lambda>i. format_entry i (es ! i)) [0..<min n (length es)]
      in (if length es \<le> n then [] else format_entry n (last es)) @ concat lines)"

definition log_rep :: "SMBUS_LOG_BUFFER_ELEMENT_TYPE list \<Rightarrow> ('w, 'z) SMBUS_PROFILE_TYPE_scheme \<Rightarrow> bool" where
  "log_rep es p \<longleftrightarrow> length (xCircularBuffer p) = SMBUS_MAX_CIRCULAR_LOG_ENTRIES \<and>
     unat (logWrite (xLogCircularBuffer p)) = min (length es) (SMBUS_MAX_CIRCULAR_LOG_ENTRIES - 1) \<and>
     (\<forall>e \<in> set es. ulIsOccupied e = SMBUS_LOG_IS_OCCUPIED) \<and>
     (\<exists>rest. xCircularBuffer p = log_content es @ rest \<and>
        (\<forall>e \<in> set rest. ulIsOccupied e \<noteq> SMBUS_LOG_IS_OCCUPIED))"

lemma length_log_content: "length (log_content es) = min (length es) SMBUS_MAX_CIRCULAR_LOG_ENTRIES"
  by (auto simp: log_content_def SMBUS_MAX_CIRCULAR_LOG_ENTRIES_def)

lemma log_content_snoc:
  assumes "log_content es @ rest = buf" "length buf = SMBUS_MAX_CIRCULAR_LOG_ENTRIES"
  shows "\<exists>rest'. buf[min (length es) (SMBUS_MAX_CIRCULAR_LOG_ENTRIES - 1) := e] =
      log_content (es @ [e]) @ rest' \<and> set rest' \<subseteq> set rest"
proof (cases "length es < SMBUS_MAX_CIRCULAR_LOG_ENTRIES")
  case True
  then have c: "log_content es = es" "min (length es) (SMBUS_MAX_CIRCULAR_LOG_ENTRIES - 1) = length es"
    by (auto simp: log_content_def)
  have c': "log_content (es @ [e]) = es @ [e]" using True by (auto simp: log_content_def)
  obtain r rs where "rest = r # rs" using True assms c by (cases rest) auto
  then show ?thesis using assms c c' by auto
next
  case False
  let ?k = "SMBUS_MAX_CIRCULAR_LOG_ENTRIES - 1"
  have c: "log_content es = take ?k es @ [last es]" "min (length es) ?k = ?k"
    using False by (auto simp: log_content_def)
  have c': "log_content (es @ [e]) = take ?k es @ [e]" using False by (auto simp: log_content_def)
  have "length (take ?k es) = ?k" using False by auto
  then have "buf[?k := e] = take ?k es @ [e] @ rest"
    using assms c by (simp add: list_update_append flip: assms(1))
  then show ?thesis using c(2) c' by auto
qed

lemma log_add_ok:
  assumes rep: "log_rep es p" and lev: "log_level_value level \<le> log_level_value (xLogLevel p)"
    and tick: "read_ticks p w = (t, w')"
  shows "\<exists>p'. vLogAddEntry (Some p) level inst ev e1 e2 w = Some (Some p', w') \<and>
    log_rep (es @ [\<lparr>ulIsOccupied = SMBUS_LOG_IS_OCCUPIED, ulTicks = t, ulEntry1 = e1, ulInstance = inst,
                ulEntry2 = e2, xEvent = Some ev\<rparr>]) p' \<and>
    xLogLevel p' = xLogLevel p \<and> pFnReadTicks p' = pFnReadTicks p"
proof -
  let ?e = "\<lparr>ulIsOccupied = SMBUS_LOG_IS_OCCUPIED, ulTicks = t, ulEntry1 = e1, ulInstance = inst,
                ulEntry2 = e2, xEvent = Some ev\<rparr>"
  let ?k = "SMBUS_MAX_CIRCULAR_LOG_ENTRIES - 1" let ?wr = "unat (logWrite (xLogCircularBuffer p))"
  from rep obtain rest where r: "length (xCircularBuffer p) = SMBUS_MAX_CIRCULAR_LOG_ENTRIES"
    "?wr = min (length es) ?k" "\<forall>e \<in> set es. ulIsOccupied e = SMBUS_LOG_IS_OCCUPIED"
    "xCircularBuffer p = log_content es @ rest"
    "\<forall>e \<in> set rest. ulIsOccupied e \<noteq> SMBUS_LOG_IS_OCCUPIED" unfolding log_rep_def by blast
  from log_content_snoc[OF r(4)[symmetric] r(1), of ?e] obtain rest' where r':
    "(xCircularBuffer p)[?wr := ?e] = log_content (es @ [?e]) @ rest'" "set rest' \<subseteq> set rest"
    unfolding r(2) by blast
  let ?nw = "if ?k \<le> ?wr then of_nat ?k else logWrite (xLogCircularBuffer p) + 1"
  have wr: "?wr < length (xCircularBuffer p)" using r by (auto simp: SMBUS_MAX_CIRCULAR_LOG_ENTRIES_def)
  have nw: "unat ?nw = min (length (es @ [?e])) ?k"
  proof (cases "?k \<le> ?wr")
    case True
    then show ?thesis using r(2) by (simp add: SMBUS_MAX_CIRCULAR_LOG_ENTRIES_def)
  next
    case False
    then have "unat (logWrite (xLogCircularBuffer p) + 1) = ?wr + 1"
      by (simp add: unat_word_ariths SMBUS_MAX_CIRCULAR_LOG_ENTRIES_def)
    then show ?thesis using False r(2) by simp
  qed
  let ?p = "p\<lparr>xCircularBuffer := (xCircularBuffer p)[?wr := ?e],
    xLogCircularBuffer := (xLogCircularBuffer p)\<lparr>logWrite := ?nw\<rparr>\<rparr>"
  have "vLogAddEntry (Some p) level inst ev e1 e2 w = Some (Some ?p, w')"
    using lev tick wr by (simp add: vLogAddEntry_def)
  moreover have "log_rep (es @ [?e]) ?p"
    unfolding log_rep_def
  proof (intro conjI exI[of _ rest'])
    show "length (xCircularBuffer ?p) = SMBUS_MAX_CIRCULAR_LOG_ENTRIES" using r(1) by simp
    show "unat (logWrite (xLogCircularBuffer ?p)) = min (length (es @ [?e])) ?k" using nw by simp
    show "xCircularBuffer ?p = log_content (es @ [?e]) @ rest'" using r'(1) by simp
  qed (use r(3,5) r'(2) in auto)
  ultimately show ?thesis by auto
qed

lemma log_spec_cong:
  assumes "xLogLevel p1 = xLogLevel p" "pFnReadTicks p1 = pFnReadTicks p"
  shows "log_spec p1 cs w = log_spec p cs w"
proof -
  have "read_ticks p1 = read_ticks p" using assms(2) by (simp add: fun_eq_iff read_ticks_def)
  then show ?thesis using assms(1)
    by (induction cs arbitrary: w) (auto split: prod.splits)
qed

lemma log_run_ok:
  assumes "log_rep es p"
  shows "\<exists>p'. log_run cs (Some p) w = Some (Some p', snd (log_spec p cs w)) \<and>
    log_rep (es @ fst (log_spec p cs w)) p'"
  using assms
proof (induction cs arbitrary: es p w)
  case Nil
  then show ?case by simp
next
  case (Cons c cs)
  obtain level inst ev e1 e2 where c: "c = (level, inst, ev, e1, e2)" by (cases c)
  obtain t w1 where t: "read_ticks p w = (t, w1)" by fastforce
  show ?case
  proof (cases "log_level_value level \<le> log_level_value (xLogLevel p)")
    case True
    from log_add_ok[OF Cons.prems this t] obtain p1 where
      p1: "vLogAddEntry (Some p) level inst ev e1 e2 w = Some (Some p1, w1)"
      "log_rep (es @ [\<lparr>ulIsOccupied = SMBUS_LOG_IS_OCCUPIED, ulTicks = t, ulEntry1 = e1, ulInstance = inst,
                ulEntry2 = e2, xEvent = Some ev\<rparr>]) p1"
      "xLogLevel p1 = xLogLevel p" "pFnReadTicks p1 = pFnReadTicks p" by blast
    note same = log_spec_cong[OF p1(3,4)]
    show ?thesis using Cons.IH[OF p1(2), of w1] True p1(1) t c
      by (auto simp: same split: prod.splits)
  next
    case False
    then show ?thesis using Cons.IH[OF Cons.prems, of w] c by (auto simp: vLogAddEntry_def)
  qed
qed

lemma log_init_ok:
  assumes "length (xCircularBuffer p) = SMBUS_MAX_CIRCULAR_LOG_ENTRIES"
  shows "\<exists>p'. vLogInitialize (Some p) = Some (Some p') \<and> log_rep [] p' \<and>
    xLogLevel p' = xLogLevel p \<and> pFnReadTicks p' = pFnReadTicks p"
  using assms by (simp add: vLogInitialize_def log_rep_def log_content_def
      SMBUS_MAX_CIRCULAR_LOG_ENTRIES_def SMBUS_LOG_IS_NOT_OCCUPIED_def SMBUS_LOG_IS_OCCUPIED_def)

lemma log_display_ok:
  assumes "log_rep es p"
  shows "vLogDisplayLog (Some p) = Some (Some (log_text es, of_nat (length (log_text es))))"
proof -
  let ?N = SMBUS_MAX_CIRCULAR_LOG_ENTRIES and ?wr = "unat (logWrite (xLogCircularBuffer p))"
  let ?occ = "\<lambda>i. ulIsOccupied (xCircularBuffer p ! i) = SMBUS_LOG_IS_OCCUPIED"
  from assms obtain rest where r: "length (xCircularBuffer p) = ?N" "?wr = min (length es) (?N - 1)"
    "\<forall>e \<in> set es. ulIsOccupied e = SMBUS_LOG_IS_OCCUPIED"
    "xCircularBuffer p = log_content es @ rest"
    "\<forall>e \<in> set rest. ulIsOccupied e \<noteq> SMBUS_LOG_IS_OCCUPIED" unfolding log_rep_def by blast
  have N: "0 < ?N" by (simp add: SMBUS_MAX_CIRCULAR_LOG_ENTRIES_def)
  have low: "xCircularBuffer p ! i = es ! i" "?occ i" if "i < ?wr" for i
    using that r by (auto simp: log_content_def nth_append min_def split: if_splits)
  have "log_lines p [0..<?wr] = concat (map (\<lambda>i. format_entry i (es ! i)) [0..<?wr])"
    unfolding log_lines_def using low
    by (intro arg_cong[where f = concat] map_cong) (auto simp: prvvFormatLine_def)
  moreover have "log_lines p [?wr..<?N] = (if length es \<le> ?N - 1 then [] else format_entry (?N - 1) (last es))"
  proof (cases "length es \<le> ?N - 1")
    case True
    then have "log_content es = es" using N by (auto simp: log_content_def)
    then have "\<not> ?occ i" if "i \<in> set [?wr..<?N]" for i
    proof -
      have "length es + length rest = ?N" using r(1,4) \<open>log_content es = es\<close> by simp
      then have "rest ! (i - length es) \<in> set rest" using that r(2) True by (intro nth_mem) auto
      then show ?thesis using r True that \<open>log_content es = es\<close> by (simp add: nth_append)
    qed
    then show ?thesis using True by (simp add: log_lines_def)
  next
    case False
    then have wr: "?wr = ?N - 1" using r(2) by simp
    have "xCircularBuffer p ! (?N - 1) = last es"
      using False r(4) by (simp add: log_content_def nth_append not_le)
    moreover have "last es \<in> set es" using False by (intro last_in_set) auto
    moreover have "[?N - 1..<?N] = [?N - 1]" using N by (simp add: upt_rec)
    ultimately show ?thesis using False wr r(3) by (simp add: log_lines_def prvvFormatLine_def)
  qed
  ultimately show ?thesis
    using r(1,2) N by (auto simp: vLogDisplayLog_def log_text_def Let_def min.commute)
qed

end
