(* ===== verification/SmbusEvents.thy ===== *)
theory SmbusEvents
  imports SmbusLog
begin

text \<open>
  The events of the SMBus state machine, smbus_event.c: the
  generator functions that put them in the event buffer of an instance. An instance is
  the record of the fields the generators touch; its profile, shared by all instances,
  is passed along with the clock it reads.
\<close>


section \<open>Instances and event creation\<close>

record SMBUS_INSTANCE_TYPE =
  ucThisInstanceNumber :: u8
  ucTriggerFSM :: u8
  xEventSourceCircularBuffer :: SMBUS_EVENT_BUFFER_TYPE

text \<open>
  An event that does not fit is dropped and reported in the log, with the number of the
  source line of the report, 91, as second entry.
\<close>

definition vSMBusCreateEvent ::
  "'i SMBUS_INSTANCE_TYPE_scheme option \<Rightarrow> u8 \<Rightarrow> ('w, 'z) SMBUS_PROFILE_TYPE_scheme option \<Rightarrow> 'w
   \<Rightarrow> ('i SMBUS_INSTANCE_TYPE_scheme option \<times> ('w, 'z) SMBUS_PROFILE_TYPE_scheme option \<times> 'w) option" where
  "vSMBusCreateEvent inst ev prof w =
     (case inst of
        None \<Rightarrow> Some (None, prof, w)
      | Some i \<Rightarrow> do {
          (st, buf, _) \<leftarrow> ucEventBufferTryWrite (Some (xEventSourceCircularBuffer i)) ev (Some 0);
          b \<leftarrow> buf;
          let i' = i\<lparr>xEventSourceCircularBuffer := b\<rparr>;
          (if st = SMBUS_EVENT_BUFFER_FAIL
           then do {
             (prof', w') \<leftarrow> vLogAddEntry prof SMBUS_LOG_LEVEL_ERROR (ucast (ucThisInstanceNumber i))
               SMBUS_LOG_EVENT_ERROR (ucast ev) 91 w;
             Some (Some i', prof', w') }
           else Some (Some i', prof, w)) })"

definition trigger_fsm ::
  "('i SMBUS_INSTANCE_TYPE_scheme option \<times> ('w, 'z) SMBUS_PROFILE_TYPE_scheme option \<times> 'w) option
   \<Rightarrow> ('i SMBUS_INSTANCE_TYPE_scheme option \<times> ('w, 'z) SMBUS_PROFILE_TYPE_scheme option \<times> 'w) option" where
  "trigger_fsm r = map_option (\<lambda>(i, pw). (map_option (ucTriggerFSM_update (\<lambda>_. SMBUS_TRUE)) i, pw)) r"

section \<open>Generators\<close>

type_synonym ('i, 'w, 'z) smbus_generator =
  "'i SMBUS_INSTANCE_TYPE_scheme option \<Rightarrow> ('w, 'z) SMBUS_PROFILE_TYPE_scheme option \<Rightarrow> 'w
   \<Rightarrow> ('i SMBUS_INSTANCE_TYPE_scheme option \<times> ('w, 'z) SMBUS_PROFILE_TYPE_scheme option \<times> 'w) option"

definition vSMBusGenerateEvent_E_IS_PEC_REQUIRED :: "('i, 'w, 'z) smbus_generator" where
  "vSMBusGenerateEvent_E_IS_PEC_REQUIRED inst prof w =
     (if inst \<noteq> None then trigger_fsm (vSMBusCreateEvent inst E_IS_PEC_REQUIRED prof w) else Some (inst, prof, w))"

definition vSMBusGenerateEvent_E_SEND_NEXT_BYTE :: "('i, 'w, 'z) smbus_generator" where
  "vSMBusGenerateEvent_E_SEND_NEXT_BYTE inst prof w =
     (if inst \<noteq> None then trigger_fsm (vSMBusCreateEvent inst E_SEND_NEXT_BYTE prof w) else Some (inst, prof, w))"

definition vSMBusGenerateEvent_E_TARGET_WRITE_IRQ :: "('i, 'w, 'z) smbus_generator" where
  "vSMBusGenerateEvent_E_TARGET_WRITE_IRQ inst prof w =
     (if inst \<noteq> None then vSMBusCreateEvent inst E_TARGET_WRITE_IRQ prof w else Some (inst, prof, w))"

definition vSMBusGenerateEvent_E_TARGET_DATA_IRQ :: "('i, 'w, 'z) smbus_generator" where
  "vSMBusGenerateEvent_E_TARGET_DATA_IRQ inst prof w =
     (if inst \<noteq> None then vSMBusCreateEvent inst E_TARGET_DATA_IRQ prof w else Some (inst, prof, w))"

definition vSMBusGenerateEvent_E_CONTROLLER_DATA_IRQ :: "('i, 'w, 'z) smbus_generator" where
  "vSMBusGenerateEvent_E_CONTROLLER_DATA_IRQ inst prof w =
     (if inst \<noteq> None then vSMBusCreateEvent inst E_CONTROLLER_DATA_IRQ prof w else Some (inst, prof, w))"

definition vSMBusGenerateEvent_E_TARGET_READ_IRQ :: "('i, 'w, 'z) smbus_generator" where
  "vSMBusGenerateEvent_E_TARGET_READ_IRQ inst prof w =
     (if inst \<noteq> None then vSMBusCreateEvent inst E_TARGET_READ_IRQ prof w else Some (inst, prof, w))"

definition vSMBusGenerateEvent_E_TARGET_DONE_IRQ :: "('i, 'w, 'z) smbus_generator" where
  "vSMBusGenerateEvent_E_TARGET_DONE_IRQ inst prof w =
     (if inst \<noteq> None then vSMBusCreateEvent inst E_TARGET_DONE_IRQ prof w else Some (inst, prof, w))"

definition vSMBusGenerateEvent_E_CONTROLLER_DONE_IRQ :: "('i, 'w, 'z) smbus_generator" where
  "vSMBusGenerateEvent_E_CONTROLLER_DONE_IRQ inst prof w =
     (if inst \<noteq> None then vSMBusCreateEvent inst E_CONTROLLER_DONE_IRQ prof w else Some (inst, prof, w))"

definition vSMBusGenerateEvent_E_TARGET_LOA_ERROR_IRQ :: "('i, 'w, 'z) smbus_generator" where
  "vSMBusGenerateEvent_E_TARGET_LOA_ERROR_IRQ inst prof w =
     (if inst \<noteq> None then vSMBusCreateEvent inst E_TARGET_LOA_ERROR_IRQ prof w else Some (inst, prof, w))"

definition vSMBusGenerateEvent_E_TARGET_PEC_ERROR_IRQ :: "('i, 'w, 'z) smbus_generator" where
  "vSMBusGenerateEvent_E_TARGET_PEC_ERROR_IRQ inst prof w =
     (if inst \<noteq> None then vSMBusCreateEvent inst E_TARGET_PEC_ERROR_IRQ prof w else Some (inst, prof, w))"

definition vSMBusGenerateEvent_E_TARGET_PHY_TEXT_TIMEOUT_ERROR_IRQ :: "('i, 'w, 'z) smbus_generator" where
  "vSMBusGenerateEvent_E_TARGET_PHY_TEXT_TIMEOUT_ERROR_IRQ inst prof w =
     (if inst \<noteq> None then vSMBusCreateEvent inst E_TARGET_PHY_TEXT_TIMEOUT_ERROR_IRQ prof w else Some (inst, prof, w))"

definition vSMBusGenerateEvent_E_TARGET_RX_FIFO_ERROR_ERROR_IRQ :: "('i, 'w, 'z) smbus_generator" where
  "vSMBusGenerateEvent_E_TARGET_RX_FIFO_ERROR_ERROR_IRQ inst prof w =
     (if inst \<noteq> None then vSMBusCreateEvent inst E_TARGET_RX_FIFO_ERROR_ERROR_IRQ prof w else Some (inst, prof, w))"

definition vSMBusGenerateEvent_E_TARGET_RX_FIFO_OVERFLOW_ERROR_IRQ :: "('i, 'w, 'z) smbus_generator" where
  "vSMBusGenerateEvent_E_TARGET_RX_FIFO_OVERFLOW_ERROR_IRQ inst prof w =
     (if inst \<noteq> None then vSMBusCreateEvent inst E_TARGET_RX_FIFO_OVERFLOW_ERROR_IRQ prof w else Some (inst, prof, w))"

definition vSMBusGenerateEvent_E_TARGET_RX_FIFO_UNDERFLOW_ERROR_IRQ :: "('i, 'w, 'z) smbus_generator" where
  "vSMBusGenerateEvent_E_TARGET_RX_FIFO_UNDERFLOW_ERROR_IRQ inst prof w =
     (if inst \<noteq> None then vSMBusCreateEvent inst E_TARGET_RX_FIFO_UNDERFLOW_ERROR_IRQ prof w else Some (inst, prof, w))"

definition vSMBusGenerateEvent_E_TARGET_DESC_FIFO_ERROR_IRQ :: "('i, 'w, 'z) smbus_generator" where
  "vSMBusGenerateEvent_E_TARGET_DESC_FIFO_ERROR_IRQ inst prof w =
     (if inst \<noteq> None then vSMBusCreateEvent inst E_TARGET_DESC_FIFO_ERROR_IRQ prof w else Some (inst, prof, w))"

definition vSMBusGenerateEvent_E_TARGET_DESC_FIFO_OVERFLOW_ERROR_IRQ :: "('i, 'w, 'z) smbus_generator" where
  "vSMBusGenerateEvent_E_TARGET_DESC_FIFO_OVERFLOW_ERROR_IRQ inst prof w =
     (if inst \<noteq> None then vSMBusCreateEvent inst E_TARGET_DESC_FIFO_OVERFLOW_ERROR_IRQ prof w else Some (inst, prof, w))"

definition vSMBusGenerateEvent_E_TARGET_DESC_FIFO_UNDERFLOW_ERROR_IRQ :: "('i, 'w, 'z) smbus_generator" where
  "vSMBusGenerateEvent_E_TARGET_DESC_FIFO_UNDERFLOW_ERROR_IRQ inst prof w =
     (if inst \<noteq> None then vSMBusCreateEvent inst E_TARGET_DESC_FIFO_UNDERFLOW_ERROR_IRQ prof w else Some (inst, prof, w))"

definition vSMBusGenerateEvent_E_TARGET_DESC_ERROR_IRQ :: "('i, 'w, 'z) smbus_generator" where
  "vSMBusGenerateEvent_E_TARGET_DESC_ERROR_IRQ inst prof w =
     (if inst \<noteq> None then vSMBusCreateEvent inst E_TARGET_DESC_ERROR_IRQ prof w else Some (inst, prof, w))"

definition vSMBusGenerateEvent_E_TARGET_PHY_UNEXPTD_BUS_IDLE_ERROR_IRQ :: "('i, 'w, 'z) smbus_generator" where
  "vSMBusGenerateEvent_E_TARGET_PHY_UNEXPTD_BUS_IDLE_ERROR_IRQ inst prof w =
     (if inst \<noteq> None then vSMBusCreateEvent inst E_TARGET_PHY_UNEXPTD_BUS_IDLE_ERROR_IRQ prof w else Some (inst, prof, w))"

definition vSMBusGenerateEvent_E_TARGET_PHY_SMBDAT_LOW_TIMEOUT_DESC_ERROR_IRQ :: "('i, 'w, 'z) smbus_generator" where
  "vSMBusGenerateEvent_E_TARGET_PHY_SMBDAT_LOW_TIMEOUT_DESC_ERROR_IRQ inst prof w =
     (if inst \<noteq> None then vSMBusCreateEvent inst E_TARGET_PHY_SMBDAT_LOW_TIMEOUT_DESC_ERROR_IRQ prof w else Some (inst, prof, w))"

definition vSMBusGenerateEvent_E_TARGET_PHY_SMBCLK_LOW_TIMEOUT_ERROR_IRQ :: "('i, 'w, 'z) smbus_generator" where
  "vSMBusGenerateEvent_E_TARGET_PHY_SMBCLK_LOW_TIMEOUT_ERROR_IRQ inst prof w =
     (if inst \<noteq> None then vSMBusCreateEvent inst E_TARGET_PHY_SMBCLK_LOW_TIMEOUT_ERROR_IRQ prof w else Some (inst, prof, w))"

definition vSMBusGenerateEvent_E_CONTROLLER_LOA_ERROR_IRQ :: "('i, 'w, 'z) smbus_generator" where
  "vSMBusGenerateEvent_E_CONTROLLER_LOA_ERROR_IRQ inst prof w =
     (if inst \<noteq> None then vSMBusCreateEvent inst E_CONTROLLER_LOA_ERROR_IRQ prof w else Some (inst, prof, w))"

definition vSMBusGenerateEvent_E_CONTROLLER_NACK_ERROR_IRQ :: "('i, 'w, 'z) smbus_generator" where
  "vSMBusGenerateEvent_E_CONTROLLER_NACK_ERROR_IRQ inst prof w =
     (if inst \<noteq> None then vSMBusCreateEvent inst E_CONTROLLER_NACK_ERROR_IRQ prof w else Some (inst, prof, w))"

definition vSMBusGenerateEvent_E_CONTROLLER_PEC_ERROR_IRQ :: "('i, 'w, 'z) smbus_generator" where
  "vSMBusGenerateEvent_E_CONTROLLER_PEC_ERROR_IRQ inst prof w =
     (if inst \<noteq> None then vSMBusCreateEvent inst E_CONTROLLER_PEC_ERROR_IRQ prof w else Some (inst, prof, w))"

definition vSMBusGenerateEvent_E_CONTROLLER_PHY_CTLR_TEXT_TIMEOUT_ERROR_IRQ :: "('i, 'w, 'z) smbus_generator" where
  "vSMBusGenerateEvent_E_CONTROLLER_PHY_CTLR_TEXT_TIMEOUT_ERROR_IRQ inst prof w =
     (if inst \<noteq> None then vSMBusCreateEvent inst E_CONTROLLER_PHY_CTLR_TEXT_TIMEOUT_ERROR_IRQ prof w else Some (inst, prof, w))"

definition vSMBusGenerateEvent_E_CONTROLLER_PHY_CTLR_CEXT_TIMEOUT_ERROR_IRQ :: "('i, 'w, 'z) smbus_generator" where
  "vSMBusGenerateEvent_E_CONTROLLER_PHY_CTLR_CEXT_TIMEOUT_ERROR_IRQ inst prof w =
     (if inst \<noteq> None then vSMBusCreateEvent inst E_CONTROLLER_PHY_CTLR_CEXT_TIMEOUT_ERROR_IRQ prof w else Some (inst, prof, w))"

definition vSMBusGenerateEvent_E_CONTROLLER_RX_FIFO_ERROR_IRQ :: "('i, 'w, 'z) smbus_generator" where
  "vSMBusGenerateEvent_E_CONTROLLER_RX_FIFO_ERROR_IRQ inst prof w =
     (if inst \<noteq> None then vSMBusCreateEvent inst E_CONTROLLER_RX_FIFO_ERROR_IRQ prof w else Some (inst, prof, w))"

definition vSMBusGenerateEvent_E_CONTROLLER_RX_FIFO_OVERFLOW_ERROR_IRQ :: "('i, 'w, 'z) smbus_generator" where
  "vSMBusGenerateEvent_E_CONTROLLER_RX_FIFO_OVERFLOW_ERROR_IRQ inst prof w =
     (if inst \<noteq> None then vSMBusCreateEvent inst E_CONTROLLER_RX_FIFO_OVERFLOW_ERROR_IRQ prof w else Some (inst, prof, w))"

definition vSMBusGenerateEvent_E_CONTROLLER_RX_FIFO_UNDERFLOW_ERROR_IRQ :: "('i, 'w, 'z) smbus_generator" where
  "vSMBusGenerateEvent_E_CONTROLLER_RX_FIFO_UNDERFLOW_ERROR_IRQ inst prof w =
     (if inst \<noteq> None then vSMBusCreateEvent inst E_CONTROLLER_RX_FIFO_UNDERFLOW_ERROR_IRQ prof w else Some (inst, prof, w))"

definition vSMBusGenerateEvent_E_CONTROLLER_DESC_FIFO_ERROR_IRQ :: "('i, 'w, 'z) smbus_generator" where
  "vSMBusGenerateEvent_E_CONTROLLER_DESC_FIFO_ERROR_IRQ inst prof w =
     (if inst \<noteq> None then vSMBusCreateEvent inst E_CONTROLLER_DESC_FIFO_ERROR_IRQ prof w else Some (inst, prof, w))"

definition vSMBusGenerateEvent_E_CONTROLLER_DESC_FIFO_OVERFLOW_ERROR_IRQ :: "('i, 'w, 'z) smbus_generator" where
  "vSMBusGenerateEvent_E_CONTROLLER_DESC_FIFO_OVERFLOW_ERROR_IRQ inst prof w =
     (if inst \<noteq> None then vSMBusCreateEvent inst E_CONTROLLER_DESC_FIFO_OVERFLOW_ERROR_IRQ prof w else Some (inst, prof, w))"

definition vSMBusGenerateEvent_E_CONTROLLER_DESC_FIFO_UNDERFLOW_ERROR_IRQ :: "('i, 'w, 'z) smbus_generator" where
  "vSMBusGenerateEvent_E_CONTROLLER_DESC_FIFO_UNDERFLOW_ERROR_IRQ inst prof w =
     (if inst \<noteq> None then vSMBusCreateEvent inst E_CONTROLLER_DESC_FIFO_UNDERFLOW_ERROR_IRQ prof w else Some (inst, prof, w))"

definition vSMBusGenerateEvent_E_CONTROLLER_DESC_ERROR_IRQ :: "('i, 'w, 'z) smbus_generator" where
  "vSMBusGenerateEvent_E_CONTROLLER_DESC_ERROR_IRQ inst prof w =
     (if inst \<noteq> None then vSMBusCreateEvent inst E_CONTROLLER_DESC_ERROR_IRQ prof w else Some (inst, prof, w))"

definition vSMBusGenerateEvent_E_DESC_FIFO_ALMOST_EMPTY_IRQ :: "('i, 'w, 'z) smbus_generator" where
  "vSMBusGenerateEvent_E_DESC_FIFO_ALMOST_EMPTY_IRQ inst prof w =
     (if inst \<noteq> None then vSMBusCreateEvent inst E_DESC_FIFO_ALMOST_EMPTY_IRQ prof w else Some (inst, prof, w))"

definition vSMBusGenerateEvent_E_CONTROLLER_DESC_FIFO_ALMOST_EMPTY_IRQ :: "('i, 'w, 'z) smbus_generator" where
  "vSMBusGenerateEvent_E_CONTROLLER_DESC_FIFO_ALMOST_EMPTY_IRQ inst prof w =
     (if inst \<noteq> None then vSMBusCreateEvent inst E_CONTROLLER_DESC_FIFO_ALMOST_EMPTY_IRQ prof w else Some (inst, prof, w))"

lemmas smbus_generators =
  vSMBusGenerateEvent_E_IS_PEC_REQUIRED_def
  vSMBusGenerateEvent_E_SEND_NEXT_BYTE_def
  vSMBusGenerateEvent_E_TARGET_WRITE_IRQ_def
  vSMBusGenerateEvent_E_TARGET_DATA_IRQ_def
  vSMBusGenerateEvent_E_CONTROLLER_DATA_IRQ_def
  vSMBusGenerateEvent_E_TARGET_READ_IRQ_def
  vSMBusGenerateEvent_E_TARGET_DONE_IRQ_def
  vSMBusGenerateEvent_E_CONTROLLER_DONE_IRQ_def
  vSMBusGenerateEvent_E_TARGET_LOA_ERROR_IRQ_def
  vSMBusGenerateEvent_E_TARGET_PEC_ERROR_IRQ_def
  vSMBusGenerateEvent_E_TARGET_PHY_TEXT_TIMEOUT_ERROR_IRQ_def
  vSMBusGenerateEvent_E_TARGET_RX_FIFO_ERROR_ERROR_IRQ_def
  vSMBusGenerateEvent_E_TARGET_RX_FIFO_OVERFLOW_ERROR_IRQ_def
  vSMBusGenerateEvent_E_TARGET_RX_FIFO_UNDERFLOW_ERROR_IRQ_def
  vSMBusGenerateEvent_E_TARGET_DESC_FIFO_ERROR_IRQ_def
  vSMBusGenerateEvent_E_TARGET_DESC_FIFO_OVERFLOW_ERROR_IRQ_def
  vSMBusGenerateEvent_E_TARGET_DESC_FIFO_UNDERFLOW_ERROR_IRQ_def
  vSMBusGenerateEvent_E_TARGET_DESC_ERROR_IRQ_def
  vSMBusGenerateEvent_E_TARGET_PHY_UNEXPTD_BUS_IDLE_ERROR_IRQ_def
  vSMBusGenerateEvent_E_TARGET_PHY_SMBDAT_LOW_TIMEOUT_DESC_ERROR_IRQ_def
  vSMBusGenerateEvent_E_TARGET_PHY_SMBCLK_LOW_TIMEOUT_ERROR_IRQ_def
  vSMBusGenerateEvent_E_CONTROLLER_LOA_ERROR_IRQ_def
  vSMBusGenerateEvent_E_CONTROLLER_NACK_ERROR_IRQ_def
  vSMBusGenerateEvent_E_CONTROLLER_PEC_ERROR_IRQ_def
  vSMBusGenerateEvent_E_CONTROLLER_PHY_CTLR_TEXT_TIMEOUT_ERROR_IRQ_def
  vSMBusGenerateEvent_E_CONTROLLER_PHY_CTLR_CEXT_TIMEOUT_ERROR_IRQ_def
  vSMBusGenerateEvent_E_CONTROLLER_RX_FIFO_ERROR_IRQ_def
  vSMBusGenerateEvent_E_CONTROLLER_RX_FIFO_OVERFLOW_ERROR_IRQ_def
  vSMBusGenerateEvent_E_CONTROLLER_RX_FIFO_UNDERFLOW_ERROR_IRQ_def
  vSMBusGenerateEvent_E_CONTROLLER_DESC_FIFO_ERROR_IRQ_def
  vSMBusGenerateEvent_E_CONTROLLER_DESC_FIFO_OVERFLOW_ERROR_IRQ_def
  vSMBusGenerateEvent_E_CONTROLLER_DESC_FIFO_UNDERFLOW_ERROR_IRQ_def
  vSMBusGenerateEvent_E_CONTROLLER_DESC_ERROR_IRQ_def
  vSMBusGenerateEvent_E_DESC_FIFO_ALMOST_EMPTY_IRQ_def
  vSMBusGenerateEvent_E_CONTROLLER_DESC_FIFO_ALMOST_EMPTY_IRQ_def

section \<open>Properties\<close>

lemma log_rep_length: "log_rep es p \<Longrightarrow> length (xCircularBuffer p) = SMBUS_MAX_CIRCULAR_LOG_ENTRIES"
  by (simp add: log_rep_def)

text \<open>
  C17: after initialisation over an array of the announced size, any sequence of writes and
  reads of the event buffer stays inside the array, delivers exactly the events accepted, in
  order, and never holds more events than cells; the events left are then read back in order.
\<close>

theorem smbus_event_queue:
  assumes "unat n = length es" "n \<noteq> 0"
  shows "\<exists>b' acc del b''. vEventBufferInitialize (Some b) (Some es) n = Some (Some b')
    \<and> fifo_run evb_enq evb_deq ops b' = Some (acc, del, b'')
    \<and> acc = del @ evb_events b'' \<and> length (evb_events b'') \<le> length es
    \<and> (\<exists>b3. fifo_run evb_enq evb_deq (replicate (length (evb_events b'')) Deq) b''
             = Some ([], evb_events b'', b3) \<and> evb_events b3 = [])"
proof -
  from evb_init_ok[OF assms] obtain b' where b': "vEventBufferInitialize (Some b) (Some es) n = Some (Some b')"
    "evb_rep [] b'" "ulMaxElements b' = n" by blast
  have ev: "evb_events b' = []" using evb_rep_events[OF b'(2)] .
  have inv: "evb_inv b'" using b'(2) evb_inv_iff by blast
  have "list_all (op_valid (\<lambda>_. True)) ops"
    by (simp add: list_all_iff) (metis fifo_op.exhaust op_valid.simps)
  from smbus_events.run_ok[OF inv this] obtain acc del b'' where r:
    "fifo_run evb_enq evb_deq ops b' = Some (acc, del, b'')" "evb_inv b''"
    "evb_events b' @ acc = del @ evb_events b''" "length (evb_events b'') \<le> evb_cap b'" by blast
  from smbus_events.drain_ok[OF r(2)] show ?thesis
    using b' r ev assms(1) by (auto simp: evb_cap_def)
qed

theorem smbus_event_queue_witness:
  "\<exists>b' acc del b''. vEventBufferInitialize
      (Some \<lparr>ulMaxElements = 0, ulWrite = 0, ulRead = 0, pxEventBuffer = None\<rparr>)
      (Some (replicate 2 \<lparr>ucIsOccupied = 7, ucOctet = 9\<rparr>)) 2 = Some (Some b')
    \<and> fifo_run evb_enq evb_deq [Enq E_TARGET_WRITE_IRQ, Enq E_TARGET_DATA_IRQ, Enq E_TARGET_DONE_IRQ, Deq] b'
        = Some (acc, del, b'')
    \<and> acc = del @ evb_events b'' \<and> length (evb_events b'')
        \<le> length (replicate 2 \<lparr>ucIsOccupied = 7, ucOctet = 9\<rparr> :: SMBUS_EVENT_BUFFER_ELEMENT_TYPE list)
    \<and> (\<exists>b3. fifo_run evb_enq evb_deq (replicate (length (evb_events b'')) Deq) b''
             = Some ([], evb_events b'', b3) \<and> evb_events b3 = [])"
  by (rule smbus_event_queue) simp_all

text \<open>
  Creating an event on an instance with room in its buffer appends the event and logs
  nothing; with a full buffer the pending events are kept, and the event is reported in the
  log when the profile's level admits errors. Nothing else of the instance changes.
\<close>

theorem smbus_create_event:
  assumes "evb_inv (xEventSourceCircularBuffer i)" "log_rep es p" "read_ticks p w = (t, w1)"
  shows "\<exists>b' p' w'. vSMBusCreateEvent (Some i) ev (Some p) w
      = Some (Some (i\<lparr>xEventSourceCircularBuffer := b'\<rparr>), Some p', w')
    \<and> evb_inv b' \<and> evb_cap b' = evb_cap (xEventSourceCircularBuffer i)
    \<and> (if length (evb_events (xEventSourceCircularBuffer i)) < evb_cap b'
       then evb_events b' = evb_events (xEventSourceCircularBuffer i) @ [ev] \<and> p' = p \<and> w' = w
       else evb_events b' = evb_events (xEventSourceCircularBuffer i)
         \<and> (if xLogLevel p = SMBUS_LOG_LEVEL_NONE then p' = p \<and> w' = w
            else w' = w1 \<and> log_rep (es @ [\<lparr>ulIsOccupied = SMBUS_LOG_IS_OCCUPIED, ulTicks = t,
                   ulEntry1 = ucast ev, ulInstance = ucast (ucThisInstanceNumber i), ulEntry2 = 91,
                   xEvent = Some SMBUS_LOG_EVENT_ERROR\<rparr>]) p'))"
proof -
  let ?b = "xEventSourceCircularBuffer i"
  have rep: "evb_rep (evb_events ?b) ?b" using assms(1) by (simp add: evb_inv_def)
  show ?thesis
  proof (cases "length (evb_events ?b) < evb_cap ?b")
    case True
    from evb_write_ok[OF rep True, of ev 0] obtain b' where
      w: "ucEventBufferTryWrite (Some ?b) ev (Some 0) = Some (SMBUS_EVENT_BUFFER_SUCCESS, Some b', Some (ulWrite ?b))"
      and b': "evb_rep (evb_events ?b @ [ev]) b'" "ulMaxElements b' = ulMaxElements ?b" by blast
    then show ?thesis using True evb_rep_events[OF b'(1)] evb_inv_iff[of b']
      by (auto simp: vSMBusCreateEvent_def smbus_values evb_cap_def)
  next
    case False
    note w = evb_write_full[OF rep False, of ev 0]
    have same: "i\<lparr>xEventSourceCircularBuffer := ?b\<rparr> = i" by simp
    show ?thesis
    proof (cases "xLogLevel p = SMBUS_LOG_LEVEL_NONE")
      case True
      then show ?thesis using False w same assms(1)
        by (intro exI[of _ ?b] exI[of _ p] exI[of _ w])
          (simp add: vSMBusCreateEvent_def vLogAddEntry_def)
    next
      case False': False
      then have "log_level_value SMBUS_LOG_LEVEL_ERROR \<le> log_level_value (xLogLevel p)"
        by (cases "xLogLevel p") simp_all
      from log_add_ok[OF assms(2) this assms(3), of "ucast (ucThisInstanceNumber i)"
          SMBUS_LOG_EVENT_ERROR "ucast ev" 91] obtain p' where
        "vLogAddEntry (Some p) SMBUS_LOG_LEVEL_ERROR (ucast (ucThisInstanceNumber i)) SMBUS_LOG_EVENT_ERROR
          (ucast ev) 91 w = Some (Some p', w1)"
        "log_rep (es @ [\<lparr>ulIsOccupied = SMBUS_LOG_IS_OCCUPIED, ulTicks = t,
           ulEntry1 = ucast ev, ulInstance = ucast (ucThisInstanceNumber i), ulEntry2 = 91,
           xEvent = Some SMBUS_LOG_EVENT_ERROR\<rparr>]) p'" by blast
      then show ?thesis using False False' w same assms(1)
        by (intro exI[of _ ?b] exI[of _ p'] exI[of _ w1]) (simp add: vSMBusCreateEvent_def)
    qed
  qed
qed

text \<open>
  The log of a profile, initialised and then given any sequence of entries, displays the
  entries at or below its level, oldest first, as long as they fit; once more entries than
  cells have been added it does not wrap but shows the latest one, then the first ones.
\<close>

theorem smbus_log_shows:
  assumes "length (xCircularBuffer p) = SMBUS_MAX_CIRCULAR_LOG_ENTRIES"
  shows "\<exists>p0 p1 w1. vLogInitialize (Some p) = Some (Some p0)
    \<and> log_run calls (Some p0) w = Some (Some p1, w1)
    \<and> vLogDisplayLog (Some p1) = Some (Some (log_text (fst (log_spec p calls w)),
        of_nat (length (log_text (fst (log_spec p calls w))))))"
proof -
  from log_init_ok[OF assms] obtain p0 where p0: "vLogInitialize (Some p) = Some (Some p0)"
    "log_rep [] p0" "xLogLevel p0 = xLogLevel p" "pFnReadTicks p0 = pFnReadTicks p" by blast
  from log_run_ok[OF p0(2), of calls w] obtain p1 where
    "log_run calls (Some p0) w = Some (Some p1, snd (log_spec p0 calls w))"
    "log_rep (fst (log_spec p0 calls w)) p1" by auto
  then show ?thesis using p0(1) log_display_ok log_spec_cong[OF p0(3,4)] by fastforce
qed

definition example_profile :: "nat SMBUS_PROFILE_TYPE" where
  "example_profile = \<lparr>pFnReadTicks = Some (\<lambda>w. (of_nat w, w + 1)),
     xLogCircularBuffer = \<lparr>logWrite = 3, logRead = 0\<rparr>,
     xCircularBuffer = replicate SMBUS_MAX_CIRCULAR_LOG_ENTRIES
       \<lparr>ulIsOccupied = 1, ulTicks = 0, ulEntry1 = 0, ulInstance = 0, ulEntry2 = 0, xEvent = None\<rparr>,
     xLogLevel = SMBUS_LOG_LEVEL_DEBUG\<rparr>"

theorem smbus_log_shows_witness:
  "\<exists>p0 p1 w1. vLogInitialize (Some example_profile) = Some (Some p0)
    \<and> log_run [(SMBUS_LOG_LEVEL_DEBUG, 1, SMBUS_LOG_EVENT_DEBUG, 2, 3)] (Some p0) 7 = Some (Some p1, w1)
    \<and> vLogDisplayLog (Some p1) = Some (Some (log_text (fst (log_spec example_profile
        [(SMBUS_LOG_LEVEL_DEBUG, 1, SMBUS_LOG_EVENT_DEBUG, 2, 3)] 7)),
        of_nat (length (log_text (fst (log_spec example_profile
        [(SMBUS_LOG_LEVEL_DEBUG, 1, SMBUS_LOG_EVENT_DEBUG, 2, 3)] 7))))))"
  by (rule smbus_log_shows) (simp add: example_profile_def)

definition example_buffer :: SMBUS_EVENT_BUFFER_TYPE where
  "example_buffer = \<lparr>ulMaxElements = 1, ulWrite = 0, ulRead = 0,
     pxEventBuffer = Some [evb_cell E_SEND_NEXT_BYTE]\<rparr>"

definition example_fresh_log :: "nat SMBUS_PROFILE_TYPE" where
  "example_fresh_log = the (the (vLogInitialize (Some example_profile)))"

theorem smbus_create_event_witness:
  "\<exists>b' p' w'. vSMBusCreateEvent (Some \<lparr>ucThisInstanceNumber = 2, ucTriggerFSM = 0,
        xEventSourceCircularBuffer = example_buffer\<rparr>) E_TARGET_DONE_IRQ (Some example_fresh_log) 5
      = Some (Some \<lparr>ucThisInstanceNumber = 2, ucTriggerFSM = 0, xEventSourceCircularBuffer = b'\<rparr>,
          Some p', w')
    \<and> evb_events b' = [E_SEND_NEXT_BYTE] \<and> w' = 6
    \<and> log_rep [\<lparr>ulIsOccupied = SMBUS_LOG_IS_OCCUPIED, ulTicks = 5, ulEntry1 = 4, ulInstance = 2,
         ulEntry2 = 91, xEvent = Some SMBUS_LOG_EVENT_ERROR\<rparr>] p'"
proof -
  have log: "log_rep [] example_fresh_log" "xLogLevel example_fresh_log = SMBUS_LOG_LEVEL_DEBUG"
    "read_ticks example_fresh_log 5 = (5, 6)"
    using log_init_ok[of example_profile]
    by (auto simp: example_fresh_log_def example_profile_def read_ticks_def)
  have rep: "evb_rep [E_SEND_NEXT_BYTE] example_buffer"
    unfolding evb_rep_def example_buffer_def by (intro exI[of _ "[evb_cell E_SEND_NEXT_BYTE]"] exI[of _ "[]"]) simp
  note ev = evb_rep_events[OF rep]
  have cap: "evb_cap example_buffer = 1" by (simp add: evb_cap_def example_buffer_def)
  have inv: "evb_inv example_buffer" using rep evb_inv_iff by blast
  show ?thesis
    using smbus_create_event[of "\<lparr>ucThisInstanceNumber = 2, ucTriggerFSM = 0,
        xEventSourceCircularBuffer = example_buffer\<rparr>" "[]" example_fresh_log 5 5 6 E_TARGET_DONE_IRQ]
      log ev cap inv by (auto simp: E_TARGET_DONE_IRQ_def)
qed

text \<open>
  The names given to the event codes in the log are pairwise different, and none of them
  is the name given to an unknown code.
\<close>

theorem smbus_event_names_distinct:
  "distinct (map (\<lambda>n. pcEventToString (of_nat n)) [0..<39]) \<and>
   pcEventToString 0 = ''UNKNOWN''"
  by (simp add: pcEventToString_def smbus_event_codes upt_rec)

text \<open>
  The log line that reports a dropped event does not tell which one when its code is 15
  or more: it names neither the event (the line number stands in its place) nor, since the
  code is shown as a state, anything but an unknown state.
\<close>

theorem smbus_drop_report_unknown:
  assumes "15 \<le> ev"
  shows "format_entry k \<lparr>ulIsOccupied = SMBUS_LOG_IS_OCCUPIED, ulTicks = t,
      ulEntry1 = ucast (ev :: u8), ulInstance = n, ulEntry2 = 91, xEvent = Some SMBUS_LOG_EVENT_ERROR\<rparr>
    = line_prefix k \<lparr>ulIsOccupied = SMBUS_LOG_IS_OCCUPIED, ulTicks = t, ulEntry1 = 0, ulInstance = n,
        ulEntry2 = 0, xEvent = Some SMBUS_LOG_EVENT_ERROR\<rparr> @ ''SMBUS_STATE_UNKNOWN UNKNOWN'' @ crlf"
proof -
  have "ev \<noteq> state_value s" for s using assms by (cases s) (auto simp: word_le_nat_alt)
  then have "pcStateToString ev = ''SMBUS_STATE_UNKNOWN''" by (simp only: pcStateToString_def if_False)
  moreover have "pcEventToString 91 = ''UNKNOWN''" by (simp add: pcEventToString_def smbus_event_codes)
  moreover have "ucast (ucast ev :: u32) = ev" by (rule bit_word_eqI) (simp add: bit_simps)
  ultimately show ?thesis by (simp add: format_entry_def line_prefix_def)
qed

theorem smbus_drop_report_unknown_witness:
  "format_entry 0 \<lparr>ulIsOccupied = SMBUS_LOG_IS_OCCUPIED, ulTicks = 1,
      ulEntry1 = ucast E_SEND_NEXT_BYTE, ulInstance = 2, ulEntry2 = 91, xEvent = Some SMBUS_LOG_EVENT_ERROR\<rparr>
    = line_prefix 0 \<lparr>ulIsOccupied = SMBUS_LOG_IS_OCCUPIED, ulTicks = 1, ulEntry1 = 0, ulInstance = 2,
        ulEntry2 = 0, xEvent = Some SMBUS_LOG_EVENT_ERROR\<rparr> @ ''SMBUS_STATE_UNKNOWN UNKNOWN'' @ crlf"
  by (rule smbus_drop_report_unknown) (simp add: E_SEND_NEXT_BYTE_def)

end
