(* ===== verification/Buffers.thy ===== *)
theory Buffers
  imports Prelude
begin

text \<open>
  Byte buffers as the C code accesses them: a pointer into a buffer is the list of the bytes
  from it to the end of the buffer, and every access is checked, so that \<^term>\<open>None\<close> is an
  access outside.
\<close>

definition rd8 :: "u8 list \<Rightarrow> nat \<Rightarrow> u8 option" where
  "rd8 b i = (if i < length b then Some (b ! i) else None)"

definition wr8 :: "nat \<Rightarrow> u8 \<Rightarrow> u8 list \<Rightarrow> u8 list option" where
  "wr8 i v b = (if i < length b then Some (b[i := v]) else None)"

definition rd_bytes :: "u8 list \<Rightarrow> nat \<Rightarrow> nat \<Rightarrow> u8 list option" where
  "rd_bytes b i n = (if i + n \<le> length b then Some (take n (drop i b)) else None)"

definition wr_bytes :: "nat \<Rightarrow> u8 list \<Rightarrow> u8 list \<Rightarrow> u8 list option" where
  "wr_bytes i vs b =
     (if i + length vs \<le> length b then Some (take i b @ vs @ drop (i + length vs) b) else None)"

section \<open>Reads and writes\<close>

lemma rd8_some [simp]: "i < length b \<Longrightarrow> rd8 b i = Some (b ! i)"
  by (simp add: rd8_def)

lemma wr8_some [simp]: "i < length b \<Longrightarrow> wr8 i v b = Some (b[i := v])"
  by (simp add: wr8_def)

lemma wr8_eq: "wr8 i v b = Some b' \<longleftrightarrow> i < length b \<and> b' = b[i := v]"
  by (auto simp: wr8_def)

lemma wr_bytes_length: "wr_bytes i vs b = Some b' \<Longrightarrow> length b' = length b"
  by (auto simp: wr_bytes_def split: if_splits)

lemma wr8_length: "wr8 i v b = Some b' \<Longrightarrow> length b' = length b"
  by (auto simp: wr8_def split: if_splits)

text \<open>Accesses to a buffer written as a concatenation of fields.\<close>

lemma rd_bytes_append [simp]: "length xs \<le> i \<Longrightarrow> rd_bytes (xs @ ys) i n = rd_bytes ys (i - length xs) n"
  by (auto simp: rd_bytes_def)

lemma rd_bytes_Cons [simp]: "0 < i \<Longrightarrow> rd_bytes (x # ys) i n = rd_bytes ys (i - 1) n"
  by (cases i) (auto simp: rd_bytes_def)

lemma rd_bytes_prefix [simp]: "length xs = n \<Longrightarrow> rd_bytes (xs @ ys) 0 n = Some xs"
  by (auto simp: rd_bytes_def)

lemma rd_bytes_all [simp]: "length xs = n \<Longrightarrow> rd_bytes xs 0 n = Some xs"
  by (auto simp: rd_bytes_def)

lemma rd8_append [simp]: "length xs \<le> i \<Longrightarrow> rd8 (xs @ ys) i = rd8 ys (i - length xs)"
  by (auto simp: rd8_def nth_append)

lemma rd8_Cons [simp]: "0 < i \<Longrightarrow> rd8 (x # ys) i = rd8 ys (i - 1)"
  by (auto simp: rd8_def nth_Cons')

lemma wr_bytes_start [simp]:
  "length vs \<le> length b \<Longrightarrow> wr_bytes 0 vs b = Some (vs @ drop (length vs) b)"
  by (simp add: wr_bytes_def)

lemma wr_bytes_append [simp]:
  "length xs \<le> i \<Longrightarrow> wr_bytes i vs (xs @ ys) = map_option ((@) xs) (wr_bytes (i - length xs) vs ys)"
  by (auto simp: wr_bytes_def)

lemma wr_bytes_Cons [simp]:
  "0 < i \<Longrightarrow> wr_bytes i vs (x # ys) = map_option ((#) x) (wr_bytes (i - 1) vs ys)"
  by (cases i) (auto simp: wr_bytes_def)

lemma wr8_Cons [simp]:
  "0 < i \<Longrightarrow> wr8 i v (x # ys) = map_option ((#) x) (wr8 (i - 1) v ys)"
  by (cases i) (auto simp: wr8_def)

lemma wr8_append [simp]:
  "length xs \<le> i \<Longrightarrow> wr8 i v (xs @ ys) = map_option ((@) xs) (wr8 (i - length xs) v ys)"
  by (auto simp: wr8_def list_update_append)

lemma wr8_drop: "k < length b \<Longrightarrow> wr8 0 v (drop k b) = Some (v # drop (k + 1) b)"
  by (simp add: wr8_def Cons_nth_drop_Suc[symmetric])

end
