(* ===== verification/SmbusDriverState.thy ===== *)
theory SmbusDriverState
  imports SmbusEvents Buffers
begin

text \<open>
  The state of the SMBus driver (smbus_internal.h): the profile with its eight instances,
  extending the records of the log and of the event buffers, together with the world \<open>'w\<close>
  around it. The world holds the hardware and the application: \<open>in32\<close> and \<open>out32\<close> are the two
  volatile accesses to an address (the IP behind them is not in the repository), the
  function pointers of an instance are functions of the world. An instance is named by its
  index in the profile; the back pointer \<open>pxSMBusProfile\<close>, which every instance has, is not
  represented, nor are the NULL tests of internal functions whose callers pass the address of
  an element of that array. Callbacks do not call back into the driver.
\<close>

section \<open>Enumerations and constants\<close>

datatype SMBus_Freq_Class_Type =
  SMBUS_FREQ_100KHZ | SMBUS_FREQ_400KHZ | SMBUS_FREQ_1MHZ | SMBUS_FREQ_MAX

datatype SMBus_Error_Type = SMBUS_SUCCESS | SMBUS_ERROR

primrec error_value :: "SMBus_Error_Type \<Rightarrow> u32" where
  "error_value SMBUS_SUCCESS = 0"
| "error_value SMBUS_ERROR = 1"

datatype SMBus_ARP_Capability =
    SMBUS_ARP_CAPABILITY_UNKNOWN
  | SMBUS_ARP_CAPABLE
  | SMBUS_ARP_FIXED_AND_DISCOVERABLE
  | SMBUS_ARP_FIXED_NOT_DISCOVERABLE
  | SMBUS_ARP_NON_ARP_CAPABLE

primrec arp_value :: "SMBus_ARP_Capability \<Rightarrow> u32" where
  "arp_value SMBUS_ARP_CAPABILITY_UNKNOWN = 0"
| "arp_value SMBUS_ARP_CAPABLE = 1"
| "arp_value SMBUS_ARP_FIXED_AND_DISCOVERABLE = 2"
| "arp_value SMBUS_ARP_FIXED_NOT_DISCOVERABLE = 3"
| "arp_value SMBUS_ARP_NON_ARP_CAPABLE = 4"

definition SMBUS_DATA_SIZE_MAX :: nat where "SMBUS_DATA_SIZE_MAX = 256"
definition SMBUS_UDID_LENGTH :: nat where "SMBUS_UDID_LENGTH = 16"
definition SMBUS_NUMBER_OF_SMBUS_INSTANCES :: nat where "SMBUS_NUMBER_OF_SMBUS_INSTANCES = 8"
definition SMBUS_NUMBER_OF_SMBUS_NON_ARP_INSTANCES :: nat where
  "SMBUS_NUMBER_OF_SMBUS_NON_ARP_INSTANCES = 7"
definition SMBUS_INVALID_INSTANCE :: u8 where "SMBUS_INVALID_INSTANCE = 99"
definition SMBUS_MAX_EVENT_ELEMENTS :: u32 where "SMBUS_MAX_EVENT_ELEMENTS = 300"

lemmas smbus_sizes = SMBUS_DATA_SIZE_MAX_def SMBUS_UDID_LENGTH_def
  SMBUS_NUMBER_OF_SMBUS_INSTANCES_def SMBUS_NUMBER_OF_SMBUS_NON_ARP_INSTANCES_def

definition SMBUS_DEVICE_DEFAULT_ARP_ADDRESS :: u8 where "SMBUS_DEVICE_DEFAULT_ARP_ADDRESS = 0x61"
definition SMBUS_NOTIFY_ARP_MASTER_ADDRESS :: u8 where "SMBUS_NOTIFY_ARP_MASTER_ADDRESS = 0x10"
definition SMBUS_INVALID_ADDRESS_MASK :: u8 where "SMBUS_INVALID_ADDRESS_MASK = 0x80"
definition SMBUS_ARP_INSTANCE_ID :: nat where "SMBUS_ARP_INSTANCE_ID = 7"
definition SMBUS_LAST_SMBUS_INSTANCE :: u8 where "SMBUS_LAST_SMBUS_INSTANCE = 7"
definition SMBUS_LAST_NON_ARP_SMBUS_INSTANCE :: u8 where
  "SMBUS_LAST_NON_ARP_SMBUS_INSTANCE = SMBUS_LAST_SMBUS_INSTANCE - 1"
definition SMBUS_INSTANCE_UNDETERMINED :: u32 where "SMBUS_INSTANCE_UNDETERMINED = 88"
definition SMBUS_UDID_ASSIGNED_ADDRESS_BYTE :: nat where "SMBUS_UDID_ASSIGNED_ADDRESS_BYTE = 17"
definition SMBUS_UDID_ASSIGNED_ADDRESS_BIT0 :: u8 where "SMBUS_UDID_ASSIGNED_ADDRESS_BIT0 = 0x01"
definition SMBUS_GET_UDID_DATA_LENGTH :: u8 where "SMBUS_GET_UDID_DATA_LENGTH = 17"
definition SMBUS_GET_UDID_MSG_LENGTH :: u16 where "SMBUS_GET_UDID_MSG_LENGTH = 18"
definition SMBUS_UDID_DEVICE_CAPABILITIES_BYTE :: nat where "SMBUS_UDID_DEVICE_CAPABILITIES_BYTE = 15"
definition SMBUS_UDID_DTA_AV_FLAG_CLEAR :: u8 where "SMBUS_UDID_DTA_AV_FLAG_CLEAR = 0xFF"
definition SMBUS_UDID_DTA_BIT_0_SET :: u8 where "SMBUS_UDID_DTA_BIT_0_SET = 0x01"
definition SMBUS_UDID_ADDRESS_TYPE_MASK :: u8 where "SMBUS_UDID_ADDRESS_TYPE_MASK = 0xC0"
definition SMBUS_UDID_FIXED_ADDRESS :: u8 where "SMBUS_UDID_FIXED_ADDRESS = 0x00"
definition SMBUS_UDID_DYNAMIC_AND_PERSISTENT :: u8 where "SMBUS_UDID_DYNAMIC_AND_PERSISTENT = 0x40"
definition SMBUS_FIREWALL1 :: u32 where "SMBUS_FIREWALL1 = 0xF15E2112"
definition SMBUS_FIREWALL2 :: u32 where "SMBUS_FIREWALL2 = 0xAC1DBA78"
definition SMBUS_FIREWALL3 :: u32 where "SMBUS_FIREWALL3 = 0x1CE1CE99"
definition SMBUS_UDID_PEC_SUPPORTED_BIT :: u8 where "SMBUS_UDID_PEC_SUPPORTED_BIT = 0x01"
definition SMBUS_RX_FIFO_IS_EMPTY :: u32 where "SMBUS_RX_FIFO_IS_EMPTY = 1"
definition SMBUS_DESC_FIFO_IS_FULL :: u32 where "SMBUS_DESC_FIFO_IS_FULL = 1"
definition SMBUS_COMMAND_INVALID :: u8 where "SMBUS_COMMAND_INVALID = 66"
definition SMBUS_FIFO_DEPTH :: nat where "SMBUS_FIFO_DEPTH = 64"
definition SMBUS_HALF_FIFO_DEPTH :: u8 where "SMBUS_HALF_FIFO_DEPTH = 32"
definition SMBUS_FIFO_SPACE_FOR_TWO_BYTES :: u32 where "SMBUS_FIFO_SPACE_FOR_TWO_BYTES = 62"
definition SMBUS_FIFO_FILL_TRIGGER :: u8 where "SMBUS_FIFO_FILL_TRIGGER = 20"
definition SMBUS_CONTROL_ENABLE :: u32 where "SMBUS_CONTROL_ENABLE = 1"
definition SMBUS_MAX_FIFO_EMPTY_WHILE_IN_DONE :: u8 where "SMBUS_MAX_FIFO_EMPTY_WHILE_IN_DONE = 10"
definition SMBUS_SMBCLK_LOW_TIMEOUT_DETECTED :: u32 where "SMBUS_SMBCLK_LOW_TIMEOUT_DETECTED = 1"
definition SMBUS_SMBDAT_LOW_TIMEOUT_DETECTED :: u32 where "SMBUS_SMBDAT_LOW_TIMEOUT_DETECTED = 1"
definition SMBUS_UNEXPECTED_READ_DESCRIPTOR_DATA :: u8 where
  "SMBUS_UNEXPECTED_READ_DESCRIPTOR_DATA = 0xFF"

section \<open>Instances and profile\<close>

text \<open>
  The fields of \<open>SMBUS_INSTANCE_TYPE\<close> that the generators do not touch, in three groups: the
  callbacks, the data of the transaction under way, and the identity and state of the instance.
\<close>

record 'w SMBUS_INSTANCE_CALLS = SMBUS_INSTANCE_TYPE +
  pFnGetProtocol :: "(u8 \<Rightarrow> 'w \<Rightarrow> SMBus_Command_Protocol_Type \<times> 'w) option"
  pFnGetData :: "(u8 \<Rightarrow> 'w \<Rightarrow> (u8 list \<times> u16) \<times> 'w) option"
  pFnWriteData :: "(u8 \<Rightarrow> u8 list \<Rightarrow> u16 \<Rightarrow> u32 \<Rightarrow> 'w \<Rightarrow> 'w) option"
  pFnAnnounceResult :: "(u8 \<Rightarrow> u32 \<Rightarrow> u32 \<Rightarrow> 'w \<Rightarrow> 'w) option"
  pFnArpAddressChange :: "(u8 \<Rightarrow> 'w \<Rightarrow> 'w) option"
  pFnBusError :: "(u8 \<Rightarrow> 'w \<Rightarrow> 'w) option"
  pFnBusWarning :: "(u8 \<Rightarrow> 'w \<Rightarrow> 'w) option"
  pFnI2CGetData :: "('w \<Rightarrow> (u8 list \<times> u16) \<times> 'w) option"
  pFnI2CWriteData :: "(u8 list \<Rightarrow> u16 \<Rightarrow> 'w \<Rightarrow> 'w) option"
  pFnI2CAnnounceResult :: "(u32 \<Rightarrow> 'w \<Rightarrow> 'w) option"

record 'w SMBUS_INSTANCE_DATA = "'w SMBUS_INSTANCE_CALLS" +
  ulI2CTransaction :: u32
  ulAction :: u32
  usSendDataSize :: u16
  usSendIndex :: u16
  usReceiveIndex :: u16
  usDescriptorsSent :: u16
  ucSendData :: "u8 list"
  ucReceivedData :: "u8 list"
  ucEvent :: u8
  ucCommand :: u8
  ucExpectedByteCountPart :: u8
  usExpectedByteCount :: u16
  ucSMBusDestinationAddress :: u8
  ucSMBusSenderAddress :: u8
  ucPecRequiredForTransaction :: u8
  ucNewDeviceSlaveAddress :: u8
  ucUDIDMatchedInstance :: u8
  ucMatchedSMBusAddress :: u8
  ucNackSent :: u8
  ucPECSent :: u8
  ucFifoEmptyWhileInDoneCount :: u8

record 'w SMBUS_INSTANCE = "'w SMBUS_INSTANCE_DATA" +
  ulFirewall1 :: u32
  ulFirewall2 :: u32
  ulFirewall3 :: u32
  ulI2CDevice :: u32
  ulMessagesComplete :: "u32 list"
  ulMessagesInitiated :: "u32 list"
  ucUDID :: "u8 list"
  ucInstanceInUse :: u8
  ucSMBusAddress :: u8
  ucPECRequired :: u8
  ucSimpleDevice :: u8
  ucARFlag :: u8
  ucAVFlag :: u8
  xPreviousState :: SMBus_State_Type
  xState :: SMBus_State_Type
  xProtocol :: SMBus_Command_Protocol_Type
  xARPCapability :: SMBus_ARP_Capability

record 'w SMBUS_PROFILE = "'w SMBUS_PROFILE_TYPE" +
  pvBaseAddress :: u64
  ulTransactionID :: u32
  ulInitialize :: u32
  xSMBusInstance :: "'w SMBUS_INSTANCE list"
  ucInstanceInPlay :: u8
  ucActiveTargetInstance :: u8
  ucUDIDMatch :: "u8 list"

record 'w smbus = "'w SMBUS_PROFILE" +
  in32 :: "u64 \<Rightarrow> 'w \<Rightarrow> u32 \<times> 'w"
  out32 :: "u64 \<Rightarrow> u32 \<Rightarrow> 'w \<Rightarrow> 'w"
  world :: 'w

abbreviation inst :: "'w smbus \<Rightarrow> nat \<Rightarrow> 'w SMBUS_INSTANCE" where
  "inst s i \<equiv> xSMBusInstance s ! i"

definition upd :: "nat \<Rightarrow> ('w SMBUS_INSTANCE \<Rightarrow> 'w SMBUS_INSTANCE) \<Rightarrow> 'w smbus \<Rightarrow> 'w smbus" where
  "upd i f s = s\<lparr>xSMBusInstance := (xSMBusInstance s)[i := f (inst s i)]\<rparr>"

text \<open>The instance an index taken from data denotes; \<^term>\<open>None\<close> past the array.\<close>

definition at_index :: "u8 \<Rightarrow> 'w smbus \<Rightarrow> nat option" where
  "at_index k s = (if unat k < length (xSMBusInstance s) then Some (unat k) else None)"

definition counter_incr :: "SMBus_Command_Protocol_Type \<Rightarrow> u32 list \<Rightarrow> u32 list option" where
  "counter_incr p cs =
     (let k = unat (protocol_value p)
      in if k < length cs then Some (cs[k := cs ! k + 1]) else None)"

section \<open>Log entries and events\<close>

definition add_log ::
  "SMBUS_LOG_LEVEL_TYPE \<Rightarrow> u32 \<Rightarrow> SMBUS_LOG_EVENT_TYPE \<Rightarrow> u32 \<Rightarrow> u32 \<Rightarrow> 'w smbus \<Rightarrow> 'w smbus option" where
  "add_log level n ev e1 e2 s =
     (case vLogAddEntry (Some s) level n ev e1 e2 (world s) of
        Some (Some s', w) \<Rightarrow> Some (s'\<lparr>world := w\<rparr>)
      | _ \<Rightarrow> None)"

text \<open>The two entries the state machine writes on behalf of an instance.\<close>

definition log_debug :: "nat \<Rightarrow> u32 \<Rightarrow> u32 \<Rightarrow> 'w smbus \<Rightarrow> 'w smbus option" where
  "log_debug i e1 line s = add_log SMBUS_LOG_LEVEL_DEBUG (ucast (ucThisInstanceNumber (inst s i)))
     SMBUS_LOG_EVENT_DEBUG e1 line s"

definition log_failed :: "nat \<Rightarrow> u32 \<Rightarrow> 'w smbus \<Rightarrow> 'w smbus option" where
  "log_failed i line s = add_log SMBUS_LOG_LEVEL_ERROR (ucast (ucThisInstanceNumber (inst s i)))
     SMBUS_LOG_EVENT_ERROR 0 line s"

text \<open>A generator of smbus_event.c applied to an instance of the profile.\<close>

definition raise_event ::
  "('w SMBUS_INSTANCE option \<Rightarrow> 'w smbus option \<Rightarrow> 'w \<Rightarrow> ('w SMBUS_INSTANCE option \<times> 'w smbus option \<times> 'w) option)
   \<Rightarrow> nat \<Rightarrow> 'w smbus \<Rightarrow> 'w smbus option" where
  "raise_event gen i s =
     (case gen (Some (inst s i)) (Some s) (world s) of
        Some (Some x, Some s', w) \<Rightarrow> Some (upd i (\<lambda>_. x) (s'\<lparr>world := w\<rparr>))
      | _ \<Rightarrow> None)"

end
