(* ===== verification/SmbusRegisters.thy ===== *)
theory SmbusRegisters
  imports Prelude
begin

text \<open>
  The register map of the SMBus IP (smbus_hardware.h): the byte offsets of the registers, the
  masks and the positions of their fields, those the driver uses.
\<close>

section \<open>Offsets\<close>

definition SMBUS_REG_IP_VERSION :: u32 where "SMBUS_REG_IP_VERSION = 0x0000"
definition SMBUS_REG_IP_REVISION :: u32 where "SMBUS_REG_IP_REVISION = 0x0004"
definition SMBUS_REG_IP_MAGIC_NUM :: u32 where "SMBUS_REG_IP_MAGIC_NUM = 0x0008"
definition SMBUS_REG_IP_BUILD_CONFIG_0 :: u32 where "SMBUS_REG_IP_BUILD_CONFIG_0 = 0x000C"
definition SMBUS_REG_IP_BUILD_CONFIG_1 :: u32 where "SMBUS_REG_IP_BUILD_CONFIG_1 = 0x0010"
definition SMBUS_REG_IRQ_GIE :: u32 where "SMBUS_REG_IRQ_GIE = 0x0020"
definition SMBUS_REG_IRQ_IER :: u32 where "SMBUS_REG_IRQ_IER = 0x0024"
definition SMBUS_REG_IRQ_ISR :: u32 where "SMBUS_REG_IRQ_ISR = 0x0028"
definition SMBUS_REG_ERR_IRQ_IER :: u32 where "SMBUS_REG_ERR_IRQ_IER = 0x002C"
definition SMBUS_REG_ERR_IRQ_ISR :: u32 where "SMBUS_REG_ERR_IRQ_ISR = 0x0030"
definition SMBUS_REG_PHY_STATUS :: u32 where "SMBUS_REG_PHY_STATUS = 0x0200"
definition SMBUS_REG_PHY_FILTER_CONTROL :: u32 where "SMBUS_REG_PHY_FILTER_CONTROL = 0x0204"
definition SMBUS_REG_PHY_BUS_FREE_TIME :: u32 where "SMBUS_REG_PHY_BUS_FREE_TIME = 0x0208"
definition SMBUS_REG_PHY_IDLE_THRESHOLD :: u32 where "SMBUS_REG_PHY_IDLE_THRESHOLD = 0x020C"
definition SMBUS_REG_PHY_TIMEOUT_PRESCALER :: u32 where "SMBUS_REG_PHY_TIMEOUT_PRESCALER = 0x0210"
definition SMBUS_REG_PHY_TIMEOUT_MIN :: u32 where "SMBUS_REG_PHY_TIMEOUT_MIN = 0x0214"
definition SMBUS_REG_PHY_TIMEOUT_MAX :: u32 where "SMBUS_REG_PHY_TIMEOUT_MAX = 0x0218"
definition SMBUS_REG_PHY_RESET_CONTROL :: u32 where "SMBUS_REG_PHY_RESET_CONTROL = 0x021C"
definition SMBUS_REG_PHY_TGT_DATA_SETUP :: u32 where "SMBUS_REG_PHY_TGT_DATA_SETUP = 0x0400"
definition SMBUS_REG_PHY_TGT_TEXT_PRESCALER :: u32 where "SMBUS_REG_PHY_TGT_TEXT_PRESCALER = 0x0404"
definition SMBUS_REG_PHY_TGT_TEXT_TIMEOUT :: u32 where "SMBUS_REG_PHY_TGT_TEXT_TIMEOUT = 0x0408"
definition SMBUS_REG_PHY_TGT_TEXT_MAX :: u32 where "SMBUS_REG_PHY_TGT_TEXT_MAX = 0x040C"
definition SMBUS_REG_PHY_TGT_DBG_STATE :: u32 where "SMBUS_REG_PHY_TGT_DBG_STATE = 0x0410"
definition SMBUS_REG_PHY_TGT_DATA_HOLD :: u32 where "SMBUS_REG_PHY_TGT_DATA_HOLD = 0x0414"
definition SMBUS_REG_TGT_STATUS :: u32 where "SMBUS_REG_TGT_STATUS = 0x0600"
definition SMBUS_REG_TGT_DESC_STATUS :: u32 where "SMBUS_REG_TGT_DESC_STATUS = 0x0608"
definition SMBUS_REG_TGT_RX_FIFO :: u32 where "SMBUS_REG_TGT_RX_FIFO = 0x060C"
definition SMBUS_REG_TGT_RX_FIFO_STATUS :: u32 where "SMBUS_REG_TGT_RX_FIFO_STATUS = 0x0610"
definition SMBUS_REG_TGT_RX_FIFO_FILL_THRESHOLD :: u32 where "SMBUS_REG_TGT_RX_FIFO_FILL_THRESHOLD = 0x0614"
definition SMBUS_REG_TGT_DBG :: u32 where "SMBUS_REG_TGT_DBG = 0x0618"
definition SMBUS_REG_TGT_CONTROL_0 :: u32 where "SMBUS_REG_TGT_CONTROL_0 = 0x0620"
definition SMBUS_REG_TGT_CONTROL_1 :: u32 where "SMBUS_REG_TGT_CONTROL_1 = 0x0624"
definition SMBUS_REG_TGT_CONTROL_2 :: u32 where "SMBUS_REG_TGT_CONTROL_2 = 0x0628"
definition SMBUS_REG_TGT_CONTROL_3 :: u32 where "SMBUS_REG_TGT_CONTROL_3 = 0x062C"
definition SMBUS_REG_TGT_CONTROL_4 :: u32 where "SMBUS_REG_TGT_CONTROL_4 = 0x0630"
definition SMBUS_REG_TGT_CONTROL_5 :: u32 where "SMBUS_REG_TGT_CONTROL_5 = 0x0634"
definition SMBUS_REG_TGT_CONTROL_6 :: u32 where "SMBUS_REG_TGT_CONTROL_6 = 0x0638"
definition SMBUS_REG_TGT_CONTROL_7 :: u32 where "SMBUS_REG_TGT_CONTROL_7 = 0x063C"
definition SMBUS_REG_PHY_CTLR_DATA_HOLD :: u32 where "SMBUS_REG_PHY_CTLR_DATA_HOLD = 0x0800"
definition SMBUS_REG_PHY_CTLR_START_HOLD :: u32 where "SMBUS_REG_PHY_CTLR_START_HOLD = 0x0804"
definition SMBUS_REG_PHY_CTLR_START_SETUP :: u32 where "SMBUS_REG_PHY_CTLR_START_SETUP = 0x0808"
definition SMBUS_REG_PHY_CTLR_STOP_SETUP :: u32 where "SMBUS_REG_PHY_CTLR_STOP_SETUP = 0x080C"
definition SMBUS_REG_PHY_CTLR_CLK_TLOW :: u32 where "SMBUS_REG_PHY_CTLR_CLK_TLOW = 0x0810"
definition SMBUS_REG_PHY_CTLR_CLK_THIGH :: u32 where "SMBUS_REG_PHY_CTLR_CLK_THIGH = 0x0814"
definition SMBUS_REG_PHY_CTLR_TEXT_PRESCALER :: u32 where "SMBUS_REG_PHY_CTLR_TEXT_PRESCALER = 0x0818"
definition SMBUS_REG_PHY_CTLR_TEXT_TIMEOUT :: u32 where "SMBUS_REG_PHY_CTLR_TEXT_TIMEOUT = 0x081C"
definition SMBUS_REG_PHY_CTLR_TEXT_MAX :: u32 where "SMBUS_REG_PHY_CTLR_TEXT_MAX = 0x0820"
definition SMBUS_REG_PHY_CTLR_CEXT_PRESCALER :: u32 where "SMBUS_REG_PHY_CTLR_CEXT_PRESCALER = 0x0824"
definition SMBUS_REG_PHY_CTLR_CEXT_TIMEOUT :: u32 where "SMBUS_REG_PHY_CTLR_CEXT_TIMEOUT = 0x0828"
definition SMBUS_REG_PHY_CTLR_CEXT_MAX :: u32 where "SMBUS_REG_PHY_CTLR_CEXT_MAX = 0x082C"
definition SMBUS_REG_PHY_CTLR_DBG_STATE :: u32 where "SMBUS_REG_PHY_CTLR_DBG_STATE = 0x0830"
definition SMBUS_REG_CTLR_STATUS :: u32 where "SMBUS_REG_CTLR_STATUS = 0x0A04"
definition SMBUS_REG_CTLR_DESC_STATUS :: u32 where "SMBUS_REG_CTLR_DESC_STATUS = 0x0A0C"
definition SMBUS_REG_CTLR_RX_FIFO :: u32 where "SMBUS_REG_CTLR_RX_FIFO = 0x0A10"
definition SMBUS_REG_CTLR_RX_FIFO_STATUS :: u32 where "SMBUS_REG_CTLR_RX_FIFO_STATUS = 0x0A14"
definition SMBUS_REG_CTLR_RX_FIFO_FILL_THRESHOLD :: u32 where "SMBUS_REG_CTLR_RX_FIFO_FILL_THRESHOLD = 0x0A18"
definition SMBUS_REG_CTLR_DBG :: u32 where "SMBUS_REG_CTLR_DBG = 0x0A1C"
definition SMBUS_REG_TGT_DESC_FIFO :: u32 where "SMBUS_REG_TGT_DESC_FIFO = 0x0604"
definition SMBUS_REG_CTLR_CONTROL :: u32 where "SMBUS_REG_CTLR_CONTROL = 0x0A00"
definition SMBUS_REG_CTLR_DESC_FIFO :: u32 where "SMBUS_REG_CTLR_DESC_FIFO = 0x0A08"

section \<open>Masks\<close>

definition SMBUS_IRQ_GIE_ENABLE_MASK :: u32 where "SMBUS_IRQ_GIE_ENABLE_MASK = 0x00000001"
definition SMBUS_PHY_STATUS_SMBDAT_LOW_TIMEOUT_MASK :: u32 where "SMBUS_PHY_STATUS_SMBDAT_LOW_TIMEOUT_MASK = 0x00000004"
definition SMBUS_PHY_STATUS_SMBCLK_LOW_TIMEOUT_MASK :: u32 where "SMBUS_PHY_STATUS_SMBCLK_LOW_TIMEOUT_MASK = 0x00000002"
definition SMBUS_PHY_STATUS_BUS_IDLE_MASK :: u32 where "SMBUS_PHY_STATUS_BUS_IDLE_MASK = 0x00000001"
definition SMBUS_PHY_FILTER_CONTROL_ENABLE_MASK :: u32 where "SMBUS_PHY_FILTER_CONTROL_ENABLE_MASK = 0x80000000"
definition SMBUS_PHY_FILTER_CONTROL_DURATION_MASK :: u32 where "SMBUS_PHY_FILTER_CONTROL_DURATION_MASK = 0x0000001F"
definition SMBUS_PHY_IDLE_THRESHOLD_IDLE_THRESHOLD_MASK :: u32 where "SMBUS_PHY_IDLE_THRESHOLD_IDLE_THRESHOLD_MASK = 0x00007FFF"
definition SMBUS_PHY_TIMEOUT_MIN_TIMEOUT_ENABLE_MASK :: u32 where "SMBUS_PHY_TIMEOUT_MIN_TIMEOUT_ENABLE_MASK = 0x80000000"
definition SMBUS_PHY_TIMEOUT_MIN_TIMEOUT_MIN_MASK :: u32 where "SMBUS_PHY_TIMEOUT_MIN_TIMEOUT_MIN_MASK = 0x00000FFF"
definition SMBUS_PHY_RESET_CONTROL_SMBCLK_FORCE_LOW_MASK :: u32 where "SMBUS_PHY_RESET_CONTROL_SMBCLK_FORCE_LOW_MASK = 0x00000FFF"
definition SMBUS_PHY_TGT_DATA_SETUP_TGT_DATA_SETUP_MASK :: u32 where "SMBUS_PHY_TGT_DATA_SETUP_TGT_DATA_SETUP_MASK = 0x000003FF"
definition SMBUS_PHY_TGT_TEXT_PRESCALER_TGT_TEXT_PRESCALER_MASK :: u32 where "SMBUS_PHY_TGT_TEXT_PRESCALER_TGT_TEXT_PRESCALER_MASK = 0x000001FF"
definition SMBUS_PHY_TGT_TEXT_TIMEOUT_TGT_TEXT_TIMEOUT_MASK :: u32 where "SMBUS_PHY_TGT_TEXT_TIMEOUT_TGT_TEXT_TIMEOUT_MASK = 0x00007FFF"
definition SMBUS_PHY_TGT_TEXT_MAX_TGT_TEXT_MAX_MASK :: u32 where "SMBUS_PHY_TGT_TEXT_MAX_TGT_TEXT_MAX_MASK = 0x00007FFF"
definition SMBUS_PHY_TGT_DBG_STATE_DBG_STATE_MASK :: u32 where "SMBUS_PHY_TGT_DBG_STATE_DBG_STATE_MASK = 0x000000FF"
definition SMBUS_PHY_TGT_DATA_HOLD_DATA_HOLD_MASK :: u32 where "SMBUS_PHY_TGT_DATA_HOLD_DATA_HOLD_MASK = 0x000003FF"
definition SMBUS_TGT_STATUS_ACTIVE_MASK :: u32 where "SMBUS_TGT_STATUS_ACTIVE_MASK = 0x00000100"
definition SMBUS_TGT_STATUS_ADDRESS_MASK :: u32 where "SMBUS_TGT_STATUS_ADDRESS_MASK = 0x000000FE"
definition SMBUS_TGT_STATUS_RW_MASK :: u32 where "SMBUS_TGT_STATUS_RW_MASK = 0x00000001"
definition SMBUS_TGT_DESC_STATUS_FILL_LEVEL_MASK :: u32 where "SMBUS_TGT_DESC_STATUS_FILL_LEVEL_MASK = 0x00007F00"
definition SMBUS_TGT_DESC_STATUS_FULL_MASK :: u32 where "SMBUS_TGT_DESC_STATUS_FULL_MASK = 0x00000020"
definition SMBUS_TGT_DESC_STATUS_ALMOST_FULL_MASK :: u32 where "SMBUS_TGT_DESC_STATUS_ALMOST_FULL_MASK = 0x00000010"
definition SMBUS_TGT_DESC_STATUS_ALMOST_EMPTY_MASK :: u32 where "SMBUS_TGT_DESC_STATUS_ALMOST_EMPTY_MASK = 0x00000002"
definition SMBUS_TGT_DESC_STATUS_EMPTY_MASK :: u32 where "SMBUS_TGT_DESC_STATUS_EMPTY_MASK = 0x00000001"
definition SMBUS_TGT_RX_FIFO_PAYLOAD_MASK :: u32 where "SMBUS_TGT_RX_FIFO_PAYLOAD_MASK = 0x000000FF"
definition SMBUS_TGT_RX_FIFO_STATUS_FILL_LEVEL_MASK :: u32 where "SMBUS_TGT_RX_FIFO_STATUS_FILL_LEVEL_MASK = 0x00007F00"
definition SMBUS_TGT_RX_FIFO_STATUS_RESET_BUSY_MASK :: u32 where "SMBUS_TGT_RX_FIFO_STATUS_RESET_BUSY_MASK = 0x00000040"
definition SMBUS_TGT_RX_FIFO_STATUS_FULL_MASK :: u32 where "SMBUS_TGT_RX_FIFO_STATUS_FULL_MASK = 0x00000020"
definition SMBUS_TGT_RX_FIFO_STATUS_ALMOST_FULL_MASK :: u32 where "SMBUS_TGT_RX_FIFO_STATUS_ALMOST_FULL_MASK = 0x00000010"
definition SMBUS_TGT_RX_FIFO_STATUS_ALMOST_EMPTY_MASK :: u32 where "SMBUS_TGT_RX_FIFO_STATUS_ALMOST_EMPTY_MASK = 0x00000002"
definition SMBUS_TGT_RX_FIFO_STATUS_EMPTY_MASK :: u32 where "SMBUS_TGT_RX_FIFO_STATUS_EMPTY_MASK = 0x00000001"
definition SMBUS_TGT_RX_FIFO_FILL_THRESHOLD_FILL_THRESHOLD_MASK :: u32 where "SMBUS_TGT_RX_FIFO_FILL_THRESHOLD_FILL_THRESHOLD_MASK = 0x0000007F"
definition SMBUS_TGT_DBG_DBG_STATE_MASK :: u32 where "SMBUS_TGT_DBG_DBG_STATE_MASK = 0x0000007F"
definition SMBUS_TGT_CONTROL_0_ENABLE_MASK :: u32 where "SMBUS_TGT_CONTROL_0_ENABLE_MASK = 0x80000000"
definition SMBUS_TGT_CONTROL_0_ADDRESS_MASK :: u32 where "SMBUS_TGT_CONTROL_0_ADDRESS_MASK = 0x000000FE"
definition SMBUS_TGT_CONTROL_1_ENABLE_MASK :: u32 where "SMBUS_TGT_CONTROL_1_ENABLE_MASK = 0x80000000"
definition SMBUS_TGT_CONTROL_1_ADDRESS_MASK :: u32 where "SMBUS_TGT_CONTROL_1_ADDRESS_MASK = 0x000000FE"
definition SMBUS_TGT_CONTROL_2_ENABLE_MASK :: u32 where "SMBUS_TGT_CONTROL_2_ENABLE_MASK = 0x80000000"
definition SMBUS_TGT_CONTROL_2_ADDRESS_MASK :: u32 where "SMBUS_TGT_CONTROL_2_ADDRESS_MASK = 0x000000FE"
definition SMBUS_TGT_CONTROL_3_ENABLE_MASK :: u32 where "SMBUS_TGT_CONTROL_3_ENABLE_MASK = 0x80000000"
definition SMBUS_TGT_CONTROL_3_ADDRESS_MASK :: u32 where "SMBUS_TGT_CONTROL_3_ADDRESS_MASK = 0x000000FE"
definition SMBUS_TGT_CONTROL_4_ENABLE_MASK :: u32 where "SMBUS_TGT_CONTROL_4_ENABLE_MASK = 0x80000000"
definition SMBUS_TGT_CONTROL_4_ADDRESS_MASK :: u32 where "SMBUS_TGT_CONTROL_4_ADDRESS_MASK = 0x000000FE"
definition SMBUS_TGT_CONTROL_5_ENABLE_MASK :: u32 where "SMBUS_TGT_CONTROL_5_ENABLE_MASK = 0x80000000"
definition SMBUS_TGT_CONTROL_5_ADDRESS_MASK :: u32 where "SMBUS_TGT_CONTROL_5_ADDRESS_MASK = 0x000000FE"
definition SMBUS_TGT_CONTROL_6_ENABLE_MASK :: u32 where "SMBUS_TGT_CONTROL_6_ENABLE_MASK = 0x80000000"
definition SMBUS_TGT_CONTROL_6_ADDRESS_MASK :: u32 where "SMBUS_TGT_CONTROL_6_ADDRESS_MASK = 0x000000FE"
definition SMBUS_TGT_CONTROL_7_ENABLE_MASK :: u32 where "SMBUS_TGT_CONTROL_7_ENABLE_MASK = 0x80000000"
definition SMBUS_TGT_CONTROL_7_ADDRESS_MASK :: u32 where "SMBUS_TGT_CONTROL_7_ADDRESS_MASK = 0x000000FE"
definition SMBUS_PHY_CTLR_DATA_HOLD_CTLR_DATA_HOLD_MASK :: u32 where "SMBUS_PHY_CTLR_DATA_HOLD_CTLR_DATA_HOLD_MASK = 0x00007FFF"
definition SMBUS_PHY_CTLR_START_HOLD_CTLR_START_HOLD_MASK :: u32 where "SMBUS_PHY_CTLR_START_HOLD_CTLR_START_HOLD_MASK = 0x00007FFF"
definition SMBUS_PHY_CTLR_START_SETUP_CTLR_START_SETUP_MASK :: u32 where "SMBUS_PHY_CTLR_START_SETUP_CTLR_START_SETUP_MASK = 0x00007FFF"
definition SMBUS_PHY_CTLR_STOP_SETUP_CTLR_STOP_SETUP_MASK :: u32 where "SMBUS_PHY_CTLR_STOP_SETUP_CTLR_STOP_SETUP_MASK = 0x00007FFF"
definition SMBUS_PHY_CTLR_CLK_TLOW_CTLR_CLK_TLOW_MASK :: u32 where "SMBUS_PHY_CTLR_CLK_TLOW_CTLR_CLK_TLOW_MASK = 0x00007FFF"
definition SMBUS_PHY_CTLR_CLK_THIGH_CTLR_CLK_THIGH_MASK :: u32 where "SMBUS_PHY_CTLR_CLK_THIGH_CTLR_CLK_THIGH_MASK = 0x00007FFF"
definition SMBUS_PHY_CTLR_TEXT_PRESCALER_CTLR_TEXT_PRESCALER_MASK :: u32 where "SMBUS_PHY_CTLR_TEXT_PRESCALER_CTLR_TEXT_PRESCALER_MASK = 0x000001FF"
definition SMBUS_PHY_CTLR_TEXT_TIMEOUT_CTLR_TEXT_TIMEOUT_MASK :: u32 where "SMBUS_PHY_CTLR_TEXT_TIMEOUT_CTLR_TEXT_TIMEOUT_MASK = 0x00007FFF"
definition SMBUS_PHY_CTLR_TEXT_MAX_CTLR_TEXT_MAX_MASK :: u32 where "SMBUS_PHY_CTLR_TEXT_MAX_CTLR_TEXT_MAX_MASK = 0x00007FFF"
definition SMBUS_PHY_CTLR_CEXT_PRESCALER_CTLR_CEXT_PRESCALER_MASK :: u32 where "SMBUS_PHY_CTLR_CEXT_PRESCALER_CTLR_CEXT_PRESCALER_MASK = 0x000001FF"
definition SMBUS_PHY_CTLR_CEXT_TIMEOUT_CTLR_CEXT_TIMEOUT_MASK :: u32 where "SMBUS_PHY_CTLR_CEXT_TIMEOUT_CTLR_CEXT_TIMEOUT_MASK = 0x00003FFF"
definition SMBUS_PHY_CTLR_CEXT_MAX_CTLR_CEXT_MAX_MASK :: u32 where "SMBUS_PHY_CTLR_CEXT_MAX_CTLR_CEXT_MAX_MASK = 0x00003FFF"
definition SMBUS_PHY_CTLR_DBG_STATE_DBG_STATE_MASK :: u32 where "SMBUS_PHY_CTLR_DBG_STATE_DBG_STATE_MASK = 0x000000FF"
definition SMBUS_CTLR_STATUS_ENABLE_MASK :: u32 where "SMBUS_CTLR_STATUS_ENABLE_MASK = 0x00000001"
definition SMBUS_CTLR_DESC_STATUS_FILL_LEVEL_MASK :: u32 where "SMBUS_CTLR_DESC_STATUS_FILL_LEVEL_MASK = 0x00007F00"
definition SMBUS_CTLR_DESC_STATUS_RESET_BUSY_MASK :: u32 where "SMBUS_CTLR_DESC_STATUS_RESET_BUSY_MASK = 0x00000040"
definition SMBUS_CTLR_DESC_STATUS_FULL_MASK :: u32 where "SMBUS_CTLR_DESC_STATUS_FULL_MASK = 0x00000020"
definition SMBUS_CTLR_DESC_STATUS_ALMOST_FULL_MASK :: u32 where "SMBUS_CTLR_DESC_STATUS_ALMOST_FULL_MASK = 0x00000010"
definition SMBUS_CTLR_DESC_STATUS_ALMOST_EMPTY_MASK :: u32 where "SMBUS_CTLR_DESC_STATUS_ALMOST_EMPTY_MASK = 0x00000002"
definition SMBUS_CTLR_DESC_STATUS_EMPTY_MASK :: u32 where "SMBUS_CTLR_DESC_STATUS_EMPTY_MASK = 0x00000001"
definition SMBUS_CTLR_RX_FIFO_PAYLOAD_MASK :: u32 where "SMBUS_CTLR_RX_FIFO_PAYLOAD_MASK = 0x000000FF"
definition SMBUS_CTLR_RX_FIFO_STATUS_FILL_LEVEL_MASK :: u32 where "SMBUS_CTLR_RX_FIFO_STATUS_FILL_LEVEL_MASK = 0x00007F00"
definition SMBUS_CTLR_RX_FIFO_STATUS_RESET_BUSY_MASK :: u32 where "SMBUS_CTLR_RX_FIFO_STATUS_RESET_BUSY_MASK = 0x00000040"
definition SMBUS_CTLR_RX_FIFO_STATUS_FULL_MASK :: u32 where "SMBUS_CTLR_RX_FIFO_STATUS_FULL_MASK = 0x00000020"
definition SMBUS_CTLR_RX_FIFO_STATUS_ALMOST_FULL_MASK :: u32 where "SMBUS_CTLR_RX_FIFO_STATUS_ALMOST_FULL_MASK = 0x00000010"
definition SMBUS_CTLR_RX_FIFO_STATUS_ALMOST_EMPTY_MASK :: u32 where "SMBUS_CTLR_RX_FIFO_STATUS_ALMOST_EMPTY_MASK = 0x00000002"
definition SMBUS_CTLR_RX_FIFO_STATUS_EMPTY_MASK :: u32 where "SMBUS_CTLR_RX_FIFO_STATUS_EMPTY_MASK = 0x00000001"
definition SMBUS_CTLR_RX_FIFO_FILL_THRESHOLD_FILL_THRESHOLD_MASK :: u32 where "SMBUS_CTLR_RX_FIFO_FILL_THRESHOLD_FILL_THRESHOLD_MASK = 0x0000007F"
definition SMBUS_CTLR_DBG_DBG_STATE_MASK :: u32 where "SMBUS_CTLR_DBG_DBG_STATE_MASK = 0x0000007F"
definition SMBUS_PHY_RESET_CONTROL_SMBCLK_FORCE_TIMEOUT_MASK :: u32 where "SMBUS_PHY_RESET_CONTROL_SMBCLK_FORCE_TIMEOUT_MASK = 0x80000000"
definition SMBUS_TGT_DESC_FIFO_ID_MASK :: u32 where "SMBUS_TGT_DESC_FIFO_ID_MASK = 0x00000F00"
definition SMBUS_TGT_DESC_FIFO_PAYLOAD_MASK :: u32 where "SMBUS_TGT_DESC_FIFO_PAYLOAD_MASK = 0x000000FF"

section \<open>Positions\<close>

definition SMBUS_PHY_STATUS_SMBDAT_LOW_TIMEOUT_FIELD_POSITION :: nat where "SMBUS_PHY_STATUS_SMBDAT_LOW_TIMEOUT_FIELD_POSITION = 2"
definition SMBUS_PHY_STATUS_SMBCLK_LOW_TIMEOUT_FIELD_POSITION :: nat where "SMBUS_PHY_STATUS_SMBCLK_LOW_TIMEOUT_FIELD_POSITION = 1"
definition SMBUS_PHY_FILTER_CONTROL_ENABLE_FIELD_POSITION :: nat where "SMBUS_PHY_FILTER_CONTROL_ENABLE_FIELD_POSITION = 31"
definition SMBUS_PHY_TIMEOUT_MIN_TIMEOUT_ENABLE_FIELD_POSITION :: nat where "SMBUS_PHY_TIMEOUT_MIN_TIMEOUT_ENABLE_FIELD_POSITION = 31"
definition SMBUS_TGT_STATUS_ACTIVE_FIELD_POSITION :: nat where "SMBUS_TGT_STATUS_ACTIVE_FIELD_POSITION = 8"
definition SMBUS_TGT_STATUS_ADDRESS_FIELD_POSITION :: nat where "SMBUS_TGT_STATUS_ADDRESS_FIELD_POSITION = 1"
definition SMBUS_TGT_DESC_STATUS_FILL_LEVEL_FIELD_POSITION :: nat where "SMBUS_TGT_DESC_STATUS_FILL_LEVEL_FIELD_POSITION = 8"
definition SMBUS_TGT_DESC_STATUS_FULL_FIELD_POSITION :: nat where "SMBUS_TGT_DESC_STATUS_FULL_FIELD_POSITION = 5"
definition SMBUS_TGT_DESC_STATUS_ALMOST_FULL_FIELD_POSITION :: nat where "SMBUS_TGT_DESC_STATUS_ALMOST_FULL_FIELD_POSITION = 4"
definition SMBUS_TGT_DESC_STATUS_ALMOST_EMPTY_FIELD_POSITION :: nat where "SMBUS_TGT_DESC_STATUS_ALMOST_EMPTY_FIELD_POSITION = 1"
definition SMBUS_TGT_RX_FIFO_PAYLOAD_FIELD_POSITION :: nat where "SMBUS_TGT_RX_FIFO_PAYLOAD_FIELD_POSITION = 0"
definition SMBUS_TGT_RX_FIFO_STATUS_FILL_LEVEL_FIELD_POSITION :: nat where "SMBUS_TGT_RX_FIFO_STATUS_FILL_LEVEL_FIELD_POSITION = 8"
definition SMBUS_TGT_RX_FIFO_STATUS_RESET_BUSY_FIELD_POSITION :: nat where "SMBUS_TGT_RX_FIFO_STATUS_RESET_BUSY_FIELD_POSITION = 6"
definition SMBUS_TGT_RX_FIFO_STATUS_FULL_FIELD_POSITION :: nat where "SMBUS_TGT_RX_FIFO_STATUS_FULL_FIELD_POSITION = 5"
definition SMBUS_TGT_RX_FIFO_STATUS_ALMOST_FULL_FIELD_POSITION :: nat where "SMBUS_TGT_RX_FIFO_STATUS_ALMOST_FULL_FIELD_POSITION = 4"
definition SMBUS_TGT_RX_FIFO_STATUS_ALMOST_EMPTY_FIELD_POSITION :: nat where "SMBUS_TGT_RX_FIFO_STATUS_ALMOST_EMPTY_FIELD_POSITION = 1"
definition SMBUS_TGT_CONTROL_0_ENABLE_FIELD_POSITION :: nat where "SMBUS_TGT_CONTROL_0_ENABLE_FIELD_POSITION = 31"
definition SMBUS_TGT_CONTROL_0_ADDRESS_FIELD_POSITION :: nat where "SMBUS_TGT_CONTROL_0_ADDRESS_FIELD_POSITION = 1"
definition SMBUS_TGT_CONTROL_1_ENABLE_FIELD_POSITION :: nat where "SMBUS_TGT_CONTROL_1_ENABLE_FIELD_POSITION = 31"
definition SMBUS_TGT_CONTROL_1_ADDRESS_FIELD_POSITION :: nat where "SMBUS_TGT_CONTROL_1_ADDRESS_FIELD_POSITION = 1"
definition SMBUS_TGT_CONTROL_2_ENABLE_FIELD_POSITION :: nat where "SMBUS_TGT_CONTROL_2_ENABLE_FIELD_POSITION = 31"
definition SMBUS_TGT_CONTROL_2_ADDRESS_FIELD_POSITION :: nat where "SMBUS_TGT_CONTROL_2_ADDRESS_FIELD_POSITION = 1"
definition SMBUS_TGT_CONTROL_3_ENABLE_FIELD_POSITION :: nat where "SMBUS_TGT_CONTROL_3_ENABLE_FIELD_POSITION = 31"
definition SMBUS_TGT_CONTROL_3_ADDRESS_FIELD_POSITION :: nat where "SMBUS_TGT_CONTROL_3_ADDRESS_FIELD_POSITION = 1"
definition SMBUS_TGT_CONTROL_4_ENABLE_FIELD_POSITION :: nat where "SMBUS_TGT_CONTROL_4_ENABLE_FIELD_POSITION = 31"
definition SMBUS_TGT_CONTROL_4_ADDRESS_FIELD_POSITION :: nat where "SMBUS_TGT_CONTROL_4_ADDRESS_FIELD_POSITION = 1"
definition SMBUS_TGT_CONTROL_5_ENABLE_FIELD_POSITION :: nat where "SMBUS_TGT_CONTROL_5_ENABLE_FIELD_POSITION = 31"
definition SMBUS_TGT_CONTROL_5_ADDRESS_FIELD_POSITION :: nat where "SMBUS_TGT_CONTROL_5_ADDRESS_FIELD_POSITION = 1"
definition SMBUS_TGT_CONTROL_6_ENABLE_FIELD_POSITION :: nat where "SMBUS_TGT_CONTROL_6_ENABLE_FIELD_POSITION = 31"
definition SMBUS_TGT_CONTROL_6_ADDRESS_FIELD_POSITION :: nat where "SMBUS_TGT_CONTROL_6_ADDRESS_FIELD_POSITION = 1"
definition SMBUS_TGT_CONTROL_7_ENABLE_FIELD_POSITION :: nat where "SMBUS_TGT_CONTROL_7_ENABLE_FIELD_POSITION = 31"
definition SMBUS_TGT_CONTROL_7_ADDRESS_FIELD_POSITION :: nat where "SMBUS_TGT_CONTROL_7_ADDRESS_FIELD_POSITION = 1"
definition SMBUS_CTLR_DESC_STATUS_FILL_LEVEL_FIELD_POSITION :: nat where "SMBUS_CTLR_DESC_STATUS_FILL_LEVEL_FIELD_POSITION = 8"
definition SMBUS_CTLR_DESC_STATUS_RESET_BUSY_FIELD_POSITION :: nat where "SMBUS_CTLR_DESC_STATUS_RESET_BUSY_FIELD_POSITION = 6"
definition SMBUS_CTLR_DESC_STATUS_FULL_FIELD_POSITION :: nat where "SMBUS_CTLR_DESC_STATUS_FULL_FIELD_POSITION = 5"
definition SMBUS_CTLR_DESC_STATUS_ALMOST_FULL_FIELD_POSITION :: nat where "SMBUS_CTLR_DESC_STATUS_ALMOST_FULL_FIELD_POSITION = 4"
definition SMBUS_CTLR_DESC_STATUS_ALMOST_EMPTY_FIELD_POSITION :: nat where "SMBUS_CTLR_DESC_STATUS_ALMOST_EMPTY_FIELD_POSITION = 1"
definition SMBUS_CTLR_RX_FIFO_PAYLOAD_FIELD_POSITION :: nat where "SMBUS_CTLR_RX_FIFO_PAYLOAD_FIELD_POSITION = 0"
definition SMBUS_CTLR_RX_FIFO_STATUS_FILL_LEVEL_FIELD_POSITION :: nat where "SMBUS_CTLR_RX_FIFO_STATUS_FILL_LEVEL_FIELD_POSITION = 8"
definition SMBUS_CTLR_RX_FIFO_STATUS_RESET_BUSY_FIELD_POSITION :: nat where "SMBUS_CTLR_RX_FIFO_STATUS_RESET_BUSY_FIELD_POSITION = 6"
definition SMBUS_CTLR_RX_FIFO_STATUS_FULL_FIELD_POSITION :: nat where "SMBUS_CTLR_RX_FIFO_STATUS_FULL_FIELD_POSITION = 5"
definition SMBUS_CTLR_RX_FIFO_STATUS_ALMOST_FULL_FIELD_POSITION :: nat where "SMBUS_CTLR_RX_FIFO_STATUS_ALMOST_FULL_FIELD_POSITION = 4"
definition SMBUS_CTLR_RX_FIFO_STATUS_ALMOST_EMPTY_FIELD_POSITION :: nat where "SMBUS_CTLR_RX_FIFO_STATUS_ALMOST_EMPTY_FIELD_POSITION = 1"
definition SMBUS_PHY_RESET_CONTROL_SMBCLK_FORCE_TIMEOUT_FIELD_POSITION :: nat where "SMBUS_PHY_RESET_CONTROL_SMBCLK_FORCE_TIMEOUT_FIELD_POSITION = 31"
definition SMBUS_TGT_DESC_FIFO_ID_FIELD_POSITION :: nat where "SMBUS_TGT_DESC_FIFO_ID_FIELD_POSITION = 8"
definition SMBUS_TGT_RX_FIFO_RESET_FIELD_POSITION :: nat where "SMBUS_TGT_RX_FIFO_RESET_FIELD_POSITION = 31"
definition SMBUS_CTLR_DESC_FIFO_RESET_FIELD_POSITION :: nat where "SMBUS_CTLR_DESC_FIFO_RESET_FIELD_POSITION = 31"
definition SMBUS_CTLR_RX_FIFO_RESET_FIELD_POSITION :: nat where "SMBUS_CTLR_RX_FIFO_RESET_FIELD_POSITION = 31"
definition SMBUS_CTLR_DESC_FIFO_ID_FIELD_POSITION :: nat where "SMBUS_CTLR_DESC_FIFO_ID_FIELD_POSITION = 8"

lemmas smbus_regs =
  SMBUS_REG_IP_VERSION_def
  SMBUS_REG_IP_REVISION_def
  SMBUS_REG_IP_MAGIC_NUM_def
  SMBUS_REG_IP_BUILD_CONFIG_0_def
  SMBUS_REG_IP_BUILD_CONFIG_1_def
  SMBUS_REG_IRQ_GIE_def
  SMBUS_REG_IRQ_IER_def
  SMBUS_REG_IRQ_ISR_def
  SMBUS_REG_ERR_IRQ_IER_def
  SMBUS_REG_ERR_IRQ_ISR_def
  SMBUS_REG_PHY_STATUS_def
  SMBUS_REG_PHY_FILTER_CONTROL_def
  SMBUS_REG_PHY_BUS_FREE_TIME_def
  SMBUS_REG_PHY_IDLE_THRESHOLD_def
  SMBUS_REG_PHY_TIMEOUT_PRESCALER_def
  SMBUS_REG_PHY_TIMEOUT_MIN_def
  SMBUS_REG_PHY_TIMEOUT_MAX_def
  SMBUS_REG_PHY_RESET_CONTROL_def
  SMBUS_REG_PHY_TGT_DATA_SETUP_def
  SMBUS_REG_PHY_TGT_TEXT_PRESCALER_def
  SMBUS_REG_PHY_TGT_TEXT_TIMEOUT_def
  SMBUS_REG_PHY_TGT_TEXT_MAX_def
  SMBUS_REG_PHY_TGT_DBG_STATE_def
  SMBUS_REG_PHY_TGT_DATA_HOLD_def
  SMBUS_REG_TGT_STATUS_def
  SMBUS_REG_TGT_DESC_STATUS_def
  SMBUS_REG_TGT_RX_FIFO_def
  SMBUS_REG_TGT_RX_FIFO_STATUS_def
  SMBUS_REG_TGT_RX_FIFO_FILL_THRESHOLD_def
  SMBUS_REG_TGT_DBG_def
  SMBUS_REG_TGT_CONTROL_0_def
  SMBUS_REG_TGT_CONTROL_1_def
  SMBUS_REG_TGT_CONTROL_2_def
  SMBUS_REG_TGT_CONTROL_3_def
  SMBUS_REG_TGT_CONTROL_4_def
  SMBUS_REG_TGT_CONTROL_5_def
  SMBUS_REG_TGT_CONTROL_6_def
  SMBUS_REG_TGT_CONTROL_7_def
  SMBUS_REG_PHY_CTLR_DATA_HOLD_def
  SMBUS_REG_PHY_CTLR_START_HOLD_def
  SMBUS_REG_PHY_CTLR_START_SETUP_def
  SMBUS_REG_PHY_CTLR_STOP_SETUP_def
  SMBUS_REG_PHY_CTLR_CLK_TLOW_def
  SMBUS_REG_PHY_CTLR_CLK_THIGH_def
  SMBUS_REG_PHY_CTLR_TEXT_PRESCALER_def
  SMBUS_REG_PHY_CTLR_TEXT_TIMEOUT_def
  SMBUS_REG_PHY_CTLR_TEXT_MAX_def
  SMBUS_REG_PHY_CTLR_CEXT_PRESCALER_def
  SMBUS_REG_PHY_CTLR_CEXT_TIMEOUT_def
  SMBUS_REG_PHY_CTLR_CEXT_MAX_def
  SMBUS_REG_PHY_CTLR_DBG_STATE_def
  SMBUS_REG_CTLR_STATUS_def
  SMBUS_REG_CTLR_DESC_STATUS_def
  SMBUS_REG_CTLR_RX_FIFO_def
  SMBUS_REG_CTLR_RX_FIFO_STATUS_def
  SMBUS_REG_CTLR_RX_FIFO_FILL_THRESHOLD_def
  SMBUS_REG_CTLR_DBG_def
  SMBUS_REG_TGT_DESC_FIFO_def
  SMBUS_REG_CTLR_CONTROL_def
  SMBUS_REG_CTLR_DESC_FIFO_def

lemmas smbus_masks =
  SMBUS_IRQ_GIE_ENABLE_MASK_def
  SMBUS_PHY_STATUS_SMBDAT_LOW_TIMEOUT_MASK_def
  SMBUS_PHY_STATUS_SMBCLK_LOW_TIMEOUT_MASK_def
  SMBUS_PHY_STATUS_BUS_IDLE_MASK_def
  SMBUS_PHY_FILTER_CONTROL_ENABLE_MASK_def
  SMBUS_PHY_FILTER_CONTROL_DURATION_MASK_def
  SMBUS_PHY_IDLE_THRESHOLD_IDLE_THRESHOLD_MASK_def
  SMBUS_PHY_TIMEOUT_MIN_TIMEOUT_ENABLE_MASK_def
  SMBUS_PHY_TIMEOUT_MIN_TIMEOUT_MIN_MASK_def
  SMBUS_PHY_RESET_CONTROL_SMBCLK_FORCE_LOW_MASK_def
  SMBUS_PHY_TGT_DATA_SETUP_TGT_DATA_SETUP_MASK_def
  SMBUS_PHY_TGT_TEXT_PRESCALER_TGT_TEXT_PRESCALER_MASK_def
  SMBUS_PHY_TGT_TEXT_TIMEOUT_TGT_TEXT_TIMEOUT_MASK_def
  SMBUS_PHY_TGT_TEXT_MAX_TGT_TEXT_MAX_MASK_def
  SMBUS_PHY_TGT_DBG_STATE_DBG_STATE_MASK_def
  SMBUS_PHY_TGT_DATA_HOLD_DATA_HOLD_MASK_def
  SMBUS_TGT_STATUS_ACTIVE_MASK_def
  SMBUS_TGT_STATUS_ADDRESS_MASK_def
  SMBUS_TGT_STATUS_RW_MASK_def
  SMBUS_TGT_DESC_STATUS_FILL_LEVEL_MASK_def
  SMBUS_TGT_DESC_STATUS_FULL_MASK_def
  SMBUS_TGT_DESC_STATUS_ALMOST_FULL_MASK_def
  SMBUS_TGT_DESC_STATUS_ALMOST_EMPTY_MASK_def
  SMBUS_TGT_DESC_STATUS_EMPTY_MASK_def
  SMBUS_TGT_RX_FIFO_PAYLOAD_MASK_def
  SMBUS_TGT_RX_FIFO_STATUS_FILL_LEVEL_MASK_def
  SMBUS_TGT_RX_FIFO_STATUS_RESET_BUSY_MASK_def
  SMBUS_TGT_RX_FIFO_STATUS_FULL_MASK_def
  SMBUS_TGT_RX_FIFO_STATUS_ALMOST_FULL_MASK_def
  SMBUS_TGT_RX_FIFO_STATUS_ALMOST_EMPTY_MASK_def
  SMBUS_TGT_RX_FIFO_STATUS_EMPTY_MASK_def
  SMBUS_TGT_RX_FIFO_FILL_THRESHOLD_FILL_THRESHOLD_MASK_def
  SMBUS_TGT_DBG_DBG_STATE_MASK_def
  SMBUS_TGT_CONTROL_0_ENABLE_MASK_def
  SMBUS_TGT_CONTROL_0_ADDRESS_MASK_def
  SMBUS_TGT_CONTROL_1_ENABLE_MASK_def
  SMBUS_TGT_CONTROL_1_ADDRESS_MASK_def
  SMBUS_TGT_CONTROL_2_ENABLE_MASK_def
  SMBUS_TGT_CONTROL_2_ADDRESS_MASK_def
  SMBUS_TGT_CONTROL_3_ENABLE_MASK_def
  SMBUS_TGT_CONTROL_3_ADDRESS_MASK_def
  SMBUS_TGT_CONTROL_4_ENABLE_MASK_def
  SMBUS_TGT_CONTROL_4_ADDRESS_MASK_def
  SMBUS_TGT_CONTROL_5_ENABLE_MASK_def
  SMBUS_TGT_CONTROL_5_ADDRESS_MASK_def
  SMBUS_TGT_CONTROL_6_ENABLE_MASK_def
  SMBUS_TGT_CONTROL_6_ADDRESS_MASK_def
  SMBUS_TGT_CONTROL_7_ENABLE_MASK_def
  SMBUS_TGT_CONTROL_7_ADDRESS_MASK_def
  SMBUS_PHY_CTLR_DATA_HOLD_CTLR_DATA_HOLD_MASK_def
  SMBUS_PHY_CTLR_START_HOLD_CTLR_START_HOLD_MASK_def
  SMBUS_PHY_CTLR_START_SETUP_CTLR_START_SETUP_MASK_def
  SMBUS_PHY_CTLR_STOP_SETUP_CTLR_STOP_SETUP_MASK_def
  SMBUS_PHY_CTLR_CLK_TLOW_CTLR_CLK_TLOW_MASK_def
  SMBUS_PHY_CTLR_CLK_THIGH_CTLR_CLK_THIGH_MASK_def
  SMBUS_PHY_CTLR_TEXT_PRESCALER_CTLR_TEXT_PRESCALER_MASK_def
  SMBUS_PHY_CTLR_TEXT_TIMEOUT_CTLR_TEXT_TIMEOUT_MASK_def
  SMBUS_PHY_CTLR_TEXT_MAX_CTLR_TEXT_MAX_MASK_def
  SMBUS_PHY_CTLR_CEXT_PRESCALER_CTLR_CEXT_PRESCALER_MASK_def
  SMBUS_PHY_CTLR_CEXT_TIMEOUT_CTLR_CEXT_TIMEOUT_MASK_def
  SMBUS_PHY_CTLR_CEXT_MAX_CTLR_CEXT_MAX_MASK_def
  SMBUS_PHY_CTLR_DBG_STATE_DBG_STATE_MASK_def
  SMBUS_CTLR_STATUS_ENABLE_MASK_def
  SMBUS_CTLR_DESC_STATUS_FILL_LEVEL_MASK_def
  SMBUS_CTLR_DESC_STATUS_RESET_BUSY_MASK_def
  SMBUS_CTLR_DESC_STATUS_FULL_MASK_def
  SMBUS_CTLR_DESC_STATUS_ALMOST_FULL_MASK_def
  SMBUS_CTLR_DESC_STATUS_ALMOST_EMPTY_MASK_def
  SMBUS_CTLR_DESC_STATUS_EMPTY_MASK_def
  SMBUS_CTLR_RX_FIFO_PAYLOAD_MASK_def
  SMBUS_CTLR_RX_FIFO_STATUS_FILL_LEVEL_MASK_def
  SMBUS_CTLR_RX_FIFO_STATUS_RESET_BUSY_MASK_def
  SMBUS_CTLR_RX_FIFO_STATUS_FULL_MASK_def
  SMBUS_CTLR_RX_FIFO_STATUS_ALMOST_FULL_MASK_def
  SMBUS_CTLR_RX_FIFO_STATUS_ALMOST_EMPTY_MASK_def
  SMBUS_CTLR_RX_FIFO_STATUS_EMPTY_MASK_def
  SMBUS_CTLR_RX_FIFO_FILL_THRESHOLD_FILL_THRESHOLD_MASK_def
  SMBUS_CTLR_DBG_DBG_STATE_MASK_def
  SMBUS_PHY_RESET_CONTROL_SMBCLK_FORCE_TIMEOUT_MASK_def
  SMBUS_TGT_DESC_FIFO_ID_MASK_def
  SMBUS_TGT_DESC_FIFO_PAYLOAD_MASK_def

lemmas smbus_positions =
  SMBUS_PHY_STATUS_SMBDAT_LOW_TIMEOUT_FIELD_POSITION_def
  SMBUS_PHY_STATUS_SMBCLK_LOW_TIMEOUT_FIELD_POSITION_def
  SMBUS_PHY_FILTER_CONTROL_ENABLE_FIELD_POSITION_def
  SMBUS_PHY_TIMEOUT_MIN_TIMEOUT_ENABLE_FIELD_POSITION_def
  SMBUS_TGT_STATUS_ACTIVE_FIELD_POSITION_def
  SMBUS_TGT_STATUS_ADDRESS_FIELD_POSITION_def
  SMBUS_TGT_DESC_STATUS_FILL_LEVEL_FIELD_POSITION_def
  SMBUS_TGT_DESC_STATUS_FULL_FIELD_POSITION_def
  SMBUS_TGT_DESC_STATUS_ALMOST_FULL_FIELD_POSITION_def
  SMBUS_TGT_DESC_STATUS_ALMOST_EMPTY_FIELD_POSITION_def
  SMBUS_TGT_RX_FIFO_PAYLOAD_FIELD_POSITION_def
  SMBUS_TGT_RX_FIFO_STATUS_FILL_LEVEL_FIELD_POSITION_def
  SMBUS_TGT_RX_FIFO_STATUS_RESET_BUSY_FIELD_POSITION_def
  SMBUS_TGT_RX_FIFO_STATUS_FULL_FIELD_POSITION_def
  SMBUS_TGT_RX_FIFO_STATUS_ALMOST_FULL_FIELD_POSITION_def
  SMBUS_TGT_RX_FIFO_STATUS_ALMOST_EMPTY_FIELD_POSITION_def
  SMBUS_TGT_CONTROL_0_ENABLE_FIELD_POSITION_def
  SMBUS_TGT_CONTROL_0_ADDRESS_FIELD_POSITION_def
  SMBUS_TGT_CONTROL_1_ENABLE_FIELD_POSITION_def
  SMBUS_TGT_CONTROL_1_ADDRESS_FIELD_POSITION_def
  SMBUS_TGT_CONTROL_2_ENABLE_FIELD_POSITION_def
  SMBUS_TGT_CONTROL_2_ADDRESS_FIELD_POSITION_def
  SMBUS_TGT_CONTROL_3_ENABLE_FIELD_POSITION_def
  SMBUS_TGT_CONTROL_3_ADDRESS_FIELD_POSITION_def
  SMBUS_TGT_CONTROL_4_ENABLE_FIELD_POSITION_def
  SMBUS_TGT_CONTROL_4_ADDRESS_FIELD_POSITION_def
  SMBUS_TGT_CONTROL_5_ENABLE_FIELD_POSITION_def
  SMBUS_TGT_CONTROL_5_ADDRESS_FIELD_POSITION_def
  SMBUS_TGT_CONTROL_6_ENABLE_FIELD_POSITION_def
  SMBUS_TGT_CONTROL_6_ADDRESS_FIELD_POSITION_def
  SMBUS_TGT_CONTROL_7_ENABLE_FIELD_POSITION_def
  SMBUS_TGT_CONTROL_7_ADDRESS_FIELD_POSITION_def
  SMBUS_CTLR_DESC_STATUS_FILL_LEVEL_FIELD_POSITION_def
  SMBUS_CTLR_DESC_STATUS_RESET_BUSY_FIELD_POSITION_def
  SMBUS_CTLR_DESC_STATUS_FULL_FIELD_POSITION_def
  SMBUS_CTLR_DESC_STATUS_ALMOST_FULL_FIELD_POSITION_def
  SMBUS_CTLR_DESC_STATUS_ALMOST_EMPTY_FIELD_POSITION_def
  SMBUS_CTLR_RX_FIFO_PAYLOAD_FIELD_POSITION_def
  SMBUS_CTLR_RX_FIFO_STATUS_FILL_LEVEL_FIELD_POSITION_def
  SMBUS_CTLR_RX_FIFO_STATUS_RESET_BUSY_FIELD_POSITION_def
  SMBUS_CTLR_RX_FIFO_STATUS_FULL_FIELD_POSITION_def
  SMBUS_CTLR_RX_FIFO_STATUS_ALMOST_FULL_FIELD_POSITION_def
  SMBUS_CTLR_RX_FIFO_STATUS_ALMOST_EMPTY_FIELD_POSITION_def
  SMBUS_PHY_RESET_CONTROL_SMBCLK_FORCE_TIMEOUT_FIELD_POSITION_def
  SMBUS_TGT_DESC_FIFO_ID_FIELD_POSITION_def
  SMBUS_TGT_RX_FIFO_RESET_FIELD_POSITION_def
  SMBUS_CTLR_DESC_FIFO_RESET_FIELD_POSITION_def
  SMBUS_CTLR_RX_FIFO_RESET_FIELD_POSITION_def
  SMBUS_CTLR_DESC_FIFO_ID_FIELD_POSITION_def

end
