(* ===== verification/SmbusHwAccess.thy ===== *)
theory SmbusHwAccess
  imports SmbusDriverState SmbusRegisters
begin

text \<open>
  Access to the SMBus IP (smbus_hardware_access.c): the register reads and writes with their
  debug log entries, one accessor per register or field, and the descriptors written into
  the descriptor FIFOs of the target and of the controller.
\<close>

section \<open>The three register operations\<close>

text \<open>
  \<open>SMBUS_BASE_ADDRESS_TYPE\<close> is a pointer to 32-bit cells, so that the index
  \<open>ulRegisterOffset / 4\<close> advances four bytes at a time.
\<close>

definition register_address :: "u32 \<Rightarrow> 'w smbus \<Rightarrow> u64" where
  "register_address off s = pvBaseAddress s + 4 * ucast (off div 4)"

definition prvulSMBusIn32 :: "u64 \<Rightarrow> 'w smbus \<Rightarrow> u32 \<times> 'w smbus" where
  "prvulSMBusIn32 a s = (let (v, w) = in32 s a (world s) in (v, s\<lparr>world := w\<rparr>))"

definition prvvSMBusOut32 :: "u64 \<Rightarrow> u32 \<Rightarrow> 'w smbus \<Rightarrow> 'w smbus" where
  "prvvSMBusOut32 a v s = s\<lparr>world := out32 s a v (world s)\<rparr>"

definition prvulSMBusHardwareRead :: "u32 \<Rightarrow> 'w smbus \<Rightarrow> (u32 \<times> 'w smbus) option" where
  "prvulSMBusHardwareRead off s = do {
     let (v, s) = prvulSMBusIn32 (register_address off s) s;
     s \<leftarrow> add_log SMBUS_LOG_LEVEL_DEBUG SMBUS_INSTANCE_UNDETERMINED SMBUS_LOG_EVENT_HW_READ off v s;
     Some (v, s) }"

definition prvvSMBusHardwareWrite :: "u32 \<Rightarrow> u32 \<Rightarrow> 'w smbus \<Rightarrow> 'w smbus option" where
  "prvvSMBusHardwareWrite off v s = do {
     s \<leftarrow> add_log SMBUS_LOG_LEVEL_DEBUG SMBUS_INSTANCE_UNDETERMINED SMBUS_LOG_EVENT_HW_WRITE off v s;
     Some (prvvSMBusOut32 (register_address off s) v s) }"

definition prvvSMBusHardwareWriteWithMask :: "u32 \<Rightarrow> u32 \<Rightarrow> u32 \<Rightarrow> 'w smbus \<Rightarrow> 'w smbus option" where
  "prvvSMBusHardwareWriteWithMask off m v s = do {
     (r, s) \<leftarrow> prvulSMBusHardwareRead off s;
     prvvSMBusHardwareWrite off (r AND NOT m OR v AND m) s }"

section \<open>Reading registers and fields\<close>

definition ulSMBusHWReadIPVersion :: "'w smbus \<Rightarrow> (u32 \<times> 'w smbus) option" where
  "ulSMBusHWReadIPVersion s = do {
     (v, s) \<leftarrow> prvulSMBusHardwareRead SMBUS_REG_IP_VERSION s;
     Some (v, s) }"

definition ulSMBusHWReadIPRevision :: "'w smbus \<Rightarrow> (u32 \<times> 'w smbus) option" where
  "ulSMBusHWReadIPRevision s = do {
     (v, s) \<leftarrow> prvulSMBusHardwareRead SMBUS_REG_IP_REVISION s;
     Some (v, s) }"

definition ulSMBusHWReadIPMagicNum :: "'w smbus \<Rightarrow> (u32 \<times> 'w smbus) option" where
  "ulSMBusHWReadIPMagicNum s = do {
     (v, s) \<leftarrow> prvulSMBusHardwareRead SMBUS_REG_IP_MAGIC_NUM s;
     Some (v, s) }"

definition ulSMBusHWReadBuildConfig0 :: "'w smbus \<Rightarrow> (u32 \<times> 'w smbus) option" where
  "ulSMBusHWReadBuildConfig0 s = do {
     (v, s) \<leftarrow> prvulSMBusHardwareRead SMBUS_REG_IP_BUILD_CONFIG_0 s;
     Some (v, s) }"

definition ulSMBusHWReadBuildConfig1 :: "'w smbus \<Rightarrow> (u32 \<times> 'w smbus) option" where
  "ulSMBusHWReadBuildConfig1 s = do {
     (v, s) \<leftarrow> prvulSMBusHardwareRead SMBUS_REG_IP_BUILD_CONFIG_1 s;
     Some (v, s) }"

definition ulSMBusHWReadIRQGIEEnable :: "'w smbus \<Rightarrow> (u32 \<times> 'w smbus) option" where
  "ulSMBusHWReadIRQGIEEnable s = do {
     (v, s) \<leftarrow> prvulSMBusHardwareRead SMBUS_REG_IRQ_GIE s;
     Some (v AND SMBUS_IRQ_GIE_ENABLE_MASK, s) }"

definition ulSMBusHWReadIRQIER :: "'w smbus \<Rightarrow> (u32 \<times> 'w smbus) option" where
  "ulSMBusHWReadIRQIER s = do {
     (v, s) \<leftarrow> prvulSMBusHardwareRead SMBUS_REG_IRQ_IER s;
     Some (v, s) }"

definition ulSMBusHWReadIRQISR :: "'w smbus \<Rightarrow> (u32 \<times> 'w smbus) option" where
  "ulSMBusHWReadIRQISR s = do {
     (v, s) \<leftarrow> prvulSMBusHardwareRead SMBUS_REG_IRQ_ISR s;
     Some (v, s) }"

definition ulSMBusHWReadErrIRQIER :: "'w smbus \<Rightarrow> (u32 \<times> 'w smbus) option" where
  "ulSMBusHWReadErrIRQIER s = do {
     (v, s) \<leftarrow> prvulSMBusHardwareRead SMBUS_REG_ERR_IRQ_IER s;
     Some (v, s) }"

definition ulSMBusHWReadErrIRQISR :: "'w smbus \<Rightarrow> (u32 \<times> 'w smbus) option" where
  "ulSMBusHWReadErrIRQISR s = do {
     (v, s) \<leftarrow> prvulSMBusHardwareRead SMBUS_REG_ERR_IRQ_ISR s;
     Some (v, s) }"

definition ulSMBusHWReadPHYStatus :: "'w smbus \<Rightarrow> (u32 \<times> 'w smbus) option" where
  "ulSMBusHWReadPHYStatus s = do {
     (v, s) \<leftarrow> prvulSMBusHardwareRead SMBUS_REG_PHY_STATUS s;
     Some (v, s) }"

definition ulSMBusHWReadPHYStatusSMBDATLowTimeout :: "'w smbus \<Rightarrow> (u32 \<times> 'w smbus) option" where
  "ulSMBusHWReadPHYStatusSMBDATLowTimeout s = do {
     (v, s) \<leftarrow> prvulSMBusHardwareRead SMBUS_REG_PHY_STATUS s;
     Some (drop_bit SMBUS_PHY_STATUS_SMBDAT_LOW_TIMEOUT_FIELD_POSITION (v AND SMBUS_PHY_STATUS_SMBDAT_LOW_TIMEOUT_MASK), s) }"

definition ulSMBusHWReadPHYStatusSMBClkLowTimeout :: "'w smbus \<Rightarrow> (u32 \<times> 'w smbus) option" where
  "ulSMBusHWReadPHYStatusSMBClkLowTimeout s = do {
     (v, s) \<leftarrow> prvulSMBusHardwareRead SMBUS_REG_PHY_STATUS s;
     Some (drop_bit SMBUS_PHY_STATUS_SMBCLK_LOW_TIMEOUT_FIELD_POSITION (v AND SMBUS_PHY_STATUS_SMBCLK_LOW_TIMEOUT_MASK), s) }"

definition ulSMBusHWReadPHYStatusBusIdle :: "'w smbus \<Rightarrow> (u32 \<times> 'w smbus) option" where
  "ulSMBusHWReadPHYStatusBusIdle s = do {
     (v, s) \<leftarrow> prvulSMBusHardwareRead SMBUS_REG_PHY_STATUS s;
     Some (v AND SMBUS_PHY_STATUS_BUS_IDLE_MASK, s) }"

definition ulSMBusHWReadPHYFilterControl :: "'w smbus \<Rightarrow> (u32 \<times> 'w smbus) option" where
  "ulSMBusHWReadPHYFilterControl s = do {
     (v, s) \<leftarrow> prvulSMBusHardwareRead SMBUS_REG_PHY_FILTER_CONTROL s;
     Some (v, s) }"

definition ulSMBusHWReadPHYFilterControlEnable :: "'w smbus \<Rightarrow> (u32 \<times> 'w smbus) option" where
  "ulSMBusHWReadPHYFilterControlEnable s = do {
     (v, s) \<leftarrow> prvulSMBusHardwareRead SMBUS_REG_PHY_FILTER_CONTROL s;
     Some (drop_bit SMBUS_PHY_FILTER_CONTROL_ENABLE_FIELD_POSITION (v AND SMBUS_PHY_FILTER_CONTROL_ENABLE_MASK), s) }"

definition ulSMBusHWReadPHYFilterControlDuration :: "'w smbus \<Rightarrow> (u32 \<times> 'w smbus) option" where
  "ulSMBusHWReadPHYFilterControlDuration s = do {
     (v, s) \<leftarrow> prvulSMBusHardwareRead SMBUS_REG_PHY_FILTER_CONTROL s;
     Some (v AND SMBUS_PHY_FILTER_CONTROL_DURATION_MASK, s) }"

definition ulSMBusHWReadPHYBusFreetime :: "'w smbus \<Rightarrow> (u32 \<times> 'w smbus) option" where
  "ulSMBusHWReadPHYBusFreetime s = do {
     (v, s) \<leftarrow> prvulSMBusHardwareRead SMBUS_REG_PHY_BUS_FREE_TIME s;
     Some (v, s) }"

definition ulSMBusHWReadPHYIdleThresholdIdleThreshold :: "'w smbus \<Rightarrow> (u32 \<times> 'w smbus) option" where
  "ulSMBusHWReadPHYIdleThresholdIdleThreshold s = do {
     (v, s) \<leftarrow> prvulSMBusHardwareRead SMBUS_REG_PHY_IDLE_THRESHOLD s;
     Some (v AND SMBUS_PHY_IDLE_THRESHOLD_IDLE_THRESHOLD_MASK, s) }"

definition ulSMBusHWReadPHYTimeoutPrescaler :: "'w smbus \<Rightarrow> (u32 \<times> 'w smbus) option" where
  "ulSMBusHWReadPHYTimeoutPrescaler s = do {
     (v, s) \<leftarrow> prvulSMBusHardwareRead SMBUS_REG_PHY_TIMEOUT_PRESCALER s;
     Some (v, s) }"

definition ulSMBusHWReadPHYTimeoutMin :: "'w smbus \<Rightarrow> (u32 \<times> 'w smbus) option" where
  "ulSMBusHWReadPHYTimeoutMin s = do {
     (v, s) \<leftarrow> prvulSMBusHardwareRead SMBUS_REG_PHY_TIMEOUT_MIN s;
     Some (v, s) }"

definition ulSMBusHWReadPHYTimeoutMinTimeoutEnable :: "'w smbus \<Rightarrow> (u32 \<times> 'w smbus) option" where
  "ulSMBusHWReadPHYTimeoutMinTimeoutEnable s = do {
     (v, s) \<leftarrow> prvulSMBusHardwareRead SMBUS_REG_PHY_TIMEOUT_MIN s;
     Some (drop_bit SMBUS_PHY_TIMEOUT_MIN_TIMEOUT_ENABLE_FIELD_POSITION (v AND SMBUS_PHY_TIMEOUT_MIN_TIMEOUT_ENABLE_MASK), s) }"

definition ulSMBusHWReadPHYTimeoutMinTimeoutMin :: "'w smbus \<Rightarrow> (u32 \<times> 'w smbus) option" where
  "ulSMBusHWReadPHYTimeoutMinTimeoutMin s = do {
     (v, s) \<leftarrow> prvulSMBusHardwareRead SMBUS_REG_PHY_TIMEOUT_MIN s;
     Some (v AND SMBUS_PHY_TIMEOUT_MIN_TIMEOUT_MIN_MASK, s) }"

definition ulSMBusHWReadPHYTimeoutMax :: "'w smbus \<Rightarrow> (u32 \<times> 'w smbus) option" where
  "ulSMBusHWReadPHYTimeoutMax s = do {
     (v, s) \<leftarrow> prvulSMBusHardwareRead SMBUS_REG_PHY_TIMEOUT_MAX s;
     Some (v, s) }"

definition ulSMBusHWReadPHYResetControlSMBClkForce :: "'w smbus \<Rightarrow> (u32 \<times> 'w smbus) option" where
  "ulSMBusHWReadPHYResetControlSMBClkForce s = do {
     (v, s) \<leftarrow> prvulSMBusHardwareRead SMBUS_REG_PHY_RESET_CONTROL s;
     Some (v AND SMBUS_PHY_RESET_CONTROL_SMBCLK_FORCE_LOW_MASK, s) }"

definition ulSMBusHWReadPHYTgtDataSetupTgtDataSetup :: "'w smbus \<Rightarrow> (u32 \<times> 'w smbus) option" where
  "ulSMBusHWReadPHYTgtDataSetupTgtDataSetup s = do {
     (v, s) \<leftarrow> prvulSMBusHardwareRead SMBUS_REG_PHY_TGT_DATA_SETUP s;
     Some (v AND SMBUS_PHY_TGT_DATA_SETUP_TGT_DATA_SETUP_MASK, s) }"

definition ulSMBusHWReadPHYTgtTextPrescaler :: "'w smbus \<Rightarrow> (u32 \<times> 'w smbus) option" where
  "ulSMBusHWReadPHYTgtTextPrescaler s = do {
     (v, s) \<leftarrow> prvulSMBusHardwareRead SMBUS_REG_PHY_TGT_TEXT_PRESCALER s;
     Some (v AND SMBUS_PHY_TGT_TEXT_PRESCALER_TGT_TEXT_PRESCALER_MASK, s) }"

definition ulSMBusHWReadPHYTgtTextTimeout :: "'w smbus \<Rightarrow> (u32 \<times> 'w smbus) option" where
  "ulSMBusHWReadPHYTgtTextTimeout s = do {
     (v, s) \<leftarrow> prvulSMBusHardwareRead SMBUS_REG_PHY_TGT_TEXT_TIMEOUT s;
     Some (v AND SMBUS_PHY_TGT_TEXT_TIMEOUT_TGT_TEXT_TIMEOUT_MASK, s) }"

definition ulSMBusHWReadPHYTgtTextMax :: "'w smbus \<Rightarrow> (u32 \<times> 'w smbus) option" where
  "ulSMBusHWReadPHYTgtTextMax s = do {
     (v, s) \<leftarrow> prvulSMBusHardwareRead SMBUS_REG_PHY_TGT_TEXT_MAX s;
     Some (v AND SMBUS_PHY_TGT_TEXT_MAX_TGT_TEXT_MAX_MASK, s) }"

definition ulSMBusHWReadPHYTgtDbgState :: "'w smbus \<Rightarrow> (u32 \<times> 'w smbus) option" where
  "ulSMBusHWReadPHYTgtDbgState s = do {
     (v, s) \<leftarrow> prvulSMBusHardwareRead SMBUS_REG_PHY_TGT_DBG_STATE s;
     Some (v AND SMBUS_PHY_TGT_DBG_STATE_DBG_STATE_MASK, s) }"

definition ulSMBusHWReadPHYTgtDataHold :: "'w smbus \<Rightarrow> (u32 \<times> 'w smbus) option" where
  "ulSMBusHWReadPHYTgtDataHold s = do {
     (v, s) \<leftarrow> prvulSMBusHardwareRead SMBUS_REG_PHY_TGT_DATA_HOLD s;
     Some (v AND SMBUS_PHY_TGT_DATA_HOLD_DATA_HOLD_MASK, s) }"

definition ulSMBusHWReadTgtStatus :: "'w smbus \<Rightarrow> (u32 \<times> 'w smbus) option" where
  "ulSMBusHWReadTgtStatus s = do {
     (v, s) \<leftarrow> prvulSMBusHardwareRead SMBUS_REG_TGT_STATUS s;
     Some (v, s) }"

definition ulSMBusHWReadTgtStatusActive :: "'w smbus \<Rightarrow> (u32 \<times> 'w smbus) option" where
  "ulSMBusHWReadTgtStatusActive s = do {
     (v, s) \<leftarrow> prvulSMBusHardwareRead SMBUS_REG_TGT_STATUS s;
     Some (drop_bit SMBUS_TGT_STATUS_ACTIVE_FIELD_POSITION (v AND SMBUS_TGT_STATUS_ACTIVE_MASK), s) }"

definition ulSMBusHWReadTgtStatusAddress :: "'w smbus \<Rightarrow> (u32 \<times> 'w smbus) option" where
  "ulSMBusHWReadTgtStatusAddress s = do {
     (v, s) \<leftarrow> prvulSMBusHardwareRead SMBUS_REG_TGT_STATUS s;
     Some (drop_bit SMBUS_TGT_STATUS_ADDRESS_FIELD_POSITION (v AND SMBUS_TGT_STATUS_ADDRESS_MASK), s) }"

definition ulSMBusHWReadTgtStatusRW :: "'w smbus \<Rightarrow> (u32 \<times> 'w smbus) option" where
  "ulSMBusHWReadTgtStatusRW s = do {
     (v, s) \<leftarrow> prvulSMBusHardwareRead SMBUS_REG_TGT_STATUS s;
     Some (v AND SMBUS_TGT_STATUS_RW_MASK, s) }"

definition ulSMBusHWReadTgtDescStatusFillLevel :: "'w smbus \<Rightarrow> (u32 \<times> 'w smbus) option" where
  "ulSMBusHWReadTgtDescStatusFillLevel s = do {
     (v, s) \<leftarrow> prvulSMBusHardwareRead SMBUS_REG_TGT_DESC_STATUS s;
     Some (drop_bit SMBUS_TGT_DESC_STATUS_FILL_LEVEL_FIELD_POSITION (v AND SMBUS_TGT_DESC_STATUS_FILL_LEVEL_MASK), s) }"

definition ulSMBusHWReadTgtDescStatusFull :: "'w smbus \<Rightarrow> (u32 \<times> 'w smbus) option" where
  "ulSMBusHWReadTgtDescStatusFull s = do {
     (v, s) \<leftarrow> prvulSMBusHardwareRead SMBUS_REG_TGT_DESC_STATUS s;
     Some (drop_bit SMBUS_TGT_DESC_STATUS_FULL_FIELD_POSITION (v AND SMBUS_TGT_DESC_STATUS_FULL_MASK), s) }"

definition ulSMBusHWReadTgtDescStatusAlmostFull :: "'w smbus \<Rightarrow> (u32 \<times> 'w smbus) option" where
  "ulSMBusHWReadTgtDescStatusAlmostFull s = do {
     (v, s) \<leftarrow> prvulSMBusHardwareRead SMBUS_REG_TGT_DESC_STATUS s;
     Some (drop_bit SMBUS_TGT_DESC_STATUS_ALMOST_FULL_FIELD_POSITION (v AND SMBUS_TGT_DESC_STATUS_ALMOST_FULL_MASK), s) }"

definition ulSMBusHWReadTgtDescStatusAlmostEmpty :: "'w smbus \<Rightarrow> (u32 \<times> 'w smbus) option" where
  "ulSMBusHWReadTgtDescStatusAlmostEmpty s = do {
     (v, s) \<leftarrow> prvulSMBusHardwareRead SMBUS_REG_TGT_DESC_STATUS s;
     Some (drop_bit SMBUS_TGT_DESC_STATUS_ALMOST_EMPTY_FIELD_POSITION (v AND SMBUS_TGT_DESC_STATUS_ALMOST_EMPTY_MASK), s) }"

definition ulSMBusHWReadTgtDescStatusEmpty :: "'w smbus \<Rightarrow> (u32 \<times> 'w smbus) option" where
  "ulSMBusHWReadTgtDescStatusEmpty s = do {
     (v, s) \<leftarrow> prvulSMBusHardwareRead SMBUS_REG_TGT_DESC_STATUS s;
     Some (v AND SMBUS_TGT_DESC_STATUS_EMPTY_MASK, s) }"

definition ulSMBusHWReadTgtRxFifoPayload :: "'w smbus \<Rightarrow> (u32 \<times> 'w smbus) option" where
  "ulSMBusHWReadTgtRxFifoPayload s = do {
     (v, s) \<leftarrow> prvulSMBusHardwareRead SMBUS_REG_TGT_RX_FIFO s;
     Some (drop_bit SMBUS_TGT_RX_FIFO_PAYLOAD_FIELD_POSITION (v AND SMBUS_TGT_RX_FIFO_PAYLOAD_MASK), s) }"

definition ulSMBusHWReadTgtRxFifoStatusFillLevel :: "'w smbus \<Rightarrow> (u32 \<times> 'w smbus) option" where
  "ulSMBusHWReadTgtRxFifoStatusFillLevel s = do {
     (v, s) \<leftarrow> prvulSMBusHardwareRead SMBUS_REG_TGT_RX_FIFO_STATUS s;
     Some (drop_bit SMBUS_TGT_RX_FIFO_STATUS_FILL_LEVEL_FIELD_POSITION (v AND SMBUS_TGT_RX_FIFO_STATUS_FILL_LEVEL_MASK), s) }"

definition ulSMBusHWReadTgtRxFifoStatusResetBusY :: "'w smbus \<Rightarrow> (u32 \<times> 'w smbus) option" where
  "ulSMBusHWReadTgtRxFifoStatusResetBusY s = do {
     (v, s) \<leftarrow> prvulSMBusHardwareRead SMBUS_REG_TGT_RX_FIFO_STATUS s;
     Some (drop_bit SMBUS_TGT_RX_FIFO_STATUS_RESET_BUSY_FIELD_POSITION (v AND SMBUS_TGT_RX_FIFO_STATUS_RESET_BUSY_MASK), s) }"

definition ulSMBusHWReadTgtRxFifoStatusFull :: "'w smbus \<Rightarrow> (u32 \<times> 'w smbus) option" where
  "ulSMBusHWReadTgtRxFifoStatusFull s = do {
     (v, s) \<leftarrow> prvulSMBusHardwareRead SMBUS_REG_TGT_RX_FIFO_STATUS s;
     Some (drop_bit SMBUS_TGT_RX_FIFO_STATUS_FULL_FIELD_POSITION (v AND SMBUS_TGT_RX_FIFO_STATUS_FULL_MASK), s) }"

definition ulSMBusHWReadTgtRxFifoStatusAlmostFull :: "'w smbus \<Rightarrow> (u32 \<times> 'w smbus) option" where
  "ulSMBusHWReadTgtRxFifoStatusAlmostFull s = do {
     (v, s) \<leftarrow> prvulSMBusHardwareRead SMBUS_REG_TGT_RX_FIFO_STATUS s;
     Some (drop_bit SMBUS_TGT_RX_FIFO_STATUS_ALMOST_FULL_FIELD_POSITION (v AND SMBUS_TGT_RX_FIFO_STATUS_ALMOST_FULL_MASK), s) }"

definition ulSMBusHWReadTgtRxFifoStatusAlmostEmpty :: "'w smbus \<Rightarrow> (u32 \<times> 'w smbus) option" where
  "ulSMBusHWReadTgtRxFifoStatusAlmostEmpty s = do {
     (v, s) \<leftarrow> prvulSMBusHardwareRead SMBUS_REG_TGT_RX_FIFO_STATUS s;
     Some (drop_bit SMBUS_TGT_RX_FIFO_STATUS_ALMOST_EMPTY_FIELD_POSITION (v AND SMBUS_TGT_RX_FIFO_STATUS_ALMOST_EMPTY_MASK), s) }"

definition ulSMBusHWReadTgtRxFifoStatusEmpty :: "'w smbus \<Rightarrow> (u32 \<times> 'w smbus) option" where
  "ulSMBusHWReadTgtRxFifoStatusEmpty s = do {
     (v, s) \<leftarrow> prvulSMBusHardwareRead SMBUS_REG_TGT_RX_FIFO_STATUS s;
     Some (v AND SMBUS_TGT_RX_FIFO_STATUS_EMPTY_MASK, s) }"

definition ulSMBusHWReadTgtRxFifoFillThresholdFillThresh :: "'w smbus \<Rightarrow> (u32 \<times> 'w smbus) option" where
  "ulSMBusHWReadTgtRxFifoFillThresholdFillThresh s = do {
     (v, s) \<leftarrow> prvulSMBusHardwareRead SMBUS_REG_TGT_RX_FIFO_FILL_THRESHOLD s;
     Some (v AND SMBUS_TGT_RX_FIFO_FILL_THRESHOLD_FILL_THRESHOLD_MASK, s) }"

definition ulSMBusHWReadTgtDbg :: "'w smbus \<Rightarrow> (u32 \<times> 'w smbus) option" where
  "ulSMBusHWReadTgtDbg s = do {
     (v, s) \<leftarrow> prvulSMBusHardwareRead SMBUS_REG_TGT_DBG s;
     Some (v AND SMBUS_TGT_DBG_DBG_STATE_MASK, s) }"

definition ulSMBusHWReadTgtControl0Enable :: "'w smbus \<Rightarrow> (u32 \<times> 'w smbus) option" where
  "ulSMBusHWReadTgtControl0Enable s = do {
     (v, s) \<leftarrow> prvulSMBusHardwareRead SMBUS_REG_TGT_CONTROL_0 s;
     Some (drop_bit SMBUS_TGT_CONTROL_0_ENABLE_FIELD_POSITION (v AND SMBUS_TGT_CONTROL_0_ENABLE_MASK), s) }"

definition ulSMBusHWReadTgtControl0Address :: "'w smbus \<Rightarrow> (u32 \<times> 'w smbus) option" where
  "ulSMBusHWReadTgtControl0Address s = do {
     (v, s) \<leftarrow> prvulSMBusHardwareRead SMBUS_REG_TGT_CONTROL_0 s;
     Some (drop_bit SMBUS_TGT_CONTROL_0_ADDRESS_FIELD_POSITION (v AND SMBUS_TGT_CONTROL_0_ADDRESS_MASK), s) }"

definition ulSMBusHWReadTgtControl1Enable :: "'w smbus \<Rightarrow> (u32 \<times> 'w smbus) option" where
  "ulSMBusHWReadTgtControl1Enable s = do {
     (v, s) \<leftarrow> prvulSMBusHardwareRead SMBUS_REG_TGT_CONTROL_1 s;
     Some (drop_bit SMBUS_TGT_CONTROL_1_ENABLE_FIELD_POSITION (v AND SMBUS_TGT_CONTROL_1_ENABLE_MASK), s) }"

definition ulSMBusHWReadTgtControl1Address :: "'w smbus \<Rightarrow> (u32 \<times> 'w smbus) option" where
  "ulSMBusHWReadTgtControl1Address s = do {
     (v, s) \<leftarrow> prvulSMBusHardwareRead SMBUS_REG_TGT_CONTROL_1 s;
     Some (drop_bit SMBUS_TGT_CONTROL_1_ADDRESS_FIELD_POSITION (v AND SMBUS_TGT_CONTROL_1_ADDRESS_MASK), s) }"

definition ulSMBusHWReadTgtControl2Enable :: "'w smbus \<Rightarrow> (u32 \<times> 'w smbus) option" where
  "ulSMBusHWReadTgtControl2Enable s = do {
     (v, s) \<leftarrow> prvulSMBusHardwareRead SMBUS_REG_TGT_CONTROL_2 s;
     Some (drop_bit SMBUS_TGT_CONTROL_2_ENABLE_FIELD_POSITION (v AND SMBUS_TGT_CONTROL_2_ENABLE_MASK), s) }"

definition ulSMBusHWReadTgtControl2Address :: "'w smbus \<Rightarrow> (u32 \<times> 'w smbus) option" where
  "ulSMBusHWReadTgtControl2Address s = do {
     (v, s) \<leftarrow> prvulSMBusHardwareRead SMBUS_REG_TGT_CONTROL_2 s;
     Some (drop_bit SMBUS_TGT_CONTROL_2_ADDRESS_FIELD_POSITION (v AND SMBUS_TGT_CONTROL_2_ADDRESS_MASK), s) }"

definition ulSMBusHWReadTgtControl3Enable :: "'w smbus \<Rightarrow> (u32 \<times> 'w smbus) option" where
  "ulSMBusHWReadTgtControl3Enable s = do {
     (v, s) \<leftarrow> prvulSMBusHardwareRead SMBUS_REG_TGT_CONTROL_3 s;
     Some (drop_bit SMBUS_TGT_CONTROL_3_ENABLE_FIELD_POSITION (v AND SMBUS_TGT_CONTROL_3_ENABLE_MASK), s) }"

definition ulSMBusHWReadTgtControl3Address :: "'w smbus \<Rightarrow> (u32 \<times> 'w smbus) option" where
  "ulSMBusHWReadTgtControl3Address s = do {
     (v, s) \<leftarrow> prvulSMBusHardwareRead SMBUS_REG_TGT_CONTROL_3 s;
     Some (drop_bit SMBUS_TGT_CONTROL_3_ADDRESS_FIELD_POSITION (v AND SMBUS_TGT_CONTROL_3_ADDRESS_MASK), s) }"

definition ulSMBusHWReadTgtControl4Enable :: "'w smbus \<Rightarrow> (u32 \<times> 'w smbus) option" where
  "ulSMBusHWReadTgtControl4Enable s = do {
     (v, s) \<leftarrow> prvulSMBusHardwareRead SMBUS_REG_TGT_CONTROL_4 s;
     Some (drop_bit SMBUS_TGT_CONTROL_4_ENABLE_FIELD_POSITION (v AND SMBUS_TGT_CONTROL_4_ENABLE_MASK), s) }"

definition ulSMBusHWReadTgtControl4Address :: "'w smbus \<Rightarrow> (u32 \<times> 'w smbus) option" where
  "ulSMBusHWReadTgtControl4Address s = do {
     (v, s) \<leftarrow> prvulSMBusHardwareRead SMBUS_REG_TGT_CONTROL_4 s;
     Some (drop_bit SMBUS_TGT_CONTROL_4_ADDRESS_FIELD_POSITION (v AND SMBUS_TGT_CONTROL_4_ADDRESS_MASK), s) }"

definition ulSMBusHWReadTgtControl5Enable :: "'w smbus \<Rightarrow> (u32 \<times> 'w smbus) option" where
  "ulSMBusHWReadTgtControl5Enable s = do {
     (v, s) \<leftarrow> prvulSMBusHardwareRead SMBUS_REG_TGT_CONTROL_5 s;
     Some (drop_bit SMBUS_TGT_CONTROL_5_ENABLE_FIELD_POSITION (v AND SMBUS_TGT_CONTROL_5_ENABLE_MASK), s) }"

definition ulSMBusHWReadTgtControl5Address :: "'w smbus \<Rightarrow> (u32 \<times> 'w smbus) option" where
  "ulSMBusHWReadTgtControl5Address s = do {
     (v, s) \<leftarrow> prvulSMBusHardwareRead SMBUS_REG_TGT_CONTROL_5 s;
     Some (drop_bit SMBUS_TGT_CONTROL_5_ADDRESS_FIELD_POSITION (v AND SMBUS_TGT_CONTROL_5_ADDRESS_MASK), s) }"

definition ulSMBusHWReadTgtControl6Enable :: "'w smbus \<Rightarrow> (u32 \<times> 'w smbus) option" where
  "ulSMBusHWReadTgtControl6Enable s = do {
     (v, s) \<leftarrow> prvulSMBusHardwareRead SMBUS_REG_TGT_CONTROL_6 s;
     Some (drop_bit SMBUS_TGT_CONTROL_6_ENABLE_FIELD_POSITION (v AND SMBUS_TGT_CONTROL_6_ENABLE_MASK), s) }"

definition ulSMBusHWReadTgtControl6Address :: "'w smbus \<Rightarrow> (u32 \<times> 'w smbus) option" where
  "ulSMBusHWReadTgtControl6Address s = do {
     (v, s) \<leftarrow> prvulSMBusHardwareRead SMBUS_REG_TGT_CONTROL_6 s;
     Some (drop_bit SMBUS_TGT_CONTROL_6_ADDRESS_FIELD_POSITION (v AND SMBUS_TGT_CONTROL_6_ADDRESS_MASK), s) }"

definition ulSMBusHWReadTgtControl7Enable :: "'w smbus \<Rightarrow> (u32 \<times> 'w smbus) option" where
  "ulSMBusHWReadTgtControl7Enable s = do {
     (v, s) \<leftarrow> prvulSMBusHardwareRead SMBUS_REG_TGT_CONTROL_7 s;
     Some (drop_bit SMBUS_TGT_CONTROL_7_ENABLE_FIELD_POSITION (v AND SMBUS_TGT_CONTROL_7_ENABLE_MASK), s) }"

definition ulSMBusHWReadTgtControl7Address :: "'w smbus \<Rightarrow> (u32 \<times> 'w smbus) option" where
  "ulSMBusHWReadTgtControl7Address s = do {
     (v, s) \<leftarrow> prvulSMBusHardwareRead SMBUS_REG_TGT_CONTROL_7 s;
     Some (drop_bit SMBUS_TGT_CONTROL_7_ADDRESS_FIELD_POSITION (v AND SMBUS_TGT_CONTROL_7_ADDRESS_MASK), s) }"

definition ulSMBusHWReadPHYCtrlDataHold :: "'w smbus \<Rightarrow> (u32 \<times> 'w smbus) option" where
  "ulSMBusHWReadPHYCtrlDataHold s = do {
     (v, s) \<leftarrow> prvulSMBusHardwareRead SMBUS_REG_PHY_CTLR_DATA_HOLD s;
     Some (v AND SMBUS_PHY_CTLR_DATA_HOLD_CTLR_DATA_HOLD_MASK, s) }"

definition ulSMBusHWReadPHYCtrlStartHold :: "'w smbus \<Rightarrow> (u32 \<times> 'w smbus) option" where
  "ulSMBusHWReadPHYCtrlStartHold s = do {
     (v, s) \<leftarrow> prvulSMBusHardwareRead SMBUS_REG_PHY_CTLR_START_HOLD s;
     Some (v AND SMBUS_PHY_CTLR_START_HOLD_CTLR_START_HOLD_MASK, s) }"

definition ulSMBusHWReadPHYCtrlStartSetup :: "'w smbus \<Rightarrow> (u32 \<times> 'w smbus) option" where
  "ulSMBusHWReadPHYCtrlStartSetup s = do {
     (v, s) \<leftarrow> prvulSMBusHardwareRead SMBUS_REG_PHY_CTLR_START_SETUP s;
     Some (v AND SMBUS_PHY_CTLR_START_SETUP_CTLR_START_SETUP_MASK, s) }"

definition ulSMBusHWReadPHYCtrlStopSetup :: "'w smbus \<Rightarrow> (u32 \<times> 'w smbus) option" where
  "ulSMBusHWReadPHYCtrlStopSetup s = do {
     (v, s) \<leftarrow> prvulSMBusHardwareRead SMBUS_REG_PHY_CTLR_STOP_SETUP s;
     Some (v AND SMBUS_PHY_CTLR_STOP_SETUP_CTLR_STOP_SETUP_MASK, s) }"

definition ulSMBusHWReadPHYCtrlClkTLow :: "'w smbus \<Rightarrow> (u32 \<times> 'w smbus) option" where
  "ulSMBusHWReadPHYCtrlClkTLow s = do {
     (v, s) \<leftarrow> prvulSMBusHardwareRead SMBUS_REG_PHY_CTLR_CLK_TLOW s;
     Some (v AND SMBUS_PHY_CTLR_CLK_TLOW_CTLR_CLK_TLOW_MASK, s) }"

definition ulSMBusHWReadPHYCtrlClkTHigh :: "'w smbus \<Rightarrow> (u32 \<times> 'w smbus) option" where
  "ulSMBusHWReadPHYCtrlClkTHigh s = do {
     (v, s) \<leftarrow> prvulSMBusHardwareRead SMBUS_REG_PHY_CTLR_CLK_THIGH s;
     Some (v AND SMBUS_PHY_CTLR_CLK_THIGH_CTLR_CLK_THIGH_MASK, s) }"

definition ulSMBusHWReadPHYCtrlTextPrescaler :: "'w smbus \<Rightarrow> (u32 \<times> 'w smbus) option" where
  "ulSMBusHWReadPHYCtrlTextPrescaler s = do {
     (v, s) \<leftarrow> prvulSMBusHardwareRead SMBUS_REG_PHY_CTLR_TEXT_PRESCALER s;
     Some (v AND SMBUS_PHY_CTLR_TEXT_PRESCALER_CTLR_TEXT_PRESCALER_MASK, s) }"

definition ulSMBusHWReadPHYCtrlTextTimeout :: "'w smbus \<Rightarrow> (u32 \<times> 'w smbus) option" where
  "ulSMBusHWReadPHYCtrlTextTimeout s = do {
     (v, s) \<leftarrow> prvulSMBusHardwareRead SMBUS_REG_PHY_CTLR_TEXT_TIMEOUT s;
     Some (v AND SMBUS_PHY_CTLR_TEXT_TIMEOUT_CTLR_TEXT_TIMEOUT_MASK, s) }"

definition ulSMBusHWReadPHYCtrlTextMax :: "'w smbus \<Rightarrow> (u32 \<times> 'w smbus) option" where
  "ulSMBusHWReadPHYCtrlTextMax s = do {
     (v, s) \<leftarrow> prvulSMBusHardwareRead SMBUS_REG_PHY_CTLR_TEXT_MAX s;
     Some (v AND SMBUS_PHY_CTLR_TEXT_MAX_CTLR_TEXT_MAX_MASK, s) }"

definition ulSMBusHWReadPHYCtrlCextPrescaler :: "'w smbus \<Rightarrow> (u32 \<times> 'w smbus) option" where
  "ulSMBusHWReadPHYCtrlCextPrescaler s = do {
     (v, s) \<leftarrow> prvulSMBusHardwareRead SMBUS_REG_PHY_CTLR_CEXT_PRESCALER s;
     Some (v AND SMBUS_PHY_CTLR_CEXT_PRESCALER_CTLR_CEXT_PRESCALER_MASK, s) }"

definition ulSMBusHWReadPHYCtrlCextTimeout :: "'w smbus \<Rightarrow> (u32 \<times> 'w smbus) option" where
  "ulSMBusHWReadPHYCtrlCextTimeout s = do {
     (v, s) \<leftarrow> prvulSMBusHardwareRead SMBUS_REG_PHY_CTLR_CEXT_TIMEOUT s;
     Some (v AND SMBUS_PHY_CTLR_CEXT_TIMEOUT_CTLR_CEXT_TIMEOUT_MASK, s) }"

definition ulSMBusHWReadPHYCtrlCextMax :: "'w smbus \<Rightarrow> (u32 \<times> 'w smbus) option" where
  "ulSMBusHWReadPHYCtrlCextMax s = do {
     (v, s) \<leftarrow> prvulSMBusHardwareRead SMBUS_REG_PHY_CTLR_CEXT_MAX s;
     Some (v AND SMBUS_PHY_CTLR_CEXT_MAX_CTLR_CEXT_MAX_MASK, s) }"

definition ulSMBusHWReadPHYCtrlDbgState :: "'w smbus \<Rightarrow> (u32 \<times> 'w smbus) option" where
  "ulSMBusHWReadPHYCtrlDbgState s = do {
     (v, s) \<leftarrow> prvulSMBusHardwareRead SMBUS_REG_PHY_CTLR_DBG_STATE s;
     Some (v AND SMBUS_PHY_CTLR_DBG_STATE_DBG_STATE_MASK, s) }"

definition ulSMBusHWReadCtrlStatusEnable :: "'w smbus \<Rightarrow> (u32 \<times> 'w smbus) option" where
  "ulSMBusHWReadCtrlStatusEnable s = do {
     (v, s) \<leftarrow> prvulSMBusHardwareRead SMBUS_REG_CTLR_STATUS s;
     Some (v AND SMBUS_CTLR_STATUS_ENABLE_MASK, s) }"

definition ulSMBusHWReadCtrlDescStatusFillLevel :: "'w smbus \<Rightarrow> (u32 \<times> 'w smbus) option" where
  "ulSMBusHWReadCtrlDescStatusFillLevel s = do {
     (v, s) \<leftarrow> prvulSMBusHardwareRead SMBUS_REG_CTLR_DESC_STATUS s;
     Some (drop_bit SMBUS_CTLR_DESC_STATUS_FILL_LEVEL_FIELD_POSITION (v AND SMBUS_CTLR_DESC_STATUS_FILL_LEVEL_MASK), s) }"

definition ulSMBusHWReadCtrlDescStatusResetBusy :: "'w smbus \<Rightarrow> (u32 \<times> 'w smbus) option" where
  "ulSMBusHWReadCtrlDescStatusResetBusy s = do {
     (v, s) \<leftarrow> prvulSMBusHardwareRead SMBUS_REG_CTLR_DESC_STATUS s;
     Some (drop_bit SMBUS_CTLR_DESC_STATUS_RESET_BUSY_FIELD_POSITION (v AND SMBUS_CTLR_DESC_STATUS_RESET_BUSY_MASK), s) }"

definition ulSMBusHWReadCtrlDescStatusFull :: "'w smbus \<Rightarrow> (u32 \<times> 'w smbus) option" where
  "ulSMBusHWReadCtrlDescStatusFull s = do {
     (v, s) \<leftarrow> prvulSMBusHardwareRead SMBUS_REG_CTLR_DESC_STATUS s;
     Some (drop_bit SMBUS_CTLR_DESC_STATUS_FULL_FIELD_POSITION (v AND SMBUS_CTLR_DESC_STATUS_FULL_MASK), s) }"

definition ulSMBusHWReadCtrlDescStatusAlmostFull :: "'w smbus \<Rightarrow> (u32 \<times> 'w smbus) option" where
  "ulSMBusHWReadCtrlDescStatusAlmostFull s = do {
     (v, s) \<leftarrow> prvulSMBusHardwareRead SMBUS_REG_CTLR_DESC_STATUS s;
     Some (drop_bit SMBUS_CTLR_DESC_STATUS_ALMOST_FULL_FIELD_POSITION (v AND SMBUS_CTLR_DESC_STATUS_ALMOST_FULL_MASK), s) }"

definition ulSMBusHWReadCtrlDescStatusAlmostEmpty :: "'w smbus \<Rightarrow> (u32 \<times> 'w smbus) option" where
  "ulSMBusHWReadCtrlDescStatusAlmostEmpty s = do {
     (v, s) \<leftarrow> prvulSMBusHardwareRead SMBUS_REG_CTLR_DESC_STATUS s;
     Some (drop_bit SMBUS_CTLR_DESC_STATUS_ALMOST_EMPTY_FIELD_POSITION (v AND SMBUS_CTLR_DESC_STATUS_ALMOST_EMPTY_MASK), s) }"

definition ulSMBusHWReadCtrlDescStatusEmpty :: "'w smbus \<Rightarrow> (u32 \<times> 'w smbus) option" where
  "ulSMBusHWReadCtrlDescStatusEmpty s = do {
     (v, s) \<leftarrow> prvulSMBusHardwareRead SMBUS_REG_CTLR_DESC_STATUS s;
     Some (v AND SMBUS_CTLR_DESC_STATUS_EMPTY_MASK, s) }"

definition ulSMBusHWReadCtrlRxFifoPayload :: "'w smbus \<Rightarrow> (u32 \<times> 'w smbus) option" where
  "ulSMBusHWReadCtrlRxFifoPayload s = do {
     (v, s) \<leftarrow> prvulSMBusHardwareRead SMBUS_REG_CTLR_RX_FIFO s;
     Some (drop_bit SMBUS_CTLR_RX_FIFO_PAYLOAD_FIELD_POSITION (v AND SMBUS_CTLR_RX_FIFO_PAYLOAD_MASK), s) }"

definition ulSMBusHWReadCtrlRxFifoStatusFillLevel :: "'w smbus \<Rightarrow> (u32 \<times> 'w smbus) option" where
  "ulSMBusHWReadCtrlRxFifoStatusFillLevel s = do {
     (v, s) \<leftarrow> prvulSMBusHardwareRead SMBUS_REG_CTLR_RX_FIFO_STATUS s;
     Some (drop_bit SMBUS_CTLR_RX_FIFO_STATUS_FILL_LEVEL_FIELD_POSITION (v AND SMBUS_CTLR_RX_FIFO_STATUS_FILL_LEVEL_MASK), s) }"

definition ulSMBusHWReadCtrlRxFifoStatusResetBusy :: "'w smbus \<Rightarrow> (u32 \<times> 'w smbus) option" where
  "ulSMBusHWReadCtrlRxFifoStatusResetBusy s = do {
     (v, s) \<leftarrow> prvulSMBusHardwareRead SMBUS_REG_CTLR_RX_FIFO_STATUS s;
     Some (drop_bit SMBUS_CTLR_RX_FIFO_STATUS_RESET_BUSY_FIELD_POSITION (v AND SMBUS_CTLR_RX_FIFO_STATUS_RESET_BUSY_MASK), s) }"

definition ulSMBusHWReadCtrlRxFifoStatusFull :: "'w smbus \<Rightarrow> (u32 \<times> 'w smbus) option" where
  "ulSMBusHWReadCtrlRxFifoStatusFull s = do {
     (v, s) \<leftarrow> prvulSMBusHardwareRead SMBUS_REG_CTLR_RX_FIFO_STATUS s;
     Some (drop_bit SMBUS_CTLR_RX_FIFO_STATUS_FULL_FIELD_POSITION (v AND SMBUS_CTLR_RX_FIFO_STATUS_FULL_MASK), s) }"

definition ulSMBusHWReadCtrlRxFifoStatusAlmostFull :: "'w smbus \<Rightarrow> (u32 \<times> 'w smbus) option" where
  "ulSMBusHWReadCtrlRxFifoStatusAlmostFull s = do {
     (v, s) \<leftarrow> prvulSMBusHardwareRead SMBUS_REG_CTLR_RX_FIFO_STATUS s;
     Some (drop_bit SMBUS_CTLR_RX_FIFO_STATUS_ALMOST_FULL_FIELD_POSITION (v AND SMBUS_CTLR_RX_FIFO_STATUS_ALMOST_FULL_MASK), s) }"

definition ulSMBusHWReadCtrlRxFifoStatusAlmostEmpty :: "'w smbus \<Rightarrow> (u32 \<times> 'w smbus) option" where
  "ulSMBusHWReadCtrlRxFifoStatusAlmostEmpty s = do {
     (v, s) \<leftarrow> prvulSMBusHardwareRead SMBUS_REG_CTLR_RX_FIFO_STATUS s;
     Some (drop_bit SMBUS_CTLR_RX_FIFO_STATUS_ALMOST_EMPTY_FIELD_POSITION (v AND SMBUS_CTLR_RX_FIFO_STATUS_ALMOST_EMPTY_MASK), s) }"

definition ulSMBusHWReadCtrlRxFifoStatusEmpty :: "'w smbus \<Rightarrow> (u32 \<times> 'w smbus) option" where
  "ulSMBusHWReadCtrlRxFifoStatusEmpty s = do {
     (v, s) \<leftarrow> prvulSMBusHardwareRead SMBUS_REG_CTLR_RX_FIFO_STATUS s;
     Some (v AND SMBUS_CTLR_RX_FIFO_STATUS_EMPTY_MASK, s) }"

definition ulSMBusHWReadCtrlRxFifoFillThresholdFillThresh :: "'w smbus \<Rightarrow> (u32 \<times> 'w smbus) option" where
  "ulSMBusHWReadCtrlRxFifoFillThresholdFillThresh s = do {
     (v, s) \<leftarrow> prvulSMBusHardwareRead SMBUS_REG_CTLR_RX_FIFO_FILL_THRESHOLD s;
     Some (v AND SMBUS_CTLR_RX_FIFO_FILL_THRESHOLD_FILL_THRESHOLD_MASK, s) }"

definition ulSMBusHWReadCtrlDbgState :: "'w smbus \<Rightarrow> (u32 \<times> 'w smbus) option" where
  "ulSMBusHWReadCtrlDbgState s = do {
     (v, s) \<leftarrow> prvulSMBusHardwareRead SMBUS_REG_CTLR_DBG s;
     Some (v AND SMBUS_CTLR_DBG_DBG_STATE_MASK, s) }"

section \<open>Writing registers and fields\<close>

definition vSMBusHWWriteIRQGIEEnable :: "u32 \<Rightarrow> 'w smbus \<Rightarrow> 'w smbus option" where
  "vSMBusHWWriteIRQGIEEnable ulValue s =
     prvvSMBusHardwareWrite SMBUS_REG_IRQ_GIE ulValue s"

definition vSMBusHWWriteIRQIER :: "u32 \<Rightarrow> 'w smbus \<Rightarrow> 'w smbus option" where
  "vSMBusHWWriteIRQIER ulValue s =
     prvvSMBusHardwareWrite SMBUS_REG_IRQ_IER ulValue s"

definition vSMBusHWWriteIRQISR :: "u32 \<Rightarrow> 'w smbus \<Rightarrow> 'w smbus option" where
  "vSMBusHWWriteIRQISR ulValue s =
     prvvSMBusHardwareWrite SMBUS_REG_IRQ_ISR ulValue s"

definition vSMBusHWWriteERRIRQIER :: "u32 \<Rightarrow> 'w smbus \<Rightarrow> 'w smbus option" where
  "vSMBusHWWriteERRIRQIER ulValue s =
     prvvSMBusHardwareWrite SMBUS_REG_ERR_IRQ_IER ulValue s"

definition vSMBusHWWriteERRIRQISR :: "u32 \<Rightarrow> 'w smbus \<Rightarrow> 'w smbus option" where
  "vSMBusHWWriteERRIRQISR ulValue s =
     prvvSMBusHardwareWrite SMBUS_REG_ERR_IRQ_ISR ulValue s"

definition vSMBusHWWritePHYFilterControlEnable :: "u32 \<Rightarrow> 'w smbus \<Rightarrow> 'w smbus option" where
  "vSMBusHWWritePHYFilterControlEnable ulValue s =
     prvvSMBusHardwareWriteWithMask SMBUS_REG_PHY_FILTER_CONTROL SMBUS_PHY_FILTER_CONTROL_ENABLE_MASK (push_bit SMBUS_PHY_FILTER_CONTROL_ENABLE_FIELD_POSITION ulValue) s"

definition vSMBusHWWritePHYFilterControlDuration :: "u32 \<Rightarrow> 'w smbus \<Rightarrow> 'w smbus option" where
  "vSMBusHWWritePHYFilterControlDuration ulValue s =
     prvvSMBusHardwareWriteWithMask SMBUS_REG_PHY_FILTER_CONTROL SMBUS_PHY_FILTER_CONTROL_DURATION_MASK ulValue s"

definition vSMBusHWWritePHYBusFreetime :: "u32 \<Rightarrow> 'w smbus \<Rightarrow> 'w smbus option" where
  "vSMBusHWWritePHYBusFreetime ulValue s =
     prvvSMBusHardwareWrite SMBUS_REG_PHY_BUS_FREE_TIME ulValue s"

definition vSMBusHWWritePHYIdleThresholdIdleThreshold :: "u32 \<Rightarrow> 'w smbus \<Rightarrow> 'w smbus option" where
  "vSMBusHWWritePHYIdleThresholdIdleThreshold ulValue s =
     prvvSMBusHardwareWriteWithMask SMBUS_REG_PHY_IDLE_THRESHOLD SMBUS_PHY_IDLE_THRESHOLD_IDLE_THRESHOLD_MASK ulValue s"

definition vSMBusHWWritePHYTimeoutPrescaler :: "u32 \<Rightarrow> 'w smbus \<Rightarrow> 'w smbus option" where
  "vSMBusHWWritePHYTimeoutPrescaler ulValue s =
     prvvSMBusHardwareWrite SMBUS_REG_PHY_TIMEOUT_PRESCALER ulValue s"

definition vSMBusHWWritePHYTimeoutMin :: "u32 \<Rightarrow> 'w smbus \<Rightarrow> 'w smbus option" where
  "vSMBusHWWritePHYTimeoutMin ulValue s =
     prvvSMBusHardwareWrite SMBUS_REG_PHY_TIMEOUT_MIN ulValue s"

definition vSMBusHWWritePHYTimeoutMinTimeoutEnable :: "u32 \<Rightarrow> 'w smbus \<Rightarrow> 'w smbus option" where
  "vSMBusHWWritePHYTimeoutMinTimeoutEnable ulValue s =
     prvvSMBusHardwareWriteWithMask SMBUS_REG_PHY_TIMEOUT_MIN SMBUS_PHY_TIMEOUT_MIN_TIMEOUT_ENABLE_MASK (push_bit SMBUS_PHY_TIMEOUT_MIN_TIMEOUT_ENABLE_FIELD_POSITION ulValue) s"

definition vSMBusHWWritePHYTimeoutMinTimeoutMin :: "u32 \<Rightarrow> 'w smbus \<Rightarrow> 'w smbus option" where
  "vSMBusHWWritePHYTimeoutMinTimeoutMin ulValue s =
     prvvSMBusHardwareWriteWithMask SMBUS_REG_PHY_TIMEOUT_MIN SMBUS_PHY_TIMEOUT_MIN_TIMEOUT_MIN_MASK ulValue s"

definition vSMBusHWWritePHYTimeoutMax :: "u32 \<Rightarrow> 'w smbus \<Rightarrow> 'w smbus option" where
  "vSMBusHWWritePHYTimeoutMax ulValue s =
     prvvSMBusHardwareWrite SMBUS_REG_PHY_TIMEOUT_MAX ulValue s"

definition vSMBusHWWritePHYResetControlSMBClkForceTimeout :: "u32 \<Rightarrow> 'w smbus \<Rightarrow> 'w smbus option" where
  "vSMBusHWWritePHYResetControlSMBClkForceTimeout ulValue s =
     prvvSMBusHardwareWriteWithMask SMBUS_REG_PHY_RESET_CONTROL SMBUS_PHY_RESET_CONTROL_SMBCLK_FORCE_TIMEOUT_MASK (push_bit SMBUS_PHY_RESET_CONTROL_SMBCLK_FORCE_TIMEOUT_FIELD_POSITION ulValue) s"

definition vSMBusHWWritePHYResetControlSMBClkForceLow :: "u32 \<Rightarrow> 'w smbus \<Rightarrow> 'w smbus option" where
  "vSMBusHWWritePHYResetControlSMBClkForceLow ulValue s =
     prvvSMBusHardwareWriteWithMask SMBUS_REG_PHY_RESET_CONTROL SMBUS_PHY_RESET_CONTROL_SMBCLK_FORCE_LOW_MASK ulValue s"

definition vSMBusHWWritePHYTgtDataSetupTgtDataSetup :: "u32 \<Rightarrow> 'w smbus \<Rightarrow> 'w smbus option" where
  "vSMBusHWWritePHYTgtDataSetupTgtDataSetup ulValue s =
     prvvSMBusHardwareWriteWithMask SMBUS_REG_PHY_TGT_DATA_SETUP SMBUS_PHY_TGT_DATA_SETUP_TGT_DATA_SETUP_MASK ulValue s"

definition vSMBusHWWritePHYTgtTextPrescaler :: "u32 \<Rightarrow> 'w smbus \<Rightarrow> 'w smbus option" where
  "vSMBusHWWritePHYTgtTextPrescaler ulValue s =
     prvvSMBusHardwareWrite SMBUS_REG_PHY_TGT_TEXT_PRESCALER ulValue s"

definition vSMBusHWWritePHYTgtTextTimeout :: "u32 \<Rightarrow> 'w smbus \<Rightarrow> 'w smbus option" where
  "vSMBusHWWritePHYTgtTextTimeout ulValue s =
     prvvSMBusHardwareWrite SMBUS_REG_PHY_TGT_TEXT_TIMEOUT ulValue s"

definition vSMBusHWWritePHYTgtTextMax :: "u32 \<Rightarrow> 'w smbus \<Rightarrow> 'w smbus option" where
  "vSMBusHWWritePHYTgtTextMax ulValue s =
     prvvSMBusHardwareWrite SMBUS_REG_PHY_TGT_TEXT_MAX ulValue s"

definition vSMBusHWWritePHYTgtDataHold :: "u32 \<Rightarrow> 'w smbus \<Rightarrow> 'w smbus option" where
  "vSMBusHWWritePHYTgtDataHold ulValue s =
     prvvSMBusHardwareWrite SMBUS_REG_PHY_TGT_DATA_HOLD ulValue s"

definition vSMBusHWWriteTgtDescFifo :: "u32 \<Rightarrow> 'w smbus \<Rightarrow> 'w smbus option" where
  "vSMBusHWWriteTgtDescFifo ulValue s =
     prvvSMBusHardwareWrite SMBUS_REG_TGT_DESC_FIFO ulValue s"

definition vSMBusHWWriteTgtDescFifoId :: "u32 \<Rightarrow> 'w smbus \<Rightarrow> 'w smbus option" where
  "vSMBusHWWriteTgtDescFifoId ulValue s =
     prvvSMBusHardwareWriteWithMask SMBUS_REG_TGT_DESC_FIFO SMBUS_TGT_DESC_FIFO_ID_MASK (push_bit SMBUS_TGT_DESC_FIFO_ID_FIELD_POSITION ulValue) s"

definition vSMBusHWWriteTgtDescFifoPayload :: "u32 \<Rightarrow> 'w smbus \<Rightarrow> 'w smbus option" where
  "vSMBusHWWriteTgtDescFifoPayload ulValue s =
     prvvSMBusHardwareWriteWithMask SMBUS_REG_TGT_DESC_FIFO SMBUS_TGT_DESC_FIFO_PAYLOAD_MASK ulValue s"

definition vSMBusHWWriteTgtRxFifoReset :: "u32 \<Rightarrow> 'w smbus \<Rightarrow> 'w smbus option" where
  "vSMBusHWWriteTgtRxFifoReset ulValue s =
     prvvSMBusHardwareWrite SMBUS_REG_TGT_RX_FIFO (push_bit SMBUS_TGT_RX_FIFO_RESET_FIELD_POSITION ulValue) s"

definition vSMBusHWWriteRxFifoFillThresholdFillThresh :: "u32 \<Rightarrow> 'w smbus \<Rightarrow> 'w smbus option" where
  "vSMBusHWWriteRxFifoFillThresholdFillThresh ulValue s =
     prvvSMBusHardwareWrite SMBUS_REG_TGT_RX_FIFO_FILL_THRESHOLD (SMBUS_TGT_RX_FIFO_FILL_THRESHOLD_FILL_THRESHOLD_MASK AND ulValue) s"

definition prvvSMBusHWWriteTgtControl0Enable :: "u32 \<Rightarrow> 'w smbus \<Rightarrow> 'w smbus option" where
  "prvvSMBusHWWriteTgtControl0Enable ulValue s =
     prvvSMBusHardwareWriteWithMask SMBUS_REG_TGT_CONTROL_0 SMBUS_TGT_CONTROL_0_ENABLE_MASK (push_bit SMBUS_TGT_CONTROL_0_ENABLE_FIELD_POSITION ulValue) s"

definition prvvSMBusHWWriteTgtControl0Address :: "u32 \<Rightarrow> 'w smbus \<Rightarrow> 'w smbus option" where
  "prvvSMBusHWWriteTgtControl0Address ulValue s =
     prvvSMBusHardwareWriteWithMask SMBUS_REG_TGT_CONTROL_0 SMBUS_TGT_CONTROL_0_ADDRESS_MASK (push_bit SMBUS_TGT_CONTROL_0_ADDRESS_FIELD_POSITION ulValue) s"

definition prvvSMBusHWWriteTgtControl1Enable :: "u32 \<Rightarrow> 'w smbus \<Rightarrow> 'w smbus option" where
  "prvvSMBusHWWriteTgtControl1Enable ulValue s =
     prvvSMBusHardwareWriteWithMask SMBUS_REG_TGT_CONTROL_1 SMBUS_TGT_CONTROL_1_ENABLE_MASK (push_bit SMBUS_TGT_CONTROL_1_ENABLE_FIELD_POSITION ulValue) s"

definition prvvSMBusHWWriteTgtControl1Address :: "u32 \<Rightarrow> 'w smbus \<Rightarrow> 'w smbus option" where
  "prvvSMBusHWWriteTgtControl1Address ulValue s =
     prvvSMBusHardwareWriteWithMask SMBUS_REG_TGT_CONTROL_1 SMBUS_TGT_CONTROL_1_ADDRESS_MASK (push_bit SMBUS_TGT_CONTROL_1_ADDRESS_FIELD_POSITION ulValue) s"

definition prvvSMBusHWWriteTgtControl2Enable :: "u32 \<Rightarrow> 'w smbus \<Rightarrow> 'w smbus option" where
  "prvvSMBusHWWriteTgtControl2Enable ulValue s =
     prvvSMBusHardwareWriteWithMask SMBUS_REG_TGT_CONTROL_2 SMBUS_TGT_CONTROL_2_ENABLE_MASK (push_bit SMBUS_TGT_CONTROL_2_ENABLE_FIELD_POSITION ulValue) s"

definition prvvSMBusHWWriteTgtControl2Address :: "u32 \<Rightarrow> 'w smbus \<Rightarrow> 'w smbus option" where
  "prvvSMBusHWWriteTgtControl2Address ulValue s =
     prvvSMBusHardwareWriteWithMask SMBUS_REG_TGT_CONTROL_2 SMBUS_TGT_CONTROL_2_ADDRESS_MASK (push_bit SMBUS_TGT_CONTROL_2_ADDRESS_FIELD_POSITION ulValue) s"

definition prvvSMBusHWWriteTgtControl3Enable :: "u32 \<Rightarrow> 'w smbus \<Rightarrow> 'w smbus option" where
  "prvvSMBusHWWriteTgtControl3Enable ulValue s =
     prvvSMBusHardwareWriteWithMask SMBUS_REG_TGT_CONTROL_3 SMBUS_TGT_CONTROL_3_ENABLE_MASK (push_bit SMBUS_TGT_CONTROL_3_ENABLE_FIELD_POSITION ulValue) s"

definition prvvSMBusHWWriteTgtControl3Address :: "u32 \<Rightarrow> 'w smbus \<Rightarrow> 'w smbus option" where
  "prvvSMBusHWWriteTgtControl3Address ulValue s =
     prvvSMBusHardwareWriteWithMask SMBUS_REG_TGT_CONTROL_3 SMBUS_TGT_CONTROL_3_ADDRESS_MASK (push_bit SMBUS_TGT_CONTROL_3_ADDRESS_FIELD_POSITION ulValue) s"

definition prvvSMBusHWWriteTgtControl4Enable :: "u32 \<Rightarrow> 'w smbus \<Rightarrow> 'w smbus option" where
  "prvvSMBusHWWriteTgtControl4Enable ulValue s =
     prvvSMBusHardwareWriteWithMask SMBUS_REG_TGT_CONTROL_4 SMBUS_TGT_CONTROL_4_ENABLE_MASK (push_bit SMBUS_TGT_CONTROL_4_ENABLE_FIELD_POSITION ulValue) s"

definition prvvSMBusHWWriteTgtControl4Address :: "u32 \<Rightarrow> 'w smbus \<Rightarrow> 'w smbus option" where
  "prvvSMBusHWWriteTgtControl4Address ulValue s =
     prvvSMBusHardwareWriteWithMask SMBUS_REG_TGT_CONTROL_4 SMBUS_TGT_CONTROL_4_ADDRESS_MASK (push_bit SMBUS_TGT_CONTROL_4_ADDRESS_FIELD_POSITION ulValue) s"

definition prvvSMBusHWWriteTgtControl5Enable :: "u32 \<Rightarrow> 'w smbus \<Rightarrow> 'w smbus option" where
  "prvvSMBusHWWriteTgtControl5Enable ulValue s =
     prvvSMBusHardwareWriteWithMask SMBUS_REG_TGT_CONTROL_5 SMBUS_TGT_CONTROL_5_ENABLE_MASK (push_bit SMBUS_TGT_CONTROL_5_ENABLE_FIELD_POSITION ulValue) s"

definition prvvSMBusHWWriteTgtControl5Address :: "u32 \<Rightarrow> 'w smbus \<Rightarrow> 'w smbus option" where
  "prvvSMBusHWWriteTgtControl5Address ulValue s =
     prvvSMBusHardwareWriteWithMask SMBUS_REG_TGT_CONTROL_5 SMBUS_TGT_CONTROL_5_ADDRESS_MASK (push_bit SMBUS_TGT_CONTROL_5_ADDRESS_FIELD_POSITION ulValue) s"

definition prvvSMBusHWWriteTgtControl6Enable :: "u32 \<Rightarrow> 'w smbus \<Rightarrow> 'w smbus option" where
  "prvvSMBusHWWriteTgtControl6Enable ulValue s =
     prvvSMBusHardwareWriteWithMask SMBUS_REG_TGT_CONTROL_6 SMBUS_TGT_CONTROL_6_ENABLE_MASK (push_bit SMBUS_TGT_CONTROL_6_ENABLE_FIELD_POSITION ulValue) s"

definition prvvSMBusHWWriteTgtControl6Address :: "u32 \<Rightarrow> 'w smbus \<Rightarrow> 'w smbus option" where
  "prvvSMBusHWWriteTgtControl6Address ulValue s =
     prvvSMBusHardwareWriteWithMask SMBUS_REG_TGT_CONTROL_6 SMBUS_TGT_CONTROL_6_ADDRESS_MASK (push_bit SMBUS_TGT_CONTROL_6_ADDRESS_FIELD_POSITION ulValue) s"

definition prvvSMBusHWWriteTgtControl7Enable :: "u32 \<Rightarrow> 'w smbus \<Rightarrow> 'w smbus option" where
  "prvvSMBusHWWriteTgtControl7Enable ulValue s =
     prvvSMBusHardwareWriteWithMask SMBUS_REG_TGT_CONTROL_7 SMBUS_TGT_CONTROL_7_ENABLE_MASK (push_bit SMBUS_TGT_CONTROL_7_ENABLE_FIELD_POSITION ulValue) s"

definition prvvSMBusHWWriteTgtControl7Address :: "u32 \<Rightarrow> 'w smbus \<Rightarrow> 'w smbus option" where
  "prvvSMBusHWWriteTgtControl7Address ulValue s =
     prvvSMBusHardwareWriteWithMask SMBUS_REG_TGT_CONTROL_7 SMBUS_TGT_CONTROL_7_ADDRESS_MASK (push_bit SMBUS_TGT_CONTROL_7_ADDRESS_FIELD_POSITION ulValue) s"

definition vSMBusHWWritePHYCtrlDataHold :: "u32 \<Rightarrow> 'w smbus \<Rightarrow> 'w smbus option" where
  "vSMBusHWWritePHYCtrlDataHold ulValue s =
     prvvSMBusHardwareWrite SMBUS_REG_PHY_CTLR_DATA_HOLD ulValue s"

definition vSMBusHWWritePHYCtrlStartHold :: "u32 \<Rightarrow> 'w smbus \<Rightarrow> 'w smbus option" where
  "vSMBusHWWritePHYCtrlStartHold ulValue s =
     prvvSMBusHardwareWrite SMBUS_REG_PHY_CTLR_START_HOLD ulValue s"

definition vSMBusHWWritePHYCtrlStartSetup :: "u32 \<Rightarrow> 'w smbus \<Rightarrow> 'w smbus option" where
  "vSMBusHWWritePHYCtrlStartSetup ulValue s =
     prvvSMBusHardwareWrite SMBUS_REG_PHY_CTLR_START_SETUP ulValue s"

definition vSMBusHWWritePHYCtrlStopSetup :: "u32 \<Rightarrow> 'w smbus \<Rightarrow> 'w smbus option" where
  "vSMBusHWWritePHYCtrlStopSetup ulValue s =
     prvvSMBusHardwareWrite SMBUS_REG_PHY_CTLR_STOP_SETUP ulValue s"

definition vSMBusHWWritePHYCtrlClkTLow :: "u32 \<Rightarrow> 'w smbus \<Rightarrow> 'w smbus option" where
  "vSMBusHWWritePHYCtrlClkTLow ulValue s =
     prvvSMBusHardwareWrite SMBUS_REG_PHY_CTLR_CLK_TLOW ulValue s"

definition vSMBusHWWritePHYCtrlClkTHigh :: "u32 \<Rightarrow> 'w smbus \<Rightarrow> 'w smbus option" where
  "vSMBusHWWritePHYCtrlClkTHigh ulValue s =
     prvvSMBusHardwareWrite SMBUS_REG_PHY_CTLR_CLK_THIGH ulValue s"

definition vSMBusHWWritePHYCtrlTextPrescaler :: "u32 \<Rightarrow> 'w smbus \<Rightarrow> 'w smbus option" where
  "vSMBusHWWritePHYCtrlTextPrescaler ulValue s =
     prvvSMBusHardwareWrite SMBUS_REG_PHY_CTLR_TEXT_PRESCALER ulValue s"

definition vSMBusHWWritePHYCtrlTextTimeout :: "u32 \<Rightarrow> 'w smbus \<Rightarrow> 'w smbus option" where
  "vSMBusHWWritePHYCtrlTextTimeout ulValue s =
     prvvSMBusHardwareWrite SMBUS_REG_PHY_CTLR_TEXT_TIMEOUT ulValue s"

definition vSMBusHWWritePHYCtrlTextMax :: "u32 \<Rightarrow> 'w smbus \<Rightarrow> 'w smbus option" where
  "vSMBusHWWritePHYCtrlTextMax ulValue s =
     prvvSMBusHardwareWrite SMBUS_REG_PHY_CTLR_TEXT_MAX ulValue s"

definition vSMBusHWWritePHYCtrlCextPrescaler :: "u32 \<Rightarrow> 'w smbus \<Rightarrow> 'w smbus option" where
  "vSMBusHWWritePHYCtrlCextPrescaler ulValue s =
     prvvSMBusHardwareWrite SMBUS_REG_PHY_CTLR_CEXT_PRESCALER ulValue s"

definition vSMBusHWWritePHYCtrlCextTimeout :: "u32 \<Rightarrow> 'w smbus \<Rightarrow> 'w smbus option" where
  "vSMBusHWWritePHYCtrlCextTimeout ulValue s =
     prvvSMBusHardwareWrite SMBUS_REG_PHY_CTLR_CEXT_TIMEOUT ulValue s"

definition vSMBusHWWritePHYCtrlCextMax :: "u32 \<Rightarrow> 'w smbus \<Rightarrow> 'w smbus option" where
  "vSMBusHWWritePHYCtrlCextMax ulValue s =
     prvvSMBusHardwareWrite SMBUS_REG_PHY_CTLR_CEXT_MAX ulValue s"

definition vSMBusHWWriteCtrlControlEnable :: "u32 \<Rightarrow> 'w smbus \<Rightarrow> 'w smbus option" where
  "vSMBusHWWriteCtrlControlEnable ulValue s =
     prvvSMBusHardwareWrite SMBUS_REG_CTLR_CONTROL ulValue s"

definition vSMBusHWWriteCtrlDescFifo :: "u32 \<Rightarrow> 'w smbus \<Rightarrow> 'w smbus option" where
  "vSMBusHWWriteCtrlDescFifo ulValue s =
     prvvSMBusHardwareWrite SMBUS_REG_CTLR_DESC_FIFO ulValue s"

definition vSMBusHWWriteCtrlDescFifoReset :: "u32 \<Rightarrow> 'w smbus \<Rightarrow> 'w smbus option" where
  "vSMBusHWWriteCtrlDescFifoReset ulValue s =
     prvvSMBusHardwareWrite SMBUS_REG_CTLR_DESC_FIFO (push_bit SMBUS_CTLR_DESC_FIFO_RESET_FIELD_POSITION ulValue) s"

definition vSMBusHWWriteCtrlRxFifoReset :: "u32 \<Rightarrow> 'w smbus \<Rightarrow> 'w smbus option" where
  "vSMBusHWWriteCtrlRxFifoReset ulValue s =
     prvvSMBusHardwareWrite SMBUS_REG_CTLR_RX_FIFO (push_bit SMBUS_CTLR_RX_FIFO_RESET_FIELD_POSITION ulValue) s"

definition vSMBusHWWriteCtrlRxFifoFillThreshold :: "u32 \<Rightarrow> 'w smbus \<Rightarrow> 'w smbus option" where
  "vSMBusHWWriteCtrlRxFifoFillThreshold ulValue s =
     prvvSMBusHardwareWrite SMBUS_REG_CTLR_RX_FIFO_FILL_THRESHOLD (SMBUS_CTLR_RX_FIFO_FILL_THRESHOLD_FILL_THRESHOLD_MASK AND ulValue) s"

lemmas smbus_readers =
  ulSMBusHWReadIPVersion_def
  ulSMBusHWReadIPRevision_def
  ulSMBusHWReadIPMagicNum_def
  ulSMBusHWReadBuildConfig0_def
  ulSMBusHWReadBuildConfig1_def
  ulSMBusHWReadIRQGIEEnable_def
  ulSMBusHWReadIRQIER_def
  ulSMBusHWReadIRQISR_def
  ulSMBusHWReadErrIRQIER_def
  ulSMBusHWReadErrIRQISR_def
  ulSMBusHWReadPHYStatus_def
  ulSMBusHWReadPHYStatusSMBDATLowTimeout_def
  ulSMBusHWReadPHYStatusSMBClkLowTimeout_def
  ulSMBusHWReadPHYStatusBusIdle_def
  ulSMBusHWReadPHYFilterControl_def
  ulSMBusHWReadPHYFilterControlEnable_def
  ulSMBusHWReadPHYFilterControlDuration_def
  ulSMBusHWReadPHYBusFreetime_def
  ulSMBusHWReadPHYIdleThresholdIdleThreshold_def
  ulSMBusHWReadPHYTimeoutPrescaler_def
  ulSMBusHWReadPHYTimeoutMin_def
  ulSMBusHWReadPHYTimeoutMinTimeoutEnable_def
  ulSMBusHWReadPHYTimeoutMinTimeoutMin_def
  ulSMBusHWReadPHYTimeoutMax_def
  ulSMBusHWReadPHYResetControlSMBClkForce_def
  ulSMBusHWReadPHYTgtDataSetupTgtDataSetup_def
  ulSMBusHWReadPHYTgtTextPrescaler_def
  ulSMBusHWReadPHYTgtTextTimeout_def
  ulSMBusHWReadPHYTgtTextMax_def
  ulSMBusHWReadPHYTgtDbgState_def
  ulSMBusHWReadPHYTgtDataHold_def
  ulSMBusHWReadTgtStatus_def
  ulSMBusHWReadTgtStatusActive_def
  ulSMBusHWReadTgtStatusAddress_def
  ulSMBusHWReadTgtStatusRW_def
  ulSMBusHWReadTgtDescStatusFillLevel_def
  ulSMBusHWReadTgtDescStatusFull_def
  ulSMBusHWReadTgtDescStatusAlmostFull_def
  ulSMBusHWReadTgtDescStatusAlmostEmpty_def
  ulSMBusHWReadTgtDescStatusEmpty_def
  ulSMBusHWReadTgtRxFifoPayload_def
  ulSMBusHWReadTgtRxFifoStatusFillLevel_def
  ulSMBusHWReadTgtRxFifoStatusResetBusY_def
  ulSMBusHWReadTgtRxFifoStatusFull_def
  ulSMBusHWReadTgtRxFifoStatusAlmostFull_def
  ulSMBusHWReadTgtRxFifoStatusAlmostEmpty_def
  ulSMBusHWReadTgtRxFifoStatusEmpty_def
  ulSMBusHWReadTgtRxFifoFillThresholdFillThresh_def
  ulSMBusHWReadTgtDbg_def
  ulSMBusHWReadTgtControl0Enable_def
  ulSMBusHWReadTgtControl0Address_def
  ulSMBusHWReadTgtControl1Enable_def
  ulSMBusHWReadTgtControl1Address_def
  ulSMBusHWReadTgtControl2Enable_def
  ulSMBusHWReadTgtControl2Address_def
  ulSMBusHWReadTgtControl3Enable_def
  ulSMBusHWReadTgtControl3Address_def
  ulSMBusHWReadTgtControl4Enable_def
  ulSMBusHWReadTgtControl4Address_def
  ulSMBusHWReadTgtControl5Enable_def
  ulSMBusHWReadTgtControl5Address_def
  ulSMBusHWReadTgtControl6Enable_def
  ulSMBusHWReadTgtControl6Address_def
  ulSMBusHWReadTgtControl7Enable_def
  ulSMBusHWReadTgtControl7Address_def
  ulSMBusHWReadPHYCtrlDataHold_def
  ulSMBusHWReadPHYCtrlStartHold_def
  ulSMBusHWReadPHYCtrlStartSetup_def
  ulSMBusHWReadPHYCtrlStopSetup_def
  ulSMBusHWReadPHYCtrlClkTLow_def
  ulSMBusHWReadPHYCtrlClkTHigh_def
  ulSMBusHWReadPHYCtrlTextPrescaler_def
  ulSMBusHWReadPHYCtrlTextTimeout_def
  ulSMBusHWReadPHYCtrlTextMax_def
  ulSMBusHWReadPHYCtrlCextPrescaler_def
  ulSMBusHWReadPHYCtrlCextTimeout_def
  ulSMBusHWReadPHYCtrlCextMax_def
  ulSMBusHWReadPHYCtrlDbgState_def
  ulSMBusHWReadCtrlStatusEnable_def
  ulSMBusHWReadCtrlDescStatusFillLevel_def
  ulSMBusHWReadCtrlDescStatusResetBusy_def
  ulSMBusHWReadCtrlDescStatusFull_def
  ulSMBusHWReadCtrlDescStatusAlmostFull_def
  ulSMBusHWReadCtrlDescStatusAlmostEmpty_def
  ulSMBusHWReadCtrlDescStatusEmpty_def
  ulSMBusHWReadCtrlRxFifoPayload_def
  ulSMBusHWReadCtrlRxFifoStatusFillLevel_def
  ulSMBusHWReadCtrlRxFifoStatusResetBusy_def
  ulSMBusHWReadCtrlRxFifoStatusFull_def
  ulSMBusHWReadCtrlRxFifoStatusAlmostFull_def
  ulSMBusHWReadCtrlRxFifoStatusAlmostEmpty_def
  ulSMBusHWReadCtrlRxFifoStatusEmpty_def
  ulSMBusHWReadCtrlRxFifoFillThresholdFillThresh_def
  ulSMBusHWReadCtrlDbgState_def

lemmas smbus_writers =
  vSMBusHWWriteIRQGIEEnable_def
  vSMBusHWWriteIRQIER_def
  vSMBusHWWriteIRQISR_def
  vSMBusHWWriteERRIRQIER_def
  vSMBusHWWriteERRIRQISR_def
  vSMBusHWWritePHYFilterControlEnable_def
  vSMBusHWWritePHYFilterControlDuration_def
  vSMBusHWWritePHYBusFreetime_def
  vSMBusHWWritePHYIdleThresholdIdleThreshold_def
  vSMBusHWWritePHYTimeoutPrescaler_def
  vSMBusHWWritePHYTimeoutMin_def
  vSMBusHWWritePHYTimeoutMinTimeoutEnable_def
  vSMBusHWWritePHYTimeoutMinTimeoutMin_def
  vSMBusHWWritePHYTimeoutMax_def
  vSMBusHWWritePHYResetControlSMBClkForceTimeout_def
  vSMBusHWWritePHYResetControlSMBClkForceLow_def
  vSMBusHWWritePHYTgtDataSetupTgtDataSetup_def
  vSMBusHWWritePHYTgtTextPrescaler_def
  vSMBusHWWritePHYTgtTextTimeout_def
  vSMBusHWWritePHYTgtTextMax_def
  vSMBusHWWritePHYTgtDataHold_def
  vSMBusHWWriteTgtDescFifo_def
  vSMBusHWWriteTgtDescFifoId_def
  vSMBusHWWriteTgtDescFifoPayload_def
  vSMBusHWWriteTgtRxFifoReset_def
  vSMBusHWWriteRxFifoFillThresholdFillThresh_def
  prvvSMBusHWWriteTgtControl0Enable_def
  prvvSMBusHWWriteTgtControl0Address_def
  prvvSMBusHWWriteTgtControl1Enable_def
  prvvSMBusHWWriteTgtControl1Address_def
  prvvSMBusHWWriteTgtControl2Enable_def
  prvvSMBusHWWriteTgtControl2Address_def
  prvvSMBusHWWriteTgtControl3Enable_def
  prvvSMBusHWWriteTgtControl3Address_def
  prvvSMBusHWWriteTgtControl4Enable_def
  prvvSMBusHWWriteTgtControl4Address_def
  prvvSMBusHWWriteTgtControl5Enable_def
  prvvSMBusHWWriteTgtControl5Address_def
  prvvSMBusHWWriteTgtControl6Enable_def
  prvvSMBusHWWriteTgtControl6Address_def
  prvvSMBusHWWriteTgtControl7Enable_def
  prvvSMBusHWWriteTgtControl7Address_def
  vSMBusHWWritePHYCtrlDataHold_def
  vSMBusHWWritePHYCtrlStartHold_def
  vSMBusHWWritePHYCtrlStartSetup_def
  vSMBusHWWritePHYCtrlStopSetup_def
  vSMBusHWWritePHYCtrlClkTLow_def
  vSMBusHWWritePHYCtrlClkTHigh_def
  vSMBusHWWritePHYCtrlTextPrescaler_def
  vSMBusHWWritePHYCtrlTextTimeout_def
  vSMBusHWWritePHYCtrlTextMax_def
  vSMBusHWWritePHYCtrlCextPrescaler_def
  vSMBusHWWritePHYCtrlCextTimeout_def
  vSMBusHWWritePHYCtrlCextMax_def
  vSMBusHWWriteCtrlControlEnable_def
  vSMBusHWWriteCtrlDescFifo_def
  vSMBusHWWriteCtrlDescFifoReset_def
  vSMBusHWWriteCtrlRxFifoReset_def
  vSMBusHWWriteCtrlRxFifoFillThreshold_def

text \<open>The control register of the target an instance number selects.\<close>

definition vSMBusHWWriteTgtControlAddress :: "u8 \<Rightarrow> u32 \<Rightarrow> 'w smbus \<Rightarrow> 'w smbus option" where
  "vSMBusHWWriteTgtControlAddress ucInstance v s =
     (if ucInstance = 0 then prvvSMBusHWWriteTgtControl0Address v s
      else if ucInstance = 1 then prvvSMBusHWWriteTgtControl1Address v s
      else if ucInstance = 2 then prvvSMBusHWWriteTgtControl2Address v s
      else if ucInstance = 3 then prvvSMBusHWWriteTgtControl3Address v s
      else if ucInstance = 4 then prvvSMBusHWWriteTgtControl4Address v s
      else if ucInstance = 5 then prvvSMBusHWWriteTgtControl5Address v s
      else if ucInstance = 6 then prvvSMBusHWWriteTgtControl6Address v s
      else if ucInstance = 7 then prvvSMBusHWWriteTgtControl7Address v s
      else Some s)"

definition vSMBusHWWriteTgtControlEnable :: "u8 \<Rightarrow> u32 \<Rightarrow> 'w smbus \<Rightarrow> 'w smbus option" where
  "vSMBusHWWriteTgtControlEnable ucInstance v s =
     (if ucInstance = 0 then prvvSMBusHWWriteTgtControl0Enable v s
      else if ucInstance = 1 then prvvSMBusHWWriteTgtControl1Enable v s
      else if ucInstance = 2 then prvvSMBusHWWriteTgtControl2Enable v s
      else if ucInstance = 3 then prvvSMBusHWWriteTgtControl3Enable v s
      else if ucInstance = 4 then prvvSMBusHWWriteTgtControl4Enable v s
      else if ucInstance = 5 then prvvSMBusHWWriteTgtControl5Enable v s
      else if ucInstance = 6 then prvvSMBusHWWriteTgtControl6Enable v s
      else if ucInstance = 7 then prvvSMBusHWWriteTgtControl7Enable v s
      else Some s)"

section \<open>Descriptors\<close>

datatype SMBus_HW_Descriptor_Type =
    DESC_TARGET_READ
  | DESC_TARGET_READ_PEC
  | DESC_TARGET_WRITE_ACK
  | DESC_TARGET_WRITE_NACK
  | DESC_TARGET_WRITE_PEC
  | DESC_CONTROLLER_READ_START
  | DESC_CONTROLLER_READ_QUICK
  | DESC_CONTROLLER_READ_BYTE
  | DESC_CONTROLLER_READ_STOP
  | DESC_CONTROLLER_READ_PEC
  | DESC_CONTROLLER_WRITE_START
  | DESC_CONTROLLER_WRITE_QUICK
  | DESC_CONTROLLER_WRITE_BYTE
  | DESC_CONTROLLER_WRITE_STOP
  | DESC_CONTROLLER_WRITE_PEC

primrec prvucSMBusGenericDescriptorIDLookup :: "SMBus_HW_Descriptor_Type \<Rightarrow> u8" where
  "prvucSMBusGenericDescriptorIDLookup DESC_CONTROLLER_WRITE_START = 0x0"
| "prvucSMBusGenericDescriptorIDLookup DESC_CONTROLLER_WRITE_QUICK = 0x1"
| "prvucSMBusGenericDescriptorIDLookup DESC_CONTROLLER_WRITE_BYTE = 0x2"
| "prvucSMBusGenericDescriptorIDLookup DESC_CONTROLLER_WRITE_STOP = 0x3"
| "prvucSMBusGenericDescriptorIDLookup DESC_CONTROLLER_WRITE_PEC = 0x4"
| "prvucSMBusGenericDescriptorIDLookup DESC_CONTROLLER_READ_START = 0x8"
| "prvucSMBusGenericDescriptorIDLookup DESC_CONTROLLER_READ_QUICK = 0x9"
| "prvucSMBusGenericDescriptorIDLookup DESC_CONTROLLER_READ_BYTE = 0xA"
| "prvucSMBusGenericDescriptorIDLookup DESC_CONTROLLER_READ_STOP = 0xB"
| "prvucSMBusGenericDescriptorIDLookup DESC_CONTROLLER_READ_PEC = 0xC"
| "prvucSMBusGenericDescriptorIDLookup DESC_TARGET_WRITE_ACK = 0x0"
| "prvucSMBusGenericDescriptorIDLookup DESC_TARGET_WRITE_NACK = 0x1"
| "prvucSMBusGenericDescriptorIDLookup DESC_TARGET_WRITE_PEC = 0x2"
| "prvucSMBusGenericDescriptorIDLookup DESC_TARGET_READ = 0x8"
| "prvucSMBusGenericDescriptorIDLookup DESC_TARGET_READ_PEC = 0x9"

definition SMBUS_HW_DESCRIPTOR_WRITE_SUCCESS :: u8 where "SMBUS_HW_DESCRIPTOR_WRITE_SUCCESS = 0"
definition SMBUS_HW_DESCRIPTOR_WRITE_FAIL :: u8 where "SMBUS_HW_DESCRIPTOR_WRITE_FAIL = 1"

lemmas smbus_desc_results = SMBUS_HW_DESCRIPTOR_WRITE_SUCCESS_def SMBUS_HW_DESCRIPTOR_WRITE_FAIL_def

definition prvucSMBusTargetDescriptorApply ::
  "SMBus_HW_Descriptor_Type \<Rightarrow> u8 \<Rightarrow> u8 \<Rightarrow> 'w smbus \<Rightarrow> (u8 \<times> 'w smbus) option" where
  "prvucSMBusTargetDescriptorApply d payload ucNoStatusCheck s = do {
     (rc, s) \<leftarrow>
       (if SMBUS_FALSE = ucNoStatusCheck
        then do {
          (full, s) \<leftarrow> ulSMBusHWReadTgtDescStatusFull s;
          Some (if SMBUS_DESC_FIFO_IS_FULL = full then SMBUS_HW_DESCRIPTOR_WRITE_FAIL
                else SMBUS_HW_DESCRIPTOR_WRITE_SUCCESS, s) }
        else Some (SMBUS_HW_DESCRIPTOR_WRITE_SUCCESS, s));
     s \<leftarrow>
       (if SMBUS_HW_DESCRIPTOR_WRITE_SUCCESS = rc
        then vSMBusHWWriteTgtDescFifo
          (push_bit SMBUS_TGT_DESC_FIFO_ID_FIELD_POSITION (ucast (prvucSMBusGenericDescriptorIDLookup d))
           OR ucast payload) s
        else Some s);
     Some (rc, s) }"

definition prvucSMBusControllerDescriptorApply ::
  "SMBus_HW_Descriptor_Type \<Rightarrow> u8 \<Rightarrow> u8 \<Rightarrow> 'w smbus \<Rightarrow> (u8 \<times> 'w smbus) option" where
  "prvucSMBusControllerDescriptorApply d payload ucNoStatusCheck s = do {
     (rc, s) \<leftarrow>
       (if SMBUS_FALSE = ucNoStatusCheck
        then do {
          (full, s) \<leftarrow> ulSMBusHWReadCtrlDescStatusFull s;
          Some (if SMBUS_DESC_FIFO_IS_FULL = full then SMBUS_HW_DESCRIPTOR_WRITE_FAIL
                else SMBUS_HW_DESCRIPTOR_WRITE_SUCCESS, s) }
        else Some (SMBUS_HW_DESCRIPTOR_WRITE_SUCCESS, s));
     s \<leftarrow>
       (if SMBUS_HW_DESCRIPTOR_WRITE_SUCCESS = rc
        then vSMBusHWWriteCtrlDescFifo
          (push_bit SMBUS_CTLR_DESC_FIFO_ID_FIELD_POSITION (ucast (prvucSMBusGenericDescriptorIDLookup d))
           OR ucast payload) s
        else Some s);
     Some (rc, s) }"

type_synonym 'w descriptor_write = "'w smbus \<Rightarrow> (u8 \<times> 'w smbus) option"

definition ucSMBusTargetReadDescriptorRead :: "u8 \<Rightarrow> 'w descriptor_write" where
  "ucSMBusTargetReadDescriptorRead ucData =
     prvucSMBusTargetDescriptorApply DESC_TARGET_READ ucData SMBUS_FALSE"

definition ucSMBusTargetReadDescriptorPECRead :: "'w descriptor_write" where
  "ucSMBusTargetReadDescriptorPECRead =
     prvucSMBusTargetDescriptorApply DESC_TARGET_READ_PEC 0 SMBUS_FALSE"

definition ucSMBusTargetWriteDescriptorACK :: "u8 \<Rightarrow> 'w descriptor_write" where
  "ucSMBusTargetWriteDescriptorACK ucNoStatusCheck =
     prvucSMBusTargetDescriptorApply DESC_TARGET_WRITE_ACK 0 ucNoStatusCheck"

definition ucSMBusTargetWriteDescriptorNACK :: "'w descriptor_write" where
  "ucSMBusTargetWriteDescriptorNACK =
     prvucSMBusTargetDescriptorApply DESC_TARGET_WRITE_NACK 0 SMBUS_FALSE"

definition ucSMBusTargetWriteDescriptorPEC :: "'w descriptor_write" where
  "ucSMBusTargetWriteDescriptorPEC =
     prvucSMBusTargetDescriptorApply DESC_TARGET_WRITE_PEC 0 SMBUS_FALSE"

definition ucSMBusControllerWriteDescriptorStartWrite :: "u8 \<Rightarrow> 'w descriptor_write" where
  "ucSMBusControllerWriteDescriptorStartWrite ucDestination =
     prvucSMBusControllerDescriptorApply DESC_CONTROLLER_WRITE_START (push_bit 1 ucDestination) SMBUS_FALSE"

definition ucSMBusControllerWriteDescriptorQuickWrite :: "u8 \<Rightarrow> 'w descriptor_write" where
  "ucSMBusControllerWriteDescriptorQuickWrite ucDestination =
     prvucSMBusControllerDescriptorApply DESC_CONTROLLER_WRITE_QUICK (push_bit 1 ucDestination) SMBUS_FALSE"

definition ucSMBusControllerWriteDescriptorByte :: "u8 \<Rightarrow> u8 \<Rightarrow> 'w descriptor_write" where
  "ucSMBusControllerWriteDescriptorByte ucData ucNoStatusCheck =
     prvucSMBusControllerDescriptorApply DESC_CONTROLLER_WRITE_BYTE ucData ucNoStatusCheck"

definition ucSMBusControllerWriteDescriptorStopWrite :: "u8 \<Rightarrow> 'w descriptor_write" where
  "ucSMBusControllerWriteDescriptorStopWrite ucData =
     prvucSMBusControllerDescriptorApply DESC_CONTROLLER_WRITE_STOP ucData SMBUS_FALSE"

definition ucSMBusControllerWriteDescriptorPECWrite :: "'w descriptor_write" where
  "ucSMBusControllerWriteDescriptorPECWrite =
     prvucSMBusControllerDescriptorApply DESC_CONTROLLER_WRITE_PEC 0 SMBUS_FALSE"

definition ucSMBusControllerReadDescriptorStart :: "u8 \<Rightarrow> 'w descriptor_write" where
  "ucSMBusControllerReadDescriptorStart ucDestination =
     prvucSMBusControllerDescriptorApply DESC_CONTROLLER_READ_START (push_bit 1 ucDestination OR 0x01) SMBUS_FALSE"

definition ucSMBusControllerReadDescriptorQuickRead :: "u8 \<Rightarrow> 'w descriptor_write" where
  "ucSMBusControllerReadDescriptorQuickRead ucDestination =
     prvucSMBusControllerDescriptorApply DESC_CONTROLLER_READ_QUICK (push_bit 1 ucDestination OR 0x01) SMBUS_FALSE"

definition ucSMBusControllerReadDescriptorByte :: "u8 \<Rightarrow> 'w descriptor_write" where
  "ucSMBusControllerReadDescriptorByte ucNoStatusCheck =
     prvucSMBusControllerDescriptorApply DESC_CONTROLLER_READ_BYTE 0 ucNoStatusCheck"

definition ucSMBusControllerReadDescriptorStop :: "'w descriptor_write" where
  "ucSMBusControllerReadDescriptorStop =
     prvucSMBusControllerDescriptorApply DESC_CONTROLLER_READ_STOP 0 SMBUS_FALSE"

definition ucSMBusControllerReadDescriptorPEC :: "'w descriptor_write" where
  "ucSMBusControllerReadDescriptorPEC =
     prvucSMBusControllerDescriptorApply DESC_CONTROLLER_READ_PEC 0 SMBUS_FALSE"

lemmas smbus_descriptors =
  ucSMBusTargetReadDescriptorRead_def ucSMBusTargetReadDescriptorPECRead_def
  ucSMBusTargetWriteDescriptorACK_def ucSMBusTargetWriteDescriptorNACK_def
  ucSMBusTargetWriteDescriptorPEC_def ucSMBusControllerWriteDescriptorStartWrite_def
  ucSMBusControllerWriteDescriptorQuickWrite_def ucSMBusControllerWriteDescriptorByte_def
  ucSMBusControllerWriteDescriptorStopWrite_def ucSMBusControllerWriteDescriptorPECWrite_def
  ucSMBusControllerReadDescriptorStart_def ucSMBusControllerReadDescriptorQuickRead_def
  ucSMBusControllerReadDescriptorByte_def ucSMBusControllerReadDescriptorStop_def
  ucSMBusControllerReadDescriptorPEC_def

end
