(* ===== verification/SmbusAction.thy ===== *)
theory SmbusAction
  imports SmbusHwAccess
begin

text \<open>
  The actions of the SMBus state machine (smbus_action.c): resetting the data of a
  transaction, fetching command bytes, and the calls into the application of an instance.
  A callback that is handed a buffer to fill returns the bytes it wrote from the start of the
  buffer and the size it reported.
\<close>

definition SMBUS_ARP_DIRECTED_COMMAND_MASK :: u8 where "SMBUS_ARP_DIRECTED_COMMAND_MASK = 0x01"
definition SMBUS_ARP_UDID_DIRECTED_COMMAND :: u8 where "SMBUS_ARP_UDID_DIRECTED_COMMAND = 0x01"
definition SMBUS_ARP_DIRECTED_COMMAND_ADDRESS_MASK :: u8 where
  "SMBUS_ARP_DIRECTED_COMMAND_ADDRESS_MASK = 0xFE"
definition SMBUS_ACTION_ARP_PROTOCOL_DETERMINED :: u8 where "SMBUS_ACTION_ARP_PROTOCOL_DETERMINED = 0"
definition SMBUS_ACTION_ARP_PROTOCOL_UNDETERMINED :: u8 where "SMBUS_ACTION_ARP_PROTOCOL_UNDETERMINED = 1"

definition vSMBusClearAction :: "nat \<Rightarrow> 'w smbus \<Rightarrow> 'w smbus" where
  "vSMBusClearAction i s = upd i (\<lambda>x. x\<lparr>ulAction := 0\<rparr>) s"

definition vSMBusAction :: "nat \<Rightarrow> u32 \<Rightarrow> 'w smbus \<Rightarrow> 'w smbus" where
  "vSMBusAction i a s = upd i (\<lambda>x. x\<lparr>ulAction := ulAction x OR a\<rparr>) s"

section \<open>Resetting a transaction\<close>

text \<open>The two loops that empty a receive FIFO; \<^term>\<open>None\<close> when the FIFO never gets empty.\<close>

partial_function (option) drain_ctlr_rx :: "'w smbus \<Rightarrow> 'w smbus option" where
  "drain_ctlr_rx s = do {
     (empty, s) \<leftarrow> ulSMBusHWReadCtrlRxFifoStatusEmpty s;
     (if empty = 0 then do { (_, s) \<leftarrow> ulSMBusHWReadCtrlRxFifoPayload s; drain_ctlr_rx s }
      else Some s) }"

partial_function (option) drain_tgt_rx :: "'w smbus \<Rightarrow> 'w smbus option" where
  "drain_tgt_rx s = do {
     (empty, s) \<leftarrow> ulSMBusHWReadTgtRxFifoStatusEmpty s;
     (if empty = 0 then do { (_, s) \<leftarrow> ulSMBusHWReadTgtRxFifoPayload s; drain_tgt_rx s }
      else Some s) }"

definition reset_transaction :: "'w SMBUS_INSTANCE \<Rightarrow> 'w SMBUS_INSTANCE" where
  "reset_transaction x = x\<lparr>ucCommand := SMBUS_COMMAND_INVALID, xProtocol := SMBUS_PROTOCOL_NONE,
     usSendDataSize := 0, usSendIndex := 0, usReceiveIndex := 0, usExpectedByteCount := 0,
     ucNewDeviceSlaveAddress := 0, ucNackSent := SMBUS_FALSE, usDescriptorsSent := 0,
     ucPECSent := SMBUS_FALSE, ucFifoEmptyWhileInDoneCount := 0,
     ucUDIDMatchedInstance := SMBUS_INVALID_INSTANCE\<rparr>"

definition vSMBusHandleActionResetAllData :: "nat \<Rightarrow> 'w smbus \<Rightarrow> 'w smbus option" where
  "vSMBusHandleActionResetAllData i s = do {
     let s = upd i reset_transaction s;
     s \<leftarrow> log_debug i (ucast (ucThisInstanceNumber (inst s i))) 74 s;
     (if ucThisInstanceNumber (inst s i) = ucInstanceInPlay s
      then do {
        let s = s\<lparr>ucInstanceInPlay := SMBUS_INVALID_INSTANCE\<rparr>;
        s \<leftarrow> drain_ctlr_rx s;
        s \<leftarrow> vSMBusHWWriteCtrlRxFifoReset 1 s;
        vSMBusHWWriteCtrlDescFifoReset 1 s }
      else do {
        let s = s\<lparr>ucActiveTargetInstance := SMBUS_INVALID_INSTANCE\<rparr>;
        s \<leftarrow> drain_tgt_rx s;
        vSMBusHWWriteTgtRxFifoReset 1 s }) }"

section \<open>Events and protocols\<close>

definition vSMBusHandleActionCreateEventIsPECRequired :: "nat \<Rightarrow> 'w smbus \<Rightarrow> 'w smbus option" where
  "vSMBusHandleActionCreateEventIsPECRequired i s =
     raise_event vSMBusGenerateEvent_E_IS_PEC_REQUIRED i s"

definition vSMBusHandleActionCreateEventSendNextByte :: "nat \<Rightarrow> 'w smbus \<Rightarrow> 'w smbus option" where
  "vSMBusHandleActionCreateEventSendNextByte i s =
     raise_event vSMBusGenerateEvent_E_SEND_NEXT_BYTE i s"

definition vSMBusHandleActionGetProtocol :: "nat \<Rightarrow> 'w smbus \<Rightarrow> 'w smbus option" where
  "vSMBusHandleActionGetProtocol i s =
     (case pFnGetProtocol (inst s i) of
        None \<Rightarrow> Some s
      | Some get_protocol \<Rightarrow> do {
          (empty, s) \<leftarrow> ulSMBusHWReadTgtRxFifoStatusEmpty s;
          (if SMBUS_RX_FIFO_IS_EMPTY \<noteq> empty
           then do {
             (v, s) \<leftarrow> ulSMBusHWReadTgtRxFifoPayload s;
             let c = (ucast v :: u8);
             let s = upd i (\<lambda>x. x\<lparr>ucCommand := c\<rparr>) s;
             let (p, w) = get_protocol c (world s);
             let s = upd i (\<lambda>x. x\<lparr>xProtocol := p\<rparr>) (s\<lparr>world := w\<rparr>);
             add_log SMBUS_LOG_LEVEL_INFO (ucast (ucThisInstanceNumber (inst s i)))
               SMBUS_LOG_EVENT_PROTOCOL (ucast c) (ucast (protocol_value p)) s }
           else log_failed i 156 s) })"

text \<open>The protocol an ARP command byte stands for; the codes 0 and 5 to 31 are reserved.\<close>

definition ucSMBusHandleActionGetARPProtocol :: "nat \<Rightarrow> 'w smbus \<Rightarrow> (u8 \<times> 'w smbus) option" where
  "ucSMBusHandleActionGetARPProtocol i s = do {
     (empty, s) \<leftarrow> ulSMBusHWReadTgtRxFifoStatusEmpty s;
     (if SMBUS_RX_FIFO_IS_EMPTY \<noteq> empty
      then do {
        (v, s) \<leftarrow> ulSMBusHWReadTgtRxFifoPayload s;
        let c = (ucast v :: u8);
        let s = upd i (\<lambda>x. x\<lparr>ucCommand := c\<rparr>) s;
        Some
          (if c = 0x01 then (SMBUS_ACTION_ARP_PROTOCOL_DETERMINED,
             upd i (\<lambda>x. x\<lparr>xProtocol := SMBUS_ARP_PROTOCOL_PREPARE_TO_ARP\<rparr>) s)
           else if c = 0x02 then (SMBUS_ACTION_ARP_PROTOCOL_DETERMINED,
             upd i (\<lambda>x. x\<lparr>xProtocol := SMBUS_ARP_PROTOCOL_RESET_DEVICE\<rparr>) s)
           else if c = 0x03 then (SMBUS_ACTION_ARP_PROTOCOL_DETERMINED,
             upd i (\<lambda>x. x\<lparr>xProtocol := SMBUS_ARP_PROTOCOL_GET_UDID\<rparr>) s)
           else if c = 0x04 then (SMBUS_ACTION_ARP_PROTOCOL_DETERMINED,
             upd i (\<lambda>x. x\<lparr>xProtocol := SMBUS_ARP_PROTOCOL_ASSIGN_ADDRESS\<rparr>) s)
           else if c \<le> 0x1f then (SMBUS_ACTION_ARP_PROTOCOL_UNDETERMINED, s)
           else (SMBUS_ACTION_ARP_PROTOCOL_DETERMINED,
             upd i (\<lambda>x. x\<lparr>xProtocol :=
                 (if SMBUS_ARP_UDID_DIRECTED_COMMAND = c AND SMBUS_ARP_DIRECTED_COMMAND_MASK
                  then SMBUS_ARP_PROTOCOL_GET_UDID_DIRECTED
                  else SMBUS_ARP_PROTOCOL_RESET_DEVICE_DIRECTED),
               ucMatchedSMBusAddress := drop_bit 1 (c AND SMBUS_ARP_DIRECTED_COMMAND_ADDRESS_MASK)\<rparr>) s)) }
      else do {
        s \<leftarrow> log_failed i 249 s;
        Some (SMBUS_ACTION_ARP_PROTOCOL_UNDETERMINED, s) }) }"

section \<open>Data from and to the application\<close>

text \<open>
  The local buffer of 256 zeros after a callback wrote \<open>bytes\<close> at its start, \<^term>\<open>None\<close> when
  they do not fit, and the first \<open>n\<close> of its bytes copied over the start of an array.
\<close>

definition filled :: "u8 list \<Rightarrow> u8 list option" where
  "filled bytes = wr_bytes 0 bytes (replicate SMBUS_DATA_SIZE_MAX 0)"

definition copy_to :: "u8 list \<Rightarrow> nat \<Rightarrow> u8 list \<Rightarrow> u8 list option" where
  "copy_to src n dst = do { bs \<leftarrow> rd_bytes src 0 n; wr_bytes 0 bs dst }"

definition send_size :: "SMBus_Command_Protocol_Type \<Rightarrow> u16 \<Rightarrow> u16" where
  "send_size p n = (case p of
       SMBUS_PROTOCOL_READ_64 \<Rightarrow> 8
     | SMBUS_PROTOCOL_READ_32 \<Rightarrow> 4
     | SMBUS_PROTOCOL_READ_WORD \<Rightarrow> 2
     | SMBUS_PROTOCOL_READ_BYTE \<Rightarrow> 1
     | SMBUS_PROTOCOL_PROCESS_CALL \<Rightarrow> 2
     | SMBUS_PROTOCOL_RECEIVE_BYTE \<Rightarrow> 1
     | _ \<Rightarrow> n)"

definition vSMBusHandleActionGetDataFromApplication :: "nat \<Rightarrow> 'w smbus \<Rightarrow> 'w smbus option" where
  "vSMBusHandleActionGetDataFromApplication i s =
     (case pFnGetData (inst s i) of
        None \<Rightarrow> Some s
      | Some get_data \<Rightarrow> do {
          let ((bytes, n), w) = get_data (ucCommand (inst s i)) (world s);
          tmp \<leftarrow> filled bytes;
          let s = s\<lparr>world := w\<rparr>;
          (if unat n \<le> SMBUS_DATA_SIZE_MAX
           then do {
             d \<leftarrow> copy_to tmp (unat n) (ucSendData (inst s i));
             Some (upd i (\<lambda>x. x\<lparr>ucSendData := d, usSendDataSize := send_size (xProtocol x) n\<rparr>) s) }
           else log_failed i 311 s) })"

text \<open>The transaction number is passed as one byte and replaced by 0 unless controller.\<close>

definition transaction_id :: "nat \<Rightarrow> u8 \<Rightarrow> 'w smbus \<Rightarrow> u32" where
  "transaction_id i t s =
     (if ucThisInstanceNumber (inst s i) \<noteq> ucInstanceInPlay s then 0 else ucast t)"

definition vSMBusHandleActionWriteDataToApplication :: "nat \<Rightarrow> u8 \<Rightarrow> 'w smbus \<Rightarrow> 'w smbus option" where
  "vSMBusHandleActionWriteDataToApplication i ucTransactionID s =
     (case pFnWriteData (inst s i) of
        None \<Rightarrow> Some s
      | Some write_data \<Rightarrow> do {
          let n = usExpectedByteCount (inst s i);
          tmp \<leftarrow> copy_to (ucReceivedData (inst s i)) (unat n) (replicate SMBUS_DATA_SIZE_MAX 0);
          Some (s\<lparr>world := write_data (ucCommand (inst s i)) tmp n
                  (transaction_id i ucTransactionID s) (world s)\<rparr>) })"

definition vSMBusHandleActionAnnounceResultToApplication ::
  "nat \<Rightarrow> u8 \<Rightarrow> SMBus_Error_Type \<Rightarrow> 'w smbus \<Rightarrow> 'w smbus" where
  "vSMBusHandleActionAnnounceResultToApplication i ucTransactionID st s =
     (case pFnAnnounceResult (inst s i) of
        None \<Rightarrow> s
      | Some announce \<Rightarrow> s\<lparr>world := announce (ucCommand (inst s i))
            (transaction_id i ucTransactionID s) (error_value st) (world s)\<rparr>)"

definition vSMBusHandleActionNotifyAddressChangeToApplication :: "nat \<Rightarrow> 'w smbus \<Rightarrow> 'w smbus" where
  "vSMBusHandleActionNotifyAddressChangeToApplication i s =
     (case pFnArpAddressChange (inst s i) of
        None \<Rightarrow> s
      | Some change \<Rightarrow> s\<lparr>world := change (ucSMBusAddress (inst s i)) (world s)\<rparr>)"

definition vSMBusHandleActionBusError :: "nat \<Rightarrow> u8 \<Rightarrow> 'w smbus \<Rightarrow> 'w smbus" where
  "vSMBusHandleActionBusError i ucError s =
     (case pFnBusError (inst s i) of
        None \<Rightarrow> s
      | Some bus_error \<Rightarrow> s\<lparr>world := bus_error ucError (world s)\<rparr>)"

definition vSMBusHandleActionBusWarning :: "nat \<Rightarrow> u8 \<Rightarrow> 'w smbus \<Rightarrow> 'w smbus" where
  "vSMBusHandleActionBusWarning i ucWarning s =
     (case pFnBusWarning (inst s i) of
        None \<Rightarrow> s
      | Some bus_warning \<Rightarrow> s\<lparr>world := bus_warning ucWarning (world s)\<rparr>)"

section \<open>I2C\<close>

definition vSMBusHandleActionGetI2CDataFromApplication :: "nat \<Rightarrow> 'w smbus \<Rightarrow> 'w smbus option" where
  "vSMBusHandleActionGetI2CDataFromApplication i s =
     (case pFnI2CGetData (inst s i) of
        None \<Rightarrow> Some s
      | Some get_data \<Rightarrow> do {
          let ((bytes, n), w) = get_data (world s);
          tmp \<leftarrow> filled bytes;
          let s = s\<lparr>world := w\<rparr>;
          (if unat n \<le> SMBUS_DATA_SIZE_MAX
           then do {
             d \<leftarrow> copy_to tmp (unat n) (ucSendData (inst s i));
             Some (upd i (\<lambda>x. x\<lparr>ucSendData := d, usSendDataSize := n\<rparr>) s) }
           else log_failed i 452 s) })"

definition vSMBusHandleActionWriteI2CDataToApplication :: "nat \<Rightarrow> 'w smbus \<Rightarrow> 'w smbus option" where
  "vSMBusHandleActionWriteI2CDataToApplication i s =
     (case pFnI2CWriteData (inst s i) of
        None \<Rightarrow> Some s
      | Some write_data \<Rightarrow> do {
          let n = usReceiveIndex (inst s i);
          tmp \<leftarrow> copy_to (ucReceivedData (inst s i)) (unat n) (replicate SMBUS_DATA_SIZE_MAX 0);
          Some (s\<lparr>world := write_data tmp n (world s)\<rparr>) })"

definition vSMBusHandleActionAnnounceI2CResultToApplication :: "nat \<Rightarrow> SMBus_Error_Type \<Rightarrow> 'w smbus \<Rightarrow> 'w smbus" where
  "vSMBusHandleActionAnnounceI2CResultToApplication i st s =
     (case pFnI2CAnnounceResult (inst s i) of
        None \<Rightarrow> s
      | Some announce \<Rightarrow> s\<lparr>world := announce (error_value st) (world s)\<rparr>)"

end
