(* ===== verification/SmbusFsmBase.thy ===== *)
theory SmbusFsmBase
  imports SmbusAction
begin

text \<open>
  What the states of the SMBus state machine (smbus_state.c) share: the change of state, the
  three groups of bus errors that every state handles, the answers to an unexpected event, and
  the loops that keep the descriptor FIFO of the target filled. A function on states returns
  \<^term>\<open>None\<close> where the code accesses an array out of bounds or does not return.
\<close>

section \<open>Change of state and unexpected events\<close>

definition vSMBusLogUnexpected :: "nat \<Rightarrow> u8 \<Rightarrow> 'w smbus \<Rightarrow> 'w smbus option" where
  "vSMBusLogUnexpected i ucAnyEvent s =
     add_log SMBUS_LOG_LEVEL_ERROR (ucast (ucThisInstanceNumber (inst s i))) SMBUS_LOG_EVENT_ERROR
       (ucast (state_value (xState (inst s i)))) (ucast ucAnyEvent) s"

definition vSMBusNextStateDecoder :: "nat \<Rightarrow> SMBus_State_Type \<Rightarrow> 'w smbus \<Rightarrow> 'w smbus" where
  "vSMBusNextStateDecoder i xNewState s =
     upd i (\<lambda>x. x\<lparr>xPreviousState := xState x, xState := xNewState\<rparr>) s"

definition to_initial :: "nat \<Rightarrow> 'w smbus \<Rightarrow> 'w smbus option" where
  "to_initial i s = do {
     s \<leftarrow> vSMBusHandleActionResetAllData i s;
     Some (vSMBusNextStateDecoder i SMBUS_STATE_INITIAL s) }"

definition unexpected :: "nat \<Rightarrow> u8 \<Rightarrow> 'w smbus \<Rightarrow> 'w smbus option" where
  "unexpected i e s = do { s \<leftarrow> vSMBusLogUnexpected i e s; to_initial i s }"

definition announce :: "nat \<Rightarrow> SMBus_Error_Type \<Rightarrow> 'w smbus \<Rightarrow> 'w smbus" where
  "announce i st s = vSMBusHandleActionAnnounceResultToApplication i (ucast (ulTransactionID s)) st s"

section \<open>Bus errors\<close>

definition timeout_events :: "u8 list" where
  "timeout_events = [E_TARGET_PHY_TEXT_TIMEOUT_ERROR_IRQ,
     E_CONTROLLER_PHY_CTLR_TEXT_TIMEOUT_ERROR_IRQ, E_CONTROLLER_PHY_CTLR_CEXT_TIMEOUT_ERROR_IRQ]"

definition target_error_events :: "u8 list" where
  "target_error_events = [E_TARGET_LOA_ERROR_IRQ, E_TARGET_PEC_ERROR_IRQ,
     E_TARGET_RX_FIFO_ERROR_ERROR_IRQ, E_TARGET_RX_FIFO_OVERFLOW_ERROR_IRQ,
     E_TARGET_RX_FIFO_UNDERFLOW_ERROR_IRQ, E_TARGET_DESC_FIFO_ERROR_IRQ,
     E_TARGET_DESC_FIFO_OVERFLOW_ERROR_IRQ, E_TARGET_DESC_FIFO_UNDERFLOW_ERROR_IRQ,
     E_TARGET_DESC_ERROR_IRQ, E_TARGET_PHY_UNEXPTD_BUS_IDLE_ERROR_IRQ,
     E_TARGET_PHY_SMBDAT_LOW_TIMEOUT_DESC_ERROR_IRQ, E_TARGET_PHY_SMBCLK_LOW_TIMEOUT_ERROR_IRQ]"

definition controller_error_events :: "u8 list" where
  "controller_error_events = [E_CONTROLLER_LOA_ERROR_IRQ, E_CONTROLLER_NACK_ERROR_IRQ,
     E_CONTROLLER_PEC_ERROR_IRQ, E_CONTROLLER_RX_FIFO_ERROR_IRQ,
     E_CONTROLLER_RX_FIFO_OVERFLOW_ERROR_IRQ, E_CONTROLLER_RX_FIFO_UNDERFLOW_ERROR_IRQ,
     E_CONTROLLER_DESC_FIFO_ERROR_IRQ, E_CONTROLLER_DESC_FIFO_OVERFLOW_ERROR_IRQ,
     E_CONTROLLER_DESC_FIFO_UNDERFLOW_ERROR_IRQ, E_CONTROLLER_DESC_ERROR_IRQ]"

definition target_error :: "nat \<Rightarrow> u8 \<Rightarrow> 'w smbus \<Rightarrow> 'w smbus option" where
  "target_error i e s = to_initial i (vSMBusHandleActionBusError i e s)"

definition controller_error :: "nat \<Rightarrow> u8 \<Rightarrow> 'w smbus \<Rightarrow> 'w smbus option" where
  "controller_error i e s =
     to_initial i (announce i SMBUS_ERROR (vSMBusHandleActionBusError i e s))"

text \<open>The case labels that all but two states begin with; \<open>other\<close> is the rest of the switch.\<close>

definition on_bus_event ::
  "nat \<Rightarrow> u8 \<Rightarrow> ('w smbus \<Rightarrow> 'w smbus option) \<Rightarrow> 'w smbus \<Rightarrow> 'w smbus option" where
  "on_bus_event i e other s =
     (if e \<in> set timeout_events then Some (vSMBusHandleActionBusWarning i e s)
      else if e \<in> set target_error_events then target_error i e s
      else if e \<in> set controller_error_events then controller_error i e s
      else other s)"

lemmas smbus_bus_events = timeout_events_def target_error_events_def controller_error_events_def

section \<open>Descriptors of the target\<close>

definition descriptor_sent :: "nat \<Rightarrow> 'w smbus \<Rightarrow> 'w smbus" where
  "descriptor_sent i s = upd i (\<lambda>x. x\<lparr>usDescriptorsSent := usDescriptorsSent x + 1\<rparr>) s"

text \<open>An acknowledgement whose failure is logged with the number of the line.\<close>

definition ack_logged :: "nat \<Rightarrow> u32 \<Rightarrow> 'w smbus \<Rightarrow> 'w smbus option" where
  "ack_logged i line s = do {
     (rc, s) \<leftarrow> ucSMBusTargetWriteDescriptorACK SMBUS_FALSE s;
     (if SMBUS_HW_DESCRIPTOR_WRITE_SUCCESS \<noteq> rc then log_failed i line s else Some s) }"

text \<open>An acknowledgement that is counted when it could be written.\<close>

definition ack_counted :: "nat \<Rightarrow> 'w smbus \<Rightarrow> 'w smbus option" where
  "ack_counted i s = do {
     (rc, s) \<leftarrow> ucSMBusTargetWriteDescriptorACK SMBUS_FALSE s;
     Some (if SMBUS_HW_DESCRIPTOR_WRITE_SUCCESS = rc then descriptor_sent i s else s) }"

primrec acks_counted :: "nat \<Rightarrow> nat \<Rightarrow> 'w smbus \<Rightarrow> 'w smbus option" where
  "acks_counted i 0 s = Some s"
| "acks_counted i (Suc n) s = do { s \<leftarrow> ack_counted i s; acks_counted i n s }"

text \<open>
  Refilling the descriptor FIFO: at most as many acknowledgements as it has room for, while
  fewer were sent than the bound, a field of the instance.
\<close>

primrec ack_burst :: "('w SMBUS_INSTANCE \<Rightarrow> u16) \<Rightarrow> nat \<Rightarrow> nat \<Rightarrow> 'w smbus \<Rightarrow> 'w smbus option" where
  "ack_burst bound i 0 s = Some s"
| "ack_burst bound i (Suc n) s =
     (if usDescriptorsSent (inst s i) < bound (inst s i)
      then do {
        (rc, s) \<leftarrow> ucSMBusTargetWriteDescriptorACK SMBUS_TRUE s;
        (if SMBUS_HW_DESCRIPTOR_WRITE_SUCCESS \<noteq> rc then Some s
         else ack_burst bound i n (descriptor_sent i s)) }
      else ack_burst bound i n s)"

definition fifo_room :: "u32 \<Rightarrow> nat" where
  "fifo_room fill = SMBUS_FIFO_DEPTH - unat (ucast fill :: u8)"

definition refill_acks :: "('w SMBUS_INSTANCE \<Rightarrow> u16) \<Rightarrow> nat \<Rightarrow> 'w smbus \<Rightarrow> 'w smbus option" where
  "refill_acks bound i s = do {
     (fill, s) \<leftarrow> ulSMBusHWReadTgtDescStatusFillLevel s;
     ack_burst bound i (fifo_room fill) s }"

section \<open>Bytes received and sent by the target\<close>

primrec receive_bytes :: "nat \<Rightarrow> nat \<Rightarrow> 'w smbus \<Rightarrow> 'w smbus option" where
  "receive_bytes i 0 s = Some s"
| "receive_bytes i (Suc n) s = do {
     (v, s) \<leftarrow> ulSMBusHWReadTgtRxFifoPayload s;
     d \<leftarrow> wr8 (unat (usReceiveIndex (inst s i))) (ucast v) (ucReceivedData (inst s i));
     receive_bytes i n (upd i (\<lambda>x. x\<lparr>ucReceivedData := d, usReceiveIndex := usReceiveIndex x + 1\<rparr>) s) }"

definition receive_all :: "nat \<Rightarrow> 'w smbus \<Rightarrow> 'w smbus option" where
  "receive_all i s = do {
     (fill, s) \<leftarrow> ulSMBusHWReadTgtRxFifoStatusFillLevel s;
     receive_bytes i (unat (ucast fill :: u8)) s }"

primrec send_bytes :: "nat \<Rightarrow> nat \<Rightarrow> 'w smbus \<Rightarrow> 'w smbus option" where
  "send_bytes i 0 s = Some s"
| "send_bytes i (Suc n) s =
     (if usSendIndex (inst s i) < usSendDataSize (inst s i)
      then do {
        b \<leftarrow> rd8 (ucSendData (inst s i)) (unat (usSendIndex (inst s i)));
        (rc, s) \<leftarrow> ucSMBusTargetReadDescriptorRead b s;
        (if SMBUS_HW_DESCRIPTOR_WRITE_FAIL = rc then Some s
         else send_bytes i n (upd i (\<lambda>x. x\<lparr>usSendIndex := usSendIndex x + 1\<rparr>) s)) }
      else send_bytes i n s)"

definition vSMBusSendNACK :: "nat \<Rightarrow> 'w smbus \<Rightarrow> 'w smbus option" where
  "vSMBusSendNACK i s = do {
     (_, s) \<leftarrow> ucSMBusTargetWriteDescriptorNACK s;
     Some (upd i (\<lambda>x. x\<lparr>ucNackSent := SMBUS_TRUE\<rparr>) s) }"

text \<open>The command is refused, and the end of the transaction awaited.\<close>

definition refuse :: "nat \<Rightarrow> 'w smbus \<Rightarrow> 'w smbus option" where
  "refuse i s = do {
     s \<leftarrow> vSMBusSendNACK i s;
     Some (vSMBusNextStateDecoder i SMBUS_STATE_AWAITING_DONE s) }"

section \<open>Counters and parts\<close>

definition count_initiated :: "nat \<Rightarrow> 'w smbus \<Rightarrow> 'w smbus option" where
  "count_initiated i s =
     (if SMBUS_PROTOCOL_NONE = xProtocol (inst s i) then Some s
      else do {
        cs \<leftarrow> counter_incr (xProtocol (inst s i)) (ulMessagesInitiated (inst s i));
        Some (upd i (\<lambda>x. x\<lparr>ulMessagesInitiated := cs\<rparr>) s) })"

definition count_completed :: "nat \<Rightarrow> 'w smbus \<Rightarrow> 'w smbus option" where
  "count_completed i s =
     (if SMBUS_PROTOCOL_NONE = xProtocol (inst s i) then Some s
      else do {
        cs \<leftarrow> counter_incr (xProtocol (inst s i)) (ulMessagesComplete (inst s i));
        Some (upd i (\<lambda>x. x\<lparr>ulMessagesComplete := cs\<rparr>) s) })"

text \<open>A step for each element of a list, in order.\<close>

primrec for_each :: "('a \<Rightarrow> 's \<Rightarrow> 's option) \<Rightarrow> 'a list \<Rightarrow> 's \<Rightarrow> 's option" where
  "for_each f [] s = Some s"
| "for_each f (x # xs) s = do { s \<leftarrow> f x s; for_each f xs s }"

definition expect :: "u16 \<Rightarrow> nat \<Rightarrow> 'w smbus \<Rightarrow> 'w smbus" where
  "expect n i s = upd i (\<lambda>x. x\<lparr>usExpectedByteCount := n, ucExpectedByteCountPart := ucast n\<rparr>) s"

text \<open>The bytes to await before the next interrupt: at most half a FIFO.\<close>

definition first_part :: "u16 \<Rightarrow> u8" where
  "first_part n = (if n < ucast SMBUS_HALF_FIFO_DEPTH then ucast n else SMBUS_HALF_FIFO_DEPTH)"

definition is_i2c :: "'w SMBUS_INSTANCE \<Rightarrow> bool" where
  "is_i2c x \<longleftrightarrow> ucast SMBUS_TRUE = ulI2CDevice x"

end
