(* ===== verification/SmbusArp.thy ===== *)
theory SmbusArp
  imports SmbusFsmBase
begin

text \<open>
  The address resolution protocol as a target (smbus_state.c): what Prepare To ARP and Reset
  Device do to an instance, which instance answers Get UDID, and the commands received by the
  instance that owns the default ARP address. Loops over the seven instances other than that
  one recurse on the list of their indices.
\<close>

section \<open>Flags\<close>

definition vSMBusARPPrepareToARP :: "nat \<Rightarrow> 'w smbus \<Rightarrow> 'w smbus option" where
  "vSMBusARPPrepareToARP i s = do {
     let s = upd i (\<lambda>x. x\<lparr>ucARFlag := SMBUS_FALSE\<rparr>) s;
     log_debug i (ucast (ucSMBusAddress (inst s i))) 510 s }"

definition vSMBusARPResetDevice :: "nat \<Rightarrow> 'w smbus \<Rightarrow> 'w smbus option" where
  "vSMBusARPResetDevice i s = do {
     let s = upd i (\<lambda>x. x\<lparr>ucARFlag := SMBUS_FALSE\<rparr>) s;
     let addr = ucast (ucSMBusAddress (inst s i));
     s \<leftarrow> log_debug i addr 530 s;
     (if SMBUS_ARP_NON_ARP_CAPABLE \<noteq> xARPCapability (inst s i)
         \<and> SMBUS_ARP_CAPABILITY_UNKNOWN \<noteq> xARPCapability (inst s i)
      then do {
        let kind = ucUDID (inst s i) ! SMBUS_UDID_DEVICE_CAPABILITIES_BYTE AND SMBUS_UDID_ADDRESS_TYPE_MASK;
        (if SMBUS_UDID_FIXED_ADDRESS = kind
         then log_debug i addr 541 (upd i (\<lambda>x. x\<lparr>ucAVFlag := SMBUS_TRUE\<rparr>) s)
         else if SMBUS_UDID_DYNAMIC_AND_PERSISTENT = kind
         then do {
           s \<leftarrow> (if SMBUS_TRUE = ucAVFlag (inst s i)
                 then do {
                   s \<leftarrow> vSMBusHWWriteTgtControlEnable (ucUDIDMatchedInstance (inst s i)) 0 s;
                   log_debug i addr 552 s }
                 else Some s);
           log_debug i addr 558 (upd i (\<lambda>x. x\<lparr>ucAVFlag := SMBUS_FALSE\<rparr>) s) }
         else Some s) }
      else Some s) }"

definition arp_discoverable :: "'w SMBUS_INSTANCE \<Rightarrow> bool" where
  "arp_discoverable x \<longleftrightarrow> SMBUS_ARP_CAPABLE = xARPCapability x
     \<or> SMBUS_ARP_FIXED_AND_DISCOVERABLE = xARPCapability x"

abbreviation non_arp_instances :: "nat list" where
  "non_arp_instances \<equiv> [0..<SMBUS_NUMBER_OF_SMBUS_NON_ARP_INSTANCES]"

text \<open>An instance that takes part, unless it is the one now acting as the controller.\<close>

definition arp_participant :: "'w smbus \<Rightarrow> nat \<Rightarrow> bool" where
  "arp_participant s k \<longleftrightarrow> arp_discoverable (inst s k) \<and> unat (ucInstanceInPlay s) \<noteq> k"

section \<open>The smallest UDID\<close>

definition vInstanceSwap :: "nat \<Rightarrow> nat \<Rightarrow> u8 list \<Rightarrow> u8 list" where
  "vInstanceSwap a b ids = ids[a := ids ! b, b := ids ! a]"

definition udid_byte :: "'w smbus \<Rightarrow> u8 list \<Rightarrow> nat \<Rightarrow> nat \<Rightarrow> u8" where
  "udid_byte s ids k b = ucUDID (inst s (unat (ids ! k))) ! b"

definition smallest_from :: "'w smbus \<Rightarrow> u8 list \<Rightarrow> nat \<Rightarrow> nat \<Rightarrow> nat \<Rightarrow> nat" where
  "smallest_from s ids n b k =
     fold (\<lambda>j m. if udid_byte s ids j b < udid_byte s ids m b then j else m) [k + 1..<n] k"

definition vUDIDInstanceSort :: "'w smbus \<Rightarrow> nat \<Rightarrow> nat \<Rightarrow> u8 list \<Rightarrow> u8 list" where
  "vUDIDInstanceSort s n b ids =
     fold (\<lambda>k ids. vInstanceSwap (smallest_from s ids n b k) k ids) [0..<n - 1] ids"

text \<open>
  The entries that share the smallest byte: the position of the first entry whose byte differs
  from that of its successor, plus one. The test reads one entry past the \<open>n\<close> in use, which is
  outside of the array when all seven are.
\<close>

primrec keep_equal :: "'w smbus \<Rightarrow> u8 list \<Rightarrow> nat \<Rightarrow> nat \<Rightarrow> nat \<Rightarrow> nat \<Rightarrow> nat option" where
  "keep_equal s ids n b j 0 = Some n"
| "keep_equal s ids n b j (Suc m) =
     (if j + 1 < length ids
      then if udid_byte s ids j b \<noteq> udid_byte s ids (j + 1) b then Some (j + 1)
           else keep_equal s ids n b (j + 1) m
      else None)"

text \<open>The bytes of the UDID from \<open>b - 1\<close> down to 0, until a single entry remains.\<close>

primrec narrow_udids :: "'w smbus \<Rightarrow> nat \<Rightarrow> nat \<Rightarrow> u8 list \<Rightarrow> (nat \<times> u8 list) option" where
  "narrow_udids s 0 n ids = Some (n, ids)"
| "narrow_udids s (Suc b) n ids = do {
     let ids = vUDIDInstanceSort s n b ids;
     n \<leftarrow> keep_equal s ids n b 0 n;
     (if n = 1 then Some (n, ids) else narrow_udids s b n ids) }"

primrec collect_udids :: "nat \<Rightarrow> nat list \<Rightarrow> nat \<Rightarrow> u8 list \<Rightarrow> 'w smbus \<Rightarrow> (nat \<times> u8 list \<times> 'w smbus) option" where
  "collect_udids i [] n ids s = Some (n, ids, s)"
| "collect_udids i (k # ks) n ids s = do {
     s \<leftarrow> log_debug i (of_nat k) 1111 s;
     (if SMBUS_TRUE = ucInstanceInUse (inst s k)
      then do {
        s \<leftarrow> log_debug i (arp_value (xARPCapability (inst s k))) 1117 s;
        s \<leftarrow> log_debug i (ucast (ucARFlag (inst s k))) 1120 s;
        (if arp_participant s k \<and> SMBUS_FALSE = ucARFlag (inst s k)
         then do {
           ids \<leftarrow> wr8 n (of_nat k) ids;
           s \<leftarrow> log_debug i (of_nat (n + 1)) 1135 s;
           s \<leftarrow> log_debug i (of_nat k) 1138 s;
           collect_udids i ks (n + 1) ids s }
         else collect_udids i ks n ids s) }
      else collect_udids i ks n ids s) }"

section \<open>Answers to Get UDID\<close>

definition udid_message :: "'w SMBUS_INSTANCE \<Rightarrow> u8 \<Rightarrow> u8 list" where
  "udid_message x last_byte =
     SMBUS_GET_UDID_DATA_LENGTH
     # map (\<lambda>j. ucUDID x ! (SMBUS_UDID_DEVICE_CAPABILITIES_BYTE - j)) [0..<SMBUS_UDID_LENGTH]
     @ [last_byte]"

definition load_udid :: "nat \<Rightarrow> nat \<Rightarrow> u8 \<Rightarrow> 'w smbus \<Rightarrow> 'w smbus option" where
  "load_udid i k last_byte s = do {
     d \<leftarrow> wr_bytes 0 (udid_message (inst s k) last_byte) (ucSendData (inst s i));
     Some (upd i (\<lambda>x. x\<lparr>ucSendData := d\<rparr>) s) }"

definition assigned_address :: "'w SMBUS_INSTANCE \<Rightarrow> u8" where
  "assigned_address x = push_bit 1 (ucSMBusAddress x) OR SMBUS_UDID_ASSIGNED_ADDRESS_BIT0"

primrec directed_lookup :: "nat \<Rightarrow> nat list \<Rightarrow> 'w smbus \<Rightarrow> (bool \<times> 'w smbus) option" where
  "directed_lookup i [] s = Some (False, s)"
| "directed_lookup i (k # ks) s = do {
     s \<leftarrow> log_debug i (ucast (ucSMBusAddress (inst s k))) 1050 s;
     (if ucSMBusAddress (inst s k) = ucMatchedSMBusAddress (inst s i)
      then do {
        s \<leftarrow> log_debug i (arp_value (xARPCapability (inst s k))) 1057 s;
        s \<leftarrow> log_debug i (ucast (ucAVFlag (inst s k))) 1060 s;
        (if SMBUS_ARP_NON_ARP_CAPABLE \<noteq> xARPCapability (inst s k) \<and> SMBUS_TRUE = ucAVFlag (inst s k)
         then do {
           s \<leftarrow> load_udid i k (assigned_address (inst s k)) s;
           Some (True, s) }
         else directed_lookup i ks s) }
      else directed_lookup i ks s) }"

definition get_udid_directed :: "nat \<Rightarrow> 'w smbus \<Rightarrow> 'w smbus option" where
  "get_udid_directed i s = do {
     let s = upd i (\<lambda>x. x\<lparr>usSendDataSize := SMBUS_GET_UDID_MSG_LENGTH\<rparr>) s;
     s \<leftarrow> log_debug i (ucast (ucMatchedSMBusAddress (inst s i))) 1042 s;
     (ok, s) \<leftarrow> directed_lookup i non_arp_instances s;
     (if ok
      then do {
        s \<leftarrow> ack_logged i 1091 s;
        Some (vSMBusNextStateDecoder i SMBUS_STATE_AWAITING_READ s) }
      else refuse i s) }"

definition udid_last_byte :: "'w SMBUS_INSTANCE \<Rightarrow> u8" where
  "udid_last_byte x =
     (if SMBUS_FALSE = ucAVFlag x then SMBUS_UDID_DTA_AV_FLAG_CLEAR
      else push_bit 1 (ucSMBusAddress x) OR SMBUS_UDID_DTA_BIT_0_SET)"

text \<open>
  The general command: the instance with the smallest UDID among those that have no resolved
  address answers. The entry of line 1188 is made for that instance.
\<close>

definition get_udid :: "nat \<Rightarrow> 'w smbus \<Rightarrow> 'w smbus option" where
  "get_udid i s = do {
     let s = upd i (\<lambda>x. x\<lparr>usSendDataSize := SMBUS_GET_UDID_MSG_LENGTH\<rparr>) s;
     (n, ids, s) \<leftarrow> collect_udids i non_arp_instances 0
        (replicate SMBUS_NUMBER_OF_SMBUS_NON_ARP_INSTANCES 0) s;
     (if 0 < n
      then do {
        s \<leftarrow> log_debug i (of_nat n) 1151 s;
        (n, ids, s) \<leftarrow> (if n \<noteq> 1
           then do {
             s \<leftarrow> log_debug i (of_nat n) 1156 s;
             (n, ids) \<leftarrow> narrow_udids s 16 n ids;
             Some (n, ids, s) }
           else Some (n, ids, s));
        k \<leftarrow> at_index (ids ! 0) s;
        s \<leftarrow> add_log SMBUS_LOG_LEVEL_DEBUG (ucast (ids ! 0)) SMBUS_LOG_EVENT_DEBUG
          (ucast (ucSMBusAddress (inst s k))) 1188 s;
        s \<leftarrow> load_udid i k (udid_last_byte (inst s k)) s;
        s \<leftarrow> log_debug i (ucast (ucSMBusAddress (inst s k))) 1219 s;
        s \<leftarrow> ack_logged i 1225 s;
        Some (vSMBusNextStateDecoder i SMBUS_STATE_AWAITING_READ s) }
      else refuse i s) }"

section \<open>Commands of the ARP controller\<close>

definition assign_address :: "nat \<Rightarrow> 'w smbus \<Rightarrow> 'w smbus option" where
  "assign_address i s = do {
     let s = s\<lparr>ucUDIDMatch := replicate SMBUS_NUMBER_OF_SMBUS_NON_ARP_INSTANCES SMBUS_TRUE\<rparr>;
     s \<leftarrow> ack_logged i 940 s;
     Some (vSMBusNextStateDecoder i SMBUS_STATE_AWAITING_BLOCK_SIZE s) }"

text \<open>An accepted command without data: acknowledged, followed by its check byte.\<close>

definition accept_arp :: "nat \<Rightarrow> u32 \<Rightarrow> 'w smbus \<Rightarrow> 'w smbus option" where
  "accept_arp i line s = do {
     s \<leftarrow> ack_logged i line s;
     (_, s) \<leftarrow> ucSMBusTargetWriteDescriptorPEC s;
     let s = upd i (\<lambda>x. x\<lparr>ucPECSent := SMBUS_TRUE\<rparr>) s;
     Some (vSMBusNextStateDecoder i SMBUS_STATE_AWAITING_DONE s) }"

definition prepare_or_reset :: "nat \<Rightarrow> 'w smbus \<Rightarrow> 'w smbus option" where
  "prepare_or_reset i s = do {
     s \<leftarrow> log_debug i (ucast (protocol_value (xProtocol (inst s i)))) 951 s;
     let s = expect 0 i s;
     (if list_ex (arp_participant s) non_arp_instances
      then if SMBUS_ARP_PROTOCOL_RESET_DEVICE_DIRECTED = xProtocol (inst s i)
        then (case find (\<lambda>k. ucSMBusAddress (inst s k) = ucMatchedSMBusAddress (inst s i)) non_arp_instances of
            None \<Rightarrow> refuse i s
          | Some k \<Rightarrow> do {
              s \<leftarrow> log_debug i (ucast (ucAVFlag (inst s k))) 985 s;
              (if SMBUS_TRUE = ucAVFlag (inst s k) then accept_arp i 1002 s else refuse i s) })
        else accept_arp i 1022 s
      else refuse i s) }"

definition arp_command :: "nat \<Rightarrow> 'w smbus \<Rightarrow> 'w smbus option" where
  "arp_command i s = do {
     s \<leftarrow> log_debug i (ucast (ucSMBusAddress (inst s i))) 917 s;
     (rc, s) \<leftarrow> ucSMBusHandleActionGetARPProtocol i s;
     (if SMBUS_ACTION_ARP_PROTOCOL_UNDETERMINED = rc then refuse i s
      else do {
        s \<leftarrow> log_debug i (ucast (protocol_value (xProtocol (inst s i)))) 927 s;
        (case xProtocol (inst s i) of
           SMBUS_ARP_PROTOCOL_ASSIGN_ADDRESS \<Rightarrow> assign_address i s
         | SMBUS_ARP_PROTOCOL_PREPARE_TO_ARP \<Rightarrow> prepare_or_reset i s
         | SMBUS_ARP_PROTOCOL_RESET_DEVICE \<Rightarrow> prepare_or_reset i s
         | SMBUS_ARP_PROTOCOL_RESET_DEVICE_DIRECTED \<Rightarrow> prepare_or_reset i s
         | SMBUS_ARP_PROTOCOL_GET_UDID_DIRECTED \<Rightarrow> get_udid_directed i s
         | SMBUS_ARP_PROTOCOL_GET_UDID \<Rightarrow> get_udid i s
         | _ \<Rightarrow> Some s) }) }"

end
