(* ===== verification/SmbusFsmTarget.thy ===== *)
theory SmbusFsmTarget
  imports SmbusArp
begin

text \<open>
  The states of the SMBus state machine in which an instance is the target of a transaction
  (smbus_state.c): one function per state, from the event to the new state of the driver.
\<close>

section \<open>Initial\<close>

definition initial_write :: "nat \<Rightarrow> 'w smbus \<Rightarrow> 'w smbus option" where
  "initial_write i s =
     (if SMBUS_FALSE = ucSimpleDevice (inst s i)
      then Some (vSMBusNextStateDecoder i
             (if is_i2c (inst s i) then SMBUS_STATE_AWAITING_DATA else SMBUS_STATE_AWAITING_COMMAND_BYTE) s)
      else do {
        let s = upd i (\<lambda>x. x\<lparr>xProtocol := SMBUS_PROTOCOL_SEND_BYTE\<rparr>) s;
        let s = expect 1 i s;
        s \<leftarrow> vSMBusHWWriteRxFifoFillThresholdFillThresh (ucast (usExpectedByteCount (inst s i))) s;
        s \<leftarrow> ack_counted i s;
        Some (vSMBusNextStateDecoder i SMBUS_STATE_AWAITING_DATA s) })"

definition initial_read :: "nat \<Rightarrow> u8 \<Rightarrow> 'w smbus \<Rightarrow> 'w smbus option" where
  "initial_read i e s =
     (if SMBUS_FALSE = ucSimpleDevice (inst s i)
      then if is_i2c (inst s i)
        then do {
          s \<leftarrow> vSMBusHandleActionGetI2CDataFromApplication i s;
          Some (vSMBusNextStateDecoder i SMBUS_STATE_READY_TO_SEND_BYTE s) }
        else do {
          (_, s) \<leftarrow> ucSMBusTargetReadDescriptorRead SMBUS_UNEXPECTED_READ_DESCRIPTOR_DATA s;
          unexpected i e s }
      else do {
        let s = upd i (\<lambda>x. x\<lparr>xProtocol := SMBUS_PROTOCOL_RECEIVE_BYTE\<rparr>) s;
        s \<leftarrow> vSMBusHandleActionGetDataFromApplication i s;
        Some (vSMBusNextStateDecoder i SMBUS_STATE_READY_TO_SEND_BYTE s) })"

text \<open>A transaction that this instance starts as the controller.\<close>

definition initial_send :: "nat \<Rightarrow> 'w smbus \<Rightarrow> 'w smbus option" where
  "initial_send i s = do {
     (v, s) \<leftarrow> ulSMBusHWReadPHYCtrlDbgState s;
     s \<leftarrow> log_debug i v 695 s;
     (v, s) \<leftarrow> ulSMBusHWReadCtrlDbgState s;
     s \<leftarrow> log_debug i v 698 s;
     s \<leftarrow> count_initiated i s;
     let dest = ucSMBusDestinationAddress (inst s i);
     (case xProtocol (inst s i) of
        SMBUS_PROTOCOL_QUICK_COMMAND_LO \<Rightarrow> do {
          (_, s) \<leftarrow> ucSMBusControllerWriteDescriptorQuickWrite dest s;
          s \<leftarrow> vSMBusHWWriteCtrlControlEnable 1 s;
          Some (vSMBusNextStateDecoder i SMBUS_STATE_AWAITING_DONE s) }
      | SMBUS_PROTOCOL_QUICK_COMMAND_HI \<Rightarrow> do {
          (_, s) \<leftarrow> ucSMBusControllerReadDescriptorQuickRead dest s;
          s \<leftarrow> vSMBusHWWriteCtrlControlEnable 1 s;
          Some (vSMBusNextStateDecoder i SMBUS_STATE_AWAITING_DONE s) }
      | SMBUS_PROTOCOL_RECEIVE_BYTE \<Rightarrow> do {
          let s = expect 1 i s;
          s \<leftarrow> vSMBusHandleActionCreateEventSendNextByte i s;
          Some (vSMBusNextStateDecoder i SMBUS_STATE_CONTROLLER_SEND_READ_START s) }
      | I2C_PROTOCOL_WRITE \<Rightarrow> do {
          (_, s) \<leftarrow> ucSMBusControllerWriteDescriptorStartWrite dest s;
          s \<leftarrow> vSMBusHandleActionCreateEventSendNextByte i s;
          Some (vSMBusNextStateDecoder i SMBUS_STATE_CONTROLLER_WRITE_BYTE s) }
      | I2C_PROTOCOL_WRITE_READ \<Rightarrow> do {
          (_, s) \<leftarrow> ucSMBusControllerWriteDescriptorStartWrite dest s;
          s \<leftarrow> vSMBusHandleActionCreateEventSendNextByte i s;
          Some (vSMBusNextStateDecoder i SMBUS_STATE_CONTROLLER_WRITE_BYTE s) }
      | I2C_PROTOCOL_READ \<Rightarrow> do {
          (_, s) \<leftarrow> ucSMBusControllerReadDescriptorStart dest s;
          s \<leftarrow> vSMBusHWWriteCtrlControlEnable SMBUS_CONTROL_ENABLE s;
          let s = upd i (\<lambda>x. x\<lparr>ucExpectedByteCountPart := first_part (usExpectedByteCount x)\<rparr>) s;
          s \<leftarrow> (if 0 < ucExpectedByteCountPart (inst s i)
                then vSMBusHWWriteCtrlRxFifoFillThreshold (ucast (ucExpectedByteCountPart (inst s i))) s
                else Some s);
          Some (vSMBusNextStateDecoder i SMBUS_STATE_CONTROLLER_READ_BYTE s) }
      | _ \<Rightarrow> do {
          s \<leftarrow> log_debug i (ucast dest) 757 s;
          (_, s) \<leftarrow> ucSMBusControllerWriteDescriptorStartWrite dest s;
          s \<leftarrow> vSMBusHandleActionCreateEventSendNextByte i s;
          Some (vSMBusNextStateDecoder i SMBUS_STATE_CONTROLLER_SEND_COMMAND s) }) }"

definition vDefaultSMBusFSMSMBusStateInitial :: "nat \<Rightarrow> u8 \<Rightarrow> 'w smbus \<Rightarrow> 'w smbus option" where
  "vDefaultSMBusFSMSMBusStateInitial i e = on_bus_event i e (\<lambda>s.
     (if e = E_TARGET_WRITE_IRQ then initial_write i s
      else if e = E_TARGET_READ_IRQ then initial_read i e s
      else if e = E_SEND_NEXT_BYTE then initial_send i s
      else unexpected i e s))"

section \<open>Awaiting the command byte\<close>

definition host_notify :: "nat \<Rightarrow> 'w smbus \<Rightarrow> 'w smbus option" where
  "host_notify i s = do {
     s \<leftarrow> log_debug i (ucast (ucSMBusAddress (inst s i))) 899 s;
     let s = upd i (\<lambda>x. x\<lparr>xProtocol := SMBUS_PROTOCOL_HOST_NOTIFY\<rparr>) s;
     (v, s) \<leftarrow> ulSMBusHWReadTgtRxFifoPayload s;
     let s = upd i (\<lambda>x. x\<lparr>ucCommand := ucast v, ucSMBusSenderAddress := ucast v\<rparr>) s;
     let s = expect 2 i s;
     s \<leftarrow> ack_logged i 909 s;
     Some (vSMBusNextStateDecoder i SMBUS_STATE_AWAITING_DATA s) }"

text \<open>The number of data bytes a protocol writes, for those that fix it.\<close>

definition fixed_write_size :: "SMBus_Command_Protocol_Type \<Rightarrow> u16 option" where
  "fixed_write_size p = (case p of
       SMBUS_PROTOCOL_WRITE_64 \<Rightarrow> Some 8
     | SMBUS_PROTOCOL_WRITE_32 \<Rightarrow> Some 4
     | SMBUS_PROTOCOL_WRITE_WORD \<Rightarrow> Some 2
     | SMBUS_PROTOCOL_PROCESS_CALL \<Rightarrow> Some 2
     | SMBUS_PROTOCOL_WRITE_BYTE \<Rightarrow> Some 1
     | _ \<Rightarrow> None)"

definition begin_fixed_write :: "nat \<Rightarrow> u16 \<Rightarrow> 'w smbus \<Rightarrow> 'w smbus option" where
  "begin_fixed_write i n s = do {
     let s = expect n i s;
     s \<leftarrow> vSMBusHWWriteRxFifoFillThresholdFillThresh (ucast (usExpectedByteCount (inst s i))) s;
     s \<leftarrow> acks_counted i (unat (usExpectedByteCount (inst s i)) + 1) s;
     (empty, s) \<leftarrow> ulSMBusHWReadTgtRxFifoStatusEmpty s;
     s \<leftarrow> (if SMBUS_RX_FIFO_IS_EMPTY \<noteq> empty
           then raise_event vSMBusGenerateEvent_E_TARGET_DATA_IRQ i s
           else Some s);
     Some (vSMBusNextStateDecoder i SMBUS_STATE_AWAITING_DATA s) }"

definition smbus_command :: "nat \<Rightarrow> 'w smbus \<Rightarrow> 'w smbus option" where
  "smbus_command i s = do {
     s \<leftarrow> vSMBusHandleActionGetProtocol i s;
     let p = xProtocol (inst s i);
     (if p \<in> {SMBUS_PROTOCOL_BLOCK_READ, SMBUS_PROTOCOL_READ_64, SMBUS_PROTOCOL_READ_32,
              SMBUS_PROTOCOL_READ_WORD, SMBUS_PROTOCOL_READ_BYTE}
      then do {
        s \<leftarrow> vSMBusHandleActionGetDataFromApplication i s;
        s \<leftarrow> ack_logged i 1254 s;
        Some (vSMBusNextStateDecoder i SMBUS_STATE_AWAITING_READ s) }
      else if p \<in> {SMBUS_PROTOCOL_BLOCK_WRITE, SMBUS_PROTOCOL_BLOCK_WRITE_BLOCK_READ_PROCESS_CALL}
      then do {
        s \<leftarrow> ack_logged i 1287 s;
        Some (vSMBusNextStateDecoder i SMBUS_STATE_AWAITING_BLOCK_SIZE s) }
      else case fixed_write_size p of
        Some n \<Rightarrow> begin_fixed_write i n s
      | None \<Rightarrow> refuse i s) }"

definition command_byte :: "nat \<Rightarrow> 'w smbus \<Rightarrow> 'w smbus option" where
  "command_byte i s = do {
     s \<leftarrow> log_debug i (ucast (ucSMBusAddress (inst s i))) 894 s;
     s \<leftarrow> (if SMBUS_NOTIFY_ARP_MASTER_ADDRESS = ucSMBusAddress (inst s i) then host_notify i s
           else if SMBUS_DEVICE_DEFAULT_ARP_ADDRESS = ucSMBusAddress (inst s i) then arp_command i s
           else smbus_command i s);
     count_initiated i s }"

definition vDefaultSMBusFSMSMBusStateAwaitingCommandByte :: "nat \<Rightarrow> u8 \<Rightarrow> 'w smbus \<Rightarrow> 'w smbus option" where
  "vDefaultSMBusFSMSMBusStateAwaitingCommandByte i e = on_bus_event i e (\<lambda>s.
     (if e = E_DESC_FIFO_ALMOST_EMPTY_IRQ then Some s
      else if e = E_TARGET_DATA_IRQ then command_byte i s
      else unexpected i e s))"

section \<open>Awaiting the size of a block\<close>

definition block_size :: "nat \<Rightarrow> 'w smbus \<Rightarrow> 'w smbus option" where
  "block_size i s =
     (if xProtocol (inst s i) \<in> {SMBUS_PROTOCOL_BLOCK_WRITE_BLOCK_READ_PROCESS_CALL,
          SMBUS_PROTOCOL_BLOCK_WRITE, SMBUS_ARP_PROTOCOL_ASSIGN_ADDRESS}
      then do {
        (empty, s) \<leftarrow> ulSMBusHWReadTgtRxFifoStatusEmpty s;
        (if SMBUS_RX_FIFO_IS_EMPTY \<noteq> empty
         then do {
           (v, s) \<leftarrow> ulSMBusHWReadTgtRxFifoPayload s;
           let s = upd i (\<lambda>x. x\<lparr>usExpectedByteCount := ucast v\<rparr>) s;
           s \<leftarrow> log_debug i (ucast (usDescriptorsSent (inst s i))) 2537 s;
           s \<leftarrow> log_debug i (ucast (usExpectedByteCount (inst s i))) 2540 s;
           s \<leftarrow> ack_logged i 2547 s;
           let s = upd i (\<lambda>x. x\<lparr>usReceiveIndex := 0, ucExpectedByteCountPart :=
               (if usExpectedByteCount x < ucast SMBUS_FIFO_FILL_TRIGGER then 1 else SMBUS_FIFO_FILL_TRIGGER)\<rparr>) s;
           s \<leftarrow> vSMBusHWWriteRxFifoFillThresholdFillThresh (ucast (ucExpectedByteCountPart (inst s i))) s;
           (if SMBUS_PROTOCOL_BLOCK_WRITE_BLOCK_READ_PROCESS_CALL = xProtocol (inst s i)
               \<and> 0 = usExpectedByteCount (inst s i)
            then do {
              s \<leftarrow> vSMBusHandleActionGetDataFromApplication i s;
              s \<leftarrow> log_debug i (ucast (usSendDataSize (inst s i))) 2576 s;
              Some (vSMBusNextStateDecoder i SMBUS_STATE_AWAITING_READ s) }
            else Some (vSMBusNextStateDecoder i SMBUS_STATE_AWAITING_DATA s)) }
         else log_debug i 0 2554 s) }
      else Some s)"

definition vDefaultSMBusFSMSMBusStateAwaitingBlockSize :: "nat \<Rightarrow> u8 \<Rightarrow> 'w smbus \<Rightarrow> 'w smbus option" where
  "vDefaultSMBusFSMSMBusStateAwaitingBlockSize i e = on_bus_event i e (\<lambda>s.
     (if e = E_DESC_FIFO_ALMOST_EMPTY_IRQ then Some s
      else if e = E_TARGET_DATA_IRQ then block_size i s
      else unexpected i e s))"

end
