(* ===== verification/SmbusFsmDone.thy ===== *)
theory SmbusFsmDone
  imports SmbusFsmTarget
begin

text \<open>
  The states in which the data of a transaction moves between the bus and a target instance,
  and the end of a transaction (smbus_state.c): the state in which it is awaited, for a target
  and for a controller that does not read, and what the end of an ARP command does.
\<close>

section \<open>Awaiting data\<close>

text \<open>
  One byte of a UDID: the instances still in the race whose byte agrees stay in it, the last
  of them is the match.
\<close>

primrec match_instances :: "nat \<Rightarrow> nat list \<Rightarrow> bool \<Rightarrow> 'w smbus \<Rightarrow> (bool \<times> 'w smbus) option" where
  "match_instances i [] ok s = Some (ok, s)"
| "match_instances i (k # ks) ok s =
     (if SMBUS_TRUE = ucInstanceInUse (inst s k) \<and> SMBUS_TRUE = ucUDIDMatch s ! k
      then do {
        let r = unat (usReceiveIndex (inst s i));
        b \<leftarrow> rd8 (ucReceivedData (inst s i)) r;
        u \<leftarrow> (if r \<le> 15 then rd8 (ucUDID (inst s k)) (15 - r) else None);
        (if u = b
         then match_instances i ks True (upd i (\<lambda>x. x\<lparr>ucUDIDMatchedInstance := of_nat k\<rparr>) s)
         else match_instances i ks ok (s\<lparr>ucUDIDMatch := (ucUDIDMatch s)[k := SMBUS_FALSE]\<rparr>)) }
      else match_instances i ks ok s)"

definition ucCheckAtLeastOneMatchFound :: "nat \<Rightarrow> 'w smbus \<Rightarrow> (u8 \<times> 'w smbus) option" where
  "ucCheckAtLeastOneMatchFound i s = do {
     (ok, s) \<leftarrow> match_instances i non_arp_instances False s;
     let found = (if ok then SMBUS_TRUE else SMBUS_FALSE);
     s \<leftarrow> log_debug i (ucast found) 2135 s;
     Some (found, s) }"

definition last_received :: "nat \<Rightarrow> 'w smbus \<Rightarrow> u8" where
  "last_received i s = ucReceivedData (inst s i) ! unat (usReceiveIndex (inst s i))"

definition received_one :: "nat \<Rightarrow> 'w smbus \<Rightarrow> 'w smbus" where
  "received_one i s = upd i (\<lambda>x. x\<lparr>usReceiveIndex := usReceiveIndex x + 1\<rparr>) s"

text \<open>A byte of Assign Address: sixteen of the UDID, the new address, the check byte.\<close>

definition assign_byte :: "nat \<Rightarrow> 'w smbus \<Rightarrow> 'w smbus option" where
  "assign_byte i s = do {
     (v, s) \<leftarrow> ulSMBusHWReadTgtRxFifoPayload s;
     d \<leftarrow> wr8 (unat (usReceiveIndex (inst s i))) (ucast v) (ucReceivedData (inst s i));
     let s = upd i (\<lambda>x. x\<lparr>ucReceivedData := d\<rparr>) s;
     let r = usReceiveIndex (inst s i);
     s \<leftarrow> log_debug i (ucast r) 2328 s;
     s \<leftarrow> log_debug i (ucast (last_received i s)) 2331 s;
     (if unat r < SMBUS_UDID_LENGTH
      then do {
        s \<leftarrow> log_debug i (ucast (last_received i s)) 2336 s;
        (found, s) \<leftarrow> ucCheckAtLeastOneMatchFound i s;
        s \<leftarrow> (if SMBUS_TRUE = found
              then do {
                s \<leftarrow> ack_counted i s;
                Some (vSMBusNextStateDecoder i SMBUS_STATE_AWAITING_DATA s) }
              else refuse i s);
        Some (received_one i s) }
      else if unat r = SMBUS_UDID_LENGTH
      then do {
        let s = upd i (\<lambda>x. x\<lparr>ucNewDeviceSlaveAddress :=
            drop_bit SMBUS_TGT_CONTROL_0_ADDRESS_FIELD_POSITION (ucReceivedData x ! unat r)\<rparr>) s;
        s \<leftarrow> log_debug i (ucast (last_received i s)) 2361 s;
        s \<leftarrow> log_debug i (ucast (ucUDIDMatchedInstance (inst s i))) 2364 s;
        s \<leftarrow> log_debug i (ucast (ucNewDeviceSlaveAddress (inst s i))) 2367 s;
        s \<leftarrow> ack_counted i s;
        Some (received_one i s) }
      else do {
        s \<leftarrow> log_debug i (ucast r) 2380 s;
        (_, s) \<leftarrow> ucSMBusTargetWriteDescriptorPEC s;
        let s = upd i (\<lambda>x. x\<lparr>ucPECSent := SMBUS_TRUE\<rparr>) s;
        Some (vSMBusNextStateDecoder i SMBUS_STATE_AWAITING_DONE s) }) }"

definition assign_bytes :: "nat \<Rightarrow> 'w smbus \<Rightarrow> 'w smbus option" where
  "assign_bytes i s = do {
     (fill, s) \<leftarrow> ulSMBusHWReadTgtRxFifoStatusFillLevel s;
     for_each (\<lambda>_. assign_byte i) [0..<unat (ucast fill :: u8)] s }"

definition data_received :: "nat \<Rightarrow> 'w smbus \<Rightarrow> 'w smbus option" where
  "data_received i s = do {
     s \<leftarrow> receive_all i s;
     let x = inst s i;
     (if usReceiveIndex x < usExpectedByteCount x
      then do {
        let part = (if unat (usExpectedByteCount x) - unat (usReceiveIndex x) < unat SMBUS_FIFO_FILL_TRIGGER
                    then 1 else SMBUS_FIFO_FILL_TRIGGER);
        let s = upd i (\<lambda>x. x\<lparr>ucExpectedByteCountPart := part\<rparr>) s;
        s \<leftarrow> vSMBusHWWriteRxFifoFillThresholdFillThresh (ucast (ucExpectedByteCountPart (inst s i))) s;
        Some (vSMBusNextStateDecoder i SMBUS_STATE_AWAITING_DATA s) }
      else do {
        s \<leftarrow> vSMBusHWWriteRxFifoFillThresholdFillThresh 1 s;
        (if xProtocol (inst s i) \<in> {SMBUS_PROTOCOL_BLOCK_WRITE_BLOCK_READ_PROCESS_CALL,
             SMBUS_PROTOCOL_PROCESS_CALL}
         then do {
           s \<leftarrow> (if SMBUS_FALSE = ucNackSent (inst s i)
                 then vSMBusHandleActionWriteDataToApplication i (ucast (ulTransactionID s)) s
                 else Some s);
           s \<leftarrow> vSMBusHandleActionGetDataFromApplication i s;
           s \<leftarrow> log_debug i (ucast (usSendDataSize (inst s i))) 2440 s;
           Some (vSMBusNextStateDecoder i SMBUS_STATE_AWAITING_READ s) }
         else Some (vSMBusNextStateDecoder i SMBUS_STATE_AWAITING_DONE s)) }) }"

definition target_data :: "nat \<Rightarrow> 'w smbus \<Rightarrow> 'w smbus option" where
  "target_data i s =
     (if is_i2c (inst s i) then receive_all i s
      else if xProtocol (inst s i) = SMBUS_ARP_PROTOCOL_ASSIGN_ADDRESS then assign_bytes i s
      else if xProtocol (inst s i) \<in> {SMBUS_PROTOCOL_HOST_NOTIFY,
          SMBUS_PROTOCOL_BLOCK_WRITE_BLOCK_READ_PROCESS_CALL, SMBUS_PROTOCOL_PROCESS_CALL,
          SMBUS_PROTOCOL_BLOCK_WRITE, SMBUS_PROTOCOL_WRITE_64, SMBUS_PROTOCOL_WRITE_32,
          SMBUS_PROTOCOL_WRITE_WORD, SMBUS_PROTOCOL_WRITE_BYTE, SMBUS_PROTOCOL_SEND_BYTE}
      then data_received i s
      else Some s)"

definition data_refill :: "nat \<Rightarrow> 'w smbus \<Rightarrow> 'w smbus option" where
  "data_refill i s =
     (if SMBUS_ARP_PROTOCOL_ASSIGN_ADDRESS \<noteq> xProtocol (inst s i)
      then refill_acks (if ulI2CDevice (inst s i) \<noteq> 0 then usReceiveIndex else usExpectedByteCount) i s
      else Some s)"

definition write_i2c_received :: "nat \<Rightarrow> 'w smbus \<Rightarrow> 'w smbus option" where
  "write_i2c_received i s =
     (if SMBUS_FALSE = ucNackSent (inst s i) \<and> 0 < usReceiveIndex (inst s i)
      then vSMBusHandleActionWriteI2CDataToApplication i s
      else Some s)"

definition data_read :: "nat \<Rightarrow> u8 \<Rightarrow> 'w smbus \<Rightarrow> 'w smbus option" where
  "data_read i e s =
     (if SMBUS_PROTOCOL_HOST_NOTIFY \<noteq> xProtocol (inst s i)
      then if is_i2c (inst s i)
        then do {
          s \<leftarrow> write_i2c_received i s;
          s \<leftarrow> vSMBusHandleActionGetI2CDataFromApplication i s;
          Some (vSMBusNextStateDecoder i SMBUS_STATE_READY_TO_SEND_BYTE s) }
        else raise_event vSMBusGenerateEvent_E_TARGET_READ_IRQ i s
      else controller_error i e s)"

definition data_done :: "nat \<Rightarrow> u8 \<Rightarrow> 'w smbus \<Rightarrow> 'w smbus option" where
  "data_done i e s =
     (if is_i2c (inst s i)
      then do {
        s \<leftarrow> write_i2c_received i s;
        s \<leftarrow> raise_event vSMBusGenerateEvent_E_TARGET_DONE_IRQ i s;
        Some (vSMBusNextStateDecoder i SMBUS_STATE_AWAITING_DONE s) }
      else to_initial i (vSMBusHandleActionBusError i e (announce i SMBUS_ERROR s)))"

definition vDefaultSMBusFSMSMBusStateAwaitingData :: "nat \<Rightarrow> u8 \<Rightarrow> 'w smbus \<Rightarrow> 'w smbus option" where
  "vDefaultSMBusFSMSMBusStateAwaitingData i e = on_bus_event i e (\<lambda>s.
     (if e = E_DESC_FIFO_ALMOST_EMPTY_IRQ then data_refill i s
      else if e = E_TARGET_READ_IRQ then data_read i e s
      else if e = E_TARGET_DONE_IRQ then data_done i e s
      else if e = E_TARGET_DATA_IRQ then target_data i s
      else unexpected i e s))"

section \<open>Awaiting a read, sending\<close>

text \<open>The protocols in which a target sends bytes after its command byte.\<close>

definition read_protocols :: "SMBus_Command_Protocol_Type list" where
  "read_protocols = [SMBUS_PROTOCOL_BLOCK_WRITE_BLOCK_READ_PROCESS_CALL, SMBUS_PROTOCOL_PROCESS_CALL,
     SMBUS_PROTOCOL_BLOCK_READ, SMBUS_PROTOCOL_READ_64, SMBUS_PROTOCOL_READ_32,
     SMBUS_PROTOCOL_READ_WORD, SMBUS_PROTOCOL_READ_BYTE]"

definition udid_protocols :: "SMBus_Command_Protocol_Type list" where
  "udid_protocols = [SMBUS_ARP_PROTOCOL_GET_UDID, SMBUS_ARP_PROTOCOL_GET_UDID_DIRECTED]"

definition read_refill :: "nat \<Rightarrow> 'w smbus \<Rightarrow> 'w smbus option" where
  "read_refill i s = do {
     s \<leftarrow> add_log SMBUS_LOG_LEVEL_INFO (ucast (ucThisInstanceNumber (inst s i)))
       SMBUS_LOG_EVENT_DEBUG (ucast (usDescriptorsSent (inst s i))) 1370 s;
     refill_acks usExpectedByteCount i s }"

definition vDefaultSMBusFSMSMBusStateAwaitingRead :: "nat \<Rightarrow> u8 \<Rightarrow> 'w smbus \<Rightarrow> 'w smbus option" where
  "vDefaultSMBusFSMSMBusStateAwaitingRead i e = on_bus_event i e (\<lambda>s.
     (if e = E_DESC_FIFO_ALMOST_EMPTY_IRQ then read_refill i s
      else if e = E_TARGET_READ_IRQ
      then Some (if xProtocol (inst s i) \<in> set (read_protocols @ udid_protocols)
                 then vSMBusNextStateDecoder i SMBUS_STATE_READY_TO_SEND_BYTE s else s)
      else if e = E_TARGET_DATA_IRQ then Some s
      else unexpected i e s))"

definition send_refill :: "nat \<Rightarrow> 'w smbus \<Rightarrow> 'w smbus option" where
  "send_refill i s =
     (if xProtocol (inst s i) \<in> set (SMBUS_PROTOCOL_RECEIVE_BYTE # read_protocols @ udid_protocols)
         \<or> is_i2c (inst s i)
      then do {
        s \<leftarrow> log_debug i (ucast (usSendIndex (inst s i))) 1533 s;
        s \<leftarrow> log_debug i (ucast (usSendDataSize (inst s i))) 1536 s;
        (fill, s) \<leftarrow> ulSMBusHWReadTgtDescStatusFillLevel s;
        s \<leftarrow> send_bytes i (fifo_room fill) s;
        (if usSendIndex (inst s i) = usSendDataSize (inst s i)
         then do {
           s \<leftarrow> vSMBusHandleActionCreateEventIsPECRequired i s;
           Some (vSMBusNextStateDecoder i SMBUS_STATE_CHECK_IF_PEC_REQUIRED s) }
         else Some s) }
      else Some s)"

definition vDefaultSMBusFSMSMBusStateReadyToSendByte :: "nat \<Rightarrow> u8 \<Rightarrow> 'w smbus \<Rightarrow> 'w smbus option" where
  "vDefaultSMBusFSMSMBusStateReadyToSendByte i e = on_bus_event i e (\<lambda>s.
     (if e = E_DESC_FIFO_ALMOST_EMPTY_IRQ then send_refill i s
      else unexpected i e s))"

definition send_check_byte :: "nat \<Rightarrow> 'w smbus \<Rightarrow> 'w smbus option" where
  "send_check_byte i s = do {
     (rc, s) \<leftarrow> ucSMBusTargetReadDescriptorPECRead s;
     (if SMBUS_HW_DESCRIPTOR_WRITE_FAIL = rc
      then vSMBusHandleActionCreateEventIsPECRequired i s
      else Some (vSMBusNextStateDecoder i SMBUS_STATE_AWAITING_DONE s)) }"

definition check_pec :: "nat \<Rightarrow> 'w smbus \<Rightarrow> 'w smbus option" where
  "check_pec i s = do {
     s \<leftarrow> log_debug i (ucast (protocol_value (xProtocol (inst s i)))) 1632 s;
     s \<leftarrow> (if xProtocol (inst s i) \<in> set (SMBUS_PROTOCOL_RECEIVE_BYTE # read_protocols) \<or> is_i2c (inst s i)
           then do {
             s \<leftarrow> log_debug i (ucast (ucPECRequired (inst s i))) 1645 s;
             (if SMBUS_TRUE = ucPECRequired (inst s i) then send_check_byte i s
              else Some (vSMBusNextStateDecoder i SMBUS_STATE_AWAITING_DONE s)) }
           else Some s);
     (if xProtocol (inst s i) \<in> set udid_protocols then send_check_byte i s else Some s) }"

definition vDefaultSMBusFSMSMBusStateCheckIfPECRequired :: "nat \<Rightarrow> u8 \<Rightarrow> 'w smbus \<Rightarrow> 'w smbus option" where
  "vDefaultSMBusFSMSMBusStateCheckIfPECRequired i e = on_bus_event i e (\<lambda>s.
     (if e = E_IS_PEC_REQUIRED then check_pec i s else unexpected i e s))"

section \<open>Empty descriptor FIFO\<close>

definition done_refill :: "nat \<Rightarrow> 'w smbus \<Rightarrow> 'w smbus option" where
  "done_refill i s = do {
     s \<leftarrow> log_debug i (ucast (usDescriptorsSent (inst s i))) 1717 s;
     s \<leftarrow> log_debug i (ucast (usExpectedByteCount (inst s i))) 1720 s;
     s \<leftarrow> log_debug i (ucast (usReceiveIndex (inst s i))) 1723 s;
     let s = upd i (\<lambda>x. x\<lparr>ucFifoEmptyWhileInDoneCount := ucFifoEmptyWhileInDoneCount x + 1\<rparr>) s;
     (if SMBUS_MAX_FIFO_EMPTY_WHILE_IN_DONE < ucFifoEmptyWhileInDoneCount (inst s i)
      then vSMBusSendNACK i s
      else do {
        s \<leftarrow> (if SMBUS_FALSE = ucNackSent (inst s i) then refill_acks usExpectedByteCount i s else Some s);
        (if unat (usExpectedByteCount (inst s i)) + 1 \<le> unat (usReceiveIndex (inst s i))
         then if SMBUS_TRUE = ucPECRequired (inst s i) \<and> SMBUS_FALSE = ucPECSent (inst s i)
           then do {
             (_, s) \<leftarrow> ucSMBusTargetWriteDescriptorPEC s;
             Some (upd i (\<lambda>x. x\<lparr>ucPECSent := SMBUS_TRUE\<rparr>) s) }
           else if SMBUS_TRUE = ucSimpleDevice (inst s i) then vSMBusSendNACK i s
           else Some s
         else Some s) }) }"

section \<open>End of a transaction of a target\<close>

definition deliver_written :: "nat \<Rightarrow> 'w smbus \<Rightarrow> 'w smbus option" where
  "deliver_written i s = do {
     s \<leftarrow> log_debug i (ucast (ucCommand (inst s i))) 1864 s;
     s \<leftarrow> log_debug i (ucast (usExpectedByteCount (inst s i))) 1867 s;
     (if SMBUS_FALSE = ucNackSent (inst s i)
      then vSMBusHandleActionWriteDataToApplication i (ucast (ulTransactionID s)) s
      else Some s) }"

definition assign_done :: "nat \<Rightarrow> 'w smbus \<Rightarrow> 'w smbus option" where
  "assign_done i s =
     (if SMBUS_FALSE = ucNackSent (inst s i)
      then do {
        let m = ucUDIDMatchedInstance (inst s i);
        s \<leftarrow> log_debug i (ucast m) 1889 s;
        s \<leftarrow> log_debug i (ucast (ucNewDeviceSlaveAddress (inst s i))) 1892 s;
        k \<leftarrow> at_index m s;
        let s = (if arp_discoverable (inst s k)
                 then upd k (\<lambda>x. x\<lparr>ucARFlag := SMBUS_TRUE, ucAVFlag := SMBUS_TRUE\<rparr>) s else s);
        (if SMBUS_ARP_CAPABLE = xARPCapability (inst s k)
         then do {
           let s = upd k (\<lambda>x. x\<lparr>ucSMBusAddress := ucNewDeviceSlaveAddress (inst s i)\<rparr>) s;
           let m = ucUDIDMatchedInstance (inst s i);
           s \<leftarrow> vSMBusHWWriteTgtControlEnable m 0 s;
           s \<leftarrow> vSMBusHWWriteTgtControlAddress m (ucast (ucSMBusAddress (inst s k))) s;
           s \<leftarrow> vSMBusHWWriteTgtControlEnable m 1 s;
           Some (vSMBusHandleActionNotifyAddressChangeToApplication k s) }
         else Some s) }
      else Some s)"

definition arp_supported :: "'w SMBUS_INSTANCE \<Rightarrow> bool" where
  "arp_supported x \<longleftrightarrow> arp_discoverable x \<or> SMBUS_ARP_FIXED_NOT_DISCOVERABLE = xARPCapability x"

definition prepare_done :: "nat \<Rightarrow> 'w smbus \<Rightarrow> 'w smbus option" where
  "prepare_done k s =
     (if SMBUS_TRUE = ucInstanceInUse (inst s k) \<and> arp_supported (inst s k) \<and> unat (ucInstanceInPlay s) \<noteq> k
      then vSMBusARPPrepareToARP k s else Some s)"

definition reset_done :: "nat \<Rightarrow> nat \<Rightarrow> 'w smbus \<Rightarrow> 'w smbus option" where
  "reset_done i k s = do {
     s \<leftarrow> log_debug i (of_nat k) 1946 s;
     (if SMBUS_TRUE = ucInstanceInUse (inst s k)
      then do {
        s \<leftarrow> log_debug i (ucast (ucSMBusAddress (inst s k))) 1952 s;
        (if arp_supported (inst s k)
         then do {
           s \<leftarrow> log_debug i (ucast (ucSMBusAddress (inst s k))) 1959 s;
           (if unat (ucInstanceInPlay s) \<noteq> k then vSMBusARPResetDevice k s else Some s) }
         else Some s) }
      else Some s) }"

definition reset_directed_done :: "nat \<Rightarrow> nat \<Rightarrow> 'w smbus \<Rightarrow> 'w smbus option" where
  "reset_directed_done i k s =
     (if ucSMBusAddress (inst s k) = ucMatchedSMBusAddress (inst s i)
         \<and> SMBUS_TRUE = ucInstanceInUse (inst s k) \<and> arp_supported (inst s k)
      then vSMBusARPResetDevice k s else Some s)"

definition written_protocols :: "SMBus_Command_Protocol_Type list" where
  "written_protocols = [SMBUS_PROTOCOL_BLOCK_WRITE, SMBUS_PROTOCOL_WRITE_64, SMBUS_PROTOCOL_WRITE_32,
     SMBUS_PROTOCOL_WRITE_WORD, SMBUS_PROTOCOL_WRITE_BYTE, SMBUS_PROTOCOL_SEND_BYTE]"

definition arp_protocols :: "SMBus_Command_Protocol_Type list" where
  "arp_protocols = [SMBUS_ARP_PROTOCOL_ASSIGN_ADDRESS, SMBUS_ARP_PROTOCOL_PREPARE_TO_ARP,
     SMBUS_ARP_PROTOCOL_RESET_DEVICE, SMBUS_ARP_PROTOCOL_RESET_DEVICE_DIRECTED,
     SMBUS_ARP_PROTOCOL_GET_UDID, SMBUS_ARP_PROTOCOL_GET_UDID_DIRECTED]"

text \<open>What the end of a transaction does, by its protocol.\<close>

definition protocol_effect :: "nat \<Rightarrow> 'w smbus \<Rightarrow> 'w smbus option" where
  "protocol_effect i s = do {
     let p = xProtocol (inst s i);
     (if p \<in> set written_protocols then deliver_written i s
      else if p = SMBUS_PROTOCOL_HOST_NOTIFY
      then vSMBusHandleActionWriteDataToApplication i (ucast (ulTransactionID s)) s
      else if p = SMBUS_ARP_PROTOCOL_ASSIGN_ADDRESS then assign_done i s
      else if p = SMBUS_ARP_PROTOCOL_PREPARE_TO_ARP then for_each prepare_done non_arp_instances s
      else if p = SMBUS_ARP_PROTOCOL_RESET_DEVICE then for_each (reset_done i) non_arp_instances s
      else if p = SMBUS_ARP_PROTOCOL_RESET_DEVICE_DIRECTED
      then for_each (reset_directed_done i) non_arp_instances s
      else Some s) }"

definition target_done :: "nat \<Rightarrow> 'w smbus \<Rightarrow> 'w smbus option" where
  "target_done i s = do {
     s \<leftarrow> count_completed i s;
     (if is_i2c (inst s i)
      then do {
        s \<leftarrow> log_debug i (ucast (ucCommand (inst s i))) 1840 s;
        s \<leftarrow> log_debug i (ucast (usExpectedByteCount (inst s i))) 1843 s;
        to_initial i (if SMBUS_FALSE = ucNackSent (inst s i)
                      then vSMBusHandleActionAnnounceI2CResultToApplication i SMBUS_SUCCESS s else s) }
      else do {
        s \<leftarrow> protocol_effect i s;
        let p = xProtocol (inst s i);
        (if p \<in> set (read_protocols @ written_protocols
               @ [SMBUS_PROTOCOL_RECEIVE_BYTE, SMBUS_PROTOCOL_HOST_NOTIFY, SMBUS_PROTOCOL_NONE])
         then to_initial i (announce i
                (if SMBUS_FALSE = ucNackSent (inst s i) then SMBUS_SUCCESS else SMBUS_ERROR) s)
         else if p \<in> set arp_protocols then to_initial i s
         else Some s) }) }"

definition late_data :: "nat \<Rightarrow> 'w smbus \<Rightarrow> 'w smbus option" where
  "late_data i s =
     (if xProtocol (inst s i) \<in> set (written_protocols @ arp_protocols) then receive_all i s else Some s)"

section \<open>End of a transaction of a controller\<close>

definition controller_done :: "nat \<Rightarrow> 'w smbus \<Rightarrow> 'w smbus option" where
  "controller_done i s = do {
     s \<leftarrow> (if SMBUS_PROTOCOL_BLOCK_READ = xProtocol (inst s i)
           then vSMBusHandleActionWriteDataToApplication i (ucast (ulTransactionID s)) s
           else Some s);
     s \<leftarrow> count_completed i s;
     to_initial i
       (if I2C_PROTOCOL_WRITE = xProtocol (inst s i)
        then vSMBusHandleActionAnnounceI2CResultToApplication i SMBUS_SUCCESS s
        else announce i SMBUS_SUCCESS s) }"

section \<open>The state\<close>

text \<open>In this state the errors of a target are announced as well.\<close>

definition vDefaultSMBusFSMSMBusStateAwaitingDone :: "nat \<Rightarrow> u8 \<Rightarrow> 'w smbus \<Rightarrow> 'w smbus option" where
  "vDefaultSMBusFSMSMBusStateAwaitingDone i e s =
     (if e = E_CONTROLLER_DESC_FIFO_ALMOST_EMPTY_IRQ
      then do {
        s \<leftarrow> log_debug i (ucast (usDescriptorsSent (inst s i))) 1708 s;
        log_debug i (ucast (usExpectedByteCount (inst s i))) 1711 s }
      else if e = E_DESC_FIFO_ALMOST_EMPTY_IRQ then done_refill i s
      else if e \<in> set timeout_events then Some (vSMBusHandleActionBusWarning i e s)
      else if e \<in> set (target_error_events @ controller_error_events) then controller_error i e s
      else if e = E_TARGET_READ_IRQ then vSMBusSendNACK i s
      else if e = E_TARGET_DONE_IRQ then target_done i s
      else if e = E_TARGET_DATA_IRQ then late_data i s
      else if e = E_CONTROLLER_DONE_IRQ then controller_done i s
      else unexpected i e s)"

end
