(* ===== verification/SmbusFsmController.thy ===== *)
theory SmbusFsmController
  imports SmbusFsmDone
begin

text \<open>
  The states in which an instance is the controller of a transaction (smbus_state.c): sending
  the command and the data, turning the bus around, reading, and the end of a read.
\<close>

section \<open>Sending the command\<close>

text \<open>The controller goes on with the next byte when its command could be written.\<close>

definition send_command_then :: "SMBus_State_Type \<Rightarrow> nat \<Rightarrow> 'w smbus \<Rightarrow> 'w smbus option" where
  "send_command_then st i s = do {
     (rc, s) \<leftarrow> ucSMBusControllerWriteDescriptorByte (ucCommand (inst s i)) SMBUS_FALSE s;
     (if SMBUS_HW_DESCRIPTOR_WRITE_FAIL = rc then Some s
      else do {
        s \<leftarrow> vSMBusHandleActionCreateEventSendNextByte i s;
        Some (vSMBusNextStateDecoder i st s) }) }"

definition send_command :: "nat \<Rightarrow> 'w smbus \<Rightarrow> 'w smbus option" where
  "send_command i s =
     (let p = xProtocol (inst s i)
      in if p \<in> set ([SMBUS_PROTOCOL_BLOCK_READ, SMBUS_PROTOCOL_READ_64, SMBUS_PROTOCOL_READ_32,
             SMBUS_PROTOCOL_READ_WORD, SMBUS_PROTOCOL_READ_BYTE] @ udid_protocols)
         then send_command_then SMBUS_STATE_CONTROLLER_SEND_READ_START i s
         else if p \<in> {SMBUS_PROTOCOL_BLOCK_WRITE, SMBUS_PROTOCOL_WRITE_BYTE, SMBUS_PROTOCOL_WRITE_WORD,
             SMBUS_PROTOCOL_HOST_NOTIFY, SMBUS_PROTOCOL_WRITE_32, SMBUS_PROTOCOL_WRITE_64,
             SMBUS_PROTOCOL_PROCESS_CALL, SMBUS_PROTOCOL_BLOCK_WRITE_BLOCK_READ_PROCESS_CALL,
             SMBUS_ARP_PROTOCOL_PREPARE_TO_ARP, SMBUS_ARP_PROTOCOL_RESET_DEVICE,
             SMBUS_ARP_PROTOCOL_RESET_DEVICE_DIRECTED, SMBUS_ARP_PROTOCOL_ASSIGN_ADDRESS}
         then send_command_then SMBUS_STATE_CONTROLLER_WRITE_BYTE i s
         else if p = SMBUS_PROTOCOL_SEND_BYTE
         then do {
           s \<leftarrow> vSMBusHandleActionCreateEventSendNextByte i s;
           Some (vSMBusNextStateDecoder i SMBUS_STATE_CONTROLLER_WRITE_BYTE s) }
         else Some s)"

definition vDefaultSMBusFSMSMBusStateControllerSendCommand :: "nat \<Rightarrow> u8 \<Rightarrow> 'w smbus \<Rightarrow> 'w smbus option" where
  "vDefaultSMBusFSMSMBusStateControllerSendCommand i e = on_bus_event i e (\<lambda>s.
     (if e = E_SEND_NEXT_BYTE then send_command i s else unexpected i e s))"

section \<open>Writing\<close>

definition next_byte :: "nat \<Rightarrow> 'w smbus \<Rightarrow> u8 option" where
  "next_byte i s = rd8 (ucSendData (inst s i)) (unat (usSendIndex (inst s i)))"

definition byte_written :: "nat \<Rightarrow> 'w smbus \<Rightarrow> 'w smbus" where
  "byte_written i s =
     upd i (\<lambda>x. x\<lparr>usSendIndex := usSendIndex x + 1, usSendDataSize := usSendDataSize x - 1\<rparr>) s"

text \<open>All bytes but the last. The log entry takes the index of the byte for the instance.\<close>

primrec write_burst :: "nat \<Rightarrow> nat \<Rightarrow> 'w smbus \<Rightarrow> 'w smbus option" where
  "write_burst i 0 s = Some s"
| "write_burst i (Suc n) s =
     (if 1 < usSendDataSize (inst s i)
      then do {
        b \<leftarrow> next_byte i s;
        s \<leftarrow> add_log SMBUS_LOG_LEVEL_DEBUG (ucast (usSendIndex (inst s i))) SMBUS_LOG_EVENT_DEBUG (ucast b) 2805 s;
        (rc, s) \<leftarrow> ucSMBusControllerWriteDescriptorByte b SMBUS_TRUE s;
        (if SMBUS_HW_DESCRIPTOR_WRITE_FAIL = rc then Some s
         else write_burst i n (byte_written i s)) }
      else write_burst i n s)"

primrec assign_burst :: "nat \<Rightarrow> nat \<Rightarrow> 'w smbus \<Rightarrow> 'w smbus option" where
  "assign_burst i 0 s = Some s"
| "assign_burst i (Suc n) s =
     (if 0 < usSendDataSize (inst s i)
      then do {
        b \<leftarrow> next_byte i s;
        (rc, s) \<leftarrow> ucSMBusControllerWriteDescriptorByte b SMBUS_TRUE s;
        (if SMBUS_HW_DESCRIPTOR_WRITE_FAIL = rc then Some s
         else assign_burst i n (byte_written i s)) }
      else Some s)"

abbreviation stay_writing :: "nat \<Rightarrow> 'w smbus \<Rightarrow> 'w smbus option" where
  "stay_writing i s \<equiv> Some (vSMBusNextStateDecoder i SMBUS_STATE_CONTROLLER_WRITE_BYTE s)"

definition last_turns_around :: "nat \<Rightarrow> 'w smbus \<Rightarrow> 'w smbus option" where
  "last_turns_around i s = do {
     b \<leftarrow> next_byte i s;
     (rc, s) \<leftarrow> ucSMBusControllerWriteDescriptorByte b SMBUS_FALSE s;
     (if SMBUS_HW_DESCRIPTOR_WRITE_FAIL = rc then stay_writing i s
      else do {
        s \<leftarrow> vSMBusHandleActionCreateEventSendNextByte i s;
        Some (vSMBusNextStateDecoder i SMBUS_STATE_CONTROLLER_SEND_READ_START s) }) }"

definition last_notifies :: "nat \<Rightarrow> 'w smbus \<Rightarrow> 'w smbus option" where
  "last_notifies i s = do {
     b \<leftarrow> next_byte i s;
     (rc, s) \<leftarrow> ucSMBusControllerWriteDescriptorStopWrite b s;
     (if SMBUS_HW_DESCRIPTOR_WRITE_FAIL = rc then stay_writing i s
      else Some (vSMBusNextStateDecoder i SMBUS_STATE_AWAITING_DONE s)) }"

definition last_with_pec :: "nat \<Rightarrow> 'w smbus \<Rightarrow> 'w smbus option" where
  "last_with_pec i s = do {
     (fill, s) \<leftarrow> ulSMBusHWReadCtrlDescStatusFillLevel s;
     (if fill \<le> SMBUS_FIFO_SPACE_FOR_TWO_BYTES
      then do {
        b \<leftarrow> next_byte i s;
        (rc, s) \<leftarrow> ucSMBusControllerWriteDescriptorByte b SMBUS_FALSE s;
        (if SMBUS_HW_DESCRIPTOR_WRITE_FAIL = rc then stay_writing i s
         else do {
           (_, s) \<leftarrow> ucSMBusControllerWriteDescriptorPECWrite s;
           s \<leftarrow> vSMBusHWWriteCtrlControlEnable SMBUS_CONTROL_ENABLE s;
           Some (vSMBusNextStateDecoder i SMBUS_STATE_AWAITING_DONE s) }) }
      else stay_writing i s) }"

definition last_with_stop :: "nat \<Rightarrow> 'w smbus \<Rightarrow> 'w smbus option" where
  "last_with_stop i s = do {
     b \<leftarrow> next_byte i s;
     (rc, s) \<leftarrow> ucSMBusControllerWriteDescriptorStopWrite b s;
     s \<leftarrow> vSMBusHWWriteCtrlControlEnable SMBUS_CONTROL_ENABLE s;
     Some (vSMBusNextStateDecoder i
       (if SMBUS_HW_DESCRIPTOR_WRITE_FAIL = rc then SMBUS_STATE_CONTROLLER_WRITE_BYTE
        else SMBUS_STATE_AWAITING_DONE) s) }"

definition write_last :: "nat \<Rightarrow> 'w smbus \<Rightarrow> 'w smbus option" where
  "write_last i s = do {
     s \<leftarrow> log_debug i (ucast (usSendDataSize (inst s i))) 2825 s;
     (if xProtocol (inst s i) \<in> {SMBUS_PROTOCOL_PROCESS_CALL,
          SMBUS_PROTOCOL_BLOCK_WRITE_BLOCK_READ_PROCESS_CALL, I2C_PROTOCOL_WRITE_READ}
      then last_turns_around i s
      else do {
        s \<leftarrow> log_debug i (ucast (usSendDataSize (inst s i))) 2847 s;
        (if xProtocol (inst s i) = SMBUS_PROTOCOL_HOST_NOTIFY then last_notifies i s
         else do {
           s \<leftarrow> log_debug i (ucast (ucPecRequiredForTransaction (inst s i))) 2866 s;
           (if SMBUS_TRUE = ucPecRequiredForTransaction (inst s i) then last_with_pec i s
            else last_with_stop i s) }) }) }"

definition write_data :: "nat \<Rightarrow> 'w smbus \<Rightarrow> 'w smbus option" where
  "write_data i s = do {
     s \<leftarrow> log_debug i (ucast (usSendDataSize (inst s i))) 2792 s;
     (if 1 < usSendDataSize (inst s i)
      then do {
        (fill, s) \<leftarrow> ulSMBusHWReadCtrlDescStatusFillLevel s;
        s \<leftarrow> write_burst i (fifo_room fill) s;
        vSMBusHWWriteCtrlControlEnable SMBUS_CONTROL_ENABLE s }
      else write_last i s) }"

definition write_pec :: "nat \<Rightarrow> 'w smbus \<Rightarrow> 'w smbus option" where
  "write_pec i s = do {
     (_, s) \<leftarrow> ucSMBusControllerWriteDescriptorPECWrite s;
     s \<leftarrow> vSMBusHWWriteCtrlControlEnable SMBUS_CONTROL_ENABLE s;
     Some (vSMBusNextStateDecoder i SMBUS_STATE_AWAITING_DONE s) }"

definition write_next :: "nat \<Rightarrow> 'w smbus \<Rightarrow> 'w smbus option" where
  "write_next i s =
     (let p = xProtocol (inst s i)
      in if p \<in> {SMBUS_PROTOCOL_BLOCK_WRITE, SMBUS_PROTOCOL_WRITE_BYTE, SMBUS_PROTOCOL_WRITE_WORD,
             SMBUS_PROTOCOL_WRITE_32, SMBUS_PROTOCOL_WRITE_64, SMBUS_PROTOCOL_PROCESS_CALL,
             SMBUS_PROTOCOL_BLOCK_WRITE_BLOCK_READ_PROCESS_CALL, SMBUS_PROTOCOL_SEND_BYTE,
             SMBUS_PROTOCOL_HOST_NOTIFY, I2C_PROTOCOL_WRITE, I2C_PROTOCOL_WRITE_READ}
         then write_data i s
         else if p = SMBUS_ARP_PROTOCOL_ASSIGN_ADDRESS
         then do {
           (fill, s) \<leftarrow> ulSMBusHWReadCtrlDescStatusFillLevel s;
           s \<leftarrow> assign_burst i (fifo_room fill) s;
           write_pec i s }
         else if p \<in> {SMBUS_ARP_PROTOCOL_PREPARE_TO_ARP, SMBUS_ARP_PROTOCOL_RESET_DEVICE,
             SMBUS_ARP_PROTOCOL_RESET_DEVICE_DIRECTED}
         then do {
           s \<leftarrow> log_debug i (ucast (protocol_value p)) 2955 s;
           write_pec i s }
         else Some s)"

definition vDefaultSMBusFSMSMBusStateControllerWriteByte :: "nat \<Rightarrow> u8 \<Rightarrow> 'w smbus \<Rightarrow> 'w smbus option" where
  "vDefaultSMBusFSMSMBusStateControllerWriteByte i e = on_bus_event i e (\<lambda>s.
     (if e = E_SEND_NEXT_BYTE \<or> e = E_CONTROLLER_DESC_FIFO_ALMOST_EMPTY_IRQ then write_next i s
      else unexpected i e s))"

end
