(* ===== verification/SmbusFsmRead.thy ===== *)
theory SmbusFsmRead
  imports SmbusFsmController
begin

text \<open>
  The states in which an instance reads as the controller, and the dispatch over the states
  (smbus_state.c, \<open>vSMBusFSM\<close>).
\<close>

section \<open>Turning the bus around\<close>

definition fixed_read_size :: "SMBus_Command_Protocol_Type \<Rightarrow> u16 option" where
  "fixed_read_size p = (case p of
       SMBUS_PROTOCOL_READ_64 \<Rightarrow> Some 8
     | SMBUS_PROTOCOL_READ_32 \<Rightarrow> Some 4
     | SMBUS_PROTOCOL_READ_WORD \<Rightarrow> Some 2
     | SMBUS_PROTOCOL_READ_BYTE \<Rightarrow> Some 1
     | SMBUS_PROTOCOL_PROCESS_CALL \<Rightarrow> Some 2
     | SMBUS_PROTOCOL_RECEIVE_BYTE \<Rightarrow> Some 1
     | _ \<Rightarrow> None)"

definition read_descriptors :: "nat \<Rightarrow> nat \<Rightarrow> 'w smbus \<Rightarrow> 'w smbus option" where
  "read_descriptors i n = for_each (\<lambda>_ s. do {
     (_, s) \<leftarrow> ucSMBusControllerReadDescriptorByte SMBUS_FALSE s;
     Some (descriptor_sent i s) }) [0..<n]"

definition none_sent :: "nat \<Rightarrow> 'w smbus \<Rightarrow> 'w smbus" where
  "none_sent i s = upd i (\<lambda>x. x\<lparr>usDescriptorsSent := 0\<rparr>) s"

text \<open>The first part of the bytes to read, and the fill level that announces it.\<close>

definition await_part :: "nat \<Rightarrow> 'w smbus \<Rightarrow> 'w smbus option" where
  "await_part i s = do {
     let s = upd i (\<lambda>x. x\<lparr>ucExpectedByteCountPart := first_part (usExpectedByteCount x)\<rparr>) s;
     (if 0 < ucExpectedByteCountPart (inst s i)
      then vSMBusHWWriteCtrlRxFifoFillThreshold (ucast (ucExpectedByteCountPart (inst s i))) s
      else Some s) }"

definition start_i2c_read :: "nat \<Rightarrow> 'w smbus \<Rightarrow> 'w smbus option" where
  "start_i2c_read i s = do {
     let s = none_sent i s;
     (_, s) \<leftarrow> ucSMBusControllerReadDescriptorStart (ucSMBusDestinationAddress (inst s i)) s;
     s \<leftarrow> await_part i s;
     (if 0 = usExpectedByteCount (inst s i)
      then do {
        (_, s) \<leftarrow> ucSMBusControllerReadDescriptorStop s;
        s \<leftarrow> vSMBusHWWriteCtrlControlEnable SMBUS_CONTROL_ENABLE s;
        Some (vSMBusNextStateDecoder i SMBUS_STATE_CONTROLLER_READ_DONE s) }
      else do {
        s \<leftarrow> vSMBusHWWriteCtrlControlEnable SMBUS_CONTROL_ENABLE s;
        Some (vSMBusNextStateDecoder i SMBUS_STATE_CONTROLLER_READ_BYTE s) }) }"

definition start_block_read :: "nat \<Rightarrow> 'w smbus \<Rightarrow> 'w smbus option" where
  "start_block_read i s = do {
     let s = none_sent i s;
     (_, s) \<leftarrow> ucSMBusControllerReadDescriptorStart (ucSMBusDestinationAddress (inst s i)) s;
     (_, s) \<leftarrow> ulSMBusHWReadCtrlDescStatusFillLevel s;
     s \<leftarrow> vSMBusHWWriteCtrlControlEnable SMBUS_CONTROL_ENABLE s;
     s \<leftarrow> log_debug i (ucast (protocol_value (xProtocol (inst s i)))) 3073 s;
     Some (vSMBusNextStateDecoder i SMBUS_STATE_CONTROLLER_READ_BLOCK_SIZE s) }"

definition start_fixed_read :: "nat \<Rightarrow> u16 \<Rightarrow> 'w smbus \<Rightarrow> 'w smbus option" where
  "start_fixed_read i n s = do {
     let s = none_sent i (expect n i s);
     s \<leftarrow> vSMBusHWWriteCtrlRxFifoFillThreshold (ucast (ucExpectedByteCountPart (inst s i))) s;
     (_, s) \<leftarrow> ucSMBusControllerReadDescriptorStart (ucSMBusDestinationAddress (inst s i)) s;
     let part = unat (ucExpectedByteCountPart (inst s i));
     s \<leftarrow> (if SMBUS_TRUE = ucPecRequiredForTransaction (inst s i)
           then do {
             s \<leftarrow> read_descriptors i part s;
             (_, s) \<leftarrow> ucSMBusControllerReadDescriptorPEC s;
             Some s }
           else do {
             s \<leftarrow> read_descriptors i (part - 1) s;
             (_, s) \<leftarrow> ucSMBusControllerReadDescriptorStop s;
             Some (descriptor_sent i s) });
     s \<leftarrow> vSMBusHWWriteCtrlControlEnable SMBUS_CONTROL_ENABLE s;
     Some (vSMBusNextStateDecoder i SMBUS_STATE_CONTROLLER_READ_BYTE s) }"

definition block_read_protocols :: "SMBus_Command_Protocol_Type list" where
  "block_read_protocols = [SMBUS_PROTOCOL_BLOCK_READ, SMBUS_PROTOCOL_BLOCK_WRITE_BLOCK_READ_PROCESS_CALL,
     SMBUS_ARP_PROTOCOL_GET_UDID, SMBUS_ARP_PROTOCOL_GET_UDID_DIRECTED]"

definition start_read :: "nat \<Rightarrow> 'w smbus \<Rightarrow> 'w smbus option" where
  "start_read i s =
     (let p = xProtocol (inst s i)
      in if p = I2C_PROTOCOL_WRITE_READ then start_i2c_read i s
         else if p \<in> set block_read_protocols then start_block_read i s
         else case fixed_read_size p of
           Some n \<Rightarrow> start_fixed_read i n s
         | None \<Rightarrow> Some s)"

definition vDefaultSMBusFSMSMBusStateControllerSendReadStart :: "nat \<Rightarrow> u8 \<Rightarrow> 'w smbus \<Rightarrow> 'w smbus option" where
  "vDefaultSMBusFSMSMBusStateControllerSendReadStart i e = on_bus_event i e (\<lambda>s.
     (if e = E_SEND_NEXT_BYTE then start_read i s else unexpected i e s))"

section \<open>The size of a block\<close>

definition read_size :: "nat \<Rightarrow> 'w smbus \<Rightarrow> 'w smbus option" where
  "read_size i s =
     (if xProtocol (inst s i) \<in> set block_read_protocols
      then do {
        (v, s) \<leftarrow> ulSMBusHWReadCtrlRxFifoPayload s;
        let s = none_sent i (upd i (\<lambda>x. x\<lparr>usExpectedByteCount := ucast v\<rparr>) s);
        s \<leftarrow> await_part i s;
        (if SMBUS_TRUE = ucPecRequiredForTransaction (inst s i)
            \<or> SMBUS_DEVICE_DEFAULT_ARP_ADDRESS = ucSMBusDestinationAddress (inst s i)
         then do {
           (_, s) \<leftarrow> ucSMBusControllerReadDescriptorByte SMBUS_FALSE s;
           s \<leftarrow> vSMBusHWWriteCtrlControlEnable SMBUS_CONTROL_ENABLE s;
           let s = vSMBusNextStateDecoder i SMBUS_STATE_CONTROLLER_READ_BYTE s;
           (if 0 = usExpectedByteCount (inst s i)
            then do { (_, s) \<leftarrow> ucSMBusControllerReadDescriptorPEC s; Some s }
            else Some s) }
         else if 0 = usExpectedByteCount (inst s i)
         then do {
           (_, s) \<leftarrow> ucSMBusControllerReadDescriptorStop s;
           s \<leftarrow> vSMBusHWWriteCtrlControlEnable SMBUS_CONTROL_ENABLE s;
           Some (vSMBusNextStateDecoder i SMBUS_STATE_CONTROLLER_READ_DONE s) }
         else do {
           (_, s) \<leftarrow> ucSMBusControllerReadDescriptorByte SMBUS_FALSE s;
           s \<leftarrow> vSMBusHWWriteCtrlControlEnable SMBUS_CONTROL_ENABLE s;
           Some (vSMBusNextStateDecoder i SMBUS_STATE_CONTROLLER_READ_BYTE s) }) }
      else Some s)"

text \<open>The two debug registers, logged with the lines of the entries.\<close>

definition log_debug_registers :: "nat \<Rightarrow> u32 \<Rightarrow> u32 \<Rightarrow> 'w smbus \<Rightarrow> 'w smbus option" where
  "log_debug_registers i l1 l2 s = do {
     (v, s) \<leftarrow> ulSMBusHWReadPHYCtrlDbgState s;
     s \<leftarrow> log_debug i v l1 s;
     (v, s) \<leftarrow> ulSMBusHWReadCtrlDbgState s;
     log_debug i v l2 s }"

definition vDefaultSMBusFSMSMBusStateControllerReadBlockSize :: "nat \<Rightarrow> u8 \<Rightarrow> 'w smbus \<Rightarrow> 'w smbus option" where
  "vDefaultSMBusFSMSMBusStateControllerReadBlockSize i e s =
     (if e = E_CONTROLLER_DESC_FIFO_ALMOST_EMPTY_IRQ then Some s
      else if e \<in> set timeout_events then Some (vSMBusHandleActionBusWarning i e s)
      else if e \<in> set target_error_events then target_error i e s
      else if e \<in> set controller_error_events
      then do {
        s \<leftarrow> log_debug_registers i 3228 3231 s;
        s \<leftarrow> controller_error i e s;
        log_debug_registers i 3240 3243 s }
      else if e = E_CONTROLLER_DATA_IRQ then read_size i s
      else unexpected i e s)"

section \<open>Reading\<close>

text \<open>
  Read descriptors for the bytes still expected, as far as the descriptor FIFO has room: with a
  check byte at the end, or with a stop in place of the last one.
\<close>

primrec read_burst_pec :: "nat \<Rightarrow> nat \<Rightarrow> 'w smbus \<Rightarrow> 'w smbus option" where
  "read_burst_pec i 0 s = Some s"
| "read_burst_pec i (Suc n) s =
     (if usDescriptorsSent (inst s i) < usExpectedByteCount (inst s i)
      then do {
        (rc, s) \<leftarrow> ucSMBusControllerReadDescriptorByte SMBUS_TRUE s;
        (if SMBUS_HW_DESCRIPTOR_WRITE_FAIL = rc then Some s
         else read_burst_pec i n (descriptor_sent i s)) }
      else do {
        (rc, s) \<leftarrow> ucSMBusControllerReadDescriptorPEC s;
        Some (if SMBUS_HW_DESCRIPTOR_WRITE_FAIL = rc then s else descriptor_sent i s) })"

primrec read_burst_stop :: "nat \<Rightarrow> nat \<Rightarrow> 'w smbus \<Rightarrow> 'w smbus option" where
  "read_burst_stop i 0 s = Some s"
| "read_burst_stop i (Suc n) s =
     (let sent = unat (usDescriptorsSent (inst s i)); count = unat (usExpectedByteCount (inst s i))
      in if sent + 1 \<le> count
         then do {
           (rc, s) \<leftarrow> (if sent + 1 < count then ucSMBusControllerReadDescriptorByte SMBUS_TRUE s
                      else ucSMBusControllerReadDescriptorStop s);
           (if SMBUS_HW_DESCRIPTOR_WRITE_FAIL = rc then Some s
            else read_burst_stop i n (descriptor_sent i s)) }
         else read_burst_stop i n s)"

definition read_burst :: "nat \<Rightarrow> 'w smbus \<Rightarrow> 'w smbus option" where
  "read_burst i s =
     (let pec = (SMBUS_TRUE = ucPecRequiredForTransaction (inst s i)) in do {
        (fill, s) \<leftarrow> ulSMBusHWReadCtrlDescStatusFillLevel s;
        (if pec then read_burst_pec i (fifo_room fill) s else read_burst_stop i (fifo_room fill) s) })"

text \<open>Reading until the receive FIFO is empty.\<close>

partial_function (option) read_ctlr_rx :: "nat \<Rightarrow> 'w smbus \<Rightarrow> 'w smbus option" where
  "read_ctlr_rx i s = do {
     (empty, s) \<leftarrow> ulSMBusHWReadCtrlRxFifoStatusEmpty s;
     (if empty = 0
      then do {
        (v, s) \<leftarrow> ulSMBusHWReadCtrlRxFifoPayload s;
        d \<leftarrow> wr8 (unat (usReceiveIndex (inst s i))) (ucast v) (ucReceivedData (inst s i));
        read_ctlr_rx i (upd i (\<lambda>x. x\<lparr>ucReceivedData := d, usReceiveIndex := usReceiveIndex x + 1\<rparr>) s) }
      else Some s) }"

definition read_refills :: "nat \<Rightarrow> 'w smbus \<Rightarrow> 'w smbus option" where
  "read_refills i s =
     (if xProtocol (inst s i) \<in> set (block_read_protocols @ [I2C_PROTOCOL_READ, I2C_PROTOCOL_WRITE_READ])
      then do {
        s \<leftarrow> log_debug i (ucast (usDescriptorsSent (inst s i))) 3375 s;
        s \<leftarrow> log_debug i (ucast (usExpectedByteCount (inst s i))) 3378 s;
        (if usDescriptorsSent (inst s i) < usExpectedByteCount (inst s i)
         then do {
           s \<leftarrow> read_burst i s;
           (_, s) \<leftarrow> ulSMBusHWReadCtrlDescStatusFillLevel s;
           vSMBusHWWriteCtrlControlEnable SMBUS_CONTROL_ENABLE s }
         else Some s) }
      else Some s)"

definition read_data :: "nat \<Rightarrow> 'w smbus \<Rightarrow> 'w smbus option" where
  "read_data i s =
     (if xProtocol (inst s i) \<in> set (block_read_protocols
          @ [SMBUS_PROTOCOL_READ_64, SMBUS_PROTOCOL_READ_32, SMBUS_PROTOCOL_READ_WORD,
             SMBUS_PROTOCOL_READ_BYTE, SMBUS_PROTOCOL_PROCESS_CALL, SMBUS_PROTOCOL_RECEIVE_BYTE,
             I2C_PROTOCOL_READ, I2C_PROTOCOL_WRITE_READ])
      then do {
        s \<leftarrow> read_ctlr_rx i s;
        s \<leftarrow> log_debug i (ucast (usReceiveIndex (inst s i))) 3476 s;
        s \<leftarrow> log_debug i (ucast (usExpectedByteCount (inst s i))) 3480 s;
        let got = usReceiveIndex (inst s i);
        let count = usExpectedByteCount (inst s i);
        (if count \<le> got
         then do {
           s \<leftarrow> vSMBusHWWriteCtrlRxFifoFillThreshold 1 s;
           Some (if SMBUS_TRUE = ucPecRequiredForTransaction (inst s i) \<and> \<not> count < got then s
                 else vSMBusNextStateDecoder i SMBUS_STATE_CONTROLLER_READ_DONE s) }
         else do {
           let left = unat count - unat got;
           let part = (if left < unat SMBUS_HALF_FIFO_DEPTH then of_nat left else SMBUS_HALF_FIFO_DEPTH);
           let s = upd i (\<lambda>x. x\<lparr>ucExpectedByteCountPart := part\<rparr>) s;
           vSMBusHWWriteCtrlRxFifoFillThreshold (ucast (ucExpectedByteCountPart (inst s i))) s }) }
      else Some s)"

definition vDefaultSMBusFSMSMBusStateControllerReadByte :: "nat \<Rightarrow> u8 \<Rightarrow> 'w smbus \<Rightarrow> 'w smbus option" where
  "vDefaultSMBusFSMSMBusStateControllerReadByte i e = on_bus_event i e (\<lambda>s.
     (if e = E_CONTROLLER_DESC_FIFO_ALMOST_EMPTY_IRQ then read_refills i s
      else if e = E_CONTROLLER_DONE_IRQ then Some s
      else if e = E_CONTROLLER_DATA_IRQ then read_data i s
      else unexpected i e s))"

definition vDefaultSMBusFSMSMBusStateControllerReadPEC :: "nat \<Rightarrow> u8 \<Rightarrow> 'w smbus \<Rightarrow> 'w smbus option" where
  "vDefaultSMBusFSMSMBusStateControllerReadPEC i e = on_bus_event i e (\<lambda>s.
     (if e = E_CONTROLLER_DATA_IRQ
      then if xProtocol (inst s i) \<in> set (SMBUS_PROTOCOL_RECEIVE_BYTE # read_protocols)
             \<and> SMBUS_TRUE = ucPecRequiredForTransaction (inst s i)
        then do {
          (_, s) \<leftarrow> ucSMBusControllerReadDescriptorPEC s;
          s \<leftarrow> vSMBusHWWriteCtrlControlEnable SMBUS_CONTROL_ENABLE s;
          Some (vSMBusNextStateDecoder i SMBUS_STATE_CONTROLLER_READ_DONE s) }
        else Some s
      else unexpected i e s))"

section \<open>End of a read\<close>

definition done_data :: "nat \<Rightarrow> 'w smbus \<Rightarrow> 'w smbus option" where
  "done_data i s =
     (if I2C_PROTOCOL_READ = xProtocol (inst s i)
      then do {
        s \<leftarrow> read_ctlr_rx i s;
        s \<leftarrow> log_debug i (ucast (usReceiveIndex (inst s i))) 3646 s;
        log_debug i (ucast (usExpectedByteCount (inst s i))) 3650 s }
      else Some s)"

definition done_descriptors :: "nat \<Rightarrow> 'w smbus \<Rightarrow> 'w smbus option" where
  "done_descriptors i s =
     (let x = inst s i; sent = unat (usDescriptorsSent x)
      in if I2C_PROTOCOL_READ = xProtocol x
         then if sent < unat (usReceiveIndex x)
           then do {
             (rc, s) \<leftarrow> (if sent + 1 = unat (usReceiveIndex x) then ucSMBusControllerReadDescriptorStop s
                        else ucSMBusControllerReadDescriptorByte SMBUS_TRUE s);
             (if SMBUS_HW_DESCRIPTOR_WRITE_FAIL = rc then Some s
              else vSMBusHWWriteCtrlControlEnable SMBUS_CONTROL_ENABLE (descriptor_sent i s)) }
           else Some s
         else if usDescriptorsSent x < usExpectedByteCount x
         then if SMBUS_TRUE = ucPecRequiredForTransaction x then read_burst i s
           else do {
             s \<leftarrow> read_burst i s;
             vSMBusHWWriteCtrlControlEnable SMBUS_CONTROL_ENABLE s }
         else if SMBUS_TRUE = ucPecRequiredForTransaction x \<and> usDescriptorsSent x = usExpectedByteCount x
         then do {
           (rc, s) \<leftarrow> ucSMBusControllerReadDescriptorPEC s;
           Some (if SMBUS_HW_DESCRIPTOR_WRITE_FAIL = rc then s else descriptor_sent i s) }
         else Some s)"

definition read_done :: "nat \<Rightarrow> 'w smbus \<Rightarrow> 'w smbus option" where
  "read_done i s =
     (let p = xProtocol (inst s i)
      in if p \<in> set (SMBUS_PROTOCOL_RECEIVE_BYTE # read_protocols @ udid_protocols)
         then do {
           s \<leftarrow> log_debug i (ucast (protocol_value p)) 3825 s;
           s \<leftarrow> vSMBusHandleActionWriteDataToApplication i (ucast (ulTransactionID s)) s;
           s \<leftarrow> count_completed i (announce i SMBUS_SUCCESS s);
           to_initial i s }
         else if p \<in> {I2C_PROTOCOL_READ, I2C_PROTOCOL_WRITE_READ}
         then do {
           s \<leftarrow> log_debug i (ucast (protocol_value p)) 3844 s;
           s \<leftarrow> vSMBusHandleActionWriteI2CDataToApplication i s;
           s \<leftarrow> count_completed i (vSMBusHandleActionAnnounceI2CResultToApplication i SMBUS_SUCCESS s);
           to_initial i s }
         else if p \<in> set written_protocols \<union> {SMBUS_PROTOCOL_HOST_NOTIFY, SMBUS_ARP_PROTOCOL_PREPARE_TO_ARP,
             SMBUS_ARP_PROTOCOL_RESET_DEVICE, SMBUS_ARP_PROTOCOL_ASSIGN_ADDRESS,
             SMBUS_ARP_PROTOCOL_RESET_DEVICE_DIRECTED}
         then do {
           s \<leftarrow> count_completed i (announce i SMBUS_SUCCESS s);
           to_initial i s }
         else if p = I2C_PROTOCOL_WRITE
         then do {
           s \<leftarrow> count_completed i (vSMBusHandleActionAnnounceI2CResultToApplication i SMBUS_SUCCESS s);
           to_initial i s }
         else Some s)"

definition vDefaultSMBusFSMSMBusStateControllerReadDone :: "nat \<Rightarrow> u8 \<Rightarrow> 'w smbus \<Rightarrow> 'w smbus option" where
  "vDefaultSMBusFSMSMBusStateControllerReadDone i e = on_bus_event i e (\<lambda>s.
     (if e = E_CONTROLLER_DATA_IRQ then done_data i s
      else if e = E_CONTROLLER_DESC_FIFO_ALMOST_EMPTY_IRQ then done_descriptors i s
      else if e = E_CONTROLLER_DONE_IRQ then read_done i s
      else unexpected i e s))"

section \<open>The state machine\<close>

definition state_handler :: "SMBus_State_Type \<Rightarrow> nat \<Rightarrow> u8 \<Rightarrow> 'w smbus \<Rightarrow> 'w smbus option" where
  "state_handler st = (case st of
       SMBUS_STATE_INITIAL \<Rightarrow> vDefaultSMBusFSMSMBusStateInitial
     | SMBUS_STATE_AWAITING_COMMAND_BYTE \<Rightarrow> vDefaultSMBusFSMSMBusStateAwaitingCommandByte
     | SMBUS_STATE_AWAITING_BLOCK_SIZE \<Rightarrow> vDefaultSMBusFSMSMBusStateAwaitingBlockSize
     | SMBUS_STATE_AWAITING_DATA \<Rightarrow> vDefaultSMBusFSMSMBusStateAwaitingData
     | SMBUS_STATE_AWAITING_READ \<Rightarrow> vDefaultSMBusFSMSMBusStateAwaitingRead
     | SMBUS_STATE_READY_TO_SEND_BYTE \<Rightarrow> vDefaultSMBusFSMSMBusStateReadyToSendByte
     | SMBUS_STATE_CHECK_IF_PEC_REQUIRED \<Rightarrow> vDefaultSMBusFSMSMBusStateCheckIfPECRequired
     | SMBUS_STATE_AWAITING_DONE \<Rightarrow> vDefaultSMBusFSMSMBusStateAwaitingDone
     | SMBUS_STATE_CONTROLLER_SEND_COMMAND \<Rightarrow> vDefaultSMBusFSMSMBusStateControllerSendCommand
     | SMBUS_STATE_CONTROLLER_SEND_READ_START \<Rightarrow> vDefaultSMBusFSMSMBusStateControllerSendReadStart
     | SMBUS_STATE_CONTROLLER_READ_BLOCK_SIZE \<Rightarrow> vDefaultSMBusFSMSMBusStateControllerReadBlockSize
     | SMBUS_STATE_CONTROLLER_READ_BYTE \<Rightarrow> vDefaultSMBusFSMSMBusStateControllerReadByte
     | SMBUS_STATE_CONTROLLER_READ_PEC \<Rightarrow> vDefaultSMBusFSMSMBusStateControllerReadPEC
     | SMBUS_STATE_CONTROLLER_READ_DONE \<Rightarrow> vDefaultSMBusFSMSMBusStateControllerReadDone
     | SMBUS_STATE_CONTROLLER_WRITE_BYTE \<Rightarrow> vDefaultSMBusFSMSMBusStateControllerWriteByte)"

definition vSMBusFSM :: "nat \<Rightarrow> u8 \<Rightarrow> 'w smbus \<Rightarrow> 'w smbus option" where
  "vSMBusFSM i ucAnyEvent s = do {
     let s = vSMBusClearAction i s;
     let s = upd i (\<lambda>x. x\<lparr>ucEvent := ucAnyEvent\<rparr>) s;
     s \<leftarrow> add_log SMBUS_LOG_LEVEL_INFO (ucast (ucThisInstanceNumber (inst s i))) SMBUS_LOG_EVENT_FSM_EVENT
       (ucast (state_value (xState (inst s i)))) (ucast ucAnyEvent) s;
     s \<leftarrow> log_debug i (ucast ucAnyEvent) 3929 s;
     state_handler (xState (inst s i)) i ucAnyEvent s }"

end
