(* ===== verification/SmbusInterrupt.thy ===== *)
theory SmbusInterrupt
  imports SmbusFsmRead
begin

text \<open>
  The queue of events (smbus_driver.c, \<open>vSMBusEventQueueHandle\<close>) and the interrupt handler that
  fills it (smbus_interrupt_handler.c). The queue is handled until it is empty; \<^term>\<open>None\<close> is
  a queue that never gets empty.
\<close>

section \<open>Interrupt bits\<close>

definition SMBUS_INTERRUPT_CTLR_DESC_FIFO_ALMOST_EMPTY :: u32 where "SMBUS_INTERRUPT_CTLR_DESC_FIFO_ALMOST_EMPTY = 0x8000"
definition SMBUS_INTERRUPT_CTLR_RX_FIFO_FILL_THRESHOLD :: u32 where "SMBUS_INTERRUPT_CTLR_RX_FIFO_FILL_THRESHOLD = 0x4000"
definition SMBUS_INTERRUPT_CTLR_DESC_FIFO_EMPTY :: u32 where "SMBUS_INTERRUPT_CTLR_DESC_FIFO_EMPTY = 0x2000"
definition SMBUS_INTERRUPT_CTLR_DONE :: u32 where "SMBUS_INTERRUPT_CTLR_DONE = 0x1000"
definition SMBUS_INTERRUPT_CTLR_PEC_ERROR :: u32 where "SMBUS_INTERRUPT_CTLR_PEC_ERROR = 0x800"
definition SMBUS_INTERRUPT_CTLR_NACK_ERROR :: u32 where "SMBUS_INTERRUPT_CTLR_NACK_ERROR = 0x400"
definition SMBUS_INTERRUPT_CTLR_LOA :: u32 where "SMBUS_INTERRUPT_CTLR_LOA = 0x200"
definition SMBUS_INTERRUPT_TGT_DESC_FIFO_ALMOST_EMPTY :: u32 where "SMBUS_INTERRUPT_TGT_DESC_FIFO_ALMOST_EMPTY = 0x100"
definition SMBUS_INTERRUPT_TGT_WRITE :: u32 where "SMBUS_INTERRUPT_TGT_WRITE = 0x80"
definition SMBUS_INTERRUPT_TGT_READ :: u32 where "SMBUS_INTERRUPT_TGT_READ = 0x40"
definition SMBUS_INTERRUPT_TGT_RX_FIFO_FILL_THRESHOLD :: u32 where "SMBUS_INTERRUPT_TGT_RX_FIFO_FILL_THRESHOLD = 0x20"
definition SMBUS_INTERRUPT_TGT_DESC_FIFO_EMPTY :: u32 where "SMBUS_INTERRUPT_TGT_DESC_FIFO_EMPTY = 0x10"
definition SMBUS_INTERRUPT_TGT_DONE :: u32 where "SMBUS_INTERRUPT_TGT_DONE = 0x8"
definition SMBUS_INTERRUPT_TGT_PEC_ERROR :: u32 where "SMBUS_INTERRUPT_TGT_PEC_ERROR = 0x4"
definition SMBUS_INTERRUPT_TGT_LOA :: u32 where "SMBUS_INTERRUPT_TGT_LOA = 0x2"
definition SMBUS_INTERRUPT_ERROR_IRQ :: u32 where "SMBUS_INTERRUPT_ERROR_IRQ = 0x1"
definition SMBUS_ERROR_INTERRUPT_PHY_CTLR_CEXT_TIMEOUT :: u32 where "SMBUS_ERROR_INTERRUPT_PHY_CTLR_CEXT_TIMEOUT = 0x80000"
definition SMBUS_ERROR_INTERRUPT_PHY_CTLR_TEXT_TIMEOUT :: u32 where "SMBUS_ERROR_INTERRUPT_PHY_CTLR_TEXT_TIMEOUT = 0x40000"
definition SMBUS_ERROR_INTERRUPT_CTLR_RX_FIFO_ERROR :: u32 where "SMBUS_ERROR_INTERRUPT_CTLR_RX_FIFO_ERROR = 0x20000"
definition SMBUS_ERROR_INTERRUPT_CTLR_RX_FIFO_OVERFLOW :: u32 where "SMBUS_ERROR_INTERRUPT_CTLR_RX_FIFO_OVERFLOW = 0x10000"
definition SMBUS_ERROR_INTERRUPT_CTLR_RX_FIFO_UNDERFLOW :: u32 where "SMBUS_ERROR_INTERRUPT_CTLR_RX_FIFO_UNDERFLOW = 0x8000"
definition SMBUS_ERROR_INTERRUPT_CTLR_DESC_FIFO_ERROR :: u32 where "SMBUS_ERROR_INTERRUPT_CTLR_DESC_FIFO_ERROR = 0x4000"
definition SMBUS_ERROR_INTERRUPT_CTLR_DESC_FIFO_OVERFLOW :: u32 where "SMBUS_ERROR_INTERRUPT_CTLR_DESC_FIFO_OVERFLOW = 0x2000"
definition SMBUS_ERROR_INTERRUPT_CTLR_DESC_FIFO_UNDERFLOW :: u32 where "SMBUS_ERROR_INTERRUPT_CTLR_DESC_FIFO_UNDERFLOW = 0x1000"
definition SMBUS_ERROR_INTERRUPT_CTLR_DESC_ERROR :: u32 where "SMBUS_ERROR_INTERRUPT_CTLR_DESC_ERROR = 0x800"
definition SMBUS_ERROR_INTERRUPT_PHY_TGT_TEXT_TIMEOUT :: u32 where "SMBUS_ERROR_INTERRUPT_PHY_TGT_TEXT_TIMEOUT = 0x400"
definition SMBUS_ERROR_INTERRUPT_TGT_RX_FIFO_ERROR :: u32 where "SMBUS_ERROR_INTERRUPT_TGT_RX_FIFO_ERROR = 0x200"
definition SMBUS_ERROR_INTERRUPT_TGT_RX_FIFO_OVERFLOW :: u32 where "SMBUS_ERROR_INTERRUPT_TGT_RX_FIFO_OVERFLOW = 0x100"
definition SMBUS_ERROR_INTERRUPT_TGT_RX_FIFO_UNDERFLOW :: u32 where "SMBUS_ERROR_INTERRUPT_TGT_RX_FIFO_UNDERFLOW = 0x80"
definition SMBUS_ERROR_INTERRUPT_TGT_DESC_FIFO_ERROR :: u32 where "SMBUS_ERROR_INTERRUPT_TGT_DESC_FIFO_ERROR = 0x40"
definition SMBUS_ERROR_INTERRUPT_TGT_DESC_FIFO_OVERFLOW :: u32 where "SMBUS_ERROR_INTERRUPT_TGT_DESC_FIFO_OVERFLOW = 0x20"
definition SMBUS_ERROR_INTERRUPT_TGT_DESC_FIFO_UNDERFLOW :: u32 where "SMBUS_ERROR_INTERRUPT_TGT_DESC_FIFO_UNDERFLOW = 0x10"
definition SMBUS_ERROR_INTERRUPT_TGT_DESC_ERROR :: u32 where "SMBUS_ERROR_INTERRUPT_TGT_DESC_ERROR = 0x8"
definition SMBUS_ERROR_INTERRUPT_PHY_UNEXPTD_BUS_IDLE :: u32 where "SMBUS_ERROR_INTERRUPT_PHY_UNEXPTD_BUS_IDLE = 0x4"
definition SMBUS_ERROR_INTERRUPT_PHY_SMBDAT_LOW_TIMEOUT :: u32 where "SMBUS_ERROR_INTERRUPT_PHY_SMBDAT_LOW_TIMEOUT = 0x2"
definition SMBUS_ERROR_INTERRUPT_PHY_SMBCLK_LOW_TIMEOUT :: u32 where "SMBUS_ERROR_INTERRUPT_PHY_SMBCLK_LOW_TIMEOUT = 0x1"

definition SMBUS_INTERRUPT_TGT_INTERRUPTS :: u32 where
  "SMBUS_INTERRUPT_TGT_INTERRUPTS =
    SMBUS_INTERRUPT_TGT_DESC_FIFO_ALMOST_EMPTY OR SMBUS_INTERRUPT_TGT_WRITE OR
     SMBUS_INTERRUPT_TGT_READ OR SMBUS_INTERRUPT_TGT_RX_FIFO_FILL_THRESHOLD OR
     SMBUS_INTERRUPT_TGT_DESC_FIFO_EMPTY OR SMBUS_INTERRUPT_TGT_DONE OR
     SMBUS_INTERRUPT_TGT_PEC_ERROR OR SMBUS_INTERRUPT_TGT_LOA"

definition SMBUS_INTERRUPT_CTLR_INTERRUPTS :: u32 where
  "SMBUS_INTERRUPT_CTLR_INTERRUPTS =
    SMBUS_INTERRUPT_CTLR_DESC_FIFO_ALMOST_EMPTY OR SMBUS_INTERRUPT_CTLR_RX_FIFO_FILL_THRESHOLD OR
     SMBUS_INTERRUPT_CTLR_DESC_FIFO_EMPTY OR SMBUS_INTERRUPT_CTLR_DONE OR
     SMBUS_INTERRUPT_CTLR_PEC_ERROR OR SMBUS_INTERRUPT_CTLR_NACK_ERROR OR SMBUS_INTERRUPT_CTLR_LOA"

definition SMBUS_INTERRUPT_CTLR_ERROR_INTERRUPTS :: u32 where
  "SMBUS_INTERRUPT_CTLR_ERROR_INTERRUPTS =
    SMBUS_ERROR_INTERRUPT_PHY_CTLR_CEXT_TIMEOUT OR SMBUS_ERROR_INTERRUPT_PHY_CTLR_TEXT_TIMEOUT OR
     SMBUS_ERROR_INTERRUPT_CTLR_RX_FIFO_ERROR OR SMBUS_ERROR_INTERRUPT_CTLR_RX_FIFO_OVERFLOW OR
     SMBUS_ERROR_INTERRUPT_CTLR_RX_FIFO_UNDERFLOW OR
     SMBUS_ERROR_INTERRUPT_CTLR_DESC_FIFO_ERROR OR
     SMBUS_ERROR_INTERRUPT_CTLR_DESC_FIFO_OVERFLOW OR
     SMBUS_ERROR_INTERRUPT_CTLR_DESC_FIFO_UNDERFLOW OR SMBUS_ERROR_INTERRUPT_CTLR_DESC_ERROR"

definition SMBUS_INTERRUPT_TGT_ERROR_INTERRUPTS :: u32 where
  "SMBUS_INTERRUPT_TGT_ERROR_INTERRUPTS =
    SMBUS_ERROR_INTERRUPT_PHY_TGT_TEXT_TIMEOUT OR SMBUS_ERROR_INTERRUPT_TGT_RX_FIFO_ERROR OR
     SMBUS_ERROR_INTERRUPT_TGT_RX_FIFO_OVERFLOW OR SMBUS_ERROR_INTERRUPT_TGT_RX_FIFO_UNDERFLOW OR
     SMBUS_ERROR_INTERRUPT_TGT_DESC_FIFO_ERROR OR SMBUS_ERROR_INTERRUPT_TGT_DESC_FIFO_OVERFLOW OR
     SMBUS_ERROR_INTERRUPT_TGT_DESC_FIFO_UNDERFLOW OR SMBUS_ERROR_INTERRUPT_TGT_DESC_ERROR OR
     SMBUS_ERROR_INTERRUPT_PHY_UNEXPTD_BUS_IDLE OR
     SMBUS_ERROR_INTERRUPT_PHY_SMBDAT_LOW_TIMEOUT OR SMBUS_ERROR_INTERRUPT_PHY_SMBCLK_LOW_TIMEOUT"

definition SMBUS_INTERRUPT_TGT_READ_OR_WRITE_INTERRUPTS :: u32 where
  "SMBUS_INTERRUPT_TGT_READ_OR_WRITE_INTERRUPTS =
    SMBUS_INTERRUPT_TGT_WRITE OR SMBUS_INTERRUPT_TGT_READ"

lemmas smbus_interrupts =
  SMBUS_INTERRUPT_CTLR_DESC_FIFO_ALMOST_EMPTY_def
  SMBUS_INTERRUPT_CTLR_RX_FIFO_FILL_THRESHOLD_def
  SMBUS_INTERRUPT_CTLR_DESC_FIFO_EMPTY_def
  SMBUS_INTERRUPT_CTLR_DONE_def
  SMBUS_INTERRUPT_CTLR_PEC_ERROR_def
  SMBUS_INTERRUPT_CTLR_NACK_ERROR_def
  SMBUS_INTERRUPT_CTLR_LOA_def
  SMBUS_INTERRUPT_TGT_DESC_FIFO_ALMOST_EMPTY_def
  SMBUS_INTERRUPT_TGT_WRITE_def
  SMBUS_INTERRUPT_TGT_READ_def
  SMBUS_INTERRUPT_TGT_RX_FIFO_FILL_THRESHOLD_def
  SMBUS_INTERRUPT_TGT_DESC_FIFO_EMPTY_def
  SMBUS_INTERRUPT_TGT_DONE_def
  SMBUS_INTERRUPT_TGT_PEC_ERROR_def
  SMBUS_INTERRUPT_TGT_LOA_def
  SMBUS_INTERRUPT_ERROR_IRQ_def
  SMBUS_ERROR_INTERRUPT_PHY_CTLR_CEXT_TIMEOUT_def
  SMBUS_ERROR_INTERRUPT_PHY_CTLR_TEXT_TIMEOUT_def
  SMBUS_ERROR_INTERRUPT_CTLR_RX_FIFO_ERROR_def
  SMBUS_ERROR_INTERRUPT_CTLR_RX_FIFO_OVERFLOW_def
  SMBUS_ERROR_INTERRUPT_CTLR_RX_FIFO_UNDERFLOW_def
  SMBUS_ERROR_INTERRUPT_CTLR_DESC_FIFO_ERROR_def
  SMBUS_ERROR_INTERRUPT_CTLR_DESC_FIFO_OVERFLOW_def
  SMBUS_ERROR_INTERRUPT_CTLR_DESC_FIFO_UNDERFLOW_def
  SMBUS_ERROR_INTERRUPT_CTLR_DESC_ERROR_def
  SMBUS_ERROR_INTERRUPT_PHY_TGT_TEXT_TIMEOUT_def
  SMBUS_ERROR_INTERRUPT_TGT_RX_FIFO_ERROR_def
  SMBUS_ERROR_INTERRUPT_TGT_RX_FIFO_OVERFLOW_def
  SMBUS_ERROR_INTERRUPT_TGT_RX_FIFO_UNDERFLOW_def
  SMBUS_ERROR_INTERRUPT_TGT_DESC_FIFO_ERROR_def
  SMBUS_ERROR_INTERRUPT_TGT_DESC_FIFO_OVERFLOW_def
  SMBUS_ERROR_INTERRUPT_TGT_DESC_FIFO_UNDERFLOW_def
  SMBUS_ERROR_INTERRUPT_TGT_DESC_ERROR_def
  SMBUS_ERROR_INTERRUPT_PHY_UNEXPTD_BUS_IDLE_def
  SMBUS_ERROR_INTERRUPT_PHY_SMBDAT_LOW_TIMEOUT_def
  SMBUS_ERROR_INTERRUPT_PHY_SMBCLK_LOW_TIMEOUT_def
  SMBUS_INTERRUPT_TGT_INTERRUPTS_def
  SMBUS_INTERRUPT_CTLR_INTERRUPTS_def
  SMBUS_INTERRUPT_CTLR_ERROR_INTERRUPTS_def
  SMBUS_INTERRUPT_TGT_ERROR_INTERRUPTS_def
  SMBUS_INTERRUPT_TGT_READ_OR_WRITE_INTERRUPTS_def

section \<open>Which bit raises which event\<close>

text \<open>In the order of the tests. The two tests for an empty descriptor FIFO do nothing.\<close>

definition target_error_sources :: "(u32 \<times> ('i, 'w, 'z) smbus_generator) list" where
  "target_error_sources = [
    (SMBUS_ERROR_INTERRUPT_PHY_TGT_TEXT_TIMEOUT, vSMBusGenerateEvent_E_TARGET_PHY_TEXT_TIMEOUT_ERROR_IRQ),
    (SMBUS_ERROR_INTERRUPT_TGT_RX_FIFO_ERROR, vSMBusGenerateEvent_E_TARGET_RX_FIFO_ERROR_ERROR_IRQ),
    (SMBUS_ERROR_INTERRUPT_TGT_RX_FIFO_OVERFLOW, vSMBusGenerateEvent_E_TARGET_RX_FIFO_OVERFLOW_ERROR_IRQ),
    (SMBUS_ERROR_INTERRUPT_TGT_RX_FIFO_UNDERFLOW, vSMBusGenerateEvent_E_TARGET_RX_FIFO_UNDERFLOW_ERROR_IRQ),
    (SMBUS_ERROR_INTERRUPT_TGT_DESC_FIFO_ERROR, vSMBusGenerateEvent_E_TARGET_DESC_FIFO_ERROR_IRQ),
    (SMBUS_ERROR_INTERRUPT_TGT_DESC_FIFO_OVERFLOW, vSMBusGenerateEvent_E_TARGET_DESC_FIFO_OVERFLOW_ERROR_IRQ),
    (SMBUS_ERROR_INTERRUPT_TGT_DESC_FIFO_UNDERFLOW, vSMBusGenerateEvent_E_TARGET_DESC_FIFO_UNDERFLOW_ERROR_IRQ),
    (SMBUS_ERROR_INTERRUPT_TGT_DESC_ERROR, vSMBusGenerateEvent_E_TARGET_DESC_ERROR_IRQ),
    (SMBUS_ERROR_INTERRUPT_PHY_UNEXPTD_BUS_IDLE, vSMBusGenerateEvent_E_TARGET_PHY_UNEXPTD_BUS_IDLE_ERROR_IRQ),
    (SMBUS_ERROR_INTERRUPT_PHY_SMBDAT_LOW_TIMEOUT, vSMBusGenerateEvent_E_TARGET_PHY_SMBDAT_LOW_TIMEOUT_DESC_ERROR_IRQ),
    (SMBUS_ERROR_INTERRUPT_PHY_SMBCLK_LOW_TIMEOUT, vSMBusGenerateEvent_E_TARGET_PHY_SMBCLK_LOW_TIMEOUT_ERROR_IRQ)]"

definition target_sources :: "(u32 \<times> ('i, 'w, 'z) smbus_generator) list" where
  "target_sources = [
    (SMBUS_INTERRUPT_TGT_LOA, vSMBusGenerateEvent_E_TARGET_LOA_ERROR_IRQ),
    (SMBUS_INTERRUPT_TGT_PEC_ERROR, vSMBusGenerateEvent_E_TARGET_PEC_ERROR_IRQ),
    (SMBUS_INTERRUPT_TGT_READ, vSMBusGenerateEvent_E_TARGET_READ_IRQ),
    (SMBUS_INTERRUPT_TGT_WRITE, vSMBusGenerateEvent_E_TARGET_WRITE_IRQ),
    (SMBUS_INTERRUPT_TGT_RX_FIFO_FILL_THRESHOLD, vSMBusGenerateEvent_E_TARGET_DATA_IRQ),
    (SMBUS_INTERRUPT_TGT_DONE, vSMBusGenerateEvent_E_TARGET_DONE_IRQ),
    (SMBUS_INTERRUPT_TGT_DESC_FIFO_ALMOST_EMPTY, vSMBusGenerateEvent_E_DESC_FIFO_ALMOST_EMPTY_IRQ)]"

definition controller_error_sources :: "(u32 \<times> ('i, 'w, 'z) smbus_generator) list" where
  "controller_error_sources = [
    (SMBUS_ERROR_INTERRUPT_PHY_CTLR_TEXT_TIMEOUT, vSMBusGenerateEvent_E_CONTROLLER_PHY_CTLR_TEXT_TIMEOUT_ERROR_IRQ),
    (SMBUS_ERROR_INTERRUPT_PHY_CTLR_CEXT_TIMEOUT, vSMBusGenerateEvent_E_CONTROLLER_PHY_CTLR_CEXT_TIMEOUT_ERROR_IRQ),
    (SMBUS_ERROR_INTERRUPT_CTLR_RX_FIFO_ERROR, vSMBusGenerateEvent_E_CONTROLLER_RX_FIFO_ERROR_IRQ),
    (SMBUS_ERROR_INTERRUPT_CTLR_RX_FIFO_OVERFLOW, vSMBusGenerateEvent_E_CONTROLLER_RX_FIFO_OVERFLOW_ERROR_IRQ),
    (SMBUS_ERROR_INTERRUPT_CTLR_RX_FIFO_UNDERFLOW, vSMBusGenerateEvent_E_CONTROLLER_RX_FIFO_UNDERFLOW_ERROR_IRQ),
    (SMBUS_ERROR_INTERRUPT_CTLR_DESC_FIFO_ERROR, vSMBusGenerateEvent_E_CONTROLLER_DESC_FIFO_ERROR_IRQ),
    (SMBUS_ERROR_INTERRUPT_CTLR_DESC_FIFO_OVERFLOW, vSMBusGenerateEvent_E_CONTROLLER_DESC_FIFO_OVERFLOW_ERROR_IRQ),
    (SMBUS_ERROR_INTERRUPT_CTLR_DESC_FIFO_UNDERFLOW, vSMBusGenerateEvent_E_CONTROLLER_DESC_FIFO_UNDERFLOW_ERROR_IRQ),
    (SMBUS_ERROR_INTERRUPT_CTLR_DESC_ERROR, vSMBusGenerateEvent_E_CONTROLLER_DESC_ERROR_IRQ)]"

definition controller_sources :: "(u32 \<times> ('i, 'w, 'z) smbus_generator) list" where
  "controller_sources = [
    (SMBUS_INTERRUPT_CTLR_LOA, vSMBusGenerateEvent_E_CONTROLLER_LOA_ERROR_IRQ),
    (SMBUS_INTERRUPT_CTLR_NACK_ERROR, vSMBusGenerateEvent_E_CONTROLLER_NACK_ERROR_IRQ),
    (SMBUS_INTERRUPT_CTLR_PEC_ERROR, vSMBusGenerateEvent_E_CONTROLLER_PEC_ERROR_IRQ),
    (SMBUS_INTERRUPT_CTLR_RX_FIFO_FILL_THRESHOLD, vSMBusGenerateEvent_E_CONTROLLER_DATA_IRQ),
    (SMBUS_INTERRUPT_CTLR_DESC_FIFO_ALMOST_EMPTY, vSMBusGenerateEvent_E_CONTROLLER_DESC_FIFO_ALMOST_EMPTY_IRQ),
    (SMBUS_INTERRUPT_CTLR_DONE, vSMBusGenerateEvent_E_CONTROLLER_DONE_IRQ)]"

definition raise_flagged ::
  "u32 \<Rightarrow> nat \<Rightarrow> u32 \<times> ('w SMBUS_INSTANCE option \<Rightarrow> 'w smbus option \<Rightarrow> 'w
     \<Rightarrow> ('w SMBUS_INSTANCE option \<times> 'w smbus option \<times> 'w) option) \<Rightarrow> 'w smbus \<Rightarrow> 'w smbus option" where
  "raise_flagged vector i source s =
     (if vector AND fst source \<noteq> 0 then raise_event (snd source) i s else Some s)"

section \<open>The queue\<close>

definition next_event :: "nat \<Rightarrow> 'w smbus \<Rightarrow> (u8 option \<times> 'w smbus) option" where
  "next_event i s =
     (case ucEventBufferTryRead (Some (xEventSourceCircularBuffer (inst s i))) (Some 0) (Some 0) of
        Some (rc, Some b, Some e, _) \<Rightarrow>
          Some (if rc \<noteq> 0 then Some e else None, upd i (\<lambda>x. x\<lparr>xEventSourceCircularBuffer := b\<rparr>) s)
      | _ \<Rightarrow> None)"

partial_function (option) handle_events :: "nat \<Rightarrow> 'w smbus \<Rightarrow> 'w smbus option" where
  "handle_events i s = do {
     (e, s) \<leftarrow> next_event i s;
     (case e of None \<Rightarrow> Some s
      | Some ucAnyEvent \<Rightarrow> do { s \<leftarrow> vSMBusFSM i ucAnyEvent s; handle_events i s }) }"

definition vSMBusEventQueueHandle :: "'w smbus \<Rightarrow> 'w smbus option" where
  "vSMBusEventQueueHandle =
     for_each (\<lambda>i s. if SMBUS_TRUE = ucInstanceInUse (inst s i) then handle_events i s else Some s)
       [0..<SMBUS_NUMBER_OF_SMBUS_INSTANCES]"

section \<open>The handler\<close>

definition ucSMBusDetermineInstanceFromTargetAddress :: "'w smbus \<Rightarrow> (u8 \<times> 'w smbus) option" where
  "ucSMBusDetermineInstanceFromTargetAddress s = do {
     (v, s) \<leftarrow> ulSMBusHWReadTgtStatusAddress s;
     Some (case find (\<lambda>i. SMBUS_TRUE = ucInstanceInUse (inst s i) \<and> ucast v = ucSMBusAddress (inst s i))
             [0..<SMBUS_NUMBER_OF_SMBUS_INSTANCES] of
         Some i \<Rightarrow> of_nat i
       | None \<Rightarrow> SMBUS_INVALID_INSTANCE, s) }"

definition prvvSMBusClearInterrupts :: "u32 \<Rightarrow> u32 \<Rightarrow> 'w smbus \<Rightarrow> 'w smbus option" where
  "prvvSMBusClearInterrupts isr err_isr s = do {
     s \<leftarrow> vSMBusHWWriteERRIRQISR err_isr s;
     vSMBusHWWriteIRQISR isr s }"

text \<open>The error interrupts are enabled again unless a line is held low.\<close>

definition reenable_errors :: "'w smbus \<Rightarrow> 'w smbus option" where
  "reenable_errors s = do {
     (clk, s) \<leftarrow> ulSMBusHWReadPHYStatusSMBClkLowTimeout s;
     (if SMBUS_SMBCLK_LOW_TIMEOUT_DETECTED \<noteq> clk
      then do {
        (dat, s) \<leftarrow> ulSMBusHWReadPHYStatusSMBDATLowTimeout s;
        (if SMBUS_SMBDAT_LOW_TIMEOUT_DETECTED \<noteq> dat then vSMBusHWWriteERRIRQIER 0x000FFFFF s
         else Some s) }
      else Some s) }"

definition mask_error :: "u32 \<Rightarrow> u32 \<Rightarrow> u32 \<Rightarrow> 'w smbus \<Rightarrow> 'w smbus option" where
  "mask_error vector flag keep s =
     (if vector AND flag \<noteq> 0
      then do {
        (ier, s) \<leftarrow> ulSMBusHWReadErrIRQIER s;
        vSMBusHWWriteERRIRQIER (ier AND keep) s }
      else Some s)"

text \<open>The raised errors and those among them that are enabled.\<close>

definition error_vector :: "u32 \<Rightarrow> 'w smbus \<Rightarrow> (u32 \<times> u32 \<times> 'w smbus) option" where
  "error_vector vector s =
     (if vector AND SMBUS_INTERRUPT_ERROR_IRQ \<noteq> 0
      then do {
        (err_isr, s) \<leftarrow> ulSMBusHWReadErrIRQISR s;
        (err_ier, s) \<leftarrow> ulSMBusHWReadErrIRQIER s;
        let err = err_isr AND err_ier;
        s \<leftarrow> mask_error err SMBUS_ERROR_INTERRUPT_PHY_SMBCLK_LOW_TIMEOUT 0x000FFFFE s;
        s \<leftarrow> mask_error err SMBUS_ERROR_INTERRUPT_PHY_SMBDAT_LOW_TIMEOUT 0x000FFFFD s;
        Some (err_isr, err, s) }
      else Some (0, 0, s))"

definition target_interrupts :: "u32 \<Rightarrow> u32 \<Rightarrow> 'w smbus \<Rightarrow> (u8 \<times> 'w smbus) option" where
  "target_interrupts vector err s = do {
     s \<leftarrow> (if vector AND SMBUS_INTERRUPT_TGT_READ_OR_WRITE_INTERRUPTS \<noteq> 0
           then do {
             (k, s) \<leftarrow> ucSMBusDetermineInstanceFromTargetAddress s;
             Some (s\<lparr>ucActiveTargetInstance := k\<rparr>) }
           else Some s);
     let ucInstance = ucActiveTargetInstance s;
     (if ucInstance \<le> SMBUS_LAST_SMBUS_INSTANCE
      then do {
        let i = unat ucInstance;
        s \<leftarrow> (if err AND SMBUS_INTERRUPT_TGT_ERROR_INTERRUPTS \<noteq> 0
              then for_each (raise_flagged err i) target_error_sources s else Some s);
        s \<leftarrow> for_each (raise_flagged vector i) target_sources s;
        s \<leftarrow> vSMBusEventQueueHandle s;
        Some (ucInstance, s) }
      else do {
        s \<leftarrow> vSMBusHWWriteTgtRxFifoReset 1 s;
        Some (ucInstance, s) }) }"

definition controller_interrupts :: "u32 \<Rightarrow> u32 \<Rightarrow> 'w smbus \<Rightarrow> (u8 \<times> 'w smbus) option" where
  "controller_interrupts vector err s = do {
     let ucInstance = ucInstanceInPlay s;
     (if ucInstance \<le> SMBUS_LAST_SMBUS_INSTANCE
      then do {
        let i = unat ucInstance;
        s \<leftarrow> (if err AND SMBUS_INTERRUPT_CTLR_ERROR_INTERRUPTS \<noteq> 0
              then for_each (raise_flagged err i) controller_error_sources s else Some s);
        s \<leftarrow> for_each (raise_flagged vector i) controller_sources s;
        s \<leftarrow> vSMBusEventQueueHandle s;
        Some (ucInstance, s) }
      else do {
        s \<leftarrow> vSMBusHWWriteCtrlRxFifoReset 1 s;
        s \<leftarrow> vSMBusHWWriteCtrlDescFifoReset 1 s;
        Some (ucInstance, s) }) }"

definition vSMBusInterruptHandler :: "'w smbus option \<Rightarrow> 'w smbus option option" where
  "vSMBusInterruptHandler p = (case p of
       None \<Rightarrow> Some None
     | Some s \<Rightarrow> do {
         s \<leftarrow> reenable_errors s;
         s \<leftarrow> vSMBusHWWriteIRQGIEEnable 0 s;
         (isr, s) \<leftarrow> ulSMBusHWReadIRQISR s;
         (ier, s) \<leftarrow> ulSMBusHWReadIRQIER s;
         let vector = isr AND ier;
         (err_isr, err, s) \<leftarrow> error_vector vector s;
         s \<leftarrow> add_log SMBUS_LOG_LEVEL_INFO SMBUS_INSTANCE_UNDETERMINED SMBUS_LOG_EVENT_INTERRUPT_EVENT isr err_isr s;
         (ucInstance, s) \<leftarrow>
           (if vector AND (SMBUS_INTERRUPT_TGT_INTERRUPTS OR SMBUS_INTERRUPT_ERROR_IRQ) \<noteq> 0
            then target_interrupts vector err s else Some (SMBUS_INVALID_INSTANCE, s));
         (ucInstance, s) \<leftarrow>
           (if vector AND (SMBUS_INTERRUPT_CTLR_INTERRUPTS OR SMBUS_INTERRUPT_ERROR_IRQ) \<noteq> 0
            then controller_interrupts vector err s else Some (ucInstance, s));
         s \<leftarrow> prvvSMBusClearInterrupts isr err_isr s;
         s \<leftarrow> (if SMBUS_INVALID_INSTANCE \<noteq> ucInstance \<and> vector AND SMBUS_INTERRUPT_CTLR_DONE \<noteq> 0
               then vSMBusHWWriteIRQIER 0x000001EF s else Some s);
         s \<leftarrow> vSMBusHWWriteIRQGIEEnable 1 s;
         Some (Some s) })"

end
