(* ===== verification/SmbusInit.thy ===== *)
theory SmbusInit
  imports SmbusInterrupt Complex_Main
begin

text \<open>
  Initialisation of the SMBus driver (smbus_driver.c): the check of the firewalls, the
  interrupt enables, \<open>xInitSMBus\<close> and \<open>xDeinitSMBus\<close>. A profile pointer is an option,
  \<^term>\<open>None\<close> when NULL. The single-precision arithmetic of the target that computes the
  timing values is a parameter.
\<close>

section \<open>Firewalls and the log\<close>

definition firewalls_intact :: "'w SMBUS_INSTANCE \<Rightarrow> bool" where
  "firewalls_intact x \<longleftrightarrow> SMBUS_FIREWALL1 = ulFirewall1 x \<and> SMBUS_FIREWALL2 = ulFirewall2 x
     \<and> SMBUS_FIREWALL3 = ulFirewall3 x"

definition xSMBusFirewallCheck :: "'w smbus option \<Rightarrow> SMBus_Error_Type" where
  "xSMBusFirewallCheck p = (case p of
       None \<Rightarrow> SMBUS_ERROR
     | Some s \<Rightarrow>
         if \<exists>i \<in> {0..<SMBUS_NUMBER_OF_SMBUS_INSTANCES}. \<not> firewalls_intact (inst s i)
         then SMBUS_ERROR else SMBUS_SUCCESS)"

definition log_refused :: "u32 \<Rightarrow> 'w smbus \<Rightarrow> 'w smbus option" where
  "log_refused line s = add_log SMBUS_LOG_LEVEL_ERROR SMBUS_INSTANCE_UNDETERMINED SMBUS_LOG_EVENT_ERROR
     (error_value SMBUS_ERROR) line s"

text \<open>
  The two guards all functions of the interface begin with: the result \<open>r\<close> for a NULL profile,
  and, logged, when a firewall is broken.
\<close>

definition on_profile :: "'r \<Rightarrow> ('w smbus \<Rightarrow> ('r \<times> 'w smbus) option) \<Rightarrow> 'w smbus option
    \<Rightarrow> ('r \<times> 'w smbus option) option" where
  "on_profile r f p = (case p of
       None \<Rightarrow> Some (r, None)
     | Some s \<Rightarrow> do { (q, s) \<leftarrow> f s; Some (q, Some s) })"

definition guarded :: "u32 \<Rightarrow> 'r \<Rightarrow> ('w smbus \<Rightarrow> ('r \<times> 'w smbus) option) \<Rightarrow> 'w smbus \<Rightarrow> ('r \<times> 'w smbus) option" where
  "guarded line r f s =
     (if SMBUS_SUCCESS \<noteq> xSMBusFirewallCheck (Some s)
      then do { s \<leftarrow> log_refused line s; Some (r, s) }
      else f s)"

definition log_initialize :: "'w smbus \<Rightarrow> 'w smbus option" where
  "log_initialize s = (case vLogInitialize (Some s) of Some (Some s) \<Rightarrow> Some s | _ \<Rightarrow> None)"

section \<open>Interrupts\<close>

definition xSMBusInterruptDisableAndClearInterrupts ::
  "'w smbus option \<Rightarrow> (SMBus_Error_Type \<times> 'w smbus option) option" where
  "xSMBusInterruptDisableAndClearInterrupts = on_profile SMBUS_ERROR (guarded 206 SMBUS_ERROR (\<lambda>s. do {
     s \<leftarrow> vSMBusHWWriteIRQGIEEnable 0 s;
     s \<leftarrow> vSMBusHWWriteIRQIER 0 s;
     s \<leftarrow> vSMBusHWWriteERRIRQIER 0 s;
     s \<leftarrow> vSMBusHWWriteIRQISR 0x0000FFFF s;
     s \<leftarrow> vSMBusHWWriteERRIRQISR 0x000FFFFF s;
     Some (SMBUS_SUCCESS, s) }))"

definition xSMBusInterruptEnableInterrupts ::
  "'w smbus option \<Rightarrow> (SMBus_Error_Type \<times> 'w smbus option) option" where
  "xSMBusInterruptEnableInterrupts = on_profile SMBUS_ERROR (guarded 240 SMBUS_ERROR (\<lambda>s. do {
     s \<leftarrow> vSMBusHWWriteIRQIER 0x0000DFEF s;
     s \<leftarrow> vSMBusHWWriteERRIRQIER 0x000FFFFF s;
     s \<leftarrow> vSMBusHWWriteIRQGIEEnable 1 s;
     Some (SMBUS_SUCCESS, s) }))"

section \<open>Timing\<close>

definition SMBUS_TBUF_MIN_100KHZ :: rat where "SMBUS_TBUF_MIN_100KHZ = 470"
definition SMBUS_TBUF_MIN_400KHZ :: rat where "SMBUS_TBUF_MIN_400KHZ = 130"
definition SMBUS_TBUF_MIN_1MHZ :: rat where "SMBUS_TBUF_MIN_1MHZ = 50"
definition SMBUS_TSU_DAT_MIN_100KHZ :: rat where "SMBUS_TSU_DAT_MIN_100KHZ = 125"
definition SMBUS_TSU_DAT_MIN_400KHZ :: rat where "SMBUS_TSU_DAT_MIN_400KHZ = 40"
definition SMBUS_TSU_DAT_MIN_1MHZ :: rat where "SMBUS_TSU_DAT_MIN_1MHZ = 17"
definition SMBUS_TGT_DATA_HOLD_100KHZ :: rat where "SMBUS_TGT_DATA_HOLD_100KHZ = 33"
definition SMBUS_TGT_DATA_HOLD_400KHZ :: rat where "SMBUS_TGT_DATA_HOLD_400KHZ = 11 / 100"
definition SMBUS_TGT_DATA_HOLD_1MHZ :: rat where "SMBUS_TGT_DATA_HOLD_1MHZ = 11 / 100"
definition SMBUS_CTLR_DATA_HOLD_100KHZ :: rat where "SMBUS_CTLR_DATA_HOLD_100KHZ = 33"
definition SMBUS_CTLR_DATA_HOLD_400KHZ :: rat where "SMBUS_CTLR_DATA_HOLD_400KHZ = 11 / 100"
definition SMBUS_CTLR_DATA_HOLD_1MHZ :: rat where "SMBUS_CTLR_DATA_HOLD_1MHZ = 11 / 100"
definition SMBUS_CTLR_START_HOLD_100KHZ :: rat where "SMBUS_CTLR_START_HOLD_100KHZ = 440"
definition SMBUS_CTLR_START_HOLD_400KHZ :: rat where "SMBUS_CTLR_START_HOLD_400KHZ = 66"
definition SMBUS_CTLR_START_HOLD_1MHZ :: rat where "SMBUS_CTLR_START_HOLD_1MHZ = 286 / 10"
definition SMBUS_CTLR_START_SETUP_100KHZ :: rat where "SMBUS_CTLR_START_SETUP_100KHZ = 517"
definition SMBUS_CTLR_START_SETUP_400KHZ :: rat where "SMBUS_CTLR_START_SETUP_400KHZ = 66"
definition SMBUS_CTLR_START_SETUP_1MHZ :: rat where "SMBUS_CTLR_START_SETUP_1MHZ = 286 / 10"
definition SMBUS_CTLR_STOP_SETUP_100KHZ :: rat where "SMBUS_CTLR_STOP_SETUP_100KHZ = 440"
definition SMBUS_CTLR_STOP_SETUP_400KHZ :: rat where "SMBUS_CTLR_STOP_SETUP_400KHZ = 66"
definition SMBUS_CTLR_STOP_SETUP_1MHZ :: rat where "SMBUS_CTLR_STOP_SETUP_1MHZ = 286 / 10"
definition SMBUS_CTLR_CLK_LOW_100KHZ :: rat where "SMBUS_CTLR_CLK_LOW_100KHZ = 517"
definition SMBUS_CTLR_CLK_LOW_400KHZ :: rat where "SMBUS_CTLR_CLK_LOW_400KHZ = 143"
definition SMBUS_CTLR_CLK_LOW_1MHZ :: rat where "SMBUS_CTLR_CLK_LOW_1MHZ = 55"
definition SMBUS_CTLR_CLK_HIGH_100KHZ :: rat where "SMBUS_CTLR_CLK_HIGH_100KHZ = 440"
definition SMBUS_CTLR_CLK_HIGH_400KHZ :: rat where "SMBUS_CTLR_CLK_HIGH_400KHZ = 66"
definition SMBUS_CTLR_CLK_HIGH_1MHZ :: rat where "SMBUS_CTLR_CLK_HIGH_1MHZ = 286 / 10"

text \<open>
  \<open>fceil x clk\<close> is the value of \<open>ulSMBusCeil\<close> on the single-precision product of the macro: \<open>x\<close>
  times the clock in units of \<open>SMBUS_TBUF_DIVISOR\<close>.
\<close>

type_synonym fceil = "rat \<Rightarrow> u32 \<Rightarrow> u32"

definition value_of :: "fceil \<Rightarrow> rat \<Rightarrow> u32 \<Rightarrow> u32" where
  "value_of fceil x clk = fceil x clk - 1"

definition value_minus :: "fceil \<Rightarrow> rat \<Rightarrow> u32 \<Rightarrow> u32 \<Rightarrow> u32" where
  "value_minus fceil x clk k = fceil x clk - k"

definition log_info :: "u32 \<Rightarrow> u32 \<Rightarrow> 'w smbus \<Rightarrow> 'w smbus option" where
  "log_info e1 line s =
     add_log SMBUS_LOG_LEVEL_INFO SMBUS_INSTANCE_UNDETERMINED SMBUS_LOG_EVENT_DEBUG e1 line s"

text \<open>The values of all three frequency classes, with the lines that log them.\<close>

definition timing_log :: "fceil \<Rightarrow> u32 \<Rightarrow> u32 \<Rightarrow> (u32 \<times> u32) list" where
  "timing_log fceil clk k = [
     (value_of fceil SMBUS_TBUF_MIN_100KHZ clk, 314),
     (value_of fceil SMBUS_TBUF_MIN_400KHZ clk, 316),
     (value_of fceil SMBUS_TBUF_MIN_1MHZ clk, 318),
     (value_of fceil SMBUS_TSU_DAT_MIN_100KHZ clk, 321),
     (value_of fceil SMBUS_TSU_DAT_MIN_400KHZ clk, 323),
     (value_of fceil SMBUS_TSU_DAT_MIN_1MHZ clk, 325),
     (value_minus fceil SMBUS_TGT_DATA_HOLD_100KHZ clk k, 328),
     (value_of fceil SMBUS_TGT_DATA_HOLD_400KHZ clk, 330),
     (value_of fceil SMBUS_TGT_DATA_HOLD_1MHZ clk, 332),
     (value_minus fceil SMBUS_CTLR_DATA_HOLD_100KHZ clk k, 335),
     (value_of fceil SMBUS_CTLR_DATA_HOLD_400KHZ clk, 337),
     (value_of fceil SMBUS_CTLR_DATA_HOLD_1MHZ clk, 339),
     (value_minus fceil SMBUS_CTLR_START_HOLD_100KHZ clk k, 342),
     (value_minus fceil SMBUS_CTLR_START_HOLD_400KHZ clk k, 344),
     (value_minus fceil SMBUS_CTLR_START_HOLD_1MHZ clk k, 346),
     (value_minus fceil SMBUS_CTLR_START_SETUP_100KHZ clk k, 349),
     (value_minus fceil SMBUS_CTLR_START_SETUP_400KHZ clk k, 351),
     (value_minus fceil SMBUS_CTLR_START_SETUP_1MHZ clk k, 353),
     (value_minus fceil SMBUS_CTLR_STOP_SETUP_100KHZ clk k, 356),
     (value_minus fceil SMBUS_CTLR_STOP_SETUP_400KHZ clk k, 358),
     (value_minus fceil SMBUS_CTLR_STOP_SETUP_1MHZ clk k, 360),
     (value_minus fceil SMBUS_CTLR_CLK_LOW_100KHZ clk k, 363),
     (value_minus fceil SMBUS_CTLR_CLK_LOW_400KHZ clk k, 365),
     (value_minus fceil SMBUS_CTLR_CLK_LOW_1MHZ clk k, 367),
     (value_minus fceil SMBUS_CTLR_CLK_HIGH_100KHZ clk k, 370),
     (value_minus fceil SMBUS_CTLR_CLK_HIGH_400KHZ clk k, 372),
     (value_minus fceil SMBUS_CTLR_CLK_HIGH_1MHZ clk k, 374)]"

text \<open>The timing registers of a frequency class.\<close>

definition timing_writes :: "fceil \<Rightarrow> SMBus_Freq_Class_Type \<Rightarrow> u32 \<Rightarrow> u32 \<Rightarrow> ('w smbus \<Rightarrow> 'w smbus option) list option" where
  "timing_writes fceil cls clk k = (case cls of
     SMBUS_FREQ_100KHZ \<Rightarrow> Some [
       vSMBusHWWritePHYBusFreetime (value_of fceil SMBUS_TBUF_MIN_100KHZ clk),
       vSMBusHWWritePHYTgtDataSetupTgtDataSetup (value_of fceil SMBUS_TSU_DAT_MIN_100KHZ clk),
       vSMBusHWWritePHYTgtDataHold (value_minus fceil SMBUS_TGT_DATA_HOLD_100KHZ clk k),
       vSMBusHWWritePHYCtrlDataHold (value_minus fceil SMBUS_CTLR_DATA_HOLD_100KHZ clk k),
       vSMBusHWWritePHYCtrlStartHold (value_minus fceil SMBUS_CTLR_START_HOLD_100KHZ clk k),
       vSMBusHWWritePHYCtrlStartSetup (value_minus fceil SMBUS_CTLR_START_SETUP_100KHZ clk k),
       vSMBusHWWritePHYCtrlStopSetup (value_minus fceil SMBUS_CTLR_STOP_SETUP_100KHZ clk k),
       vSMBusHWWritePHYCtrlClkTLow (value_minus fceil SMBUS_CTLR_CLK_LOW_100KHZ clk k),
       vSMBusHWWritePHYCtrlClkTHigh (value_minus fceil SMBUS_CTLR_CLK_HIGH_100KHZ clk k)]
   | SMBUS_FREQ_400KHZ \<Rightarrow> Some [
       vSMBusHWWritePHYBusFreetime (value_of fceil SMBUS_TBUF_MIN_400KHZ clk),
       vSMBusHWWritePHYTgtDataSetupTgtDataSetup (value_of fceil SMBUS_TSU_DAT_MIN_400KHZ clk),
       vSMBusHWWritePHYTgtDataHold (value_of fceil SMBUS_TGT_DATA_HOLD_400KHZ clk),
       vSMBusHWWritePHYCtrlDataHold (value_of fceil SMBUS_CTLR_DATA_HOLD_400KHZ clk),
       vSMBusHWWritePHYCtrlStartHold (value_minus fceil SMBUS_CTLR_START_HOLD_400KHZ clk k),
       vSMBusHWWritePHYCtrlStartSetup (value_minus fceil SMBUS_CTLR_START_SETUP_400KHZ clk k),
       vSMBusHWWritePHYCtrlStopSetup (value_minus fceil SMBUS_CTLR_STOP_SETUP_400KHZ clk k),
       vSMBusHWWritePHYCtrlClkTLow (value_minus fceil SMBUS_CTLR_CLK_LOW_400KHZ clk k),
       vSMBusHWWritePHYCtrlClkTHigh (value_minus fceil SMBUS_CTLR_CLK_HIGH_400KHZ clk k)]
   | SMBUS_FREQ_1MHZ \<Rightarrow> Some [
       vSMBusHWWritePHYBusFreetime (value_of fceil SMBUS_TBUF_MIN_1MHZ clk),
       vSMBusHWWritePHYTgtDataSetupTgtDataSetup (value_of fceil SMBUS_TSU_DAT_MIN_1MHZ clk),
       vSMBusHWWritePHYTgtDataHold (value_of fceil SMBUS_TGT_DATA_HOLD_1MHZ clk),
       vSMBusHWWritePHYCtrlDataHold (value_of fceil SMBUS_CTLR_DATA_HOLD_1MHZ clk),
       vSMBusHWWritePHYCtrlStartHold (value_minus fceil SMBUS_CTLR_START_HOLD_1MHZ clk k),
       vSMBusHWWritePHYCtrlStartSetup (value_minus fceil SMBUS_CTLR_START_SETUP_1MHZ clk k),
       vSMBusHWWritePHYCtrlStopSetup (value_minus fceil SMBUS_CTLR_STOP_SETUP_1MHZ clk k),
       vSMBusHWWritePHYCtrlClkTLow (value_minus fceil SMBUS_CTLR_CLK_LOW_1MHZ clk k),
       vSMBusHWWritePHYCtrlClkTHigh (value_minus fceil SMBUS_CTLR_CLK_HIGH_1MHZ clk k)]
   | SMBUS_FREQ_MAX \<Rightarrow> None)"

section \<open>Instances\<close>

text \<open>
  The event buffer of an instance over the array of the instance: its cells, or the zeros the
  static profile starts with when the buffer was never initialised.
\<close>

definition event_cells :: "'w SMBUS_INSTANCE \<Rightarrow> SMBUS_EVENT_BUFFER_ELEMENT_TYPE list" where
  "event_cells x = (case pxEventBuffer (xEventSourceCircularBuffer x) of
       Some es \<Rightarrow> es
     | None \<Rightarrow> replicate (unat SMBUS_MAX_EVENT_ELEMENTS) \<lparr>ucIsOccupied = 0, ucOctet = 0\<rparr>)"

definition init_events :: "nat \<Rightarrow> 'w smbus \<Rightarrow> 'w smbus option" where
  "init_events i s =
     (case vEventBufferInitialize (Some (xEventSourceCircularBuffer (inst s i)))
             (Some (event_cells (inst s i))) SMBUS_MAX_EVENT_ELEMENTS of
        Some (Some b) \<Rightarrow> Some (upd i (\<lambda>x. x\<lparr>xEventSourceCircularBuffer := b\<rparr>) s)
      | _ \<Rightarrow> None)"

text \<open>The counters are cleared up to \<open>SMBUS_PROTOCOL_NONE\<close>, which leaves those of I2C.\<close>

definition clear_counters :: "u32 list \<Rightarrow> u32 list" where
  "clear_counters cs =
     (let n = unat (protocol_value SMBUS_PROTOCOL_NONE) in replicate n 0 @ drop n cs)"

definition clear_messages :: "nat \<Rightarrow> 'w smbus \<Rightarrow> 'w smbus" where
  "clear_messages i s = upd i (\<lambda>x. x\<lparr>ulMessagesComplete := clear_counters (ulMessagesComplete x),
     ulMessagesInitiated := clear_counters (ulMessagesInitiated x)\<rparr>) s"

definition set_firewalls :: "'w SMBUS_INSTANCE \<Rightarrow> 'w SMBUS_INSTANCE" where
  "set_firewalls x = x\<lparr>ulFirewall1 := SMBUS_FIREWALL1, ulFirewall2 := SMBUS_FIREWALL2,
     ulFirewall3 := SMBUS_FIREWALL3\<rparr>"

definition initial_instance :: "'w SMBUS_INSTANCE \<Rightarrow> 'w SMBUS_INSTANCE" where
  "initial_instance x = (set_firewalls x)\<lparr>ucInstanceInUse := SMBUS_FALSE, ucSMBusAddress := 0,
     pFnGetProtocol := None, pFnGetData := None, pFnWriteData := None, pFnAnnounceResult := None,
     pFnArpAddressChange := None, pFnBusError := None, pFnBusWarning := None,
     ucPECRequired := SMBUS_FALSE, xARPCapability := SMBUS_ARP_CAPABILITY_UNKNOWN,
     ucARFlag := SMBUS_FALSE, ucAVFlag := SMBUS_FALSE, xProtocol := SMBUS_PROTOCOL_NONE,
     ucThisInstanceNumber := SMBUS_INVALID_INSTANCE, ucUDIDMatchedInstance := SMBUS_INVALID_INSTANCE\<rparr>"

definition init_instance :: "nat \<Rightarrow> 'w smbus \<Rightarrow> 'w smbus option" where
  "init_instance i s = do {
     s \<leftarrow> init_events i (upd i initial_instance s);
     Some (clear_messages i s) }"

section \<open>Initialisation\<close>

definition SMBUS_MAGIC_NUMBER :: u32 where "SMBUS_MAGIC_NUMBER = 0x534D4273"
definition SMBUS_INITIALIZATION_CODE :: u32 where "SMBUS_INITIALIZATION_CODE = 0x7AB3F91D"
definition SMBUS_DEINITIALIZATION_CODE :: u32 where "SMBUS_DEINITIALIZATION_CODE = 0"
definition SMBUS_CTRL_FIXED_INPUT_LATENCY :: u32 where "SMBUS_CTRL_FIXED_INPUT_LATENCY = 7"
definition SMBUS_GET_CONSTANT :: u32 where "SMBUS_GET_CONSTANT = SMBUS_CTRL_FIXED_INPUT_LATENCY + 1"

definition latency_constant :: "'w smbus \<Rightarrow> (u32 \<times> 'w smbus) option" where
  "latency_constant s = do {
     (filter_on, s) \<leftarrow> ulSMBusHWReadPHYFilterControlEnable s;
     (if filter_on = 1
      then do {
        (d, s) \<leftarrow> ulSMBusHWReadPHYFilterControlDuration s;
        Some (d + 1 + SMBUS_GET_CONSTANT, s) }
      else Some (SMBUS_GET_CONSTANT, s)) }"

definition init_instances :: "'w smbus \<Rightarrow> 'w smbus option" where
  "init_instances s = do {
     (v, s) \<leftarrow> ulSMBusHWReadBuildConfig0 s;
     s \<leftarrow> log_info v 450 s;
     (v, s) \<leftarrow> ulSMBusHWReadBuildConfig1 s;
     s \<leftarrow> log_info v 453 s;
     let s = s\<lparr>ucInstanceInPlay := SMBUS_INVALID_INSTANCE, ulTransactionID := 0\<rparr>;
     s \<leftarrow> for_each init_instance [0..<SMBUS_NUMBER_OF_SMBUS_INSTANCES] s;
     s \<leftarrow> vSMBusHWWriteCtrlDescFifoReset 1 s;
     s \<leftarrow> vSMBusHWWriteTgtRxFifoReset 1 s;
     vSMBusHWWriteCtrlRxFifoReset 1 s }"

text \<open>
  \<open>handle\<close> is the pointer to the caller's profile pointer, \<open>s\<close> the one static profile it is made
  to point to: \<^term>\<open>None\<close> is a NULL argument, \<^term>\<open>Some None\<close> a NULL profile pointer.
\<close>

definition xInitSMBus ::
  "fceil \<Rightarrow> 'a option option \<Rightarrow> SMBus_Freq_Class_Type \<Rightarrow> u64 \<Rightarrow> SMBUS_LOG_LEVEL_TYPE
   \<Rightarrow> ('w \<Rightarrow> u32 \<times> 'w) option \<Rightarrow> 'w smbus \<Rightarrow> (SMBus_Error_Type \<times> 'w smbus) option" where
  "xInitSMBus fceil handle cls base level ticks s =
     (if handle = Some None \<and> base \<noteq> 0 \<and> cls \<noteq> SMBUS_FREQ_MAX \<and> level \<noteq> SMBUS_LOG_LEVEL_MAX
      then if SMBUS_INITIALIZATION_CODE \<noteq> ulInitialize s
        then do {
          s \<leftarrow> log_initialize s;
          let s = s\<lparr>pFnReadTicks := ticks, pvBaseAddress := base, xLogLevel := level\<rparr>;
          (version, s) \<leftarrow> ulSMBusHWReadIPVersion s;
          s \<leftarrow> log_info version 295 s;
          (magic, s) \<leftarrow> ulSMBusHWReadIPMagicNum s;
          (if SMBUS_MAGIC_NUMBER = magic
           then do {
             (clk, s) \<leftarrow> ulSMBusHWReadBuildConfig0 s;
             (k, s) \<leftarrow> latency_constant s;
             s \<leftarrow> for_each (\<lambda>(v, line). log_info v line) (timing_log fceil clk k) s;
             (err, s) \<leftarrow> (case timing_writes fceil cls clk k of
                 None \<Rightarrow> Some (SMBUS_ERROR, s)
               | Some ws \<Rightarrow> do {
                   s \<leftarrow> for_each (\<lambda>w. w) ws s;
                   s \<leftarrow> init_instances s;
                   Some (SMBUS_SUCCESS, s) });
             Some (err, s\<lparr>ulInitialize := SMBUS_INITIALIZATION_CODE\<rparr>) }
           else Some (SMBUS_ERROR, s)) }
        else Some (SMBUS_ERROR, s)
      else Some (SMBUS_ERROR, s))"

definition xDeinitSMBus :: "'w smbus option option \<Rightarrow> (SMBus_Error_Type \<times> 'w smbus option option) option" where
  "xDeinitSMBus handle = (case handle of
       Some (Some s) \<Rightarrow> do {
         (err, s) \<leftarrow> guarded 535 SMBUS_ERROR (\<lambda>s. Some
             (if \<exists>i \<in> {0..<SMBUS_NUMBER_OF_SMBUS_INSTANCES}. SMBUS_TRUE = ucInstanceInUse (inst s i)
              then SMBUS_ERROR else SMBUS_SUCCESS, s)) s;
         (if err = SMBUS_SUCCESS
          then do {
            (_, p) \<leftarrow> xSMBusInterruptDisableAndClearInterrupts (Some s);
            Some (err, Some (map_option (\<lambda>s. s\<lparr>pvBaseAddress := 0, pFnReadTicks := None,
              ulInitialize := SMBUS_DEINITIALIZATION_CODE\<rparr>) p)) }
          else Some (err, Some (Some s))) }
     | _ \<Rightarrow> Some (SMBUS_ERROR, handle))"

end
