(* ===== verification/SmbusDriver.thy ===== *)
theory SmbusDriver
  imports SmbusInit
begin

text \<open>
  The interface of the SMBus driver (smbus_driver.c, smbus.h, i2c.h): versions, instances,
  the transactions an application starts, the log and the statistics. The caller's buffers
  are lists of the bytes behind the pointers, \<^term>\<open>None\<close> for NULL.
\<close>

section \<open>Versions\<close>

record SMBUS_VERSION_TYPE =
  usIpVerMajor :: u16
  usIpVerMinor :: u16
  ucSwVerMajor :: u8
  ucSwVerMinor :: u8
  ucSwVerPatch :: u8
  ucSwDevBuild :: u8
  ucSwTestBuild :: u8

text \<open>The software version of smbus_version.h, in which \<open>GIT_STATUS\<close> is 0.\<close>

definition software_version :: "SMBUS_VERSION_TYPE \<Rightarrow> SMBUS_VERSION_TYPE" where
  "software_version v = v\<lparr>ucSwVerMajor := 1, ucSwVerMinor := 2, ucSwVerPatch := 0, ucSwDevBuild := 0,
     ucSwTestBuild := 0\<rparr>"

definition xSMBusGetVersion :: "SMBUS_VERSION_TYPE option \<Rightarrow> 'w smbus option
    \<Rightarrow> ((SMBus_Error_Type \<times> SMBUS_VERSION_TYPE option) \<times> 'w smbus option) option" where
  "xSMBusGetVersion pv p = (case pv of
       None \<Rightarrow> Some ((SMBUS_ERROR, None), p)
     | Some v \<Rightarrow>
         let none = (SMBUS_ERROR, Some ((software_version v)\<lparr>usIpVerMajor := 0, usIpVerMinor := 0\<rparr>))
         in on_profile none (guarded 167 none (\<lambda>s. do {
              (ip, s) \<leftarrow> ulSMBusHWReadIPVersion s;
              Some ((SMBUS_SUCCESS, Some ((software_version v)\<lparr>
                usIpVerMajor := ucast (drop_bit 16 (ip AND 0xFFFF0000)),
                usIpVerMinor := ucast (ip AND 0x0000FFFF)\<rparr>)), s) })) p)"

section \<open>Creating an instance\<close>

text \<open>The functions an application supplies for an instance.\<close>

record 'w smbus_callbacks =
  cbGetProtocol :: "(u8 \<Rightarrow> 'w \<Rightarrow> SMBus_Command_Protocol_Type \<times> 'w) option"
  cbGetData :: "(u8 \<Rightarrow> 'w \<Rightarrow> (u8 list \<times> u16) \<times> 'w) option"
  cbWriteData :: "(u8 \<Rightarrow> u8 list \<Rightarrow> u16 \<Rightarrow> u32 \<Rightarrow> 'w \<Rightarrow> 'w) option"
  cbAnnounceResult :: "(u8 \<Rightarrow> u32 \<Rightarrow> u32 \<Rightarrow> 'w \<Rightarrow> 'w) option"
  cbArpAddressChange :: "(u8 \<Rightarrow> 'w \<Rightarrow> 'w) option"
  cbBusError :: "(u8 \<Rightarrow> 'w \<Rightarrow> 'w) option"
  cbBusWarning :: "(u8 \<Rightarrow> 'w \<Rightarrow> 'w) option"

definition udid_kind :: "u8 list \<Rightarrow> u8" where
  "udid_kind udid = udid ! SMBUS_UDID_DEVICE_CAPABILITIES_BYTE AND SMBUS_UDID_ADDRESS_TYPE_MASK"

definition create_allowed :: "u8 \<Rightarrow> u8 list \<Rightarrow> SMBus_ARP_Capability \<Rightarrow> bool" where
  "create_allowed addr udid cap \<longleftrightarrow>
     \<not> (SMBUS_ARP_CAPABILITY_UNKNOWN = cap \<or> arp_value SMBUS_ARP_NON_ARP_CAPABLE < arp_value cap)
     \<and> \<not> (SMBUS_INVALID_ADDRESS_MASK AND addr \<noteq> 0 \<and> SMBUS_ARP_CAPABLE = cap
           \<and> SMBUS_UDID_DYNAMIC_AND_PERSISTENT \<noteq> udid_kind udid)
     \<and> \<not> (SMBUS_ARP_CAPABLE = cap \<and> SMBUS_UDID_FIXED_ADDRESS = udid_kind udid)"

definition address_used :: "u8 \<Rightarrow> 'w smbus \<Rightarrow> bool" where
  "address_used addr s \<longleftrightarrow> (\<exists>i \<in> {0..<SMBUS_NUMBER_OF_SMBUS_NON_ARP_INSTANCES}.
     SMBUS_TRUE = ucInstanceInUse (inst s i) \<and> ucSMBusAddress (inst s i) = addr)"

definition free_instance :: "'w smbus \<Rightarrow> nat option" where
  "free_instance s = find (\<lambda>i. SMBUS_FALSE = ucInstanceInUse (inst s i)) non_arp_instances"

definition initial_av_flag :: "u8 \<Rightarrow> u8 list \<Rightarrow> SMBus_ARP_Capability \<Rightarrow> u8" where
  "initial_av_flag addr udid cap =
     (if SMBUS_ARP_CAPABLE = cap
      then if SMBUS_UDID_DYNAMIC_AND_PERSISTENT = udid_kind udid
        then if SMBUS_INVALID_ADDRESS_MASK AND addr \<noteq> 0 \<or> 0 = addr then SMBUS_FALSE else SMBUS_TRUE
        else SMBUS_FALSE
      else SMBUS_TRUE)"

definition new_instance :: "nat \<Rightarrow> u8 \<Rightarrow> u8 list \<Rightarrow> SMBus_ARP_Capability \<Rightarrow> 'w smbus_callbacks \<Rightarrow> u8
    \<Rightarrow> 'w SMBUS_INSTANCE \<Rightarrow> 'w SMBUS_INSTANCE" where
  "new_instance i addr udid cap cb simple x = x\<lparr>ucSMBusAddress := addr,
     pFnGetProtocol := cbGetProtocol cb, pFnGetData := cbGetData cb, pFnWriteData := cbWriteData cb,
     pFnAnnounceResult := cbAnnounceResult cb, pFnArpAddressChange := cbArpAddressChange cb,
     pFnI2CGetData := None, pFnI2CWriteData := None, pFnI2CAnnounceResult := None,
     pFnBusError := cbBusError cb, pFnBusWarning := cbBusWarning cb,
     ucInstanceInUse := SMBUS_TRUE, ucTriggerFSM := SMBUS_FALSE, xARPCapability := cap,
     ucARFlag := SMBUS_FALSE, ulI2CDevice := ucast SMBUS_FALSE, ucFifoEmptyWhileInDoneCount := 0,
     ucAVFlag := initial_av_flag addr udid cap, ucNewDeviceSlaveAddress := 0, ucNackSent := SMBUS_FALSE,
     ucSimpleDevice := simple, ucThisInstanceNumber := of_nat i,
     ucUDID := map ((!) udid) [0..<SMBUS_UDID_LENGTH],
     ucPECRequired := udid ! SMBUS_UDID_DEVICE_CAPABILITIES_BYTE AND SMBUS_UDID_PEC_SUPPORTED_BIT\<rparr>"

text \<open>The instance at the default address of the ARP comes into use with the first that needs it.\<close>

definition create_arp_instance :: "SMBus_ARP_Capability \<Rightarrow> 'w smbus \<Rightarrow> 'w smbus option" where
  "create_arp_instance cap s =
     (if SMBUS_FALSE = ucInstanceInUse (inst s SMBUS_ARP_INSTANCE_ID) \<and> SMBUS_ARP_NON_ARP_CAPABLE \<noteq> cap
      then do {
        let s = upd SMBUS_ARP_INSTANCE_ID (\<lambda>x. x\<lparr>ucInstanceInUse := SMBUS_TRUE,
          ucSMBusAddress := SMBUS_DEVICE_DEFAULT_ARP_ADDRESS, ucPECRequired := SMBUS_TRUE,
          ucThisInstanceNumber := of_nat SMBUS_ARP_INSTANCE_ID\<rparr>) s;
        s \<leftarrow> vSMBusHWWriteTgtControlAddress (of_nat SMBUS_ARP_INSTANCE_ID)
          (ucast SMBUS_DEVICE_DEFAULT_ARP_ADDRESS) s;
        vSMBusHWWriteTgtControlEnable (of_nat SMBUS_ARP_INSTANCE_ID) 1 s }
      else Some s)"

definition create_at :: "nat \<Rightarrow> u8 \<Rightarrow> u8 list \<Rightarrow> SMBus_ARP_Capability \<Rightarrow> 'w smbus_callbacks \<Rightarrow> u8
    \<Rightarrow> 'w smbus \<Rightarrow> 'w smbus option" where
  "create_at i addr udid cap cb simple s = do {
     let s = upd i (new_instance i addr udid cap cb simple) s;
     s \<leftarrow> vSMBusHWWriteTgtControlAddress (of_nat i) (ucast addr) s;
     s \<leftarrow> (if SMBUS_ARP_CAPABLE \<noteq> xARPCapability (inst s i)
           then vSMBusHWWriteTgtControlEnable (of_nat i) 1 s else Some s);
     create_arp_instance cap s }"

definition ucCreateSMBusInstance :: "u8 \<Rightarrow> u8 list \<Rightarrow> SMBus_ARP_Capability \<Rightarrow> 'w smbus_callbacks \<Rightarrow> u8
    \<Rightarrow> 'w smbus option \<Rightarrow> (u8 \<times> 'w smbus option) option" where
  "ucCreateSMBusInstance addr udid cap cb simple p =
     (if (cbGetProtocol cb \<noteq> None \<or> SMBUS_TRUE = simple) \<and> cbGetData cb \<noteq> None
         \<and> cbWriteData cb \<noteq> None \<and> cbAnnounceResult cb \<noteq> None
      then on_profile SMBUS_INVALID_INSTANCE (guarded 602 SMBUS_INVALID_INSTANCE (\<lambda>s.
        if create_allowed addr udid cap \<and> (SMBUS_ARP_CAPABLE \<noteq> cap \<longrightarrow> \<not> address_used addr s)
        then case free_instance s of
            None \<Rightarrow> Some (SMBUS_INVALID_INSTANCE, s)
          | Some i \<Rightarrow> do {
              s \<leftarrow> create_at i addr udid cap cb simple s;
              Some (of_nat i, s) }
        else Some (SMBUS_INVALID_INSTANCE, s))) p
      else Some (SMBUS_INVALID_INSTANCE, p))"

section \<open>Destroying an instance\<close>

definition destroyed_instance :: "'w SMBUS_INSTANCE \<Rightarrow> 'w SMBUS_INSTANCE" where
  "destroyed_instance x = (set_firewalls x)\<lparr>ucInstanceInUse := SMBUS_FALSE, ucSMBusAddress := 0,
     pFnGetProtocol := None, pFnGetData := None, pFnWriteData := None, pFnAnnounceResult := None,
     pFnArpAddressChange := None, pFnBusError := None, pFnBusWarning := None,
     ucPECRequired := SMBUS_FALSE, xARPCapability := SMBUS_ARP_CAPABILITY_UNKNOWN,
     ucARFlag := SMBUS_FALSE, ucAVFlag := SMBUS_FALSE, xProtocol := SMBUS_PROTOCOL_NONE,
     ucThisInstanceNumber := SMBUS_INVALID_INSTANCE\<rparr>"

definition destroyed_arp_instance :: "'w SMBUS_INSTANCE \<Rightarrow> 'w SMBUS_INSTANCE" where
  "destroyed_arp_instance x = (set_firewalls x)\<lparr>ucInstanceInUse := SMBUS_FALSE, ucSMBusAddress := 0,
     pFnGetProtocol := None, pFnGetData := None,
     ucPECRequired := SMBUS_FALSE, xARPCapability := SMBUS_ARP_CAPABILITY_UNKNOWN,
     ucARFlag := SMBUS_FALSE, ucAVFlag := SMBUS_FALSE, xProtocol := SMBUS_PROTOCOL_NONE,
     ucThisInstanceNumber := SMBUS_INVALID_INSTANCE\<rparr>"

text \<open>The address is taken off the bus, then the data of the instance are reset.\<close>

definition destroy_at :: "nat \<Rightarrow> ('w SMBUS_INSTANCE \<Rightarrow> 'w SMBUS_INSTANCE) \<Rightarrow> 'w smbus \<Rightarrow> 'w smbus option" where
  "destroy_at i f s = do {
     s \<leftarrow> vSMBusHWWriteTgtControlEnable (of_nat i) 0 s;
     s \<leftarrow> vSMBusHWWriteTgtControlAddress (of_nat i) 0 s;
     s \<leftarrow> init_events i (upd i f s);
     Some (clear_messages i s) }"

definition arp_instance_needed :: "'w smbus \<Rightarrow> bool" where
  "arp_instance_needed s \<longleftrightarrow> (\<exists>i \<in> {0..<SMBUS_NUMBER_OF_SMBUS_INSTANCES - 1}.
     SMBUS_TRUE = ucInstanceInUse (inst s i) \<and> SMBUS_ARP_NON_ARP_CAPABLE \<noteq> xARPCapability (inst s i))"

definition xDestroySMBusInstance :: "u8 \<Rightarrow> 'w smbus option \<Rightarrow> (SMBus_Error_Type \<times> 'w smbus option) option" where
  "xDestroySMBusInstance idx p =
     (if idx \<le> SMBUS_LAST_NON_ARP_SMBUS_INSTANCE
      then on_profile SMBUS_ERROR (guarded 769 SMBUS_ERROR (\<lambda>s.
        if SMBUS_TRUE = ucInstanceInUse (inst s (unat idx)) \<and> SMBUS_STATE_INITIAL = xState (inst s (unat idx))
        then do {
          s \<leftarrow> destroy_at (unat idx) destroyed_instance s;
          s \<leftarrow> (if arp_instance_needed s then Some s
                else destroy_at SMBUS_ARP_INSTANCE_ID destroyed_arp_instance s);
          Some (SMBUS_SUCCESS, s) }
        else Some (SMBUS_ERROR, s))) p
      else Some (SMBUS_ERROR, p))"

section \<open>Transactions of a controller\<close>

text \<open>
  What starting a transaction has in common: the FIFOs are reset, the first event raised and
  handled with the interrupts off.
\<close>

definition start_transaction :: "nat \<Rightarrow> 'w smbus \<Rightarrow> 'w smbus option" where
  "start_transaction i s = do {
     s \<leftarrow> vSMBusHWWriteCtrlDescFifoReset 1 s;
     s \<leftarrow> vSMBusHWWriteCtrlRxFifoReset 1 s;
     s \<leftarrow> raise_event vSMBusGenerateEvent_E_SEND_NEXT_BYTE i s;
     s \<leftarrow> vSMBusHWWriteIRQGIEEnable 0 s;
     s \<leftarrow> vSMBusEventQueueHandle s;
     s \<leftarrow> vSMBusHWWriteIRQIER 0x0000DFEF s;
     vSMBusHWWriteIRQGIEEnable 1 s }"

definition controller_free :: "nat \<Rightarrow> 'w smbus \<Rightarrow> bool" where
  "controller_free i s \<longleftrightarrow>
     SMBUS_INVALID_INSTANCE = ucInstanceInPlay s \<and> SMBUS_STATE_INITIAL = xState (inst s i)"

definition directed_command :: "SMBus_Command_Protocol_Type \<Rightarrow> u8 \<Rightarrow> u8" where
  "directed_command p c =
     (if SMBUS_ARP_PROTOCOL_GET_UDID_DIRECTED = p then c OR SMBUS_ARP_UDID_DIRECTED_COMMAND
      else if SMBUS_ARP_PROTOCOL_RESET_DEVICE_DIRECTED = p then c AND SMBUS_ARP_DIRECTED_COMMAND_ADDRESS_MASK
      else c)"

definition line_held_low :: "'w smbus \<Rightarrow> (bool \<times> 'w smbus) option" where
  "line_held_low s = do {
     (clk, s) \<leftarrow> ulSMBusHWReadPHYStatusSMBClkLowTimeout s;
     (if SMBUS_SMBCLK_LOW_TIMEOUT_DETECTED = clk then Some (True, s)
      else do {
        (dat, s) \<leftarrow> ulSMBusHWReadPHYStatusSMBDATLowTimeout s;
        Some (SMBUS_SMBDAT_LOW_TIMEOUT_DETECTED = dat, s) }) }"

text \<open>\<open>tid\<close> is the variable behind \<open>pulTransactionID\<close>.\<close>

definition xSMBusControllerInitiateCommand ::
  "u8 \<Rightarrow> u8 \<Rightarrow> u8 \<Rightarrow> SMBus_Command_Protocol_Type \<Rightarrow> u16 \<Rightarrow> u8 list option \<Rightarrow> u8 \<Rightarrow> u32 option
   \<Rightarrow> 'w smbus option \<Rightarrow> ((SMBus_Error_Type \<times> u32 option) \<times> 'w smbus option) option" where
  "xSMBusControllerInitiateCommand idx dest c proto n data pec tid p =
     (case data of
        Some bytes \<Rightarrow>
          if idx \<le> SMBUS_LAST_NON_ARP_SMBUS_INSTANCE \<and> protocol_value proto < protocol_value SMBUS_PROTOCOL_NONE
             \<and> unat n \<le> SMBUS_DATA_SIZE_MAX \<and> pec \<le> SMBUS_TRUE \<and> tid \<noteq> None
          then on_profile (SMBUS_ERROR, tid) (guarded 890 (SMBUS_ERROR, tid) (\<lambda>s. do {
            (low, s) \<leftarrow> line_held_low s;
            (if low
             then do { s \<leftarrow> log_refused 897 s; Some ((SMBUS_ERROR, tid), s) }
             else if controller_free (unat idx) s
             then do {
               let i = unat idx;
               let number = ulTransactionID s;
               let s = s\<lparr>ulTransactionID := number + 1, ucInstanceInPlay := idx\<rparr>;
               d \<leftarrow> copy_to bytes (unat n) (ucSendData (inst s i));
               let s = upd i (\<lambda>x. x\<lparr>ucSendData := d, usSendDataSize := n, usSendIndex := 0,
                 ucCommand := directed_command proto c, xProtocol := proto,
                 ucSMBusDestinationAddress := dest, ucPecRequiredForTransaction := pec\<rparr>) s;
               s \<leftarrow> start_transaction i s;
               Some ((SMBUS_SUCCESS, Some number), s) }
             else Some ((SMBUS_ERROR, tid), s)) })) p
          else Some ((SMBUS_ERROR, tid), p)
      | None \<Rightarrow> Some ((SMBUS_ERROR, tid), p))"

section \<open>I2C\<close>

record 'w i2c_callbacks =
  cbI2CGetData :: "('w \<Rightarrow> (u8 list \<times> u16) \<times> 'w) option"
  cbI2CWriteData :: "(u8 list \<Rightarrow> u16 \<Rightarrow> 'w \<Rightarrow> 'w) option"
  cbI2CAnnounceResult :: "(u32 \<Rightarrow> 'w \<Rightarrow> 'w) option"
  cbI2CBusError :: "(u8 \<Rightarrow> 'w \<Rightarrow> 'w) option"
  cbI2CBusWarning :: "(u8 \<Rightarrow> 'w \<Rightarrow> 'w) option"

definition new_i2c_instance :: "nat \<Rightarrow> u8 \<Rightarrow> 'w i2c_callbacks \<Rightarrow> 'w SMBUS_INSTANCE \<Rightarrow> 'w SMBUS_INSTANCE" where
  "new_i2c_instance i addr cb x = x\<lparr>ucSMBusAddress := addr,
     pFnGetProtocol := None, pFnGetData := None, pFnWriteData := None, pFnAnnounceResult := None,
     pFnArpAddressChange := None, pFnI2CGetData := cbI2CGetData cb, pFnI2CWriteData := cbI2CWriteData cb,
     pFnI2CAnnounceResult := cbI2CAnnounceResult cb, pFnBusError := cbI2CBusError cb,
     pFnBusWarning := cbI2CBusWarning cb, ucInstanceInUse := SMBUS_TRUE, ucTriggerFSM := SMBUS_FALSE,
     ulI2CDevice := ucast SMBUS_TRUE, ucNewDeviceSlaveAddress := 0, ucNackSent := SMBUS_FALSE,
     ucSimpleDevice := SMBUS_FALSE, ucThisInstanceNumber := of_nat i, ucPECRequired := SMBUS_FALSE\<rparr>"

definition ucI2CCreateDevice :: "u8 \<Rightarrow> 'w i2c_callbacks \<Rightarrow> 'w smbus option \<Rightarrow> (u8 \<times> 'w smbus option) option" where
  "ucI2CCreateDevice addr cb p =
     (if cbI2CGetData cb \<noteq> None \<and> cbI2CWriteData cb \<noteq> None \<and> cbI2CAnnounceResult cb \<noteq> None
      then on_profile SMBUS_INVALID_INSTANCE (guarded 1268 SMBUS_INVALID_INSTANCE (\<lambda>s.
        if SMBUS_INVALID_ADDRESS_MASK AND addr = 0 \<and> \<not> address_used addr s
        then case free_instance s of
            None \<Rightarrow> Some (SMBUS_INVALID_INSTANCE, s)
          | Some i \<Rightarrow> do {
              let s = upd i (new_i2c_instance i addr cb) s;
              s \<leftarrow> vSMBusHWWriteTgtControlAddress (of_nat i) (ucast addr) s;
              s \<leftarrow> vSMBusHWWriteTgtControlEnable (of_nat i) 1 s;
              Some (of_nat i, s) }
        else Some (SMBUS_INVALID_INSTANCE, s))) p
      else Some (SMBUS_INVALID_INSTANCE, p))"

definition destroyed_i2c_instance :: "'w SMBUS_INSTANCE \<Rightarrow> 'w SMBUS_INSTANCE" where
  "destroyed_i2c_instance x = (set_firewalls x)\<lparr>ucInstanceInUse := SMBUS_FALSE, ucSMBusAddress := 0,
     pFnI2CGetData := None, pFnI2CWriteData := None, pFnI2CAnnounceResult := None,
     pFnBusError := None, pFnBusWarning := None,
     ucPECRequired := SMBUS_FALSE, xARPCapability := SMBUS_ARP_CAPABILITY_UNKNOWN,
     ucARFlag := SMBUS_FALSE, ucAVFlag := SMBUS_FALSE, xProtocol := SMBUS_PROTOCOL_NONE,
     ucThisInstanceNumber := SMBUS_INVALID_INSTANCE, ulI2CDevice := ucast SMBUS_FALSE\<rparr>"

definition ucI2CDestroyDevice :: "u8 \<Rightarrow> 'w smbus option \<Rightarrow> (SMBus_Error_Type \<times> 'w smbus option) option" where
  "ucI2CDestroyDevice idx p =
     (if idx \<le> SMBUS_LAST_NON_ARP_SMBUS_INSTANCE
      then on_profile SMBUS_ERROR (guarded 1357 SMBUS_ERROR (\<lambda>s.
        if SMBUS_TRUE = ucInstanceInUse (inst s (unat idx)) \<and> SMBUS_STATE_INITIAL = xState (inst s (unat idx))
        then do {
          s \<leftarrow> destroy_at (unat idx) destroyed_i2c_instance s;
          Some (SMBUS_SUCCESS, s) }
        else Some (SMBUS_ERROR, s))) p
      else Some (SMBUS_ERROR, p))"

definition ucI2CWriteData :: "u8 \<Rightarrow> u8 \<Rightarrow> u8 list option \<Rightarrow> u16 \<Rightarrow> 'w smbus option
    \<Rightarrow> (SMBus_Error_Type \<times> 'w smbus option) option" where
  "ucI2CWriteData idx addr data n p = (case data of
       None \<Rightarrow> Some (SMBUS_ERROR, p)
     | Some bytes \<Rightarrow>
         if idx \<le> SMBUS_LAST_NON_ARP_SMBUS_INSTANCE \<and> unat n \<le> SMBUS_DATA_SIZE_MAX
         then on_profile SMBUS_ERROR (guarded 1432 SMBUS_ERROR (\<lambda>s.
           let i = unat idx
           in if SMBUS_TRUE = ucInstanceInUse (inst s i) \<and> controller_free i s
              then do {
                d \<leftarrow> copy_to bytes (unat n) (ucSendData (inst s i));
                let s = s\<lparr>ucInstanceInPlay := idx\<rparr>;
                let s = upd i (\<lambda>x. x\<lparr>ucSendData := d, usSendDataSize := n, usSendIndex := 0,
                  ulI2CTransaction := ucast SMBUS_TRUE, xProtocol := I2C_PROTOCOL_WRITE,
                  ucSMBusDestinationAddress := addr\<rparr>) s;
                s \<leftarrow> start_transaction i s;
                Some (SMBUS_SUCCESS, s) }
              else Some (SMBUS_ERROR, s))) p
         else Some (SMBUS_ERROR, p))"

definition ucI2CReadData :: "u8 \<Rightarrow> u8 \<Rightarrow> u16 \<Rightarrow> 'w smbus option \<Rightarrow> (SMBus_Error_Type \<times> 'w smbus option) option" where
  "ucI2CReadData idx addr n p =
     (if idx \<le> SMBUS_LAST_NON_ARP_SMBUS_INSTANCE \<and> unat n \<le> SMBUS_DATA_SIZE_MAX
      then on_profile SMBUS_ERROR (guarded 1506 SMBUS_ERROR (\<lambda>s.
        let i = unat idx
        in if controller_free i s
           then do {
             let s = s\<lparr>ucInstanceInPlay := idx\<rparr>;
             let s = upd i (\<lambda>x. x\<lparr>usExpectedByteCount := n, xProtocol := I2C_PROTOCOL_READ,
               ucSMBusDestinationAddress := addr\<rparr>) s;
             s \<leftarrow> start_transaction i s;
             Some (SMBUS_SUCCESS, s) }
           else Some (SMBUS_ERROR, s))) p
      else Some (SMBUS_ERROR, p))"

definition I2C_READ_DATA_SIZE_MIN :: nat where "I2C_READ_DATA_SIZE_MIN = 1"

definition ucI2CWriteReadData :: "u8 \<Rightarrow> u8 \<Rightarrow> u8 list option \<Rightarrow> u16 \<Rightarrow> u16 \<Rightarrow> 'w smbus option
    \<Rightarrow> (SMBus_Error_Type \<times> 'w smbus option) option" where
  "ucI2CWriteReadData idx addr data n m p = (case data of
       None \<Rightarrow> Some (SMBUS_ERROR, p)
     | Some bytes \<Rightarrow>
         if idx \<le> SMBUS_LAST_NON_ARP_SMBUS_INSTANCE \<and> unat n \<le> SMBUS_DATA_SIZE_MAX
            \<and> unat m \<le> SMBUS_DATA_SIZE_MAX \<and> I2C_READ_DATA_SIZE_MIN \<le> unat m
         then on_profile SMBUS_ERROR (guarded 1578 SMBUS_ERROR (\<lambda>s.
           let i = unat idx
           in if controller_free i s
              then do {
                d \<leftarrow> copy_to bytes (unat n) (ucSendData (inst s i));
                let s = s\<lparr>ucInstanceInPlay := idx\<rparr>;
                let s = upd i (\<lambda>x. x\<lparr>ucSendData := d, usSendDataSize := n, usSendIndex := 0,
                  usExpectedByteCount := m, xProtocol := I2C_PROTOCOL_WRITE_READ,
                  ucSMBusDestinationAddress := addr\<rparr>) s;
                s \<leftarrow> start_transaction i s;
                Some (SMBUS_SUCCESS, s) }
              else Some (SMBUS_ERROR, s))) p
         else Some (SMBUS_ERROR, p))"

section \<open>Log and statistics\<close>

text \<open>The text and the size written; \<open>buffers\<close> tells that neither pointer is NULL.\<close>

definition xSMBusGetLog :: "bool \<Rightarrow> 'w smbus option
    \<Rightarrow> ((SMBus_Error_Type \<times> (string \<times> u32) option) \<times> 'w smbus option) option" where
  "xSMBusGetLog buffers p =
     (if buffers
      then on_profile (SMBUS_ERROR, None) (guarded 977 (SMBUS_ERROR, None) (\<lambda>s. do {
        txt \<leftarrow> vLogDisplayLog (Some s);
        Some ((SMBUS_SUCCESS, txt), s) })) p
      else Some ((SMBUS_ERROR, None), p))"

definition xSMBusLogReset :: "'w smbus option \<Rightarrow> (SMBus_Error_Type \<times> 'w smbus option) option" where
  "xSMBusLogReset = on_profile SMBUS_ERROR (guarded 1004 SMBUS_ERROR (\<lambda>s. do {
     s \<leftarrow> log_initialize s;
     Some (SMBUS_SUCCESS, s) }))"

definition vSMBusLogEnable :: "'w smbus option \<Rightarrow> (unit \<times> 'w smbus option) option" where
  "vSMBusLogEnable = on_profile () (guarded 1028 () (\<lambda>s. Some ((), s\<lparr>xLogLevel := SMBUS_LOG_LEVEL_DEBUG\<rparr>)))"

definition vSMBusLogDisable :: "'w smbus option \<Rightarrow> (unit \<times> 'w smbus option) option" where
  "vSMBusLogDisable = on_profile () (guarded 1049 () (\<lambda>s. Some ((), s\<lparr>xLogLevel := SMBUS_LOG_LEVEL_NONE\<rparr>)))"

definition vSMBusResetStatsLogInstance :: "u8 \<Rightarrow> 'w smbus option \<Rightarrow> (unit \<times> 'w smbus option) option" where
  "vSMBusResetStatsLogInstance k p =
     (if k \<le> SMBUS_LAST_SMBUS_INSTANCE
      then on_profile () (guarded 1073 () (\<lambda>s. Some ((), clear_messages (unat k) s))) p
      else Some ((), p))"

record SMBUS_LOG_TYPE =
  log_complete :: "u32 list"
  log_initiated :: "u32 list"

definition vSMBusReadStatsLogInstance :: "u8 \<Rightarrow> SMBUS_LOG_TYPE option \<Rightarrow> 'w smbus option
    \<Rightarrow> (SMBUS_LOG_TYPE option \<times> 'w smbus option) option" where
  "vSMBusReadStatsLogInstance k out p =
     (if k \<le> SMBUS_LAST_SMBUS_INSTANCE \<and> out \<noteq> None
      then on_profile out (guarded 1106 out (\<lambda>s.
        let n = unat (protocol_value SMBUS_PROTOCOL_NONE)
        in Some (Some \<lparr>log_complete = take n (ulMessagesComplete (inst s (unat k))),
                      log_initiated = take n (ulMessagesInitiated (inst s (unat k)))\<rparr>, s))) p
      else Some (out, p))"

end
