(* ===== verification/SmbusFrameActions.thy ===== *)
theory SmbusFrameActions
  imports SmbusDriver
begin

text \<open>
  The actions, the descriptors and the shared steps of the state machine keep the typing and
  the identity of the instances.
\<close>

section \<open>The frame of the basic operations\<close>

text \<open>
  What no operation of the SMBus driver changes. \<open>shape\<close> is the typing of the state: arrays
  have the lengths of their declarations, the log and the event buffers are well formed.
  \<open>kept s0 s\<close> adds that the identity of every instance and the settings of the profile are
  those of \<open>s0\<close>. The two judgements \<open>oks\<close> and \<open>okv\<close> say that a computation, when it returns,
  returns in such a state; their rules follow the structure of the code.
\<close>

section \<open>The judgements\<close>

named_theorems keeps

definition oks :: "('s \<Rightarrow> bool) \<Rightarrow> 's option \<Rightarrow> bool" where
  "oks P m \<longleftrightarrow> (\<forall>s. m = Some s \<longrightarrow> P s)"

definition okv :: "('s \<Rightarrow> bool) \<Rightarrow> ('v \<times> 's) option \<Rightarrow> bool" where
  "okv P m \<longleftrightarrow> (\<forall>v s. m = Some (v, s) \<longrightarrow> P s)"

lemma oks_simps [simp]: "oks P None" "oks P (Some s) \<longleftrightarrow> P s"
  by (simp_all add: oks_def)

lemma okv_simps [simp]: "okv P None" "okv P (Some (v, s)) \<longleftrightarrow> P s"
  by (simp_all add: okv_def)

lemma oks_bind_state [keeps]: "oks P m \<Longrightarrow> (\<And>s. P s \<Longrightarrow> oks P (f s)) \<Longrightarrow> oks P (Option.bind m f)"
  by (cases m) auto

lemma oks_bind_value [keeps]:
  "okv P m \<Longrightarrow> (\<And>v s. P s \<Longrightarrow> oks P (f v s)) \<Longrightarrow> oks P (Option.bind m (\<lambda>(v, s). f v s))"
  by (cases m) auto

lemma okv_bind_state [keeps]: "oks P m \<Longrightarrow> (\<And>s. P s \<Longrightarrow> okv P (f s)) \<Longrightarrow> okv P (Option.bind m f)"
  by (cases m) auto

lemma okv_bind_value [keeps]:
  "okv P m \<Longrightarrow> (\<And>v s. P s \<Longrightarrow> okv P (f v s)) \<Longrightarrow> okv P (Option.bind m (\<lambda>(v, s). f v s))"
  by (cases m) auto

lemma oks_bind_pure: "(\<And>x. m = Some x \<Longrightarrow> oks P (f x)) \<Longrightarrow> oks P (Option.bind m f)"
  by (cases m) auto

lemmas oks_bind_u8 [keeps] = oks_bind_pure[where 'a = u8]
lemmas oks_bind_bytes [keeps] = oks_bind_pure[where 'a = "u8 list"]
lemmas oks_bind_nat [keeps] = oks_bind_pure[where 'a = nat]
lemmas oks_bind_counters [keeps] = oks_bind_pure[where 'a = "u32 list"]
lemmas oks_bind_ids [keeps] = oks_bind_pure[where 'a = "nat \<times> u8 list"]

lemma oks_if [keeps]: "(b \<Longrightarrow> oks P x) \<Longrightarrow> (\<not> b \<Longrightarrow> oks P y) \<Longrightarrow> oks P (if b then x else y)"
  by simp

lemma okv_if [keeps]: "(b \<Longrightarrow> okv P x) \<Longrightarrow> (\<not> b \<Longrightarrow> okv P y) \<Longrightarrow> okv P (if b then x else y)"
  by simp

lemma oks_for_each [keeps]:
  assumes "P s" "\<And>x s. P s \<Longrightarrow> oks P (f x s)"
  shows "oks P (for_each f xs s)"
  using assms(1) by (induction xs arbitrary: s) (auto intro!: keeps assms(2))

section \<open>What is kept\<close>

definition counter_length :: nat where
  "counter_length = unat (protocol_value I2C_PROTOCOL_NONE)"

definition evb_ok :: "SMBUS_EVENT_BUFFER_TYPE \<Rightarrow> bool" where
  "evb_ok b \<longleftrightarrow> evb_inv b \<and> evb_cap b = unat SMBUS_MAX_EVENT_ELEMENTS"

definition inst_shape :: "'w SMBUS_INSTANCE \<Rightarrow> bool" where
  "inst_shape x \<longleftrightarrow> length (ucSendData x) = SMBUS_DATA_SIZE_MAX
     \<and> length (ucReceivedData x) = SMBUS_DATA_SIZE_MAX \<and> length (ucUDID x) = SMBUS_UDID_LENGTH
     \<and> length (ulMessagesComplete x) = counter_length \<and> length (ulMessagesInitiated x) = counter_length
     \<and> evb_ok (xEventSourceCircularBuffer x)"

definition log_shape :: "('w, 'z) SMBUS_PROFILE_TYPE_scheme \<Rightarrow> bool" where
  "log_shape p \<longleftrightarrow> length (xCircularBuffer p) = SMBUS_MAX_CIRCULAR_LOG_ENTRIES
     \<and> unat (logWrite (xLogCircularBuffer p)) < SMBUS_MAX_CIRCULAR_LOG_ENTRIES"

definition shape :: "'w smbus \<Rightarrow> bool" where
  "shape s \<longleftrightarrow> length (xSMBusInstance s) = SMBUS_NUMBER_OF_SMBUS_INSTANCES
     \<and> (\<forall>x \<in> set (xSMBusInstance s). inst_shape x)
     \<and> length (ucUDIDMatch s) = SMBUS_NUMBER_OF_SMBUS_NON_ARP_INSTANCES \<and> log_shape s"

text \<open>Who an instance is: its number, its callbacks, its configuration and its firewalls.\<close>

definition identity where
  "identity (x :: 'w SMBUS_INSTANCE) =
     ((pFnGetProtocol x, pFnGetData x, pFnWriteData x, pFnAnnounceResult x, pFnArpAddressChange x,
       pFnBusError x, pFnBusWarning x, pFnI2CGetData x, pFnI2CWriteData x, pFnI2CAnnounceResult x),
      [ulFirewall1 x, ulFirewall2 x, ulFirewall3 x, ulI2CDevice x],
      [ucThisInstanceNumber x, ucInstanceInUse x, ucSimpleDevice x, ucPECRequired x],
      ucUDID x, xARPCapability x)"

definition settings :: "'w smbus \<Rightarrow> ('w \<Rightarrow> u32 \<times> 'w) option \<times> SMBUS_LOG_LEVEL_TYPE \<times> u64 \<times> u32 \<times> u32
    \<times> (u64 \<Rightarrow> 'w \<Rightarrow> u32 \<times> 'w) \<times> (u64 \<Rightarrow> u32 \<Rightarrow> 'w \<Rightarrow> 'w)" where
  "settings s = (pFnReadTicks s, xLogLevel s, pvBaseAddress s, ulTransactionID s, ulInitialize s, in32 s, out32 s)"

definition kept :: "'w smbus \<Rightarrow> 'w smbus \<Rightarrow> bool" where
  "kept s0 s \<longleftrightarrow> shape s \<and> map identity (xSMBusInstance s) = map identity (xSMBusInstance s0)
     \<and> settings s = settings s0"

lemma kept_refl: "shape s \<Longrightarrow> kept s s"
  by (simp add: kept_def)

lemma kept_trans: "kept s0 s1 \<Longrightarrow> kept s1 s2 \<Longrightarrow> kept s0 s2"
  by (simp add: kept_def)

lemma kept_inst: "kept s0 s \<Longrightarrow> i < SMBUS_NUMBER_OF_SMBUS_INSTANCES \<Longrightarrow> inst_shape (inst s i)"
  by (simp add: kept_def shape_def)

lemma kept_same [simp]:
  "kept s0 (s\<lparr>world := w\<rparr>) = kept s0 s" "kept s0 (s\<lparr>ucInstanceInPlay := k\<rparr>) = kept s0 s"
  "kept s0 (s\<lparr>ucActiveTargetInstance := k\<rparr>) = kept s0 s"
  by (simp_all add: kept_def shape_def log_shape_def settings_def)

lemma kept_match:
  "kept s0 s \<Longrightarrow> length m = SMBUS_NUMBER_OF_SMBUS_NON_ARP_INSTANCES \<Longrightarrow> kept s0 (s\<lparr>ucUDIDMatch := m\<rparr>)"
  by (simp add: kept_def shape_def log_shape_def settings_def)

lemma kept_upd:
  assumes "kept s0 s" "inst_shape (inst s i) \<Longrightarrow> inst_shape (f (inst s i))"
    "identity (f (inst s i)) = identity (inst s i)"
  shows "kept s0 (upd i f s)"
proof (cases "i < length (xSMBusInstance s)")
  case True
  then have id: "map identity ((xSMBusInstance s)[i := f (inst s i)]) = map identity (xSMBusInstance s)"
    by (simp add: map_update assms(3) list_update_same_conv)
  have "inst_shape (f (inst s i))" using assms(1,2) True by (simp add: kept_def shape_def)
  then have "\<forall>x \<in> set ((xSMBusInstance s)[i := f (inst s i)]). inst_shape x"
    using assms(1) set_update_subset_insert[of "xSMBusInstance s" i] by (auto simp: kept_def shape_def)
  then show ?thesis using assms(1) id by (simp add: kept_def shape_def upd_def log_shape_def settings_def)
next
  case False
  then show ?thesis using assms(1) by (simp add: kept_def shape_def upd_def log_shape_def settings_def list_update_beyond)
qed

section \<open>Log entries and events\<close>

lemma log_next_small:
  "unat n < SMBUS_MAX_CIRCULAR_LOG_ENTRIES \<Longrightarrow>
   unat (if SMBUS_MAX_CIRCULAR_LOG_ENTRIES - 1 \<le> unat n then of_nat (SMBUS_MAX_CIRCULAR_LOG_ENTRIES - 1)
         else n + 1 :: u32) < SMBUS_MAX_CIRCULAR_LOG_ENTRIES"
  by (auto simp: SMBUS_MAX_CIRCULAR_LOG_ENTRIES_def unat_word_ariths)

lemma kept_log:
  assumes "kept s0 s" "length c = SMBUS_MAX_CIRCULAR_LOG_ENTRIES" "unat (logWrite l) < SMBUS_MAX_CIRCULAR_LOG_ENTRIES"
  shows "kept s0 (s\<lparr>xCircularBuffer := c, xLogCircularBuffer := l\<rparr>)"
  using assms by (simp add: kept_def shape_def log_shape_def settings_def)

lemma log_entry_kept:
  assumes "kept s0 s" "vLogAddEntry (Some s) level n ev e1 e2 w = Some (p, w')"
  shows "\<exists>s'. p = Some s' \<and> kept s0 s' \<and> xSMBusInstance s' = xSMBusInstance s"
proof -
  have "length (xCircularBuffer s) = SMBUS_MAX_CIRCULAR_LOG_ENTRIES"
    "unat (logWrite (xLogCircularBuffer s)) < SMBUS_MAX_CIRCULAR_LOG_ENTRIES"
    using assms(1) by (simp_all add: kept_def shape_def log_shape_def)
  then show ?thesis
    using assms log_next_small[of "logWrite (xLogCircularBuffer s)"]
    by (auto simp: vLogAddEntry_def Let_def split: if_splits prod.splits intro!: kept_log)
qed

lemma add_log_kept [keeps]: "kept s0 s \<Longrightarrow> oks (kept s0) (add_log level n ev e1 e2 s)"
  using log_entry_kept[of s0 s level n ev e1 e2 "world s"]
  by (auto simp: oks_def add_log_def split: option.splits prod.splits)

lemma log_debug_kept [keeps]: "kept s0 s \<Longrightarrow> oks (kept s0) (log_debug i e1 line s)"
  unfolding log_debug_def by (intro keeps)

lemma log_failed_kept [keeps]: "kept s0 s \<Longrightarrow> oks (kept s0) (log_failed i line s)"
  unfolding log_failed_def by (intro keeps)

text \<open>A generator changes the event buffer of the instance and its trigger, and may log.\<close>

definition event_frame where
  "event_frame (gen :: 'w SMBUS_INSTANCE option \<Rightarrow> 'w smbus option \<Rightarrow> 'w
      \<Rightarrow> ('w SMBUS_INSTANCE option \<times> 'w smbus option \<times> 'w) option) \<longleftrightarrow>
     (\<forall>x s w y p w' s0. gen (Some x) (Some s) w = Some (y, p, w') \<longrightarrow> kept s0 s \<longrightarrow>
        (\<exists>b t s'. y = Some (x\<lparr>xEventSourceCircularBuffer := b, ucTriggerFSM := t\<rparr>) \<and> p = Some s' \<and> kept s0 s'
           \<and> xSMBusInstance s' = xSMBusInstance s \<and> (evb_ok (xEventSourceCircularBuffer x) \<longrightarrow> evb_ok b)))"

lemma write_event_inv:
  assumes "ucEventBufferTryWrite (Some b) ev (Some 0) = Some (st, b', pos)" "evb_ok b"
  shows "\<exists>c. b' = Some c \<and> evb_ok c"
proof -
  have "evb_inv b" "evb_cap b = unat SMBUS_MAX_EVENT_ELEMENTS" using assms(2) by (simp_all add: evb_ok_def)
  then show ?thesis
    using evb_enq_law[of b ev] assms(1) by (auto simp: evb_enq_def evb_ok_def bind_eq_Some_conv split: option.splits)
qed

lemma create_event_frame: "event_frame (\<lambda>inst prof w. vSMBusCreateEvent inst ev prof w)"
  unfolding event_frame_def
proof (intro allI impI)
  fix x :: "'w SMBUS_INSTANCE" and s :: "'w smbus" and w y p w' s0
  assume r: "vSMBusCreateEvent (Some x) ev (Some s) w = Some (y, p, w')" and k: "kept s0 s"
  from r obtain st b pos where b: "ucEventBufferTryWrite (Some (xEventSourceCircularBuffer x)) ev (Some 0)
      = Some (st, Some b, pos)" "y = Some (x\<lparr>xEventSourceCircularBuffer := b\<rparr>)"
    "(p = Some s \<and> w' = w) \<or> vLogAddEntry (Some s) SMBUS_LOG_LEVEL_ERROR (ucast (ucThisInstanceNumber x))
               SMBUS_LOG_EVENT_ERROR (ucast ev) 91 w = Some (p, w')"
    by (auto simp: vSMBusCreateEvent_def Let_def bind_eq_Some_conv split: if_splits)
  then have "\<exists>s'. p = Some s' \<and> kept s0 s' \<and> xSMBusInstance s' = xSMBusInstance s"
    using log_entry_kept[OF k] k by blast
  then show "\<exists>b t s'. y = Some (x\<lparr>xEventSourceCircularBuffer := b, ucTriggerFSM := t\<rparr>) \<and> p = Some s' \<and> kept s0 s'
       \<and> xSMBusInstance s' = xSMBusInstance s \<and> (evb_ok (xEventSourceCircularBuffer x) \<longrightarrow> evb_ok b)"
    using b write_event_inv[OF b(1)] by (intro exI[of _ b] exI[of _ "ucTriggerFSM x"]) auto
qed

lemma trigger_event_frame: "event_frame (\<lambda>inst prof w. trigger_fsm (vSMBusCreateEvent inst ev prof w))"
  using create_event_frame[of ev] unfolding event_frame_def trigger_fsm_def
  by (fastforce simp: map_option_eq_Some)

lemma raise_event_kept:
  assumes "event_frame gen" "kept s0 s"
  shows "oks (kept s0) (raise_event gen i s)"
  unfolding oks_def
proof (intro allI impI)
  fix r assume "raise_event gen i s = Some r"
  then obtain x s' w' where g: "gen (Some (inst s i)) (Some s) (world s) = Some (Some x, Some s', w')"
    and r: "r = upd i (\<lambda>_. x) (s'\<lparr>world := w'\<rparr>)"
    by (auto simp: raise_event_def split: option.splits prod.splits)
  have "\<exists>b t s1. Some x = Some ((inst s i)\<lparr>xEventSourceCircularBuffer := b, ucTriggerFSM := t\<rparr>)
      \<and> Some s' = Some s1 \<and> kept s0 s1 \<and> xSMBusInstance s1 = xSMBusInstance s
      \<and> (evb_ok (xEventSourceCircularBuffer (inst s i)) \<longrightarrow> evb_ok b)"
    using assms g unfolding event_frame_def by blast
  then obtain b t where x: "x = (inst s i)\<lparr>xEventSourceCircularBuffer := b, ucTriggerFSM := t\<rparr>"
    and f: "kept s0 s'" "xSMBusInstance s' = xSMBusInstance s"
      "evb_ok (xEventSourceCircularBuffer (inst s i)) \<longrightarrow> evb_ok b" by blast
  show "kept s0 r"
    unfolding r x
  proof (rule kept_upd)
    show "kept s0 (s'\<lparr>world := w'\<rparr>)" using f(1) by simp
    show "inst_shape (inst (s'\<lparr>world := w'\<rparr>) i) \<Longrightarrow>
        inst_shape ((inst s i)\<lparr>xEventSourceCircularBuffer := b, ucTriggerFSM := t\<rparr>)"
      using f(2,3) by (simp add: inst_shape_def)
    show "identity ((inst s i)\<lparr>xEventSourceCircularBuffer := b, ucTriggerFSM := t\<rparr>)
        = identity (inst (s'\<lparr>world := w'\<rparr>) i)"
      using f(2) by (simp add: identity_def)
  qed
qed

section \<open>Hardware accesses\<close>

lemma oks_some [keeps]: "P s \<Longrightarrow> oks P (Some s)"
  by simp

lemma okv_some [keeps]: "P s \<Longrightarrow> okv P (Some (v, s))"
  by simp

lemma oks_let_state [keeps]: "P a \<Longrightarrow> (\<And>s. P s \<Longrightarrow> oks P (f s)) \<Longrightarrow> oks P (let s = a in f s)"
  by simp

lemma okv_let_state [keeps]: "P a \<Longrightarrow> (\<And>s. P s \<Longrightarrow> okv P (f s)) \<Longrightarrow> okv P (let s = a in f s)"
  by simp

lemma read_kept [keeps]: "kept s0 s \<Longrightarrow> okv (kept s0) (prvulSMBusHardwareRead off s)"
  unfolding prvulSMBusHardwareRead_def prvulSMBusIn32_def
  by (auto simp: Let_def split: prod.splits intro!: keeps)

lemma write_kept [keeps]: "kept s0 s \<Longrightarrow> oks (kept s0) (prvvSMBusHardwareWrite off v s)"
  unfolding prvvSMBusHardwareWrite_def prvvSMBusOut32_def
  by (auto intro!: keeps)

lemma masked_write_kept [keeps]: "kept s0 s \<Longrightarrow> oks (kept s0) (prvvSMBusHardwareWriteWithMask off m v s)"
  unfolding prvvSMBusHardwareWriteWithMask_def by (intro keeps)

section \<open>Rules\<close>

lemma oks_let_pure: "(\<And>x. x = a \<Longrightarrow> oks P (f x)) \<Longrightarrow> oks P (let x = a in f x)"
  by simp

lemma okv_let_pure: "(\<And>x. x = a \<Longrightarrow> okv P (f x)) \<Longrightarrow> okv P (let x = a in f x)"
  by simp

lemmas oks_let_data [keeps] =
  oks_let_pure[where 'a = u8] oks_let_pure[where 'a = u16] oks_let_pure[where 'a = u32]
  oks_let_pure[where 'a = nat] oks_let_pure[where 'a = bool]
  oks_let_pure[where 'a = SMBus_Command_Protocol_Type] oks_let_pure[where 'a = "'w SMBUS_INSTANCE"]

lemma okv_bind_pure: "(\<And>x. m = Some x \<Longrightarrow> okv P (f x)) \<Longrightarrow> okv P (Option.bind m f)"
  by (cases m) auto

lemmas okv_bind_data [keeps] = okv_bind_pure[where 'a = u8]

lemma oks_option [keeps]:
  "(\<And>f. m = Some f \<Longrightarrow> oks P (g f)) \<Longrightarrow> (m = None \<Longrightarrow> oks P y) \<Longrightarrow>
   oks P (case m of None \<Rightarrow> y | Some f \<Rightarrow> g f)"
  by (cases m) auto

lemma oks_let_triple [keeps]: "(\<And>b n w. oks P (f b n w)) \<Longrightarrow> oks P (let ((b, n), w) = m in f b n w)"
  by (cases m) auto

lemma oks_let_pair: "(\<And>p w. oks P (f p w)) \<Longrightarrow> oks P (let (p, w) = m in f p w)"
  by (cases m) auto

lemmas oks_let_protocol [keeps] = oks_let_pair[where 'a = SMBus_Command_Protocol_Type]

lemmas okv_let_data [keeps] = okv_let_pure[where 'a = u8] okv_let_pure[where 'a = nat]

lemma okv_some_if [keeps]:
  "(c \<Longrightarrow> okv P (Some x)) \<Longrightarrow> (\<not> c \<Longrightarrow> okv P (Some y)) \<Longrightarrow> okv P (Some (if c then x else y))"
  by simp

lemma kept_if [keeps]: "(c \<Longrightarrow> kept s0 x) \<Longrightarrow> (\<not> c \<Longrightarrow> kept s0 y) \<Longrightarrow> kept s0 (if c then x else y)"
  by simp

lemmas frame = identity_def inst_shape_def

declare kept_upd [keeps]

section \<open>Hardware\<close>

lemma readers_kept [keeps]:
  assumes "kept s0 s"
  shows "okv (kept s0) (ulSMBusHWReadCtrlRxFifoStatusEmpty s)" "okv (kept s0) (ulSMBusHWReadCtrlRxFifoPayload s)"
    "okv (kept s0) (ulSMBusHWReadTgtRxFifoStatusEmpty s)" "okv (kept s0) (ulSMBusHWReadTgtRxFifoPayload s)"
    "okv (kept s0) (ulSMBusHWReadTgtRxFifoStatusFillLevel s)" "okv (kept s0) (ulSMBusHWReadTgtDescStatusFillLevel s)"
    "okv (kept s0) (ulSMBusHWReadCtrlDescStatusFillLevel s)" "okv (kept s0) (ulSMBusHWReadTgtDescStatusFull s)"
    "okv (kept s0) (ulSMBusHWReadCtrlDescStatusFull s)" "okv (kept s0) (ulSMBusHWReadPHYCtrlDbgState s)"
    "okv (kept s0) (ulSMBusHWReadCtrlDbgState s)"
  unfolding smbus_readers by (rule keeps assms | assumption)+

lemma writers_kept [keeps]:
  assumes "kept s0 s"
  shows "oks (kept s0) (vSMBusHWWriteCtrlRxFifoReset v s)" "oks (kept s0) (vSMBusHWWriteCtrlDescFifoReset v s)"
    "oks (kept s0) (vSMBusHWWriteTgtRxFifoReset v s)" "oks (kept s0) (vSMBusHWWriteCtrlControlEnable v s)"
    "oks (kept s0) (vSMBusHWWriteCtrlRxFifoFillThreshold v s)" "oks (kept s0) (vSMBusHWWriteRxFifoFillThresholdFillThresh v s)"
    "oks (kept s0) (vSMBusHWWriteTgtDescFifo v s)" "oks (kept s0) (vSMBusHWWriteCtrlDescFifo v s)"
    "oks (kept s0) (vSMBusHWWriteTgtControlEnable k v s)" "oks (kept s0) (vSMBusHWWriteTgtControlAddress k v s)"
  unfolding smbus_writers vSMBusHWWriteTgtControlEnable_def vSMBusHWWriteTgtControlAddress_def
  by (rule keeps assms | assumption)+

lemma apply_kept [keeps]:
  assumes "kept s0 s"
  shows "okv (kept s0) (prvucSMBusTargetDescriptorApply d b c s)"
    "okv (kept s0) (prvucSMBusControllerDescriptorApply d b c s)"
  unfolding prvucSMBusTargetDescriptorApply_def prvucSMBusControllerDescriptorApply_def
  by (rule keeps assms | assumption)+

lemma descriptors_kept [keeps]:
  assumes "kept s0 s"
  shows "okv (kept s0) (ucSMBusTargetReadDescriptorRead b s)" "okv (kept s0) (ucSMBusTargetReadDescriptorPECRead s)"
    "okv (kept s0) (ucSMBusTargetWriteDescriptorACK b s)" "okv (kept s0) (ucSMBusTargetWriteDescriptorNACK s)"
    "okv (kept s0) (ucSMBusTargetWriteDescriptorPEC s)" "okv (kept s0) (ucSMBusControllerWriteDescriptorStartWrite b s)"
    "okv (kept s0) (ucSMBusControllerWriteDescriptorQuickWrite b s)" "okv (kept s0) (ucSMBusControllerWriteDescriptorByte b c s)"
    "okv (kept s0) (ucSMBusControllerWriteDescriptorStopWrite b s)" "okv (kept s0) (ucSMBusControllerWriteDescriptorPECWrite s)"
    "okv (kept s0) (ucSMBusControllerReadDescriptorStart b s)" "okv (kept s0) (ucSMBusControllerReadDescriptorQuickRead b s)"
    "okv (kept s0) (ucSMBusControllerReadDescriptorByte c s)" "okv (kept s0) (ucSMBusControllerReadDescriptorStop s)"
    "okv (kept s0) (ucSMBusControllerReadDescriptorPEC s)"
  unfolding smbus_descriptors by (rule keeps assms | assumption)+

text \<open>For the induction over a loop that ends only by what the device does.\<close>

lemma loop_admissible: "option.admissible (\<lambda>f. \<forall>s. kept s0 s \<longrightarrow> oks (kept s0) (f s))"
proof -
  have "(\<lambda>f. \<forall>s. kept s0 s \<longrightarrow> oks (kept s0) (f s))
      = (\<lambda>f. \<forall>s r. f s = Some r \<longrightarrow> (kept s0 s \<longrightarrow> kept s0 r))" by (auto simp: oks_def fun_eq_iff)
  then show ?thesis using option_admissible[of "\<lambda>s r. kept s0 s \<longrightarrow> kept s0 r"] by simp
qed

lemma loop2_admissible: "option.admissible (\<lambda>f. \<forall>(i :: nat) s. kept s0 s \<longrightarrow> oks (kept s0) (curry f i s))"
proof -
  have "(\<lambda>f. \<forall>(i :: nat) s. kept s0 s \<longrightarrow> oks (kept s0) (curry f i s))
      = (\<lambda>f. \<forall>x r. f x = Some r \<longrightarrow> (kept s0 (snd x) \<longrightarrow> kept s0 r))" by (auto simp: oks_def fun_eq_iff)
  then show ?thesis using option_admissible[of "\<lambda>x r. kept s0 (snd x) \<longrightarrow> kept s0 r"] by (simp only:)
qed

lemma drain_ctlr_kept [keeps]: "kept s0 s \<Longrightarrow> oks (kept s0) (drain_ctlr_rx s)"
proof -
  have "\<forall>s. kept s0 s \<longrightarrow> oks (kept s0) (drain_ctlr_rx s)"
    by (induction rule: drain_ctlr_rx.fixp_induct[OF loop_admissible]) (auto intro!: keeps)
  then show "kept s0 s \<Longrightarrow> oks (kept s0) (drain_ctlr_rx s)" by simp
qed

lemma drain_tgt_kept [keeps]: "kept s0 s \<Longrightarrow> oks (kept s0) (drain_tgt_rx s)"
proof -
  have "\<forall>s. kept s0 s \<longrightarrow> oks (kept s0) (drain_tgt_rx s)"
    by (induction rule: drain_tgt_rx.fixp_induct[OF loop_admissible]) (auto intro!: keeps)
  then show "kept s0 s \<Longrightarrow> oks (kept s0) (drain_tgt_rx s)" by simp
qed

section \<open>Actions\<close>

lemma copy_length: "copy_to src n dst = Some d \<Longrightarrow> length d = length dst"
  by (auto simp: copy_to_def bind_eq_Some_conv dest: wr_bytes_length)

lemmas buffer_lengths = wr8_length wr_bytes_length copy_length

lemma event_frame_created:
  "(\<And>x s w. gen (Some x) (Some s) w = vSMBusCreateEvent (Some x) ev (Some s) w) \<Longrightarrow> event_frame gen"
  using create_event_frame[of ev] by (simp add: event_frame_def)

lemma event_frame_triggered:
  "(\<And>x s w. gen (Some x) (Some s) w = trigger_fsm (vSMBusCreateEvent (Some x) ev (Some s) w)) \<Longrightarrow> event_frame gen"
  using trigger_event_frame[of ev] by (simp add: event_frame_def)

lemma generators_framed [keeps]:
  "event_frame vSMBusGenerateEvent_E_IS_PEC_REQUIRED"
  "event_frame vSMBusGenerateEvent_E_SEND_NEXT_BYTE"
  "event_frame vSMBusGenerateEvent_E_TARGET_WRITE_IRQ"
  "event_frame vSMBusGenerateEvent_E_TARGET_DATA_IRQ"
  "event_frame vSMBusGenerateEvent_E_CONTROLLER_DATA_IRQ"
  "event_frame vSMBusGenerateEvent_E_TARGET_READ_IRQ"
  "event_frame vSMBusGenerateEvent_E_TARGET_DONE_IRQ"
  "event_frame vSMBusGenerateEvent_E_CONTROLLER_DONE_IRQ"
  "event_frame vSMBusGenerateEvent_E_TARGET_LOA_ERROR_IRQ"
  "event_frame vSMBusGenerateEvent_E_TARGET_PEC_ERROR_IRQ"
  "event_frame vSMBusGenerateEvent_E_TARGET_PHY_TEXT_TIMEOUT_ERROR_IRQ"
  "event_frame vSMBusGenerateEvent_E_TARGET_RX_FIFO_ERROR_ERROR_IRQ"
  "event_frame vSMBusGenerateEvent_E_TARGET_RX_FIFO_OVERFLOW_ERROR_IRQ"
  "event_frame vSMBusGenerateEvent_E_TARGET_RX_FIFO_UNDERFLOW_ERROR_IRQ"
  "event_frame vSMBusGenerateEvent_E_TARGET_DESC_FIFO_ERROR_IRQ"
  "event_frame vSMBusGenerateEvent_E_TARGET_DESC_FIFO_OVERFLOW_ERROR_IRQ"
  "event_frame vSMBusGenerateEvent_E_TARGET_DESC_FIFO_UNDERFLOW_ERROR_IRQ"
  "event_frame vSMBusGenerateEvent_E_TARGET_DESC_ERROR_IRQ"
  "event_frame vSMBusGenerateEvent_E_TARGET_PHY_UNEXPTD_BUS_IDLE_ERROR_IRQ"
  "event_frame vSMBusGenerateEvent_E_TARGET_PHY_SMBDAT_LOW_TIMEOUT_DESC_ERROR_IRQ"
  "event_frame vSMBusGenerateEvent_E_TARGET_PHY_SMBCLK_LOW_TIMEOUT_ERROR_IRQ"
  "event_frame vSMBusGenerateEvent_E_CONTROLLER_LOA_ERROR_IRQ"
  "event_frame vSMBusGenerateEvent_E_CONTROLLER_NACK_ERROR_IRQ"
  "event_frame vSMBusGenerateEvent_E_CONTROLLER_PEC_ERROR_IRQ"
  "event_frame vSMBusGenerateEvent_E_CONTROLLER_PHY_CTLR_TEXT_TIMEOUT_ERROR_IRQ"
  "event_frame vSMBusGenerateEvent_E_CONTROLLER_PHY_CTLR_CEXT_TIMEOUT_ERROR_IRQ"
  "event_frame vSMBusGenerateEvent_E_CONTROLLER_RX_FIFO_ERROR_IRQ"
  "event_frame vSMBusGenerateEvent_E_CONTROLLER_RX_FIFO_OVERFLOW_ERROR_IRQ"
  "event_frame vSMBusGenerateEvent_E_CONTROLLER_RX_FIFO_UNDERFLOW_ERROR_IRQ"
  "event_frame vSMBusGenerateEvent_E_CONTROLLER_DESC_FIFO_ERROR_IRQ"
  "event_frame vSMBusGenerateEvent_E_CONTROLLER_DESC_FIFO_OVERFLOW_ERROR_IRQ"
  "event_frame vSMBusGenerateEvent_E_CONTROLLER_DESC_FIFO_UNDERFLOW_ERROR_IRQ"
  "event_frame vSMBusGenerateEvent_E_CONTROLLER_DESC_ERROR_IRQ"
  "event_frame vSMBusGenerateEvent_E_DESC_FIFO_ALMOST_EMPTY_IRQ"
  "event_frame vSMBusGenerateEvent_E_CONTROLLER_DESC_FIFO_ALMOST_EMPTY_IRQ"
  by ((rule event_frame_created event_frame_triggered, simp add: smbus_generators; fail)
     | (rule event_frame_triggered, simp add: smbus_generators; fail))+

declare raise_event_kept [keeps]

lemma calls_kept [keeps]:
  assumes "kept s0 s"
  shows "kept s0 (vSMBusHandleActionAnnounceResultToApplication i t st s)"
    "kept s0 (vSMBusHandleActionNotifyAddressChangeToApplication i s)" "kept s0 (vSMBusHandleActionBusError i e s)"
    "kept s0 (vSMBusHandleActionBusWarning i e s)" "kept s0 (vSMBusHandleActionAnnounceI2CResultToApplication i st s)"
  using assms by (simp_all add: vSMBusHandleActionAnnounceResultToApplication_def
    vSMBusHandleActionNotifyAddressChangeToApplication_def vSMBusHandleActionBusError_def
    vSMBusHandleActionBusWarning_def vSMBusHandleActionAnnounceI2CResultToApplication_def split: option.split)

lemmas smbus_actions = vSMBusClearAction_def reset_transaction_def vSMBusHandleActionResetAllData_def
  vSMBusHandleActionCreateEventIsPECRequired_def vSMBusHandleActionCreateEventSendNextByte_def
  vSMBusHandleActionGetProtocol_def ucSMBusHandleActionGetARPProtocol_def
  vSMBusHandleActionGetDataFromApplication_def vSMBusHandleActionWriteDataToApplication_def
  vSMBusHandleActionGetI2CDataFromApplication_def vSMBusHandleActionWriteI2CDataToApplication_def

lemma actions_kept [keeps]:
  assumes "kept s0 s"
  shows "kept s0 (vSMBusClearAction i s)" "oks (kept s0) (vSMBusHandleActionResetAllData i s)"
    "oks (kept s0) (vSMBusHandleActionCreateEventIsPECRequired i s)"
    "oks (kept s0) (vSMBusHandleActionCreateEventSendNextByte i s)"
    "oks (kept s0) (vSMBusHandleActionGetProtocol i s)" "okv (kept s0) (ucSMBusHandleActionGetARPProtocol i s)"
    "oks (kept s0) (vSMBusHandleActionGetDataFromApplication i s)"
    "oks (kept s0) (vSMBusHandleActionWriteDataToApplication i t s)"
    "oks (kept s0) (vSMBusHandleActionGetI2CDataFromApplication i s)"
    "oks (kept s0) (vSMBusHandleActionWriteI2CDataToApplication i s)"
  unfolding smbus_actions
  by (rule keeps assms | assumption | fastforce simp: frame assms dest: buffer_lengths)+

end
