(* ===== verification/SmbusFrameFsm.thy ===== *)
theory SmbusFrameFsm
  imports SmbusFrameActions
begin

text \<open>
  No state of the SMBus state machine changes the typing of the driver state, the identity of
  an instance or the settings of the profile, whatever the device and the application do.
\<close>

section \<open>Shared steps\<close>

lemma counter_length: "counter_incr p cs = Some ds \<Longrightarrow> length ds = length cs"
  by (auto simp: counter_incr_def Let_def split: if_splits)

lemmas lengths = buffer_lengths counter_length

lemma on_bus_event_kept [keeps]:
  assumes "kept s0 s" "\<And>s. kept s0 s \<Longrightarrow> oks (kept s0) (other s)"
  shows "oks (kept s0) (on_bus_event i e other s)"
  unfolding on_bus_event_def target_error_def controller_error_def to_initial_def announce_def
    vSMBusNextStateDecoder_def
  by (rule keeps assms | assumption | fastforce simp: frame assms)+

lemmas smbus_steps = vSMBusLogUnexpected_def vSMBusNextStateDecoder_def to_initial_def unexpected_def
  announce_def target_error_def controller_error_def descriptor_sent_def ack_logged_def ack_counted_def
  vSMBusSendNACK_def refuse_def count_initiated_def count_completed_def expect_def

lemma steps_kept [keeps]:
  assumes "kept s0 s"
  shows "kept s0 (vSMBusNextStateDecoder i st s)" "oks (kept s0) (to_initial i s)" "oks (kept s0) (unexpected i e s)"
    "kept s0 (announce i r s)" "oks (kept s0) (target_error i e s)" "oks (kept s0) (controller_error i e s)"
    "kept s0 (descriptor_sent i s)" "oks (kept s0) (ack_logged i line s)" "oks (kept s0) (ack_counted i s)"
    "oks (kept s0) (vSMBusSendNACK i s)" "oks (kept s0) (refuse i s)" "oks (kept s0) (count_initiated i s)"
    "oks (kept s0) (count_completed i s)" "kept s0 (expect n i s)"
  unfolding smbus_steps
  by (rule keeps assms | assumption | fastforce simp: frame assms dest: lengths)+

lemma acks_counted_kept [keeps]: "kept s0 s \<Longrightarrow> oks (kept s0) (acks_counted i n s)"
  by (induction n arbitrary: s) (auto intro!: keeps simp: frame dest: lengths)

lemma ack_burst_kept [keeps]: "kept s0 s \<Longrightarrow> oks (kept s0) (ack_burst bound i n s)"
  by (induction n arbitrary: s) (auto intro!: keeps simp: frame dest: lengths)

lemma receive_bytes_kept [keeps]: "kept s0 s \<Longrightarrow> oks (kept s0) (receive_bytes i n s)"
proof (induction n arbitrary: s)
  case (Suc n)
  then show ?case by (auto intro!: keeps Suc.IH simp: frame dest: lengths)
qed simp

lemma send_bytes_kept [keeps]: "kept s0 s \<Longrightarrow> oks (kept s0) (send_bytes i n s)"
proof (induction n arbitrary: s)
  case (Suc n)
  then show ?case by (auto intro!: keeps Suc.IH simp: frame dest: lengths)
qed simp

lemma refills_kept [keeps]:
  assumes "kept s0 s"
  shows "oks (kept s0) (refill_acks bound i s)" "oks (kept s0) (receive_all i s)"
  unfolding refill_acks_def receive_all_def by (rule keeps assms | assumption)+

section \<open>Address resolution\<close>

lemma find_option [keeps]:
  "(\<And>k. m = Some k \<Longrightarrow> oks P (g k)) \<Longrightarrow> (m = None \<Longrightarrow> oks P y) \<Longrightarrow> oks P (case m of None \<Rightarrow> y | Some k \<Rightarrow> g k)"
  by (cases m) auto

lemma for_each_kept [keeps]:
  "kept s0 s \<Longrightarrow> (\<And>x s. kept s0 s \<Longrightarrow> oks (kept s0) (f x s)) \<Longrightarrow> oks (kept s0) (for_each f xs s)"
  by (rule oks_for_each)

lemma load_udid_kept [keeps]: "kept s0 s \<Longrightarrow> oks (kept s0) (load_udid i k b s)"
  unfolding load_udid_def by (rule keeps | assumption | fastforce simp: frame dest: lengths)+

lemma directed_lookup_kept [keeps]: "kept s0 s \<Longrightarrow> okv (kept s0) (directed_lookup i ks s)"
proof (induction ks arbitrary: s)
  case (Cons k ks)
  then show ?case by (auto intro!: keeps Cons.IH)
qed simp

text \<open>The judgement for the computations that return the list of candidates as well.\<close>

definition okf :: "('s \<Rightarrow> bool) \<Rightarrow> ('n \<times> 'l \<times> 's) option \<Rightarrow> bool" where
  "okf P m \<longleftrightarrow> (\<forall>n l s. m = Some (n, l, s) \<longrightarrow> P s)"

lemma okf_some [keeps]: "P s \<Longrightarrow> okf P (Some (n, l, s))"
  by (simp add: okf_def)

lemma okf_if [keeps]: "(b \<Longrightarrow> okf P x) \<Longrightarrow> (\<not> b \<Longrightarrow> okf P y) \<Longrightarrow> okf P (if b then x else y)"
  by simp

lemma okf_bind_state [keeps]: "oks P m \<Longrightarrow> (\<And>s. P s \<Longrightarrow> okf P (f s)) \<Longrightarrow> okf P (Option.bind m f)"
  by (cases m) (auto simp: okf_def)

lemma okf_bind_pure: "(\<And>x. m = Some x \<Longrightarrow> okf P (f x)) \<Longrightarrow> okf P (Option.bind m f)"
  by (cases m) (auto simp: okf_def)

lemmas okf_bind_data [keeps] = okf_bind_pure[where 'a = "u8 list"]

lemma okf_bind_pair [keeps]: "(\<And>n l. okf P (f n l)) \<Longrightarrow> okf P (Option.bind m (\<lambda>(n :: nat, l :: u8 list). f n l))"
  by (cases m) (auto simp: okf_def)

lemma oks_bind_found [keeps]:
  "okf P m \<Longrightarrow> (\<And>n l s. P s \<Longrightarrow> oks P (f n l s)) \<Longrightarrow> oks P (Option.bind m (\<lambda>(n, l, s). f n l s))"
  by (cases m) (auto simp: okf_def)

lemma collect_udids_kept [keeps]: "kept s0 s \<Longrightarrow> okf (kept s0) (collect_udids i ks n ids s)"
proof (induction ks arbitrary: n ids s)
  case (Cons k ks)
  show ?case unfolding collect_udids.simps by (rule keeps Cons | assumption)+
qed (simp add: keeps)

lemma arp_kept [keeps]:
  assumes "kept s0 s"
  shows "oks (kept s0) (vSMBusARPPrepareToARP i s)" "oks (kept s0) (vSMBusARPResetDevice i s)"
    "oks (kept s0) (get_udid_directed i s)" "oks (kept s0) (accept_arp i line s)"
    "oks (kept s0) (prepare_or_reset i s)"
  unfolding vSMBusARPPrepareToARP_def vSMBusARPResetDevice_def get_udid_directed_def accept_arp_def
    prepare_or_reset_def
  by (rule keeps assms | assumption | fastforce simp: frame assms dest: lengths)+

lemma assign_address_kept [keeps]: "kept s0 s \<Longrightarrow> oks (kept s0) (assign_address i s)"
  unfolding assign_address_def
  by (rule keeps kept_match | assumption | simp)+

lemma get_udid_kept [keeps]: "kept s0 s \<Longrightarrow> oks (kept s0) (get_udid i s)"
  unfolding get_udid_def by (rule keeps | assumption | fastforce simp: frame)+

lemma arp_command_kept [keeps]: "kept s0 s \<Longrightarrow> oks (kept s0) (arp_command i s)"
  unfolding arp_command_def
  by (rule keeps | assumption | simp only: split: SMBus_Command_Protocol_Type.split, intro conjI impI)+

section \<open>The states of a target\<close>

lemmas smbus_target_states = initial_write_def initial_read_def initial_send_def
  vDefaultSMBusFSMSMBusStateInitial_def host_notify_def begin_fixed_write_def smbus_command_def
  command_byte_def vDefaultSMBusFSMSMBusStateAwaitingCommandByte_def block_size_def
  vDefaultSMBusFSMSMBusStateAwaitingBlockSize_def

lemma target_states_kept [keeps]:
  assumes "kept s0 s"
  shows "oks (kept s0) (vDefaultSMBusFSMSMBusStateInitial i e s)"
    "oks (kept s0) (vDefaultSMBusFSMSMBusStateAwaitingCommandByte i e s)"
    "oks (kept s0) (vDefaultSMBusFSMSMBusStateAwaitingBlockSize i e s)"
  unfolding smbus_target_states
  by (rule keeps assms | assumption
     | simp only: split: SMBus_Command_Protocol_Type.split, intro conjI impI
     | fastforce simp: frame assms)+

lemma match_instances_kept [keeps]: "kept s0 s \<Longrightarrow> okv (kept s0) (match_instances i ks ok s)"
proof (induction ks arbitrary: ok s)
  case (Cons k ks)
  have m: "kept s0 (s\<lparr>ucUDIDMatch := (ucUDIDMatch s)[k := SMBUS_FALSE]\<rparr>)"
    using Cons.prems by (intro kept_match) (simp_all add: kept_def shape_def)
  show ?case unfolding match_instances.simps
    by (rule keeps Cons m | assumption | fastforce simp: frame)+
qed simp

lemma match_found_kept [keeps]: "kept s0 s \<Longrightarrow> okv (kept s0) (ucCheckAtLeastOneMatchFound i s)"
  unfolding ucCheckAtLeastOneMatchFound_def by (rule keeps | assumption)+

lemma assign_byte_kept [keeps]: "kept s0 s \<Longrightarrow> oks (kept s0) (assign_byte i s)"
  unfolding assign_byte_def received_one_def last_received_def
  by (rule keeps | assumption | fastforce simp: frame dest: lengths)+

lemmas smbus_data_states = assign_bytes_def data_received_def target_data_def data_refill_def
  write_i2c_received_def data_read_def data_done_def vDefaultSMBusFSMSMBusStateAwaitingData_def
  read_refill_def vDefaultSMBusFSMSMBusStateAwaitingRead_def send_refill_def
  vDefaultSMBusFSMSMBusStateReadyToSendByte_def send_check_byte_def check_pec_def
  vDefaultSMBusFSMSMBusStateCheckIfPECRequired_def

lemma data_states_kept [keeps]:
  assumes "kept s0 s"
  shows "oks (kept s0) (vDefaultSMBusFSMSMBusStateAwaitingData i e s)"
    "oks (kept s0) (vDefaultSMBusFSMSMBusStateAwaitingRead i e s)"
    "oks (kept s0) (vDefaultSMBusFSMSMBusStateReadyToSendByte i e s)"
    "oks (kept s0) (vDefaultSMBusFSMSMBusStateCheckIfPECRequired i e s)"
  unfolding smbus_data_states
  by (rule keeps assms | assumption | fastforce simp: frame assms)+

lemmas smbus_done_states = done_refill_def deliver_written_def assign_done_def prepare_done_def
  reset_done_def reset_directed_done_def protocol_effect_def target_done_def late_data_def
  controller_done_def vDefaultSMBusFSMSMBusStateAwaitingDone_def

lemma done_state_kept [keeps]:
  assumes "kept s0 s"
  shows "oks (kept s0) (vDefaultSMBusFSMSMBusStateAwaitingDone i e s)"
  unfolding smbus_done_states
  by (rule keeps assms | assumption | fastforce simp: frame assms)+

section \<open>The states of a controller\<close>

lemma write_burst_kept [keeps]: "kept s0 s \<Longrightarrow> oks (kept s0) (write_burst i n s)"
proof (induction n arbitrary: s)
  case (Suc n)
  then show ?case by (auto intro!: keeps Suc.IH simp: frame next_byte_def byte_written_def)
qed simp

lemma assign_burst_kept [keeps]: "kept s0 s \<Longrightarrow> oks (kept s0) (assign_burst i n s)"
proof (induction n arbitrary: s)
  case (Suc n)
  then show ?case by (auto intro!: keeps Suc.IH simp: frame next_byte_def byte_written_def)
qed simp

lemmas smbus_write_states = send_command_then_def send_command_def
  vDefaultSMBusFSMSMBusStateControllerSendCommand_def last_turns_around_def last_notifies_def
  last_with_pec_def last_with_stop_def write_last_def write_data_def write_pec_def write_next_def
  vDefaultSMBusFSMSMBusStateControllerWriteByte_def

lemma write_states_kept [keeps]:
  assumes "kept s0 s"
  shows "oks (kept s0) (vDefaultSMBusFSMSMBusStateControllerSendCommand i e s)"
    "oks (kept s0) (vDefaultSMBusFSMSMBusStateControllerWriteByte i e s)"
  unfolding smbus_write_states
  by (rule keeps assms | assumption)+

lemma read_bursts_kept [keeps]: "kept s0 s \<Longrightarrow> oks (kept s0) (read_burst_pec i n s)"
proof (induction n arbitrary: s)
  case (Suc n)
  then show ?case by (auto intro!: keeps Suc.IH simp: frame)
qed simp

lemma read_burst_stop_kept [keeps]: "kept s0 s \<Longrightarrow> oks (kept s0) (read_burst_stop i n s)"
proof (induction n arbitrary: s)
  case (Suc n)
  then show ?case by (auto intro!: keeps Suc.IH simp: frame Let_def)
qed simp

lemma read_ctlr_rx_kept [keeps]: "kept s0 s \<Longrightarrow> oks (kept s0) (read_ctlr_rx i s)"
proof -
  have "\<forall>i s. kept s0 s \<longrightarrow> oks (kept s0) (read_ctlr_rx i s)"
  proof (induction rule: read_ctlr_rx.fixp_induct[OF loop2_admissible])
    case (2 f)
    then have f: "\<And>i s. kept s0 s \<Longrightarrow> oks (kept s0) (f i s)" by simp
    show ?case
      by (intro allI impI) (rule keeps f | assumption | fastforce simp: frame dest: lengths)+
  qed simp
  then show "kept s0 s \<Longrightarrow> oks (kept s0) (read_ctlr_rx i s)" by simp
qed

lemmas smbus_read_states = read_descriptors_def none_sent_def await_part_def start_i2c_read_def
  start_block_read_def start_fixed_read_def start_read_def read_size_def log_debug_registers_def
  read_burst_def read_refills_def read_data_def done_data_def done_descriptors_def read_done_def
  vDefaultSMBusFSMSMBusStateControllerSendReadStart_def
  vDefaultSMBusFSMSMBusStateControllerReadBlockSize_def vDefaultSMBusFSMSMBusStateControllerReadByte_def
  vDefaultSMBusFSMSMBusStateControllerReadPEC_def vDefaultSMBusFSMSMBusStateControllerReadDone_def

lemma read_states_kept [keeps]:
  assumes "kept s0 s"
  shows "oks (kept s0) (vDefaultSMBusFSMSMBusStateControllerSendReadStart i e s)"
    "oks (kept s0) (vDefaultSMBusFSMSMBusStateControllerReadBlockSize i e s)"
    "oks (kept s0) (vDefaultSMBusFSMSMBusStateControllerReadByte i e s)"
    "oks (kept s0) (vDefaultSMBusFSMSMBusStateControllerReadPEC i e s)"
    "oks (kept s0) (vDefaultSMBusFSMSMBusStateControllerReadDone i e s)"
  unfolding smbus_read_states
  by (rule keeps assms | assumption | fastforce simp: frame assms)+

section \<open>The machine, the queue and the interrupt handler\<close>

lemma state_handler_kept [keeps]: "kept s0 s \<Longrightarrow> oks (kept s0) (state_handler st i e s)"
  by (cases st) (simp_all add: state_handler_def keeps)

lemma machine_kept [keeps]: "kept s0 s \<Longrightarrow> oks (kept s0) (vSMBusFSM i e s)"
  unfolding vSMBusFSM_def by (rule keeps | assumption | fastforce simp: frame)+

lemma next_event_kept [keeps]:
  assumes "kept s0 s"
  shows "okv (kept s0) (next_event i s)"
  unfolding okv_def
proof (intro allI impI)
  fix e s' assume "next_event i s = Some (e, s')"
  then obtain rc b e' pos where r: "ucEventBufferTryRead (Some (xEventSourceCircularBuffer (inst s i))) (Some 0) (Some 0)
      = Some (rc, Some b, Some e', pos)" and s': "s' = upd i (\<lambda>x. x\<lparr>xEventSourceCircularBuffer := b\<rparr>) s"
    by (auto simp: next_event_def split: option.splits prod.splits)
  have "evb_ok b" if "evb_ok (xEventSourceCircularBuffer (inst s i))"
    using evb_deq_law[of "xEventSourceCircularBuffer (inst s i)"] that r
    by (auto simp: evb_deq_def evb_ok_def bind_eq_Some_conv)
  then show "kept s0 s'"
    unfolding s' using assms by (intro kept_upd) (auto simp: frame)
qed

lemma handle_events_kept [keeps]: "kept s0 s \<Longrightarrow> oks (kept s0) (handle_events i s)"
proof -
  have "\<forall>i s. kept s0 s \<longrightarrow> oks (kept s0) (handle_events i s)"
    by (induction rule: handle_events.fixp_induct[OF loop2_admissible])
      (auto intro!: keeps split: option.split)
  then show "kept s0 s \<Longrightarrow> oks (kept s0) (handle_events i s)" by simp
qed

lemma queue_kept [keeps]: "kept s0 s \<Longrightarrow> oks (kept s0) (vSMBusEventQueueHandle s)"
  unfolding vSMBusEventQueueHandle_def by (rule keeps | assumption)+

lemma sources_kept [keeps]:
  assumes "kept s0 s" "\<And>x. x \<in> set xs \<Longrightarrow> event_frame (snd x)"
  shows "oks (kept s0) (for_each (raise_flagged vector i) xs s)"
  using assms
proof (induction xs arbitrary: s)
  case (Cons x xs)
  have x: "event_frame (snd x)" and IH: "\<And>s. kept s0 s \<Longrightarrow> oks (kept s0) (for_each (raise_flagged vector i) xs s)"
    using Cons.IH Cons.prems(2) by auto
  show ?case unfolding for_each.simps raise_flagged_def[of vector i x]
    by (rule keeps Cons.prems(1) x IH | assumption)+
qed simp

lemmas smbus_sources = target_error_sources_def target_sources_def controller_error_sources_def
  controller_sources_def

lemma source_frames [keeps]:
  "x \<in> set target_error_sources \<Longrightarrow> event_frame (snd x)" "y \<in> set target_sources \<Longrightarrow> event_frame (snd y)"
  "z \<in> set controller_error_sources \<Longrightarrow> event_frame (snd z)" "v \<in> set controller_sources \<Longrightarrow> event_frame (snd v)"
  by (auto simp: smbus_sources generators_framed)

lemma okf_readers [keeps]:
  assumes "okv P m" "\<And>v s. P s \<Longrightarrow> okf P (f v s)"
  shows "okf P (Option.bind m (\<lambda>(v, s). f v s))"
  using assms by (cases m) (auto simp: okf_def)

lemma okf_let [keeps]: "(\<And>x. x = a \<Longrightarrow> okf P (f x)) \<Longrightarrow> okf P (let x = a in f x)"
  by simp

lemma interrupt_steps_kept [keeps]:
  assumes "kept s0 s"
  shows "okv (kept s0) (ucSMBusDetermineInstanceFromTargetAddress s)" "oks (kept s0) (prvvSMBusClearInterrupts m n s)"
    "oks (kept s0) (reenable_errors s)" "oks (kept s0) (mask_error m n k s)"
    "oks (kept s0) (vSMBusHWWriteIRQGIEEnable v s)" "oks (kept s0) (vSMBusHWWriteIRQIER v s)"
    "okv (kept s0) (ulSMBusHWReadIRQISR s)" "okv (kept s0) (ulSMBusHWReadIRQIER s)"
    "okv (kept s0) (ulSMBusHWReadErrIRQISR s)" "okv (kept s0) (ulSMBusHWReadErrIRQIER s)"
  unfolding ucSMBusDetermineInstanceFromTargetAddress_def prvvSMBusClearInterrupts_def reenable_errors_def
    mask_error_def smbus_readers smbus_writers
  by (rule keeps assms | assumption)+

lemma error_vector_kept [keeps]: "kept s0 s \<Longrightarrow> okf (kept s0) (error_vector v s)"
  unfolding error_vector_def by (rule keeps | assumption)+

lemma interrupts_kept [keeps]:
  assumes "kept s0 s"
  shows "okv (kept s0) (target_interrupts v e s)" "okv (kept s0) (controller_interrupts v e s)"
  unfolding target_interrupts_def controller_interrupts_def
  by (rule keeps assms | assumption | simp add: assms)+

text \<open>Sequencing into a result of another type.\<close>

lemma oks_then:
  "oks P m \<Longrightarrow> (\<And>s. P s \<Longrightarrow> oks Q (f s)) \<Longrightarrow> oks Q (Option.bind m f)"
  "okv P n \<Longrightarrow> (\<And>v s. P s \<Longrightarrow> oks Q (g v s)) \<Longrightarrow> oks Q (Option.bind n (\<lambda>(v, s). g v s))"
  "okf P t \<Longrightarrow> (\<And>v l s. P s \<Longrightarrow> oks Q (h v l s)) \<Longrightarrow> oks Q (Option.bind t (\<lambda>(v, l, s). h v l s))"
  by (auto simp: oks_def okv_def okf_def bind_eq_Some_conv)

lemma handler_kept:
  assumes "kept s0 s"
  shows "oks (\<lambda>p. \<exists>s'. p = Some s' \<and> kept s0 s') (vSMBusInterruptHandler (Some s))"
  unfolding vSMBusInterruptHandler_def option.case
  by (rule oks_then[where P = "kept s0"] oks_let_data keeps assms | assumption | simp)+

end
