(* ===== verification/SmbusRecovery.thy ===== *)
theory SmbusRecovery
  imports SmbusFrameFsm
begin

text \<open>
  Recovery from bus errors. When the receive FIFOs of the device can be emptied, every error
  event ends the transaction of the instance: the state machine returns, the instance is in its
  initial state with no transaction, and the bus is released. The judgements \<open>runs\<close> and
  \<open>runv\<close> say that a computation returns, and in a state with the property.
\<close>

section \<open>Steps that change only the log and the world\<close>

named_theorems returns

definition runs :: "('s \<Rightarrow> bool) \<Rightarrow> 's option \<Rightarrow> bool" where
  "runs P m \<longleftrightarrow> (\<exists>s. m = Some s \<and> P s)"

definition runv :: "('s \<Rightarrow> bool) \<Rightarrow> ('v \<times> 's) option \<Rightarrow> bool" where
  "runv P m \<longleftrightarrow> (\<exists>v s. m = Some (v, s) \<and> P s)"

lemma runs_some [returns]: "P s \<Longrightarrow> runs P (Some s)"
  by (simp add: runs_def)

lemma runv_some [returns]: "P s \<Longrightarrow> runv P (Some (v, s))"
  by (simp add: runv_def)

lemma runs_bind:
  "runs P m \<Longrightarrow> (\<And>s. P s \<Longrightarrow> runs Q (f s)) \<Longrightarrow> runs Q (Option.bind m f)"
  "runv P n \<Longrightarrow> (\<And>v s. P s \<Longrightarrow> runs Q (g v s)) \<Longrightarrow> runs Q (Option.bind n (\<lambda>(v, s). g v s))"
  "runv P n \<Longrightarrow> (\<And>v s. P s \<Longrightarrow> runv Q (h v s)) \<Longrightarrow> runv Q (Option.bind n (\<lambda>(v, s). h v s))"
  by (fastforce simp: runs_def runv_def)+

definition quiet :: "'w smbus \<Rightarrow> 'w smbus \<Rightarrow> bool" where
  "quiet s0 s \<longleftrightarrow> kept s0 s \<and> xSMBusInstance s = xSMBusInstance s0 \<and> ucInstanceInPlay s = ucInstanceInPlay s0
     \<and> ucActiveTargetInstance s = ucActiveTargetInstance s0 \<and> ucUDIDMatch s = ucUDIDMatch s0"

lemma quiet_refl: "shape s \<Longrightarrow> quiet s s"
  by (simp add: quiet_def kept_refl)

lemma quiet_shape: "quiet s0 s \<Longrightarrow> shape s"
  by (simp add: quiet_def kept_def)

lemma quiet_world [simp]: "quiet s0 (s\<lparr>world := w\<rparr>) = quiet s0 s"
  by (simp add: quiet_def)

lemma quiet_trans: "quiet s0 s1 \<Longrightarrow> quiet s1 s2 \<Longrightarrow> quiet s0 s2"
  by (auto simp: quiet_def dest: kept_trans)

lemma add_log_world:
  assumes "shape s"
  shows "\<exists>s'. add_log level n ev e1 e2 s = Some s' \<and> quiet s s' \<and> world s' \<in> {world s, snd (read_ticks s (world s))}"
proof -
  have "unat (logWrite (xLogCircularBuffer s)) < length (xCircularBuffer s)"
    using assms by (simp add: shape_def log_shape_def)
  then have "\<exists>s'. add_log level n ev e1 e2 s = Some s' \<and> xSMBusInstance s' = xSMBusInstance s
      \<and> ucInstanceInPlay s' = ucInstanceInPlay s \<and> ucActiveTargetInstance s' = ucActiveTargetInstance s
      \<and> ucUDIDMatch s' = ucUDIDMatch s \<and> world s' \<in> {world s, snd (read_ticks s (world s))}"
    by (cases "read_ticks s (world s)"; cases "log_level_value level \<le> log_level_value (xLogLevel s)")
      (simp_all add: add_log_def vLogAddEntry_def Let_def)
  then obtain s' where s': "add_log level n ev e1 e2 s = Some s'"
      "xSMBusInstance s' = xSMBusInstance s" "ucInstanceInPlay s' = ucInstanceInPlay s"
      "ucActiveTargetInstance s' = ucActiveTargetInstance s" "ucUDIDMatch s' = ucUDIDMatch s"
      "world s' \<in> {world s, snd (read_ticks s (world s))}" by blast
  moreover have "kept s s'" using add_log_kept[OF kept_refl[OF assms]] s'(1) by (simp add: oks_def)
  ultimately show ?thesis by (auto simp: quiet_def)
qed

lemma add_log_returns [returns]: "quiet s0 s \<Longrightarrow> runs (quiet s0) (add_log level n ev e1 e2 s)"
  using add_log_world[OF quiet_shape, of s0 s level n ev e1 e2] by (auto simp: runs_def intro: quiet_trans)

lemma log_debug_returns [returns]: "quiet s0 s \<Longrightarrow> runs (quiet s0) (log_debug i e1 line s)"
  unfolding log_debug_def by (rule returns)

lemma read_world:
  assumes "shape s"
  shows "\<exists>s' v w. prvulSMBusHardwareRead off s = Some (v, s') \<and> quiet s s'
     \<and> in32 s (register_address off s) (world s) = (v, w) \<and> world s' \<in> {w, snd (read_ticks s w)}"
proof -
  obtain v w where i: "in32 s (register_address off s) (world s) = (v, w)" by (cases "in32 s (register_address off s) (world s)")
  have "shape (s\<lparr>world := w\<rparr>)" using assms by (simp add: shape_def log_shape_def)
  from add_log_world[OF this, of SMBUS_LOG_LEVEL_DEBUG SMBUS_INSTANCE_UNDETERMINED SMBUS_LOG_EVENT_HW_READ off v]
  show ?thesis
    using i by (auto simp: prvulSMBusHardwareRead_def prvulSMBusIn32_def read_ticks_def quiet_def kept_def settings_def)
qed

lemma read_returns [returns]: "quiet s0 s \<Longrightarrow> runv (quiet s0) (prvulSMBusHardwareRead off s)"
  using read_world[OF quiet_shape, of s0 s off] by (auto simp: runv_def intro: quiet_trans)

lemma write_returns [returns]: "quiet s0 s \<Longrightarrow> runs (quiet s0) (prvvSMBusHardwareWrite off v s)"
  unfolding prvvSMBusHardwareWrite_def prvvSMBusOut32_def
  by (rule runs_bind(1)[where P = "quiet s0"] returns | assumption | simp)+

section \<open>A device whose receive FIFOs can be emptied\<close>

text \<open>
  \<open>level\<close> counts what a FIFO holds: a status that does not say empty means that something is
  left, reading the payload takes something away, and neither the status nor the clock adds.
\<close>

definition empties :: "('w \<Rightarrow> nat) \<Rightarrow> u32 \<Rightarrow> u32 \<Rightarrow> 'w smbus \<Rightarrow> bool" where
  "empties level status payload s \<longleftrightarrow>
     (\<forall>w v w'. in32 s (register_address status s) w = (v, w') \<longrightarrow> level w' \<le> level w \<and> (v AND 1 = 0 \<longrightarrow> 0 < level w'))
     \<and> (\<forall>w v w'. in32 s (register_address payload s) w = (v, w') \<longrightarrow> level w' \<le> level w - 1)
     \<and> (\<forall>w. level (snd (read_ticks s w)) \<le> level w)"

definition receive_fifos_empty :: "'w smbus \<Rightarrow> bool" where
  "receive_fifos_empty s \<longleftrightarrow>
     (\<exists>level. empties level SMBUS_REG_CTLR_RX_FIFO_STATUS SMBUS_REG_CTLR_RX_FIFO s)
     \<and> (\<exists>level. empties level SMBUS_REG_TGT_RX_FIFO_STATUS SMBUS_REG_TGT_RX_FIFO s)"

lemma empties_kept: "kept s0 s \<Longrightarrow> empties level st pl s = empties level st pl s0"
  by (simp add: kept_def settings_def empties_def register_address_def read_ticks_def)

lemma receive_fifos_kept: "kept s0 s \<Longrightarrow> receive_fifos_empty s = receive_fifos_empty s0"
  by (simp add: receive_fifos_empty_def empties_kept)

lemma drain_returns:
  assumes loop: "\<And>s. loop s = do {
      (v, s) \<leftarrow> prvulSMBusHardwareRead status s;
      (if v AND 1 = 0 then do { (_, s) \<leftarrow> prvulSMBusHardwareRead payload s; loop s } else Some s) }"
    and "quiet s0 s" "empties level status payload s0"
  shows "runs (quiet s0) (loop s)"
  using assms(2)
proof (induction "level (world s)" arbitrary: s rule: less_induct)
  case less
  have e: "empties level status payload r" if "quiet s0 r" for r
    using that assms(3) empties_kept[of s0 r] by (simp add: quiet_def)
  obtain v s1 w where s1: "prvulSMBusHardwareRead status s = Some (v, s1)" "quiet s s1"
      "in32 s (register_address status s) (world s) = (v, w)" "world s1 \<in> {w, snd (read_ticks s w)}"
    using read_world[OF quiet_shape[OF less.prems], of status] by blast
  have q1: "quiet s0 s1" using quiet_trans[OF less.prems s1(2)] .
  have l1: "level (world s1) \<le> level w" "level w \<le> level (world s)" "v AND 1 = 0 \<longrightarrow> 0 < level w"
    using e[OF less.prems] s1(3,4) by (auto simp: empties_def)
  obtain v' s2 w' where s2: "prvulSMBusHardwareRead payload s1 = Some (v', s2)" "quiet s1 s2"
      "in32 s1 (register_address payload s1) (world s1) = (v', w')" "world s2 \<in> {w', snd (read_ticks s1 w')}"
    using read_world[OF quiet_shape[OF q1], of payload] by blast
  have l2: "level (world s2) \<le> level w'" "level w' \<le> level (world s1) - 1"
    using e[OF q1] s2(3,4) by (auto simp: empties_def)
  have "runs (quiet s0) (loop s2)" if "v AND 1 = 0"
    using l1 l2 that by (intro less.hyps quiet_trans[OF q1 s2(2)]) simp
  then show ?case using q1 by (simp add: loop[of s] s1(1) s2(1) runs_some)
qed

text \<open>Both loops have that form; what a field of a register leaves out does not matter.\<close>

lemma drop_value:
  "ulSMBusHWReadCtrlRxFifoPayload s \<bind> (\<lambda>(_, s). f s) = prvulSMBusHardwareRead SMBUS_REG_CTLR_RX_FIFO s \<bind> (\<lambda>(_, s). f s)"
  "ulSMBusHWReadTgtRxFifoPayload s \<bind> (\<lambda>(_, s). f s) = prvulSMBusHardwareRead SMBUS_REG_TGT_RX_FIFO s \<bind> (\<lambda>(_, s). f s)"
  "ulSMBusHWReadCtrlRxFifoStatusEmpty s \<bind> (\<lambda>(v, s). g v s)
     = prvulSMBusHardwareRead SMBUS_REG_CTLR_RX_FIFO_STATUS s \<bind> (\<lambda>(v, s). g (v AND 1) s)"
  "ulSMBusHWReadTgtRxFifoStatusEmpty s \<bind> (\<lambda>(v, s). g v s)
     = prvulSMBusHardwareRead SMBUS_REG_TGT_RX_FIFO_STATUS s \<bind> (\<lambda>(v, s). g (v AND 1) s)"
  by (simp_all add: ulSMBusHWReadCtrlRxFifoPayload_def ulSMBusHWReadTgtRxFifoPayload_def
    ulSMBusHWReadCtrlRxFifoStatusEmpty_def ulSMBusHWReadTgtRxFifoStatusEmpty_def
    SMBUS_CTLR_RX_FIFO_STATUS_EMPTY_MASK_def SMBUS_TGT_RX_FIFO_STATUS_EMPTY_MASK_def split_def)

lemmas drain_loops = drain_ctlr_rx.simps[unfolded drop_value] drain_tgt_rx.simps[unfolded drop_value]

lemma drains_return:
  assumes "quiet s0 s" "receive_fifos_empty s0"
  shows "runs (quiet s0) (drain_ctlr_rx s)" "runs (quiet s0) (drain_tgt_rx s)"
proof -
  obtain l m where "empties l SMBUS_REG_CTLR_RX_FIFO_STATUS SMBUS_REG_CTLR_RX_FIFO s0"
    "empties m SMBUS_REG_TGT_RX_FIFO_STATUS SMBUS_REG_TGT_RX_FIFO s0"
    using assms(2) by (auto simp: receive_fifos_empty_def)
  then show "runs (quiet s0) (drain_ctlr_rx s)" "runs (quiet s0) (drain_tgt_rx s)"
    using drain_returns[OF drain_loops(1) assms(1)] drain_returns[OF drain_loops(2) assms(1)] by blast+
qed

section \<open>The end of a transaction\<close>

lemma quiet_upd:
  assumes "quiet s0 s" "inst_shape (inst s0 i) \<Longrightarrow> inst_shape (f (inst s0 i))"
  shows "quiet (upd i f s0) (upd i f s)"
proof -
  have s: "xSMBusInstance s = xSMBusInstance s0" "shape s" "settings s = settings s0"
    using assms(1) by (auto simp: quiet_def kept_def)
  have "\<forall>x \<in> set ((xSMBusInstance s0)[i := f (inst s0 i)]). inst_shape x"
  proof (cases "i < length (xSMBusInstance s0)")
    case True
    then have "inst_shape (f (inst s0 i))" using s assms(2) by (simp add: shape_def)
    then show ?thesis using s set_update_subset_insert[of "xSMBusInstance s0" i] by (auto simp: shape_def)
  qed (use s in \<open>simp add: list_update_beyond shape_def\<close>)
  then have "shape (upd i f s)" using s(1,2) by (simp add: shape_def upd_def log_shape_def)
  then show ?thesis
    using assms(1) s by (simp add: quiet_def kept_def upd_def settings_def)
qed

lemma quiet_play: "quiet s0 s \<Longrightarrow> quiet (s0\<lparr>ucInstanceInPlay := k\<rparr>) (s\<lparr>ucInstanceInPlay := k\<rparr>)"
  "quiet s0 s \<Longrightarrow> quiet (s0\<lparr>ucActiveTargetInstance := k\<rparr>) (s\<lparr>ucActiveTargetInstance := k\<rparr>)"
  by (auto simp: quiet_def kept_def settings_def shape_def log_shape_def)

lemma calls_quiet [returns]:
  assumes "quiet s0 s"
  shows "quiet s0 (vSMBusHandleActionAnnounceResultToApplication i t st s)" "quiet s0 (vSMBusHandleActionBusError i e s)"
  using assms by (simp_all add: vSMBusHandleActionAnnounceResultToApplication_def vSMBusHandleActionBusError_def
    split: option.split)

text \<open>The bus is given up by the controller or by the target, whichever the instance was.\<close>

definition bus_released :: "nat \<Rightarrow> 'w smbus \<Rightarrow> 'w smbus" where
  "bus_released i s =
     (if ucThisInstanceNumber (inst s i) = ucInstanceInPlay s then s\<lparr>ucInstanceInPlay := SMBUS_INVALID_INSTANCE\<rparr>
      else s\<lparr>ucActiveTargetInstance := SMBUS_INVALID_INSTANCE\<rparr>)"

definition ended :: "nat \<Rightarrow> 'w smbus \<Rightarrow> 'w smbus" where
  "ended i s = vSMBusNextStateDecoder i SMBUS_STATE_INITIAL (bus_released i (upd i reset_transaction s))"

lemma reset_shape: "inst_shape x \<Longrightarrow> inst_shape (reset_transaction x)"
  by (simp add: inst_shape_def reset_transaction_def)

lemma fifo_reset_returns [returns]:
  assumes "quiet s0 s"
  shows "runs (quiet s0) (vSMBusHWWriteCtrlRxFifoReset v s)" "runs (quiet s0) (vSMBusHWWriteCtrlDescFifoReset v s)"
    "runs (quiet s0) (vSMBusHWWriteTgtRxFifoReset v s)"
  unfolding smbus_writers by (rule returns assms)+

lemma reset_returns:
  assumes "quiet s0 s" "receive_fifos_empty s0"
  shows "runs (quiet (bus_released i (upd i reset_transaction s0))) (vSMBusHandleActionResetAllData i s)"
proof -
  let ?u = "upd i reset_transaction"
  have "quiet (?u s0) (?u s)" by (rule quiet_upd[OF assms(1) reset_shape])
  then obtain s1 where s1: "log_debug i (ucast (ucThisInstanceNumber (inst (?u s) i))) 74 (?u s) = Some s1" "quiet (?u s0) s1"
    using log_debug_returns[of "?u s0" "?u s" i] by (auto simp: runs_def)
  have eq: "ucThisInstanceNumber (inst s1 i) = ucThisInstanceNumber (inst (?u s0) i)"
    "ucInstanceInPlay s1 = ucInstanceInPlay (?u s0)"
    using s1(2) by (auto simp: quiet_def)
  have d: "receive_fifos_empty (?u s0)" "receive_fifos_empty ((?u s0)\<lparr>ucInstanceInPlay := k\<rparr>)"
    "receive_fifos_empty ((?u s0)\<lparr>ucActiveTargetInstance := k\<rparr>)" for k
    using assms(2) by (simp_all add: receive_fifos_empty_def empties_def register_address_def read_ticks_def upd_def)
  show ?thesis
    unfolding vSMBusHandleActionResetAllData_def Let_def
    by (simp add: s1(1) bus_released_def eq)
      (auto intro!: runs_bind(1)[OF drains_return(1)] runs_bind(1)[OF drains_return(2)] d quiet_play s1(2)
        fifo_reset_returns runs_bind(1)[OF fifo_reset_returns(1)])
qed

lemma to_initial_returns:
  assumes "quiet s0 s" "receive_fifos_empty s0"
  shows "runs (quiet (ended i s0)) (to_initial i s)"
  unfolding to_initial_def ended_def vSMBusNextStateDecoder_def
  by (rule runs_bind(1)[OF reset_returns[OF assms]], rule runs_some, rule quiet_upd)
    (simp_all add: inst_shape_def)

section \<open>Error events\<close>

definition bus_error_events :: "u8 list" where
  "bus_error_events = target_error_events @ controller_error_events"

lemma errors_are_no_timeouts:
  "e \<in> set bus_error_events \<Longrightarrow> e \<notin> set timeout_events"
  "e \<in> set bus_error_events \<Longrightarrow> e \<noteq> E_CONTROLLER_DESC_FIFO_ALMOST_EMPTY_IRQ"
  "e \<in> set bus_error_events \<Longrightarrow> e \<noteq> E_DESC_FIFO_ALMOST_EMPTY_IRQ"
  by (auto simp: bus_error_events_def smbus_bus_events smbus_event_codes)

lemma error_handlers_return:
  assumes "quiet s0 s" "receive_fifos_empty s0"
  shows "runs (quiet (ended i s0)) (target_error i e s)" "runs (quiet (ended i s0)) (controller_error i e s)"
  unfolding target_error_def controller_error_def announce_def
  by (rule to_initial_returns[OF _ assms(2)] calls_quiet assms)+

lemma on_bus_error_returns:
  assumes "e \<in> set bus_error_events" "quiet s0 s" "receive_fifos_empty s0"
  shows "runs (quiet (ended i s0)) (on_bus_event i e other s)"
  using assms errors_are_no_timeouts[OF assms(1)] error_handlers_return[OF assms(2,3), of i e]
  by (auto simp: on_bus_event_def bus_error_events_def)

lemma debug_registers_return [returns]: "quiet s0 s \<Longrightarrow> runs (quiet s0) (log_debug_registers i l1 l2 s)"
  unfolding log_debug_registers_def ulSMBusHWReadPHYCtrlDbgState_def ulSMBusHWReadCtrlDbgState_def
  by (rule runs_bind[where P = "quiet s0"] returns | assumption)+

lemma error_state_returns:
  assumes "e \<in> set bus_error_events" "quiet s0 s" "receive_fifos_empty s0"
  shows "runs (quiet (ended i s0)) (state_handler st i e s)"
proof -
  note no = errors_are_no_timeouts[OF assms(1)]
  have "runs (quiet (ended i s0)) (vDefaultSMBusFSMSMBusStateAwaitingDone i e s)"
    using assms(1) no error_handlers_return(2)[OF assms(2,3)]
    by (simp add: vDefaultSMBusFSMSMBusStateAwaitingDone_def bus_error_events_def)
  moreover have "runs (quiet (ended i s0)) (vDefaultSMBusFSMSMBusStateControllerReadBlockSize i e s)"
    using assms(1) no error_handlers_return(1)[OF assms(2,3), of i e]
    unfolding vDefaultSMBusFSMSMBusStateControllerReadBlockSize_def bus_error_events_def
    by (auto intro!: runs_bind(1)[where P = "quiet s0", OF debug_registers_return[OF assms(2)]]
      runs_bind(1)[where P = "quiet (ended i s0)", OF error_handlers_return(2)[OF _ assms(3)]] debug_registers_return)
  ultimately show ?thesis
    using on_bus_error_returns[OF assms]
    by (cases st) (simp_all add: state_handler_def
      vDefaultSMBusFSMSMBusStateInitial_def vDefaultSMBusFSMSMBusStateAwaitingCommandByte_def
      vDefaultSMBusFSMSMBusStateAwaitingBlockSize_def vDefaultSMBusFSMSMBusStateAwaitingData_def
      vDefaultSMBusFSMSMBusStateAwaitingRead_def vDefaultSMBusFSMSMBusStateReadyToSendByte_def
      vDefaultSMBusFSMSMBusStateCheckIfPECRequired_def vDefaultSMBusFSMSMBusStateControllerSendCommand_def
      vDefaultSMBusFSMSMBusStateControllerWriteByte_def vDefaultSMBusFSMSMBusStateControllerSendReadStart_def
      vDefaultSMBusFSMSMBusStateControllerReadByte_def vDefaultSMBusFSMSMBusStateControllerReadPEC_def
      vDefaultSMBusFSMSMBusStateControllerReadDone_def)
qed

definition noted :: "nat \<Rightarrow> u8 \<Rightarrow> 'w smbus \<Rightarrow> 'w smbus" where
  "noted i e s = upd i (\<lambda>x. x\<lparr>ulAction := 0, ucEvent := e\<rparr>) s"

lemma machine_error_returns:
  assumes "e \<in> set bus_error_events" "shape s" "receive_fifos_empty s"
  shows "runs (quiet (ended i (noted i e s))) (vSMBusFSM i e s)"
proof -
  have n: "upd i (\<lambda>x. x\<lparr>ucEvent := e\<rparr>) (vSMBusClearAction i s) = noted i e s"
    by (cases "i < length (xSMBusInstance s)")
      (simp_all add: vSMBusClearAction_def noted_def upd_def list_update_beyond)
  have "shape (noted i e s)"
    using quiet_upd[OF quiet_refl[OF assms(2)], of i "\<lambda>x. x\<lparr>ulAction := 0, ucEvent := e\<rparr>"]
    by (auto simp: noted_def inst_shape_def intro: quiet_shape)
  then have q: "quiet (noted i e s) (noted i e s)" by (rule quiet_refl)
  have d: "receive_fifos_empty (noted i e s)"
    using assms(3) by (simp add: receive_fifos_empty_def empties_def register_address_def read_ticks_def upd_def noted_def)
  show ?thesis
    unfolding vSMBusFSM_def Let_def n
    by (rule runs_bind(1)[where P = "quiet (noted i e s)", OF add_log_returns[OF q]]
      runs_bind(1)[where P = "quiet (noted i e s)", OF log_debug_returns]
      error_state_returns[OF assms(1) _ d] | assumption)+
qed

end
