(* ===== verification/SmbusReach.thy ===== *)
theory SmbusReach
  imports SmbusRecovery
begin

text \<open>
  The driver from its static profile on: initialisation establishes the typing of the state,
  and every function of the interface and every interrupt that runs without undefined
  behaviour keeps it, together with the firewalls and the numbers of the instances in use. A
  step that writes outside an array is undefined (None) and leads to no state: nothing is
  claimed after one.
\<close>

section \<open>The static profile\<close>

definition zero_event_buffer :: SMBUS_EVENT_BUFFER_TYPE where
  "zero_event_buffer = \<lparr>ulMaxElements = 0, ulWrite = 0, ulRead = 0, pxEventBuffer = None\<rparr>"

definition zero_instance :: "'w SMBUS_INSTANCE" where
  "zero_instance = \<lparr>ucThisInstanceNumber = 0, ucTriggerFSM = 0, xEventSourceCircularBuffer = zero_event_buffer,
     pFnGetProtocol = None, pFnGetData = None, pFnWriteData = None, pFnAnnounceResult = None,
     pFnArpAddressChange = None, pFnBusError = None, pFnBusWarning = None, pFnI2CGetData = None,
     pFnI2CWriteData = None, pFnI2CAnnounceResult = None,
     ulI2CTransaction = 0, ulAction = 0, usSendDataSize = 0, usSendIndex = 0, usReceiveIndex = 0,
     usDescriptorsSent = 0, ucSendData = replicate SMBUS_DATA_SIZE_MAX 0,
     ucReceivedData = replicate SMBUS_DATA_SIZE_MAX 0, ucEvent = 0, ucCommand = 0, ucExpectedByteCountPart = 0,
     usExpectedByteCount = 0, ucSMBusDestinationAddress = 0, ucSMBusSenderAddress = 0,
     ucPecRequiredForTransaction = 0, ucNewDeviceSlaveAddress = 0, ucUDIDMatchedInstance = 0,
     ucMatchedSMBusAddress = 0, ucNackSent = 0, ucPECSent = 0, ucFifoEmptyWhileInDoneCount = 0,
     ulFirewall1 = 0, ulFirewall2 = 0, ulFirewall3 = 0, ulI2CDevice = 0,
     ulMessagesComplete = replicate counter_length 0, ulMessagesInitiated = replicate counter_length 0,
     ucUDID = replicate SMBUS_UDID_LENGTH 0, ucInstanceInUse = 0, ucSMBusAddress = 0, ucPECRequired = 0,
     ucSimpleDevice = 0, ucARFlag = 0, ucAVFlag = 0, xPreviousState = SMBUS_STATE_INITIAL,
     xState = SMBUS_STATE_INITIAL, xProtocol = SMBUS_PROTOCOL_QUICK_COMMAND_LO,
     xARPCapability = SMBUS_ARP_CAPABILITY_UNKNOWN\<rparr>"

text \<open>The profile before the driver ran, on a given device in a given world.\<close>

definition xSMBusProfile :: "(u64 \<Rightarrow> 'w \<Rightarrow> u32 \<times> 'w) \<Rightarrow> (u64 \<Rightarrow> u32 \<Rightarrow> 'w \<Rightarrow> 'w) \<Rightarrow> 'w \<Rightarrow> 'w smbus" where
  "xSMBusProfile inp out w = \<lparr>pFnReadTicks = None, xLogCircularBuffer = \<lparr>logWrite = 0, logRead = 0\<rparr>,
     xCircularBuffer = replicate SMBUS_MAX_CIRCULAR_LOG_ENTRIES
       \<lparr>ulIsOccupied = 0, ulTicks = 0, ulEntry1 = 0, ulInstance = 0, ulEntry2 = 0, xEvent = None\<rparr>,
     xLogLevel = SMBUS_LOG_LEVEL_NONE, pvBaseAddress = 0, ulTransactionID = 0, ulInitialize = 0,
     xSMBusInstance = replicate SMBUS_NUMBER_OF_SMBUS_INSTANCES zero_instance,
     ucInstanceInPlay = SMBUS_INVALID_INSTANCE, ucActiveTargetInstance = SMBUS_INVALID_INSTANCE,
     ucUDIDMatch = replicate SMBUS_NUMBER_OF_SMBUS_NON_ARP_INSTANCES 0, in32 = inp, out32 = out, world = w\<rparr>"

section \<open>Before the instances are initialised\<close>

definition inst_raw :: "'w SMBUS_INSTANCE \<Rightarrow> bool" where
  "inst_raw x \<longleftrightarrow> length (ucSendData x) = SMBUS_DATA_SIZE_MAX
     \<and> length (ucReceivedData x) = SMBUS_DATA_SIZE_MAX \<and> length (ucUDID x) = SMBUS_UDID_LENGTH
     \<and> length (ulMessagesComplete x) = counter_length \<and> length (ulMessagesInitiated x) = counter_length
     \<and> length (event_cells x) = unat SMBUS_MAX_EVENT_ELEMENTS"

definition raw :: "'w smbus \<Rightarrow> bool" where
  "raw s \<longleftrightarrow> length (xSMBusInstance s) = SMBUS_NUMBER_OF_SMBUS_INSTANCES
     \<and> (\<forall>x \<in> set (xSMBusInstance s). inst_raw x)
     \<and> length (ucUDIDMatch s) = SMBUS_NUMBER_OF_SMBUS_NON_ARP_INSTANCES \<and> log_shape s"

lemma raw_profile: "raw (xSMBusProfile inp out w)"
  by (simp add: raw_def xSMBusProfile_def inst_raw_def zero_instance_def event_cells_def zero_event_buffer_def
    log_shape_def SMBUS_MAX_CIRCULAR_LOG_ENTRIES_def)

lemma add_log_raw [keeps]:
  assumes "raw s"
  shows "oks raw (add_log level n ev e1 e2 s)"
  using assms log_next_small[of "logWrite (xLogCircularBuffer s)"]
  by (auto simp: oks_def raw_def add_log_def vLogAddEntry_def log_shape_def Let_def split: prod.splits if_splits)

lemma access_raw [keeps]:
  assumes "raw s"
  shows "okv raw (prvulSMBusHardwareRead off s)" "oks raw (prvvSMBusHardwareWrite off v s)"
proof -
  have w: "raw (s\<lparr>world := w\<rparr>)" if "raw s" for s :: "'a smbus" and w
    using that by (simp add: raw_def log_shape_def)
  show "okv raw (prvulSMBusHardwareRead off s)"
    unfolding prvulSMBusHardwareRead_def prvulSMBusIn32_def
    by (auto simp: Let_def split: prod.splits intro!: keeps w assms)
  show "oks raw (prvvSMBusHardwareWrite off v s)"
    unfolding prvvSMBusHardwareWrite_def prvvSMBusOut32_def by (auto intro!: keeps w assms)
qed

lemma masked_raw [keeps]: "raw s \<Longrightarrow> oks raw (prvvSMBusHardwareWriteWithMask off m v s)"
  unfolding prvvSMBusHardwareWriteWithMask_def by (rule keeps | assumption)+

lemma log_initialize_raw [keeps]: "raw s \<Longrightarrow> oks raw (log_initialize s)"
proof -
  assume r: "raw s"
  have "0 < SMBUS_MAX_CIRCULAR_LOG_ENTRIES" by (simp add: SMBUS_MAX_CIRCULAR_LOG_ENTRIES_def)
  then show "oks raw (log_initialize s)"
    using r by (simp add: log_initialize_def vLogInitialize_def raw_def log_shape_def)
qed

lemma raw_fields [keeps]:
  "raw s \<Longrightarrow> raw (s\<lparr>pFnReadTicks := t, pvBaseAddress := b, xLogLevel := l\<rparr>)"
  "raw s \<Longrightarrow> raw (s\<lparr>ucInstanceInPlay := k, ulTransactionID := n\<rparr>)" "raw s \<Longrightarrow> raw (s\<lparr>ulInitialize := m\<rparr>)"
  by (simp_all add: raw_def log_shape_def)

section \<open>The invariant\<close>

definition good :: "nat \<Rightarrow> 'w SMBUS_INSTANCE \<Rightarrow> bool" where
  "good i x \<longleftrightarrow> firewalls_intact x \<and> (SMBUS_TRUE = ucInstanceInUse x \<longrightarrow> ucThisInstanceNumber x = of_nat i)"

definition driver_typed :: "'w smbus \<Rightarrow> bool" where
  "driver_typed s \<longleftrightarrow> shape s \<and> (\<forall>i < SMBUS_NUMBER_OF_SMBUS_INSTANCES. good i (inst s i))"

lemma good_identity: "identity x = identity y \<Longrightarrow> good i x = good i y"
  by (simp add: good_def firewalls_intact_def identity_def)

lemma typed_kept:
  assumes "driver_typed s0" "kept s0 s"
  shows "driver_typed s"
proof -
  have k: "shape s" "shape s0" "map identity (xSMBusInstance s) = map identity (xSMBusInstance s0)"
    using assms by (simp_all add: driver_typed_def kept_def)
  have g: "good i (inst s i)" if i: "i < SMBUS_NUMBER_OF_SMBUS_INSTANCES" for i
  proof -
    have "i < length (xSMBusInstance s)" "i < length (xSMBusInstance s0)" using k(1,2) i by (simp_all add: shape_def)
    then have "identity (inst s i) = identity (inst s0 i)" using arg_cong[OF k(3), of "\<lambda>l. l ! i"] by simp
    moreover have "good i (inst s0 i)" using assms(1) i by (simp add: driver_typed_def)
    ultimately show ?thesis using good_identity by blast
  qed
  show ?thesis using k(1) g by (simp add: driver_typed_def)
qed

lemma typed_checks: "driver_typed s \<Longrightarrow> xSMBusFirewallCheck (Some s) = SMBUS_SUCCESS"
  by (auto simp: driver_typed_def xSMBusFirewallCheck_def good_def)

section \<open>Initialising the instances\<close>

lemma init_events_shape:
  assumes "length (event_cells (inst s i)) = unat SMBUS_MAX_EVENT_ELEMENTS"
  shows "\<exists>b es. init_events i s = Some (upd i (\<lambda>x. x\<lparr>xEventSourceCircularBuffer := b\<rparr>) s) \<and> evb_ok b
    \<and> pxEventBuffer b = Some es \<and> length es = unat SMBUS_MAX_EVENT_ELEMENTS"
proof -
  obtain b where b: "vEventBufferInitialize (Some (xEventSourceCircularBuffer (inst s i))) (Some (event_cells (inst s i)))
      SMBUS_MAX_EVENT_ELEMENTS = Some (Some b)" "evb_rep [] b" "ulMaxElements b = SMBUS_MAX_EVENT_ELEMENTS"
    using evb_init_ok[of SMBUS_MAX_EVENT_ELEMENTS "event_cells (inst s i)"] assms
    by (auto simp: SMBUS_MAX_EVENT_ELEMENTS_def)
  obtain es where "pxEventBuffer b = Some es" "length es = unat SMBUS_MAX_EVENT_ELEMENTS"
    using b(2,3) by (auto simp: evb_rep_def)
  then show ?thesis using b by (auto simp: init_events_def evb_ok_def evb_inv_iff evb_cap_def)
qed

definition fresh :: "'w SMBUS_INSTANCE \<Rightarrow> bool" where
  "fresh x \<longleftrightarrow> inst_raw x \<and> inst_shape x \<and> firewalls_intact x \<and> SMBUS_FALSE = ucInstanceInUse x"

lemma clear_counters_length: "length cs = counter_length \<Longrightarrow> length (clear_counters cs) = counter_length"
  by (simp add: clear_counters_def counter_length_def Let_def)

lemma upd_const:
  "i < length (xSMBusInstance s) \<Longrightarrow> upd i g (upd i f s) = upd i (\<lambda>_. g (f (inst s i))) s"
  by (simp add: upd_def)

lemma init_instance_step:
  assumes "raw s" "i < SMBUS_NUMBER_OF_SMBUS_INSTANCES"
  shows "\<exists>x. init_instance i s = Some (upd i (\<lambda>_. x) s) \<and> fresh x \<and> xState x = xState (inst s i)"
proof -
  let ?u = "upd i initial_instance s"
  have i: "i < length (xSMBusInstance s)" "inst_raw (inst s i)" using assms by (simp_all add: raw_def)
  then have "length (event_cells (inst ?u i)) = unat SMBUS_MAX_EVENT_ELEMENTS"
    by (simp add: upd_def initial_instance_def set_firewalls_def event_cells_def inst_raw_def)
  then obtain b es where b: "init_events i ?u = Some (upd i (\<lambda>x. x\<lparr>xEventSourceCircularBuffer := b\<rparr>) ?u)" "evb_ok b"
      "pxEventBuffer b = Some es" "length es = unat SMBUS_MAX_EVENT_ELEMENTS"
    using init_events_shape by blast
  show ?thesis
    using b i
    by (auto simp: init_instance_def clear_messages_def upd_const upd_const[unfolded upd_def] fresh_def
      inst_raw_def inst_shape_def initial_instance_def set_firewalls_def firewalls_intact_def
      clear_counters_length event_cells_def)
qed

lemma init_loop:
  assumes "raw s" "\<forall>k \<in> set ks. k < SMBUS_NUMBER_OF_SMBUS_INSTANCES"
  shows "\<exists>r. for_each init_instance ks s = Some r \<and> raw r
     \<and> (\<forall>i < SMBUS_NUMBER_OF_SMBUS_INSTANCES. i \<in> set ks \<or> fresh (inst s i) \<longrightarrow> fresh (inst r i))"
  using assms
proof (induction ks arbitrary: s)
  case (Cons k ks)
  then obtain x where x: "init_instance k s = Some (upd k (\<lambda>_. x) s)" "fresh x"
    using init_instance_step[of s k] by auto
  have "raw (upd k (\<lambda>_. x) s)"
    using Cons.prems(1) x(2) set_update_subset_insert[of "xSMBusInstance s" k x]
    by (auto simp: raw_def upd_def fresh_def log_shape_def)
  then obtain r where r: "for_each init_instance ks (upd k (\<lambda>_. x) s) = Some r" "raw r"
      "\<forall>i < SMBUS_NUMBER_OF_SMBUS_INSTANCES. i \<in> set ks \<or> fresh (inst (upd k (\<lambda>_. x) s) i) \<longrightarrow> fresh (inst r i)"
    using Cons.IH[of "upd k (\<lambda>_. x) s"] Cons.prems(2) by auto
  have "fresh (inst (upd k (\<lambda>_. x) s) i)" if "i < SMBUS_NUMBER_OF_SMBUS_INSTANCES" "i = k \<or> fresh (inst s i)" for i
    using that x(2) Cons.prems(1) by (cases "i = k") (auto simp: upd_def raw_def)
  then show ?case using r x(1) by auto
qed simp

lemma fresh_typed:
  assumes "raw s" "\<forall>i < SMBUS_NUMBER_OF_SMBUS_INSTANCES. fresh (inst s i)"
  shows "driver_typed s"
  using assms by (auto simp: driver_typed_def shape_def raw_def good_def fresh_def smbus_values in_set_conv_nth)

lemma typed_initialize [simp]: "driver_typed (s\<lparr>ulInitialize := m\<rparr>) = driver_typed s"
  by (simp add: driver_typed_def shape_def log_shape_def)

text \<open>Once typed, a state stays typed under everything that keeps it.\<close>

lemma typed_steps:
  assumes "driver_typed s"
  shows "oks (kept s) m \<Longrightarrow> oks driver_typed m" "okv (kept s) n \<Longrightarrow> okv driver_typed n"
  using typed_kept[OF assms] by (auto simp: oks_def okv_def)

lemma typed_refl: "driver_typed s \<Longrightarrow> kept s s"
  by (simp add: driver_typed_def kept_refl)

lemma typed_writes:
  assumes "driver_typed s"
  shows "oks driver_typed (prvvSMBusHardwareWrite off v s)" "okv driver_typed (prvulSMBusHardwareRead off s)"
    "oks driver_typed (add_log level n ev e1 e2 s)"
  by (rule typed_steps(1)[OF assms] typed_steps(2)[OF assms] write_kept read_kept add_log_kept typed_refl[OF assms])+

lemma loop_typed: "raw s \<Longrightarrow> oks driver_typed (for_each init_instance [0..<SMBUS_NUMBER_OF_SMBUS_INSTANCES] s)"
proof -
  assume "raw s"
  then obtain r where "for_each init_instance [0..<SMBUS_NUMBER_OF_SMBUS_INSTANCES] s = Some r" "raw r"
      "\<forall>i < SMBUS_NUMBER_OF_SMBUS_INSTANCES. fresh (inst r i)"
    using init_loop[of s "[0..<SMBUS_NUMBER_OF_SMBUS_INSTANCES]"] by auto
  then show ?thesis using fresh_typed by simp
qed

lemma resets_typed:
  "raw s \<Longrightarrow> oks driver_typed (do {
      s \<leftarrow> for_each init_instance [0..<SMBUS_NUMBER_OF_SMBUS_INSTANCES] s;
      s \<leftarrow> vSMBusHWWriteCtrlDescFifoReset 1 s;
      s \<leftarrow> vSMBusHWWriteTgtRxFifoReset 1 s;
      vSMBusHWWriteCtrlRxFifoReset 1 s })"
  unfolding smbus_writers
  by (rule oks_then(1)[where P = driver_typed] typed_writes loop_typed | assumption)+

lemma instances_typed: "raw s \<Longrightarrow> oks driver_typed (init_instances s)"
  unfolding init_instances_def Let_def log_info_def smbus_readers
  by (rule resets_typed oks_then[where P = raw] keeps | assumption)+

lemma timing_raw:
  fixes s :: "'w smbus"
  assumes "timing_writes fceil cls clk k = Some ws" "raw s"
  shows "oks raw (for_each (\<lambda>w. w) ws s)"
proof -
  have w: "oks raw (w s)" if "w \<in> set ws" "raw s" for w and s :: "'w smbus"
    using that assms(1)
    by (cases cls) (auto simp: timing_writes_def smbus_writers intro!: keeps)
  show ?thesis using assms(2) w
  proof (induction ws arbitrary: s)
    case (Cons w ws)
    show ?case unfolding for_each.simps
      by (rule oks_then(1)[where P = raw], rule Cons.prems(2)) (use Cons in auto)
  qed simp
qed

lemma latency_raw [keeps]: "raw s \<Longrightarrow> okv raw (latency_constant s)"
  unfolding latency_constant_def smbus_readers by (rule keeps | assumption)+

lemma info_raw [keeps]: "raw s \<Longrightarrow> oks raw (for_each (\<lambda>(v, line). log_info v line) xs s)"
proof (induction xs arbitrary: s)
  case (Cons x xs)
  then show ?case by (cases x) (auto simp: log_info_def intro!: oks_then(1)[where P = raw] keeps Cons.IH)
qed simp

text \<open>The result of the initialisation and of its last part: success only in a typed state.\<close>

definition inits :: "(SMBus_Error_Type \<times> 'w smbus) option \<Rightarrow> bool" where
  "inits = oks (\<lambda>(v, s). v = SMBUS_SUCCESS \<longrightarrow> driver_typed s)"

lemma inits_rules:
  "inits (Some (SMBUS_ERROR, s))" "driver_typed s \<Longrightarrow> inits (Some (SMBUS_SUCCESS, s))"
  "inits m \<Longrightarrow> inits (Option.bind m (\<lambda>(e, s). Some (e, s\<lparr>ulInitialize := v\<rparr>)))"
  "(c \<Longrightarrow> inits x) \<Longrightarrow> (\<not> c \<Longrightarrow> inits y) \<Longrightarrow> inits (if c then x else y)"
  "oks P n \<Longrightarrow> (\<And>s. P s \<Longrightarrow> inits (f s)) \<Longrightarrow> inits (Option.bind n f)"
  "okv P l \<Longrightarrow> (\<And>v s. P s \<Longrightarrow> inits (g v s)) \<Longrightarrow> inits (Option.bind l (\<lambda>(v, s). g v s))"
  by (auto simp: inits_def oks_def okv_def bind_eq_Some_conv)

lemma timing_inits:
  "raw s \<Longrightarrow> inits (case timing_writes fceil cls clk k of None \<Rightarrow> Some (SMBUS_ERROR, s)
      | Some ws \<Rightarrow> do { s \<leftarrow> for_each (\<lambda>w. w) ws s; s \<leftarrow> init_instances s; Some (SMBUS_SUCCESS, s) })"
  by (cases "timing_writes fceil cls clk k :: ('a smbus \<Rightarrow> 'a smbus option) list option")
    (auto intro!: inits_rules(1,2) inits_rules(5)[OF timing_raw] inits_rules(5)[OF instances_typed])

lemma init_inits: "raw s \<Longrightarrow> inits (xInitSMBus fceil handle cls base level ticks s)"
  unfolding xInitSMBus_def Let_def log_info_def smbus_readers
  by (rule inits_rules(1,3,4) timing_inits inits_rules(5,6)[where P = raw] keeps info_raw[unfolded log_info_def]
    | assumption)+

lemma init_typed:
  assumes "raw s" "xInitSMBus fceil handle cls base level ticks s = Some (SMBUS_SUCCESS, s')"
  shows "driver_typed s'"
  using init_inits[OF assms(1), of fceil handle cls base level ticks] assms(2) by (simp add: inits_def)

section \<open>The functions of the interface\<close>

lemma typed_cells:
  assumes "driver_typed s" "i < SMBUS_NUMBER_OF_SMBUS_INSTANCES"
  shows "length (event_cells (inst s i)) = unat SMBUS_MAX_EVENT_ELEMENTS"
proof -
  have "inst_shape (inst s i)" using assms by (auto simp: driver_typed_def shape_def)
  then show ?thesis by (auto simp: inst_shape_def evb_ok_def evb_inv_def evb_rep_def evb_cap_def event_cells_def)
qed

lemma typed_upd:
  assumes "driver_typed s" "i < SMBUS_NUMBER_OF_SMBUS_INSTANCES \<Longrightarrow> inst_shape (inst s i) \<Longrightarrow> inst_shape (f (inst s i))"
    "i < SMBUS_NUMBER_OF_SMBUS_INSTANCES \<Longrightarrow> good i (inst s i) \<Longrightarrow> good i (f (inst s i))"
  shows "driver_typed (upd i f s)"
proof (cases "i < length (xSMBusInstance s)")
  case True
  then have i: "i < SMBUS_NUMBER_OF_SMBUS_INSTANCES" "inst_shape (inst s i)" "good i (inst s i)"
    using assms(1) by (auto simp: driver_typed_def shape_def)
  then have "inst_shape (f (inst s i))" "good i (f (inst s i))" using assms(2,3) by simp_all
  then show ?thesis
    using assms(1) True set_update_subset_insert[of "xSMBusInstance s" i "f (inst s i)"]
    by (auto simp: driver_typed_def shape_def upd_def log_shape_def nth_list_update)
next
  case False
  then show ?thesis using assms(1) by (simp add: upd_def list_update_beyond)
qed

lemma typed_play [simp]:
  "driver_typed (s\<lparr>ucInstanceInPlay := k\<rparr>) = driver_typed s" "driver_typed (s\<lparr>ulTransactionID := n\<rparr>) = driver_typed s"
  "driver_typed (s\<lparr>xLogLevel := l\<rparr>) = driver_typed s" "driver_typed (s\<lparr>world := w\<rparr>) = driver_typed s"
  by (simp_all add: driver_typed_def shape_def log_shape_def)

text \<open>A function of the interface: its guards refuse nothing in a typed state.\<close>

definition typed_result :: "('r \<times> 'w smbus option) option \<Rightarrow> bool" where
  "typed_result m \<longleftrightarrow> (\<forall>r p. m = Some (r, p) \<longrightarrow> (\<exists>s. p = Some s \<and> driver_typed s))"

lemma typed_interface:
  assumes "driver_typed s" "okv driver_typed (f s)"
  shows "typed_result (on_profile r (guarded line r f) (Some s))"
  using assms typed_checks[OF assms(1)]
  by (auto simp: typed_result_def on_profile_def guarded_def okv_def bind_eq_Some_conv)

lemma typed_result_rules:
  "driver_typed s \<Longrightarrow> typed_result (Some (r, Some s))"
  "(c \<Longrightarrow> typed_result x) \<Longrightarrow> (\<not> c \<Longrightarrow> typed_result y) \<Longrightarrow> typed_result (if c then x else y)"
  by (auto simp: typed_result_def)

lemma typed_steps_rules:
  assumes "driver_typed s"
  shows "oks driver_typed (vSMBusHWWriteTgtControlAddress k v s)" "oks driver_typed (vSMBusHWWriteTgtControlEnable k v s)"
    "okv driver_typed (line_held_low s)" "oks driver_typed (log_refused line s)" "oks driver_typed (start_transaction i s)"
    "oks driver_typed (vSMBusHWWriteIRQGIEEnable v s)" "oks driver_typed (vSMBusHWWriteIRQIER v s)"
    "oks driver_typed (vSMBusHWWriteIRQISR v s)" "oks driver_typed (vSMBusHWWriteERRIRQIER v s)"
    "oks driver_typed (vSMBusHWWriteERRIRQISR v s)"
  unfolding line_held_low_def log_refused_def start_transaction_def smbus_readers smbus_writers
    vSMBusHWWriteTgtControlEnable_def vSMBusHWWriteTgtControlAddress_def
  by ((rule typed_steps(1)[OF assms] typed_steps(2)[OF assms], (rule keeps typed_refl[OF assms] | assumption)+); fail)+

lemma typed_buffers:
  assumes "driver_typed s" "i < SMBUS_NUMBER_OF_SMBUS_INSTANCES"
  shows "oks driver_typed (init_events i s)" "driver_typed (clear_messages i s)"
proof -
  obtain b where b: "init_events i s = Some (upd i (\<lambda>x. x\<lparr>xEventSourceCircularBuffer := b\<rparr>) s)" "evb_ok b"
    using init_events_shape[OF typed_cells[OF assms]] by blast
  have "driver_typed (upd i (\<lambda>x. x\<lparr>xEventSourceCircularBuffer := b\<rparr>) s)"
    using b(2) by (intro typed_upd[OF assms(1)]) (simp_all add: inst_shape_def good_def firewalls_intact_def)
  then show "oks driver_typed (init_events i s)" by (simp add: b(1))
  show "driver_typed (clear_messages i s)"
    unfolding clear_messages_def
    by (rule typed_upd[OF assms(1)]) (simp_all add: inst_shape_def good_def firewalls_intact_def clear_counters_length)
qed

lemma typed_destroy:
  assumes "driver_typed s" "i < SMBUS_NUMBER_OF_SMBUS_INSTANCES"
    "\<And>x. inst_shape x \<Longrightarrow> inst_shape (f x)" "\<And>x. good i (f x)"
  shows "oks driver_typed (destroy_at i f s)"
  unfolding destroy_at_def
  by (rule oks_then(1)[where P = driver_typed] typed_steps_rules typed_buffers typed_upd runs_some oks_some
      assms | assumption)+

lemmas typed_rules = typed_steps_rules oks_then[where P = driver_typed] oks_some okv_some oks_if okv_if

lemma instance_indices:
  "free_instance s = Some i \<Longrightarrow> i < SMBUS_NUMBER_OF_SMBUS_INSTANCES" "SMBUS_ARP_INSTANCE_ID < SMBUS_NUMBER_OF_SMBUS_INSTANCES"
  "idx \<le> SMBUS_LAST_NON_ARP_SMBUS_INSTANCE \<Longrightarrow> unat idx < SMBUS_NUMBER_OF_SMBUS_INSTANCES"
  by (auto simp: free_instance_def find_Some_iff smbus_sizes SMBUS_ARP_INSTANCE_ID_def
    SMBUS_LAST_NON_ARP_SMBUS_INSTANCE_def SMBUS_LAST_SMBUS_INSTANCE_def word_le_nat_alt)

lemma typed_create_at:
  assumes "driver_typed s" "i < SMBUS_NUMBER_OF_SMBUS_INSTANCES"
  shows "oks driver_typed (create_at i addr udid cap cb simple s)"
proof -
  have 1: "driver_typed (upd i (new_instance i addr udid cap cb simple) s)"
    by (rule typed_upd[OF assms(1)])
      (simp_all add: new_instance_def inst_shape_def good_def firewalls_intact_def smbus_sizes)
  have 2: "oks driver_typed (create_arp_instance cap s)" if "driver_typed s" for s :: "'a smbus"
    unfolding create_arp_instance_def Let_def
    by (rule typed_rules typed_upd that | assumption | simp add: inst_shape_def good_def firewalls_intact_def)+
  show ?thesis
    unfolding create_at_def Let_def by (rule typed_rules 1 2 | assumption)+
qed

lemma okv_bind_typed:
  "oks driver_typed m \<Longrightarrow> (\<And>s. driver_typed s \<Longrightarrow> okv driver_typed (f s)) \<Longrightarrow> okv driver_typed (Option.bind m f)"
  "okv driver_typed n \<Longrightarrow> (\<And>v s. driver_typed s \<Longrightarrow> okv driver_typed (g v s)) \<Longrightarrow> okv driver_typed (Option.bind n (\<lambda>(v, s). g v s))"
  by (auto simp: oks_def okv_def bind_eq_Some_conv)

lemma okv_choice:
  "(m = None \<Longrightarrow> okv P y) \<Longrightarrow> (\<And>i. m = Some i \<Longrightarrow> okv P (g i)) \<Longrightarrow> okv P (case m of None \<Rightarrow> y | Some i \<Rightarrow> g i)"
  "(\<And>x. m = Some x \<Longrightarrow> okv P (f x)) \<Longrightarrow> okv P (Option.bind m f)"
  "P a \<Longrightarrow> (\<And>s. P s \<Longrightarrow> okv P (h s)) \<Longrightarrow> okv P (let s = a in h s)"
  "(\<And>x. x = b \<Longrightarrow> okv P (k x)) \<Longrightarrow> okv P (let x = b in k x)"
  by (auto simp: okv_def bind_eq_Some_conv split: option.splits)

lemma typed_result_choice:
  "(m = None \<Longrightarrow> typed_result y) \<Longrightarrow> (\<And>i. m = Some i \<Longrightarrow> typed_result (g i))
   \<Longrightarrow> typed_result (case m of None \<Rightarrow> y | Some i \<Rightarrow> g i)"
  by (cases m) auto

lemmas interface_rules = typed_result_rules typed_result_choice typed_interface okv_if okv_some okv_choice(1)
  okv_bind_typed typed_steps_rules oks_if oks_some

lemma typed_new_i2c:
  "driver_typed s \<Longrightarrow> driver_typed (upd i (new_i2c_instance i addr cb) s)"
  by (rule typed_upd) (simp_all add: new_i2c_instance_def inst_shape_def good_def firewalls_intact_def)

lemma typed_interface_create:
  assumes "driver_typed s"
  shows "typed_result (ucCreateSMBusInstance addr udid cap cb simple (Some s))"
    "typed_result (ucI2CCreateDevice addr i2c (Some s))"
  unfolding ucCreateSMBusInstance_def ucI2CCreateDevice_def Let_def
  by (rule interface_rules typed_create_at typed_new_i2c assms | assumption | erule instance_indices(1))+

lemma destroyed_typed:
  "inst_shape x \<Longrightarrow> inst_shape (destroyed_instance x)" "inst_shape x \<Longrightarrow> inst_shape (destroyed_arp_instance x)"
  "inst_shape x \<Longrightarrow> inst_shape (destroyed_i2c_instance x)" "good i (destroyed_instance x)"
  "good i (destroyed_arp_instance x)" "good i (destroyed_i2c_instance x)"
  by (simp_all add: destroyed_instance_def destroyed_arp_instance_def destroyed_i2c_instance_def set_firewalls_def
    inst_shape_def good_def firewalls_intact_def smbus_values)

lemma typed_interface_destroy:
  assumes "driver_typed s"
  shows "typed_result (xDestroySMBusInstance idx (Some s))" "typed_result (ucI2CDestroyDevice idx (Some s))"
  unfolding xDestroySMBusInstance_def ucI2CDestroyDevice_def
  by (rule interface_rules typed_destroy destroyed_typed assms instance_indices(2) | assumption | erule instance_indices(3))+

lemma typed_interface_transactions:
  assumes "driver_typed s"
  shows "typed_result (xSMBusControllerInitiateCommand idx dest c proto n data pec tid (Some s))"
    "typed_result (ucI2CWriteData idx addr data n (Some s))" "typed_result (ucI2CReadData idx addr n (Some s))"
    "typed_result (ucI2CWriteReadData idx addr data n m (Some s))"
  unfolding xSMBusControllerInitiateCommand_def ucI2CWriteData_def ucI2CReadData_def ucI2CWriteReadData_def Let_def
  by (rule interface_rules okv_bind_pure[where 'a = "u8 list"] typed_upd assms | assumption
    | fastforce simp: inst_shape_def good_def firewalls_intact_def assms dest: copy_length)+

lemma typed_log_reset: "driver_typed s \<Longrightarrow> oks driver_typed (log_initialize s)"
proof -
  assume t: "driver_typed s"
  have "0 < SMBUS_MAX_CIRCULAR_LOG_ENTRIES" by (simp add: SMBUS_MAX_CIRCULAR_LOG_ENTRIES_def)
  then show "oks driver_typed (log_initialize s)"
    using t by (simp add: log_initialize_def vLogInitialize_def driver_typed_def shape_def log_shape_def)
qed

lemma typed_interface_rest:
  assumes "driver_typed s"
  shows "typed_result (xSMBusLogReset (Some s))" "typed_result (vSMBusLogEnable (Some s))"
    "typed_result (vSMBusLogDisable (Some s))" "typed_result (vSMBusResetStatsLogInstance k (Some s))"
    "typed_result (xSMBusInterruptEnableInterrupts (Some s))"
    "typed_result (xSMBusInterruptDisableAndClearInterrupts (Some s))"
  unfolding xSMBusLogReset_def vSMBusLogEnable_def vSMBusLogDisable_def vSMBusResetStatsLogInstance_def
    xSMBusInterruptEnableInterrupts_def xSMBusInterruptDisableAndClearInterrupts_def clear_messages_def
  by (rule interface_rules typed_log_reset typed_upd assms | assumption
    | fastforce simp: inst_shape_def good_def firewalls_intact_def assms clear_counters_length)+

text \<open>The environment may change the world between two steps of the driver.\<close>

inductive driver_reachable :: "'w smbus \<Rightarrow> bool" where
  start: "xInitSMBus fceil (handle :: 'w smbus option option) cls base level ticks (xSMBusProfile inp out w) = Some (SMBUS_SUCCESS, s)
    \<Longrightarrow> driver_reachable s"
| world: "driver_reachable s \<Longrightarrow> driver_reachable (s\<lparr>world := w\<rparr>)"
| interrupt: "driver_reachable s \<Longrightarrow> vSMBusInterruptHandler (Some s) = Some (Some s') \<Longrightarrow> driver_reachable s'"
| create: "driver_reachable s \<Longrightarrow> ucCreateSMBusInstance addr udid cap cb simple (Some s) = Some (k, Some s')
    \<Longrightarrow> driver_reachable s'"
| create_i2c: "driver_reachable s \<Longrightarrow> ucI2CCreateDevice addr i2c (Some s) = Some (k, Some s') \<Longrightarrow> driver_reachable s'"
| destroy: "driver_reachable s \<Longrightarrow> xDestroySMBusInstance k (Some s) = Some (e, Some s') \<Longrightarrow> driver_reachable s'"
| destroy_i2c: "driver_reachable s \<Longrightarrow> ucI2CDestroyDevice k (Some s) = Some (e, Some s') \<Longrightarrow> driver_reachable s'"
| initiate: "driver_reachable s \<Longrightarrow> xSMBusControllerInitiateCommand k dest c proto n data pec tid (Some s) = Some (r, Some s')
    \<Longrightarrow> driver_reachable s'"
| i2c_write: "driver_reachable s \<Longrightarrow> ucI2CWriteData k addr data n (Some s) = Some (e, Some s') \<Longrightarrow> driver_reachable s'"
| i2c_read: "driver_reachable s \<Longrightarrow> ucI2CReadData k addr n (Some s) = Some (e, Some s') \<Longrightarrow> driver_reachable s'"
| i2c_write_read: "driver_reachable s \<Longrightarrow> ucI2CWriteReadData k addr data n m (Some s) = Some (e, Some s')
    \<Longrightarrow> driver_reachable s'"
| log_reset: "driver_reachable s \<Longrightarrow> xSMBusLogReset (Some s) = Some (e, Some s') \<Longrightarrow> driver_reachable s'"
| log_enable: "driver_reachable s \<Longrightarrow> vSMBusLogEnable (Some s) = Some (u, Some s') \<Longrightarrow> driver_reachable s'"
| log_disable: "driver_reachable s \<Longrightarrow> vSMBusLogDisable (Some s) = Some (u, Some s') \<Longrightarrow> driver_reachable s'"
| reset_stats: "driver_reachable s \<Longrightarrow> vSMBusResetStatsLogInstance k (Some s) = Some (u, Some s') \<Longrightarrow> driver_reachable s'"
| enable: "driver_reachable s \<Longrightarrow> xSMBusInterruptEnableInterrupts (Some s) = Some (e, Some s') \<Longrightarrow> driver_reachable s'"
| disable: "driver_reachable s \<Longrightarrow> xSMBusInterruptDisableAndClearInterrupts (Some s) = Some (e, Some s')
    \<Longrightarrow> driver_reachable s'"

lemma typed_handler:
  "driver_typed s \<Longrightarrow> vSMBusInterruptHandler (Some s) = Some (Some s') \<Longrightarrow> driver_typed s'"
  using handler_kept[OF typed_refl, of s] typed_kept[of s s'] by (auto simp: oks_def)

lemma reachable_typed: "driver_reachable s \<Longrightarrow> driver_typed s"
proof (induction rule: driver_reachable.induct)
  case (start fceil handle cls base level ticks inp out w s)
  then show ?case by (rule init_typed[OF raw_profile])
next
  case (interrupt s s')
  then show ?case using typed_handler by blast
qed (use typed_interface_create typed_interface_destroy typed_interface_transactions typed_interface_rest
  in \<open>fastforce simp: typed_result_def\<close>)+

end
