(* ===== verification/SmbusUdid.thy ===== *)
theory SmbusUdid
  imports SmbusArp "HOL-Library.Multiset"
begin

text \<open>
  Which instance answers Get UDID: the sorting and narrowing of smbus_state.c finds the one
  whose UDID, read as a number of 128 bits, is the smallest.
\<close>

section \<open>Sorting by one byte\<close>

lemma swap_take:
  assumes "a < n" "b < n" "n \<le> length ids"
  shows "mset (take n (vInstanceSwap a b ids)) = mset (take n ids)" "drop n (vInstanceSwap a b ids) = drop n ids"
    "length (vInstanceSwap a b ids) = length ids"
proof -
  have "take n (vInstanceSwap a b ids) = (take n ids)[a := take n ids ! b, b := take n ids ! a]"
    using assms by (simp add: vInstanceSwap_def take_update_swap)
  then show "mset (take n (vInstanceSwap a b ids)) = mset (take n ids)"
    using assms mset_swap[of b "take n ids" a] by simp
  show "drop n (vInstanceSwap a b ids) = drop n ids" "length (vInstanceSwap a b ids) = length ids"
    using assms by (simp_all add: vInstanceSwap_def)
qed

lemma swap_nth:
  "a < length ids \<Longrightarrow> b < length ids \<Longrightarrow> k < length ids
     \<Longrightarrow> vInstanceSwap a b ids ! k = (if k = b then ids ! a else if k = a then ids ! b else ids ! k)"
  by (simp add: vInstanceSwap_def nth_list_update)

lemma smallest_fold:
  fixes m :: nat
  shows "fold (\<lambda>j m. if udid_byte s ids j b < udid_byte s ids m b then j else m) js m \<in> insert m (set js)
     \<and> (\<forall>j \<in> insert m (set js). udid_byte s ids
          (fold (\<lambda>j m. if udid_byte s ids j b < udid_byte s ids m b then j else m) js m) b \<le> udid_byte s ids j b)"
proof (induction js arbitrary: m)
  case (Cons j js)
  from Cons.IH[of j] Cons.IH[of m] show ?case
    by (auto simp: not_less intro: order_trans[OF _ less_imp_le])
qed simp

lemma smallest_from_least:
  assumes "k < n"
  shows "smallest_from s ids n b k \<in> {k..<n}"
    "j \<in> {k..<n} \<Longrightarrow> udid_byte s ids (smallest_from s ids n b k) b \<le> udid_byte s ids j b"
proof -
  have "smallest_from s ids n b k \<in> insert k (set [k + 1..<n])
      \<and> (\<forall>j \<in> insert k (set [k + 1..<n]). udid_byte s ids (smallest_from s ids n b k) b \<le> udid_byte s ids j b)"
    unfolding smallest_from_def by (rule smallest_fold)
  moreover have "insert k (set [k + 1..<n]) = {k..<n}" using assms by auto
  ultimately show "smallest_from s ids n b k \<in> {k..<n}"
    "j \<in> {k..<n} \<Longrightarrow> udid_byte s ids (smallest_from s ids n b k) b \<le> udid_byte s ids j b"
    by (metis, metis)
qed

text \<open>After \<open>k\<close> rounds the first \<open>k\<close> entries are in place.\<close>

definition placed :: "'w smbus \<Rightarrow> nat \<Rightarrow> nat \<Rightarrow> nat \<Rightarrow> u8 list \<Rightarrow> bool" where
  "placed s n b k ids \<longleftrightarrow> (\<forall>p q. p < k \<longrightarrow> p \<le> q \<longrightarrow> q < n \<longrightarrow> udid_byte s ids p b \<le> udid_byte s ids q b)"

lemma placed_step:
  assumes "placed s n b k ids" "k < n" "n \<le> length ids"
  shows "placed s n b (Suc k) (vInstanceSwap (smallest_from s ids n b k) k ids)"
  unfolding placed_def
proof (intro allI impI)
  let ?m = "smallest_from s ids n b k"
  have m: "k \<le> ?m" "?m < n" using smallest_from_least(1)[OF assms(2), of s ids b] by auto
  have l: "udid_byte s ids ?m b \<le> udid_byte s ids j b" if "k \<le> j" "j < n" for j
    using smallest_from_least(2)[OF assms(2), of j s ids b] that by simp
  have u: "udid_byte s (vInstanceSwap ?m k ids) j b
      = udid_byte s ids (if j = k then ?m else if j = ?m then k else j) b" if "j < n" for j
    using that m assms swap_nth[of ?m ids k j] by (auto simp: udid_byte_def)
  have p: "udid_byte s ids p b \<le> udid_byte s ids q b" if "p < k" "p \<le> q" "q < n" for p q
    using that assms(1) by (simp add: placed_def)
  fix p q assume a: "p < Suc k" "p \<le> q" "q < n"
  show "udid_byte s (vInstanceSwap ?m k ids) p b \<le> udid_byte s (vInstanceSwap ?m k ids) q b"
  proof (cases "p = k")
    case True
    then show ?thesis using a m l assms(2) by (simp add: u)
  next
    case False
    then have "p < k" using a by simp
    then show ?thesis using a m assms(2) p by (auto simp: u)
  qed
qed

lemma sort_rounds:
  assumes "k \<le> n - 1" "n \<le> length ids"
  shows "let r = fold (\<lambda>k ids. vInstanceSwap (smallest_from s ids n b k) k ids) [0..<k] ids
    in placed s n b k r \<and> mset (take n r) = mset (take n ids) \<and> drop n r = drop n ids \<and> length r = length ids"
  using assms(1)
proof (induction k)
  case (Suc k)
  let ?r = "fold (\<lambda>k ids. vInstanceSwap (smallest_from s ids n b k) k ids) [0..<k] ids"
  have r: "placed s n b k ?r" "mset (take n ?r) = mset (take n ids)" "drop n ?r = drop n ids"
      "length ?r = length ids" "k < n"
    using Suc by (simp_all add: Let_def)
  have "smallest_from s ?r n b k < n" using smallest_from_least(1)[OF r(5), of s ?r b] by simp
  then show ?case
    using placed_step[OF r(1,5)] swap_take[of "smallest_from s ?r n b k" n k ?r] r assms(2) by (simp add: Let_def)
qed (simp add: placed_def)

lemma sort_sorts:
  assumes "n \<le> length ids"
  shows "mset (take n (vUDIDInstanceSort s n b ids)) = mset (take n ids)"
    "drop n (vUDIDInstanceSort s n b ids) = drop n ids" "length (vUDIDInstanceSort s n b ids) = length ids"
    "p \<le> q \<Longrightarrow> q < n \<Longrightarrow> udid_byte s (vUDIDInstanceSort s n b ids) p b \<le> udid_byte s (vUDIDInstanceSort s n b ids) q b"
proof -
  have r: "placed s n b (n - 1) (vUDIDInstanceSort s n b ids)"
    "mset (take n (vUDIDInstanceSort s n b ids)) = mset (take n ids)"
    "drop n (vUDIDInstanceSort s n b ids) = drop n ids" "length (vUDIDInstanceSort s n b ids) = length ids"
    using sort_rounds[OF order_refl assms, of s b] by (simp_all add: vUDIDInstanceSort_def Let_def)
  show "mset (take n (vUDIDInstanceSort s n b ids)) = mset (take n ids)"
    "drop n (vUDIDInstanceSort s n b ids) = drop n ids" "length (vUDIDInstanceSort s n b ids) = length ids"
    using r by simp_all
  show "udid_byte s (vUDIDInstanceSort s n b ids) p b \<le> udid_byte s (vUDIDInstanceSort s n b ids) q b"
    if "p \<le> q" "q < n"
    using r(1) that by (cases "p = q") (auto simp: placed_def)
qed

section \<open>The first run of equal bytes\<close>

lemma keep_equal_run:
  assumes "j + m < length ids"
  shows "\<exists>r. keep_equal s ids (j + m) b j m = Some r \<and> r \<le> j + m \<and> (0 < m \<longrightarrow> j < r)
     \<and> (\<forall>k. j \<le> k \<longrightarrow> k < r \<longrightarrow> udid_byte s ids k b = udid_byte s ids j b)
     \<and> (r < j + m \<longrightarrow> udid_byte s ids r b \<noteq> udid_byte s ids j b)"
  using assms
proof (induction m arbitrary: j)
  case (Suc m)
  show ?case
  proof (cases "udid_byte s ids j b \<noteq> udid_byte s ids (j + 1) b")
    case True
    then show ?thesis using Suc.prems by (auto simp: less_Suc_eq_le)
  next
    case False
    then have eq: "udid_byte s ids (j + 1) b = udid_byte s ids j b" by simp
    obtain r where r: "keep_equal s ids (j + Suc m) b (j + 1) m = Some r"
      "r \<le> j + Suc m" "0 < m \<longrightarrow> j + 1 < r"
      "\<forall>k. j + 1 \<le> k \<longrightarrow> k < r \<longrightarrow> udid_byte s ids k b = udid_byte s ids (j + 1) b"
      "r < j + Suc m \<longrightarrow> udid_byte s ids r b \<noteq> udid_byte s ids (j + 1) b"
      using Suc.IH[of "j + 1"] Suc.prems by auto
    have "j < r" using r(1,3) by (cases m) simp_all
    moreover have "\<forall>k. j \<le> k \<longrightarrow> k < r \<longrightarrow> udid_byte s ids k b = udid_byte s ids j b"
    proof (intro allI impI)
      fix k assume "j \<le> k" "k < r"
      then have "k = j \<or> j + 1 \<le> k" by auto
      then show "udid_byte s ids k b = udid_byte s ids j b" using r(4) eq \<open>k < r\<close> by metis
    qed
    moreover have "keep_equal s ids (j + Suc m) b j (Suc m) = Some r" using r(1) eq Suc.prems by simp
    moreover have "r < j + Suc m \<longrightarrow> udid_byte s ids r b \<noteq> udid_byte s ids j b" using r(5) eq by metis
    ultimately show ?thesis using r(2) by blast
  qed
qed simp


section \<open>Narrowing\<close>

text \<open>The bytes below \<open>b\<close> of a UDID as a number, the byte of index 15 the most significant.\<close>

primrec udid_number :: "'w smbus \<Rightarrow> nat \<Rightarrow> u8 \<Rightarrow> nat" where
  "udid_number s 0 k = 0"
| "udid_number s (Suc b) k = unat (ucUDID (inst s (unat k)) ! b) * 256 ^ b + udid_number s b k"

lemma udid_number_bound: "udid_number s b k < 256 ^ b"
proof (induction b)
  case (Suc b)
  let ?c = "unat (ucUDID (inst s (unat k)) ! b)"
  have "Suc ?c \<le> 256" using unsigned_less[of "ucUDID (inst s (unat k)) ! b", where 'a = nat] by simp
  then have "Suc ?c * 256 ^ b \<le> 256 * 256 ^ b" using mult_le_mono1 by blast
  then have "?c * 256 ^ b + 256 ^ b \<le> 256 * 256 ^ b" by (simp only: mult_Suc add.commute)
  then show ?case unfolding udid_number.simps power_Suc using Suc by linarith
qed simp

lemma udid_number_less:
  assumes "ucUDID (inst s (unat k)) ! b < ucUDID (inst s (unat c)) ! b"
  shows "udid_number s (Suc b) k < udid_number s (Suc b) c"
proof -
  have "Suc (unat (ucUDID (inst s (unat k)) ! b)) \<le> unat (ucUDID (inst s (unat c)) ! b)"
    using assms by (simp add: word_less_nat_alt)
  then have "Suc (unat (ucUDID (inst s (unat k)) ! b)) * 256 ^ b \<le> unat (ucUDID (inst s (unat c)) ! b) * 256 ^ b"
    using mult_le_mono1 by blast
  then show ?thesis using udid_number_bound[of s b k] by simp
qed

lemma narrow_least:
  assumes "0 < n" "n < length ids"
  shows "\<exists>n' ids'. narrow_udids s b n ids = Some (n', ids') \<and> ids' ! 0 \<in> set (take n ids)
     \<and> (\<forall>c \<in> set (take n ids). udid_number s b (ids' ! 0) \<le> udid_number s b c)"
  using assms
proof (induction b arbitrary: n ids)
  case 0
  then show ?case by (auto simp: in_set_conv_nth intro!: exI[of _ 0])
next
  case (Suc b)
  let ?u = "\<lambda>c. ucUDID (inst s (unat c)) ! b"
  define r where "r = vUDIDInstanceSort s n b ids"
  have r: "mset (take n r) = mset (take n ids)" "length r = length ids"
      "\<And>p q. p \<le> q \<Longrightarrow> q < n \<Longrightarrow> ?u (r ! p) \<le> ?u (r ! q)"
    using sort_sorts[where n = n and ids = ids and s = s and b = b] Suc.prems by (simp_all add: r_def udid_byte_def)
  have "n < length r" using Suc.prems(2) r(2) by simp
  from keep_equal_run[where j = 0 and m = n and ids = r and s = s and b = b, unfolded add_0, OF this]
  obtain m where m: "keep_equal s r n b 0 n = Some m" "m \<le> n" "0 < n \<longrightarrow> 0 < m"
      "\<forall>k. 0 \<le> k \<longrightarrow> k < m \<longrightarrow> udid_byte s r k b = udid_byte s r 0 b"
      "m < n \<longrightarrow> udid_byte s r m b \<noteq> udid_byte s r 0 b"
    by (elim exE conjE) (rule that)
  have sub: "set (take m r) \<subseteq> set (take n ids)"
    using set_take_subset_set_take[OF m(2), of r] mset_eq_setD[OF r(1)] by simp
  have first: "?u x = ?u (r ! 0)" if "x \<in> set (take m r)" for x
  proof -
    obtain k where "k < m" "x = r ! k" using \<open>x \<in> set (take m r)\<close> m(2) by (auto simp: in_set_conv_nth)
    then show ?thesis using m(4) by (metis udid_byte_def le0)
  qed
  have rest: "c \<in> set (take m r) \<or> ?u (r ! 0) < ?u c" if "c \<in> set (take n ids)" for c
  proof -
    have "c \<in> set (take n r)" using that mset_eq_setD[OF r(1)] by simp
    then obtain k where k: "k < n" "c = r ! k" using Suc.prems r(2) by (auto simp: in_set_conv_nth)
    show ?thesis
    proof (cases "k < m")
      case True
      then show ?thesis using k Suc.prems r(2) m(2) by (auto simp: in_set_conv_nth)
    next
      case False
      then have "?u (r ! 0) \<le> ?u (r ! m)" "?u (r ! m) \<le> ?u c" "?u (r ! 0) \<noteq> ?u (r ! m)"
        using k m(5) r(3)[of 0 m] r(3)[of m k] by (auto simp: udid_byte_def)
      then show ?thesis by (blast intro: order.strict_trans1 order_less_le_trans order.not_eq_order_implies_strict)
    qed
  qed
  obtain n' ids' where i: "(if m = 1 then Some (m, r) else narrow_udids s b m r) = Some (n', ids')"
      "ids' ! 0 \<in> set (take m r)" "\<forall>c \<in> set (take m r). udid_number s b (ids' ! 0) \<le> udid_number s b c"
  proof (cases "m = 1")
    case True
    then have "take m r = [r ! 0]" using Suc.prems r(2) by (cases r) auto
    then show ?thesis using that[of m r] True by simp
  next
    case False
    then show ?thesis using that Suc.IH[of m r] Suc.prems r(2) m(2,3) by auto
  qed
  have "udid_number s (Suc b) (ids' ! 0) \<le> udid_number s (Suc b) c" if c: "c \<in> set (take n ids)" for c
    using rest[OF c] first[OF i(2)] first[of c] i(3) udid_number_less[of s "ids' ! 0" b c] by auto
  then show ?case using i(1,2) m(1) sub by (auto simp: r_def[symmetric] intro!: exI[of _ n'] exI[of _ ids'])
qed

end
