(* ===== verification/SmbusProperties.thy ===== *)
theory SmbusProperties
  imports SmbusReach SmbusUdid
begin

text \<open>
  What the SMBus driver guarantees: the typing of every reachable state, the recovery from bus
  errors, and the exclusive use of the bus by one controller transaction.
\<close>

section \<open>A device to evaluate on\<close>

text \<open>
  The world is the number of bytes in both receive FIFOs; the registers of the other fields
  read as zero, the magic number apart, and writes are ignored.
\<close>

definition demo_in :: "u64 \<Rightarrow> nat \<Rightarrow> u32 \<times> nat" where
  "demo_in a w =
     (if a = 4096 + ucast SMBUS_REG_IP_MAGIC_NUM then (SMBUS_MAGIC_NUMBER, w)
      else if a = 4096 + ucast SMBUS_REG_CTLR_RX_FIFO_STATUS \<or> a = 4096 + ucast SMBUS_REG_TGT_RX_FIFO_STATUS
      then (if w = 0 then 1 else 0, w)
      else if a = 4096 + ucast SMBUS_REG_CTLR_RX_FIFO \<or> a = 4096 + ucast SMBUS_REG_TGT_RX_FIFO then (0xAB, w - 1)
      else (0, w))"

definition demo_events :: SMBUS_EVENT_BUFFER_TYPE where
  "demo_events = \<lparr>ulMaxElements = SMBUS_MAX_EVENT_ELEMENTS, ulWrite = 0, ulRead = 0,
     pxEventBuffer = Some (replicate (unat SMBUS_MAX_EVENT_ELEMENTS) \<lparr>ucIsOccupied = SMBUS_FALSE, ucOctet = 0\<rparr>)\<rparr>"

definition demo_smbus :: "nat smbus" where
  "demo_smbus = (xSMBusProfile demo_in (\<lambda>_ _ w. w) 3)\<lparr>pvBaseAddress := 4096, xSMBusInstance :=
     replicate SMBUS_NUMBER_OF_SMBUS_INSTANCES ((set_firewalls zero_instance)\<lparr>xEventSourceCircularBuffer := demo_events\<rparr>)\<rparr>"

lemma demo_events_ok: "evb_ok demo_events"
proof -
  have "evb_rep [] demo_events"
    unfolding evb_rep_def by (auto simp: demo_events_def SMBUS_MAX_EVENT_ELEMENTS_def)
  then show ?thesis by (auto simp: evb_ok_def evb_inv_iff evb_cap_def demo_events_def)
qed

lemma demo_typed: "driver_typed demo_smbus"
  using demo_events_ok
  by (simp add: driver_typed_def shape_def inst_shape_def demo_smbus_def xSMBusProfile_def zero_instance_def
    set_firewalls_def good_def firewalls_intact_def log_shape_def smbus_values SMBUS_MAX_CIRCULAR_LOG_ENTRIES_def)

lemma demo_empties: "receive_fifos_empty demo_smbus"
proof -
  have "empties (\<lambda>w. w) st pl demo_smbus"
    if "(st, pl) \<in> {(SMBUS_REG_CTLR_RX_FIFO_STATUS, SMBUS_REG_CTLR_RX_FIFO), (SMBUS_REG_TGT_RX_FIFO_STATUS, SMBUS_REG_TGT_RX_FIFO)}"
    for st pl
    using that
    by (auto simp: empties_def demo_smbus_def xSMBusProfile_def register_address_def demo_in_def read_ticks_def
      smbus_regs split: if_splits)
  then show ?thesis by (auto simp: receive_fifos_empty_def)
qed


text \<open>On that device the driver can be initialised; with the log off, only the world changes.\<close>

definition on_demo :: "nat smbus \<Rightarrow> bool" where
  "on_demo s \<longleftrightarrow> in32 s = demo_in \<and> out32 s = (\<lambda>_ _ w. w) \<and> pvBaseAddress s = 4096 \<and> xLogLevel s = SMBUS_LOG_LEVEL_NONE"

lemma demo_log:
  "xLogLevel s = SMBUS_LOG_LEVEL_NONE \<Longrightarrow> add_log SMBUS_LOG_LEVEL_DEBUG n ev e1 e2 s = Some s"
  "xLogLevel s = SMBUS_LOG_LEVEL_NONE \<Longrightarrow> add_log SMBUS_LOG_LEVEL_INFO n ev e1 e2 s = Some s"
  by (simp_all add: add_log_def vLogAddEntry_def)

lemma demo_read:
  assumes "on_demo s"
  shows "prvulSMBusHardwareRead off s = (let (v, w) = demo_in (4096 + 4 * ucast (off div 4)) (world s) in Some (v, s\<lparr>world := w\<rparr>))"
  using assms
  by (simp add: prvulSMBusHardwareRead_def prvulSMBusIn32_def on_demo_def demo_log register_address_def split_def Let_def)



lemma demo_fields [simp]:
  "on_demo (s\<lparr>world := w\<rparr>) = on_demo s" "on_demo (upd i f s) = on_demo s"
  "on_demo (s\<lparr>ucInstanceInPlay := k, ulTransactionID := n\<rparr>) = on_demo s" "on_demo (s\<lparr>ulInitialize := m\<rparr>) = on_demo s"
  by (simp_all add: on_demo_def upd_def)


lemma raw_world [simp]: "raw (s\<lparr>world := w\<rparr>) = raw s"
  by (simp add: raw_def log_shape_def)









lemma runv_if: "(b \<Longrightarrow> runv P x) \<Longrightarrow> (\<not> b \<Longrightarrow> runv P y) \<Longrightarrow> runv P (if b then x else y)"
  by simp




section \<open>Life of an instance\<close>

text \<open>What a function of the interface does to a typed state whose firewalls are intact.\<close>

lemma interface_runs:
  assumes "driver_typed s"
  shows "on_profile r (guarded line r f) (Some s) = (do { (q, s) \<leftarrow> f s; Some (q, Some s) })"
  using typed_checks[OF assms] by (simp add: on_profile_def guarded_def)










section \<open>Recovery\<close>

lemma ended_inst:
  assumes "quiet (ended i (noted i e s)) r" "shape s" "i < SMBUS_NUMBER_OF_SMBUS_INSTANCES"
  shows "inst r i = (reset_transaction (inst s i))\<lparr>ulAction := 0, ucEvent := e,
      xPreviousState := xState (inst s i), xState := SMBUS_STATE_INITIAL\<rparr>"
    "j \<noteq> i \<Longrightarrow> inst r j = inst s j"
    "ucInstanceInPlay r = (if ucThisInstanceNumber (inst s i) = ucInstanceInPlay s then SMBUS_INVALID_INSTANCE
       else ucInstanceInPlay s)"
proof -
  have i: "i < length (xSMBusInstance s)" using assms(2,3) by (simp add: shape_def)
  have r: "xSMBusInstance r = xSMBusInstance (ended i (noted i e s))"
    "ucInstanceInPlay r = ucInstanceInPlay (ended i (noted i e s))"
    using assms(1) by (simp_all add: quiet_def)
  show "inst r i = (reset_transaction (inst s i))\<lparr>ulAction := 0, ucEvent := e,
      xPreviousState := xState (inst s i), xState := SMBUS_STATE_INITIAL\<rparr>"
    "j \<noteq> i \<Longrightarrow> inst r j = inst s j"
    "ucInstanceInPlay r = (if ucThisInstanceNumber (inst s i) = ucInstanceInPlay s then SMBUS_INVALID_INSTANCE
       else ucInstanceInPlay s)"
    using i by (simp_all add: r ended_def noted_def bus_released_def vSMBusNextStateDecoder_def upd_def reset_transaction_def)
qed

text \<open>
  C8: Every bus error ends the transaction. In whichever state an instance is, when one of the
  22 error events of the target or the controller reaches its state machine and the receive
  FIFOs of the device can be emptied, the machine returns; the instance is back in its initial
  state, its command, protocol, sizes and indices are reset, a controller gives up the bus, and
  no other instance has changed.
\<close>

theorem smbus_bus_error_recovers:
  assumes "e \<in> set (target_error_events @ controller_error_events)" "shape s" "receive_fifos_empty s"
    "i < SMBUS_NUMBER_OF_SMBUS_INSTANCES"
  shows "\<exists>r. vSMBusFSM i e s = Some r \<and> shape r \<and> xState (inst r i) = SMBUS_STATE_INITIAL
    \<and> ucCommand (inst r i) = SMBUS_COMMAND_INVALID \<and> xProtocol (inst r i) = SMBUS_PROTOCOL_NONE
    \<and> usSendDataSize (inst r i) = 0 \<and> usSendIndex (inst r i) = 0 \<and> usReceiveIndex (inst r i) = 0
    \<and> usExpectedByteCount (inst r i) = 0 \<and> usDescriptorsSent (inst r i) = 0
    \<and> ucNackSent (inst r i) = SMBUS_FALSE \<and> ucPECSent (inst r i) = SMBUS_FALSE
    \<and> (ucThisInstanceNumber (inst s i) = ucInstanceInPlay s \<longrightarrow> ucInstanceInPlay r = SMBUS_INVALID_INSTANCE)
    \<and> (\<forall>j. j \<noteq> i \<longrightarrow> inst r j = inst s j)"
proof -
  obtain r where r: "vSMBusFSM i e s = Some r" "quiet (ended i (noted i e s)) r"
    using machine_error_returns[of e s i] assms by (auto simp: runs_def bus_error_events_def)
  show ?thesis
    using r(1) quiet_shape[OF r(2)] ended_inst[OF r(2) assms(2,4)]
    by (intro exI[of _ r]) (simp add: reset_transaction_def)
qed

theorem smbus_bus_error_recovers_witness:
  "\<exists>r. vSMBusFSM 2 E_TARGET_PEC_ERROR_IRQ demo_smbus = Some r \<and> xState (inst r 2) = SMBUS_STATE_INITIAL"
proof -
  have "shape demo_smbus" using demo_typed by (simp add: driver_typed_def)
  then show ?thesis
    using smbus_bus_error_recovers[OF _ _ demo_empties, of E_TARGET_PEC_ERROR_IRQ 2]
    by (auto simp: smbus_bus_events smbus_sizes)
qed

section \<open>Exclusive use of the bus\<close>

lemma line_returns: "quiet s0 s \<Longrightarrow> runv (quiet s0) (line_held_low s)"
  unfolding line_held_low_def smbus_readers
  by (rule runs_bind(3)[where P = "quiet s0"] runv_some runv_if returns | assumption)+

lemma refused_returns: "quiet s0 s \<Longrightarrow> runs (quiet s0) (log_refused line s)"
  unfolding log_refused_def by (rule returns)

lemma busy_line:
  assumes "driver_typed s" "ucInstanceInPlay s \<noteq> SMBUS_INVALID_INSTANCE"
  obtains low s1 s2 where "line_held_low s = Some (low, s1)" "quiet s s1" "\<not> controller_free i s1"
    "log_refused line s1 = Some s2" "quiet s s2"
proof -
  have q: "quiet s s" using assms(1) by (simp add: driver_typed_def quiet_refl)
  obtain low s1 where s1: "line_held_low s = Some (low, s1)" "quiet s s1"
    using line_returns[OF q] by (auto simp: runv_def)
  obtain s2 where s2: "log_refused line s1 = Some s2" "quiet s s2"
    using refused_returns[OF s1(2)] by (auto simp: runs_def)
  have "\<not> controller_free i s1" using s1(2) assms(2) by (auto simp: controller_free_def quiet_def)
  then show ?thesis using that s1 s2 by blast
qed

text \<open>
  A driver whose bus is held by instance \<open>k\<close>, which is not in use, with no event left in the
  queues of the instances that are.
\<close>

definition queues_served :: "'w smbus \<Rightarrow> bool" where
  "queues_served s \<longleftrightarrow> (\<forall>i < SMBUS_NUMBER_OF_SMBUS_INSTANCES. ucInstanceInUse (inst s i) = SMBUS_TRUE
     \<longrightarrow> evb_rep [] (xEventSourceCircularBuffer (inst s i)))"

definition held :: "u8 \<Rightarrow> u32 \<Rightarrow> 'w smbus \<Rightarrow> bool" where
  "held k n s \<longleftrightarrow> driver_typed s \<and> queues_served s \<and> ucInstanceInUse (inst s (unat k)) \<noteq> SMBUS_TRUE
     \<and> ucInstanceInPlay s = k \<and> ulTransactionID s = n"

lemma held_quiet: "held k n s \<Longrightarrow> quiet s r \<Longrightarrow> held k n r"
  using typed_kept[of s r] by (auto simp: held_def queues_served_def quiet_def kept_def settings_def)

lemma held_writes: "held k n s \<Longrightarrow> runs (held k n) (prvvSMBusHardwareWrite off v s)"
  using write_returns[of s s off v] quiet_refl[of s] held_quiet[of k n s]
  by (auto simp: runs_def held_def driver_typed_def)

lemma held_upd:
  assumes "held k n s" "i < SMBUS_NUMBER_OF_SMBUS_INSTANCES" "inst_shape (inst s i) \<Longrightarrow> inst_shape (f (inst s i))"
    "good i (inst s i) \<Longrightarrow> good i (f (inst s i))" "ucInstanceInUse (f (inst s i)) = ucInstanceInUse (inst s i)"
    "i = unat k"
  shows "held k n (upd i f s)"
  using assms typed_upd[of s i f]
  by (auto simp: held_def queues_served_def upd_def nth_list_update driver_typed_def shape_def)

lemma held_raise:
  assumes "held k n s" "i < SMBUS_NUMBER_OF_SMBUS_INSTANCES" "i = unat k"
  shows "runs (held k n) (raise_event vSMBusGenerateEvent_E_SEND_NEXT_BYTE i s)"
proof -
  let ?b = "xEventSourceCircularBuffer (inst s i)"
  have sh: "shape s" "evb_ok ?b"
    using assms by (auto simp: held_def driver_typed_def shape_def inst_shape_def)
  then obtain st c pos where c: "ucEventBufferTryWrite (Some ?b) E_SEND_NEXT_BYTE (Some 0) = Some (st, Some c, pos)" "evb_ok c"
    using evb_enq_law[of ?b E_SEND_NEXT_BYTE]
    by (auto simp: evb_ok_def evb_enq_def bind_eq_Some_conv)
  obtain s' where s': "add_log SMBUS_LOG_LEVEL_ERROR (ucast (ucThisInstanceNumber (inst s i))) SMBUS_LOG_EVENT_ERROR
      (ucast E_SEND_NEXT_BYTE) 91 s = Some s'" "quiet s s'"
    using add_log_world[OF sh(1)] by blast
  have log: "\<exists>r w. vLogAddEntry (Some s) SMBUS_LOG_LEVEL_ERROR (ucast (ucThisInstanceNumber (inst s i))) SMBUS_LOG_EVENT_ERROR
      (ucast E_SEND_NEXT_BYTE) 91 (world s) = Some (Some r, w) \<and> s' = r\<lparr>world := w\<rparr>"
    using s'(1) by (auto simp: add_log_def split: option.splits prod.splits)
  obtain t r w where g: "vSMBusGenerateEvent_E_SEND_NEXT_BYTE (Some (inst s i)) (Some s) (world s)
      = Some (Some ((inst s i)\<lparr>xEventSourceCircularBuffer := c, ucTriggerFSM := t\<rparr>), Some r, w)"
      "quiet s (r\<lparr>world := w\<rparr>)"
    using c(1) log s'(2) quiet_refl[OF sh(1)]
    by (cases "st = SMBUS_EVENT_BUFFER_FAIL") (auto simp: vSMBusGenerateEvent_E_SEND_NEXT_BYTE_def trigger_fsm_def vSMBusCreateEvent_def)
  have h: "held k n (r\<lparr>world := w\<rparr>)" using held_quiet[OF assms(1) g(2)] .
  have "inst (r\<lparr>world := w\<rparr>) i = inst s i" using g(2) by (simp add: quiet_def)
  then have "held k n (upd i (\<lambda>_. (inst s i)\<lparr>xEventSourceCircularBuffer := c, ucTriggerFSM := t\<rparr>) (r\<lparr>world := w\<rparr>))"
    using c(2) by (intro held_upd[OF h assms(2) _ _ _ assms(3)]) (simp_all add: inst_shape_def good_def firewalls_intact_def)
  then show ?thesis using g(1) by (simp add: raise_event_def runs_def)
qed

lemma served_queue:
  assumes "evb_rep [] (xEventSourceCircularBuffer (inst s i))"
  shows "handle_events i s = Some s"
proof -
  have "next_event i s = Some (None, s)"
    using evb_read_empty[OF assms, of 0 0] by (simp add: next_event_def upd_def smbus_values)
  then show ?thesis by (subst handle_events.simps) simp
qed

lemma held_queue: "queues_served s \<Longrightarrow> vSMBusEventQueueHandle s = Some s"
proof -
  assume h: "queues_served s"
  have "for_each (\<lambda>i s. if SMBUS_TRUE = ucInstanceInUse (inst s i) then handle_events i s else Some s) is s = Some s"
    if "\<forall>i \<in> set is. i < SMBUS_NUMBER_OF_SMBUS_INSTANCES" for "is"
    using that h by (induction "is") (auto simp: queues_served_def served_queue)
  then show ?thesis by (simp add: vSMBusEventQueueHandle_def)
qed

lemma held_start:
  assumes "held k n s" "i < SMBUS_NUMBER_OF_SMBUS_INSTANCES" "i = unat k"
  shows "runs (held k n) (start_transaction i s)"
proof -
  have q: "runs (held k n) (vSMBusEventQueueHandle s)" if "held k n s" for s :: "'a smbus"
    using held_queue[of s] that by (simp add: runs_def held_def)
  show ?thesis
    unfolding start_transaction_def smbus_writers
    by (rule runs_bind(1)[where P = "held k n"] held_writes held_raise[OF _ assms(2,3)] q assms(1) | assumption)+
qed

text \<open>
  C13: One controller at a time. While a transaction of any instance is in play, the driver
  starts no other: the request returns an error, whatever it asks for, and every instance, the
  transaction in play, and the counter of transactions are as before. Only the log and the
  registers that were read differ.
\<close>

theorem smbus_busy_controller_refuses:
  assumes "driver_typed s" "ucInstanceInPlay s \<noteq> SMBUS_INVALID_INSTANCE"
  shows "(\<exists>r. xSMBusControllerInitiateCommand idx dest c proto n data pec tid (Some s) = Some ((SMBUS_ERROR, tid), Some r)
       \<and> xSMBusInstance r = xSMBusInstance s \<and> ucInstanceInPlay r = ucInstanceInPlay s
       \<and> ulTransactionID r = ulTransactionID s)
     \<and> ucI2CWriteData idx dest data n (Some s) = Some (SMBUS_ERROR, Some s)
     \<and> ucI2CReadData idx dest n (Some s) = Some (SMBUS_ERROR, Some s)
     \<and> ucI2CWriteReadData idx dest data n m (Some s) = Some (SMBUS_ERROR, Some s)"
proof -
  have q: "quiet s s" using assms(1) by (simp add: driver_typed_def quiet_refl)
  have i2c: "ucI2CWriteData idx dest data n (Some s) = Some (SMBUS_ERROR, Some s)"
    "ucI2CReadData idx dest n (Some s) = Some (SMBUS_ERROR, Some s)"
    "ucI2CWriteReadData idx dest data n m (Some s) = Some (SMBUS_ERROR, Some s)"
    using assms(2)
    by (auto simp: ucI2CWriteData_def ucI2CReadData_def ucI2CWriteReadData_def interface_runs[OF assms(1)]
      controller_free_def split: option.split)
  obtain low s1 s2 where l: "line_held_low s = Some (low, s1)" "quiet s s1" "\<not> controller_free (unat idx) s1"
      "log_refused 897 s1 = Some s2" "quiet s s2"
    using busy_line[OF assms] by blast
  have "\<exists>r. quiet s r \<and>
      xSMBusControllerInitiateCommand idx dest c proto n data pec tid (Some s) = Some ((SMBUS_ERROR, tid), Some r)"
    using l q by (cases low; cases data) (auto simp: xSMBusControllerInitiateCommand_def interface_runs[OF assms(1)])
  then show ?thesis using i2c by (auto simp: quiet_def kept_def settings_def)
qed

theorem smbus_busy_controller_refuses_witness:
  "ucI2CReadData 1 80 4 (Some (demo_smbus\<lparr>ucInstanceInPlay := 2\<rparr>))
     = Some (SMBUS_ERROR, Some (demo_smbus\<lparr>ucInstanceInPlay := 2\<rparr>))"
  using smbus_busy_controller_refuses[of "demo_smbus\<lparr>ucInstanceInPlay := 2\<rparr>"] demo_typed
  by (simp add: SMBUS_INVALID_INSTANCE_def)

lemma last_index: "idx \<le> SMBUS_LAST_NON_ARP_SMBUS_INSTANCE \<Longrightarrow> unat idx < SMBUS_NUMBER_OF_SMBUS_INSTANCES"
  by (rule instance_indices(3))

lemma unused_read_starts:
  assumes "driver_typed s" "ucInstanceInUse (inst s (unat idx)) \<noteq> SMBUS_TRUE" "queues_served s"
    "controller_free (unat idx) s" "idx \<le> SMBUS_LAST_NON_ARP_SMBUS_INSTANCE" "unat n \<le> SMBUS_DATA_SIZE_MAX"
  shows "\<exists>r. ucI2CReadData idx addr n (Some s) = Some (SMBUS_SUCCESS, Some r) \<and> held idx (ulTransactionID s) r"
proof -
  let ?s = "upd (unat idx) (\<lambda>x. x\<lparr>usExpectedByteCount := n, xProtocol := I2C_PROTOCOL_READ,
               ucSMBusDestinationAddress := addr\<rparr>) (s\<lparr>ucInstanceInPlay := idx\<rparr>)"
  have "held idx (ulTransactionID s) (s\<lparr>ucInstanceInPlay := idx\<rparr>)"
    using assms(1-3) by (simp add: held_def queues_served_def)
  then have "held idx (ulTransactionID s) ?s"
    by (rule held_upd) (simp_all add: last_index[OF assms(5)] inst_shape_def good_def firewalls_intact_def)
  from held_start[OF this last_index[OF assms(5)] refl] show ?thesis
    using assms(4-6) by (auto simp: ucI2CReadData_def interface_runs[OF assms(1)] runs_def Let_def)
qed

lemma demo_free:
  "controller_free 1 demo_smbus" "ucInstanceInUse (inst demo_smbus 1) \<noteq> SMBUS_TRUE" "queues_served demo_smbus"
  by (auto simp: queues_served_def controller_free_def demo_smbus_def xSMBusProfile_def zero_instance_def set_firewalls_def
    smbus_values smbus_sizes)

text \<open>
  C37: The transfers of I2C ask whether the bus is free, and the read does not ask whether the
  instance is in use. On an instance that is not in use it is accepted when the bus is free
  and the instances in use have no event to serve: the function returns success, the event
  queue, which serves instances in use only, sends nothing, and the bus stays taken by the
  unused instance, so that every later read of any instance is refused.
\<close>

theorem smbus_unused_read_takes_bus:
  assumes "driver_typed s" "ucInstanceInUse (inst s (unat idx)) \<noteq> SMBUS_TRUE" "queues_served s"
    "controller_free (unat idx) s" "idx \<le> SMBUS_LAST_NON_ARP_SMBUS_INSTANCE" "unat n \<le> SMBUS_DATA_SIZE_MAX"
  shows "\<exists>r. ucI2CReadData idx addr n (Some s) = Some (SMBUS_SUCCESS, Some r)
    \<and> driver_typed r \<and> ucInstanceInPlay r = idx \<and> vSMBusEventQueueHandle r = Some r
    \<and> (\<forall>k a m. ucI2CReadData k a m (Some r) = Some (SMBUS_ERROR, Some r))"
proof -
  obtain r where r: "ucI2CReadData idx addr n (Some s) = Some (SMBUS_SUCCESS, Some r)" "held idx (ulTransactionID s) r"
    using unused_read_starts[OF assms] by blast
  have "ucInstanceInPlay r \<noteq> SMBUS_INVALID_INSTANCE" "driver_typed r" "ucInstanceInPlay r = idx"
    using r(2) assms(5) by (auto simp: held_def SMBUS_INVALID_INSTANCE_def SMBUS_LAST_NON_ARP_SMBUS_INSTANCE_def
      SMBUS_LAST_SMBUS_INSTANCE_def)
  then show ?thesis
    using r held_queue[of r]
    by (auto simp: ucI2CReadData_def interface_runs controller_free_def held_def)
qed

theorem smbus_unused_read_takes_bus_witness:
  "\<exists>r. ucI2CReadData 1 80 4 (Some demo_smbus) = Some (SMBUS_SUCCESS, Some r) \<and> ucInstanceInPlay r = 1"
  using smbus_unused_read_takes_bus[OF demo_typed _ demo_free(3), of 1 4 80] demo_free(1,2)
  by (auto simp: SMBUS_LAST_NON_ARP_SMBUS_INSTANCE_def SMBUS_LAST_SMBUS_INSTANCE_def smbus_sizes)

section \<open>Transaction numbers\<close>

lemma start_kept: "kept s0 s \<Longrightarrow> oks (kept s0) (start_transaction i s)"
  unfolding start_transaction_def smbus_writers by (rule keeps | assumption)+

text \<open>
  A request that the driver accepts found the bus free and the instance at rest. The number
  returned is the value of the counter, which is then one further, so two accepted requests
  get different numbers until the counter of 32 bits wraps.
\<close>

theorem smbus_transaction_numbers:
  assumes "driver_typed s"
    "xSMBusControllerInitiateCommand idx dest c proto n data pec tid (Some s) = Some ((SMBUS_SUCCESS, t), Some r)"
  shows "ucInstanceInPlay s = SMBUS_INVALID_INSTANCE \<and> xState (inst s (unat idx)) = SMBUS_STATE_INITIAL
    \<and> t = Some (ulTransactionID s) \<and> ulTransactionID r = ulTransactionID s + 1 \<and> driver_typed r"
proof -
  let ?i = "unat idx"
  obtain low s1 bytes d s2 where l: "line_held_low s = Some (low, s1)" "controller_free ?i s1"
      "t = Some (ulTransactionID s1)"
      "start_transaction ?i s2 = Some r" "idx \<le> SMBUS_LAST_NON_ARP_SMBUS_INSTANCE"
      "copy_to bytes (unat n) (ucSendData (inst s1 ?i)) = Some d"
      "s2 = upd ?i (\<lambda>x. x\<lparr>ucSendData := d, usSendDataSize := n, usSendIndex := 0,
                 ucCommand := directed_command proto c, xProtocol := proto,
                 ucSMBusDestinationAddress := dest, ucPecRequiredForTransaction := pec\<rparr>)
         (s1\<lparr>ulTransactionID := ulTransactionID s1 + 1, ucInstanceInPlay := idx\<rparr>)"
    using assms(2)
    by (auto simp: xSMBusControllerInitiateCommand_def interface_runs[OF assms(1)] bind_eq_Some_conv Let_def
      split: option.splits if_splits)
  have q: "quiet s s1"
    using line_returns[of s s] l(1) assms(1) by (auto simp: runv_def driver_typed_def quiet_refl)
  have t1: "driver_typed s1" using typed_kept[OF assms(1)] q by (simp add: quiet_def)
  then have "driver_typed s2"
    unfolding l(7) by (intro typed_upd) (auto simp: inst_shape_def good_def firewalls_intact_def copy_length[OF l(6)])
  then have "kept s2 r" using start_kept[of s2 s2 ?i] l(4) by (auto simp: oks_def typed_refl)
  then have "ulTransactionID r = ulTransactionID s1 + 1" "driver_typed r"
    using typed_kept[OF \<open>driver_typed s2\<close>] by (auto simp: kept_def settings_def l(7) upd_def)
  then show ?thesis using q l(2,3) by (auto simp: quiet_def kept_def settings_def controller_free_def)
qed

lemma demo_line: "line_held_low demo_smbus = Some (False, demo_smbus)"
proof -
  have "on_demo demo_smbus" by (simp add: on_demo_def demo_smbus_def xSMBusProfile_def)
  then show ?thesis
    by (simp add: line_held_low_def smbus_readers demo_read demo_in_def smbus_regs
      SMBUS_SMBCLK_LOW_TIMEOUT_DETECTED_def SMBUS_SMBDAT_LOW_TIMEOUT_DETECTED_def)
qed

theorem smbus_transaction_numbers_witness:
  "\<exists>r. xSMBusControllerInitiateCommand 1 80 7 SMBUS_PROTOCOL_QUICK_COMMAND_HI 0 (Some []) SMBUS_FALSE (Some 5) (Some demo_smbus)
      = Some ((SMBUS_SUCCESS, Some 0), Some r) \<and> ulTransactionID r = 1"
proof -
  let ?s = "upd 1 (\<lambda>x. x\<lparr>ucSendData := ucSendData (inst demo_smbus 1), usSendDataSize := 0, usSendIndex := 0,
      ucCommand := 7, xProtocol := SMBUS_PROTOCOL_QUICK_COMMAND_HI, ucSMBusDestinationAddress := 80,
      ucPecRequiredForTransaction := SMBUS_FALSE\<rparr>) (demo_smbus\<lparr>ulTransactionID := 1, ucInstanceInPlay := 1\<rparr>)"
  have z: "ulTransactionID demo_smbus = 0" by (simp add: demo_smbus_def xSMBusProfile_def)
  have "held 1 1 (demo_smbus\<lparr>ulTransactionID := 1, ucInstanceInPlay := 1\<rparr>)"
    using demo_typed demo_free(2,3) by (simp add: held_def queues_served_def)
  then have "held 1 1 ?s"
    by (rule held_upd) (simp_all add: smbus_sizes inst_shape_def good_def firewalls_intact_def)
  then obtain r where r: "start_transaction 1 ?s = Some r"
    using held_start[of 1 1 ?s 1] by (auto simp: runs_def smbus_sizes)
  have call: "xSMBusControllerInitiateCommand 1 80 7 SMBUS_PROTOCOL_QUICK_COMMAND_HI 0 (Some []) SMBUS_FALSE (Some 5) (Some demo_smbus)
      = Some ((SMBUS_SUCCESS, Some 0), Some r)"
    using r demo_free(1) z
    by (simp add: xSMBusControllerInitiateCommand_def interface_runs[OF demo_typed] demo_line copy_to_def
      directed_command_def Let_def SMBUS_LAST_NON_ARP_SMBUS_INSTANCE_def SMBUS_LAST_SMBUS_INSTANCE_def smbus_values)
  have "ulTransactionID r = 1" using smbus_transaction_numbers[OF demo_typed call] z by simp
  then show ?thesis using call by (intro exI conjI)
qed

section \<open>Get UDID\<close>

text \<open>
  C18: Of the instances that may answer Get UDID, the one chosen has the smallest UDID, read as a
  number of 128 bits, as the arbitration of the address resolution protocol requires: with
  fewer candidates than the seven entries of the array, sorting and narrowing byte by byte
  returns, stays within the array, and leaves in front a candidate no other is smaller than.
\<close>

theorem smbus_smallest_udid_answers:
  assumes "0 < n" "n < length ids"
  shows "\<exists>n' ids'. narrow_udids s 16 n ids = Some (n', ids') \<and> ids' ! 0 \<in> set (take n ids)
    \<and> (\<forall>c \<in> set (take n ids). udid_number s 16 (ids' ! 0) \<le> udid_number s 16 c)"
  using narrow_least[OF assms] .

definition demo_udids :: "nat smbus" where
  "demo_udids = demo_smbus\<lparr>xSMBusInstance := map (\<lambda>b. zero_instance\<lparr>ucUDID := replicate 15 1 @ [b]\<rparr>) [9, 4, 7, 4, 5, 6, 8, 8]\<rparr>"

theorem smbus_smallest_udid_answers_witness:
  "\<exists>n' ids'. narrow_udids demo_udids 16 3 [0, 1, 2, 0, 0, 0, 0] = Some (n', ids') \<and> ids' ! 0 = 1"
proof -
  obtain n' ids' where r: "narrow_udids demo_udids 16 3 [0, 1, 2, 0, 0, 0, 0] = Some (n', ids')"
      "ids' ! 0 \<in> {0, 1, 2}" "\<forall>c \<in> {0, 1, 2}. udid_number demo_udids 16 (ids' ! 0) \<le> udid_number demo_udids 16 c"
    using smbus_smallest_udid_answers[of 3 "[0, 1, 2, 0, 0, 0, 0]" demo_udids] by (auto simp: numeral_3_eq_3)
  have "udid_number demo_udids 16 1 < udid_number demo_udids 16 0" "udid_number demo_udids 16 1 < udid_number demo_udids 16 2"
    using udid_number_less[where b = 15 and s = demo_udids and k = 1] by (simp_all add: demo_udids_def nth_append)
  then have "ids' ! 0 = 1" using r(2,3) by auto
  then show ?thesis using r(1) by blast
qed

end
