(* ===== verification/Crc.thy ===== *)
theory Crc
  imports Prelude
begin

text \<open>
  The check sums of the PLDM messages, pldm_processor.c: the table-driven CRC-32 and CRC-8,
  their equivalence with the bit-serial definition of the two codes, and what a receiver may
  conclude from them. \<open>unsigned long\<close> is 32 bits wide on the target.
\<close>

section \<open>The code\<close>

definition CRCTable32 :: "u32 list" where
  "CRCTable32 =
    [0x00000000, 0x77073096, 0xEE0E612C, 0x990951BA, 0x076DC419, 0x706AF48F,
     0xE963A535, 0x9E6495A3, 0x0EDB8832, 0x79DCB8A4, 0xE0D5E91E, 0x97D2D988,
     0x09B64C2B, 0x7EB17CBD, 0xE7B82D07, 0x90BF1D91, 0x1DB71064, 0x6AB020F2,
     0xF3B97148, 0x84BE41DE, 0x1ADAD47D, 0x6DDDE4EB, 0xF4D4B551, 0x83D385C7,
     0x136C9856, 0x646BA8C0, 0xFD62F97A, 0x8A65C9EC, 0x14015C4F, 0x63066CD9,
     0xFA0F3D63, 0x8D080DF5, 0x3B6E20C8, 0x4C69105E, 0xD56041E4, 0xA2677172,
     0x3C03E4D1, 0x4B04D447, 0xD20D85FD, 0xA50AB56B, 0x35B5A8FA, 0x42B2986C,
     0xDBBBC9D6, 0xACBCF940, 0x32D86CE3, 0x45DF5C75, 0xDCD60DCF, 0xABD13D59,
     0x26D930AC, 0x51DE003A, 0xC8D75180, 0xBFD06116, 0x21B4F4B5, 0x56B3C423,
     0xCFBA9599, 0xB8BDA50F, 0x2802B89E, 0x5F058808, 0xC60CD9B2, 0xB10BE924,
     0x2F6F7C87, 0x58684C11, 0xC1611DAB, 0xB6662D3D, 0x76DC4190, 0x01DB7106,
     0x98D220BC, 0xEFD5102A, 0x71B18589, 0x06B6B51F, 0x9FBFE4A5, 0xE8B8D433,
     0x7807C9A2, 0x0F00F934, 0x9609A88E, 0xE10E9818, 0x7F6A0DBB, 0x086D3D2D,
     0x91646C97, 0xE6635C01, 0x6B6B51F4, 0x1C6C6162, 0x856530D8, 0xF262004E,
     0x6C0695ED, 0x1B01A57B, 0x8208F4C1, 0xF50FC457, 0x65B0D9C6, 0x12B7E950,
     0x8BBEB8EA, 0xFCB9887C, 0x62DD1DDF, 0x15DA2D49, 0x8CD37CF3, 0xFBD44C65,
     0x4DB26158, 0x3AB551CE, 0xA3BC0074, 0xD4BB30E2, 0x4ADFA541, 0x3DD895D7,
     0xA4D1C46D, 0xD3D6F4FB, 0x4369E96A, 0x346ED9FC, 0xAD678846, 0xDA60B8D0,
     0x44042D73, 0x33031DE5, 0xAA0A4C5F, 0xDD0D7CC9, 0x5005713C, 0x270241AA,
     0xBE0B1010, 0xC90C2086, 0x5768B525, 0x206F85B3, 0xB966D409, 0xCE61E49F,
     0x5EDEF90E, 0x29D9C998, 0xB0D09822, 0xC7D7A8B4, 0x59B33D17, 0x2EB40D81,
     0xB7BD5C3B, 0xC0BA6CAD, 0xEDB88320, 0x9ABFB3B6, 0x03B6E20C, 0x74B1D29A,
     0xEAD54739, 0x9DD277AF, 0x04DB2615, 0x73DC1683, 0xE3630B12, 0x94643B84,
     0x0D6D6A3E, 0x7A6A5AA8, 0xE40ECF0B, 0x9309FF9D, 0x0A00AE27, 0x7D079EB1,
     0xF00F9344, 0x8708A3D2, 0x1E01F268, 0x6906C2FE, 0xF762575D, 0x806567CB,
     0x196C3671, 0x6E6B06E7, 0xFED41B76, 0x89D32BE0, 0x10DA7A5A, 0x67DD4ACC,
     0xF9B9DF6F, 0x8EBEEFF9, 0x17B7BE43, 0x60B08ED5, 0xD6D6A3E8, 0xA1D1937E,
     0x38D8C2C4, 0x4FDFF252, 0xD1BB67F1, 0xA6BC5767, 0x3FB506DD, 0x48B2364B,
     0xD80D2BDA, 0xAF0A1B4C, 0x36034AF6, 0x41047A60, 0xDF60EFC3, 0xA867DF55,
     0x316E8EEF, 0x4669BE79, 0xCB61B38C, 0xBC66831A, 0x256FD2A0, 0x5268E236,
     0xCC0C7795, 0xBB0B4703, 0x220216B9, 0x5505262F, 0xC5BA3BBE, 0xB2BD0B28,
     0x2BB45A92, 0x5CB36A04, 0xC2D7FFA7, 0xB5D0CF31, 0x2CD99E8B, 0x5BDEAE1D,
     0x9B64C2B0, 0xEC63F226, 0x756AA39C, 0x026D930A, 0x9C0906A9, 0xEB0E363F,
     0x72076785, 0x05005713, 0x95BF4A82, 0xE2B87A14, 0x7BB12BAE, 0x0CB61B38,
     0x92D28E9B, 0xE5D5BE0D, 0x7CDCEFB7, 0x0BDBDF21, 0x86D3D2D4, 0xF1D4E242,
     0x68DDB3F8, 0x1FDA836E, 0x81BE16CD, 0xF6B9265B, 0x6FB077E1, 0x18B74777,
     0x88085AE6, 0xFF0F6A70, 0x66063BCA, 0x11010B5C, 0x8F659EFF, 0xF862AE69,
     0x616BFFD3, 0x166CCF45, 0xA00AE278, 0xD70DD2EE, 0x4E048354, 0x3903B3C2,
     0xA7672661, 0xD06016F7, 0x4969474D, 0x3E6E77DB, 0xAED16A4A, 0xD9D65ADC,
     0x40DF0B66, 0x37D83BF0, 0xA9BCAE53, 0xDEBB9EC5, 0x47B2CF7F, 0x30B5FFE9,
     0xBDBDF21C, 0xCABAC28A, 0x53B39330, 0x24B4A3A6, 0xBAD03605, 0xCDD70693,
     0x54DE5729, 0x23D967BF, 0xB3667A2E, 0xC4614AB8, 0x5D681B02, 0x2A6F2B94,
     0xB40BBE37, 0xC30C8EA1, 0x5A05DF1B, 0x2D02EF8D]"

definition CRCTable8 :: "u8 list" where
  "CRCTable8 =
    [0x00, 0x07, 0x0E, 0x09, 0x1C, 0x1B, 0x12, 0x15,
     0x38, 0x3F, 0x36, 0x31, 0x24, 0x23, 0x2A, 0x2D,
     0x70, 0x77, 0x7E, 0x79, 0x6C, 0x6B, 0x62, 0x65,
     0x48, 0x4F, 0x46, 0x41, 0x54, 0x53, 0x5A, 0x5D,
     0xE0, 0xE7, 0xEE, 0xE9, 0xFC, 0xFB, 0xF2, 0xF5,
     0xD8, 0xDF, 0xD6, 0xD1, 0xC4, 0xC3, 0xCA, 0xCD,
     0x90, 0x97, 0x9E, 0x99, 0x8C, 0x8B, 0x82, 0x85,
     0xA8, 0xAF, 0xA6, 0xA1, 0xB4, 0xB3, 0xBA, 0xBD,
     0xC7, 0xC0, 0xC9, 0xCE, 0xDB, 0xDC, 0xD5, 0xD2,
     0xFF, 0xF8, 0xF1, 0xF6, 0xE3, 0xE4, 0xED, 0xEA,
     0xB7, 0xB0, 0xB9, 0xBE, 0xAB, 0xAC, 0xA5, 0xA2,
     0x8F, 0x88, 0x81, 0x86, 0x93, 0x94, 0x9D, 0x9A,
     0x27, 0x20, 0x29, 0x2E, 0x3B, 0x3C, 0x35, 0x32,
     0x1F, 0x18, 0x11, 0x16, 0x03, 0x04, 0x0D, 0x0A,
     0x57, 0x50, 0x59, 0x5E, 0x4B, 0x4C, 0x45, 0x42,
     0x6F, 0x68, 0x61, 0x66, 0x73, 0x74, 0x7D, 0x7A,
     0x89, 0x8E, 0x87, 0x80, 0x95, 0x92, 0x9B, 0x9C,
     0xB1, 0xB6, 0xBF, 0xB8, 0xAD, 0xAA, 0xA3, 0xA4,
     0xF9, 0xFE, 0xF7, 0xF0, 0xE5, 0xE2, 0xEB, 0xEC,
     0xC1, 0xC6, 0xCF, 0xC8, 0xDD, 0xDA, 0xD3, 0xD4,
     0x69, 0x6E, 0x67, 0x60, 0x75, 0x72, 0x7B, 0x7C,
     0x51, 0x56, 0x5F, 0x58, 0x4D, 0x4A, 0x43, 0x44,
     0x19, 0x1E, 0x17, 0x10, 0x05, 0x02, 0x0B, 0x0C,
     0x21, 0x26, 0x2F, 0x28, 0x3D, 0x3A, 0x33, 0x34,
     0x4E, 0x49, 0x40, 0x47, 0x52, 0x55, 0x5C, 0x5B,
     0x76, 0x71, 0x78, 0x7F, 0x6A, 0x6D, 0x64, 0x63,
     0x3E, 0x39, 0x30, 0x37, 0x22, 0x25, 0x2C, 0x2B,
     0x06, 0x01, 0x08, 0x0F, 0x1A, 0x1D, 0x14, 0x13,
     0xAE, 0xA9, 0xA0, 0xA7, 0xB2, 0xB5, 0xBC, 0xBB,
     0x96, 0x91, 0x98, 0x9F, 0x8A, 0x8D, 0x84, 0x83,
     0xDE, 0xD9, 0xD0, 0xD7, 0xC2, 0xC5, 0xCC, 0xCB,
     0xE6, 0xE1, 0xE8, 0xEF, 0xFA, 0xFD, 0xF4, 0xF3]"

definition ulGetCrc32 :: "u8 list \<Rightarrow> u32" where
  "ulGetCrc32 bytes =
     foldl (\<lambda>crc b. CRCTable32 ! unat ((crc XOR ucast b) AND 0xFF) XOR drop_bit 8 crc) 0xFFFFFFFF bytes
     XOR 0xFFFFFFFF"

definition ucGetCrc8 :: "u8 list \<Rightarrow> u8" where
  "ucGetCrc8 bytes = foldl (\<lambda>crc b. CRCTable8 ! unat (crc XOR b)) 0 bytes"

section \<open>Bit-serial reference\<close>

text \<open>The reflected polynomial 0xEDB88320 and the polynomial 0x07, one bit at a time.\<close>

definition crc32_bit :: "u32 \<Rightarrow> u32" where
  "crc32_bit c = (if bit c 0 then drop_bit 1 c XOR 0xEDB88320 else drop_bit 1 c)"

definition crc8_bit :: "u8 \<Rightarrow> u8" where
  "crc8_bit c = (if bit c 7 then push_bit 1 c XOR 0x07 else push_bit 1 c)"

definition crc32_byte :: "u32 \<Rightarrow> u8 \<Rightarrow> u32" where
  "crc32_byte c b = (crc32_bit ^^ 8) (c XOR ucast b)"

definition crc8_byte :: "u8 \<Rightarrow> u8 \<Rightarrow> u8" where
  "crc8_byte c b = (crc8_bit ^^ 8) (c XOR b)"

definition crc32_spec :: "u8 list \<Rightarrow> u32" where
  "crc32_spec bytes = NOT (foldl crc32_byte (- 1) bytes)"

definition crc8_spec :: "u8 list \<Rightarrow> u8" where
  "crc8_spec bytes = foldl crc8_byte 0 bytes"

text \<open>
  The tables hold the bit-serial steps of every byte: checked entry by entry on integers.
\<close>

definition crc32_int :: "int \<Rightarrow> int" where
  "crc32_int x = (if odd x then (x div 2) XOR 0xEDB88320 else x div 2)"

definition crc8_int :: "int \<Rightarrow> int" where
  "crc8_int x = (if 128 \<le> x then (2 * x - 256) XOR 7 else 2 * x)"

fun table_ok :: "(int \<Rightarrow> int) \<Rightarrow> int \<Rightarrow> int list \<Rightarrow> bool" where
  "table_ok f i [] = True"
| "table_ok f i (t # ts) = ((f ^^ 8) i = t \<and> table_ok f (i + 1) ts)"

lemma table_ok_cut:
  "table_ok f i (take n ts) \<Longrightarrow> table_ok f (i + int n) (drop n ts) \<Longrightarrow> table_ok f i ts"
proof (induction ts arbitrary: i n)
  case (Cons t ts)
  then show ?case by (cases n) (auto simp: algebra_simps)
qed simp

lemma table_ok_nth: "table_ok f i ts \<Longrightarrow> n < length ts \<Longrightarrow> ts ! n = (f ^^ 8) (i + int n)"
proof (induction ts arbitrary: i n)
  case (Cons t ts)
  then show ?case by (cases n) (auto simp: algebra_simps)
qed simp

lemma table32_0: "table_ok crc32_int 0 (map uint (take 64 CRCTable32))" by code_simp
lemma table32_1: "table_ok crc32_int 64 (map uint (take 64 (drop 64 CRCTable32)))" by code_simp
lemma table32_2: "table_ok crc32_int 128 (map uint (take 64 (drop 64 (drop 64 CRCTable32))))" by code_simp
lemma table32_3: "table_ok crc32_int 192 (map uint (drop 64 (drop 64 (drop 64 CRCTable32))))" by code_simp
lemma table8_all: "table_ok crc8_int 0 (map uint CRCTable8)" by code_simp

lemma table_length [simp]: "length CRCTable32 = 256" "length CRCTable8 = 256"
  by (simp_all add: CRCTable32_def CRCTable8_def)

lemma table32_ok: "table_ok crc32_int 0 (map uint CRCTable32)"
proof (rule table_ok_cut[of _ _ 64])
  show "table_ok crc32_int (0 + int 64) (drop 64 (map uint CRCTable32))"
  proof (rule table_ok_cut[of _ _ 64])
    show "table_ok crc32_int (0 + int 64 + int 64) (drop 64 (drop 64 (map uint CRCTable32)))"
      by (rule table_ok_cut[of _ _ 64])
        (use table32_2 table32_3 in \<open>simp_all only: take_map drop_map of_nat_numeral add_0
          numeral_plus_numeral add_num_simps\<close>)
  qed (use table32_1 in \<open>simp only: take_map drop_map of_nat_numeral add_0\<close>)
qed (use table32_0 in \<open>simp only: take_map drop_map\<close>)


lemma odd_uint: "odd (uint (c :: 'a::len word)) \<longleftrightarrow> bit c 0"
  using bit_uint_iff[of c 0] by (simp add: bit_0)

lemma crc32_bit_int: "uint (crc32_bit c) = crc32_int (uint c)"
  by (simp add: crc32_bit_def crc32_int_def unsigned_xor_eq unsigned_drop_bit_eq odd_uint drop_bit_Suc
     drop_bit_eq_div uint_div_distrib)

lemma double_mod_256:
  fixes u :: int
  assumes "0 \<le> u" "u < 256"
  shows "2 * u mod 256 = (if 128 \<le> u then 2 * u - 256 else 2 * u)"
proof (cases "128 \<le> u")
  case True
  have "2 * u mod 256 = (2 * u - 256 + 256) mod 256" by simp
  also have "\<dots> = (2 * u - 256) mod 256" by (rule mod_add_self2)
  also have "\<dots> = 2 * u - 256" using assms True by (intro mod_pos_pos_trivial) auto
  finally show ?thesis using True by simp
qed (use assms in \<open>simp add: mod_pos_pos_trivial\<close>)

lemma odd_div_128:
  fixes u :: int
  assumes "0 \<le> u" "u < 256"
  shows "odd (u div 128) \<longleftrightarrow> 128 \<le> u"
proof (cases "128 \<le> u")
  case True
  then have "u div 128 = 1" using assms by linarith
  then show ?thesis using True by simp
qed (use assms in \<open>simp add: div_pos_pos_trivial\<close>)

lemma crc8_bit_int: "uint (crc8_bit c) = crc8_int (uint c)"
proof -
  have range: "0 \<le> uint c" "uint c < 256" using uint_lt2p[of c] by simp_all
  have "bit c 7 \<longleftrightarrow> odd (uint c div 128)"
    using bit_uint_iff[of c 7] by (simp add: bit_iff_odd)
  also have "\<dots> \<longleftrightarrow> 128 \<le> uint c" by (rule odd_div_128[OF range])
  finally have top: "bit c 7 \<longleftrightarrow> 128 \<le> uint c" .
  have "uint (push_bit 1 c) = 2 * uint c mod 256"
    by (simp add: push_bit_eq_mult uint_word_ariths mult.commute)
  also have "\<dots> = (if 128 \<le> uint c then 2 * uint c - 256 else 2 * uint c)"
    by (rule double_mod_256[OF range])
  finally show ?thesis using top
    by (auto simp: crc8_bit_def crc8_int_def unsigned_xor_eq)
qed

lemma funpow_uint:
  fixes f :: "'a::len word \<Rightarrow> 'a word" and g :: "int \<Rightarrow> int"
  assumes "\<And>c. uint (f c) = g (uint c)"
  shows "uint ((f ^^ n) c) = (g ^^ n) (uint c)"
  by (induction n) (simp_all add: assms)

lemma table32_step: "n < 256 \<Longrightarrow> CRCTable32 ! n = (crc32_bit ^^ 8) (of_nat n)"
  using table_ok_nth[OF table32_ok, of n] funpow_uint[of crc32_bit crc32_int 8 "of_nat n", OF crc32_bit_int]
  by (simp add: word_uint_eq_iff unsigned_of_nat take_bit_nat_eq_self)

lemma table8_step: "n < 256 \<Longrightarrow> CRCTable8 ! n = (crc8_bit ^^ 8) (of_nat n)"
  using table_ok_nth[OF table8_all, of n] funpow_uint[of crc8_bit crc8_int 8 "of_nat n", OF crc8_bit_int]
  by (simp add: word_uint_eq_iff unsigned_of_nat take_bit_nat_eq_self)

section \<open>The code computes the reference\<close>

lemma crc32_bit_xor: "crc32_bit (a XOR b) = crc32_bit a XOR crc32_bit b"
  by (rule bit_word_eqI) (auto simp: crc32_bit_def bit_simps)

lemma crc32_bits_xor: "(crc32_bit ^^ n) (a XOR b) = (crc32_bit ^^ n) a XOR (crc32_bit ^^ n) b"
  by (induction n) (simp_all add: crc32_bit_xor)

lemma crc32_bits_high: "take_bit n c = 0 \<Longrightarrow> (crc32_bit ^^ n) c = drop_bit n c"
proof (induction n arbitrary: c)
  case (Suc n)
  have "bit (take_bit (Suc n) c) 0 = bit c 0" by (simp add: bit_take_bit_iff)
  then have "\<not> bit c 0" using Suc.prems by simp
  then have "crc32_bit c = drop_bit 1 c" by (simp add: crc32_bit_def)
  moreover have "drop_bit 1 (take_bit (Suc n) c) = take_bit n (drop_bit 1 c)"
    by (rule bit_word_eqI) (auto simp: bit_simps)
  then have "take_bit n (drop_bit 1 c) = 0" using Suc.prems by simp
  ultimately show ?case using Suc.IH[of "drop_bit 1 c"]
    by (simp only: funpow_Suc_right comp_apply) (simp del: drop_bit_eq_div add: drop_bit_drop_bit)
qed simp

lemma crc32_table_byte:
  "CRCTable32 ! unat ((crc XOR ucast b) AND 0xFF) XOR drop_bit 8 crc = crc32_byte crc b"
proof -
  let ?x = "crc XOR ucast b :: u32"
  have lo: "?x AND 0xFF = take_bit 8 ?x" by (simp add: take_bit_eq_mask mask_eq_exp_minus_1)
  have "unat (take_bit 8 ?x) < 256" by (simp only: unsigned_take_bit_eq) (simp only: take_bit_eq_mod, simp)
  then have "unat (?x AND 0xFF) < 256" by (simp only: lo)
  then have "CRCTable32 ! unat (?x AND 0xFF) = (crc32_bit ^^ 8) (?x AND 0xFF)"
    by (subst table32_step) simp_all
  moreover have "take_bit 8 (push_bit 8 (drop_bit 8 ?x)) = 0"
    by (rule bit_word_eqI) (simp add: bit_simps)
  then have "(crc32_bit ^^ 8) (push_bit 8 (drop_bit 8 ?x)) = drop_bit 8 (push_bit 8 (drop_bit 8 ?x))"
    by (rule crc32_bits_high)
  moreover have "drop_bit 8 (push_bit 8 (drop_bit 8 ?x)) = drop_bit 8 ?x"
    by (rule bit_word_eqI) (auto simp: bit_simps dest: bit_imp_le_length)
  moreover have "drop_bit 8 ?x = drop_bit 8 crc"
    by (rule bit_word_eqI) (auto simp: bit_simps dest: bit_imp_le_length)
  moreover have "?x = (?x AND 0xFF) XOR push_bit 8 (drop_bit 8 ?x)"
    unfolding lo
  proof (rule bit_word_eqI)
    fix n assume "n < LENGTH(32)"
    then show "bit ?x n = bit (take_bit 8 ?x XOR push_bit 8 (drop_bit 8 ?x)) n"
      by (cases "n < 8") (auto simp: bit_simps dest: bit_imp_le_length)
  qed
  ultimately show ?thesis unfolding crc32_byte_def by (metis crc32_bits_xor)
qed

lemma crc32_table_ok: "ulGetCrc32 bytes = crc32_spec bytes"
proof -
  have "(0xFFFFFFFF :: u32) = - 1" by (rule all_ones)
  then show ?thesis
    unfolding ulGetCrc32_def crc32_spec_def crc32_table_byte by (simp only: bit.xor_one_right all_ones)
qed

lemma crc8_table_byte: "CRCTable8 ! unat (crc XOR b) = crc8_byte crc b"
proof -
  have "unat (crc XOR b) < 256" using unsigned_less[of "crc XOR b"] by simp
  then show ?thesis by (simp add: table8_step crc8_byte_def)
qed


lemma crc8_table_ok: "ucGetCrc8 bytes = crc8_spec bytes"
  by (simp add: ucGetCrc8_def crc8_spec_def crc8_table_byte)

section \<open>The steps lose no information\<close>

lemma crc8_bit_xor: "crc8_bit (a XOR b) = crc8_bit a XOR crc8_bit b"
  by (rule bit_word_eqI) (auto simp: crc8_bit_def bit_simps)

lemma crc32_bit_zero:
  assumes "crc32_bit c = 0"
  shows "c = 0"
proof (cases "bit c 0")
  case True
  have "bit (0xEDB88320 :: u32) 31" by simp
  then have "bit (crc32_bit c) 31" using True by (auto simp: crc32_bit_def bit_simps dest: bit_imp_le_length)
  then show ?thesis using assms by simp
next
  case False
  show ?thesis
  proof (rule bit_word_eqI)
    fix n assume "n < LENGTH(32)"
    have "drop_bit 1 c = 0" using assms False by (simp add: crc32_bit_def)
    moreover have "bit (drop_bit 1 c) k = bit c (Suc k)" for k by (simp only: bit_drop_bit_eq comp_def) simp
    ultimately have "\<not> bit c (Suc k)" for k by (metis bit_0_eq bot_apply bot_bool_def)
    then show "bit c n = bit 0 n" using False by (cases n) auto
  qed
qed

lemma crc8_bit_zero:
  assumes "crc8_bit c = 0"
  shows "c = 0"
proof (cases "bit c 7")
  case True
  have "bit (7 :: u8) 0" by simp
  moreover have "\<not> bit (push_bit 1 c) 0" by (simp only: bit_push_bit_iff) simp
  ultimately have "bit (crc8_bit c) 0" using True by (simp add: crc8_bit_def bit_xor_iff)
  then show ?thesis using assms by simp
next
  case False
  show ?thesis
  proof (rule bit_word_eqI)
    fix n assume n: "n < LENGTH(8)"
    have "push_bit 1 c = 0" using assms False by (simp add: crc8_bit_def)
    then have "\<not> bit (push_bit 1 c) (Suc n)" by simp
    moreover have "bit (push_bit 1 c) (Suc n) = bit c n" if "n \<noteq> 7"
      using n that by (simp only: bit_push_bit_iff) simp
    ultimately show "bit c n = bit 0 n" using False by (cases "n = 7") auto
  qed
qed

lemma xor_cancel_right:
  fixes a b d :: "'a::len word"
  shows "a XOR d = b XOR d \<longleftrightarrow> a = b"
proof
  assume "a XOR d = b XOR d"
  then have "(a XOR d) XOR d = (b XOR d) XOR d" by simp
  then show "a = b" by (simp add: xor.assoc)
qed simp

lemma xor_eq_0_iff:
  fixes a b :: "'a::len word"
  shows "a XOR b = 0 \<longleftrightarrow> a = b"
  using xor_cancel_right[of a b b] by simp

lemma linear_inj:
  fixes f :: "'a::len word \<Rightarrow> 'a word"
  assumes "\<And>a b. f (a XOR b) = f a XOR f b" "\<And>c. f c = 0 \<Longrightarrow> c = 0"
  shows "inj f"
proof (rule injI)
  fix a b assume "f a = f b"
  then have "f (a XOR b) = 0" by (simp add: assms(1))
  from assms(2)[OF this] show "a = b" by (simp add: xor_eq_0_iff)
qed

lemma inj_crc32_bits: "inj (crc32_bit ^^ n)"
  by (induction n) (simp_all only: funpow.simps inj_on_id inj_compose linear_inj[OF crc32_bit_xor crc32_bit_zero])

lemma inj_crc8_bits: "inj (crc8_bit ^^ n)"
  by (induction n) (simp_all only: funpow.simps inj_on_id inj_compose linear_inj[OF crc8_bit_xor crc8_bit_zero])

lemma crc32_byte_inj:
  "crc32_byte c b = crc32_byte c' b \<longleftrightarrow> c = c'" "crc32_byte c b = crc32_byte c b' \<longleftrightarrow> b = b'"
proof -
  show "crc32_byte c b = crc32_byte c' b \<longleftrightarrow> c = c'"
    by (simp add: crc32_byte_def inj_eq[OF inj_crc32_bits] xor_cancel_right)
  have "(ucast b :: u32) = ucast b' \<longleftrightarrow> b = b'"
    by (simp add: word_unat_eq_iff unat_ucast_wider)
  then show "crc32_byte c b = crc32_byte c b' \<longleftrightarrow> b = b'"
    by (simp add: crc32_byte_def inj_eq[OF inj_crc32_bits] xor_cancel_right xor.commute[of c])
qed


lemma crc8_byte_inj:
  "crc8_byte c b = crc8_byte c' b \<longleftrightarrow> c = c'" "crc8_byte c b = crc8_byte c b' \<longleftrightarrow> b = b'"
  by (simp add: crc8_byte_def inj_eq[OF inj_crc8_bits] xor_cancel_right)
    (simp add: crc8_byte_def inj_eq[OF inj_crc8_bits] xor_cancel_right xor.commute[of c])

lemma foldl_inj:
  assumes "\<And>c c' b. f c b = f c' b \<longleftrightarrow> c = c'"
  shows "foldl f c bs = foldl f c' bs \<longleftrightarrow> c = c'"
  by (induction bs arbitrary: c c') (simp_all add: assms)

lemma crc8_bits_0: "(crc8_bit ^^ n) 0 = 0"
  by (induction n) (simp_all add: crc8_bit_def)

section \<open>The check of a receiver\<close>

lemma crc32_absorb:
  assumes "n \<le> 24"
  shows "crc32_byte ((crc32_bit ^^ n) c) b = (crc32_bit ^^ (n + 8)) (c XOR push_bit n (ucast b))"
proof -
  have "take_bit n (push_bit n (ucast b :: u32)) = 0"
    by (rule bit_word_eqI) (simp add: bit_simps)
  then have "(crc32_bit ^^ n) (push_bit n (ucast b)) = drop_bit n (push_bit n (ucast b))"
    by (rule crc32_bits_high)
  also have "\<dots> = ucast b"
    using assms by (intro bit_word_eqI) (auto simp: bit_simps dest: bit_imp_le_length)
  finally have "(crc32_bit ^^ n) c XOR ucast b = (crc32_bit ^^ n) (c XOR push_bit n (ucast b))"
    by (simp only: crc32_bits_xor)
  then show ?thesis by (simp only: crc32_byte_def add.commute[of n] funpow_add comp_apply)
qed

text \<open>The bytes of a 32-bit value, least significant first.\<close>

definition le_bytes :: "u32 \<Rightarrow> u8 list" where
  "le_bytes w = map (\<lambda>i. ucast (drop_bit (8 * i) w)) [0, 1, 2, 3]"

lemma crc32_absorb_word: "foldl crc32_byte r (le_bytes w) = (crc32_bit ^^ 32) (r XOR w)"
proof -
  let ?b = "\<lambda>i. push_bit (8 * i) (ucast (ucast (drop_bit (8 * i) w) :: u8)) :: u32"
  have "foldl crc32_byte ((crc32_bit ^^ 0) r) (le_bytes w)
      = (crc32_bit ^^ 32) (r XOR ?b 0 XOR ?b 1 XOR ?b 2 XOR ?b 3)"
    unfolding le_bytes_def list.map foldl.simps
    using crc32_absorb[of 0] crc32_absorb[of 8] crc32_absorb[of 16] crc32_absorb[of 24]
    by (simp del: funpow.simps add: xor.assoc)
  moreover have "?b 0 XOR ?b 1 XOR ?b 2 XOR ?b 3 = w"
  proof (rule bit_word_eqI)
    fix n assume n: "n < LENGTH(32)"
    consider "n < 8" | "8 \<le> n" "n < 16" | "16 \<le> n" "n < 24" | "24 \<le> n" by linarith
    then show "bit (?b 0 XOR ?b 1 XOR ?b 2 XOR ?b 3) n = bit w n"
      using n by cases (auto simp: bit_simps)
  qed
  ultimately show ?thesis by (simp add: xor.assoc)
qed

lemma crc32_residue_0: "(crc32_int ^^ 8) 0xFFFFFFFF = 0x2DFD1072" by code_simp
lemma crc32_residue_1: "(crc32_int ^^ 8) 0x2DFD1072 = 0xBE26ED00" by code_simp
lemma crc32_residue_2: "(crc32_int ^^ 8) 0xBE26ED00 = 0xBE26ED" by code_simp
lemma crc32_residue_3: "(crc32_int ^^ 8) 0xBE26ED = 0xDEBB20E3" by code_simp

lemma crc32_residue_int: "(crc32_int ^^ 32) 0xFFFFFFFF = 0xDEBB20E3"
proof -
  have "(crc32_int ^^ (8 + 8 + 8 + 8)) 0xFFFFFFFF = 0xDEBB20E3"
    by (simp only: funpow_add comp_apply crc32_residue_0 crc32_residue_1 crc32_residue_2 crc32_residue_3)
  then show ?thesis by simp
qed

lemma crc32_residue: "NOT ((crc32_bit ^^ 32) (- 1)) = 0x2144DF1C"
proof -
  have "uint ((crc32_bit ^^ 32) 0xFFFFFFFF) = uint (0xDEBB20E3 :: u32)"
    using funpow_uint[of crc32_bit crc32_int 32 "0xFFFFFFFF", OF crc32_bit_int] crc32_residue_int by simp
  then have "(crc32_bit ^^ 32) (- 1) = 0xDEBB20E3" by (simp only: word_uint_eq_iff all_ones)
  then show ?thesis by simp
qed

text \<open>
  C10: the table-driven CRC-32 and CRC-8 compute, for every message, the bit-serial codes with
  the reflected polynomial 0xEDB88320 and the polynomial 0x07.
\<close>

theorem crc_tables_ok:
  "ulGetCrc32 bytes = crc32_spec bytes \<and> ucGetCrc8 bytes = crc8_spec bytes"
  by (simp add: crc32_table_ok crc8_table_ok)

text \<open>
  A receiver can check a message with its code appended: the CRC-8 of the extended message
  is 0 exactly when the last byte is the CRC-8 of the message, and with the four bytes of the
  CRC-32 appended, least significant first, the CRC-32 is the constant residue 0x2144DF1C.
\<close>

theorem crc_receiver_check:
  "(ucGetCrc8 (bytes @ [c]) = 0 \<longleftrightarrow> c = ucGetCrc8 bytes) \<and>
   ulGetCrc32 (bytes @ le_bytes (ulGetCrc32 bytes)) = 0x2144DF1C"
proof
  let ?r = "foldl crc8_byte 0 bytes"
  have "crc8_byte ?r ?r = 0" by (simp add: crc8_byte_def crc8_bits_0)
  then have "crc8_byte ?r c = 0 \<longleftrightarrow> c = ?r" by (metis crc8_byte_inj(2))
  then show "ucGetCrc8 (bytes @ [c]) = 0 \<longleftrightarrow> c = ucGetCrc8 bytes"
    by (simp add: crc8_table_ok crc8_spec_def)
  let ?s = "foldl crc32_byte (- 1) bytes"
  have "?s XOR NOT ?s = - 1" by (rule bit_word_eqI) (simp add: bit_simps)
  then have "foldl crc32_byte ?s (le_bytes (NOT ?s)) = (crc32_bit ^^ 32) (- 1)"
    by (simp only: crc32_absorb_word)
  then show "ulGetCrc32 (bytes @ le_bytes (ulGetCrc32 bytes)) = 0x2144DF1C"
    by (simp only: crc32_table_ok crc32_spec_def foldl_append crc32_residue)
qed

text \<open>
  Neither code misses the corruption of a single byte, however many of its bits change and
  wherever it stands in the message.
\<close>

theorem crc_detects_byte_error:
  assumes "x \<noteq> y"
  shows "ulGetCrc32 (pre @ [x] @ post) \<noteq> ulGetCrc32 (pre @ [y] @ post) \<and>
         ucGetCrc8 (pre @ [x] @ post) \<noteq> ucGetCrc8 (pre @ [y] @ post)"
  using assms
  by (simp add: crc32_table_ok crc8_table_ok crc32_spec_def crc8_spec_def
      foldl_inj[of crc32_byte, OF crc32_byte_inj(1)] foldl_inj[of crc8_byte, OF crc8_byte_inj(1)]
      crc32_byte_inj(2) crc8_byte_inj(2) bit.compl_eq_compl_iff)

theorem crc_detects_byte_error_witness:
  "ulGetCrc32 ([1, 2] @ [3] @ [4]) \<noteq> ulGetCrc32 ([1, 2] @ [0x83] @ [4]) \<and>
   ucGetCrc8 ([1, 2] @ [3] @ [4]) \<noteq> ucGetCrc8 ([1, 2] @ [0x83] @ [4])"
  by (rule crc_detects_byte_error) simp

end
