(* ===== verification/Evl.thy ===== *)
theory Evl
  imports Prelude
begin

text \<open>
  The event library, evl.c: records of bound-in callbacks, raising a signal to every
  callback of a record, and the log of the last \<open>EVL_LOG_LEN\<close> signals.

  The operating-system abstraction layer is a parameter: mutexes, memory allocation and
  the uptime over a world \<open>'w\<close>; so are the callbacks, functions of a name \<open>'cb\<close>, the
  signal and the world. A linked list of callback nodes is the list of the callbacks;
  prints are returned as the rows they show.
\<close>

section \<open>State\<close>

datatype EVL_STATS =
    EVL_STATS_INITIALISED | EVL_STATS_RECORDS | EVL_STATS_BINDINGS | EVL_STATS_SIGNALS
  | EVL_STATS_LOG_RETRIEVED | EVL_STATS_LOG_MUTEX_CREATED | EVL_STATS_LOG_MUTEX_GRABBED
  | EVL_STATS_LOG_MUTEX_RELEASED | EVL_STATS_RECORD_MUTEX_CREATED
  | EVL_STATS_RECORD_MUTEX_GRABBED | EVL_STATS_RECORD_MUTEX_RELEASED | EVL_STATS_VERBOSITY_SET

datatype EVL_ERRORS =
    EVL_ERRORS_BINDINGS | EVL_ERRORS_CALLBACKS | EVL_ERRORS_VALIDATION
  | EVL_ERRORS_LOG_MUTEX_CREATED | EVL_ERRORS_LOG_MUTEX_GRABBED | EVL_ERRORS_LOG_MUTEX_RELEASED
  | EVL_ERRORS_RECORD_MUTEX_CREATED | EVL_ERRORS_RECORD_MUTEX_GRABBED
  | EVL_ERRORS_RECORD_MUTEX_RELEASED | EVL_ERRORS_RECORD_MALLOC | EVL_ERRORS_BINDINGS_MALLOC
  | EVL_ERRORS_NO_BINDINGS | EVL_ERRORS_VERBOSITY_NOT_SET

record EVL_SIGNAL =
  ucModule :: u8
  ucEventType :: u8
  ucInstance :: u8
  ucAdditionalData :: u8

record EVL_PRIVATE_DATA =
  evlUpperFirewall :: u32
  evlIsInitialised :: bool
  evlLogIdx :: nat
  evlLog :: "EVL_SIGNAL list"
  evlLogTimes :: "u32 list"
  evlStats :: "EVL_STATS \<Rightarrow> u32"
  evlErrors :: "EVL_ERRORS \<Rightarrow> u32"
  evlLowerFirewall :: u32
  iEvlVerbosity :: bool

record 'cb EVL_RECORD =
  evlBindings :: "'cb list"
  iNumBindings :: nat

definition EVL_LOG_LEN :: nat where "EVL_LOG_LEN = 100"
definition EVL_MAX_BINDINGS :: nat where "EVL_MAX_BINDINGS = 10"
definition EVL_UPPER_FIREWALL :: u32 where "EVL_UPPER_FIREWALL = 0xBABECAFE"
definition EVL_LOWER_FIREWALL :: u32 where "EVL_LOWER_FIREWALL = 0xDEADFACE"

definition evl_zero_signal :: EVL_SIGNAL where
  "evl_zero_signal = \<lparr>ucModule = 0, ucEventType = 0, ucInstance = 0, ucAdditionalData = 0\<rparr>"

definition evl_local_data :: EVL_PRIVATE_DATA where
  "evl_local_data = \<lparr> evlUpperFirewall = EVL_UPPER_FIREWALL, evlIsInitialised = False,
     evlLogIdx = 0, evlLog = replicate EVL_LOG_LEN evl_zero_signal,
     evlLogTimes = replicate EVL_LOG_LEN 0, evlStats = (\<lambda>_. 0), evlErrors = (\<lambda>_. 0),
     evlLowerFirewall = EVL_LOWER_FIREWALL, iEvlVerbosity = False \<rparr>"

text \<open>The services of the operating-system layer the library calls; \<^term>\<open>True\<close> is success.\<close>

datatype evl_mutex = LOG_MTX | RECORD_MTX

record 'w evl_osal =
  osMutexCreate :: "evl_mutex \<Rightarrow> 'w \<Rightarrow> bool \<times> 'w"
  osMutexTake :: "evl_mutex \<Rightarrow> 'w \<Rightarrow> bool \<times> 'w"
  osMutexRelease :: "evl_mutex \<Rightarrow> 'w \<Rightarrow> bool \<times> 'w"
  osMemAlloc :: "'w \<Rightarrow> bool \<times> 'w"
  osUptimeMs :: "'w \<Rightarrow> u32 \<times> 'w"

definition evl_inc_stat :: "EVL_STATS \<Rightarrow> EVL_PRIVATE_DATA \<Rightarrow> EVL_PRIVATE_DATA" where
  "evl_inc_stat x d = d\<lparr>evlStats := (evlStats d)(x := evlStats d x + 1)\<rparr>"

definition evl_inc_error :: "EVL_ERRORS \<Rightarrow> EVL_PRIVATE_DATA \<Rightarrow> EVL_PRIVATE_DATA" where
  "evl_inc_error x d = d\<lparr>evlErrors := (evlErrors d)(x := evlErrors d x + 1)\<rparr>"

definition evl_firewalls :: "EVL_PRIVATE_DATA \<Rightarrow> bool" where
  "evl_firewalls d \<longleftrightarrow> EVL_UPPER_FIREWALL = evlUpperFirewall d \<and>
     EVL_LOWER_FIREWALL = evlLowerFirewall d"

section \<open>Initialisation, records and bindings\<close>

definition iEVL_Initialise ::
  "'w evl_osal \<Rightarrow> EVL_PRIVATE_DATA \<Rightarrow> 'w \<Rightarrow> int \<times> EVL_PRIVATE_DATA \<times> 'w" where
  "iEVL_Initialise os d w =
     (if evl_firewalls d \<and> \<not> evlIsInitialised d
      then let (ok, w1) = osMutexCreate os LOG_MTX w in
        if ok
        then (OK, (evl_inc_stat EVL_STATS_INITIALISED (evl_inc_stat EVL_STATS_LOG_MUTEX_CREATED d))
               \<lparr>evlIsInitialised := True\<rparr>, w1)
        else (ERROR, evl_inc_error EVL_ERRORS_LOG_MUTEX_CREATED d, w1)
      else (ERROR, evl_inc_error EVL_ERRORS_VALIDATION d, w))"

text \<open>
  \<open>ppxRecord\<close> is \<^term>\<open>None\<close> when NULL, otherwise the record it points to, if any.
\<close>

definition iEVL_CreateRecord ::
  "'w evl_osal \<Rightarrow> 'cb EVL_RECORD option option \<Rightarrow> EVL_PRIVATE_DATA \<Rightarrow> 'w
   \<Rightarrow> int \<times> 'cb EVL_RECORD option option \<times> EVL_PRIVATE_DATA \<times> 'w" where
  "iEVL_CreateRecord os ppxRecord d w =
     (if evl_firewalls d \<and> evlIsInitialised d \<and> ppxRecord = Some None
      then let (alloc, w1) = osMemAlloc os w in
        if alloc
        then let (ok, w2) = osMutexCreate os RECORD_MTX w1 in
          if ok
          then (OK, Some (Some \<lparr>evlBindings = [], iNumBindings = 0\<rparr>),
                evl_inc_stat EVL_STATS_RECORD_MUTEX_CREATED d, w2)
          else (ERROR, ppxRecord, evl_inc_error EVL_ERRORS_RECORD_MUTEX_CREATED d, w2)
        else (ERROR, ppxRecord, evl_inc_error EVL_ERRORS_RECORD_MALLOC d, w1)
      else (ERROR, ppxRecord, evl_inc_error EVL_ERRORS_VALIDATION d, w))"

text \<open>
  The body under the record's mutex: the first node becomes the head of the list, a
  later one is appended after the last; the head must exist when the count is not 0.
\<close>

definition bind_locked ::
  "'w evl_osal \<Rightarrow> 'cb \<Rightarrow> 'cb EVL_RECORD \<Rightarrow> EVL_PRIVATE_DATA \<Rightarrow> 'w
   \<Rightarrow> int \<times> 'cb EVL_RECORD \<times> EVL_PRIVATE_DATA \<times> 'w" where
  "bind_locked os cb r d w =
     (if iNumBindings r = 0
      then let (alloc, w1) = osMemAlloc os w in
        if alloc
        then (OK, \<lparr>evlBindings = [cb], iNumBindings = 1\<rparr>,
              evl_inc_stat EVL_STATS_BINDINGS (evl_inc_stat EVL_STATS_RECORDS d), w1)
        else (ERROR, r, evl_inc_error EVL_ERRORS_BINDINGS_MALLOC d, w1)
      else if evlBindings r \<noteq> []
      then let (alloc, w1) = osMemAlloc os w in
        if alloc
        then (OK, \<lparr>evlBindings = evlBindings r @ [cb], iNumBindings = iNumBindings r + 1\<rparr>,
              evl_inc_stat EVL_STATS_BINDINGS d, w1)
        else (ERROR, r, evl_inc_error EVL_ERRORS_BINDINGS_MALLOC d, w1)
      else (ERROR, r, evl_inc_error EVL_ERRORS_NO_BINDINGS d, w))"

definition iEVL_BindCallback ::
  "'w evl_osal \<Rightarrow> 'cb EVL_RECORD option \<Rightarrow> 'cb option \<Rightarrow> EVL_PRIVATE_DATA \<Rightarrow> 'w
   \<Rightarrow> int \<times> 'cb EVL_RECORD option \<times> EVL_PRIVATE_DATA \<times> 'w" where
  "iEVL_BindCallback os pxRecord pxNewCallback d w =
     (case (pxRecord, pxNewCallback) of
        (Some r, Some cb) \<Rightarrow>
          if evl_firewalls d \<and> evlIsInitialised d
          then if iNumBindings r < EVL_MAX_BINDINGS
            then let (taken, w1) = osMutexTake os RECORD_MTX w in
              if taken
              then let (st, r1, d1, w2) =
                         bind_locked os cb r (evl_inc_stat EVL_STATS_RECORD_MUTEX_GRABBED d) w1;
                       (rel, w3) = osMutexRelease os RECORD_MTX w2
                   in (st, Some r1, (if rel then evl_inc_stat EVL_STATS_RECORD_MUTEX_RELEASED d1
                                     else evl_inc_error EVL_ERRORS_RECORD_MUTEX_RELEASED d1), w3)
              else (ERROR, pxRecord, evl_inc_error EVL_ERRORS_RECORD_MUTEX_GRABBED d, w1)
            else (ERROR, pxRecord, evl_inc_error EVL_ERRORS_BINDINGS d, w)
          else (ERROR, pxRecord, evl_inc_error EVL_ERRORS_VALIDATION d, w)
      | _ \<Rightarrow> (ERROR, pxRecord, evl_inc_error EVL_ERRORS_VALIDATION d, w))"

section \<open>Raising an event\<close>

text \<open>The time and the signal go to the log slot of the index, which wraps at the end.\<close>

definition evl_log_signal :: "u32 \<Rightarrow> EVL_SIGNAL \<Rightarrow> EVL_PRIVATE_DATA \<Rightarrow> EVL_PRIVATE_DATA option" where
  "evl_log_signal t sig d =
     (if evlLogIdx d < length (evlLog d) \<and> evlLogIdx d < length (evlLogTimes d)
      then Some (d\<lparr>evlLogTimes := (evlLogTimes d)[evlLogIdx d := t],
                   evlLog := (evlLog d)[evlLogIdx d := sig],
                   evlLogIdx := (if EVL_LOG_LEN \<le> evlLogIdx d + 1 then 0 else evlLogIdx d + 1)\<rparr>)
      else None)"

fun raise_callbacks ::
  "('cb \<Rightarrow> EVL_SIGNAL \<Rightarrow> 'w \<Rightarrow> int \<times> 'w) \<Rightarrow> 'cb list \<Rightarrow> EVL_SIGNAL \<Rightarrow> EVL_PRIVATE_DATA \<Rightarrow> 'w
   \<Rightarrow> EVL_PRIVATE_DATA \<times> 'w" where
  "raise_callbacks call [] sig d w = (d, w)"
| "raise_callbacks call (cb # cbs) sig d w =
     (let d1 = evl_inc_stat EVL_STATS_SIGNALS d;
          (st, w1) = call cb sig w;
          d2 = (if st \<noteq> OK then evl_inc_error EVL_ERRORS_CALLBACKS d1 else d1)
      in raise_callbacks call cbs sig d2 w1)"

definition iEVL_RaiseEvent ::
  "'w evl_osal \<Rightarrow> ('cb \<Rightarrow> EVL_SIGNAL \<Rightarrow> 'w \<Rightarrow> int \<times> 'w) \<Rightarrow> 'cb EVL_RECORD option
   \<Rightarrow> EVL_SIGNAL option \<Rightarrow> EVL_PRIVATE_DATA \<Rightarrow> 'w \<Rightarrow> (int \<times> EVL_PRIVATE_DATA \<times> 'w) option" where
  "iEVL_RaiseEvent os call pxRecord pxSignal d w =
     (case (pxRecord, pxSignal) of
        (Some r, Some sig) \<Rightarrow>
          if evl_firewalls d \<and> evlIsInitialised d
          then let (taken, w1) = osMutexTake os LOG_MTX w in
            if \<not> taken then Some (ERROR, evl_inc_error EVL_ERRORS_LOG_MUTEX_GRABBED d, w1)
            else let (t, w2) = osUptimeMs os w1 in do {
              d1 \<leftarrow> evl_log_signal t sig (evl_inc_stat EVL_STATS_LOG_MUTEX_GRABBED d);
              let (rel, w3) = osMutexRelease os LOG_MTX w2;
              if \<not> rel then Some (ERROR, evl_inc_error EVL_ERRORS_LOG_MUTEX_RELEASED d1, w3)
              else let d2 = evl_inc_stat EVL_STATS_LOG_MUTEX_RELEASED d1;
                       (taken2, w4) = osMutexTake os RECORD_MTX w3 in
                if \<not> taken2 then Some (ERROR, evl_inc_error EVL_ERRORS_RECORD_MUTEX_GRABBED d2, w4)
                else let (d3, w5) = raise_callbacks call (evlBindings r) sig
                                      (evl_inc_stat EVL_STATS_RECORD_MUTEX_GRABBED d2) w4;
                         (rel2, w6) = osMutexRelease os RECORD_MTX w5 in
                  if rel2 then Some (OK, evl_inc_stat EVL_STATS_RECORD_MUTEX_RELEASED d3, w6)
                  else Some (ERROR, evl_inc_error EVL_ERRORS_RECORD_MUTEX_RELEASED d3, w6) }
          else Some (ERROR, evl_inc_error EVL_ERRORS_VALIDATION d, w)
      | _ \<Rightarrow> Some (ERROR, evl_inc_error EVL_ERRORS_VALIDATION d, w))"

section \<open>Statistics and log\<close>

definition evl_all_stats :: "EVL_STATS list" where
  "evl_all_stats =
     [EVL_STATS_INITIALISED, EVL_STATS_RECORDS, EVL_STATS_BINDINGS, EVL_STATS_SIGNALS,
      EVL_STATS_LOG_RETRIEVED, EVL_STATS_LOG_MUTEX_CREATED, EVL_STATS_LOG_MUTEX_GRABBED,
      EVL_STATS_LOG_MUTEX_RELEASED, EVL_STATS_RECORD_MUTEX_CREATED,
      EVL_STATS_RECORD_MUTEX_GRABBED, EVL_STATS_RECORD_MUTEX_RELEASED, EVL_STATS_VERBOSITY_SET]"

definition evl_all_errors :: "EVL_ERRORS list" where
  "evl_all_errors =
     [EVL_ERRORS_BINDINGS, EVL_ERRORS_CALLBACKS, EVL_ERRORS_VALIDATION,
      EVL_ERRORS_LOG_MUTEX_CREATED, EVL_ERRORS_LOG_MUTEX_GRABBED, EVL_ERRORS_LOG_MUTEX_RELEASED,
      EVL_ERRORS_RECORD_MUTEX_CREATED, EVL_ERRORS_RECORD_MUTEX_GRABBED,
      EVL_ERRORS_RECORD_MUTEX_RELEASED, EVL_ERRORS_RECORD_MALLOC, EVL_ERRORS_BINDINGS_MALLOC,
      EVL_ERRORS_NO_BINDINGS, EVL_ERRORS_VERBOSITY_NOT_SET]"

text \<open>The counters printed, in the order of the enumerations.\<close>

definition iEVL_PrintStatistics ::
  "EVL_PRIVATE_DATA \<Rightarrow> int \<times> (EVL_STATS \<times> u32) list \<times> (EVL_ERRORS \<times> u32) list \<times> EVL_PRIVATE_DATA" where
  "iEVL_PrintStatistics d =
     (if evl_firewalls d
      then (OK, map (\<lambda>x. (x, evlStats d x)) evl_all_stats, map (\<lambda>x. (x, evlErrors d x)) evl_all_errors, d)
      else (ERROR, [], [], evl_inc_error EVL_ERRORS_VALIDATION d))"

definition iEVL_ClearStatistics :: "EVL_PRIVATE_DATA \<Rightarrow> int \<times> EVL_PRIVATE_DATA" where
  "iEVL_ClearStatistics d =
     (if evl_firewalls d \<and> evlIsInitialised d
      then (OK, d\<lparr>evlStats := (\<lambda>_. 0), evlErrors := (\<lambda>_. 0)\<rparr>)
      else (ERROR, evl_inc_error EVL_ERRORS_VALIDATION d))"

text \<open>A printed row: the time, the row number counting down, and the signal. The rows of the
  source show the module, event type and instance of the signal, not its additional data.\<close>

definition evl_print_rows :: "EVL_PRIVATE_DATA \<Rightarrow> (u32 \<times> nat \<times> EVL_SIGNAL) list" where
  "evl_print_rows d =
     (let order = [evlLogIdx d..<EVL_LOG_LEN] @ [0..<evlLogIdx d]
      in map (\<lambda>(n, i). (evlLogTimes d ! i, EVL_LOG_LEN - n, evlLog d ! i))
           (zip [0..<length order] order))"

definition iEVL_PrintLog ::
  "'w evl_osal \<Rightarrow> EVL_PRIVATE_DATA \<Rightarrow> 'w
   \<Rightarrow> int \<times> (u32 \<times> nat \<times> EVL_SIGNAL) list \<times> EVL_PRIVATE_DATA \<times> 'w" where
  "iEVL_PrintLog os d w =
     (if evl_firewalls d \<and> evlIsInitialised d
      then let (taken, w1) = osMutexTake os LOG_MTX w;
               (rows, d1, w2) =
                 (if taken
                  then let d0 = evl_inc_stat EVL_STATS_LOG_MUTEX_GRABBED d;
                           (rel, w') = osMutexRelease os LOG_MTX w1
                       in (evl_print_rows d0,
                           (if rel then evl_inc_stat EVL_STATS_LOG_MUTEX_RELEASED d0
                            else evl_inc_error EVL_ERRORS_LOG_MUTEX_RELEASED d0), w')
                  else ([], evl_inc_error EVL_ERRORS_LOG_MUTEX_GRABBED d, w1))
           in (OK, rows, evl_inc_stat EVL_STATS_LOG_RETRIEVED d1, w2)
      else (ERROR, [], evl_inc_error EVL_ERRORS_VALIDATION d, w))"

definition vEVL_SetVerbosity :: "bool \<Rightarrow> EVL_PRIVATE_DATA \<Rightarrow> EVL_PRIVATE_DATA" where
  "vEVL_SetVerbosity v d = d\<lparr>iEvlVerbosity := v\<rparr>"

section \<open>Invariant\<close>

definition evl_inv :: "EVL_PRIVATE_DATA \<Rightarrow> bool" where
  "evl_inv d \<longleftrightarrow> evl_firewalls d \<and> length (evlLog d) = EVL_LOG_LEN \<and>
     length (evlLogTimes d) = EVL_LOG_LEN \<and> evlLogIdx d < EVL_LOG_LEN"

definition record_inv :: "'cb EVL_RECORD \<Rightarrow> bool" where
  "record_inv r \<longleftrightarrow> iNumBindings r = length (evlBindings r) \<and> iNumBindings r \<le> EVL_MAX_BINDINGS"

text \<open>The log as the history it stands for: the last \<open>EVL_LOG_LEN\<close> entries, oldest first.\<close>

definition evl_history :: "EVL_PRIVATE_DATA \<Rightarrow> (u32 \<times> EVL_SIGNAL) list" where
  "evl_history d = rotate (evlLogIdx d) (zip (evlLogTimes d) (evlLog d))"

lemma evl_inc_fields [simp]:
  "evlLogIdx (evl_inc_stat x d) = evlLogIdx d" "evlLog (evl_inc_stat x d) = evlLog d"
  "evlLogTimes (evl_inc_stat x d) = evlLogTimes d" "evlIsInitialised (evl_inc_stat x d) = evlIsInitialised d"
  "evl_firewalls (evl_inc_stat x d) = evl_firewalls d" "evlErrors (evl_inc_stat x d) = evlErrors d"
  "evlLogIdx (evl_inc_error y d) = evlLogIdx d" "evlLog (evl_inc_error y d) = evlLog d"
  "evlLogTimes (evl_inc_error y d) = evlLogTimes d" "evlIsInitialised (evl_inc_error y d) = evlIsInitialised d"
  "evl_firewalls (evl_inc_error y d) = evl_firewalls d" "evlStats (evl_inc_error y d) = evlStats d"
  by (simp_all add: evl_inc_stat_def evl_inc_error_def evl_firewalls_def)

lemma evl_inc_inv [simp]:
  "evl_inv (evl_inc_stat x d) = evl_inv d" "evl_inv (evl_inc_error y d) = evl_inv d"
  "evl_history (evl_inc_stat x d) = evl_history d" "evl_history (evl_inc_error y d) = evl_history d"
  by (simp_all add: evl_inv_def evl_history_def)

lemma evl_inv_initial: "evl_inv evl_local_data"
  by (simp add: evl_inv_def evl_local_data_def evl_firewalls_def EVL_LOG_LEN_def)

lemma evl_log_signal_history:
  assumes "evl_inv d"
  shows "\<exists>d'. evl_log_signal t sig d = Some d' \<and> evl_inv d' \<and> evlIsInitialised d' = evlIsInitialised d
    \<and> evlStats d' = evlStats d \<and> evlErrors d' = evlErrors d
    \<and> evl_history d' = tl (evl_history d) @ [(t, sig)]"
proof -
  note i = assms[unfolded evl_inv_def]
  let ?d = "d\<lparr>evlLogTimes := (evlLogTimes d)[evlLogIdx d := t], evlLog := (evlLog d)[evlLogIdx d := sig],
    evlLogIdx := (if EVL_LOG_LEN \<le> evlLogIdx d + 1 then 0 else evlLogIdx d + 1)\<rparr>"
  have len: "length (zip (evlLogTimes d) (evlLog d)) = EVL_LOG_LEN" using i by simp
  have idx: "evlLogIdx ?d = (evlLogIdx d + 1) mod EVL_LOG_LEN"
    using i by (auto simp: not_le mod_if)
  have "evl_history ?d = rotate ((evlLogIdx d + 1) mod EVL_LOG_LEN)
      ((zip (evlLogTimes d) (evlLog d))[evlLogIdx d := (t, sig)])"
    unfolding evl_history_def idx by (simp add: update_zip)
  also have "\<dots> = tl (evl_history d) @ [(t, sig)]"
    using rotate_update_head[of "evlLogIdx d" "zip (evlLogTimes d) (evlLog d)" "(t, sig)"] i len
    by (simp add: evl_history_def)
  finally have "evl_history ?d = tl (evl_history d) @ [(t, sig)]" .
  moreover have "evl_inv ?d" using i by (simp add: evl_inv_def evl_firewalls_def EVL_LOG_LEN_def)
  moreover have "evl_log_signal t sig d = Some ?d" using i by (simp add: evl_log_signal_def)
  ultimately show ?thesis by (intro exI[of _ ?d]) simp
qed

text \<open>The rows printed are the history, numbered downwards.\<close>

lemma evl_print_history:
  assumes "evl_inv d"
  shows "map (\<lambda>(t, n, sig). (t, sig)) (evl_print_rows d) = evl_history d"
    "map (\<lambda>(t, n, sig). n) (evl_print_rows d) = rev [1..<EVL_LOG_LEN + 1]"
proof -
  note i = assms[unfolded evl_inv_def]
  let ?o = "[evlLogIdx d..<EVL_LOG_LEN] @ [0..<evlLogIdx d]"
  have lo: "length ?o = EVL_LOG_LEN" using i by simp
  have rot: "?o = rotate (evlLogIdx d) [0..<EVL_LOG_LEN]"
    using i by (simp add: rotate_drop_take)
  have rows: "map (\<lambda>(t, n, sig). (t, sig)) (map (\<lambda>(n, i). (evlLogTimes d ! i, EVL_LOG_LEN - n, evlLog d ! i))
      (zip [0..<length os] os)) = map (\<lambda>i. (evlLogTimes d ! i, evlLog d ! i)) os" for os
    by (rule nth_equalityI) simp_all
  have rows2: "map (\<lambda>(t, n, sig). n) (map (\<lambda>(n, i). (evlLogTimes d ! i, EVL_LOG_LEN - n, evlLog d ! i))
      (zip [0..<length os] os)) = map (\<lambda>n. EVL_LOG_LEN - n) [0..<length os]" for os
    by (rule nth_equalityI) simp_all
  have "map (\<lambda>(t, n, sig). (t, sig)) (evl_print_rows d) = map (\<lambda>i. (evlLogTimes d ! i, evlLog d ! i)) ?o"
    unfolding evl_print_rows_def Let_def by (rule rows)
  also have "\<dots> = rotate (evlLogIdx d) (map (\<lambda>i. (evlLogTimes d ! i, evlLog d ! i)) [0..<EVL_LOG_LEN])"
    unfolding rot by (simp add: rotate_map)
  also have "map (\<lambda>i. (evlLogTimes d ! i, evlLog d ! i)) [0..<EVL_LOG_LEN] = zip (evlLogTimes d) (evlLog d)"
    using i by (intro nth_equalityI) simp_all
  finally show "map (\<lambda>(t, n, sig). (t, sig)) (evl_print_rows d) = evl_history d"
    by (simp add: evl_history_def)
  have "map (\<lambda>(t, n, sig). n) (evl_print_rows d) = map (\<lambda>n. EVL_LOG_LEN - n) [0..<length ?o]"
    unfolding evl_print_rows_def Let_def by (rule rows2)
  also have "\<dots> = rev [1..<EVL_LOG_LEN + 1]" unfolding lo unfolding EVL_LOG_LEN_def by code_simp
  finally show "map (\<lambda>(t, n, sig). n) (evl_print_rows d) = rev [1..<EVL_LOG_LEN + 1]" .
qed

section \<open>Raising and binding\<close>

text \<open>
  The world the callback of index \<open>i\<close> is called in, after those bound before it, and the
  number of callbacks of the record that answer anything but \<open>OK\<close>.
\<close>

definition callback_world ::
  "('cb \<Rightarrow> EVL_SIGNAL \<Rightarrow> 'w \<Rightarrow> int \<times> 'w) \<Rightarrow> 'cb list \<Rightarrow> EVL_SIGNAL \<Rightarrow> nat \<Rightarrow> 'w \<Rightarrow> 'w" where
  "callback_world call cbs sig i w = fold (\<lambda>cb u. snd (call cb sig u)) (take i cbs) w"

definition callbacks_failed ::
  "('cb \<Rightarrow> EVL_SIGNAL \<Rightarrow> 'w \<Rightarrow> int \<times> 'w) \<Rightarrow> 'cb list \<Rightarrow> EVL_SIGNAL \<Rightarrow> 'w \<Rightarrow> nat" where
  "callbacks_failed call cbs sig w =
     length (filter (\<lambda>i. fst (call (cbs ! i) sig (callback_world call cbs sig i w)) \<noteq> OK) [0..<length cbs])"

lemma callbacks_failed_Nil [simp]: "callbacks_failed call [] sig w = 0"
  by (simp add: callbacks_failed_def)

lemma callbacks_failed_Cons [simp]:
  "callbacks_failed call (cb # cbs) sig w =
     (if fst (call cb sig w) \<noteq> OK then 1 else 0) + callbacks_failed call cbs sig (snd (call cb sig w))"
proof -
  have idx: "[0..<Suc (length cbs)] = 0 # map Suc [0..<length cbs]"
    by (simp only: map_Suc_upt upt_conv_Cons[OF zero_less_Suc] One_nat_def)
  have "filter (\<lambda>i. fst (call ((cb # cbs) ! i) sig (callback_world call (cb # cbs) sig i w)) \<noteq> OK) (map Suc is) =
      map Suc (filter (\<lambda>i. fst (call (cbs ! i) sig (callback_world call cbs sig i (snd (call cb sig w)))) \<noteq> OK) is)" for "is"
    by (simp add: filter_map callback_world_def comp_def)
  then show ?thesis
    by (simp add: callbacks_failed_def idx callback_world_def del: upt_Suc)
qed

text \<open>Every callback runs once, in the order of the list; failures are only counted.\<close>

lemma raise_callbacks_spec:
  "raise_callbacks call cbs sig d w = (d', w') \<Longrightarrow>
    w' = fold (\<lambda>cb u. snd (call cb sig u)) cbs w \<and> evl_inv d' = evl_inv d
    \<and> evl_history d' = evl_history d \<and> evlIsInitialised d' = evlIsInitialised d
    \<and> evlStats d' = (evlStats d)(EVL_STATS_SIGNALS := evlStats d EVL_STATS_SIGNALS + of_nat (length cbs))
    \<and> evlErrors d' = (evlErrors d)(EVL_ERRORS_CALLBACKS :=
         evlErrors d EVL_ERRORS_CALLBACKS + of_nat (callbacks_failed call cbs sig w))"
proof (induction cbs arbitrary: d w)
  case (Cons cb cbs)
  obtain st w1 where 1: "call cb sig w = (st, w1)" by fastforce
  define d2 where "d2 = (if st \<noteq> OK then evl_inc_error EVL_ERRORS_CALLBACKS (evl_inc_stat EVL_STATS_SIGNALS d)
    else evl_inc_stat EVL_STATS_SIGNALS d)"
  have "raise_callbacks call cbs sig d2 w1 = (d', w')"
    using Cons.prems 1 by (simp add: d2_def Let_def)
  note Cons.IH[OF this]
  moreover have "evl_inv d2 = evl_inv d" "evl_history d2 = evl_history d"
    "evlIsInitialised d2 = evlIsInitialised d"
    "evlStats d2 = (evlStats d)(EVL_STATS_SIGNALS := evlStats d EVL_STATS_SIGNALS + 1)"
    "evlErrors d2 = (evlErrors d)(EVL_ERRORS_CALLBACKS :=
       evlErrors d EVL_ERRORS_CALLBACKS + (if st \<noteq> OK then 1 else 0))"
    by (simp_all add: d2_def) (simp_all add: evl_inc_stat_def evl_inc_error_def)
  ultimately show ?case using 1 by (simp add: add.assoc fun_upd_def[symmetric])
qed simp

definition osal_ok :: "'w evl_osal \<Rightarrow> bool" where
  "osal_ok os \<longleftrightarrow> (\<forall>m w. fst (osMutexTake os m w) \<and> fst (osMutexRelease os m w))"

definition osal_transparent :: "'w evl_osal \<Rightarrow> bool" where
  "osal_transparent os \<longleftrightarrow> (\<forall>m w. snd (osMutexTake os m w) = w \<and> snd (osMutexRelease os m w) = w \<and>
     snd (osUptimeMs os w) = w)"

lemma raise_event_ok:
  assumes inv: "evl_inv d" "evlIsInitialised d" and os: "osal_ok os" "osal_transparent os"
  shows "\<exists>d'. iEVL_RaiseEvent os call (Some r) (Some sig) d w =
      Some (OK, d', fold (\<lambda>cb u. snd (call cb sig u)) (evlBindings r) w)
    \<and> evl_inv d' \<and> evlIsInitialised d'
    \<and> evlStats d' EVL_STATS_SIGNALS = evlStats d EVL_STATS_SIGNALS + of_nat (length (evlBindings r))
    \<and> evlErrors d' = (evlErrors d)(EVL_ERRORS_CALLBACKS :=
         evlErrors d EVL_ERRORS_CALLBACKS + of_nat (callbacks_failed call (evlBindings r) sig w))
    \<and> evl_history d' = tl (evl_history d) @ [(fst (osUptimeMs os w), sig)]"
proof -
  have fw: "evl_firewalls d" using inv by (simp add: evl_inv_def)
  have take: "osMutexTake os m u = (True, u)" and rel: "osMutexRelease os m u = (True, u)"
    and up: "osUptimeMs os u = (fst (osUptimeMs os u), u)" for m u
    using os by (simp_all add: osal_ok_def osal_transparent_def prod_eq_iff)
  have "evl_inv (evl_inc_stat EVL_STATS_LOG_MUTEX_GRABBED d)" using inv by simp
  from evl_log_signal_history[OF this, of "fst (osUptimeMs os w)" sig] obtain d1 where
    1: "evl_log_signal (fst (osUptimeMs os w)) sig (evl_inc_stat EVL_STATS_LOG_MUTEX_GRABBED d) = Some d1"
      "evl_inv d1" "evlIsInitialised d1" "evl_history d1 = tl (evl_history d) @ [(fst (osUptimeMs os w), sig)]"
      "evlStats d1 = evlStats (evl_inc_stat EVL_STATS_LOG_MUTEX_GRABBED d)" "evlErrors d1 = evlErrors d"
    using inv(2) by auto
  let ?d2 = "evl_inc_stat EVL_STATS_RECORD_MUTEX_GRABBED (evl_inc_stat EVL_STATS_LOG_MUTEX_RELEASED d1)"
  obtain d3 w5 where 3: "raise_callbacks call (evlBindings r) sig ?d2 w = (d3, w5)" by fastforce
  note s = raise_callbacks_spec[OF 3]
  have st: "evlStats (evl_inc_stat x e) EVL_STATS_SIGNALS = evlStats e EVL_STATS_SIGNALS"
    if "x \<noteq> EVL_STATS_SIGNALS" for x e
    using that by (simp add: evl_inc_stat_def)
  let ?d4 = "evl_inc_stat EVL_STATS_RECORD_MUTEX_RELEASED d3"
  have "iEVL_RaiseEvent os call (Some r) (Some sig) d w = Some (OK, ?d4, w5)" using inv(2) fw 1 3
    by (subst iEVL_RaiseEvent_def, subst up) (simp add: take rel)
  moreover have "evlStats ?d2 EVL_STATS_SIGNALS = evlStats d EVL_STATS_SIGNALS" "evlErrors ?d2 = evlErrors d"
    using 1(5,6) by (simp_all add: st)
  ultimately show ?thesis using s 1 by (intro exI[of _ ?d4]) (simp add: st)
qed

lemma bind_callback_ok:
  assumes inv: "record_inv r" "evl_firewalls d" "evlIsInitialised d"
    and os: "\<And>m w. fst (osMutexTake os m w)" "\<And>w. fst (osMemAlloc os w)"
  shows "\<exists>d' w'. iEVL_BindCallback os (Some r) (Some cb) d w =
      (if length (evlBindings r) < EVL_MAX_BINDINGS
       then (OK, Some \<lparr>evlBindings = evlBindings r @ [cb], iNumBindings = iNumBindings r + 1\<rparr>, d', w')
       else (ERROR, Some r, evl_inc_error EVL_ERRORS_BINDINGS d, w))"
proof -
  have t: "osMutexTake os m u = (True, snd (osMutexTake os m u))"
    and a: "osMemAlloc os u = (True, snd (osMemAlloc os u))" for m u
    using os by (simp_all add: prod_eq_iff)
  show ?thesis using inv
    by (auto simp: iEVL_BindCallback_def record_inv_def bind_locked_def Let_def split: prod.splits)
      (use a t in \<open>auto simp: prod_eq_iff\<close>)
qed

fun raise_all ::
  "'w evl_osal \<Rightarrow> ('cb \<Rightarrow> EVL_SIGNAL \<Rightarrow> 'w \<Rightarrow> int \<times> 'w) \<Rightarrow> 'cb EVL_RECORD \<Rightarrow> EVL_SIGNAL list
   \<Rightarrow> EVL_PRIVATE_DATA \<Rightarrow> 'w \<Rightarrow> (EVL_PRIVATE_DATA \<times> 'w) option" where
  "raise_all os call r [] d w = Some (d, w)"
| "raise_all os call r (sig # sigs) d w =
     do { (st, d1, w1) \<leftarrow> iEVL_RaiseEvent os call (Some r) (Some sig) d w;
          raise_all os call r sigs d1 w1 }"

lemma raise_all_history:
  assumes "evl_inv d" "evlIsInitialised d" "osal_ok os" "osal_transparent os"
  shows "\<exists>d' w'. raise_all os call r sigs d w = Some (d', w') \<and> evl_inv d' \<and> evlIsInitialised d'
    \<and> map snd (evl_history d') = drop (length sigs) (map snd (evl_history d) @ sigs)"
  using assms(1,2)
proof (induction sigs arbitrary: d w)
  case (Cons sig sigs)
  from raise_event_ok[OF Cons.prems assms(3,4), of call r sig w] obtain d1 w1 where
    1: "iEVL_RaiseEvent os call (Some r) (Some sig) d w = Some (OK, d1, w1)" "evl_inv d1"
      "evlIsInitialised d1" "evl_history d1 = tl (evl_history d) @ [(fst (osUptimeMs os w), sig)]"
    by blast
  from Cons.IH[OF 1(2,3), of w1] obtain d2 w2 where
    2: "raise_all os call r sigs d1 w1 = Some (d2, w2)" "evl_inv d2" "evlIsInitialised d2"
      "map snd (evl_history d2) = drop (length sigs) (map snd (evl_history d1) @ sigs)" by blast
  have "evl_history d \<noteq> []" using Cons.prems(1) by (auto simp: evl_history_def evl_inv_def EVL_LOG_LEN_def)
  then obtain h hs where h: "evl_history d = h # hs" by (cases "evl_history d") auto
  have "map snd (evl_history d2) = drop (length (sig # sigs)) (map snd (evl_history d) @ sig # sigs)"
    using 2(4) 1(4) h by simp
  with 1(1) 2(1-3) show ?case by simp
qed simp

section \<open>Properties\<close>

text \<open>
  C23: raising an event calls every callback bound to the record exactly once, in the
  order of binding, with the signal, whatever they return; adds one to the signal
  statistic per callback, and to the callback error counter exactly the number of
  callbacks that did not answer \<open>OK\<close>, and to no other error counter; and appends the signal
  with its time to the log in place of the oldest entry. The result is \<open>OK\<close> in every case:
  the \<open>ERROR\<close> set for a failed callback is overwritten when the mutex is released, so
  \<open>evl.h\<close>, which documents \<open>ERROR\<close> for a failing callback, does not describe the code.
\<close>

theorem evl_raise_delivers:
  assumes "evl_inv d" "evlIsInitialised d" "osal_ok os" "osal_transparent os"
  shows "\<exists>d'. iEVL_RaiseEvent os call (Some r) (Some sig) d w =
      Some (OK, d', fold (\<lambda>cb u. snd (call cb sig u)) (evlBindings r) w)
    \<and> evlStats d' EVL_STATS_SIGNALS = evlStats d EVL_STATS_SIGNALS + of_nat (length (evlBindings r))
    \<and> evlErrors d' = (evlErrors d)(EVL_ERRORS_CALLBACKS :=
         evlErrors d EVL_ERRORS_CALLBACKS + of_nat (callbacks_failed call (evlBindings r) sig w))
    \<and> evl_inv d' \<and> evl_history d' = tl (evl_history d) @ [(fst (osUptimeMs os w), sig)]"
  using raise_event_ok[OF assms] by blast

definition sample_osal :: "'w evl_osal" where
  "sample_osal = \<lparr> osMutexCreate = (\<lambda>_ w. (True, w)), osMutexTake = (\<lambda>_ w. (True, w)),
     osMutexRelease = (\<lambda>_ w. (True, w)), osMemAlloc = (\<lambda>w. (True, w)), osUptimeMs = (\<lambda>w. (5, w)) \<rparr>"

lemma sample_osal_ok: "osal_ok sample_osal" "osal_transparent sample_osal"
  by (simp_all add: osal_ok_def osal_transparent_def sample_osal_def)

definition sample_evl :: EVL_PRIVATE_DATA where
  "sample_evl = evl_local_data\<lparr>evlIsInitialised := True\<rparr>"

lemma sample_evl_ok: "evl_inv sample_evl" "evlIsInitialised sample_evl"
  using evl_inv_initial by (simp_all add: sample_evl_def evl_inv_def evl_firewalls_def)

lemma evl_raise_delivers_witness:
  "\<exists>d'. iEVL_RaiseEvent sample_osal (\<lambda>cb sig w. (ERROR, w @ [cb])) (Some \<lparr>evlBindings = [1, 2], iNumBindings = 2\<rparr>)
      (Some evl_zero_signal) sample_evl [] = Some (OK, d', [1, 2 :: nat])
    \<and> evlErrors d' EVL_ERRORS_CALLBACKS = evlErrors sample_evl EVL_ERRORS_CALLBACKS + 2"
  using evl_raise_delivers[OF sample_evl_ok sample_osal_ok, of "\<lambda>cb sig w. (ERROR, w @ [cb])"
      "\<lparr>evlBindings = [1, 2 :: nat], iNumBindings = 2\<rparr>" evl_zero_signal "[]"] by auto

text \<open>
  C30: the log keeps the most recent signals. After any sequence of raised events the
  log printed by \<open>iEVL_PrintLog\<close> shows the last \<open>EVL_LOG_LEN\<close> signals of the whole
  history, oldest first, numbered down to 1.
\<close>

theorem evl_log_keeps_latest:
  assumes "evl_inv d" "evlIsInitialised d" "osal_ok os" "osal_transparent os"
  shows "\<exists>d' w' rows d''. raise_all os call r sigs d w = Some (d', w')
    \<and> iEVL_PrintLog os d' w' = (OK, rows, d'', w')
    \<and> map (\<lambda>(t, n, sig). sig) rows = drop (length sigs) (map snd (evl_history d) @ sigs)
    \<and> map (\<lambda>(t, n, sig). n) rows = rev [1..<EVL_LOG_LEN + 1]"
proof -
  from raise_all_history[OF assms, of call r sigs w] obtain d' w' where
    1: "raise_all os call r sigs d w = Some (d', w')" "evl_inv d'" "evlIsInitialised d'"
      "map snd (evl_history d') = drop (length sigs) (map snd (evl_history d) @ sigs)" by blast
  let ?d = "evl_inc_stat EVL_STATS_LOG_MUTEX_GRABBED d'"
  have inv: "evl_inv ?d" using 1(2) by simp
  have "map (\<lambda>(t, n, sig). sig) (evl_print_rows ?d)
      = map snd (map (\<lambda>(t, n, sig). (t, sig)) (evl_print_rows ?d))" by auto
  then have sigs: "map (\<lambda>(t, n, sig). sig) (evl_print_rows ?d) = map snd (evl_history d')"
    by (simp add: evl_print_history(1)[OF inv])
  have os: "osMutexTake os m u = (True, u)" "osMutexRelease os m u = (True, u)" for m u
    using assms(3,4) by (simp_all add: osal_ok_def osal_transparent_def prod_eq_iff)
  have fw: "evl_firewalls d'" using 1(2) by (simp add: evl_inv_def)
  have pr: "\<exists>d''. iEVL_PrintLog os d' w' = (OK, evl_print_rows ?d, d'', w')"
    using fw 1(3) os by (simp add: iEVL_PrintLog_def Let_def)
  then obtain d'' where "iEVL_PrintLog os d' w' = (OK, evl_print_rows ?d, d'', w')" by blast
  then show ?thesis using 1(1,4) sigs evl_print_history(2)[OF inv] by (intro exI conjI) simp_all
qed

lemma evl_log_keeps_latest_witness:
  "\<exists>d' w' rows d''. raise_all sample_osal (\<lambda>_ _ w. (OK, w)) \<lparr>evlBindings = [True], iNumBindings = 1\<rparr>
      [evl_zero_signal, evl_zero_signal\<lparr>ucModule := 3\<rparr>] sample_evl () = Some (d', w')
    \<and> iEVL_PrintLog sample_osal d' w' = (OK, rows, d'', w')"
  using evl_log_keeps_latest[OF sample_evl_ok sample_osal_ok,
      of "\<lambda>_ _ w. (OK, w)" "\<lparr>evlBindings = [True], iNumBindings = 1\<rparr>"
        "[evl_zero_signal, evl_zero_signal\<lparr>ucModule := 3\<rparr>]" "()"] by blast

text \<open>
  Binding appends. A record in its invariant accepts a new callback at the end of
  its list exactly while it holds fewer than \<open>EVL_MAX_BINDINGS\<close>; otherwise the record
  is unchanged and the refusal is counted.
\<close>

theorem evl_bind_appends:
  assumes "record_inv r" "evl_firewalls d" "evlIsInitialised d"
    and "\<And>m w. fst (osMutexTake os m w)" "\<And>w. fst (osMemAlloc os w)"
  shows "\<exists>d' w'. iEVL_BindCallback os (Some r) (Some cb) d w =
      (if length (evlBindings r) < EVL_MAX_BINDINGS
       then (OK, Some \<lparr>evlBindings = evlBindings r @ [cb], iNumBindings = iNumBindings r + 1\<rparr>, d', w')
       else (ERROR, Some r, evl_inc_error EVL_ERRORS_BINDINGS d, w))"
  by (rule bind_callback_ok[OF assms])

lemma evl_bind_appends_witness:
  "\<exists>d' w'. iEVL_BindCallback sample_osal (Some \<lparr>evlBindings = [4], iNumBindings = 1\<rparr>) (Some 9) sample_evl ()
      = (OK, Some \<lparr>evlBindings = [4, 9 :: nat], iNumBindings = 2\<rparr>, d', w')"
  using evl_bind_appends[of "\<lparr>evlBindings = [4 :: nat], iNumBindings = 1\<rparr>" sample_evl sample_osal 9 "()"]
    sample_evl_ok
  by (simp add: record_inv_def evl_inv_def sample_osal_def EVL_MAX_BINDINGS_def numeral_2_eq_2)

end
