(* ===== verification/BmcState.thy ===== *)
theory BmcState
  imports Bytes Evl
begin

text \<open>
  The static variables of the BMC proxy (bmc_proxy_driver.c) and of the MCTP and PLDM code
  it contains, as one record, with the services the code calls as parameters: the event
  callbacks and the operating system of the event library, the functions of the firmware
  interface, the services of the OSAL, and the addresses at which the linker puts the
  pending-transfer tables, which the protocol exposes as handles. A Boolean result of a
  service is \<^term>\<open>True\<close> for success; \<open>'x\<close> is the rest of the world.
\<close>

section \<open>Enumerations\<close>

datatype BMC_PROXY_DRIVER_EVENTS =
    BMC_PROXY_DRIVER_E_MSG_ARRIVAL | BMC_PROXY_DRIVER_E_GET_PDR
  | BMC_PROXY_DRIVER_E_GET_PDR_REPOSITORY_INFO | BMC_PROXY_DRIVER_E_GET_SENSOR_INFO
  | BMC_PROXY_DRIVER_E_ENABLE_SENSOR | BMC_PROXY_DRIVER_E_INVALID_REQUEST_RECVD

primrec bmc_event_value :: "BMC_PROXY_DRIVER_EVENTS \<Rightarrow> u8" where
  "bmc_event_value BMC_PROXY_DRIVER_E_MSG_ARRIVAL = 0"
| "bmc_event_value BMC_PROXY_DRIVER_E_GET_PDR = 1"
| "bmc_event_value BMC_PROXY_DRIVER_E_GET_PDR_REPOSITORY_INFO = 2"
| "bmc_event_value BMC_PROXY_DRIVER_E_GET_SENSOR_INFO = 3"
| "bmc_event_value BMC_PROXY_DRIVER_E_ENABLE_SENSOR = 4"
| "bmc_event_value BMC_PROXY_DRIVER_E_INVALID_REQUEST_RECVD = 5"

datatype BMC_SENSOR_RESPONSE = BMC_RESPONSE_OK | BMC_RESPONSE_ERROR

primrec bmc_response_value :: "BMC_SENSOR_RESPONSE \<Rightarrow> u8" where
  "bmc_response_value BMC_RESPONSE_OK = 0"
| "bmc_response_value BMC_RESPONSE_ERROR = 1"

datatype BMC_SET_NUMERIC_SENSOR_ENABLE_RESPONSE =
    BMC_SENSOR_ENABLE_RESP_OK | BMC_SENSOR_ENABLE_RESP_INVALID_SENSOR_ID
  | BMC_SENSOR_ENABLE_RESP_INVALID_SENSOR_OPERATIONAL_STATE
  | BMC_SENSOR_ENABLE_RESP_EVENT_GENERATION_NOT_SUPPORTED | BMC_SENSOR_ENABLE_RESP_NONE

primrec enable_resp_value :: "BMC_SET_NUMERIC_SENSOR_ENABLE_RESPONSE \<Rightarrow> u8" where
  "enable_resp_value BMC_SENSOR_ENABLE_RESP_OK = 0"
| "enable_resp_value BMC_SENSOR_ENABLE_RESP_INVALID_SENSOR_ID = 1"
| "enable_resp_value BMC_SENSOR_ENABLE_RESP_INVALID_SENSOR_OPERATIONAL_STATE = 2"
| "enable_resp_value BMC_SENSOR_ENABLE_RESP_EVENT_GENERATION_NOT_SUPPORTED = 3"
| "enable_resp_value BMC_SENSOR_ENABLE_RESP_NONE = 4"

datatype BMC_GET_SENSOR_RESPONSE =
    BMC_GET_SENSOR_RESP_OK | BMC_GET_SENSOR_RESP_INVALID_SENSOR_ID
  | BMC_GET_SENSOR_RESP_INVALID_SENSOR_OPERATIONAL_STATE
  | BMC_GET_SENSOR_RESP_REARM_UNAVAILABLE_IN_PRESENT_STATE | BMC_GET_SENSOR_RESP_NONE

primrec get_resp_value :: "BMC_GET_SENSOR_RESPONSE \<Rightarrow> u8" where
  "get_resp_value BMC_GET_SENSOR_RESP_OK = 0"
| "get_resp_value BMC_GET_SENSOR_RESP_INVALID_SENSOR_ID = 1"
| "get_resp_value BMC_GET_SENSOR_RESP_INVALID_SENSOR_OPERATIONAL_STATE = 2"
| "get_resp_value BMC_GET_SENSOR_RESP_REARM_UNAVAILABLE_IN_PRESENT_STATE = 3"
| "get_resp_value BMC_GET_SENSOR_RESP_NONE = 4"

datatype BMC_PROXY_ERRORS =
    BMC_PROXY_ERRORS_MUTEX_RELEASE_FAILED | BMC_PROXY_ERRORS_MUTEX_TAKE_FAILED
  | BMC_PROXY_ERRORS_CREATE_SEMAPHORE | BMC_PROXY_ERRORS_PEND_SEMAPHORE
  | BMC_PROXY_ERRORS_POST_SEMAPHORE | BMC_PROXY_ERRORS_FW_IF_OPEN_FAILED
  | BMC_PROXY_ERRORS_FW_IF_READ_FAILED | BMC_PROXY_ERRORS_MEM_ALLOC_FAILED
  | BMC_PROXY_ERRORS_VALIDATION_FAILED | BMC_PROXY_INIT_MUTEX_CREATE_FAILED
  | BMC_PROXY_INIT_TASK_CREATE_FAILED | BMC_PROXY_VALIDATION_FAILED
  | BMC_PROXY_UNSUPPORTED_OPCODE_RX | BMC_PROXY_FW_IF_WRITE_FAILED | BMC_PROXY_BIND_CB_FAILED
  | BMC_PROXY_ERRORS_INIT_EVL_RECORD_FAILED | BMC_PROXY_RAISE_EVENT_FAIL
  | BMC_UNEXPECTED_SENSOR_ID | BMC_UNEXPECTED_FLAG

datatype BMC_PROXY_STATS =
    BMC_PROXY_STATS_INIT_OVERALL_COMPLETE | BMC_PROXY_STATS_CREATE_MUTEX
  | BMC_PROXY_STATS_CREATE_SEMAPHORE | BMC_PROXY_STATS_PEND_SEMAPHORE
  | BMC_PROXY_STATS_POST_SEMAPHORE | BMC_PROXY_STATS_TAKE_MUTEX | BMC_PROXY_STATS_RELEASE_MUTEX
  | BMC_PROXY_STATS_TASK_TIME_MS | BMC_PROXY_STATS_STATUS_RETRIEVAL
  | BMC_PROXY_STATS_GET_SENSOR_ID_REQUEST

datatype MODULE_STATE = MODULE_STATE_OK | MODULE_STATE_UNINITIALISED | MODULE_STATE_ERROR

section \<open>State\<close>

text \<open>
  The private data without the operating-system handles. A platform descriptor record (PDR)
  is the byte image of its packed structure, a table of records the list of the images.
\<close>

record BMC_PRIVATE_DATA =
  bmcUpperFirewall :: u32
  bmcInitialised :: bool
  ucMyId :: u8
  pucRxData :: "u8 list"
  ulRxDataSize :: u32
  ucProcessRxData :: bool
  ucAwaitingSensorData :: bool
  usRequestedSensorId :: u16
  ucRequestedSensorOperationalState :: u8
  ucRequestedSensorEventMessageEnable :: u8
  ucSetNumericSensorEnableResponse :: u8
  ucGetNumericSensorResponse :: u8
  ucGetNumericSensorState :: u8
  ssSensorInfo :: u16
  pxPdrTemperatureSensors :: "u8 list list"
  pxPdrVoltageSensors :: "u8 list list"
  pxPdrCurrentSensors :: "u8 list list"
  pxPdrPowerSensors :: "u8 list list"
  pxPdrSensorNames :: "u8 list list"
  pucUuid :: "u8 list"
  bmcStats :: "BMC_PROXY_STATS \<Rightarrow> u32"
  bmcErrors :: "BMC_PROXY_ERRORS \<Rightarrow> u32"
  xState :: MODULE_STATE
  bmcLowerFirewall :: u32

datatype RepoState = ERepoStateAvailable | ERepoStateUpdateInprogress | ERepoStateFailed

primrec repo_state_value :: "RepoState \<Rightarrow> u8" where
  "repo_state_value ERepoStateAvailable = 0"
| "repo_state_value ERepoStateUpdateInprogress = 1"
| "repo_state_value ERepoStateFailed = 2"

text \<open>The timestamps are byte images of the packed structure too (13 bytes).\<close>

record PDR_RepositoryInfo =
  repositoryState :: RepoState
  updateTimestamp :: "u8 list"
  OEMUpdateTimestamp :: "u8 list"
  recordCount :: u32
  repositorySize :: u32
  largestRecordSize :: u32
  dataTransferHandleTimeout :: u8
  PDRRecords :: "u8 list list"

record PendingTransfers =
  pendingInitialized :: u8
  next_start :: u8

record ('cb, 'x) bmc_state =
  pxThis :: BMC_PRIVATE_DATA
  evlData :: EVL_PRIVATE_DATA
  pxEvlRecord :: "'cb EVL_RECORD option"
  world :: 'x
  EID :: u16
  eidSetFlag :: u8
  TID :: u8
  PldmInitDone :: bool
  Pldm_Type_Supported :: "u8 list"
  Type0_Command_Supported :: "u8 list"
  Type2_Command_Supported :: "u8 list"
  GetVersionPendingXfers :: "PendingTransfers list"
  GetPDRPendingXfers :: "PendingTransfers list"
  iIsRepoInitialized :: bool
  xPdrTerminusLocator :: "u8 list list"
  MSP432_PDR_Repository :: PDR_RepositoryInfo
  ReqBuffer :: "u8 list"
  RespBuffer :: "u8 list"
  multiPartReqBuffer :: "u8 list"
  request_pkt :: bool
  BMC_endpoint_id_g :: u8
  SC_endpoint_id_g :: u8
  MCTP_header_version_g :: u8
  BMC_slave_address_g :: u8
  prv_seq_num :: u8
  staging_buff_size :: u32

record ('cb, 'x) bmc_env =
  bmcOs :: "(BMC_PRIVATE_DATA \<times> 'x) evl_osal"
  bmcCall :: "'cb \<Rightarrow> EVL_SIGNAL \<Rightarrow> BMC_PRIVATE_DATA \<times> 'x \<Rightarrow> int \<times> BMC_PRIVATE_DATA \<times> 'x"
  fwIfWrite :: "u64 \<Rightarrow> u8 list \<Rightarrow> 'x \<Rightarrow> bool \<times> 'x"
  mutexTake :: "'x \<Rightarrow> bool \<times> 'x"
  mutexRelease :: "'x \<Rightarrow> bool \<times> 'x"
  taskSleepMs :: "u32 \<Rightarrow> 'x \<Rightarrow> 'x"
  mutexCreate :: "'x \<Rightarrow> bool \<times> 'x"
  semaphoreCreate :: "'x \<Rightarrow> bool \<times> 'x"
  taskCreate :: "'x \<Rightarrow> bool \<times> 'x"
  memAlloc :: "nat \<Rightarrow> 'x \<Rightarrow> bool \<times> 'x"
  uptimeMs :: "'x \<Rightarrow> u32"
  fwIfOpen :: "'x \<Rightarrow> bool \<times> 'x"
  fwIfRead :: "u64 \<Rightarrow> u8 list \<Rightarrow> u32 \<Rightarrow> 'x \<Rightarrow> bool \<times> u8 list \<times> u32 \<times> 'x"
  versionXfersAddr :: u32
  pdrXfersAddr :: u32

definition UPPER_FIREWALL :: u32 where "UPPER_FIREWALL = 0xBABECAFE"
definition LOWER_FIREWALL :: u32 where "LOWER_FIREWALL = 0xDEADFACE"
definition HAL_UUID_SIZE :: nat where "HAL_UUID_SIZE = 16"

definition bmc_ready :: "BMC_PRIVATE_DATA \<Rightarrow> bool" where
  "bmc_ready p \<longleftrightarrow> UPPER_FIREWALL = bmcUpperFirewall p \<and> LOWER_FIREWALL = bmcLowerFirewall p \<and>
     bmcInitialised p"

definition bmc_inc_error :: "BMC_PROXY_ERRORS \<Rightarrow> BMC_PRIVATE_DATA \<Rightarrow> BMC_PRIVATE_DATA" where
  "bmc_inc_error e p = p\<lparr>bmcErrors := (bmcErrors p)(e := bmcErrors p e + 1)\<rparr>"

definition bmc_inc_error_with_state :: "BMC_PROXY_ERRORS \<Rightarrow> BMC_PRIVATE_DATA \<Rightarrow> BMC_PRIVATE_DATA" where
  "bmc_inc_error_with_state e p = bmc_inc_error e (p\<lparr>xState := MODULE_STATE_ERROR\<rparr>)"

definition bmc_inc_stat :: "BMC_PROXY_STATS \<Rightarrow> BMC_PRIVATE_DATA \<Rightarrow> BMC_PRIVATE_DATA" where
  "bmc_inc_stat e p = p\<lparr>bmcStats := (bmcStats p)(e := bmcStats p e + 1)\<rparr>"

text \<open>The private data as the program is loaded.\<close>

definition MAX_RX_DATA_SIZE :: nat where "MAX_RX_DATA_SIZE = 256"

definition bmc_local_data :: BMC_PRIVATE_DATA where
  "bmc_local_data = \<lparr>bmcUpperFirewall = UPPER_FIREWALL, bmcInitialised = False, ucMyId = 0,
     pucRxData = replicate MAX_RX_DATA_SIZE 0, ulRxDataSize = 0, ucProcessRxData = False,
     ucAwaitingSensorData = False, usRequestedSensorId = 0, ucRequestedSensorOperationalState = 0,
     ucRequestedSensorEventMessageEnable = 0,
     ucSetNumericSensorEnableResponse = enable_resp_value BMC_SENSOR_ENABLE_RESP_NONE,
     ucGetNumericSensorResponse = get_resp_value BMC_GET_SENSOR_RESP_NONE,
     ucGetNumericSensorState = 0, ssSensorInfo = 0, pxPdrTemperatureSensors = [],
     pxPdrVoltageSensors = [], pxPdrCurrentSensors = [], pxPdrPowerSensors = [],
     pxPdrSensorNames = [], pucUuid = replicate HAL_UUID_SIZE 0, bmcStats = (\<lambda>_. 0),
     bmcErrors = (\<lambda>_. 0), xState = MODULE_STATE_UNINITIALISED, bmcLowerFirewall = LOWER_FIREWALL\<rparr>"

text \<open>An instance of the services, in which every call succeeds and changes nothing.\<close>

definition sample_env :: "('cb, 'x) bmc_env" where
  "sample_env = \<lparr>bmcOs = sample_osal, bmcCall = (\<lambda>cb sig w. (OK, w)),
     fwIfWrite = (\<lambda>a bs x. (True, x)), mutexTake = (\<lambda>x. (True, x)), mutexRelease = (\<lambda>x. (True, x)),
     taskSleepMs = (\<lambda>ms x. x), mutexCreate = (\<lambda>x. (True, x)), semaphoreCreate = (\<lambda>x. (True, x)),
     taskCreate = (\<lambda>x. (True, x)), memAlloc = (\<lambda>n x. (True, x)), uptimeMs = (\<lambda>x. 0),
     fwIfOpen = (\<lambda>x. (True, x)), fwIfRead = (\<lambda>port buf n x. (True, buf, n, x)),
     versionXfersAddr = 0x20000000, pdrXfersAddr = 0x20000100\<rparr>"

end
