(* ===== verification/BmcProxy.thy ===== *)
theory BmcProxy
  imports BmcState
begin

text \<open>
  The services of the BMC proxy (bmc_proxy_driver.c) the MCTP and PLDM code relies on: the
  sensor requests, which raise an event and take the answer an application leaves in the
  private data while its callback runs; the UUID; the write of a response.
\<close>

section \<open>Completion codes and sensor constants\<close>

definition RESP_PLDM_SUCCESS :: u8 where "RESP_PLDM_SUCCESS = 0x00"
definition RESP_PLDM_ERROR_GENERIC :: u8 where "RESP_PLDM_ERROR_GENERIC = 0x01"
definition RESP_PLDM_ERROR_PLDM_CMD_NS :: u8 where "RESP_PLDM_ERROR_PLDM_CMD_NS = 0x05"
definition RESP_PLDM_ERROR_PLDM_TYPE_INV :: u8 where "RESP_PLDM_ERROR_PLDM_TYPE_INV = 0x20"
definition RESP_INVALID_DATA_XFER_HANDLE :: u8 where "RESP_INVALID_DATA_XFER_HANDLE = 0x80"
definition RESP_INVALID_XFER_OPERATION_FLAG :: u8 where "RESP_INVALID_XFER_OPERATION_FLAG = 0x81"
definition RESP_INVALID_PLDM_TYPE_IN_REQUEST :: u8 where "RESP_INVALID_PLDM_TYPE_IN_REQUEST = 0x83"
definition RESP_INVALID_PLDM_VERSION_IN_REQUEST :: u8 where "RESP_INVALID_PLDM_VERSION_IN_REQUEST = 0x84"
definition RESP_INVALID_RECORD_HANDLE :: u8 where "RESP_INVALID_RECORD_HANDLE = 0x82"
definition RESP_INVALID_RECORD_CHANGE_NUMBER :: u8 where "RESP_INVALID_RECORD_CHANGE_NUMBER = 0x83"
definition RESP_REPOSITORY_UPDATE_IN_PROGRESS :: u8 where "RESP_REPOSITORY_UPDATE_IN_PROGRESS = 0x85"
definition RESP_INVALID_SENSOR_ID :: u8 where "RESP_INVALID_SENSOR_ID = 0x80"
definition RESP_REARM_UNAVAILABLE_IN_PRESENT_STATE :: u8 where
  "RESP_REARM_UNAVAILABLE_IN_PRESENT_STATE = 0x81"
definition RESP_INVALID_SENSOR_OPERATIONAL_STATE :: u8 where
  "RESP_INVALID_SENSOR_OPERATIONAL_STATE = 0x81"
definition RESP_EVENT_GENERATION_NOT_SUPPORTED :: u8 where "RESP_EVENT_GENERATION_NOT_SUPPORTED = 0x82"

lemmas pldm_codes = RESP_PLDM_SUCCESS_def RESP_PLDM_ERROR_GENERIC_def RESP_PLDM_ERROR_PLDM_CMD_NS_def
  RESP_PLDM_ERROR_PLDM_TYPE_INV_def RESP_INVALID_DATA_XFER_HANDLE_def
  RESP_INVALID_XFER_OPERATION_FLAG_def RESP_INVALID_PLDM_TYPE_IN_REQUEST_def
  RESP_INVALID_PLDM_VERSION_IN_REQUEST_def RESP_INVALID_RECORD_HANDLE_def
  RESP_INVALID_RECORD_CHANGE_NUMBER_def RESP_REPOSITORY_UPDATE_IN_PROGRESS_def
  RESP_INVALID_SENSOR_ID_def RESP_REARM_UNAVAILABLE_IN_PRESENT_STATE_def
  RESP_INVALID_SENSOR_OPERATIONAL_STATE_def RESP_EVENT_GENERATION_NOT_SUPPORTED_def

datatype sensor_operational_state =
    eSensorOpStateEnabled | eSensorOpStateDisabled | eSensorOpStateUnavailable
  | eSensorOpStateStatusUnknown | eSensorOpStateFailed | eSensorOpStateInitializing
  | eSensorOpStateShuttingDown | eSensorOpStateInTest

primrec op_state_value :: "sensor_operational_state \<Rightarrow> u8" where
  "op_state_value eSensorOpStateEnabled = 0"
| "op_state_value eSensorOpStateDisabled = 1"
| "op_state_value eSensorOpStateUnavailable = 2"
| "op_state_value eSensorOpStateStatusUnknown = 3"
| "op_state_value eSensorOpStateFailed = 4"
| "op_state_value eSensorOpStateInitializing = 5"
| "op_state_value eSensorOpStateShuttingDown = 6"
| "op_state_value eSensorOpStateInTest = 7"

section \<open>Answers of the application\<close>

text \<open>
  Called from a callback, on the private data. The pointer to the signal is not used by the
  two response functions.
\<close>

definition iBMC_SendResponseForGetSensor ::
  "u16 \<Rightarrow> u16 \<Rightarrow> u8 \<Rightarrow> BMC_GET_SENSOR_RESPONSE \<Rightarrow> BMC_PRIVATE_DATA \<Rightarrow> int \<times> BMC_PRIVATE_DATA" where
  "iBMC_SendResponseForGetSensor usSensorId ssInfo ucSensorState xResp p =
     (if bmc_ready p
      then if ucAwaitingSensorData p
        then if usRequestedSensorId p = usSensorId
          then (OK, p\<lparr>ssSensorInfo := ssInfo,
                      ucRequestedSensorOperationalState := ucSensorState,
                      ucGetNumericSensorResponse := get_resp_value xResp,
                      ucAwaitingSensorData := False\<rparr>)
          else (ERROR, (bmc_inc_error BMC_UNEXPECTED_SENSOR_ID
                 (p\<lparr>ucGetNumericSensorResponse := get_resp_value BMC_GET_SENSOR_RESP_NONE\<rparr>))
                 \<lparr>ucAwaitingSensorData := False\<rparr>)
        else (ERROR, bmc_inc_error BMC_UNEXPECTED_FLAG p)
      else (ERROR, bmc_inc_error BMC_PROXY_VALIDATION_FAILED p))"

definition iBMC_SetResponse ::
  "u16 \<Rightarrow> BMC_SENSOR_RESPONSE \<Rightarrow> BMC_PRIVATE_DATA \<Rightarrow> int \<times> BMC_PRIVATE_DATA" where
  "iBMC_SetResponse usSensorId xResp p =
     (if bmc_ready p
      then if ucAwaitingSensorData p
        then if usRequestedSensorId p = usSensorId
          then (OK, p\<lparr>ucSetNumericSensorEnableResponse := bmc_response_value xResp,
                      ucAwaitingSensorData := False\<rparr>)
          else (ERROR, (bmc_inc_error BMC_UNEXPECTED_SENSOR_ID
                 (p\<lparr>ucSetNumericSensorEnableResponse := enable_resp_value BMC_SENSOR_ENABLE_RESP_NONE\<rparr>))
                 \<lparr>ucAwaitingSensorData := False\<rparr>)
        else (ERROR, bmc_inc_error BMC_UNEXPECTED_FLAG p)
      else (ERROR, bmc_inc_error BMC_PROXY_VALIDATION_FAILED p))"

text \<open>Returns the requested sensor and operational state; \<^term>\<open>None\<close>: nothing is stored.\<close>

definition iBMC_GetSensorIdRequest ::
  "EVL_SIGNAL option \<Rightarrow> BMC_PRIVATE_DATA \<Rightarrow> int \<times> (u16 \<times> u8) option \<times> BMC_PRIVATE_DATA" where
  "iBMC_GetSensorIdRequest pxSignal p =
     (if bmc_ready p \<and> pxSignal \<noteq> None
      then (OK, Some (usRequestedSensorId p, ucRequestedSensorOperationalState p),
            bmc_inc_stat BMC_PROXY_STATS_GET_SENSOR_ID_REQUEST p)
      else (ERROR, None, bmc_inc_error BMC_PROXY_VALIDATION_FAILED p))"

section \<open>Sensor tables\<close>

definition iGetNumTemperatureSensors :: "BMC_PRIVATE_DATA \<Rightarrow> nat" where
  "iGetNumTemperatureSensors p = (if bmc_ready p then length (pxPdrTemperatureSensors p) else 0)"
definition iGetNumVoltageSensors :: "BMC_PRIVATE_DATA \<Rightarrow> nat" where
  "iGetNumVoltageSensors p = (if bmc_ready p then length (pxPdrVoltageSensors p) else 0)"
definition iGetNumCurrentSensors :: "BMC_PRIVATE_DATA \<Rightarrow> nat" where
  "iGetNumCurrentSensors p = (if bmc_ready p then length (pxPdrCurrentSensors p) else 0)"
definition iGetNumPowerSensors :: "BMC_PRIVATE_DATA \<Rightarrow> nat" where
  "iGetNumPowerSensors p = (if bmc_ready p then length (pxPdrPowerSensors p) else 0)"
definition iGetNumNameSensors :: "BMC_PRIVATE_DATA \<Rightarrow> nat" where
  "iGetNumNameSensors p = (if bmc_ready p then length (pxPdrSensorNames p) else 0)"

lemmas sensor_numbers = iGetNumTemperatureSensors_def iGetNumVoltageSensors_def
  iGetNumCurrentSensors_def iGetNumPowerSensors_def iGetNumNameSensors_def

text \<open>\<open>usSensorId\<close> is at offset 12 of a numeric sensor record.\<close>

definition has_sensor :: "u16 \<Rightarrow> u8 list list \<Rightarrow> bool" where
  "has_sensor ident recs = list_ex (\<lambda>r. rd16 r 12 = Some ident) recs"

definition iCheckSensorValid :: "u16 \<Rightarrow> BMC_PRIVATE_DATA \<Rightarrow> int" where
  "iCheckSensorValid ident p =
     (if bmc_ready p \<and>
        (has_sensor ident (take (iGetNumTemperatureSensors p) (pxPdrTemperatureSensors p)) \<or>
         has_sensor ident (take (iGetNumVoltageSensors p) (pxPdrVoltageSensors p)) \<or>
         has_sensor ident (take (iGetNumCurrentSensors p) (pxPdrCurrentSensors p)) \<or>
         has_sensor ident (take (iGetNumPowerSensors p) (pxPdrPowerSensors p)))
      then OK else ERROR)"

section \<open>Requests to the application\<close>

definition bmc_signal :: "BMC_PROXY_DRIVER_EVENTS \<Rightarrow> BMC_PRIVATE_DATA \<Rightarrow> EVL_SIGNAL" where
  "bmc_signal ev p = \<lparr>ucModule = ucMyId p, ucEventType = bmc_event_value ev, ucInstance = 0,
     ucAdditionalData = 0\<rparr>"

definition iRaiseBmcEvent ::
  "('cb, 'x) bmc_env \<Rightarrow> BMC_PROXY_DRIVER_EVENTS \<Rightarrow> ('cb, 'x) bmc_state
   \<Rightarrow> (int \<times> ('cb, 'x) bmc_state) option" where
  "iRaiseBmcEvent env ev s =
     (let p = (if ev = BMC_PROXY_DRIVER_E_GET_SENSOR_INFO \<or> ev = BMC_PROXY_DRIVER_E_ENABLE_SENSOR
               then pxThis s\<lparr>ucAwaitingSensorData := True\<rparr> else pxThis s)
      in do {
        (st, d', p', x') \<leftarrow> iEVL_RaiseEvent (bmcOs env) (bmcCall env) (pxEvlRecord s)
            (Some (bmc_signal ev p)) (evlData s) (p, world s);
        Some (st, s\<lparr>evlData := d', world := x',
          pxThis := (if st = ERROR then bmc_inc_error BMC_PROXY_RAISE_EVENT_FAIL p' else p')\<rparr>) })"

text \<open>
  The response bytes go to \<open>out\<close> at the position \<open>sz\<close>, which is returned advanced.
\<close>

definition iSetNumericSensorEnable ::
  "('cb, 'x) bmc_env \<Rightarrow> u16 \<Rightarrow> u8 \<Rightarrow> u8 list \<Rightarrow> nat \<Rightarrow> ('cb, 'x) bmc_state
   \<Rightarrow> (int \<times> u8 list \<times> nat \<times> ('cb, 'x) bmc_state) option" where
  "iSetNumericSensorEnable env ident opstate out sz s =
     (if bmc_ready (pxThis s)
      then let s1 = s\<lparr>pxThis := pxThis s\<lparr>usRequestedSensorId := ident,
                       ucRequestedSensorOperationalState := opstate\<rparr>\<rparr> in
        if iCheckSensorValid ident (pxThis s1) = OK
        then do {
          (st, s2) \<leftarrow> iRaiseBmcEvent env BMC_PROXY_DRIVER_E_ENABLE_SENSOR s1;
          if st = OK
          then let r = ucSetNumericSensorEnableResponse (pxThis s2);
                   code = (if r = enable_resp_value BMC_SENSOR_ENABLE_RESP_OK then RESP_PLDM_SUCCESS
                     else if r = enable_resp_value BMC_SENSOR_ENABLE_RESP_INVALID_SENSOR_ID
                       then RESP_INVALID_SENSOR_ID
                     else if r = enable_resp_value BMC_SENSOR_ENABLE_RESP_INVALID_SENSOR_OPERATIONAL_STATE
                       then RESP_INVALID_SENSOR_OPERATIONAL_STATE
                     else if r = enable_resp_value BMC_SENSOR_ENABLE_RESP_EVENT_GENERATION_NOT_SUPPORTED
                       then RESP_EVENT_GENERATION_NOT_SUPPORTED
                     else RESP_PLDM_ERROR_GENERIC)
               in do { out' \<leftarrow> wr8 sz code out; Some (OK, out', sz + 1, s2) }
          else do { out' \<leftarrow> wr8 sz RESP_PLDM_ERROR_GENERIC out; Some (ERROR, out', sz + 1, s2) } }
        else do { out' \<leftarrow> wr8 sz RESP_INVALID_SENSOR_ID out; Some (ERROR, out', sz + 1, s1) }
      else Some (ERROR, out, sz, s))"

text \<open>
  The three output arguments as options: \<^term>\<open>None\<close> is a variable of the caller left as it
  was, that is, indeterminate.
\<close>

definition iGetNumericSensorReading ::
  "('cb, 'x) bmc_env \<Rightarrow> u16 \<Rightarrow> ('cb, 'x) bmc_state
   \<Rightarrow> (int \<times> u8 option \<times> u8 option \<times> u16 option \<times> ('cb, 'x) bmc_state) option" where
  "iGetNumericSensorReading env ident s =
     (if bmc_ready (pxThis s)
      then let s1 = s\<lparr>pxThis := pxThis s\<lparr>usRequestedSensorId := ident\<rparr>\<rparr> in
        if iCheckSensorValid ident (pxThis s1) = OK
        then do {
          (st, s2) \<leftarrow> iRaiseBmcEvent env BMC_PROXY_DRIVER_E_GET_SENSOR_INFO s1;
          if st = OK
          then let p = pxThis s2; r = ucGetNumericSensorResponse p in
            if r = get_resp_value BMC_GET_SENSOR_RESP_OK
            then Some (OK, Some RESP_PLDM_SUCCESS, Some (ucRequestedSensorOperationalState p),
                       Some (ssSensorInfo p), s2)
            else if r = get_resp_value BMC_GET_SENSOR_RESP_INVALID_SENSOR_ID
            then Some (OK, Some RESP_INVALID_SENSOR_ID, None, None, s2)
            else if r = get_resp_value BMC_GET_SENSOR_RESP_INVALID_SENSOR_OPERATIONAL_STATE
            then Some (OK, Some RESP_INVALID_SENSOR_OPERATIONAL_STATE, None, None, s2)
            else if r = get_resp_value BMC_GET_SENSOR_RESP_REARM_UNAVAILABLE_IN_PRESENT_STATE
            then Some (OK, Some RESP_REARM_UNAVAILABLE_IN_PRESENT_STATE, None, None, s2)
            else Some (OK, Some RESP_PLDM_ERROR_GENERIC, None, None, s2)
          else Some (ERROR, Some RESP_PLDM_ERROR_GENERIC, None, None, s2) }
        else Some (ERROR, Some RESP_INVALID_SENSOR_ID, None, None, s1)
      else Some (ERROR, None, None, None, s))"

section \<open>UUID and transmission\<close>

definition iGetUuid :: "BMC_PRIVATE_DATA \<Rightarrow> u8 list \<Rightarrow> (nat \<times> u8 list) option" where
  "iGetUuid p out =
     (if bmc_ready p
      then do { uuid \<leftarrow> rd_bytes (pucUuid p) 0 HAL_UUID_SIZE;
                out' \<leftarrow> wr_bytes 0 uuid out; Some (HAL_UUID_SIZE, out') }
      else Some (0, out))"

text \<open>
  The first byte of the data is the address, the second, the size, is not transmitted; on
  success the result is the size of the data.
\<close>

definition iResponseDataWrite ::
  "('cb, 'x) bmc_env \<Rightarrow> u8 list \<Rightarrow> u16 \<Rightarrow> ('cb, 'x) bmc_state \<Rightarrow> (int \<times> ('cb, 'x) bmc_state) option" where
  "iResponseDataWrite env data sz s =
     (if bmc_ready (pxThis s)
      then do {
        addr \<leftarrow> rd8 data 0;
        payload \<leftarrow> rd_bytes data 2 (unat sz - 2);
        let (ok, x') = fwIfWrite env (ucast addr) payload (world s);
        Some (if ok then uint sz else ERROR, s\<lparr>world := x'\<rparr>) }
      else Some (ERROR, s))"

end
