(* ===== verification/PldmPdr.thy ===== *)
theory PldmPdr
  imports BmcProxy
begin

text \<open>
  The repository of platform descriptor records: pldm_pdr.c and \<open>vPdrRepoInit\<close> of
  bmc_proxy_driver.c. A record is the byte image of its packed structure, whose common
  header has the handle at offset 0, the header version at 4, the type at 5, the change
  number at 6 and the length of the data that follows at 8.
\<close>

section \<open>Constants\<close>

definition PDR_HEADER_VERSION :: u8 where "PDR_HEADER_VERSION = 1"
definition EPDRTypeTerminusLocator :: u8 where "EPDRTypeTerminusLocator = 1"
definition EPDRTypeNumericSensor :: u8 where "EPDRTypeNumericSensor = 2"
definition EPDRTypeSensorAuxNames :: u8 where "EPDRTypeSensorAuxNames = 6"
definition TOTAL_PDR_COUNT_TERMINUS :: nat where "TOTAL_PDR_COUNT_TERMINUS = 1"
definition TOTAL_PDR_COUNT_NAME :: nat where "TOTAL_PDR_COUNT_NAME = 38"
definition TOTAL_PDR_COUNT :: nat where
  "TOTAL_PDR_COUNT = TOTAL_PDR_COUNT_TERMINUS + TOTAL_PDR_COUNT_NAME * 2"
definition MAX_NAME_SIZE :: nat where "MAX_NAME_SIZE = 32"

text \<open>The sizes of the packed structures.\<close>

definition sizeof_CommonPDRFormat :: nat where "sizeof_CommonPDRFormat = 10"
definition sizeof_TerminusPDRFormat_UID :: nat where "sizeof_TerminusPDRFormat_UID = 35"
definition sizeof_PLDM_NUMERIC_SENSOR_PDR :: nat where "sizeof_PLDM_NUMERIC_SENSOR_PDR = 81"
definition sizeof_PLDM_NUMERIC_SENSOR_NAME_PDR :: nat where
  "sizeof_PLDM_NUMERIC_SENSOR_NAME_PDR = 86"

lemmas pdr_consts = PDR_HEADER_VERSION_def EPDRTypeTerminusLocator_def EPDRTypeNumericSensor_def
  EPDRTypeSensorAuxNames_def TOTAL_PDR_COUNT_TERMINUS_def TOTAL_PDR_COUNT_NAME_def
  TOTAL_PDR_COUNT_def MAX_NAME_SIZE_def sizeof_CommonPDRFormat_def
  sizeof_TerminusPDRFormat_UID_def sizeof_PLDM_NUMERIC_SENSOR_PDR_def
  sizeof_PLDM_NUMERIC_SENSOR_NAME_PDR_def

text \<open>The terminus record as the program is loaded: handle, validity, TID, container, locator.\<close>

definition initial_terminus_locator :: "u8 list" where
  "initial_terminus_locator =
     replicate 10 0 @ le16 0 @ [1, 0] @ le16 0x7F7F @ [0, 17, 1] @ replicate 16 0"

definition initial_repository :: PDR_RepositoryInfo where
  "initial_repository = \<lparr>repositoryState = ERepoStateFailed, updateTimestamp = replicate 13 0,
     OEMUpdateTimestamp = replicate 13 0, recordCount = 0, repositorySize = 0, largestRecordSize = 0,
     dataTransferHandleTimeout = 0, PDRRecords = []\<rparr>"

text \<open>All the static variables as the program is loaded, in the world \<open>x\<close>.\<close>

definition bmc_initial :: "'x \<Rightarrow> ('cb, 'x) bmc_state" where
  "bmc_initial x = \<lparr>pxThis = bmc_local_data, evlData = evl_local_data, pxEvlRecord = None, world = x,
     EID = 0, eidSetFlag = 0, TID = 0, PldmInitDone = False, Pldm_Type_Supported = replicate 8 0,
     Type0_Command_Supported = replicate 32 0, Type2_Command_Supported = replicate 32 0,
     GetVersionPendingXfers = replicate 64 \<lparr>pendingInitialized = 0, next_start = 0\<rparr>,
     GetPDRPendingXfers = replicate 100 \<lparr>pendingInitialized = 0, next_start = 0\<rparr>,
     iIsRepoInitialized = False, xPdrTerminusLocator = [initial_terminus_locator],
     MSP432_PDR_Repository = initial_repository, ReqBuffer = replicate 255 0,
     RespBuffer = replicate 255 0, multiPartReqBuffer = replicate 1024 0, request_pkt = True,
     BMC_endpoint_id_g = 0, SC_endpoint_id_g = 0, MCTP_header_version_g = 0,
     BMC_slave_address_g = 0, prv_seq_num = 0, staging_buff_size = 0\<rparr>"

section \<open>Timestamps and names\<close>

text \<open>UTC offset, microseconds, seconds, minutes, hours, day, month, year, resolution.\<close>

definition vUpdateTimestamp :: "u8 list" where
  "vUpdateTimestamp = le16 0 @ [0, 0, 0] @ [15, 30, 8, 0, 0] @ le16 0 @ [0xF]"

text \<open>
  The loop reads the 16-bit character before it compares the index with the size; the name
  is the end of the record, so that one character too many is outside.
\<close>

function name_length :: "u8 list \<Rightarrow> nat \<Rightarrow> nat option" where
  "name_length namePDR i =
     (case rd16 namePDR (2 * i) of
        None \<Rightarrow> None
      | Some c \<Rightarrow> if c \<noteq> 0 \<and> i < MAX_NAME_SIZE then name_length namePDR (i + 1) else Some i)"
  by auto
termination
  by (relation "measure (\<lambda>(name, i). MAX_NAME_SIZE - i)") auto

declare name_length.simps [simp del]

definition sensor_name_empty_space :: "u8 list \<Rightarrow> (u32 \<times> u8 list) option" where
  "sensor_name_empty_space namePDR = do {
     n \<leftarrow> name_length namePDR 0;
     let i = n + 1;
     namePDR' \<leftarrow> (if i = MAX_NAME_SIZE then wr_bytes (2 * (i - 1)) (le16 0) namePDR else Some namePDR);
     Some (2 * (of_nat MAX_NAME_SIZE - of_nat i), namePDR') }"

section \<open>Building the repository\<close>

definition set_pdr_header :: "u32 \<Rightarrow> u8 \<Rightarrow> u32 \<Rightarrow> u8 list \<Rightarrow> u8 list option" where
  "set_pdr_header handle ty sz rec =
     wr_bytes 0 (le_bytes handle @ [PDR_HEADER_VERSION, ty] @ le16 0
       @ le16 (ucast (sz - of_nat sizeof_CommonPDRFormat))) rec"

text \<open>One pass of the loops: the next slot of the repository points to the record.\<close>

definition add_record :: "u8 \<Rightarrow> u32 \<Rightarrow> u8 list \<Rightarrow> PDR_RepositoryInfo \<Rightarrow> PDR_RepositoryInfo option" where
  "add_record ty sz rec repo =
     (if length (PDRRecords repo) < TOTAL_PDR_COUNT
      then do {
        rec' \<leftarrow> set_pdr_header (of_nat (length (PDRRecords repo))) ty sz rec;
        Some (repo\<lparr>PDRRecords := PDRRecords repo @ [rec'],
                   recordCount := recordCount repo + 1,
                   repositorySize := repositorySize repo + sz,
                   largestRecordSize := max (largestRecordSize repo) sz\<rparr>) }
      else None)"

fun add_sensor_records :: "u8 list list \<Rightarrow> PDR_RepositoryInfo \<Rightarrow> PDR_RepositoryInfo option" where
  "add_sensor_records [] repo = Some repo"
| "add_sensor_records (r # rs) repo = do {
     repo' \<leftarrow> add_record EPDRTypeNumericSensor (of_nat sizeof_PLDM_NUMERIC_SENSOR_PDR) r repo;
     add_sensor_records rs repo' }"

text \<open>\<open>ucSensorNameBe16\<close> is at offset 22 of a name record.\<close>

fun add_name_records :: "u8 list list \<Rightarrow> PDR_RepositoryInfo \<Rightarrow> PDR_RepositoryInfo option" where
  "add_name_records [] repo = Some repo"
| "add_name_records (r # rs) repo = do {
     (empty, name) \<leftarrow> sensor_name_empty_space (drop 22 r);
     repo' \<leftarrow> add_record EPDRTypeSensorAuxNames
        (of_nat sizeof_PLDM_NUMERIC_SENSOR_NAME_PDR - empty) (take 22 r @ name) repo;
     add_name_records rs repo' }"

definition add_terminus_record ::
  "u8 list \<Rightarrow> u8 list \<Rightarrow> PDR_RepositoryInfo \<Rightarrow> PDR_RepositoryInfo option" where
  "add_terminus_record uuid rec repo = do {
     bytes \<leftarrow> rd_bytes uuid 0 HAL_UUID_SIZE;
     rec' \<leftarrow> wr_bytes 19 bytes rec;
     add_record EPDRTypeTerminusLocator (of_nat sizeof_TerminusPDRFormat_UID) rec' repo }"

definition vPdrRepoInit :: "('cb, 'x) bmc_state \<Rightarrow> ('cb, 'x) bmc_state option" where
  "vPdrRepoInit s =
     (if iIsRepoInitialized s then Some s
      else let p = pxThis s;
               repo = (MSP432_PDR_Repository s)\<lparr>repositoryState := ERepoStateAvailable,
                 recordCount := 0, repositorySize := 0, largestRecordSize := 0,
                 dataTransferHandleTimeout := 0, updateTimestamp := vUpdateTimestamp,
                 OEMUpdateTimestamp := vUpdateTimestamp, PDRRecords := []\<rparr>
       in do {
         loc \<leftarrow> (case xPdrTerminusLocator s of [r] \<Rightarrow> Some r | _ \<Rightarrow> None);
         r1 \<leftarrow> add_terminus_record (pucUuid p) loc repo;
         r2 \<leftarrow> add_sensor_records (take (iGetNumTemperatureSensors p) (pxPdrTemperatureSensors p)) r1;
         r3 \<leftarrow> add_sensor_records (take (iGetNumVoltageSensors p) (pxPdrVoltageSensors p)) r2;
         r4 \<leftarrow> add_sensor_records (take (iGetNumCurrentSensors p) (pxPdrCurrentSensors p)) r3;
         r5 \<leftarrow> add_sensor_records (take (iGetNumPowerSensors p) (pxPdrPowerSensors p)) r4;
         r6 \<leftarrow> add_name_records (take (iGetNumNameSensors p) (pxPdrSensorNames p)) r5;
         Some (s\<lparr>iIsRepoInitialized := True, MSP432_PDR_Repository := r6\<rparr>) })"

text \<open>The repository after a possible first initialisation.\<close>

definition getPDRRepository ::
  "('cb, 'x) bmc_state \<Rightarrow> (PDR_RepositoryInfo \<times> ('cb, 'x) bmc_state) option" where
  "getPDRRepository s = do { s' \<leftarrow> vPdrRepoInit s; Some (MSP432_PDR_Repository s', s') }"

text \<open>The TID is at offset 13 of the terminus record, the first of the repository.\<close>

definition PLDM_TERMINUS_HANDLE :: nat where "PLDM_TERMINUS_HANDLE = 0"

definition update_tid :: "u8 \<Rightarrow> ('cb, 'x) bmc_state \<Rightarrow> ('cb, 'x) bmc_state option" where
  "update_tid tid s = do {
     s' \<leftarrow> vPdrRepoInit s;
     let repo = MSP432_PDR_Repository s';
     (if PLDM_TERMINUS_HANDLE < length (PDRRecords repo)
      then do {
        let rec = PDRRecords repo ! PLDM_TERMINUS_HANDLE;
        rec1 \<leftarrow> wr8 13 tid rec;
        change \<leftarrow> rd16 rec1 6;
        rec2 \<leftarrow> wr_bytes 6 (le16 (change + 1)) rec1;
        Some (s'\<lparr>MSP432_PDR_Repository := repo\<lparr>
          PDRRecords := (PDRRecords repo)[PLDM_TERMINUS_HANDLE := rec2],
          updateTimestamp := vUpdateTimestamp, repositoryState := ERepoStateAvailable\<rparr>\<rparr>) }
      else None) }"

end
