(* ===== verification/PldmCommands.thy ===== *)
theory PldmCommands
  imports PldmPdr
begin

text \<open>
  The tables of PLDM types, versions and commands, pldm_commands.c: initialisation of the
  support bitmaps, look-up of the function of a command, and the queries about what is
  supported. A function pointer is the name of the function. The list of command lists of a
  type has one element for types 0 and 2 and is NULL for the others.
\<close>

section \<open>Commands and their tables\<close>

datatype pldm_function =
    pldm_SetTID | pldm_GetTID | pldm_GetPLDMVersion | pldm_GetPLDMType | pldm_GetPLDMCommand
  | pldm_SetNumericSensorEnable | pldm_GetSensorReading | pldm_GetPDRRepositoryInfo | pldm_GetPDR

definition MAX_PLDM_TYPE :: nat where "MAX_PLDM_TYPE = 6"
definition POSSIBLE_MAX_PLDM_TYPE :: nat where "POSSIBLE_MAX_PLDM_TYPE = 8 * 8"
definition POSSIBLE_MAX_PLDM_CMD :: nat where "POSSIBLE_MAX_PLDM_CMD = 8 * 32"
definition MAX_PLDM_0_COMMAND :: nat where "MAX_PLDM_0_COMMAND = 6"
definition MAX_PLDM_2_COMMAND :: nat where "MAX_PLDM_2_COMMAND = 0x54"

definition CHECK_RANGE :: "nat \<Rightarrow> nat \<Rightarrow> nat \<Rightarrow> bool" where
  "CHECK_RANGE v lo hi \<longleftrightarrow> lo \<le> v \<and> v < hi \<and> lo < hi"

definition Pldm_Versions :: "u8 list list" where
  "Pldm_Versions = [[0x00, 0xF0, 0xF1, 0xF1], [0x00, 0xF2, 0xF2, 0xF1]]"

definition PldmType0_cmd :: "pldm_function option list" where
  "PldmType0_cmd = [None, Some pldm_SetTID, Some pldm_GetTID, Some pldm_GetPLDMVersion,
     Some pldm_GetPLDMType, Some pldm_GetPLDMCommand]"

definition PldmType2_cmd :: "pldm_function option list" where
  "PldmType2_cmd = (replicate MAX_PLDM_2_COMMAND None)
     [0x10 := Some pldm_SetNumericSensorEnable, 0x11 := Some pldm_GetSensorReading,
      0x50 := Some pldm_GetPDRRepositoryInfo, 0x51 := Some pldm_GetPDR]"

text \<open>The constant part of a command list; its bitmap is in the state.\<close>

record Pldm_command_list =
  funcList :: "pldm_function option list"
  max_command_id :: nat
  version_id :: nat

definition type0_cmd_list :: Pldm_command_list where
  "type0_cmd_list = \<lparr>funcList = PldmType0_cmd, max_command_id = MAX_PLDM_0_COMMAND, version_id = 0\<rparr>"

definition type2_cmd_list :: Pldm_command_list where
  "type2_cmd_list = \<lparr>funcList = PldmType2_cmd, max_command_id = MAX_PLDM_2_COMMAND, version_id = 1\<rparr>"

definition pldm_type_cmd :: "Pldm_command_list list list" where
  "pldm_type_cmd = [[type0_cmd_list], [], [type2_cmd_list], [], [], []]"

section \<open>Initialisation\<close>

text \<open>Bit \<open>i mod 8\<close> of byte \<open>i div 8\<close> is set for each \<open>i < n\<close> that satisfies \<open>P\<close>.\<close>

fun set_bits :: "(nat \<Rightarrow> bool) \<Rightarrow> nat \<Rightarrow> u8 list \<Rightarrow> u8 list option" where
  "set_bits P 0 bm = Some bm"
| "set_bits P (Suc i) bm = do {
     bm' \<leftarrow> set_bits P i bm;
     (if P i
      then if i div 8 < length bm'
        then Some (bm'[i div 8 := bm' ! (i div 8) OR push_bit (i mod 8) 1]) else None
      else Some bm') }"

definition pldm_command_init :: "('cb, 'x) bmc_state \<Rightarrow> (int \<times> ('cb, 'x) bmc_state) option" where
  "pldm_command_init s =
     (if PldmInitDone s then Some (0, s)
      else do {
        s1 \<leftarrow> vPdrRepoInit s;
        types \<leftarrow> set_bits (\<lambda>t. pldm_type_cmd ! t \<noteq> []) MAX_PLDM_TYPE (Pldm_Type_Supported s1);
        cmds0 \<leftarrow> set_bits (\<lambda>c. funcList type0_cmd_list ! c \<noteq> None) (max_command_id type0_cmd_list)
                   (Type0_Command_Supported s1);
        cmds2 \<leftarrow> set_bits (\<lambda>c. funcList type2_cmd_list ! c \<noteq> None) (max_command_id type2_cmd_list)
                   (Type2_Command_Supported s1);
        Some (0, s1\<lparr>Pldm_Type_Supported := types, Type0_Command_Supported := cmds0,
                    Type2_Command_Supported := cmds2, PldmInitDone := True\<rparr>) })"

section \<open>Queries\<close>

definition get_pldm_version_id :: "u8 list \<Rightarrow> int" where
  "get_pldm_version_id version =
     (if take 4 version = Pldm_Versions ! 0 then 0
      else if take 4 version = Pldm_Versions ! 1 then 1 else - 1)"

definition IsPldmTypeSupported :: "u8 \<Rightarrow> bool" where
  "IsPldmTypeSupported ty =
     (if \<not> CHECK_RANGE (unat ty) 0 MAX_PLDM_TYPE then False else pldm_type_cmd ! unat ty \<noteq> [])"

fun find_function :: "nat \<Rightarrow> Pldm_command_list list \<Rightarrow> pldm_function option" where
  "find_function cmd [] = None"
| "find_function cmd (l # ls) =
     (if \<not> CHECK_RANGE cmd 1 (max_command_id l) then find_function cmd ls
      else case funcList l ! cmd of
        Some f \<Rightarrow> Some f
      | None \<Rightarrow> find_function cmd ls)"

definition get_pldm_func :: "u8 \<Rightarrow> u8 \<Rightarrow> u8 \<times> pldm_function option" where
  "get_pldm_func ty cmd =
     (if \<not> IsPldmTypeSupported ty then (RESP_PLDM_ERROR_PLDM_TYPE_INV, None)
      else case find_function (unat cmd) (pldm_type_cmd ! unat ty) of
        Some f \<Rightarrow> (RESP_PLDM_SUCCESS, Some f)
      | None \<Rightarrow> (RESP_PLDM_ERROR_PLDM_CMD_NS, None))"

text \<open>The bytes are stored at the start of \<open>out\<close>; the size is returned.\<close>

definition getPldmTypeSupport ::
  "u8 list \<Rightarrow> ('cb, 'x) bmc_state \<Rightarrow> (nat \<times> u8 list \<times> ('cb, 'x) bmc_state) option" where
  "getPldmTypeSupport out s = do {
     (_, s1) \<leftarrow> (if \<not> PldmInitDone s then pldm_command_init s else Some (0, s));
     bytes \<leftarrow> rd_bytes (Pldm_Type_Supported s1) 0 (POSSIBLE_MAX_PLDM_TYPE div 8);
     out' \<leftarrow> wr_bytes 0 bytes out;
     Some (POSSIBLE_MAX_PLDM_TYPE div 8, out', s1) }"

definition IsPldmVersionSupported :: "u8 \<Rightarrow> u8 list \<Rightarrow> bool" where
  "IsPldmVersionSupported ty ver =
     (IsPldmTypeSupported ty \<and> get_pldm_version_id ver \<noteq> - 1 \<and>
      list_ex (\<lambda>l. int (version_id l) = get_pldm_version_id ver) (pldm_type_cmd ! unat ty))"

text \<open>
  The two loops: skip the versions reported before, then copy at most \<open>num\<close>; the last
  component says whether more are available.
\<close>

fun skip_versions :: "nat \<Rightarrow> Pldm_command_list list \<Rightarrow> Pldm_command_list list option" where
  "skip_versions 0 ls = Some ls"
| "skip_versions (Suc n) [] = None"
| "skip_versions (Suc n) (l # ls) = skip_versions n ls"

fun copy_versions :: "nat \<Rightarrow> Pldm_command_list list \<Rightarrow> u8 list \<times> bool" where
  "copy_versions 0 ls = ([], ls \<noteq> [])"
| "copy_versions (Suc n) [] = ([], False)"
| "copy_versions (Suc n) (l # ls) =
     (let (vs, more) = copy_versions n ls in (Pldm_Versions ! version_id l @ vs, more))"

definition getPldmVersionSupport ::
  "u8 \<Rightarrow> u8 list \<Rightarrow> nat \<Rightarrow> nat \<Rightarrow> (nat \<times> u8 list \<times> bool) option" where
  "getPldmVersionSupport ty ver start_version num_version =
     (if \<not> IsPldmTypeSupported ty then Some (0, ver, False)
      else case skip_versions start_version (pldm_type_cmd ! unat ty) of
        None \<Rightarrow> Some (0, ver, False)
      | Some ls \<Rightarrow> do {
          let (bytes, more) = copy_versions num_version ls;
          ver' \<leftarrow> wr_bytes 0 bytes ver;
          Some (length bytes, ver', more) })"

definition command_bitmap :: "Pldm_command_list \<Rightarrow> ('cb, 'x) bmc_state \<Rightarrow> u8 list" where
  "command_bitmap l s =
     (if l = type0_cmd_list then Type0_Command_Supported s else Type2_Command_Supported s)"

definition getPldmCmdSupport ::
  "u8 \<Rightarrow> u8 list \<Rightarrow> u8 list \<Rightarrow> ('cb, 'x) bmc_state
   \<Rightarrow> (nat \<times> u8 list \<times> ('cb, 'x) bmc_state) option" where
  "getPldmCmdSupport ty ver out s = do {
     (_, s1) \<leftarrow> (if \<not> PldmInitDone s then pldm_command_init s else Some (0, s));
     (if \<not> IsPldmTypeSupported ty \<or> get_pldm_version_id ver = - 1 then Some (0, out, s1)
      else case find (\<lambda>l. int (version_id l) = get_pldm_version_id ver) (pldm_type_cmd ! unat ty) of
        None \<Rightarrow> Some (0, out, s1)
      | Some l \<Rightarrow> do {
          bytes \<leftarrow> rd_bytes (command_bitmap l s1) 0 (POSSIBLE_MAX_PLDM_CMD div 8);
          out' \<leftarrow> wr_bytes 0 bytes out;
          Some (POSSIBLE_MAX_PLDM_CMD div 8, out', s1) }) }"

end
