(* ===== verification/PldmProcessor.thy ===== *)
theory PldmProcessor
  imports PldmCommands
begin

text \<open>
  The functions of the PLDM commands, pldm_processor.c, and their dispatcher, pldm_parser.c.
  A function gets the payload of the request and the payload of the response, both up to the
  end of their buffers, and returns the size of the response, the new response payload and
  the state. \<^term>\<open>None\<close> is behaviour that C leaves undefined: an access outside a buffer, a
  transfer handle that is no entry of the table of pending transfers, or the use of a
  variable no one has set.
\<close>

section \<open>Terminus identifier\<close>

definition pldm_cmd_SetTID ::
  "u8 list \<Rightarrow> u8 list \<Rightarrow> ('cb, 'x) bmc_state \<Rightarrow> (nat \<times> u8 list \<times> ('cb, 'x) bmc_state) option" where
  "pldm_cmd_SetTID payload_req payload_res s = do {
     tid \<leftarrow> rd8 payload_req 0;
     out \<leftarrow> wr8 0 RESP_PLDM_SUCCESS payload_res;
     s' \<leftarrow> update_tid tid (s\<lparr>TID := tid\<rparr>);
     Some (1, out, s') }"

definition pldm_cmd_GetTID ::
  "u8 list \<Rightarrow> ('cb, 'x) bmc_state \<Rightarrow> (nat \<times> u8 list \<times> ('cb, 'x) bmc_state) option" where
  "pldm_cmd_GetTID payload_res s = do {
     out \<leftarrow> wr_bytes 0 [RESP_PLDM_SUCCESS, TID s] payload_res;
     Some (2, out, s) }"

section \<open>Pending transfers\<close>

definition PENDING_XFER_INIT_KEY :: u8 where "PENDING_XFER_INIT_KEY = 0x93"

definition EGetNextPart :: u8 where "EGetNextPart = 0"
definition EGetFirstPart :: u8 where "EGetFirstPart = 1"

text \<open>
  A transfer handle is the address of the entry, of two bytes, in the table of pending
  transfers.
\<close>

definition pending_address :: "u32 \<Rightarrow> nat \<Rightarrow> u32" where
  "pending_address base i = base + of_nat (2 * i)"

definition pending_index :: "u32 \<Rightarrow> nat \<Rightarrow> u32 \<Rightarrow> nat option" where
  "pending_index base n handle =
     (let off = unat (handle - base)
      in if even off \<and> off div 2 < n then Some (off div 2) else None)"

definition error_reply ::
  "u8 \<Rightarrow> u8 list \<Rightarrow> 's \<Rightarrow> (nat \<times> u8 list \<times> 's) option" where
  "error_reply code payload_res s = do { out \<leftarrow> wr8 0 code payload_res; Some (1, out, s) }"

section \<open>Version, type and command support\<close>

definition max_version_to_get :: nat where "max_version_to_get = 8"

definition version_EStart :: u8 where "version_EStart = 1"
definition version_EMiddle :: u8 where "version_EMiddle = 2"
definition version_EEnd :: u8 where "version_EEnd = 4"
definition version_EStartAndEnd :: u8 where "version_EStartAndEnd = 5"

text \<open>The part of the function after the switch, on the entry \<open>i\<close> of the table.\<close>

definition version_reply ::
  "('cb, 'x) bmc_env \<Rightarrow> u8 \<Rightarrow> nat \<Rightarrow> u8 \<Rightarrow> u8 list \<Rightarrow> ('cb, 'x) bmc_state
   \<Rightarrow> (nat \<times> u8 list \<times> ('cb, 'x) bmc_state) option" where
  "version_reply env ty i start_index payload_res s = do {
     (ret, vers, isMoreVersion) \<leftarrow>
        getPldmVersionSupport ty (drop 6 payload_res) (unat start_index) max_version_to_get;
     let out1 = take 6 payload_res @ vers;
     (if ret = 0 then error_reply RESP_PLDM_ERROR_GENERIC out1 s
      else do {
        let pend = GetVersionPendingXfers s ! i;
        let (pend', handle, flag) =
          (if isMoreVersion
           then (\<lparr>pendingInitialized = PENDING_XFER_INIT_KEY,
                   next_start = next_start pend + of_nat max_version_to_get\<rparr>,
                 pending_address (versionXfersAddr env) i,
                 if pendingInitialized pend \<noteq> PENDING_XFER_INIT_KEY then version_EStart
                 else version_EMiddle)
           else if pendingInitialized pend = PENDING_XFER_INIT_KEY \<and> start_index \<noteq> 0
           then (\<lparr>pendingInitialized = 0, next_start = 0\<rparr>, 0, version_EEnd)
           else (pend, 0, version_EStartAndEnd));
        out2 \<leftarrow> wr_bytes 0 ([RESP_PLDM_SUCCESS] @ le_bytes handle @ [flag]) out1;
        versions \<leftarrow> rd_bytes out2 6 ret;
        out3 \<leftarrow> wr_bytes (6 + ret) (le_bytes (ulGetCrc32 versions)) out2;
        Some (6 + ret + 4, out3,
          s\<lparr>GetVersionPendingXfers := (GetVersionPendingXfers s)[i := pend']\<rparr>) }) }"

definition pldm_cmd_GetPLDMVersion ::
  "('cb, 'x) bmc_env \<Rightarrow> u8 list \<Rightarrow> u8 list \<Rightarrow> ('cb, 'x) bmc_state
   \<Rightarrow> (nat \<times> u8 list \<times> ('cb, 'x) bmc_state) option" where
  "pldm_cmd_GetPLDMVersion env payload_req payload_res s = do {
     ty \<leftarrow> rd8 payload_req 5;
     flag \<leftarrow> rd8 payload_req 4;
     (if \<not> IsPldmTypeSupported ty then error_reply RESP_INVALID_PLDM_TYPE_IN_REQUEST payload_res s
      else if flag = EGetNextPart then do {
        handle \<leftarrow> rd32 payload_req 0;
        (if handle = 0 then error_reply RESP_INVALID_DATA_XFER_HANDLE payload_res s
         else do {
           i \<leftarrow> pending_index (versionXfersAddr env) (length (GetVersionPendingXfers s)) handle;
           let pend = GetVersionPendingXfers s ! i;
           (if pendingInitialized pend \<noteq> PENDING_XFER_INIT_KEY
            then error_reply RESP_INVALID_DATA_XFER_HANDLE payload_res s
            else version_reply env ty i (next_start pend) payload_res s) }) }
      else if flag = EGetFirstPart then
        (if unat ty < length (GetVersionPendingXfers s)
         then version_reply env ty (unat ty) 0 payload_res
           (s\<lparr>GetVersionPendingXfers :=
              (GetVersionPendingXfers s)[unat ty := \<lparr>pendingInitialized = 0, next_start = 0\<rparr>]\<rparr>)
         else None)
      else error_reply RESP_INVALID_XFER_OPERATION_FLAG payload_res s) }"

definition pldm_cmd_GetPLDMType ::
  "u8 list \<Rightarrow> ('cb, 'x) bmc_state \<Rightarrow> (nat \<times> u8 list \<times> ('cb, 'x) bmc_state) option" where
  "pldm_cmd_GetPLDMType payload_res s = do {
     (ret, types, s') \<leftarrow> getPldmTypeSupport (drop 1 payload_res) s;
     let out = take 1 payload_res @ types;
     (if ret \<noteq> 0 then do { out' \<leftarrow> wr8 0 RESP_PLDM_SUCCESS out; Some (1 + ret, out', s') }
      else error_reply RESP_PLDM_ERROR_GENERIC out s') }"

definition pldm_cmd_GetPLDMCommand ::
  "u8 list \<Rightarrow> u8 list \<Rightarrow> ('cb, 'x) bmc_state \<Rightarrow> (nat \<times> u8 list \<times> ('cb, 'x) bmc_state) option" where
  "pldm_cmd_GetPLDMCommand payload_req payload_res s = do {
     ty \<leftarrow> rd8 payload_req 0;
     (if \<not> IsPldmTypeSupported ty then error_reply RESP_INVALID_PLDM_TYPE_IN_REQUEST payload_res s
      else do {
        version \<leftarrow> rd_bytes payload_req 1 4;
        (if \<not> IsPldmVersionSupported ty version
         then error_reply RESP_INVALID_PLDM_VERSION_IN_REQUEST payload_res s
         else do {
           (ret, cmds, s') \<leftarrow> getPldmCmdSupport ty version (drop 1 payload_res) s;
           let out = take 1 payload_res @ cmds;
           (if ret \<noteq> 0 then do { out' \<leftarrow> wr8 0 RESP_PLDM_SUCCESS out; Some (1 + ret, out', s') }
            else error_reply RESP_PLDM_ERROR_GENERIC out s') }) }) }"

section \<open>Sensors\<close>

definition eSensorNoEventGeneration :: u8 where "eSensorNoEventGeneration = 0"
definition sensor_state_Unknown :: u8 where "sensor_state_Unknown = 0"
definition sensor_state_Normal :: u8 where "sensor_state_Normal = 1"
definition EDataTypeSInt16 :: u8 where "EDataTypeSInt16 = 3"

definition pldm_cmd_SetNumericSensorEnable ::
  "('cb, 'x) bmc_env \<Rightarrow> u8 list \<Rightarrow> u8 list \<Rightarrow> ('cb, 'x) bmc_state
   \<Rightarrow> (nat \<times> u8 list \<times> ('cb, 'x) bmc_state) option" where
  "pldm_cmd_SetNumericSensorEnable env payload_req payload_res s = do {
     opstate \<leftarrow> rd8 payload_req 2;
     (if opstate \<noteq> op_state_value eSensorOpStateEnabled \<and>
         opstate \<noteq> op_state_value eSensorOpStateDisabled \<and>
         opstate \<noteq> op_state_value eSensorOpStateUnavailable
      then error_reply RESP_INVALID_SENSOR_OPERATIONAL_STATE payload_res s
      else do {
        enable \<leftarrow> rd8 payload_req 3;
        (if enable \<noteq> eSensorNoEventGeneration
         then error_reply RESP_EVENT_GENERATION_NOT_SUPPORTED payload_res s
         else do {
           sensorID \<leftarrow> rd16 payload_req 0;
           (_, out, sz, s') \<leftarrow> iSetNumericSensorEnable env sensorID opstate payload_res 0 s;
           Some (sz, out, s') }) }) }"

text \<open>
  A completion code other than the invalid sensor is not looked at, so that the state and
  the reading may be variables that nothing has set (\<^term>\<open>None\<close>).
\<close>

definition pldm_cmd_GetSensorReading ::
  "('cb, 'x) bmc_env \<Rightarrow> u8 list \<Rightarrow> u8 list \<Rightarrow> ('cb, 'x) bmc_state
   \<Rightarrow> (nat \<times> u8 list \<times> ('cb, 'x) bmc_state) option" where
  "pldm_cmd_GetSensorReading env payload_req payload_res s = do {
     sensorID \<leftarrow> rd16 payload_req 0;
     (st, code, opstate, reading, s') \<leftarrow> iGetNumericSensorReading env sensorID s;
     (if st = OK
      then if code = Some RESP_INVALID_SENSOR_ID
        then error_reply RESP_INVALID_SENSOR_ID payload_res s'
        else do {
          rearm \<leftarrow> rd8 payload_req 2;
          (if rearm \<noteq> 0 then error_reply RESP_REARM_UNAVAILABLE_IN_PRESENT_STATE payload_res s'
           else do {
             st8 \<leftarrow> opstate;
             (present, event, value) \<leftarrow>
               (if st8 \<noteq> op_state_value eSensorOpStateEnabled
                then Some (sensor_state_Unknown, sensor_state_Unknown, 0)
                else map_option (\<lambda>r. (sensor_state_Normal, sensor_state_Normal, r)) reading);
             out \<leftarrow> wr_bytes 0 ([RESP_PLDM_SUCCESS, EDataTypeSInt16, st8, eSensorNoEventGeneration,
                present, sensor_state_Unknown, event] @ le16 value) payload_res;
             Some (9, out, s') }) }
      else error_reply RESP_INVALID_SENSOR_ID payload_res s') }"

section \<open>Platform descriptor records\<close>

definition pldm_cmd_GetPDRRepositoryInfo ::
  "u8 list \<Rightarrow> ('cb, 'x) bmc_state \<Rightarrow> (nat \<times> u8 list \<times> ('cb, 'x) bmc_state) option" where
  "pldm_cmd_GetPDRRepositoryInfo payload_res s = do {
     (repo, s') \<leftarrow> getPDRRepository s;
     out \<leftarrow> wr_bytes 0 ([RESP_PLDM_SUCCESS, repo_state_value (repositoryState repo)]
        @ take 13 (updateTimestamp repo) @ take 13 (OEMUpdateTimestamp repo)
        @ le_bytes (recordCount repo) @ le_bytes (repositorySize repo)
        @ le_bytes (largestRecordSize repo) @ [dataTransferHandleTimeout repo]) payload_res;
     Some (41, out, s') }"

definition MAX_PLDM_RESPONSE_SIZE :: u32 where "MAX_PLDM_RESPONSE_SIZE = 128 - 3"
definition sizeof_pdr_response :: nat where "sizeof_pdr_response = 12"

definition pdr_EStart :: u8 where "pdr_EStart = 0"
definition pdr_EMiddle :: u8 where "pdr_EMiddle = 1"
definition pdr_EEnd :: u8 where "pdr_EEnd = 4"
definition pdr_EStartAndEnd :: u8 where "pdr_EStartAndEnd = 5"

definition max_data_len :: "u16 \<Rightarrow> u32" where
  "max_data_len requestCount =
     (let m = MAX_PLDM_RESPONSE_SIZE - of_nat sizeof_pdr_response
      in if ucast requestCount < m then ucast requestCount else m)"

text \<open>The part of the function after the switch, on the entry \<open>i\<close> of the table.\<close>

definition pdr_reply ::
  "('cb, 'x) bmc_env \<Rightarrow> PDR_RepositoryInfo \<Rightarrow> u32 \<Rightarrow> u8 list \<Rightarrow> nat \<Rightarrow> u8 \<Rightarrow> u16 \<Rightarrow> u8 list
   \<Rightarrow> ('cb, 'x) bmc_state \<Rightarrow> (nat \<times> u8 list \<times> ('cb, 'x) bmc_state) option" where
  "pdr_reply env repo record_handle rec i start_index requestCount payload_res s = do {
     dataLength \<leftarrow> rd16 rec 8;
     let maxl = max_data_len requestCount;
     let pdr_size = (ucast dataLength + of_nat sizeof_CommonPDRFormat :: u32);
     let pend = GetPDRPendingXfers s ! i;
     let rest = (ucast (pdr_size - ucast start_index) :: u16);
     let (pend', handle, count, flag) =
       (if ucast rest > maxl
        then (\<lparr>pendingInitialized = PENDING_XFER_INIT_KEY, next_start = next_start pend + ucast maxl\<rparr>,
              pending_address (pdrXfersAddr env) i, ucast maxl,
              if pendingInitialized pend \<noteq> PENDING_XFER_INIT_KEY then pdr_EStart else pdr_EMiddle)
        else if pendingInitialized pend = PENDING_XFER_INIT_KEY \<and> start_index \<noteq> 0
        then (\<lparr>pendingInitialized = 0, next_start = 0\<rparr>, 0, rest, pdr_EEnd)
        else (pend, 0, rest, pdr_EStartAndEnd));
     out1 \<leftarrow> wr_bytes 0 ([RESP_PLDM_SUCCESS] @ le_bytes ((record_handle + 1) mod recordCount repo)
        @ le_bytes handle @ [flag] @ le16 count) payload_res;
     part \<leftarrow> rd_bytes rec (unat start_index) (unat count);
     out2 \<leftarrow> wr_bytes sizeof_pdr_response part out1;
     let s' = s\<lparr>GetPDRPendingXfers := (GetPDRPendingXfers s)[i := pend']\<rparr>;
     (if flag = pdr_EEnd
      then do {
        whole \<leftarrow> rd_bytes rec 0 (unat pdr_size);
        out3 \<leftarrow> wr8 (sizeof_pdr_response + unat count) (ucGetCrc8 whole) out2;
        Some (sizeof_pdr_response + unat count + 1, out3, s') }
      else Some (sizeof_pdr_response + unat count, out2, s')) }"

definition pldm_cmd_GetPDR ::
  "('cb, 'x) bmc_env \<Rightarrow> u8 list \<Rightarrow> u8 list \<Rightarrow> ('cb, 'x) bmc_state
   \<Rightarrow> (nat \<times> u8 list \<times> ('cb, 'x) bmc_state) option" where
  "pldm_cmd_GetPDR env payload_req payload_res s0 = do {
     (repo, s) \<leftarrow> getPDRRepository s0;
     record_handle \<leftarrow> rd32 payload_req 0;
     flag \<leftarrow> rd8 payload_req 8;
     requestCount \<leftarrow> rd16 payload_req 9;
     (if repositoryState repo = ERepoStateUpdateInprogress
      then error_reply RESP_REPOSITORY_UPDATE_IN_PROGRESS payload_res s
      else if recordCount repo \<le> record_handle
      then error_reply RESP_INVALID_RECORD_HANDLE payload_res s
      else if length (PDRRecords repo) \<le> unat record_handle then None
      else let rec = PDRRecords repo ! unat record_handle in
        if flag = EGetNextPart then do {
          handle \<leftarrow> rd32 payload_req 4;
          (if handle = 0 then error_reply RESP_INVALID_DATA_XFER_HANDLE payload_res s
           else do {
             i \<leftarrow> pending_index (pdrXfersAddr env) (length (GetPDRPendingXfers s)) handle;
             let pend = GetPDRPendingXfers s ! i;
             (if pendingInitialized pend \<noteq> PENDING_XFER_INIT_KEY
              then error_reply RESP_INVALID_DATA_XFER_HANDLE payload_res s
              else do {
                change \<leftarrow> rd16 payload_req 11;
                current \<leftarrow> rd16 rec 6;
                (if change \<noteq> current
                 then error_reply RESP_INVALID_RECORD_CHANGE_NUMBER payload_res s
                 else pdr_reply env repo record_handle rec i (next_start pend) requestCount
                        payload_res s) }) }) }
        else if flag = EGetFirstPart then
          (if unat record_handle < length (GetPDRPendingXfers s)
           then pdr_reply env repo record_handle rec (unat record_handle) 0 requestCount payload_res
             (s\<lparr>GetPDRPendingXfers := (GetPDRPendingXfers s)
                [unat record_handle := \<lparr>pendingInitialized = 0, next_start = 0\<rparr>]\<rparr>)
           else None)
        else error_reply RESP_INVALID_XFER_OPERATION_FLAG payload_res s) }"

section \<open>Dispatcher\<close>

definition pldm_call ::
  "('cb, 'x) bmc_env \<Rightarrow> pldm_function \<Rightarrow> u8 list \<Rightarrow> u8 list \<Rightarrow> ('cb, 'x) bmc_state
   \<Rightarrow> (nat \<times> u8 list \<times> ('cb, 'x) bmc_state) option" where
  "pldm_call env f req res s = (case f of
     pldm_SetTID \<Rightarrow> pldm_cmd_SetTID req res s
   | pldm_GetTID \<Rightarrow> pldm_cmd_GetTID res s
   | pldm_GetPLDMVersion \<Rightarrow> pldm_cmd_GetPLDMVersion env req res s
   | pldm_GetPLDMType \<Rightarrow> pldm_cmd_GetPLDMType res s
   | pldm_GetPLDMCommand \<Rightarrow> pldm_cmd_GetPLDMCommand req res s
   | pldm_SetNumericSensorEnable \<Rightarrow> pldm_cmd_SetNumericSensorEnable env req res s
   | pldm_GetSensorReading \<Rightarrow> pldm_cmd_GetSensorReading env req res s
   | pldm_GetPDRRepositoryInfo \<Rightarrow> pldm_cmd_GetPDRRepositoryInfo res s
   | pldm_GetPDR \<Rightarrow> pldm_cmd_GetPDR env req res s)"

definition MAX_PAYLOAD_SIZE :: nat where "MAX_PAYLOAD_SIZE = 128"

definition clear_pldm_packet :: "u8 list \<Rightarrow> u8 list option" where
  "clear_pldm_packet pkt = wr_bytes 0 (replicate (3 + MAX_PAYLOAD_SIZE) 0) pkt"

definition init_pldm_response :: "u8 list \<Rightarrow> u8 list \<Rightarrow> u8 list option" where
  "init_pldm_response RqPkt RspPkt = do {
     rq \<leftarrow> rd8 RqPkt 0;
     ty \<leftarrow> rd8 RqPkt 1;
     cmd \<leftarrow> rd8 RqPkt 2;
     wr_bytes 0 [rq AND NOT (0x80 OR 0x40), ty, cmd] RspPkt }"

definition process_pldm_request ::
  "('cb, 'x) bmc_env \<Rightarrow> u8 list \<Rightarrow> u8 list \<Rightarrow> bool \<Rightarrow> ('cb, 'x) bmc_state
   \<Rightarrow> (nat \<times> u8 list \<times> ('cb, 'x) bmc_state) option" where
  "process_pldm_request env req resp request s = do {
     resp1 \<leftarrow> (if request then init_pldm_response req resp else Some resp);
     ty \<leftarrow> rd8 req 1;
     cmd \<leftarrow> rd8 req 2;
     (case get_pldm_func (ty AND 0x7) cmd of
        (ret, None) \<Rightarrow> do { resp2 \<leftarrow> wr8 3 ret resp1; Some (4, resp2, s) }
      | (_, Some f) \<Rightarrow> do {
          (n, out, s') \<leftarrow> pldm_call env f (drop 3 req) (drop 3 resp1) s;
          Some (3 + n, take 3 resp1 @ out, s') }) }"

end
