(* ===== verification/PldmTransfer.thy ===== *)
theory PldmTransfer
  imports PldmProcessor
begin

text \<open>
  Reading a record in parts. A requester that follows the protocol, sending a first request
  and then one for the next part until the transfer flag says that the part is the last,
  gets the record and its check sum.
\<close>

section \<open>The reply\<close>

definition pdr_header :: "u32 \<Rightarrow> u32 \<Rightarrow> u8 \<Rightarrow> u16 \<Rightarrow> u8 list" where
  "pdr_header next handle flag count =
     [RESP_PLDM_SUCCESS] @ le_bytes next @ le_bytes handle @ [flag] @ le16 count"

lemma length_pdr_header [simp]: "length (pdr_header next handle flag count) = 12"
  by (simp add: pdr_header_def)

definition part_size :: "u16 \<Rightarrow> nat" where "part_size requestCount = min (unat requestCount) 113"

lemma max_data_len: "max_data_len rc = of_nat (part_size rc)"
proof (cases "unat rc < 113")
  case True
  then have "(ucast rc :: u32) < 113" by (simp add: word_less_nat_alt)
  then show ?thesis using True
    by (simp add: max_data_len_def MAX_PLDM_RESPONSE_SIZE_def sizeof_pdr_response_def part_size_def min_def)
next
  case False
  then have "\<not> (ucast rc :: u32) < 113" by (simp add: word_less_nat_alt)
  then show ?thesis using False
    by (simp add: max_data_len_def MAX_PLDM_RESPONSE_SIZE_def sizeof_pdr_response_def part_size_def min_def)
qed

text \<open>A record whose size, header included, fits the 8-bit position of a transfer.\<close>

definition pdr_size_of :: "u8 list \<Rightarrow> nat" where
  "pdr_size_of rec = unat (of_le16 (take 2 (drop 8 rec))) + 10"

definition short_record :: "u8 list \<Rightarrow> bool" where
  "short_record rec \<longleftrightarrow> pdr_size_of rec \<le> length rec \<and> pdr_size_of rec \<le> 255"

lemma rd16_data_length:
  assumes "short_record rec"
  obtains dl where "rd16 rec 8 = Some dl" "pdr_size_of rec = unat dl + 10"
  using assms by (auto simp: short_record_def pdr_size_of_def rd16_def rd_bytes_def)

text \<open>The arithmetic of the position: nothing wraps around.\<close>

lemma remaining_size:
  fixes st :: u8 and dl :: u16
  assumes "unat st \<le> unat dl + 10" "unat dl + 10 \<le> 255"
  shows "(ucast (ucast dl + 10 - ucast st :: u32) :: u16) = of_nat (unat dl + 10 - unat st)"
proof -
  have "(ucast dl + 10 :: u32) = of_nat (unat dl + 10)" by simp
  moreover have "(ucast st :: u32) = of_nat (unat st)" by simp
  ultimately have "(ucast dl + 10 - ucast st :: u32) = of_nat (unat dl + 10 - unat st)"
    using assms by (simp only: of_nat_diff)
  moreover have "unat (of_nat (unat dl + 10 - unat st) :: u32) = unat dl + 10 - unat st"
    using assms by (intro unat_of_nat_less) auto
  ultimately show ?thesis by (metis of_nat_unat)
qed

lemma small_less_u32: "a < 256 \<Longrightarrow> b < 256 \<Longrightarrow> (of_nat a :: u32) < of_nat b \<longleftrightarrow> a < b"
  by (simp add: word_less_nat_alt unat_of_nat_less)

lemma part_bounds: "part_size rc < 256"
  by (simp add: part_size_def)

definition next_pending :: "PendingTransfers \<Rightarrow> nat \<Rightarrow> PendingTransfers" where
  "next_pending pend n =
     \<lparr>pendingInitialized = PENDING_XFER_INIT_KEY, next_start = next_start pend + of_nat n\<rparr>"

definition set_pending :: "nat \<Rightarrow> PendingTransfers \<Rightarrow> ('cb, 'x) bmc_state \<Rightarrow> ('cb, 'x) bmc_state" where
  "set_pending i pend s = s\<lparr>GetPDRPendingXfers := (GetPDRPendingXfers s)[i := pend]\<rparr>"

lemmas reply_consts = sizeof_pdr_response_def sizeof_CommonPDRFormat_def

lemma pdr_flags [simp]:
  "pdr_EStart \<noteq> pdr_EEnd" "pdr_EMiddle \<noteq> pdr_EEnd" "pdr_EStartAndEnd \<noteq> pdr_EEnd"
  "pdr_EStart \<noteq> pdr_EStartAndEnd" "pdr_EMiddle \<noteq> pdr_EStartAndEnd"
  by (simp_all add: pdr_EStart_def pdr_EMiddle_def pdr_EEnd_def pdr_EStartAndEnd_def)

lemma pdr_reply_more:
  assumes r: "short_record rec" and st: "unat st \<le> pdr_size_of rec"
    and more: "part_size rc < pdr_size_of rec - unat st" and out: "126 \<le> length out"
  shows "pdr_reply env repo rh rec i st rc out s =
    Some (12 + part_size rc,
      pdr_header ((rh + 1) mod recordCount repo) (pending_address (pdrXfersAddr env) i)
        (if pendingInitialized (GetPDRPendingXfers s ! i) \<noteq> PENDING_XFER_INIT_KEY then pdr_EStart
         else pdr_EMiddle) (of_nat (part_size rc))
      @ take (part_size rc) (drop (unat st) rec) @ drop (12 + part_size rc) out,
      set_pending i (next_pending (GetPDRPendingXfers s ! i) (part_size rc)) s)"
proof -
  obtain dl where dl: "rd16 rec 8 = Some dl" and N: "pdr_size_of rec = unat dl + 10"
    using rd16_data_length[OF r] .
  have le: "pdr_size_of rec \<le> 255" "pdr_size_of rec \<le> length rec"
    using r by (auto simp: short_record_def)
  have rest: "(ucast (ucast dl + 10 - ucast st :: u32) :: u16) = of_nat (pdr_size_of rec - unat st)"
    using remaining_size[of st dl] st le N by simp
  have k: "(ucast (of_nat (pdr_size_of rec - unat st) :: u16) :: u32) = of_nat (pdr_size_of rec - unat st)"
    using le by (intro ucast_of_nat_small) simp
  have cond: "(of_nat (part_size rc) :: u32) < of_nat (pdr_size_of rec - unat st)"
    using more le part_bounds[of rc] by (subst small_less_u32) auto
  have m16: "unat (of_nat (part_size rc) :: u16) = part_size rc"
    using part_bounds[of rc] by (intro unat_of_nat_less) simp
  have ptn: "part_size rc \<le> 113" by (simp add: part_size_def)
  define part where "part = take (part_size rc) (drop (unat st) rec)"
  have rd: "rd_bytes rec (unat st) (part_size rc) = Some part" and len: "length part = part_size rc"
    using more le by (simp_all add: rd_bytes_def part_def)
  have c8: "(ucast (of_nat (part_size rc) :: u32) :: u8) = of_nat (part_size rc)"
    and c16: "(ucast (of_nat (part_size rc) :: u32) :: u16) = of_nat (part_size rc)"
    using ptn by (simp_all add: ucast_of_nat_small)
  show ?thesis
    unfolding part_def[symmetric] using ptn out
    by (simp add: pdr_reply_def dl Let_def reply_consts max_data_len rest k cond c8 c16 m16 rd len
        pdr_header_def next_pending_def set_pending_def add.commute[of _ 12])
qed

lemma pdr_reply_last:
  assumes r: "short_record rec" and st: "unat st \<le> pdr_size_of rec"
    and last: "pdr_size_of rec - unat st \<le> part_size rc" and out: "126 \<le> length out"
    and pend: "pendingInitialized (GetPDRPendingXfers s ! i) = PENDING_XFER_INIT_KEY \<and> st \<noteq> 0"
  shows "pdr_reply env repo rh rec i st rc out s =
    (let n = pdr_size_of rec - unat st in
     Some (12 + n + 1,
      pdr_header ((rh + 1) mod recordCount repo) 0 pdr_EEnd (of_nat n)
      @ drop (unat st) (take (pdr_size_of rec) rec) @ [ucGetCrc8 (take (pdr_size_of rec) rec)]
      @ drop (12 + n + 1) out,
      set_pending i \<lparr>pendingInitialized = 0, next_start = 0\<rparr> s))"
proof -
  obtain dl where dl: "rd16 rec 8 = Some dl" and N: "pdr_size_of rec = unat dl + 10"
    using rd16_data_length[OF r] .
  define n where "n = pdr_size_of rec - unat st"
  have le: "pdr_size_of rec \<le> 255" "pdr_size_of rec \<le> length rec"
    using r by (auto simp: short_record_def)
  have rest: "(ucast (ucast dl + 10 - ucast st :: u32) :: u16) = of_nat n"
    using remaining_size[of st dl] st le N unfolding n_def by (simp only:)
  have k: "(ucast (of_nat n :: u16) :: u32) = of_nat n"
    using le by (intro ucast_of_nat_small) (simp add: n_def)
  have cond: "\<not> (of_nat (part_size rc) :: u32) < of_nat n"
    using last le part_bounds[of rc] by (subst small_less_u32) (auto simp: n_def)
  have m16: "unat (of_nat n :: u16) = n"
    using le by (intro unat_of_nat_less) (simp add: n_def)
  have whole: "unat (ucast dl + 10 :: u32) = pdr_size_of rec"
  proof -
    have "(ucast dl + 10 :: u32) = of_nat (pdr_size_of rec)" by (simp add: N)
    then show ?thesis using le by (simp only:) (intro unat_of_nat_less, simp)
  qed
  have ptn: "n \<le> 113" using last by (simp add: part_size_def n_def)
  define part where "part = drop (unat st) (take (pdr_size_of rec) rec)"
  have rd: "rd_bytes rec (unat st) n = Some part"
    "rd_bytes rec 0 (pdr_size_of rec) = Some (take (pdr_size_of rec) rec)"
    using st le by (simp_all add: rd_bytes_def drop_take n_def part_def)
  have len: "length part = n" using st le by (simp add: n_def part_def)
  show ?thesis
    unfolding n_def[symmetric] part_def[symmetric] using ptn out pend
    by (simp add: pdr_reply_def dl Let_def reply_consts max_data_len rest k cond m16 rd whole len
        pdr_header_def set_pending_def wr8_drop add.commute[of _ 12] add.commute[of _ 13]
        del: wr8_some)
qed

lemma pdr_reply_single:
  assumes r: "short_record rec" and last: "pdr_size_of rec \<le> part_size rc" and out: "126 \<le> length out"
  shows "pdr_reply env repo rh rec i 0 rc out s =
     Some (12 + pdr_size_of rec,
      pdr_header ((rh + 1) mod recordCount repo) 0 pdr_EStartAndEnd (of_nat (pdr_size_of rec))
      @ take (pdr_size_of rec) rec @ drop (12 + pdr_size_of rec) out,
      set_pending i (GetPDRPendingXfers s ! i) s)"
proof -
  define n where "n = pdr_size_of rec"
  obtain dl where dl: "rd16 rec 8 = Some dl" and N: "n = unat dl + 10"
    using rd16_data_length[OF r] unfolding n_def .
  have le: "n \<le> 255" "n \<le> length rec" "n \<le> part_size rc" "n \<le> 113"
    using r last by (auto simp: short_record_def n_def part_size_def)
  have rest: "(ucast (ucast dl + 10 :: u32) :: u16) = of_nat n"
    using remaining_size[of 0 dl] le N by simp
  have k: "(ucast (of_nat n :: u16) :: u32) = of_nat n"
    using le by (intro ucast_of_nat_small) simp
  have cond: "\<not> (of_nat (part_size rc) :: u32) < of_nat n"
    using le part_bounds[of rc] by (subst small_less_u32) auto
  have m16: "unat (of_nat n :: u16) = n"
    using le by (intro unat_of_nat_less) simp
  define part where "part = take n rec"
  have rd: "rd_bytes rec 0 n = Some part" and len: "length part = n"
    using le by (simp_all add: rd_bytes_def part_def)
  show ?thesis
    unfolding n_def[symmetric] part_def[symmetric] using le(4) out
    by (simp add: pdr_reply_def dl Let_def reply_consts max_data_len rest k cond m16 rd len
        pdr_header_def set_pending_def add.commute[of _ 12])
qed

section \<open>The requests\<close>

definition pdr_request :: "u32 \<Rightarrow> u32 \<Rightarrow> u8 \<Rightarrow> u16 \<Rightarrow> u16 \<Rightarrow> u8 list" where
  "pdr_request rh handle op rc cn = le_bytes rh @ le_bytes handle @ [op] @ le16 rc @ le16 cn"

lemma pdr_request_fields [simp]:
  "rd32 (pdr_request rh handle op rc cn) 0 = Some rh"
  "rd32 (pdr_request rh handle op rc cn) 4 = Some handle"
  "rd8 (pdr_request rh handle op rc cn) 8 = Some op"
  "rd16 (pdr_request rh handle op rc cn) 9 = Some rc"
  "rd16 (pdr_request rh handle op rc cn) 11 = Some cn"
  by (simp_all add: pdr_request_def rd32_def rd16_def nth_append)

lemma pdr_header_fields [simp]:
  "rd8 (pdr_header next handle flag count @ xs) 0 = Some RESP_PLDM_SUCCESS"
  "rd32 (pdr_header next handle flag count @ xs) 1 = Some next"
  "rd32 (pdr_header next handle flag count @ xs) 5 = Some handle"
  "rd8 (pdr_header next handle flag count @ xs) 9 = Some flag"
  "rd16 (pdr_header next handle flag count @ xs) 10 = Some count"
  by (simp_all add: pdr_header_def rd32_def rd16_def nth_append)

text \<open>The table of pending transfers is an object of C: not at 0, not across the end of memory.\<close>

definition table_placed :: "u32 \<Rightarrow> nat \<Rightarrow> bool" where
  "table_placed base n \<longleftrightarrow> base \<noteq> 0 \<and> unat base + 2 * n \<le> 2 ^ 32"

lemma pending_handle:
  assumes "table_placed base n" "i < n"
  shows "pending_index base n (pending_address base i) = Some i" "pending_address base i \<noteq> 0"
proof -
  have b: "unat base + 2 * i < 2 ^ 32" "2 * i < 2 ^ 32" using assms by (auto simp: table_placed_def)
  have u: "unat (of_nat (2 * i) :: u32) = 2 * i" by (rule unat_of_nat_less) (use b in simp)
  have "pending_address base i - base = of_nat (2 * i)" by (simp add: pending_address_def)
  then show "pending_index base n (pending_address base i) = Some i"
    using u assms(2) by (simp only: pending_index_def Let_def) simp
  have "pending_address base i = of_nat (unat base + 2 * i)" by (simp add: pending_address_def)
  then have "unat (pending_address base i) = unat base + 2 * i"
    using b by (simp only:) (rule unat_of_nat_less, simp)
  moreover have "0 < unat base" using assms(1) by (simp add: table_placed_def unat_gt_0)
  ultimately show "pending_address base i \<noteq> 0" by auto
qed

definition pdr_ready :: "('cb, 'x) bmc_env \<Rightarrow> u32 \<Rightarrow> u8 list \<Rightarrow> ('cb, 'x) bmc_state \<Rightarrow> bool" where
  "pdr_ready env rh rec s \<longleftrightarrow> iIsRepoInitialized s \<and>
     repositoryState (MSP432_PDR_Repository s) \<noteq> ERepoStateUpdateInprogress \<and>
     rh < recordCount (MSP432_PDR_Repository s) \<and>
     unat rh < length (PDRRecords (MSP432_PDR_Repository s)) \<and>
     PDRRecords (MSP432_PDR_Repository s) ! unat rh = rec \<and>
     unat rh < length (GetPDRPendingXfers s) \<and>
     table_placed (pdrXfersAddr env) (length (GetPDRPendingXfers s))"

lemma set_pending [simp]:
  "set_pending i a (set_pending i b s) = set_pending i a s"
  "pdr_ready env rh rec (set_pending i a s) = pdr_ready env rh rec s"
  "MSP432_PDR_Repository (set_pending i a s) = MSP432_PDR_Repository s"
  "iIsRepoInitialized (set_pending i a s) = iIsRepoInitialized s"
  "length (GetPDRPendingXfers (set_pending i a s)) = length (GetPDRPendingXfers s)"
  "i < length (GetPDRPendingXfers s) \<Longrightarrow> GetPDRPendingXfers (set_pending i a s) ! i = a"
  by (simp_all add: set_pending_def pdr_ready_def)

lemma GetPDR_first:
  assumes "pdr_ready env rh rec s"
  shows "pldm_cmd_GetPDR env (pdr_request rh handle EGetFirstPart rc cn) out s =
    pdr_reply env (MSP432_PDR_Repository s) rh rec (unat rh) 0 rc out
      (set_pending (unat rh) \<lparr>pendingInitialized = 0, next_start = 0\<rparr> s)"
  using assms
  by (auto simp: pldm_cmd_GetPDR_def pdr_ready_def getPDRRepository_def vPdrRepoInit_def
      EGetNextPart_def EGetFirstPart_def set_pending_def Let_def)

lemma GetPDR_next:
  assumes r: "pdr_ready env rh rec s"
    and k: "pendingInitialized (GetPDRPendingXfers s ! unat rh) = PENDING_XFER_INIT_KEY"
    and cn: "rd16 rec 6 = Some cn"
  shows "pldm_cmd_GetPDR env
      (pdr_request rh (pending_address (pdrXfersAddr env) (unat rh)) EGetNextPart rc cn) out s =
    pdr_reply env (MSP432_PDR_Repository s) rh rec (unat rh)
      (next_start (GetPDRPendingXfers s ! unat rh)) rc out s"
proof -
  have "table_placed (pdrXfersAddr env) (length (GetPDRPendingXfers s))"
    "unat rh < length (GetPDRPendingXfers s)" using r by (auto simp: pdr_ready_def)
  note pending_handle[OF this]
  then show ?thesis
    using r k cn
    by (auto simp: pldm_cmd_GetPDR_def pdr_ready_def getPDRRepository_def vPdrRepoInit_def Let_def)
qed

section \<open>The requester\<close>

text \<open>
  A requester of the record \<open>rh\<close> with parts of at most \<open>rc\<close> bytes, which saw the change number
  \<open>cn\<close>: it gives up after \<open>n\<close> requests or on an error code. The result is the data and the
  check sum that came with the last of several parts.
\<close>

fun pdr_client ::
  "('cb, 'x) bmc_env \<Rightarrow> u32 \<Rightarrow> u16 \<Rightarrow> u16 \<Rightarrow> u8 list \<Rightarrow> nat \<Rightarrow> u8 \<Rightarrow> u32 \<Rightarrow> ('cb, 'x) bmc_state
   \<Rightarrow> (u8 list \<times> u8 option \<times> ('cb, 'x) bmc_state) option" where
  "pdr_client env rh rc cn buf 0 op handle s = None"
| "pdr_client env rh rc cn buf (Suc n) op handle s = do {
     (_, out, s1) \<leftarrow> pldm_cmd_GetPDR env (pdr_request rh handle op rc cn) buf s;
     code \<leftarrow> rd8 out 0;
     (if code \<noteq> RESP_PLDM_SUCCESS then None
      else do {
        handle1 \<leftarrow> rd32 out 5;
        flag \<leftarrow> rd8 out 9;
        count \<leftarrow> rd16 out 10;
        part \<leftarrow> rd_bytes out 12 (unat count);
        (if flag = pdr_EEnd then do {
           crc \<leftarrow> rd8 out (12 + unat count);
           Some (part, Some crc, s1) }
         else if flag = pdr_EStartAndEnd then Some (part, None, s1)
         else do {
           (rest, crc, s2) \<leftarrow> pdr_client env rh rc cn buf n EGetNextPart handle1 s1;
           Some (part @ rest, crc, s2) }) }) }"

lemma next_start_advance:
  fixes st :: u8
  assumes "unat st + n < 256"
  shows "unat (st + of_nat n) = unat st + n"
proof -
  have "st + of_nat n = of_nat (unat st + n)" by simp
  then show ?thesis using assms by (simp only:) (rule unat_of_nat_less, simp)
qed

lemma split_part:
  assumes "a + m \<le> n"
  shows "drop a (take n xs) = take m (drop a xs) @ drop (a + m) (take n xs)"
proof -
  have "take m (drop a (take n xs)) = take m (drop a xs)" using assms by (simp add: drop_take min_def)
  then show ?thesis
    using append_take_drop_id[of m "drop a (take n xs)"] by (simp add: add.commute)
qed

lemma client_next:
  assumes r: "pdr_ready env rh rec s" and sh: "short_record rec" and cn: "rd16 rec 6 = Some cn"
    and rc: "0 < rc" and buf: "126 \<le> length buf"
  shows "0 < unat st \<Longrightarrow> unat st < pdr_size_of rec \<Longrightarrow> pdr_size_of rec - unat st \<le> n \<Longrightarrow>
    pdr_client env rh rc cn buf n EGetNextPart (pending_address (pdrXfersAddr env) (unat rh))
      (set_pending (unat rh) \<lparr>pendingInitialized = PENDING_XFER_INIT_KEY, next_start = st\<rparr> s) =
    Some (drop (unat st) (take (pdr_size_of rec) rec), Some (ucGetCrc8 (take (pdr_size_of rec) rec)),
      set_pending (unat rh) \<lparr>pendingInitialized = 0, next_start = 0\<rparr> s)"
proof (induction n arbitrary: st)
  case (Suc n)
  let ?M = "part_size rc" and ?i = "unat rh"
  let ?s = "set_pending ?i \<lparr>pendingInitialized = PENDING_XFER_INIT_KEY, next_start = st\<rparr> s"
  have i: "?i < length (GetPDRPendingXfers s)" using r by (simp add: pdr_ready_def)
  have M: "0 < ?M" using rc by (simp add: part_size_def unat_gt_0)
  have le: "pdr_size_of rec \<le> 255" "pdr_size_of rec \<le> length rec"
    using sh by (auto simp: short_record_def)
  have call: "pldm_cmd_GetPDR env (pdr_request rh (pending_address (pdrXfersAddr env) ?i) EGetNextPart rc cn)
      buf ?s = pdr_reply env (MSP432_PDR_Repository s) rh rec ?i st rc buf ?s"
    using GetPDR_next[of env rh rec ?s cn rc buf] r i cn by simp
  show ?case
  proof (cases "?M < pdr_size_of rec - unat st")
    case True
    have u: "unat (st + of_nat ?M) = unat st + ?M"
      using True le by (intro next_start_advance) simp
    have m16: "unat (of_nat ?M :: u16) = ?M" using part_bounds[of rc] by (intro unat_of_nat_less) simp
    define part where "part = take ?M (drop (unat st) rec)"
    have lp: "length part = ?M" using True le by (simp add: part_def)
    have "drop (unat st) (take (pdr_size_of rec) rec) =
        part @ drop (unat st + ?M) (take (pdr_size_of rec) rec)"
      using True le unfolding part_def by (intro split_part) auto
    moreover have "pdr_client env rh rc cn buf n EGetNextPart (pending_address (pdrXfersAddr env) ?i)
       (set_pending ?i \<lparr>pendingInitialized = PENDING_XFER_INIT_KEY, next_start = st + of_nat ?M\<rparr> s) =
       Some (drop (unat st + ?M) (take (pdr_size_of rec) rec),
         Some (ucGetCrc8 (take (pdr_size_of rec) rec)),
         set_pending ?i \<lparr>pendingInitialized = 0, next_start = 0\<rparr> s)"
      using Suc.IH[of "st + of_nat ?M"] Suc.prems True M u by simp
    ultimately show ?thesis
      using call pdr_reply_more[OF sh _ True buf, of env "MSP432_PDR_Repository s" rh ?i ?s] Suc.prems i
      unfolding part_def[symmetric]
      by (simp add: m16 lp next_pending_def)
  next
    case False
    have n: "unat (of_nat (pdr_size_of rec - unat st) :: u16) = pdr_size_of rec - unat st"
      using le by (intro unat_of_nat_less) simp
    define part where "part = drop (unat st) (take (pdr_size_of rec) rec)"
    define k where "k = pdr_size_of rec - unat st"
    have lp: "length part = k" using le by (simp add: part_def k_def)
    have "st \<noteq> 0" using Suc.prems by auto
    then show ?thesis
      using call pdr_reply_last[OF sh _ _ buf, of st rc ?s ?i env "MSP432_PDR_Repository s" rh] Suc.prems False i n
      unfolding part_def[symmetric] k_def[symmetric]
      by (simp add: lp Let_def nth_append)
  qed
qed simp

lemma client_first:
  assumes r: "pdr_ready env rh rec s" and sh: "short_record rec" and cn: "rd16 rec 6 = Some cn"
    and rc: "0 < rc" and buf: "126 \<le> length buf" and n: "pdr_size_of rec \<le> n"
  shows "pdr_client env rh rc cn buf n EGetFirstPart 0 s =
    Some (take (pdr_size_of rec) rec,
      if part_size rc < pdr_size_of rec then Some (ucGetCrc8 (take (pdr_size_of rec) rec)) else None,
      set_pending (unat rh) \<lparr>pendingInitialized = 0, next_start = 0\<rparr> s)"
proof -
  let ?M = "part_size rc" and ?i = "unat rh" and ?N = "pdr_size_of rec"
  let ?s = "set_pending ?i \<lparr>pendingInitialized = 0, next_start = 0\<rparr> s"
  have i: "?i < length (GetPDRPendingXfers s)" using r by (simp add: pdr_ready_def)
  have M: "0 < ?M" using rc by (simp add: part_size_def unat_gt_0)
  have le: "?N \<le> 255" "?N \<le> length rec" using sh by (auto simp: short_record_def)
  obtain m where m: "n = Suc m" using n by (cases n) (auto simp: pdr_size_of_def)
  have call: "pldm_cmd_GetPDR env (pdr_request rh 0 EGetFirstPart rc cn) buf s =
      pdr_reply env (MSP432_PDR_Repository s) rh rec ?i 0 rc buf ?s"
    using GetPDR_first[OF r] .
  have key: "PENDING_XFER_INIT_KEY \<noteq> 0" by (simp add: PENDING_XFER_INIT_KEY_def)
  show ?thesis
  proof (cases "?M < ?N")
    case True
    have m16: "unat (of_nat ?M :: u16) = ?M" using part_bounds[of rc] by (intro unat_of_nat_less) simp
    have u: "unat (of_nat ?M :: u8) = ?M" using True le by (intro unat_of_nat_less) simp
    define part where "part = take ?M rec"
    have lp: "length part = ?M" using True le by (simp add: part_def)
    have "take ?N rec = part @ drop ?M (take ?N rec)"
      using split_part[of 0 ?M ?N rec] True by (simp add: part_def)
    moreover have "pdr_client env rh rc cn buf m EGetNextPart (pending_address (pdrXfersAddr env) ?i)
       (set_pending ?i \<lparr>pendingInitialized = PENDING_XFER_INIT_KEY, next_start = of_nat ?M\<rparr> s) =
       Some (drop ?M (take ?N rec), Some (ucGetCrc8 (take ?N rec)), ?s)"
      using client_next[OF r sh cn rc buf, of "of_nat ?M" m] True M u m n by simp
    ultimately show ?thesis
      using call pdr_reply_more[OF sh _ _ buf, of 0 rc env "MSP432_PDR_Repository s" rh ?i ?s] True i key
      unfolding m part_def[symmetric]
      by (simp add: m16 lp next_pending_def part_def[symmetric])
  next
    case False
    have n16: "unat (of_nat ?N :: u16) = ?N" using le by (intro unat_of_nat_less) simp
    define part where "part = take ?N rec"
    have lp: "length part = ?N" using le by (simp add: part_def)
    show ?thesis
      using call pdr_reply_single[OF sh _ buf, of rc env "MSP432_PDR_Repository s" rh ?i ?s] False i
      unfolding m part_def[symmetric] by (simp add: n16 lp)
  qed
qed

text \<open>
  C7: reading a record in parts works: a requester that asks for the first part and then
  for the next part until the last flag gets exactly the bytes of the record, with, when there
  was more than one part, the CRC-8 of the whole record in the last one; as many requests as
  the record has bytes are enough, and the pending transfer is closed afterwards.
\<close>

theorem pdr_transfer_complete:
  assumes "pdr_ready env rh rec s" "short_record rec" "rd16 rec 6 = Some cn" "0 < rc"
    "126 \<le> length buf" "pdr_size_of rec \<le> n"
  shows "\<exists>s'. pdr_client env rh rc cn buf n EGetFirstPart 0 s =
      Some (take (pdr_size_of rec) rec,
        if part_size rc < pdr_size_of rec then Some (ucGetCrc8 (take (pdr_size_of rec) rec)) else None, s')
    \<and> pendingInitialized (GetPDRPendingXfers s' ! unat rh) = 0"
  using client_first[OF assms] assms(1) by (simp add: pdr_ready_def)

definition sample_record :: "u8 list" where
  "sample_record = [0, 0, 0, 0, 1, 1, 7, 0, 25, 0] @ replicate 25 5"

definition sample_pdr_state :: "(unit, unit) bmc_state" where
  "sample_pdr_state = (bmc_initial ())\<lparr>iIsRepoInitialized := True,
     MSP432_PDR_Repository := initial_repository\<lparr>repositoryState := ERepoStateAvailable,
       recordCount := 1, PDRRecords := [sample_record]\<rparr>\<rparr>"

lemma sample_pdr:
  "pdr_ready sample_env 0 sample_record sample_pdr_state" "short_record sample_record"
  "rd16 sample_record 6 = Some 7" "pdr_size_of sample_record = 35" "length sample_record = 35"
  by (simp_all add: pdr_ready_def sample_pdr_state_def bmc_initial_def initial_repository_def
     sample_env_def table_placed_def short_record_def pdr_size_of_def sample_record_def of_le16_def
     rd16_def rd_bytes_def)

lemma pdr_transfer_complete_witness:
  "\<exists>s'. pdr_client sample_env 0 16 7 (replicate 128 0) 35 EGetFirstPart 0 sample_pdr_state =
      Some (sample_record, Some (ucGetCrc8 sample_record), s')"
  using pdr_transfer_complete[OF sample_pdr(1,2,3), of 16 "replicate 128 0" 35]
  by (auto simp: sample_pdr part_size_def)

end
