(* ===== verification/MctpInterpreter.thy ===== *)
theory MctpInterpreter
  imports PldmProcessor
begin

text \<open>
  The transport layer, mctp_interpreter.c: validation of a received packet, reassembly of a
  message from its packets, dispatch to MCTP or PLDM, and the response, cut into packets of
  at most 64 bytes of payload. A packet in the buffers has the destination address at offset
  0, the byte count at 1, the source address at 2, the header version at 3, the destination
  and source endpoints at 4 and 5, the flags at 6 (tag in bits 0 to 2, tag owner 3, sequence
  number 4 and 5, end of message 6, start of message 7) and the payload from 7; the first byte
  of the payload of a message is its type.
\<close>

text \<open>
  The MCTP control messages: the functions of the commands, mctp_commands.c, and their
  dispatcher, mctp_parser.c. As for the PLDM functions, a function gets the payload of the
  request and of the response and returns the size of the response, an 8-bit integer.
\<close>

section \<open>Constants and table\<close>

definition RESP_MCTP_CTRL_MSG_SUCCESS :: u8 where "RESP_MCTP_CTRL_MSG_SUCCESS = 0x00"
definition RESP_MCTP_CTRL_MSG_ERROR_INVALID_DATA :: u8 where
  "RESP_MCTP_CTRL_MSG_ERROR_INVALID_DATA = 0x02"
definition RESP_MCTP_CTRL_MSG_ERROR_MCTP_CMD_NS :: u8 where
  "RESP_MCTP_CTRL_MSG_ERROR_MCTP_CMD_NS = 0x05"
definition RESP_MCTP_CTRL_MSG_TYPE_UNSUPPORTED :: u8 where
  "RESP_MCTP_CTRL_MSG_TYPE_UNSUPPORTED = 0x80"

definition MCTP_BASE_SPEC_VER_1_3_1 :: u32 where "MCTP_BASE_SPEC_VER_1_3_1 = 0xf1f3f100"
definition PLDM_OVER_MCTP_DSP0241_VER_1_0_0 :: u32 where
  "PLDM_OVER_MCTP_DSP0241_VER_1_0_0 = 0xf1f0f000"

definition BYTE_SWAP32 :: "u32 \<Rightarrow> u32" where
  "BYTE_SWAP32 v = drop_bit 24 (v AND 0xff000000) OR drop_bit 8 (v AND 0x00ff0000)
     OR push_bit 8 (v AND 0x0000ff00) OR push_bit 24 (v AND 0x000000ff)"

definition mctpSupportedMsgTypes :: "u8 list" where "mctpSupportedMsgTypes = [0, 1]"

datatype mctp_function =
    mctp_SetEID | mctp_GetEID | mctp_GetUUID | mctp_GetMCTPVersion | mctp_GetMCTPMsgType

definition mctp_func :: "mctp_function option list" where
  "mctp_func = (replicate 10 None)
     [1 := Some mctp_SetEID, 2 := Some mctp_GetEID, 3 := Some mctp_GetUUID,
      4 := Some mctp_GetMCTPVersion, 5 := Some mctp_GetMCTPMsgType]"

text \<open>The command is not compared with the length of the table.\<close>

definition get_mctp_func :: "u8 \<Rightarrow> (u8 \<times> mctp_function option) option" where
  "get_mctp_func cmd =
     (if unat cmd < length mctp_func
      then Some (case mctp_func ! unat cmd of
          Some f \<Rightarrow> (RESP_MCTP_CTRL_MSG_SUCCESS, Some f)
        | None \<Rightarrow> (RESP_MCTP_CTRL_MSG_ERROR_MCTP_CMD_NS, None))
      else None)"

section \<open>Endpoint identifier\<close>

definition SET_EID :: u8 where "SET_EID = 0"
definition FORCE_EID :: u8 where "FORCE_EID = 1"
definition RESET_EID :: u8 where "RESET_EID = 2"
definition SET_DISCOVERED_FLAG :: u8 where "SET_DISCOVERED_FLAG = 3"
definition EID_ASSIGNMENT_ACCEPTED :: u8 where "EID_ASSIGNMENT_ACCEPTED = 0"
definition EID_ASSIGNMENT_REJECTED :: u8 where "EID_ASSIGNMENT_REJECTED = 1"

lemmas eid_consts = SET_EID_def FORCE_EID_def RESET_EID_def SET_DISCOVERED_FLAG_def
  EID_ASSIGNMENT_ACCEPTED_def EID_ASSIGNMENT_REJECTED_def RESP_MCTP_CTRL_MSG_SUCCESS_def
  RESP_MCTP_CTRL_MSG_ERROR_INVALID_DATA_def

text \<open>The status is OR-ed into the byte of the response buffer.\<close>

definition set_eid_reply :: "u8 \<Rightarrow> u8 \<Rightarrow> u8 list \<Rightarrow> u8 list option" where
  "set_eid_reply status ep out = do {
     old \<leftarrow> rd8 out 1;
     wr_bytes 0 [RESP_MCTP_CTRL_MSG_SUCCESS, old OR push_bit 4 status, ep, 0] out }"

definition mctp_cmd_SetEID ::
  "u8 list \<Rightarrow> u8 list \<Rightarrow> ('cb, 'x) bmc_state \<Rightarrow> (u8 \<times> u8 list \<times> ('cb, 'x) bmc_state) option" where
  "mctp_cmd_SetEID req out s = do {
     ep \<leftarrow> rd8 req 1;
     (if ep \<noteq> 0x00 \<and> ep \<noteq> 0xFF
      then do {
        operation \<leftarrow> rd8 req 0;
        (if operation = SET_EID
         then if eidSetFlag s = 0
           then do { out' \<leftarrow> set_eid_reply EID_ASSIGNMENT_ACCEPTED ep out;
                     Some (4, out', s\<lparr>EID := ucast ep, eidSetFlag := 1\<rparr>) }
           else do { out' \<leftarrow> set_eid_reply EID_ASSIGNMENT_REJECTED ep out; Some (4, out', s) }
         else if operation = FORCE_EID
         then do { out' \<leftarrow> set_eid_reply EID_ASSIGNMENT_ACCEPTED ep out;
                   Some (4, out', s\<lparr>EID := ucast ep\<rparr>) }
         else if operation = RESET_EID \<or> operation = SET_DISCOVERED_FLAG
         then do { out' \<leftarrow> wr8 0 RESP_MCTP_CTRL_MSG_ERROR_INVALID_DATA out; Some (4, out', s) }
         else Some (0, out, s)) }
      else do { out' \<leftarrow> wr8 0 RESP_MCTP_CTRL_MSG_ERROR_INVALID_DATA out; Some (4, out', s) }) }"

definition mctp_cmd_GetEID ::
  "u8 list \<Rightarrow> ('cb, 'x) bmc_state \<Rightarrow> (u8 \<times> u8 list \<times> ('cb, 'x) bmc_state) option" where
  "mctp_cmd_GetEID out s = do {
     out' \<leftarrow> wr_bytes 0 [RESP_MCTP_CTRL_MSG_SUCCESS,
        if eidSetFlag s = 0 then 0 else ucast (EID s), 0x01, 0x00] out;
     Some (4, out', s) }"

section \<open>UUID, versions, message types\<close>

definition mctp_cmd_GetUUID ::
  "u8 list \<Rightarrow> ('cb, 'x) bmc_state \<Rightarrow> (u8 \<times> u8 list \<times> ('cb, 'x) bmc_state) option" where
  "mctp_cmd_GetUUID out s = do {
     out1 \<leftarrow> wr8 0 RESP_MCTP_CTRL_MSG_SUCCESS out;
     (n, rest) \<leftarrow> iGetUuid (pxThis s) (drop 1 out1);
     Some (1 + of_nat n, take 1 out1 @ rest, s) }"

text \<open>The completion code tested at the end is the byte found in the response buffer.\<close>

definition mctp_cmd_GetMCTPVersion ::
  "u8 list \<Rightarrow> u8 list \<Rightarrow> ('cb, 'x) bmc_state \<Rightarrow> (u8 \<times> u8 list \<times> ('cb, 'x) bmc_state) option" where
  "mctp_cmd_GetMCTPVersion req out s = do {
     ty \<leftarrow> rd8 req 0;
     (count, out1) \<leftarrow>
       (if ty = 0xFF \<or> ty = 0x00
        then do { o1 \<leftarrow> wr_bytes 1 (1 # le_bytes (BYTE_SWAP32 MCTP_BASE_SPEC_VER_1_3_1)) out;
                  Some (1 :: u8, o1) }
        else if ty = 0x01
        then do { o1 \<leftarrow> wr_bytes 1 (1 # le_bytes (BYTE_SWAP32 PLDM_OVER_MCTP_DSP0241_VER_1_0_0)) out;
                  Some (1, o1) }
        else do { o1 \<leftarrow> wr8 0 RESP_MCTP_CTRL_MSG_TYPE_UNSUPPORTED out; Some (0, o1) });
     code \<leftarrow> rd8 out1 0;
     (if code \<noteq> 0 then Some (1, out1, s)
      else do { out2 \<leftarrow> wr8 0 0 out1; Some (4 * count + 2, out2, s) }) }"

definition mctp_cmd_GetMCTPMsgType ::
  "u8 list \<Rightarrow> ('cb, 'x) bmc_state \<Rightarrow> (u8 \<times> u8 list \<times> ('cb, 'x) bmc_state) option" where
  "mctp_cmd_GetMCTPMsgType out s = do {
     out' \<leftarrow> wr_bytes 0 ([RESP_MCTP_CTRL_MSG_SUCCESS, of_nat (length mctpSupportedMsgTypes)]
        @ mctpSupportedMsgTypes) out;
     Some (of_nat (2 + length mctpSupportedMsgTypes), out', s) }"

section \<open>Dispatcher\<close>

definition mctp_call ::
  "mctp_function \<Rightarrow> u8 list \<Rightarrow> u8 list \<Rightarrow> ('cb, 'x) bmc_state
   \<Rightarrow> (u8 \<times> u8 list \<times> ('cb, 'x) bmc_state) option" where
  "mctp_call f req out s = (case f of
     mctp_SetEID \<Rightarrow> mctp_cmd_SetEID req out s
   | mctp_GetEID \<Rightarrow> mctp_cmd_GetEID out s
   | mctp_GetUUID \<Rightarrow> mctp_cmd_GetUUID out s
   | mctp_GetMCTPVersion \<Rightarrow> mctp_cmd_GetMCTPVersion req out s
   | mctp_GetMCTPMsgType \<Rightarrow> mctp_cmd_GetMCTPMsgType out s)"

text \<open>
  The first byte of a packet has the instance in bits 0 to 4, a reserved bit, the datagram
  bit and the request bit.
\<close>

definition init_mctp_response :: "u8 list \<Rightarrow> u8 list \<Rightarrow> u8 list option" where
  "init_mctp_response RqPkt RspPkt = do {
     rq \<leftarrow> rd8 RqPkt 0;
     old \<leftarrow> rd8 RspPkt 0;
     cmd \<leftarrow> rd8 RqPkt 1;
     wr_bytes 0 [(rq AND 0x1F) OR (old AND 0x20), cmd] RspPkt }"

definition process_mctp_request ::
  "u8 list \<Rightarrow> u8 list \<Rightarrow> bool \<Rightarrow> ('cb, 'x) bmc_state
   \<Rightarrow> (nat \<times> u8 list \<times> ('cb, 'x) bmc_state) option" where
  "process_mctp_request req resp request s = do {
     resp1 \<leftarrow> (if request then init_mctp_response req resp else Some resp);
     cmd \<leftarrow> rd8 req 1;
     (ret, processor) \<leftarrow> get_mctp_func cmd;
     (if ret \<noteq> 0 then do { resp2 \<leftarrow> wr8 2 ret resp1; Some (3, resp2, s) }
      else case processor of
        None \<Rightarrow> Some (2, resp1, s)
      | Some f \<Rightarrow> do {
          (n, out, s') \<leftarrow> mctp_call f (drop 2 req) (drop 2 resp1) s;
          Some (2 + unat n, take 2 resp1 @ out, s') }) }"

section \<open>Packet fields\<close>

definition MCTP_HEADER :: nat where "MCTP_HEADER = 7"
definition MCTP_MAX_PAYLOAD_SIZE :: nat where "MCTP_MAX_PAYLOAD_SIZE = 64"
definition PKT_SEQ_MODULO :: u8 where "PKT_SEQ_MODULO = 4"
definition MAX_MULTIPART_BUFFER_SIZE :: nat where "MAX_MULTIPART_BUFFER_SIZE = 1024"
definition MAX_BUFFER_SIZE :: nat where "MAX_BUFFER_SIZE = 255"
definition sizeof_mctp_message :: nat where "sizeof_mctp_message = 8"
definition MCTP_MESSAGE_DELAY_MS :: u32 where "MCTP_MESSAGE_DELAY_MS = 10"
definition MCTP_MSG_MCTP_CONTROL :: u8 where "MCTP_MSG_MCTP_CONTROL = 0"
definition MCTP_MSG_MCTP_PLDM :: u8 where "MCTP_MSG_MCTP_PLDM = 1"

lemmas mctp_consts = MCTP_HEADER_def MCTP_MAX_PAYLOAD_SIZE_def PKT_SEQ_MODULO_def
  MAX_MULTIPART_BUFFER_SIZE_def MAX_BUFFER_SIZE_def sizeof_mctp_message_def
  MCTP_MESSAGE_DELAY_MS_def MCTP_MSG_MCTP_CONTROL_def MCTP_MSG_MCTP_PLDM_def

definition flags_seq :: "u8 \<Rightarrow> u8" where "flags_seq f = drop_bit 4 f AND 3"
definition flags_eom :: "u8 \<Rightarrow> bool" where "flags_eom f = bit f 6"
definition flags_som :: "u8 \<Rightarrow> bool" where "flags_som f = bit f 7"

definition put_seq :: "u8 \<Rightarrow> u8 \<Rightarrow> u8" where
  "put_seq q f = (f AND NOT 0x30) OR push_bit 4 (q AND 3)"
definition put_bit :: "nat \<Rightarrow> bool \<Rightarrow> u8 \<Rightarrow> u8" where
  "put_bit n b f = (if b then set_bit n f else unset_bit n f)"

section \<open>Dispatch\<close>

text \<open>The result is the size of the payload with the message type, a 16-bit integer.\<close>

definition process_request ::
  "('cb, 'x) bmc_env \<Rightarrow> u8 list \<Rightarrow> u8 list \<Rightarrow> ('cb, 'x) bmc_state
   \<Rightarrow> (u16 \<times> u8 list \<times> ('cb, 'x) bmc_state) option" where
  "process_request env req resp s = do {
     h \<leftarrow> rd8 req 8;
     let request = bit h 7;
     let s1 = s\<lparr>request_pkt := request\<rparr>;
     ty \<leftarrow> rd8 req 7;
     (if ty = MCTP_MSG_MCTP_CONTROL then do {
        resp1 \<leftarrow> wr8 7 MCTP_MSG_MCTP_CONTROL resp;
        (n, out, s2) \<leftarrow> process_mctp_request (drop 8 req) (drop 8 resp1) request s1;
        Some (of_nat (n + 1), take 8 resp1 @ out, s2) }
      else if ty = MCTP_MSG_MCTP_PLDM then do {
        resp1 \<leftarrow> wr8 7 MCTP_MSG_MCTP_PLDM resp;
        (n, out, s2) \<leftarrow> process_pldm_request env (drop 8 req) (drop 8 resp1) request s1;
        Some (of_nat (n + 1), take 8 resp1 @ out, s2) }
      else Some (1, resp, s1)) }"

section \<open>Response\<close>

definition send_mctp_response ::
  "('cb, 'x) bmc_env \<Rightarrow> u8 list \<Rightarrow> nat \<Rightarrow> ('cb, 'x) bmc_state \<Rightarrow> (int \<times> ('cb, 'x) bmc_state) option" where
  "send_mctp_response env buffer len s = iResponseDataWrite env buffer (of_nat len) s"

text \<open>
  The loop that cuts the response: \<open>sz\<close> is the payload still to be sent, \<open>resp\<close> the response
  buffer. A failed write ends it.
\<close>

function send_packets ::
  "('cb, 'x) bmc_env \<Rightarrow> u8 \<Rightarrow> nat \<Rightarrow> u8 list \<Rightarrow> ('cb, 'x) bmc_state \<Rightarrow> ('cb, 'x) bmc_state option" where
  "send_packets env src sz resp s =
     (if sz = 0 then Some (s\<lparr>RespBuffer := resp\<rparr>)
      else do {
        let more = (MCTP_MAX_PAYLOAD_SIZE < sz);
        let pkt_size = (if more then MCTP_MAX_PAYLOAD_SIZE else sz);
        saved \<leftarrow> (if more then rd8 resp (MCTP_HEADER + MCTP_MAX_PAYLOAD_SIZE) else Some 0);
        flags \<leftarrow> rd8 resp 6;
        resp1 \<leftarrow> wr8 6 (put_bit 6 (\<not> more) flags) resp;
        resp2 \<leftarrow> wr8 0 (drop_bit 1 (src AND NOT 1)) resp1;
        let ret_size = MCTP_HEADER + pkt_size;
        resp3 \<leftarrow> wr8 1 (of_nat (ret_size - 2)) resp2;
        (sent, s1) \<leftarrow> send_mctp_response env resp3 ret_size s;
        (if sent \<noteq> int ret_size then Some (s1\<lparr>RespBuffer := resp3\<rparr>)
         else if more then do {
           let s2 = s1\<lparr>world := taskSleepMs env MCTP_MESSAGE_DELAY_MS (world s1)\<rparr>;
           resp4 \<leftarrow> wr8 (MCTP_HEADER + MCTP_MAX_PAYLOAD_SIZE) saved resp3;
           flags1 \<leftarrow> rd8 resp4 6;
           resp5 \<leftarrow> wr8 6 (put_bit 7 False (put_seq (flags_seq flags1 + 1) flags1)) resp4;
           rest \<leftarrow> rd_bytes resp5 (MCTP_HEADER + MCTP_MAX_PAYLOAD_SIZE) (sz - pkt_size);
           resp6 \<leftarrow> wr_bytes MCTP_HEADER rest resp5;
           send_packets env src (sz - pkt_size) resp6 s2 }
         else Some (s1\<lparr>RespBuffer := resp3\<rparr>)) })"
  by pat_completeness auto
termination
  by (relation "measure (\<lambda>(env, src, sz, resp, s). sz)") (auto simp: mctp_consts)

declare send_packets.simps [simp del]

definition send_response ::
  "('cb, 'x) bmc_env \<Rightarrow> u8 list \<Rightarrow> nat \<Rightarrow> u8 list \<Rightarrow> ('cb, 'x) bmc_state \<Rightarrow> ('cb, 'x) bmc_state option" where
  "send_response env req sz resp s = do {
     src \<leftarrow> rd8 req 2;
     version \<leftarrow> rd8 req 3;
     dest_ep \<leftarrow> rd8 req 4;
     src_ep \<leftarrow> rd8 req 5;
     rflags \<leftarrow> rd8 req 6;
     resp1 \<leftarrow> wr_bytes 2 [push_bit 1 0x18 OR 1, version, src_ep, dest_ep] resp;
     flags \<leftarrow> rd8 resp1 6;
     let flags1 = (flags AND NOT 7) OR (rflags AND 7);
     resp2 \<leftarrow> wr8 6 (put_bit 7 True (put_seq 0 flags1)) resp1;
     send_packets env src sz resp2 s }"

section \<open>Reception\<close>

definition reset_context :: "('cb, 'x) bmc_state \<Rightarrow> ('cb, 'x) bmc_state" where
  "reset_context s = s\<lparr>multiPartReqBuffer := replicate MAX_MULTIPART_BUFFER_SIZE 0x30,
     staging_buff_size := 0, prv_seq_num := 0\<rparr>"

definition stage :: "nat \<Rightarrow> u8 list \<Rightarrow> ('cb, 'x) bmc_state \<Rightarrow> ('cb, 'x) bmc_state option" where
  "stage n req s = do {
     bytes \<leftarrow> rd_bytes req MCTP_HEADER n;
     buf \<leftarrow> wr_bytes (unat (staging_buff_size s)) bytes (multiPartReqBuffer s);
     Some (s\<lparr>multiPartReqBuffer := buf, staging_buff_size := staging_buff_size s + of_nat n\<rparr>) }"

text \<open>
  The packet is in \<open>ReqBuffer\<close> and the response in \<open>RespBuffer\<close>. The expected sequence number
  is computed in an \<open>int\<close> and stored in 8 bits.
\<close>

definition respond ::
  "('cb, 'x) bmc_env \<Rightarrow> u16 \<Rightarrow> u8 list \<Rightarrow> ('cb, 'x) bmc_state \<Rightarrow> ('cb, 'x) bmc_state option" where
  "respond env payload_size resp s =
     (if request_pkt s then send_response env (ReqBuffer s) (unat payload_size) resp s
      else Some (s\<lparr>RespBuffer := resp\<rparr>))"

definition process_pmci_request ::
  "('cb, 'x) bmc_env \<Rightarrow> int \<Rightarrow> ('cb, 'x) bmc_state \<Rightarrow> ('cb, 'x) bmc_state option" where
  "process_pmci_request env i2cSlaveReadCount s0 = do {
     flags \<leftarrow> rd8 (ReqBuffer s0) 6;
     src_ep \<leftarrow> rd8 (ReqBuffer s0) 5;
     dest_ep \<leftarrow> rd8 (ReqBuffer s0) 4;
     version \<leftarrow> rd8 (ReqBuffer s0) 3;
     src \<leftarrow> rd8 (ReqBuffer s0) 2;
     let s = s0\<lparr>BMC_endpoint_id_g := src_ep, SC_endpoint_id_g := dest_ep,
                MCTP_header_version_g := version, BMC_slave_address_g := src\<rparr>;
     (if i2cSlaveReadCount < int sizeof_mctp_message then Some s
      else do {
        req \<leftarrow> wr8 0 (push_bit 1 0x18) (ReqBuffer s);
        let s1 = s\<lparr>ReqBuffer := req\<rparr>;
        count \<leftarrow> rd8 req 1;
        let byte_count = count + 2;
        (if uint byte_count \<noteq> i2cSlaveReadCount then Some s1
         else if (ucast dest_ep :: u16) \<noteq> EID s1 \<and> dest_ep \<noteq> 0 then Some s1
         else if flags_som flags \<and> flags_eom flags then do {
           (sz, resp, s2) \<leftarrow> process_request env req (RespBuffer s1) s1;
           respond env sz resp s2 }
         else if flags_som flags then
           (if staging_buff_size s1 = 0
            then do {
              bytes \<leftarrow> rd_bytes req 0 (unat byte_count);
              buf \<leftarrow> wr_bytes 0 bytes (replicate MAX_MULTIPART_BUFFER_SIZE 0x30);
              Some (s1\<lparr>multiPartReqBuffer := buf, staging_buff_size := ucast byte_count,
                       prv_seq_num := flags_seq flags\<rparr>) }
            else Some (reset_context s1))
         else if (prv_seq_num s1 + 1) mod PKT_SEQ_MODULO \<noteq> flags_seq flags
         then Some (reset_context s1)
         else do {
           s2 \<leftarrow> stage (unat byte_count - MCTP_HEADER) req s1;
           (if flags_eom flags
            then do {
              (sz, resp, s3) \<leftarrow> process_request env (multiPartReqBuffer s2) (RespBuffer s2) s2;
              respond env sz resp (s3\<lparr>staging_buff_size := 0, prv_seq_num := 0\<rparr>) }
            else Some (s2\<lparr>prv_seq_num := flags_seq flags\<rparr>)) }) }) }"

end
