(* ===== verification/BmcDriver.thy ===== *)
theory BmcDriver
  imports MctpInterpreter
begin

text \<open>
  The public functions and the task of the BMC proxy, bmc_proxy_driver.c: initialisation,
  binding, state and statistics, reception of a message and the body of the task's loop.
\<close>

section \<open>Initialisation\<close>

text \<open>A table of records is allocated and copied; \<open>NULL\<close> in leaves the local table.\<close>

definition iAllocateNumericSensorPDR ::
  "('cb, 'x) bmc_env \<Rightarrow> u8 list list option \<Rightarrow> (u8 list list \<Rightarrow> BMC_PRIVATE_DATA \<Rightarrow> BMC_PRIVATE_DATA)
   \<Rightarrow> ('cb, 'x) bmc_state \<Rightarrow> int \<times> ('cb, 'x) bmc_state" where
  "iAllocateNumericSensorPDR env incoming local s =
     (case incoming of
        None \<Rightarrow> (OK, s)
      | Some recs \<Rightarrow>
          let (ok, x') = memAlloc env (sizeof_PLDM_NUMERIC_SENSOR_PDR * length recs) (world s) in
          if ok then (OK, s\<lparr>world := x', pxThis := local recs (pxThis s)\<rparr>)
          else (ERROR, s\<lparr>world := x',
                  pxThis := bmc_inc_error_with_state BMC_PROXY_ERRORS_MEM_ALLOC_FAILED (pxThis s)\<rparr>))"

definition allocate_names ::
  "('cb, 'x) bmc_env \<Rightarrow> u8 list list \<Rightarrow> ('cb, 'x) bmc_state \<Rightarrow> int \<times> ('cb, 'x) bmc_state" where
  "allocate_names env recs s =
     (let (ok, x') = memAlloc env (sizeof_PLDM_NUMERIC_SENSOR_NAME_PDR * length recs) (world s) in
      if ok then (OK, s\<lparr>world := x', pxThis := (pxThis s)\<lparr>pxPdrSensorNames := recs\<rparr>\<rparr>)
      else (ERROR, s\<lparr>world := x',
              pxThis := bmc_inc_error_with_state BMC_PROXY_ERRORS_MEM_ALLOC_FAILED (pxThis s)\<rparr>))"

text \<open>A status other than \<^const>\<open>OK\<close> skips the next step.\<close>

definition if_ok :: "('s \<Rightarrow> int \<times> 's) \<Rightarrow> int \<times> 's \<Rightarrow> int \<times> 's" where
  "if_ok f r = (if fst r = OK then f (snd r) else r)"

text \<open>Opening the firmware interface; its failure does not change the status.\<close>

definition open_fw_if ::
  "('cb, 'x) bmc_env \<Rightarrow> ('cb, 'x) bmc_state \<Rightarrow> (int \<times> ('cb, 'x) bmc_state) option" where
  "open_fw_if env s =
     (let (ok, x') = fwIfOpen env (world s) in
      if \<not> ok
      then Some (OK, s\<lparr>world := x',
             pxThis := bmc_inc_error_with_state BMC_PROXY_ERRORS_FW_IF_OPEN_FAILED (pxThis s)\<rparr>)
      else do {
        (_, s') \<leftarrow> pldm_command_init (s\<lparr>world := x',
           pxThis := (pxThis s)\<lparr>bmcInitialised := True, xState := MODULE_STATE_OK\<rparr>\<rparr>);
        Some (OK, s'\<lparr>pxThis := bmc_inc_stat BMC_PROXY_STATS_INIT_OVERALL_COMPLETE
          (bmc_inc_stat BMC_PROXY_STATS_CREATE_SEMAPHORE
            (bmc_inc_stat BMC_PROXY_STATS_CREATE_MUTEX (pxThis s')))\<rparr>) })"

text \<open>
  The arguments: identifier, presence of the firmware interface, the five tables and the
  UUID, \<^term>\<open>None\<close> for \<open>NULL\<close>. The status is an error until the tables are copied.
\<close>

definition iBMC_Initialise ::
  "('cb, 'x) bmc_env \<Rightarrow> u8 \<Rightarrow> bool \<Rightarrow> u8 list list option \<Rightarrow> u8 list list option
   \<Rightarrow> u8 list list option \<Rightarrow> u8 list list option \<Rightarrow> u8 list list option \<Rightarrow> u8 list option
   \<Rightarrow> ('cb, 'x) bmc_state \<Rightarrow> (int \<times> ('cb, 'x) bmc_state) option" where
  "iBMC_Initialise env ucProxyId fwIf temps volts currs powers names uuid s =
     (if UPPER_FIREWALL = bmcUpperFirewall (pxThis s) \<and> LOWER_FIREWALL = bmcLowerFirewall (pxThis s) \<and>
         \<not> bmcInitialised (pxThis s) \<and> fwIf \<and> temps \<noteq> None \<and> volts \<noteq> None \<and> currs \<noteq> None \<and>
         powers \<noteq> None \<and> names \<noteq> None \<and> uuid \<noteq> None
      then let (st, rec, d', p', x') = iEVL_CreateRecord (bmcOs env) (Some (pxEvlRecord s)) (evlData s)
                                         ((pxThis s)\<lparr>ucMyId := ucProxyId\<rparr>, world s);
               s1 = s\<lparr>pxEvlRecord := (case rec of Some r \<Rightarrow> r | None \<Rightarrow> pxEvlRecord s),
                      evlData := d', pxThis := p', world := x'\<rparr> in
        if st \<noteq> OK
        then Some (ERROR, s1\<lparr>pxThis := bmc_inc_error_with_state
                              BMC_PROXY_ERRORS_INIT_EVL_RECORD_FAILED (pxThis s1)\<rparr>)
        else let (ok1, x1) = mutexCreate env (world s1); s2 = s1\<lparr>world := x1\<rparr> in
        if \<not> ok1
        then Some (ERROR, s2\<lparr>pxThis := bmc_inc_error_with_state
                              BMC_PROXY_INIT_MUTEX_CREATE_FAILED (pxThis s2)\<rparr>)
        else let (ok2, x2) = semaphoreCreate env (world s2); s3 = s2\<lparr>world := x2\<rparr> in
        if \<not> ok2
        then Some (ERROR, s3\<lparr>pxThis := bmc_inc_error BMC_PROXY_ERRORS_CREATE_SEMAPHORE (pxThis s3)\<rparr>)
        else let (ok3, x3) = taskCreate env (world s3); s4 = s3\<lparr>world := x3\<rparr> in
        if \<not> ok3
        then Some (ERROR, s4\<lparr>pxThis := bmc_inc_error_with_state
                              BMC_PROXY_INIT_TASK_CREATE_FAILED (pxThis s4)\<rparr>)
        else do {
          id16 \<leftarrow> rd_bytes (the uuid) 0 HAL_UUID_SIZE;
          let s5 = s4\<lparr>pxThis := (pxThis s4)\<lparr>pucUuid := id16\<rparr>\<rparr>;
          let r = if_ok (allocate_names env (the names))
            (if_ok (iAllocateNumericSensorPDR env powers (\<lambda>t p. p\<lparr>pxPdrPowerSensors := t\<rparr>))
            (if_ok (iAllocateNumericSensorPDR env currs (\<lambda>t p. p\<lparr>pxPdrCurrentSensors := t\<rparr>))
            (if_ok (iAllocateNumericSensorPDR env volts (\<lambda>t p. p\<lparr>pxPdrVoltageSensors := t\<rparr>))
            (iAllocateNumericSensorPDR env temps (\<lambda>t p. p\<lparr>pxPdrTemperatureSensors := t\<rparr>) s5))));
          (if fst r = OK then open_fw_if env (snd r) else Some r) }
      else Some (ERROR, s\<lparr>pxThis := bmc_inc_error BMC_PROXY_VALIDATION_FAILED (pxThis s)\<rparr>))"

definition iBMC_BindCallback ::
  "('cb, 'x) bmc_env \<Rightarrow> 'cb option \<Rightarrow> ('cb, 'x) bmc_state \<Rightarrow> int \<times> ('cb, 'x) bmc_state" where
  "iBMC_BindCallback env pxCallback s =
     (if bmc_ready (pxThis s) \<and> pxCallback \<noteq> None \<and> pxEvlRecord s \<noteq> None
      then let (st, rec, d', p', x') = iEVL_BindCallback (bmcOs env) (pxEvlRecord s) pxCallback
                                         (evlData s) (pxThis s, world s)
        in (st, s\<lparr>pxEvlRecord := rec, evlData := d', world := x',
              pxThis := (if st = ERROR then bmc_inc_error_with_state BMC_PROXY_BIND_CB_FAILED p' else p')\<rparr>)
      else (ERROR, s\<lparr>pxThis := bmc_inc_error BMC_PROXY_VALIDATION_FAILED (pxThis s)\<rparr>))"

section \<open>State and statistics\<close>

text \<open>The rows printed, by counter.\<close>

definition iBMC_PrintStatistics ::
  "BMC_PRIVATE_DATA \<Rightarrow> int \<times> ((BMC_PROXY_STATS \<Rightarrow> u32) \<times> (BMC_PROXY_ERRORS \<Rightarrow> u32)) option \<times> BMC_PRIVATE_DATA" where
  "iBMC_PrintStatistics p =
     (if UPPER_FIREWALL = bmcUpperFirewall p \<and> LOWER_FIREWALL = bmcLowerFirewall p
      then (OK, Some (bmcStats p, bmcErrors p), p)
      else (ERROR, None, bmc_inc_error BMC_PROXY_VALIDATION_FAILED p))"

definition iBMC_ClearStatistics :: "BMC_PRIVATE_DATA \<Rightarrow> int \<times> BMC_PRIVATE_DATA" where
  "iBMC_ClearStatistics p =
     (if bmc_ready p then (OK, p\<lparr>bmcStats := (\<lambda>_. 0), bmcErrors := (\<lambda>_. 0)\<rparr>)
      else (ERROR, bmc_inc_error BMC_PROXY_VALIDATION_FAILED p))"

text \<open>\<open>dest\<close> says whether the pointer to the result is not \<open>NULL\<close>.\<close>

definition iBMC_GetState ::
  "('cb, 'x) bmc_env \<Rightarrow> bool \<Rightarrow> ('cb, 'x) bmc_state \<Rightarrow> int \<times> MODULE_STATE option \<times> ('cb, 'x) bmc_state" where
  "iBMC_GetState env dest s =
     (let p = pxThis s in
      if UPPER_FIREWALL = bmcUpperFirewall p \<and> LOWER_FIREWALL = bmcLowerFirewall p \<and> dest
      then let (taken, x1) = mutexTake env (world s) in
        if taken
        then let p1 = bmc_inc_stat BMC_PROXY_STATS_STATUS_RETRIEVAL
                        (bmc_inc_stat BMC_PROXY_STATS_TAKE_MUTEX p);
                 (released, x2) = mutexRelease env x1 in
          if released
          then (OK, Some (xState p), s\<lparr>world := x2, pxThis := bmc_inc_stat BMC_PROXY_STATS_RELEASE_MUTEX p1\<rparr>)
          else (ERROR, Some (xState p), s\<lparr>world := x2,
                  pxThis := bmc_inc_error_with_state BMC_PROXY_ERRORS_MUTEX_RELEASE_FAILED p1\<rparr>)
        else (ERROR, None, s\<lparr>world := x1,
                pxThis := bmc_inc_error_with_state BMC_PROXY_ERRORS_MUTEX_TAKE_FAILED p\<rparr>)
      else (ERROR, None, s\<lparr>pxThis := bmc_inc_error BMC_PROXY_ERRORS_VALIDATION_FAILED p\<rparr>))"

section \<open>Reception\<close>

definition BMC_PAYLOAD_SIZE_LOCATION :: nat where "BMC_PAYLOAD_SIZE_LOCATION = 1"
definition BMC_PAYLOAD_LOCATION :: nat where "BMC_PAYLOAD_LOCATION = 2"

definition release_bmc_mutex ::
  "('cb, 'x) bmc_env \<Rightarrow> ('cb, 'x) bmc_state \<Rightarrow> ('cb, 'x) bmc_state" where
  "release_bmc_mutex env s =
     (let (ok, x') = mutexRelease env (world s) in
      s\<lparr>world := x', pxThis := (if ok then bmc_inc_stat BMC_PROXY_STATS_RELEASE_MUTEX (pxThis s)
         else bmc_inc_error BMC_PROXY_ERRORS_MUTEX_RELEASE_FAILED (pxThis s))\<rparr>)"

text \<open>The message goes to the request buffer after two bytes, the second its size.\<close>

definition receive_message ::
  "('cb, 'x) bmc_env \<Rightarrow> ('cb, 'x) bmc_state \<Rightarrow> ('cb, 'x) bmc_state option" where
  "receive_message env s = do {
     let n = ulRxDataSize (pxThis s);
     data \<leftarrow> rd_bytes (pucRxData (pxThis s)) 0 (unat n);
     req \<leftarrow> wr_bytes 0 (0 # ucast n # data) (replicate MAX_BUFFER_SIZE 0);
     let s1 = s\<lparr>ReqBuffer := req, RespBuffer := replicate MAX_BUFFER_SIZE 0\<rparr>;
     (if 0 < sint n then process_pmci_request env (sint n + int BMC_PAYLOAD_LOCATION) s1
      else Some s1) }"

definition vProcessRxMessage ::
  "('cb, 'x) bmc_env \<Rightarrow> ('cb, 'x) bmc_state \<Rightarrow> ('cb, 'x) bmc_state option" where
  "vProcessRxMessage env s =
     (if bmc_ready (pxThis s)
      then let (taken, x1) = mutexTake env (world s) in do {
        s3 \<leftarrow> (if taken
          then do {
            let p1 = bmc_inc_stat BMC_PROXY_STATS_TAKE_MUTEX (pxThis s);
            (st, d2, p2, x2) \<leftarrow> iEVL_RaiseEvent (bmcOs env) (bmcCall env) (pxEvlRecord s)
               (Some (bmc_signal BMC_PROXY_DRIVER_E_MSG_ARRIVAL p1)) (evlData s) (p1, x1);
            let s1 = s\<lparr>evlData := d2, pxThis := p2, world := x2\<rparr>;
            s2 \<leftarrow> (if st = ERROR
              then Some (s1\<lparr>pxThis := bmc_inc_error BMC_PROXY_RAISE_EVENT_FAIL (pxThis s1)\<rparr>)
              else receive_message env s1);
            Some (release_bmc_mutex env s2) }
          else Some (s\<lparr>world := x1,
                 pxThis := bmc_inc_error BMC_PROXY_ERRORS_MUTEX_TAKE_FAILED (pxThis s)\<rparr>));
        Some (s3\<lparr>pxThis := (pxThis s3)\<lparr>ucProcessRxData := False\<rparr>\<rparr>) }
      else Some s)"

section \<open>Task\<close>

definition reset_request :: "BMC_PRIVATE_DATA \<Rightarrow> BMC_PRIVATE_DATA" where
  "reset_request p = p\<lparr>ucAwaitingSensorData := False, usRequestedSensorId := 0,
     ucRequestedSensorOperationalState := 0, ucRequestedSensorEventMessageEnable := 0,
     ucSetNumericSensorEnableResponse := 0, ucGetNumericSensorResponse := 0,
     ucGetNumericSensorState := 0, ssSensorInfo := 0, ucProcessRxData := True\<rparr>"

text \<open>One pass of the loop; the firmware interface fills the receive buffer.\<close>

definition proxy_task_pass ::
  "('cb, 'x) bmc_env \<Rightarrow> ('cb, 'x) bmc_state \<Rightarrow> ('cb, 'x) bmc_state option" where
  "proxy_task_pass env s = do {
     let start = uptimeMs env (world s);
     let (ok, data, n, x1) = fwIfRead env 0 (pucRxData (pxThis s)) (ulRxDataSize (pxThis s)) (world s);
     let s1 = s\<lparr>world := x1, pxThis := (pxThis s)\<lparr>pucRxData := data, ulRxDataSize := n\<rparr>\<rparr>;
     let s2 = (if \<not> ok
       then s1\<lparr>pxThis := bmc_inc_error_with_state BMC_PROXY_ERRORS_FW_IF_READ_FAILED (pxThis s1)\<rparr>
       else let (taken, x2) = mutexTake env (world s1) in
         if taken
         then release_bmc_mutex env (s1\<lparr>world := x2,
                pxThis := reset_request (bmc_inc_stat BMC_PROXY_STATS_TAKE_MUTEX (pxThis s1))\<rparr>)
         else s1\<lparr>world := x2,
                pxThis := bmc_inc_error BMC_PROXY_ERRORS_MUTEX_TAKE_FAILED (pxThis s1)\<rparr>);
     s3 \<leftarrow> (if ucProcessRxData (pxThis s2) then vProcessRxMessage env s2 else Some s2);
     Some (s3\<lparr>pxThis := (pxThis s3)\<lparr>bmcStats := (bmcStats (pxThis s3))
       (BMC_PROXY_STATS_TASK_TIME_MS := uptimeMs env (world s3) - start)\<rparr>\<rparr>) }"

text \<open>The loop does not end: \<open>n\<close> passes of it.\<close>

fun vProxyDriverTask ::
  "('cb, 'x) bmc_env \<Rightarrow> nat \<Rightarrow> ('cb, 'x) bmc_state \<Rightarrow> ('cb, 'x) bmc_state option" where
  "vProxyDriverTask env 0 s = Some s"
| "vProxyDriverTask env (Suc n) s = do { s' \<leftarrow> proxy_task_pass env s; vProxyDriverTask env n s' }"

end
