(* ===== verification/PldmProperties.thy ===== *)
theory PldmProperties
  imports PldmTransfer BmcDriver
begin

text \<open>
  What the PLDM commands promise to the management controller: the terminus identifier, the
  sensors, the version check sum, the support bitmaps and the consistency of the repository.
\<close>

section \<open>Terminus identifier\<close>

lemma rd16_bytes: "rd16 b i = Some v \<Longrightarrow> i + 2 \<le> length b"
  by (auto simp: rd16_def rd_bytes_def split: if_splits)

lemma update_tid_eq:
  assumes r: "pdr_ready env 0 rec s" and len: "14 \<le> length rec" and cn: "rd16 rec 6 = Some cn"
  shows "update_tid tid s = Some (s\<lparr>MSP432_PDR_Repository := (MSP432_PDR_Repository s)\<lparr>
     PDRRecords := (PDRRecords (MSP432_PDR_Repository s))
       [0 := take 6 rec @ le16 (cn + 1) @ drop 8 (rec[13 := tid])],
     updateTimestamp := vUpdateTimestamp, repositoryState := ERepoStateAvailable\<rparr>\<rparr>)"
proof -
  have "rd16 (rec[13 := tid]) 6 = Some cn"
    using cn len by (auto simp: rd16_def rd_bytes_def drop_update_swap take_update_swap list_update_beyond split: if_splits)
  then show ?thesis
    using r len
    by (simp add: update_tid_def vPdrRepoInit_def pdr_ready_def PLDM_TERMINUS_HANDLE_def wr_bytes_def
        Let_def)
qed

text \<open>
  Setting the terminus identifier takes effect everywhere. After SetTID the identifier is
  what GetTID answers and what the terminus record of the repository says; the change number
  of that record has advanced, so that a transfer of it that was in progress is refused at
  its next part instead of mixing the two contents.
\<close>

theorem set_tid_visible:
  assumes r: "pdr_ready env 0 rec s" and len: "14 \<le> length rec" and cn: "rd16 rec 6 = Some cn"
    and buf: "2 \<le> length buf"
    and pend: "pendingInitialized (GetPDRPendingXfers s ! 0) = PENDING_XFER_INIT_KEY"
  shows "\<exists>s' rec'. pldm_cmd_SetTID [tid] buf s = Some (1, buf[0 := RESP_PLDM_SUCCESS], s') \<and>
    pldm_cmd_GetTID buf s' = Some (2, [RESP_PLDM_SUCCESS, tid] @ drop 2 buf, s') \<and>
    pdr_ready env 0 rec' s' \<and> rd8 rec' 13 = Some tid \<and> rd16 rec' 6 = Some (cn + 1) \<and>
    pldm_cmd_GetPDR env (pdr_request 0 (pending_address (pdrXfersAddr env) 0) EGetNextPart rc cn) buf s' =
      Some (1, buf[0 := RESP_INVALID_RECORD_CHANGE_NUMBER], s')"
proof -
  have ne: "buf \<noteq> []" using buf by auto
  define s0 where "s0 = s\<lparr>TID := tid\<rparr>"
  have r0: "pdr_ready env 0 rec s0" using r by (simp add: s0_def pdr_ready_def)
  define rec' where "rec' = take 6 rec @ le16 (cn + 1) @ drop 8 (rec[13 := tid])"
  define s' where "s' = s0\<lparr>MSP432_PDR_Repository := (MSP432_PDR_Repository s0)\<lparr>
     PDRRecords := (PDRRecords (MSP432_PDR_Repository s0))[0 := rec'],
     updateTimestamp := vUpdateTimestamp, repositoryState := ERepoStateAvailable\<rparr>\<rparr>"
  have "update_tid tid s0 = Some s'"
    unfolding s'_def rec'_def by (rule update_tid_eq[OF r0 len cn])
  then have set: "pldm_cmd_SetTID [tid] buf s = Some (1, buf[0 := RESP_PLDM_SUCCESS], s')"
    using ne by (simp add: pldm_cmd_SetTID_def s0_def[symmetric])
  have get: "pldm_cmd_GetTID buf s' = Some (2, [RESP_PLDM_SUCCESS, tid] @ drop 2 buf, s')"
    using buf by (simp add: pldm_cmd_GetTID_def s'_def s0_def numeral_2_eq_2)
  have ready: "pdr_ready env 0 rec' s'" using r0 by (simp add: pdr_ready_def s'_def)
  have t: "rd8 rec' 13 = Some tid" using len by (simp add: rec'_def rd8_def nth_append)
  have c: "rd16 rec' 6 = Some (cn + 1)" using len by (simp add: rec'_def rd16_def)
  have p: "table_placed (pdrXfersAddr env) (length (GetPDRPendingXfers s'))"
    "0 < length (GetPDRPendingXfers s')" "pendingInitialized (GetPDRPendingXfers s' ! 0) = PENDING_XFER_INIT_KEY"
    using ready pend by (simp_all add: pdr_ready_def s'_def s0_def)
  note h = pending_handle[OF p(1,2)]
  have neq: "cn \<noteq> cn + 1" by simp
  have "pldm_cmd_GetPDR env (pdr_request 0 (pending_address (pdrXfersAddr env) 0) EGetNextPart rc cn) buf s' =
      Some (1, buf[0 := RESP_INVALID_RECORD_CHANGE_NUMBER], s')"
    using ready h p c ne
    by (auto simp: pldm_cmd_GetPDR_def pdr_ready_def getPDRRepository_def vPdrRepoInit_def Let_def
        error_reply_def)
  then show ?thesis using set get ready t c by blast
qed

lemma set_tid_visible_witness:
  "\<exists>s' rec'. pldm_cmd_SetTID [9] [0, 0]
       (set_pending 0 \<lparr>pendingInitialized = 0x93, next_start = 16\<rparr> sample_pdr_state) = Some (1, [0, 0], s') \<and>
     pldm_cmd_GetTID [0, 0] s' = Some (2, [0, 9], s') \<and> pdr_ready sample_env 0 rec' s' \<and>
     rd16 rec' 6 = Some 8"
proof -
  let ?s = "set_pending 0 \<lparr>pendingInitialized = 0x93, next_start = 16\<rparr> sample_pdr_state"
  have r: "pdr_ready sample_env 0 sample_record ?s" using sample_pdr(1) by simp
  have "pendingInitialized (GetPDRPendingXfers ?s ! 0) = PENDING_XFER_INIT_KEY"
    by (simp add: PENDING_XFER_INIT_KEY_def set_pending_def sample_pdr_state_def bmc_initial_def)
  from set_tid_visible[OF r _ sample_pdr(3) _ this, of "[0, 0]" 9 16]
  show ?thesis by (auto simp: sample_pdr RESP_PLDM_SUCCESS_def)
qed

section \<open>Sensors\<close>

text \<open>
  An application that answers a request for the requested sensor with the value and the
  operational state \<open>reading\<close> gives for it, and a callback that does nothing.
\<close>

definition sensor_app ::
  "('cb \<Rightarrow> EVL_SIGNAL \<Rightarrow> BMC_PRIVATE_DATA \<times> 'x \<Rightarrow> int \<times> BMC_PRIVATE_DATA \<times> 'x)
   \<Rightarrow> (u16 \<Rightarrow> u16 \<times> u8) \<Rightarrow> 'cb \<Rightarrow> bool" where
  "sensor_app call reading cb \<longleftrightarrow> (\<forall>sig p x.
     ucEventType sig = bmc_event_value BMC_PROXY_DRIVER_E_GET_SENSOR_INFO \<longrightarrow>
     call cb sig (p, x) = (OK, snd (iBMC_SendResponseForGetSensor (usRequestedSensorId p)
        (fst (reading (usRequestedSensorId p))) (snd (reading (usRequestedSensorId p)))
        BMC_GET_SENSOR_RESP_OK p), x))"

definition inert :: "('cb \<Rightarrow> EVL_SIGNAL \<Rightarrow> 'w \<Rightarrow> int \<times> 'w) \<Rightarrow> 'cb \<Rightarrow> bool" where
  "inert call cb \<longleftrightarrow> (\<forall>sig w. snd (call cb sig w) = w)"

lemma fold_inert: "list_all (inert call) cbs \<Longrightarrow> fold (\<lambda>cb u. snd (call cb sig u)) cbs w = w"
  by (induction cbs) (auto simp: inert_def)

lemma ready_update [simp]:
  "bmc_ready (p\<lparr>usRequestedSensorId := i\<rparr>) = bmc_ready p"
  "bmc_ready (p\<lparr>ucAwaitingSensorData := b\<rparr>) = bmc_ready p"
  "iCheckSensorValid i (p\<lparr>usRequestedSensorId := j\<rparr>) = iCheckSensorValid i p"
  by (auto simp: bmc_ready_def iCheckSensorValid_def sensor_numbers has_sensor_def)

lemma sensor_reading_answered:
  assumes p: "bmc_ready (pxThis s)" "iCheckSensorValid ident (pxThis s) = OK"
    and evl: "evl_inv (evlData s)" "evlIsInitialised (evlData s)"
    and os: "osal_ok (bmcOs env)" "osal_transparent (bmcOs env)"
    and rec: "pxEvlRecord s = Some r" "evlBindings r = pre @ cb # post"
    and app: "sensor_app (bmcCall env) reading cb" "list_all (inert (bmcCall env)) (pre @ post)"
  shows "\<exists>s'. iGetNumericSensorReading env ident s =
    Some (OK, Some RESP_PLDM_SUCCESS, Some (snd (reading ident)), Some (fst (reading ident)), s')"
proof -
  let ?p = "(pxThis s)\<lparr>usRequestedSensorId := ident, ucAwaitingSensorData := True\<rparr>"
  let ?sig = "bmc_signal BMC_PROXY_DRIVER_E_GET_SENSOR_INFO ?p"
  have ev: "ucEventType ?sig = bmc_event_value BMC_PROXY_DRIVER_E_GET_SENSOR_INFO"
    by (simp add: bmc_signal_def)
  have call: "fold (\<lambda>cb u. snd (bmcCall env cb ?sig u)) (evlBindings r) (?p, world s) =
      (snd (iBMC_SendResponseForGetSensor ident (fst (reading ident)) (snd (reading ident))
         BMC_GET_SENSOR_RESP_OK ?p), world s)"
    using app fold_inert[of "bmcCall env" pre ?sig] fold_inert[of "bmcCall env" post ?sig] ev
    by (simp add: rec sensor_app_def)
  from raise_event_ok[OF evl os, of "bmcCall env" r ?sig "(?p, world s)"] obtain d' where
    "iEVL_RaiseEvent (bmcOs env) (bmcCall env) (Some r) (Some ?sig) (evlData s) (?p, world s) =
      Some (OK, d', fold (\<lambda>cb u. snd (bmcCall env cb ?sig u)) (evlBindings r) (?p, world s))" by blast
  then show ?thesis
    using p rec call
    by (simp add: iGetNumericSensorReading_def iRaiseBmcEvent_def Let_def
        iBMC_SendResponseForGetSensor_def)
qed

text \<open>
  A sensor can be read end to end. When an application bound to the proxy answers
  requests and the other callbacks do nothing, a GetSensorReading request for a sensor of the
  tables is answered with success, the state of the application and, for an enabled sensor,
  the value of the application in two bytes, little endian; for a sensor in another state the
  reading is 0 and the event states are unknown.
\<close>

theorem get_sensor_reading_answers:
  assumes p: "bmc_ready (pxThis s)" "iCheckSensorValid ident (pxThis s) = OK"
    and evl: "evl_inv (evlData s)" "evlIsInitialised (evlData s)"
    and os: "osal_ok (bmcOs env)" "osal_transparent (bmcOs env)"
    and rec: "pxEvlRecord s = Some r" "evlBindings r = pre @ cb # post"
    and app: "sensor_app (bmcCall env) reading cb" "list_all (inert (bmcCall env)) (pre @ post)"
    and buf: "9 \<le> length buf"
  shows "\<exists>s'. pldm_cmd_GetSensorReading env (le16 ident @ [0]) buf s =
    Some (9, (if snd (reading ident) = 0 then [0, 3, 0, 0, 1, 0, 1] @ le16 (fst (reading ident))
              else [0, 3, snd (reading ident), 0, 0, 0, 0, 0, 0]) @ drop 9 buf, s')"
proof -
  from sensor_reading_answered[OF p evl os rec app] obtain s' where
    "iGetNumericSensorReading env ident s =
      Some (OK, Some RESP_PLDM_SUCCESS, Some (snd (reading ident)), Some (fst (reading ident)), s')" ..
  moreover have "rd16 (le16 ident @ [0]) 0 = Some ident" "rd8 (le16 ident @ [0]) 2 = Some 0"
    by (simp_all add: rd16_def nth_append)
  moreover have "le16 0 = [0, 0]" by (simp add: le16_def)
  ultimately show ?thesis
    using buf
    by (simp add: pldm_cmd_GetSensorReading_def pldm_codes EDataTypeSInt16_def
        eSensorNoEventGeneration_def sensor_state_Unknown_def sensor_state_Normal_def)
qed

definition sample_call :: "nat \<Rightarrow> EVL_SIGNAL \<Rightarrow> BMC_PRIVATE_DATA \<times> 'x \<Rightarrow> int \<times> BMC_PRIVATE_DATA \<times> 'x" where
  "sample_call cb sig w = (if cb = 1
     then (OK, snd (iBMC_SendResponseForGetSensor (usRequestedSensorId (fst w)) 0x1234 0
                      BMC_GET_SENSOR_RESP_OK (fst w)), snd w)
     else (OK, w))"

definition sample_sensor_state :: "(nat, unit) bmc_state" where
  "sample_sensor_state = (bmc_initial ())\<lparr>evlData := sample_evl,
     pxEvlRecord := Some \<lparr>evlBindings = [0, 1], iNumBindings = 2\<rparr>,
     pxThis := bmc_local_data\<lparr>bmcInitialised := True,
       pxPdrVoltageSensors := [replicate 12 0 @ le16 3 @ replicate 67 0]\<rparr>\<rparr>"

lemma get_sensor_reading_answers_witness:
  "\<exists>s'. pldm_cmd_GetSensorReading (sample_env\<lparr>bmcCall := sample_call\<rparr>) [3, 0, 0] (replicate 9 0)
      sample_sensor_state = Some (9, [0, 3, 0, 0, 1, 0, 1, 0x34, 0x12], s')"
proof -
  have "iCheckSensorValid 3 (pxThis sample_sensor_state) = OK"
    by (simp add: iCheckSensorValid_def sample_sensor_state_def bmc_initial_def bmc_local_data_def
        bmc_ready_def sensor_numbers has_sensor_def rd16_def)
  moreover have "sensor_app (sample_call :: nat \<Rightarrow> EVL_SIGNAL \<Rightarrow> BMC_PRIVATE_DATA \<times> unit \<Rightarrow> _)
      (\<lambda>_. (0x1234, 0)) 1" "list_all (inert (sample_call :: nat \<Rightarrow> EVL_SIGNAL \<Rightarrow> BMC_PRIVATE_DATA \<times> unit \<Rightarrow> _)) [0]"
    by (simp_all add: sensor_app_def inert_def sample_call_def)
  moreover have "bmc_ready (pxThis sample_sensor_state)" "evlData sample_sensor_state = sample_evl"
    "pxEvlRecord sample_sensor_state = Some \<lparr>evlBindings = [0] @ 1 # [], iNumBindings = 2\<rparr>"
    by (simp_all add: sample_sensor_state_def bmc_initial_def bmc_local_data_def bmc_ready_def)
  moreover have "le16 3 = [3, 0]" "le16 0x1234 = [0x34, 0x12]" by (simp_all add: le16_def)
  ultimately show ?thesis
    using get_sensor_reading_answers[of sample_sensor_state 3 "sample_env\<lparr>bmcCall := sample_call\<rparr>"
        "\<lparr>evlBindings = [0] @ 1 # [], iNumBindings = 2\<rparr>" "[0]" 1 "[]" "\<lambda>_. (0x1234, 0)" "replicate 9 0"]
      sample_evl_ok sample_osal_ok
    by (simp add: sample_env_def)
qed

section \<open>Versions and supported commands\<close>

lemma supported_types: "IsPldmTypeSupported ty \<longleftrightarrow> ty = 0 \<or> ty = 2"
proof
  assume a: "IsPldmTypeSupported ty"
  then have "unat ty < 6" "pldm_type_cmd ! unat ty \<noteq> []"
    by (auto simp: IsPldmTypeSupported_def CHECK_RANGE_def MAX_PLDM_TYPE_def split: if_splits)
  then have "unat ty = 0 \<or> unat ty = 2"
    by (auto simp: pldm_type_cmd_def numeral_eq_Suc less_Suc_eq)
  then show "ty = 0 \<or> ty = 2" by (auto simp: word_unat_eq_iff)
qed (auto simp: IsPldmTypeSupported_def CHECK_RANGE_def MAX_PLDM_TYPE_def pldm_type_cmd_def)

definition type_list :: "u8 \<Rightarrow> Pldm_command_list" where
  "type_list ty = (if ty = 0 then type0_cmd_list else type2_cmd_list)"

lemma type_cmd: "IsPldmTypeSupported ty \<Longrightarrow> pldm_type_cmd ! unat ty = [type_list ty]"
  by (auto simp: supported_types pldm_type_cmd_def type_list_def)

definition version_of :: "u8 \<Rightarrow> u8 list" where "version_of ty = Pldm_Versions ! version_id (type_list ty)"

lemma version_of: "version_of ty = (if ty = 0 then [0x00, 0xF0, 0xF1, 0xF1] else [0x00, 0xF2, 0xF2, 0xF1])"
  by (simp add: version_of_def type_list_def type0_cmd_list_def type2_cmd_list_def Pldm_Versions_def)

lemma version_of_length [simp]: "length (version_of ty) = 4"
  by (simp add: version_of)

lemma version_support:
  assumes "IsPldmTypeSupported ty" "4 \<le> length ver"
  shows "getPldmVersionSupport ty ver 0 8 = Some (4, version_of ty @ drop 4 ver, False)"
  using assms
  by (simp add: getPldmVersionSupport_def type_cmd version_of_def[symmetric] Let_def numeral_eq_Suc)

text \<open>
  The version answer is verifiable. A request for the first part of the versions of a
  supported type is answered with the one version of that type, as start and end of the
  transfer, followed by the bit-serial CRC-32 of the version bytes; for another type only the
  completion code of an invalid type is answered and nothing changes.
\<close>

theorem get_version_reply:
  assumes buf: "14 \<le> length buf" and tab: "length (GetVersionPendingXfers s) = 64"
  shows "\<exists>s'. pldm_cmd_GetPLDMVersion env (le_bytes h @ [EGetFirstPart, ty]) buf s =
    (if ty = 0 \<or> ty = 2
     then Some (14, [0, 0, 0, 0, 0, 5] @ version_of ty @ le_bytes (crc32_spec (version_of ty)) @ drop 14 buf, s')
     else Some (1, buf[0 := RESP_INVALID_PLDM_TYPE_IN_REQUEST], s))"
proof (cases "IsPldmTypeSupported ty")
  case True
  then have ty: "ty = 0 \<or> ty = 2" "unat ty < 64" by (auto simp: supported_types)
  have v: "getPldmVersionSupport ty (drop 6 buf) 0 8 = Some (4, version_of ty @ drop 10 buf, False)"
    using version_support[OF True, of "drop 6 buf"] buf by simp
  have key: "PENDING_XFER_INIT_KEY \<noteq> 0" by (simp add: PENDING_XFER_INIT_KEY_def)
  have z: "le_bytes 0 = [0, 0, 0, 0]" by (simp add: le_bytes_def)
  have "rd8 (le_bytes h @ [EGetFirstPart, ty]) 5 = Some ty"
    "rd8 (le_bytes h @ [EGetFirstPart, ty]) 4 = Some EGetFirstPart" by (simp_all add: nth_append)
  then have "pldm_cmd_GetPLDMVersion env (le_bytes h @ [EGetFirstPart, ty]) buf s =
      version_reply env ty (unat ty) 0 buf
        (s\<lparr>GetVersionPendingXfers :=
          (GetVersionPendingXfers s)[unat ty := \<lparr>pendingInitialized = 0, next_start = 0\<rparr>]\<rparr>)"
    using True ty tab by (simp add: pldm_cmd_GetPLDMVersion_def EGetFirstPart_def EGetNextPart_def)
  moreover have "rd_bytes (version_of ty @ drop 10 buf) 0 4 = Some (version_of ty)" by simp
  ultimately show ?thesis
    using True ty tab v key buf
    by (simp add: version_reply_def max_version_to_get_def Let_def crc32_table_ok z
        RESP_PLDM_SUCCESS_def version_EStartAndEnd_def)
next
  case False
  moreover have "buf \<noteq> []" using buf by auto
  ultimately show ?thesis
    by (auto simp: pldm_cmd_GetPLDMVersion_def supported_types nth_append error_reply_def)
qed

lemma get_version_reply_witness:
  "\<exists>s'. pldm_cmd_GetPLDMVersion sample_env [0, 0, 0, 0, 1, 2] (replicate 14 0) (bmc_initial ()) =
     Some (14, [0, 0, 0, 0, 0, 5, 0x00, 0xF2, 0xF2, 0xF1] @
       le_bytes (crc32_spec [0x00, 0xF2, 0xF2, 0xF1]), s' :: (unit, unit) bmc_state)"
  using get_version_reply[of "replicate 14 0" "bmc_initial () :: (unit, unit) bmc_state" sample_env 0 2]
  by (simp add: bmc_initial_def le_bytes_def EGetFirstPart_def version_of del: le_bytes_def)
    (simp add: le_bytes_def)

text \<open>The loops of the initialisation set exactly the bits asked for.\<close>

lemma bit_or_pow2: "i < 8 \<Longrightarrow> bit (b OR 2 ^ i :: u8) j \<longleftrightarrow> bit b j \<or> j = i"
  by (auto simp: bit_or_iff bit_exp_iff)

lemma set_bits_spec:
  assumes "n \<le> 8 * length bm"
  shows "\<exists>bm'. set_bits P n bm = Some bm' \<and> length bm' = length bm \<and>
    (\<forall>c < 8 * length bm. bit (bm' ! (c div 8)) (c mod 8) \<longleftrightarrow>
       bit (bm ! (c div 8)) (c mod 8) \<or> c < n \<and> P c)"
  using assms
proof (induction n)
  case (Suc n)
  then obtain b where b: "set_bits P n bm = Some b" "length b = length bm"
    "\<forall>c < 8 * length bm. bit (b ! (c div 8)) (c mod 8) \<longleftrightarrow>
       bit (bm ! (c div 8)) (c mod 8) \<or> c < n \<and> P c" by auto
  have d: "n div 8 < length bm" using Suc.prems by linarith
  show ?case
  proof (cases "P n")
    case True
    let ?b = "b[n div 8 := b ! (n div 8) OR 2 ^ (n mod 8)]"
    have "bit (?b ! (c div 8)) (c mod 8) \<longleftrightarrow> bit (bm ! (c div 8)) (c mod 8) \<or> c < Suc n \<and> P c"
      if c: "c < 8 * length bm" for c
    proof (cases "c div 8 = n div 8")
      case eq: True
      have "c mod 8 = n mod 8 \<longleftrightarrow> c = n" using eq by (metis div_mult_mod_eq)
      then show ?thesis
        using b c d eq True by (auto simp: bit_or_pow2 nth_list_update less_Suc_eq)
    next
      case ne: False
      then have "c \<noteq> n" by auto
      then show ?thesis using b c ne by (auto simp: less_Suc_eq)
    qed
    then show ?thesis using b d True by simp
  next
    case False
    then show ?thesis using b by (auto simp: less_Suc_eq)
  qed
qed simp

lemma repo_init_frame:
  assumes "vPdrRepoInit s = Some s1"
  shows "Pldm_Type_Supported s1 = Pldm_Type_Supported s"
    "Type0_Command_Supported s1 = Type0_Command_Supported s"
    "Type2_Command_Supported s1 = Type2_Command_Supported s" "PldmInitDone s1 = PldmInitDone s"
    "pxThis s1 = pxThis s" "world s1 = world s"
  using assms
  by (auto simp: vPdrRepoInit_def Let_def bind_eq_Some_conv split: if_splits list.splits)

lemma find_type_list:
  "find_function (unat cmd) [type_list ty] \<noteq> None \<longleftrightarrow>
     unat cmd < max_command_id (type_list ty) \<and> funcList (type_list ty) ! unat cmd \<noteq> None"
proof (cases "unat cmd = 0")
  case True
  then show ?thesis
    by (simp add: CHECK_RANGE_def type_list_def type0_cmd_list_def type2_cmd_list_def PldmType0_cmd_def
        PldmType2_cmd_def MAX_PLDM_2_COMMAND_def)
next
  case False
  then show ?thesis by (auto simp: CHECK_RANGE_def split: option.splits)
qed

lemma command_init_bitmaps:
  assumes n: "\<not> PldmInitDone s" and r: "vPdrRepoInit s = Some s1"
    and z: "Pldm_Type_Supported s = replicate 8 0" "Type0_Command_Supported s = replicate 32 0"
      "Type2_Command_Supported s = replicate 32 0"
  shows "\<exists>s2. pldm_command_init s = Some (0, s2) \<and> PldmInitDone s2 \<and>
    (\<forall>ty. IsPldmTypeSupported ty \<longrightarrow> length (command_bitmap (type_list ty) s2) = 32 \<and>
      (\<forall>c < 256. bit (command_bitmap (type_list ty) s2 ! (c div 8)) (c mod 8) \<longleftrightarrow>
        c < max_command_id (type_list ty) \<and> funcList (type_list ty) ! c \<noteq> None))"
proof -
  have z1: "Pldm_Type_Supported s1 = replicate 8 0" "Type0_Command_Supported s1 = replicate 32 0"
    "Type2_Command_Supported s1 = replicate 32 0" using repo_init_frame[OF r] z by simp_all
  let ?P0 = "\<lambda>c. funcList type0_cmd_list ! c \<noteq> None" and ?P2 = "\<lambda>c. funcList type2_cmd_list ! c \<noteq> None"
  let ?n0 = "max_command_id type0_cmd_list" and ?n2 = "max_command_id type2_cmd_list"
  have small: "MAX_PLDM_TYPE \<le> 8 * length (replicate 8 (0 :: u8))"
    "?n0 \<le> 8 * length (replicate 32 (0 :: u8))" "?n2 \<le> 8 * length (replicate 32 (0 :: u8))"
    by (simp_all add: MAX_PLDM_TYPE_def type0_cmd_list_def type2_cmd_list_def MAX_PLDM_0_COMMAND_def
        MAX_PLDM_2_COMMAND_def)
  from set_bits_spec[OF small(1), of "\<lambda>t. pldm_type_cmd ! t \<noteq> []"] obtain bt where
    bt: "set_bits (\<lambda>t. pldm_type_cmd ! t \<noteq> []) MAX_PLDM_TYPE (replicate 8 0) = Some bt" by auto
  from set_bits_spec[OF small(2), of ?P0] obtain b0 where
    b0: "set_bits ?P0 ?n0 (replicate 32 0) = Some b0" "length b0 = 32"
    "\<forall>c < 256. bit (b0 ! (c div 8)) (c mod 8) \<longleftrightarrow> c < ?n0 \<and> ?P0 c"
    by (auto simp: less_mult_imp_div_less)
  from set_bits_spec[OF small(3), of ?P2] obtain b2 where
    b2: "set_bits ?P2 ?n2 (replicate 32 0) = Some b2" "length b2 = 32"
    "\<forall>c < 256. bit (b2 ! (c div 8)) (c mod 8) \<longleftrightarrow> c < ?n2 \<and> ?P2 c"
    by (auto simp: less_mult_imp_div_less)
  have d: "type0_cmd_list \<noteq> type2_cmd_list" by (simp add: type0_cmd_list_def type2_cmd_list_def)
  show ?thesis
    using n r z1 bt b0 b2 d
    by (auto simp: pldm_command_init_def command_bitmap_def type_list_def supported_types)
qed

text \<open>
  The static bitmaps before the first initialisation, and states that agree on the flag and
  the bitmaps, which only \<open>pldm_command_init\<close> writes.
\<close>

definition support_initial :: "('cb, 'x) bmc_state \<Rightarrow> bool" where
  "support_initial s \<longleftrightarrow> \<not> PldmInitDone s \<and> Pldm_Type_Supported s = replicate 8 0 \<and>
     Type0_Command_Supported s = replicate 32 0 \<and> Type2_Command_Supported s = replicate 32 0"

definition same_support :: "('cb, 'x) bmc_state \<Rightarrow> ('cb, 'x) bmc_state \<Rightarrow> bool" where
  "same_support s t \<longleftrightarrow> PldmInitDone t = PldmInitDone s \<and>
     Pldm_Type_Supported t = Pldm_Type_Supported s \<and>
     Type0_Command_Supported t = Type0_Command_Supported s \<and>
     Type2_Command_Supported t = Type2_Command_Supported s"

lemma same_support_refl [simp]: "same_support s s"
  by (simp add: same_support_def)

lemma same_support_trans: "same_support s t \<Longrightarrow> same_support t u \<Longrightarrow> same_support s u"
  by (simp add: same_support_def)

lemma same_support_initial: "same_support s t \<Longrightarrow> support_initial s \<Longrightarrow> support_initial t"
  by (simp add: same_support_def support_initial_def)

definition bitmaps_exact :: "('cb, 'x) bmc_state \<Rightarrow> bool" where
  "bitmaps_exact s \<longleftrightarrow> PldmInitDone s \<and>
    (\<forall>ty. IsPldmTypeSupported ty \<longrightarrow> length (command_bitmap (type_list ty) s) = 32 \<and>
      (\<forall>c < 256. bit (command_bitmap (type_list ty) s ! (c div 8)) (c mod 8) \<longleftrightarrow>
        c < max_command_id (type_list ty) \<and> funcList (type_list ty) ! c \<noteq> None))"

lemma same_support_exact: "same_support s t \<Longrightarrow> bitmaps_exact s \<Longrightarrow> bitmaps_exact t"
proof -
  assume a: "same_support s t" "bitmaps_exact s"
  then have "command_bitmap l t = command_bitmap l s" for l
    by (simp add: same_support_def command_bitmap_def)
  then show ?thesis using a by (simp add: bitmaps_exact_def same_support_def del: not_None_eq)
qed

lemma command_init_exact:
  assumes "support_initial s" "pldm_command_init s = Some (c, s2)"
  shows "bitmaps_exact s2"
proof -
  obtain s1 where "vPdrRepoInit s = Some s1"
    using assms by (auto simp: pldm_command_init_def support_initial_def bind_eq_Some_conv)
  with command_init_bitmaps[of s s1] assms show ?thesis
    by (auto simp: support_initial_def bitmaps_exact_def)
qed

text \<open>The initialisation of the proxy touches the bitmaps only through \<open>pldm_command_init\<close>.\<close>

lemma allocate_support:
  "same_support s (snd (iAllocateNumericSensorPDR env recs local s))"
  "same_support s (snd (allocate_names env names s))"
  by (auto simp: iAllocateNumericSensorPDR_def allocate_names_def Let_def same_support_def
      split: option.splits prod.splits)

lemma if_ok_support:
  "same_support s (snd r) \<Longrightarrow> (\<And>u. same_support u (snd (f u))) \<Longrightarrow> same_support s (snd (if_ok f r))"
  by (auto simp: if_ok_def intro: same_support_trans)

lemma open_fw_if_exact:
  assumes "support_initial s" "open_fw_if env s = Some (OK, s')" "fst (fwIfOpen env (world s))"
  shows "bitmaps_exact s'"
proof -
  let ?s = "s\<lparr>world := snd (fwIfOpen env (world s)),
    pxThis := (pxThis s)\<lparr>bmcInitialised := True, xState := MODULE_STATE_OK\<rparr>\<rparr>"
  obtain c u where u: "pldm_command_init ?s = Some (c, u)" "same_support u s'"
    using assms(2,3)
    by (auto simp: open_fw_if_def bind_eq_Some_conv same_support_def Let_def split: prod.splits)
  have "support_initial ?s" using assms(1) by (simp add: support_initial_def)
  from same_support_exact[OF u(2) command_init_exact[OF this u(1)]] show ?thesis .
qed

lemma initialise_exact:
  assumes z: "support_initial s0" and o: "\<And>x. fst (fwIfOpen env x)"
    and init: "iBMC_Initialise env proxy fwIf temps volts currs powers names uuid s0 = Some (OK, s)"
  shows "bitmaps_exact s"
proof -
  let ?r = "\<lambda>ns ps cs vs ts u. if_ok (allocate_names env ns)
    (if_ok (iAllocateNumericSensorPDR env ps (\<lambda>t p. p\<lparr>pxPdrPowerSensors := t\<rparr>))
    (if_ok (iAllocateNumericSensorPDR env cs (\<lambda>t p. p\<lparr>pxPdrCurrentSensors := t\<rparr>))
    (if_ok (iAllocateNumericSensorPDR env vs (\<lambda>t p. p\<lparr>pxPdrVoltageSensors := t\<rparr>))
    (iAllocateNumericSensorPDR env ts (\<lambda>t p. p\<lparr>pxPdrTemperatureSensors := t\<rparr>) u))))"
  have fr: "same_support u (snd (?r ns ps cs vs ts u))" for ns ps cs vs ts u
    by (intro if_ok_support allocate_support)
  have fin: "open_fw_if env (snd (?r ns ps cs vs ts u)) = Some (OK, s) \<Longrightarrow> same_support s0 u \<Longrightarrow> bitmaps_exact s"
    for ns ps cs vs ts u
    by (rule open_fw_if_exact[OF same_support_initial[OF same_support_trans[OF _ fr] z] _ o])
  have fin': "?r ns ps cs vs ts u = (OK, s) \<Longrightarrow> open_fw_if env s = Some (OK, s) \<Longrightarrow> same_support s0 u \<Longrightarrow> bitmaps_exact s"
    for ns ps cs vs ts u
    using fin[of ns ps cs vs ts u] by simp
  show ?thesis
    using init
    by (auto simp: iBMC_Initialise_def Let_def bind_eq_Some_conv split: if_splits prod.splits)
      ((erule fin | erule fin', assumption), simp add: same_support_def)+
qed

text \<open>Once the bitmaps are exact, so is the answer, which changes nothing.\<close>

lemma command_answer_exact:
  assumes ex: "bitmaps_exact s" and ty: "IsPldmTypeSupported ty" and buf: "33 \<le> length buf"
  shows "\<exists>out. pldm_cmd_GetPLDMCommand (ty # version_of ty) buf s =
      Some (33, [RESP_PLDM_SUCCESS] @ out @ drop 33 buf, s) \<and> length out = 32 \<and>
    (\<forall>cmd :: u8. bit (out ! (unat cmd div 8)) (unat cmd mod 8) \<longleftrightarrow> snd (get_pldm_func ty cmd) \<noteq> None)"
proof -
  have n: "PldmInitDone s" and bm: "length (command_bitmap (type_list ty) s) = 32"
      "\<forall>c < 256. bit (command_bitmap (type_list ty) s ! (c div 8)) (c mod 8) \<longleftrightarrow>
        c < max_command_id (type_list ty) \<and> funcList (type_list ty) ! c \<noteq> None"
    using ex ty by (simp_all add: bitmaps_exact_def)
  let ?bm = "command_bitmap (type_list ty) s"
  have id: "get_pldm_version_id (version_of ty) = int (version_id (type_list ty))"
    by (simp add: get_pldm_version_id_def version_of Pldm_Versions_def type_list_def type0_cmd_list_def
        type2_cmd_list_def)
  have sup: "IsPldmVersionSupported ty (version_of ty)"
    using ty by (simp add: IsPldmVersionSupported_def id type_cmd)
  have rd: "rd_bytes (ty # version_of ty) 1 4 = Some (version_of ty)" "rd8 (ty # version_of ty) 0 = Some ty"
    by simp_all
  have "getPldmCmdSupport ty (version_of ty) (drop 1 buf) s = Some (32, ?bm @ drop 33 buf, s)"
    using n ty buf bm(1)
    by (simp add: getPldmCmdSupport_def id type_cmd POSSIBLE_MAX_PLDM_CMD_def)
  moreover have "buf \<noteq> []" using buf by auto
  then have "take 1 buf @ ?bm @ drop 33 buf = hd buf # ?bm @ drop 33 buf" by (cases buf) simp_all
  ultimately have "pldm_cmd_GetPLDMCommand (ty # version_of ty) buf s =
      Some (33, [RESP_PLDM_SUCCESS] @ ?bm @ drop 33 buf, s)"
    using ty sup rd by (simp add: pldm_cmd_GetPLDMCommand_def)
  moreover have "bit (?bm ! (unat cmd div 8)) (unat cmd mod 8) \<longleftrightarrow> snd (get_pldm_func ty cmd) \<noteq> None"
    for cmd :: u8
  proof -
    have "unat cmd < 256" using unsigned_less[where 'b = 8 and 'a = nat, of cmd] by simp
    then show ?thesis
      using bm(2) ty find_type_list[of cmd ty]
      by (auto simp: get_pldm_func_def type_cmd split: option.splits)
  qed
  ultimately show ?thesis using bm(1) by blast
qed

text \<open>
  C39: the advertised commands are the implemented ones. Let \<open>iBMC_Initialise\<close> succeed from
  the initial, empty bitmaps, its firmware interface opening. Then in the state it leaves,
  and in every later one with the same bitmaps, which nothing but \<open>pldm_command_init\<close>
  writes, the answer to GetPLDMCommand for a supported type
  and its version is 32 bytes in which the bit of a command is set exactly when the
  dispatcher has a function for that command. The answer leaves the state as it is, so
  every further one is the same.
\<close>

theorem command_support_exact:
  assumes z: "support_initial s0"
    and init: "iBMC_Initialise env proxy fwIf temps volts currs powers names uuid s0 = Some (OK, s)"
    and open_if: "\<And>x. fst (fwIfOpen env x)"
    and t: "same_support s t" and ty: "IsPldmTypeSupported ty" and buf: "33 \<le> length buf"
  shows "\<exists>out. pldm_cmd_GetPLDMCommand (ty # version_of ty) buf t =
      Some (33, [RESP_PLDM_SUCCESS] @ out @ drop 33 buf, t) \<and> length out = 32 \<and>
    (\<forall>cmd :: u8. bit (out ! (unat cmd div 8)) (unat cmd mod 8) \<longleftrightarrow> snd (get_pldm_func ty cmd) \<noteq> None)"
  using command_answer_exact[OF same_support_exact[OF t initialise_exact[OF z open_if init]] ty buf] .

definition sample_uninitialised :: "(unit, unit) bmc_state" where
  "sample_uninitialised = (bmc_initial ())\<lparr>evlData := sample_evl\<rparr>"

lemma sample_initialise:
  "\<exists>s. iBMC_Initialise sample_env 0 True (Some []) (Some []) (Some []) (Some []) (Some [])
      (Some (replicate 16 0)) sample_uninitialised = Some (OK, s)"
proof -
  have os: "osMemAlloc sample_osal w = (True, w)" "osMutexCreate sample_osal m w = (True, w)"
    for m and w :: "BMC_PRIVATE_DATA \<times> unit" by (simp_all add: sample_osal_def)
  have init: "\<exists>s2. pldm_command_init u = Some (0, s2)"
    if "support_initial u" "\<exists>s1. vPdrRepoInit u = Some s1" for u :: "(unit, unit) bmc_state"
    using that command_init_bitmaps[of u] unfolding support_initial_def by blast
  have "evlIsInitialised sample_evl" "evl_firewalls sample_evl"
    using sample_evl_ok by (simp_all add: evl_inv_def)
  moreover have run: "\<exists>s. (m \<bind> (\<lambda>(uu, s'). Some (OK, f s'))) = Some (OK, s)" if "\<exists>s2. m = Some (0, s2)"
    for m :: "(int \<times> (unit, unit) bmc_state) option" and f :: "(unit, unit) bmc_state \<Rightarrow> (unit, unit) bmc_state"
    using that by auto
  ultimately show ?thesis
    by (simp add: iBMC_Initialise_def sample_uninitialised_def bmc_initial_def bmc_local_data_def
      sample_env_def iEVL_CreateRecord_def os HAL_UUID_SIZE_def allocate_names_def
      iAllocateNumericSensorPDR_def if_ok_def open_fw_if_def Let_def)
      (rule run, rule init,
       simp_all add: support_initial_def vPdrRepoInit_def initial_repository_def initial_terminus_locator_def
         sensor_numbers bmc_ready_def add_terminus_record_def add_record_def set_pdr_header_def pdr_consts
         HAL_UUID_SIZE_def Let_def)
qed

lemma command_support_exact_witness:
  "\<exists>s out. iBMC_Initialise sample_env 0 True (Some []) (Some []) (Some []) (Some []) (Some [])
      (Some (replicate 16 0)) sample_uninitialised = Some (OK, s) \<and>
    pldm_cmd_GetPLDMCommand (0 # version_of 0) (replicate 33 0) s =
      Some (33, [RESP_PLDM_SUCCESS] @ out, s) \<and> bit (out ! 0) 3 \<and> \<not> bit (out ! 0) 6"
proof -
  obtain s where i: "iBMC_Initialise sample_env 0 True (Some []) (Some []) (Some []) (Some []) (Some [])
      (Some (replicate 16 0)) sample_uninitialised = Some (OK, s)"
    using sample_initialise by blast
  have z: "support_initial sample_uninitialised"
    by (simp add: support_initial_def sample_uninitialised_def bmc_initial_def)
  have ty: "IsPldmTypeSupported 0" by (simp add: supported_types)
  from command_support_exact[OF z i _ same_support_refl ty, of "replicate 33 0"] obtain out where
    o: "pldm_cmd_GetPLDMCommand (0 # version_of 0) (replicate 33 0) s = Some (33, [RESP_PLDM_SUCCESS] @ out, s)"
      "\<forall>cmd :: u8. bit (out ! (unat cmd div 8)) (unat cmd mod 8) \<longleftrightarrow> snd (get_pldm_func 0 cmd) \<noteq> None"
    by (auto simp: sample_env_def)
  have "snd (get_pldm_func 0 3) \<noteq> None" "snd (get_pldm_func 0 6) = None"
    by (simp_all add: get_pldm_func_def supported_types pldm_type_cmd_def type0_cmd_list_def CHECK_RANGE_def
        MAX_PLDM_0_COMMAND_def PldmType0_cmd_def)
  then show ?thesis using i o(1) spec[OF o(2), of 3] spec[OF o(2), of 6] by auto
qed

end
