(* ===== verification/PdrRepository.thy ===== *)
theory PdrRepository
  imports PldmTransfer
begin

text \<open>
  The repository the initialisation builds: numbered records of the expected types and
  sizes, whose sizes agree with the totals and fit their tables.
\<close>

definition repo_inv :: "PDR_RepositoryInfo \<Rightarrow> bool" where
  "repo_inv r \<longleftrightarrow> recordCount r = of_nat (length (PDRRecords r)) \<and>
     length (PDRRecords r) \<le> TOTAL_PDR_COUNT \<and>
     repositorySize r = of_nat (sum_list (map pdr_size_of (PDRRecords r))) \<and>
     unat (largestRecordSize r) = Max (insert 0 (set (map pdr_size_of (PDRRecords r)))) \<and>
     (\<forall>i < length (PDRRecords r). rd32 (PDRRecords r ! i) 0 = Some (of_nat i) \<and>
        short_record (PDRRecords r ! i))"

text \<open>The type and the size each record holds in its header, in the order of the records.\<close>

definition record_kinds :: "PDR_RepositoryInfo \<Rightarrow> (u8 \<times> nat) list" where
  "record_kinds r = map (\<lambda>rec. (rec ! 5, pdr_size_of rec)) (PDRRecords r)"

lemma length_record_kinds [simp]: "length (record_kinds r) = length (PDRRecords r)"
  by (simp add: record_kinds_def)

text \<open>
  What a name record needs: its fields, the characters before the terminator, the
  terminator. The name is at offset 22.
\<close>

definition name_chars :: "u8 list \<Rightarrow> nat" where
  "name_chars rec = length (takeWhile (\<lambda>i. rd16 (drop 22 rec) (2 * i) \<noteq> Some 0) [0..<32])"

definition name_record_size :: "u8 list \<Rightarrow> nat" where
  "name_record_size rec = 22 + 2 * name_chars rec + 2"

definition record_header :: "nat \<Rightarrow> u8 \<Rightarrow> nat \<Rightarrow> u8 list" where
  "record_header handle ty k = le_bytes (of_nat handle) @ [PDR_HEADER_VERSION, ty] @ le16 0
     @ le16 (of_nat (k - 10))"

lemma record_header:
  assumes "10 \<le> k" "k \<le> 255" "k \<le> length rec"
  shows "rd32 (record_header h ty k @ drop 10 rec) 0 = Some (of_nat h)"
    "pdr_size_of (record_header h ty k @ drop 10 rec) = k"
    "short_record (record_header h ty k @ drop 10 rec)"
    "(record_header h ty k @ drop 10 rec) ! 5 = ty"
proof -
  show "(record_header h ty k @ drop 10 rec) ! 5 = ty"
    by (simp add: record_header_def nth_append)
  show "rd32 (record_header h ty k @ drop 10 rec) 0 = Some (of_nat h)"
    by (simp add: record_header_def rd32_def)
  have "take 2 (drop 8 (record_header h ty k @ drop 10 rec)) = le16 (of_nat (k - 10))"
    by (simp add: record_header_def)
  moreover have "unat (of_nat (k - 10) :: u16) = k - 10"
    by (rule unat_of_nat_less) (use assms in simp)
  ultimately show sz: "pdr_size_of (record_header h ty k @ drop 10 rec) = k"
    using assms by (simp only: pdr_size_of_def of_le16_le16)
  show "short_record (record_header h ty k @ drop 10 rec)"
    using assms unfolding short_record_def sz by (simp add: record_header_def)
qed

lemma add_record_inv:
  assumes r: "repo_inv r" "length (PDRRecords r) < TOTAL_PDR_COUNT"
    and k: "10 \<le> k" "k \<le> 255" "k \<le> length rec"
  shows "\<exists>r'. add_record ty (of_nat k) rec r = Some r' \<and> repo_inv r' \<and>
    record_kinds r' = record_kinds r @ [(ty, k)] \<and> repositoryState r' = repositoryState r"
proof -
  let ?n = "length (PDRRecords r)"
  let ?rec = "record_header ?n ty k @ drop 10 rec"
  have c: "(ucast (of_nat k - of_nat 10 :: u32) :: u16) = of_nat (k - 10)"
  proof -
    have "of_nat k - of_nat 10 = (of_nat (k - 10) :: u32)" using k(1) by (simp only: of_nat_diff)
    then show ?thesis using k by (simp only:) (rule ucast_of_nat_small, simp)
  qed
  have h: "set_pdr_header (of_nat ?n) ty (of_nat k) rec = Some ?rec"
    using k c by (simp add: set_pdr_header_def record_header_def sizeof_CommonPDRFormat_def)
  have m: "unat (max (largestRecordSize r) (of_nat k)) = max (unat (largestRecordSize r)) k"
  proof -
    have "unat (of_nat k :: u32) = k" by (rule unat_of_nat_less) (use k in simp)
    then show ?thesis by (simp add: max_def word_le_nat_alt)
  qed
  note hd = record_header[OF k, of ?n ty]
  let ?r = "r\<lparr>PDRRecords := PDRRecords r @ [?rec], recordCount := recordCount r + 1,
      repositorySize := repositorySize r + of_nat k,
      largestRecordSize := max (largestRecordSize r) (of_nat k)\<rparr>"
  have "Max (insert 0 (set (map pdr_size_of (PDRRecords r @ [?rec]))))
      = max (Max (insert 0 (set (map pdr_size_of (PDRRecords r))))) k"
    (is "Max ?all = max (Max ?old) k")
  proof -
    have "?all = insert k ?old" using hd(2) by auto
    moreover have "Max (insert k ?old) = max k (Max ?old)" by (rule Max_insert) simp_all
    ultimately show ?thesis by (simp only: max.commute)
  qed
  then have "repo_inv ?r"
    using r hd m by (auto simp: repo_inv_def nth_append less_Suc_eq)
  moreover have "record_kinds ?r = record_kinds r @ [(ty, k)]" using hd by (simp add: record_kinds_def)
  ultimately show ?thesis using r(2) h by (simp add: add_record_def)
qed

lemma add_sensor_records_inv:
  "repo_inv r \<Longrightarrow> length (PDRRecords r) + length recs \<le> TOTAL_PDR_COUNT \<Longrightarrow>
   list_all (\<lambda>x. length x = 81) recs \<Longrightarrow>
   \<exists>r'. add_sensor_records recs r = Some r' \<and> repo_inv r' \<and>
     record_kinds r' = record_kinds r @ replicate (length recs) (EPDRTypeNumericSensor, 81) \<and>
     repositoryState r' = repositoryState r"
proof (induction recs arbitrary: r)
  case (Cons x recs)
  have "\<exists>r'. add_record EPDRTypeNumericSensor (of_nat 81) x r = Some r' \<and> repo_inv r' \<and>
    record_kinds r' = record_kinds r @ [(EPDRTypeNumericSensor, 81)] \<and> repositoryState r' = repositoryState r"
    by (rule add_record_inv) (use Cons.prems in simp_all)
  then obtain r1 where r1: "add_record EPDRTypeNumericSensor (of_nat 81) x r = Some r1" "repo_inv r1"
    "record_kinds r1 = record_kinds r @ [(EPDRTypeNumericSensor, 81)]"
    "repositoryState r1 = repositoryState r" by blast
  have "length (PDRRecords r1) = length (PDRRecords r) + 1"
    using arg_cong[OF r1(3), of length] by simp
  then show ?case
    using r1 Cons.IH[of r1] Cons.prems by (auto simp: sizeof_PLDM_NUMERIC_SENSOR_PDR_def)
qed simp

text \<open>The name of a record is at offset 22; it must end within its 32 characters.\<close>

definition name_ok :: "u8 list \<Rightarrow> bool" where
  "name_ok rec \<longleftrightarrow> length rec = 86 \<and> list_ex (\<lambda>i. rd16 (drop 22 rec) (2 * i) = Some 0) [0..<32]"

lemma name_length_found:
  assumes "length name = 64" "rd16 name (2 * k) = Some 0" "k < 32"
  shows "i \<le> k \<Longrightarrow> name_length name i =
      Some (i + length (takeWhile (\<lambda>j. rd16 name (2 * j) \<noteq> Some 0) [i..<32]))"
proof (induction "k - i" arbitrary: i)
  case 0
  then have i: "i = k" "[i..<32] = i # [i + 1..<32]" using assms(3) by (simp_all add: upt_conv_Cons)
  show ?case using assms unfolding i(2) by (subst name_length.simps) (simp add: i(1))
next
  case (Suc m)
  have u: "[i..<32] = i # [i + 1..<32]" using Suc assms(3) by (simp add: upt_conv_Cons)
  obtain c where c: "rd16 name (2 * i) = Some c"
    using Suc assms by (simp add: rd16_def rd_bytes_def)
  show ?case
  proof (cases "c = 0")
    case True
    then show ?thesis using c Suc.prems unfolding u by (subst name_length.simps) simp
  next
    case False
    then show ?thesis
      using c Suc.hyps(1)[of "i + 1"] Suc.hyps(2) Suc.prems assms(3) unfolding u
      by (subst name_length.simps) (simp add: MAX_NAME_SIZE_def)
  qed
qed

lemma takeWhile_stops: "x \<in> set xs \<Longrightarrow> \<not> P x \<Longrightarrow> length (takeWhile P xs) < length xs"
  by (induction xs) auto

lemma empty_space:
  assumes "name_ok rec"
  shows "\<exists>k name. sensor_name_empty_space (drop 22 rec) = Some (86 - of_nat k, name) \<and>
    length name = 64 \<and> k = name_record_size rec \<and> 24 \<le> k \<and> k \<le> 86"
proof -
  let ?name = "drop 22 rec"
  have len: "length ?name = 64" using assms by (simp add: name_ok_def)
  obtain j where j: "j < 32" "rd16 ?name (2 * j) = Some 0"
    using assms by (auto simp: name_ok_def list_ex_iff)
  let ?n = "name_chars rec"
  have n0: "name_length ?name 0 = Some ?n"
    using name_length_found[OF len j(2,1), of 0] by (simp add: name_chars_def)
  have "?n < length [0..<32::nat]" unfolding name_chars_def
    by (rule takeWhile_stops[of j]) (use j in auto)
  then obtain n where n: "name_length ?name 0 = Some n" "n \<le> 31" "n = ?n" using n0 by auto
  let ?k = "24 + 2 * n"
  have e: "2 * (of_nat 32 - of_nat (n + 1)) = (86 - of_nat ?k :: u32)"
    by (simp add: algebra_simps)
  show ?thesis
  proof (cases "n + 1 = 32")
    case True
    then have "wr_bytes 62 (le16 0) ?name = Some (take 62 ?name @ le16 0 @ drop 64 ?name)"
      using len by (simp add: wr_bytes_def)
    then have "sensor_name_empty_space ?name = Some (86 - of_nat ?k, take 62 ?name @ le16 0 @ drop 64 ?name)"
      using n True e by (simp add: sensor_name_empty_space_def MAX_NAME_SIZE_def)
    moreover have "length (take 62 ?name @ le16 0 @ drop 64 ?name) = 64" using len by simp
    ultimately show ?thesis using n by (intro exI[of _ ?k] exI) (auto simp: name_record_size_def)
  next
    case False
    then have "sensor_name_empty_space ?name = Some (86 - of_nat ?k, ?name)"
      using n e by (simp add: sensor_name_empty_space_def MAX_NAME_SIZE_def)
    then show ?thesis using n len by (intro exI[of _ ?k] exI) (auto simp: name_record_size_def)
  qed
qed

lemma add_name_records_inv:
  "repo_inv r \<Longrightarrow> length (PDRRecords r) + length recs \<le> TOTAL_PDR_COUNT \<Longrightarrow> list_all name_ok recs \<Longrightarrow>
   \<exists>r'. add_name_records recs r = Some r' \<and> repo_inv r' \<and>
     record_kinds r' = record_kinds r @ map (\<lambda>x. (EPDRTypeSensorAuxNames, name_record_size x)) recs \<and>
     repositoryState r' = repositoryState r"
proof (induction recs arbitrary: r)
  case (Cons x recs)
  have ok: "name_ok x" using Cons.prems by simp
  then have len: "length x = 86" by (simp add: name_ok_def)
  from empty_space[OF ok] obtain k name where
    k: "sensor_name_empty_space (drop 22 x) = Some (86 - of_nat k, name)" "length name = 64"
      "24 \<le> k" "k \<le> 86" "k = name_record_size x" by blast
  have sz: "of_nat sizeof_PLDM_NUMERIC_SENSOR_NAME_PDR - (86 - of_nat k) = (of_nat k :: u32)"
    by (simp add: sizeof_PLDM_NUMERIC_SENSOR_NAME_PDR_def)
  have "\<exists>r'. add_record EPDRTypeSensorAuxNames (of_nat k) (take 22 x @ name) r = Some r' \<and> repo_inv r' \<and>
    record_kinds r' = record_kinds r @ [(EPDRTypeSensorAuxNames, k)] \<and> repositoryState r' = repositoryState r"
    by (rule add_record_inv) (use Cons.prems k len in simp_all)
  then obtain r1 where
    r1: "add_record EPDRTypeSensorAuxNames (of_nat k) (take 22 x @ name) r = Some r1" "repo_inv r1"
      "record_kinds r1 = record_kinds r @ [(EPDRTypeSensorAuxNames, k)]"
      "repositoryState r1 = repositoryState r" by blast
  have "length (PDRRecords r1) = length (PDRRecords r) + 1"
    using arg_cong[OF r1(3), of length] by simp
  then show ?case
    using r1 Cons.IH[of r1] Cons.prems k sz by auto
qed simp

lemma add_terminus_inv:
  assumes "repo_inv r" "length (PDRRecords r) < TOTAL_PDR_COUNT" "length loc = 35" "16 \<le> length uuid"
  shows "\<exists>r'. add_terminus_record uuid loc r = Some r' \<and> repo_inv r' \<and>
    record_kinds r' = record_kinds r @ [(EPDRTypeTerminusLocator, 35)] \<and> repositoryState r' = repositoryState r"
proof -
  let ?loc = "take 19 loc @ take 16 uuid"
  have "\<exists>r'. add_record EPDRTypeTerminusLocator (of_nat 35) ?loc r = Some r' \<and> repo_inv r' \<and>
    record_kinds r' = record_kinds r @ [(EPDRTypeTerminusLocator, 35)] \<and> repositoryState r' = repositoryState r"
    by (rule add_record_inv) (use assms in simp_all)
  moreover have "wr_bytes 19 (take 16 uuid) loc = Some ?loc" "rd_bytes uuid 0 16 = Some (take 16 uuid)"
    using assms by (simp_all add: wr_bytes_def rd_bytes_def)
  ultimately show ?thesis
    by (simp add: add_terminus_record_def sizeof_TerminusPDRFormat_UID_def HAL_UUID_SIZE_def)
qed

definition tables_ok :: "('cb, 'x) bmc_state \<Rightarrow> bool" where
  "tables_ok s \<longleftrightarrow> (let p = pxThis s in
     length (xPdrTerminusLocator s) = 1 \<and> length (hd (xPdrTerminusLocator s)) = 35 \<and>
     16 \<le> length (pucUuid p) \<and>
     list_all (\<lambda>x. length x = 81) (pxPdrTemperatureSensors p @ pxPdrVoltageSensors p @
       pxPdrCurrentSensors p @ pxPdrPowerSensors p) \<and>
     list_all name_ok (pxPdrSensorNames p) \<and>
     length (pxPdrTemperatureSensors p @ pxPdrVoltageSensors p @ pxPdrCurrentSensors p @
       pxPdrPowerSensors p) + length (pxPdrSensorNames p) + 1 \<le> TOTAL_PDR_COUNT)"

text \<open>
  C38: the initialisation builds a consistent repository. For sensor tables of records of the
  right size whose names end within 32 characters, at most 76 records in all, it succeeds
  without an access outside a record. The records are, in this order, the terminus locator,
  one numeric sensor record per entry of the four tables and one name record per name, each
  with its type and its exact size in its header, a name record cut after the terminator of
  its name; record \<open>i\<close> has handle \<open>i\<close>; the count is the number of records, the total size is the
  sum of their sizes and the largest size is the maximum of them; each can be transferred.
\<close>

theorem repository_consistent:
  assumes t: "tables_ok s" and b: "bmc_ready (pxThis s)" and n: "\<not> iIsRepoInitialized s"
  shows "\<exists>s'. vPdrRepoInit s = Some s' \<and> iIsRepoInitialized s' \<and> repo_inv (MSP432_PDR_Repository s') \<and>
    repositoryState (MSP432_PDR_Repository s') = ERepoStateAvailable \<and>
    record_kinds (MSP432_PDR_Repository s') = (EPDRTypeTerminusLocator, 35) #
      replicate (length (pxPdrTemperatureSensors (pxThis s)) + length (pxPdrVoltageSensors (pxThis s)) +
        length (pxPdrCurrentSensors (pxThis s)) + length (pxPdrPowerSensors (pxThis s)))
        (EPDRTypeNumericSensor, 81) @
      map (\<lambda>x. (EPDRTypeSensorAuxNames, name_record_size x)) (pxPdrSensorNames (pxThis s))"
proof -
  let ?p = "pxThis s"
  obtain loc where loc: "xPdrTerminusLocator s = [loc]" "length loc = 35"
    using t by (auto simp: tables_ok_def Let_def length_Suc_conv)
  let ?t = "pxPdrTemperatureSensors ?p" and ?v = "pxPdrVoltageSensors ?p"
  let ?c = "pxPdrCurrentSensors ?p" and ?w = "pxPdrPowerSensors ?p" and ?names = "pxPdrSensorNames ?p"
  have len: "length ?t + length ?v + length ?c + length ?w + length ?names + 1 \<le> TOTAL_PDR_COUNT"
    and sens: "list_all (\<lambda>x. length x = 81) ?t" "list_all (\<lambda>x. length x = 81) ?v"
      "list_all (\<lambda>x. length x = 81) ?c" "list_all (\<lambda>x. length x = 81) ?w"
      "list_all name_ok ?names" "16 \<le> length (pucUuid ?p)"
    using t by (auto simp: tables_ok_def Let_def)
  define r0 where "r0 = (MSP432_PDR_Repository s)\<lparr>repositoryState := ERepoStateAvailable,
      recordCount := 0, repositorySize := 0, largestRecordSize := 0,
      dataTransferHandleTimeout := 0, updateTimestamp := vUpdateTimestamp,
      OEMUpdateTimestamp := vUpdateTimestamp, PDRRecords := []\<rparr>"
  have "repo_inv r0" "record_kinds r0 = []" "repositoryState r0 = ERepoStateAvailable"
    "length (PDRRecords r0) = 0"
    by (simp_all add: r0_def repo_inv_def record_kinds_def)
  then obtain r1 where r1: "add_terminus_record (pucUuid ?p) loc r0 = Some r1" "repo_inv r1"
    "record_kinds r1 = [(EPDRTypeTerminusLocator, 35)]" "repositoryState r1 = ERepoStateAvailable"
    using add_terminus_inv[of r0 loc "pucUuid ?p"] loc sens len by auto
  note l1 = arg_cong[OF r1(3), of length]
  obtain r2 where r2: "add_sensor_records ?t r1 = Some r2" "repo_inv r2"
    "record_kinds r2 = record_kinds r1 @ replicate (length ?t) (EPDRTypeNumericSensor, 81)"
    "repositoryState r2 = ERepoStateAvailable"
    using add_sensor_records_inv[of r1 ?t] r1(2,4) l1 sens len by auto
  note l2 = arg_cong[OF r2(3), of length]
  obtain r3 where r3: "add_sensor_records ?v r2 = Some r3" "repo_inv r3"
    "record_kinds r3 = record_kinds r2 @ replicate (length ?v) (EPDRTypeNumericSensor, 81)"
    "repositoryState r3 = ERepoStateAvailable"
    using add_sensor_records_inv[of r2 ?v] r2(2,4) l1 l2 sens len by auto
  note l3 = arg_cong[OF r3(3), of length]
  obtain r4 where r4: "add_sensor_records ?c r3 = Some r4" "repo_inv r4"
    "record_kinds r4 = record_kinds r3 @ replicate (length ?c) (EPDRTypeNumericSensor, 81)"
    "repositoryState r4 = ERepoStateAvailable"
    using add_sensor_records_inv[of r3 ?c] r3(2,4) l1 l2 l3 sens len by auto
  note l4 = arg_cong[OF r4(3), of length]
  obtain r5 where r5: "add_sensor_records ?w r4 = Some r5" "repo_inv r5"
    "record_kinds r5 = record_kinds r4 @ replicate (length ?w) (EPDRTypeNumericSensor, 81)"
    "repositoryState r5 = ERepoStateAvailable"
    using add_sensor_records_inv[of r4 ?w] r4(2,4) l1 l2 l3 l4 sens len by auto
  note l5 = arg_cong[OF r5(3), of length]
  obtain r6 where r6: "add_name_records ?names r5 = Some r6" "repo_inv r6"
    "record_kinds r6 = record_kinds r5 @ map (\<lambda>x. (EPDRTypeSensorAuxNames, name_record_size x)) ?names"
    "repositoryState r6 = ERepoStateAvailable"
    using add_name_records_inv[of r5 ?names] r5(2,4) l1 l2 l3 l4 l5 sens len by auto
  have "vPdrRepoInit s = Some (s\<lparr>iIsRepoInitialized := True, MSP432_PDR_Repository := r6\<rparr>)"
    using n b loc r1(1) r2(1) r3(1) r4(1) r5(1) r6(1)
    by (simp add: vPdrRepoInit_def sensor_numbers Let_def r0_def)
  then show ?thesis using r1(3) r2(3) r3(3) r4(3) r5(3) r6 by (simp add: replicate_add)
qed

lemma repository_consistent_witness:
  "\<exists>s'. vPdrRepoInit ((bmc_initial () :: (unit, unit) bmc_state)\<lparr>pxThis := bmc_local_data\<lparr>bmcInitialised := True,
      pxPdrVoltageSensors := [replicate 81 0], pxPdrSensorNames := [replicate 86 0]\<rparr>\<rparr>) = Some s' \<and>
    repo_inv (MSP432_PDR_Repository s') \<and>
    record_kinds (MSP432_PDR_Repository s') = [(EPDRTypeTerminusLocator, 35), (EPDRTypeNumericSensor, 81),
      (EPDRTypeSensorAuxNames, 24)]"
proof -
  let ?s = "(bmc_initial () :: (unit, unit) bmc_state)\<lparr>pxThis := bmc_local_data\<lparr>bmcInitialised := True,
      pxPdrVoltageSensors := [replicate 81 0], pxPdrSensorNames := [replicate 86 0]\<rparr>\<rparr>"
  have "rd16 (drop 22 (replicate 86 0)) (2 * 0) = Some 0" by (simp add: rd16_def rd_bytes_def of_le16_def numeral_2_eq_2)
  then have "name_ok (replicate 86 0)" by (auto simp: name_ok_def list_ex_iff intro!: bexI[of _ 0])
  then have "tables_ok ?s"
    by (simp add: tables_ok_def bmc_initial_def bmc_local_data_def HAL_UUID_SIZE_def initial_terminus_locator_def
        pdr_consts)
  moreover have "name_record_size (replicate 86 0) = 24"
    by (simp add: name_record_size_def name_chars_def upt_rec[of 0] rd16_def rd_bytes_def of_le16_def numeral_2_eq_2)
  ultimately show ?thesis using repository_consistent[of ?s]
    by (auto simp: bmc_initial_def bmc_local_data_def bmc_ready_def)
qed

end
