(* ===== verification/MctpTransfer.thy ===== *)
theory MctpTransfer
  imports BmcDriver
begin

text \<open>
  Messages longer than a packet: what the response loop writes to the link, and what the
  receiver has collected when the packets of a message have arrived.
\<close>

section \<open>The flags byte\<close>

lemma bit_3: "bit (3 :: u8) k \<longleftrightarrow> k = 0 \<or> k = 1"
proof -
  have e: "(3::u8) = mask 2" by (simp add: mask_eq_exp_minus_1)
  show ?thesis unfolding e bit_mask_iff by auto
qed

lemma bit_7: "bit (7 :: u8) k \<longleftrightarrow> k < 3"
proof -
  have e: "(7::u8) = mask 3" by (simp add: mask_eq_exp_minus_1)
  show ?thesis unfolding e bit_mask_iff by auto
qed

lemma bit_0x30: "bit (0x30 :: u8) k \<longleftrightarrow> k = 4 \<or> k = 5"
proof -
  have e: "(0x30::u8) = push_bit 4 (mask 2)" by (simp add: mask_eq_exp_minus_1)
  show ?thesis unfolding e bit_push_bit_iff bit_mask_iff by auto
qed

lemma bit_put_seq: "bit (put_seq q f) n \<longleftrightarrow> (if n = 4 \<or> n = 5 then bit q (n - 4) else bit f n)"
  unfolding put_seq_def bit_or_iff bit_and_iff bit_not_iff bit_push_bit_iff bit_3 bit_0x30
  by (auto dest: bit_imp_le_length)

lemma bit_put_bit: "m < 8 \<Longrightarrow> bit (put_bit m b f) n \<longleftrightarrow> (if m = n then b else bit f n)"
  by (auto simp: put_bit_def bit_set_bit_iff bit_unset_bit_iff)

lemma bit_seq: "bit (flags_seq f) n \<longleftrightarrow> n < 2 \<and> bit f (n + 4)"
  unfolding flags_seq_def bit_and_iff bit_drop_bit_eq bit_3 by (auto simp: add.commute)

lemma tag_put [simp]:
  "3 \<le> m \<Longrightarrow> m < 8 \<Longrightarrow> put_bit m b f AND 7 = f AND 7" "put_seq q f AND 7 = f AND 7"
  by (rule bit_eqI, auto simp: bit_and_iff bit_7 bit_put_bit bit_put_seq simp del: bit_numeral_word_iff)+

lemma tag_copy: "((a AND NOT 7) OR (b AND 7)) AND 7 = b AND (7 :: u8)"
  by (rule bit_eqI) (unfold bit_and_iff bit_or_iff bit_not_iff bit_7, auto)

lemma flags_seq_put [simp]:
  "flags_seq (put_bit 6 b f) = flags_seq f" "flags_seq (put_bit 7 b f) = flags_seq f"
  "flags_seq (put_seq q f) = q AND 3"
  by (rule bit_eqI, auto simp: bit_seq bit_put_bit bit_put_seq bit_and_iff bit_3 simp del: bit_numeral_word_iff)+

lemma flags_put [simp]:
  "flags_eom (put_bit 6 b f) = b" "flags_som (put_bit 6 b f) = flags_som f"
  "flags_eom (put_bit 7 b f) = flags_eom f" "flags_som (put_bit 7 b f) = b"
  "flags_eom (put_seq q f) = flags_eom f" "flags_som (put_seq q f) = flags_som f"
  by (simp_all add: flags_eom_def flags_som_def bit_put_bit bit_put_seq)

lemma seq_and_3: "unat (q AND 3 :: u8) = unat q mod 4"
proof -
  have e: "(3::u8) = mask 2" by (simp add: mask_eq_exp_minus_1)
  show ?thesis unfolding e take_bit_eq_mask[symmetric] unfolding unsigned_take_bit_eq by (simp add: take_bit_eq_mod)
qed

lemma seq_next: "unat ((flags_seq f + 1) AND 3) = (unat (flags_seq f) + 1) mod 4"
proof -
  have "unat (flags_seq f) < 4" unfolding flags_seq_def seq_and_3 by simp
  moreover have "flags_seq f + 1 = of_nat (unat (flags_seq f) + 1)" by simp
  ultimately have "unat (flags_seq f + 1) = unat (flags_seq f) + 1"
    by (simp only:) (rule unat_of_nat_less, simp)
  then show ?thesis by (simp add: seq_and_3)
qed
section \<open>Cutting a message into packets\<close>

text \<open>The flags and the payload of each packet, from the flags of the first.\<close>

function fragments :: "u8 \<Rightarrow> u8 list \<Rightarrow> (u8 \<times> u8 list) list" where
  "fragments f p =
     (if length p \<le> MCTP_MAX_PAYLOAD_SIZE then [(put_bit 6 True f, p)]
      else let g = put_bit 6 False f
        in (g, take MCTP_MAX_PAYLOAD_SIZE p)
           # fragments (put_bit 7 False (put_seq (flags_seq g + 1) g)) (drop MCTP_MAX_PAYLOAD_SIZE p))"
  by pat_completeness auto
termination by (relation "measure (\<lambda>(f, p). length p)") (auto simp: MCTP_MAX_PAYLOAD_SIZE_def)

declare fragments.simps [simp del]

lemma fragments_concat: "concat (map snd (fragments f p)) = p"
proof (induction f p rule: fragments.induct)
  case (1 f p)
  then show ?case by (subst fragments.simps) (simp add: Let_def)
qed

lemma fragments_size: "\<forall>x\<in>set (fragments f p). length (snd x) \<le> MCTP_MAX_PAYLOAD_SIZE"
proof (induction f p rule: fragments.induct)
  case (1 f p)
  then show ?case by (subst fragments.simps) (auto simp: Let_def)
qed

lemma fragments_nonempty [simp]: "fragments f p \<noteq> []"
  by (subst fragments.simps) (simp add: Let_def)

lemma fragments_flags:
  "i < length (fragments f p) \<Longrightarrow>
   unat (flags_seq (fst (fragments f p ! i))) = (unat (flags_seq f) + i) mod 4 \<and>
   flags_som (fst (fragments f p ! i)) = (i = 0 \<and> flags_som f) \<and>
   flags_eom (fst (fragments f p ! i)) = (i = length (fragments f p) - 1)"
proof (induction f p arbitrary: i rule: fragments.induct)
  case (1 f p)
  have small: "unat (flags_seq h) mod 4 = unat (flags_seq h)" for h
    unfolding flags_seq_def seq_and_3 by simp
  show ?case
  proof (cases "length p \<le> MCTP_MAX_PAYLOAD_SIZE")
    case True
    then show ?thesis using "1.prems" by (simp add: fragments.simps[of f p] small)
  next
    case False
    let ?g = "put_bit 6 False f"
    let ?r = "fragments (put_bit 7 False (put_seq (flags_seq ?g + 1) ?g)) (drop MCTP_MAX_PAYLOAD_SIZE p)"
    have e: "fragments f p = (?g, take MCTP_MAX_PAYLOAD_SIZE p) # ?r"
      using False by (subst fragments.simps) (simp add: Let_def)
    show ?thesis
    proof (cases i)
      case 0
      then show ?thesis by (simp add: e small)
    next
      case (Suc j)
      then have "j < length ?r" using "1.prems" by (simp add: e)
      note IH = "1.IH"[OF False refl this]
      have "(unat ((flags_seq f + 1) AND 3) + j) mod 4 = (unat (flags_seq f) + Suc j) mod 4"
        unfolding seq_next by (metis add.commute add_Suc_shift mod_add_right_eq plus_1_eq_Suc)
      then show ?thesis using IH Suc \<open>j < length ?r\<close> by (auto simp: e)
    qed
  qed
qed

section \<open>Sending\<close>

text \<open>
  What the code relies on in the link: a write succeeds and is observable as one entry of a
  log; sleeping writes nothing.
\<close>

definition reliable_link :: "('cb, 'x) bmc_env \<Rightarrow> ('x \<Rightarrow> (u64 \<times> u8 list) list) \<Rightarrow> bool" where
  "reliable_link env log \<longleftrightarrow>
     (\<forall>a d x. fst (fwIfWrite env a d x) \<and> log (snd (fwIfWrite env a d x)) = log x @ [(a, d)]) \<and>
     (\<forall>ms x. log (taskSleepMs env ms x) = log x)"

lemma write_packet:
  assumes l: "reliable_link env log" and b: "bmc_ready (pxThis s)" and r: "length r = 4"
    and c: "length c \<le> 64"
  obtains x where "send_mctp_response env (a # n # r @ g # c @ t) (MCTP_HEADER + length c) s =
      Some (int (MCTP_HEADER + length c), s\<lparr>world := x\<rparr>)"
    "log x = log (world s) @ [(ucast a, r @ g # c)]"
proof -
  have u: "unat (of_nat (7 + length c) :: u16) = 7 + length c"
    by (rule unat_of_nat_less) (use c in simp)
  have i: "uint (of_nat (7 + length c) :: u16) = 7 + int (length c)"
    using u by (metis of_nat_add of_nat_numeral uint_nat)
  obtain ok x where w: "fwIfWrite env (ucast a) (r @ g # c) (world s) = (ok, x)" by fastforce
  then have "ok" "log x = log (world s) @ [(ucast a, r @ g # c)]"
    using l by (auto simp: reliable_link_def dest: spec[where x = "ucast a"])
      (metis fst_conv snd_conv)+
  moreover have "rd_bytes (r @ g # c @ t) 0 (length c + 5) = Some (r @ g # c)"
    using rd_bytes_prefix[of "r @ g # c" "length c + 5" t] r by simp
  ultimately show ?thesis
    using that[of x] b w u i
    by (simp add: send_mctp_response_def iResponseDataWrite_def MCTP_HEADER_def add.commute)
qed

lemma send_packets_log:
  assumes l: "reliable_link env log" and r: "length r = 4"
  shows "p \<noteq> [] \<Longrightarrow> bmc_ready (pxThis s) \<Longrightarrow>
    \<exists>s'. send_packets env src (length p) (a # n # r @ f # p @ t) s = Some s' \<and> pxThis s' = pxThis s \<and>
      log (world s') = log (world s) @
        map (\<lambda>(g, c). (ucast (drop_bit 1 (src AND NOT 1)), r @ g # c)) (fragments f p)"
proof (induction f p arbitrary: a n t s rule: fragments.induct)
  case (1 f p)
  let ?d = "drop_bit 1 (src AND NOT 1) :: u8"
  show ?case
  proof (cases "length p \<le> MCTP_MAX_PAYLOAD_SIZE")
    case True
    then have "length p \<le> 64" by (simp add: MCTP_MAX_PAYLOAD_SIZE_def)
    from write_packet[OF l "1.prems"(2) r this, of ?d "of_nat (MCTP_HEADER + length p - 2)" "put_bit 6 True f" t]
    obtain x where w: "send_mctp_response env (?d # of_nat (MCTP_HEADER + length p - 2) # r @ put_bit 6 True f # p @ t)
        (MCTP_HEADER + length p) s = Some (int (MCTP_HEADER + length p), s\<lparr>world := x\<rparr>)"
      "log x = log (world s) @ [(ucast ?d, r @ put_bit 6 True f # p)]" .
    show ?thesis
      using True "1.prems" w r
      by (subst send_packets.simps, subst fragments.simps)
        (simp add: Let_def mctp_consts wr8_def nth_append list_update_append)
  next
    case False
    define h where "h = take MCTP_MAX_PAYLOAD_SIZE p"
    define q where "q = drop MCTP_MAX_PAYLOAD_SIZE p"
    let ?g = "put_bit 6 False f"
    let ?f = "put_bit 7 False (put_seq (flags_seq ?g + 1) ?g)"
    have p: "p = h @ q" by (simp add: h_def q_def)
    have h: "length h = 64" and q: "q \<noteq> []" and lp: "length p = 64 + length q"
      using False by (simp_all add: h_def q_def MCTP_MAX_PAYLOAD_SIZE_def)
    obtain y ys where y: "q = y # ys" using q by (cases q) auto
    have rest: "rd_bytes (y # ys @ t) 0 (Suc (length ys)) = Some (y # ys)"
      using rd_bytes_prefix[of "y # ys" "Suc (length ys)" t] by simp
    from write_packet[OF l "1.prems"(2) r, of h ?d 69 ?g "q @ t"] h
    obtain x where w: "send_mctp_response env (?d # 69 # r @ ?g # h @ q @ t) 71 s =
        Some (71, s\<lparr>world := x\<rparr>)"
      "log x = log (world s) @ [(ucast ?d, r @ ?g # h)]"
      by (auto simp: MCTP_HEADER_def)
    let ?s = "s\<lparr>world := taskSleepMs env MCTP_MESSAGE_DELAY_MS x\<rparr>"
    let ?t = "drop (length q) (h @ q @ t)"
    have sent: "send_packets env src (length p) (a # n # r @ f # p @ t) s =
        send_packets env src (length q) (?d # 69 # r @ ?f # q @ ?t) ?s"
      using w r h q lp unfolding p
      by (subst send_packets.simps)
        (simp add: Let_def mctp_consts wr8_def nth_append list_update_append y rest)
    have "\<exists>s'. send_packets env src (length q) (?d # 69 # r @ ?f # q @ ?t) ?s = Some s' \<and>
        pxThis s' = pxThis ?s \<and> log (world s') = log (world ?s) @
        map (\<lambda>(g, c). (ucast ?d, r @ g # c)) (fragments ?f q)"
      using "1.IH"[OF False refl, of ?s ?d 69 ?t] q "1.prems" by (simp add: q_def)
    moreover have "fragments f p = (?g, h) # fragments ?f q"
      using False by (subst fragments.simps) (simp add: Let_def h_def q_def)
    moreover have "log (world ?s) = log x" using l by (simp add: reliable_link_def)
    ultimately show ?thesis using sent w by auto
  qed
qed

lemma send_response_log:
  assumes l: "reliable_link env log" and b: "bmc_ready (pxThis s)"
    and rq: "7 \<le> length req" and sz: "0 < sz" "7 + sz \<le> length resp"
  defines "f \<equiv> put_bit 7 True (put_seq 0 ((resp ! 6 AND NOT 7) OR (req ! 6 AND 7)))"
  shows "\<exists>s'. send_response env req sz resp s = Some s' \<and>
     log (world s') = log (world s) @
       map (\<lambda>(g, c). (ucast (drop_bit 1 (req ! 2 AND NOT 1)),
              [0x31, req ! 3, req ! 5, req ! 4] @ g # c))
         (fragments f (take sz (drop 7 resp)))"
proof -
  let ?r = "[0x31, req ! 3, req ! 5, req ! 4] :: u8 list"
  define p where "p = take sz (drop 7 resp)"
  have "Suc (Suc (Suc (Suc (Suc (Suc (Suc 0)))))) \<le> length resp" using sz by simp
  then obtain a n b1 b2 b3 b4 b5 rest where e: "resp = a # n # b1 # b2 # b3 # b4 # b5 # rest"
    by (auto simp: Suc_le_length_iff)
  have rest: "rest = p @ drop sz rest" by (simp add: p_def e)
  have p: "length p = sz" "p \<noteq> []" using sz by (auto simp: p_def)
  have "send_response env req sz resp s =
      send_packets env (req ! 2) (length p) (a # n # ?r @ f # p @ drop sz rest) s"
    using rq p rest by (simp add: send_response_def e f_def)
  then show ?thesis
    using send_packets_log[OF l, of ?r p s "req ! 2" a n f "drop sz rest"] p b
    unfolding p_def[symmetric] by auto
qed

lemma fragments_tag: "\<forall>x\<in>set (fragments f p). fst x AND 7 = f AND 7"
proof (induction f p rule: fragments.induct)
  case (1 f p)
  then show ?case by (subst fragments.simps) (auto simp: Let_def)
qed

text \<open>
  C26: the response is cut correctly. On a link whose writes succeed, exactly the payload of
  the response is written, in packets of at most 64 bytes to the address of the requester,
  each with the endpoints of the request swapped and its tag, the sequence numbers counting
  from 0 modulo 4, the start flag on the first packet only and the end flag on the last only.
\<close>

theorem mctp_response_packets:
  assumes l: "reliable_link env log" and b: "bmc_ready (pxThis s)"
    and rq: "7 \<le> length req" and sz: "0 < sz" "7 + sz \<le> length resp"
  shows "\<exists>s' ps. send_response env req sz resp s = Some s' \<and>
     log (world s') = log (world s) @
       map (\<lambda>(g, c). (ucast (drop_bit 1 (req ! 2 AND NOT 1)),
              [0x31, req ! 3, req ! 5, req ! 4] @ g # c)) ps \<and>
     concat (map snd ps) = take sz (drop 7 resp) \<and> ps \<noteq> [] \<and>
     (\<forall>i<length ps. length (snd (ps ! i)) \<le> 64 \<and> fst (ps ! i) AND 7 = req ! 6 AND 7 \<and>
        unat (flags_seq (fst (ps ! i))) = i mod 4 \<and> (flags_som (fst (ps ! i)) \<longleftrightarrow> i = 0) \<and>
        (flags_eom (fst (ps ! i)) \<longleftrightarrow> i = length ps - 1))"
proof -
  define f where "f = put_bit 7 True (put_seq 0 ((resp ! 6 AND NOT 7) OR (req ! 6 AND 7)))"
  let ?ps = "fragments f (take sz (drop 7 resp))"
  have f: "f AND 7 = req ! 6 AND 7" "flags_seq f = 0" "flags_som f"
    unfolding f_def by (simp_all only: tag_put tag_copy flags_seq_put flags_put) simp_all
  have "length (snd (?ps ! i)) \<le> 64 \<and> fst (?ps ! i) AND 7 = req ! 6 AND 7 \<and>
      unat (flags_seq (fst (?ps ! i))) = i mod 4 \<and> (flags_som (fst (?ps ! i)) \<longleftrightarrow> i = 0) \<and>
      (flags_eom (fst (?ps ! i)) \<longleftrightarrow> i = length ?ps - 1)" if i: "i < length ?ps" for i
    using fragments_flags[OF i] fragments_size[of f "take sz (drop 7 resp)"]
      fragments_tag[of f "take sz (drop 7 resp)"] nth_mem[OF i] f
    by (simp add: MCTP_MAX_PAYLOAD_SIZE_def)
  then show ?thesis
    using send_response_log[OF l b rq sz] fragments_concat[of f "take sz (drop 7 resp)"]
    unfolding f_def[symmetric] by (metis (no_types, lifting) fragments_nonempty)
qed

lemma mctp_response_packets_witness:
  "\<exists>s' ps. send_response (sample_env\<lparr>fwIfWrite := \<lambda>a d x. (True, x @ [(a, d)])\<rparr>)
       [0x30, 3, 0x21, 1, 9, 8, 0xC9, 0] 100 (replicate 255 0)
       ((bmc_initial [])\<lparr>pxThis := bmc_local_data\<lparr>bmcInitialised := True\<rparr>\<rparr>) = Some s' \<and>
     concat (map snd ps) = replicate 100 0 \<and>
     world s' = map (\<lambda>(g, c). (0x10, [0x31, 1, 8, 9] @ g # c)) ps"
  using mctp_response_packets[of "sample_env\<lparr>fwIfWrite := \<lambda>a d x. (True, x @ [(a, d)])\<rparr>" "\<lambda>x. x"
      "(bmc_initial [])\<lparr>pxThis := bmc_local_data\<lparr>bmcInitialised := True\<rparr>\<rparr>"
      "[0x30, 3, 0x21, 1, 9, 8, 0xC9, 0]" 100 "replicate 255 0"]
  by (auto simp: reliable_link_def sample_env_def bmc_ready_def bmc_initial_def bmc_local_data_def)

end
