(* ===== verification/MctpReceive.thy ===== *)
theory MctpReceive
  imports MctpTransfer
begin

text \<open>
  Reassembly: the context the receiver keeps between the packets of a message, and what each
  kind of packet does to it.
\<close>

section \<open>Delivering a packet\<close>

text \<open>The firmware interface has put a packet, without its first two bytes, into the private data.\<close>

definition put_rx :: "u8 list \<Rightarrow> ('cb, 'x) bmc_state \<Rightarrow> ('cb, 'x) bmc_state" where
  "put_rx pkt s = s\<lparr>pxThis := (pxThis s)\<lparr>pucRxData := pkt, ulRxDataSize := of_nat (length pkt)\<rparr>\<rparr>"

definition request_buffer :: "u8 list \<Rightarrow> u8 list" where
  "request_buffer pkt = 0 # of_nat (length pkt) # pkt @ replicate (253 - length pkt) 0"

definition received :: "u8 list \<Rightarrow> ('cb, 'x) bmc_state \<Rightarrow> ('cb, 'x) bmc_state" where
  "received pkt s = (put_rx pkt s)\<lparr>ReqBuffer := request_buffer pkt, RespBuffer := replicate 255 0\<rparr>"

lemma sint_small: "n < 2 ^ 31 \<Longrightarrow> sint (of_nat n :: u32) = int n"
  by (simp add: signed_of_nat signed_take_bit_int_eq_self)

lemma receive_message_eq:
  assumes "0 < length pkt" "length pkt \<le> 253"
  shows "receive_message env (put_rx pkt s) =
    process_pmci_request env (int (length pkt) + 2) (received pkt s)"
proof -
  have u: "unat (of_nat (length pkt) :: u32) = length pkt"
    by (rule unat_of_nat_less) (use assms in simp)
  have c: "(ucast (of_nat (length pkt) :: u32) :: u8) = of_nat (length pkt)"
    by (rule ucast_of_nat_small) (use assms in simp)
  have si: "sint (of_nat (length pkt) :: u32) = int (length pkt)"
    by (rule sint_small) (use assms in simp)
  have "replicate 255 0 = replicate (2 + length pkt) 0 @ replicate (253 - length pkt) (0 :: u8)"
    using assms by (simp only: replicate_add[symmetric]) simp
  then have "wr_bytes 0 (0 # of_nat (length pkt) # pkt) (replicate 255 0) = Some (request_buffer pkt)"
    using assms by (simp add: request_buffer_def)
  then show ?thesis
    using assms u c si
    by (simp add: receive_message_def put_rx_def received_def MAX_BUFFER_SIZE_def Let_def
        BMC_PAYLOAD_LOCATION_def)
qed

text \<open>The packets of the protocol: four bytes of header, the flags and the payload.\<close>

definition packet :: "u8 list \<Rightarrow> u8 \<Rightarrow> u8 list \<Rightarrow> u8 list" where "packet hdr f c = hdr @ f # c"

definition accepts :: "u8 list \<Rightarrow> u8 list \<Rightarrow> ('cb, 'x) bmc_state \<Rightarrow> bool" where
  "accepts hdr c s \<longleftrightarrow> length hdr = 4 \<and> 0 < length c \<and> length c \<le> 248 \<and>
     (ucast (hdr ! 2) = EID s \<or> hdr ! 2 = 0)"

definition seen :: "u8 list \<Rightarrow> ('cb, 'x) bmc_state \<Rightarrow> ('cb, 'x) bmc_state" where
  "seen hdr s = s\<lparr>BMC_endpoint_id_g := hdr ! 3, SC_endpoint_id_g := hdr ! 2,
     MCTP_header_version_g := hdr ! 1, BMC_slave_address_g := hdr ! 0,
     ReqBuffer := (ReqBuffer s)[0 := 0x30]\<rparr>"

definition on_packet ::
  "('cb, 'x) bmc_env \<Rightarrow> u8 \<Rightarrow> u8 list \<Rightarrow> ('cb, 'x) bmc_state \<Rightarrow> ('cb, 'x) bmc_state option" where
  "on_packet env flags c s1 =
     (if flags_som flags \<and> flags_eom flags then do {
        (sz, resp, s2) \<leftarrow> process_request env (ReqBuffer s1) (RespBuffer s1) s1;
        respond env sz resp s2 }
      else if flags_som flags then
        (if staging_buff_size s1 = 0
         then do {
           bytes \<leftarrow> rd_bytes (ReqBuffer s1) 0 (7 + length c);
           buf \<leftarrow> wr_bytes 0 bytes (replicate MAX_MULTIPART_BUFFER_SIZE 0x30);
           Some (s1\<lparr>multiPartReqBuffer := buf, staging_buff_size := of_nat (7 + length c),
                    prv_seq_num := flags_seq flags\<rparr>) }
         else Some (reset_context s1))
      else if (prv_seq_num s1 + 1) mod PKT_SEQ_MODULO \<noteq> flags_seq flags
      then Some (reset_context s1)
      else do {
        s2 \<leftarrow> stage (length c) (ReqBuffer s1) s1;
        (if flags_eom flags
         then do {
           (sz, resp, s3) \<leftarrow> process_request env (multiPartReqBuffer s2) (RespBuffer s2) s2;
           respond env sz resp (s3\<lparr>staging_buff_size := 0, prv_seq_num := 0\<rparr>) }
         else Some (s2\<lparr>prv_seq_num := flags_seq flags\<rparr>)) })"

lemma process_accepted:
  assumes a: "accepts hdr c s"
  shows "receive_message env (put_rx (packet hdr f c) s) =
    on_packet env f c (seen hdr (received (packet hdr f c) s))"
proof -
  have h: "length hdr = 4" and c: "0 < length c" "length c \<le> 248" using a by (auto simp: accepts_def)
  then obtain b2 b3 b4 b5 where hdr: "hdr = [b2, b3, b4, b5]"
    by (auto simp: numeral_eq_Suc length_Suc_conv)
  have len: "length (packet hdr f c) = 5 + length c" using h by (simp add: packet_def)
  have w: "7 + of_nat (length c) = (of_nat (7 + length c) :: u8)"
    "7 + of_nat (length c) = (of_nat (7 + length c) :: u32)" by simp_all
  have u: "unat (7 + of_nat (length c) :: u8) = 7 + length c"
    unfolding w by (rule unat_of_nat_less) (use c in simp)
  then have i: "uint (7 + of_nat (length c) :: u8) = 7 + int (length c)"
    by (metis of_nat_add of_nat_numeral uint_nat)
  have st: "(ucast (7 + of_nat (length c) :: u8) :: u32) = 7 + of_nat (length c)"
    unfolding w by (rule ucast_of_nat_small) (use c in simp)
  have acc: "\<not> (ucast b4 \<noteq> EID s \<and> b4 \<noteq> 0)" using a by (auto simp: accepts_def hdr)
  have "ReqBuffer (received (packet hdr f c) s) = 0 # of_nat (5 + length c) # b2 # b3 # b4 # b5 # f # c
      @ replicate (248 - length c) 0"
    by (simp add: received_def request_buffer_def packet_def hdr)
  moreover have "EID (received (packet hdr f c) s) = EID s" by (simp add: received_def put_rx_def)
  ultimately show ?thesis
    using c len acc
    by (simp add: receive_message_eq process_pmci_request_def on_packet_def seen_def Let_def
        hdr u i st mctp_consts del: de_Morgan_conj cong: if_cong)
qed

section \<open>The context between packets\<close>

text \<open>\<open>H\<close> is the header of the first packet as staged, \<open>m\<close> the payload collected, \<open>q\<close> the last number.\<close>

definition context_of :: "('cb, 'x) bmc_state \<Rightarrow> u8 list \<Rightarrow> u8 list \<Rightarrow> u8 \<Rightarrow> bool" where
  "context_of s H m q \<longleftrightarrow> staging_buff_size s = of_nat (7 + length m) \<and>
     length (multiPartReqBuffer s) = 1024 \<and> length H = 7 \<and>
     take (7 + length m) (multiPartReqBuffer s) = H @ m \<and> prv_seq_num s = q"

definition rx_header :: "u8 list \<Rightarrow> u8 \<Rightarrow> u8 list \<Rightarrow> u8 list" where
  "rx_header hdr f c = [0x30, of_nat (5 + length c)] @ hdr @ [f]"

lemma seen_buffer:
  assumes "accepts hdr c s"
  shows "ReqBuffer (seen hdr (received (packet hdr f c) s)) =
    rx_header hdr f c @ c @ replicate (248 - length c) 0"
  using assms by (simp add: seen_def received_def request_buffer_def packet_def rx_header_def accepts_def)

lemma seen_fields [simp]:
  "staging_buff_size (seen hdr (received pkt s)) = staging_buff_size s"
  "multiPartReqBuffer (seen hdr (received pkt s)) = multiPartReqBuffer s"
  "prv_seq_num (seen hdr (received pkt s)) = prv_seq_num s"
  "world (seen hdr (received pkt s)) = world s" "EID (seen hdr (received pkt s)) = EID s"
  "RespBuffer (seen hdr (received pkt s)) = replicate 255 0"
  by (simp_all add: seen_def received_def put_rx_def)

lemma receive_first:
  assumes a: "accepts hdr c s" and f: "flags_som f" "\<not> flags_eom f" and st: "staging_buff_size s = 0"
  shows "\<exists>s'. receive_message env (put_rx (packet hdr f c) s) = Some s' \<and>
    context_of s' (rx_header hdr f c) c (flags_seq f) \<and> world s' = world s \<and> EID s' = EID s"
proof -
  let ?H = "rx_header hdr f c"
  have h: "length ?H = 7" and c: "length c \<le> 248" using a by (auto simp: accepts_def rx_header_def)
  have rd: "rd_bytes (?H @ c @ replicate (248 - length c) 0) 0 (7 + length c) = Some (?H @ c)"
    using rd_bytes_prefix[of "?H @ c" "7 + length c"] h by simp
  show ?thesis
    using a f st h c rd
    by (simp add: process_accepted on_packet_def seen_buffer[OF a] context_of_def mctp_consts)
qed

lemma stage_context:
  assumes a: "accepts hdr c s" and ctx: "context_of s H m q" and fit: "7 + length m + length c \<le> 1024"
  shows "\<exists>s'. stage (length c) (ReqBuffer (seen hdr (received (packet hdr f c) s)))
      (seen hdr (received (packet hdr f c) s)) = Some s' \<and>
    context_of s' H (m @ c) q \<and> world s' = world s \<and> EID s' = EID s \<and> RespBuffer s' = replicate 255 0"
proof -
  let ?n = "7 + length m"
  have h: "length (rx_header hdr f c) = 7" using a by (auto simp: accepts_def rx_header_def)
  have rd: "rd_bytes (rx_header hdr f c @ c @ replicate (248 - length c) 0) MCTP_HEADER (length c) = Some c"
    using h by (simp add: MCTP_HEADER_def)
  have u: "unat (of_nat ?n :: u32) = ?n" by (rule unat_of_nat_less) (use fit in simp)
  have ctx': "staging_buff_size s = of_nat ?n" "length (multiPartReqBuffer s) = 1024" "length H = 7"
    "take ?n (multiPartReqBuffer s) = H @ m" "prv_seq_num s = q" using ctx by (auto simp: context_of_def)
  have wr: "wr_bytes ?n c (multiPartReqBuffer s) =
      Some ((H @ m) @ c @ drop (?n + length c) (multiPartReqBuffer s))"
    unfolding ctx'(4)[symmetric] using fit ctx'(2) by (simp add: wr_bytes_def)
  have "of_nat ?n + of_nat (length c) = (of_nat (7 + length (m @ c)) :: u32)" by simp
  then show ?thesis
    unfolding stage_def seen_buffer[OF a] using ctx' wr rd u fit
    by (simp add: context_of_def del: of_nat_add of_nat_numeral)
qed

lemma receive_middle:
  assumes a: "accepts hdr c s" and f: "\<not> flags_som f" "\<not> flags_eom f"
    and ctx: "context_of s H m q" and q: "flags_seq f = (q + 1) mod 4"
    and fit: "7 + length m + length c \<le> 1024"
  shows "\<exists>s'. receive_message env (put_rx (packet hdr f c) s) = Some s' \<and>
    context_of s' H (m @ c) (flags_seq f) \<and> world s' = world s \<and> EID s' = EID s"
proof -
  have "prv_seq_num s = q" using ctx by (simp add: context_of_def)
  then show ?thesis
    using stage_context[OF a ctx fit, of f] f q
    by (auto simp: process_accepted[OF a] on_packet_def PKT_SEQ_MODULO_def context_of_def)
qed

text \<open>The last packet hands the whole message over.\<close>

definition complete_message ::
  "('cb, 'x) bmc_env \<Rightarrow> u8 list \<Rightarrow> ('cb, 'x) bmc_state \<Rightarrow> ('cb, 'x) bmc_state option" where
  "complete_message env buf s = do {
     (sz, resp, s3) \<leftarrow> process_request env buf (replicate 255 0) s;
     respond env sz resp (s3\<lparr>staging_buff_size := 0, prv_seq_num := 0\<rparr>) }"

lemma receive_last:
  assumes a: "accepts hdr c s" and f: "\<not> flags_som f" "flags_eom f"
    and ctx: "context_of s H m q" and q: "flags_seq f = (q + 1) mod 4"
    and fit: "7 + length m + length c \<le> 1024"
  shows "\<exists>s'. receive_message env (put_rx (packet hdr f c) s) =
      complete_message env (multiPartReqBuffer s') s' \<and>
    take (7 + length (m @ c)) (multiPartReqBuffer s') = H @ m @ c \<and> world s' = world s"
proof -
  have "prv_seq_num s = q" using ctx by (simp add: context_of_def)
  then show ?thesis
    using stage_context[OF a ctx fit, of f] f q
    by (auto simp: process_accepted[OF a] on_packet_def PKT_SEQ_MODULO_def context_of_def
        complete_message_def)
qed

text \<open>A packet out of sequence ends the message without an answer.\<close>

lemma receive_out_of_sequence:
  assumes a: "accepts hdr c s" and f: "\<not> flags_som f" and q: "flags_seq f \<noteq> (prv_seq_num s + 1) mod 4"
  shows "\<exists>s'. receive_message env (put_rx (packet hdr f c) s) = Some s' \<and>
    staging_buff_size s' = 0 \<and> prv_seq_num s' = 0 \<and> world s' = world s"
  using q f
  by (auto simp: process_accepted[OF a] on_packet_def PKT_SEQ_MODULO_def reset_context_def)

section \<open>All the packets of a message\<close>

fun deliver ::
  "('cb, 'x) bmc_env \<Rightarrow> u8 list \<Rightarrow> (u8 \<times> u8 list) list \<Rightarrow> ('cb, 'x) bmc_state \<Rightarrow> ('cb, 'x) bmc_state option" where
  "deliver env hdr [] s = Some s"
| "deliver env hdr ((f, c) # ps) s = do {
     s' \<leftarrow> receive_message env (put_rx (packet hdr f c) s);
     deliver env hdr ps s' }"

lemma deliver_Nil: "deliver env hdr [] = Some"
  by (rule ext) simp

lemma seq_mod_4: "(x AND 3) = (x mod 4 :: u8)"
proof -
  have e: "(3::u8) = mask 2" by (simp add: mask_eq_exp_minus_1)
  show ?thesis unfolding e take_bit_eq_mask[symmetric] take_bit_eq_mod by simp
qed

lemma deliver_rest:
  assumes hdr: "length hdr = 4" "ucast (hdr ! 2) = EID s \<or> hdr ! 2 = 0"
  shows "context_of s H m q \<Longrightarrow> \<not> flags_som f \<Longrightarrow> flags_seq f = (q + 1) mod 4 \<Longrightarrow> p \<noteq> [] \<Longrightarrow>
    7 + length m + length p \<le> 1024 \<Longrightarrow> EID s = EID s0 \<Longrightarrow>
    \<exists>s'. deliver env hdr (fragments f p) s = complete_message env (multiPartReqBuffer s') s' \<and>
      take (7 + length m + length p) (multiPartReqBuffer s') = H @ m @ p \<and> world s' = world s"
  using hdr
proof (induction f p arbitrary: s m q rule: fragments.induct)
  case (1 f p)
  show ?case
  proof (cases "length p \<le> MCTP_MAX_PAYLOAD_SIZE")
    case True
    then have a: "accepts hdr p s" using "1.prems" by (auto simp: accepts_def MCTP_MAX_PAYLOAD_SIZE_def)
    have "fragments f p = [(put_bit 6 True f, p)]" using True by (simp add: fragments.simps[of f p])
    moreover have "\<exists>s'. receive_message env (put_rx (packet hdr (put_bit 6 True f) p) s) =
        complete_message env (multiPartReqBuffer s') s' \<and>
      take (7 + length (m @ p)) (multiPartReqBuffer s') = H @ m @ p \<and> world s' = world s"
      by (rule receive_last[OF a _ _ "1.prems"(1)]) (use "1.prems" in simp_all)
    ultimately show ?thesis by (simp add: add.assoc deliver_Nil)
  next
    case False
    let ?g = "put_bit 6 False f"
    let ?f = "put_bit 7 False (put_seq (flags_seq ?g + 1) ?g)"
    let ?c = "take MCTP_MAX_PAYLOAD_SIZE p" and ?r = "drop MCTP_MAX_PAYLOAD_SIZE p"
    have e: "fragments f p = (?g, ?c) # fragments ?f ?r"
      using False by (subst fragments.simps) (simp add: Let_def)
    have lc: "length ?c = 64" "length ?r = length p - 64" "?r \<noteq> []"
      using False by (simp_all add: MCTP_MAX_PAYLOAD_SIZE_def)
    have a: "accepts hdr ?c s" using "1.prems" False lc by (auto simp: accepts_def MCTP_MAX_PAYLOAD_SIZE_def)
    have "\<exists>s'. receive_message env (put_rx (packet hdr ?g ?c) s) = Some s' \<and>
        context_of s' H (m @ ?c) (flags_seq ?g) \<and> world s' = world s \<and> EID s' = EID s"
      by (rule receive_middle[OF a _ _ "1.prems"(1)]) (use "1.prems" lc in simp_all)
    then obtain s1 where s1: "receive_message env (put_rx (packet hdr ?g ?c) s) = Some s1"
      "context_of s1 H (m @ ?c) (flags_seq ?g)" "world s1 = world s" "EID s1 = EID s" by blast
    have "\<exists>s'. deliver env hdr (fragments ?f ?r) s1 = complete_message env (multiPartReqBuffer s') s' \<and>
        take (7 + length (m @ ?c) + length ?r) (multiPartReqBuffer s') = H @ (m @ ?c) @ ?r \<and>
        world s' = world s1"
      by (rule "1.IH"[OF False refl s1(2)]) (use "1.prems" lc s1 in \<open>simp_all add: seq_mod_4\<close>)
    moreover have len: "7 + length (m @ ?c) + length ?r = 7 + length m + length p" using False lc by simp
    ultimately show ?thesis using s1 unfolding len e by simp
  qed
qed

text \<open>
  C25: a message sent in several packets arrives whole. When the packets a sender cuts from a
  payload of more than 64 bytes are received in order by an endpoint with no message pending,
  nothing is transmitted before the last one, and on the last one the request that is
  processed has the header of the first packet followed by exactly that payload.
\<close>

theorem mctp_reassembly:
  assumes hdr: "length hdr = 4" "ucast (hdr ! 2) = EID s \<or> hdr ! 2 = 0"
    and st: "staging_buff_size s = 0" and f: "flags_som f" "\<not> flags_eom f"
    and p: "64 < length p" "length p \<le> 1017"
  shows "\<exists>s'. deliver env hdr (fragments f p) s = complete_message env (multiPartReqBuffer s') s' \<and>
    take (7 + length p) (multiPartReqBuffer s') = rx_header hdr f (take 64 p) @ p \<and>
    world s' = world s"
proof -
  let ?g = "put_bit 6 False f"
  let ?f = "put_bit 7 False (put_seq (flags_seq ?g + 1) ?g)"
  have g: "?g = f" using f(2) by (auto simp: put_bit_def flags_eom_def intro!: bit_eqI simp: bit_unset_bit_iff)
  have e: "fragments f p = (f, take 64 p) # fragments ?f (drop 64 p)"
    using p g by (subst fragments.simps) (simp add: Let_def MCTP_MAX_PAYLOAD_SIZE_def)
  have a: "accepts hdr (take 64 p) s" using hdr p by (auto simp: accepts_def)
  obtain s1 where s1: "receive_message env (put_rx (packet hdr f (take 64 p)) s) = Some s1"
    "context_of s1 (rx_header hdr f (take 64 p)) (take 64 p) (flags_seq f)"
    "world s1 = world s" "EID s1 = EID s"
    using receive_first[OF a f st] by blast
  have "\<exists>s'. deliver env hdr (fragments ?f (drop 64 p)) s1 = complete_message env (multiPartReqBuffer s') s' \<and>
      take (7 + length (take 64 p) + length (drop 64 p)) (multiPartReqBuffer s') =
        rx_header hdr f (take 64 p) @ take 64 p @ drop 64 p \<and> world s' = world s1"
    by (rule deliver_rest[OF _ _ s1(2)]) (use hdr p s1 g in \<open>simp_all add: seq_mod_4\<close>)
  then show ?thesis using e s1 p by simp
qed

lemma mctp_reassembly_witness:
  "\<exists>s'. deliver sample_env [0x21, 1, 0, 8] (fragments 0x88 (replicate 100 7)) (bmc_initial ()) =
      complete_message sample_env (multiPartReqBuffer s') s' \<and>
    take 107 (multiPartReqBuffer s') = [0x30, 69, 0x21, 1, 0, 8, 0x88] @ replicate 100 7"
  using mctp_reassembly[of "[0x21, 1, 0, 8]" "bmc_initial ()" "0x88" "replicate 100 7" sample_env]
  by (auto simp: bmc_initial_def flags_som_def flags_eom_def rx_header_def)

end
