(* ===== verification/MctpProperties.thy ===== *)
theory MctpProperties
  imports MctpReceive
begin

text \<open>
  The control protocol: assignment of the endpoint identifier, which packets are answered,
  and the limits within which the code is free of undefined behaviour.
\<close>

section \<open>Endpoint identifier\<close>

text \<open>
  One request, as the command handles it: the identifier and whether the flag of a plain
  assignment is set, and the answer (completion code, status, identifier asked for, pool
  size).
\<close>

definition eid_request :: "u8 \<times> u8 \<Rightarrow> u16 \<times> bool \<Rightarrow> u16 \<times> bool" where
  "eid_request = (\<lambda>(operation, ep) (eid, assigned).
     if ep = 0 \<or> ep = 0xFF then (eid, assigned)
     else if operation = SET_EID then (if assigned then (eid, True) else (ucast ep, True))
     else if operation = FORCE_EID then (ucast ep, assigned)
     else (eid, assigned))"

definition eid_state :: "('cb, 'x) bmc_state \<Rightarrow> u16 \<times> bool" where
  "eid_state s = (EID s, eidSetFlag s \<noteq> 0)"

definition eid_answer :: "u8 \<times> u8 \<Rightarrow> bool \<Rightarrow> u8 list" where
  "eid_answer = (\<lambda>(operation, ep) assigned.
     if ep = 0 \<or> ep = 0xFF \<or> operation = RESET_EID \<or> operation = SET_DISCOVERED_FLAG then [2, 0, 0, 0]
     else if operation = SET_EID \<and> assigned then [0, 0x10, ep, 0]
     else if operation = SET_EID \<or> operation = FORCE_EID then [0, 0, ep, 0]
     else [])"

lemma set_eid_step:
  assumes "buf = replicate (4 + k) 0"
  shows "\<exists>out s'. mctp_cmd_SetEID [operation, ep] buf s =
      Some (of_nat (length (eid_answer (operation, ep) (snd (eid_state s)))), out, s') \<and>
    take (length (eid_answer (operation, ep) (snd (eid_state s)))) out =
      eid_answer (operation, ep) (snd (eid_state s)) \<and>
    eid_state s' = eid_request (operation, ep) (eid_state s)"
proof -
  have b: "buf = 0 # 0 # 0 # 0 # replicate k 0" using assms by (simp add: numeral_eq_Suc)
  show ?thesis
    by (auto simp: b mctp_cmd_SetEID_def set_eid_reply_def eid_answer_def eid_request_def eid_state_def
        eid_consts wr8_def rd8_def)
qed

text \<open>The answers and the state after a sequence of requests, each with a fresh response buffer.\<close>

fun run_set_eid :: "(u8 \<times> u8) list \<Rightarrow> ('cb, 'x) bmc_state \<Rightarrow> (u8 list list \<times> ('cb, 'x) bmc_state) option" where
  "run_set_eid [] s = Some ([], s)"
| "run_set_eid ((operation, ep) # reqs) s = do {
     (n, out, s1) \<leftarrow> mctp_cmd_SetEID [operation, ep] (replicate 245 0) s;
     (outs, s2) \<leftarrow> run_set_eid reqs s1;
     Some (take (unat n) out # outs, s2) }"

lemma run_set_eid_one:
  "\<exists>s'. run_set_eid [r] s = Some ([eid_answer r (snd (eid_state s))], s') \<and>
     eid_state s' = eid_request r (eid_state s)"
proof -
  obtain operation ep where r: "r = (operation, ep)" by fastforce
  let ?a = "eid_answer (operation, ep) (snd (eid_state s))"
  have "replicate 245 0 = replicate (4 + 241) (0 :: u8)" by simp
  from set_eid_step[OF this, of operation ep s] obtain out s1 where
    s1: "mctp_cmd_SetEID [operation, ep] (replicate 245 0) s = Some (of_nat (length ?a), out, s1)"
      "take (length ?a) out = ?a" "eid_state s1 = eid_request (operation, ep) (eid_state s)" by blast
  have "length ?a < 2 ^ 8" by (simp add: eid_answer_def)
  then have "unat (of_nat (length ?a) :: u8) = length ?a" by (intro unat_of_nat_less) simp
  then show ?thesis using s1 by (simp add: r)
qed

lemma run_set_eid_append:
  "run_set_eid reqs s = Some (outs, s1) \<Longrightarrow> run_set_eid reqs' s1 = Some (outs', s2) \<Longrightarrow>
   run_set_eid (reqs @ reqs') s = Some (outs @ outs', s2)"
  by (induction reqs s arbitrary: outs rule: run_set_eid.induct)
    (auto simp: bind_eq_Some_conv)

text \<open>
  Which requests of a sequence take effect, from the sequence alone: a forced assignment of
  an identifier that is neither null nor broadcast does, a plain one only as the first
  plain one ever.
\<close>

definition assignable :: "u8 \<times> u8 \<Rightarrow> bool" where
  "assignable r \<longleftrightarrow> snd r \<noteq> 0 \<and> snd r \<noteq> 0xFF"

definition plain_set :: "u8 \<times> u8 \<Rightarrow> bool" where
  "plain_set r \<longleftrightarrow> fst r = SET_EID \<and> assignable r"

definition takes_effect :: "bool \<Rightarrow> (u8 \<times> u8) list \<Rightarrow> nat \<Rightarrow> bool" where
  "takes_effect assigned reqs i \<longleftrightarrow>
     fst (reqs ! i) = FORCE_EID \<and> assignable (reqs ! i) \<or>
     plain_set (reqs ! i) \<and> \<not> assigned \<and> \<not> list_ex plain_set (take i reqs)"

lemma takes_effect_append:
  "i < length reqs \<Longrightarrow> takes_effect a (reqs @ reqs') i = takes_effect a reqs i"
  "takes_effect a (reqs @ r # reqs') (length reqs) \<longleftrightarrow>
     fst r = FORCE_EID \<and> assignable r \<or> plain_set r \<and> \<not> a \<and> \<not> list_ex plain_set reqs"
  by (simp_all add: takes_effect_def nth_append)

definition effective :: "bool \<Rightarrow> (u8 \<times> u8) list \<Rightarrow> u16 list" where
  "effective a reqs = map (\<lambda>i. ucast (snd (reqs ! i))) (filter (takes_effect a reqs) [0..<length reqs])"

definition eid_status :: "bool \<Rightarrow> (u8 \<times> u8) list \<Rightarrow> nat \<Rightarrow> u8 list" where
  "eid_status a reqs i =
     (if takes_effect a reqs i then [0, 0]
      else if plain_set (reqs ! i) then [0, 0x10]
      else if assignable (reqs ! i) \<and> fst (reqs ! i) \<notin> {RESET_EID, SET_DISCOVERED_FLAG} then []
      else [2, 0])"

lemma effective_snoc:
  "effective a (reqs @ [r]) = effective a reqs @
     (if takes_effect a (reqs @ [r]) (length reqs) then [ucast (snd r)] else [])"
proof -
  have "filter (takes_effect a (reqs @ [r])) [0..<length reqs] = filter (takes_effect a reqs) [0..<length reqs]"
    by (intro filter_cong) (simp_all add: takes_effect_append)
  moreover have "map (\<lambda>i. ucast (snd ((reqs @ [r]) ! i))) (filter P [0..<length reqs]) =
      map (\<lambda>i. ucast (snd (reqs ! i)) :: u16) (filter P [0..<length reqs])" for P
    by (intro map_cong) (auto simp: nth_append)
  ultimately show ?thesis by (simp add: effective_def)
qed

lemma eid_request_cases:
  "fst (eid_request r (e, a)) =
     (if fst r = FORCE_EID \<and> assignable r \<or> plain_set r \<and> \<not> a then ucast (snd r) else e)"
  "snd (eid_request r (e, a)) = (a \<or> plain_set r)"
  "take 2 (eid_answer r a) =
     (if fst r = FORCE_EID \<and> assignable r \<or> plain_set r \<and> \<not> a then [0, 0]
      else if plain_set r then [0, 0x10]
      else if assignable r \<and> fst r \<notin> {RESET_EID, SET_DISCOVERED_FLAG} then [] else [2, 0])"
  by (auto simp: eid_request_def eid_answer_def assignable_def plain_set_def eid_consts split: prod.splits)

text \<open>
  C36: the endpoint identifier after any sequence of SetEID requests. Every sequence is
  executed without undefined behaviour. The identifier is the one of the last request that
  took effect, or the old one when none did: null and broadcast identifiers never do, a
  forced assignment always does, and of the plain assignments only the first one ever, which
  takes effect even after a forced one, since forcing does not set the flag. Exactly the
  requests that took effect are answered as accepted, another plain assignment as rejected,
  null or broadcast identifiers, reset and the discovered flag as invalid data, and an
  unknown operation by no byte at all.
\<close>

theorem set_eid_history:
  "\<exists>outs s'. run_set_eid reqs s = Some (outs, s') \<and>
     EID s' = last (EID s # effective (eidSetFlag s \<noteq> 0) reqs) \<and>
     (eidSetFlag s' \<noteq> 0) = (eidSetFlag s \<noteq> 0 \<or> list_ex plain_set reqs) \<and>
     map (take 2) outs = map (eid_status (eidSetFlag s \<noteq> 0) reqs) [0..<length reqs]"
proof (induction reqs rule: rev_induct)
  case (snoc r reqs)
  let ?a = "eidSetFlag s \<noteq> 0"
  from snoc obtain outs s1 where 1: "run_set_eid reqs s = Some (outs, s1)"
    "EID s1 = last (EID s # effective ?a reqs)"
    "(eidSetFlag s1 \<noteq> 0) = (?a \<or> list_ex plain_set reqs)"
    "map (take 2) outs = map (eid_status ?a reqs) [0..<length reqs]" by blast
  from run_set_eid_one[of r s1] obtain s2 where 2:
    "run_set_eid [r] s1 = Some ([eid_answer r (snd (eid_state s1))], s2)"
    "eid_state s2 = eid_request r (eid_state s1)" by blast
  have st: "EID s2 = fst (eid_request r (EID s1, eidSetFlag s1 \<noteq> 0))"
    "(eidSetFlag s2 \<noteq> 0) = snd (eid_request r (EID s1, eidSetFlag s1 \<noteq> 0))"
    using 2(2) by (simp_all add: eid_state_def prod_eq_iff)
  have te: "takes_effect ?a (reqs @ [r]) (length reqs) =
      (fst r = FORCE_EID \<and> assignable r \<or> plain_set r \<and> \<not> (eidSetFlag s1 \<noteq> 0))"
    unfolding 1(3) takes_effect_append by blast
  have old: "map (eid_status ?a (reqs @ [r])) [0..<length reqs] = map (eid_status ?a reqs) [0..<length reqs]"
    by (intro map_cong) (auto simp: eid_status_def takes_effect_append nth_append)
  have new: "eid_status ?a (reqs @ [r]) (length reqs) = take 2 (eid_answer r (eidSetFlag s1 \<noteq> 0))"
    unfolding eid_request_cases eid_status_def te by simp
  have "EID s2 = last (EID s # effective ?a (reqs @ [r]))"
    unfolding st eid_request_cases effective_snoc te 1(2) by simp
  moreover have "(eidSetFlag s2 \<noteq> 0) = (?a \<or> list_ex plain_set (reqs @ [r]))"
    unfolding st eid_request_cases 1(3) by auto
  moreover have "map (take 2) (outs @ [eid_answer r (snd (eid_state s1))]) =
      map (eid_status ?a (reqs @ [r])) [0..<length (reqs @ [r])]"
    using 1(4) old new by (simp add: eid_state_def)
  ultimately show ?case using run_set_eid_append[OF 1(1) 2(1)] by blast
qed (simp add: effective_def)

lemma set_eid_history_witness:
  "\<exists>outs s'. run_set_eid [(FORCE_EID, 5), (SET_EID, 9), (SET_EID, 7), (SET_EID, 0)] (bmc_initial ()) = Some (outs, s') \<and>
     EID s' = 9 \<and> eidSetFlag s' \<noteq> 0 \<and> map (take 2) outs = [[0, 0], [0, 0], [0, 0x10], [2, 0]]"
  using set_eid_history[of "[(FORCE_EID, 5), (SET_EID, 9), (SET_EID, 7), (SET_EID, 0)]" "bmc_initial ()"]
  by (simp add: effective_def eid_status_def takes_effect_def plain_set_def assignable_def eid_consts
      upt_rec bmc_initial_def del: run_set_eid.simps)

section \<open>Packets of others\<close>

text \<open>
  Packets for other endpoints have no effect. A packet whose destination is neither the
  assigned identifier nor the null identifier is dropped whatever its content: nothing is
  transmitted, and identifiers, the reassembly context, the repository and the pending
  transfers stay as they are.
\<close>

theorem foreign_packet_dropped:
  assumes "length hdr = 4" "0 < length c" "length c \<le> 248"
    and "ucast (hdr ! 2) \<noteq> EID s" "hdr ! 2 \<noteq> 0"
  shows "\<exists>s'. receive_message env (put_rx (packet hdr f c) s) = Some s' \<and> world s' = world s \<and>
    EID s' = EID s \<and> eidSetFlag s' = eidSetFlag s \<and> TID s' = TID s \<and>
    multiPartReqBuffer s' = multiPartReqBuffer s \<and> staging_buff_size s' = staging_buff_size s \<and>
    prv_seq_num s' = prv_seq_num s \<and> MSP432_PDR_Repository s' = MSP432_PDR_Repository s \<and>
    GetPDRPendingXfers s' = GetPDRPendingXfers s"
proof -
  obtain b2 b3 b4 b5 where hdr: "hdr = [b2, b3, b4, b5]"
    using assms(1) by (auto simp: numeral_eq_Suc length_Suc_conv)
  have len: "length (packet hdr f c) = 5 + length c" using assms by (simp add: packet_def)
  have w: "7 + of_nat (length c) = (of_nat (7 + length c) :: u8)" by simp
  have "unat (7 + of_nat (length c) :: u8) = 7 + length c"
    unfolding w by (rule unat_of_nat_less) (use assms in simp)
  then have i: "uint (7 + of_nat (length c) :: u8) = 7 + int (length c)"
    by (metis of_nat_add of_nat_numeral uint_nat)
  have "ReqBuffer (received (packet hdr f c) s) = 0 # of_nat (5 + length c) # b2 # b3 # b4 # b5 # f # c
      @ replicate (248 - length c) 0"
    by (simp add: received_def request_buffer_def packet_def hdr)
  then show ?thesis
    using assms len
    by (simp add: receive_message_eq process_pmci_request_def Let_def hdr i mctp_consts)
      (simp add: received_def put_rx_def)
qed

lemma foreign_packet_dropped_witness:
  "\<exists>s'. receive_message sample_env (put_rx (packet [0x21, 1, 7, 8] 0xC8 [0, 0x81, 2]) (bmc_initial ())) = Some s' \<and>
     staging_buff_size s' = 0"
  using foreign_packet_dropped[of "[0x21, 1, 7, 8]" "[0, 0x81, 2]" "bmc_initial ()" sample_env "0xC8"]
  by (auto simp: bmc_initial_def)

section \<open>Limits\<close>

text \<open>
  The limits of the receive path. A message from the firmware interface is stored in the
  request buffer exactly when it has at most 253 bytes; the interface's own buffer has 256, and
  for 254 to 256 bytes the copy writes past the request buffer.
\<close>

theorem receive_overflow:
  assumes "bmc_ready (pxThis s)" "length (pucRxData (pxThis s)) = 256"
  shows "253 < unat (ulRxDataSize (pxThis s)) \<Longrightarrow> receive_message env s = None"
  using assms
  by (auto simp: receive_message_def wr_bytes_def MAX_BUFFER_SIZE_def rd_bytes_def Let_def)

lemma receive_overflow_witness:
  "receive_message sample_env ((bmc_initial ())\<lparr>pxThis := bmc_local_data\<lparr>bmcInitialised := True,
     ulRxDataSize := 254\<rparr>\<rparr>) = None"
  by (rule receive_overflow) (simp_all add: bmc_ready_def bmc_local_data_def MAX_RX_DATA_SIZE_def)

section \<open>Control requests\<close>

lemma control_call:
  assumes "2 \<le> length req" "17 \<le> length out" "16 \<le> length (pucUuid (pxThis s))"
  shows "\<exists>n out' s'. mctp_call f req out s = Some (n, out', s') \<and> unat n \<le> 17 \<and>
    length out' = length out \<and> world s' = world s \<and> pxThis s' = pxThis s \<and> ReqBuffer s' = ReqBuffer s \<and>
    request_pkt s' = request_pkt s"
proof -
  obtain b1 b2 rest where req: "req = b1 # b2 # rest"
    using assms(1) by (cases req; cases "tl req") auto
  obtain o1 o2 o3 o4 o5 o6 tl6 where out: "out = o1 # o2 # o3 # o4 # o5 # o6 # tl6"
  proof -
    have "Suc (Suc (Suc (Suc (Suc (Suc 0))))) \<le> length out" using assms(2) by simp
    then show ?thesis using that by (auto simp: Suc_le_length_iff)
  qed
  have tl: "11 \<le> length tl6" using assms(2) by (simp add: out)
  show ?thesis
    using assms(3) tl
    by (cases f)
      (auto simp: req out mctp_call_def mctp_cmd_SetEID_def set_eid_reply_def mctp_cmd_GetEID_def
        mctp_cmd_GetUUID_def iGetUuid_def mctp_cmd_GetMCTPVersion_def mctp_cmd_GetMCTPMsgType_def
        mctpSupportedMsgTypes_def wr8_def rd8_def rd_bytes_def HAL_UUID_SIZE_def wr_bytes_def)
qed

text \<open>The body of the answer to a control request, and the state after it.\<close>

definition control_body ::
  "u8 \<Rightarrow> u8 list \<Rightarrow> ('cb, 'x) bmc_state \<Rightarrow> u8 list \<Rightarrow> ('cb, 'x) bmc_state \<Rightarrow> bool" where
  "control_body cmd args s body s' \<longleftrightarrow> (case mctp_func ! unat cmd of
     None \<Rightarrow> body = [RESP_MCTP_CTRL_MSG_ERROR_MCTP_CMD_NS] \<and> s' = s
   | Some fn \<Rightarrow> \<exists>n out. mctp_call fn args (replicate 245 0) s = Some (n, out, s') \<and>
       body = take (unat n) out)"

lemma process_control:
  assumes u: "16 \<le> length (pucUuid (pxThis s))" and rq: "bit rq 7" and cmd: "unat cmd < 10"
    and h: "length h = 7" and args: "2 \<le> length args"
  shows "\<exists>body rest s'. process_request env (h @ 0 # rq # cmd # args) (replicate 255 0) s =
      Some (of_nat (3 + length body), replicate 8 0 @ (rq AND 0x1F) # cmd # body @ rest, s') \<and>
    length body \<le> 17 \<and> length (body @ rest) = 245 \<and> control_body cmd args (s\<lparr>request_pkt := True\<rparr>) body s' \<and>
    world s' = world s \<and> pxThis s' = pxThis s \<and> ReqBuffer s' = ReqBuffer s \<and> request_pkt s'"
proof -
  let ?s = "s\<lparr>request_pkt := True\<rparr>"
  have r7: "(replicate 255 0)[7 := 0] = (replicate 255 0 :: u8 list)"
    by (rule nth_equalityI) (auto simp: nth_list_update)
  have tbl: "length mctp_func = 10" by (simp add: mctp_func_def)
  have "replicate 247 0 = replicate (Suc (Suc 245)) (0 :: u8)"
    "replicate 245 0 = replicate (Suc 244) (0 :: u8)" by simp_all
  then have split: "replicate 247 0 = 0 # 0 # replicate 245 (0 :: u8)"
    "replicate 245 0 = 0 # replicate 244 (0 :: u8)" by (simp_all only: replicate_Suc)
  have init: "init_mctp_response (rq # cmd # args) (replicate 247 0) =
      Some ((rq AND 0x1F) # cmd # replicate 245 0)"
    unfolding split(1) by (simp add: init_mctp_response_def rd8_def)
  have step: "process_request env (h @ 0 # rq # cmd # args) (replicate 255 0) s =
    (do { (n, out, s2) \<leftarrow> process_mctp_request (rq # cmd # args) (replicate 247 0) True ?s;
          Some (of_nat (n + 1), replicate 8 0 @ out, s2) })"
    using h rq by (simp add: process_request_def mctp_consts r7 nth_append wr8_def)
  show ?thesis
  proof (cases "mctp_func ! unat cmd")
    case None
    have "process_mctp_request (rq # cmd # args) (replicate 247 0) True ?s =
        Some (3, (rq AND 0x1F) # cmd # RESP_MCTP_CTRL_MSG_ERROR_MCTP_CMD_NS # replicate 244 0, ?s)"
      using None cmd tbl init
      by (simp add: process_mctp_request_def get_mctp_func_def RESP_MCTP_CTRL_MSG_ERROR_MCTP_CMD_NS_def
          wr8_def split(2))
    then show ?thesis
      using step None
      by (intro exI[of _ "[RESP_MCTP_CTRL_MSG_ERROR_MCTP_CMD_NS]"] exI[of _ "replicate 244 0"] exI[of _ ?s])
        (simp add: control_body_def)
  next
    case (Some fn)
    have "17 \<le> length (replicate 245 (0 :: u8))" "16 \<le> length (pucUuid (pxThis ?s))" using u by simp_all
    from control_call[OF args this, of fn] obtain n out s2 where
      c: "mctp_call fn args (replicate 245 0) ?s = Some (n, out, s2)" "unat n \<le> 17"
        "length out = 245" "world s2 = world ?s" "pxThis s2 = pxThis ?s" "ReqBuffer s2 = ReqBuffer ?s"
        "request_pkt s2 = request_pkt ?s" by auto
    have "process_mctp_request (rq # cmd # args) (replicate 247 0) True ?s =
        Some (2 + unat n, (rq AND 0x1F) # cmd # out, s2)"
      using Some cmd tbl init c
      by (simp add: process_mctp_request_def get_mctp_func_def RESP_MCTP_CTRL_MSG_SUCCESS_def numeral_2_eq_2)
    then show ?thesis
      using step Some c
      by (intro exI[of _ "take (unat n) out"] exI[of _ "drop (unat n) out"] exI[of _ s2])
        (simp add: control_body_def)
  qed
qed

text \<open>
  C35: every control request is answered, once. A single-packet control request addressed to
  the endpoint with a command below the size of the command table is processed without
  undefined behaviour, and exactly one packet is written, to the address of the requester
  with the endpoints swapped: start and end of a message, the tag of the request, the message
  type, the instance with the request bit cleared, the command, and the body its function
  produces, or the completion code of an unsupported command.
\<close>

theorem control_request_answered:
  fixes s :: "('cb, 'x) bmc_state"
  assumes l: "reliable_link env log" and b: "bmc_ready (pxThis s)" "16 \<le> length (pucUuid (pxThis s))"
    and a: "accepts hdr (0 # rq # cmd # args) s" "length args \<le> 240"
    and f: "flags_som f" "flags_eom f" and rq: "bit rq 7" and cmd: "unat cmd < 10"
  shows "\<exists>s' g body (s1 :: ('cb, 'x) bmc_state) s2. receive_message env (put_rx (packet hdr f (0 # rq # cmd # args)) s) = Some s' \<and>
    log (world s') = log (world s) @ [(ucast (drop_bit 1 (hdr ! 0 AND NOT 1)),
       [0x31, hdr ! 1, hdr ! 3, hdr ! 2] @ g # 0 # (rq AND 0x1F) # cmd # body)] \<and>
    flags_som g \<and> flags_eom g \<and> g AND 7 = f AND 7 \<and>
    control_body cmd (args @ replicate (245 - length args) 0) s1 body s2 \<and> eid_state s1 = eid_state s"
proof -
  let ?c = "0 # rq # cmd # args"
  define s0 where "s0 = seen hdr (received (packet hdr f ?c) s)"
  have h: "length hdr = 4" using a by (simp add: accepts_def)
  define H where "H = rx_header hdr f ?c"
  have lH: "length H = 7" and Hn: "H ! 2 = hdr ! 0" "H ! 3 = hdr ! 1" "H ! 4 = hdr ! 2" "H ! 5 = hdr ! 3" "H ! 6 = f"
    using h by (auto simp: H_def rx_header_def nth_append nth_Cons')
  have buf: "ReqBuffer s0 = H @ 0 # rq # cmd # args @ replicate (245 - length args) 0"
    using seen_buffer[OF a(1), of f] by (simp add: s0_def H_def)
  have p0: "bmc_ready (pxThis s0)" "16 \<le> length (pucUuid (pxThis s0))" "world s0 = world s"
    "RespBuffer s0 = replicate 255 0" "eid_state s0 = eid_state s"
    using b by (simp_all add: s0_def seen_def received_def put_rx_def bmc_ready_def eid_state_def)
  have args2: "2 \<le> length (args @ replicate (245 - length args) (0 :: u8))" using a(2) by simp
  from process_control[OF p0(2) rq cmd lH args2, of env] obtain body rest s2 where
    pr: "process_request env (ReqBuffer s0) (replicate 255 0) s0 =
        Some (of_nat (3 + length body), replicate 8 0 @ (rq AND 0x1F) # cmd # body @ rest, s2)"
    and s2: "length body \<le> 17" "length (body @ rest) = 245" "world s2 = world s" "pxThis s2 = pxThis s0"
      "ReqBuffer s2 = ReqBuffer s0" "request_pkt s2"
      "control_body cmd (args @ replicate (245 - length args) 0) (s0\<lparr>request_pkt := True\<rparr>) body s2"
    by (auto simp: buf p0)
  let ?resp = "replicate 8 0 @ (rq AND 0x1F) # cmd # body @ rest"
  have sz: "unat (of_nat (3 + length body) :: u16) = 3 + length body"
    by (rule unat_of_nat_less) (use s2 in simp)
  have rcv: "receive_message env (put_rx (packet hdr f ?c) s) =
      send_response env (ReqBuffer s0) (3 + length body) ?resp s2"
    using f pr s2 sz p0(4) by (simp add: process_accepted[OF a(1)] on_packet_def s0_def[symmetric] respond_def)
  define g where "g = put_bit 6 True (put_bit 7 True (put_seq 0 ((0 AND NOT 7) OR (f AND 7))))"
  have g: "flags_som g" "flags_eom g" "g AND 7 = f AND 7"
    unfolding g_def by (simp_all only: flags_put tag_put tag_copy)
  have tk: "take (3 + length body) (drop 7 ?resp) = 0 # (rq AND 0x1F) # cmd # body" by (simp add: numeral_3_eq_3)
  have r6: "?resp ! 6 = 0" by (simp add: nth_append)
  have fr: "fragments (put_bit 7 True (put_seq 0 ((0 AND NOT 7) OR (f AND 7)))) (0 # (rq AND 0x1F) # cmd # body) =
      [(g, 0 # (rq AND 0x1F) # cmd # body)]"
    using s2(1) unfolding g_def by (subst fragments.simps) (simp add: MCTP_MAX_PAYLOAD_SIZE_def)
  have rb: "7 \<le> length (ReqBuffer s0)" "ReqBuffer s0 ! 2 = hdr ! 0" "ReqBuffer s0 ! 3 = hdr ! 1"
    "ReqBuffer s0 ! 4 = hdr ! 2" "ReqBuffer s0 ! 5 = hdr ! 3" "ReqBuffer s0 ! 6 = f"
    using lH Hn by (simp_all add: buf nth_append)
  have "bmc_ready (pxThis s2)" "0 < 3 + length body" "7 + (3 + length body) \<le> length ?resp"
    using p0 s2 by simp_all
  from send_response_log[OF l this(1) rb(1) this(2,3)] obtain s' where
    S: "send_response env (ReqBuffer s0) (3 + length body) ?resp s2 = Some s'"
    and L: "log (world s') = log (world s) @ [(ucast (drop_bit 1 (hdr ! 0 AND NOT 1)),
       [0x31, hdr ! 1, hdr ! 3, hdr ! 2] @ g # 0 # (rq AND 0x1F) # cmd # body)]"
    unfolding tk r6 rb fr s2(3) by auto
  have A: "receive_message env (put_rx (packet hdr f ?c) s) = Some s'"
    unfolding rcv by (rule S)
  have E: "eid_state (s0\<lparr>request_pkt := True\<rparr>) = eid_state s"
    using p0(5) by (simp add: eid_state_def)
  show ?thesis
    by (intro exI conjI) (rule A L g(1) g(2) g(3) s2(7) E)+
qed

lemma control_request_answered_witness:
  "\<exists>s' g body. receive_message (sample_env\<lparr>fwIfWrite := \<lambda>a d x. (True, x @ [(a, d)])\<rparr>)
      (put_rx (packet [0x21, 1, 0, 8] 0xC9 [0, 0x80, 2])
        ((bmc_initial [])\<lparr>pxThis := bmc_local_data\<lparr>bmcInitialised := True\<rparr>\<rparr>)) = Some s' \<and>
     world s' = [(0x10, [0x31, 1, 8, 0, g, 0, 0, 2] @ body)]"
  using control_request_answered[of "sample_env\<lparr>fwIfWrite := \<lambda>a d x. (True, x @ [(a, d)])\<rparr>" "\<lambda>x. x"
      "(bmc_initial [])\<lparr>pxThis := bmc_local_data\<lparr>bmcInitialised := True\<rparr>\<rparr>"
      "[0x21, 1, 0, 8]" "0x80" 2 "[]" "0xC9"]
  by (auto simp: reliable_link_def sample_env_def bmc_ready_def bmc_initial_def bmc_local_data_def
      accepts_def flags_som_def flags_eom_def HAL_UUID_SIZE_def)

end
