(* ===== verification/CText.thy ===== *)
theory CText
  imports Prelude
begin

text \<open>
  Text as C sees it: character buffers of fixed length with a terminating NUL, the digits
  that printf writes and strtol reads, and strncpy. A \<open>long\<close> of the firmware's target has
  32 bits.
\<close>

section \<open>Buffers\<close>

abbreviation NUL :: char where "NUL \<equiv> CHR 0x00"
abbreviation CR :: char where "CR \<equiv> CHR 0x0D"
abbreviation LF :: char where "LF \<equiv> CHR 0x0A"
abbreviation TAB :: char where "TAB \<equiv> CHR 0x09"

text \<open>The string that starts a buffer; reading past the end of the buffer is undefined.\<close>

definition c_string :: "string \<Rightarrow> string option" where
  "c_string b = (if NUL \<in> set b then Some (takeWhile (\<lambda>c. c \<noteq> NUL) b) else None)"

definition c_strncpy :: "nat \<Rightarrow> string \<Rightarrow> string \<Rightarrow> string" where
  "c_strncpy n src dest = take n (takeWhile (\<lambda>c. c \<noteq> NUL) src @ replicate n NUL) @ drop n dest"

lemma takeWhile_no_NUL: "NUL \<notin> set s \<Longrightarrow> takeWhile (\<lambda>c. c \<noteq> NUL) s = s"
  by (auto simp: takeWhile_eq_all_conv)

lemma c_string_append [simp]: "NUL \<notin> set s \<Longrightarrow> c_string (s @ NUL # r) = Some s"
  by (simp add: c_string_def takeWhile_append2[of s] takeWhile_no_NUL) (induction s, auto)

lemma c_strncpy_all: "NUL \<notin> set s \<Longrightarrow> c_strncpy (length s) s dest = s @ drop (length s) dest"
  by (simp add: c_strncpy_def takeWhile_no_NUL)

lemma c_strncpy_length [simp]: "n \<le> length dest \<Longrightarrow> length (c_strncpy n s dest) = length dest"
  by (simp add: c_strncpy_def)

section \<open>Digits\<close>

text \<open>The value of a digit of a number to base 10 or 16.\<close>

definition digit_of :: "nat \<Rightarrow> char \<Rightarrow> nat option" where
  "digit_of base c = (let k = of_char c :: nat;
       v = (if 48 \<le> k \<and> k \<le> 57 then k - 48
            else if 97 \<le> k \<and> k \<le> 122 then k - 87
            else if 65 \<le> k \<and> k \<le> 90 then k - 55 else 36)
     in if v < base then Some v else None)"

definition is_digit :: "nat \<Rightarrow> char \<Rightarrow> bool" where
  "is_digit base c \<longleftrightarrow> digit_of base c \<noteq> None"

definition digits_value :: "nat \<Rightarrow> string \<Rightarrow> nat" where
  "digits_value base s = foldl (\<lambda>v c. v * base + the (digit_of base c)) 0 s"

definition digit_char :: "nat \<Rightarrow> char" where
  "digit_char v = char_of (if v < 10 then v + 48 else v + 55)"

text \<open>printf of an unsigned number (\<open>%u\<close>, \<open>%X\<close>) and of an int (\<open>%d\<close>).\<close>

fun print_nat :: "nat \<Rightarrow> nat \<Rightarrow> string" where
  "print_nat base n =
     (if base < 2 \<or> n < base then [digit_char n]
      else print_nat base (n div base) @ [digit_char (n mod base)])"

declare print_nat.simps [simp del]

definition print_int :: "int \<Rightarrow> string" where
  "print_int i = (if i < 0 then CHR ''-'' # print_nat 10 (nat (- i)) else print_nat 10 (nat i))"

lemma digit_char_decimal [simp]:
  "digit_char 0 = CHR ''0''" "digit_char 1 = CHR ''1''" "digit_char (Suc 0) = CHR ''1''"
  "digit_char 2 = CHR ''2''" "digit_char 3 = CHR ''3''" "digit_char 4 = CHR ''4''"
  "digit_char 5 = CHR ''5''" "digit_char 6 = CHR ''6''" "digit_char 7 = CHR ''7''"
  "digit_char 8 = CHR ''8''" "digit_char 9 = CHR ''9''"
  by code_simp+

lemma digit_char_roundtrip: "v < base \<Longrightarrow> base \<le> 16 \<Longrightarrow> digit_of base (digit_char v) = Some v"
proof -
  assume "v < base" "base \<le> 16"
  then have "v < 16" by simp
  then have "of_char (digit_char v) = (if v < 10 then v + 48 else v + 55)"
    by (simp add: digit_char_def)
  then show ?thesis using \<open>v < base\<close> \<open>v < 16\<close> by (auto simp: digit_of_def Let_def)
qed

lemma print_nat_digits:
  "2 \<le> base \<Longrightarrow> base \<le> 16 \<Longrightarrow> \<forall>c \<in> set (print_nat base n). is_digit base c"
proof (induction base n rule: print_nat.induct)
  case (1 base n)
  show ?case
  proof (cases "n < base")
    case True
    then show ?thesis using "1.prems"
      by (simp add: print_nat.simps[of base n] is_digit_def digit_char_roundtrip)
  next
    case False
    then show ?thesis using 1
      by (simp add: print_nat.simps[of base n] is_digit_def digit_char_roundtrip)
  qed
qed

lemma print_nat_not_empty [simp]: "print_nat base n \<noteq> []"
  by (subst print_nat.simps) simp

lemma digits_value_print [simp]:
  "2 \<le> base \<Longrightarrow> base \<le> 16 \<Longrightarrow> digits_value base (print_nat base n) = n"
proof (induction base n rule: print_nat.induct)
  case (1 base n)
  show ?case
  proof (cases "n < base")
    case True
    then show ?thesis using "1.prems"
      by (simp add: print_nat.simps[of base n] digits_value_def digit_char_roundtrip)
  next
    case False
    then show ?thesis using 1
      by (simp add: print_nat.simps[of base n] digits_value_def digit_char_roundtrip)
  qed
qed

lemma is_digit_10: "is_digit 10 c \<longleftrightarrow> 48 \<le> (of_char c :: nat) \<and> of_char c \<le> (57 :: nat)"
  by (auto simp: is_digit_def digit_of_def Let_def)

lemma is_digit_plain:
  assumes "is_digit base c" "base \<le> 36"
  shows "c \<noteq> NUL" "c \<noteq> CR" "c \<noteq> LF" "c \<noteq> CHR '' ''" "c \<noteq> CHR ''-''" "c \<noteq> CHR ''+''"
  using assms by (auto simp: is_digit_def digit_of_def Let_def split: if_splits)

section \<open>strtol and strtoul\<close>

definition is_space :: "char \<Rightarrow> bool" where
  "is_space c \<longleftrightarrow> c \<in> {CHR '' '', TAB, LF, CHR 0x0B, CHR 0x0C, CR}"

definition LONG_MIN :: int where "LONG_MIN = - (2 ^ 31)"
definition LONG_MAX :: int where "LONG_MAX = 2 ^ 31 - 1"
definition ULONG_MAX :: nat where "ULONG_MAX = 2 ^ 32 - 1"

text \<open>
  The value, clamped to the range of a \<open>long\<close>, and how many characters were read: none
  when there is no number. A buffer that ends inside the number is read past its end.
\<close>

definition c_strtol :: "nat \<Rightarrow> string \<Rightarrow> (int \<times> nat) option" where
  "c_strtol base s =
     (let r = dropWhile is_space s;
          neg = (r \<noteq> [] \<and> hd r = CHR ''-'');
          r1 = (if r \<noteq> [] \<and> (hd r = CHR ''-'' \<or> hd r = CHR ''+'') then tl r else r);
          ds = takeWhile (is_digit base) r1;
          rest = drop (length ds) r1;
          v = int (digits_value base ds)
      in if rest = [] then None
         else if ds = [] then Some (0, 0)
         else Some (max LONG_MIN (min LONG_MAX (if neg then - v else v)), length s - length rest))"

text \<open>strtoul of a text that is only digits, the way the code calls it.\<close>

definition c_strtoul_digits :: "nat \<Rightarrow> string \<Rightarrow> nat option" where
  "c_strtoul_digits base s =
     (let ds = takeWhile (is_digit base) s
      in if ds = s then None else Some (min ULONG_MAX (digits_value base ds)))"

lemma is_digit_not_space: "is_digit base c \<Longrightarrow> base \<le> 36 \<Longrightarrow> \<not> is_space c"
  by (auto simp: is_space_def is_digit_def digit_of_def Let_def split: if_splits)

lemma takeWhile_digits:
  "\<forall>c \<in> set ds. p c \<Longrightarrow> \<not> p t \<Longrightarrow> takeWhile p (ds @ t # r) = ds"
  by (induction ds) auto

lemma c_strtol_digits:
  assumes ds: "ds \<noteq> []" "\<forall>c \<in> set ds. is_digit base c" and base: "base \<le> 36"
    and t: "\<not> is_digit base t" and v: "int (digits_value base ds) \<le> LONG_MAX"
  shows "c_strtol base (ds @ t # r) = Some (int (digits_value base ds), length ds)"
proof -
  obtain a as where a: "ds = a # as" using ds(1) by (cases ds) auto
  have "is_digit base a" using ds(2) a by simp
  note h = is_digit_not_space[OF this base] is_digit_plain[OF this base]
  have "takeWhile (is_digit base) (ds @ t # r) = ds" using takeWhile_digits[OF ds(2) t] .
  then show ?thesis
    using h v by (simp add: c_strtol_def Let_def a LONG_MIN_def)
qed

lemma c_strtol_progress:
  assumes "c_strtol base s = Some (v, n)" "v \<noteq> 0" shows "0 < n"
proof -
  let ?r = "dropWhile is_space s"
  let ?r1 = "if ?r \<noteq> [] \<and> (hd ?r = CHR ''-'' \<or> hd ?r = CHR ''+'') then tl ?r else ?r"
  let ?ds = "takeWhile (is_digit base) ?r1"
  have "?ds \<noteq> []" "n = length s - (length ?r1 - length ?ds)"
    using assms by (auto simp: c_strtol_def Let_def split: if_splits)
  moreover have "length ?r1 \<le> length s"
    using length_dropWhile_le[of is_space s] by auto
  moreover have "length ?ds \<le> length ?r1" by (simp only: length_takeWhile_le)
  ultimately show ?thesis by (cases "?ds") auto
qed

end
