(* ===== verification/Dal.thy ===== *)
theory Dal
  imports CText Prelude
begin

text \<open>
  The Debug Access Library (src/fw/AMC/src/common/core_libs/dal/dal.c): the debug menu, a tree
  of options that other modules build and an operator walks from a terminal. The menu
  options live in a heap that only grows, a handle being the index of an option; the
  world holds the results of the coming calls of \<open>cOSAL_GetChar\<close>, the texts handed to
  \<open>vPLL_Printf\<close> and the rest, on which the OS services and the debug functions act.
  A terminal that types nothing more blocks the caller for ever: the result is
  \<^term>\<open>None\<close>, like that of a NULL dereference.
\<close>

section \<open>Data\<close>

datatype DAL_MENU_OPTION_TYPE_ENUM = DAL_MENU_OPTION_TYPE_DIR | DAL_MENU_OPTION_TYPE_FUNC

datatype DAL_STATS =
    DAL_STATS_INIT_OVERALL_COMPLETE | DAL_STATS_CREATE_MUTEX | DAL_STATS_TAKE_MUTEX
  | DAL_STATS_RELEASE_MUTEX | DAL_STATS_OPTION_CREATED | DAL_STATS_DIRECTORY_CREATED
  | DAL_STATS_SUB_DIRECTORY_CREATED | DAL_STATS_DEBUG_FUNCTION_CREATED | DAL_STATS_NEW_COMMAND

datatype DAL_ERRORS =
    DAL_ERRORS_INIT_TASK_CREATE_FAILED | DAL_ERRORS_INIT_MUTEX_CREATE_FAILED
  | DAL_ERRORS_MUTEX_RELEASE_FAILED | DAL_ERRORS_MUTEX_TAKE_FAILED
  | DAL_ERRORS_OPTION_NOT_CREATED | DAL_ERRORS_DIRECTORY_NOT_CREATED
  | DAL_ERRORS_SUB_DIRECTORY_NOT_CREATED | DAL_ERRORS_DEBUG_FUNCTION_NOT_CREATED
  | DAL_ERRORS_VALIDATION_FAILED | DAL_ERRORS_COMMAND_LIST_NULL_POINTER
  | DAL_ERRORS_UNKNOWN_CHAR_IN_COMMAND_LINE | DAL_ERRORS_UNKNOWN_COMMAND
  | DAL_ERRORS_NULL_INPUT_POINTER | DAL_ERRORS_WRONG_INPUT_BUF_SIZE

text \<open>The union of the two pointers remembers which of them was stored last.\<close>

datatype 'f DAL_MENU_ACTION = DebugFunc "'f option" | LevelDown "nat option"

record 'f DAL_MENU_OPTION =
  pcName :: string
  xNodeType :: DAL_MENU_OPTION_TYPE_ENUM
  xAction :: "'f DAL_MENU_ACTION"
  pxLevelUp :: "nat option"
  pxNextNode :: "nat option"
  pxLastNode :: "nat option"
  iNumNodes :: int
  iDepth :: int

record 'f DAL_PRIVATE_DATA =
  dalUpperFirewall :: u32
  dalIsInitialised :: bool
  pcMenuName :: string
  pxInitFunc :: "'f option"
  dalNumNodes :: int
  pxTopLevel :: "nat option"
  pxCurrentLevel :: "nat option"
  pcLastCmd :: string
  dalStats :: "DAL_STATS \<Rightarrow> u32"
  dalErrors :: "DAL_ERRORS \<Rightarrow> u32"
  dalLowerFirewall :: u32
  dalHeap :: "'f DAL_MENU_OPTION list"

record 'x dal_world =
  dalInput :: string
  dalOutput :: "string list"
  dalOutside :: 'x

record ('f, 'x) dal_env =
  dalMutexCreate :: "'x \<Rightarrow> bool \<times> 'x"
  dalTaskCreate :: "'x \<Rightarrow> bool \<times> 'x"
  dalMutexTake :: "'x \<Rightarrow> bool \<times> 'x"
  dalMutexRelease :: "'x \<Rightarrow> bool \<times> 'x"
  dalMemAlloc :: "'x \<Rightarrow> 'f DAL_MENU_OPTION option \<times> 'x"
  dalStringSem :: "'x \<Rightarrow> bool \<times> 'x"
  dalMemCpySem :: "'x \<Rightarrow> bool \<times> 'x"
  dalCall :: "'f \<Rightarrow> 'x dal_world \<Rightarrow> 'x dal_world option"

definition DAL_UPPER_FIREWALL :: u32 where "DAL_UPPER_FIREWALL = 0xBABECAFE"
definition DAL_LOWER_FIREWALL :: u32 where "DAL_LOWER_FIREWALL = 0xDEADFACE"
definition DAL_MAX_NAME_LEN :: nat where "DAL_MAX_NAME_LEN = 50"
definition DAL_MAX_INPUT :: nat where "DAL_MAX_INPUT = 256"
definition DAL_MSG_MAX_LEN :: nat where "DAL_MSG_MAX_LEN = 256"
definition DAL_PROMPT :: string where "DAL_PROMPT = ''#>''"
definition DAL_TOP_MENU_NAME :: string where "DAL_TOP_MENU_NAME = ''*''"

definition dal_local_data :: "'f DAL_PRIVATE_DATA" where
  "dal_local_data = \<lparr> dalUpperFirewall = DAL_UPPER_FIREWALL, dalIsInitialised = False,
     pcMenuName = replicate DAL_MAX_NAME_LEN NUL, pxInitFunc = None, dalNumNodes = 0,
     pxTopLevel = None, pxCurrentLevel = None, pcLastCmd = replicate DAL_MAX_INPUT NUL,
     dalStats = (\<lambda>_. 0), dalErrors = (\<lambda>_. 0), dalLowerFirewall = DAL_LOWER_FIREWALL,
     dalHeap = [] \<rparr>"

definition dal_inc_stat :: "DAL_STATS \<Rightarrow> 'f DAL_PRIVATE_DATA \<Rightarrow> 'f DAL_PRIVATE_DATA" where
  "dal_inc_stat x d = d\<lparr>dalStats := (dalStats d)(x := dalStats d x + 1)\<rparr>"

definition dal_inc_error :: "DAL_ERRORS \<Rightarrow> 'f DAL_PRIVATE_DATA \<Rightarrow> 'f DAL_PRIVATE_DATA" where
  "dal_inc_error x d = d\<lparr>dalErrors := (dalErrors d)(x := dalErrors d x + 1)\<rparr>"

definition dal_firewalls :: "'f DAL_PRIVATE_DATA \<Rightarrow> bool" where
  "dal_firewalls d \<longleftrightarrow> DAL_UPPER_FIREWALL = dalUpperFirewall d \<and>
     DAL_LOWER_FIREWALL = dalLowerFirewall d"

definition dal_ready :: "'f DAL_PRIVATE_DATA \<Rightarrow> bool" where
  "dal_ready d \<longleftrightarrow> dal_firewalls d \<and> dalIsInitialised d"

text \<open>One call of \<open>vPLL_Printf\<close>, and a service of the OS as a step of the world.\<close>

definition dal_print :: "string \<Rightarrow> 'x dal_world \<Rightarrow> 'x dal_world" where
  "dal_print t w = w\<lparr>dalOutput := dalOutput w @ [t]\<rparr>"

definition dal_os :: "('x \<Rightarrow> 'a \<times> 'x) \<Rightarrow> 'x dal_world \<Rightarrow> 'a \<times> 'x dal_world" where
  "dal_os f w = (case f (dalOutside w) of (a, x) \<Rightarrow> (a, w\<lparr>dalOutside := x\<rparr>))"

text \<open>
  \<open>pcOSAL_StrNCpy\<close> and \<open>pvOSAL_MemCpy\<close>: nothing is copied when the size is 0 or the
  semaphore of the function could not be taken.
\<close>

definition pcOSAL_StrNCpy :: "bool \<Rightarrow> string \<Rightarrow> string \<Rightarrow> nat \<Rightarrow> string" where
  "pcOSAL_StrNCpy taken dest src n = (if 0 < n \<and> taken then c_strncpy n src dest else dest)"

definition pvOSAL_MemCpy :: "bool \<Rightarrow> string \<Rightarrow> string \<Rightarrow> nat \<Rightarrow> string" where
  "pvOSAL_MemCpy taken dest src n = (if 0 < n \<and> taken then take n src @ drop n dest else dest)"

end
