(* ===== verification/DalMenu.thy ===== *)
theory DalMenu
  imports Dal
begin

text \<open>
  The menu of the Debug Access Library: initialisation, the functions that add options,
  selection of an option, and the printing of a level or of the whole menu.
\<close>

section \<open>Options of the heap\<close>

definition upd_node :: "nat \<Rightarrow> ('f DAL_MENU_OPTION \<Rightarrow> 'f DAL_MENU_OPTION)
    \<Rightarrow> 'f DAL_MENU_OPTION list \<Rightarrow> 'f DAL_MENU_OPTION list" where
  "upd_node i f h = h[i := f (h ! i)]"

text \<open>Reading \<open>pxLevelDown\<close> of the union after \<open>pxDebugFunc\<close> was stored is undefined.\<close>

definition level_down :: "'f DAL_MENU_OPTION \<Rightarrow> nat option option" where
  "level_down x = (case xAction x of LevelDown l \<Rightarrow> Some l | DebugFunc f \<Rightarrow> None)"

section \<open>Initialisation\<close>

definition iDAL_Initialise ::
  "('f, 'x) dal_env \<Rightarrow> string option \<Rightarrow> 'f option \<Rightarrow> 'f DAL_PRIVATE_DATA \<Rightarrow> 'x dal_world
   \<Rightarrow> int \<times> 'f DAL_PRIVATE_DATA \<times> 'x dal_world" where
  "iDAL_Initialise env name banner d w =
     (case name of
        None \<Rightarrow> (ERROR, dal_inc_error DAL_ERRORS_VALIDATION_FAILED d, w)
      | Some nm \<Rightarrow>
        if dal_firewalls d \<and> length nm \<le> DAL_MAX_NAME_LEN \<and> \<not> dalIsInitialised d
           \<and> banner \<noteq> None
        then let (mtx, w1) = dal_os (dalMutexCreate env) w in
          if \<not> mtx then (ERROR, dal_inc_error DAL_ERRORS_INIT_MUTEX_CREATE_FAILED d, w1)
          else let (task, w2) = dal_os (dalTaskCreate env) w1 in
            if \<not> task then (ERROR, dal_inc_error DAL_ERRORS_INIT_TASK_CREATE_FAILED d, w2)
            else let d1 = dal_inc_stat DAL_STATS_CREATE_MUTEX d;
                     (blk, w3) = dal_os (dalMemAlloc env) w2 in
              (case blk of
                 None \<Rightarrow> (ERROR, dal_inc_error DAL_ERRORS_OPTION_NOT_CREATED
                                   (d1\<lparr>pxTopLevel := None\<rparr>), w3)
               | Some b \<Rightarrow>
                 let t = length (dalHeap d1);
                     (s1, w4) = dal_os (dalStringSem env) w3;
                     (s2, w5) = dal_os (dalMemCpySem env) w4;
                     top = b\<lparr>pcName := pvOSAL_MemCpy s2 (pcName b) DAL_TOP_MENU_NAME
                                        (length DAL_TOP_MENU_NAME),
                             pxNextNode := None, pxLastNode := None, iNumNodes := 0,
                             xAction := LevelDown None, pxLevelUp := None,
                             xNodeType := DAL_MENU_OPTION_TYPE_DIR\<rparr>
                 in (OK, (dal_inc_stat DAL_STATS_INIT_OVERALL_COMPLETE
                           (dal_inc_stat DAL_STATS_OPTION_CREATED d1))
                      \<lparr>pcMenuName := pcOSAL_StrNCpy s1 (pcMenuName d) nm (length nm),
                       dalHeap := dalHeap d1 @ [top], pxTopLevel := Some t,
                       pxCurrentLevel := Some t, pxInitFunc := banner,
                       dalIsInitialised := True\<rparr>, w5))
        else (ERROR, dal_inc_error DAL_ERRORS_VALIDATION_FAILED d, w))"

section \<open>Adding an option\<close>

text \<open>
  The new option's fields over the block \<open>b\<close> as the allocator returned it, then the links:
  option \<open>n\<close> becomes the first of its level, or is appended after the last one, which the
  first of the level remembers.
\<close>

definition new_node :: "bool \<Rightarrow> string \<Rightarrow> nat \<Rightarrow> 'f option \<Rightarrow> 'f DAL_MENU_OPTION
    \<Rightarrow> 'f DAL_MENU_OPTION" where
  "new_node taken nm p fn b =
     b\<lparr>pcName := pcOSAL_StrNCpy taken (pcName b) nm (length nm), pxNextNode := None,
       pxLastNode := None, iNumNodes := 0, pxLevelUp := Some p,
       xNodeType := (if fn \<noteq> None then DAL_MENU_OPTION_TYPE_FUNC
                     else DAL_MENU_OPTION_TYPE_DIR),
       xAction := (if fn \<noteq> None then DebugFunc fn else LevelDown None)\<rparr>"

definition append_to_parent :: "nat \<Rightarrow> nat \<Rightarrow> 'f DAL_MENU_OPTION list
    \<Rightarrow> 'f DAL_MENU_OPTION list option" where
  "append_to_parent p n h0 =
     (let h1 = upd_node p (\<lambda>x. x\<lparr>iNumNodes := iNumNodes x + 1\<rparr>) h0;
          h = upd_node n (\<lambda>x. x\<lparr>iDepth := iDepth (h1 ! p) + 1\<rparr>) h1
      in case level_down (h ! p) of
           None \<Rightarrow> None
         | Some None \<Rightarrow>
             Some (upd_node n (\<lambda>x. x\<lparr>pxNextNode := None, pxLastNode := None, iNumNodes := 1\<rparr>)
                    (upd_node p (\<lambda>x. x\<lparr>xAction := LevelDown (Some n)\<rparr>) h))
         | Some (Some c) \<Rightarrow>
             if c < length h
             then (case pxNextNode (h ! c) of
                 None \<Rightarrow> Some (upd_node c (\<lambda>x. x\<lparr>pxNextNode := Some n, pxLastNode := Some n,
                                                iNumNodes := iNumNodes x + 1\<rparr>) h)
               | Some _ \<Rightarrow> (case pxLastNode (h ! c) of
                   None \<Rightarrow> None
                 | Some l \<Rightarrow>
                   if l < length h
                   then Some (upd_node c (\<lambda>x. x\<lparr>pxLastNode := Some n,
                                             iNumNodes := iNumNodes x + 1\<rparr>)
                               (upd_node l (\<lambda>x. x\<lparr>pxNextNode := Some n\<rparr>) h))
                   else None))
             else None)"

definition xNewMenuItem ::
  "('f, 'x) dal_env \<Rightarrow> string option \<Rightarrow> nat option \<Rightarrow> 'f option \<Rightarrow> 'f DAL_PRIVATE_DATA
   \<Rightarrow> 'x dal_world \<Rightarrow> (nat option \<times> 'f DAL_PRIVATE_DATA \<times> 'x dal_world) option" where
  "xNewMenuItem env name parent fn d w =
     (case (name, parent) of
        (Some nm, Some p) \<Rightarrow>
          if length nm \<le> DAL_MAX_NAME_LEN then
            if p < length (dalHeap d) then
              if xNodeType (dalHeap d ! p) = DAL_MENU_OPTION_TYPE_DIR \<and> dalIsInitialised d
              then let (blk, w1) = dal_os (dalMemAlloc env) w in
                (case blk of
                   None \<Rightarrow> Some (None, dal_inc_error DAL_ERRORS_OPTION_NOT_CREATED d, w1)
                 | Some b \<Rightarrow>
                   let (taken, w2) = dal_os (dalStringSem env) w1; n = length (dalHeap d)
                   in case append_to_parent p n (dalHeap d @ [new_node taken nm p fn b]) of
                        None \<Rightarrow> None
                      | Some h \<Rightarrow> Some (Some n,
                          (dal_inc_stat DAL_STATS_OPTION_CREATED d)\<lparr>dalHeap := h\<rparr>, w2))
              else Some (None, d, w)
            else None
          else Some (None, d, w)
      | _ \<Rightarrow> Some (None, d, w))"

text \<open>The part the three public functions share: add the option under the mutex and count.\<close>

definition new_item_locked ::
  "('f, 'x) dal_env \<Rightarrow> string option \<Rightarrow> nat option \<Rightarrow> 'f option \<Rightarrow> DAL_STATS \<Rightarrow> DAL_ERRORS
   \<Rightarrow> 'f DAL_PRIVATE_DATA \<Rightarrow> 'x dal_world
   \<Rightarrow> (nat option \<times> 'f DAL_PRIVATE_DATA \<times> 'x dal_world) option" where
  "new_item_locked env name parent fn made failed d w =
     (let (taken, w1) = dal_os (dalMutexTake env) w in
      if taken
      then (case xNewMenuItem env name parent fn (dal_inc_stat DAL_STATS_TAKE_MUTEX d) w1 of
          None \<Rightarrow> None
        | Some (hdl, d1, w2) \<Rightarrow>
          let d2 = (if hdl \<noteq> None then dal_inc_stat made d1 else dal_inc_error failed d1);
              (ok, w3) = dal_os (dalMutexRelease env) w2
          in Some (hdl, if ok then dal_inc_stat DAL_STATS_RELEASE_MUTEX d2
                        else dal_inc_error DAL_ERRORS_MUTEX_RELEASE_FAILED d2, w3))
      else Some (None, dal_inc_error DAL_ERRORS_MUTEX_TAKE_FAILED d, w1))"

definition pxDAL_NewDirectory ::
  "('f, 'x) dal_env \<Rightarrow> string option \<Rightarrow> 'f DAL_PRIVATE_DATA \<Rightarrow> 'x dal_world
   \<Rightarrow> (nat option \<times> 'f DAL_PRIVATE_DATA \<times> 'x dal_world) option" where
  "pxDAL_NewDirectory env name d w =
     (if dal_ready d \<and> name \<noteq> None
      then new_item_locked env name (pxTopLevel d) None DAL_STATS_DIRECTORY_CREATED
             DAL_ERRORS_DIRECTORY_NOT_CREATED d w
      else Some (None, dal_inc_error DAL_ERRORS_VALIDATION_FAILED d, w))"

definition pxDAL_NewSubDirectory ::
  "('f, 'x) dal_env \<Rightarrow> string option \<Rightarrow> nat option \<Rightarrow> 'f DAL_PRIVATE_DATA \<Rightarrow> 'x dal_world
   \<Rightarrow> (nat option \<times> 'f DAL_PRIVATE_DATA \<times> 'x dal_world) option" where
  "pxDAL_NewSubDirectory env name parent d w =
     (case parent of
        Some p \<Rightarrow>
          if dal_ready d \<and> name \<noteq> None
          then if p < length (dalHeap d)
            then if xNodeType (dalHeap d ! p) = DAL_MENU_OPTION_TYPE_DIR
              then new_item_locked env name parent None DAL_STATS_SUB_DIRECTORY_CREATED
                     DAL_ERRORS_SUB_DIRECTORY_NOT_CREATED d w
              else Some (None, d, w)
            else None
          else Some (None, dal_inc_error DAL_ERRORS_VALIDATION_FAILED d, w)
      | None \<Rightarrow> Some (None, dal_inc_error DAL_ERRORS_VALIDATION_FAILED d, w))"

definition pxDAL_NewDebugFunction ::
  "('f, 'x) dal_env \<Rightarrow> string option \<Rightarrow> nat option \<Rightarrow> 'f option \<Rightarrow> 'f DAL_PRIVATE_DATA
   \<Rightarrow> 'x dal_world \<Rightarrow> (nat option \<times> 'f DAL_PRIVATE_DATA \<times> 'x dal_world) option" where
  "pxDAL_NewDebugFunction env name parent fn d w =
     (case parent of
        Some p \<Rightarrow>
          if dal_ready d \<and> name \<noteq> None \<and> fn \<noteq> None
          then if p < length (dalHeap d)
            then if xNodeType (dalHeap d ! p) = DAL_MENU_OPTION_TYPE_DIR
              then new_item_locked env name parent fn DAL_STATS_DEBUG_FUNCTION_CREATED
                     DAL_ERRORS_DEBUG_FUNCTION_NOT_CREATED d w
              else Some (None, d, w)
            else None
          else Some (None, dal_inc_error DAL_ERRORS_VALIDATION_FAILED d, w)
      | None \<Rightarrow> Some (None, dal_inc_error DAL_ERRORS_VALIDATION_FAILED d, w))"

section \<open>Printing\<close>

definition option_line :: "nat \<Rightarrow> string \<Rightarrow> 'f DAL_MENU_OPTION \<Rightarrow> string" where
  "option_line i nm x = print_nat 10 i @ '':'' @ nm
     @ (if xNodeType x = DAL_MENU_OPTION_TYPE_DIR then ''/'' else ''()'') @ [CR, LF]"

definition option_tabs :: "bool \<Rightarrow> 'f DAL_MENU_OPTION \<Rightarrow> string list" where
  "option_tabs inc x = (if inc then replicate (nat (iDepth x)) [TAB] else [[TAB]])"

text \<open>\<open>vPrintNextLevel\<close> from option \<open>l\<close> on, which has number \<open>i\<close>; the texts it prints.\<close>

partial_function (option) vPrintNextLevel ::
  "'f DAL_MENU_OPTION list \<Rightarrow> bool \<Rightarrow> nat option \<Rightarrow> nat \<Rightarrow> string list option" where
  "vPrintNextLevel h inc l i =
     (case l of
        None \<Rightarrow> Some []
      | Some n \<Rightarrow>
        if n < length h then
          (do {
            nm \<leftarrow> c_string (pcName (h ! n));
            sub \<leftarrow> (if inc \<and> xNodeType (h ! n) = DAL_MENU_OPTION_TYPE_DIR
                   then do {
                     down \<leftarrow> level_down (h ! n);
                     (if down \<noteq> None then vPrintNextLevel h True down 1 else Some [])
                   }
                   else Some []);
            rest \<leftarrow> vPrintNextLevel h inc (pxNextNode (h ! n)) (i + 1);
            Some (option_tabs inc (h ! n) @ [option_line i nm (h ! n)] @ sub @ rest)
          })
        else None)"

definition dal_prints :: "string list \<Rightarrow> 'x dal_world \<Rightarrow> 'x dal_world" where
  "dal_prints ts w = w\<lparr>dalOutput := dalOutput w @ ts\<rparr>"

definition level_title :: "string \<Rightarrow> string" where
  "level_title nm = [CR, LF] @ nm @ ''/'' @ [CR, LF]"

definition vPrintMenu :: "'f DAL_PRIVATE_DATA \<Rightarrow> 'x dal_world \<Rightarrow> 'x dal_world option" where
  "vPrintMenu d w =
     (case pxTopLevel d of
        Some t \<Rightarrow>
          if dalIsInitialised d
          then if t < length (dalHeap d) then do {
              nm \<leftarrow> c_string (pcName (dalHeap d ! t));
              down \<leftarrow> level_down (dalHeap d ! t);
              ts \<leftarrow> vPrintNextLevel (dalHeap d) True down 1;
              Some (dal_prints (level_title nm # ts) w)
            } else None
          else Some w
      | None \<Rightarrow> Some w)"

definition vPrintCurrentLevel :: "'f DAL_PRIVATE_DATA \<Rightarrow> 'x dal_world \<Rightarrow> 'x dal_world option" where
  "vPrintCurrentLevel d w =
     (case pxCurrentLevel d of
        Some c \<Rightarrow>
          if c < length (dalHeap d) then do {
            nm \<leftarrow> c_string (pcName (dalHeap d ! c));
            up \<leftarrow> (case pxLevelUp (dalHeap d ! c) of
                None \<Rightarrow> Some []
              | Some u \<Rightarrow> if u < length (dalHeap d)
                  then do {
                    um \<leftarrow> c_string (pcName (dalHeap d ! u));
                    Some [[TAB] @ ''0:../'' @ um @ [CR, LF]]
                  }
                  else None);
            down \<leftarrow> level_down (dalHeap d ! c);
            ts \<leftarrow> vPrintNextLevel (dalHeap d) False down 1;
            Some (dal_prints (level_title nm # up @ ts) w)
          } else None
      | None \<Rightarrow> Some w)"

section \<open>Selection\<close>

text \<open>The walk along a level: \<open>steps\<close> is how often \<open>i++ < iCmd\<close> still holds.\<close>

fun walk_level :: "'f DAL_MENU_OPTION list \<Rightarrow> nat option \<Rightarrow> nat \<Rightarrow> nat option option" where
  "walk_level h None steps = Some None"
| "walk_level h (Some n) 0 = Some (Some n)"
| "walk_level h (Some n) (Suc steps) =
     (if n < length h then walk_level h (pxNextNode (h ! n)) steps else None)"

definition iSelectOption ::
  "('f, 'x) dal_env \<Rightarrow> int \<Rightarrow> 'f DAL_PRIVATE_DATA \<Rightarrow> 'x dal_world
   \<Rightarrow> (int \<times> 'f DAL_PRIVATE_DATA \<times> 'x dal_world) option" where
  "iSelectOption env iCmd d w =
     (case pxCurrentLevel d of
        Some c \<Rightarrow>
          if 0 < iCmd
          then if c < length (dalHeap d)
            then if iCmd \<le> iNumNodes (dalHeap d ! c)
              then do {
                down \<leftarrow> level_down (dalHeap d ! c);
                sel \<leftarrow> walk_level (dalHeap d) down (nat iCmd - 1);
                (case sel of
                   None \<Rightarrow> Some (ERROR, d, w)
                 | Some s \<Rightarrow>
                   if s < length (dalHeap d)
                   then (case xNodeType (dalHeap d ! s) of
                       DAL_MENU_OPTION_TYPE_DIR \<Rightarrow> Some (OK, d\<lparr>pxCurrentLevel := Some s\<rparr>, w)
                     | DAL_MENU_OPTION_TYPE_FUNC \<Rightarrow>
                       (case xAction (dalHeap d ! s) of
                          DebugFunc (Some f) \<Rightarrow> do {
                            w1 \<leftarrow> dalCall env f (dal_print [CR, LF] w);
                            Some (OK, d, w1)
                          }
                        | DebugFunc None \<Rightarrow> Some (ERROR, d, w)
                        | LevelDown l \<Rightarrow> None))
                   else None)
              }
              else Some (ERROR, d, w)
            else None
          else Some (ERROR, d, w)
      | None \<Rightarrow> Some (ERROR, d, w))"

end
