(* ===== verification/DalTree.thy ===== *)
theory DalTree
  imports DalMenu
begin

text \<open>
  The shape of the debug menu: the options of a level, in the order they were added, are
  linked from the directory's \<open>pxLevelDown\<close> through \<open>pxNextNode\<close>. Adding an option keeps
  the shape and appends to one level; selecting picks the option the operator numbered;
  printing ends and shows every option.
\<close>

section \<open>The invariant of the menu\<close>

definition kids :: "'f DAL_MENU_OPTION list \<Rightarrow> nat \<Rightarrow> nat list" where
  "kids h p = filter (\<lambda>i. pxLevelUp (h ! i) = Some p) [0..<length h]"

primrec chain :: "'f DAL_MENU_OPTION list \<Rightarrow> nat option \<Rightarrow> nat list \<Rightarrow> bool" where
  "chain h l [] \<longleftrightarrow> l = None"
| "chain h l (k # ks) \<longleftrightarrow> l = Some k \<and> k < length h \<and> chain h (pxNextNode (h ! k)) ks"

text \<open>
  The count of an option is the number of its own options; the first option of a level
  also counts the options of that level.
\<close>

definition level_count :: "'f DAL_MENU_OPTION list \<Rightarrow> nat \<Rightarrow> nat" where
  "level_count h i = (case pxLevelUp (h ! i) of None \<Rightarrow> 0
     | Some q \<Rightarrow> if hd (kids h q) = i then length (kids h q) else 0)"

definition node_ok :: "'f DAL_MENU_OPTION list \<Rightarrow> nat \<Rightarrow> bool" where
  "node_ok h i \<longleftrightarrow>
     (case pxLevelUp (h ! i) of None \<Rightarrow> i = 0
      | Some p \<Rightarrow> p < i \<and> xNodeType (h ! p) = DAL_MENU_OPTION_TYPE_DIR
                  \<and> iDepth (h ! i) = iDepth (h ! p) + 1) \<and>
     (case xNodeType (h ! i) of
        DAL_MENU_OPTION_TYPE_DIR \<Rightarrow> (\<exists>l. xAction (h ! i) = LevelDown l \<and> chain h l (kids h i))
      | DAL_MENU_OPTION_TYPE_FUNC \<Rightarrow> (\<exists>f. xAction (h ! i) = DebugFunc (Some f))) \<and>
     (2 \<le> length (kids h i) \<longrightarrow> pxLastNode (h ! hd (kids h i)) = Some (last (kids h i))) \<and>
     iNumNodes (h ! i) = int (length (kids h i) + level_count h i)"

definition menu_inv :: "'f DAL_MENU_OPTION list \<Rightarrow> bool" where
  "menu_inv h \<longleftrightarrow> 0 < length h \<and> pxLevelUp (h ! 0) = None \<and> (\<forall>i < length h. node_ok h i)"

lemma distinct_kids [simp]: "distinct (kids h p)"
  by (simp add: kids_def)

lemma kids_less: "k \<in> set (kids h p) \<Longrightarrow> k < length h"
  by (simp add: kids_def)

lemma kids_up: "k \<in> set (kids h p) \<Longrightarrow> pxLevelUp (h ! k) = Some p"
  by (simp add: kids_def)

lemma menu_inv_node: "menu_inv h \<Longrightarrow> i < length h \<Longrightarrow> node_ok h i"
  by (simp add: menu_inv_def)

lemma kids_greater: "menu_inv h \<Longrightarrow> k \<in> set (kids h p) \<Longrightarrow> p < k"
  using menu_inv_node[of h k] by (auto simp: node_ok_def kids_def)

lemma kids_dir:
  assumes "menu_inv h" "kids h p \<noteq> []" shows "xNodeType (h ! p) = DAL_MENU_OPTION_TYPE_DIR"
proof -
  obtain k where "k \<in> set (kids h p)" using assms(2) by (cases "kids h p") auto
  then show ?thesis using menu_inv_node[OF assms(1), of k] by (auto simp: node_ok_def kids_def)
qed

lemma dir_chain:
  assumes "menu_inv h" "p < length h" "xNodeType (h ! p) = DAL_MENU_OPTION_TYPE_DIR"
  obtains l where "xAction (h ! p) = LevelDown l" "chain h l (kids h p)"
  using menu_inv_node[OF assms(1,2)] assms(3) by (auto simp: node_ok_def)

lemma chain_frame:
  "chain h l ks \<Longrightarrow> (\<And>k. k \<in> set ks \<Longrightarrow> k < length h' \<and> pxNextNode (h' ! k) = pxNextNode (h ! k))
   \<Longrightarrow> chain h' l ks"
  by (induction ks arbitrary: l) auto

lemma chain_snoc:
  "chain h l ks \<Longrightarrow> ks \<noteq> [] \<Longrightarrow> distinct ks \<Longrightarrow> n < length h' \<Longrightarrow> pxNextNode (h' ! n) = None
   \<Longrightarrow> pxNextNode (h' ! last ks) = Some n
   \<Longrightarrow> (\<And>k. k \<in> set ks \<Longrightarrow> k < length h')
   \<Longrightarrow> (\<And>k. k \<in> set ks \<Longrightarrow> k \<noteq> last ks \<Longrightarrow> pxNextNode (h' ! k) = pxNextNode (h ! k))
   \<Longrightarrow> chain h' l (ks @ [n])"
proof (induction ks arbitrary: l)
  case (Cons k ks)
  show ?case
  proof (cases ks)
    case Nil
    then show ?thesis using Cons.prems by simp
  next
    case (Cons a as)
    then have k: "k \<noteq> last ks" "last (k # ks) = last ks"
      using Cons.prems(3) last_in_set[of ks] by auto
    have "chain h' (pxNextNode (h ! k)) (ks @ [n])"
      using Cons.prems k Cons by (intro Cons.IH) simp_all
    moreover have "pxNextNode (h' ! k) = pxNextNode (h ! k)" "k < length h'" "l = Some k"
      using Cons.prems k by simp_all
    ultimately show ?thesis by simp
  qed
qed simp

lemma chain_last: "chain h l ks \<Longrightarrow> ks \<noteq> [] \<Longrightarrow> pxNextNode (h ! last ks) = None"
  by (induction ks arbitrary: l) (auto split: if_splits)

lemma chain_hd_next: "chain h l (c # ks) \<Longrightarrow> (pxNextNode (h ! c) = None) = (ks = [])"
  by (cases ks) auto

section \<open>Adding an option\<close>

text \<open>What \<^const>\<open>append_to_parent\<close> changes, field by field.\<close>

definition appended :: "'f DAL_MENU_OPTION list \<Rightarrow> nat \<Rightarrow> 'f DAL_MENU_OPTION
    \<Rightarrow> 'f DAL_MENU_OPTION list \<Rightarrow> bool" where
  "appended h p x h' \<longleftrightarrow> length h' = length h + 1 \<and>
     (\<forall>i < length h + 1. let y = (h @ [x]) ! i; n = length h in
        pcName (h' ! i) = pcName y \<and> xNodeType (h' ! i) = xNodeType y
        \<and> pxLevelUp (h' ! i) = pxLevelUp y
        \<and> xAction (h' ! i) = (if i = p \<and> kids h p = [] then LevelDown (Some n) else xAction y)
        \<and> pxNextNode (h' ! i) = (if kids h p \<noteq> [] \<and> i = last (kids h p) then Some n
                                 else pxNextNode y)
        \<and> pxLastNode (h' ! i) = (if kids h p \<noteq> [] \<and> i = hd (kids h p) then Some n
                                 else pxLastNode y)
        \<and> iNumNodes (h' ! i) = iNumNodes y + (if i = p then 1 else 0)
            + (if kids h p \<noteq> [] \<and> i = hd (kids h p) then 1 else 0)
            + (if kids h p = [] \<and> i = n then 1 else 0)
        \<and> iDepth (h' ! i) = (if i = n then iDepth (h ! p) + 1 else iDepth y))"

definition fresh_option :: "nat \<Rightarrow> 'f DAL_MENU_OPTION \<Rightarrow> bool" where
  "fresh_option p x \<longleftrightarrow> pxNextNode x = None \<and> pxLastNode x = None \<and> iNumNodes x = 0
     \<and> pxLevelUp x = Some p
     \<and> (case xNodeType x of DAL_MENU_OPTION_TYPE_DIR \<Rightarrow> xAction x = LevelDown None
        | DAL_MENU_OPTION_TYPE_FUNC \<Rightarrow> (\<exists>f. xAction x = DebugFunc (Some f)))"

lemma fresh_new_node: "fresh_option p (new_node t nm p fn b)"
  by (auto simp: fresh_option_def new_node_def)

lemma length_upd_node [simp]: "length (upd_node i f h) = length h"
  by (simp add: upd_node_def)

lemma nth_upd_node: "j < length h \<Longrightarrow> upd_node i f h ! j = (if i = j then f (h ! j) else h ! j)"
  by (simp add: upd_node_def nth_list_update)

lemma append_to_parent_appended:
  assumes inv: "menu_inv h" and p: "p < length h" and dir: "xNodeType (h ! p) = DAL_MENU_OPTION_TYPE_DIR"
    and fresh: "fresh_option p x"
  shows "\<exists>h'. append_to_parent p (length h) (h @ [x]) = Some h' \<and> appended h p x h'"
proof -
  obtain l where l: "xAction (h ! p) = LevelDown l" "chain h l (kids h p)"
    using dir_chain[OF inv p dir] .
  note up = nth_upd_node nth_append
  show ?thesis
  proof (cases "kids h p")
    case Nil
    then have "l = None" using l(2) by simp
    then show ?thesis using Nil l(1) p fresh
      by (auto simp: append_to_parent_def appended_def level_down_def up Let_def fresh_option_def)
  next
    case (Cons c ks)
    then have lc: "l = Some c" using l(2) by simp
    have c: "c < length h" "p < c"
      using kids_less[of c h p] kids_greater[OF inv, of c p] Cons by auto
    show ?thesis
    proof (cases "ks = []")
      case True
      then have "pxNextNode (h ! c) = None" using l(2) Cons by simp
      then show ?thesis using Cons True lc l(1) p c fresh
        by (auto simp: append_to_parent_def appended_def level_down_def up Let_def fresh_option_def)
    next
      case False
      then have nx: "pxNextNode (h ! c) \<noteq> None" using chain_hd_next l(2) Cons by metis
      have las: "pxLastNode (h ! c) = Some (last ks)"
        using menu_inv_node[OF inv p] Cons False by (cases ks) (auto simp: node_ok_def)
      have lk: "last ks \<in> set (kids h p)" "last ks \<in> set ks" using Cons False by auto
      then have lt: "last ks < length h" "p < last ks" "last ks \<noteq> c"
        using kids_less[of "last ks" h p] kids_greater[OF inv, of "last ks" p] distinct_kids[of h p] Cons
        by auto
      then show ?thesis using Cons False lc l(1) p c fresh nx las
        by (auto simp: append_to_parent_def appended_def level_down_def up Let_def fresh_option_def)
    qed
  qed
qed

lemma appended_kids:
  assumes "appended h p x h'" "fresh_option p x"
  shows "kids h' q = kids h q @ (if q = p then [length h] else [])"
proof -
  have len: "length h' = Suc (length h)" using assms(1) by (simp add: appended_def)
  have up: "pxLevelUp (h' ! i) = pxLevelUp ((h @ [x]) ! i)" if "i < Suc (length h)" for i
    using assms(1) that by (simp add: appended_def Let_def)
  have "kids h' q = filter (\<lambda>i. pxLevelUp ((h @ [x]) ! i) = Some q) [0..<Suc (length h)]"
    unfolding kids_def len using up by (intro filter_cong) auto
  also have "\<dots> = filter (\<lambda>i. pxLevelUp (h ! i) = Some q) [0..<length h]
      @ (if q = p then [length h] else [])"
    using assms(2) by (auto simp: fresh_option_def nth_append intro!: filter_cong)
  finally show ?thesis by (simp add: kids_def)
qed

lemma kids_new:
  assumes "menu_inv h" shows "kids h (length h) = []"
proof (rule ccontr)
  assume "kids h (length h) \<noteq> []"
  then obtain k where "k \<in> set (kids h (length h))" by (cases "kids h (length h)") auto
  then show False using kids_less[of k] kids_greater[OF assms, of k] by force
qed

lemma kids_parent_unique: "k \<in> set (kids h p) \<Longrightarrow> k \<in> set (kids h q) \<Longrightarrow> p = q"
  by (simp add: kids_def)

lemma appended_chain:
  assumes inv: "menu_inv h" and app: "appended h p x h'" and fresh: "fresh_option p x"
    and c: "chain h l (kids h q)" "q \<noteq> p"
  shows "chain h' l (kids h q)"
proof (rule chain_frame[OF c(1)])
  fix k assume k: "k \<in> set (kids h q)"
  have "k \<noteq> last (kids h p)" if "kids h p \<noteq> []"
    using kids_parent_unique[OF k, of p] c(2) last_in_set[OF that] by auto
  then show "k < length h' \<and> pxNextNode (h' ! k) = pxNextNode (h ! k)"
    using app kids_less[OF k] by (auto simp: appended_def Let_def nth_append)
qed

lemma appended_chain_parent:
  assumes inv: "menu_inv h" and app: "appended h p x h'" and fresh: "fresh_option p x"
    and c: "chain h l (kids h p)" "kids h p \<noteq> []"
  shows "chain h' l (kids h p @ [length h])"
proof (rule chain_snoc[OF c(1,2) distinct_kids])
  have "last (kids h p) < length h" using kids_less[OF last_in_set[OF c(2)]] .
  then show "pxNextNode (h' ! last (kids h p)) = Some (length h)"
    "pxNextNode (h' ! length h) = None"
    using app fresh c(2) by (auto simp: appended_def Let_def fresh_option_def nth_append)
  show "length h < length h'" using app by (simp add: appended_def)
  fix k assume k: "k \<in> set (kids h p)"
  then show "k < length h'" using app kids_less[OF k] by (simp add: appended_def)
  assume "k \<noteq> last (kids h p)"
  then show "pxNextNode (h' ! k) = pxNextNode (h ! k)"
    using app kids_less[OF k] by (simp add: appended_def Let_def nth_append)
qed

lemma appended_up_ok:
  assumes inv: "menu_inv h" and p: "p < length h" "xNodeType (h ! p) = DAL_MENU_OPTION_TYPE_DIR"
    and app: "appended h p x h'" and fresh: "fresh_option p x" and i: "i < length h'"
  shows "case pxLevelUp (h' ! i) of None \<Rightarrow> i = 0
      | Some p \<Rightarrow> p < i \<and> xNodeType (h' ! p) = DAL_MENU_OPTION_TYPE_DIR
                  \<and> iDepth (h' ! i) = iDepth (h' ! p) + 1"
proof (cases "i = length h")
  case True
  then show ?thesis using app fresh p
    by (auto simp: appended_def Let_def fresh_option_def nth_append)
next
  case False
  then have i: "i < length h" using i app by (simp add: appended_def)
  then show ?thesis using app menu_inv_node[OF inv i]
    by (auto simp: appended_def Let_def nth_append node_ok_def split: option.splits)
qed

lemma appended_action_ok:
  assumes inv: "menu_inv h" and p: "p < length h" "xNodeType (h ! p) = DAL_MENU_OPTION_TYPE_DIR"
    and app: "appended h p x h'" and fresh: "fresh_option p x" and i: "i < length h'"
  shows "case xNodeType (h' ! i) of
        DAL_MENU_OPTION_TYPE_DIR \<Rightarrow> (\<exists>l. xAction (h' ! i) = LevelDown l \<and> chain h' l (kids h' i))
      | DAL_MENU_OPTION_TYPE_FUNC \<Rightarrow> (\<exists>f. xAction (h' ! i) = DebugFunc (Some f))"
proof -
  note k = appended_kids[OF app fresh]
  consider "i = length h" | "i < length h" "i \<noteq> p" | "i = p" "i < length h"
    using i app by (fastforce simp: appended_def)
  then show ?thesis
  proof cases
    case 1
    then show ?thesis using app fresh p kids_new[OF inv]
      by (auto simp: appended_def Let_def fresh_option_def nth_append k
          split: DAL_MENU_OPTION_TYPE_ENUM.splits)
  next
    case 2
    then have "xAction (h' ! i) = xAction (h ! i)" "xNodeType (h' ! i) = xNodeType (h ! i)"
      using app by (auto simp: appended_def Let_def nth_append)
    then show ?thesis
      using 2 menu_inv_node[OF inv 2(1)] appended_chain[OF inv app fresh]
      by (auto simp: node_ok_def k split: DAL_MENU_OPTION_TYPE_ENUM.splits)
  next
    case 3
    obtain l where l: "xAction (h ! p) = LevelDown l" "chain h l (kids h p)"
      using dir_chain[OF inv p] .
    have f: "xNodeType (h' ! p) = DAL_MENU_OPTION_TYPE_DIR"
      "xAction (h' ! p) = (if kids h p = [] then LevelDown (Some (length h)) else LevelDown l)"
      using app p l(1) by (auto simp: appended_def Let_def nth_append)
    show ?thesis
    proof (cases "kids h p = []")
      case True
      moreover have "pxNextNode (h' ! length h) = None" "length h < length h'"
        using app fresh True by (auto simp: appended_def Let_def fresh_option_def nth_append)
      ultimately show ?thesis using f 3(1) by (simp add: k)
    next
      case False
      then show ?thesis using f 3(1) appended_chain_parent[OF inv app fresh l(2)]
        by (simp add: k)
    qed
  qed
qed

lemma appended_last_ok:
  assumes inv: "menu_inv h" and app: "appended h p x h'" and fresh: "fresh_option p x"
    and i: "i < length h'" and two: "2 \<le> length (kids h' i)"
  shows "pxLastNode (h' ! hd (kids h' i)) = Some (last (kids h' i))"
proof -
  note k = appended_kids[OF app fresh]
  have "i \<noteq> length h"
  proof
    assume "i = length h"
    then have "length (kids h' i) \<le> 1" by (simp add: k kids_new[OF inv])
    then show False using two by simp
  qed
  then have il: "i < length h" using i app by (simp add: appended_def)
  show ?thesis
  proof (cases "i = p")
    case True
    then have ne: "kids h p \<noteq> []" using two by (auto simp: k)
    then have "hd (kids h p) < length h" using kids_less hd_in_set by metis
    then show ?thesis using True ne app by (simp add: k appended_def Let_def)
  next
    case False
    then have ne: "kids h i \<noteq> []" using two by (auto simp: k)
    then have h: "hd (kids h i) \<in> set (kids h i)" by simp
    have "hd (kids h i) \<noteq> hd (kids h p)" if "kids h p \<noteq> []"
      using kids_parent_unique[OF h, of p] hd_in_set[OF that] False by auto
    then show ?thesis
      using False menu_inv_node[OF inv il] two kids_less[OF h] app
      by (auto simp: k node_ok_def appended_def Let_def nth_append)
  qed
qed

lemma appended_count_ok:
  assumes inv: "menu_inv h" and app: "appended h p x h'" and fresh: "fresh_option p x"
    and p: "p < length h" and i: "i < length h'"
  shows "iNumNodes (h' ! i) = int (length (kids h' i) + level_count h' i)"
proof -
  note k = appended_kids[OF app fresh]
  consider "i = length h" | "i < length h" using i app by (fastforce simp: appended_def)
  then show ?thesis
  proof cases
    case 1
    have "iNumNodes (h' ! i) = (if kids h p = [] then 1 else 0)" "pxLevelUp (h' ! i) = Some p"
      using app fresh p 1 hd_in_set[of "kids h p"] kids_less[of "hd (kids h p)" h p]
      by (auto simp: appended_def Let_def fresh_option_def nth_append)
    moreover have "hd (kids h p) \<noteq> length h" if "kids h p \<noteq> []"
      using hd_in_set[OF that] kids_less by fastforce
    ultimately show ?thesis using 1 p kids_new[OF inv] by (auto simp: k level_count_def)
  next
    case 2
    have up: "pxLevelUp (h' ! i) = pxLevelUp (h ! i)"
      and n: "iNumNodes (h' ! i) = iNumNodes (h ! i) + (if i = p then 1 else 0)
            + (if kids h p \<noteq> [] \<and> i = hd (kids h p) then 1 else 0)"
      using app 2 by (auto simp: appended_def Let_def nth_append)
    have lc: "level_count h' i = level_count h i + (if kids h p \<noteq> [] \<and> i = hd (kids h p) then 1 else 0)"
    proof (cases "pxLevelUp (h ! i)")
      case None
      then show ?thesis using up kids_up hd_in_set by (fastforce simp: level_count_def)
    next
      case (Some q)
      then have "i \<in> set (kids h q)" using 2 by (simp add: kids_def)
      then have "kids h q \<noteq> []" "p \<noteq> q \<Longrightarrow> kids h p \<noteq> [] \<Longrightarrow> i \<noteq> hd (kids h p)"
        using kids_parent_unique[of i h q p] by auto
      then show ?thesis using Some up by (auto simp: level_count_def k)
    qed
    show ?thesis using n lc menu_inv_node[OF inv 2] by (simp add: node_ok_def k)
  qed
qed

lemma appended_menu_inv:
  assumes inv: "menu_inv h" and p: "p < length h" "xNodeType (h ! p) = DAL_MENU_OPTION_TYPE_DIR"
    and app: "appended h p x h'" and fresh: "fresh_option p x"
  shows "menu_inv h'"
proof -
  have "pxLevelUp (h' ! 0) = None" "0 < length h'"
    using inv app by (auto simp: menu_inv_def appended_def Let_def nth_append)
  moreover have "node_ok h' i" if "i < length h'" for i
    unfolding node_ok_def
    using appended_up_ok[OF inv p app fresh that] appended_action_ok[OF inv p app fresh that]
      appended_last_ok[OF inv app fresh that] appended_count_ok[OF inv app fresh p(1) that]
    by blast
  ultimately show ?thesis by (simp add: menu_inv_def)
qed

section \<open>The invariant of the library\<close>

definition dal_inv :: "'f DAL_PRIVATE_DATA \<Rightarrow> bool" where
  "dal_inv d \<longleftrightarrow> length (pcLastCmd d) = DAL_MAX_INPUT \<and> length (pcMenuName d) = DAL_MAX_NAME_LEN \<and>
     (if dalIsInitialised d
      then menu_inv (dalHeap d) \<and> pxTopLevel d = Some 0
           \<and> xNodeType (dalHeap d ! 0) = DAL_MENU_OPTION_TYPE_DIR
           \<and> (\<exists>c < length (dalHeap d). pxCurrentLevel d = Some c
                \<and> xNodeType (dalHeap d ! c) = DAL_MENU_OPTION_TYPE_DIR)
      else dalHeap d = [] \<and> pxTopLevel d = None \<and> pxCurrentLevel d = None)"

lemma dal_inc_fields [simp]:
  "dalHeap (dal_inc_stat x d) = dalHeap d" "dalHeap (dal_inc_error e d) = dalHeap d"
  "pxTopLevel (dal_inc_stat x d) = pxTopLevel d" "pxTopLevel (dal_inc_error e d) = pxTopLevel d"
  "pxCurrentLevel (dal_inc_stat x d) = pxCurrentLevel d"
  "pxCurrentLevel (dal_inc_error e d) = pxCurrentLevel d"
  "dalIsInitialised (dal_inc_stat x d) = dalIsInitialised d"
  "dalIsInitialised (dal_inc_error e d) = dalIsInitialised d"
  "pcLastCmd (dal_inc_stat x d) = pcLastCmd d" "pcLastCmd (dal_inc_error e d) = pcLastCmd d"
  "pcMenuName (dal_inc_stat x d) = pcMenuName d" "pcMenuName (dal_inc_error e d) = pcMenuName d"
  "dal_firewalls (dal_inc_stat x d) = dal_firewalls d"
  "dal_firewalls (dal_inc_error e d) = dal_firewalls d"
  by (simp_all add: dal_inc_stat_def dal_inc_error_def dal_firewalls_def)

lemma dal_inc_inv [simp]:
  "dal_inv (dal_inc_stat x d) = dal_inv d" "dal_inv (dal_inc_error e d) = dal_inv d"
  by (simp_all add: dal_inv_def)

lemma dal_inv_initial: "dal_inv dal_local_data"
  by (simp add: dal_inv_def dal_local_data_def)

lemma menu_inv_top: "xNodeType t = DAL_MENU_OPTION_TYPE_DIR \<Longrightarrow> xAction t = LevelDown None
    \<Longrightarrow> pxLevelUp t = None \<Longrightarrow> iNumNodes t = 0 \<Longrightarrow> menu_inv [t]"
  by (simp add: menu_inv_def node_ok_def kids_def level_count_def)

lemma pcOSAL_StrNCpy_length [simp]:
  "n \<le> length dest \<Longrightarrow> length (pcOSAL_StrNCpy t dest s n) = length dest"
  by (simp add: pcOSAL_StrNCpy_def)

lemma initialise_inv:
  assumes "dal_inv d" "iDAL_Initialise env name banner d w = (st, d', w')"
  shows "dal_inv d'"
  using assms
  by (auto simp: iDAL_Initialise_def Let_def dal_inv_def menu_inv_top split: option.splits prod.splits
      if_splits)

lemma new_item_spec:
  assumes inv: "dal_inv d" and i: "dalIsInitialised d" and p: "p < length (dalHeap d)"
    and len: "length nm \<le> DAL_MAX_NAME_LEN"
    and dir: "xNodeType (dalHeap d ! p) = DAL_MENU_OPTION_TYPE_DIR"
    and alloc: "dal_os (dalMemAlloc env) w = (Some b, w1)"
    and sem: "dal_os (dalStringSem env) w1 = (t, w2)"
  obtains h where "xNewMenuItem env (Some nm) (Some p) fn d w
      = Some (Some (length (dalHeap d)), (dal_inc_stat DAL_STATS_OPTION_CREATED d)\<lparr>dalHeap := h\<rparr>, w2)"
    "appended (dalHeap d) p (new_node t nm p fn b) h"
proof -
  have "menu_inv (dalHeap d)" using inv i by (simp add: dal_inv_def)
  then obtain h where h: "append_to_parent p (length (dalHeap d)) (dalHeap d @ [new_node t nm p fn b]) = Some h"
    and a: "appended (dalHeap d) p (new_node t nm p fn b) h"
    using append_to_parent_appended[OF _ p dir fresh_new_node] by blast
  have "xNewMenuItem env (Some nm) (Some p) fn d w
      = Some (Some (length (dalHeap d)), (dal_inc_stat DAL_STATS_OPTION_CREATED d)\<lparr>dalHeap := h\<rparr>, w2)"
    using i p len dir alloc sem h by (simp add: xNewMenuItem_def Let_def)
  then show ?thesis using a that by blast
qed

lemma appended_dal_inv:
  assumes "dal_inv d" "dalIsInitialised d" "appended (dalHeap d) p x h" "fresh_option p x"
    "p < length (dalHeap d)" "xNodeType (dalHeap d ! p) = DAL_MENU_OPTION_TYPE_DIR"
  shows "dal_inv (d\<lparr>dalHeap := h\<rparr>)"
proof -
  have "menu_inv h" using appended_menu_inv[OF _ assms(5,6,3,4)] assms(1,2) by (simp add: dal_inv_def)
  moreover have "xNodeType (h ! i) = xNodeType (dalHeap d ! i)" if "i < length (dalHeap d)" for i
    using assms(3) that by (auto simp: appended_def Let_def nth_append)
  moreover have "length (dalHeap d) < length h" using assms(3) by (simp add: appended_def)
  moreover have "0 < length (dalHeap d)" using assms(5) by auto
  ultimately show ?thesis using assms(1,2) by (auto simp: dal_inv_def)
qed

section \<open>Selecting an option\<close>

lemma walk_chain:
  "chain h l ks \<Longrightarrow> walk_level h l n = Some (if n < length ks then Some (ks ! n) else None)"
proof (induction ks arbitrary: l n)
  case (Cons k ks)
  then show ?case by (cases n) auto
qed simp

definition current_kids :: "'f DAL_PRIVATE_DATA \<Rightarrow> nat list" where
  "current_kids d = (case pxCurrentLevel d of Some c \<Rightarrow> kids (dalHeap d) c | None \<Rightarrow> [])"

text \<open>What selecting does: the numbered option of the current directory, or an error.\<close>

definition select_spec ::
  "('f, 'x) dal_env \<Rightarrow> int \<Rightarrow> 'f DAL_PRIVATE_DATA \<Rightarrow> 'x dal_world
   \<Rightarrow> (int \<times> 'f DAL_PRIVATE_DATA \<times> 'x dal_world) option" where
  "select_spec env iCmd d w =
     (if 0 < iCmd \<and> iCmd \<le> int (length (current_kids d))
      then let s = current_kids d ! (nat iCmd - 1)
           in case xAction (dalHeap d ! s) of
                LevelDown l \<Rightarrow> Some (OK, d\<lparr>pxCurrentLevel := Some s\<rparr>, w)
              | DebugFunc f \<Rightarrow> map_option (\<lambda>w1. (OK, d, w1)) (dalCall env (the f) (dal_print [CR, LF] w))
      else Some (ERROR, d, w))"

lemma select_option_spec:
  assumes inv: "dal_inv d" and i: "dalIsInitialised d"
  shows "iSelectOption env iCmd d w = select_spec env iCmd d w"
proof -
  let ?h = "dalHeap d"
  obtain c where c: "c < length ?h" "pxCurrentLevel d = Some c"
    "xNodeType (?h ! c) = DAL_MENU_OPTION_TYPE_DIR" and m: "menu_inv ?h"
    using inv i by (auto simp: dal_inv_def)
  obtain l where l: "xAction (?h ! c) = LevelDown l" "chain ?h l (kids ?h c)"
    using dir_chain[OF m c(1,3)] .
  have n: "int (length (kids ?h c)) \<le> iNumNodes (?h ! c)"
    using menu_inv_node[OF m c(1)] by (simp add: node_ok_def)
  show ?thesis
  proof (cases "0 < iCmd \<and> iCmd \<le> int (length (kids ?h c))")
    case True
    let ?s = "kids ?h c ! (nat iCmd - 1)"
    have s: "nat iCmd - 1 < length (kids ?h c)" using True by auto
    then have "?s \<in> set (kids ?h c)" by simp
    then have "?s < length ?h" by (rule kids_less)
    then show ?thesis
      using True c l n s menu_inv_node[OF m, of ?s] walk_chain[OF l(2), of "nat iCmd - 1"]
      by (auto simp: iSelectOption_def select_spec_def current_kids_def level_down_def node_ok_def Let_def
          map_option_case bind_eq_Some_conv
          split: DAL_MENU_OPTION_TYPE_ENUM.splits option.splits)
  next
    case False
    then show ?thesis
      using c l walk_chain[OF l(2), of "nat iCmd - 1"]
      by (auto simp: iSelectOption_def select_spec_def current_kids_def level_down_def)
  qed
qed

lemma select_inv:
  assumes inv: "dal_inv d" "dalIsInitialised d"
    and sel: "iSelectOption env iCmd d w = Some (st, d', w')"
  shows "dal_inv d'" "dalIsInitialised d'" "dalHeap d' = dalHeap d"
proof -
  let ?s = "current_kids d ! (nat iCmd - 1)"
  have m: "menu_inv (dalHeap d)" using inv by (simp add: dal_inv_def)
  have k: "?s < length (dalHeap d)" if "0 < iCmd" "iCmd \<le> int (length (current_kids d))"
  proof -
    have "nat iCmd - 1 < length (current_kids d)" using that by auto
    then have "?s \<in> set (current_kids d)" by simp
    then show ?thesis using kids_less by (auto simp: current_kids_def split: option.splits)
  qed
  note sp = sel[unfolded select_option_spec[OF inv]]
  consider (same) "d' = d" | (dir) l where "d' = d\<lparr>pxCurrentLevel := Some ?s\<rparr>"
      "xAction (dalHeap d ! ?s) = LevelDown l" "?s < length (dalHeap d)"
    using sp k by (auto simp: select_spec_def Let_def split: if_splits DAL_MENU_ACTION.splits)
  then have "dal_inv d' \<and> dalIsInitialised d' \<and> dalHeap d' = dalHeap d"
  proof cases
    case dir
    then have "xNodeType (dalHeap d ! ?s) = DAL_MENU_OPTION_TYPE_DIR"
      using menu_inv_node[OF m dir(3)]
      by (cases "xNodeType (dalHeap d ! ?s)") (auto simp: node_ok_def)
    then show ?thesis using dir inv by (simp add: dal_inv_def)
  qed (use inv in simp)
  then show "dal_inv d'" "dalIsInitialised d'" "dalHeap d' = dalHeap d" by simp_all
qed

end
