(* ===== verification/DalPrint.thy ===== *)
theory DalPrint
  imports DalTree
begin

text \<open>
  The printed menu: the texts of the whole menu as a function of the tree, and that the
  recursive printing of the library ends and prints exactly them.
\<close>

definition c_name :: "'f DAL_MENU_OPTION \<Rightarrow> string" where
  "c_name x = takeWhile (\<lambda>c. c \<noteq> NUL) (pcName x)"

text \<open>Every name is terminated inside its buffer.\<close>

definition names_ok :: "'f DAL_MENU_OPTION list \<Rightarrow> bool" where
  "names_ok h \<longleftrightarrow> (\<forall>x \<in> set h. NUL \<in> set (pcName x))"

lemma c_string_name: "names_ok h \<Longrightarrow> n < length h \<Longrightarrow> c_string (pcName (h ! n)) = Some (c_name (h ! n))"
  by (simp add: names_ok_def c_string_def c_name_def)

definition level_lines ::
  "'f DAL_MENU_OPTION list \<Rightarrow> bool \<Rightarrow> (nat \<Rightarrow> string list) \<Rightarrow> nat \<Rightarrow> nat list \<Rightarrow> string list" where
  "level_lines h inc sub i ks = concat (map (\<lambda>(j, k).
     option_tabs inc (h ! k) @ [option_line j (c_name (h ! k)) (h ! k)] @ sub k) (enumerate i ks))"

lemma level_lines_Cons [simp]:
  "level_lines h inc sub i (k # ks) = option_tabs inc (h ! k)
     @ [option_line i (c_name (h ! k)) (h ! k)] @ sub k @ level_lines h inc sub (i + 1) ks"
  by (simp add: level_lines_def)

lemma level_lines_Nil [simp]: "level_lines h inc sub i [] = []"
  by (simp add: level_lines_def)

text \<open>The whole menu below a directory, with the options of each directory after its line.\<close>

function menu_lines :: "'f DAL_MENU_OPTION list \<Rightarrow> nat \<Rightarrow> string list" where
  "menu_lines h p = concat (map (\<lambda>(j, k).
     option_tabs True (h ! k) @ [option_line j (c_name (h ! k)) (h ! k)]
       @ (if p < k then menu_lines h k else [])) (enumerate 1 (kids h p)))"
  by pat_completeness auto
termination
proof (relation "measure (\<lambda>(h, p). length h - p)", simp)
  fix h :: "'f DAL_MENU_OPTION list" and p z j k
  assume "z \<in> set (enumerate 1 (kids h p))" "(j, k) = z" "p < k"
  then have "k \<in> set (kids h p)" by (auto simp: in_set_enumerate_eq)
  then show "((h, k), (h, p)) \<in> measure (\<lambda>(h, p). length h - p)"
    using \<open>p < k\<close> kids_less[of k h p] by simp
qed

declare menu_lines.simps [simp del]

lemma menu_lines_level:
  assumes "menu_inv h" shows "menu_lines h p = level_lines h True (menu_lines h) 1 (kids h p)"
proof -
  have "p < k" if "(j, k) \<in> set (enumerate 1 (kids h p))" for j k
    using that kids_greater[OF assms, of k p] by (auto simp: in_set_enumerate_eq)
  then show ?thesis
    by (subst menu_lines.simps) (auto simp: level_lines_def intro!: arg_cong[where f = concat])
qed

lemma level_lines_cong:
  "(\<And>k. k \<in> set ks \<Longrightarrow> f k = g k) \<Longrightarrow> level_lines h inc f i ks = level_lines h inc g i ks"
  by (induction ks arbitrary: i) auto

definition sub_lines :: "'f DAL_MENU_OPTION list \<Rightarrow> bool \<Rightarrow> nat \<Rightarrow> string list option" where
  "sub_lines h inc n = (if inc \<and> xNodeType (h ! n) = DAL_MENU_OPTION_TYPE_DIR
      then (case level_down (h ! n) of
          None \<Rightarrow> None
        | Some down \<Rightarrow> if down \<noteq> None then vPrintNextLevel h True down 1 else Some [])
      else Some [])"

lemma print_none [simp]: "vPrintNextLevel h inc None i = Some []"
  by (subst vPrintNextLevel.simps) simp

lemma print_chain:
  assumes names: "names_ok h"
  shows "chain h l ks \<Longrightarrow> (\<And>k. k \<in> set ks \<Longrightarrow> sub_lines h inc k = Some (sub k))
   \<Longrightarrow> vPrintNextLevel h inc l i = Some (level_lines h inc sub i ks)"
proof (induction ks arbitrary: l i)
  case (Cons k ks)
  have "sub_lines h inc k = Some (sub k)" using Cons.prems(2) by simp
  moreover have "vPrintNextLevel h inc (pxNextNode (h ! k)) (i + 1)
      = Some (level_lines h inc sub (i + 1) ks)"
    using Cons by simp
  ultimately show ?case using Cons.prems(1) c_string_name[OF names, of k]
    by (subst vPrintNextLevel.simps) (auto simp: sub_lines_def bind_eq_Some_conv split: if_splits option.splits)
qed simp

lemma sub_lines_menu:
  assumes m: "menu_inv h" and names: "names_ok h"
  shows "n < length h \<Longrightarrow> sub_lines h True n = Some (menu_lines h n)"
proof (induction "length h - n" arbitrary: n rule: less_induct)
  case less
  show ?case
  proof (cases "xNodeType (h ! n)")
    case DAL_MENU_OPTION_TYPE_DIR
    obtain l where l: "xAction (h ! n) = LevelDown l" "chain h l (kids h n)"
      using dir_chain[OF m less.prems DAL_MENU_OPTION_TYPE_DIR] .
    have "sub_lines h True k = Some (menu_lines h k)" if "k \<in> set (kids h n)" for k
    proof (rule less.hyps)
      show "length h - k < length h - n" "k < length h"
        using kids_less[OF that] kids_greater[OF m that] by auto
    qed
    then have "vPrintNextLevel h True l 1 = Some (level_lines h True (menu_lines h) 1 (kids h n))"
      by (intro print_chain[OF names l(2)])
    then have "vPrintNextLevel h True l 1 = Some (menu_lines h n)"
      by (simp only: menu_lines_level[OF m, of n])
    then show ?thesis using l DAL_MENU_OPTION_TYPE_DIR
      by (auto simp: sub_lines_def level_down_def)
  next
    case DAL_MENU_OPTION_TYPE_FUNC
    then have "kids h n = []" using kids_dir[OF m, of n] by auto
    then show ?thesis using DAL_MENU_OPTION_TYPE_FUNC
      by (simp add: sub_lines_def menu_lines_level[OF m])
  qed
qed

text \<open>The texts of the two printing functions.\<close>

definition current_lines :: "'f DAL_PRIVATE_DATA \<Rightarrow> nat \<Rightarrow> string list" where
  "current_lines d c = level_title (c_name (dalHeap d ! c))
     # (case pxLevelUp (dalHeap d ! c) of
          None \<Rightarrow> [] | Some u \<Rightarrow> [[TAB] @ ''0:../'' @ c_name (dalHeap d ! u) @ [CR, LF]])
     @ level_lines (dalHeap d) False (\<lambda>_. []) 1 (kids (dalHeap d) c)"

lemma print_menu_lines:
  assumes inv: "dal_inv d" and i: "dalIsInitialised d" and names: "names_ok (dalHeap d)"
  shows "vPrintMenu d w = Some (dal_prints (level_title (c_name (dalHeap d ! 0))
           # menu_lines (dalHeap d) 0) w)"
proof -
  have m: "menu_inv (dalHeap d)" and t: "pxTopLevel d = Some 0" "0 < length (dalHeap d)"
    "xNodeType (dalHeap d ! 0) = DAL_MENU_OPTION_TYPE_DIR"
    using inv i by (auto simp: dal_inv_def menu_inv_def)
  obtain l where l: "xAction (dalHeap d ! 0) = LevelDown l" "chain (dalHeap d) l (kids (dalHeap d) 0)"
    using dir_chain[OF m t(2,3)] .
  have "vPrintNextLevel (dalHeap d) True l 1
      = Some (level_lines (dalHeap d) True (menu_lines (dalHeap d)) 1 (kids (dalHeap d) 0))"
    by (intro print_chain[OF names l(2)] sub_lines_menu[OF m names] kids_less)
  then have "vPrintNextLevel (dalHeap d) True l 1 = Some (menu_lines (dalHeap d) 0)"
    by (simp only: menu_lines_level[OF m, of 0])
  then show ?thesis
    using i t l(1) c_string_name[OF names t(2)] by (simp add: vPrintMenu_def level_down_def)
qed

lemma print_current_lines:
  assumes inv: "dal_inv d" and i: "dalIsInitialised d" and names: "names_ok (dalHeap d)"
  obtains c where "pxCurrentLevel d = Some c"
    "vPrintCurrentLevel d w = Some (dal_prints (current_lines d c) w)"
proof -
  let ?h = "dalHeap d"
  obtain c where c: "c < length ?h" "pxCurrentLevel d = Some c"
    "xNodeType (?h ! c) = DAL_MENU_OPTION_TYPE_DIR" and m: "menu_inv ?h"
    using inv i by (auto simp: dal_inv_def)
  obtain l where l: "xAction (?h ! c) = LevelDown l" "chain ?h l (kids ?h c)"
    using dir_chain[OF m c(1,3)] .
  have "vPrintNextLevel ?h False l 1 = Some (level_lines ?h False (\<lambda>_. []) 1 (kids ?h c))"
    using print_chain[OF names l(2), of False "\<lambda>_. []" 1] by (simp add: sub_lines_def)
  moreover have "u < length ?h" if "pxLevelUp (?h ! c) = Some u" for u
    using menu_inv_node[OF m c(1)] that c(1) by (auto simp: node_ok_def)
  ultimately have "vPrintCurrentLevel d w = Some (dal_prints (current_lines d c) w)"
    using c l(1) c_string_name[OF names]
    by (auto simp: vPrintCurrentLevel_def current_lines_def level_down_def split: option.splits)
  then show ?thesis using c(2) that by blast
qed

end
