(* ===== verification/DalInput.thy ===== *)
theory DalInput
  imports Dal
begin

text \<open>
  Input of the Debug Access Library: one line from the terminal, and the functions that
  ask for a value until a valid one is typed. A value the caller's pointer keeps is
  \<^term>\<open>None\<close>. \<open>strtof\<close> of \<open>iDAL_GetFloat\<close> is a parameter of the C library.
\<close>

section \<open>One line\<close>

text \<open>The characters up to and with RETURN, at most \<open>n\<close>; each one is echoed.\<close>

fun read_chars :: "nat \<Rightarrow> 'x dal_world \<Rightarrow> (string \<times> 'x dal_world) option" where
  "read_chars 0 w = Some ([], w)"
| "read_chars (Suc n) w =
     (case dalInput w of
        [] \<Rightarrow> None
      | c # cs \<Rightarrow>
        let w1 = dal_print [c] (w\<lparr>dalInput := cs\<rparr>) in
        if c = CR \<or> c = LF then Some ([c], w1)
        else case read_chars n w1 of None \<Rightarrow> None | Some (l, w2) \<Rightarrow> Some (c # l, w2))"

definition iNextInput ::
  "string option \<Rightarrow> nat \<Rightarrow> 'f DAL_PRIVATE_DATA \<Rightarrow> 'x dal_world
   \<Rightarrow> (nat \<times> string option \<times> 'f DAL_PRIVATE_DATA \<times> 'x dal_world) option" where
  "iNextInput pcInput iInputBufSize d w =
     (case pcInput of
        None \<Rightarrow> Some (0, None, dal_inc_error DAL_ERRORS_NULL_INPUT_POINTER d, w)
      | Some buf \<Rightarrow>
        if DAL_MAX_INPUT < iInputBufSize
        then Some (0, Some buf, dal_inc_error DAL_ERRORS_WRONG_INPUT_BUF_SIZE d, w)
        else case read_chars DAL_MAX_INPUT w of
               None \<Rightarrow> None
             | Some (l, w1) \<Rightarrow>
               if length l \<le> length buf
               then Some (length l, Some (l @ drop (length l)
                       (replicate iInputBufSize NUL @ drop iInputBufSize buf)), d, w1)
               else None)"

section \<open>Asking for a value\<close>

text \<open>
  The check of the typed characters before a conversion: \<^term>\<open>(True, n)\<close> when it stopped
  at the end of the text with \<open>n\<close> characters of the line left, \<^term>\<open>(False, n)\<close> at a
  character that is not allowed.
\<close>

fun scan_line :: "(char \<Rightarrow> bool) \<Rightarrow> string \<Rightarrow> bool \<times> nat" where
  "scan_line p [] = (True, 0)"
| "scan_line p (c # cs) =
     (if c = NUL \<or> c = CR \<or> c = LF then (True, Suc (length cs))
      else if \<not> p c then (False, Suc (length cs))
      else scan_line p cs)"

text \<open>
  One attempt ends the loop, with the value written if any, or asks again; in both cases
  with what it prints. \<open>'s\<close> is what an attempt leaves to the next one.
\<close>

datatype ('s, 'v) attempt = Done "'v option" string | Again 's string

text \<open>
  The loop of \<open>iDAL_GetInt\<close> and its likes: prompt, read a line into the buffer of
  \<^const>\<open>DAL_MAX_INPUT\<close> characters, and try the line if it is more than RETURN.
\<close>

lemma read_chars_decreases:
  "read_chars n w = Some (l, w') \<Longrightarrow> length (dalInput w') + length l = length (dalInput w)"
  by (induction n w arbitrary: l w' rule: read_chars.induct)
     (auto simp: Let_def dal_print_def split: list.splits if_splits option.splits)

lemma read_chars_nonempty: "read_chars n w = Some (l, w') \<Longrightarrow> 0 < n \<Longrightarrow> l \<noteq> []"
  by (cases n) (auto simp: Let_def split: list.splits if_splits option.splits)

lemma read_chars_length: "read_chars n w = Some (l, w') \<Longrightarrow> length l \<le> n"
  by (induction n w arbitrary: l w' rule: read_chars.induct)
     (auto simp: Let_def dal_print_def split: list.splits if_splits option.splits)

lemma dal_print_fields [simp]:
  "dalInput (dal_print t w) = dalInput w" "dalOutside (dal_print t w) = dalOutside w"
  by (simp_all add: dal_print_def)

lemma read_line_decreases:
  assumes "read_chars DAL_MAX_INPUT (dal_print t w) = Some (l, w1)"
  shows "length (dalInput w1) < length (dalInput w)"
proof -
  have "l \<noteq> []" using read_chars_nonempty[OF assms] by (simp add: DAL_MAX_INPUT_def)
  then show ?thesis using read_chars_decreases[OF assms] by (cases l) auto
qed

function ask ::
  "string \<Rightarrow> ('s \<Rightarrow> string \<Rightarrow> string \<Rightarrow> ('s, 'v) attempt option) \<Rightarrow> 's \<Rightarrow> 'x dal_world
   \<Rightarrow> ('v option \<times> 'x dal_world) option" where
  "ask prompt tr s w =
     (case read_chars DAL_MAX_INPUT (dal_print prompt w) of
        None \<Rightarrow> None
      | Some (l, w1) \<Rightarrow>
        if length l \<le> 1 then ask prompt tr s w1
        else case tr s l (l @ replicate (DAL_MAX_INPUT - length l) NUL) of
               None \<Rightarrow> None
             | Some (Done v t) \<Rightarrow> Some (v, if t = [] then w1 else dal_print t w1)
             | Some (Again s' t) \<Rightarrow> ask prompt tr s' (dal_print t w1))"
  by pat_completeness auto
termination
  by (relation "measure (\<lambda>(prompt, tr, s, w). length (dalInput w))")
     (auto dest!: read_line_decreases)

declare ask.simps [simp del]

lemma ask_decreases:
  "ask prompt tr s w = Some (v, w') \<Longrightarrow> length (dalInput w') < length (dalInput w)"
proof (induction prompt tr s w arbitrary: v w' rule: ask.induct)
  case (1 prompt tr s w)
  obtain l w1 where r: "read_chars DAL_MAX_INPUT (dal_print prompt w) = Some (l, w1)"
    using "1.prems" by (subst (asm) ask.simps) (auto split: option.splits)
  note less = read_line_decreases[OF r]
  show ?case
  proof (cases "length l \<le> 1")
    case True
    then show ?thesis using "1.prems" "1.IH"(1)[OF r refl] r less by (simp add: ask.simps[of prompt tr s w])
  next
    case False
    let ?a = "tr s l (l @ replicate (DAL_MAX_INPUT - length l) NUL)"
    show ?thesis
    proof (cases ?a)
      case None
      then show ?thesis using "1.prems" r False by (simp add: ask.simps[of prompt tr s w])
    next
      case (Some a)
      then show ?thesis using "1.prems" "1.IH"(2)[OF r refl False Some] r False less
        by (cases a) (auto simp: ask.simps[of prompt tr s w] split: if_splits intro: less_trans)
    qed
  qed
qed

text \<open>
  The loop of \<open>iDAL_GetIntInRange\<close> and its likes around the inner function, whose checks of
  the library and of its pointers hold here; \<open>cur\<close> is the local variable it fills.
\<close>

function ask_in_range ::
  "string \<Rightarrow> ('s \<Rightarrow> string \<Rightarrow> string \<Rightarrow> ('s, 'v) attempt option) \<Rightarrow> 's \<Rightarrow> ('v \<Rightarrow> bool) \<Rightarrow> string
   \<Rightarrow> 'v \<Rightarrow> 'x dal_world \<Rightarrow> ('v \<times> 'x dal_world) option" where
  "ask_in_range prompt tr s inside msg cur w =
     (case ask prompt tr s w of
        None \<Rightarrow> None
      | Some (v, w1) \<Rightarrow>
        let x = (case v of None \<Rightarrow> cur | Some y \<Rightarrow> y) in
        if inside x then Some (x, w1)
        else ask_in_range prompt tr s inside msg x (dal_print msg w1))"
  by pat_completeness auto
termination
  by (relation "measure (\<lambda>(prompt, tr, s, inside, msg, cur, w). length (dalInput w))")
     (auto dest!: ask_decreases)

declare ask_in_range.simps [simp del]

lemma ask_in_range_inside:
  "ask_in_range prompt tr s inside msg cur w = Some (x, w') \<Longrightarrow> inside x"
proof (induction prompt tr s inside msg cur w rule: ask_in_range.induct)
  case (1 prompt tr s inside msg cur w)
  note eq = "1.prems"[unfolded ask_in_range.simps[of prompt tr s inside msg cur w]]
  then obtain v w1 where a: "ask prompt tr s w = Some (v, w1)" by (auto split: option.splits)
  let ?x = "case v of None \<Rightarrow> cur | Some y \<Rightarrow> y"
  show ?case
  proof (cases "inside ?x")
    case True
    then show ?thesis using eq a by (simp add: Let_def)
  next
    case False
    then have "ask_in_range prompt tr s inside msg ?x (dal_print msg w1) = Some (x, w')"
      using eq a by (simp add: Let_def)
    then show ?thesis using "1.IH"[OF a refl refl False] by simp
  qed
qed

section \<open>Integers\<close>

definition input_prompt :: "string \<Rightarrow> string \<Rightarrow> string" where
  "input_prompt prompt tail = [CR, LF] @ prompt @ ''-'' @ DAL_PROMPT @ tail"

definition not_valid :: string where
  "not_valid = ''Not a valid input'' @ [CR, LF]"

definition try_int :: "unit \<Rightarrow> string \<Rightarrow> string \<Rightarrow> (unit, int) attempt option" where
  "try_int s l buf =
     (case scan_line (is_digit 10) l of
        (ok, left) \<Rightarrow>
          if 0 < left \<and> ok
          then (case c_strtol 10 buf of None \<Rightarrow> None | Some (v, _) \<Rightarrow> Some (Done (Some v) [CR, LF]))
          else Some (if ok then Done None not_valid else Again () not_valid))"

definition iDAL_GetInt ::
  "string option \<Rightarrow> bool \<Rightarrow> 'f DAL_PRIVATE_DATA \<Rightarrow> 'x dal_world
   \<Rightarrow> (int \<times> int option \<times> 'x dal_world) option" where
  "iDAL_GetInt pcPrompt piInput d w =
     (case pcPrompt of
        Some prompt \<Rightarrow>
          if dal_ready d \<and> piInput
          then map_option (\<lambda>(v, w1). (OK, v, w1)) (ask (input_prompt prompt '' '') try_int () w)
          else Some (ERROR, None, w)
      | None \<Rightarrow> Some (ERROR, None, w))"

definition range_prompt :: "string \<Rightarrow> string \<Rightarrow> string \<Rightarrow> string" where
  "range_prompt prompt lo hi =
     take (DAL_MSG_MAX_LEN - 1) (prompt @ '' (Min : '' @ lo @ '', Max: '' @ hi @ '')'')"

definition range_message :: "string \<Rightarrow> string \<Rightarrow> string" where
  "range_message lo hi = ''Value must be within '' @ lo @ '' and '' @ hi @ [CR, LF]"

definition iDAL_GetIntInRange ::
  "string option \<Rightarrow> bool \<Rightarrow> int \<Rightarrow> int \<Rightarrow> 'f DAL_PRIVATE_DATA \<Rightarrow> 'x dal_world
   \<Rightarrow> (int \<times> int option \<times> 'x dal_world) option" where
  "iDAL_GetIntInRange pcPrompt piInput iMin iMax d w =
     (case pcPrompt of
        Some prompt \<Rightarrow>
          if dal_ready d \<and> piInput \<and> iMin < iMax
          then map_option (\<lambda>(v, w1). (OK, Some v, w1))
                 (ask_in_range (input_prompt (range_prompt prompt (print_int iMin) (print_int iMax)) '' '')
                    try_int () (\<lambda>x. \<not> (x < iMin \<or> x > iMax))
                    (range_message (print_int iMin) (print_int iMax)) 0 w)
          else Some (ERROR, None, w)
      | None \<Rightarrow> Some (ERROR, None, w))"

section \<open>Hexadecimal numbers\<close>

definition try_hex :: "unit \<Rightarrow> string \<Rightarrow> string \<Rightarrow> (unit, u32) attempt option" where
  "try_hex s l buf =
     (case scan_line (is_digit 16) l of
        (ok, left) \<Rightarrow>
          if 0 < left \<and> ok
          then (case c_strtoul_digits 16 buf of
                  None \<Rightarrow> None | Some v \<Rightarrow> Some (Done (Some (of_nat v)) [CR, LF]))
          else Some (if ok then Done None not_valid else Again () not_valid))"

definition iDAL_GetHex ::
  "string option \<Rightarrow> bool \<Rightarrow> 'f DAL_PRIVATE_DATA \<Rightarrow> 'x dal_world
   \<Rightarrow> (int \<times> u32 option \<times> 'x dal_world) option" where
  "iDAL_GetHex pcPrompt pulInput d w =
     (case pcPrompt of
        Some prompt \<Rightarrow>
          if dal_ready d \<and> pulInput
          then map_option (\<lambda>(v, w1). (OK, v, w1)) (ask (input_prompt prompt '' 0x'') try_hex () w)
          else Some (ERROR, None, w)
      | None \<Rightarrow> Some (ERROR, None, w))"

definition print_hex :: "u32 \<Rightarrow> string" where
  "print_hex v = ''0x'' @ print_nat 16 (unat v)"

definition iDAL_GetHexInRange ::
  "string option \<Rightarrow> bool \<Rightarrow> u32 \<Rightarrow> u32 \<Rightarrow> 'f DAL_PRIVATE_DATA \<Rightarrow> 'x dal_world
   \<Rightarrow> (int \<times> u32 option \<times> 'x dal_world) option" where
  "iDAL_GetHexInRange pcPrompt pulInput ulMin ulMax d w =
     (case pcPrompt of
        Some prompt \<Rightarrow>
          if dal_ready d \<and> pulInput \<and> ulMin < ulMax
          then map_option (\<lambda>(v, w1). (OK, Some v, w1))
                 (ask_in_range (input_prompt (range_prompt prompt (print_hex ulMin) (print_hex ulMax)) '' 0x'')
                    try_hex () (\<lambda>x. \<not> (x < ulMin \<or> x > ulMax))
                    (range_message (print_hex ulMin) (print_hex ulMax)) 0 w)
          else Some (ERROR, None, w)
      | None \<Rightarrow> Some (ERROR, None, w))"

section \<open>Floating point numbers\<close>

text \<open>The count of points is kept from one attempt to the next.\<close>

fun scan_float :: "nat \<Rightarrow> string \<Rightarrow> bool \<times> nat \<times> nat" where
  "scan_float dots [] = (True, 0, dots)"
| "scan_float dots (c # cs) =
     (if c = NUL \<or> c = CR \<or> c = LF then (True, Suc (length cs), dots)
      else if c = CHR ''.'' then
        (if dots = 0 then scan_float (Suc dots) cs else (False, Suc (length cs), dots))
      else if \<not> is_digit 10 c then (False, Suc (length cs), dots)
      else scan_float dots cs)"

definition try_float ::
  "(string \<Rightarrow> 'r::{zero,linorder}) \<Rightarrow> nat \<Rightarrow> string \<Rightarrow> string \<Rightarrow> (nat, 'r) attempt option" where
  "try_float strtof dots l buf =
     (case scan_float dots l of
        (ok, left, dots1) \<Rightarrow>
          if 0 < left \<and> ok
          then let v = strtof buf in Some (Done (Some v) (if v = 0 then not_valid else [CR, LF]))
          else Some (if ok then Done None not_valid else Again dots1 not_valid))"

definition iDAL_GetFloat ::
  "(string \<Rightarrow> 'r::{zero,linorder}) \<Rightarrow> string option \<Rightarrow> bool \<Rightarrow> 'f DAL_PRIVATE_DATA \<Rightarrow> 'x dal_world
   \<Rightarrow> (int \<times> 'r option \<times> 'x dal_world) option" where
  "iDAL_GetFloat strtof pcPrompt pfInput d w =
     (case pcPrompt of
        Some prompt \<Rightarrow>
          if dal_ready d \<and> pfInput
          then map_option (\<lambda>(v, w1). (OK, v, w1))
                 (ask (input_prompt prompt '' '') (try_float strtof) 0 w)
          else Some (ERROR, None, w)
      | None \<Rightarrow> Some (ERROR, None, w))"

text \<open>\<open>show_f\<close> is the \<open>%f\<close> of the C library.\<close>

definition iDAL_GetFloatInRange ::
  "(string \<Rightarrow> 'r::{zero,linorder}) \<Rightarrow> ('r \<Rightarrow> string) \<Rightarrow> string option \<Rightarrow> bool \<Rightarrow> 'r \<Rightarrow> 'r
   \<Rightarrow> 'f DAL_PRIVATE_DATA \<Rightarrow> 'x dal_world \<Rightarrow> (int \<times> 'r option \<times> 'x dal_world) option" where
  "iDAL_GetFloatInRange strtof show_f pcPrompt pfInput fMin fMax d w =
     (case pcPrompt of
        Some prompt \<Rightarrow>
          if dal_ready d \<and> pfInput \<and> fMin < fMax
          then map_option (\<lambda>(v, w1). (OK, Some v, w1))
                 (ask_in_range (input_prompt (range_prompt prompt (show_f fMin) (show_f fMax)) '' '')
                    (try_float strtof) 0 (\<lambda>x. \<not> (x < fMin \<or> x > fMax))
                    (range_message (show_f fMin) (show_f fMax)) 0 w)
          else Some (ERROR, None, w)
      | None \<Rightarrow> Some (ERROR, None, w))"

section \<open>Strings\<close>

text \<open>RETURN is not copied; the value is the buffer with how much of it to copy.\<close>

definition try_string :: "int \<Rightarrow> unit \<Rightarrow> string \<Rightarrow> string \<Rightarrow> (unit, nat \<times> string) attempt option" where
  "try_string iMaxLen s l buf =
     (let n = length l - 1 in
      if int n \<le> iMaxLen then Some (Done (Some (n, buf)) [])
      else Some (Again () (''Input length ('' @ print_nat 10 n @ '') exceeds maximum length (''
                             @ print_int iMaxLen @ '')'' @ [CR, LF])))"

definition iDAL_GetString ::
  "('f, 'x) dal_env \<Rightarrow> string option \<Rightarrow> string option \<Rightarrow> int \<Rightarrow> 'f DAL_PRIVATE_DATA \<Rightarrow> 'x dal_world
   \<Rightarrow> (int \<times> string option \<times> 'x dal_world) option" where
  "iDAL_GetString env pcPrompt pcInput iMaxLen d w =
     (case (pcPrompt, pcInput) of
        (Some prompt, Some dest) \<Rightarrow>
          if dal_ready d \<and> iMaxLen \<le> int DAL_MAX_INPUT
          then (case ask (input_prompt prompt '' '') (try_string iMaxLen) () w of
              Some (Some (n, buf), w1) \<Rightarrow>
                if n \<le> length dest
                then let (taken, w2) = dal_os (dalStringSem env) w1
                  in Some (OK, Some (pcOSAL_StrNCpy taken dest buf n), dal_print [CR, LF] w2)
                else None
            | _ \<Rightarrow> None)
          else Some (ERROR, pcInput, w)
      | _ \<Rightarrow> Some (ERROR, pcInput, w))"

end
