(* ===== verification/DalCommand.thy ===== *)
theory DalCommand
  imports DalPrint DalInput
begin

text \<open>
  The command line of the Debug Access Library: numbers that select options, \<open>?\<close> for the
  whole menu, \<open>*\<close> for the top level and \<open>0\<close> for the level above, and the task that reads
  and executes a line at a time.
\<close>

section \<open>Commands\<close>

definition DAL_CMD_FULL_MENU :: char where "DAL_CMD_FULL_MENU = CHR ''?''"
definition DAL_CMD_GO_TOP :: char where "DAL_CMD_GO_TOP = CHR ''*''"
definition DAL_CMD_GO_BACK :: char where "DAL_CMD_GO_BACK = CHR ''0''"

text \<open>
  One turn of the loop at cursor \<open>i\<close>: it ends the loop, or the command was executed and
  \<open>pcEndPtr\<close> is the position the turn ends at. An unknown character ends the loop because
  the code then writes the RETURN it stops at over the character at \<open>pcEndPtr\<close>.
\<close>

datatype ('f, 'x) command = Stop "'f DAL_PRIVATE_DATA" "'x dal_world"
  | Next nat "'f DAL_PRIVATE_DATA" "'x dal_world"

definition number_command ::
  "('f, 'x) dal_env \<Rightarrow> int \<Rightarrow> nat \<Rightarrow> 'f DAL_PRIVATE_DATA \<Rightarrow> 'x dal_world \<Rightarrow> ('f, 'x) command option" where
  "number_command env iCmd e d w =
     (case iSelectOption env iCmd d w of
        None \<Rightarrow> None
      | Some (st, d1, w1) \<Rightarrow>
        if st \<noteq> OK
        then Some (Stop (dal_inc_error DAL_ERRORS_UNKNOWN_COMMAND d1)
                     (dal_print (''Unknown command ('' @ print_int iCmd @ '')'' @ [CR, LF]) w1))
        else map_option (Next e d1) (vPrintCurrentLevel d1 w1))"

definition letter_command ::
  "char \<Rightarrow> nat \<Rightarrow> nat \<Rightarrow> 'f DAL_PRIVATE_DATA \<Rightarrow> 'x dal_world \<Rightarrow> ('f, 'x) command option" where
  "letter_command c i e d w =
     (if c = DAL_CMD_FULL_MENU then map_option (Next (i + 1) d) (vPrintMenu d w)
      else if c = DAL_CMD_GO_TOP then
        let d1 = (if pxTopLevel d \<noteq> None then d\<lparr>pxCurrentLevel := pxTopLevel d\<rparr> else d)
        in map_option (Next (i + 1) d1) (vPrintCurrentLevel d1 w)
      else if c = DAL_CMD_GO_BACK then
        (case pxCurrentLevel d of
           None \<Rightarrow> None
         | Some l \<Rightarrow>
           if l < length (dalHeap d)
           then let d1 = (case pxLevelUp (dalHeap d ! l) of
                            None \<Rightarrow> d | Some u \<Rightarrow> d\<lparr>pxCurrentLevel := Some u\<rparr>)
             in map_option (Next e d1) (vPrintCurrentLevel d1 w)
           else None)
      else Some (Stop (dal_inc_error DAL_ERRORS_UNKNOWN_COMMAND
                         (d\<lparr>pcLastCmd := (pcLastCmd d)[e := CR]\<rparr>))
                   (dal_print (''Unknown command: ('' @ [c] @ '')'' @ [CR, LF]) w)))"

definition one_command ::
  "('f, 'x) dal_env \<Rightarrow> nat \<Rightarrow> 'f DAL_PRIVATE_DATA \<Rightarrow> 'x dal_world \<Rightarrow> ('f, 'x) command option" where
  "one_command env i d w =
     (let buf = pcLastCmd d in
      if i < length buf
      then (case c_strtol 10 (drop i buf) of
          None \<Rightarrow> None
        | Some (iCmd, n) \<Rightarrow>
          if iCmd \<noteq> 0 then number_command env iCmd (i + n) d w
          else letter_command (buf ! i) i (i + n) d w)
      else None)"

lemma one_command_next:
  assumes "one_command env i d w = Some (Next e d1 w1)" shows "i < e"
proof -
  obtain iCmd n where n: "i < length (pcLastCmd d)" "c_strtol 10 (drop i (pcLastCmd d)) = Some (iCmd, n)"
    using assms by (auto simp: one_command_def Let_def split: if_splits option.splits)
  show ?thesis
  proof (cases "iCmd = 0")
    case False
    then show ?thesis using assms n c_strtol_progress[OF n(2)]
      by (auto simp: one_command_def number_command_def split: option.splits if_splits)
  next
    case True
    have "0 < n" if "pcLastCmd d ! i = DAL_CMD_GO_BACK"
    proof -
      have s: "drop i (pcLastCmd d) = CHR ''0'' # drop (Suc i) (pcLastCmd d)"
        using n(1) that by (simp add: Cons_nth_drop_Suc[symmetric] DAL_CMD_GO_BACK_def)
      have "is_digit 10 (CHR ''0'')" by (simp add: is_digit_10)
      then show ?thesis using n(2)
        by (auto simp: s c_strtol_def Let_def is_space_def split: if_splits)
    qed
    then show ?thesis using assms n True
      by (auto simp: one_command_def letter_command_def Let_def split: option.splits if_splits)
  qed
qed

lemma select_changes:
  "iSelectOption env iCmd d w = Some (st, d', w') \<Longrightarrow> \<exists>l. d' = d\<lparr>pxCurrentLevel := l\<rparr>"
proof -
  assume "iSelectOption env iCmd d w = Some (st, d', w')"
  then have "d' = d \<or> (\<exists>l. d' = d\<lparr>pxCurrentLevel := l\<rparr>)"
    unfolding iSelectOption_def
    by (auto split: option.splits if_splits bind_splits DAL_MENU_OPTION_TYPE_ENUM.splits
        DAL_MENU_ACTION.splits)
  moreover have "d = d\<lparr>pxCurrentLevel := pxCurrentLevel d\<rparr>" by simp
  ultimately show ?thesis by metis
qed

lemma select_buffer: "iSelectOption env iCmd d w = Some (st, d', w') \<Longrightarrow> pcLastCmd d' = pcLastCmd d"
  using select_changes[of env iCmd d w st d' w'] by auto

lemma one_command_buffer:
  "one_command env i d w = Some (Next e d1 w1) \<Longrightarrow> pcLastCmd d1 = pcLastCmd d"
proof -
  assume "one_command env i d w = Some (Next e d1 w1)"
  then consider "pcLastCmd d1 = pcLastCmd d"
    | c w2 where "iSelectOption env c d w = Some (OK, d1, w2)"
    by (simp add: one_command_def number_command_def letter_command_def Let_def
        split: option.splits if_splits prod.splits) auto
  then show ?thesis by cases (simp_all add: select_buffer)
qed

text \<open>
  The loop. Between two commands one character is skipped, which must be a space; RETURN
  ends the line.
\<close>

function process_loop ::
  "('f, 'x) dal_env \<Rightarrow> nat \<Rightarrow> 'f DAL_PRIVATE_DATA \<Rightarrow> 'x dal_world
   \<Rightarrow> ('f DAL_PRIVATE_DATA \<times> 'x dal_world) option" where
  "process_loop env i d w =
     (if length (pcLastCmd d) \<le> i then None
      else if pcLastCmd d ! i = CR then Some (d, w)
      else case one_command env i d w of
             None \<Rightarrow> None
           | Some (Stop d1 w1) \<Rightarrow> Some (d1, w1)
           | Some (Next e d1 w1) \<Rightarrow>
             if length (pcLastCmd d1) \<le> e then None
             else if pcLastCmd d1 ! e \<noteq> CHR '' '' \<and> pcLastCmd d1 ! e \<noteq> CR
             then Some (dal_inc_error DAL_ERRORS_UNKNOWN_CHAR_IN_COMMAND_LINE d1,
                        dal_print (''Multiple commands need empty character in between'' @ [CR, LF]) w1)
             else process_loop env (if pcLastCmd d1 ! e \<noteq> CR then e + 1 else e) d1 w1)"
  by pat_completeness auto

termination
  by (relation "measure (\<lambda>(env, i, d, w). length (pcLastCmd d) - i)")
     (auto dest: one_command_next simp: one_command_buffer)

declare process_loop.simps [simp del]

definition vProcessCmd ::
  "('f, 'x) dal_env \<Rightarrow> bool \<Rightarrow> nat \<Rightarrow> 'f DAL_PRIVATE_DATA \<Rightarrow> 'x dal_world
   \<Rightarrow> ('f DAL_PRIVATE_DATA \<times> 'x dal_world) option" where
  "vProcessCmd env pcCmd iInputLen d w =
     (if iInputLen = 1 then map_option (Pair d) (vPrintCurrentLevel d w)
      else if pcCmd then process_loop env 0 d w
      else Some (dal_inc_error DAL_ERRORS_COMMAND_LIST_NULL_POINTER d, w))"

section \<open>The task\<close>

text \<open>One pass of \<open>vDalTask\<close>'s endless loop, and its start.\<close>

definition dal_task_start ::
  "('f, 'x) dal_env \<Rightarrow> 'f DAL_PRIVATE_DATA \<Rightarrow> 'x dal_world \<Rightarrow> 'x dal_world option" where
  "dal_task_start env d w = (case pxInitFunc d of None \<Rightarrow> Some w | Some f \<Rightarrow> dalCall env f w)"

definition dal_task_pass ::
  "('f, 'x) dal_env \<Rightarrow> 'f DAL_PRIVATE_DATA \<Rightarrow> 'x dal_world
   \<Rightarrow> ('f DAL_PRIVATE_DATA \<times> 'x dal_world) option" where
  "dal_task_pass env d w = do {
     (n, buf, d1, w1) \<leftarrow> iNextInput (Some (pcLastCmd d)) DAL_MAX_INPUT d w;
     let d2 = dal_inc_stat DAL_STATS_NEW_COMMAND
                (case buf of None \<Rightarrow> d1 | Some b \<Rightarrow> d1\<lparr>pcLastCmd := b\<rparr>);
         (taken, w2) = dal_os (dalMutexTake env) w1
     in if taken
        then do {
          (d3, w3) \<leftarrow> vProcessCmd env True n (dal_inc_stat DAL_STATS_TAKE_MUTEX d2) w2;
          menu \<leftarrow> c_string (pcMenuName d3);
          c \<leftarrow> pxCurrentLevel d3;
          cur \<leftarrow> (if c < length (dalHeap d3) then c_string (pcName (dalHeap d3 ! c)) else None);
          let w4 = dal_print ([CR, LF] @ menu @ ''['' @ cur @ '']'' @ DAL_PROMPT @ '' '') w3;
              (ok, w5) = dal_os (dalMutexRelease env) w4
          in Some (if ok then dal_inc_stat DAL_STATS_RELEASE_MUTEX d3
                   else dal_inc_error DAL_ERRORS_MUTEX_RELEASE_FAILED d3, w5)
        }
        else Some (dal_inc_error DAL_ERRORS_MUTEX_TAKE_FAILED d2, w2)
   }"

section \<open>Statistics\<close>

definition dal_all_stats :: "(string \<times> DAL_STATS) list" where
  "dal_all_stats = [(''DAL_STATS_INIT_OVERALL_COMPLETE'', DAL_STATS_INIT_OVERALL_COMPLETE),
     (''DAL_STATS_CREATE_MUTEX'', DAL_STATS_CREATE_MUTEX),
     (''DAL_STATS_TAKE_MUTEX'', DAL_STATS_TAKE_MUTEX),
     (''DAL_STATS_RELEASE_MUTEX'', DAL_STATS_RELEASE_MUTEX),
     (''DAL_STATS_OPTION_CREATED'', DAL_STATS_OPTION_CREATED),
     (''DAL_STATS_DIRECTORY_CREATED'', DAL_STATS_DIRECTORY_CREATED),
     (''DAL_STATS_SUB_DIRECTORY_CREATED'', DAL_STATS_SUB_DIRECTORY_CREATED),
     (''DAL_STATS_DEBUG_FUNCTION_CREATED'', DAL_STATS_DEBUG_FUNCTION_CREATED),
     (''DAL_STATS_NEW_COMMAND'', DAL_STATS_NEW_COMMAND)]"

definition dal_all_errors :: "(string \<times> DAL_ERRORS) list" where
  "dal_all_errors = [(''DAL_ERRORS_INIT_TASK_CREATE_FAILED'', DAL_ERRORS_INIT_TASK_CREATE_FAILED),
     (''DAL_ERRORS_INIT_MUTEX_CREATE_FAILED'', DAL_ERRORS_INIT_MUTEX_CREATE_FAILED),
     (''DAL_ERRORS_MUTEX_RELEASE_FAILED'', DAL_ERRORS_MUTEX_RELEASE_FAILED),
     (''DAL_ERRORS_MUTEX_TAKE_FAILED'', DAL_ERRORS_MUTEX_TAKE_FAILED),
     (''DAL_ERRORS_OPTION_NOT_CREATED'', DAL_ERRORS_OPTION_NOT_CREATED),
     (''DAL_ERRORS_DIRECTORY_NOT_CREATED'', DAL_ERRORS_DIRECTORY_NOT_CREATED),
     (''DAL_ERRORS_SUB_DIRECTORY_NOT_CREATED'', DAL_ERRORS_SUB_DIRECTORY_NOT_CREATED),
     (''DAL_ERRORS_DEBUG_FUNCTION_NOT_CREATED'', DAL_ERRORS_DEBUG_FUNCTION_NOT_CREATED),
     (''DAL_ERRORS_VALIDATION_FAILED'', DAL_ERRORS_VALIDATION_FAILED),
     (''DAL_ERRORS_COMMAND_LIST_NULL_POINTER'', DAL_ERRORS_COMMAND_LIST_NULL_POINTER),
     (''DAL_ERRORS_UNKNOWN_CHAR_IN_COMMAND_LINE'', DAL_ERRORS_UNKNOWN_CHAR_IN_COMMAND_LINE),
     (''DAL_ERRORS_UNKNOWN_COMMAND'', DAL_ERRORS_UNKNOWN_COMMAND),
     (''DAL_ERRORS_NULL_INPUT_POINTER'', DAL_ERRORS_NULL_INPUT_POINTER),
     (''DAL_ERRORS_WRONG_INPUT_BUF_SIZE'', DAL_ERRORS_WRONG_INPUT_BUF_SIZE)]"

text \<open>The printed rows are the counters with their names; the ruled lines are left out.\<close>

definition iDAL_PrintStatistics ::
  "'f DAL_PRIVATE_DATA \<Rightarrow> int \<times> (string \<times> u32) list \<times> 'f DAL_PRIVATE_DATA" where
  "iDAL_PrintStatistics d =
     (if dal_firewalls d
      then (OK, map (\<lambda>(s, x). (s, dalStats d x)) dal_all_stats
              @ map (\<lambda>(s, x). (s, dalErrors d x)) dal_all_errors, d)
      else (ERROR, [], dal_inc_error DAL_ERRORS_VALIDATION_FAILED d))"

definition iDAL_ClearStatistics :: "'f DAL_PRIVATE_DATA \<Rightarrow> int \<times> 'f DAL_PRIVATE_DATA" where
  "iDAL_ClearStatistics d =
     (if dal_ready d then (OK, d\<lparr>dalStats := (\<lambda>_. 0), dalErrors := (\<lambda>_. 0)\<rparr>)
      else (ERROR, dal_inc_error DAL_ERRORS_VALIDATION_FAILED d))"

end
