(* ===== verification/DalRun.thy ===== *)
theory DalRun
  imports DalCommand
begin

text \<open>
  Executing command lines: on a well-formed menu with terminated names no command leaves
  the buffer or dereferences a NULL pointer, and the menu itself never changes.
\<close>

lemma last_drop_while: "dropWhile p s \<noteq> [] \<Longrightarrow> last (dropWhile p s) = last s"
  by (induction s) auto

lemma dropWhile_not_empty: "xs \<noteq> [] \<Longrightarrow> last xs = c \<Longrightarrow> \<not> p c \<Longrightarrow> dropWhile p xs \<noteq> []"
  by (metis dropWhile_eq_Nil_conv last_in_set)

lemma c_strtol_less: "c_strtol base s = Some (v, n) \<Longrightarrow> s \<noteq> [] \<Longrightarrow> n < length s"
proof -
  assume "c_strtol base s = Some (v, n)" "s \<noteq> []"
  moreover from this(1) have "n = 0 \<or> (\<exists>rest. rest \<noteq> [] \<and> n = length s - length (rest :: string))"
    unfolding c_strtol_def Let_def
    by (simp only: option.distinct option.inject prod.inject split: if_splits) blast+
  ultimately show ?thesis by auto
qed

lemma c_strtol_total:
  assumes "s \<noteq> []" "last s = NUL" "base \<le> 36"
  obtains v n where "c_strtol base s = Some (v, n)" "n < length s"
proof -
  let ?r = "dropWhile is_space s"
  let ?r1 = "if ?r \<noteq> [] \<and> (hd ?r = CHR ''-'' \<or> hd ?r = CHR ''+'') then tl ?r else ?r"
  have nd: "\<not> is_digit base NUL" "\<not> is_space NUL"
    using is_digit_plain(1)[of base NUL] assms(3) by (auto simp: is_space_def)
  have "?r \<noteq> []" using assms(1,2) nd(2) last_in_set[OF assms(1)] by (auto simp: dropWhile_eq_Nil_conv)
  moreover from this have l: "last ?r = NUL" using assms(2) last_drop_while[of is_space s] by simp
  ultimately obtain a r' where r: "?r = a # r'" and la: "last (a # r') = NUL"
    by (metis neq_Nil_conv)
  have r1: "?r1 \<noteq> []" "last ?r1 = NUL"
    using la by (auto simp: r split: if_splits)
  have "dropWhile (is_digit base) ?r1 \<noteq> []"
    using dropWhile_not_empty[where p = "is_digit base", OF r1 nd(1)] .
  then have "drop (length (takeWhile (is_digit base) ?r1)) ?r1 \<noteq> []"
    by (simp only: dropWhile_eq_drop not_False_eq_True)
  then have "c_strtol base s \<noteq> None"
    unfolding c_strtol_def Let_def by (simp only: if_False) (simp split: if_split)
  then show ?thesis using that c_strtol_less[OF _ assms(1), of base] by auto
qed

section \<open>One command\<close>

definition calls_return :: "('f, 'x) dal_env \<Rightarrow> bool" where
  "calls_return env \<longleftrightarrow> (\<forall>f w. dalCall env f w \<noteq> None)"

text \<open>What a command may change of the library.\<close>

definition walks :: "'f DAL_PRIVATE_DATA \<Rightarrow> 'f DAL_PRIVATE_DATA \<Rightarrow> bool" where
  "walks d d' \<longleftrightarrow> dal_inv d' \<and> dalIsInitialised d' \<and> dalHeap d' = dalHeap d
     \<and> pcMenuName d' = pcMenuName d"

lemma walks_refl [simp]: "dal_inv d \<Longrightarrow> dalIsInitialised d \<Longrightarrow> walks d d"
  by (simp add: walks_def)

lemma walks_trans: "walks d d' \<Longrightarrow> walks d' d'' \<Longrightarrow> walks d d''"
  by (simp add: walks_def)

lemma walks_error [simp]: "walks d (dal_inc_error e d') = walks d d'"
  "walks d (dal_inc_stat x d') = walks d d'"
  by (simp_all add: walks_def)

lemma select_total:
  assumes inv: "dal_inv d" "dalIsInitialised d" and env: "calls_return env"
  obtains st d' w' where "iSelectOption env c d w = Some (st, d', w')" "walks d d'"
proof -
  have "select_spec env c d w \<noteq> None" using env
    by (auto simp: select_spec_def Let_def calls_return_def split: DAL_MENU_ACTION.splits)
  then obtain st d' w' where s: "iSelectOption env c d w = Some (st, d', w')"
    by (auto simp: select_option_spec[OF inv])
  moreover have "pcMenuName d' = pcMenuName d" using select_changes[OF s] by auto
  ultimately show ?thesis using select_inv[OF inv s] that by (simp add: walks_def)
qed

lemma print_current_total:
  assumes "walks d d'" "names_ok (dalHeap d)"
  obtains w' where "vPrintCurrentLevel d' w = Some w'"
  using print_current_lines[of d' w] assms by (auto simp: walks_def)

lemma go_top_walks: "dal_inv d \<Longrightarrow> dalIsInitialised d \<Longrightarrow> walks d (d\<lparr>pxCurrentLevel := pxTopLevel d\<rparr>)"
  by (auto simp: walks_def dal_inv_def menu_inv_def)

lemma go_back_walks:
  assumes "dal_inv d" "dalIsInitialised d" "pxCurrentLevel d = Some l"
    "pxLevelUp (dalHeap d ! l) = Some u"
  shows "walks d (d\<lparr>pxCurrentLevel := Some u\<rparr>)"
proof -
  have m: "menu_inv (dalHeap d)" and l: "l < length (dalHeap d)"
    using assms(1-3) by (auto simp: dal_inv_def)
  then have "u < length (dalHeap d)" "xNodeType (dalHeap d ! u) = DAL_MENU_OPTION_TYPE_DIR"
    using menu_inv_node[OF m l] assms(4) by (auto simp: node_ok_def)
  then show ?thesis using assms(1,2) by (auto simp: walks_def dal_inv_def)
qed

lemma unknown_walks: "dal_inv d \<Longrightarrow> dalIsInitialised d \<Longrightarrow> walks d (d\<lparr>pcLastCmd := (pcLastCmd d)[e := c]\<rparr>)"
  by (auto simp: walks_def dal_inv_def)

lemma letter_total:
  assumes inv: "dal_inv d" "dalIsInitialised d" and names: "names_ok (dalHeap d)"
  shows "\<exists>d1 w1. walks d d1 \<and> (letter_command c i e d w = Some (Stop d1 w1)
    \<or> (\<exists>j. letter_command c i e d w = Some (Next j d1 w1) \<and> (j = e \<or> j = i + 1 \<and> c \<noteq> NUL)))"
proof -
  obtain l where l: "pxCurrentLevel d = Some l" "l < length (dalHeap d)" and top: "pxTopLevel d = Some 0"
    using inv by (auto simp: dal_inv_def)
  show ?thesis
  proof (cases "c = DAL_CMD_FULL_MENU \<or> c = DAL_CMD_GO_TOP \<or> c = DAL_CMD_GO_BACK")
    case False
    then show ?thesis using unknown_walks[OF inv, of e CR]
      by (intro exI conjI disjI1) (auto simp: letter_command_def)
  next
    case True
    then consider (full) "c = DAL_CMD_FULL_MENU" | (top) "c = DAL_CMD_GO_TOP" | (goback) "c = DAL_CMD_GO_BACK"
      by blast
    then show ?thesis
    proof cases
      case full
      then show ?thesis using print_menu_lines[OF inv names, of w] inv
        by (auto simp: letter_command_def DAL_CMD_FULL_MENU_def)
    next
      case top
      obtain w' where "vPrintCurrentLevel (d\<lparr>pxCurrentLevel := pxTopLevel d\<rparr>) w = Some w'"
        using print_current_total[OF go_top_walks[OF inv] names] .
      then show ?thesis using top \<open>pxTopLevel d = Some 0\<close> go_top_walks[OF inv]
        by (auto simp: letter_command_def DAL_CMD_FULL_MENU_def DAL_CMD_GO_TOP_def)
    next
      case goback
      let ?d = "case pxLevelUp (dalHeap d ! l) of None \<Rightarrow> d | Some u \<Rightarrow> d\<lparr>pxCurrentLevel := Some u\<rparr>"
      have walk: "walks d ?d" using go_back_walks[OF inv l(1)] inv by (auto split: option.splits)
      obtain w' where "vPrintCurrentLevel ?d w = Some w'" using print_current_total[OF walk names] .
      then show ?thesis using goback l walk
        by (auto simp: letter_command_def DAL_CMD_FULL_MENU_def DAL_CMD_GO_TOP_def DAL_CMD_GO_BACK_def)
    qed
  qed
qed

lemma one_command_total:
  assumes inv: "dal_inv d" "dalIsInitialised d" and names: "names_ok (dalHeap d)"
    and env: "calls_return env" and nul: "last (pcLastCmd d) = NUL"
    and i: "i < length (pcLastCmd d)"
  shows "\<exists>d1 w1. walks d d1 \<and> (one_command env i d w = Some (Stop d1 w1)
    \<or> (\<exists>e. one_command env i d w = Some (Next e d1 w1) \<and> e < length (pcLastCmd d)))"
proof -
  let ?s = "drop i (pcLastCmd d)"
  have s: "?s \<noteq> []" "last ?s = NUL" using i nul by (simp_all add: last_drop)
  obtain v n where v: "c_strtol 10 ?s = Some (v, n)" "n < length ?s"
    using c_strtol_total[OF s, of 10] by auto
  have "i + 1 < length (pcLastCmd d)" if "pcLastCmd d ! i \<noteq> NUL"
  proof (rule ccontr)
    assume "\<not> i + 1 < length (pcLastCmd d)"
    then have "i = length (pcLastCmd d) - 1" using i by simp
    then show False using nul i that by (metis last_conv_nth length_0_conv not_less_zero)
  qed
  moreover have "i + n < length (pcLastCmd d)" using v(2) by simp
  ultimately have next_less: "j = i + n \<or> j = i + 1 \<and> pcLastCmd d ! i \<noteq> NUL
      \<Longrightarrow> j < length (pcLastCmd d)" for j by auto
  show ?thesis
  proof (cases "v = 0")
    case True
    then have "one_command env i d w = letter_command (pcLastCmd d ! i) i (i + n) d w"
      using v i by (simp add: one_command_def)
    then show ?thesis
      using letter_total[OF inv names, of "pcLastCmd d ! i" i "i + n" w] next_less by auto
  next
    case False
    obtain st d' w' where sel: "iSelectOption env v d w = Some (st, d', w')" "walks d d'"
      using select_total[OF inv env] .
    obtain w2 where "vPrintCurrentLevel d' w' = Some w2" using print_current_total[OF sel(2) names] .
    then have "one_command env i d w = Some (Next (i + n) d' w2)
        \<or> (\<exists>w3. one_command env i d w = Some (Stop (dal_inc_error DAL_ERRORS_UNKNOWN_COMMAND d') w3))"
      using sel v False i by (simp add: one_command_def number_command_def)
    then show ?thesis using sel(2) next_less by (elim disjE exE) auto
  qed
qed

section \<open>A line\<close>

lemma process_loop_total:
  "dal_inv d \<Longrightarrow> dalIsInitialised d \<Longrightarrow> names_ok (dalHeap d) \<Longrightarrow> calls_return env
   \<Longrightarrow> last (pcLastCmd d) = NUL \<Longrightarrow> i < length (pcLastCmd d)
   \<Longrightarrow> \<exists>d' w'. process_loop env i d w = Some (d', w') \<and> walks d d'"
proof (induction env i d w rule: process_loop.induct)
  case (1 env i d w)
  let ?next = "\<lambda>e b. if b ! e \<noteq> CR then e + 1 else e"
  from one_command_total[OF "1.prems", of w] obtain d1 w1 where walk: "walks d d1"
    and step: "one_command env i d w = Some (Stop d1 w1)
      \<or> (\<exists>e. one_command env i d w = Some (Next e d1 w1) \<and> e < length (pcLastCmd d))" by auto
  show ?case
  proof (cases "pcLastCmd d ! i = CR")
    case True
    then show ?thesis using "1.prems" by (subst process_loop.simps) simp
  next
    case nocr: False
    from step show ?thesis
    proof (elim disjE exE conjE)
      assume "one_command env i d w = Some (Stop d1 w1)"
      then show ?thesis using walk nocr "1.prems" by (subst process_loop.simps) simp
    next
      fix e assume c: "one_command env i d w = Some (Next e d1 w1)" and e: "e < length (pcLastCmd d)"
      note buf = one_command_buffer[OF c]
      show ?thesis
      proof (cases "pcLastCmd d ! e \<noteq> CHR '' '' \<and> pcLastCmd d ! e \<noteq> CR")
        case True
        then show ?thesis using walk nocr "1.prems" c e buf by (subst process_loop.simps) simp
      next
        case False
        have "?next e (pcLastCmd d) < length (pcLastCmd d)"
        proof (cases "pcLastCmd d ! e = CR")
          case f: False
          then have "pcLastCmd d ! e \<noteq> last (pcLastCmd d)" using "1.prems"(5) False by auto
          then have "e \<noteq> length (pcLastCmd d) - 1" using e by (metis last_conv_nth length_0_conv not_less_zero)
          then show ?thesis using e f by simp
        qed (use e in simp)
        then have "\<exists>d' w'. process_loop env (?next e (pcLastCmd d1)) d1 w1 = Some (d', w') \<and> walks d1 d'"
          using "1.IH"[OF _ nocr c refl] walk "1.prems" e buf False by (simp add: walks_def)
        then obtain d' w' where "process_loop env (?next e (pcLastCmd d1)) d1 w1 = Some (d', w')"
          "walks d1 d'" by blast
        then show ?thesis using walk nocr "1.prems" c e buf False walks_trans[OF walk]
          by (subst process_loop.simps) auto
      qed
    qed
  qed
qed

section \<open>A line of numbers\<close>

text \<open>The text of a path of option numbers, and the directory it leads to.\<close>

fun path_text :: "nat list \<Rightarrow> string" where
  "path_text [] = []"
| "path_text [k] = print_nat 10 k"
| "path_text (k # ks) = print_nat 10 k @ CHR '' '' # path_text ks"

fun descend :: "'f DAL_MENU_OPTION list \<Rightarrow> nat \<Rightarrow> nat list \<Rightarrow> nat option" where
  "descend h c [] = Some c"
| "descend h c (k # ks) =
     (if 1 \<le> k \<and> k \<le> length (kids h c)
         \<and> xNodeType (h ! (kids h c ! (k - 1))) = DAL_MENU_OPTION_TYPE_DIR
      then descend h (kids h c ! (k - 1)) ks else None)"

lemma select_dir:
  assumes inv: "dal_inv d" "dalIsInitialised d" and c: "pxCurrentLevel d = Some c"
    and k: "1 \<le> k" "k \<le> length (kids (dalHeap d) c)"
      "xNodeType (dalHeap d ! (kids (dalHeap d) c ! (k - 1))) = DAL_MENU_OPTION_TYPE_DIR"
  shows "iSelectOption env (int k) d w
    = Some (OK, d\<lparr>pxCurrentLevel := Some (kids (dalHeap d) c ! (k - 1))\<rparr>, w)"
proof -
  let ?s = "kids (dalHeap d) c ! (k - 1)"
  have m: "menu_inv (dalHeap d)" using inv by (simp add: dal_inv_def)
  have "?s \<in> set (kids (dalHeap d) c)" using k by (intro nth_mem) simp
  then obtain l where "xAction (dalHeap d ! ?s) = LevelDown l"
    using dir_chain[OF m _ k(3)] kids_less by metis
  then show ?thesis
    using k c by (simp add: select_option_spec[OF inv] select_spec_def current_kids_def)
qed

lemma process_path:
  "dal_inv d \<Longrightarrow> dalIsInitialised d \<Longrightarrow> names_ok (dalHeap d) \<Longrightarrow> calls_return env
   \<Longrightarrow> pxCurrentLevel d = Some c \<Longrightarrow> ks \<noteq> [] \<Longrightarrow> \<forall>k \<in> set ks. int k \<le> LONG_MAX
   \<Longrightarrow> pcLastCmd d = pre @ path_text ks @ CR # pad \<Longrightarrow> descend (dalHeap d) c ks = Some t
   \<Longrightarrow> \<exists>w'. process_loop env (length pre) d w = Some (d\<lparr>pxCurrentLevel := Some t\<rparr>, w')"
proof (induction ks arbitrary: d c pre w)
  case (Cons k ks)
  let ?num = "print_nat 10 k" let ?s = "kids (dalHeap d) c ! (k - 1)"
  let ?d = "d\<lparr>pxCurrentLevel := Some ?s\<rparr>" let ?e = "length pre + length ?num"
  have k: "1 \<le> k" "k \<le> length (kids (dalHeap d) c)"
    "xNodeType (dalHeap d ! ?s) = DAL_MENU_OPTION_TYPE_DIR"
    and t: "descend (dalHeap d) ?s ks = Some t"
    using Cons.prems(9) by (auto split: if_splits)
  obtain sep after where buf: "pcLastCmd d = pre @ ?num @ sep # after"
    and sep: "ks = [] \<Longrightarrow> sep = CR"
      "ks \<noteq> [] \<Longrightarrow> sep = CHR '' '' \<and> after = path_text ks @ CR # pad"
    using Cons.prems(8) by (cases ks) auto
  have dig: "\<forall>c \<in> set ?num. is_digit 10 c" by (rule print_nat_digits) simp_all
  have "sep = CR \<or> sep = CHR '' ''" using sep by blast
  then have "\<not> is_digit 10 sep" by (auto simp: is_digit_10)
  then have strtol: "c_strtol 10 (drop (length pre) (pcLastCmd d)) = Some (int k, length ?num)"
    using c_strtol_digits[OF print_nat_not_empty dig, of sep after] Cons.prems(7) buf by simp
  have "hd ?num \<noteq> CR" using dig is_digit_plain(2)[of 10 "hd ?num"] by simp
  then have nocr: "pcLastCmd d ! length pre \<noteq> CR" "length pre < length (pcLastCmd d)"
    using buf by (auto simp: nth_append hd_conv_nth)
  note sel = select_dir[OF Cons.prems(1,2,5) k, of env w]
  have inv: "dal_inv ?d" "dalIsInitialised ?d"
    using select_inv[OF Cons.prems(1,2) sel] by auto
  have "walks d ?d" using inv by (simp add: walks_def)
  then obtain w1 where "vPrintCurrentLevel ?d w = Some w1"
    using print_current_total Cons.prems(3) by metis
  then have cmd: "one_command env (length pre) d w = Some (Next ?e ?d w1)"
    using strtol nocr(2) sel k(1) by (simp add: one_command_def number_command_def)
  have at: "pcLastCmd d ! ?e = sep" "?e < length (pcLastCmd d)" using buf by (simp_all add: nth_append)
  show ?case
  proof (cases "ks = []")
    case True
    then have "process_loop env ?e ?d w1 = Some (?d, w1)"
      using at sep by (subst process_loop.simps) simp
    then show ?thesis using cmd nocr at sep True t by (subst process_loop.simps) simp
  next
    case False
    let ?pre = "pre @ ?num @ [sep]"
    have "\<exists>w'. process_loop env (length ?pre) ?d w1 = Some (?d\<lparr>pxCurrentLevel := Some t\<rparr>, w')"
      by (rule Cons.IH[OF inv]) (use Cons.prems False buf sep t in auto)
    then show ?thesis using cmd nocr at sep False by (subst process_loop.simps) simp
  qed
qed simp

end
