(* ===== verification/DalProperties.thy ===== *)
theory DalProperties
  imports DalRun
begin

text \<open>
  What the Debug Access Library guarantees to the modules that build the menu and to the
  operator: options stay in the order they were added, numbers select them, the menu is
  printed completely, a number is asked for until it is in range, a line of numbers walks
  the directories, and no line shorter than the buffer harms the task.
\<close>

section \<open>A menu with one directory\<close>

definition sample_dal_env :: "('f, 'x) dal_env" where
  "sample_dal_env = \<lparr> dalMutexCreate = Pair True, dalTaskCreate = Pair True,
     dalMutexTake = Pair True, dalMutexRelease = Pair True,
     dalMemAlloc = Pair (Some \<lparr> pcName = replicate DAL_MAX_NAME_LEN NUL,
       xNodeType = DAL_MENU_OPTION_TYPE_DIR, xAction = LevelDown None, pxLevelUp = None,
       pxNextNode = None, pxLastNode = None, iNumNodes = 0, iDepth = 0 \<rparr>),
     dalStringSem = Pair True, dalMemCpySem = Pair True, dalCall = (\<lambda>f. Some) \<rparr>"

definition sample_dal :: "'f DAL_PRIVATE_DATA" where
  "sample_dal = dal_local_data\<lparr>dalIsInitialised := True, pxTopLevel := Some 0, pxCurrentLevel := Some 0,
     dalHeap :=
       [\<lparr> pcName = ''*'' @ [NUL], xNodeType = DAL_MENU_OPTION_TYPE_DIR,
          xAction = LevelDown (Some 1), pxLevelUp = None, pxNextNode = None, pxLastNode = None,
          iNumNodes = 1, iDepth = 0 \<rparr>,
        \<lparr> pcName = ''bmc'' @ [NUL], xNodeType = DAL_MENU_OPTION_TYPE_DIR,
          xAction = LevelDown None, pxLevelUp = Some 0, pxNextNode = None, pxLastNode = None,
          iNumNodes = 1, iDepth = 1 \<rparr>]\<rparr>"

definition sample_dal_world :: "string \<Rightarrow> unit dal_world" where
  "sample_dal_world t = \<lparr> dalInput = t, dalOutput = [], dalOutside = () \<rparr>"

lemma sample_dal_ok: "dal_inv sample_dal" "dalIsInitialised sample_dal" "names_ok (dalHeap sample_dal)"
  by (auto simp: dal_inv_def sample_dal_def dal_local_data_def menu_inv_def node_ok_def kids_def
      level_count_def names_ok_def less_Suc_eq numeral_2_eq_2 upt_rec)

section \<open>Properties of the menu\<close>

text \<open>
  C15: adding an option with a valid name to a directory of the menu, when memory is
  available, returns its handle and keeps the menu well formed: the option is the new last
  one of that directory, one level deeper, and every other directory is unchanged.
\<close>

theorem dal_new_item_appends:
  assumes "dal_inv d" "dalIsInitialised d" "p < length (dalHeap d)" "length nm \<le> DAL_MAX_NAME_LEN"
    and "xNodeType (dalHeap d ! p) = DAL_MENU_OPTION_TYPE_DIR"
    and "fst (dalMemAlloc env (dalOutside w)) = Some b"
  shows "\<exists>d' w'. xNewMenuItem env (Some nm) (Some p) fn d w = Some (Some (length (dalHeap d)), d', w')
    \<and> dal_inv d' \<and> length (dalHeap d') = length (dalHeap d) + 1
    \<and> kids (dalHeap d') = (kids (dalHeap d))(p := kids (dalHeap d) p @ [length (dalHeap d)])
    \<and> iDepth (dalHeap d' ! length (dalHeap d)) = iDepth (dalHeap d ! p) + 1"
proof -
  obtain w1 where alloc: "dal_os (dalMemAlloc env) w = (Some b, w1)"
    using assms(6) by (cases "dalMemAlloc env (dalOutside w)") (simp add: dal_os_def)
  obtain t w2 where sem: "dal_os (dalStringSem env) w1 = (t, w2)" by fastforce
  from new_item_spec[OF assms(1-5) alloc sem, of fn] obtain h
    where h: "xNewMenuItem env (Some nm) (Some p) fn d w
      = Some (Some (length (dalHeap d)), (dal_inc_stat DAL_STATS_OPTION_CREATED d)\<lparr>dalHeap := h\<rparr>, w2)"
    and app: "appended (dalHeap d) p (new_node t nm p fn b) h" .
  have "dal_inv ((dal_inc_stat DAL_STATS_OPTION_CREATED d)\<lparr>dalHeap := h\<rparr>)"
    by (rule appended_dal_inv[OF _ _ _ fresh_new_node]) (use app assms in simp_all)
  moreover have "length h = length (dalHeap d) + 1"
    "iDepth (h ! length (dalHeap d)) = iDepth (dalHeap d ! p) + 1"
    using app by (auto simp: appended_def Let_def)
  moreover have "kids h = (kids (dalHeap d))(p := kids (dalHeap d) p @ [length (dalHeap d)])"
    using appended_kids[OF app fresh_new_node] by auto
  ultimately show ?thesis using h by auto
qed

lemma dal_new_item_appends_witness:
  "\<exists>d' w'. xNewMenuItem sample_dal_env (Some ''pll'') (Some 0) None (sample_dal :: nat DAL_PRIVATE_DATA)
        (sample_dal_world []) = Some (Some 2, d', w')
    \<and> dal_inv d' \<and> kids (dalHeap d') 0 = [1, 2]"
proof -
  have k: "kids (dalHeap (sample_dal :: nat DAL_PRIVATE_DATA)) 0 = [1]"
    "length (dalHeap (sample_dal :: nat DAL_PRIVATE_DATA)) = 2"
    by (simp_all add: sample_dal_def kids_def numeral_2_eq_2 upt_rec)
  have "fst (dalMemAlloc sample_dal_env (dalOutside (sample_dal_world []))) = Some (the (fst (dalMemAlloc
      (sample_dal_env :: (nat, unit) dal_env) ())))"
    by (simp add: sample_dal_env_def)
  moreover have "0 < length (dalHeap (sample_dal :: nat DAL_PRIVATE_DATA))"
    "length ''pll'' \<le> DAL_MAX_NAME_LEN"
    "xNodeType (dalHeap (sample_dal :: nat DAL_PRIVATE_DATA) ! 0) = DAL_MENU_OPTION_TYPE_DIR"
    by (simp_all add: sample_dal_def DAL_MAX_NAME_LEN_def)
  ultimately obtain d' w' where "xNewMenuItem sample_dal_env (Some ''pll'') (Some 0) None
        (sample_dal :: nat DAL_PRIVATE_DATA) (sample_dal_world []) = Some (Some 2, d', w')"
    "dal_inv d'" "kids (dalHeap d') 0 = [1, 2]"
    using dal_new_item_appends[OF sample_dal_ok(1,2), of 0 "''pll''" sample_dal_env
        "sample_dal_world []" _ None] k by fastforce
  then show ?thesis by blast
qed

text \<open>
  A number selects the option of that place in the current directory: a directory
  becomes the current one, a debug function is called once; a number that is not positive
  or above the number of options changes nothing and is an error, although the bound the
  code checks first also counts the level of the directory itself.
\<close>

theorem dal_select_numbered:
  assumes "dal_inv d" "dalIsInitialised d"
  shows "iSelectOption env iCmd d w =
     (if 0 < iCmd \<and> iCmd \<le> int (length (current_kids d))
      then let s = current_kids d ! (nat iCmd - 1)
           in case xAction (dalHeap d ! s) of
                LevelDown l \<Rightarrow> Some (OK, d\<lparr>pxCurrentLevel := Some s\<rparr>, w)
              | DebugFunc f \<Rightarrow> map_option (\<lambda>w1. (OK, d, w1)) (dalCall env (the f) (dal_print [CR, LF] w))
      else Some (ERROR, d, w))"
  using select_option_spec[OF assms] by (simp only: select_spec_def)

lemma dal_select_numbered_witness:
  "iSelectOption sample_dal_env 1 (sample_dal :: nat DAL_PRIVATE_DATA) (sample_dal_world [])
     = Some (OK, sample_dal\<lparr>pxCurrentLevel := Some 1\<rparr>, sample_dal_world [])"
  unfolding dal_select_numbered[OF sample_dal_ok(1,2)]
  by (simp add: current_kids_def sample_dal_def kids_def numeral_2_eq_2 upt_rec)

text \<open>
  C40: printing the whole menu ends, and prints the title and then every option of the tree
  with its number in its directory, indented by its depth, the options of a directory right
  after it and in the order they were added.
\<close>

theorem dal_print_menu_complete:
  assumes "dal_inv d" "dalIsInitialised d" "names_ok (dalHeap d)"
  shows "vPrintMenu d w = Some (w\<lparr>dalOutput := dalOutput w
           @ level_title (c_name (dalHeap d ! 0)) # menu_lines (dalHeap d) 0\<rparr>)"
  using print_menu_lines[OF assms] by (simp add: dal_prints_def)

lemma dal_print_menu_complete_witness:
  "vPrintMenu (sample_dal :: nat DAL_PRIVATE_DATA) (sample_dal_world []) =
     Some ((sample_dal_world [])\<lparr>dalOutput :=
       [[CR, LF] @ ''*/'' @ [CR, LF], [TAB], ''1:bmc/'' @ [CR, LF]]\<rparr>)"
  unfolding dal_print_menu_complete[OF sample_dal_ok]
  by (simp add: sample_dal_def sample_dal_world_def menu_lines.simps kids_def numeral_2_eq_2 upt_rec
      level_title_def c_name_def option_line_def option_tabs_def print_nat.simps)

section \<open>Numbers\<close>

text \<open>A typed line: echoed and read up to its RETURN.\<close>

lemma read_typed_line:
  "CR \<notin> set l \<Longrightarrow> LF \<notin> set l \<Longrightarrow> length l < n \<Longrightarrow> t = CR \<or> t = LF \<Longrightarrow> dalInput w = l @ t # rest
   \<Longrightarrow> \<exists>w'. read_chars n w = Some (l @ [t], w') \<and> dalInput w' = rest \<and> dalOutside w' = dalOutside w"
proof (induction l arbitrary: n w)
  case Nil
  then obtain m where n: "n = Suc m" by (cases n) auto
  show ?case using Nil by (simp add: n Let_def dal_print_def)
next
  case (Cons c l)
  then obtain m where n: "n = Suc m" by (cases n) auto
  let ?w = "dal_print [c] (w\<lparr>dalInput := l @ t # rest\<rparr>)"
  have "\<exists>w'. read_chars m ?w = Some (l @ [t], w') \<and> dalInput w' = rest
      \<and> dalOutside w' = dalOutside ?w"
    by (rule Cons.IH) (use Cons.prems n in auto)
  then show ?case using Cons.prems by (auto simp: n Let_def)
qed

lemma scan_digits_line:
  "\<forall>c \<in> set l. is_digit base c \<Longrightarrow> base \<le> 36 \<Longrightarrow> t = CR \<or> t = LF
   \<Longrightarrow> scan_line (is_digit base) (l @ [t]) = (True, 1)"
  by (induction l) (auto dest: is_digit_plain)

lemma try_int_number:
  assumes "int n \<le> LONG_MAX" "length (print_nat 10 n) < DAL_MAX_INPUT"
  shows "try_int () (print_nat 10 n @ [CR]) ((print_nat 10 n @ [CR]) @ pad)
    = Some (Done (Some (int n)) [CR, LF])"
proof -
  have d: "\<forall>c \<in> set (print_nat 10 n). is_digit 10 c" by (rule print_nat_digits) simp_all
  have "\<not> is_digit 10 CR" by (simp add: is_digit_10)
  then have "c_strtol 10 (print_nat 10 n @ CR # pad) = Some (int n, length (print_nat 10 n))"
    using c_strtol_digits[OF print_nat_not_empty d, of CR pad] assms(1) by simp
  then show ?thesis using scan_digits_line[OF d, of CR] by (simp add: try_int_def)
qed

text \<open>A number of an \<open>int\<close> is short enough for the buffer.\<close>

lemma print_nat_length: "n < 10 ^ k \<Longrightarrow> 0 < k \<Longrightarrow> length (print_nat 10 n) \<le> k"
proof (induction k arbitrary: n)
  case (Suc k)
  show ?case
  proof (cases "n < 10")
    case True
    then show ?thesis by (simp add: print_nat.simps[of 10 n])
  next
    case False
    then have k: "0 < k" using Suc.prems by (cases k) auto
    have "n div 10 < 10 ^ k" using Suc.prems(1) by (simp add: less_mult_imp_div_less mult.commute)
    then have "length (print_nat 10 (n div 10)) \<le> k" using Suc.IH k by blast
    then show ?thesis using False by (simp add: print_nat.simps[of 10 n])
  qed
qed simp

lemma ask_int_number:
  assumes n: "int n \<le> LONG_MAX" and inp: "dalInput w = print_nat 10 n @ CR # rest"
  shows "\<exists>w'. ask prompt try_int () w = Some (Some (int n), w') \<and> dalInput w' = rest"
proof -
  have d: "\<forall>c \<in> set (print_nat 10 n). is_digit 10 c" by (rule print_nat_digits) simp_all
  then have nc: "CR \<notin> set (print_nat 10 n)" "LF \<notin> set (print_nat 10 n)"
    using is_digit_plain(2,3)[of 10] by fastforce+
  have "n < 10 ^ 10" using n by (simp add: LONG_MAX_def)
  then have len: "length (print_nat 10 n) < DAL_MAX_INPUT"
    using print_nat_length[of n 10] by (simp add: DAL_MAX_INPUT_def)
  obtain w1 where r: "read_chars DAL_MAX_INPUT (dal_print prompt w) = Some (print_nat 10 n @ [CR], w1)"
    and w1: "dalInput w1 = rest"
    using read_typed_line[OF nc len, of CR "dal_print prompt w" rest] inp by auto
  have "\<not> length (print_nat 10 n @ [CR]) \<le> 1" by simp
  then show ?thesis using r w1 try_int_number[OF n len] by (subst ask.simps) simp
qed

text \<open>
  A decimal number is asked for until it is in the range: whatever numbers outside of
  the range the operator types first, one per line, the function rejects each of them,
  returns OK with the first number inside the range, and leaves what was typed after it.
\<close>

theorem dal_get_int_in_range:
  assumes "dal_ready d" "lo < hi" "\<forall>k \<in> set ks. int k \<le> LONG_MAX \<and> \<not> (lo \<le> int k \<and> int k \<le> hi)"
    and "int n \<le> LONG_MAX" "lo \<le> int n" "int n \<le> hi"
    and "dalInput w = concat (map (\<lambda>k. print_nat 10 k @ [CR]) ks) @ print_nat 10 n @ CR # rest"
  shows "\<exists>w'. iDAL_GetIntInRange (Some prompt) True lo hi d w = Some (OK, Some (int n), w')
    \<and> dalInput w' = rest"
proof -
  have "\<exists>w'. ask_in_range p try_int () (\<lambda>x. \<not> (x < lo \<or> x > hi)) msg cur w = Some (int n, w')
      \<and> dalInput w' = rest" for p msg cur
    using assms(3,7)
  proof (induction ks arbitrary: w cur)
    case Nil
    then obtain w1 where "ask p try_int () w = Some (Some (int n), w1)" "dalInput w1 = rest"
      using ask_int_number[OF assms(4), of w rest p] by auto
    then show ?case using assms(5,6) by (subst ask_in_range.simps) simp
  next
    case (Cons k ks)
    then obtain w1 where a: "ask p try_int () w = Some (Some (int k), w1)"
      and w1: "dalInput w1 = concat (map (\<lambda>k. print_nat 10 k @ [CR]) ks) @ print_nat 10 n @ CR # rest"
      using ask_int_number[of k w _ p] by auto
    have "\<exists>w'. ask_in_range p try_int () (\<lambda>x. \<not> (x < lo \<or> x > hi)) msg (int k) (dal_print msg w1)
        = Some (int n, w') \<and> dalInput w' = rest"
      by (rule Cons.IH) (use Cons.prems w1 in auto)
    then show ?case using a Cons.prems(1)
      by (subst ask_in_range.simps) (auto simp: Let_def not_le)
  qed
  then show ?thesis using assms(1,2) by (fastforce simp: iDAL_GetIntInRange_def)
qed

lemma dal_get_int_in_range_witness:
  "\<exists>w'. iDAL_GetIntInRange (Some ''sensor'') True 1 5 (sample_dal :: nat DAL_PRIVATE_DATA)
       (sample_dal_world (''7'' @ [CR] @ ''3'' @ [CR])) = Some (OK, Some 3, w') \<and> dalInput w' = []"
proof -
  have "dal_ready (sample_dal :: nat DAL_PRIVATE_DATA)"
    by (simp add: dal_ready_def dal_firewalls_def sample_dal_def dal_local_data_def)
  then show ?thesis
    using dal_get_int_in_range[of "sample_dal :: nat DAL_PRIVATE_DATA" 1 5 "[7]" 3
        "sample_dal_world (''7'' @ [CR] @ ''3'' @ [CR])" "[]" "''sensor''"]
    by (simp add: LONG_MAX_def print_nat.simps sample_dal_world_def)
qed

section \<open>Command lines\<close>

text \<open>
  C32: a line of option numbers with a space between two of them walks the menu: when each
  number names a directory of the one before, the directory the path leads to becomes the
  current one, and nothing else of the library changes.
\<close>

theorem dal_line_walks:
  assumes "dal_inv d" "dalIsInitialised d" "names_ok (dalHeap d)" "calls_return env"
    and "pxCurrentLevel d = Some c" "ks \<noteq> []" "\<forall>k \<in> set ks. int k \<le> LONG_MAX"
    and "pcLastCmd d = path_text ks @ CR # pad" "descend (dalHeap d) c ks = Some t"
  shows "\<exists>w'. vProcessCmd env True (length (path_text ks @ [CR])) d w
    = Some (d\<lparr>pxCurrentLevel := Some t\<rparr>, w')"
proof -
  have "path_text ks \<noteq> []" using assms(6) by (cases ks rule: path_text.cases) auto
  then show ?thesis
    using process_path[OF assms(1-7), of "[]" pad t w] assms(8,9) by (simp add: vProcessCmd_def)
qed

lemma dal_line_walks_witness:
  "\<exists>w'. vProcessCmd sample_dal_env True 2
      ((sample_dal :: nat DAL_PRIVATE_DATA)\<lparr>pcLastCmd := ''1'' @ CR # replicate 254 NUL\<rparr>)
      (sample_dal_world []) = Some (sample_dal\<lparr>pcLastCmd := ''1'' @ CR # replicate 254 NUL,
        pxCurrentLevel := Some 1\<rparr>, w')"
proof -
  let ?d = "(sample_dal :: nat DAL_PRIVATE_DATA)\<lparr>pcLastCmd := ''1'' @ CR # replicate 254 NUL\<rparr>"
  have ok: "dal_inv ?d" "dalIsInitialised ?d" "names_ok (dalHeap ?d)"
    using sample_dal_ok by (auto simp: dal_inv_def DAL_MAX_INPUT_def)
  have "calls_return (sample_dal_env :: (nat, unit) dal_env)"
    by (simp add: calls_return_def sample_dal_env_def)
  from dal_line_walks[OF ok this, of 0 "[1]" "replicate 254 NUL" 1]
  show ?thesis
    by (simp add: LONG_MAX_def print_nat.simps sample_dal_def kids_def upt_rec numeral_2_eq_2)
qed

text \<open>
  C31: a pass of the task executes any line that fits the buffer with a character to spare,
  whatever it contains: no pointer is dereferenced that is NULL and no character is read or
  written outside the buffer, the menu stays as it is and well formed, and the pass ends
  when the debug functions do and the names are terminated.
\<close>

theorem dal_task_pass_safe:
  assumes inv: "dal_inv d" "dalIsInitialised d" and names: "names_ok (dalHeap d)"
    and menu: "NUL \<in> set (pcMenuName d)" and env: "calls_return env"
    and line: "dalInput w = l @ t # rest" "t = CR \<or> t = LF" "CR \<notin> set l" "LF \<notin> set l"
    and short: "length l + 1 < DAL_MAX_INPUT"
  shows "\<exists>d' w'. dal_task_pass env d w = Some (d', w') \<and> dal_inv d' \<and> dalHeap d' = dalHeap d"
proof -
  let ?buf = "l @ t # replicate (DAL_MAX_INPUT - Suc (length l)) NUL"
  have len: "length (pcLastCmd d) = DAL_MAX_INPUT" using inv by (simp add: dal_inv_def)
  obtain w1 where r: "read_chars DAL_MAX_INPUT w = Some (l @ [t], w1)"
    using read_typed_line[OF line(3,4) _ line(2,1), of DAL_MAX_INPUT] short by auto
  then have inp: "iNextInput (Some (pcLastCmd d)) DAL_MAX_INPUT d w = Some (Suc (length l), Some ?buf, d, w1)"
    using len short by (simp add: iNextInput_def)
  let ?d = "d\<lparr>pcLastCmd := ?buf\<rparr>"
  have w: "walks d ?d" using inv short by (auto simp: walks_def dal_inv_def)
  have lst: "last ?buf = NUL" using short by simp
  obtain taken w2 where mtx: "dal_os (dalMutexTake env) w1 = (taken, w2)" by fastforce
  let ?d2 = "dal_inc_stat DAL_STATS_TAKE_MUTEX (dal_inc_stat DAL_STATS_NEW_COMMAND ?d)"
  have w2: "walks d ?d2" using w by simp
  have "\<exists>d3 w3. vProcessCmd env True (Suc (length l)) ?d2 w2 = Some (d3, w3) \<and> walks ?d2 d3"
  proof (cases "l = []")
    case True
    then show ?thesis using print_current_total[OF w2 names, of w2] w2
      by (fastforce simp: vProcessCmd_def walks_def)
  next
    case False
    have "\<exists>d3 w3. process_loop env 0 ?d2 w2 = Some (d3, w3) \<and> walks ?d2 d3"
      by (rule process_loop_total) (use w2 names env lst short in \<open>auto simp: walks_def\<close>)
    then show ?thesis using False by (simp add: vProcessCmd_def)
  qed
  then obtain d3 w3 where p: "vProcessCmd env True (Suc (length l)) ?d2 w2 = Some (d3, w3)"
    and w3: "walks d d3" using walks_trans[OF w2] by blast
  obtain c where c: "pxCurrentLevel d3 = Some c" "c < length (dalHeap d3)"
    using w3 by (auto simp: walks_def dal_inv_def)
  have cur: "c_string (pcName (dalHeap d3 ! c)) = Some (c_name (dalHeap d3 ! c))"
    using c_string_name[of "dalHeap d3" c] names c(2) w3 by (simp add: walks_def)
  have "pcMenuName d3 = pcMenuName d" using w3 by (simp add: walks_def)
  then have mn: "\<exists>s. c_string (pcMenuName d3) = Some s" using menu by (simp add: c_string_def)
  have "walks d (dal_inc_error e d3)" "walks d (dal_inc_stat x d3)" "walks d (dal_inc_error e
      (dal_inc_stat DAL_STATS_NEW_COMMAND ?d))" for e x
    using w3 w by simp_all
  then show ?thesis using inp mtx p c cur mn
    by (cases taken) (fastforce simp: dal_task_pass_def walks_def Let_def split: prod.splits)+
qed

lemma dal_task_pass_safe_witness:
  "\<exists>d' w'. dal_task_pass sample_dal_env (sample_dal :: nat DAL_PRIVATE_DATA)
       (sample_dal_world (''1 x'' @ [LF])) = Some (d', w') \<and> dal_inv d'"
  using dal_task_pass_safe[OF sample_dal_ok, of sample_dal_env "sample_dal_world (''1 x'' @ [LF])"
      "''1 x''" LF "[]"]
  by (auto simp: calls_return_def sample_dal_env_def sample_dal_world_def sample_dal_def
      dal_local_data_def DAL_MAX_NAME_LEN_def DAL_MAX_INPUT_def)

end
