(* ===== verification/AsdmState.thy ===== *)
theory AsdmState
  imports Bytes CText
begin

text \<open>
  The static variables of the sensor data model of the firmware (ASDM, src/fw/AMC/src/apps/
  asdm/asdm.c) as one record, the records its repositories hold, the sensor data of the ASC
  proxy (asc_proxy_driver.h) and the services it calls as parameters: the ASC and APC proxies,
  the EEPROM driver, and the mutex and the allocator of the OSAL. A pointer is an option, an
  allocated array a list, a C enumeration the number that stands for it where an argument may
  hold any value; \<open>'w\<close> is the rest of the world. The copies of the OSAL are plain copies.
\<close>

section \<open>Enumerations\<close>

datatype ASDM_STATS =
    ASDM_STATS_INIT_OVERALL_COMPLETE | ASDM_STATS_ASC_SENSOR_UPDATE_EVENT
  | ASDM_STATS_ASC_SENSOR_OTHER_EVENT | ASDM_STATS_AMI_SENSOR_REQUEST
  | ASDM_STATS_AMI_UNSUPPORTED_REQUEST | ASDM_STATS_ASDM_GET_SDR_API
  | ASDM_STATS_ASDM_GET_ALL_SENSOR_API | ASDM_STATS_ASDM_GET_SDR_SIZE_API
  | ASDM_STATS_ASDM_GET_SINGLE_SENSOR_API | ASDM_STATS_ASDM_POPULATE_SDR_SUCCESS
  | ASDM_STATS_TAKE_MUTEX | ASDM_STATS_RELEASE_MUTEX | ASDM_STATS_MALLOC | ASDM_STATS_FREE
  | ASDM_STATS_GET_FPT_HEADER | ASDM_STATS_GET_FPT_PARTITION | ASDM_STATS_APC_FPT_UPDATE_EVENT

datatype ASDM_ERRORS =
    ASDM_ERRORS_INIT_MUTEX_FAILED | ASDM_ERRORS_INIT_BIND_ASC_CB_FAILED
  | ASDM_ERRORS_INIT_BIND_APC_CB_FAILED | ASDM_ERRORS_INIT_OVERALL_FAILED
  | ASDM_ERRORS_ASC_GET_SENSORS_FAILED | ASDM_ERRORS_ASC_GET_SINGLE_SENSOR_FAILED
  | ASDM_ERRORS_AMI_SENSOR_REQUEST_EMPTY_SDR | ASDM_ERRORS_AMI_SENSOR_REQUEST_UNKNOWN_API
  | ASDM_ERRORS_AMI_SENSOR_REQUEST_FAILED | ASDM_ERRORS_AMI_UNSUPPORTED_REPO
  | ASDM_ERRORS_MUTEX_RELEASE_FAILED | ASDM_ERRORS_MUTEX_TAKE_FAILED | ASDM_ERRORS_MALLOC_FAILED
  | ASDM_ERRORS_ASC_BITFIELD_MAPPING | ASDM_ERRORS_ASDM_REPO_MAPPING
  | ASDM_ERRORS_ASDM_UNIT_MODIFIER_MAPPING | ASDM_ERRORS_ASDM_SENSOR_NAME_LENGTH
  | ASDM_ERRORS_ASDM_POPULATE_SDR_FAILED | ASDM_ERRORS_ASDM_POPULATE_SDS_FAILED
  | ASDM_ERRORS_ASDM_GET_SDR_FAILED | ASDM_ERRORS_TOTAL_POWER_FAILED
  | ASDM_ERRORS_APC_PARTITION_HEADER | ASDM_ERRORS_APC_PARTITION_INFO
  | ASDM_ERRORS_ASDM_POPULATE_BDINFO_FAILED | ASDM_ERRORS_APC_FPT_UPDATE_FAILED
  | ASDM_ERRORS_SENSOR_TAG_MAPPING

text \<open>The repositories, as the index of the tables; the first four are also sensor types.\<close>

definition AMC_ASDM_SUPPORTED_REPO_TEMP :: nat where [simp]: "AMC_ASDM_SUPPORTED_REPO_TEMP = 0"
definition AMC_ASDM_SUPPORTED_REPO_VOLTAGE :: nat where
  [simp]: "AMC_ASDM_SUPPORTED_REPO_VOLTAGE = 1"
definition AMC_ASDM_SUPPORTED_REPO_CURRENT :: nat where
  [simp]: "AMC_ASDM_SUPPORTED_REPO_CURRENT = 2"
definition AMC_ASDM_SUPPORTED_REPO_POWER :: nat where [simp]: "AMC_ASDM_SUPPORTED_REPO_POWER = 3"
definition AMC_ASDM_SUPPORTED_REPO_TOTAL_POWER :: nat where
  [simp]: "AMC_ASDM_SUPPORTED_REPO_TOTAL_POWER = 4"
definition AMC_ASDM_SUPPORTED_REPO_FPT :: nat where [simp]: "AMC_ASDM_SUPPORTED_REPO_FPT = 5"
definition AMC_ASDM_SUPPORTED_REPO_BOARD_INFO :: nat where
  [simp]: "AMC_ASDM_SUPPORTED_REPO_BOARD_INFO = 6"
definition AMC_ASDM_SUPPORTED_REPO_MAX :: nat where [simp]: "AMC_ASDM_SUPPORTED_REPO_MAX = 7"

definition ASDM_REPOSITORY_TYPE_BOARD_INFO :: u8 where
  [simp]: "ASDM_REPOSITORY_TYPE_BOARD_INFO = 0xC0"
definition ASDM_REPOSITORY_TYPE_TEMP :: u8 where [simp]: "ASDM_REPOSITORY_TYPE_TEMP = 0xC1"
definition ASDM_REPOSITORY_TYPE_VOLTAGE :: u8 where [simp]: "ASDM_REPOSITORY_TYPE_VOLTAGE = 0xC2"
definition ASDM_REPOSITORY_TYPE_CURRENT :: u8 where [simp]: "ASDM_REPOSITORY_TYPE_CURRENT = 0xC3"
definition ASDM_REPOSITORY_TYPE_POWER :: u8 where [simp]: "ASDM_REPOSITORY_TYPE_POWER = 0xC4"
definition ASDM_REPOSITORY_TYPE_TOTAL_POWER :: u8 where
  [simp]: "ASDM_REPOSITORY_TYPE_TOTAL_POWER = 0xC6"
definition ASDM_REPOSITORY_TYPE_FPT :: u8 where [simp]: "ASDM_REPOSITORY_TYPE_FPT = 0xF0"

definition ASDM_RECORD_FIELD_TYPE_CODE_NUM :: u8 where "ASDM_RECORD_FIELD_TYPE_CODE_NUM = 0"
definition ASDM_RECORD_FIELD_TYPE_CODE_BYTE_ARRAY :: u8 where
  "ASDM_RECORD_FIELD_TYPE_CODE_BYTE_ARRAY = 1"
definition ASDM_RECORD_FIELD_TYPE_CODE_8_BIT_ASCII :: u8 where
  "ASDM_RECORD_FIELD_TYPE_CODE_8_BIT_ASCII = 3"

datatype ASDM_API_ID_TYPE =
    ASDM_API_ID_TYPE_GET_SDR_SIZE | ASDM_API_ID_TYPE_GET_SDR
  | ASDM_API_ID_TYPE_GET_SINGLE_SENSOR_DATA | ASDM_API_ID_TYPE_GET_ALL_SENSOR_DATA
  | ASDM_API_ID_TYPE_GET_SDR_V2 | ASDM_API_ID_TYPE_GET_ALL_SENSOR_DATA_V2
  | ASDM_API_ID_TYPE_CONFIG_WRITES | ASDM_API_ID_TYPE_SEND_EVENTS | ASDM_API_ID_TYPE_MAX

datatype BOARD_FIELD =
    xEepromVersion | xProductName | xBoardRev | xBoardSerial | xMacAddressCount
  | xFirstMacAddress | xActiveState | xConfigMode | xManufacturingDate | xPartNumber | xUuid
  | xPcieId | xMaxPowerMode | xMemorySize | xOemId | xCapability | xMfgPartNumber

text \<open>The order of the structure, in which the fields are read and sent.\<close>

definition board_fields :: "BOARD_FIELD list" where
  "board_fields = [xEepromVersion, xProductName, xBoardRev, xBoardSerial, xMacAddressCount,
     xFirstMacAddress, xActiveState, xConfigMode, xManufacturingDate, xPartNumber, xUuid,
     xPcieId, xMaxPowerMode, xMemorySize, xOemId, xCapability, xMfgPartNumber]"

definition ASDM_RECORD_FIELD_BYTES_MAX :: nat where "ASDM_RECORD_FIELD_BYTES_MAX = 30"
definition ASDM_RECORD_FIELD_LENGTH_MASK :: u8 where "ASDM_RECORD_FIELD_LENGTH_MASK = 0x3F"
definition ASDM_RECORD_FIELD_TYPE_MASK :: u8 where "ASDM_RECORD_FIELD_TYPE_MASK = 0x03"
definition ASDM_RECORD_FIELD_TYPE_POS :: nat where "ASDM_RECORD_FIELD_TYPE_POS = 6"
definition ASDM_HEADER_VER :: u8 where "ASDM_HEADER_VER = 1"
definition ASDM_SDR_COMPLETION_CODE_OPERATION_SUCCESS :: u8 where
  "ASDM_SDR_COMPLETION_CODE_OPERATION_SUCCESS = 1"
definition ASC_SENSOR_INVALID_VAL :: u32 where "ASC_SENSOR_INVALID_VAL = 0xFFFFFFFF"

definition ASDM_SDR_THRESHOLD_UPPER_WARNING_MASK :: u8 where
  "ASDM_SDR_THRESHOLD_UPPER_WARNING_MASK = 0x01"
definition ASDM_SDR_THRESHOLD_UPPER_CRITICAL_MASK :: u8 where
  "ASDM_SDR_THRESHOLD_UPPER_CRITICAL_MASK = 0x02"
definition ASDM_SDR_THRESHOLD_UPPER_FATAL_MASK :: u8 where
  "ASDM_SDR_THRESHOLD_UPPER_FATAL_MASK = 0x04"
definition ASDM_SDR_THRESHOLD_LOWER_WARNING_MASK :: u8 where
  "ASDM_SDR_THRESHOLD_LOWER_WARNING_MASK = 0x08"
definition ASDM_SDR_THRESHOLD_LOWER_CRITICAL_MASK :: u8 where
  "ASDM_SDR_THRESHOLD_LOWER_CRITICAL_MASK = 0x10"
definition ASDM_SDR_THRESHOLD_LOWER_FATAL_MASK :: u8 where
  "ASDM_SDR_THRESHOLD_LOWER_FATAL_MASK = 0x20"
definition ASDM_SDR_THRESHOLD_SENSOR_AVG_MASK :: u8 where
  "ASDM_SDR_THRESHOLD_SENSOR_AVG_MASK = 0x40"
definition ASDM_SDR_THRESHOLD_SENSOR_MAX_MASK :: u8 where
  "ASDM_SDR_THRESHOLD_SENSOR_MAX_MASK = 0x80"

lemmas asdm_masks =
  ASDM_SDR_THRESHOLD_UPPER_WARNING_MASK_def ASDM_SDR_THRESHOLD_UPPER_CRITICAL_MASK_def
  ASDM_SDR_THRESHOLD_UPPER_FATAL_MASK_def ASDM_SDR_THRESHOLD_LOWER_WARNING_MASK_def
  ASDM_SDR_THRESHOLD_LOWER_CRITICAL_MASK_def ASDM_SDR_THRESHOLD_LOWER_FATAL_MASK_def
  ASDM_SDR_THRESHOLD_SENSOR_AVG_MASK_def ASDM_SDR_THRESHOLD_SENSOR_MAX_MASK_def

section \<open>Data of the ASC and APC proxies\<close>

record ASC_READINGS =
  ulSensorValue :: u32
  rdLowerWarningLimit :: u32
  rdLowerCriticalLimit :: u32
  rdLowerFatalLimit :: u32
  rdUpperWarningLimit :: u32
  rdUpperCriticalLimit :: u32
  rdUpperFatalLimit :: u32
  ulAverageSensorValue :: u32
  ulMaxSensorValue :: u32
  xSensorStatus :: u8
  xSensorOperationalStatus :: u8
  xSensorUnitModifier :: nat

text \<open>The functions a sensor names are handles, called through the environment.\<close>

record ASC_SENSOR_DATA =
  pcSensorName :: string
  ucSensorId :: u8
  ucSensorType :: u8
  ucTotalPowerSensor :: u8
  ucSensorAddress :: u8
  ucChannelNumber :: "u8 list"
  pxSensorEnabled :: nat
  ppxReadSensorFunc :: "nat option list"
  pxReadings :: "ASC_READINGS list"
  ulThresholdStatus :: u8

record APC_FPT_HEADER =
  ulMagicNum :: u32
  apcFptVersion :: u8
  apcFptHeaderSize :: u8
  ucEntrySize :: u8
  ucNumEntries :: u8

record APC_FPT_PARTITION =
  ulPartitionType :: u32
  ulPartitionBaseAddr :: u32
  apcPartitionSize :: u32

section \<open>Repositories\<close>

text \<open>
  The value of a field is a union of an array of 30 bytes and a 32-bit number: its image, of
  32 bytes with the padding, of which the number is the first four.
\<close>

record ASDM_RECORD_FIELD =
  fldType :: u8
  fldLength :: u8
  pucBytesValue :: "u8 list"

definition fieldValue :: "ASDM_RECORD_FIELD \<Rightarrow> u32" where
  "fieldValue f = of_le32 (take 4 (pucBytesValue f))"

definition set_fieldValue :: "u32 \<Rightarrow> ASDM_RECORD_FIELD \<Rightarrow> ASDM_RECORD_FIELD" where
  "set_fieldValue v f = f\<lparr>pucBytesValue := le_bytes v @ drop 4 (pucBytesValue f)\<rparr>"

definition zero_field :: ASDM_RECORD_FIELD where
  "zero_field = \<lparr>fldType = 0, fldLength = 0, pucBytesValue = replicate 32 0\<rparr>"

record ASDM_SENSOR_HEADER =
  ucRepoType :: u8
  ucRepoVersionNum :: u8
  ucTotalNumRecords :: u8
  usTotalNumBytes :: u16

record ASDM_SDR_RECORD =
  sdrId :: u8
  xSensorName :: ASDM_RECORD_FIELD
  xSensorValue :: ASDM_RECORD_FIELD
  xSensorBaseUnit :: ASDM_RECORD_FIELD
  cUnitModifier :: u8
  ucThresholdSupportedBitMask :: u8
  ulLowerFatalLimit :: u32
  ulLowerCritLimit :: u32
  ulLowerWarnLimit :: u32
  ulUpperWarnLimit :: u32
  ulUpperCritLimit :: u32
  ulUpperFatalLimit :: u32
  ucSensorStatus :: u8
  ulMaxValue :: u32
  ulAverageValue :: u32

definition zero_sdr_record :: ASDM_SDR_RECORD where
  "zero_sdr_record = \<lparr>sdrId = 0, xSensorName = zero_field, xSensorValue = zero_field,
     xSensorBaseUnit = zero_field, cUnitModifier = 0, ucThresholdSupportedBitMask = 0,
     ulLowerFatalLimit = 0, ulLowerCritLimit = 0, ulLowerWarnLimit = 0, ulUpperWarnLimit = 0,
     ulUpperCritLimit = 0, ulUpperFatalLimit = 0, ucSensorStatus = 0, ulMaxValue = 0,
     ulAverageValue = 0\<rparr>"

record ASDM_SDS_RECORD =
  sdsId :: u8
  sdsSensorValue :: ASDM_RECORD_FIELD
  sdsSensorStatus :: u8
  sdsSensorTag :: u8
  sdsRsvd :: u8

record ASDM_FPT_HEADER =
  ucFptVersion :: u8
  ucFptHeaderSize :: u8
  ucFptEntrySize :: u8
  ucNumEnteries :: u8

record ASDM_FPT_ENTRY =
  ulType :: u32
  ulBaseAddr :: u32
  ulPartitionSize :: u32

record ASDM_FPT_RECORD =
  xFptHdrPrimary :: ASDM_FPT_HEADER
  pxFptEntryPrimary :: "ASDM_FPT_ENTRY list option"
  xFptHdrSecondary :: ASDM_FPT_HEADER
  pxFptEntrySecondary :: "ASDM_FPT_ENTRY list option"

definition zero_fpt_header :: ASDM_FPT_HEADER where
  "zero_fpt_header = \<lparr>ucFptVersion = 0, ucFptHeaderSize = 0, ucFptEntrySize = 0, ucNumEnteries = 0\<rparr>"

definition zero_fpt_record :: ASDM_FPT_RECORD where
  "zero_fpt_record = \<lparr>xFptHdrPrimary = zero_fpt_header, pxFptEntryPrimary = None,
     xFptHdrSecondary = zero_fpt_header, pxFptEntrySecondary = None\<rparr>"

type_synonym ASDM_BOARD_INFO_RECORD = "BOARD_FIELD \<Rightarrow> ASDM_RECORD_FIELD"

text \<open>
  The union of an SDR: the member stored last; memory set to zero, \<open>SensorRecords None\<close>, reads
  as the null pointer or the zero record of any member. Reading another member is undefined.
\<close>

datatype ASDM_SDR_DATA =
    SensorRecords "ASDM_SDR_RECORD list option"
  | FptRecord ASDM_FPT_RECORD
  | BoardInfo ASDM_BOARD_INFO_RECORD

fun sensor_records :: "ASDM_SDR_DATA \<Rightarrow> ASDM_SDR_RECORD list option option" where
  "sensor_records (SensorRecords r) = Some r"
| "sensor_records _ = None"

fun fpt_record :: "ASDM_SDR_DATA \<Rightarrow> ASDM_FPT_RECORD option" where
  "fpt_record (FptRecord r) = Some r"
| "fpt_record (SensorRecords None) = Some zero_fpt_record"
| "fpt_record _ = None"

fun board_info :: "ASDM_SDR_DATA \<Rightarrow> ASDM_BOARD_INFO_RECORD option" where
  "board_info (BoardInfo b) = Some b"
| "board_info _ = None"

record ASDM_SDR =
  sdrHdr :: ASDM_SENSOR_HEADER
  sdrData :: ASDM_SDR_DATA
  sdrEor :: "u8 list"

record ASDM_SDS =
  sdsHdr :: ASDM_SENSOR_HEADER
  sdsRecords :: "ASDM_SDS_RECORD list option"
  sdsEor :: "u8 list"

definition zero_header :: ASDM_SENSOR_HEADER where
  "zero_header = \<lparr>ucRepoType = 0, ucRepoVersionNum = 0, ucTotalNumRecords = 0, usTotalNumBytes = 0\<rparr>"

definition zero_sdr :: ASDM_SDR where
  "zero_sdr = \<lparr>sdrHdr = zero_header, sdrData = SensorRecords None, sdrEor = [0, 0, 0]\<rparr>"

definition zero_sds :: ASDM_SDS where
  "zero_sds = \<lparr>sdsHdr = zero_header, sdsRecords = None, sdsEor = [0, 0, 0]\<rparr>"

record ASDM_SENSOR_LIST =
  ucNumFound :: u8
  pucSensorIndex :: "u8 list option"
  pucSensorId :: "u8 list option"

text \<open>\<open>"END"\<close> and \<open>xAsdmHeaderInfo\<close>, whose sizes and counts are zero.\<close>

definition ASDM_EOR_MARKER :: "u8 list" where "ASDM_EOR_MARKER = [0x45, 0x4E, 0x44]"

definition xAsdmHeaderInfo :: "ASDM_SENSOR_HEADER list" where
  "xAsdmHeaderInfo = map (\<lambda>t. \<lparr>ucRepoType = t, ucRepoVersionNum = ASDM_HEADER_VER,
       ucTotalNumRecords = 0, usTotalNumBytes = 0\<rparr>)
     [ASDM_REPOSITORY_TYPE_TEMP, ASDM_REPOSITORY_TYPE_VOLTAGE, ASDM_REPOSITORY_TYPE_CURRENT,
      ASDM_REPOSITORY_TYPE_POWER, ASDM_REPOSITORY_TYPE_TOTAL_POWER, ASDM_REPOSITORY_TYPE_FPT,
      ASDM_REPOSITORY_TYPE_BOARD_INFO]"

definition MAX_ASDM_SDR_REPO :: nat where [simp]: "MAX_ASDM_SDR_REPO = 7"

section \<open>State and services\<close>

record 'w asdm =
  asdmUpperFirewall :: u32
  iSensorListInitialised :: bool
  asdmInitialised :: bool
  pxAscData :: "ASC_SENSOR_DATA list option"
  ucAscNumSensors :: u8
  pxSensorList :: "ASDM_SENSOR_LIST list"
  pxAsdmSdrInfo :: "ASDM_SDR list option"
  pxAsdmSdsInfo :: "ASDM_SDS list option"
  ulPowerCalcIterations :: u32
  ulAveragePower :: u32
  ulMaxPower :: u32
  pxFptHeader :: "APC_FPT_HEADER list"
  ppxFptPartitions :: "APC_FPT_PARTITION list option list"
  pxBoardInfo :: "ASDM_BOARD_INFO_RECORD option"
  asdmStats :: "ASDM_STATS \<Rightarrow> u32"
  asdmErrors :: "ASDM_ERRORS \<Rightarrow> u32"
  asdmLowerFirewall :: u32
  asdmWorld :: 'w

text \<open>
  \<open>rawX i\<close> is what element \<open>i\<close> of a new block holds, \<open>pastReadings d i\<close> what lies behind the
  four readings of a sensor, \<open>ptrSize\<close> the size of a pointer on the target.
\<close>

record 'w asdm_env =
  asdmMutexCreate :: "'w \<Rightarrow> bool \<times> 'w"
  asdmMutexTake :: "'w \<Rightarrow> bool \<times> 'w"
  asdmMutexRelease :: "'w \<Rightarrow> bool \<times> 'w"
  asdmAlloc :: "nat \<Rightarrow> 'w \<Rightarrow> bool \<times> 'w"
  asdmFree :: "'w \<Rightarrow> 'w"
  ascGetAll :: "ASC_SENSOR_DATA list \<Rightarrow> u8 \<Rightarrow> 'w \<Rightarrow> int \<times> ASC_SENSOR_DATA list \<times> u8 \<times> 'w"
  ascGetById :: "u8 \<Rightarrow> ASC_SENSOR_DATA \<Rightarrow> 'w \<Rightarrow> int \<times> ASC_SENSOR_DATA \<times> 'w"
  ascBind :: "'w \<Rightarrow> int \<times> 'w"
  apcBind :: "'w \<Rightarrow> int \<times> 'w"
  apcGetHeader :: "nat \<Rightarrow> APC_FPT_HEADER \<Rightarrow> 'w \<Rightarrow> int \<times> APC_FPT_HEADER \<times> 'w"
  apcGetPartition :: "nat \<Rightarrow> nat \<Rightarrow> APC_FPT_PARTITION \<Rightarrow> 'w \<Rightarrow> int \<times> APC_FPT_PARTITION \<times> 'w"
  eepromGet :: "BOARD_FIELD \<Rightarrow> u8 list \<Rightarrow> u8 \<Rightarrow> 'w \<Rightarrow> int \<times> u8 list \<times> u8 \<times> 'w"
  sensorEnabled :: "nat \<Rightarrow> 'w \<Rightarrow> int \<times> 'w"
  rawByte :: "nat \<Rightarrow> u8"
  rawSensor :: "nat \<Rightarrow> ASC_SENSOR_DATA"
  rawSds :: "nat \<Rightarrow> ASDM_SDS_RECORD"
  rawPartition :: "nat \<Rightarrow> APC_FPT_PARTITION"
  rawEntry :: "nat \<Rightarrow> ASDM_FPT_ENTRY"
  pastReadings :: "ASC_SENSOR_DATA \<Rightarrow> nat \<Rightarrow> ASC_READINGS"
  ptrSize :: nat
  sizeofSensorData :: nat
  sizeofSdr :: nat
  sizeofSds :: nat

definition ASDM_UPPER_FIREWALL :: u32 where "ASDM_UPPER_FIREWALL = 0xBABECAFE"
definition ASDM_LOWER_FIREWALL :: u32 where "ASDM_LOWER_FIREWALL = 0xDEADFACE"

definition asdm_guarded :: "'w asdm \<Rightarrow> bool" where
  "asdm_guarded s \<longleftrightarrow> ASDM_UPPER_FIREWALL = asdmUpperFirewall s \<and>
     ASDM_LOWER_FIREWALL = asdmLowerFirewall s"

definition asdm_inc_stat :: "ASDM_STATS \<Rightarrow> 'w asdm \<Rightarrow> 'w asdm" where
  "asdm_inc_stat e s = s\<lparr>asdmStats := (asdmStats s)(e := asdmStats s e + 1)\<rparr>"

definition asdm_inc_error :: "ASDM_ERRORS \<Rightarrow> 'w asdm \<Rightarrow> 'w asdm" where
  "asdm_inc_error e s = s\<lparr>asdmErrors := (asdmErrors s)(e := asdmErrors s e + 1)\<rparr>"

text \<open>A service of the world and the allocator, which counts a success.\<close>

definition outside :: "('w \<Rightarrow> 'a \<times> 'w) \<Rightarrow> 'w asdm \<Rightarrow> 'a \<times> 'w asdm" where
  "outside f s = (case f (asdmWorld s) of (a, w) \<Rightarrow> (a, s\<lparr>asdmWorld := w\<rparr>))"

definition asdm_alloc :: "'w asdm_env \<Rightarrow> nat \<Rightarrow> 'w asdm \<Rightarrow> bool \<times> 'w asdm" where
  "asdm_alloc env n = outside (asdmAlloc env n)"

definition asdm_free :: "'w asdm_env \<Rightarrow> 'w asdm \<Rightarrow> 'w asdm" where
  "asdm_free env s = s\<lparr>asdmWorld := asdmFree env (asdmWorld s)\<rparr>"

text \<open>A part of the code under the mutex; \<open>a\<close> is the result when it cannot be taken.\<close>

definition with_asdm_mutex ::
  "'w asdm_env \<Rightarrow> ('w asdm \<Rightarrow> (int \<times> 'a \<times> 'w asdm) option) \<Rightarrow> 'a \<Rightarrow> 'w asdm
   \<Rightarrow> (int \<times> 'a \<times> 'w asdm) option" where
  "with_asdm_mutex env body a s =
     (let (taken, s1) = outside (asdmMutexTake env) s in
      if \<not> taken then Some (ERROR, a, asdm_inc_error ASDM_ERRORS_MUTEX_TAKE_FAILED s1)
      else do {
        (st, r, s2) \<leftarrow> body (asdm_inc_stat ASDM_STATS_TAKE_MUTEX s1);
        let (released, s3) = outside (asdmMutexRelease env) s2;
        Some (if released then (st, r, asdm_inc_stat ASDM_STATS_RELEASE_MUTEX s3)
              else (ERROR, r, asdm_inc_error ASDM_ERRORS_MUTEX_RELEASE_FAILED s3)) })"

text \<open>The elements \<open>i\<close>, \<open>i + 1\<close>, \<dots> of a counted loop.\<close>

primrec for_count :: "(nat \<Rightarrow> 's \<Rightarrow> 's option) \<Rightarrow> nat \<Rightarrow> nat \<Rightarrow> 's \<Rightarrow> 's option" where
  "for_count f 0 i s = Some s"
| "for_count f (Suc n) i s = f i s \<bind> for_count f n (Suc i)"

definition set_sensor_list :: "nat \<Rightarrow> (ASDM_SENSOR_LIST \<Rightarrow> ASDM_SENSOR_LIST) \<Rightarrow> 'w asdm \<Rightarrow> 'w asdm" where
  "set_sensor_list i f s = s\<lparr>pxSensorList := (pxSensorList s)[i := f (pxSensorList s ! i)]\<rparr>"

text \<open>Writing an entry of the SDR or the SDS table: undefined through a null pointer.\<close>

definition upd_sdr :: "nat \<Rightarrow> (ASDM_SDR \<Rightarrow> ASDM_SDR) \<Rightarrow> 'w asdm \<Rightarrow> 'w asdm option" where
  "upd_sdr i f s = map_option (\<lambda>t. s\<lparr>pxAsdmSdrInfo := Some (t[i := f (t ! i)])\<rparr>) (pxAsdmSdrInfo s)"

definition upd_sds :: "nat \<Rightarrow> (ASDM_SDS \<Rightarrow> ASDM_SDS) \<Rightarrow> 'w asdm \<Rightarrow> 'w asdm option" where
  "upd_sds i f s = map_option (\<lambda>t. s\<lparr>pxAsdmSdsInfo := Some (t[i := f (t ! i)])\<rparr>) (pxAsdmSdsInfo s)"

definition get_sdr :: "nat \<Rightarrow> 'w asdm \<Rightarrow> ASDM_SDR option" where
  "get_sdr i s = (case pxAsdmSdrInfo s of Some t \<Rightarrow> if i < length t then Some (t ! i) else None | None \<Rightarrow> None)"

definition get_sds :: "nat \<Rightarrow> 'w asdm \<Rightarrow> ASDM_SDS option" where
  "get_sds i s = (case pxAsdmSdsInfo s of Some t \<Rightarrow> if i < length t then Some (t ! i) else None | None \<Rightarrow> None)"

text \<open>The state as the program is loaded.\<close>

definition zero_apc_header :: APC_FPT_HEADER where
  "zero_apc_header = \<lparr>ulMagicNum = 0, apcFptVersion = 0, apcFptHeaderSize = 0, ucEntrySize = 0,
     ucNumEntries = 0\<rparr>"

definition asdm_local_data :: "'w \<Rightarrow> 'w asdm" where
  "asdm_local_data w = \<lparr>asdmUpperFirewall = ASDM_UPPER_FIREWALL, iSensorListInitialised = False,
     asdmInitialised = False, pxAscData = None, ucAscNumSensors = 0,
     pxSensorList = replicate AMC_ASDM_SUPPORTED_REPO_MAX
       \<lparr>ucNumFound = 0, pucSensorIndex = None, pucSensorId = None\<rparr>,
     pxAsdmSdrInfo = None, pxAsdmSdsInfo = None, ulPowerCalcIterations = 0, ulAveragePower = 0,
     ulMaxPower = 0, pxFptHeader = replicate 2 zero_apc_header, ppxFptPartitions = [None, None],
     pxBoardInfo = None, asdmStats = (\<lambda>_. 0), asdmErrors = (\<lambda>_. 0),
     asdmLowerFirewall = ASDM_LOWER_FIREWALL, asdmWorld = w\<rparr>"

end
