(* ===== verification/AsdmPopulate.thy ===== *)
theory AsdmPopulate
  imports AsdmState
begin

text \<open>
  Building the repositories, asdm.c: the maps between the enumerations, the list of the sensors
  of a repository, the SDR and the SDS of a sensor, the flash partition table, the board
  information, and \<open>iInitAsdm\<close>, which fills the tables.
\<close>

section \<open>Maps\<close>

definition elem_at :: "'a list \<Rightarrow> nat \<Rightarrow> 'a option" where
  "elem_at xs i = (if i < length xs then Some (xs ! i) else None)"

lemma elem_at_some [simp]: "i < length xs \<Longrightarrow> elem_at xs i = Some (xs ! i)"
  by (simp add: elem_at_def)

definition repo_of_type :: "u8 \<Rightarrow> nat option" where
  "repo_of_type t =
     (if t = ASDM_REPOSITORY_TYPE_TEMP then Some AMC_ASDM_SUPPORTED_REPO_TEMP
      else if t = ASDM_REPOSITORY_TYPE_VOLTAGE then Some AMC_ASDM_SUPPORTED_REPO_VOLTAGE
      else if t = ASDM_REPOSITORY_TYPE_CURRENT then Some AMC_ASDM_SUPPORTED_REPO_CURRENT
      else if t = ASDM_REPOSITORY_TYPE_POWER then Some AMC_ASDM_SUPPORTED_REPO_POWER
      else if t = ASDM_REPOSITORY_TYPE_TOTAL_POWER then Some AMC_ASDM_SUPPORTED_REPO_TOTAL_POWER
      else if t = ASDM_REPOSITORY_TYPE_BOARD_INFO then Some AMC_ASDM_SUPPORTED_REPO_BOARD_INFO
      else if t = ASDM_REPOSITORY_TYPE_FPT then Some AMC_ASDM_SUPPORTED_REPO_FPT
      else None)"

text \<open>
  The target of the pointer keeps its value when the firewalls are damaged; both callers
  initialise it to \<open>old\<close>.
\<close>

definition iMapAsdmRepo :: "u8 \<Rightarrow> nat \<Rightarrow> 'w asdm \<Rightarrow> int \<times> nat \<times> 'w asdm" where
  "iMapAsdmRepo t old s =
     (if \<not> asdm_guarded s then (ERROR, old, s)
      else case repo_of_type t of
        Some r \<Rightarrow> (OK, r, s)
      | None \<Rightarrow> (ERROR, AMC_ASDM_SUPPORTED_REPO_MAX,
                 asdm_inc_error ASDM_ERRORS_ASDM_REPO_MAPPING s))"

definition iMapUnitModifier :: "nat \<Rightarrow> 'w asdm \<Rightarrow> int \<times> int \<times> 'w asdm" where
  "iMapUnitModifier m s =
     (if \<not> asdm_guarded s then (ERROR, 7, s)
      else if m = 0 then (OK, 6, s) else if m = 1 then (OK, 3, s) else if m = 2 then (OK, 0, s)
      else if m = 3 then (OK, - 3, s) else if m = 4 then (OK, - 6, s)
      else (ERROR, 7, asdm_inc_error ASDM_ERRORS_ASDM_UNIT_MODIFIER_MAPPING s))"

definition ASDM_SDS_SENSOR_TAG_BOARD_TEMP :: u8 where "ASDM_SDS_SENSOR_TAG_BOARD_TEMP = 1"
definition ASDM_SDS_SENSOR_TAG_VOLTAGE :: u8 where "ASDM_SDS_SENSOR_TAG_VOLTAGE = 4"
definition ASDM_SDS_SENSOR_TAG_CURRENT :: u8 where "ASDM_SDS_SENSOR_TAG_CURRENT = 5"
definition ASDM_SDS_SENSOR_TAG_POWER :: u8 where "ASDM_SDS_SENSOR_TAG_POWER = 6"
definition ASDM_SDS_SENSOR_TAG_MAX :: u8 where "ASDM_SDS_SENSOR_TAG_MAX = 7"

definition iMapSensorTag :: "nat \<Rightarrow> u8 \<Rightarrow> 'w asdm \<Rightarrow> int \<times> u8 \<times> 'w asdm" where
  "iMapSensorTag repo old s =
     (if \<not> asdm_guarded s then (ERROR, old, s)
      else if repo = AMC_ASDM_SUPPORTED_REPO_TEMP then (OK, ASDM_SDS_SENSOR_TAG_BOARD_TEMP, s)
      else if repo = AMC_ASDM_SUPPORTED_REPO_VOLTAGE then (OK, ASDM_SDS_SENSOR_TAG_VOLTAGE, s)
      else if repo = AMC_ASDM_SUPPORTED_REPO_CURRENT then (OK, ASDM_SDS_SENSOR_TAG_CURRENT, s)
      else if repo = AMC_ASDM_SUPPORTED_REPO_POWER \<or> repo = AMC_ASDM_SUPPORTED_REPO_TOTAL_POWER
      then (OK, ASDM_SDS_SENSOR_TAG_POWER, s)
      else (ERROR, ASDM_SDS_SENSOR_TAG_MAX, asdm_inc_error ASDM_ERRORS_SENSOR_TAG_MAPPING s))"

section \<open>The list of the sensors of a repository\<close>

definition repo_bit :: "nat \<Rightarrow> u8" where
  "repo_bit repo =
     (if repo = AMC_ASDM_SUPPORTED_REPO_TEMP then 1
      else if repo = AMC_ASDM_SUPPORTED_REPO_VOLTAGE then 2
      else if repo = AMC_ASDM_SUPPORTED_REPO_CURRENT then 4
      else if repo = AMC_ASDM_SUPPORTED_REPO_POWER \<or> repo = AMC_ASDM_SUPPORTED_REPO_TOTAL_POWER then 8
      else 0)"

definition list_sensor ::
  "'w asdm_env \<Rightarrow> ASC_SENSOR_DATA list \<Rightarrow> nat \<Rightarrow> nat \<Rightarrow> 'w asdm \<Rightarrow> 'w asdm option" where
  "list_sensor env datas repo i s =
     (case elem_at datas i of None \<Rightarrow> None | Some d \<Rightarrow>
        if ucSensorType d AND repo_bit repo = 0 then Some s
        else let (en, s1) = outside (sensorEnabled env (pxSensorEnabled d)) s in
          if en \<noteq> 1 then Some s1
          else let l = pxSensorList s1 ! repo in do {
            idx \<leftarrow> pucSensorIndex l;
            idx' \<leftarrow> wr8 (unat (ucNumFound l)) (of_nat i) idx;
            ids \<leftarrow> pucSensorId l;
            ids' \<leftarrow> wr8 (unat (ucNumFound l)) (ucSensorId d) ids;
            Some (set_sensor_list repo (\<lambda>l. l\<lparr>ucNumFound := ucNumFound l + 1,
              pucSensorIndex := Some idx', pucSensorId := Some ids'\<rparr>) s1) })"

definition iPopulateRepoSensorList ::
  "'w asdm_env \<Rightarrow> u8 \<Rightarrow> nat \<Rightarrow> 'w asdm \<Rightarrow> (int \<times> 'w asdm) option" where
  "iPopulateRepoSensorList env n repo s =
     (case pxAscData s of
        Some datas \<Rightarrow>
          if \<not> (asdm_guarded s \<and> iSensorListInitialised s) then Some (ERROR, s)
          else if AMC_ASDM_SUPPORTED_REPO_MAX \<le> repo
          then Some (ERROR, asdm_inc_error ASDM_ERRORS_ASC_BITFIELD_MAPPING s)
          else map_option (Pair OK) (for_count (list_sensor env datas repo) (unat n) 0 s)
      | None \<Rightarrow> Some (ERROR, s))"

section \<open>The SDR of a sensor\<close>

definition pcConvertRepoBaseUnitStr :: "u8 \<Rightarrow> string option" where
  "pcConvertRepoBaseUnitStr t =
     (if t = ASDM_REPOSITORY_TYPE_TEMP then Some ''Celsius''
      else if t = ASDM_REPOSITORY_TYPE_VOLTAGE then Some ''Volts''
      else if t = ASDM_REPOSITORY_TYPE_CURRENT then Some ''Amps''
      else if t = ASDM_REPOSITORY_TYPE_POWER then Some ''Watts''
      else if t = ASDM_REPOSITORY_TYPE_TOTAL_POWER then Some ''Watts''
      else None)"

definition reading :: "'w asdm_env \<Rightarrow> ASC_SENSOR_DATA \<Rightarrow> nat \<Rightarrow> ASC_READINGS" where
  "reading env d i = (if i < length (pxReadings d) then pxReadings d ! i else pastReadings env d i)"

text \<open>
  A string with its terminator in a field: \<open>n = strlen + 1\<close> bytes are copied, then byte \<open>n\<close> is
  cleared.
\<close>

definition text_field :: "string \<Rightarrow> ASDM_RECORD_FIELD \<Rightarrow> ASDM_RECORD_FIELD" where
  "text_field str f = f\<lparr>fldType := ASDM_RECORD_FIELD_TYPE_CODE_8_BIT_ASCII,
     fldLength := of_nat (length str + 1) AND ASDM_RECORD_FIELD_LENGTH_MASK,
     pucBytesValue := map of_char str @ [0, 0] @ drop (length str + 2) (pucBytesValue f)\<rparr>"

text \<open>A limit that is not marked invalid is stored and its bit set; it counts one byte.\<close>

definition add_limit ::
  "u32 \<Rightarrow> u8 \<Rightarrow> (u32 \<Rightarrow> ASDM_SDR_RECORD \<Rightarrow> ASDM_SDR_RECORD) \<Rightarrow> ASDM_SDR_RECORD \<times> u16
   \<Rightarrow> ASDM_SDR_RECORD \<times> u16" where
  "add_limit v bt store p = (case p of (r, n) \<Rightarrow>
     if ASC_SENSOR_INVALID_VAL \<noteq> v
     then ((store v r)\<lparr>ucThresholdSupportedBitMask := ucThresholdSupportedBitMask r OR bt\<rparr>, n + 1)
     else (r, n))"

definition iPopulateSdrThresholds ::
  "ASC_READINGS \<Rightarrow> 'w asdm \<Rightarrow> ASDM_SDR_RECORD \<Rightarrow> u16 \<Rightarrow> int \<times> ASDM_SDR_RECORD \<times> u16" where
  "iPopulateSdrThresholds rd s r n =
     (if \<not> asdm_guarded s then (ERROR, r, n)
      else (OK,
        add_limit (rdUpperWarningLimit rd) ASDM_SDR_THRESHOLD_UPPER_WARNING_MASK
          (\<lambda>v r. r\<lparr>ulUpperWarnLimit := v\<rparr>)
       (add_limit (rdUpperCriticalLimit rd) ASDM_SDR_THRESHOLD_UPPER_CRITICAL_MASK
          (\<lambda>v r. r\<lparr>ulUpperCritLimit := v\<rparr>)
       (add_limit (rdUpperFatalLimit rd) ASDM_SDR_THRESHOLD_UPPER_FATAL_MASK
          (\<lambda>v r. r\<lparr>ulUpperFatalLimit := v\<rparr>)
       (add_limit (rdLowerWarningLimit rd) ASDM_SDR_THRESHOLD_LOWER_WARNING_MASK
          (\<lambda>v r. r\<lparr>ulLowerWarnLimit := v\<rparr>)
       (add_limit (rdLowerCriticalLimit rd) ASDM_SDR_THRESHOLD_LOWER_CRITICAL_MASK
          (\<lambda>v r. r\<lparr>ulLowerCritLimit := v\<rparr>)
       (add_limit (rdLowerFatalLimit rd) ASDM_SDR_THRESHOLD_LOWER_FATAL_MASK
          (\<lambda>v r. r\<lparr>ulLowerFatalLimit := v\<rparr>) (r, 0))))))))"

text \<open>The maximum sets the bit of the average and the average that of the maximum.\<close>

definition add_statistics ::
  "ASC_READINGS \<Rightarrow> ASDM_SDR_RECORD \<times> u16 \<Rightarrow> ASDM_SDR_RECORD \<times> u16" where
  "add_statistics rd p =
     add_limit (ulAverageSensorValue rd) ASDM_SDR_THRESHOLD_SENSOR_MAX_MASK
       (\<lambda>v r. r\<lparr>ulAverageValue := v\<rparr>)
    (add_limit (ulMaxSensorValue rd) ASDM_SDR_THRESHOLD_SENSOR_AVG_MASK
       (\<lambda>v r. r\<lparr>ulMaxValue := v\<rparr>) p)"

definition ASDM_SDR_SENSOR_STATUS_PRESENT_VALID :: u8 where
  "ASDM_SDR_SENSOR_STATUS_PRESENT_VALID = 1"

text \<open>
  \<open>pxSdr\<close> may be null; \<open>*pusByteCount\<close> starts as \<open>cnt\<close>. A name that is not terminated within
  its array and a repository without a unit are read outside.
\<close>

definition iPopulateSdr ::
  "'w asdm_env \<Rightarrow> u8 \<Rightarrow> u8 \<Rightarrow> ASC_SENSOR_DATA \<Rightarrow> ASDM_SDR_RECORD option \<Rightarrow> u16 \<Rightarrow> 'w asdm
   \<Rightarrow> (int \<times> ASDM_SDR_RECORD option \<times> u16 \<times> 'w asdm) option" where
  "iPopulateSdr env ix t d sdr cnt s =
     (if \<not> asdm_guarded s then Some (ERROR, sdr, cnt, s)
      else case sdr of None \<Rightarrow> Some (ERROR, None, cnt, s) | Some r \<Rightarrow>
        let (st, repo, s1) = (if t = ASDM_REPOSITORY_TYPE_TOTAL_POWER
                              then (OK, AMC_ASDM_SUPPORTED_REPO_POWER, s) else iMapAsdmRepo t 0 s) in
        if st \<noteq> OK then Some (ERROR, Some r, cnt, s1)
        else let r1 = r\<lparr>sdrId := ix + 1\<rparr> in do {
          nm \<leftarrow> c_string (pcSensorName d);
          if ASDM_RECORD_FIELD_BYTES_MAX \<le> length nm + 1
          then Some (ERROR, Some r1, cnt, asdm_inc_error ASDM_ERRORS_ASDM_SENSOR_NAME_LENGTH s1)
          else do {
            unit \<leftarrow> pcConvertRepoBaseUnitStr t;
            let rd = reading env d repo;
            let r2 = r1\<lparr>xSensorName := text_field nm (xSensorName r1),
                        xSensorValue := set_fieldValue (ulSensorValue rd)
                          ((xSensorValue r1)\<lparr>fldLength := 4 AND ASDM_RECORD_FIELD_LENGTH_MASK\<rparr>),
                        xSensorBaseUnit := text_field unit (xSensorBaseUnit r1)\<rparr>;
            let n = (1 + of_nat (length nm + 1) + 4 + of_nat (length unit + 1) :: u16);
            let (st2, m, s2) = iMapUnitModifier (xSensorUnitModifier rd) s1;
            if st2 \<noteq> OK then Some (st2, Some r2, cnt, s2)
            else let (st3, r3, _) = iPopulateSdrThresholds rd s2
                   (r2\<lparr>cUnitModifier := of_int m, ucThresholdSupportedBitMask := 0\<rparr>) 0 in
              if st3 \<noteq> OK then Some (st3, Some r3, cnt, s2)
              else let (r4, n') = add_statistics rd
                     (r3\<lparr>ucSensorStatus := ASDM_SDR_SENSOR_STATUS_PRESENT_VALID\<rparr>, n + 1 + 1 + 2 + 1) in
                Some (OK, Some r4, n', s2) } })"

section \<open>The SDS of a sensor\<close>

definition iPopulateSds ::
  "'w asdm_env \<Rightarrow> u8 \<Rightarrow> u8 \<Rightarrow> ASC_SENSOR_DATA \<Rightarrow> ASDM_SDS_RECORD option \<Rightarrow> u16 \<Rightarrow> 'w asdm
   \<Rightarrow> int \<times> ASDM_SDS_RECORD option \<times> u16 \<times> 'w asdm" where
  "iPopulateSds env ix t d sds cnt s =
     (case sds of None \<Rightarrow> (ERROR, None, cnt, s) | Some r \<Rightarrow>
        let (st, repo, s1) = iMapAsdmRepo t 0 s in
        if st \<noteq> OK then (ERROR, Some r, cnt, s1)
        else let rd = reading env d repo; (st2, tag, s2) = iMapSensorTag repo 0 s1 in
          (st2, Some (r\<lparr>sdsId := ix + 1,
             sdsSensorValue := set_fieldValue (ulSensorValue rd)
               ((sdsSensorValue r)\<lparr>fldLength := 4 AND ASDM_RECORD_FIELD_LENGTH_MASK\<rparr>),
             sdsSensorStatus := xSensorStatus rd,
             sdsSensorTag := (if st2 = OK then tag else 0), sdsRsvd := 0\<rparr>), 1 + 4 + 1 + 1 + 1, s2))"

section \<open>The flash partition table\<close>

text \<open>The partitions of boot device \<open>i\<close>, one after the other, until one cannot be read.\<close>

primrec read_partitions ::
  "'w asdm_env \<Rightarrow> nat \<Rightarrow> nat \<Rightarrow> nat \<Rightarrow> APC_FPT_PARTITION list \<Rightarrow> int \<Rightarrow> 'w asdm
   \<Rightarrow> int \<times> APC_FPT_PARTITION list option \<times> 'w asdm" where
  "read_partitions env i 0 j parts st s = (st, Some parts, s)"
| "read_partitions env i (Suc k) j parts st s =
     (let ((st1, p), s1) = outside (\<lambda>w. case apcGetPartition env i j (parts ! j) w of
            (r, p, w') \<Rightarrow> ((r, p), w')) s in
      if st1 \<noteq> OK
      then (st1, None, asdm_free env (asdm_inc_error ASDM_ERRORS_APC_PARTITION_INFO s1))
      else read_partitions env i k (Suc j) (parts[j := p]) st1
             (asdm_inc_stat ASDM_STATS_GET_FPT_PARTITION s1))"

definition sizeof_APC_FPT_PARTITION :: nat where "sizeof_APC_FPT_PARTITION = 12"

text \<open>The first result says that the loop over the devices is left.\<close>

definition read_boot_device ::
  "'w asdm_env \<Rightarrow> nat \<Rightarrow> 'w asdm \<Rightarrow> bool \<times> int \<times> 'w asdm" where
  "read_boot_device env i s =
     (let ((st, h), s1) = outside (\<lambda>w. case apcGetHeader env i (pxFptHeader s ! i) w of
            (r, h, w') \<Rightarrow> ((r, h), w')) s;
          s2 = s1\<lparr>pxFptHeader := (pxFptHeader s1)[i := h]\<rparr> in
      if st = OK
      then let s3 = asdm_inc_stat ASDM_STATS_GET_FPT_HEADER s2; n = unat (ucNumEntries h);
               (ok, s4) = asdm_alloc env (n * sizeof_APC_FPT_PARTITION) s3 in
        if \<not> ok
        then (False, OK, asdm_inc_error ASDM_ERRORS_MALLOC_FAILED
                           (s4\<lparr>ppxFptPartitions := (ppxFptPartitions s4)[i := None]\<rparr>))
        else let (st1, parts, s5) = read_partitions env i n 0 (map (rawPartition env) [0..<n]) OK
                   (asdm_inc_stat ASDM_STATS_MALLOC s4) in
          (False, st1, s5\<lparr>ppxFptPartitions := (ppxFptPartitions s5)[i := parts]\<rparr>)
      else if i = 0 then (True, st, asdm_inc_error ASDM_ERRORS_APC_PARTITION_HEADER s2)
      else (False, OK, s2\<lparr>pxFptHeader := (pxFptHeader s2)[i := zero_apc_header]\<rparr>))"

text \<open>The status of the primary device's partitions is overwritten by the secondary device.\<close>

definition iGetFptData :: "'w asdm_env \<Rightarrow> 'w asdm \<Rightarrow> int \<times> 'w asdm" where
  "iGetFptData env s =
     (if \<not> (asdm_guarded s \<and> ppxFptPartitions s ! 0 = None \<and> ppxFptPartitions s ! 1 = None)
      then (ERROR, s)
      else let (stop, st, s1) = read_boot_device env 0 s in
        if stop then (st, s1) else snd (read_boot_device env 1 s1))"

text \<open>One boot device of the SDR: a new array of entries, filled from the partitions.\<close>

definition fpt_entry :: "APC_FPT_PARTITION \<Rightarrow> ASDM_FPT_ENTRY" where
  "fpt_entry p = \<lparr>ulType = ulPartitionType p, ulBaseAddr = ulPartitionBaseAddr p,
     ulPartitionSize = apcPartitionSize p\<rparr>"

definition fpt_header :: "APC_FPT_HEADER \<Rightarrow> ASDM_FPT_HEADER" where
  "fpt_header h = \<lparr>ucFptVersion = apcFptVersion h, ucFptHeaderSize = apcFptHeaderSize h,
     ucFptEntrySize = ucEntrySize h, ucNumEnteries = ucNumEntries h\<rparr>"

primrec copy_entries ::
  "APC_FPT_PARTITION list \<Rightarrow> nat \<Rightarrow> nat \<Rightarrow> ASDM_FPT_ENTRY list \<times> u16
   \<Rightarrow> (ASDM_FPT_ENTRY list \<times> u16) option" where
  "copy_entries parts 0 i a = Some a"
| "copy_entries parts (Suc k) i a =
     (case elem_at parts i of None \<Rightarrow> None | Some p \<Rightarrow>
        copy_entries parts k (Suc i) ((fst a)[i := fpt_entry p], snd a + 12))"

definition sizeof_ASDM_FPT_ENTRY :: nat where "sizeof_ASDM_FPT_ENTRY = 12"

text \<open>The entries and the byte count, or no entries when the memory or the partitions lack.\<close>

definition populate_entries ::
  "'w asdm_env \<Rightarrow> nat \<Rightarrow> u16 \<Rightarrow> 'w asdm \<Rightarrow> (ASDM_FPT_ENTRY list option \<times> u16 \<times> 'w asdm) option" where
  "populate_entries env i cnt s =
     (let n = unat (ucNumEntries (pxFptHeader s ! i));
          (ok, s1) = asdm_alloc env (unat (of_nat (sizeof_ASDM_FPT_ENTRY * n) :: u16)) s in
      case ppxFptPartitions s1 ! i of
        Some parts \<Rightarrow>
          if ok then map_option (\<lambda>(es, c). (Some es, c, asdm_inc_stat ASDM_STATS_MALLOC s1))
                       (copy_entries parts n 0 (map (rawEntry env) [0..<n], cnt))
          else Some (None, cnt, asdm_inc_error ASDM_ERRORS_MALLOC_FAILED s1)
      | None \<Rightarrow> Some (None, cnt, asdm_inc_error ASDM_ERRORS_MALLOC_FAILED
                                (if ok then asdm_free env s1 else s1)))"

definition set_fpt :: "ASDM_FPT_RECORD \<Rightarrow> 'w asdm \<Rightarrow> 'w asdm option" where
  "set_fpt r = upd_sdr AMC_ASDM_SUPPORTED_REPO_FPT (\<lambda>d. d\<lparr>sdrData := FptRecord r\<rparr>)"

definition iPopulateAsdmFpt :: "'w asdm_env \<Rightarrow> u16 \<Rightarrow> 'w asdm \<Rightarrow> (int \<times> u16 \<times> 'w asdm) option" where
  "iPopulateAsdmFpt env cnt s =
     (if \<not> asdm_guarded s then Some (ERROR, cnt, s)
      else do {
        d \<leftarrow> get_sdr AMC_ASDM_SUPPORTED_REPO_FPT s;
        r \<leftarrow> fpt_record (sdrData d);
        let r1 = r\<lparr>xFptHdrPrimary := fpt_header (pxFptHeader s ! 0),
                   xFptHdrSecondary := fpt_header (pxFptHeader s ! 1)\<rparr>;
        (es, c1, s1) \<leftarrow> populate_entries env 0 (of_nat (4 * ptrSize env)) s;
        s2 \<leftarrow> set_fpt (r1\<lparr>pxFptEntryPrimary := es\<rparr>) s1;
        if es = None then Some (ERROR, cnt, s2)
        else do {
          (es', c2, s3) \<leftarrow> populate_entries env 1 c1 s2;
          s4 \<leftarrow> set_fpt (r1\<lparr>pxFptEntryPrimary := es, pxFptEntrySecondary := es'\<rparr>) s3;
          Some (OK, c2, s4) } })"

section \<open>The board information\<close>

definition board_type :: "BOARD_FIELD \<Rightarrow> u8" where
  "board_type f =
     (if f \<in> {xEepromVersion, xProductName, xBoardRev, xBoardSerial, xActiveState, xPartNumber,
              xMemorySize, xMfgPartNumber} then ASDM_RECORD_FIELD_TYPE_CODE_8_BIT_ASCII
      else if f = xMacAddressCount then ASDM_RECORD_FIELD_TYPE_CODE_NUM
      else ASDM_RECORD_FIELD_TYPE_CODE_BYTE_ARRAY)"

text \<open>
  The EEPROM driver fills the buffer of 40 bytes and the length, which both last from one
  field to the next. The number of addresses is one byte, stored as a number.
\<close>

definition board_field :: "BOARD_FIELD \<Rightarrow> u8 list \<Rightarrow> u8 \<Rightarrow> ASDM_RECORD_FIELD \<Rightarrow> ASDM_RECORD_FIELD" where
  "board_field f buf len old =
     (if f = xMacAddressCount
      then set_fieldValue (ucast (buf ! 0))
             (old\<lparr>fldType := board_type f, fldLength := 1 AND ASDM_RECORD_FIELD_LENGTH_MASK\<rparr>)
      else old\<lparr>fldType := board_type f, fldLength := len AND ASDM_RECORD_FIELD_LENGTH_MASK,
               pucBytesValue := take (unat len) buf @ drop (unat len) (pucBytesValue old)\<rparr>)"

fun read_board_fields ::
  "'w asdm_env \<Rightarrow> BOARD_FIELD list \<Rightarrow> u8 list \<Rightarrow> u8 \<Rightarrow> ASDM_BOARD_INFO_RECORD \<Rightarrow> 'w asdm
   \<Rightarrow> int \<times> ASDM_BOARD_INFO_RECORD \<times> 'w asdm" where
  "read_board_fields env [] buf len b s = (OK, b, s)"
| "read_board_fields env (f # fs) buf len b s =
     (let ((st, buf1, len1), s1) = outside (\<lambda>w. case eepromGet env f buf len w of
            (r, x, l, w') \<Rightarrow> ((r, x, l), w')) s in
      if st \<noteq> OK then (st, b, s1)
      else let len2 = (if f = xMacAddressCount then len1 else min len1 29) in
        read_board_fields env fs buf1 len2 (b(f := board_field f buf1 len2 (b f))) s1)"

definition sizeof_ASDM_BOARD_INFO_RECORD :: nat where
  "sizeof_ASDM_BOARD_INFO_RECORD = 17 * 36"

definition EEPROM_MAX_FIELD_SIZE :: nat where "EEPROM_MAX_FIELD_SIZE = 40"

definition iGetBoardInfoData :: "'w asdm_env \<Rightarrow> 'w asdm \<Rightarrow> int \<times> 'w asdm" where
  "iGetBoardInfoData env s =
     (let (st, s') =
        (if \<not> (asdm_guarded s \<and> pxBoardInfo s = None) then (ERROR, s)
         else let (ok, s1) = asdm_alloc env sizeof_ASDM_BOARD_INFO_RECORD s in
           if \<not> ok then (ERROR, asdm_inc_error ASDM_ERRORS_MALLOC_FAILED s1)
           else let (st, b, s2) = read_board_fields env board_fields
                      (replicate EEPROM_MAX_FIELD_SIZE 0) 0 (\<lambda>_. zero_field) s1 in
             (st, s2\<lparr>pxBoardInfo := Some b\<rparr>)) in
      (st, if st \<noteq> OK then asdm_inc_error ASDM_ERRORS_ASDM_POPULATE_BDINFO_FAILED s' else s'))"

text \<open>The SDR points to the same record, which is not written again.\<close>

definition iPopulateAsdmBoardInfo :: "u16 \<Rightarrow> 'w asdm \<Rightarrow> (int \<times> u16 \<times> 'w asdm) option" where
  "iPopulateAsdmBoardInfo cnt s =
     (case pxBoardInfo s of
        Some b \<Rightarrow>
          if asdm_guarded s
          then map_option (\<lambda>s'. (OK, of_nat sizeof_ASDM_BOARD_INFO_RECORD, s'))
                 (upd_sdr AMC_ASDM_SUPPORTED_REPO_BOARD_INFO (\<lambda>d. d\<lparr>sdrData := BoardInfo b\<rparr>) s)
          else Some (ERROR, cnt, s)
      | None \<Rightarrow> Some (ERROR, cnt, s))"

end
