(* ===== verification/AsdmInit.thy ===== *)
theory AsdmInit
  imports AsdmPopulate
begin

text \<open>
  \<open>iInitAsdm\<close>, which builds the table of SDRs and the table of SDSs repository by repository,
  and \<open>iASDM_Initialise\<close>, asdm.c.
\<close>

section \<open>The number of records of a repository\<close>

definition set_found :: "nat \<Rightarrow> u8 \<Rightarrow> 'w asdm \<Rightarrow> 'w asdm" where
  "set_found repo n = set_sensor_list repo (\<lambda>l. l\<lparr>ucNumFound := n\<rparr>)"

text \<open>No repository without data stops the others: its status is replaced.\<close>

definition count_records :: "'w asdm_env \<Rightarrow> u8 \<Rightarrow> nat \<Rightarrow> 'w asdm \<Rightarrow> 'w asdm option" where
  "count_records env n repo s =
     (if repo \<le> AMC_ASDM_SUPPORTED_REPO_POWER
      then map_option (\<lambda>(st, s1). if st = OK then s1 else set_found repo 0 s1)
             (iPopulateRepoSensorList env n repo s)
      else if repo = AMC_ASDM_SUPPORTED_REPO_TOTAL_POWER
      then Some (set_found repo (if iSensorListInitialised s then 1 else 0) s)
      else let (st, s1) = (if repo = AMC_ASDM_SUPPORTED_REPO_FPT then iGetFptData env s
                           else iGetBoardInfoData env s)
        in Some (set_found repo (if st = OK then 1 else 0) s1))"

section \<open>The sensor records of a repository\<close>

text \<open>The sensor that stands for the total power.\<close>

definition total_power_readings :: "nat \<Rightarrow> ASC_READINGS" where
  "total_power_readings m = \<lparr>ulSensorValue = 0, rdLowerWarningLimit = ASC_SENSOR_INVALID_VAL,
     rdLowerCriticalLimit = ASC_SENSOR_INVALID_VAL, rdLowerFatalLimit = ASC_SENSOR_INVALID_VAL,
     rdUpperWarningLimit = ASC_SENSOR_INVALID_VAL, rdUpperCriticalLimit = ASC_SENSOR_INVALID_VAL,
     rdUpperFatalLimit = ASC_SENSOR_INVALID_VAL, ulAverageSensorValue = 0, ulMaxSensorValue = 0,
     xSensorStatus = 0, xSensorOperationalStatus = 0, xSensorUnitModifier = m\<rparr>"

definition xTotalPowerData :: "ASC_SENSOR_DATA list" where
  "xTotalPowerData = [\<lparr>pcSensorName = ''Total_Power'' @ replicate 9 (CHR 0x00), ucSensorId = 1,
     ucSensorType = 8, ucTotalPowerSensor = 0, ucSensorAddress = 0,
     ucChannelNumber = replicate 4 0xFF, pxSensorEnabled = 0,
     ppxReadSensorFunc = replicate 4 None, pxReadings = map total_power_readings [2, 2, 2, 3],
     ulThresholdStatus = 0\<rparr>]"

text \<open>Element \<open>i\<close> behind a pointer that may be null: only the address of the first is null.\<close>

definition record_ptr :: "'a list option \<Rightarrow> nat \<Rightarrow> 'a option option" where
  "record_ptr recs i = (case recs of
       None \<Rightarrow> if i = 0 then Some None else None
     | Some l \<Rightarrow> map_option Some (elem_at l i))"

definition store_record :: "nat \<Rightarrow> 'a option \<Rightarrow> 'a list option \<Rightarrow> 'a list option" where
  "store_record i r recs = (case (r, recs) of (Some x, Some l) \<Rightarrow> Some (l[i := x]) | _ \<Rightarrow> recs)"

text \<open>
  The SDR and the SDS of one sensor, with index \<open>j\<close> behind the pointers. The status and the
  byte count of the SDS replace those of the SDR.
\<close>

definition populate_records ::
  "'w asdm_env \<Rightarrow> nat \<Rightarrow> nat \<Rightarrow> nat \<Rightarrow> u8 \<Rightarrow> ASC_SENSOR_DATA \<Rightarrow> ASDM_SDR_RECORD list option \<Rightarrow> 'w asdm
   \<Rightarrow> (int \<times> u16 \<times> 'w asdm) option" where
  "populate_records env repo i j t d recs s = do {
     sdr \<leftarrow> record_ptr recs j;
     (st, sdr', cnt, s1) \<leftarrow> iPopulateSdr env (of_nat i) t d sdr 0 s;
     s2 \<leftarrow> upd_sdr repo (\<lambda>e. e\<lparr>sdrData := SensorRecords (store_record j sdr' recs)\<rparr>) s1;
     f \<leftarrow> get_sds repo s2;
     sds \<leftarrow> record_ptr (sdsRecords f) j;
     let (st', sds', cnt', s3) = iPopulateSds env (of_nat i) t d sds cnt s2;
     s4 \<leftarrow> upd_sds repo (\<lambda>f. f\<lparr>sdsRecords := store_record j sds' (sdsRecords f)\<rparr>) s3;
     Some (st', cnt', s4) }"

text \<open>One sensor; its index is read for the total power too.\<close>

definition populate_sensor ::
  "'w asdm_env \<Rightarrow> nat \<Rightarrow> nat \<Rightarrow> 'w asdm \<Rightarrow> (int \<times> u16 \<times> 'w asdm) option" where
  "populate_sensor env repo i s = do {
     idx \<leftarrow> pucSensorIndex (pxSensorList s ! repo);
     k \<leftarrow> rd8 idx i;
     e \<leftarrow> get_sdr repo s;
     recs \<leftarrow> sensor_records (sdrData e);
     if repo = AMC_ASDM_SUPPORTED_REPO_TOTAL_POWER
     then elem_at xTotalPowerData i \<bind> (\<lambda>d. populate_records env repo i 0 (ucRepoType (sdrHdr e)) d recs s)
     else pxAscData s \<bind> (\<lambda>datas. elem_at datas (unat k) \<bind>
       (\<lambda>d. populate_records env repo i i (ucRepoType (sdrHdr e)) d recs s)) }"

text \<open>A failure drops the records of the repository.\<close>

definition clear_header :: "ASDM_SENSOR_HEADER \<Rightarrow> ASDM_SENSOR_HEADER" where
  "clear_header h = h\<lparr>ucTotalNumRecords := 0, usTotalNumBytes := 0\<rparr>"

definition drop_records :: "'w asdm_env \<Rightarrow> nat \<Rightarrow> 'w asdm \<Rightarrow> 'w asdm option" where
  "drop_records env repo s = do {
     e \<leftarrow> get_sdr repo s;
     recs \<leftarrow> sensor_records (sdrData e);
     let s1 = (if recs = None then s else asdm_inc_stat ASDM_STATS_FREE (asdm_free env s));
     s2 \<leftarrow> upd_sdr repo (\<lambda>e. e\<lparr>sdrData := SensorRecords None, sdrHdr := clear_header (sdrHdr e)\<rparr>) s1;
     f \<leftarrow> get_sds repo s2;
     let s3 = asdm_inc_error ASDM_ERRORS_ASDM_POPULATE_SDR_FAILED s2;
     let s4 = (if sdsRecords f = None then s3 else asdm_inc_stat ASDM_STATS_FREE (asdm_free env s3));
     s5 \<leftarrow> upd_sds repo (\<lambda>f. f\<lparr>sdsRecords := None, sdsHdr := clear_header (sdsHdr f)\<rparr>) s4;
     Some (asdm_inc_error ASDM_ERRORS_ASDM_POPULATE_SDS_FAILED s5) }"

primrec populate_sensors ::
  "'w asdm_env \<Rightarrow> nat \<Rightarrow> nat \<Rightarrow> nat \<Rightarrow> u16 \<Rightarrow> 'w asdm \<Rightarrow> (int \<times> u16 \<times> 'w asdm) option" where
  "populate_sensors env repo 0 i tot s = Some (OK, tot, s)"
| "populate_sensors env repo (Suc n) i tot s = do {
     (st, cnt, s1) \<leftarrow> populate_sensor env repo i s;
     if st = ERROR then map_option (\<lambda>s2. (ERROR, tot, s2)) (drop_records env repo s1)
     else populate_sensors env repo n (Suc i) (tot + cnt)
            (asdm_inc_stat ASDM_STATS_ASDM_POPULATE_SDR_SUCCESS s1) }"

definition sizeof_ASDM_SDR_RECORD :: nat where "sizeof_ASDM_SDR_RECORD = 152"
definition sizeof_ASDM_SDS_RECORD :: nat where "sizeof_ASDM_SDS_RECORD = 44"

text \<open>
  Both arrays are allocated, but only the allocation of the SDS is checked; the SDR array is
  set to zero, the SDS array is not.
\<close>

definition build_sensor_repo ::
  "'w asdm_env \<Rightarrow> nat \<Rightarrow> u16 \<Rightarrow> 'w asdm \<Rightarrow> (int \<times> u16 \<times> 'w asdm) option" where
  "build_sensor_repo env repo tot s =
     (let n = unat (ucNumFound (pxSensorList s ! repo));
          (ok, s1) = asdm_alloc env (sizeof_ASDM_SDR_RECORD * n) s;
          (ok', s2) = asdm_alloc env (sizeof_ASDM_SDS_RECORD * n) s1 in do {
        s3 \<leftarrow> upd_sdr repo (\<lambda>e. e\<lparr>sdrData := SensorRecords
               (if ok then Some (replicate n zero_sdr_record) else None)\<rparr>) s2;
        s4 \<leftarrow> upd_sds repo (\<lambda>f. f\<lparr>sdsRecords :=
               (if ok' then Some (map (rawSds env) [0..<n]) else None)\<rparr>) s3;
        if ok' then populate_sensors env repo n 0 tot (asdm_inc_stat ASDM_STATS_MALLOC s4)
        else Some (ERROR, tot, asdm_inc_error ASDM_ERRORS_MALLOC_FAILED s4) })"

section \<open>The tables\<close>

definition ASDM_HEADER_DEFAULT_BYTES :: u16 where "ASDM_HEADER_DEFAULT_BYTES = 5 + 3"
definition TOTAL_NUM_BYTES_MULTIPLE :: u16 where "TOTAL_NUM_BYTES_MULTIPLE = 8"

text \<open>A byte count in units of eight bytes, rounded up.\<close>

definition in_multiples :: "u16 \<Rightarrow> u16" where
  "in_multiples n =
     (if n mod TOTAL_NUM_BYTES_MULTIPLE \<noteq> 0
      then n + (TOTAL_NUM_BYTES_MULTIPLE - n mod TOTAL_NUM_BYTES_MULTIPLE) else n)
     div TOTAL_NUM_BYTES_MULTIPLE"

definition header_for :: "nat \<Rightarrow> 'w asdm \<Rightarrow> ASDM_SENSOR_HEADER" where
  "header_for repo s = (xAsdmHeaderInfo ! repo)\<lparr>ucTotalNumRecords := ucNumFound (pxSensorList s ! repo)\<rparr>"

definition build_repo :: "'w asdm_env \<Rightarrow> nat \<Rightarrow> 'w asdm \<Rightarrow> (int \<times> u16 \<times> 'w asdm) option" where
  "build_repo env repo s =
     (if ucNumFound (pxSensorList s ! repo) = 0 then Some (OK, ASDM_HEADER_DEFAULT_BYTES, s)
      else if repo \<le> AMC_ASDM_SUPPORTED_REPO_TOTAL_POWER
      then build_sensor_repo env repo ASDM_HEADER_DEFAULT_BYTES s
      else map_option (\<lambda>(st, cnt, s'). (st, if st = OK then ASDM_HEADER_DEFAULT_BYTES + cnt
                                          else ASDM_HEADER_DEFAULT_BYTES, s'))
             (if repo = AMC_ASDM_SUPPORTED_REPO_FPT then iPopulateAsdmFpt env 0 s
              else iPopulateAsdmBoardInfo 0 s))"

text \<open>The size is stored in the header of the SDR only.\<close>

definition init_repo :: "'w asdm_env \<Rightarrow> u8 \<Rightarrow> nat \<Rightarrow> 'w asdm \<Rightarrow> (int \<times> 'w asdm) option" where
  "init_repo env n repo s = do {
     s1 \<leftarrow> count_records env n repo s;
     s2 \<leftarrow> upd_sdr repo (\<lambda>e. e\<lparr>sdrHdr := header_for repo s1\<rparr>) s1;
     s3 \<leftarrow> upd_sds repo (\<lambda>f. f\<lparr>sdsHdr := header_for repo s1\<rparr>) s2;
     (st, tot, s4) \<leftarrow> build_repo env repo s3;
     if st \<noteq> OK then Some (st, s4)
     else do {
       s5 \<leftarrow> upd_sdr repo (\<lambda>e. e\<lparr>sdrEor := ASDM_EOR_MARKER,
              sdrHdr := (sdrHdr e)\<lparr>usTotalNumBytes := in_multiples tot\<rparr>\<rparr>) s4;
       s6 \<leftarrow> upd_sds repo (\<lambda>f. f\<lparr>sdsEor := ASDM_EOR_MARKER\<rparr>) s5;
       Some (OK, s6) } }"

primrec init_repos :: "'w asdm_env \<Rightarrow> u8 \<Rightarrow> nat \<Rightarrow> nat \<Rightarrow> 'w asdm \<Rightarrow> (int \<times> 'w asdm) option" where
  "init_repos env n 0 repo s = Some (OK, s)"
| "init_repos env n (Suc k) repo s = do {
     (st, s1) \<leftarrow> init_repo env n repo s;
     if st = ERROR then Some (ERROR, s1) else init_repos env n k (Suc repo) s1 }"

text \<open>The table of SDSs is not checked: a missing one is written through the null pointer.\<close>

definition iInitAsdm :: "'w asdm_env \<Rightarrow> u8 \<Rightarrow> 'w asdm \<Rightarrow> (int \<times> 'w asdm) option" where
  "iInitAsdm env n s =
     (if \<not> (asdm_guarded s \<and> pxAscData s \<noteq> None \<and> pxAsdmSdrInfo s = None) then Some (ERROR, s)
      else let (ok, s1) = asdm_alloc env (MAX_ASDM_SDR_REPO * sizeofSdr env) s;
               (ok', s2) = asdm_alloc env (MAX_ASDM_SDR_REPO * sizeofSds env) s1;
               s3 = s2\<lparr>pxAsdmSdrInfo := (if ok then Some (replicate MAX_ASDM_SDR_REPO zero_sdr) else None),
                       pxAsdmSdsInfo := (if ok' then Some (replicate MAX_ASDM_SDR_REPO zero_sds) else None)\<rparr> in
        if \<not> ok then Some (ERROR, asdm_inc_error ASDM_ERRORS_MALLOC_FAILED s3)
        else init_repos env n MAX_ASDM_SDR_REPO 0 (asdm_inc_stat ASDM_STATS_MALLOC s3))"

section \<open>Initialisation\<close>

text \<open>The two arrays of one sensor list; the first result says that both were allocated.\<close>

definition alloc_list :: "'w asdm_env \<Rightarrow> u8 \<Rightarrow> nat \<Rightarrow> 'w asdm \<Rightarrow> bool \<times> 'w asdm" where
  "alloc_list env n repo s =
     (let raw = map (rawByte env) [0..<unat n];
          (ok, s1) = asdm_alloc env (unat n) s;
          s2 = set_sensor_list repo (\<lambda>l. l\<lparr>pucSensorId := (if ok then Some raw else None)\<rparr>) s1 in
      if \<not> ok then (False, asdm_inc_error ASDM_ERRORS_MALLOC_FAILED s2)
      else let (ok', s3) = asdm_alloc env (unat n) (asdm_inc_stat ASDM_STATS_MALLOC s2);
               s4 = set_sensor_list repo (\<lambda>l. l\<lparr>pucSensorIndex := (if ok' then Some raw else None)\<rparr>) s3 in
        if \<not> ok' then (False, asdm_inc_error ASDM_ERRORS_MALLOC_FAILED s4)
        else (True, asdm_inc_stat ASDM_STATS_MALLOC s4))"

primrec alloc_lists :: "'w asdm_env \<Rightarrow> u8 \<Rightarrow> nat \<Rightarrow> nat \<Rightarrow> 'w asdm \<Rightarrow> bool \<times> 'w asdm" where
  "alloc_lists env n 0 repo s = (True, s)"
| "alloc_lists env n (Suc k) repo s =
     (let (ok, s1) = alloc_list env n repo s in
      if ok then alloc_lists env n k (Suc repo) s1 else (False, s1))"

definition free_one :: "'w asdm_env \<Rightarrow> 'a option \<Rightarrow> 'w asdm \<Rightarrow> 'w asdm" where
  "free_one env p s = (if p = None then s else asdm_inc_stat ASDM_STATS_FREE (asdm_free env s))"

primrec free_lists :: "'w asdm_env \<Rightarrow> nat \<Rightarrow> nat \<Rightarrow> 'w asdm \<Rightarrow> 'w asdm" where
  "free_lists env 0 repo s = s"
| "free_lists env (Suc k) repo s =
     (let l = pxSensorList s ! repo;
          s1 = free_one env (pucSensorId l) s;
          s2 = free_one env (pucSensorIndex l) s1;
          s3 = free_one env (pxAscData s2) s2 in
      free_lists env k (Suc repo) ((set_sensor_list repo
        (\<lambda>l. l\<lparr>pucSensorId := None, pucSensorIndex := None\<rparr>) s3)\<lparr>pxAscData := None\<rparr>))"

text \<open>
  The sensor data: the number of sensors becomes what the ASC proxy reports. A failure to read
  them is counted and the initialisation goes on without sensor lists.
\<close>

definition init_sensors :: "'w asdm_env \<Rightarrow> u8 \<Rightarrow> 'w asdm \<Rightarrow> (int \<times> 'w asdm) option" where
  "init_sensors env n s0 =
     (let (ok, s1) = asdm_alloc env (sizeofSensorData env * unat n) (s0\<lparr>ucAscNumSensors := n\<rparr>) in
      if \<not> ok then Some (ERROR, asdm_inc_error ASDM_ERRORS_MALLOC_FAILED (s1\<lparr>pxAscData := None\<rparr>))
      else let raw = map (rawSensor env) [0..<unat n];
               ((st, datas, n'), s2) = outside (\<lambda>w. case ascGetAll env raw n w of
                 (r, d, m, w') \<Rightarrow> ((r, d, m), w')) (asdm_inc_stat ASDM_STATS_MALLOC s1);
               s3 = s2\<lparr>pxAscData := Some datas\<rparr> in
        if st \<noteq> OK then iInitAsdm env n' (asdm_inc_error ASDM_ERRORS_ASC_GET_SENSORS_FAILED s3)
        else let (ok', s4) = alloc_lists env n' MAX_ASDM_SDR_REPO 0 (s3\<lparr>iSensorListInitialised := True\<rparr>) in
          iInitAsdm env n' (if ok' then s4 else free_lists env MAX_ASDM_SDR_REPO 0 s4))"

definition bind_callback ::
  "('w \<Rightarrow> int \<times> 'w) \<Rightarrow> ASDM_ERRORS \<Rightarrow> int \<times> 'w asdm \<Rightarrow> int \<times> 'w asdm" where
  "bind_callback f e r =
     (let (st, s) = outside f (snd r) in if st = OK then (fst r, s) else (ERROR, asdm_inc_error e s))"

definition iASDM_Initialise :: "'w asdm_env \<Rightarrow> u8 \<Rightarrow> 'w asdm \<Rightarrow> (int \<times> 'w asdm) option" where
  "iASDM_Initialise env n s =
     (if \<not> (asdm_guarded s \<and> \<not> asdmInitialised s) then Some (ERROR, s)
      else let (ok, s1) = outside (asdmMutexCreate env) s in do {
        r \<leftarrow> (if ok then init_sensors env n s1
              else Some (ERROR, asdm_inc_error ASDM_ERRORS_INIT_MUTEX_FAILED s1));
        let (st, s2) = bind_callback (apcBind env) ASDM_ERRORS_INIT_BIND_APC_CB_FAILED
                         (bind_callback (ascBind env) ASDM_ERRORS_INIT_BIND_ASC_CB_FAILED r);
        Some (st, if st = OK
                  then asdm_inc_stat ASDM_STATS_INIT_OVERALL_COMPLETE (s2\<lparr>asdmInitialised := True\<rparr>)
                  else asdm_inc_error ASDM_ERRORS_INIT_OVERALL_FAILED s2) })"

end
