(* ===== verification/AsdmRespond.thy ===== *)
theory AsdmRespond
  imports AsdmInit
begin

text \<open>
  The answers to the requests of the host, asdm.c: each function writes into the buffer of the
  caller and sets the size of the answer. The buffer and the position in it are one value; an
  access past the end of the buffer or of the object copied from is undefined.
\<close>

type_synonym cursor = "u8 list \<times> u16"

definition put8 :: "u8 \<Rightarrow> cursor \<Rightarrow> cursor option" where
  "put8 v c = map_option (\<lambda>b. (b, snd c + 1)) (wr8 (unat (snd c)) v (fst c))"

definition put_bytes :: "u8 list \<Rightarrow> cursor \<Rightarrow> cursor option" where
  "put_bytes vs c = map_option (\<lambda>b. (b, snd c + of_nat (length vs))) (wr_bytes (unat (snd c)) vs (fst c))"

text \<open>A copy of \<open>n\<close> bytes of an object with image \<open>src\<close>.\<close>

definition put_copy :: "u8 list \<Rightarrow> u8 \<Rightarrow> cursor \<Rightarrow> cursor option" where
  "put_copy src n c = rd_bytes src 0 (unat n) \<bind> (\<lambda>vs. put_bytes vs c)"

definition put_header :: "ASDM_SENSOR_HEADER \<Rightarrow> cursor \<Rightarrow> cursor option" where
  "put_header h = put_bytes ([ucRepoType h, ucRepoVersionNum h, ucTotalNumRecords h] @ le16 (usTotalNumBytes h))"

section \<open>Sensor records\<close>

definition record_len :: "ASDM_RECORD_FIELD \<Rightarrow> u8" where
  "record_len f = fldLength f AND ASDM_RECORD_FIELD_LENGTH_MASK"

definition type_len :: "ASDM_RECORD_FIELD \<Rightarrow> u8" where
  "type_len f = record_len f OR push_bit ASDM_RECORD_FIELD_TYPE_POS (fldType f AND ASDM_RECORD_FIELD_TYPE_MASK)"

definition put_field :: "ASDM_RECORD_FIELD \<Rightarrow> cursor \<Rightarrow> cursor option" where
  "put_field f c = put8 (type_len f) c \<bind> put_copy (pucBytesValue f) (record_len f)"

definition put_if :: "ASDM_SDR_RECORD \<Rightarrow> u8 \<Rightarrow> u32 \<Rightarrow> cursor \<Rightarrow> cursor option" where
  "put_if r bt v c =
     (if ucThresholdSupportedBitMask r AND bt \<noteq> 0
      then put_copy (le_bytes v) (record_len (xSensorValue r)) c else Some c)"

definition put_sdr_record :: "ASDM_SDR_RECORD \<Rightarrow> cursor \<Rightarrow> cursor option" where
  "put_sdr_record r c = do {
     c \<leftarrow> put8 (sdrId r) c;
     c \<leftarrow> put_field (xSensorName r) c;
     c \<leftarrow> put_field (xSensorValue r) c;
     c \<leftarrow> put_field (xSensorBaseUnit r) c;
     c \<leftarrow> put8 (cUnitModifier r) c;
     c \<leftarrow> put8 (ucThresholdSupportedBitMask r) c;
     c \<leftarrow> put_if r ASDM_SDR_THRESHOLD_LOWER_FATAL_MASK (ulLowerFatalLimit r) c;
     c \<leftarrow> put_if r ASDM_SDR_THRESHOLD_LOWER_CRITICAL_MASK (ulLowerCritLimit r) c;
     c \<leftarrow> put_if r ASDM_SDR_THRESHOLD_LOWER_WARNING_MASK (ulLowerWarnLimit r) c;
     c \<leftarrow> put_if r ASDM_SDR_THRESHOLD_UPPER_FATAL_MASK (ulUpperFatalLimit r) c;
     c \<leftarrow> put_if r ASDM_SDR_THRESHOLD_UPPER_CRITICAL_MASK (ulUpperCritLimit r) c;
     c \<leftarrow> put_if r ASDM_SDR_THRESHOLD_UPPER_WARNING_MASK (ulUpperWarnLimit r) c;
     put8 (ucSensorStatus r) c }"

definition put_statistics :: "ASDM_SDR_RECORD \<Rightarrow> cursor \<Rightarrow> cursor option" where
  "put_statistics r c =
     put_if r ASDM_SDR_THRESHOLD_SENSOR_AVG_MASK (ulAverageValue r) c \<bind>
     put_if r ASDM_SDR_THRESHOLD_SENSOR_MAX_MASK (ulMaxValue r)"

text \<open>The records of a repository, as many as its header says.\<close>

definition put_records ::
  "(ASDM_SDR_RECORD \<Rightarrow> cursor \<Rightarrow> cursor option) \<Rightarrow> ASDM_SDR \<Rightarrow> cursor \<Rightarrow> cursor option" where
  "put_records put e =
     for_count (\<lambda>i c. sensor_records (sdrData e) \<bind> (\<lambda>recs. recs \<bind> (\<lambda>l. elem_at l i \<bind> (\<lambda>r. put r c))))
       (unat (ucTotalNumRecords (sdrHdr e))) 0"

section \<open>Flash partition table and board information\<close>

definition put_fpt_header :: "ASDM_FPT_HEADER \<Rightarrow> cursor \<Rightarrow> cursor option" where
  "put_fpt_header h = put_bytes [ucFptVersion h, ucFptHeaderSize h, ucFptEntrySize h, ucNumEnteries h]"

definition entry_bytes :: "ASDM_FPT_ENTRY \<Rightarrow> u8 list" where
  "entry_bytes e = le_bytes (ulType e) @ le_bytes (ulBaseAddr e) @ le_bytes (ulPartitionSize e)"

definition put_entries :: "ASDM_FPT_ENTRY list option \<Rightarrow> u8 \<Rightarrow> cursor \<Rightarrow> cursor option" where
  "put_entries es n =
     for_count (\<lambda>i c. es \<bind> (\<lambda>l. elem_at l i \<bind> (\<lambda>e. put_bytes (entry_bytes e) c))) (unat n) 0"

definition put_fpt :: "ASDM_FPT_RECORD \<Rightarrow> cursor \<Rightarrow> cursor option" where
  "put_fpt r c = do {
     c \<leftarrow> put_fpt_header (xFptHdrPrimary r) c;
     c \<leftarrow> put_entries (pxFptEntryPrimary r) (ucNumEnteries (xFptHdrPrimary r)) c;
     c \<leftarrow> put_fpt_header (xFptHdrSecondary r) c;
     put_entries (pxFptEntrySecondary r) (ucNumEnteries (xFptHdrSecondary r)) c }"

definition put_board_field :: "ASDM_RECORD_FIELD \<Rightarrow> cursor \<Rightarrow> cursor option" where
  "put_board_field f c = do {
     c \<leftarrow> put8 (fldType f) c;
     c \<leftarrow> put8 (fldLength f) c;
     put_copy (pucBytesValue f) (fldLength f) c }"

definition put_board :: "ASDM_BOARD_INFO_RECORD \<Rightarrow> cursor \<Rightarrow> cursor option" where
  "put_board b c = fold (\<lambda>f a. a \<bind> put_board_field (b f)) board_fields (Some c)"

text \<open>The buffer is the rest of the caller's buffer; the size starts at zero.\<close>

definition iPopulateAsdmSdrBoardInfoResponse ::
  "u8 \<Rightarrow> u8 list \<Rightarrow> u16 \<Rightarrow> 'w asdm \<Rightarrow> (int \<times> u8 list \<times> u16 \<times> 'w asdm) option" where
  "iPopulateAsdmSdrBoardInfoResponse t buf sz s =
     (let (st, repo, s1) = iMapAsdmRepo t AMC_ASDM_SUPPORTED_REPO_MAX s in
      if st \<noteq> OK then Some (st, buf, sz, s1)
      else do {
        e \<leftarrow> get_sdr repo s1;
        b \<leftarrow> board_info (sdrData e);
        (buf', n) \<leftarrow> put_board b (buf, 0);
        Some (OK, buf', n, s1) })"

section \<open>The answers\<close>

text \<open>The answer \<open>(buf, size)\<close> of a request starts as what the caller passed.\<close>

type_synonym 'w answer = "(int \<times> cursor \<times> 'w asdm) option"

definition empty_sdr :: "cursor \<Rightarrow> 'w asdm \<Rightarrow> 'w answer" where
  "empty_sdr c s = Some (OK, c, asdm_inc_error ASDM_ERRORS_AMI_SENSOR_REQUEST_EMPTY_SDR s)"

definition sdr_body :: "u8 \<Rightarrow> nat \<Rightarrow> ASDM_SDR \<Rightarrow> cursor \<Rightarrow> 'w asdm \<Rightarrow> 'w answer" where
  "sdr_body t repo e c s =
     (if ucNumFound (pxSensorList s ! repo) = 0 then empty_sdr c s
      else if repo \<le> AMC_ASDM_SUPPORTED_REPO_TOTAL_POWER
      then map_option (\<lambda>c'. (OK, c', s)) (put_records (\<lambda>r c. put_sdr_record r c \<bind> put_statistics r) e c)
      else if repo = AMC_ASDM_SUPPORTED_REPO_FPT
      then fpt_record (sdrData e) \<bind> (\<lambda>r. map_option (\<lambda>c'. (OK, c', s)) (put_fpt r c))
      else do {
        (st, rest, n, s') \<leftarrow> iPopulateAsdmSdrBoardInfoResponse t (drop (unat (snd c)) (fst c)) 0 s;
        Some (st, (take (unat (snd c)) (fst c) @ rest, if st = OK then snd c + n else snd c), s') })"

text \<open>
  The end marker and the size follow whatever the status is. \<open>sized\<close> says whether the size is
  stored: version 2 does not.
\<close>

definition sdr_answer ::
  "'w asdm_env \<Rightarrow> (u8 \<Rightarrow> nat \<Rightarrow> ASDM_SDR \<Rightarrow> cursor \<Rightarrow> 'w asdm \<Rightarrow> 'w answer) \<Rightarrow> bool \<Rightarrow> u8 \<Rightarrow> cursor
   \<Rightarrow> 'w asdm \<Rightarrow> 'w answer" where
  "sdr_answer env body sized t a s =
     (if \<not> asdm_guarded s then Some (ERROR, a, s)
      else let (st, repo, s1) = iMapAsdmRepo t AMC_ASDM_SUPPORTED_REPO_MAX
                                  (asdm_inc_stat ASDM_STATS_ASDM_GET_SDR_API s) in
        if st \<noteq> OK then Some (st, a, s1)
        else with_asdm_mutex env (\<lambda>s2. do {
          c \<leftarrow> put8 ASDM_SDR_COMPLETION_CODE_OPERATION_SUCCESS (fst a, 0);
          e \<leftarrow> get_sdr repo s2;
          c \<leftarrow> put_header (sdrHdr e) c;
          (st', c, s3) \<leftarrow> body t repo e c s2;
          c \<leftarrow> put_bytes (sdrEor e) c;
          Some (st', (fst c, if sized then snd c else snd a), s3) }) a s1)"

definition iPopulateAsdmGetSdrResponse :: "'w asdm_env \<Rightarrow> u8 \<Rightarrow> cursor \<Rightarrow> 'w asdm \<Rightarrow> 'w answer" where
  "iPopulateAsdmGetSdrResponse env t = sdr_answer env sdr_body True t"

definition sdr_body_v2 :: "u8 \<Rightarrow> nat \<Rightarrow> ASDM_SDR \<Rightarrow> cursor \<Rightarrow> 'w asdm \<Rightarrow> 'w answer" where
  "sdr_body_v2 t repo e c s =
     (if repo \<le> AMC_ASDM_SUPPORTED_REPO_TOTAL_POWER
      then if ucNumFound (pxSensorList s ! repo) = 0 then empty_sdr c s
           else map_option (\<lambda>c'. (OK, c', s)) (put_records put_sdr_record e c)
      else Some (ERROR, c, asdm_inc_error ASDM_ERRORS_AMI_UNSUPPORTED_REPO s))"

definition iPopulateAsdmGetSdrResponseV2 :: "'w asdm_env \<Rightarrow> u8 \<Rightarrow> cursor \<Rightarrow> 'w asdm \<Rightarrow> 'w answer" where
  "iPopulateAsdmGetSdrResponseV2 env t = sdr_answer env sdr_body_v2 False t"

text \<open>
  The current data of all sensors: completion code, type and payload size, which is stored last
  (at byte 2) and counted in 8 bits. The loop state holds the position and the size.
\<close>

definition put_sensor_data :: "ASDM_SDR_RECORD \<Rightarrow> cursor \<times> u8 \<Rightarrow> (cursor \<times> u8) option" where
  "put_sensor_data r p = (let n = record_len (xSensorValue r) in do {
     c \<leftarrow> put8 n (fst p);
     c \<leftarrow> put_copy (pucBytesValue (xSensorValue r)) n c;
     c \<leftarrow> put_copy (le_bytes (ulMaxValue r)) n c;
     c \<leftarrow> put_copy (le_bytes (ulAverageValue r)) n c;
     c \<leftarrow> put8 (ucSensorStatus r) c;
     Some (c, snd p + ((1 + 3 * n) + 1)) })"

definition put_sds_data :: "ASDM_SDS_RECORD \<Rightarrow> cursor \<times> u8 \<Rightarrow> (cursor \<times> u8) option" where
  "put_sds_data r p = (let n = record_len (sdsSensorValue r) in do {
     c \<leftarrow> put8 (sdsId r) (fst p);
     c \<leftarrow> put8 n c;
     c \<leftarrow> put_copy (pucBytesValue (sdsSensorValue r)) n c;
     c \<leftarrow> put8 (sdsSensorStatus r) c;
     c \<leftarrow> put8 (sdsSensorTag r) c;
     Some (c, snd p + ((1 + n) + 0)) })"

definition put_answer_header :: "nat \<Rightarrow> u8 list \<Rightarrow> cursor option" where
  "put_answer_header repo buf = do {
     b \<leftarrow> wr8 0 ASDM_SDR_COMPLETION_CODE_OPERATION_SUCCESS buf;
     h \<leftarrow> elem_at xAsdmHeaderInfo repo;
     b \<leftarrow> wr8 1 (ucRepoType h) b;
     Some (b, 3) }"

text \<open>The records of a repository whose member of the union they are not are undefined.\<close>

definition sensor_data_answer ::
  "'w asdm_env \<Rightarrow> (nat \<Rightarrow> 'w asdm \<Rightarrow> cursor \<times> u8 \<Rightarrow> (cursor \<times> u8) option) \<Rightarrow> u8 \<Rightarrow> cursor \<Rightarrow> 'w asdm
   \<Rightarrow> 'w answer" where
  "sensor_data_answer env records t a s =
     (if \<not> asdm_guarded s then Some (ERROR, a, s)
      else let (st, repo, s1) = iMapAsdmRepo t AMC_ASDM_SUPPORTED_REPO_MAX
                                  (asdm_inc_stat ASDM_STATS_ASDM_GET_ALL_SENSOR_API s) in
        if st \<noteq> OK then Some (st, a, s1)
        else with_asdm_mutex env (\<lambda>s2. do {
          c \<leftarrow> put_answer_header repo (fst a);
          (c, n) \<leftarrow> records repo s2 (c, 0);
          b \<leftarrow> wr8 2 n (fst c);
          Some (OK, (b, snd c), s2) }) a s1)"

definition all_sensor_records :: "nat \<Rightarrow> 'w asdm \<Rightarrow> cursor \<times> u8 \<Rightarrow> (cursor \<times> u8) option" where
  "all_sensor_records repo s p = do {
     e \<leftarrow> get_sdr repo s;
     for_count (\<lambda>i q. sensor_records (sdrData e) \<bind> (\<lambda>recs. recs \<bind>
         (\<lambda>l. elem_at l i \<bind> (\<lambda>r. put_sensor_data r q))))
       (unat (ucTotalNumRecords (sdrHdr e))) 0 p }"

definition all_sds_records :: "nat \<Rightarrow> 'w asdm \<Rightarrow> cursor \<times> u8 \<Rightarrow> (cursor \<times> u8) option" where
  "all_sds_records repo s p = do {
     f \<leftarrow> get_sds repo s;
     for_count (\<lambda>i q. sdsRecords f \<bind> (\<lambda>l. elem_at l i \<bind> (\<lambda>r. put_sds_data r q)))
       (unat (ucTotalNumRecords (sdsHdr f))) 0 p }"

definition iPopulateAsdmGetAllSensorDataResponse ::
  "'w asdm_env \<Rightarrow> u8 \<Rightarrow> cursor \<Rightarrow> 'w asdm \<Rightarrow> 'w answer" where
  "iPopulateAsdmGetAllSensorDataResponse env = sensor_data_answer env all_sensor_records"

definition iPopulateAsdmGetAllSensorDataResponseV2 ::
  "'w asdm_env \<Rightarrow> u8 \<Rightarrow> cursor \<Rightarrow> 'w asdm \<Rightarrow> 'w answer" where
  "iPopulateAsdmGetAllSensorDataResponseV2 env = sensor_data_answer env all_sds_records"

text \<open>
  The size of an SDR, from the static table of headers. When the type is not known the function
  leaves the mutex taken.
\<close>

definition iPopulateAsdmGetSizeResponse :: "'w asdm_env \<Rightarrow> u8 \<Rightarrow> cursor \<Rightarrow> 'w asdm \<Rightarrow> 'w answer" where
  "iPopulateAsdmGetSizeResponse env t a s =
     (if \<not> asdm_guarded s then Some (ERROR, a, s)
      else let (taken, s1) = outside (asdmMutexTake env) s in
        if \<not> taken then Some (ERROR, a, asdm_inc_error ASDM_ERRORS_MUTEX_TAKE_FAILED s1)
        else let (st, repo, s2) = iMapAsdmRepo t AMC_ASDM_SUPPORTED_REPO_MAX
                                    (asdm_inc_stat ASDM_STATS_TAKE_MUTEX s1) in
          if st \<noteq> OK then Some (st, a, s2)
          else do {
            b \<leftarrow> wr8 0 ASDM_SDR_COMPLETION_CODE_OPERATION_SUCCESS (fst a);
            h \<leftarrow> elem_at xAsdmHeaderInfo repo;
            b \<leftarrow> wr8 1 (ucRepoType h) b;
            b \<leftarrow> wr_bytes 2 (le16 (5 + usTotalNumBytes h + 3)) b;
            let (released, s3) = outside (asdmMutexRelease env) s2;
            Some (if released then (OK, (b, 4), asdm_inc_stat ASDM_STATS_RELEASE_MUTEX s3)
                  else (ERROR, (b, 4), asdm_inc_error ASDM_ERRORS_MUTEX_RELEASE_FAILED s3)) })"

text \<open>
  One sensor: the length of its name is used as that of its value, and the index is not
  checked.
\<close>

definition single_sensor :: "nat \<Rightarrow> u8 \<Rightarrow> u8 list \<Rightarrow> 'w asdm \<Rightarrow> cursor option" where
  "single_sensor repo sid buf s = do {
     c \<leftarrow> put_answer_header repo buf;
     e \<leftarrow> get_sdr repo s;
     recs \<leftarrow> sensor_records (sdrData e);
     l \<leftarrow> recs;
     r \<leftarrow> elem_at l (unat sid);
     let n = record_len (xSensorName r);
     c \<leftarrow> put8 1 c;
     c \<leftarrow> put_copy (pucBytesValue (xSensorValue r)) n c;
     c \<leftarrow> put_copy (le_bytes (ulMaxValue r)) n c;
     c \<leftarrow> put_copy (le_bytes (ulAverageValue r)) n c;
     c \<leftarrow> put8 (ucSensorStatus r) c;
     b \<leftarrow> wr8 2 ((1 + 3 * n) + 1) (fst c);
     Some (b, snd c) }"

definition iPopulateAsdmGetSingleSensorResponse ::
  "'w asdm_env \<Rightarrow> u8 \<Rightarrow> u8 \<Rightarrow> cursor \<Rightarrow> 'w asdm \<Rightarrow> 'w answer" where
  "iPopulateAsdmGetSingleSensorResponse env t sid a s =
     (if \<not> asdm_guarded s then Some (ERROR, a, s)
      else let (st, repo, s1) = iMapAsdmRepo t AMC_ASDM_SUPPORTED_REPO_MAX
                                  (asdm_inc_stat ASDM_STATS_ASDM_GET_SINGLE_SENSOR_API s) in
        if st \<noteq> OK then Some (st, a, s1)
        else with_asdm_mutex env (\<lambda>s2. map_option (\<lambda>c. (OK, c, s2)) (single_sensor repo sid (fst a) s2)) a s1)"

text \<open>\<open>NULL\<close> for the buffer or for the size is \<^term>\<open>None\<close>.\<close>

definition iASDM_PopulateResponse ::
  "'w asdm_env \<Rightarrow> ASDM_API_ID_TYPE \<Rightarrow> u8 \<Rightarrow> u8 \<Rightarrow> u8 list option \<Rightarrow> u16 option \<Rightarrow> 'w asdm
   \<Rightarrow> (int \<times> u8 list option \<times> u16 option \<times> 'w asdm) option" where
  "iASDM_PopulateResponse env api t sid buf sz s =
     (case (buf, sz) of
        (Some b, Some n) \<Rightarrow>
          if asdm_guarded s \<and> asdmInitialised s
          then map_option (\<lambda>(st, c, s'). (st, Some (fst c), Some (snd c), s'))
            (case api of
               ASDM_API_ID_TYPE_GET_SDR_SIZE \<Rightarrow> iPopulateAsdmGetSizeResponse env t (b, n) s
             | ASDM_API_ID_TYPE_GET_SDR \<Rightarrow> iPopulateAsdmGetSdrResponse env t (b, n) s
             | ASDM_API_ID_TYPE_GET_SINGLE_SENSOR_DATA \<Rightarrow>
                 iPopulateAsdmGetSingleSensorResponse env t sid (b, n) s
             | ASDM_API_ID_TYPE_GET_ALL_SENSOR_DATA \<Rightarrow>
                 iPopulateAsdmGetAllSensorDataResponse env t (b, n) s
             | ASDM_API_ID_TYPE_GET_SDR_V2 \<Rightarrow> iPopulateAsdmGetSdrResponseV2 env t (b, n) s
             | ASDM_API_ID_TYPE_GET_ALL_SENSOR_DATA_V2 \<Rightarrow>
                 iPopulateAsdmGetAllSensorDataResponseV2 env t (b, n) s
             | _ \<Rightarrow> Some (ERROR, (b, n), s))
          else Some (ERROR, buf, sz, s)
      | _ \<Rightarrow> Some (ERROR, buf, sz, s))"

end
