(* ===== verification/AsdmEvents.thy ===== *)
theory AsdmEvents
  imports AsdmRespond Evl
begin

text \<open>
  Keeping the repositories up to date, asdm.c: the events of the ASC proxy copy the readings of
  the sensors and compute the total power, those of the APC proxy rebuild the flash partition
  table; and the statistics.
\<close>

section \<open>Readings\<close>

text \<open>One sensor: the values of the SDR and of the SDS. A null array is written through.\<close>

definition updated_sdr :: "ASC_READINGS \<Rightarrow> ASDM_SDR_RECORD \<Rightarrow> ASDM_SDR_RECORD" where
  "updated_sdr rd r = r\<lparr>xSensorValue := set_fieldValue (ulSensorValue rd) (xSensorValue r),
     ulAverageValue := ulAverageSensorValue rd, ulMaxValue := ulMaxSensorValue rd,
     ucSensorStatus := xSensorStatus rd\<rparr>"

definition updated_sds :: "ASC_READINGS \<Rightarrow> ASDM_SDS_RECORD \<Rightarrow> ASDM_SDS_RECORD" where
  "updated_sds rd r = r\<lparr>sdsSensorValue := set_fieldValue (ulSensorValue rd) (sdsSensorValue r),
     sdsSensorStatus := xSensorStatus rd\<rparr>"

definition update_sensor :: "'w asdm_env \<Rightarrow> nat \<Rightarrow> nat \<Rightarrow> 'w asdm \<Rightarrow> 'w asdm option" where
  "update_sensor env repo i s = do {
     e \<leftarrow> get_sdr repo s;
     f \<leftarrow> get_sds repo s;
     idx \<leftarrow> pucSensorIndex (pxSensorList s ! repo);
     k \<leftarrow> rd8 idx i;
     datas \<leftarrow> pxAscData s;
     d \<leftarrow> elem_at datas (unat k);
     let rd = reading env d repo;
     recs \<leftarrow> sensor_records (sdrData e);
     l \<leftarrow> recs;
     r \<leftarrow> elem_at l i;
     l' \<leftarrow> sdsRecords f;
     q \<leftarrow> elem_at l' i;
     s1 \<leftarrow> upd_sdr repo (\<lambda>e. e\<lparr>sdrData := SensorRecords (Some (l[i := updated_sdr rd r]))\<rparr>) s;
     upd_sds repo (\<lambda>f. f\<lparr>sdsRecords := Some (l'[i := updated_sds rd q])\<rparr>) s1 }"

definition update_repo :: "'w asdm_env \<Rightarrow> nat \<Rightarrow> 'w asdm \<Rightarrow> 'w asdm option" where
  "update_repo env repo s =
     for_count (update_sensor env repo) (unat (ucNumFound (pxSensorList s ! repo))) 0 s"

section \<open>Total power\<close>

text \<open>
  The sum over the sensors of the power repository that count; the first result is the status,
  an error when the records are missing.
\<close>

primrec sum_power :: "nat \<Rightarrow> nat \<Rightarrow> u32 \<Rightarrow> 'w asdm \<Rightarrow> (int \<times> u32 \<times> 'w asdm) option" where
  "sum_power 0 i tot s = Some (OK, tot, s)"
| "sum_power (Suc n) i tot s = do {
     e \<leftarrow> get_sdr AMC_ASDM_SUPPORTED_REPO_POWER s;
     recs \<leftarrow> sensor_records (sdrData e);
     case recs of
       None \<Rightarrow> Some (ERROR, tot, asdm_inc_error ASDM_ERRORS_ASDM_GET_SDR_FAILED s)
     | Some l \<Rightarrow> do {
         idx \<leftarrow> pucSensorIndex (pxSensorList s ! AMC_ASDM_SUPPORTED_REPO_POWER);
         k \<leftarrow> rd8 idx i;
         datas \<leftarrow> pxAscData s;
         d \<leftarrow> elem_at datas (unat k);
         if ucTotalPowerSensor d = 1
         then do { r \<leftarrow> elem_at l i; sum_power n (Suc i) (tot + fieldValue (xSensorValue r)) s }
         else sum_power n (Suc i) tot s } }"

text \<open>
  Maximum and running average. The number of iterations is a 32-bit number; when it returns to
  zero the average divides by it.
\<close>

definition power_statistics :: "u32 \<Rightarrow> 'w asdm \<Rightarrow> 'w asdm option" where
  "power_statistics tot s =
     (let n = ulPowerCalcIterations s + 1 in
      if n = 0 then None
      else Some (s\<lparr>ulPowerCalcIterations := n,
        ulMaxPower := (if ulMaxPower s < tot then tot else ulMaxPower s),
        ulAveragePower := ulAveragePower s - ulAveragePower s div n + tot div n\<rparr>))"

definition total_power_record :: "u32 \<Rightarrow> 'w asdm \<Rightarrow> ASDM_SDR_RECORD \<Rightarrow> ASDM_SDR_RECORD" where
  "total_power_record tot s r = r\<lparr>ulAverageValue := ulAveragePower s, ulMaxValue := ulMaxPower s,
     xSensorValue := set_fieldValue tot (xSensorValue r)\<rparr>"

definition iCalculateTotalPower :: "'w asdm \<Rightarrow> (int \<times> 'w asdm) option" where
  "iCalculateTotalPower s =
     (if \<not> (asdm_guarded s \<and> pxAscData s \<noteq> None \<and> pxAsdmSdrInfo s \<noteq> None) then Some (ERROR, s)
      else do {
        (st, tot, s1) \<leftarrow> sum_power
          (unat (ucNumFound (pxSensorList s ! AMC_ASDM_SUPPORTED_REPO_POWER))) 0 0 s;
        if st \<noteq> OK then Some (st, s1)
        else do {
          s2 \<leftarrow> power_statistics tot s1;
          e \<leftarrow> get_sdr AMC_ASDM_SUPPORTED_REPO_TOTAL_POWER s2;
          recs \<leftarrow> sensor_records (sdrData e);
          case recs of
            None \<Rightarrow> Some (ERROR, asdm_inc_error ASDM_ERRORS_ASDM_GET_SDR_FAILED s2)
          | Some l \<Rightarrow> do {
              r \<leftarrow> elem_at l 0;
              map_option (Pair OK) (upd_sdr AMC_ASDM_SUPPORTED_REPO_TOTAL_POWER
                (\<lambda>e. e\<lparr>sdrData := SensorRecords (Some (l[0 := total_power_record tot s2 r]))\<rparr>) s2) } } })"

definition iUpdateAsdmValues :: "'w asdm_env \<Rightarrow> 'w asdm \<Rightarrow> (int \<times> 'w asdm) option" where
  "iUpdateAsdmValues env s =
     (if \<not> (asdm_guarded s \<and> pxAscData s \<noteq> None \<and> pxAsdmSdrInfo s \<noteq> None) then Some (ERROR, s)
      else map_option (\<lambda>(st, _, s'). (st, s')) (with_asdm_mutex env (\<lambda>s1. do {
        s2 \<leftarrow> for_count (update_repo env) AMC_ASDM_SUPPORTED_REPO_TOTAL_POWER 0 s1;
        (st, s3) \<leftarrow> iCalculateTotalPower s2;
        Some (st, (), if st = ERROR then asdm_inc_error ASDM_ERRORS_TOTAL_POWER_FAILED s3 else s3) })
        () s))"

section \<open>Rebuilding the flash partition table\<close>

text \<open>The byte count is overwritten: the header and the end marker are not counted.\<close>

definition iUpdateAsdmFpt :: "'w asdm_env \<Rightarrow> 'w asdm \<Rightarrow> (int \<times> 'w asdm) option" where
  "iUpdateAsdmFpt env s =
     (if \<not> asdm_guarded s then Some (ERROR, s)
      else do {
        e \<leftarrow> get_sdr AMC_ASDM_SUPPORTED_REPO_FPT s;
        r \<leftarrow> fpt_record (sdrData e);
        s1 \<leftarrow> set_fpt (r\<lparr>pxFptEntryPrimary := None, pxFptEntrySecondary := None\<rparr>)
          (free_one env (pxFptEntrySecondary r) (free_one env (pxFptEntryPrimary r) s));
        (st, n, s2) \<leftarrow> iPopulateAsdmFpt env ASDM_HEADER_DEFAULT_BYTES s1;
        if st \<noteq> OK then Some (ERROR, s2)
        else map_option (Pair OK) (upd_sdr AMC_ASDM_SUPPORTED_REPO_FPT
          (\<lambda>e. e\<lparr>sdrHdr := (sdrHdr e)\<lparr>usTotalNumBytes := in_multiples n\<rparr>\<rparr>) s2) })"

definition iRefreshFptData :: "'w asdm_env \<Rightarrow> 'w asdm \<Rightarrow> (int \<times> 'w asdm) option" where
  "iRefreshFptData env s =
     (if \<not> asdm_guarded s then Some (ERROR, s)
      else map_option (\<lambda>(st, _, s'). (st, s')) (with_asdm_mutex env (\<lambda>s1.
        let s2 = free_one env (ppxFptPartitions s1 ! 1) (free_one env (ppxFptPartitions s1 ! 0) s1);
            (st, s3) = iGetFptData env (s2\<lparr>pxFptHeader := replicate 2 zero_apc_header,
                                            ppxFptPartitions := [None, None]\<rparr>) in
        if st \<noteq> OK then Some (st, (), s3)
        else map_option (\<lambda>(st', s'). (st', (), s')) (iUpdateAsdmFpt env s3)) () s))"

section \<open>Events\<close>

definition AMC_CFG_UNIQUE_ID_APC :: u8 where "AMC_CFG_UNIQUE_ID_APC = 1"
definition AMC_CFG_UNIQUE_ID_ASC :: u8 where "AMC_CFG_UNIQUE_ID_ASC = 2"
definition ASC_PROXY_DRIVER_E_SENSOR_UPDATE_COMPLETE :: u8 where
  "ASC_PROXY_DRIVER_E_SENSOR_UPDATE_COMPLETE = 0"
definition ASC_PROXY_DRIVER_E_SENSOR_LOWER_FATAL :: u8 where
  "ASC_PROXY_DRIVER_E_SENSOR_LOWER_FATAL = 8"
definition ASC_PROXY_DRIVER_E_SENSOR_UPPER_FATAL :: u8 where
  "ASC_PROXY_DRIVER_E_SENSOR_UPPER_FATAL = 11"
definition APC_PROXY_DRIVER_E_FPT_UPDATE :: u8 where "APC_PROXY_DRIVER_E_FPT_UPDATE = 4"

text \<open>
  The data of a sensor above an upper limit is read into the first element of the array,
  whatever the sensor is.
\<close>

definition iAscCallback :: "'w asdm_env \<Rightarrow> EVL_SIGNAL option \<Rightarrow> 'w asdm \<Rightarrow> (int \<times> 'w asdm) option" where
  "iAscCallback env sig s =
     (case (sig, pxAscData s) of
        (Some g, Some datas) \<Rightarrow>
          if ucModule g \<noteq> AMC_CFG_UNIQUE_ID_ASC then Some (ERROR, s)
          else if ucEventType g = ASC_PROXY_DRIVER_E_SENSOR_UPDATE_COMPLETE
          then let ((st, datas', _), s1) = outside (\<lambda>w. case ascGetAll env datas (ucAscNumSensors s) w of
                 (r, d, m, w') \<Rightarrow> ((r, d, m), w')) s;
                   s2 = s1\<lparr>pxAscData := Some datas'\<rparr> in
            if st = OK
            then iUpdateAsdmValues env (asdm_inc_stat ASDM_STATS_ASC_SENSOR_UPDATE_EVENT s2)
            else Some (st, asdm_inc_error ASDM_ERRORS_ASC_GET_SENSORS_FAILED s2)
          else if ucEventType g \<le> ASC_PROXY_DRIVER_E_SENSOR_LOWER_FATAL
          then Some (OK, asdm_inc_stat ASDM_STATS_ASC_SENSOR_OTHER_EVENT s)
          else if ucEventType g \<le> ASC_PROXY_DRIVER_E_SENSOR_UPPER_FATAL
          then do {
            d \<leftarrow> elem_at datas 0;
            let ((st, d'), s1) = outside (\<lambda>w. case ascGetById env (ucInstance g) d w of
                  (r, x, w') \<Rightarrow> ((r, x), w')) s;
            let s2 = s1\<lparr>pxAscData := Some (datas[0 := d'])\<rparr>;
            Some (st, if st = OK then s2
                      else asdm_inc_error ASDM_ERRORS_ASC_GET_SINGLE_SENSOR_FAILED s2) }
          else Some (ERROR, s)
      | _ \<Rightarrow> Some (ERROR, s))"

definition iApcCallback :: "'w asdm_env \<Rightarrow> EVL_SIGNAL option \<Rightarrow> 'w asdm \<Rightarrow> (int \<times> 'w asdm) option" where
  "iApcCallback env sig s =
     (case sig of None \<Rightarrow> Some (ERROR, s) | Some g \<Rightarrow>
        if ucModule g \<noteq> AMC_CFG_UNIQUE_ID_APC then Some (ERROR, s)
        else if ucEventType g = APC_PROXY_DRIVER_E_FPT_UPDATE
        then do {
          (st, s1) \<leftarrow> iRefreshFptData env (asdm_inc_stat ASDM_STATS_APC_FPT_UPDATE_EVENT s);
          Some (if st = OK then (OK, s1)
                else (ERROR, asdm_inc_error ASDM_ERRORS_APC_FPT_UPDATE_FAILED s1)) }
        else Some (OK, asdm_inc_stat ASDM_STATS_AMI_UNSUPPORTED_REQUEST s))"

section \<open>Statistics\<close>

text \<open>What is printed: the values of all counters, in the order of the enumerations.\<close>

definition asdm_stats_list :: "ASDM_STATS list" where
  "asdm_stats_list =
    [ASDM_STATS_INIT_OVERALL_COMPLETE, ASDM_STATS_ASC_SENSOR_UPDATE_EVENT,
     ASDM_STATS_ASC_SENSOR_OTHER_EVENT, ASDM_STATS_AMI_SENSOR_REQUEST,
     ASDM_STATS_AMI_UNSUPPORTED_REQUEST, ASDM_STATS_ASDM_GET_SDR_API,
     ASDM_STATS_ASDM_GET_ALL_SENSOR_API, ASDM_STATS_ASDM_GET_SDR_SIZE_API,
     ASDM_STATS_ASDM_GET_SINGLE_SENSOR_API, ASDM_STATS_ASDM_POPULATE_SDR_SUCCESS,
     ASDM_STATS_TAKE_MUTEX, ASDM_STATS_RELEASE_MUTEX, ASDM_STATS_MALLOC, ASDM_STATS_FREE,
     ASDM_STATS_GET_FPT_HEADER, ASDM_STATS_GET_FPT_PARTITION, ASDM_STATS_APC_FPT_UPDATE_EVENT]"

definition asdm_errors_list :: "ASDM_ERRORS list" where
  "asdm_errors_list =
    [ASDM_ERRORS_INIT_MUTEX_FAILED, ASDM_ERRORS_INIT_BIND_ASC_CB_FAILED,
     ASDM_ERRORS_INIT_BIND_APC_CB_FAILED, ASDM_ERRORS_INIT_OVERALL_FAILED,
     ASDM_ERRORS_ASC_GET_SENSORS_FAILED, ASDM_ERRORS_ASC_GET_SINGLE_SENSOR_FAILED,
     ASDM_ERRORS_AMI_SENSOR_REQUEST_EMPTY_SDR, ASDM_ERRORS_AMI_SENSOR_REQUEST_UNKNOWN_API,
     ASDM_ERRORS_AMI_SENSOR_REQUEST_FAILED, ASDM_ERRORS_AMI_UNSUPPORTED_REPO,
     ASDM_ERRORS_MUTEX_RELEASE_FAILED, ASDM_ERRORS_MUTEX_TAKE_FAILED, ASDM_ERRORS_MALLOC_FAILED,
     ASDM_ERRORS_ASC_BITFIELD_MAPPING, ASDM_ERRORS_ASDM_REPO_MAPPING,
     ASDM_ERRORS_ASDM_UNIT_MODIFIER_MAPPING, ASDM_ERRORS_ASDM_SENSOR_NAME_LENGTH,
     ASDM_ERRORS_ASDM_POPULATE_SDR_FAILED, ASDM_ERRORS_ASDM_POPULATE_SDS_FAILED,
     ASDM_ERRORS_ASDM_GET_SDR_FAILED, ASDM_ERRORS_TOTAL_POWER_FAILED,
     ASDM_ERRORS_APC_PARTITION_HEADER, ASDM_ERRORS_APC_PARTITION_INFO,
     ASDM_ERRORS_ASDM_POPULATE_BDINFO_FAILED, ASDM_ERRORS_APC_FPT_UPDATE_FAILED,
     ASDM_ERRORS_SENSOR_TAG_MAPPING]"

definition iASDM_PrintStatistics :: "'w asdm \<Rightarrow> int \<times> u32 list \<times> u32 list" where
  "iASDM_PrintStatistics s =
     (if asdm_guarded s then (OK, map (asdmStats s) asdm_stats_list, map (asdmErrors s) asdm_errors_list)
      else (ERROR, [], []))"

definition iASDM_ClearStatistics :: "'w asdm \<Rightarrow> int \<times> 'w asdm" where
  "iASDM_ClearStatistics s =
     (if asdm_guarded s then (OK, s\<lparr>asdmStats := (\<lambda>_. 0), asdmErrors := (\<lambda>_. 0)\<rparr>) else (ERROR, s))"

end
