(* ===== verification/HostSensor.thy ===== *)
theory HostSensor
  imports Bytes
begin

text \<open>
  The sensors on the host: the part of the kernel driver that reads the repositories of the
  firmware and keeps a copy of them, src/sw/AMI/driver/ami_sensor.c, with the structures of
  ami_amc_control.h. A pointer into the response is an index; an access past the end of the
  response or of a field of a structure is undefined. Memory, the time and the command queue
  (\<open>submit_gcq_command\<close>) are parameters; \<open>'h\<close> is the rest of the world.
\<close>

section \<open>Structures\<close>

definition SDR_VALUE_MAX_LEN :: nat where "SDR_VALUE_MAX_LEN = 64"
definition SDR_THRESHOLD_MAX_LEN :: nat where "SDR_THRESHOLD_MAX_LEN = 4"
definition SDR_LENGTH_MASK :: u8 where "SDR_LENGTH_MASK = 0x3F"
definition SDR_TYPE_POS :: nat where "SDR_TYPE_POS = 6"
definition SDR_EOR :: "u8 list" where "SDR_EOR = [0x45, 0x4E, 0x44]"
definition SDR_CODE_OP_SUCCESS :: u8 where "SDR_CODE_OP_SUCCESS = 1"

abbreviation (input) EIO :: int where "EIO \<equiv> 5"
abbreviation (input) ENOMEM :: int where "ENOMEM \<equiv> 12"
abbreviation (input) EINVAL :: int where "EINVAL \<equiv> 22"
abbreviation (input) ENODATA :: int where "ENODATA \<equiv> 61"
abbreviation (input) EILSEQ :: int where "EILSEQ \<equiv> 84"

definition SDR_TYPE_BDINFO :: u8 where [simp]: "SDR_TYPE_BDINFO = 0xC0"
definition SDR_TYPE_TEMP :: u8 where [simp]: "SDR_TYPE_TEMP = 0xC1"
definition SDR_TYPE_VOLTAGE :: u8 where [simp]: "SDR_TYPE_VOLTAGE = 0xC2"
definition SDR_TYPE_CURRENT :: u8 where [simp]: "SDR_TYPE_CURRENT = 0xC3"
definition SDR_TYPE_POWER :: u8 where [simp]: "SDR_TYPE_POWER = 0xC4"
definition SDR_TYPE_TOTAL_POWER :: u8 where [simp]: "SDR_TYPE_TOTAL_POWER = 0xC6"
definition SDR_TYPE_FPT :: u8 where [simp]: "SDR_TYPE_FPT = 0xF0"

record sdr_record =
  rec_id :: u8
  name_type :: u8
  name_len :: u8
  rec_name :: "u8 list"
  value_type :: u8
  value_len :: u8
  rec_value :: "u8 list"
  unit_type :: u8
  unit_len :: u8
  rec_unit :: "u8 list"
  unit_mod :: u8
  threshold_support :: u8
  lower_fatal_limit :: "u8 list"
  lower_crit_limit :: "u8 list"
  lower_warn_limit :: "u8 list"
  upper_warn_limit :: "u8 list"
  upper_crit_limit :: "u8 list"
  upper_fatal_limit :: "u8 list"
  sensor_status :: u8
  rec_min :: "u8 list"
  rec_max :: "u8 list"
  rec_avg :: "u8 list"

definition zero_value :: "u8 list" where "zero_value = replicate SDR_VALUE_MAX_LEN 0"
definition zero_limit :: "u8 list" where "zero_limit = replicate SDR_THRESHOLD_MAX_LEN 0"

definition zero_rec :: sdr_record where
  "zero_rec = \<lparr>rec_id = 0, name_type = 0, name_len = 0, rec_name = zero_value, value_type = 0,
     value_len = 0, rec_value = zero_value, unit_type = 0, unit_len = 0, rec_unit = zero_value,
     unit_mod = 0, threshold_support = 0, lower_fatal_limit = zero_limit,
     lower_crit_limit = zero_limit, lower_warn_limit = zero_limit, upper_warn_limit = zero_limit,
     upper_crit_limit = zero_limit, upper_fatal_limit = zero_limit, sensor_status = 0,
     rec_min = zero_limit, rec_max = zero_limit, rec_avg = zero_limit\<rparr>"

record fpt_hdr =
  fpt_version :: u8
  fpt_header_size :: u8
  fpt_entry_size :: u8
  num_entries :: u8

record fpt_partition =
  part_type :: u32
  base_addr :: u32
  partition_size :: u32

record fpt_rec =
  hdr_primary :: fpt_hdr
  partition_primary :: "fpt_partition list option"
  hdr_secondary :: fpt_hdr
  partition_secondary :: "fpt_partition list option"

record field_info =
  field_type :: u8
  field_len :: u8
  field_bytes :: "u8 list"

definition zero_info :: field_info where
  "zero_info = \<lparr>field_type = 0, field_len = 0, field_bytes = zero_value\<rparr>"

definition zero_fpt :: fpt_rec where
  "zero_fpt = (let h = \<lparr>fpt_version = 0, fpt_header_size = 0, fpt_entry_size = 0, num_entries = 0\<rparr>
     in \<lparr>hdr_primary = h, partition_primary = None, hdr_secondary = h, partition_secondary = None\<rparr>)"

datatype bd_field =
    eeprom_version | product_name | board_rev | board_serial | mac_addr_count | first_mac_addr
  | active_state | config_mode | manufacturing_date | part_number | uuid | pcie_id | power_mode
  | memory_size | oem_id | capability | mfg_part_number

definition bd_fields :: "bd_field list" where
  "bd_fields = [eeprom_version, product_name, board_rev, board_serial, mac_addr_count,
     first_mac_addr, active_state, config_mode, manufacturing_date, part_number, uuid, pcie_id,
     power_mode, memory_size, oem_id, capability, mfg_part_number]"

type_synonym bd_info_record = "bd_field \<Rightarrow> field_info"

text \<open>The union of a repository: the member stored last; \<open>Records None\<close> is zero memory.\<close>

datatype repo_data = Records "sdr_record list option" | Fpt fpt_rec | BdInfo "bd_info_record option"

fun records_of :: "repo_data \<Rightarrow> sdr_record list option option" where
  "records_of (Records r) = Some r"
| "records_of _ = None"

fun fpt_of :: "repo_data \<Rightarrow> fpt_rec option" where
  "fpt_of (Fpt r) = Some r"
| "fpt_of (Records None) = Some zero_fpt"
| "fpt_of _ = None"

fun bd_info_of :: "repo_data \<Rightarrow> bd_info_record option option" where
  "bd_info_of (BdInfo b) = Some b"
| "bd_info_of (Records None) = Some None"
| "bd_info_of _ = None"

record sdr_repo =
  repo_type :: u8
  repo_ver :: u8
  num_records :: u8
  repo_size :: u16
  last_update :: u64
  repo_data :: repo_data

definition zero_repo :: sdr_repo where
  "zero_repo = \<lparr>repo_type = 0, repo_ver = 0, num_records = 0, repo_size = 0, last_update = 0,
     repo_data = Records None\<rparr>"

section \<open>Reading the response\<close>

text \<open>The response and the index of the next byte.\<close>

type_synonym 'a reader = "u8 list \<Rightarrow> nat \<Rightarrow> ('a \<times> nat) option"

definition read_u8 :: "u8 reader" where
  "read_u8 b i = map_option (\<lambda>v. (v, i + 1)) (rd8 b i)"

text \<open>\<open>memcpy\<close> of \<open>n\<close> bytes of the response over an array.\<close>

definition copy_in :: "u8 list \<Rightarrow> nat \<Rightarrow> u8 list reader" where
  "copy_in arr n b i = do {
     vs \<leftarrow> rd_bytes b i n;
     a \<leftarrow> wr_bytes 0 vs arr;
     Some (a, i + n) }"

text \<open>Type, length and bytes of a field of a sensor record.\<close>

definition read_tl_field :: "u8 list \<Rightarrow> (u8 \<times> u8 \<times> u8 list) reader" where
  "read_tl_field arr b i = do {
     (tl, i) \<leftarrow> read_u8 b i;
     (a, i) \<leftarrow> copy_in arr (unat (tl AND SDR_LENGTH_MASK)) b i;
     Some ((drop_bit SDR_TYPE_POS tl, tl AND SDR_LENGTH_MASK, a), i) }"

text \<open>A limit, when its bit is set, has the length of the value.\<close>

definition read_if :: "sdr_record \<Rightarrow> u8 \<Rightarrow> u8 list \<Rightarrow> u8 list reader" where
  "read_if r bt arr b i =
     (if threshold_support r AND bt \<noteq> 0 then copy_in arr (unat (value_len r)) b i else Some (arr, i))"

definition parse_record :: "sdr_record \<Rightarrow> sdr_record reader" where
  "parse_record r b i = do {
     (v, i) \<leftarrow> read_u8 b i;
     let r = r\<lparr>rec_id := v\<rparr>;
     ((t, n, a), i) \<leftarrow> read_tl_field (rec_name r) b i;
     let r = r\<lparr>name_type := t, name_len := n, rec_name := a\<rparr>;
     ((t, n, a), i) \<leftarrow> read_tl_field (rec_value r) b i;
     let r = r\<lparr>value_type := t, value_len := n, rec_value := a\<rparr>;
     ((t, n, a), i) \<leftarrow> read_tl_field (rec_unit r) b i;
     let r = r\<lparr>unit_type := t, unit_len := n, rec_unit := a\<rparr>;
     (v, i) \<leftarrow> read_u8 b i;
     let r = r\<lparr>unit_mod := v\<rparr>;
     (v, i) \<leftarrow> read_u8 b i;
     let r = r\<lparr>threshold_support := v\<rparr>;
     (a, i) \<leftarrow> read_if r 0x20 (lower_fatal_limit r) b i;
     let r = r\<lparr>lower_fatal_limit := a\<rparr>;
     (a, i) \<leftarrow> read_if r 0x10 (lower_crit_limit r) b i;
     let r = r\<lparr>lower_crit_limit := a\<rparr>;
     (a, i) \<leftarrow> read_if r 0x08 (lower_warn_limit r) b i;
     let r = r\<lparr>lower_warn_limit := a\<rparr>;
     (a, i) \<leftarrow> read_if r 0x04 (upper_fatal_limit r) b i;
     let r = r\<lparr>upper_fatal_limit := a\<rparr>;
     (a, i) \<leftarrow> read_if r 0x02 (upper_crit_limit r) b i;
     let r = r\<lparr>upper_crit_limit := a\<rparr>;
     (a, i) \<leftarrow> read_if r 0x01 (upper_warn_limit r) b i;
     let r = r\<lparr>upper_warn_limit := a\<rparr>;
     (v, i) \<leftarrow> read_u8 b i;
     let r = r\<lparr>sensor_status := v\<rparr>;
     (a, i) \<leftarrow> read_if r 0x40 (rec_avg r) b i;
     let r = r\<lparr>rec_avg := a\<rparr>;
     (a, i) \<leftarrow> read_if r 0x80 (rec_max r) b i;
     Some (r\<lparr>rec_max := a\<rparr>, i) }"

text \<open>\<open>n\<close> elements, one after the other.\<close>

primrec read_list :: "'a reader \<Rightarrow> nat \<Rightarrow> 'a list reader" where
  "read_list f 0 b i = Some ([], i)"
| "read_list f (Suc n) b i = do {
     (x, i) \<leftarrow> f b i;
     (xs, i) \<leftarrow> read_list f n b i;
     Some (x # xs, i) }"

definition read_u32 :: "u32 reader" where
  "read_u32 b i = map_option (\<lambda>v. (v, i + 4)) (rd32 b i)"

definition parse_partition :: "fpt_partition reader" where
  "parse_partition b i = do {
     (t, i) \<leftarrow> read_u32 b i;
     (a, i) \<leftarrow> read_u32 b i;
     (n, i) \<leftarrow> read_u32 b i;
     Some (\<lparr>part_type = t, base_addr = a, partition_size = n\<rparr>, i) }"

definition parse_fpt_hdr :: "fpt_hdr reader" where
  "parse_fpt_hdr b i = do {
     (v, i) \<leftarrow> read_u8 b i;
     (h, i) \<leftarrow> read_u8 b i;
     (e, i) \<leftarrow> read_u8 b i;
     (n, i) \<leftarrow> read_u8 b i;
     Some (\<lparr>fpt_version = v, fpt_header_size = h, fpt_entry_size = e, num_entries = n\<rparr>, i) }"

definition parse_field :: "field_info \<Rightarrow> field_info reader" where
  "parse_field f b i = do {
     (t, i) \<leftarrow> read_u8 b i;
     (n, i) \<leftarrow> read_u8 b i;
     (a, i) \<leftarrow> copy_in (field_bytes f) (unat n) b i;
     Some (\<lparr>field_type = t, field_len = n, field_bytes = a\<rparr>, i) }"

text \<open>A power mode of length zero gets the default value.\<close>

definition default_power :: "bd_field \<Rightarrow> field_info \<Rightarrow> field_info" where
  "default_power f x =
     (if f = power_mode \<and> field_len x = 0 then x\<lparr>field_bytes := (field_bytes x)[0 := 0xFF]\<rparr> else x)"

fun parse_fields :: "bd_field list \<Rightarrow> bd_info_record \<Rightarrow> bd_info_record reader" where
  "parse_fields [] r b i = Some (r, i)"
| "parse_fields (f # fs) r b i = do {
     (x, i) \<leftarrow> parse_field (r f) b i;
     parse_fields fs (r(f := default_power f x)) b i }"

section \<open>Services\<close>

record 'h host_env =
  kzalloc :: "'h \<Rightarrow> bool \<times> 'h"
  submit_gcq :: "u8 \<Rightarrow> u8 \<Rightarrow> u8 list \<Rightarrow> 'h \<Rightarrow> int \<times> u8 list \<times> 'h"
  jiffies :: "'h \<Rightarrow> u64"
  HZ :: u64

section \<open>Parsing an SDR\<close>

text \<open>
  The partitions of a boot device: memory is allocated when there are entries, and is not
  checked, so that a failure is written through the null pointer.
\<close>

definition parse_partitions ::
  "'h host_env \<Rightarrow> u8 \<Rightarrow> fpt_partition list option \<Rightarrow> u8 list \<Rightarrow> nat \<Rightarrow> 'h
   \<Rightarrow> (fpt_partition list option \<times> nat \<times> 'h) option" where
  "parse_partitions env n old b i w =
     (if n = 0 then Some (old, i, w)
      else let (ok, w') = kzalloc env w in
        if \<not> ok then None
        else map_option (\<lambda>(ps, j). (Some ps, j, w')) (read_list parse_partition (unat n) b i))"

definition parse_fpt ::
  "'h host_env \<Rightarrow> fpt_rec \<Rightarrow> u8 list \<Rightarrow> nat \<Rightarrow> 'h \<Rightarrow> (fpt_rec \<times> nat \<times> 'h) option" where
  "parse_fpt env r b i w = do {
     (h, i) \<leftarrow> parse_fpt_hdr b i;
     (ps, i, w) \<leftarrow> parse_partitions env (num_entries h) (partition_primary r) b i w;
     (h', i) \<leftarrow> parse_fpt_hdr b i;
     (ps', i, w) \<leftarrow> parse_partitions env (num_entries h') (partition_secondary r) b i w;
     Some (\<lparr>hdr_primary = h, partition_primary = ps, hdr_secondary = h', partition_secondary = ps'\<rparr>, i, w) }"

definition is_sensor_type :: "u8 \<Rightarrow> bool" where
  "is_sensor_type t \<longleftrightarrow> t \<in> {SDR_TYPE_TEMP, SDR_TYPE_VOLTAGE, SDR_TYPE_CURRENT, SDR_TYPE_POWER,
     SDR_TYPE_TOTAL_POWER}"

text \<open>
  The records, by type. The result is the status of the function if it returns here and the
  index otherwise.
\<close>

definition parse_body ::
  "'h host_env \<Rightarrow> sdr_repo \<Rightarrow> u8 list \<Rightarrow> nat \<Rightarrow> 'h \<Rightarrow> ((int + nat) \<times> sdr_repo \<times> 'h) option" where
  "parse_body env r b i w =
     (if repo_type r = SDR_TYPE_FPT
      then do {
        f \<leftarrow> fpt_of (repo_data r);
        (f', j, w') \<leftarrow> parse_fpt env f b i w;
        Some (Inr j, r\<lparr>repo_data := Fpt f'\<rparr>, w') }
      else if repo_type r = SDR_TYPE_BDINFO
      then let (ok, w') = kzalloc env w in
        if \<not> ok then Some (Inl (- ENOMEM), r\<lparr>repo_data := BdInfo None\<rparr>, w')
        else map_option (\<lambda>(x, j). (Inr j, r\<lparr>repo_data := BdInfo (Some x)\<rparr>, w'))
               (parse_fields bd_fields (\<lambda>_. zero_info) b i)
      else if is_sensor_type (repo_type r)
      then let (ok, w') = kzalloc env w in
        if \<not> ok then Some (Inl (- ENOMEM), r\<lparr>repo_data := Records None\<rparr>, w')
        else map_option (\<lambda>(xs, j). (Inr j, r\<lparr>repo_data := Records (Some xs)\<rparr>, w'))
               (read_list (parse_record zero_rec) (unat (num_records r)) b i)
      else Some (Inl (- EINVAL), r, w))"

text \<open>\<open>b\<close> is the response without the completion code.\<close>

definition parse_sdr ::
  "'h host_env \<Rightarrow> u8 list \<Rightarrow> sdr_repo \<Rightarrow> 'h \<Rightarrow> (int \<times> sdr_repo \<times> 'h) option" where
  "parse_sdr env b r w = do {
     t \<leftarrow> rd8 b 0;
     v \<leftarrow> rd8 b 1;
     n \<leftarrow> rd8 b 2;
     z \<leftarrow> rd16 b 3;
     let r = r\<lparr>repo_type := t, repo_ver := v, num_records := n, repo_size := z\<rparr>;
     if z = 0 then Some (- EINVAL, r, w)
     else do {
       (res, r, w) \<leftarrow> (if n = 0 then Some (Inr 5, r, w) else parse_body env r b 5 w);
       case res of
         Inl e \<Rightarrow> Some (e, r, w)
       | Inr i \<Rightarrow> do {
           eor \<leftarrow> rd_bytes b i 3;
           Some (if eor \<noteq> SDR_EOR then - EILSEQ else if n = 0 then - ENODATA else 0, r, w) } } }"

section \<open>Commands\<close>

definition GCQ_SUBMIT_CMD_GET_SDR :: u8 where "GCQ_SUBMIT_CMD_GET_SDR = 0x03"
definition GCQ_SUBMIT_CMD_GET_ALL_INST_TEMP_SENSOR :: u8 where
  "GCQ_SUBMIT_CMD_GET_ALL_INST_TEMP_SENSOR = 0x20"
definition GCQ_SUBMIT_CMD_GET_ALL_INST_VOLTAGE_SENSOR :: u8 where
  "GCQ_SUBMIT_CMD_GET_ALL_INST_VOLTAGE_SENSOR = 0x60"
definition GCQ_SUBMIT_CMD_GET_ALL_INST_CURRENT_SENSOR :: u8 where
  "GCQ_SUBMIT_CMD_GET_ALL_INST_CURRENT_SENSOR = 0x61"
definition GCQ_SUBMIT_CMD_GET_ALL_INST_POWER_SENSOR :: u8 where
  "GCQ_SUBMIT_CMD_GET_ALL_INST_POWER_SENSOR = 0x62"

definition get_flags_for_repo :: "u8 \<Rightarrow> u8" where
  "get_flags_for_repo t =
     (if t = SDR_TYPE_BDINFO then 0x01 else if t = SDR_TYPE_TEMP then 0x02
      else if t = SDR_TYPE_VOLTAGE then 0x04 else if t = SDR_TYPE_CURRENT then 0x08
      else if t = SDR_TYPE_POWER then 0x10 else if t = SDR_TYPE_TOTAL_POWER then 0x20
      else if t = SDR_TYPE_FPT then 0x40 else 0)"

definition SDR_RESP_LEN :: nat where "SDR_RESP_LEN = 4096"

definition get_sdr_repo ::
  "'h host_env \<Rightarrow> u8 \<Rightarrow> sdr_repo \<Rightarrow> 'h \<Rightarrow> (int \<times> sdr_repo \<times> 'h) option" where
  "get_sdr_repo env t r w =
     (let (ok, w1) = kzalloc env w in
      if \<not> ok then Some (- ENOMEM, r, w1)
      else let (ret, b, w2) = submit_gcq env GCQ_SUBMIT_CMD_GET_SDR (get_flags_for_repo t)
                                (replicate SDR_RESP_LEN 0) w1 in
        if ret \<noteq> 0 then Some (- EIO, r, w2)
        else do {
          code \<leftarrow> rd8 b 0;
          if code \<noteq> SDR_CODE_OP_SUCCESS then Some (- EINVAL, r, w2)
          else do {
            rid \<leftarrow> rd8 b 1;
            if rid \<noteq> t then Some (- EINVAL, r, w2) else parse_sdr env (drop 1 b) r w2 } })"

text \<open>The value of a record as a number.\<close>

definition make_val :: "u8 \<Rightarrow> u8 \<Rightarrow> u8 list \<Rightarrow> int" where
  "make_val t n data =
     (if t \<noteq> 0 then 0
      else if n = 1 then uint (data ! 0)
      else if n = 2 then uint (of_le16 (take 2 data))
      else if n = 4 then uint (of_le32 (take 4 data))
      else 0)"

section \<open>The repositories of a device\<close>

text \<open>The pointer to the repositories: freeing them leaves it dangling.\<close>

datatype repos_ptr = NoRepos | Repos "sdr_repo list" | FreedRepos

record pf_dev =
  sensor_repos :: repos_ptr
  num_sensor_repos :: u8
  sensor_refresh :: u16

definition NUM_SENSOR_REPOS :: nat where "NUM_SENSOR_REPOS = 7"

definition discovery_repos :: "u8 list" where
  "discovery_repos = [SDR_TYPE_TEMP, SDR_TYPE_VOLTAGE, SDR_TYPE_CURRENT, SDR_TYPE_POWER,
     SDR_TYPE_TOTAL_POWER, SDR_TYPE_BDINFO, SDR_TYPE_FPT]"

definition delete_repo_records :: "sdr_repo \<Rightarrow> sdr_repo option" where
  "delete_repo_records r =
     (if repo_type r = SDR_TYPE_FPT
      then do {
        f \<leftarrow> fpt_of (repo_data r);
        Some (r\<lparr>repo_data := Fpt (f\<lparr>partition_primary := None, partition_secondary := None\<rparr>),
                num_records := (if partition_primary f = None \<and> partition_secondary f = None
                                then num_records r else 0)\<rparr>) }
      else if repo_type r = SDR_TYPE_BDINFO
      then do {
        x \<leftarrow> bd_info_of (repo_data r);
        Some (if x = None then r else r\<lparr>repo_data := BdInfo None, num_records := 0\<rparr>) }
      else if is_sensor_type (repo_type r)
      then do {
        x \<leftarrow> records_of (repo_data r);
        Some (if x = None then r else r\<lparr>repo_data := Records None, num_records := 0\<rparr>) }
      else Some r)"

definition delete_sensors :: "pf_dev \<Rightarrow> pf_dev option" where
  "delete_sensors p =
     (case sensor_repos p of
        NoRepos \<Rightarrow> Some p
      | FreedRepos \<Rightarrow> if num_sensor_repos p = 0 then Some p else None
      | Repos rs \<Rightarrow>
          if num_sensor_repos p = 0 then Some p
          else if list_all (\<lambda>r. delete_repo_records r \<noteq> None) rs
          then Some (p\<lparr>sensor_repos := FreedRepos\<rparr>) else None)"

text \<open>Repositories \<open>i\<close>, \<open>i + 1\<close>, \<dots>; an empty one is counted and does not stop the discovery.\<close>

fun discover_repos ::
  "'h host_env \<Rightarrow> u8 list \<Rightarrow> nat \<Rightarrow> sdr_repo list \<Rightarrow> int \<Rightarrow> 'h
   \<Rightarrow> (int \<times> sdr_repo list \<times> int \<times> 'h) option" where
  "discover_repos env [] i rs cnt w = Some (0, rs, cnt, w)"
| "discover_repos env (t # ts) i rs cnt w = do {
     (ret, r, w1) \<leftarrow> get_sdr_repo env t (rs ! i) w;
     if ret = - ENODATA
     then discover_repos env ts (Suc i) (rs[i := r\<lparr>last_update := jiffies env w1\<rparr>]) (cnt + 1) w1
     else if ret \<noteq> 0 then Some (ret, rs[i := r], cnt, w1)
     else discover_repos env ts (Suc i) (rs[i := r\<lparr>last_update := jiffies env w1\<rparr>]) cnt w1 }"

definition discover_sensors ::
  "'h host_env \<Rightarrow> int \<Rightarrow> pf_dev \<Rightarrow> 'h \<Rightarrow> (int \<times> int \<times> pf_dev \<times> 'h) option" where
  "discover_sensors env cnt p w =
     (let p1 = p\<lparr>num_sensor_repos := of_nat NUM_SENSOR_REPOS\<rparr>; (ok, w1) = kzalloc env w in
      if \<not> ok then Some (- ENOMEM, cnt, p1\<lparr>sensor_repos := NoRepos\<rparr>, w1)
      else do {
        (ret, rs, cnt', w2) \<leftarrow> discover_repos env discovery_repos 0
                                 (replicate NUM_SENSOR_REPOS zero_repo) cnt w1;
        let p2 = p1\<lparr>sensor_repos := Repos rs\<rparr>;
        if ret \<noteq> 0 then map_option (\<lambda>p3. (ret, cnt', p3, w2)) (delete_sensors p2)
        else Some (0, cnt', p2, w2) })"

text \<open>Looking up a repository and a record: the index, none for \<open>NULL\<close>.\<close>

definition find_index :: "('a \<Rightarrow> bool) \<Rightarrow> 'a list \<Rightarrow> nat option" where
  "find_index P xs = (let n = length (takeWhile (\<lambda>x. \<not> P x) xs) in if n < length xs then Some n else None)"

definition find_sdr_repo :: "repos_ptr \<Rightarrow> u8 \<Rightarrow> u8 \<Rightarrow> nat option option" where
  "find_sdr_repo p n t =
     (case p of
        NoRepos \<Rightarrow> Some None
      | FreedRepos \<Rightarrow> if n = 0 then Some None else None
      | Repos rs \<Rightarrow>
          if unat n \<le> length rs then Some (find_index (\<lambda>r. repo_type r = t) (take (unat n) rs))
          else case find_index (\<lambda>r. repo_type r = t) rs of Some i \<Rightarrow> Some (Some i) | None \<Rightarrow> None)"

definition find_in_repo :: "sdr_repo \<Rightarrow> int \<Rightarrow> nat option option" where
  "find_in_repo r sid =
     (if num_records r = 0 then Some None
      else do {
        recs \<leftarrow> records_of (repo_data r);
        l \<leftarrow> recs;
        case find_index (\<lambda>x. uint (rec_id x) - 1 = sid) (take (unat (num_records r)) l) of
          Some j \<Rightarrow> Some (Some j)
        | None \<Rightarrow> if unat (num_records r) \<le> length l then Some None else None })"

text \<open>The repository and the record in it.\<close>

fun find_sdr_record :: "sdr_repo list \<Rightarrow> u8 \<Rightarrow> int \<Rightarrow> (nat \<times> nat) option option" where
  "find_sdr_record [] t sid = Some None"
| "find_sdr_record (r # rs) t sid = do {
     found \<leftarrow> (if repo_type r \<noteq> t then Some None else find_in_repo r sid);
     case found of
       Some j \<Rightarrow> Some (Some (0, j))
     | None \<Rightarrow> map_option (map_option (\<lambda>(i, j). (Suc i, j))) (find_sdr_record rs t sid) }"

definition update_sdr ::
  "'h host_env \<Rightarrow> u8 \<Rightarrow> pf_dev \<Rightarrow> 'h \<Rightarrow> (int \<times> pf_dev \<times> 'h) option" where
  "update_sdr env t p w = do {
     found \<leftarrow> find_sdr_repo (sensor_repos p) (num_sensor_repos p) t;
     case (found, sensor_repos p) of
       (Some i, Repos rs) \<Rightarrow>
         let (ok, w1) = kzalloc env w in
         if \<not> ok then Some (- ENOMEM, p, w1)
         else do {
           (ret, r, w2) \<leftarrow> get_sdr_repo env t zero_repo w1;
           if ret \<noteq> 0 then Some (ret, p, w2)
           else do {
             old \<leftarrow> delete_repo_records (rs ! i);
             Some (0, p\<lparr>sensor_repos := Repos (rs[i := r])\<rparr>, w2) } }
     | _ \<Rightarrow> Some (- ENODATA, p, w) }"

section \<open>Reading all sensors of a repository\<close>

text \<open>
  The value, the maximum and the average of a record; the arrays are cleared first.
\<close>

definition refresh_record :: "u8 list \<Rightarrow> nat \<Rightarrow> u8 \<Rightarrow> sdr_record \<Rightarrow> sdr_record option" where
  "refresh_record b i n r = do {
     (v, i) \<leftarrow> copy_in zero_value (unat n) b i;
     (m, i) \<leftarrow> copy_in zero_limit (unat n) b i;
     (a, i) \<leftarrow> copy_in zero_limit (unat n) b i;
     st \<leftarrow> rd8 b i;
     Some (r\<lparr>value_len := n, rec_value := v, rec_max := m, rec_avg := a, sensor_status := st\<rparr>) }"

definition refresh_sensor :: "u8 list \<Rightarrow> nat \<Rightarrow> u8 \<Rightarrow> u8 \<Rightarrow> nat \<Rightarrow> sdr_repo \<Rightarrow> sdr_repo option" where
  "refresh_sensor b i n rid k r = do {
     found \<leftarrow> find_sdr_record [r] rid (int k);
     case (found, repo_data r) of
       (Some (_, j), Records (Some l)) \<Rightarrow> do {
         x \<leftarrow> refresh_record b i n (l ! j);
         Some (r\<lparr>repo_data := Records (Some (l[j := x]))\<rparr>) }
     | _ \<Rightarrow> Some r }"

text \<open>Sensor \<open>k\<close> at index \<open>i\<close> of the response, until the payload ends at \<open>stop\<close>.\<close>

function refresh_loop :: "u8 list \<Rightarrow> nat \<Rightarrow> u8 \<Rightarrow> nat \<Rightarrow> nat \<Rightarrow> sdr_repo \<Rightarrow> sdr_repo option" where
  "refresh_loop b stop rid i k r =
     (if stop \<le> i then Some r
      else case rd8 b i of None \<Rightarrow> None | Some n \<Rightarrow>
        (case refresh_sensor b (i + 1) n rid k r of None \<Rightarrow> None
         | Some r' \<Rightarrow> refresh_loop b stop rid (i + 1 + 3 * unat n + 1) (Suc k) r'))"
  by pat_completeness auto

termination by (relation "measure (\<lambda>(b, stop, rid, i, k, r). stop - i)") auto

declare refresh_loop.simps [simp del]

text \<open>
  The repository a command asks for and the one a response names, as the proxy numbers them
  (ami_amc_control.c).
\<close>

definition AMC_PROXY_CMD_SENSOR_REPO_UNKNOWN :: int where
  "AMC_PROXY_CMD_SENSOR_REPO_UNKNOWN = - EINVAL"

definition repo_of_flags :: "u8 \<Rightarrow> int" where
  "repo_of_flags flags =
     (if flags AND 0x02 \<noteq> 0 then 2 else if flags AND 0x08 \<noteq> 0 then 4
      else if flags AND 0x10 \<noteq> 0 then 5 else if flags AND 0x20 \<noteq> 0 then 6
      else if flags AND 0x04 \<noteq> 0 then 3 else if flags AND 0x01 \<noteq> 0 then 1
      else if flags AND 0x40 \<noteq> 0 then 8 else AMC_PROXY_CMD_SENSOR_REPO_UNKNOWN)"

definition get_sid :: "u8 \<Rightarrow> u8 \<Rightarrow> int" where
  "get_sid cmd flags =
     (if cmd \<in> {0x02, 0x03} then repo_of_flags flags
      else if cmd \<in> {0x10, 0x11, 0x12, 0x13, GCQ_SUBMIT_CMD_GET_ALL_INST_TEMP_SENSOR} then 2
      else if cmd \<in> {0x30, 0x31, 0x32, 0x33, GCQ_SUBMIT_CMD_GET_ALL_INST_VOLTAGE_SENSOR} then 3
      else if cmd \<in> {0x40, 0x41, 0x42, GCQ_SUBMIT_CMD_GET_ALL_INST_CURRENT_SENSOR} then 4
      else if cmd \<in> {0x50, GCQ_SUBMIT_CMD_GET_ALL_INST_POWER_SENSOR} then 6
      else AMC_PROXY_CMD_SENSOR_REPO_UNKNOWN)"

definition get_rid :: "u8 \<Rightarrow> int" where
  "get_rid t =
     (if t = 0 then 0 else if t = SDR_TYPE_BDINFO then 1 else if t = SDR_TYPE_TEMP then 2
      else if t = SDR_TYPE_VOLTAGE then 3 else if t = SDR_TYPE_CURRENT then 4
      else if t = SDR_TYPE_POWER then 5 else if t = SDR_TYPE_TOTAL_POWER then 6
      else AMC_PROXY_CMD_SENSOR_REPO_UNKNOWN)"

definition SENSOR_RSP_LEN :: nat where "SENSOR_RSP_LEN = 4096"

text \<open>The sensors of the payload, of which byte 2 is the length, update those of the repository.\<close>

definition refresh_repo :: "u8 list \<Rightarrow> sdr_repo \<Rightarrow> sdr_repo option" where
  "refresh_repo b r = do {
     rid \<leftarrow> rd8 b 1;
     n \<leftarrow> rd8 b 2;
     refresh_loop b (3 + unat n) rid 3 0 r }"

definition get_all_sensors ::
  "'h host_env \<Rightarrow> u8 \<Rightarrow> sdr_repo \<Rightarrow> 'h \<Rightarrow> (int \<times> sdr_repo \<times> 'h) option" where
  "get_all_sensors env cmd r w =
     (let (ok, w1) = kzalloc env w in
      if \<not> ok then Some (- ENOMEM, r, w1)
      else let (ret, b, w2) = submit_gcq env cmd 0 (replicate SENSOR_RSP_LEN 0) w1 in
        if ret \<noteq> 0 then Some (- EIO, r, w2)
        else do {
          code \<leftarrow> rd8 b 0;
          if code \<noteq> SDR_CODE_OP_SUCCESS then Some (- EINVAL, r, w2)
          else do {
            rid \<leftarrow> rd8 b 1;
            if get_rid rid \<noteq> get_sid cmd 0 then Some (- EINVAL, r, w2)
            else do {
              r' \<leftarrow> refresh_repo b r;
              Some (0, r'\<lparr>last_update := jiffies env w2\<rparr>, w2) } } })"

definition repo_of_cmd :: "u8 \<Rightarrow> u8 option" where
  "repo_of_cmd cmd =
     (if cmd = GCQ_SUBMIT_CMD_GET_ALL_INST_TEMP_SENSOR then Some SDR_TYPE_TEMP
      else if cmd = GCQ_SUBMIT_CMD_GET_ALL_INST_VOLTAGE_SENSOR then Some SDR_TYPE_VOLTAGE
      else if cmd = GCQ_SUBMIT_CMD_GET_ALL_INST_CURRENT_SENSOR then Some SDR_TYPE_CURRENT
      else if cmd = GCQ_SUBMIT_CMD_GET_ALL_INST_POWER_SENSOR then Some SDR_TYPE_TOTAL_POWER
      else None)"

text \<open>The second result is what is stored in \<open>*fresh\<close>, nothing on an early error.\<close>

definition read_sensors ::
  "'h host_env \<Rightarrow> u8 \<Rightarrow> pf_dev \<Rightarrow> 'h \<Rightarrow> (int \<times> bool option \<times> pf_dev \<times> 'h) option" where
  "read_sensors env cmd p w =
     (case repo_of_cmd cmd of
        None \<Rightarrow> Some (- EINVAL, None, p, w)
      | Some t \<Rightarrow> do {
          found \<leftarrow> find_sdr_repo (sensor_repos p) (num_sensor_repos p) t;
          case (found, sensor_repos p) of
            (Some i, Repos rs) \<Rightarrow>
              let delta = jiffies env w - last_update (rs ! i) in
              if sensor_refresh p = 0 \<or> ucast (sensor_refresh p) < delta * 1000 div HZ env
              then do {
                (ret, r, w') \<leftarrow> get_all_sensors env cmd (rs ! i) w;
                Some (ret, Some True, p\<lparr>sensor_repos := Repos (rs[i := r])\<rparr>, w') }
              else Some (0, Some False, p, w)
          | _ \<Rightarrow> Some (- EINVAL, None, p, w) })"

definition read_thermal_sensors ::
  "'h host_env \<Rightarrow> pf_dev \<Rightarrow> 'h \<Rightarrow> (int \<times> bool option \<times> pf_dev \<times> 'h) option" where
  "read_thermal_sensors env = read_sensors env GCQ_SUBMIT_CMD_GET_ALL_INST_TEMP_SENSOR"

definition read_voltage_sensors ::
  "'h host_env \<Rightarrow> pf_dev \<Rightarrow> 'h \<Rightarrow> (int \<times> bool option \<times> pf_dev \<times> 'h) option" where
  "read_voltage_sensors env = read_sensors env GCQ_SUBMIT_CMD_GET_ALL_INST_VOLTAGE_SENSOR"

definition read_current_sensors ::
  "'h host_env \<Rightarrow> pf_dev \<Rightarrow> 'h \<Rightarrow> (int \<times> bool option \<times> pf_dev \<times> 'h) option" where
  "read_current_sensors env = read_sensors env GCQ_SUBMIT_CMD_GET_ALL_INST_CURRENT_SENSOR"

definition read_power_sensors ::
  "'h host_env \<Rightarrow> pf_dev \<Rightarrow> 'h \<Rightarrow> (int \<times> bool option \<times> pf_dev \<times> 'h) option" where
  "read_power_sensors env = read_sensors env GCQ_SUBMIT_CMD_GET_ALL_INST_POWER_SENSOR"

section \<open>Stored data\<close>

definition stored_repo :: "pf_dev \<Rightarrow> u8 \<Rightarrow> sdr_repo option option" where
  "stored_repo p t = do {
     found \<leftarrow> find_sdr_repo (sensor_repos p) (num_sensor_repos p) t;
     Some (case (found, sensor_repos p) of (Some i, Repos rs) \<Rightarrow> Some (rs ! i) | _ \<Rightarrow> None) }"

definition read_fpt_hdr :: "pf_dev \<Rightarrow> u8 \<Rightarrow> (int \<times> fpt_hdr option) option" where
  "read_fpt_hdr p dev =
     (if 2 \<le> dev then Some (- EINVAL, None)
      else do {
        r \<leftarrow> stored_repo p SDR_TYPE_FPT;
        case r of None \<Rightarrow> Some (- EINVAL, None) | Some r \<Rightarrow>
          if num_records r = 0 then Some (- ENODATA, None)
          else map_option (\<lambda>f. (0, Some (if dev = 0 then hdr_primary f else hdr_secondary f)))
                 (fpt_of (repo_data r)) })"

text \<open>
  The number of the partition is compared with the number of entries less one, which is
  negative for an empty table and then large as an unsigned number.
\<close>

definition read_partition ::
  "u8 \<Rightarrow> fpt_partition list option \<Rightarrow> u32 \<Rightarrow> (int \<times> fpt_partition option) option" where
  "read_partition n parts k =
     (if ucast n - 1 < k then Some (- EINVAL, None)
      else case parts of None \<Rightarrow> Some (- ENODATA, None)
      | Some ps \<Rightarrow> if unat k < length ps then Some (0, Some (ps ! unat k)) else None)"

definition read_fpt_partition :: "pf_dev \<Rightarrow> u8 \<Rightarrow> u32 \<Rightarrow> (int \<times> fpt_partition option) option" where
  "read_fpt_partition p dev k =
     (if 2 \<le> dev then Some (- EINVAL, None)
      else do {
        r \<leftarrow> stored_repo p SDR_TYPE_FPT;
        case r of None \<Rightarrow> Some (- EINVAL, None) | Some r \<Rightarrow>
          if num_records r = 0 then Some (- ENODATA, None)
          else do {
            f \<leftarrow> fpt_of (repo_data r);
            if dev = 0 then read_partition (num_entries (hdr_primary f)) (partition_primary f) k
            else read_partition (num_entries (hdr_secondary f)) (partition_secondary f) k } })"

definition read_board_info :: "pf_dev \<Rightarrow> (int \<times> bd_info_record option) option" where
  "read_board_info p = do {
     r \<leftarrow> stored_repo p SDR_TYPE_BDINFO;
     case r of None \<Rightarrow> Some (- EINVAL, None) | Some r \<Rightarrow>
       if num_records r = 0 then Some (- ENODATA, None)
       else do {
         x \<leftarrow> bd_info_of (repo_data r);
         b \<leftarrow> x;
         Some (0, Some b) } }"

section \<open>Names\<close>

definition convert_sensor_status_name_map :: "int \<Rightarrow> string" where
  "convert_sensor_status_name_map st =
     (if st = 0 then ''Sensor Not Present'' else if st = 1 then ''Sensor Present and Valid''
      else if st = 2 then ''Data Not Available''
      else if st = 0x7F then ''Not Applicable or Default Value'' else '''')"

definition sdr_repo_type_to_str :: "u8 \<Rightarrow> string" where
  "sdr_repo_type_to_str t =
     (if t = SDR_TYPE_FPT then ''fpt'' else if t = SDR_TYPE_BDINFO then ''board info''
      else if t = SDR_TYPE_TEMP then ''temperature'' else if t = SDR_TYPE_VOLTAGE then ''voltage''
      else if t = SDR_TYPE_CURRENT then ''current'' else if t = SDR_TYPE_POWER then ''power''
      else if t = SDR_TYPE_TOTAL_POWER then ''total power'' else '''')"

end
