(* ===== verification/AsdmCodec.thy ===== *)
theory AsdmCodec
  imports AsdmEvents HostSensor
begin

text \<open>
  What the firmware writes and what the host reads. A writer that fits in the buffer writes the
  bytes of an encoding, a reader of these bytes gives the value back; both compose, and a codec
  is a pair of the two. The sensor records, the entries of the flash partition table and the
  fields of the board information are codecs.
\<close>

section \<open>Writers and readers\<close>

definition fits :: "cursor \<Rightarrow> nat \<Rightarrow> bool" where
  "fits c n \<longleftrightarrow> unat (snd c) + n \<le> length (fst c) \<and> length (fst c) < 2 ^ 16"

definition emits :: "(cursor \<Rightarrow> cursor option) \<Rightarrow> u8 list \<Rightarrow> bool" where
  "emits f bs \<longleftrightarrow> (\<forall>c. fits c (length bs) \<longrightarrow> f c = put_bytes bs c)"

definition reads :: "'a reader \<Rightarrow> u8 list \<Rightarrow> 'a \<Rightarrow> bool" where
  "reads p bs x \<longleftrightarrow> (\<forall>pre rest. p (pre @ bs @ rest) (length pre) = Some (x, length pre + length bs))"

named_theorems writes \<open>what the writers write\<close>
named_theorems parses \<open>what the readers read\<close>

lemma unat_pos_add:
  "fits (b, p) n \<Longrightarrow> unat (p + of_nat n) = unat p + n"
  by (simp add: fits_def unat_word_ariths unat_of_nat)

lemma fits_mono: "fits c n \<Longrightarrow> m \<le> n \<Longrightarrow> fits c m"
  by (simp add: fits_def)

lemma put_bytes_eq:
  "fits (b, p) (length bs) \<Longrightarrow>
   put_bytes bs (b, p) = Some (take (unat p) b @ bs @ drop (unat p + length bs) b, p + of_nat (length bs))"
  by (simp add: put_bytes_def wr_bytes_def fits_def)

lemma put_bytes_fits:
  "put_bytes bs c = Some c' \<Longrightarrow> fits c (length bs + n) \<Longrightarrow> fits c' n"
  by (cases c) (auto simp: put_bytes_def wr_bytes_def fits_def unat_word_ariths unat_of_nat
      split: if_splits)

lemma put_bytes_put_bytes:
  assumes "fits c (length xs + length ys)"
  shows "put_bytes xs c \<bind> put_bytes ys = put_bytes (xs @ ys) c"
proof (cases c)
  case (Pair b p)
  have f: "fits (b, p) (length xs)" "fits (b, p) (length (xs @ ys))"
    using assms Pair by (auto simp: fits_def)
  have n: "unat (p + of_nat (length xs)) = unat p + length xs" by (rule unat_pos_add[OF f(1)])
  have g: "fits (take (unat p) b @ xs @ drop (unat p + length xs) b, p + of_nat (length xs)) (length ys)"
    using assms Pair n by (auto simp: fits_def)
  have m: "min (length b) (unat p) = unat p" using f by (simp add: fits_def)
  show ?thesis
    using f g by (simp add: Pair put_bytes_eq n m ac_simps)
qed

lemma emits_bind [writes]:
  assumes "emits f xs" "emits g ys"
  shows "emits (\<lambda>c. f c \<bind> g) (xs @ ys)"
  unfolding emits_def
proof (intro allI impI)
  fix c assume fit: "fits c (length (xs @ ys))"
  then have "f c = put_bytes xs c"
    using assms(1)[unfolded emits_def, rule_format, OF fits_mono[of c "length (xs @ ys)" "length xs"]]
    by simp
  moreover have "g d = put_bytes ys d" if "put_bytes xs c = Some d" for d
    using assms(2)[unfolded emits_def, rule_format, OF put_bytes_fits[OF that]] fit by simp
  ultimately have "f c \<bind> g = put_bytes xs c \<bind> put_bytes ys"
    by (cases "put_bytes xs c") auto
  then show "f c \<bind> g = put_bytes (xs @ ys) c" using put_bytes_put_bytes fit by simp
qed

lemma emits_put_bytes [writes]: "emits (put_bytes bs) bs"
  by (simp add: emits_def)

lemma emits_put8 [writes]: "emits (put8 v) [v]"
  by (auto simp: emits_def put8_def put_bytes_def wr8_def wr_bytes_def fits_def upd_conv_take_nth_drop)

lemma emits_put_copy [writes]:
  "unat n \<le> length src \<Longrightarrow> emits (put_copy src n) (take (unat n) src)"
  by (simp add: emits_def put_copy_def rd_bytes_def)

lemma emits_id [writes]: "emits Some []"
  by (auto simp: emits_def put_bytes_def wr_bytes_def fits_def)

lemma reads_bind:
  "reads p xs a \<Longrightarrow> (\<And>a'. a' = a \<Longrightarrow> reads (q a') ys z) \<Longrightarrow>
   reads (\<lambda>b i. p b i \<bind> (\<lambda>(x, j). q x b j)) (xs @ ys) z"
  unfolding reads_def
  by (metis (no_types, lifting) append.assoc bind.bind_lunit case_prod_conv length_append
      add.assoc)

lemma reads_return: "reads (\<lambda>b i. Some (x, i)) [] x"
  by (simp add: reads_def)

lemma reads_next_byte: "reads read_u8 [v] v"
  by (simp add: reads_def read_u8_def nth_append)

lemma reads_copy_in:
  "length vs = n \<Longrightarrow> n \<le> length arr \<Longrightarrow> reads (copy_in arr n) vs (vs @ drop n arr)"
  by (simp add: reads_def copy_in_def rd_bytes_def wr_bytes_def)

lemma reads_map:
  "reads p xs a \<Longrightarrow> reads (\<lambda>b i. p b i \<bind> (\<lambda>(x, j). Some (h x, j))) xs (h a)"
  by (simp add: reads_def)

section \<open>Fields\<close>

lemma low_bits: "unat (x AND 0x3F :: u8) < 64"
proof -
  have "x AND 0x3F \<le> (0x3F :: u8)" by (rule word_and_le1)
  then show ?thesis by (simp add: word_le_nat_alt)
qed

lemma bit_0x3F: "bit (0x3F :: u8) n \<longleftrightarrow> n < 6"
proof -
  have e: "(0x3F :: u8) = mask 6" by (simp add: mask_eq_exp_minus_1)
  show ?thesis unfolding e bit_mask_iff by auto
qed

lemma bit_0x03: "bit (0x03 :: u8) n \<longleftrightarrow> n < 2"
proof -
  have e: "(0x03 :: u8) = mask 2" by (simp add: mask_eq_exp_minus_1)
  show ?thesis unfolding e bit_mask_iff by auto
qed

lemma bit_type_len:
  "bit (type_len f) n \<longleftrightarrow> (if n < 6 then bit (fldLength f) n else n < 8 \<and> bit (fldType f) (n - 6))"
  unfolding type_len_def record_len_def ASDM_RECORD_FIELD_LENGTH_MASK_def
    ASDM_RECORD_FIELD_TYPE_MASK_def ASDM_RECORD_FIELD_TYPE_POS_def bit_or_iff bit_and_iff
    bit_push_bit_iff bit_0x3F bit_0x03
  by (auto dest: bit_imp_le_length)

lemma type_len_parts:
  "type_len f AND SDR_LENGTH_MASK = record_len f"
  "drop_bit SDR_TYPE_POS (type_len f) = fldType f AND ASDM_RECORD_FIELD_TYPE_MASK"
proof -
  show "type_len f AND SDR_LENGTH_MASK = record_len f"
    unfolding SDR_LENGTH_MASK_def record_len_def ASDM_RECORD_FIELD_LENGTH_MASK_def
    by (rule bit_word_eqI) (simp only: bit_and_iff bit_0x3F bit_type_len, auto)
  show "drop_bit SDR_TYPE_POS (type_len f) = fldType f AND ASDM_RECORD_FIELD_TYPE_MASK"
    unfolding SDR_TYPE_POS_def ASDM_RECORD_FIELD_TYPE_MASK_def
    by (rule bit_word_eqI) (simp only: bit_and_iff bit_0x03 bit_drop_bit_eq bit_type_len o_def, auto)
qed

definition field_data :: "ASDM_RECORD_FIELD \<Rightarrow> u8 list" where
  "field_data f = take (unat (record_len f)) (pucBytesValue f)"

definition field_ok :: "nat \<Rightarrow> ASDM_RECORD_FIELD \<Rightarrow> bool" where
  "field_ok n f \<longleftrightarrow> length (pucBytesValue f) = 32 \<and> unat (record_len f) \<le> n \<and> n \<le> 32"

lemma field_data_length: "field_ok n f \<Longrightarrow> length (field_data f) = unat (record_len f)"
  by (simp add: field_ok_def field_data_def)

lemma emits_field [writes]: "field_ok n f \<Longrightarrow> emits (put_field f) (type_len f # field_data f)"
  using emits_bind[OF emits_put8 emits_put_copy, of "record_len f" "pucBytesValue f" "type_len f"]
  by (simp add: put_field_def[abs_def] field_data_def field_ok_def)

lemma reads_tl_field:
  assumes "field_ok n f" "n \<le> length arr"
  shows "reads (read_tl_field arr) (type_len f # field_data f)
    (fldType f AND ASDM_RECORD_FIELD_TYPE_MASK, record_len f,
     field_data f @ drop (unat (record_len f)) arr)"
proof -
  have "unat (record_len f) \<le> length arr" using assms by (simp add: field_ok_def)
  note copy = reads_copy_in[OF field_data_length[OF assms(1)] this]
  have "reads (read_tl_field arr) ([type_len f] @ field_data f)
    (fldType f AND ASDM_RECORD_FIELD_TYPE_MASK, record_len f,
     field_data f @ drop (unat (record_len f)) arr)"
    unfolding read_tl_field_def[abs_def]
    by (rule reads_bind[OF reads_next_byte])
       (simp only: type_len_parts, rule reads_map[OF copy, of "\<lambda>a. (_, _, a)"])
  then show ?thesis by simp
qed

definition limit_data :: "ASDM_SDR_RECORD \<Rightarrow> u8 \<Rightarrow> u32 \<Rightarrow> u8 list" where
  "limit_data r bt v =
     (if ucThresholdSupportedBitMask r AND bt \<noteq> 0
      then take (unat (record_len (xSensorValue r))) (le_bytes v) else [])"

definition limit_view :: "ASDM_SDR_RECORD \<Rightarrow> u8 \<Rightarrow> u32 \<Rightarrow> u8 list" where
  "limit_view r bt v = limit_data r bt v @ drop (length (limit_data r bt v)) zero_limit"

lemma emits_put_if [writes]:
  "field_ok 4 (xSensorValue r) \<Longrightarrow> emits (put_if r bt v) (limit_data r bt v)"
  using emits_put_copy[of "record_len (xSensorValue r)" "le_bytes v"] emits_id
  by (simp add: put_if_def[abs_def] limit_data_def field_ok_def)

lemma reads_if:
  assumes "field_ok 4 (xSensorValue r)" "threshold_support h = ucThresholdSupportedBitMask r"
    "value_len h = record_len (xSensorValue r)"
  shows "reads (read_if h bt zero_limit) (limit_data r bt v) (limit_view r bt v)"
proof -
  have n: "unat (record_len (xSensorValue r)) \<le> 4" using assms(1) by (simp add: field_ok_def)
  then have l: "length (take (unat (record_len (xSensorValue r))) (le_bytes v)) = unat (record_len (xSensorValue r))"
    by simp
  have "reads (copy_in zero_limit (unat (record_len (xSensorValue r))))
      (take (unat (record_len (xSensorValue r))) (le_bytes v))
      (take (unat (record_len (xSensorValue r))) (le_bytes v) @ drop (unat (record_len (xSensorValue r))) zero_limit)"
    using n by (intro reads_copy_in l) (simp add: zero_limit_def SDR_THRESHOLD_MAX_LEN_def)
  then show ?thesis
    using assms n reads_return[of zero_limit]
    by (simp add: read_if_def[abs_def] limit_data_def limit_view_def)
qed

section \<open>Sensor records\<close>

definition sdr_data :: "ASDM_SDR_RECORD \<Rightarrow> u8 list" where
  "sdr_data r = [sdrId r] @ (type_len (xSensorName r) # field_data (xSensorName r)) @
     (type_len (xSensorValue r) # field_data (xSensorValue r)) @
     (type_len (xSensorBaseUnit r) # field_data (xSensorBaseUnit r)) @
     [cUnitModifier r] @ [ucThresholdSupportedBitMask r] @
     limit_data r 0x20 (ulLowerFatalLimit r) @ limit_data r 0x10 (ulLowerCritLimit r) @
     limit_data r 0x08 (ulLowerWarnLimit r) @ limit_data r 0x04 (ulUpperFatalLimit r) @
     limit_data r 0x02 (ulUpperCritLimit r) @ limit_data r 0x01 (ulUpperWarnLimit r) @
     [ucSensorStatus r] @
     limit_data r 0x40 (ulAverageValue r) @ limit_data r 0x80 (ulMaxValue r)"

definition sdr_ok :: "ASDM_SDR_RECORD \<Rightarrow> bool" where
  "sdr_ok r \<longleftrightarrow> field_ok 32 (xSensorName r) \<and> field_ok 4 (xSensorValue r) \<and>
     field_ok 32 (xSensorBaseUnit r)"

text \<open>The record on the host: fields and limits that are absent stay zero.\<close>

definition host_record :: "ASDM_SDR_RECORD \<Rightarrow> sdr_record" where
  "host_record r = \<lparr>rec_id = sdrId r,
     name_type = fldType (xSensorName r) AND ASDM_RECORD_FIELD_TYPE_MASK,
     name_len = record_len (xSensorName r),
     rec_name = field_data (xSensorName r) @ drop (unat (record_len (xSensorName r))) zero_value,
     value_type = fldType (xSensorValue r) AND ASDM_RECORD_FIELD_TYPE_MASK,
     value_len = record_len (xSensorValue r),
     rec_value = field_data (xSensorValue r) @ drop (unat (record_len (xSensorValue r))) zero_value,
     unit_type = fldType (xSensorBaseUnit r) AND ASDM_RECORD_FIELD_TYPE_MASK,
     unit_len = record_len (xSensorBaseUnit r),
     rec_unit = field_data (xSensorBaseUnit r) @ drop (unat (record_len (xSensorBaseUnit r))) zero_value,
     unit_mod = cUnitModifier r, threshold_support = ucThresholdSupportedBitMask r,
     lower_fatal_limit = limit_view r 0x20 (ulLowerFatalLimit r),
     lower_crit_limit = limit_view r 0x10 (ulLowerCritLimit r),
     lower_warn_limit = limit_view r 0x08 (ulLowerWarnLimit r),
     upper_warn_limit = limit_view r 0x01 (ulUpperWarnLimit r),
     upper_crit_limit = limit_view r 0x02 (ulUpperCritLimit r),
     upper_fatal_limit = limit_view r 0x04 (ulUpperFatalLimit r),
     sensor_status = ucSensorStatus r, rec_min = zero_limit,
     rec_max = limit_view r 0x80 (ulMaxValue r), rec_avg = limit_view r 0x40 (ulAverageValue r)\<rparr>"

lemma emits_sdr: "sdr_ok r \<Longrightarrow> emits (\<lambda>c. put_sdr_record r c \<bind> put_statistics r) (sdr_data r)"
proof -
  assume "sdr_ok r"
  then have ok: "field_ok 32 (xSensorName r)" "field_ok 4 (xSensorValue r)"
      "field_ok 32 (xSensorBaseUnit r)"
    by (simp_all add: sdr_ok_def)
  show ?thesis
    unfolding put_sdr_record_def put_statistics_def sdr_data_def asdm_masks bind_assoc
    by (intro emits_bind emits_put8 emits_field[OF ok(1)] emits_field[OF ok(2)] emits_field[OF ok(3)]
        emits_put_if[OF ok(2)])
qed

lemma reads_sdr: "sdr_ok r \<Longrightarrow> reads (parse_record zero_rec) (sdr_data r) (host_record r)"
proof -
  assume "sdr_ok r"
  then have ok: "field_ok 32 (xSensorName r)" "field_ok 4 (xSensorValue r)"
      "field_ok 32 (xSensorBaseUnit r)"
    by (simp_all add: sdr_ok_def)
  have v: "(32 :: nat) \<le> length zero_value" "(4 :: nat) \<le> length zero_value"
    by (simp_all add: zero_value_def SDR_VALUE_MAX_LEN_def)
  note steps = reads_bind[OF reads_next_byte] reads_bind[OF reads_tl_field[OF ok(1) v(1)]]
    reads_bind[OF reads_tl_field[OF ok(2) v(2)]] reads_bind[OF reads_tl_field[OF ok(3) v(1)]]
  note limit = reads_bind[OF reads_if[OF ok(2)]]
  show ?thesis
    unfolding parse_record_def[abs_def] sdr_data_def host_record_def Let_def
    by ((rule steps limit; simp only: zero_rec_def prod.case sdr_record.simps)+,
        rule reads_map[OF reads_if[OF ok(2)]], simp_all)
qed

section \<open>Codecs\<close>

locale codec =
  fixes put :: "'a \<Rightarrow> cursor \<Rightarrow> cursor option"
    and get :: "'b reader"
    and enc :: "'a \<Rightarrow> u8 list"
    and view :: "'a \<Rightarrow> 'b"
    and ok :: "'a \<Rightarrow> bool"
  assumes put_enc: "ok a \<Longrightarrow> emits (put a) (enc a)"
    and get_enc: "ok a \<Longrightarrow> reads get (enc a) (view a)"
begin

lemma put_count:
  "list_all ok l \<Longrightarrow> i + n \<le> length l \<Longrightarrow>
   emits (for_count (\<lambda>i c. elem_at l i \<bind> (\<lambda>x. put x c)) n i) (concat (map enc (take n (drop i l))))"
proof (induction n arbitrary: i)
  case 0
  then show ?case using emits_id by (simp add: id_def[symmetric] emits_def)
next
  case (Suc n)
  then have i: "i < length l" "ok (l ! i)" by (auto simp: list_all_length)
  have "emits (\<lambda>c. put (l ! i) c \<bind> for_count (\<lambda>i c. elem_at l i \<bind> (\<lambda>x. put x c)) n (Suc i))
    (enc (l ! i) @ concat (map enc (take n (drop (Suc i) l))))"
    using Suc i by (intro emits_bind put_enc) simp_all
  then show ?case
    using i by (simp add: emits_def Cons_nth_drop_Suc[symmetric])
qed

lemma put_list:
  "list_all ok l \<Longrightarrow>
   emits (for_count (\<lambda>i c. elem_at l i \<bind> (\<lambda>x. put x c)) (length l) 0) (concat (map enc l))"
  using put_count[of l 0 "length l"] by simp

lemma get_list:
  "list_all ok l \<Longrightarrow> reads (read_list get (length l)) (concat (map enc l)) (map view l)"
proof (induction l)
  case Nil
  then show ?case by (simp add: reads_def)
next
  case (Cons a l)
  then have "reads get (enc a) (view a)" "reads (read_list get (length l)) (concat (map enc l)) (map view l)"
    using get_enc by simp_all
  then show ?case
    by (simp add: reads_def) (metis (no_types, lifting) append.assoc bind.bind_lunit
        case_prod_conv length_append add.assoc)
qed

end

interpretation sdr: codec "\<lambda>r c. put_sdr_record r c \<bind> put_statistics r" "parse_record zero_rec"
    sdr_data host_record sdr_ok
  by unfold_locales (simp_all add: emits_sdr reads_sdr)

subsection \<open>Entries of the flash partition table\<close>

definition host_partition :: "ASDM_FPT_ENTRY \<Rightarrow> fpt_partition" where
  "host_partition e = \<lparr>part_type = ulType e, base_addr = ulBaseAddr e, partition_size = ulPartitionSize e\<rparr>"

lemma reads_u32: "reads read_u32 (le_bytes v) v"
  by (simp add: reads_def read_u32_def rd32_def)

lemma reads_partition: "reads parse_partition (entry_bytes e) (host_partition e)"
  unfolding parse_partition_def[abs_def] entry_bytes_def host_partition_def
  by (rule reads_bind[OF reads_u32], simp, rule reads_bind[OF reads_u32], simp,
      rule reads_map[OF reads_u32])

interpretation fpt: codec "\<lambda>e. put_bytes (entry_bytes e)" parse_partition entry_bytes host_partition
    "\<lambda>e. True"
  by unfold_locales (simp_all add: emits_put_bytes reads_partition)

subsection \<open>Fields of the board information\<close>

definition board_data :: "ASDM_RECORD_FIELD \<Rightarrow> u8 list" where
  "board_data f = [fldType f] @ [fldLength f] @ take (unat (fldLength f)) (pucBytesValue f)"

definition board_ok :: "ASDM_RECORD_FIELD \<Rightarrow> bool" where
  "board_ok f \<longleftrightarrow> unat (fldLength f) \<le> 32 \<and> length (pucBytesValue f) = 32"

definition host_field :: "ASDM_RECORD_FIELD \<Rightarrow> field_info" where
  "host_field f = \<lparr>field_type = fldType f, field_len = fldLength f,
     field_bytes = take (unat (fldLength f)) (pucBytesValue f) @ drop (unat (fldLength f)) zero_value\<rparr>"

lemma emits_board: "board_ok f \<Longrightarrow> emits (put_board_field f) (board_data f)"
  unfolding put_board_field_def[abs_def] board_data_def board_ok_def
  by (intro emits_bind emits_put8 emits_put_copy) simp

lemma reads_board:
  assumes "board_ok f"
  shows "reads (parse_field zero_info) (board_data f) (host_field f)"
proof -
  have z: "field_bytes zero_info = zero_value" by (simp add: zero_info_def)
  have "length (take (unat (fldLength f)) (pucBytesValue f)) = unat (fldLength f)"
    "unat (fldLength f) \<le> length zero_value"
    using assms by (simp_all add: board_ok_def zero_value_def SDR_VALUE_MAX_LEN_def)
  note copy = reads_copy_in[OF this]
  show ?thesis
    unfolding parse_field_def[abs_def] board_data_def host_field_def z
    by (rule reads_bind[OF reads_next_byte], simp only: prod.case,
        rule reads_bind[OF reads_next_byte], simp only: prod.case, rule reads_map[OF copy])
qed

interpretation board: codec put_board_field "parse_field zero_info" board_data host_field board_ok
  by unfold_locales (simp_all add: emits_board reads_board)

end
