(* ===== verification/AsdmTransport.thy ===== *)
theory AsdmTransport
  imports AsdmCodec
begin

text \<open>
  From the repository of the firmware to that of the host: the bytes of an answer, what the
  firmware puts into the buffer and what the host makes of it, for all types of repository.
\<close>

section \<open>The records as bytes\<close>

definition header_bytes :: "ASDM_SENSOR_HEADER \<Rightarrow> u8 list" where
  "header_bytes h = [ucRepoType h, ucRepoVersionNum h, ucTotalNumRecords h] @ le16 (usTotalNumBytes h)"

definition fpt_header_bytes :: "ASDM_FPT_HEADER \<Rightarrow> u8 list" where
  "fpt_header_bytes h = [ucFptVersion h, ucFptHeaderSize h, ucFptEntrySize h, ucNumEnteries h]"

definition entries_of :: "ASDM_FPT_ENTRY list option \<Rightarrow> u8 \<Rightarrow> ASDM_FPT_ENTRY list" where
  "entries_of es n = (if n = 0 then [] else the es)"

definition entries_ok :: "ASDM_FPT_ENTRY list option \<Rightarrow> u8 \<Rightarrow> bool" where
  "entries_ok es n \<longleftrightarrow> n = 0 \<or> (\<exists>l. es = Some l \<and> length l = unat n)"

fun payload :: "ASDM_SDR_DATA \<Rightarrow> u8 list" where
  "payload (SensorRecords l) = concat (map sdr_data (the l))"
| "payload (FptRecord r) =
     fpt_header_bytes (xFptHdrPrimary r) @
     concat (map entry_bytes (entries_of (pxFptEntryPrimary r) (ucNumEnteries (xFptHdrPrimary r)))) @
     fpt_header_bytes (xFptHdrSecondary r) @
     concat (map entry_bytes (entries_of (pxFptEntrySecondary r) (ucNumEnteries (xFptHdrSecondary r))))"
| "payload (BoardInfo b) = concat (map (\<lambda>f. board_data (b f)) board_fields)"

text \<open>The data of repository \<open>repo\<close> with \<open>n\<close> records.\<close>

fun data_ok :: "nat \<Rightarrow> nat \<Rightarrow> ASDM_SDR_DATA \<Rightarrow> bool" where
  "data_ok repo n (SensorRecords l) \<longleftrightarrow>
     repo \<le> AMC_ASDM_SUPPORTED_REPO_TOTAL_POWER \<and> (\<exists>rs. l = Some rs \<and> length rs = n \<and> list_all sdr_ok rs)"
| "data_ok repo n (FptRecord r) \<longleftrightarrow>
     repo = AMC_ASDM_SUPPORTED_REPO_FPT \<and>
     entries_ok (pxFptEntryPrimary r) (ucNumEnteries (xFptHdrPrimary r)) \<and>
     entries_ok (pxFptEntrySecondary r) (ucNumEnteries (xFptHdrSecondary r))"
| "data_ok repo n (BoardInfo b) \<longleftrightarrow>
     repo = AMC_ASDM_SUPPORTED_REPO_BOARD_INFO \<and> (\<forall>f. board_ok (b f))"

section \<open>The same on the host\<close>

primrec board_of :: "bd_field \<Rightarrow> BOARD_FIELD" where
  "board_of eeprom_version = xEepromVersion" | "board_of product_name = xProductName"
| "board_of board_rev = xBoardRev" | "board_of board_serial = xBoardSerial"
| "board_of mac_addr_count = xMacAddressCount" | "board_of first_mac_addr = xFirstMacAddress"
| "board_of active_state = xActiveState" | "board_of config_mode = xConfigMode"
| "board_of manufacturing_date = xManufacturingDate" | "board_of part_number = xPartNumber"
| "board_of uuid = xUuid" | "board_of pcie_id = xPcieId" | "board_of power_mode = xMaxPowerMode"
| "board_of memory_size = xMemorySize" | "board_of oem_id = xOemId"
| "board_of capability = xCapability" | "board_of mfg_part_number = xMfgPartNumber"

definition host_fpt_hdr :: "ASDM_FPT_HEADER \<Rightarrow> fpt_hdr" where
  "host_fpt_hdr h = \<lparr>fpt_version = ucFptVersion h, fpt_header_size = ucFptHeaderSize h,
     fpt_entry_size = ucFptEntrySize h, num_entries = ucNumEnteries h\<rparr>"

definition host_entries :: "ASDM_FPT_ENTRY list option \<Rightarrow> u8 \<Rightarrow> fpt_partition list option" where
  "host_entries es n = (if n = 0 then None else Some (map host_partition (the es)))"

fun host_data :: "ASDM_SDR_DATA \<Rightarrow> repo_data" where
  "host_data (SensorRecords l) = Records (Some (map host_record (the l)))"
| "host_data (FptRecord r) = Fpt \<lparr>hdr_primary = host_fpt_hdr (xFptHdrPrimary r),
     partition_primary = host_entries (pxFptEntryPrimary r) (ucNumEnteries (xFptHdrPrimary r)),
     hdr_secondary = host_fpt_hdr (xFptHdrSecondary r),
     partition_secondary = host_entries (pxFptEntrySecondary r) (ucNumEnteries (xFptHdrSecondary r))\<rparr>"
| "host_data (BoardInfo b) = BdInfo (Some (\<lambda>f. default_power f (host_field (b (board_of f)))))"

definition host_repo :: "ASDM_SDR \<Rightarrow> sdr_repo" where
  "host_repo e = \<lparr>repo_type = ucRepoType (sdrHdr e), repo_ver = ucRepoVersionNum (sdrHdr e),
     num_records = ucTotalNumRecords (sdrHdr e), repo_size = usTotalNumBytes (sdrHdr e),
     last_update = 0, repo_data = host_data (sdrData e)\<rparr>"

section \<open>What the firmware writes\<close>

lemma emits_entries:
  assumes "entries_ok es n"
  shows "emits (put_entries es n) (concat (map entry_bytes (entries_of es n)))"
proof (cases "n = 0")
  case True
  then show ?thesis using emits_id by (simp add: emits_def put_entries_def entries_of_def)
next
  case False
  then obtain l where "es = Some l" "length l = unat n" using assms by (auto simp: entries_ok_def)
  then show ?thesis
    using fpt.put_list[of l] False by (simp add: put_entries_def[abs_def] entries_of_def list_all_iff)
qed

lemma emits_fpt:
  assumes "entries_ok (pxFptEntryPrimary r) (ucNumEnteries (xFptHdrPrimary r))"
    "entries_ok (pxFptEntrySecondary r) (ucNumEnteries (xFptHdrSecondary r))"
  shows "emits (put_fpt r) (payload (FptRecord r))"
  unfolding put_fpt_def[abs_def] put_fpt_header_def payload.simps fpt_header_bytes_def
  by (intro emits_bind emits_put_bytes emits_entries assms)

lemma emits_fold:
  "\<forall>f \<in> set fs. board_ok (b f) \<Longrightarrow>
   emits (\<lambda>c. fold (\<lambda>f a. a \<bind> put_board_field (b f)) fs (Some c)) (concat (map (\<lambda>f. board_data (b f)) fs))"
proof (induction fs)
  case Nil
  then show ?case using emits_id by (simp add: emits_def)
next
  case (Cons f fs)
  have none: "fold (\<lambda>f a. a \<bind> put_board_field (b f)) fs None = None" by (induction fs) auto
  have eq: "fold (\<lambda>f a. a \<bind> put_board_field (b f)) (f # fs) (Some c)
      = put_board_field (b f) c \<bind> (\<lambda>d. fold (\<lambda>f a. a \<bind> put_board_field (b f)) fs (Some d))" for c
    by (cases "put_board_field (b f) c") (simp_all add: none)
  show ?case
    unfolding eq using Cons by (auto intro!: emits_bind emits_board)
qed

lemma emits_board_info: "\<forall>f. board_ok (b f) \<Longrightarrow> emits (put_board b) (payload (BoardInfo b))"
  using emits_fold[of board_fields b] by (simp add: put_board_def[abs_def])

lemma emits_records:
  assumes "list_all sdr_ok l" "length l = unat (ucTotalNumRecords (sdrHdr e))"
    "sdrData e = SensorRecords (Some l)"
  shows "emits (put_records (\<lambda>r c. put_sdr_record r c \<bind> put_statistics r) e) (payload (sdrData e))"
  using sdr.put_list[OF assms(1)] assms(2,3) by (simp add: put_records_def[abs_def])

lemma put_at_start:
  "length bs \<le> length b \<Longrightarrow> put_bytes bs (b, 0) = Some (bs @ drop (length bs) b, of_nat (length bs))"
  by (simp add: put_bytes_def)

text \<open>The body of the answer writes the payload.\<close>

lemma sdr_body_emits:
  assumes "asdm_guarded s" "repo_of_type t = Some repo" "ucNumFound (pxSensorList s ! repo) \<noteq> 0"
    "get_sdr repo s = Some e" "data_ok repo (unat (ucTotalNumRecords (sdrHdr e))) (sdrData e)"
    "fits c (length (payload (sdrData e)))"
  shows "sdr_body t repo e c s = map_option (\<lambda>c'. (OK, c', s)) (put_bytes (payload (sdrData e)) c)"
proof -
  obtain buf p where c: "c = (buf, p)" by (cases c)
  show ?thesis
  proof (cases "sdrData e")
  case (SensorRecords l)
  then obtain rs where "l = Some rs" "length rs = unat (ucTotalNumRecords (sdrHdr e))"
    "list_all sdr_ok rs" "repo \<le> 4" using assms(5) by auto
  with emits_records[of rs e] SensorRecords assms c show ?thesis
    by (simp add: sdr_body_def emits_def)
next
  case (FptRecord r)
  with emits_fpt[of r] assms c show ?thesis by (simp add: sdr_body_def emits_def)
next
  case (BoardInfo b)
  let ?bs = "payload (sdrData e)"
  have fit: "unat p + length ?bs \<le> length buf" "length buf < 2 ^ 16" using assms(6) c by (auto simp: fits_def)
  then have "fits (drop (unat p) buf, 0) (length ?bs)" by (auto simp: fits_def)
  then have "put_board b (drop (unat p) buf, 0) = put_bytes ?bs (drop (unat p) buf, 0)"
    using emits_board_info[of b] assms(5) BoardInfo unfolding emits_def by auto
  also have "\<dots> = Some (?bs @ drop (unat p + length ?bs) buf, of_nat (length ?bs))"
    using fit by (subst put_at_start) (auto simp: add.commute)
  finally have put: "put_board b (drop (unat p) buf, 0) = \<dots>" .
  have "repo = 6" using assms(5) BoardInfo by simp
  with put fit assms c BoardInfo show ?thesis
    by (simp add: sdr_body_def iPopulateAsdmSdrBoardInfoResponse_def iMapAsdmRepo_def board_info.simps
        put_bytes_def wr_bytes_def)
  qed
qed

definition sdr_image :: "ASDM_SDR \<Rightarrow> u8 list" where
  "sdr_image e = header_bytes (sdrHdr e) @ payload (sdrData e) @ sdrEor e"

lemma step_put:
  assumes "emits f bs" "fits c (length bs + n)"
  obtains d where "f c = Some d" "put_bytes bs c = Some d" "fits d n"
proof -
  have f: "fits c (length bs)" using assms(2) fits_mono by fastforce
  then obtain d where "put_bytes bs c = Some d"
    by (cases c) (auto simp: put_bytes_eq)
  with f assms put_bytes_fits that show ?thesis
    unfolding emits_def by metis
qed

text \<open>The state after an answer: the counters and the world.\<close>

definition after_answer :: "'w asdm_env \<Rightarrow> 'w asdm \<Rightarrow> 'w asdm" where
  "after_answer env s =
     asdm_inc_stat ASDM_STATS_RELEASE_MUTEX ((asdm_inc_stat ASDM_STATS_TAKE_MUTEX
       (asdm_inc_stat ASDM_STATS_ASDM_GET_SDR_API s))
       \<lparr>asdmWorld := snd (asdmMutexRelease env (snd (asdmMutexTake env (asdmWorld s))))\<rparr>)"

definition mutex_works :: "'w asdm_env \<Rightarrow> 'w \<Rightarrow> bool" where
  "mutex_works env w \<longleftrightarrow> fst (asdmMutexTake env w) \<and> fst (asdmMutexRelease env (snd (asdmMutexTake env w)))"

lemma get_sdr_answers:
  assumes s: "asdm_guarded s" "repo_of_type t = Some repo" "ucNumFound (pxSensorList s ! repo) \<noteq> 0"
      "get_sdr repo s = Some e"
    and e: "data_ok repo (unat (ucTotalNumRecords (sdrHdr e))) (sdrData e)"
    and room: "1 + length (sdr_image e) \<le> length b" "length b < 2 ^ 16"
    and m: "mutex_works env (asdmWorld s)"
  shows "iPopulateAsdmGetSdrResponse env t (b, sz) s = Some (OK,
    (1 # sdr_image e @ drop (1 + length (sdr_image e)) b, of_nat (1 + length (sdr_image e))),
    after_answer env s)"
proof -
  let ?n1 = "length (header_bytes (sdrHdr e))" and ?n2 = "length (payload (sdrData e))"
    and ?n3 = "length (sdrEor e)"
  have fit: "fits (b, 0) (length [1 :: u8] + (?n1 + (?n2 + ?n3)))"
    using room by (simp add: fits_def sdr_image_def)
  obtain c1 where c1: "put8 1 (b, 0) = Some c1" "put_bytes [1] (b, 0) = Some c1" "fits c1 (?n1 + (?n2 + ?n3))"
    using step_put[OF emits_put8 fit] .
  have "put_header (sdrHdr e) = put_bytes (header_bytes (sdrHdr e))"
    by (simp add: put_header_def header_bytes_def)
  with step_put[OF emits_put_bytes c1(3)] obtain c2
    where c2: "put_header (sdrHdr e) c1 = Some c2" "put_bytes (header_bytes (sdrHdr e)) c1 = Some c2"
      "fits c2 (?n2 + ?n3)" by metis
  obtain c3 where c3: "put_bytes (payload (sdrData e)) c2 = Some c3" "fits c3 (?n3 + 0)"
    using step_put[OF emits_put_bytes c2(3)] by auto
  obtain c4 where c4: "put_bytes (sdrEor e) c3 = Some c4"
    using step_put[OF emits_put_bytes c3(2)] by metis
  have all: "put_bytes (1 # sdr_image e) (b, 0) = Some c4"
  proof -
    have "put_bytes (payload (sdrData e) @ sdrEor e) c2 = Some c4"
      using put_bytes_put_bytes[OF c2(3)] c3 c4 by simp
    then have "put_bytes (sdr_image e) c1 = Some c4"
      using put_bytes_put_bytes[of c1 "header_bytes (sdrHdr e)" "payload (sdrData e) @ sdrEor e"] c1(3) c2
      by (simp add: sdr_image_def)
    then show ?thesis
      using put_bytes_put_bytes[of "(b, 0)" "[1]" "sdr_image e"] fit c1 by (simp add: sdr_image_def)
  qed
  have c4_eq: "c4 = (1 # sdr_image e @ drop (1 + length (sdr_image e)) b, of_nat (1 + length (sdr_image e)))"
    using all put_at_start[of "1 # sdr_image e" b] room by simp
  obtain w1 w2 where w: "asdmMutexTake env (asdmWorld s) = (True, w1)" "asdmMutexRelease env w1 = (True, w2)"
    using m by (cases "asdmMutexTake env (asdmWorld s)",
        cases "asdmMutexRelease env (snd (asdmMutexTake env (asdmWorld s)))") (auto simp: mutex_works_def)
  let ?s = "asdm_inc_stat ASDM_STATS_TAKE_MUTEX ((asdm_inc_stat ASDM_STATS_ASDM_GET_SDR_API s)
      \<lparr>asdmWorld := w1\<rparr>)"
  have "sdr_body t repo e c2 ?s = Some (OK, c3, ?s)"
    using sdr_body_emits[of ?s t repo e c2] s e c3(1) fits_mono[OF c2(3), of ?n2]
    by (simp add: asdm_guarded_def asdm_inc_stat_def get_sdr_def)
  moreover have "get_sdr repo ?s = Some e" using s(4) by (simp add: asdm_inc_stat_def get_sdr_def)
  ultimately show ?thesis
    using s w c1(1) c2(1) c4 c4_eq
    by (simp add: iPopulateAsdmGetSdrResponse_def sdr_answer_def iMapAsdmRepo_def with_asdm_mutex_def
        outside_def asdm_guarded_def asdm_inc_stat_def after_answer_def
        ASDM_SDR_COMPLETION_CODE_OPERATION_SUCCESS_def)
qed

section \<open>What the host reads\<close>

lemma reads_fpt_hdr: "reads parse_fpt_hdr (fpt_header_bytes h) (host_fpt_hdr h)"
proof -
  have "fpt_header_bytes h = [ucFptVersion h] @ [ucFptHeaderSize h] @ [ucFptEntrySize h] @ [ucNumEnteries h]"
    by (simp add: fpt_header_bytes_def)
  then show ?thesis
    unfolding parse_fpt_hdr_def[abs_def] host_fpt_hdr_def
    by (simp only:) ((rule reads_bind[OF reads_next_byte]; simp only: prod.case)+,
        rule reads_map[OF reads_next_byte])
qed

lemma board_of_fields: "map board_of bd_fields = board_fields" "set bd_fields = UNIV" "distinct bd_fields"
proof -
  show "map board_of bd_fields = board_fields" by (simp add: bd_fields_def board_fields_def)
  have "f \<in> set bd_fields" for f by (cases f) (simp_all add: bd_fields_def)
  then show "set bd_fields = UNIV" by blast
  show "distinct bd_fields" by (simp add: bd_fields_def)
qed

lemma reads_fields:
  assumes "\<forall>f. board_ok (b f)" "distinct fs" "\<forall>f \<in> set fs. r f = zero_info"
  shows "reads (parse_fields fs r) (concat (map (\<lambda>f. board_data (b (board_of f))) fs))
    (\<lambda>f. if f \<in> set fs then default_power f (host_field (b (board_of f))) else r f)"
  using assms
proof (induction fs arbitrary: r)
  case Nil
  then show ?case by (simp add: reads_def)
next
  case (Cons f fs)
  let ?x = "default_power f (host_field (b (board_of f)))"
  have r: "r f = zero_info" using Cons by simp
  have "reads (parse_fields fs (r(f := ?x))) (concat (map (\<lambda>f. board_data (b (board_of f))) fs))
    (\<lambda>g. if g \<in> set fs then default_power g (host_field (b (board_of g))) else (r(f := ?x)) g)"
    using Cons by (intro Cons.IH) auto
  moreover have "(\<lambda>g. if g \<in> set fs then default_power g (host_field (b (board_of g))) else (r(f := ?x)) g)
     = (\<lambda>g. if g \<in> set (f # fs) then default_power g (host_field (b (board_of g))) else r g)"
    using Cons.prems(2) by auto
  ultimately have IH: "reads (parse_fields fs (r(f := ?x))) (concat (map (\<lambda>f. board_data (b (board_of f))) fs))
    (\<lambda>g. if g \<in> set (f # fs) then default_power g (host_field (b (board_of g))) else r g)" by simp
  show ?case
    unfolding parse_fields.simps(2)[abs_def] list.map concat.simps r
    by (rule reads_bind[OF board.get_enc]) (use Cons IH in simp_all)
qed

lemma parse_partitions_reads:
  assumes "\<And>w. fst (kzalloc env w)" "entries_ok es n"
  shows "\<exists>w'. parse_partitions env n None
      (pre @ concat (map entry_bytes (entries_of es n)) @ rest) (length pre) w =
    Some (host_entries es n, length pre + length (concat (map entry_bytes (entries_of es n))), w')"
proof (cases "n = 0")
  case True
  then show ?thesis by (simp add: parse_partitions_def entries_of_def host_entries_def)
next
  case False
  then obtain l where l: "es = Some l" "length l = unat n" using assms(2) by (auto simp: entries_ok_def)
  have "read_list parse_partition (unat n) (pre @ concat (map entry_bytes l) @ rest) (length pre)
      = Some (map host_partition l, length pre + length (concat (map entry_bytes l)))"
    using fpt.get_list[of l] l(2) by (simp add: reads_def list_all_iff)
  then show ?thesis
    using False l assms(1)[of w]
    by (cases "kzalloc env w") (simp add: parse_partitions_def entries_of_def host_entries_def)
qed

lemma parse_fpt_reads:
  assumes alloc: "\<And>w. fst (kzalloc env w)"
    and ok: "entries_ok (pxFptEntryPrimary r) (ucNumEnteries (xFptHdrPrimary r))"
      "entries_ok (pxFptEntrySecondary r) (ucNumEnteries (xFptHdrSecondary r))"
  shows "\<exists>f w'. parse_fpt env zero_fpt (pre @ payload (FptRecord r) @ rest) (length pre) w =
    Some (f, length pre + length (payload (FptRecord r)), w') \<and> Fpt f = host_data (FptRecord r)"
proof -
  let ?h1 = "fpt_header_bytes (xFptHdrPrimary r)" and ?h2 = "fpt_header_bytes (xFptHdrSecondary r)"
  let ?e1 = "concat (map entry_bytes (entries_of (pxFptEntryPrimary r) (ucNumEnteries (xFptHdrPrimary r))))"
    and ?e2 = "concat (map entry_bytes (entries_of (pxFptEntrySecondary r) (ucNumEnteries (xFptHdrSecondary r))))"
  let ?b = "pre @ ?h1 @ ?e1 @ ?h2 @ ?e2 @ rest"
  have z: "partition_primary zero_fpt = None" "partition_secondary zero_fpt = None"
    by (simp_all add: zero_fpt_def Let_def)
  have 1: "parse_fpt_hdr ?b (length pre) = Some (host_fpt_hdr (xFptHdrPrimary r), length pre + length ?h1)"
    using reads_fpt_hdr[of "xFptHdrPrimary r"] by (simp add: reads_def)
  obtain w1 where 2: "parse_partitions env (ucNumEnteries (xFptHdrPrimary r)) None ?b (length pre + length ?h1) w
      = Some (host_entries (pxFptEntryPrimary r) (ucNumEnteries (xFptHdrPrimary r)),
              length pre + length ?h1 + length ?e1, w1)"
    using parse_partitions_reads[OF alloc ok(1), of "pre @ ?h1" "?h2 @ ?e2 @ rest" w] by auto
  have 3: "parse_fpt_hdr ?b (length pre + length ?h1 + length ?e1) =
      Some (host_fpt_hdr (xFptHdrSecondary r), length pre + length ?h1 + length ?e1 + length ?h2)"
    using reads_fpt_hdr[of "xFptHdrSecondary r", unfolded reads_def, rule_format, of "pre @ ?h1 @ ?e1" "?e2 @ rest"]
    by (simp add: add.assoc)
  obtain w2 where 4: "parse_partitions env (ucNumEnteries (xFptHdrSecondary r)) None ?b
      (length pre + length ?h1 + length ?e1 + length ?h2) w1
      = Some (host_entries (pxFptEntrySecondary r) (ucNumEnteries (xFptHdrSecondary r)),
              length pre + length ?h1 + length ?e1 + length ?h2 + length ?e2, w2)"
    using parse_partitions_reads[OF alloc ok(2), of "pre @ ?h1 @ ?e1 @ ?h2" rest w1] by (auto simp: add.assoc)
  have n: "num_entries (host_fpt_hdr h) = ucNumEnteries h" for h by (simp add: host_fpt_hdr_def)
  have b: "pre @ payload (FptRecord r) @ rest = ?b" by simp
  show ?thesis
    unfolding b parse_fpt_def 1 bind.bind_lunit prod.case n z 2 3 4 by simp
qed

lemma parse_body_reads:
  assumes alloc: "\<And>w. fst (kzalloc env w)"
    and ok: "data_ok repo (unat (num_records r)) d"
    and r: "repo_of_type (repo_type r) = Some repo" "repo_data r = Records None"
  shows "\<exists>w'. parse_body env r (pre @ payload d @ rest) (length pre) w =
    Some (Inr (length pre + length (payload d)), r\<lparr>repo_data := host_data d\<rparr>, w')"
proof (cases d)
  case (SensorRecords l)
  then obtain rs where l: "l = Some rs" "length rs = unat (num_records r)" "list_all sdr_ok rs" "repo \<le> 4"
    using ok by auto
  have "is_sensor_type (repo_type r)" "repo_type r \<noteq> SDR_TYPE_FPT" "repo_type r \<noteq> SDR_TYPE_BDINFO"
    using r(1) l(4) by (auto simp: repo_of_type_def is_sensor_type_def split: if_splits)
  moreover have "read_list (parse_record zero_rec) (unat (num_records r)) (pre @ payload d @ rest) (length pre)
      = Some (map host_record rs, length pre + length (payload d))"
    using sdr.get_list[OF l(3)] l SensorRecords by (simp add: reads_def)
  ultimately show ?thesis
    using alloc[of w] l SensorRecords by (cases "kzalloc env w") (simp add: parse_body_def)
next
  case (FptRecord f)
  then have "repo_type r = SDR_TYPE_FPT"
    using r(1) ok by (auto simp: repo_of_type_def split: if_splits)
  with parse_fpt_reads[OF alloc, of f pre rest w] FptRecord ok r(2) show ?thesis
    by (auto simp: parse_body_def)
next
  case (BoardInfo b)
  then have t: "repo_type r = SDR_TYPE_BDINFO" "repo_type r \<noteq> SDR_TYPE_FPT"
    using r(1) ok by (auto simp: repo_of_type_def split: if_splits)
  have "concat (map (\<lambda>f. board_data (b (board_of f))) bd_fields) = payload d"
    using board_of_fields(1) BoardInfo by (simp flip: board_of_fields(1) add: o_def)
  then have "parse_fields bd_fields (\<lambda>_. zero_info) (pre @ payload d @ rest) (length pre) =
      Some (\<lambda>f. default_power f (host_field (b (board_of f))), length pre + length (payload d))"
    using reads_fields[of b bd_fields "\<lambda>_. zero_info"] board_of_fields BoardInfo ok
    by (simp add: reads_def)
  then show ?thesis
    using alloc[of w] t BoardInfo by (cases "kzalloc env w") (simp add: parse_body_def)
qed

lemma parse_sdr_reads:
  assumes alloc: "\<And>w. fst (kzalloc env w)"
    and ok: "data_ok repo (unat (ucTotalNumRecords (sdrHdr e))) (sdrData e)"
    and h: "repo_of_type (ucRepoType (sdrHdr e)) = Some repo" "ucTotalNumRecords (sdrHdr e) \<noteq> 0"
      "usTotalNumBytes (sdrHdr e) \<noteq> 0" "sdrEor e = ASDM_EOR_MARKER"
  shows "\<exists>w'. parse_sdr env (sdr_image e @ rest) zero_repo w = Some (0, host_repo e, w')"
proof -
  let ?h = "sdrHdr e" and ?b = "sdr_image e @ rest"
  let ?r = "zero_repo\<lparr>repo_type := ucRepoType ?h, repo_ver := ucRepoVersionNum ?h,
    num_records := ucTotalNumRecords ?h, repo_size := usTotalNumBytes ?h\<rparr>"
  have l5: "length (header_bytes ?h) = 5" by (simp add: header_bytes_def)
  obtain w' where body: "parse_body env ?r ?b 5 w =
      Some (Inr (5 + length (payload (sdrData e))), ?r\<lparr>repo_data := host_data (sdrData e)\<rparr>, w')"
    using parse_body_reads[OF alloc, of repo ?r "sdrData e" "header_bytes ?h" "sdrEor e @ rest" w] ok h(1) l5
    by (auto simp: sdr_image_def zero_repo_def)
  have fields: "rd8 ?b 0 = Some (ucRepoType ?h)" "rd8 ?b 1 = Some (ucRepoVersionNum ?h)"
      "rd8 ?b 2 = Some (ucTotalNumRecords ?h)" "rd16 ?b 3 = Some (usTotalNumBytes ?h)"
    by (simp_all add: sdr_image_def header_bytes_def rd16_def)
  have eor: "rd_bytes ?b (5 + length (payload (sdrData e))) 3 = Some SDR_EOR"
    using l5 h(4) by (simp add: sdr_image_def ASDM_EOR_MARKER_def SDR_EOR_def rd_bytes_def)
  show ?thesis
    using fields eor body h(2,3)
    by (simp add: parse_sdr_def host_repo_def zero_repo_def)
qed

end
