(* ===== verification/AsdmReady.thy ===== *)
theory AsdmReady
  imports AsdmTransport
begin

text \<open>
  What \<open>iInitAsdm\<close> builds when memory is available: every repository has its header, its end
  marker, and as many well formed records as the header says.
\<close>

section \<open>What the parts leave alone\<close>

text \<open>The table of SDRs, the lists, the firewalls and the numbers of boot devices.\<close>

definition still :: "'w asdm \<Rightarrow> 'w asdm \<Rightarrow> bool" where
  "still s s' \<longleftrightarrow> pxAsdmSdrInfo s' = pxAsdmSdrInfo s \<and> pxSensorList s' = pxSensorList s \<and>
     length (pxFptHeader s') = length (pxFptHeader s) \<and>
     length (ppxFptPartitions s') = length (ppxFptPartitions s) \<and>
     asdmUpperFirewall s' = asdmUpperFirewall s \<and> asdmLowerFirewall s' = asdmLowerFirewall s"

text \<open>The same but for repository \<open>repo\<close>.\<close>

definition only :: "nat \<Rightarrow> 'w asdm \<Rightarrow> 'w asdm \<Rightarrow> bool" where
  "only repo s s' \<longleftrightarrow> (\<forall>j. j \<noteq> repo \<longrightarrow> get_sdr j s' = get_sdr j s \<and> pxSensorList s' ! j = pxSensorList s ! j) \<and>
     (get_sdr repo s' = None) = (get_sdr repo s = None) \<and>
     length (pxSensorList s') = length (pxSensorList s) \<and>
     length (pxFptHeader s') = length (pxFptHeader s) \<and>
     length (ppxFptPartitions s') = length (ppxFptPartitions s) \<and>
     asdmUpperFirewall s' = asdmUpperFirewall s \<and> asdmLowerFirewall s' = asdmLowerFirewall s"

lemma still_refl [simp]: "still s s"
  by (simp add: still_def)

lemma still_trans: "still s t \<Longrightarrow> still t u \<Longrightarrow> still s u"
  by (simp add: still_def)

lemma only_refl [simp]: "only repo s s"
  by (simp add: only_def)

lemma only_trans: "only repo s t \<Longrightarrow> only repo t u \<Longrightarrow> only repo s u"
  by (simp add: only_def)

lemma still_only: "still s s' \<Longrightarrow> only repo s s'"
  by (simp add: still_def only_def get_sdr_def)

lemma still_counters [simp]:
  "still s (asdm_inc_stat k s') = still s s'" "still s (asdm_inc_error e s') = still s s'"
  "still s (asdm_free env s') = still s s'" "still s (s'\<lparr>asdmWorld := w\<rparr>) = still s s'"
  by (simp_all add: still_def asdm_inc_stat_def asdm_inc_error_def asdm_free_def)

lemma still_same:
  "still s s' \<Longrightarrow> get_sdr repo s' = get_sdr repo s"
  "still s s' \<Longrightarrow> asdm_guarded s' = asdm_guarded s"
  "still s s' \<Longrightarrow> pxSensorList s' = pxSensorList s"
  by (simp_all add: still_def get_sdr_def asdm_guarded_def)

lemma only_guarded: "only repo s s' \<Longrightarrow> asdm_guarded s' = asdm_guarded s"
  by (simp add: only_def asdm_guarded_def)

lemma outside_still: "outside f s = (a, s') \<Longrightarrow> still s s'"
  by (auto simp: outside_def split: prod.splits)

lemma maps_still:
  "iMapAsdmRepo t old s = (st, r, s') \<Longrightarrow> still s s'"
  "iMapUnitModifier m s = (st, v, s') \<Longrightarrow> still s s'"
  "iMapSensorTag r' o' s = (st, tag, s') \<Longrightarrow> still s s'"
  by (auto simp: iMapAsdmRepo_def iMapUnitModifier_def iMapSensorTag_def split: if_splits option.splits)

lemma upd_sdr_only:
  assumes "upd_sdr repo f s = Some s'"
  shows "only repo s s'" and "get_sdr repo s' = map_option f (get_sdr repo s)"
  using assms by (auto simp: upd_sdr_def only_def get_sdr_def split: option.splits)

lemma upd_sds_still: "upd_sds repo f s = Some s' \<Longrightarrow> still s s'"
  by (auto simp: upd_sds_def still_def)

lemma iPopulateSdr_still: "iPopulateSdr env ix t d r n s = Some (st, r', n', s') \<Longrightarrow> still s s'"
  by (auto simp: iPopulateSdr_def Let_def split: if_splits option.splits prod.splits bind_splits
      dest!: maps_still intro: still_trans)

lemma iPopulateSds_still: "iPopulateSds env ix t d r n s = (st, r', n', s') \<Longrightarrow> still s s'"
  by (auto simp: iPopulateSds_def Let_def split: if_splits option.splits prod.splits
      dest!: maps_still intro: still_trans)

section \<open>The record of a sensor\<close>

lemma le_bytes_take: "take 4 (le_bytes v) = le_bytes v"
  by simp

lemma field_ok_zero: "field_ok 4 zero_field" "field_ok 32 zero_field"
  by (simp_all add: field_ok_def zero_field_def record_len_def)

lemma sdr_ok_zero: "sdr_ok zero_sdr_record"
  by (simp add: sdr_ok_def zero_sdr_record_def field_ok_zero)

lemma of_nat_and_0x3F: "n < 64 \<Longrightarrow> unat ((of_nat n :: u8) AND 0x3F AND 0x3F) = n"
proof -
  assume n: "n < 64"
  have "(0x3F :: u8) = mask 6" by (simp add: mask_eq_exp_minus_1)
  then have "(of_nat n :: u8) AND 0x3F AND 0x3F = take_bit 6 (of_nat n)"
    by (simp add: take_bit_eq_mask)
  then show ?thesis using n by (simp add: take_bit_eq_mod unat_mod_distrib unat_of_nat)
qed

lemma text_field_ok:
  assumes "length str + 1 < 30" "length (pucBytesValue f) = 32"
  shows "field_ok 32 (text_field str f)"
proof -
  have "unat (record_len (text_field str f)) = length str + 1"
    using assms(1) of_nat_and_0x3F[of "length str + 1"]
    by (simp add: record_len_def text_field_def ASDM_RECORD_FIELD_LENGTH_MASK_def)
  then show ?thesis using assms by (simp add: field_ok_def text_field_def)
qed

lemma value_field_ok:
  assumes "length (pucBytesValue f) = 32"
  shows "field_ok 4 (set_fieldValue v (f\<lparr>fldLength := 4 AND ASDM_RECORD_FIELD_LENGTH_MASK\<rparr>))"
  using assms of_nat_and_0x3F[of 4]
  by (simp add: field_ok_def set_fieldValue_def record_len_def ASDM_RECORD_FIELD_LENGTH_MASK_def)

lemma add_limit_fields:
  assumes "\<And>v r. xSensorName (store v r) = xSensorName r" "\<And>v r. xSensorValue (store v r) = xSensorValue r"
    "\<And>v r. xSensorBaseUnit (store v r) = xSensorBaseUnit r"
  shows "sdr_ok (fst (add_limit v bt store p)) = sdr_ok (fst p)"
  using assms by (cases p) (simp add: add_limit_def sdr_ok_def)

lemma unit_short: "pcConvertRepoBaseUnitStr t = Some u \<Longrightarrow> length u \<le> 7"
  by (auto simp: pcConvertRepoBaseUnitStr_def split: if_splits)

lemma thresholds_ok: "iPopulateSdrThresholds rd s r n = (st, r', n') \<Longrightarrow> sdr_ok r' = sdr_ok r"
  by (auto simp: iPopulateSdrThresholds_def Let_def split: if_splits dest!: arg_cong[of _ _ "\<lambda>p. sdr_ok (fst p)"])
     (simp_all add: add_limit_fields)

lemma statistics_ok: "add_statistics rd p = (r', n') \<Longrightarrow> sdr_ok r' = sdr_ok (fst p)"
  by (drule arg_cong[of _ _ "\<lambda>p. sdr_ok (fst p)"]) (simp add: add_statistics_def add_limit_fields)

text \<open>The record stays well formed whatever the status is.\<close>

lemma iPopulateSdr_ok:
  assumes "iPopulateSdr env ix t d (Some r) n s = Some (st, r', n', s')" "sdr_ok r"
  shows "\<exists>q. r' = Some q \<and> sdr_ok q"
proof -
  have len: "length (pucBytesValue (xSensorName r)) = 32" "length (pucBytesValue (xSensorValue r)) = 32"
      "length (pucBytesValue (xSensorBaseUnit r)) = 32"
    using assms(2) by (simp_all add: sdr_ok_def field_ok_def)
  have built: "sdr_ok (r\<lparr>sdrId := i, xSensorName := text_field nm (xSensorName r),
      xSensorValue := set_fieldValue v ((xSensorValue r)\<lparr>fldLength := 4 AND ASDM_RECORD_FIELD_LENGTH_MASK\<rparr>),
      xSensorBaseUnit := text_field u (xSensorBaseUnit r)\<rparr>)"
    if "length nm + 1 < 30" "length u \<le> 7" for i nm v u
    using that len by (simp add: sdr_ok_def text_field_ok value_field_ok)
  have id: "sdr_ok (r\<lparr>sdrId := i\<rparr>) = sdr_ok r" "sdr_ok (q\<lparr>ucSensorStatus := x\<rparr>) = sdr_ok q"
    "sdr_ok (q\<lparr>cUnitModifier := y, ucThresholdSupportedBitMask := z\<rparr>) = sdr_ok q" for i q x y z
    by (simp_all add: sdr_ok_def)
  show ?thesis
    using assms(1)
    by (auto simp: iPopulateSdr_def Let_def ASDM_RECORD_FIELD_BYTES_MAX_def id assms(2)
        split: if_splits option.splits prod.splits bind_splits
        dest!: unit_short thresholds_ok statistics_ok intro!: built)
qed

section \<open>The records of a repository\<close>

text \<open>The data of repository \<open>repo\<close> are \<open>n\<close> well formed records under header \<open>h\<close>.\<close>

definition holds_records :: "nat \<Rightarrow> nat \<Rightarrow> ASDM_SENSOR_HEADER \<Rightarrow> 'w asdm \<Rightarrow> bool" where
  "holds_records repo n h s \<longleftrightarrow> (\<exists>e l. get_sdr repo s = Some e \<and> sdrHdr e = h \<and>
     sdrData e = SensorRecords (Some l) \<and> length l = n \<and> list_all sdr_ok l)"

lemma holds_still: "still s s' \<Longrightarrow> holds_records repo n h s' = holds_records repo n h s"
  by (simp add: holds_records_def still_same)

lemma list_all_store: "list_all P l \<Longrightarrow> P x \<Longrightarrow> list_all P (l[i := x])"
  by (auto simp: list_all_iff dest: subsetD[OF set_update_subset_insert])

lemma sds_count: "iPopulateSds env ix t d r n s = (OK, r', n', s') \<Longrightarrow> n' = 8"
  by (auto simp: iPopulateSds_def Let_def split: if_splits option.splits prod.splits)

lemma populate_records_ready:
  assumes run: "populate_records env repo i j t d (Some l) s = Some (st, cnt, s')"
    and e: "get_sdr repo s = Some e" "sdrData e = SensorRecords (Some l)" "list_all sdr_ok l"
  shows "only repo s s' \<and> pxSensorList s' = pxSensorList s \<and>
    holds_records repo (length l) (sdrHdr e) s' \<and> (st = OK \<longrightarrow> cnt = 8)"
proof -
  have j: "j < length l"
    using run by (auto simp: populate_records_def record_ptr_def elem_at_def split: bind_splits if_splits)
  obtain st1 r1 c1 s1 s2 f sds sds1 s3 where
    p1: "iPopulateSdr env (of_nat i) t d (Some (l ! j)) 0 s = Some (st1, r1, c1, s1)" and
    p2: "upd_sdr repo (\<lambda>e. e\<lparr>sdrData := SensorRecords (store_record j r1 (Some l))\<rparr>) s1 = Some s2" and
    p3: "iPopulateSds env (of_nat i) t d sds c1 s2 = (st, sds1, cnt, s3)" and
    p4: "upd_sds repo (\<lambda>f. f\<lparr>sdsRecords := store_record j sds1 (sdsRecords f)\<rparr>) s3 = Some s'"
    using run j unfolding populate_records_def Let_def
    by (auto simp: record_ptr_def[of "Some l"] split: bind_splits prod.splits)
  obtain q where q: "r1 = Some q" "sdr_ok q"
    using iPopulateSdr_ok[OF p1] j e(3) by (auto simp: list_all_length)
  note s1 = iPopulateSdr_still[OF p1] and s2 = upd_sdr_only[OF p2]
    and s4 = still_trans[OF iPopulateSds_still[OF p3] upd_sds_still[OF p4]]
  have "only repo s s'"
    using only_trans[OF only_trans[OF still_only[OF s1] s2(1)] still_only[OF s4]] .
  moreover have "pxSensorList s' = pxSensorList s"
    using s1 s4 p2 by (auto simp: still_def upd_sdr_def)
  moreover have "get_sdr repo s' = Some (e\<lparr>sdrData := SensorRecords (Some (l[j := q]))\<rparr>)"
    using s2(2) still_same(1)[OF s4] still_same(1)[OF s1] e(1) q by (simp add: store_record_def)
  then have "holds_records repo (length l) (sdrHdr e) s'"
    using e q by (auto simp: holds_records_def list_all_store)
  moreover have "st = OK \<longrightarrow> cnt = 8" using p3 sds_count by metis
  ultimately show ?thesis by blast
qed

lemma populate_sensor_ready:
  assumes run: "populate_sensor env repo i s = Some (st, cnt, s')" and h: "holds_records repo n h s"
  shows "only repo s s' \<and> pxSensorList s' = pxSensorList s \<and> holds_records repo n h s' \<and> (st = OK \<longrightarrow> cnt = 8)"
proof -
  obtain e l where e: "get_sdr repo s = Some e" "sdrHdr e = h" "sdrData e = SensorRecords (Some l)"
      "length l = n" "list_all sdr_ok l"
    using h by (auto simp: holds_records_def)
  obtain j t d where "populate_records env repo i j t d (Some l) s = Some (st, cnt, s')"
    using run e(1,3) by (auto simp: populate_sensor_def split: bind_splits if_splits)
  from populate_records_ready[OF this e(1,3,5)] e show ?thesis by simp
qed

lemma populate_sensors_ready:
  "populate_sensors env repo k i tot s = Some (OK, tot', s') \<Longrightarrow> holds_records repo n h s \<Longrightarrow>
   only repo s s' \<and> pxSensorList s' = pxSensorList s \<and> holds_records repo n h s' \<and> tot' = tot + 8 * of_nat k"
proof (induction k arbitrary: i tot s)
  case 0
  then show ?case by simp
next
  case (Suc k)
  then obtain st cnt s1 where p: "populate_sensor env repo i s = Some (st, cnt, s1)" and st: "st \<noteq> ERROR"
    and rest: "populate_sensors env repo k (Suc i) (tot + cnt)
      (asdm_inc_stat ASDM_STATS_ASDM_POPULATE_SDR_SUCCESS s1) = Some (OK, tot', s')"
    by (auto split: bind_splits if_splits)
  have "st = OK"
    using p st by (auto simp: populate_sensor_def populate_records_def iPopulateSds_def iMapSensorTag_def
        iMapAsdmRepo_def Let_def split: bind_splits prod.splits if_splits option.splits)
  note a = populate_sensor_ready[OF p Suc.prems(2)]
  let ?s1 = "asdm_inc_stat ASDM_STATS_ASDM_POPULATE_SDR_SUCCESS s1"
  have "still s1 ?s1" by simp
  then have "holds_records repo n h ?s1" "only repo s ?s1" "pxSensorList ?s1 = pxSensorList s1"
    using a holds_still only_trans still_only still_same(3) by blast+
  from Suc.IH[OF rest this(1)] this(2,3) a \<open>st = OK\<close> show ?case
    using only_trans by (auto simp: algebra_simps)
qed

section \<open>The flash partition table\<close>

definition memory_available :: "'w asdm_env \<Rightarrow> bool" where
  "memory_available env \<longleftrightarrow> (\<forall>n w. fst (asdmAlloc env n w))"

lemma alloc_ok:
  "memory_available env \<Longrightarrow> asdm_alloc env n s = (ok, s') \<Longrightarrow> ok \<and> still s s' \<and>
   pxFptHeader s' = pxFptHeader s \<and> ppxFptPartitions s' = ppxFptPartitions s \<and> pxBoardInfo s' = pxBoardInfo s"
  by (auto simp: memory_available_def asdm_alloc_def outside_def still_def split: prod.splits)
     (metis fst_conv)

lemma read_partitions_result:
  "read_partitions env i k j parts OK s = (st, r, s') \<Longrightarrow>
   still s s' \<and> ppxFptPartitions s' = ppxFptPartitions s \<and> pxFptHeader s' = pxFptHeader s \<and> (st = OK) = (r \<noteq> None)"
proof (induction k arbitrary: j parts s)
  case 0
  then show ?case by auto
next
  case (Suc k)
  then show ?case
    by (auto simp: outside_def still_def asdm_inc_stat_def asdm_inc_error_def asdm_free_def Let_def
        split: prod.splits if_splits)
qed

definition boot_ok :: "nat \<Rightarrow> 'w asdm \<Rightarrow> bool" where
  "boot_ok i s \<longleftrightarrow> ppxFptPartitions s ! i = None \<longrightarrow> ucNumEntries (pxFptHeader s ! i) = 0"

definition two_devices :: "'w asdm \<Rightarrow> bool" where
  "two_devices s \<longleftrightarrow> length (pxFptHeader s) = 2 \<and> length (ppxFptPartitions s) = 2"

lemma read_boot_device_result:
  assumes m: "memory_available env" and i: "i < 2" "two_devices s"
    and run: "read_boot_device env i s = (stop, st, s')"
  shows "still s s' \<and> (\<forall>j. j \<noteq> i \<longrightarrow> ppxFptPartitions s' ! j = ppxFptPartitions s ! j) \<and>
    (i = 1 \<longrightarrow> \<not> stop) \<and> (stop \<longrightarrow> st \<noteq> OK) \<and> (\<not> stop \<and> st = OK \<and> ppxFptPartitions s ! i = None \<longrightarrow> boot_ok i s')"
proof -
  obtain st0 h s1 where o: "outside (\<lambda>w. case apcGetHeader env i (pxFptHeader s ! i) w of
      (r, h, w') \<Rightarrow> ((r, h), w')) s = ((st0, h), s1)"
    by (metis surj_pair)
  have s1: "still s s1" "pxFptHeader s1 = pxFptHeader s" "ppxFptPartitions s1 = ppxFptPartitions s"
    using o by (auto simp: outside_def still_def split: prod.splits)
  show ?thesis
  proof (cases "st0 = OK")
    case False
    then show ?thesis
      using run o s1 i by (auto simp: read_boot_device_def Let_def still_def boot_ok_def two_devices_def
          zero_apc_header_def asdm_inc_error_def split: if_splits)
  next
    case True
    let ?s3 = "asdm_inc_stat ASDM_STATS_GET_FPT_HEADER (s1\<lparr>pxFptHeader := (pxFptHeader s1)[i := h]\<rparr>)"
    obtain ok s4 where a: "asdm_alloc env (unat (ucNumEntries h) * sizeof_APC_FPT_PARTITION) ?s3 = (ok, s4)"
      by (metis surj_pair)
    note ok = alloc_ok[OF m a]
    obtain st1 parts s5 where r: "read_partitions env i (unat (ucNumEntries h)) 0
        (map (rawPartition env) [0..<unat (ucNumEntries h)]) OK (asdm_inc_stat ASDM_STATS_MALLOC s4) = (st1, parts, s5)"
      by (metis surj_pair)
    note p = read_partitions_result[OF r]
    have "still s ?s3" using s1 i by (simp add: still_def asdm_inc_stat_def)
    then have "still s s5" using ok p still_trans still_counters(1) by metis
    moreover have "stop = False" "st = st1" "s' = s5\<lparr>ppxFptPartitions := (ppxFptPartitions s5)[i := parts]\<rparr>"
      using run o True a r ok by (simp_all add: read_boot_device_def)
    moreover have "ppxFptPartitions s5 = ppxFptPartitions s"
      using p ok s1 by (simp add: asdm_inc_stat_def)
    ultimately show ?thesis
      using i p by (auto simp: still_def boot_ok_def two_devices_def)
  qed
qed

lemma iGetFptData_result:
  assumes m: "memory_available env" and d: "two_devices s" and run: "iGetFptData env s = (OK, s')"
  shows "still s s' \<and> boot_ok 1 s'"
proof -
  have none: "ppxFptPartitions s ! 0 = None" "ppxFptPartitions s ! 1 = None"
    using run by (auto simp: iGetFptData_def split: if_splits)
  obtain stop st s1 where r: "read_boot_device env 0 s = (stop, st, s1)" by (metis surj_pair)
  note a = read_boot_device_result[OF m _ d r]
  have "\<not> stop" using run r a none by (auto simp: iGetFptData_def split: if_splits)
  then obtain stop' where r': "read_boot_device env 1 s1 = (stop', OK, s')"
    using run r by (cases "read_boot_device env 1 s1") (auto simp: iGetFptData_def split: if_splits)
  have d': "two_devices s1" using a d by (auto simp: still_def two_devices_def)
  have "ppxFptPartitions s1 ! 1 = None"
    using a none(2) by simp
  moreover have "still s s1" using a by simp
  moreover have "\<not> stop'" using read_boot_device_result[OF m _ d' r'] by simp
  ultimately show ?thesis
    using read_boot_device_result[OF m _ d' r'] still_trans[of s s1 s'] by simp
qed

lemma copy_entries_result:
  "copy_entries parts k i (es, c) = Some (es', c') \<Longrightarrow> length es' = length es \<and> c' = c + 12 * of_nat k"
proof (induction k arbitrary: i es c)
  case 0
  then show ?case by simp
next
  case (Suc k)
  then obtain p where "copy_entries parts k (Suc i) (es[i := fpt_entry p], c + 12) = Some (es', c')"
    by (auto split: option.splits)
  from Suc.IH[OF this] show ?case by (simp add: distrib_left)
qed

lemma populate_entries_result:
  assumes m: "memory_available env" and run: "populate_entries env i c s = Some (es, c', s')"
  shows "still s s' \<and> pxFptHeader s' = pxFptHeader s \<and> ppxFptPartitions s' = ppxFptPartitions s \<and>
    (case es of None \<Rightarrow> c' = c \<and> ppxFptPartitions s ! i = None
     | Some l \<Rightarrow> length l = unat (ucNumEntries (pxFptHeader s ! i)) \<and> c' = c + 12 * of_nat (length l))"
proof -
  let ?n = "unat (ucNumEntries (pxFptHeader s ! i))"
  obtain ok s1 where a: "asdm_alloc env (unat (of_nat (sizeof_ASDM_FPT_ENTRY * ?n) :: u16)) s = (ok, s1)"
    by (metis surj_pair)
  note k = alloc_ok[OF m a]
  show ?thesis
    using run a k copy_entries_result[of _ ?n 0 "map (rawEntry env) [0..<?n]" c]
    by (auto simp: populate_entries_def Let_def still_def asdm_inc_stat_def asdm_inc_error_def asdm_free_def
        split: option.splits)
qed

lemma iPopulateAsdmFpt_result:
  assumes m: "memory_available env" and b: "boot_ok 1 s"
    and run: "iPopulateAsdmFpt env c s = Some (OK, c', s')"
  shows "only 5 s s' \<and> pxSensorList s' = pxSensorList s \<and> (\<exists>e r k. get_sdr 5 s = Some e \<and>
    get_sdr 5 s' = Some (e\<lparr>sdrData := FptRecord r\<rparr>) \<and> data_ok 5 1 (FptRecord r) \<and>
    c' = of_nat (4 * ptrSize env) + 12 * of_nat k \<and> k \<le> 510)"
proof -
  obtain e r es c1 s1 s2 es' c2 s3 where e: "get_sdr 5 s = Some e"
    and p1: "populate_entries env 0 (of_nat (4 * ptrSize env)) s = Some (Some es, c1, s1)"
    and u1: "set_fpt (r\<lparr>xFptHdrPrimary := fpt_header (pxFptHeader s ! 0),
      xFptHdrSecondary := fpt_header (pxFptHeader s ! 1), pxFptEntryPrimary := Some es\<rparr>) s1 = Some s2"
    and p2: "populate_entries env 1 c1 s2 = Some (es', c', s3)"
    and u2: "set_fpt (r\<lparr>xFptHdrPrimary := fpt_header (pxFptHeader s ! 0),
      xFptHdrSecondary := fpt_header (pxFptHeader s ! 1), pxFptEntryPrimary := Some es,
      pxFptEntrySecondary := es'\<rparr>) s3 = Some s'"
    using run unfolding iPopulateAsdmFpt_def Let_def
    by (auto split: if_splits bind_splits prod.splits)
  define r' where "r' = r\<lparr>xFptHdrPrimary := fpt_header (pxFptHeader s ! 0),
      xFptHdrSecondary := fpt_header (pxFptHeader s ! 1), pxFptEntryPrimary := Some es,
      pxFptEntrySecondary := es'\<rparr>"
  note a1 = populate_entries_result[OF m p1] and a2 = populate_entries_result[OF m p2]
  note v1 = upd_sdr_only[OF u1[unfolded set_fpt_def]] and v2 = upd_sdr_only[OF u2[unfolded set_fpt_def]]
  have s2: "pxFptHeader s2 = pxFptHeader s" "ppxFptPartitions s2 = ppxFptPartitions s"
      "pxSensorList s2 = pxSensorList s"
    using u1 a1 by (auto simp: set_fpt_def upd_sdr_def still_def)
  have "only 5 s s'"
    using only_trans[OF only_trans[OF still_only only_trans[OF v1(1) still_only]] v2(1)] a1 a2 by simp
  moreover have "pxSensorList s' = pxSensorList s"
    using u2 a2 s2 by (auto simp: set_fpt_def upd_sdr_def still_def)
  moreover have "get_sdr 5 s1 = Some e" "get_sdr 5 s3 = get_sdr 5 s2"
    using e still_same(1)[of s s1 5] still_same(1)[of s2 s3 5] a1 a2 by simp_all
  then have "get_sdr 5 s' = Some (e\<lparr>sdrData := FptRecord r'\<rparr>)" using v1(2) v2(2) by (simp add: r'_def)
  moreover have "data_ok 5 1 (FptRecord r')"
    using a1 a2 b s2 by (auto simp: r'_def entries_ok_def fpt_header_def boot_ok_def split: option.splits)
  moreover have "\<exists>k \<le> 510. c' = of_nat (4 * ptrSize env) + 12 * of_nat k"
  proof -
    have n: "unat (n :: u8) \<le> 255" for n
    proof -
      have "unat n < 2 ^ LENGTH(8)" by (rule unsigned_less)
      then show ?thesis by simp
    qed
    have c1: "c1 = of_nat (4 * ptrSize env) + 12 * of_nat (length es)" "length es \<le> 255" using a1 n by auto
    show ?thesis
    proof (cases es')
      case None
      then show ?thesis using a2 c1 by (intro exI[of _ "length es"]) auto
    next
      case (Some l)
      have "length l \<le> 255" "c' = c1 + 12 * of_nat (length l)" using Some a2 n by simp_all
      then show ?thesis using c1 by (intro exI[of _ "length es + length l"]) (simp add: algebra_simps)
    qed
  qed
  ultimately show ?thesis using e by blast
qed

section \<open>The board information\<close>

text \<open>The EEPROM driver writes within the buffer it is given.\<close>

definition eeprom_in_buffer :: "'w asdm_env \<Rightarrow> bool" where
  "eeprom_in_buffer env \<longleftrightarrow> (\<forall>f buf l w st buf' l' w'. eepromGet env f buf l w = (st, buf', l', w') \<longrightarrow>
     length buf' = length buf)"

lemma board_field_ok:
  assumes "length (pucBytesValue old) = 32" "length buf = 40" "f = xMacAddressCount \<or> len \<le> 29"
  shows "board_ok (board_field f buf len old)"
proof (cases "f = xMacAddressCount")
  case True
  then show ?thesis using assms(1)
    by (simp add: board_ok_def board_field_def set_fieldValue_def ASDM_RECORD_FIELD_LENGTH_MASK_def)
next
  case False
  have "unat (len AND ASDM_RECORD_FIELD_LENGTH_MASK) \<le> unat len"
    using word_and_le2[of len] by (simp add: word_le_nat_alt)
  moreover have "unat len \<le> 29" using assms(3) False by (simp add: word_le_nat_alt)
  ultimately show ?thesis using assms False by (simp add: board_ok_def board_field_def)
qed

lemma read_board_fields_result:
  "read_board_fields env fs buf len b s = (st, b', s') \<Longrightarrow> eeprom_in_buffer env \<Longrightarrow> length buf = 40 \<Longrightarrow>
   \<forall>f. board_ok (b f) \<Longrightarrow> still s s' \<and> (\<forall>f. board_ok (b' f))"
proof (induction fs arbitrary: buf len b s)
  case Nil
  then show ?case by auto
next
  case (Cons f fs)
  obtain st1 buf1 len1 s1 where o: "outside (\<lambda>w. case eepromGet env f buf len w of
      (r, x, l, w') \<Rightarrow> ((r, x, l), w')) s = ((st1, buf1, len1), s1)"
    by (metis surj_pair)
  define len2 where "len2 = (if f = xMacAddressCount then len1 else min len1 29)"
  have s1: "still s s1" using outside_still[OF o] .
  obtain w where "eepromGet env f buf len (asdmWorld s) = (st1, buf1, len1, w)"
    using o by (auto simp: outside_def split: prod.splits)
  then have b1: "length buf1 = 40" using Cons.prems(2,3) by (metis eeprom_in_buffer_def)
  have "board_ok (board_field f buf1 len2 (b f))"
    using Cons.prems(4) b1 by (intro board_field_ok) (auto simp: board_ok_def len2_def)
  then have ok: "\<forall>g. board_ok ((b(f := board_field f buf1 len2 (b f))) g)" using Cons.prems(4) by simp
  show ?case
  proof (cases "st1 = OK")
    case False
    then show ?thesis using Cons.prems(1,4) o s1 by auto
  next
    case True
    then have "read_board_fields env fs buf1 len2 (b(f := board_field f buf1 len2 (b f))) s1 = (st, b', s')"
      using Cons.prems(1) o by (simp add: len2_def Let_def)
    from Cons.IH[OF this Cons.prems(2) b1 ok] s1 show ?thesis
      using still_trans[of s s1 s'] by blast
  qed
qed

lemma iGetBoardInfoData_result:
  assumes m: "memory_available env" and e: "eeprom_in_buffer env" and run: "iGetBoardInfoData env s = (st, s')"
  shows "still s s' \<and> (st = OK \<longrightarrow> (\<exists>b. pxBoardInfo s' = Some b \<and> (\<forall>f. board_ok (b f))))"
proof (cases "asdm_guarded s \<and> pxBoardInfo s = None")
  case False
  then show ?thesis using run by (auto simp: iGetBoardInfoData_def)
next
  case True
  obtain ok s1 where a: "asdm_alloc env sizeof_ASDM_BOARD_INFO_RECORD s = (ok, s1)" by (metis surj_pair)
  obtain st1 b s2 where r: "read_board_fields env board_fields (replicate EEPROM_MAX_FIELD_SIZE 0) 0
      (\<lambda>_. zero_field) s1 = (st1, b, s2)" by (metis surj_pair)
  have s1: "ok" "still s s1" using alloc_ok[OF m a] by simp_all
  have s2: "still s1 s2" "\<forall>f. board_ok (b f)"
    using read_board_fields_result[OF r e] by (simp_all add: EEPROM_MAX_FIELD_SIZE_def board_ok_def zero_field_def)
  have "st = st1" "s' = (if st1 \<noteq> OK then asdm_inc_error ASDM_ERRORS_ASDM_POPULATE_BDINFO_FAILED
      (s2\<lparr>pxBoardInfo := Some b\<rparr>) else s2\<lparr>pxBoardInfo := Some b\<rparr>)"
    using run a r s1 True by (auto simp: iGetBoardInfoData_def)
  moreover have "still s (s2\<lparr>pxBoardInfo := Some b\<rparr>)"
    using still_trans[OF s1(2) s2(1)] by (simp add: still_def)
  ultimately show ?thesis using s2(2) by simp
qed

lemma iGetFptData_still:
  assumes m: "memory_available env" and d: "two_devices s" and run: "iGetFptData env s = (st, s')"
  shows "still s s'"
proof (cases "asdm_guarded s \<and> ppxFptPartitions s ! 0 = None \<and> ppxFptPartitions s ! 1 = None")
  case False
  then show ?thesis using run by (auto simp: iGetFptData_def)
next
  case True
  obtain stop st0 s1 where r: "read_boot_device env 0 s = (stop, st0, s1)" by (metis surj_pair)
  obtain stop' st1 s2 where r': "read_boot_device env 1 s1 = (stop', st1, s2)" by (metis surj_pair)
  have a: "still s s1" using read_boot_device_result[OF m _ d r] by simp
  then have "two_devices s1" using d by (simp add: still_def two_devices_def)
  then have "still s1 s2" using read_boot_device_result[OF m _ _ r'] by simp
  then show ?thesis
    using run r r' a True still_trans[of s s1 s2] by (auto simp: iGetFptData_def split: if_splits)
qed

end
