(* ===== verification/AsdmBuilt.thy ===== *)
theory AsdmBuilt
  imports AsdmReady
begin

text \<open>
  The result of \<open>iInitAsdm\<close> when memory is available: every repository is built, that is, it has
  its header, its end marker and as many well formed records as the header says.
\<close>

definition repo_built :: "nat \<Rightarrow> 'w asdm \<Rightarrow> bool" where
  "repo_built repo s \<longleftrightarrow> (\<exists>e. get_sdr repo s = Some e \<and>
     (let n = ucNumFound (pxSensorList s ! repo) in
      ucRepoType (sdrHdr e) = ucRepoType (xAsdmHeaderInfo ! repo) \<and>
      ucRepoVersionNum (sdrHdr e) = ASDM_HEADER_VER \<and> ucTotalNumRecords (sdrHdr e) = n \<and>
      sdrEor e = ASDM_EOR_MARKER \<and> (n \<noteq> 0 \<longrightarrow> data_ok repo (unat n) (sdrData e)) \<and>
      (repo \<le> AMC_ASDM_SUPPORTED_REPO_TOTAL_POWER \<longrightarrow> usTotalNumBytes (sdrHdr e) = 1 + ucast n) \<and>
      (n \<noteq> 0 \<longrightarrow> usTotalNumBytes (sdrHdr e) \<noteq> 0)))"

section \<open>Frames\<close>

lemma built_only:
  assumes "only repo s s'" "j \<noteq> repo"
  shows "repo_built j s' = repo_built j s"
proof -
  have "get_sdr j s' = get_sdr j s" "pxSensorList s' ! j = pxSensorList s ! j"
    using assms by (simp_all add: only_def)
  then show ?thesis by (simp add: repo_built_def)
qed

lemma two_devices_only: "only repo s s' \<Longrightarrow> two_devices s' = two_devices s"
  by (simp add: only_def two_devices_def)

lemma set_sensor_list_only: "only repo s s' \<Longrightarrow> only repo s (set_sensor_list repo f s')"
  by (simp add: only_def set_sensor_list_def get_sdr_def)

lemma list_sensor_only: "list_sensor env datas repo i s = Some s' \<Longrightarrow> only repo s s'"
  by (auto simp: list_sensor_def Let_def split: option.splits if_splits prod.splits bind_splits
      dest!: outside_still intro: still_only intro!: set_sensor_list_only)

lemma for_count_only:
  assumes "\<And>i s s'. f i s = Some s' \<Longrightarrow> only repo s s'"
  shows "for_count f n i s = Some s' \<Longrightarrow> only repo s s'"
proof (induction n arbitrary: i s)
  case 0
  then show ?case by simp
next
  case (Suc n)
  then obtain t where "f i s = Some t" "for_count f n (Suc i) t = Some s'" by (auto split: bind_splits)
  then show ?case using assms Suc.IH only_trans by metis
qed

lemma iPopulateRepoSensorList_only:
  "iPopulateRepoSensorList env n repo s = Some (st, s') \<Longrightarrow> only repo s s'"
  using for_count_only[OF list_sensor_only]
  by (auto simp: iPopulateRepoSensorList_def still_only split: option.splits if_splits)

section \<open>The number of records\<close>

text \<open>What must be true after the count for the data to be built.\<close>

definition counted :: "nat \<Rightarrow> 'w asdm \<Rightarrow> bool" where
  "counted repo s \<longleftrightarrow>
     (repo = AMC_ASDM_SUPPORTED_REPO_FPT \<and> ucNumFound (pxSensorList s ! repo) \<noteq> 0 \<longrightarrow>
        ucNumFound (pxSensorList s ! repo) = 1 \<and> boot_ok 1 s) \<and>
     (repo = AMC_ASDM_SUPPORTED_REPO_BOARD_INFO \<and> ucNumFound (pxSensorList s ! repo) \<noteq> 0 \<longrightarrow>
        ucNumFound (pxSensorList s ! repo) = 1 \<and> (\<exists>b. pxBoardInfo s = Some b \<and> (\<forall>f. board_ok (b f))))"

lemma set_found_simps [simp]:
  "repo < length (pxSensorList s) \<Longrightarrow> ucNumFound (pxSensorList (set_found repo n s) ! repo) = n"
  "boot_ok i (set_found repo n s) = boot_ok i s" "pxBoardInfo (set_found repo n s) = pxBoardInfo s"
  by (simp_all add: set_found_def set_sensor_list_def boot_ok_def)

lemma count_records_result:
  assumes m: "memory_available env" and e: "eeprom_in_buffer env" and d: "two_devices s"
    and l: "repo \<le> 6" "repo < length (pxSensorList s)" and run: "count_records env n repo s = Some s'"
  shows "only repo s s' \<and> counted repo s'"
proof -
  consider "repo \<le> 3" | "repo = 4" | "repo = 5" | "repo = 6" using l by linarith
  then show ?thesis
  proof cases
    case 1
    then obtain st s1 where "iPopulateRepoSensorList env n repo s = Some (st, s1)"
      "s' = (if st = OK then s1 else set_found repo 0 s1)"
      using run by (auto simp: count_records_def)
    then show ?thesis
      using iPopulateRepoSensorList_only[of env n repo s st s1] 1
      by (auto simp: counted_def set_found_def set_sensor_list_only)
  next
    case 2
    then show ?thesis
      using run by (auto simp: count_records_def counted_def set_found_def set_sensor_list_only)
  next
    case 3
    obtain st s1 where r: "iGetFptData env s = (st, s1)" by (metis surj_pair)
    have s': "s' = set_found repo (if st = OK then 1 else 0) s1"
      using run r 3 by (simp add: count_records_def)
    note st = iGetFptData_still[OF m d r]
    have "st = OK \<Longrightarrow> boot_ok 1 s1" using iGetFptData_result[OF m d] r by simp
    then show ?thesis
      using 3 st l set_sensor_list_only[OF still_only[OF st]]
      by (simp add: s' counted_def still_same(3)) (simp add: set_found_def)
  next
    case 4
    obtain st s1 where r: "iGetBoardInfoData env s = (st, s1)" by (metis surj_pair)
    have s': "s' = set_found repo (if st = OK then 1 else 0) s1"
      using run r 4 by (simp add: count_records_def)
    note st = iGetBoardInfoData_result[OF m e r]
    then have "length (pxSensorList s1) = length (pxSensorList s)" by (simp add: still_def)
    with st show ?thesis
      using 4 st l set_sensor_list_only[OF still_only, of s s1 repo]
      by (simp add: s' counted_def) (simp add: set_found_def)
  qed
qed

lemma in_multiples_records: "n \<le> 255 \<Longrightarrow> in_multiples (8 + 8 * of_nat n) = 1 + of_nat n"
proof -
  assume n: "n \<le> 255"
  have u: "unat (8 + 8 * of_nat n :: u16) = 8 * (1 + n)"
    using n unat_of_nat[of "8 + 8 * n", where ?'a = 16] by simp
  have "(8 + 8 * of_nat n :: u16) mod 8 = 0"
    by (rule word_unat_eq_iff[THEN iffD2]) (simp add: unat_mod_distrib u)
  moreover have "(8 + 8 * of_nat n :: u16) div 8 = 1 + of_nat n"
    using n unat_of_nat[of "1 + n", where ?'a = 16]
    by (intro word_unat_eq_iff[THEN iffD2]) (simp add: unat_div_distrib u)
  ultimately show ?thesis by (simp add: in_multiples_def TOTAL_NUM_BYTES_MULTIPLE_def)
qed

lemma in_multiples_nonzero:
  assumes "8 \<le> k" "k \<le> 65000"
  shows "in_multiples (of_nat k) \<noteq> 0"
proof -
  let ?w = "of_nat k :: u16"
  have u: "unat ?w = k" using assms by (simp add: unat_of_nat)
  have m: "unat (?w mod 8) = k mod 8" by (simp add: unat_mod_distrib u)
  have "unat (?w + (8 - ?w mod 8)) = k + (8 - k mod 8)"
  proof -
    have "k mod 8 \<le> 8" by simp
    then have "of_nat (8 - k mod 8) = 8 - (of_nat (k mod 8) :: u16)" by (simp add: of_nat_diff)
    moreover have "of_nat (k mod 8) = ?w mod 8" using m by (metis of_nat_unat ucast_id)
    ultimately have "?w + (8 - ?w mod 8) = of_nat (k + (8 - k mod 8))" by simp
    moreover have "unat (of_nat (k + (8 - k mod 8)) :: u16) = k + (8 - k mod 8)"
      using assms by (simp only: unat_of_nat) simp
    ultimately show ?thesis by (simp only:)
  qed
  then have "1 \<le> unat (in_multiples ?w)"
    using assms u by (auto simp: in_multiples_def TOTAL_NUM_BYTES_MULTIPLE_def unat_div_distrib div_greater_zero_iff Suc_le_eq)
  then show ?thesis by auto
qed

lemma u8_bound: "unat (n :: u8) \<le> 255"
proof -
  have "unat n < 2 ^ LENGTH(8)" by (rule unsigned_less)
  then show ?thesis by simp
qed

section \<open>The data\<close>

lemma build_sensor_repo_result:
  assumes m: "memory_available env" and repo: "repo \<le> 4" and e: "get_sdr repo s = Some e"
    and run: "build_sensor_repo env repo tot s = Some (OK, tot', s')"
  shows "only repo s s' \<and> pxSensorList s' = pxSensorList s \<and>
    holds_records repo (unat (ucNumFound (pxSensorList s ! repo))) (sdrHdr e) s' \<and>
    tot' = tot + 8 * of_nat (unat (ucNumFound (pxSensorList s ! repo)))"
proof -
  let ?n = "unat (ucNumFound (pxSensorList s ! repo))"
  obtain ok s1 where a1: "asdm_alloc env (sizeof_ASDM_SDR_RECORD * ?n) s = (ok, s1)" by (metis surj_pair)
  obtain ok' s2 where a2: "asdm_alloc env (sizeof_ASDM_SDS_RECORD * ?n) s1 = (ok', s2)" by (metis surj_pair)
  note k1 = alloc_ok[OF m a1] and k2 = alloc_ok[OF m a2]
  obtain s3 s4 where u1: "upd_sdr repo (\<lambda>e. e\<lparr>sdrData := SensorRecords (Some (replicate ?n zero_sdr_record))\<rparr>) s2 = Some s3"
    and u2: "upd_sds repo (\<lambda>f. f\<lparr>sdsRecords := Some (map (rawSds env) [0..<?n])\<rparr>) s3 = Some s4"
    and p: "populate_sensors env repo ?n 0 tot (asdm_inc_stat ASDM_STATS_MALLOC s4) = Some (OK, tot', s')"
    using run a1 a2 k1 k2 by (auto simp: build_sensor_repo_def Let_def split: bind_splits)
  have s2: "still s s2" using still_trans k1 k2 by blast
  have s4: "still s3 (asdm_inc_stat ASDM_STATS_MALLOC s4)" using upd_sds_still[OF u2] by simp
  have o: "only repo s (asdm_inc_stat ASDM_STATS_MALLOC s4)"
    using only_trans[OF only_trans[OF still_only[OF s2] upd_sdr_only(1)[OF u1]] still_only[OF s4]] .
  have "get_sdr repo (asdm_inc_stat ASDM_STATS_MALLOC s4)
      = Some (e\<lparr>sdrData := SensorRecords (Some (replicate ?n zero_sdr_record))\<rparr>)"
    using still_same(1)[OF s4] upd_sdr_only(2)[OF u1] still_same(1)[OF s2] e by simp
  then have h: "holds_records repo ?n (sdrHdr e) (asdm_inc_stat ASDM_STATS_MALLOC s4)"
    by (auto simp: holds_records_def sdr_ok_zero list_all_iff)
  have "pxSensorList (asdm_inc_stat ASDM_STATS_MALLOC s4) = pxSensorList s"
    using still_same(3)[OF s4] still_same(3)[OF s2] u1 by (auto simp: upd_sdr_def)
  with populate_sensors_ready[OF p h] o show ?thesis
    using only_trans[OF o] by simp
qed

lemma build_repo_result:
  assumes m: "memory_available env" "ptrSize env \<le> 8" and c: "counted repo s" and repo: "repo \<le> 6" and e: "get_sdr repo s = Some e"
    and run: "build_repo env repo s = Some (OK, tot, s')"
  defines "n \<equiv> ucNumFound (pxSensorList s ! repo)"
  shows "only repo s s' \<and> pxSensorList s' = pxSensorList s \<and> (\<exists>e'. get_sdr repo s' = Some e' \<and>
    sdrHdr e' = sdrHdr e \<and> (n \<noteq> 0 \<longrightarrow> data_ok repo (unat n) (sdrData e'))) \<and>
    (repo \<le> 4 \<longrightarrow> tot = 8 + 8 * of_nat (unat n)) \<and> (n \<noteq> 0 \<longrightarrow> in_multiples tot \<noteq> 0)"
proof -
  consider "n = 0" | "n \<noteq> 0" "repo \<le> 4" | "n \<noteq> 0" "repo = 5" | "n \<noteq> 0" "repo = 6"
    using repo by linarith
  then show ?thesis
  proof cases
    case 1
    then show ?thesis using run e by (simp add: build_repo_def n_def ASDM_HEADER_DEFAULT_BYTES_def)
  next
    case 2
    then have "build_sensor_repo env repo ASDM_HEADER_DEFAULT_BYTES s = Some (OK, tot, s')"
      using run by (simp add: build_repo_def n_def)
    note r = build_sensor_repo_result[OF m(1) 2(2) e this]
    then have tot: "tot = 8 + 8 * of_nat (unat n)" by (simp add: n_def ASDM_HEADER_DEFAULT_BYTES_def)
    have "in_multiples (of_nat (8 + 8 * unat n)) \<noteq> 0"
      using u8_bound[of n] by (intro in_multiples_nonzero) simp_all
    then have "in_multiples tot \<noteq> 0" by (simp add: tot)
    with r tot 2(2) show ?thesis by (auto simp: n_def holds_records_def)
  next
    case 3
    then have b: "boot_ok 1 s" "n = 1" using c by (simp_all add: counted_def n_def)
    obtain cnt where cnt: "iPopulateAsdmFpt env 0 s = Some (OK, cnt, s')"
      using run 3 by (auto simp: build_repo_def n_def)
    note r = iPopulateAsdmFpt_result[OF m(1) b(1) this]
    then obtain k where k: "cnt = of_nat (4 * ptrSize env) + 12 * of_nat k" "k \<le> 510" by blast
    have "tot = of_nat (8 + (4 * ptrSize env + 12 * k))"
      using run 3 cnt k(1) by (auto simp: build_repo_def n_def ASDM_HEADER_DEFAULT_BYTES_def)
    then have "in_multiples tot \<noteq> 0"
      using k(2) m(2) in_multiples_nonzero[of "8 + (4 * ptrSize env + 12 * k)"] by simp
    with r e 3 b(2) show ?thesis by auto
  next
    case 4
    then obtain b where b: "pxBoardInfo s = Some b" "\<forall>f. board_ok (b f)" and n: "n = 1"
      using c by (auto simp: counted_def n_def)
    have "upd_sdr 6 (\<lambda>d. d\<lparr>sdrData := BoardInfo b\<rparr>) s = Some s'" "tot = of_nat (8 + sizeof_ASDM_BOARD_INFO_RECORD)"
      using run 4 b by (auto simp: build_repo_def n_def iPopulateAsdmBoardInfo_def ASDM_HEADER_DEFAULT_BYTES_def
          split: if_splits)
    moreover from this(2) have "in_multiples tot \<noteq> 0"
      using in_multiples_nonzero[of "8 + sizeof_ASDM_BOARD_INFO_RECORD"] by (simp add: sizeof_ASDM_BOARD_INFO_RECORD_def)
    moreover have "pxSensorList s' = pxSensorList s"
      using calculation(1) by (auto simp: upd_sdr_def)
    ultimately show ?thesis
      using upd_sdr_only[of 6 "\<lambda>d. d\<lparr>sdrData := BoardInfo b\<rparr>" s s'] 4 e b n by auto
  qed
qed

section \<open>One repository, all repositories\<close>

lemma header_info: "repo \<le> 6 \<Longrightarrow> ucRepoVersionNum (xAsdmHeaderInfo ! repo) = ASDM_HEADER_VER"
  by (simp add: xAsdmHeaderInfo_def nth_Cons split: nat.splits)

lemma build_repo_status: "build_repo env repo s = Some (st, tot, s') \<Longrightarrow> st = OK \<or> st = ERROR"
proof -
  have sensors: "populate_sensors env repo k i t s = Some (st, t', s') \<Longrightarrow> st = OK \<or> st = ERROR" for k i t t' s st s'
    by (induction k arbitrary: i t s) (auto split: bind_splits if_splits)
  show "build_repo env repo s = Some (st, tot, s') \<Longrightarrow> st = OK \<or> st = ERROR"
    by (auto simp: build_repo_def build_sensor_repo_def Let_def iPopulateAsdmFpt_def iPopulateAsdmBoardInfo_def
        dest: sensors split: bind_splits prod.splits if_splits option.splits)
qed

lemma init_repo_status: "init_repo env n repo s = Some (st, s') \<Longrightarrow> st = OK \<or> st = ERROR"
  by (auto simp: init_repo_def dest: build_repo_status split: bind_splits if_splits)

lemma init_repo_result:
  assumes m: "memory_available env" "ptrSize env \<le> 8" and e: "eeprom_in_buffer env" and d: "two_devices s"
    and l: "repo \<le> 6" "length (pxSensorList s) = 7" "get_sdr repo s \<noteq> None" and run: "init_repo env n repo s = Some (OK, s')"
  shows "only repo s s' \<and> repo_built repo s'"
proof -
  obtain s1 s2 s3 tot s4 s5 where c: "count_records env n repo s = Some s1"
    and u2: "upd_sdr repo (\<lambda>e. e\<lparr>sdrHdr := header_for repo s1\<rparr>) s1 = Some s2"
    and u3: "upd_sds repo (\<lambda>f. f\<lparr>sdsHdr := header_for repo s1\<rparr>) s2 = Some s3"
    and b: "build_repo env repo s3 = Some (OK, tot, s4)"
    and u5: "upd_sdr repo (\<lambda>e. e\<lparr>sdrEor := ASDM_EOR_MARKER,
        sdrHdr := (sdrHdr e)\<lparr>usTotalNumBytes := in_multiples tot\<rparr>\<rparr>) s4 = Some s5"
    and u6: "upd_sds repo (\<lambda>f. f\<lparr>sdsEor := ASDM_EOR_MARKER\<rparr>) s5 = Some s'"
    using run by (auto simp: init_repo_def split: bind_splits if_splits)
  have r1: "only repo s s1" "counted repo s1" using count_records_result[OF m(1) e d l(1) _ c] l by simp_all
  note v2 = upd_sdr_only[OF u2] and v3 = upd_sds_still[OF u3] and v5 = upd_sdr_only[OF u5]
    and v6 = upd_sds_still[OF u6]
  have list3: "pxSensorList s3 = pxSensorList s1" using u2 still_same(3)[OF v3] by (auto simp: upd_sdr_def)
  have "boot_ok 1 s3 = boot_ok 1 s1" "pxBoardInfo s3 = pxBoardInfo s1"
    using u2 u3 by (auto simp: upd_sdr_def upd_sds_def boot_ok_def)
  then have c3: "counted repo s3" using r1(2) list3 by (simp add: counted_def)
  have o3: "only repo s s3" using only_trans[OF only_trans[OF r1(1) v2(1)] still_only[OF v3]] .
  obtain e0 where "get_sdr repo s1 = Some e0" using r1(1) l(3) by (auto simp: only_def)
  then have e3: "get_sdr repo s3 = Some (e0\<lparr>sdrHdr := header_for repo s1\<rparr>)"
    using v2(2) still_same(1)[OF v3] by simp
  let ?n = "ucNumFound (pxSensorList s1 ! repo)"
  obtain e4 where r4: "only repo s3 s4" "pxSensorList s4 = pxSensorList s1" "get_sdr repo s4 = Some e4"
    "sdrHdr e4 = header_for repo s1" "?n \<noteq> 0 \<longrightarrow> data_ok repo (unat ?n) (sdrData e4)"
    "repo \<le> 4 \<longrightarrow> tot = 8 + 8 * of_nat (unat ?n)" "?n \<noteq> 0 \<longrightarrow> in_multiples tot \<noteq> 0"
    using build_repo_result[OF m c3 l(1) e3 b] list3 by auto
  have "only repo s s'"
    using only_trans[OF only_trans[OF only_trans[OF o3 r4(1)] v5(1)] still_only[OF v6]] .
  moreover have "pxSensorList s' = pxSensorList s1"
    using r4(2) u5 still_same(3)[OF v6] by (auto simp: upd_sdr_def)
  moreover have "get_sdr repo s' = Some (e4\<lparr>sdrEor := ASDM_EOR_MARKER,
      sdrHdr := (header_for repo s1)\<lparr>usTotalNumBytes := in_multiples tot\<rparr>\<rparr>)"
    using v5(2) still_same(1)[OF v6] r4(3,4) by simp
  ultimately show ?thesis
    using r4(5,6,7) in_multiples_records[OF u8_bound[of ?n]] header_info[OF l(1)]
    by (simp add: repo_built_def header_for_def Let_def)
qed

lemma only_length: "only repo s s' \<Longrightarrow> length (pxSensorList s') = length (pxSensorList s)"
  by (simp add: only_def)

lemma init_repos_result:
  assumes m: "memory_available env" "ptrSize env \<le> 8" and e: "eeprom_in_buffer env"
  shows "init_repos env n k repo s = Some (OK, s') \<Longrightarrow> two_devices s \<Longrightarrow> repo + k \<le> 7 \<Longrightarrow>
    length (pxSensorList s) = 7 \<Longrightarrow> \<forall>j < 7. get_sdr j s \<noteq> None \<Longrightarrow> \<forall>j < repo. repo_built j s \<Longrightarrow>
    (\<forall>j < repo + k. repo_built j s') \<and> asdm_guarded s' = asdm_guarded s"
proof (induction k arbitrary: repo s)
  case 0
  then show ?case by simp
next
  case (Suc k)
  then obtain st s1 where p: "init_repo env n repo s = Some (st, s1)"
    and q: "st \<noteq> ERROR" "init_repos env n k (Suc repo) s1 = Some (OK, s')"
    by (auto split: bind_splits if_splits)
  then have "init_repo env n repo s = Some (OK, s1)" using init_repo_status[OF p] by simp
  from init_repo_result[OF m e Suc.prems(2) _ Suc.prems(4) _ this] Suc.prems(3,5)
  have r: "only repo s s1" "repo_built repo s1" by simp_all
  have there: "\<forall>j < 7. get_sdr j s1 \<noteq> None"
    using r(1) Suc.prems(5) unfolding only_def by metis
  have "\<forall>j < Suc repo. repo_built j s1"
    using built_only[OF r(1)] r(2) Suc.prems(6) by (metis less_Suc_eq)
  then show ?case
    using Suc.IH[OF q(2)] two_devices_only[OF r(1)] only_length[OF r(1)] only_guarded[OF r(1)] there Suc.prems by simp
qed

text \<open>The result of \<open>iInitAsdm\<close> and, from the state as loaded, of \<open>iASDM_Initialise\<close>.\<close>

definition boot_state :: "'w asdm \<Rightarrow> bool" where
  "boot_state s \<longleftrightarrow> two_devices s \<and> length (pxSensorList s) = 7"

lemma boot_state_only: "only repo s s' \<Longrightarrow> boot_state s' = boot_state s"
  by (simp add: boot_state_def two_devices_only only_length)

lemma boot_state_still: "still s s' \<Longrightarrow> boot_state s' = boot_state s"
  using boot_state_only still_only by blast

lemma iInitAsdm_built:
  assumes "memory_available env" "ptrSize env \<le> 8" "eeprom_in_buffer env" "boot_state s"
    "iInitAsdm env n s = Some (OK, s')"
  shows "(\<forall>repo < 7. repo_built repo s') \<and> asdm_guarded s'"
proof -
  obtain ok s1 where a1: "asdm_alloc env (MAX_ASDM_SDR_REPO * sizeofSdr env) s = (ok, s1)" by (metis surj_pair)
  obtain ok' s2 where a2: "asdm_alloc env (MAX_ASDM_SDR_REPO * sizeofSds env) s1 = (ok', s2)" by (metis surj_pair)
  note k1 = alloc_ok[OF assms(1) a1] and k2 = alloc_ok[OF assms(1) a2]
  let ?s3 = "asdm_inc_stat ASDM_STATS_MALLOC (s2\<lparr>pxAsdmSdrInfo := Some (replicate MAX_ASDM_SDR_REPO zero_sdr),
    pxAsdmSdsInfo := Some (replicate MAX_ASDM_SDR_REPO zero_sds)\<rparr>)"
  have g: "asdm_guarded s" and r: "init_repos env n 7 0 ?s3 = Some (OK, s')"
    using assms(5) a1 a2 k1 k2 by (auto simp: iInitAsdm_def split: if_splits)
  have "still s s2" using k1 k2 still_trans by blast
  then have "two_devices ?s3" "length (pxSensorList ?s3) = 7" "\<forall>j < 7. get_sdr j ?s3 \<noteq> None" "asdm_guarded ?s3"
    using assms(4) g
    by (simp_all add: boot_state_def two_devices_def still_def asdm_inc_stat_def get_sdr_def asdm_guarded_def)
  then show ?thesis using init_repos_result[OF assms(1,2,3) r] by simp
qed

lemma alloc_list_only:
  assumes "alloc_list env n repo s = (ok, s')"
  shows "only repo s s'"
proof -
  have counters: "only repo s (asdm_inc_stat k t) = only repo s t" "only repo s (asdm_inc_error e t) = only repo s t"
    for k e t by (simp_all add: only_def asdm_inc_stat_def asdm_inc_error_def get_sdr_def)
  have alloc: "asdm_alloc env k t = (b, t') \<Longrightarrow> only repo s t \<Longrightarrow> only repo s t'" for k t b t'
    using still_only[OF outside_still, of "asdmAlloc env k" t b t' repo] only_trans
    by (metis asdm_alloc_def)
  obtain ok1 s1 where a: "asdm_alloc env (unat n) s = (ok1, s1)" by (metis surj_pair)
  define s2 where "s2 = set_sensor_list repo
    (\<lambda>l. l\<lparr>pucSensorId := (if ok1 then Some (map (rawByte env) [0..<unat n]) else None)\<rparr>) s1"
  have s2: "only repo s s2" unfolding s2_def by (rule set_sensor_list_only[OF alloc[OF a only_refl]])
  obtain ok2 s3 where b: "asdm_alloc env (unat n) (asdm_inc_stat ASDM_STATS_MALLOC s2) = (ok2, s3)"
    by (metis surj_pair)
  have s3: "only repo s s3" using alloc[OF b] s2 by (simp add: counters)
  show ?thesis
    using assms a b s2 set_sensor_list_only[OF s3]
    by (auto simp: alloc_list_def Let_def counters s2_def split: if_splits)
qed

lemma alloc_lists_boot: "alloc_lists env n k repo s = (ok, s') \<Longrightarrow> boot_state s' = boot_state s"
proof (induction k arbitrary: repo s)
  case (Suc k)
  obtain ok1 s1 where a: "alloc_list env n repo s = (ok1, s1)" by (metis surj_pair)
  note b = boot_state_only[OF alloc_list_only[OF a]]
  show ?case using Suc.prems Suc.IH[of "Suc repo" s1] a b by (simp split: if_splits)
qed simp

lemma free_one_boot: "boot_state (free_one env p t) = boot_state t"
  by (simp add: free_one_def boot_state_def two_devices_def asdm_inc_stat_def asdm_free_def)

lemma clear_list_boot: "boot_state ((set_sensor_list i f t)\<lparr>pxAscData := d\<rparr>) = boot_state t"
  by (simp add: boot_state_def two_devices_def set_sensor_list_def)

lemma free_lists_boot: "boot_state (free_lists env k repo s) = boot_state s"
proof (induction k arbitrary: repo s)
  case (Suc k)
  show ?case by (simp add: Let_def Suc free_one_boot clear_list_boot)
qed simp

lemma init_sensors_built:
  assumes "memory_available env" "ptrSize env \<le> 8" "eeprom_in_buffer env" "boot_state s"
    "init_sensors env n s = Some (OK, s')"
  shows "(\<forall>repo < 7. repo_built repo s') \<and> asdm_guarded s'"
proof -
  obtain ok s1 where a: "asdm_alloc env (sizeofSensorData env * unat n) (s\<lparr>ucAscNumSensors := n\<rparr>) = (ok, s1)"
    by (metis surj_pair)
  note k = alloc_ok[OF assms(1) a]
  obtain st datas n' s2 where o: "outside (\<lambda>w. case ascGetAll env (map (rawSensor env) [0..<unat n]) n w of
      (r, d, m, w') \<Rightarrow> ((r, d, m), w')) (asdm_inc_stat ASDM_STATS_MALLOC s1) = ((st, datas, n'), s2)"
    by (metis surj_pair)
  obtain ok' s4 where l: "alloc_lists env n' MAX_ASDM_SDR_REPO 0
      (s2\<lparr>pxAscData := Some datas, iSensorListInitialised := True\<rparr>) = (ok', s4)" by (metis surj_pair)
  have eq: "boot_state (t\<lparr>ucAscNumSensors := m\<rparr>) = boot_state t" "boot_state (asdm_inc_stat c t) = boot_state t"
    "boot_state (asdm_inc_error e t) = boot_state t" "boot_state (t\<lparr>pxAscData := d\<rparr>) = boot_state t"
    "boot_state (t\<lparr>iSensorListInitialised := b\<rparr>) = boot_state t" for t m c e d b
    by (simp_all add: boot_state_def two_devices_def asdm_inc_stat_def asdm_inc_error_def)
  have s2: "boot_state s2"
    using boot_state_still[OF outside_still[OF o]] boot_state_still[of "s\<lparr>ucAscNumSensors := n\<rparr>" s1] k assms(4) by (simp add: eq)
  define t where "t = (if st \<noteq> OK
    then asdm_inc_error ASDM_ERRORS_ASC_GET_SENSORS_FAILED (s2\<lparr>pxAscData := Some datas\<rparr>)
    else if ok' then s4 else free_lists env MAX_ASDM_SDR_REPO 0 s4)"
  have "boot_state t"
    using s2 alloc_lists_boot[OF l] by (simp add: t_def eq free_lists_boot)
  moreover have "iInitAsdm env n' t = Some (OK, s')"
    using assms(5) a k o l by (auto simp: init_sensors_def Let_def t_def split: if_splits)
  ultimately show ?thesis using iInitAsdm_built[OF assms(1-3)] by blast
qed

lemma asdm_bind_ok:
  "bind_callback f e r = (OK, s') \<Longrightarrow> fst r = OK \<and> still (snd r) s'"
  by (cases r) (auto simp: bind_callback_def split: prod.splits if_splits dest: outside_still)

lemma built_still: "still s s' \<Longrightarrow> repo_built repo s' = repo_built repo s"
  by (simp add: repo_built_def still_def get_sdr_def)

lemma iASDM_Initialise_built:
  assumes "memory_available env" "ptrSize env \<le> 8" "eeprom_in_buffer env" "boot_state s"
    "iASDM_Initialise env n s = Some (OK, s')"
  shows "(\<forall>repo < 7. repo_built repo s') \<and> asdm_guarded s' \<and> asdmInitialised s'"
proof -
  obtain ok s1 where o: "outside (asdmMutexCreate env) s = (ok, s1)" by (metis surj_pair)
  obtain r where r: "(if ok then init_sensors env n s1
      else Some (ERROR, asdm_inc_error ASDM_ERRORS_INIT_MUTEX_FAILED s1)) = Some r"
    using assms(5) o by (auto simp: iASDM_Initialise_def split: if_splits bind_splits)
  obtain s2 where b: "bind_callback (apcBind env) ASDM_ERRORS_INIT_BIND_APC_CB_FAILED
      (bind_callback (ascBind env) ASDM_ERRORS_INIT_BIND_ASC_CB_FAILED r) = (OK, s2)"
    and s': "s' = asdm_inc_stat ASDM_STATS_INIT_OVERALL_COMPLETE (s2\<lparr>asdmInitialised := True\<rparr>)"
    using assms(5) o r unfolding iASDM_Initialise_def
    by (auto split: if_splits bind_splits prod.splits)
  obtain q1 where q: "bind_callback (ascBind env) ASDM_ERRORS_INIT_BIND_ASC_CB_FAILED r = (OK, q1)" "still q1 s2"
    using asdm_bind_ok[OF b] by (metis prod.collapse)
  obtain q2 where q2: "r = (OK, q2)" "still q2 q1" using asdm_bind_ok[OF q(1)] by (metis prod.collapse)
  have "ok" using r q2 by (cases ok) auto
  with r q2 have "init_sensors env n s1 = Some (OK, q2)" by simp
  from init_sensors_built[OF assms(1-3) _ this] boot_state_still[OF outside_still[OF o]] assms(4)
  have built: "\<forall>repo < 7. repo_built repo q2" "asdm_guarded q2" by simp_all
  have st: "still q2 s'" using still_trans[OF q2(2) q(2)] by (simp add: s' still_def asdm_inc_stat_def)
  then show ?thesis
    using built built_still[OF st] still_same(2)[OF st] by (simp add: s' asdm_inc_stat_def)
qed

end
