(* ===== verification/AsdmReadings.thy ===== *)
theory AsdmReadings
  imports AsdmBuilt
begin

text \<open>
  The readings of all sensors of a repository, from the records of the firmware to those of the
  host: what the answer holds, and how far the host reads it.
\<close>

section \<open>The answer\<close>

definition value_ok :: "ASDM_SDR_RECORD \<Rightarrow> bool" where
  "value_ok r \<longleftrightarrow> record_len (xSensorValue r) = 4 \<and> length (pucBytesValue (xSensorValue r)) = 32"

definition reading_bytes :: "ASDM_SDR_RECORD \<Rightarrow> u8 list" where
  "reading_bytes r = [4] @ take 4 (pucBytesValue (xSensorValue r)) @ le_bytes (ulMaxValue r) @
     le_bytes (ulAverageValue r) @ [ucSensorStatus r]"

lemma reading_bytes_length [simp]: "value_ok r \<Longrightarrow> length (reading_bytes r) = 14"
  by (simp add: reading_bytes_def value_ok_def)

lemma readings_length: "list_all value_ok l \<Longrightarrow> length (concat (map reading_bytes l)) = 14 * length l"
  by (induction l) simp_all

lemma put_sensor_data_bytes:
  assumes "value_ok r" "fits c 14"
  shows "put_sensor_data r (c, k) = map_option (\<lambda>c'. (c', k + 14)) (put_bytes (reading_bytes r) c)"
proof -
  have v: "unat (4 :: u8) \<le> length (pucBytesValue (xSensorValue r))" "unat (4 :: u8) \<le> length (le_bytes x)" for x :: u32
    using assms(1) by (simp_all add: value_ok_def)
  have "emits (\<lambda>c. put8 4 c \<bind> (\<lambda>c. put_copy (pucBytesValue (xSensorValue r)) 4 c \<bind>
      (\<lambda>c. put_copy (le_bytes (ulMaxValue r)) 4 c \<bind> (\<lambda>c. put_copy (le_bytes (ulAverageValue r)) 4 c \<bind>
      put8 (ucSensorStatus r)))))
    ([4] @ take (unat (4 :: u8)) (pucBytesValue (xSensorValue r)) @ take (unat (4 :: u8)) (le_bytes (ulMaxValue r)) @
      take (unat (4 :: u8)) (le_bytes (ulAverageValue r)) @ [ucSensorStatus r])"
    by (intro emits_bind emits_put8 emits_put_copy v)
  then have e: "put8 4 c \<bind> (\<lambda>c. put_copy (pucBytesValue (xSensorValue r)) 4 c \<bind>
      (\<lambda>c. put_copy (le_bytes (ulMaxValue r)) 4 c \<bind> (\<lambda>c. put_copy (le_bytes (ulAverageValue r)) 4 c \<bind>
      put8 (ucSensorStatus r)))) = put_bytes (reading_bytes r) c"
    using assms by (cases c) (simp add: emits_def reading_bytes_def value_ok_def)
  have "put_sensor_data r (c, k) = (put8 4 c \<bind> (\<lambda>c. put_copy (pucBytesValue (xSensorValue r)) 4 c \<bind>
      (\<lambda>c. put_copy (le_bytes (ulMaxValue r)) 4 c \<bind> (\<lambda>c. put_copy (le_bytes (ulAverageValue r)) 4 c \<bind>
      put8 (ucSensorStatus r))))) \<bind> (\<lambda>c. Some (c, k + 14))"
    using assms(1) by (simp add: put_sensor_data_def value_ok_def bind_assoc)
  then show ?thesis unfolding e by (cases "put_bytes (reading_bytes r) c") simp_all
qed

lemma put_all_readings:
  "list_all value_ok l \<Longrightarrow> i + n \<le> length l \<Longrightarrow> fits c (14 * n) \<Longrightarrow>
   for_count (\<lambda>i q. elem_at l i \<bind> (\<lambda>r. put_sensor_data r q)) n i (c, k) =
   map_option (\<lambda>c'. (c', k + of_nat (14 * n))) (put_bytes (concat (map reading_bytes (take n (drop i l)))) c)"
proof (induction n arbitrary: i c k)
  case 0
  then show ?case by (simp add: put_bytes_def wr_bytes_def fits_def)
next
  case (Suc n)
  then have i: "i < length l" "value_ok (l ! i)" by (auto simp: list_all_length)
  let ?rest = "concat (map reading_bytes (take n (drop (Suc i) l)))"
  have len: "length ?rest = 14 * n"
    using Suc.prems by (subst readings_length) (auto simp: list_all_length)
  have f: "fits c (length (reading_bytes (l ! i)) + length ?rest)"
    using Suc.prems(3) i len by (simp add: fits_def)
  obtain d where d: "put_bytes (reading_bytes (l ! i)) c = Some d" "fits d (length ?rest)"
    using step_put[OF emits_put_bytes f] by metis
  have "take (Suc n) (drop i l) = l ! i # take n (drop (Suc i) l)"
    using i by (simp add: Cons_nth_drop_Suc[symmetric])
  then have "put_bytes (concat (map reading_bytes (take (Suc n) (drop i l)))) c = put_bytes ?rest d"
    using put_bytes_put_bytes[OF f] d by simp
  moreover have "fits c 14" using Suc.prems(3) by (simp add: fits_def)
  ultimately show ?case
    using i d len Suc.IH[of "Suc i" d "k + 14"] Suc.prems(1,2) put_sensor_data_bytes[of "l ! i" c k]
    by (simp add: distrib_left add.assoc)
qed

text \<open>The whole answer: completion code, type, payload size and the readings.\<close>

definition all_values :: "u8 \<Rightarrow> ASDM_SDR_RECORD list \<Rightarrow> u8 list" where
  "all_values t l = [1, t, of_nat (14 * length l)] @ concat (map reading_bytes l)"

lemma type_of_repo: "repo_of_type t = Some repo \<Longrightarrow> repo < 7 \<and> ucRepoType (xAsdmHeaderInfo ! repo) = t"
  by (auto simp: repo_of_type_def xAsdmHeaderInfo_def split: if_splits)

lemma all_values_answer:
  assumes t: "repo_of_type t = Some repo" and e: "get_sdr repo s = Some e" "sdrData e = SensorRecords (Some l)"
      "length l = unat (ucTotalNumRecords (sdrHdr e))" "list_all value_ok l"
    and room: "3 + 14 * length l \<le> length b" "length b < 2 ^ 16"
  shows "put_answer_header repo b \<bind> (\<lambda>c. all_sensor_records repo s (c, 0) \<bind> (\<lambda>(c, n).
      wr8 2 n (fst c) \<bind> (\<lambda>b. Some (OK, (b, snd c), s)))) =
    Some (OK, (all_values t l @ drop (3 + 14 * length l) b, of_nat (3 + 14 * length l)), s)"
proof -
  have h: "repo < length xAsdmHeaderInfo" "ucRepoType (xAsdmHeaderInfo ! repo) = t"
    using type_of_repo[OF t] by (simp_all add: xAsdmHeaderInfo_def)
  obtain x y z b' where b: "b = x # y # z # b'"
    using room(1) by (cases b; cases "tl b"; cases "tl (tl b)") auto
  have head: "put_answer_header repo b = Some (1 # t # z # b', 3)"
    using h b by (simp add: put_answer_header_def wr8_def ASDM_SDR_COMPLETION_CODE_OPERATION_SUCCESS_def)
  have f: "fits (1 # t # z # b', 3) (14 * length l)" using room b by (simp add: fits_def)
  let ?d = "concat (map reading_bytes l)"
  have "put_bytes ?d (1 # t # z # b', 3) = Some (1 # t # z # ?d @ drop (14 * length l) b', 3 + of_nat (14 * length l))"
  proof -
    have "drop (3 + 14 * length l) (1 # t # z # b') = drop (14 * length l) b'" by (simp add: numeral_3_eq_3)
    then show ?thesis
      using put_bytes_eq[of "1 # t # z # b'" 3 ?d] f readings_length[OF e(4)] by simp
  qed
  then have "all_sensor_records repo s ((1 # t # z # b', 3), 0) =
      Some ((1 # t # z # ?d @ drop (14 * length l) b', 3 + of_nat (14 * length l)), of_nat (14 * length l))"
    using put_all_readings[OF e(4), of 0 "length l" "(1 # t # z # b', 3)" 0] f e(1-3)
    by (simp add: all_sensor_records_def)
  with head show ?thesis
    by (simp add: wr8_def all_values_def b numeral_2_eq_2 numeral_3_eq_3)
qed

section \<open>The host\<close>

lemma find_index_first:
  assumes "i < length xs" "P (xs ! i)" "\<And>j. j < i \<Longrightarrow> \<not> P (xs ! j)"
  shows "find_index P xs = Some i"
proof -
  have "takeWhile (\<lambda>x. \<not> P x) xs = take i xs"
    using assms by (intro takeWhile_eq_take_P_nth) auto
  then show ?thesis using assms(1) by (simp add: find_index_def)
qed

text \<open>Records numbered from 1, and one that took over the readings.\<close>

definition numbered :: "sdr_repo \<Rightarrow> sdr_record list \<Rightarrow> bool" where
  "numbered r h \<longleftrightarrow> repo_data r = Records (Some h) \<and> length h = unat (num_records r) \<and> h \<noteq> [] \<and>
     (\<forall>j < length h. rec_id (h ! j) = of_nat (Suc j))"

definition refreshed :: "ASDM_SDR_RECORD \<Rightarrow> sdr_record \<Rightarrow> sdr_record" where
  "refreshed f h = h\<lparr>value_len := 4,
     rec_value := take 4 (pucBytesValue (xSensorValue f)) @ drop 4 zero_value,
     rec_max := le_bytes (ulMaxValue f), rec_avg := le_bytes (ulAverageValue f),
     sensor_status := ucSensorStatus f\<rparr>"

lemma refreshed_id [simp]: "rec_id (refreshed f h) = rec_id h"
  by (simp add: refreshed_def)

lemma find_numbered:
  assumes "numbered r h" "repo_type r = rid" "k < length h"
  shows "find_sdr_record [r] rid (int k) = Some (Some (0, k))"
proof -
  have n: "length h \<le> 255" using assms(1) u8_bound[of "num_records r"] by (simp add: numbered_def)
  have id: "uint (rec_id (h ! j)) - 1 = int j" if "j < length h" for j
  proof -
    have "uint (of_nat (Suc j) :: u8) = int (Suc j)"
      using that n by (simp only: uint_nat unat_of_nat) simp
    then show ?thesis using assms(1) that by (simp add: numbered_def)
  qed
  have "find_index (\<lambda>x. uint (rec_id x) - 1 = int k) h = Some k"
    using assms(3) id by (intro find_index_first) auto
  then show ?thesis
    using assms by (auto simp: find_in_repo_def numbered_def)
qed

lemma refresh_record_reads:
  assumes "value_ok f"
  shows "refresh_record (pre @ reading_bytes f @ rest) (length pre + 1) 4 h = Some (refreshed f h)"
proof -
  let ?v = "take 4 (pucBytesValue (xSensorValue f))" and ?m = "le_bytes (ulMaxValue f)"
    and ?a = "le_bytes (ulAverageValue f)"
  let ?b = "pre @ reading_bytes f @ rest"
  have z: "length zero_value = 64" "length zero_limit = 4"
    by (simp_all add: zero_value_def zero_limit_def SDR_VALUE_MAX_LEN_def SDR_THRESHOLD_MAX_LEN_def)
  have "length ?v = 4" using assms by (simp add: value_ok_def)
  then have 1: "copy_in zero_value 4 ?b (length pre + 1) = Some (?v @ drop 4 zero_value, length pre + 5)"
    using reads_copy_in[of ?v 4 zero_value] z
    by (simp add: reads_def reading_bytes_def) (drule spec[of _ "pre @ [4]"], simp)
  have 2: "copy_in zero_limit 4 ?b (length pre + 5) = Some (?m, length pre + 9)"
    using reads_copy_in[of ?m 4 zero_limit] z \<open>length ?v = 4\<close>
    by (simp add: reads_def reading_bytes_def) (drule spec[of _ "pre @ [4] @ ?v"], simp)
  have 3: "copy_in zero_limit 4 ?b (length pre + 9) = Some (?a, length pre + 13)"
    using reads_copy_in[of ?a 4 zero_limit] z \<open>length ?v = 4\<close>
    by (simp add: reads_def reading_bytes_def) (drule spec[of _ "pre @ [4] @ ?v @ ?m"], simp)
  have 4: "rd8 ?b (length pre + 13) = Some (ucSensorStatus f)"
    using \<open>length ?v = 4\<close> by (simp add: reading_bytes_def nth_append)
  show ?thesis
    unfolding refresh_record_def using 1 2 3 4 by (simp add: refreshed_def)
qed

text \<open>The loop takes over the readings \<open>fs\<close> from record \<open>k\<close> on, until the payload ends within the last.\<close>

lemma refresh_loop_reads:
  "list_all value_ok fs \<Longrightarrow> numbered r h \<Longrightarrow> repo_type r = rid \<Longrightarrow> k + length fs \<le> length h \<Longrightarrow>
   length pre + 14 * length fs < stop + 14 \<Longrightarrow> stop \<le> length pre + 14 * length fs \<Longrightarrow>
   refresh_loop (pre @ concat (map reading_bytes fs) @ rest) stop rid (length pre) k r =
   Some (r\<lparr>repo_data := Records (Some (take k h @ map2 refreshed fs (drop k h) @ drop (k + length fs) h))\<rparr>)"
proof (induction fs arbitrary: r h k pre)
  case Nil
  then show ?case by (subst refresh_loop.simps) (simp add: numbered_def)
next
  case (Cons f fs)
  let ?b = "pre @ concat (map reading_bytes (f # fs)) @ rest"
  let ?r = "r\<lparr>repo_data := Records (Some (h[k := refreshed f (h ! k)]))\<rparr>"
  have k: "k < length h" using Cons.prems by simp
  have b: "?b = pre @ reading_bytes f @ (concat (map reading_bytes fs) @ rest)" by simp
  have "rd8 ?b (length pre) = Some 4" by (simp add: reading_bytes_def nth_append)
  moreover have "refresh_sensor ?b (length pre + 1) 4 rid k r = Some ?r"
    using Cons.prems(1-3) find_numbered[OF Cons.prems(2,3) k] refresh_record_reads[of f pre _ "h ! k"]
    unfolding refresh_sensor_def b by (simp add: numbered_def)
  moreover have "length pre < stop" using Cons.prems(5) by simp
  ultimately have "refresh_loop ?b stop rid (length pre) k r =
      refresh_loop ?b stop rid (length pre + 1 + 3 * unat (4 :: u8) + 1) (Suc k) ?r"
    unfolding refresh_loop.simps[of ?b stop rid "length pre" k r] by simp
  moreover have "length pre + 1 + 3 * unat (4 :: u8) + 1 = length pre + 14" by simp
  ultimately have step: "refresh_loop ?b stop rid (length pre) k r =
      refresh_loop ?b stop rid (length pre + 14) (Suc k) ?r" by (simp only:)
  have num: "numbered ?r (h[k := refreshed f (h ! k)])"
    using Cons.prems(2) k unfolding numbered_def
    by (metis (no_types, lifting) length_list_update list_update_nonempty nth_list_update_eq
        nth_list_update_neq refreshed_id sdr_repo.select_convs(3,6) sdr_repo.surjective sdr_repo.update_convs(6))
  have "length (pre @ reading_bytes f) = length pre + 14" using Cons.prems(1) by simp
  then have "refresh_loop ?b stop rid (length pre + 14) (Suc k) ?r =
      Some (?r\<lparr>repo_data := Records (Some (take (Suc k) (h[k := refreshed f (h ! k)]) @
        map2 refreshed fs (drop (Suc k) (h[k := refreshed f (h ! k)])) @
        drop (Suc k + length fs) (h[k := refreshed f (h ! k)])))\<rparr>)"
    using Cons.IH[OF _ num, of "Suc k" "pre @ reading_bytes f"] Cons.prems by simp
  moreover have "take (Suc k) (h[k := refreshed f (h ! k)]) = take k h @ [refreshed f (h ! k)]"
    using k by (simp add: take_Suc_conv_app_nth)
  moreover have "drop k h = h ! k # drop (Suc k) h" using k by (simp add: Cons_nth_drop_Suc)
  ultimately show ?case unfolding step by simp
qed

text \<open>The payload size has 8 bits: of \<open>n\<close> readings of 14 bytes the host takes over the first
  \<open>readings_read n\<close>.\<close>

definition readings_read :: "nat \<Rightarrow> nat" where
  "readings_read n = ((14 * n) mod 256 + 13) div 14"

lemma readings_read_all: "n \<le> 18 \<Longrightarrow> readings_read n = n"
  by (simp add: readings_read_def)

lemma readings_read_some: "18 < n \<Longrightarrow> readings_read n < n"
proof -
  assume n: "18 < n"
  have "(14 * n) mod 256 + 13 < 14 * n"
  proof (cases "n \<le> 19")
    case True
    then have "n = 19" using n by simp
    then show ?thesis by simp
  next
    case False
    have "(14 * n) mod 256 < 256" by simp
    then show ?thesis using False by linarith
  qed
  then show ?thesis by (simp add: readings_read_def div_less_iff_less_mult mult.commute)
qed

text \<open>They are those that begin within the wrapped size.\<close>

lemma readings_read_begin:
  "length (filter (\<lambda>i. 14 * i < unat (of_nat (14 * n) :: u8)) [0..<n]) = readings_read n"
proof -
  let ?m = "readings_read n"
  have "unat (of_nat (14 * n) :: u8) = (14 * n) mod 256" by (simp only: unat_of_nat) simp
  then have b: "14 * i < unat (of_nat (14 * n) :: u8) \<longleftrightarrow> i < ?m" for i
    unfolding readings_read_def by (simp only:) linarith
  have "?m \<le> n" using readings_read_all[of n] readings_read_some[of n] by (cases "n \<le> 18") auto
  then have "[0..<n] = [0..<?m] @ [?m..<n]" by (metis le0 upt_add_eq_append le_add_diff_inverse)
  moreover have "filter (\<lambda>i. i < ?m) [0..<?m] = [0..<?m]" "filter (\<lambda>i. i < ?m) [?m..<n] = []"
    by (simp_all add: filter_empty_conv)
  ultimately show ?thesis unfolding b by simp
qed

lemma refresh_repo_reads:
  assumes "list_all value_ok fs" "numbered r h" "repo_type r = t" "length fs \<le> length h"
  defines "m \<equiv> readings_read (length fs)"
  shows "refresh_repo (all_values t fs @ rest) r =
    Some (r\<lparr>repo_data := Records (Some (map2 refreshed (take m fs) h @ drop m h))\<rparr>)"
proof -
  let ?p = "(14 * length fs) mod 256"
  have p: "unat (of_nat (14 * length fs) :: u8) = ?p" by (simp only: unat_of_nat) simp
  have m: "m \<le> length fs" "14 * m < ?p + 14" "?p \<le> 14 * m"
  proof -
    show "m \<le> length fs"
      using readings_read_all[of "length fs"] readings_read_some[of "length fs"]
      by (cases "length fs \<le> 18") (simp_all add: m_def)
    show "14 * m < ?p + 14" "?p \<le> 14 * m"
      unfolding m_def readings_read_def by linarith+
  qed
  have "concat (map reading_bytes fs) = concat (map reading_bytes (take m fs)) @ concat (map reading_bytes (drop m fs))"
    by (metis append_take_drop_id concat_append map_append)
  then have "refresh_loop (all_values t fs @ rest) (3 + ?p) t 3 0 r =
      Some (r\<lparr>repo_data := Records (Some (map2 refreshed (take m fs) h @ drop m h))\<rparr>)"
    using refresh_loop_reads[of "take m fs" r h t 0 "[1, t, of_nat (14 * length fs)]" "3 + ?p"
        "concat (map reading_bytes (drop m fs)) @ rest"] assms m
    by (simp add: all_values_def list_all_length numeral_3_eq_3)
  then show ?thesis
    using p by (simp add: refresh_repo_def all_values_def)
qed

section \<open>From the firmware to the host\<close>

text \<open>
  The command queue and the service of the firmware behind it bring the answer of ASDM in the
  state \<open>s\<close> to request \<open>api\<close> for repository type \<open>t\<close> into the buffer of the host.
\<close>

definition answered_by ::
  "'h host_env \<Rightarrow> u8 \<Rightarrow> u8 \<Rightarrow> 'w asdm_env \<Rightarrow> ASDM_API_ID_TYPE \<Rightarrow> u8 \<Rightarrow> 'w asdm \<Rightarrow> bool" where
  "answered_by henv cmd flags env api t s \<longleftrightarrow>
     (\<forall>buf w b z s'. length buf = 4096 \<longrightarrow>
        iASDM_PopulateResponse env api t 0 (Some buf) (Some 0) s = Some (OK, Some b, z, s') \<longrightarrow>
        (\<exists>w'. submit_gcq henv cmd flags buf w = (0, b, w')))"

lemma get_all_answers:
  assumes s: "asdm_guarded s" "repo_of_type t = Some repo" "get_sdr repo s = Some e"
      "sdrData e = SensorRecords (Some l)" "length l = unat (ucTotalNumRecords (sdrHdr e))" "list_all value_ok l"
    and room: "3 + 14 * length l \<le> length b" "length b < 2 ^ 16"
    and m: "mutex_works env (asdmWorld s)"
  shows "\<exists>s'. iPopulateAsdmGetAllSensorDataResponse env t (b, sz) s = Some (OK,
    (all_values t l @ drop (3 + 14 * length l) b, of_nat (3 + 14 * length l)), s')"
proof -
  obtain w1 w2 where w: "asdmMutexTake env (asdmWorld s) = (True, w1)" "asdmMutexRelease env w1 = (True, w2)"
    using m by (cases "asdmMutexTake env (asdmWorld s)",
        cases "asdmMutexRelease env (snd (asdmMutexTake env (asdmWorld s)))") (auto simp: mutex_works_def)
  let ?s = "asdm_inc_stat ASDM_STATS_TAKE_MUTEX ((asdm_inc_stat ASDM_STATS_ASDM_GET_ALL_SENSOR_API s)
      \<lparr>asdmWorld := w1\<rparr>)"
  have e: "get_sdr repo ?s = Some e" using s(3) by (simp add: asdm_inc_stat_def get_sdr_def)
  note r = all_values_answer[OF s(2) e s(4,5,6) room]
  show ?thesis
    using s(1,2) w r
    by (simp add: iPopulateAsdmGetAllSensorDataResponse_def sensor_data_answer_def iMapAsdmRepo_def
        with_asdm_mutex_def outside_def asdm_guarded_def asdm_inc_stat_def case_prod_beta' bind_assoc)
qed

lemma all_values_reach_host:
  assumes s: "asdm_guarded s" "asdmInitialised s" "repo_of_type t = Some repo" "get_sdr repo s = Some e"
      "sdrData e = SensorRecords (Some l)" "length l = unat (ucTotalNumRecords (sdrHdr e))" "list_all value_ok l"
    and m: "mutex_works env (asdmWorld s)"
    and h: "numbered r h" "repo_type r = t" "length l = length h" "get_rid t = get_sid cmd 0"
    and q: "\<And>w. fst (kzalloc henv w)" "answered_by henv cmd 0 env ASDM_API_ID_TYPE_GET_ALL_SENSOR_DATA t s"
  shows "\<exists>w'. get_all_sensors henv cmd r w = Some (0, r\<lparr>repo_data := Records (Some
    (map2 refreshed (take (readings_read (length l)) l) h @ drop (readings_read (length l)) h)),
    last_update := jiffies henv w'\<rparr>, w')"
proof -
  obtain w1 where w1: "kzalloc henv w = (True, w1)" using q(1)[of w] by (cases "kzalloc henv w") simp
  have "length l \<le> 255" using s(6) u8_bound by metis
  then have room: "3 + 14 * length l \<le> length (replicate SENSOR_RSP_LEN (0 :: u8))"
    "length (replicate SENSOR_RSP_LEN (0 :: u8)) < 2 ^ 16"
    by (simp_all add: SENSOR_RSP_LEN_def)
  let ?b = "all_values t l @ drop (3 + 14 * length l) (replicate SENSOR_RSP_LEN 0)"
  obtain z s' where "iASDM_PopulateResponse env ASDM_API_ID_TYPE_GET_ALL_SENSOR_DATA t 0
      (Some (replicate SENSOR_RSP_LEN 0)) (Some 0) s = Some (OK, Some ?b, z, s')"
    using get_all_answers[OF s(1,3-7) room m, of 0] s(1,2) by (auto simp: iASDM_PopulateResponse_def)
  then obtain w2 where w2: "submit_gcq henv cmd 0 (replicate SENSOR_RSP_LEN 0) w1 = (0, ?b, w2)"
    using q(2) unfolding answered_by_def by (metis length_replicate SENSOR_RSP_LEN_def)
  have "rd8 ?b 0 = Some SDR_CODE_OP_SUCCESS" "rd8 ?b 1 = Some t"
    by (simp_all add: all_values_def SDR_CODE_OP_SUCCESS_def)
  then show ?thesis
    using w1 w2 h(4) refresh_repo_reads[OF s(7) h(1,2), of "drop (3 + 14 * length l) (replicate SENSOR_RSP_LEN 0)"] h(3)
    by (simp add: get_all_sensors_def)
qed

lemma repository_reaches_host:
  assumes s: "asdm_guarded s" "asdmInitialised s" "repo_of_type t = Some repo"
      "ucNumFound (pxSensorList s ! repo) \<noteq> 0" "repo_built repo s" "get_sdr repo s = Some e"
      "length (sdr_image e) < SDR_RESP_LEN"
    and m: "mutex_works env (asdmWorld s)"
    and q: "\<And>w. fst (kzalloc henv w)"
      "answered_by henv GCQ_SUBMIT_CMD_GET_SDR (get_flags_for_repo t) env ASDM_API_ID_TYPE_GET_SDR t s"
  shows "\<exists>w'. get_sdr_repo henv t zero_repo w = Some (0, host_repo e, w')"
proof -
  have b: "ucRepoType (sdrHdr e) = t" "ucTotalNumRecords (sdrHdr e) \<noteq> 0" "usTotalNumBytes (sdrHdr e) \<noteq> 0"
      "sdrEor e = ASDM_EOR_MARKER" "data_ok repo (unat (ucTotalNumRecords (sdrHdr e))) (sdrData e)"
    using s(4,5,6) type_of_repo[OF s(3)] by (simp_all add: repo_built_def Let_def)
  obtain w1 where w1: "kzalloc henv w = (True, w1)" using q(1)[of w] by (cases "kzalloc henv w") simp
  let ?buf = "replicate SDR_RESP_LEN (0 :: u8)"
  let ?b = "1 # sdr_image e @ drop (1 + length (sdr_image e)) ?buf"
  have room: "1 + length (sdr_image e) \<le> length ?buf" "length ?buf < 2 ^ 16"
    using s(7) by (simp_all add: SDR_RESP_LEN_def)
  obtain z s' where "iASDM_PopulateResponse env ASDM_API_ID_TYPE_GET_SDR t 0 (Some ?buf) (Some 0) s
      = Some (OK, Some ?b, z, s')"
    using get_sdr_answers[OF s(1,3,4,6) b(5) room m] s(1,2) by (auto simp: iASDM_PopulateResponse_def)
  then obtain w2 where w2: "submit_gcq henv GCQ_SUBMIT_CMD_GET_SDR (get_flags_for_repo t) ?buf w1 = (0, ?b, w2)"
    using q(2) unfolding answered_by_def by (metis length_replicate SDR_RESP_LEN_def)
  have "rd8 ?b 0 = Some SDR_CODE_OP_SUCCESS" by (simp add: SDR_CODE_OP_SUCCESS_def)
  moreover have "rd8 ?b 1 = Some t" using b(1) by (simp add: sdr_image_def header_bytes_def)
  moreover obtain w3 where "parse_sdr henv (drop 1 ?b) zero_repo w2 = Some (0, host_repo e, w3)"
    using parse_sdr_reads[OF q(1) b(5) _ b(2,3,4), of "drop (1 + length (sdr_image e)) ?buf" w2] b(1) s(3) by auto
  ultimately show ?thesis
    using w1 w2 by (simp add: get_sdr_repo_def)
qed

end
