(* ===== verification/AsdmSensors.thy ===== *)
theory AsdmSensors
  imports AsdmReadings
begin

text \<open>
  Functional behaviour of the sensor code of asdm.c: the list of a repository is the list of its
  enabled sensors, an update copies the readings of every sensor, the total power is a sum with
  a maximum and a bounded average, and a new record shows what its sensor has.
\<close>

section \<open>The list of a repository\<close>

definition wanted :: "(nat \<Rightarrow> int) \<Rightarrow> ASC_SENSOR_DATA list \<Rightarrow> nat \<Rightarrow> nat \<Rightarrow> bool" where
  "wanted en datas repo i \<longleftrightarrow> ucSensorType (datas ! i) AND repo_bit repo \<noteq> 0 \<and> en (pxSensorEnabled (datas ! i)) = 1"

definition wanted_upto :: "(nat \<Rightarrow> int) \<Rightarrow> ASC_SENSOR_DATA list \<Rightarrow> nat \<Rightarrow> nat \<Rightarrow> nat list" where
  "wanted_upto en datas repo n = filter (wanted en datas repo) [0..<n]"

lemma wanted_length: "length (wanted_upto en datas repo n) \<le> n"
  using length_filter_le[of "wanted en datas repo" "[0..<n]"] by (simp add: wanted_upto_def)

lemma wanted_Suc:
  "wanted_upto en datas repo (Suc n) = wanted_upto en datas repo n @ (if wanted en datas repo n then [n] else [])"
  by (simp add: wanted_upto_def)

text \<open>The list after the sensors below \<open>n\<close>.\<close>

definition listed :: "(nat \<Rightarrow> int) \<Rightarrow> ASC_SENSOR_DATA list \<Rightarrow> nat \<Rightarrow> nat \<Rightarrow> u8 list \<Rightarrow> u8 list \<Rightarrow> ASDM_SENSOR_LIST" where
  "listed en datas repo n idx ids = (let ws = wanted_upto en datas repo n in
     \<lparr>ucNumFound = of_nat (length ws), pucSensorIndex = Some (map of_nat ws @ drop (length ws) idx),
      pucSensorId = Some (map (\<lambda>i. ucSensorId (datas ! i)) ws @ drop (length ws) ids)\<rparr>)"

lemma wr8_at_end: "length bs < length xs \<Longrightarrow> n = length bs \<Longrightarrow>
  wr8 n v (bs @ drop n xs) = Some (bs @ v # drop (Suc n) xs)"
  by (simp add: wr8_def list_update_append Cons_nth_drop_Suc[symmetric])

lemma list_sensor_listed:
  assumes en: "\<And>f w. sensorEnabled env f w = (en f, w)"
    and n: "n < length datas" "n < 256" "n < length idx" "n < length ids"
    and l: "repo < length (pxSensorList s)" "pxSensorList s ! repo = listed en datas repo n idx ids"
  shows "list_sensor env datas repo n s =
    Some (s\<lparr>pxSensorList := (pxSensorList s)[repo := listed en datas repo (Suc n) idx ids]\<rparr>)"
proof -
  let ?k = "length (wanted_upto en datas repo n)"
  have k: "?k \<le> n" by (rule wanted_length)
  have u: "unat (of_nat ?k :: u8) = ?k" using k n(2) by (simp add: unat_of_nat)
  have same: "(pxSensorList s)[repo := listed en datas repo n idx ids] = pxSensorList s"
    using l by (metis list_update_id)
  have o: "outside (sensorEnabled env f) s = (en f, s)" for f
    by (simp add: outside_def en)
  show ?thesis
  proof (cases "wanted en datas repo n")
    case False
    then have "listed en datas repo (Suc n) idx ids = listed en datas repo n idx ids"
      by (simp add: listed_def wanted_Suc)
    with False show ?thesis
      using n(1) same by (auto simp: list_sensor_def o wanted_def)
  next
    case True
    have "wr8 ?k (of_nat n) (map of_nat (wanted_upto en datas repo n) @ drop ?k idx) =
        Some (map of_nat (wanted_upto en datas repo n) @ of_nat n # drop (Suc ?k) idx)"
      "wr8 ?k (ucSensorId (datas ! n)) (map (\<lambda>i. ucSensorId (datas ! i)) (wanted_upto en datas repo n) @ drop ?k ids) =
        Some (map (\<lambda>i. ucSensorId (datas ! i)) (wanted_upto en datas repo n) @ ucSensorId (datas ! n) # drop (Suc ?k) ids)"
      using k n by (intro wr8_at_end; simp)+
    with True show ?thesis
      using n(1) l u
      by (simp add: list_sensor_def o wanted_def listed_def Let_def wanted_Suc set_sensor_list_def add.commute)
  qed
qed

lemma list_sensors_listed:
  assumes en: "\<And>f w. sensorEnabled env f w = (en f, w)"
    and l: "repo < length (pxSensorList s)"
  shows "k + n \<le> length datas \<Longrightarrow> k + n \<le> 256 \<Longrightarrow> k + n \<le> length idx \<Longrightarrow> k + n \<le> length ids \<Longrightarrow>
    for_count (list_sensor env datas repo) n k
      (s\<lparr>pxSensorList := (pxSensorList s)[repo := listed en datas repo k idx ids]\<rparr>) =
    Some (s\<lparr>pxSensorList := (pxSensorList s)[repo := listed en datas repo (k + n) idx ids]\<rparr>)"
proof (induction n arbitrary: k)
  case 0
  then show ?case by simp
next
  case (Suc n)
  let ?s = "s\<lparr>pxSensorList := (pxSensorList s)[repo := listed en datas repo k idx ids]\<rparr>"
  have "list_sensor env datas repo k ?s =
      Some (?s\<lparr>pxSensorList := (pxSensorList ?s)[repo := listed en datas repo (Suc k) idx ids]\<rparr>)"
    using Suc.prems l by (intro list_sensor_listed[OF en]) simp_all
  then show ?case using Suc.IH[of "Suc k"] Suc.prems by simp
qed

lemma repository_list:
  assumes en: "\<And>f w. sensorEnabled env f w = (en f, w)"
    and s: "pxAscData s = Some datas" "asdm_guarded s" "iSensorListInitialised s" "repo < 7"
      "length (pxSensorList s) = 7"
      "pxSensorList s ! repo = \<lparr>ucNumFound = 0, pucSensorIndex = Some idx, pucSensorId = Some ids\<rparr>"
    and n: "unat n \<le> length datas" "unat n \<le> length idx" "unat n \<le> length ids"
  shows "iPopulateRepoSensorList env n repo s = Some (OK,
    s\<lparr>pxSensorList := (pxSensorList s)[repo := listed en datas repo (unat n) idx ids]\<rparr>)"
proof -
  have "listed en datas repo 0 idx ids = pxSensorList s ! repo"
    using s(6) by (simp add: listed_def wanted_upto_def)
  then have "s = s\<lparr>pxSensorList := (pxSensorList s)[repo := listed en datas repo 0 idx ids]\<rparr>" by simp
  then show ?thesis
    using list_sensors_listed[OF en, of repo s 0 "unat n" datas idx ids] s n u8_bound[of n]
    by (simp add: iPopulateRepoSensorList_def)
qed

section \<open>Total power\<close>

definition counts :: "ASC_SENSOR_DATA list \<Rightarrow> u8 list \<Rightarrow> nat \<Rightarrow> bool" where
  "counts datas idx i \<longleftrightarrow> ucTotalPowerSensor (datas ! unat (idx ! i)) = 1"

lemma sum_power_sums:
  assumes s: "pxAscData s = Some datas" "get_sdr 3 s = Some e" "sdrData e = SensorRecords (Some l)"
      "pucSensorIndex (pxSensorList s ! 3) = Some idx"
  shows "k + n \<le> length l \<Longrightarrow> k + n \<le> length idx \<Longrightarrow> \<forall>i < k + n. unat (idx ! i) < length datas \<Longrightarrow>
    sum_power n k tot s = Some (OK, tot +
      (\<Sum>i \<leftarrow> filter (counts datas idx) [k..<k + n]. fieldValue (xSensorValue (l ! i))), s)"
proof (induction n arbitrary: k tot)
  case 0
  then show ?case by simp
next
  case (Suc n)
  have "[k..<k + Suc n] = k # [Suc k..<Suc k + n]" by (simp add: upt_conv_Cons)
  then show ?case
    using Suc.IH[of "Suc k"] Suc.prems s by (simp add: rd8_def counts_def add.assoc)
qed

text \<open>The statistics over a sequence of totals.\<close>

primrec power_history :: "u32 list \<Rightarrow> 'w asdm \<Rightarrow> 'w asdm option" where
  "power_history [] s = Some s"
| "power_history (t # ts) s = power_statistics t s \<bind> power_history ts"

lemma average_step:
  fixes a t m n :: nat
  assumes "a \<le> m" "t \<le> m" "0 < n"
  shows "a - a div n + t div n \<le> m"
proof -
  have "t div n \<le> m div n" using assms(2) by (rule div_le_mono)
  moreover have "a - a div n \<le> m - m div n"
  proof -
    have "m div n \<le> (a + (m - a)) div n" using assms(1) by simp
    also have "\<dots> \<le> a div n + (m - a)"
    proof -
      have "(a + (m - a)) div n \<le> (a + (m - a) * n) div n" using assms(3) by (intro div_le_mono) simp
      then show ?thesis using assms(3) by simp
    qed
    finally show ?thesis
      using div_le_dividend[of a n] div_le_dividend[of m n] assms(1) by linarith
  qed
  moreover have "m div n \<le> m" by simp
  ultimately show ?thesis by linarith
qed

lemma power_statistics_step:
  fixes s :: "'w asdm"
  assumes "unat (ulPowerCalcIterations s) + 1 < 2 ^ 32" "ulAveragePower s \<le> ulMaxPower s"
  shows "\<exists>s'. power_statistics t s = Some s' \<and> unat (ulPowerCalcIterations s') = unat (ulPowerCalcIterations s) + 1 \<and>
    ulMaxPower s' = max (ulMaxPower s) t \<and> ulAveragePower s' \<le> ulMaxPower s'"
proof -
  let ?n = "ulPowerCalcIterations s + 1" and ?a = "ulAveragePower s" and ?m = "max (ulMaxPower s) t"
  have n: "unat ?n = unat (ulPowerCalcIterations s) + 1"
    using assms(1) by (simp add: unat_word_ariths)
  then have n0: "?n \<noteq> 0" "0 < unat ?n" by auto
  have le: "unat ?a \<le> unat ?m" "unat t \<le> unat ?m"
    using assms(2) by (auto simp: word_le_nat_alt max_def)
  note step = average_step[OF le n0(2)]
  have d: "unat (?a - ?a div ?n) = unat ?a - unat ?a div unat ?n"
    by (subst unat_sub) (simp_all add: word_le_nat_alt unat_div_distrib)
  have "unat ?m < 2 ^ LENGTH(32)" by (rule unsigned_less)
  then have "unat (?a - ?a div ?n + t div ?n) = unat ?a - unat ?a div unat ?n + unat t div unat ?n"
    using step by (simp add: unat_word_ariths(1) d unat_div_distrib)
  then have "?a - ?a div ?n + t div ?n \<le> ?m" using step by (simp add: word_le_nat_alt)
  moreover have "(if ulMaxPower s < t then t else ulMaxPower s) = ?m" by (auto simp: max_def)
  ultimately show ?thesis using n n0(1) by (simp add: power_statistics_def Let_def)
qed

lemma power_history_bounded:
  "unat (ulPowerCalcIterations s) + length ts < 2 ^ 32 \<Longrightarrow> ulAveragePower s \<le> ulMaxPower s \<Longrightarrow>
   \<exists>s'. power_history ts s = Some s' \<and> ulMaxPower s' = fold (\<lambda>t m. max m t) ts (ulMaxPower s) \<and>
     ulAveragePower s' \<le> ulMaxPower s'"
proof (induction ts arbitrary: s)
  case Nil
  then show ?case by simp
next
  case (Cons t ts)
  obtain s1 where s1: "power_statistics t s = Some s1"
    "unat (ulPowerCalcIterations s1) = unat (ulPowerCalcIterations s) + 1"
    "ulMaxPower s1 = max (ulMaxPower s) t" "ulAveragePower s1 \<le> ulMaxPower s1"
    using power_statistics_step[of s t] Cons.prems by auto
  then show ?case using Cons.IH[of s1] Cons.prems by simp
qed

section \<open>Updating the readings\<close>

text \<open>The records of repository \<open>repo\<close> replaced.\<close>

definition with_records :: "nat \<Rightarrow> ASDM_SDR_RECORD list \<Rightarrow> ASDM_SDS_RECORD list \<Rightarrow> 'w asdm \<Rightarrow> 'w asdm" where
  "with_records repo l q s = s\<lparr>
     pxAsdmSdrInfo := map_option (\<lambda>t. t[repo := (t ! repo)\<lparr>sdrData := SensorRecords (Some l)\<rparr>]) (pxAsdmSdrInfo s),
     pxAsdmSdsInfo := map_option (\<lambda>t. t[repo := (t ! repo)\<lparr>sdsRecords := Some q\<rparr>]) (pxAsdmSdsInfo s)\<rparr>"

text \<open>The sensors of repository \<open>repo\<close>: the records and the indices of the sensors in the data.\<close>

definition sensors_ready ::
  "nat \<Rightarrow> ASDM_SDR_RECORD list \<Rightarrow> ASDM_SDS_RECORD list \<Rightarrow> u8 list \<Rightarrow> ASC_SENSOR_DATA list \<Rightarrow> 'w asdm \<Rightarrow> bool" where
  "sensors_ready repo l q idx datas s \<longleftrightarrow> pxAscData s = Some datas \<and>
     (\<exists>e f. get_sdr repo s = Some e \<and> sdrData e = SensorRecords (Some l) \<and>
        get_sds repo s = Some f \<and> sdsRecords f = Some q) \<and>
     pucSensorIndex (pxSensorList s ! repo) = Some idx \<and>
     (let n = unat (ucNumFound (pxSensorList s ! repo)) in
        n \<le> length l \<and> n \<le> length q \<and> n \<le> length idx \<and> (\<forall>i < n. unat (idx ! i) < length datas))"

definition sensor_reading :: "'w asdm_env \<Rightarrow> nat \<Rightarrow> ASC_SENSOR_DATA list \<Rightarrow> u8 list \<Rightarrow> nat \<Rightarrow> ASC_READINGS" where
  "sensor_reading env repo datas idx i = reading env (datas ! unat (idx ! i)) repo"

definition sdrs_after ::
  "'w asdm_env \<Rightarrow> nat \<Rightarrow> ASC_SENSOR_DATA list \<Rightarrow> u8 list \<Rightarrow> nat \<Rightarrow> ASDM_SDR_RECORD list \<Rightarrow> ASDM_SDR_RECORD list" where
  "sdrs_after env repo datas idx n l =
     map (\<lambda>i. updated_sdr (sensor_reading env repo datas idx i) (l ! i)) [0..<n] @ drop n l"

definition sdss_after ::
  "'w asdm_env \<Rightarrow> nat \<Rightarrow> ASC_SENSOR_DATA list \<Rightarrow> u8 list \<Rightarrow> nat \<Rightarrow> ASDM_SDS_RECORD list \<Rightarrow> ASDM_SDS_RECORD list" where
  "sdss_after env repo datas idx n q =
     map (\<lambda>i. updated_sds (sensor_reading env repo datas idx i) (q ! i)) [0..<n] @ drop n q"

lemma after_step:
  "n < length l \<Longrightarrow> (sdrs_after env repo datas idx n l)[n := updated_sdr (sensor_reading env repo datas idx n) (l ! n)]
     = sdrs_after env repo datas idx (Suc n) l"
  "n < length q \<Longrightarrow> (sdss_after env repo datas idx n q)[n := updated_sds (sensor_reading env repo datas idx n) (q ! n)]
     = sdss_after env repo datas idx (Suc n) q"
  by (simp_all add: sdrs_after_def sdss_after_def list_update_append Cons_nth_drop_Suc[symmetric])

lemma after_nth:
  "n < length l \<Longrightarrow> sdrs_after env repo datas idx n l ! n = l ! n"
  "n < length q \<Longrightarrow> sdss_after env repo datas idx n q ! n = q ! n"
  "n \<le> length l \<Longrightarrow> length (sdrs_after env repo datas idx n l) = length l"
  "n \<le> length q \<Longrightarrow> length (sdss_after env repo datas idx n q) = length q"
  by (simp_all add: sdrs_after_def sdss_after_def nth_append)

lemma with_records_get:
  assumes "get_sdr repo s = Some e" "get_sds repo s = Some f"
  shows "get_sdr repo (with_records repo l q s) = Some (e\<lparr>sdrData := SensorRecords (Some l)\<rparr>)"
    "get_sds repo (with_records repo l q s) = Some (f\<lparr>sdsRecords := Some q\<rparr>)"
    "j \<noteq> repo \<Longrightarrow> get_sdr j (with_records repo l q s) = get_sdr j s"
    "j \<noteq> repo \<Longrightarrow> get_sds j (with_records repo l q s) = get_sds j s"
    "pxSensorList (with_records repo l q s) = pxSensorList s" "pxAscData (with_records repo l q s) = pxAscData s"
  using assms by (auto simp: with_records_def get_sdr_def get_sds_def split: option.splits if_splits)

lemma with_records_upd:
  assumes "get_sdr repo s = Some e" "get_sds repo s = Some f"
  shows "upd_sdr repo (\<lambda>e. e\<lparr>sdrData := SensorRecords (Some l')\<rparr>) (with_records repo l q s) \<bind>
      upd_sds repo (\<lambda>f. f\<lparr>sdsRecords := Some q'\<rparr>) = Some (with_records repo l' q' s)"
  using assms by (auto simp: with_records_def get_sdr_def get_sds_def upd_sdr_def upd_sds_def
      split: option.splits if_splits)

lemma update_sensor_step:
  assumes r: "sensors_ready repo l q idx datas s" and i: "i < unat (ucNumFound (pxSensorList s ! repo))"
  shows "update_sensor env repo i
      (with_records repo (sdrs_after env repo datas idx i l) (sdss_after env repo datas idx i q) s) =
    Some (with_records repo (sdrs_after env repo datas idx (Suc i) l) (sdss_after env repo datas idx (Suc i) q) s)"
proof -
  obtain e f where e: "get_sdr repo s = Some e" "get_sds repo s = Some f"
    using r by (auto simp: sensors_ready_def)
  have n: "i < length l" "i < length q" "i < length idx" "unat (idx ! i) < length datas"
    "pucSensorIndex (pxSensorList s ! repo) = Some idx" "pxAscData s = Some datas"
    using r i by (auto simp: sensors_ready_def Let_def)
  note g = with_records_get[OF e, where l = "sdrs_after env repo datas idx i l" and q = "sdss_after env repo datas idx i q"]
  show ?thesis
    using n g after_nth(1)[OF n(1), of env repo datas idx] after_nth(2)[OF n(2), of env repo datas idx]
      after_nth(3)[OF less_imp_le[OF n(1)], of env repo datas idx]
      after_nth(4)[OF less_imp_le[OF n(2)], of env repo datas idx] after_step(1)[OF n(1), of env repo datas idx]
      after_step(2)[OF n(2), of env repo datas idx] with_records_upd[OF e]
    by (simp add: update_sensor_def rd8_def sensor_reading_def[symmetric] Let_def)
qed

lemma update_sensors_upto:
  assumes r: "sensors_ready repo l q idx datas s"
  shows "i + k \<le> unat (ucNumFound (pxSensorList s ! repo)) \<Longrightarrow>
    for_count (update_sensor env repo) k i
      (with_records repo (sdrs_after env repo datas idx i l) (sdss_after env repo datas idx i q) s) =
    Some (with_records repo (sdrs_after env repo datas idx (i + k) l) (sdss_after env repo datas idx (i + k) q) s)"
proof (induction k arbitrary: i)
  case 0
  then show ?case by simp
next
  case (Suc k)
  then show ?case using update_sensor_step[OF r, of i env] Suc.IH[of "Suc i"] by simp
qed

lemma with_records_same:
  assumes "sensors_ready repo l q idx datas s"
  shows "with_records repo l q s = s"
proof -
  obtain e f where e: "get_sdr repo s = Some e" "sdrData e = SensorRecords (Some l)"
    "get_sds repo s = Some f" "sdsRecords f = Some q"
    using assms by (auto simp: sensors_ready_def)
  then have "e\<lparr>sdrData := SensorRecords (Some l)\<rparr> = e" "f\<lparr>sdsRecords := Some q\<rparr> = f" by simp_all
  moreover obtain t u where t: "pxAsdmSdrInfo s = Some t" "e = t ! repo" "pxAsdmSdsInfo s = Some u" "f = u ! repo"
    using e(1,3) by (auto simp: get_sdr_def get_sds_def split: option.splits if_splits)
  ultimately have "t[repo := (t ! repo)\<lparr>sdrData := SensorRecords (Some l)\<rparr>] = t"
      "u[repo := (u ! repo)\<lparr>sdsRecords := Some q\<rparr>] = u"
    by simp_all
  then have "with_records repo l q s = s\<lparr>pxAsdmSdrInfo := pxAsdmSdrInfo s, pxAsdmSdsInfo := pxAsdmSdsInfo s\<rparr>"
    using t by (simp add: with_records_def)
  then show ?thesis by simp
qed

lemma update_repo_result:
  assumes "sensors_ready repo l q idx datas s"
  defines "n \<equiv> unat (ucNumFound (pxSensorList s ! repo))"
  shows "update_repo env repo s =
    Some (with_records repo (sdrs_after env repo datas idx n l) (sdss_after env repo datas idx n q) s)"
  using update_sensors_upto[OF assms(1), of 0 n env] with_records_same[OF assms(1)]
  by (simp add: update_repo_def n_def sdrs_after_def sdss_after_def)

text \<open>All repositories of sensors; \<open>L\<close>, \<open>Q\<close> and \<open>X\<close> are their records and indices.\<close>

definition all_ready ::
  "(nat \<Rightarrow> ASDM_SDR_RECORD list) \<Rightarrow> (nat \<Rightarrow> ASDM_SDS_RECORD list) \<Rightarrow> (nat \<Rightarrow> u8 list) \<Rightarrow> ASC_SENSOR_DATA list
   \<Rightarrow> 'w asdm \<Rightarrow> bool" where
  "all_ready L Q X datas s \<longleftrightarrow> (\<forall>repo < 4. sensors_ready repo (L repo) (Q repo) (X repo) datas s)"

definition found :: "nat \<Rightarrow> 'w asdm \<Rightarrow> nat" where
  "found repo s = unat (ucNumFound (pxSensorList s ! repo))"

lemma sensors_ready_other:
  assumes "sensors_ready repo l q idx datas s" "sensors_ready j l' q' idx' datas s" "j \<noteq> repo"
  shows "sensors_ready j l' q' idx' datas (with_records repo m p s)"
proof -
  obtain e f where e: "get_sdr repo s = Some e" "get_sds repo s = Some f"
    using assms(1) by (auto simp: sensors_ready_def)
  show ?thesis
    using assms(2,3) with_records_get(3-6)[OF e, where l = m and q = p] by (simp add: sensors_ready_def)
qed

text \<open>The repositories from \<open>i\<close> on are updated one after the other.\<close>

lemma update_all:
  "i + k \<le> 4 \<Longrightarrow> \<forall>j. i \<le> j \<and> j < 4 \<longrightarrow> sensors_ready j (L j) (Q j) (X j) datas s \<Longrightarrow>
   \<exists>s'. for_count (update_repo env) k i s = Some s' \<and>
     pxSensorList s' = pxSensorList s \<and> pxAscData s' = pxAscData s \<and> asdm_guarded s' = asdm_guarded s \<and>
     (\<forall>j. i \<le> j \<and> j < i + k \<longrightarrow> (\<exists>e f. get_sdr j s = Some e \<and> get_sds j s = Some f \<and>
        get_sdr j s' = Some (e\<lparr>sdrData := SensorRecords (Some (sdrs_after env j datas (X j) (found j s) (L j)))\<rparr>) \<and>
        get_sds j s' = Some (f\<lparr>sdsRecords := Some (sdss_after env j datas (X j) (found j s) (Q j))\<rparr>))) \<and>
     (\<forall>j. j < i \<or> i + k \<le> j \<longrightarrow> get_sdr j s' = get_sdr j s \<and> get_sds j s' = get_sds j s) \<and>
     (\<exists>a b. s' = s\<lparr>pxAsdmSdrInfo := a, pxAsdmSdsInfo := b\<rparr>)"
proof (induction k arbitrary: i s)
  case 0
  have "s = s\<lparr>pxAsdmSdrInfo := pxAsdmSdrInfo s, pxAsdmSdsInfo := pxAsdmSdsInfo s\<rparr>" by simp
  then have "\<exists>a b. s = s\<lparr>pxAsdmSdrInfo := a, pxAsdmSdsInfo := b\<rparr>" by blast
  then show ?case by (intro exI[of _ s]) auto
next
  case (Suc k)
  have r: "sensors_ready i (L i) (Q i) (X i) datas s" using Suc.prems by simp
  let ?l = "sdrs_after env i datas (X i) (found i s) (L i)" and ?q = "sdss_after env i datas (X i) (found i s) (Q i)"
  let ?s = "with_records i ?l ?q s"
  have step: "update_repo env i s = Some ?s"
    using update_repo_result[OF r] by (simp add: found_def)
  obtain e f where e: "get_sdr i s = Some e" "get_sds i s = Some f"
    using r by (auto simp: sensors_ready_def)
  note g = with_records_get[OF e, where l = ?l and q = ?q]
  have fnd: "found j ?s = found j s" for j using g(5) by (simp add: found_def)
  have rest: "\<forall>j. Suc i \<le> j \<and> j < 4 \<longrightarrow> sensors_ready j (L j) (Q j) (X j) datas ?s"
    using sensors_ready_other[OF r] Suc.prems(2) by simp
  obtain s' where s': "for_count (update_repo env) k (Suc i) ?s = Some s'"
    "pxSensorList s' = pxSensorList ?s" "pxAscData s' = pxAscData ?s" "asdm_guarded s' = asdm_guarded ?s"
    "\<forall>j. Suc i \<le> j \<and> j < Suc i + k \<longrightarrow> (\<exists>e f. get_sdr j ?s = Some e \<and> get_sds j ?s = Some f \<and>
        get_sdr j s' = Some (e\<lparr>sdrData := SensorRecords (Some (sdrs_after env j datas (X j) (found j ?s) (L j)))\<rparr>) \<and>
        get_sds j s' = Some (f\<lparr>sdsRecords := Some (sdss_after env j datas (X j) (found j ?s) (Q j))\<rparr>))"
    "\<forall>j. j < Suc i \<or> Suc i + k \<le> j \<longrightarrow> get_sdr j s' = get_sdr j ?s \<and> get_sds j s' = get_sds j ?s"
    "\<exists>a b. s' = ?s\<lparr>pxAsdmSdrInfo := a, pxAsdmSdsInfo := b\<rparr>"
    using Suc.IH[OF _ rest] Suc.prems(1) by auto
  have "\<exists>a b. s' = s\<lparr>pxAsdmSdrInfo := a, pxAsdmSdsInfo := b\<rparr>"
    using s'(7) by (auto simp: with_records_def)
  moreover have "asdm_guarded s' = asdm_guarded s"
    using s'(4) by (simp add: with_records_def asdm_guarded_def)
  moreover have "\<exists>e f. get_sdr j s = Some e \<and> get_sds j s = Some f \<and>
        get_sdr j s' = Some (e\<lparr>sdrData := SensorRecords (Some (sdrs_after env j datas (X j) (found j s) (L j)))\<rparr>) \<and>
        get_sds j s' = Some (f\<lparr>sdsRecords := Some (sdss_after env j datas (X j) (found j s) (Q j))\<rparr>)"
    if "i \<le> j" "j < i + Suc k" for j
  proof (cases "j = i")
    case True
    then show ?thesis using e g(1,2) s'(6) by simp
  next
    case False
    then show ?thesis using s'(5)[rule_format, of j] that g(3,4)[of j] fnd by auto
  qed
  moreover have "get_sdr j s' = get_sdr j s \<and> get_sds j s' = get_sds j s" if "j < i \<or> i + Suc k \<le> j" for j
    using s'(6) that g(3,4)[of j] by (auto simp: not_less)
  ultimately show ?case
    using s'(1-3) step g(5,6) by simp
qed

lemma fieldValue_set [simp]: "fieldValue (set_fieldValue v f) = v"
  by (simp add: fieldValue_def set_fieldValue_def)

text \<open>The sum over the power sensors that count.\<close>

definition total_of :: "'w asdm_env \<Rightarrow> ASC_SENSOR_DATA list \<Rightarrow> u8 list \<Rightarrow> nat \<Rightarrow> u32" where
  "total_of env datas idx n =
     (\<Sum>i \<leftarrow> filter (counts datas idx) [0..<n]. ulSensorValue (sensor_reading env 3 datas idx i))"

lemma total_power_result:
  assumes g: "asdm_guarded s" "pxAscData s = Some datas"
    and p: "get_sdr 3 s = Some e" "sdrData e = SensorRecords (Some (sdrs_after env 3 datas idx n l))"
      "pucSensorIndex (pxSensorList s ! 3) = Some idx" "unat (ucNumFound (pxSensorList s ! 3)) = n"
      "n \<le> length l" "n \<le> length idx" "\<forall>i < n. unat (idx ! i) < length datas"
    and t: "get_sdr 4 s = Some e'" "sdrData e' = SensorRecords (Some (r # rs))"
    and c: "power_statistics (total_of env datas idx n) s = Some s2"
  shows "\<exists>s'. iCalculateTotalPower s = Some (OK, s') \<and>
    upd_sdr 4 (\<lambda>e. e\<lparr>sdrData := SensorRecords (Some (total_power_record (total_of env datas idx n) s2 r # rs))\<rparr>) s2 = Some s'"
proof -
  let ?l = "sdrs_after env 3 datas idx n l"
  have len: "length ?l = length l" using p(5) by (simp add: sdrs_after_def)
  have "map (\<lambda>i. fieldValue (xSensorValue (?l ! i))) (filter (counts datas idx) [0..<n]) =
      map (\<lambda>i. ulSensorValue (sensor_reading env 3 datas idx i)) (filter (counts datas idx) [0..<n])"
    using p(5) by (intro map_cong refl) (auto simp: sdrs_after_def nth_append updated_sdr_def)
  then have "(\<Sum>i \<leftarrow> filter (counts datas idx) [0..<n]. fieldValue (xSensorValue (?l ! i))) = total_of env datas idx n"
    by (simp only: total_of_def)
  then have sum: "sum_power n 0 0 s = Some (OK, total_of env datas idx n, s)"
    using sum_power_sums[OF g(2) p(1,2,3), of 0 n 0] p(5-7) len by simp
  have t2: "get_sdr 4 s2 = Some e'" and info: "pxAsdmSdrInfo s2 = pxAsdmSdrInfo s"
    using c t(1) by (auto simp: power_statistics_def Let_def get_sdr_def split: if_splits)
  obtain u where u: "pxAsdmSdrInfo s = Some u" using t(1) by (auto simp: get_sdr_def split: option.splits)
  show ?thesis
    using g u sum p(4) c t2 t(2) info by (simp add: iCalculateTotalPower_def upd_sdr_def)
qed

lemma update_values:
  assumes g: "asdm_guarded s" "all_ready L Q X datas s"
    and t: "get_sdr 4 s = Some e'" "sdrData e' = SensorRecords (Some (r # rs))"
    and c: "unat (ulPowerCalcIterations s) + 1 < 2 ^ 32" "ulAveragePower s \<le> ulMaxPower s"
    and m: "mutex_works env (asdmWorld s)"
  defines "tot \<equiv> total_of env datas (X 3) (found 3 s)"
  shows "\<exists>s'. iUpdateAsdmValues env s = Some (OK, s') \<and>
    (\<forall>j < 4. \<exists>e f. get_sdr j s = Some e \<and> get_sds j s = Some f \<and>
      get_sdr j s' = Some (e\<lparr>sdrData := SensorRecords (Some (sdrs_after env j datas (X j) (found j s) (L j)))\<rparr>) \<and>
      get_sds j s' = Some (f\<lparr>sdsRecords := Some (sdss_after env j datas (X j) (found j s) (Q j))\<rparr>)) \<and>
    get_sdr 4 s' = Some (e'\<lparr>sdrData := SensorRecords (Some (total_power_record tot s' r # rs))\<rparr>) \<and>
    ulMaxPower s' = max (ulMaxPower s) tot \<and> ulAveragePower s' \<le> ulMaxPower s'"
proof -
  obtain w1 w2 where w: "asdmMutexTake env (asdmWorld s) = (True, w1)" "asdmMutexRelease env w1 = (True, w2)"
    using m by (cases "asdmMutexTake env (asdmWorld s)",
        cases "asdmMutexRelease env (snd (asdmMutexTake env (asdmWorld s)))") (auto simp: mutex_works_def)
  let ?s = "asdm_inc_stat ASDM_STATS_TAKE_MUTEX (s\<lparr>asdmWorld := w1\<rparr>)"
  have same: "get_sdr j ?s = get_sdr j s" "get_sds j ?s = get_sds j s" "pxSensorList ?s = pxSensorList s"
    "found j ?s = found j s" "pxAscData ?s = pxAscData s" "asdm_guarded ?s = asdm_guarded s"
    "ulPowerCalcIterations ?s = ulPowerCalcIterations s" "ulMaxPower ?s = ulMaxPower s"
    "ulAveragePower ?s = ulAveragePower s" for j
    by (simp_all add: asdm_inc_stat_def get_sdr_def get_sds_def found_def asdm_guarded_def)
  have "\<forall>j. 0 \<le> j \<and> j < 4 \<longrightarrow> sensors_ready j (L j) (Q j) (X j) datas ?s"
    using g(2) same by (simp add: all_ready_def sensors_ready_def)
  from update_all[OF _ this, of 4 env, simplified, unfolded same] obtain s2 a b where
    u: "for_count (update_repo env) 4 0 ?s = Some s2" "pxSensorList s2 = pxSensorList s" "pxAscData s2 = pxAscData s"
      "asdm_guarded s2 = asdm_guarded s"
    and recs: "\<forall>j < 4. \<exists>e. get_sdr j s = Some e \<and> (\<exists>f. get_sds j s = Some f \<and>
      get_sdr j s2 = Some (e\<lparr>sdrData := SensorRecords (Some (sdrs_after env j datas (X j) (found j s) (L j)))\<rparr>) \<and>
      get_sds j s2 = Some (f\<lparr>sdsRecords := Some (sdss_after env j datas (X j) (found j s) (Q j))\<rparr>))"
    and other: "\<forall>j \<ge> 4. get_sdr j s2 = get_sdr j s \<and> get_sds j s2 = get_sds j s"
    and s2: "s2 = ?s\<lparr>pxAsdmSdrInfo := a, pxAsdmSdsInfo := b\<rparr>"
    by blast
  have pw: "ulPowerCalcIterations s2 = ulPowerCalcIterations s" "ulMaxPower s2 = ulMaxPower s"
    "ulAveragePower s2 = ulAveragePower s" "asdmWorld s2 = w1"
    using s2 by (simp_all add: asdm_inc_stat_def)
  obtain s3 where s3: "power_statistics tot s2 = Some s3" "ulMaxPower s3 = max (ulMaxPower s) tot"
    "ulAveragePower s3 \<le> ulMaxPower s3"
    using power_statistics_step[of s2 tot] c pw by auto
  have r3: "sensors_ready 3 (L 3) (Q 3) (X 3) datas s" using g(2) by (simp add: all_ready_def)
  obtain e3 where e3: "get_sdr 3 s2 = Some (e3\<lparr>sdrData := SensorRecords (Some (sdrs_after env 3 datas (X 3) (found 3 s) (L 3)))\<rparr>)"
    using recs[rule_format, of 3] by auto
  have idx: "pucSensorIndex (pxSensorList s2 ! 3) = Some (X 3)" "unat (ucNumFound (pxSensorList s2 ! 3)) = found 3 s"
      "found 3 s \<le> length (L 3)" "found 3 s \<le> length (X 3)" "\<forall>i < found 3 s. unat (X 3 ! i) < length datas"
      "pxAscData s2 = Some datas"
    using r3 u(2,3) by (auto simp: sensors_ready_def found_def Let_def)
  obtain s4 where s4: "iCalculateTotalPower s2 = Some (OK, s4)"
    "upd_sdr 4 (\<lambda>e. e\<lparr>sdrData := SensorRecords (Some (total_power_record tot s3 r # rs))\<rparr>) s3 = Some s4"
    using total_power_result[of s2 datas _ env "X 3" "found 3 s" "L 3" e' r rs s3] u(4) g(1) idx e3 other t s3(1)
    by (auto simp: tot_def)
  have s3same: "get_sdr j s3 = get_sdr j s2" "get_sds j s3 = get_sds j s2" "asdmWorld s3 = w1" for j
    using s3(1) pw by (auto simp: power_statistics_def Let_def get_sdr_def get_sds_def split: if_splits)
  let ?s' = "asdm_inc_stat ASDM_STATS_RELEASE_MUTEX (s4\<lparr>asdmWorld := w2\<rparr>)"
  have up: "only 4 s3 s4" "get_sdr 4 s4 = map_option
      (\<lambda>e. e\<lparr>sdrData := SensorRecords (Some (total_power_record tot s3 r # rs))\<rparr>) (get_sdr 4 s3)"
    using upd_sdr_only[OF s4(2)] .
  have s4same: "get_sds j s4 = get_sds j s3" "ulMaxPower s4 = ulMaxPower s3" "ulAveragePower s4 = ulAveragePower s3"
    "asdmWorld s4 = asdmWorld s3" for j
    using s4(2) by (auto simp: upd_sdr_def get_sds_def)
  have fin: "get_sdr j ?s' = get_sdr j s4" "get_sds j ?s' = get_sds j s4" "ulMaxPower ?s' = ulMaxPower s4"
    "ulAveragePower ?s' = ulAveragePower s4" "total_power_record tot ?s' r = total_power_record tot s3 r" for j
    using s4same by (simp_all add: asdm_inc_stat_def get_sdr_def get_sds_def total_power_record_def)
  obtain v where v: "pxAsdmSdrInfo s = Some v" using t(1) by (auto simp: get_sdr_def split: option.splits)
  have "iUpdateAsdmValues env s = Some (OK, ?s')"
    using g(1) r3 v w u(1) s4(1) s4same(4) s3same(3)
    by (simp add: iUpdateAsdmValues_def with_asdm_mutex_def outside_def sensors_ready_def)
  moreover have "get_sdr j s4 = get_sdr j s3" if "j < 4" for j
    using up(1) that by (simp add: only_def)
  moreover have "get_sdr 4 s4 = Some (e'\<lparr>sdrData := SensorRecords (Some (total_power_record tot s3 r # rs))\<rparr>)"
    using up(2) s3same(1) other t(1) by simp
  ultimately show ?thesis
    using recs s3(2,3) s3same s4same fin by (intro exI[of _ ?s']) auto
qed

section \<open>The record of a sensor\<close>

text \<open>
  What a record of a sensor shows after \<open>iPopulateSdr\<close>: the name, the value and the unit of the
  sensor, and the limits and statistics it has.
\<close>

lemma add_limit_fst:
  "fst (add_limit v b store p) = (if v = ASC_SENSOR_INVALID_VAL then fst p
     else (store v (fst p))\<lparr>ucThresholdSupportedBitMask := ucThresholdSupportedBitMask (fst p) OR b\<rparr>)"
  by (auto simp: add_limit_def split: prod.splits)

lemma add_limit_bit:
  "bit (ucThresholdSupportedBitMask (fst (add_limit v b store p))) k \<longleftrightarrow>
     bit (ucThresholdSupportedBitMask (fst p)) k \<or> v \<noteq> ASC_SENSOR_INVALID_VAL \<and> bit b k"
  by (simp add: add_limit_fst bit_or_iff)

text \<open>The record with all that the readings have.\<close>

definition limits_record :: "ASC_READINGS \<Rightarrow> ASDM_SDR_RECORD \<Rightarrow> ASDM_SDR_RECORD" where
  "limits_record rd r =
     fst (add_statistics rd ((fst (snd (iPopulateSdrThresholds rd (asdm_local_data ()) r 0)))
       \<lparr>ucSensorStatus := ASDM_SDR_SENSOR_STATUS_PRESENT_VALID\<rparr>, 0))"

lemma asdm_local_guarded [simp]: "asdm_guarded (asdm_local_data w)"
  by (simp add: asdm_guarded_def asdm_local_data_def)

lemmas limits_unfold = limits_record_def iPopulateSdrThresholds_def add_statistics_def

lemma limits_kept:
  "sdrId (limits_record rd r) = sdrId r" "xSensorName (limits_record rd r) = xSensorName r"
  "xSensorValue (limits_record rd r) = xSensorValue r" "xSensorBaseUnit (limits_record rd r) = xSensorBaseUnit r"
  "cUnitModifier (limits_record rd r) = cUnitModifier r"
  "ucSensorStatus (limits_record rd r) = ASDM_SDR_SENSOR_STATUS_PRESENT_VALID"
  by (simp_all add: limits_unfold add_limit_fst)

lemma limits_bits:
  assumes "ucThresholdSupportedBitMask r = 0"
  shows "bit (ucThresholdSupportedBitMask (limits_record rd r)) 0 \<longleftrightarrow> rdUpperWarningLimit rd \<noteq> ASC_SENSOR_INVALID_VAL"
    "bit (ucThresholdSupportedBitMask (limits_record rd r)) 1 \<longleftrightarrow> rdUpperCriticalLimit rd \<noteq> ASC_SENSOR_INVALID_VAL"
    "bit (ucThresholdSupportedBitMask (limits_record rd r)) 2 \<longleftrightarrow> rdUpperFatalLimit rd \<noteq> ASC_SENSOR_INVALID_VAL"
    "bit (ucThresholdSupportedBitMask (limits_record rd r)) 3 \<longleftrightarrow> rdLowerWarningLimit rd \<noteq> ASC_SENSOR_INVALID_VAL"
    "bit (ucThresholdSupportedBitMask (limits_record rd r)) 4 \<longleftrightarrow> rdLowerCriticalLimit rd \<noteq> ASC_SENSOR_INVALID_VAL"
    "bit (ucThresholdSupportedBitMask (limits_record rd r)) 5 \<longleftrightarrow> rdLowerFatalLimit rd \<noteq> ASC_SENSOR_INVALID_VAL"
    "bit (ucThresholdSupportedBitMask (limits_record rd r)) 6 \<longleftrightarrow> ulMaxSensorValue rd \<noteq> ASC_SENSOR_INVALID_VAL"
    "bit (ucThresholdSupportedBitMask (limits_record rd r)) 7 \<longleftrightarrow> ulAverageSensorValue rd \<noteq> ASC_SENSOR_INVALID_VAL"
  by (simp_all add: limits_unfold add_limit_bit assms asdm_masks ASDM_SDR_THRESHOLD_UPPER_FATAL_MASK_def
      ASDM_SDR_THRESHOLD_LOWER_FATAL_MASK_def)

lemma limits_values:
  "rdUpperWarningLimit rd \<noteq> ASC_SENSOR_INVALID_VAL \<Longrightarrow> ulUpperWarnLimit (limits_record rd r) = rdUpperWarningLimit rd"
  "rdUpperCriticalLimit rd \<noteq> ASC_SENSOR_INVALID_VAL \<Longrightarrow> ulUpperCritLimit (limits_record rd r) = rdUpperCriticalLimit rd"
  "rdUpperFatalLimit rd \<noteq> ASC_SENSOR_INVALID_VAL \<Longrightarrow> ulUpperFatalLimit (limits_record rd r) = rdUpperFatalLimit rd"
  "rdLowerWarningLimit rd \<noteq> ASC_SENSOR_INVALID_VAL \<Longrightarrow> ulLowerWarnLimit (limits_record rd r) = rdLowerWarningLimit rd"
  "rdLowerCriticalLimit rd \<noteq> ASC_SENSOR_INVALID_VAL \<Longrightarrow> ulLowerCritLimit (limits_record rd r) = rdLowerCriticalLimit rd"
  "rdLowerFatalLimit rd \<noteq> ASC_SENSOR_INVALID_VAL \<Longrightarrow> ulLowerFatalLimit (limits_record rd r) = rdLowerFatalLimit rd"
  "ulMaxSensorValue rd \<noteq> ASC_SENSOR_INVALID_VAL \<Longrightarrow> ulMaxValue (limits_record rd r) = ulMaxSensorValue rd"
  "ulAverageSensorValue rd \<noteq> ASC_SENSOR_INVALID_VAL \<Longrightarrow> ulAverageValue (limits_record rd r) = ulAverageSensorValue rd"
  by (simp_all add: limits_unfold add_limit_fst)

lemma text_field_data:
  assumes "length str + 1 < 30"
  shows "field_data (text_field str f) = map of_char str @ [0]"
proof -
  have "unat (record_len (text_field str f)) = length str + 1"
    using assms of_nat_and_0x3F[of "length str + 1"]
    by (simp add: record_len_def text_field_def ASDM_RECORD_FIELD_LENGTH_MASK_def)
  then show ?thesis by (simp add: field_data_def text_field_def)
qed

lemma add_statistics_any:
  assumes "add_statistics rd (r, n) = (r', n')"
  shows "r' = fst (add_statistics rd (r, 0))"
proof -
  have "r' = fst (add_statistics rd (r, n))" by (simp add: assms)
  then show ?thesis by (simp add: add_statistics_def add_limit_fst)
qed

lemma populate_sdr_result:
  assumes g: "asdm_guarded s" and t: "repo_of_type t = Some repo" "repo \<le> 4"
    and nm: "c_string (pcSensorName d) = Some nm" "length nm + 1 < 30"
    and u: "pcConvertRepoBaseUnitStr t = Some un"
    and rd: "rd = reading env d (if repo = 4 then 3 else repo)" "xSensorUnitModifier rd \<le> 4"
  shows "\<exists>cnt. iPopulateSdr env ix t d (Some r) c s = Some (OK, Some (limits_record rd
    (r\<lparr>sdrId := ix + 1, xSensorName := text_field nm (xSensorName r),
       xSensorValue := set_fieldValue (ulSensorValue rd)
         ((xSensorValue r)\<lparr>fldLength := 4 AND ASDM_RECORD_FIELD_LENGTH_MASK\<rparr>),
       xSensorBaseUnit := text_field un (xSensorBaseUnit r), cUnitModifier := of_int (6 - 3 * int (xSensorUnitModifier rd)),
       ucThresholdSupportedBitMask := 0\<rparr>)), cnt, s)"
proof -
  define k where "k = 6 - 3 * int (xSensorUnitModifier rd)"
  have "xSensorUnitModifier rd \<in> {0, 1, 2, 3, 4}" using rd(2) by auto
  then have k: "iMapUnitModifier (xSensorUnitModifier rd) s = (OK, k, s)"
    using g by (auto simp: iMapUnitModifier_def k_def)
  define r0 where "r0 = r\<lparr>sdrId := ix + 1, xSensorName := text_field nm (xSensorName r),
       xSensorValue := set_fieldValue (ulSensorValue rd)
         ((xSensorValue r)\<lparr>fldLength := 4 AND ASDM_RECORD_FIELD_LENGTH_MASK\<rparr>),
       xSensorBaseUnit := text_field un (xSensorBaseUnit r), cUnitModifier := of_int k,
       ucThresholdSupportedBitMask := 0\<rparr>"
  define p where "p = snd (iPopulateSdrThresholds rd (asdm_local_data ()) r0 0)"
  have th: "iPopulateSdrThresholds rd s r0 0 = (OK, fst p, snd p)"
    using g by (simp add: p_def iPopulateSdrThresholds_def)
  have "(t = ASDM_REPOSITORY_TYPE_TOTAL_POWER) = (repo = 4)"
    using t(1) by (auto simp: repo_of_type_def split: if_splits)
  then have map: "(if t = ASDM_REPOSITORY_TYPE_TOTAL_POWER then (OK, AMC_ASDM_SUPPORTED_REPO_POWER, s)
      else iMapAsdmRepo t 0 s) = (OK, if repo = 4 then 3 else repo, s)"
    using g t(1) by (simp add: iMapAsdmRepo_def)
  have len: "\<not> ASDM_RECORD_FIELD_BYTES_MAX \<le> length nm + 1"
    using nm(2) by (simp add: ASDM_RECORD_FIELD_BYTES_MAX_def)
  show ?thesis
    using g map nm(1) len u k th
    unfolding iPopulateSdr_def Let_def rd(1)[symmetric]
    by (auto simp: k_def[symmetric] r0_def[symmetric] rd(1)[symmetric] limits_record_def p_def split: prod.splits
        dest: add_statistics_any)
qed

end
