(* ===== verification/AsdmProperties.thy ===== *)
theory AsdmProperties
  imports AsdmSensors
begin

text \<open>
  The properties of the sensor data model and of its copy on the host. The witnesses use a
  mutex that is held or free, memory that is always there, one sensor of each kind and an
  EEPROM that leaves the buffer alone.
\<close>

definition demo_readings :: ASC_READINGS where
  "demo_readings = \<lparr>ulSensorValue = 40, rdLowerWarningLimit = ASC_SENSOR_INVALID_VAL,
     rdLowerCriticalLimit = ASC_SENSOR_INVALID_VAL, rdLowerFatalLimit = ASC_SENSOR_INVALID_VAL,
     rdUpperWarningLimit = 90, rdUpperCriticalLimit = 100, rdUpperFatalLimit = 110,
     ulAverageSensorValue = 39, ulMaxSensorValue = 45, xSensorStatus = 1,
     xSensorOperationalStatus = 1, xSensorUnitModifier = 2\<rparr>"

definition demo_sensor :: ASC_SENSOR_DATA where
  "demo_sensor = \<lparr>pcSensorName = ''PCB'' @ replicate 17 (CHR 0x00), ucSensorId = 1,
     ucSensorType = 15, ucTotalPowerSensor = 1, ucSensorAddress = 0,
     ucChannelNumber = replicate 4 0, pxSensorEnabled = 0, ppxReadSensorFunc = replicate 4 None,
     pxReadings = replicate 4 demo_readings, ulThresholdStatus = 0\<rparr>"

definition demo_env :: "bool asdm_env" where
  "demo_env = \<lparr>asdmMutexCreate = (\<lambda>w. (True, False)), asdmMutexTake = (\<lambda>w. (\<not> w, True)),
     asdmMutexRelease = (\<lambda>w. (w, False)), asdmAlloc = (\<lambda>n w. (True, w)), asdmFree = (\<lambda>w. w),
     ascGetAll = (\<lambda>d n w. (ERROR, [], 0, w)), ascGetById = (\<lambda>i d w. (OK, d, w)),
     ascBind = (\<lambda>w. (OK, w)), apcBind = (\<lambda>w. (OK, w)), apcGetHeader = (\<lambda>i h w. (if i = 0 then OK else ERROR, h\<lparr>ucNumEntries := 1\<rparr>, w)),
     apcGetPartition = (\<lambda>i j p w. (OK, p, w)), eepromGet = (\<lambda>f b l w. (ERROR, b, 1, w)),
     sensorEnabled = (\<lambda>f w. (1, w)), rawByte = (\<lambda>i. 0), rawSensor = (\<lambda>i. demo_sensor),
     rawSds = (\<lambda>i. \<lparr>sdsId = 0, sdsSensorValue = zero_field, sdsSensorStatus = 0, sdsSensorTag = 0, sdsRsvd = 0\<rparr>),
     rawPartition = (\<lambda>i. \<lparr>ulPartitionType = 0, ulPartitionBaseAddr = 0, apcPartitionSize = 0\<rparr>),
     rawEntry = (\<lambda>i. \<lparr>ulType = 0, ulBaseAddr = 0, ulPartitionSize = 0\<rparr>),
     pastReadings = (\<lambda>d i. demo_readings), ptrSize = 8, sizeofSensorData = 300, sizeofSdr = 40, sizeofSds = 24\<rparr>"

text \<open>The initialisation of this device: only the flash partition table is there.\<close>

definition demo_tables :: "bool asdm \<Rightarrow> bool" where
  "demo_tables s \<longleftrightarrow> asdm_guarded s \<and> \<not> iSensorListInitialised s \<and>
     (\<exists>t u. pxAsdmSdrInfo s = Some t \<and> length t = 7 \<and> pxAsdmSdsInfo s = Some u \<and> length u = 7 \<and>
        sdrData (t ! 5) = SensorRecords None) \<and>
     length (pxSensorList s) = 7 \<and> pxFptHeader s = replicate 2 zero_apc_header \<and>
     ppxFptPartitions s = [None, None] \<and> asdmWorld s = False"

lemma demo_sensors:
  assumes "demo_tables s" "repo \<le> 4"
  shows "\<exists>s'. init_repo demo_env n repo s = Some (OK, s') \<and> demo_tables s'"
proof -
  obtain t u where t: "pxAsdmSdrInfo s = Some t" "length t = 7" "pxAsdmSdsInfo s = Some u" "length u = 7"
      "sdrData (t ! 5) = SensorRecords None" "length (pxSensorList s) = 7"
    using assms(1) by (auto simp: demo_tables_def)
  have c: "count_records demo_env n repo s = Some (set_found repo 0 s)"
    using assms by (cases "pxAscData s") (auto simp: count_records_def iPopulateRepoSensorList_def demo_tables_def)
  show ?thesis
    using assms t unfolding init_repo_def c
    by (auto simp: upd_sdr_def upd_sds_def build_repo_def set_found_def set_sensor_list_def demo_tables_def
        asdm_guarded_def)
qed

definition demo_headers :: "APC_FPT_HEADER list" where
  "demo_headers = [zero_apc_header\<lparr>ucNumEntries := 1\<rparr>, zero_apc_header]"

definition demo_partition :: APC_FPT_PARTITION where
  "demo_partition = \<lparr>ulPartitionType = 0, ulPartitionBaseAddr = 0, apcPartitionSize = 0\<rparr>"

lemma demo_get_fpt:
  assumes "demo_tables s"
  shows "\<exists>f. iGetFptData demo_env s =
    (OK, s\<lparr>pxFptHeader := demo_headers, ppxFptPartitions := [Some [demo_partition], None], asdmStats := f\<rparr>)"
proof -
  have s: "asdm_guarded s" "pxFptHeader s = [zero_apc_header, zero_apc_header]"
      "ppxFptPartitions s = [None, None]" "asdmWorld s = False"
    using assms by (simp_all add: demo_tables_def numeral_2_eq_2)
  have 0: "\<exists>f. read_boot_device demo_env 0 s = (False, OK,
    s\<lparr>pxFptHeader := demo_headers, ppxFptPartitions := [Some [demo_partition], None], asdmStats := f\<rparr>)"
    using s by (cases s) (auto simp: read_boot_device_def Let_def outside_def demo_env_def asdm_alloc_def asdm_inc_stat_def
        demo_headers_def demo_partition_def)
  have 1: "\<exists>g. read_boot_device demo_env 1
    (s\<lparr>pxFptHeader := demo_headers, ppxFptPartitions := [Some [demo_partition], None], asdmStats := f\<rparr>) = (False, OK,
    s\<lparr>pxFptHeader := demo_headers, ppxFptPartitions := [Some [demo_partition], None], asdmStats := g\<rparr>)" for f
    using s by (cases s) (auto simp: read_boot_device_def Let_def outside_def demo_env_def asdm_alloc_def asdm_inc_stat_def
        demo_headers_def)
  show ?thesis using 0 1 s by (auto simp: iGetFptData_def) (metis snd_conv)
qed

definition demo_fpt_record :: ASDM_FPT_RECORD where
  "demo_fpt_record = \<lparr>xFptHdrPrimary = fpt_header (demo_headers ! 0), pxFptEntryPrimary = Some [fpt_entry demo_partition],
     xFptHdrSecondary = fpt_header (demo_headers ! 1), pxFptEntrySecondary = None\<rparr>"

lemma demo_populate_fpt:
  assumes "asdm_guarded s" "pxFptHeader s = demo_headers" "ppxFptPartitions s = [Some [demo_partition], None]"
    "pxAsdmSdrInfo s = Some t" "length t = 7" "sdrData (t ! 5) = SensorRecords None"
  shows "\<exists>f g. iPopulateAsdmFpt demo_env 0 s = Some (OK, 44,
    s\<lparr>pxAsdmSdrInfo := Some (t[5 := (t ! 5)\<lparr>sdrData := FptRecord demo_fpt_record\<rparr>]),
      asdmStats := f, asdmErrors := g\<rparr>)"
  using assms
  by (cases s) (auto simp: iPopulateAsdmFpt_def get_sdr_def populate_entries_def Let_def demo_headers_def
      demo_partition_def demo_env_def asdm_alloc_def asdm_free_def outside_def set_fpt_def upd_sdr_def
      asdm_inc_stat_def asdm_inc_error_def demo_fpt_record_def zero_fpt_record_def zero_apc_header_def
      asdm_guarded_def)

definition demo_sdr :: ASDM_SDR where
  "demo_sdr = \<lparr>sdrHdr = (xAsdmHeaderInfo ! 5)\<lparr>ucTotalNumRecords := 1, usTotalNumBytes := 7\<rparr>,
     sdrData = FptRecord demo_fpt_record, sdrEor = ASDM_EOR_MARKER\<rparr>"

text \<open>The flash partition table is there and the mutex is free.\<close>

definition demo_ready :: "bool asdm \<Rightarrow> bool" where
  "demo_ready s \<longleftrightarrow> get_sdr 5 s = Some demo_sdr \<and> ucNumFound (pxSensorList s ! 5) = 1 \<and> \<not> asdmWorld s"

lemma demo_fpt:
  assumes "demo_tables s"
  shows "\<exists>s' t u. init_repo demo_env n 5 s = Some (OK, s') \<and> demo_ready s' \<and> pxAsdmSdrInfo s' = Some t \<and>
    length t = 7 \<and> pxAsdmSdsInfo s' = Some u \<and> length u = 7 \<and> length (pxSensorList s') = 7"
proof -
  obtain t u where t: "pxAsdmSdrInfo s = Some t" "length t = 7" "pxAsdmSdsInfo s = Some u" "length u = 7"
      "sdrData (t ! 5) = SensorRecords None" "length (pxSensorList s) = 7"
    using assms by (auto simp: demo_tables_def)
  obtain f where g: "iGetFptData demo_env s =
    (OK, s\<lparr>pxFptHeader := demo_headers, ppxFptPartitions := [Some [demo_partition], None], asdmStats := f\<rparr>)"
    using demo_get_fpt[OF assms] by blast
  let ?h = "(xAsdmHeaderInfo ! 5)\<lparr>ucTotalNumRecords := 1\<rparr>"
  let ?s1 = "set_found 5 1 (s\<lparr>pxFptHeader := demo_headers, ppxFptPartitions := [Some [demo_partition], None],
    asdmStats := f\<rparr>)"
  let ?s3 = "?s1\<lparr>pxAsdmSdrInfo := Some (t[5 := (t ! 5)\<lparr>sdrHdr := ?h\<rparr>]),
    pxAsdmSdsInfo := Some (u[5 := (u ! 5)\<lparr>sdsHdr := ?h\<rparr>])\<rparr>"
  have c: "count_records demo_env n 5 s = Some ?s1" by (simp add: count_records_def g)
  have h: "header_for 5 ?s1 = ?h" using t(6) by (simp add: header_for_def set_found_def set_sensor_list_def)
  have s3: "asdm_guarded ?s3" "pxFptHeader ?s3 = demo_headers" "ppxFptPartitions ?s3 = [Some [demo_partition], None]"
    "pxAsdmSdrInfo ?s3 = Some (t[5 := (t ! 5)\<lparr>sdrHdr := ?h\<rparr>])"
    using assms t by (auto simp: set_found_def set_sensor_list_def demo_tables_def asdm_guarded_def)
  obtain f' g' where p: "iPopulateAsdmFpt demo_env 0 ?s3 = Some (OK, 44,
    ?s3\<lparr>pxAsdmSdrInfo := Some (t[5 := (t ! 5)\<lparr>sdrHdr := ?h, sdrData := FptRecord demo_fpt_record\<rparr>]),
      asdmStats := f', asdmErrors := g'\<rparr>)"
    using demo_populate_fpt[OF s3] t by auto
  have b: "build_repo demo_env 5 ?s3 = Some (OK, 52,
    ?s3\<lparr>pxAsdmSdrInfo := Some (t[5 := (t ! 5)\<lparr>sdrHdr := ?h, sdrData := FptRecord demo_fpt_record\<rparr>]),
      asdmStats := f', asdmErrors := g'\<rparr>)"
    using p t(6) by (simp add: build_repo_def set_found_def set_sensor_list_def ASDM_HEADER_DEFAULT_BYTES_def)
  have "in_multiples 52 = 7" by (simp add: in_multiples_def TOTAL_NUM_BYTES_MULTIPLE_def)
  then show ?thesis
    using c h b t assms
    by (simp add: init_repo_def upd_sdr_def upd_sds_def demo_ready_def get_sdr_def demo_sdr_def
        set_found_def set_sensor_list_def demo_tables_def)
qed

lemma demo_board:
  assumes "demo_ready s" "pxAsdmSdrInfo s = Some t" "length t = 7" "pxAsdmSdsInfo s = Some u" "length u = 7"
    "length (pxSensorList s) = 7"
  shows "\<exists>s'. init_repo demo_env n 6 s = Some (OK, s') \<and> demo_ready s'"
proof -
  have "\<exists>f g b. iGetBoardInfoData demo_env s = (ERROR, s\<lparr>asdmStats := f, asdmErrors := g, pxBoardInfo := b\<rparr>)"
  proof (cases "asdm_guarded s \<and> pxBoardInfo s = None")
    case True
    then show ?thesis
      by (cases s) (auto simp: iGetBoardInfoData_def Let_def demo_env_def asdm_alloc_def outside_def asdm_inc_stat_def
          asdm_inc_error_def board_fields_def)
  next
    case False
    then show ?thesis by (cases s) (auto simp: iGetBoardInfoData_def asdm_inc_error_def)
  qed
  then obtain f g b where "iGetBoardInfoData demo_env s = (ERROR, s\<lparr>asdmStats := f, asdmErrors := g, pxBoardInfo := b\<rparr>)"
    by blast
  then have c: "count_records demo_env n 6 s = Some (set_found 6 0 (s\<lparr>asdmStats := f, asdmErrors := g, pxBoardInfo := b\<rparr>))"
    by (simp add: count_records_def)
  show ?thesis
    using assms unfolding init_repo_def c
    by (auto simp: upd_sdr_def upd_sds_def build_repo_def set_found_def set_sensor_list_def demo_ready_def get_sdr_def)
qed

lemma demo_repos:
  "demo_tables s \<Longrightarrow> repo + k = 5 \<Longrightarrow>
   \<exists>s'. init_repos demo_env n (k + 2) repo s = Some (OK, s') \<and> demo_ready s'"
proof (induction k arbitrary: repo s)
  case 0
  then obtain s1 t u where 1: "init_repo demo_env n 5 s = Some (OK, s1)" "demo_ready s1" "pxAsdmSdrInfo s1 = Some t"
    "length t = 7" "pxAsdmSdsInfo s1 = Some u" "length u = 7" "length (pxSensorList s1) = 7"
    using demo_fpt by blast
  obtain s2 where "init_repo demo_env n 6 s1 = Some (OK, s2)" "demo_ready s2"
    using demo_board[OF 1(2-7)] by blast
  with 0 1(1) show ?case by (simp add: numeral_2_eq_2)
next
  case (Suc k)
  then obtain s1 where "init_repo demo_env n repo s = Some (OK, s1)" "demo_tables s1"
    using demo_sensors[of s repo n] by auto
  with Suc show ?case by simp
qed

lemma demo_init:
  "\<exists>s. iASDM_Initialise demo_env 1 (asdm_local_data False) = Some (OK, s) \<and> demo_ready s"
proof -
  let ?s = "(asdm_inc_stat ASDM_STATS_MALLOC (asdm_inc_error ASDM_ERRORS_ASC_GET_SENSORS_FAILED
    ((asdm_inc_stat ASDM_STATS_MALLOC ((asdm_local_data False)\<lparr>ucAscNumSensors := 1\<rparr>))\<lparr>pxAscData := Some []\<rparr>)
      \<lparr>pxAsdmSdrInfo := Some (replicate 7 zero_sdr), pxAsdmSdsInfo := Some (replicate 7 zero_sds)\<rparr>))"
  have "demo_tables ?s"
    by (simp add: demo_tables_def asdm_guarded_def asdm_local_data_def asdm_inc_stat_def asdm_inc_error_def
        zero_sdr_def AMC_ASDM_SUPPORTED_REPO_MAX_def)
  from demo_repos[OF this, of 0 5 0] obtain s1 where
    s1: "init_repos demo_env 0 7 0 ?s = Some (OK, s1)" "demo_ready s1" by auto
  have "init_sensors demo_env 1 (asdm_local_data False) = Some (OK, s1)"
    using s1(1)
    by (simp add: init_sensors_def iInitAsdm_def demo_env_def asdm_alloc_def outside_def asdm_local_data_def
        asdm_inc_stat_def asdm_inc_error_def asdm_guarded_def)
  then show ?thesis
    using s1(2)
    by (auto simp: iASDM_Initialise_def demo_env_def bind_callback_def outside_def asdm_local_data_def
        asdm_guarded_def demo_ready_def asdm_inc_stat_def get_sdr_def)
qed

section \<open>The repositories\<close>

text \<open>
  C9: From the state as loaded, and with memory available, a successful initialisation leaves
  every repository with the header of its type, as many records as the sensors found, well
  formed data of its kind when there are any, a size that is not zero, and the end marker; the
  size of a repository of sensors is one unit of 8 bytes for the header and one per sensor.
\<close>

theorem asdm_initialise_builds:
  assumes "memory_available env" "ptrSize env \<le> 8" "eeprom_in_buffer env"
    "iASDM_Initialise env n (asdm_local_data w) = Some (OK, s)" "repo < 7"
  shows "\<exists>e. get_sdr repo s = Some e \<and> ucRepoType (sdrHdr e) = ucRepoType (xAsdmHeaderInfo ! repo) \<and>
    ucTotalNumRecords (sdrHdr e) = ucNumFound (pxSensorList s ! repo) \<and> sdrEor e = ASDM_EOR_MARKER \<and>
    (ucNumFound (pxSensorList s ! repo) \<noteq> 0 \<longrightarrow> usTotalNumBytes (sdrHdr e) \<noteq> 0 \<and>
       data_ok repo (unat (ucNumFound (pxSensorList s ! repo))) (sdrData e)) \<and>
    (repo \<le> 4 \<longrightarrow> usTotalNumBytes (sdrHdr e) = 1 + ucast (ucNumFound (pxSensorList s ! repo)))"
proof -
  have "boot_state (asdm_local_data w)"
    by (simp add: boot_state_def two_devices_def asdm_local_data_def AMC_ASDM_SUPPORTED_REPO_MAX_def)
  from iASDM_Initialise_built[OF assms(1-3) this assms(4)] assms(5) have "repo_built repo s" by blast
  then show ?thesis by (auto simp: repo_built_def Let_def)
qed

lemma demo_assumptions:
  "memory_available demo_env" "ptrSize demo_env \<le> 8" "eeprom_in_buffer demo_env"
  by (simp_all add: memory_available_def eeprom_in_buffer_def demo_env_def)

theorem asdm_initialise_builds_witness:
  "\<exists>s e. iASDM_Initialise demo_env 1 (asdm_local_data False) = Some (OK, s) \<and> get_sdr 5 s = Some e \<and>
     ucTotalNumRecords (sdrHdr e) = 1 \<and> data_ok 5 1 (sdrData e)"
proof -
  obtain s where s: "iASDM_Initialise demo_env 1 (asdm_local_data False) = Some (OK, s)" "demo_ready s"
    using demo_init by blast
  from asdm_initialise_builds[OF demo_assumptions s(1), of 5] s show ?thesis
    by (auto simp: demo_ready_def)
qed

text \<open>
  C4: After the initialisation the host that asks for a repository that holds records gets the
  repository of the firmware: the header, every sensor record with its name, value, unit,
  limits and statistics, the flash partition tables of both devices, or all fields of the board
  information.
\<close>

theorem asdm_repository_reaches_host:
  assumes "memory_available env" "ptrSize env \<le> 8" "eeprom_in_buffer env"
    "iASDM_Initialise env n (asdm_local_data w0) = Some (OK, s)" "mutex_works env (asdmWorld s)"
    "repo_of_type t = Some repo" "ucNumFound (pxSensorList s ! repo) \<noteq> 0" "get_sdr repo s = Some e"
    "length (sdr_image e) < SDR_RESP_LEN" "\<And>w. fst (kzalloc henv w)"
    "answered_by henv GCQ_SUBMIT_CMD_GET_SDR (get_flags_for_repo t) env ASDM_API_ID_TYPE_GET_SDR t s"
  shows "\<exists>w'. get_sdr_repo henv t zero_repo w = Some (0, host_repo e, w')"
proof -
  have "boot_state (asdm_local_data w0)"
    by (simp add: boot_state_def two_devices_def asdm_local_data_def AMC_ASDM_SUPPORTED_REPO_MAX_def)
  note built = iASDM_Initialise_built[OF assms(1-3) this assms(4)]
  moreover have "repo < 7" using type_of_repo[OF assms(6)] by simp
  ultimately show ?thesis using repository_reaches_host[OF _ _ assms(6,7) _ assms(8,9,5,10,11)] by blast
qed

text \<open>A host whose queue runs the firmware.\<close>

definition demo_host :: "ASDM_API_ID_TYPE \<Rightarrow> u8 \<Rightarrow> bool asdm \<Rightarrow> unit host_env" where
  "demo_host api t s = \<lparr>kzalloc = (\<lambda>w. (True, w)),
     submit_gcq = (\<lambda>cmd flags buf w. case iASDM_PopulateResponse demo_env api t 0 (Some buf) (Some 0) s of
        Some (_, Some b, _) \<Rightarrow> (0, b, w) | _ \<Rightarrow> (- 1, buf, w)),
     jiffies = (\<lambda>w. 0), HZ = 100\<rparr>"

lemma demo_host_answers:
  "fst (kzalloc (demo_host api t s) w)" "answered_by (demo_host api t s) cmd flags demo_env api t s"
  by (simp_all add: demo_host_def answered_by_def)

theorem asdm_repository_reaches_host_witness:
  "\<exists>s w'. get_sdr_repo (demo_host ASDM_API_ID_TYPE_GET_SDR 0xF0 s) 0xF0 zero_repo () =
     Some (0, host_repo demo_sdr, w')"
proof -
  obtain s where s: "iASDM_Initialise demo_env 1 (asdm_local_data False) = Some (OK, s)" "demo_ready s"
    using demo_init by blast
  have f: "mutex_works demo_env (asdmWorld s)" "repo_of_type 0xF0 = Some 5"
    "ucNumFound (pxSensorList s ! 5) \<noteq> 0" "get_sdr 5 s = Some demo_sdr"
    using s(2) by (simp_all add: demo_ready_def mutex_works_def demo_env_def repo_of_type_def)
  have "length (sdr_image demo_sdr) < SDR_RESP_LEN"
    by (simp add: sdr_image_def demo_sdr_def header_bytes_def ASDM_EOR_MARKER_def SDR_RESP_LEN_def
        demo_fpt_record_def fpt_header_bytes_def entries_of_def fpt_header_def demo_headers_def zero_apc_header_def
        entry_bytes_def)
  from asdm_repository_reaches_host[OF demo_assumptions s(1) f this demo_host_answers] show ?thesis by blast
qed

section \<open>The readings\<close>

text \<open>
  C14: The host that reads all sensors of a repository of at most 18 sensors gets, for each of its
  records, the value, maximum, average and status the firmware has, and keeps the rest of the
  record; this needs values of four bytes and records numbered from 1, as the firmware numbers
  them.
\<close>

theorem asdm_values_reach_host:
  assumes "asdm_guarded s" "asdmInitialised s" "repo_of_type t = Some repo" "get_sdr repo s = Some e"
    "sdrData e = SensorRecords (Some l)" "length l = unat (ucTotalNumRecords (sdrHdr e))" "list_all value_ok l"
    "mutex_works env (asdmWorld s)" "numbered r h" "repo_type r = t" "length l = length h"
    "get_rid t = get_sid cmd 0" "\<And>w. fst (kzalloc henv w)"
    "answered_by henv cmd 0 env ASDM_API_ID_TYPE_GET_ALL_SENSOR_DATA t s" "length l \<le> 18"
  shows "\<exists>w'. get_all_sensors henv cmd r w = Some (0,
    r\<lparr>repo_data := Records (Some (map2 refreshed l h)), last_update := jiffies henv w'\<rparr>, w')"
  using all_values_reach_host[OF assms(1-14)] readings_read_all[OF assms(15)] assms(11) by simp

text \<open>
  C28: With more than 18 sensors the size of the payload wraps in its eight bits. Of the readings of
  14 bytes each that the answer holds the host takes over exactly those that begin within the
  wrapped size, the first \<open>m\<close>, fewer than there are; the other records keep what they had, and
  the host still reports success.
\<close>

theorem asdm_values_beyond_18:
  assumes "asdm_guarded s" "asdmInitialised s" "repo_of_type t = Some repo" "get_sdr repo s = Some e"
    "sdrData e = SensorRecords (Some l)" "length l = unat (ucTotalNumRecords (sdrHdr e))" "list_all value_ok l"
    "mutex_works env (asdmWorld s)" "numbered r h" "repo_type r = t" "length l = length h"
    "get_rid t = get_sid cmd 0" "\<And>w. fst (kzalloc henv w)"
    "answered_by henv cmd 0 env ASDM_API_ID_TYPE_GET_ALL_SENSOR_DATA t s" "18 < length l"
    "m = length (filter (\<lambda>i. 14 * i < unat (of_nat (14 * length l) :: u8)) [0..<length l])"
  shows "m < length l \<and> (\<exists>w'. get_all_sensors henv cmd r w = Some (0, r\<lparr>repo_data := Records (Some
    (map2 refreshed (take m l) h @ drop m h)), last_update := jiffies henv w'\<rparr>, w'))"
  using all_values_reach_host[OF assms(1-14)] readings_read_some[OF assms(15)] readings_read_begin[of "length l"]
  unfolding assms(16) by simp

definition demo_record :: ASDM_SDR_RECORD where
  "demo_record = zero_sdr_record\<lparr>xSensorValue := zero_field\<lparr>fldLength := 4\<rparr>, ucSensorStatus := 1\<rparr>"

definition demo_temps :: "nat \<Rightarrow> bool asdm" where
  "demo_temps n = (asdm_local_data False)\<lparr>asdmInitialised := True,
     pxAsdmSdrInfo := Some (replicate 7 (zero_sdr\<lparr>sdrHdr := zero_header\<lparr>ucTotalNumRecords := of_nat n\<rparr>,
       sdrData := SensorRecords (Some (replicate n demo_record))\<rparr>))\<rparr>"

definition demo_host_repo :: "nat \<Rightarrow> sdr_repo" where
  "demo_host_repo n = zero_repo\<lparr>repo_type := 0xC1, num_records := of_nat n,
     repo_data := Records (Some (map (\<lambda>j. zero_rec\<lparr>rec_id := of_nat (Suc j)\<rparr>) [0..<n]))\<rparr>"

lemma demo_temps_ok:
  assumes "n \<le> 255" "0 < n"
  shows "asdm_guarded (demo_temps n)" "asdmInitialised (demo_temps n)" "repo_of_type 0xC1 = Some 0"
    "get_sdr 0 (demo_temps n) = Some (zero_sdr\<lparr>sdrHdr := zero_header\<lparr>ucTotalNumRecords := of_nat n\<rparr>,
       sdrData := SensorRecords (Some (replicate n demo_record))\<rparr>)"
    "length (replicate n demo_record) = unat (of_nat n :: u8)" "list_all value_ok (replicate n demo_record)"
    "mutex_works demo_env (asdmWorld (demo_temps n))"
    "numbered (demo_host_repo n) (map (\<lambda>j. zero_rec\<lparr>rec_id := of_nat (Suc j)\<rparr>) [0..<n])"
    "repo_type (demo_host_repo n) = 0xC1" "get_rid 0xC1 = get_sid 0x20 0"
  using assms
  by (simp_all add: demo_temps_def asdm_guarded_def asdm_local_data_def get_sdr_def repo_of_type_def unat_of_nat
      list_all_iff value_ok_def demo_record_def zero_field_def record_len_def ASDM_RECORD_FIELD_LENGTH_MASK_def
      mutex_works_def demo_env_def numbered_def demo_host_repo_def get_rid_def get_sid_def
      GCQ_SUBMIT_CMD_GET_ALL_INST_TEMP_SENSOR_def)

theorem asdm_values_reach_host_witness:
  "\<exists>w'. get_all_sensors (demo_host ASDM_API_ID_TYPE_GET_ALL_SENSOR_DATA 0xC1 (demo_temps 1)) 0x20
     (demo_host_repo 1) () = Some (0, (demo_host_repo 1)\<lparr>repo_data := Records (Some
       [refreshed demo_record (zero_rec\<lparr>rec_id := 1\<rparr>)]), last_update := 0\<rparr>, w')"
  using asdm_values_reach_host[OF demo_temps_ok(1-4)[of 1] _ _ demo_temps_ok(6,7)[of 1] demo_temps_ok(8,9)[of 1] _
      demo_temps_ok(10)[of 1] demo_host_answers]
  by (simp add: demo_host_def)

text \<open>With 19 sensors only the first one is read.\<close>

theorem asdm_values_beyond_18_witness:
  "\<exists>w'. get_all_sensors (demo_host ASDM_API_ID_TYPE_GET_ALL_SENSOR_DATA 0xC1 (demo_temps 19)) 0x20
     (demo_host_repo 19) () = Some (0, (demo_host_repo 19)\<lparr>repo_data := Records (Some
       (refreshed demo_record (zero_rec\<lparr>rec_id := 1\<rparr>) #
        map (\<lambda>j. zero_rec\<lparr>rec_id := of_nat (Suc j)\<rparr>) [1..<19])), last_update := 0\<rparr>, w')"
proof -
  have f: "length (filter (\<lambda>i. 14 * i < unat (of_nat (14 * 19) :: u8)) [0..<19]) = 1"
    by (simp add: upt_rec)
  have "map2 refreshed (take 1 (replicate 19 demo_record)) (map (\<lambda>j. zero_rec\<lparr>rec_id := of_nat (Suc j)\<rparr>) [0..<19]) @
      drop 1 (map (\<lambda>j. zero_rec\<lparr>rec_id := of_nat (Suc j)\<rparr>) [0..<19]) =
      refreshed demo_record (zero_rec\<lparr>rec_id := 1\<rparr>) # map (\<lambda>j. zero_rec\<lparr>rec_id := of_nat (Suc j)\<rparr>) [1..<19]"
    by (simp add: upt_conv_Cons)
  then show ?thesis
    using asdm_values_beyond_18[OF demo_temps_ok(1-4)[of 19] _ _ demo_temps_ok(6,7)[of 19] demo_temps_ok(8,9)[of 19] _
      demo_temps_ok(10)[of 19] demo_host_answers, of 1] f
    by (simp add: demo_host_def)
qed

section \<open>The mutex\<close>

text \<open>
  A mutex that is granted while nobody holds it; \<open>held\<close> reads from the world whether it is held.
\<close>

definition plain_mutex :: "'w asdm_env \<Rightarrow> ('w \<Rightarrow> bool) \<Rightarrow> bool" where
  "plain_mutex env held \<longleftrightarrow> (\<forall>w.
     (\<not> held w \<longrightarrow> fst (asdmMutexTake env w) \<and> held (snd (asdmMutexTake env w))) \<and>
     (held w \<longrightarrow> fst (asdmMutexRelease env w) \<and> \<not> held (snd (asdmMutexRelease env w))))"

lemma plain_mutexD:
  assumes "plain_mutex env held"
  shows "\<not> held w \<Longrightarrow> \<exists>w'. asdmMutexTake env w = (True, w') \<and> held w'"
    "held w \<Longrightarrow> \<exists>w'. asdmMutexRelease env w = (True, w') \<and> \<not> held w'"
proof -
  have p: "\<exists>w'. q = (True, w') \<and> P w'" if "fst q \<and> P (snd q)" for q :: "bool \<times> 'a" and P
    using that by (cases q) simp
  show "\<not> held w \<Longrightarrow> \<exists>w'. asdmMutexTake env w = (True, w') \<and> held w'"
    "held w \<Longrightarrow> \<exists>w'. asdmMutexRelease env w = (True, w') \<and> \<not> held w'"
    using assms by (auto simp: plain_mutex_def intro: p)
qed

lemma asdm_world_simps [simp]:
  "asdmWorld (asdm_inc_stat x s) = asdmWorld s" "asdmWorld (asdm_inc_error y s) = asdmWorld s"
  "asdmWorld (snd (snd (iMapAsdmRepo t k s))) = asdmWorld s"
  by (simp_all add: asdm_inc_stat_def asdm_inc_error_def iMapAsdmRepo_def split: option.split)

lemma map_repo_world: "iMapAsdmRepo t k s = (st, repo, s1) \<Longrightarrow> asdmWorld s1 = asdmWorld s"
  by (metis asdm_world_simps(3) snd_conv)

lemma asdm_guarded_simps [simp]:
  "asdm_guarded (asdm_inc_stat x s) = asdm_guarded s" "asdm_guarded (s\<lparr>asdmWorld := w\<rparr>) = asdm_guarded s"
  by (simp_all add: asdm_guarded_def asdm_inc_stat_def)

lemma with_mutex_balanced:
  assumes c: "plain_mutex env held" and r: "with_asdm_mutex env body a s = Some (st, r, s')"
    and f: "\<not> held (asdmWorld s)"
    and b: "\<And>u st r u'. body u = Some (st, r, u') \<Longrightarrow> asdmWorld u' = asdmWorld u"
  shows "held (asdmWorld s') \<Longrightarrow> False"
proof -
  obtain w1 where w1: "asdmMutexTake env (asdmWorld s) = (True, w1)" "held w1"
    using plain_mutexD(1)[OF c f] by blast
  obtain w2 where w2: "asdmMutexRelease env w1 = (True, w2)" "\<not> held w2"
    using plain_mutexD(2)[OF c w1(2)] by blast
  let ?s1 = "asdm_inc_stat ASDM_STATS_TAKE_MUTEX (s\<lparr>asdmWorld := w1\<rparr>)"
  obtain st2 r2 s2 where body: "body ?s1 = Some (st2, r2, s2)"
    using r w1 by (auto simp: with_asdm_mutex_def outside_def bind_eq_Some_conv)
  then have "asdmWorld s' = w2"
    using r w1 w2 b[OF body] by (auto simp: with_asdm_mutex_def outside_def)
  then show "held (asdmWorld s') \<Longrightarrow> False" using w2 by simp
qed

lemma sdr_body_world:
  "sdr_body t repo e c s = Some (st, c', s') \<Longrightarrow> asdmWorld s' = asdmWorld s"
  "sdr_body_v2 t repo e c s = Some (st, c', s') \<Longrightarrow> asdmWorld s' = asdmWorld s"
  by (auto simp: sdr_body_def sdr_body_v2_def empty_sdr_def iPopulateAsdmSdrBoardInfoResponse_def
      bind_eq_Some_conv Let_def dest!: map_repo_world split: if_splits prod.splits)

lemma answers_balanced:
  assumes c: "plain_mutex env held" "\<not> held (asdmWorld s)"
  shows "(\<And>repo e c u st c' u'. body t repo e c u = Some (st, c', u') \<Longrightarrow> asdmWorld u' = asdmWorld u) \<Longrightarrow>
      sdr_answer env body sized t a s = Some (st, r, s') \<Longrightarrow> \<not> held (asdmWorld s')"
    "sensor_data_answer env records t a s = Some (st, r, s') \<Longrightarrow> \<not> held (asdmWorld s')"
    "iPopulateAsdmGetSingleSensorResponse env t sid a s = Some (st, r, s') \<Longrightarrow> \<not> held (asdmWorld s')"
proof -
  note wm = with_mutex_balanced[OF c(1)]
  show "\<not> held (asdmWorld s')" if b: "\<And>repo e c u st c' u'. body t repo e c u = Some (st, c', u') \<Longrightarrow>
      asdmWorld u' = asdmWorld u" and r: "sdr_answer env body sized t a s = Some (st, r, s')"
    using r c(2)
    by (auto simp: sdr_answer_def Let_def dest!: map_repo_world split: if_splits prod.splits)
      (erule wm, simp, auto simp: bind_eq_Some_conv dest!: b)
  show "\<not> held (asdmWorld s')" if "sensor_data_answer env records t a s = Some (st, r, s')"
    using that c(2)
    by (auto simp: sensor_data_answer_def Let_def dest!: map_repo_world split: if_splits prod.splits)
      (erule wm, simp, auto simp: bind_eq_Some_conv)
  show "\<not> held (asdmWorld s')" if "iPopulateAsdmGetSingleSensorResponse env t sid a s = Some (st, r, s')"
    using that c(2)
    by (auto simp: iPopulateAsdmGetSingleSensorResponse_def Let_def dest!: map_repo_world
        split: if_splits prod.splits)
      (erule wm, simp, auto)
qed

lemma size_answer_mutex:
  assumes c: "plain_mutex env held" "\<not> held (asdmWorld s)" and g: "asdm_guarded s"
  shows "iPopulateAsdmGetSizeResponse env t a s = Some (st, r, s') \<Longrightarrow>
      held (asdmWorld s') \<longleftrightarrow> repo_of_type t = None"
    "repo_of_type t = None \<Longrightarrow>
      \<exists>u. iPopulateAsdmGetSizeResponse env t a s = Some (ERROR, a, u)"
proof -
  obtain w1 where w1: "asdmMutexTake env (asdmWorld s) = (True, w1)" "held w1"
    using plain_mutexD(1)[OF c] by blast
  obtain w2 where w2: "asdmMutexRelease env w1 = (True, w2)" "\<not> held w2"
    using plain_mutexD(2)[OF c(1) w1(2)] by blast
  show "held (asdmWorld s') \<longleftrightarrow> repo_of_type t = None"
    if "iPopulateAsdmGetSizeResponse env t a s = Some (st, r, s')"
    using that w1 w2 g
    by (auto simp: iPopulateAsdmGetSizeResponse_def outside_def iMapAsdmRepo_def Let_def bind_eq_Some_conv
        split: option.splits)
  show "\<exists>u. iPopulateAsdmGetSizeResponse env t a s = Some (ERROR, a, u)" if "repo_of_type t = None"
    using that w1 g
    by (auto simp: iPopulateAsdmGetSizeResponse_def outside_def iMapAsdmRepo_def Let_def)
qed

lemma populate_mutex:
  assumes "plain_mutex env held" "\<not> held (asdmWorld s)" "asdm_guarded s" "asdmInitialised s"
    and r: "iASDM_PopulateResponse env api t sid (Some b) (Some n) s = Some (st, b', n', s')"
  shows "held (asdmWorld s') \<longleftrightarrow> api = ASDM_API_ID_TYPE_GET_SDR_SIZE \<and> repo_of_type t = None"
proof -
  note bal = answers_balanced[OF assms(1,2)]
  note size = size_answer_mutex(1)[OF assms(1-3)]
  have sdr: "sdr_answer env sdr_body sized t a s = Some (st, c, s') \<Longrightarrow> \<not> held (asdmWorld s')"
    "sdr_answer env sdr_body_v2 sized t a s = Some (st, c, s') \<Longrightarrow> \<not> held (asdmWorld s')" for sized a c
    by (erule bal(1)[rotated], erule sdr_body_world)+
  show ?thesis
    using r assms(2-4) unfolding iASDM_PopulateResponse_def
    by (cases api)
      (auto simp: size iPopulateAsdmGetSdrResponse_def iPopulateAsdmGetSdrResponseV2_def
        iPopulateAsdmGetAllSensorDataResponse_def iPopulateAsdmGetAllSensorDataResponseV2_def
        dest: bal(2,3) sdr)
qed

text \<open>
  C29: Every request leaves the mutex of ASDM free when it found it free, with one exception: a
  request for the size of a repository of unknown type leaves it taken. That request returns
  an error and stores nothing.
\<close>

theorem asdm_mutex_balance:
  assumes "plain_mutex env held" "\<not> held (asdmWorld s)" "asdm_guarded s" "asdmInitialised s"
  shows "(iASDM_PopulateResponse env api t sid (Some b) (Some n) s = Some (st, b', n', s') \<longrightarrow>
      held (asdmWorld s') = (api = ASDM_API_ID_TYPE_GET_SDR_SIZE \<and> repo_of_type t = None)) \<and>
    (repo_of_type t = None \<longrightarrow> (\<exists>u. held (asdmWorld u) \<and>
      iASDM_PopulateResponse env ASDM_API_ID_TYPE_GET_SDR_SIZE t sid (Some b) (Some n) s =
        Some (ERROR, Some b, Some n, u)))"
proof (intro conjI impI)
  show "held (asdmWorld s') = (api = ASDM_API_ID_TYPE_GET_SDR_SIZE \<and> repo_of_type t = None)"
    if "iASDM_PopulateResponse env api t sid (Some b) (Some n) s = Some (st, b', n', s')"
    by (rule populate_mutex[OF assms that])
next
  assume t: "repo_of_type t = None"
  then obtain u where "iPopulateAsdmGetSizeResponse env t (b, n) s = Some (ERROR, (b, n), u)"
    using size_answer_mutex(2)[OF assms(1-3)] by blast
  then show "\<exists>u. held (asdmWorld u) \<and> iASDM_PopulateResponse env ASDM_API_ID_TYPE_GET_SDR_SIZE t sid (Some b) (Some n) s =
        Some (ERROR, Some b, Some n, u)"
    using size_answer_mutex(1)[OF assms(1-3)] t assms(3,4) by (auto simp: iASDM_PopulateResponse_def)
qed

theorem asdm_mutex_balance_witness:
  "\<exists>u. asdmWorld u \<and>
    iASDM_PopulateResponse demo_env ASDM_API_ID_TYPE_GET_SDR_SIZE 0 0 (Some [0, 0, 0, 0]) (Some 0) (demo_temps 1) =
      Some (ERROR, Some [0, 0, 0, 0], Some 0, u)"
proof -
  have "plain_mutex demo_env (\<lambda>w. w)" "\<not> asdmWorld (demo_temps 1)" "repo_of_type 0 = None"
    by (simp_all add: plain_mutex_def demo_env_def demo_temps_def asdm_local_data_def repo_of_type_def)
  then show ?thesis
    using asdm_mutex_balance[of demo_env "\<lambda>w. w", OF _ _ demo_temps_ok(1,2)[of 1]] by simp
qed

section \<open>The sensors\<close>

text \<open>
  C19: The list of a repository of sensors, empty before, holds exactly the sensors of the data that
  have its type and are enabled: their number, their indices and their identifiers, in order.
\<close>

theorem asdm_lists_sensors:
  assumes "\<And>f w. sensorEnabled env f w = (en f, w)"
    "pxAscData s = Some datas" "asdm_guarded s" "iSensorListInitialised s" "repo < 7" "length (pxSensorList s) = 7"
    "pxSensorList s ! repo = \<lparr>ucNumFound = 0, pucSensorIndex = Some idx, pucSensorId = Some ids\<rparr>"
    "unat n \<le> length datas" "unat n \<le> length idx" "unat n \<le> length ids"
  defines "ws \<equiv> filter (\<lambda>i. ucSensorType (datas ! i) AND repo_bit repo \<noteq> 0 \<and>
    en (pxSensorEnabled (datas ! i)) = 1) [0..<unat n]"
  shows "\<exists>s' l. iPopulateRepoSensorList env n repo s = Some (OK, s') \<and>
    s' = s\<lparr>pxSensorList := (pxSensorList s)[repo := l]\<rparr> \<and> unat (ucNumFound l) = length ws \<and>
    pucSensorIndex l = Some (map of_nat ws @ drop (length ws) idx) \<and>
    pucSensorId l = Some (map (\<lambda>i. ucSensorId (datas ! i)) ws @ drop (length ws) ids)"
proof -
  have ws: "wanted_upto en datas repo (unat n) = ws"
    by (simp add: wanted_upto_def ws_def wanted_def[abs_def])
  have "length ws \<le> unat n" using wanted_length[of en datas repo "unat n"] ws by simp
  then have "unat (of_nat (length ws) :: u8) = length ws"
    using u8_bound[of n] by (simp add: unat_of_nat)
  then show ?thesis
    using repository_list[OF assms(1-10)] by (auto simp: listed_def ws Let_def)
qed

definition demo_full :: "bool asdm" where
  "demo_full = (asdm_local_data False)\<lparr>asdmInitialised := True, iSensorListInitialised := True,
     pxAscData := Some [demo_sensor],
     pxSensorList := replicate 7 \<lparr>ucNumFound = 1, pucSensorIndex = Some [0], pucSensorId = Some [1]\<rparr>,
     pxAsdmSdrInfo := Some (replicate 7 (zero_sdr\<lparr>sdrData := SensorRecords (Some [demo_record])\<rparr>)),
     pxAsdmSdsInfo := Some (replicate 7 (zero_sds\<lparr>sdsRecords := Some
       [\<lparr>sdsId = 0, sdsSensorValue = zero_field, sdsSensorStatus = 0, sdsSensorTag = 0, sdsRsvd = 0\<rparr>]\<rparr>))\<rparr>"

definition demo_empty :: "bool asdm" where
  "demo_empty = demo_full\<lparr>pxSensorList := replicate 7 \<lparr>ucNumFound = 0, pucSensorIndex = Some [0], pucSensorId = Some [0]\<rparr>\<rparr>"

theorem asdm_lists_sensors_witness:
  "\<exists>s' l. iPopulateRepoSensorList demo_env 1 2 demo_empty = Some (OK, s') \<and>
     s' = demo_empty\<lparr>pxSensorList := (pxSensorList demo_empty)[2 := l]\<rparr> \<and> unat (ucNumFound l) = 1 \<and>
     pucSensorIndex l = Some [0] \<and> pucSensorId l = Some [1]"
proof -
  have a: "sensorEnabled demo_env f w = ((\<lambda>f. 1) f, w)" for f w by (simp add: demo_env_def)
  have b: "pxAscData demo_empty = Some [demo_sensor]" "asdm_guarded demo_empty" "iSensorListInitialised demo_empty"
    "(2 :: nat) < 7" "length (pxSensorList demo_empty) = 7"
    "pxSensorList demo_empty ! 2 = \<lparr>ucNumFound = 0, pucSensorIndex = Some [0], pucSensorId = Some [0]\<rparr>"
    "unat (1 :: u8) \<le> length [demo_sensor]" "unat (1 :: u8) \<le> length [0 :: u8]"
    by (simp_all add: demo_empty_def demo_full_def asdm_local_data_def asdm_guarded_def)
  have "(15 :: u8) AND 4 \<noteq> 0" by simp
  then show ?thesis
    using asdm_lists_sensors[OF a b b(8)]
    by (simp add: demo_sensor_def repo_bit_def)
qed



text \<open>
  C33: Over any sequence of totals, until the 32-bit number of iterations returns to zero, the
  statistics of the total power are defined, the maximum is the largest total so far and the
  running average never exceeds it.
\<close>

theorem asdm_power_bounded:
  assumes "unat (ulPowerCalcIterations s) + length ts < 2 ^ 32" "ulAveragePower s \<le> ulMaxPower s"
  shows "\<exists>s'. power_history ts s = Some s' \<and> ulMaxPower s' = Max (insert (ulMaxPower s) (set ts)) \<and>
    ulAveragePower s' \<le> ulMaxPower s'"
proof -
  have "fold (\<lambda>t m. max m t) ts m = Max (insert m (set ts))" for m :: u32
  proof (induction ts arbitrary: m)
    case (Cons t ts)
    then show ?case by (cases "ts = []") (simp_all add: max.assoc max.commute max.left_commute)
  qed simp
  then show ?thesis using power_history_bounded[OF assms] by simp
qed

theorem asdm_power_bounded_witness:
  "\<exists>s'. power_history [5, 9, 7] demo_full = Some s' \<and> ulMaxPower s' = 9 \<and> ulAveragePower s' \<le> 9"
proof -
  have "unat (ulPowerCalcIterations demo_full) + length [5, 9, 7 :: u32] < 2 ^ 32"
    "ulAveragePower demo_full \<le> ulMaxPower demo_full" "ulMaxPower demo_full = 0"
    by (simp_all add: demo_full_def asdm_local_data_def)
  with asdm_power_bounded[OF this(1,2)] show ?thesis by (auto simp: max_def)
qed

text \<open>
  C24: The record of a sensor shows its name and unit with their terminators, its value, its unit
  modifier as a power of ten, and each limit it has, with one bit per limit; the bit of the
  average says whether the sensor has a maximum and the bit of the maximum whether it has an
  average.
\<close>

theorem asdm_record_shows_sensor:
  assumes "asdm_guarded s" "repo_of_type t = Some repo" "repo \<le> 4" "c_string (pcSensorName d) = Some nm"
    "length nm + 1 < 30" "pcConvertRepoBaseUnitStr t = Some un" "rd = reading env d (if repo = 4 then 3 else repo)"
    "xSensorUnitModifier rd \<le> 4"
  shows "\<exists>q n. iPopulateSdr env ix t d (Some r) c s = Some (OK, Some q, n, s) \<and> sdrId q = ix + 1 \<and>
    field_data (xSensorName q) = map of_char nm @ [0] \<and> field_data (xSensorBaseUnit q) = map of_char un @ [0] \<and>
    fieldValue (xSensorValue q) = ulSensorValue rd \<and> cUnitModifier q = of_int (6 - 3 * int (xSensorUnitModifier rd)) \<and>
    (let has = (\<lambda>v. v \<noteq> ASC_SENSOR_INVALID_VAL); b = bit (ucThresholdSupportedBitMask q) in
       b 0 = has (rdUpperWarningLimit rd) \<and> b 1 = has (rdUpperCriticalLimit rd) \<and> b 2 = has (rdUpperFatalLimit rd) \<and>
       b 3 = has (rdLowerWarningLimit rd) \<and> b 4 = has (rdLowerCriticalLimit rd) \<and> b 5 = has (rdLowerFatalLimit rd) \<and>
       b 6 = has (ulMaxSensorValue rd) \<and> b 7 = has (ulAverageSensorValue rd) \<and>
       (b 0 \<longrightarrow> ulUpperWarnLimit q = rdUpperWarningLimit rd) \<and> (b 1 \<longrightarrow> ulUpperCritLimit q = rdUpperCriticalLimit rd) \<and>
       (b 2 \<longrightarrow> ulUpperFatalLimit q = rdUpperFatalLimit rd) \<and> (b 3 \<longrightarrow> ulLowerWarnLimit q = rdLowerWarningLimit rd) \<and>
       (b 4 \<longrightarrow> ulLowerCritLimit q = rdLowerCriticalLimit rd) \<and> (b 5 \<longrightarrow> ulLowerFatalLimit q = rdLowerFatalLimit rd) \<and>
       (b 6 \<longrightarrow> ulMaxValue q = ulMaxSensorValue rd) \<and> (b 7 \<longrightarrow> ulAverageValue q = ulAverageSensorValue rd))"
proof -
  define r0 where "r0 = r\<lparr>sdrId := ix + 1, xSensorName := text_field nm (xSensorName r),
       xSensorValue := set_fieldValue (ulSensorValue rd)
         ((xSensorValue r)\<lparr>fldLength := 4 AND ASDM_RECORD_FIELD_LENGTH_MASK\<rparr>),
       xSensorBaseUnit := text_field un (xSensorBaseUnit r), cUnitModifier := of_int (6 - 3 * int (xSensorUnitModifier rd)),
       ucThresholdSupportedBitMask := 0\<rparr>"
  obtain n where n: "iPopulateSdr env ix t d (Some r) c s = Some (OK, Some (limits_record rd r0), n, s)"
    using populate_sdr_result[OF assms, of ix r c] unfolding r0_def by blast
  have un: "length un + 1 < 30" using unit_short[OF assms(6)] by simp
  have z: "ucThresholdSupportedBitMask r0 = 0" by (simp add: r0_def)
  show ?thesis
    using n text_field_data[OF assms(5)] text_field_data[OF un]
    by (intro exI[of _ "limits_record rd r0"] exI[of _ n])
       (simp add: limits_kept limits_bits[OF z] limits_bits(2)[OF z, unfolded One_nat_def] limits_values Let_def, simp add: r0_def)
qed

theorem asdm_record_shows_sensor_witness:
  "\<exists>q n. iPopulateSdr demo_env 0 0xC1 demo_sensor (Some zero_sdr_record) 0 (demo_temps 1) =
       Some (OK, Some q, n, demo_temps 1) \<and> sdrId q = 1 \<and> fieldValue (xSensorValue q) = 40 \<and>
     field_data (xSensorName q) = [80, 67, 66, 0] \<and> ulUpperWarnLimit q = 90"
proof -
  have a: "repo_of_type 0xC1 = Some 0" "(0 :: nat) \<le> 4" "c_string (pcSensorName demo_sensor) = Some ''PCB''"
    "length ''PCB'' + 1 < 30" "pcConvertRepoBaseUnitStr 0xC1 = Some ''Celsius''"
    "demo_readings = reading demo_env demo_sensor (if (0 :: nat) = 4 then 3 else 0)"
    "xSensorUnitModifier demo_readings \<le> 4"
    by (simp_all add: repo_of_type_def demo_sensor_def c_string_def pcConvertRepoBaseUnitStr_def reading_def demo_readings_def)
  show ?thesis
    using asdm_record_shows_sensor[OF demo_temps_ok(1)[of 1] a, of 0 zero_sdr_record 0]
    by (auto simp: Let_def demo_readings_def ASC_SENSOR_INVALID_VAL_def)
qed

end
