(* ===== verification/AmiProxy.thy ===== *)
theory AmiProxy
  imports BmcState
begin

text \<open>
  The AMI proxy of the firmware (src/fw/AMC/src/proxy_drivers/ami/ami_proxy_driver.c): the
  commands of the host. A request read from the firmware interface is decoded into one of
  eight slots and announced by an event that carries the index of the slot; an application
  fetches it, and posts its result into a mailbox, from which the task answers the host with
  the command identifier of the slot and frees the slot. The firmware interface, the mutex and
  the mailbox are parameters; callbacks act on the private data and on the rest of the world.
\<close>

section \<open>Enumerations\<close>

datatype AMI_PROXY_STATS =
    AMI_PROXY_STATS_INIT_OVERALL_COMPLETE | AMI_PROXY_STATS_CREATE_MUTEX
  | AMI_PROXY_STATS_CREATE_MBOX | AMI_PROXY_STATS_TAKE_MUTEX | AMI_PROXY_STATS_RELEASE_MUTEX
  | AMI_PROXY_STATS_PDI_DOWNLOAD_MBOX_POST | AMI_PROXY_STATS_PDI_COPY_MBOX_POST
  | AMI_PROXY_STATS_SENSOR_MBOX_POST | AMI_PROXY_STATS_IDENTITY_MBOX_POST
  | AMI_PROXY_STATS_BOOT_SELECT_MBOX_POST | AMI_PROXY_STATS_HEARTBEAT_MBOX_POST
  | AMI_PROXY_STATS_EEPROM_RW_MBOX_POST | AMI_PROXY_STATS_MODULE_RW_MBOX_POST
  | AMI_PROXY_STATS_DEBUG_VERBOSITY_MBOX_PEND | AMI_PROXY_STATS_PDI_DOWNLOAD_MBOX_PEND
  | AMI_PROXY_STATS_PDI_COPY_MBOX_PEND | AMI_PROXY_STATS_SENSOR_MBOX_PEND
  | AMI_PROXY_STATS_IDENTITY_MBOX_PEND | AMI_PROXY_STATS_BOOT_SELECT_MBOX_PEND
  | AMI_PROXY_STATS_HEARTBEAT_MBOX_PEND | AMI_PROXY_STATS_EEPROM_RW_MBOX_PEND
  | AMI_PROXY_STATS_MODULE_RW_MBOX_PEND | AMI_PROXY_STATS_GET_PDI_DOWNLOAD_REQUEST
  | AMI_PROXY_STATS_GET_PDI_COPY_REQUEST | AMI_PROXY_STATS_GET_SENSOR_REQUEST
  | AMI_PROXY_STATS_GET_BOOT_SELECT_REQUEST | AMI_PROXY_STATS_TASK_TIME_MS
  | AMI_PROXY_STATS_GET_EEPROM_RW_REQUEST | AMI_PROXY_STATS_STATUS_RETRIEVAL
  | AMI_PROXY_STATS_GET_MODULE_RW_REQUEST

datatype AMI_PROXY_ERRORS =
    AMI_PROXY_ERRORS_MUTEX_RELEASE_FAILED | AMI_PROXY_ERRORS_MUTEX_TAKE_FAILED
  | AMI_PROXY_ERRORS_MAILBOX_POST_FAILED | AMI_PROXY_ERRORS_PDI_DOWNLOAD_REQUEST
  | AMI_PROXY_ERRORS_PDI_COPY_REQUEST | AMI_PROXY_ERRORS_EEPROM_RW_REQUEST
  | AMI_PROXY_ERRORS_MODULE_RW_REQUEST | AMI_PROXY_ERRORS_DEBUG_VERBOSITY_REQUEST
  | AMI_PROXY_ERRORS_GET_SENSOR_REQUEST | AMI_PROXY_ERRORS_GET_BOOT_SELECT_REQUEST
  | AMI_PROXY_ERRORS_GET_HEARTBEAT_REQUEST | AMI_PROXY_ERRORS_GET_EEPROM_RW_REQUEST
  | AMI_PROXY_ERRORS_GET_MODULE_RW_REQUEST | AMI_PROXY_ERRORS_GET_DEBUG_VERBOSITY_REQUEST
  | AMI_PROXY_RAISE_EVENT_PDI_DOWNLOAD_FAILED | AMI_PROXY_RAISE_EVENT_PDI_COPY_FAILED
  | AMI_PROXY_RAISE_EVENT_GET_IDENTIFY_FAILED | AMI_PROXY_RAISE_EVENT_SENSOR_READ_FAILED
  | AMI_PROXY_RAISE_EVENT_BOOT_SELECT_FAILED | AMI_PROXY_RAISE_EVENT_HEARTBEAT_FAILED
  | AMI_PROXY_RAISE_EVENT_EEPROM_RW_FAILED | AMI_PROXY_RAISE_EVENT_MODULE_RW_FAILED
  | AMI_PROXY_RAISE_EVENT_DEBUG_VERBOSITY_FAILED | AMI_PROXY_INIT_FW_IF_OPEN_FAILED
  | AMI_PROXY_INIT_MUTEX_CREATE_FAILED | AMI_PROXY_INIT_MBOX_CREATE_FAILED
  | AMI_PROXY_INIT_TASK_CREATE_FAILED | AMI_PROXY_VALIDATION_FAILED
  | AMI_PROXY_UNSUPPORTED_OPCODE_RX | AMI_PROXY_UNKNOWN_MAILBOX_MSG
  | AMI_PROXY_UNKNOWN_RETURN_CODE | AMI_PROXY_FW_IF_WRITE_FAILED | AMI_PROXY_BIND_CB_FAILED
  | AMI_PROXY_RX_DATA_INDEX_FAILED | AMI_PROXY_ERRORS_INIT_EVL_RECORD_FAILED

datatype AMI_MSG_TYPES =
    AMI_MSG_TYPE_PDI_DOWNLOAD_COMPLETE | AMI_MSG_TYPE_PDI_COPY_COMPLETE
  | AMI_MSG_TYPE_SENSOR_COMPLETE | AMI_MSG_TYPE_IDENTITY_COMPLETE
  | AMI_MSG_TYPE_BOOT_SELECT_COMPLETE | AMI_MSG_TYPE_HEARTBEAT_COMPLETE
  | AMI_MSG_TYPE_EEPROM_RW_COMPLETE | AMI_MSG_TYPE_MODULE_RW_COMPLETE
  | AMI_MSG_TYPE_DEBUG_VERBOSITY_COMPLETE | MAX_AMI_MSG_TYPE

definition AMI_CMD_OPCODE_BOOT_SEL_REQ :: u32 where [simp]: "AMI_CMD_OPCODE_BOOT_SEL_REQ = 0x0"
definition AMI_CMD_OPCODE_HEARTBEAT_REQ :: u32 where [simp]: "AMI_CMD_OPCODE_HEARTBEAT_REQ = 0x2"
definition AMI_CMD_OPCODE_EEPROM_RW_REQ :: u32 where [simp]: "AMI_CMD_OPCODE_EEPROM_RW_REQ = 0x3"
definition AMI_CMD_OPCODE_MODULE_RW_REQ :: u32 where [simp]: "AMI_CMD_OPCODE_MODULE_RW_REQ = 0x4"
definition AMI_CMD_OPCODE_DEBUG_VERBOSITY_REQ :: u32 where
  [simp]: "AMI_CMD_OPCODE_DEBUG_VERBOSITY_REQ = 0x5"
definition AMI_CMD_OPCODE_PDI_DOWNLOAD_REQ :: u32 where
  [simp]: "AMI_CMD_OPCODE_PDI_DOWNLOAD_REQ = 0xA"
definition AMI_CMD_OPCODE_SENSOR_REQ :: u32 where [simp]: "AMI_CMD_OPCODE_SENSOR_REQ = 0xC"
definition AMI_CMD_OPCODE_PDI_COPY_REQ :: u32 where [simp]: "AMI_CMD_OPCODE_PDI_COPY_REQ = 0xD"
definition AMI_CMD_OPCODE_IDENTIFY_REQ :: u32 where [simp]: "AMI_CMD_OPCODE_IDENTIFY_REQ = 0x202"

datatype AMI_PROXY_DRIVER_EVENTS =
    AMI_PROXY_DRIVER_E_PDI_DOWNLOAD_START | AMI_PROXY_DRIVER_E_PDI_COPY_START
  | AMI_PROXY_DRIVER_E_SENSOR_READ | AMI_PROXY_DRIVER_E_GET_IDENTITY
  | AMI_PROXY_DRIVER_E_BOOT_SELECT | AMI_PROXY_DRIVER_E_HEARTBEAT
  | AMI_PROXY_DRIVER_E_EEPROM_READ_WRITE | AMI_PROXY_DRIVER_E_MODULE_READ_WRITE
  | AMI_PROXY_DRIVER_E_DEBUG_VERBOSITY

primrec ami_event_value :: "AMI_PROXY_DRIVER_EVENTS \<Rightarrow> u8" where
  "ami_event_value AMI_PROXY_DRIVER_E_PDI_DOWNLOAD_START = 0"
| "ami_event_value AMI_PROXY_DRIVER_E_PDI_COPY_START = 1"
| "ami_event_value AMI_PROXY_DRIVER_E_SENSOR_READ = 2"
| "ami_event_value AMI_PROXY_DRIVER_E_GET_IDENTITY = 3"
| "ami_event_value AMI_PROXY_DRIVER_E_BOOT_SELECT = 4"
| "ami_event_value AMI_PROXY_DRIVER_E_HEARTBEAT = 5"
| "ami_event_value AMI_PROXY_DRIVER_E_EEPROM_READ_WRITE = 6"
| "ami_event_value AMI_PROXY_DRIVER_E_MODULE_READ_WRITE = 7"
| "ami_event_value AMI_PROXY_DRIVER_E_DEBUG_VERBOSITY = 8"

definition AMI_RXDATA_SIZE :: nat where [simp]: "AMI_RXDATA_SIZE = 8"
definition AMI_PROXY_RESULT_SUCCESS :: u32 where "AMI_PROXY_RESULT_SUCCESS = 0"
definition AMI_UPPER_FIREWALL :: u32 where "AMI_UPPER_FIREWALL = 0xBABECAFE"
definition AMI_LOWER_FIREWALL :: u32 where "AMI_LOWER_FIREWALL = 0xDEADFACE"

section \<open>Requests\<close>

record AMI_SENSOR_REQUEST =
  snRequest :: u32
  snRepo :: u32
  snSensorId :: u32
  snLength :: u32
  snAddress :: u64

record AMI_PDI_DOWNLOAD_REQUEST =
  dlBootDevice :: u32
  dlUpdateFpt :: u32
  dlLastPacket :: u16
  dlAddress :: u64
  dlLength :: u32
  dlPartitionSel :: u32
  dlPacketNum :: u16
  dlPacketSize :: u16

record AMI_PDI_COPY_REQUEST =
  cpAddress :: u64
  cpMaxLength :: u32
  cpSrcDevice :: u32
  cpSrcPartition :: u32
  cpDestDevice :: u32
  cpDestPartition :: u32

record AMI_EEPROM_RW_REQUEST =
  eeRequest :: u32
  eeAddress :: u64
  eeLength :: u32
  eeOffset :: u32

record AMI_MODULE_RW_REQUEST =
  moRequest :: u32
  moAddress :: u64
  moExDeviceId :: u8
  moPage :: u8
  moByteOffset :: u8
  moLength :: u8

record AMI_IDENTITY_RESPONSE =
  idVerMajor :: u8
  idVerMinor :: u8
  idVerPatch :: u8
  idLocalChanges :: u8
  idDevCommits :: u16
  idLinkVerMajor :: u8
  idLinkVerMinor :: u8

text \<open>
  The union of a slot: the member stored last, none in a slot that was never used. Reading
  another member than the one stored is undefined.
\<close>

datatype AMI_REQUEST_DATA =
    xDownloadRequest AMI_PDI_DOWNLOAD_REQUEST
  | xCopyRequest AMI_PDI_COPY_REQUEST
  | xSensorRequest AMI_SENSOR_REQUEST
  | xBootSelectRequest u32
  | xEepromReadWriteRequest AMI_EEPROM_RW_REQUEST
  | xModuleReadWriteRequest AMI_MODULE_RW_REQUEST
  | ucDebugVerbosityRequest u8

fun download_member :: "AMI_REQUEST_DATA option \<Rightarrow> AMI_PDI_DOWNLOAD_REQUEST option" where
  "download_member (Some (xDownloadRequest r)) = Some r" | "download_member _ = None"
fun copy_member :: "AMI_REQUEST_DATA option \<Rightarrow> AMI_PDI_COPY_REQUEST option" where
  "copy_member (Some (xCopyRequest r)) = Some r" | "copy_member _ = None"
fun sensor_member :: "AMI_REQUEST_DATA option \<Rightarrow> AMI_SENSOR_REQUEST option" where
  "sensor_member (Some (xSensorRequest r)) = Some r" | "sensor_member _ = None"
fun boot_member :: "AMI_REQUEST_DATA option \<Rightarrow> u32 option" where
  "boot_member (Some (xBootSelectRequest r)) = Some r" | "boot_member _ = None"
fun eeprom_member :: "AMI_REQUEST_DATA option \<Rightarrow> AMI_EEPROM_RW_REQUEST option" where
  "eeprom_member (Some (xEepromReadWriteRequest r)) = Some r" | "eeprom_member _ = None"
fun module_member :: "AMI_REQUEST_DATA option \<Rightarrow> AMI_MODULE_RW_REQUEST option" where
  "module_member (Some (xModuleReadWriteRequest r)) = Some r" | "module_member _ = None"
fun debug_member :: "AMI_REQUEST_DATA option \<Rightarrow> u8 option" where
  "debug_member (Some (ucDebugVerbosityRequest r)) = Some r" | "debug_member _ = None"

record AMI_RX_DATA =
  rxInUse :: bool
  rxOpCode :: u32
  rxCid :: u16
  rxRequest :: "AMI_REQUEST_DATA option"

text \<open>The union of a mailbox message, set to zero before a member is stored.\<close>

datatype AMI_MBOX_DATA = ZeroData | xIdentity AMI_IDENTITY_RESPONSE | xHeartbeat u8

fun identity_member :: "AMI_MBOX_DATA \<Rightarrow> AMI_IDENTITY_RESPONSE option" where
  "identity_member (xIdentity r) = Some r"
| "identity_member ZeroData = Some \<lparr>idVerMajor = 0, idVerMinor = 0, idVerPatch = 0,
     idLocalChanges = 0, idDevCommits = 0, idLinkVerMajor = 0, idLinkVerMinor = 0\<rparr>"
| "identity_member (xHeartbeat _) = None"

fun heartbeat_member :: "AMI_MBOX_DATA \<Rightarrow> u8 option" where
  "heartbeat_member (xHeartbeat n) = Some n"
| "heartbeat_member ZeroData = Some 0"
| "heartbeat_member (xIdentity _) = None"

record AMI_MBOX_MSG =
  eMsgType :: AMI_MSG_TYPES
  ucRxDataIndex :: u8
  mbResult :: u32
  mbData :: AMI_MBOX_DATA

section \<open>The entry of the request queue\<close>

text \<open>
  The bytes of \<open>AMI_CMD_REQUEST\<close>: eight bytes of header, then the payload; bit fields start at
  the lowest bit of their unit.
\<close>

definition sizeof_AMI_CMD_REQUEST :: nat where "sizeof_AMI_CMD_REQUEST = 40"

definition of_le64 :: "u8 list \<Rightarrow> u64" where
  "of_le64 bs = ucast (of_le32 (take 4 bs)) OR push_bit 32 (ucast (of_le32 (drop 4 bs)))"

definition bit_field :: "nat \<Rightarrow> nat \<Rightarrow> ('a :: len) word \<Rightarrow> 'a word" where
  "bit_field lo n w = take_bit n (drop_bit lo w)"

definition word_at :: "nat \<Rightarrow> u8 list \<Rightarrow> u32" where "word_at i b = of_le32 (take 4 (drop i b))"
definition half_at :: "nat \<Rightarrow> u8 list \<Rightarrow> u16" where "half_at i b = of_le16 (take 2 (drop i b))"

definition ulOpCode :: "u8 list \<Rightarrow> u32" where "ulOpCode b = bit_field 0 16 (word_at 0 b)"
definition usCid :: "u8 list \<Rightarrow> u16" where "usCid b = half_at 4 b"
definition ullAddress :: "u8 list \<Rightarrow> u64" where "ullAddress b = of_le64 (take 8 (drop 8 b))"

definition sensor_payload :: "u8 list \<Rightarrow> AMI_SENSOR_REQUEST" where
  "sensor_payload b = (let w = word_at 24 b in
     \<lparr>snRequest = bit_field 0 8 w, snRepo = bit_field 8 8 w, snSensorId = bit_field 19 8 w,
      snLength = word_at 16 b, snAddress = ullAddress b\<rparr>)"

definition download_payload :: "u8 list \<Rightarrow> AMI_PDI_DOWNLOAD_REQUEST" where
  "download_payload b = (let w = word_at 24 b; h = half_at 28 b in
     \<lparr>dlBootDevice = bit_field 13 1 w, dlUpdateFpt = bit_field 12 1 w, dlLastPacket = bit_field 0 1 h,
      dlAddress = ullAddress b, dlLength = word_at 16 b, dlPartitionSel = bit_field 8 4 w,
      dlPacketNum = bit_field 1 15 h, dlPacketSize = half_at 30 b\<rparr>)"

definition copy_payload :: "u8 list \<Rightarrow> AMI_PDI_COPY_REQUEST" where
  "copy_payload b = (let w = word_at 24 b in
     \<lparr>cpAddress = ullAddress b, cpMaxLength = word_at 16 b, cpSrcDevice = bit_field 14 1 w,
      cpSrcPartition = bit_field 0 4 w, cpDestDevice = bit_field 15 1 w,
      cpDestPartition = bit_field 4 4 w\<rparr>)"

definition boot_payload :: "u8 list \<Rightarrow> u32" where
  "boot_payload b = bit_field 8 4 (word_at 24 b)"

definition eeprom_payload :: "u8 list \<Rightarrow> AMI_EEPROM_RW_REQUEST" where
  "eeprom_payload b = (let w = word_at 16 b in
     \<lparr>eeRequest = bit_field 0 1 w, eeAddress = ullAddress b, eeLength = bit_field 1 8 w,
      eeOffset = bit_field 9 8 w\<rparr>)"

definition module_payload :: "u8 list \<Rightarrow> AMI_MODULE_RW_REQUEST" where
  "module_payload b =
     \<lparr>moRequest = bit_field 0 1 (word_at 20 b), moAddress = ullAddress b, moExDeviceId = b ! 16,
      moPage = b ! 17, moByteOffset = b ! 18, moLength = b ! 19\<rparr>"

definition heartbeat_payload :: "u8 list \<Rightarrow> u8" where "heartbeat_payload b = b ! 8"
definition debug_payload :: "u8 list \<Rightarrow> u8" where "debug_payload b = b ! 8"

text \<open>The 16 bytes of \<open>AMI_CMD_RESPONSE\<close>; the command state is complete, the flags are clear.\<close>

definition ami_response :: "u16 \<Rightarrow> u32 \<Rightarrow> u32 \<Rightarrow> u32 \<Rightarrow> u8 list" where
  "ami_response cid p0 p1 rcode = le16 cid @ le16 0 @ le_bytes p0 @ le_bytes p1 @ le_bytes rcode"

section \<open>State\<close>

text \<open>
  The private data without the operating-system handles; the event record, the data of the
  event library and the rest of the world \<open>'x\<close> stand beside it.
\<close>

record AMI_PRIVATE_DATA =
  amiUpperFirewall :: u32
  amiInitialised :: bool
  amiMyId :: u8
  amiFwIfPort :: u32
  amiRxData :: "AMI_RX_DATA list"
  amiStats :: "AMI_PROXY_STATS \<Rightarrow> u32"
  amiErrors :: "AMI_PROXY_ERRORS \<Rightarrow> u32"
  amiState :: MODULE_STATE
  amiLowerFirewall :: u32

record ('cb, 'x) ami_state =
  amiThis :: AMI_PRIVATE_DATA
  amiEvlRecord :: "'cb EVL_RECORD option"
  amiEvlData :: EVL_PRIVATE_DATA
  amiWorld :: 'x

record ('cb, 'x) ami_env =
  amiOs :: "(AMI_PRIVATE_DATA \<times> 'x) evl_osal"
  amiCall :: "'cb \<Rightarrow> EVL_SIGNAL \<Rightarrow> AMI_PRIVATE_DATA \<times> 'x \<Rightarrow> int \<times> AMI_PRIVATE_DATA \<times> 'x"
  amiMutexTake :: "'x \<Rightarrow> bool \<times> 'x"
  amiMutexRelease :: "'x \<Rightarrow> bool \<times> 'x"
  amiMBoxPost :: "AMI_MBOX_MSG \<Rightarrow> 'x \<Rightarrow> bool \<times> 'x"
  amiMBoxPend :: "'x \<Rightarrow> AMI_MBOX_MSG option \<times> 'x"
  amiFwIfOpen :: "'x \<Rightarrow> bool \<times> 'x"
  amiFwIfRead :: "u64 \<Rightarrow> u8 list \<Rightarrow> u32 \<Rightarrow> 'x \<Rightarrow> bool \<times> u8 list \<times> 'x"
  amiFwIfWrite :: "u64 \<Rightarrow> u8 list \<Rightarrow> 'x \<Rightarrow> bool \<times> 'x"
  amiMutexCreate :: "'x \<Rightarrow> bool \<times> 'x"
  amiMBoxCreate :: "'x \<Rightarrow> bool \<times> 'x"
  amiTaskCreate :: "'x \<Rightarrow> bool \<times> 'x"
  amiUptimeMs :: "'x \<Rightarrow> u32"
  amiSleepMs :: "u32 \<Rightarrow> 'x \<Rightarrow> 'x"

definition ami_empty_slot :: AMI_RX_DATA where
  "ami_empty_slot = \<lparr>rxInUse = False, rxOpCode = 0, rxCid = 0, rxRequest = None\<rparr>"

definition ami_local_data :: AMI_PRIVATE_DATA where
  "ami_local_data = \<lparr>amiUpperFirewall = AMI_UPPER_FIREWALL, amiInitialised = False, amiMyId = 0,
     amiFwIfPort = 0, amiRxData = replicate AMI_RXDATA_SIZE ami_empty_slot, amiStats = (\<lambda>_. 0),
     amiErrors = (\<lambda>_. 0), amiState = MODULE_STATE_UNINITIALISED,
     amiLowerFirewall = AMI_LOWER_FIREWALL\<rparr>"

definition ami_firewalls :: "AMI_PRIVATE_DATA \<Rightarrow> bool" where
  "ami_firewalls p \<longleftrightarrow> AMI_UPPER_FIREWALL = amiUpperFirewall p \<and> AMI_LOWER_FIREWALL = amiLowerFirewall p"

definition ami_ready :: "AMI_PRIVATE_DATA \<Rightarrow> bool" where
  "ami_ready p \<longleftrightarrow> ami_firewalls p \<and> amiInitialised p"

definition ami_inc_stat :: "AMI_PROXY_STATS \<Rightarrow> AMI_PRIVATE_DATA \<Rightarrow> AMI_PRIVATE_DATA" where
  "ami_inc_stat c p = p\<lparr>amiStats := (amiStats p)(c := amiStats p c + 1)\<rparr>"

definition ami_inc_error :: "AMI_PROXY_ERRORS \<Rightarrow> AMI_PRIVATE_DATA \<Rightarrow> AMI_PRIVATE_DATA" where
  "ami_inc_error c p = p\<lparr>amiErrors := (amiErrors p)(c := amiErrors p c + 1)\<rparr>"

definition ami_fail :: "AMI_PROXY_ERRORS \<Rightarrow> AMI_PRIVATE_DATA \<Rightarrow> AMI_PRIVATE_DATA" where
  "ami_fail c p = ami_inc_error c (p\<lparr>amiState := MODULE_STATE_ERROR\<rparr>)"

definition ami_step :: "AMI_PRIVATE_DATA \<Rightarrow> 'x \<Rightarrow> ('cb, 'x) ami_state \<Rightarrow> ('cb, 'x) ami_state" where
  "ami_step p x s = s\<lparr>amiThis := p, amiWorld := x\<rparr>"

section \<open>Initialisation and binding\<close>

text \<open>\<open>pxFwIf\<close> says whether an interface is given.\<close>

definition iAMI_Initialise ::
  "('cb, 'x) ami_env \<Rightarrow> u8 \<Rightarrow> bool \<Rightarrow> u32 \<Rightarrow> ('cb, 'x) ami_state \<Rightarrow> int \<times> ('cb, 'x) ami_state" where
  "iAMI_Initialise env ucProxyId pxFwIf ulFwIfPort s =
     (if ami_firewalls (amiThis s) \<and> \<not> amiInitialised (amiThis s) \<and> pxFwIf
      then let p0 = (amiThis s)\<lparr>amiMyId := ucProxyId, amiFwIfPort := ulFwIfPort\<rparr>;
               (st, r, d, p, x) = iEVL_CreateRecord (amiOs env) (Some (amiEvlRecord s))
                 (amiEvlData s) (p0, amiWorld s);
               s1 = s\<lparr>amiEvlRecord := (case r of Some e \<Rightarrow> e | None \<Rightarrow> amiEvlRecord s), amiEvlData := d\<rparr>
           in if st \<noteq> OK
              then (ERROR, ami_step (ami_fail AMI_PROXY_ERRORS_INIT_EVL_RECORD_FAILED p) x s1)
              else let (opened, x1) = amiFwIfOpen env x in
                if \<not> opened then (ERROR, ami_step (ami_fail AMI_PROXY_INIT_FW_IF_OPEN_FAILED p) x1 s1)
                else let (mutex, x2) = amiMutexCreate env x1 in
                  if \<not> mutex then (ERROR, ami_step (ami_fail AMI_PROXY_INIT_MUTEX_CREATE_FAILED p) x2 s1)
                  else let (mbox, x3) = amiMBoxCreate env x2 in
                    if \<not> mbox then (ERROR, ami_step (ami_fail AMI_PROXY_INIT_MBOX_CREATE_FAILED p) x3 s1)
                    else let (task, x4) = amiTaskCreate env x3 in
                      if \<not> task then (ERROR, ami_step (ami_fail AMI_PROXY_INIT_TASK_CREATE_FAILED p) x4 s1)
                      else (OK, ami_step ((ami_inc_stat AMI_PROXY_STATS_INIT_OVERALL_COMPLETE
                             (ami_inc_stat AMI_PROXY_STATS_CREATE_MBOX
                               (ami_inc_stat AMI_PROXY_STATS_CREATE_MUTEX p)))
                             \<lparr>amiInitialised := True, amiState := MODULE_STATE_OK\<rparr>) x4 s1)
      else (ERROR, s\<lparr>amiThis := ami_inc_error AMI_PROXY_VALIDATION_FAILED (amiThis s)\<rparr>))"

definition iAMI_BindCallback ::
  "('cb, 'x) ami_env \<Rightarrow> 'cb option \<Rightarrow> ('cb, 'x) ami_state \<Rightarrow> int \<times> ('cb, 'x) ami_state" where
  "iAMI_BindCallback env pxCallback s =
     (if ami_ready (amiThis s) \<and> pxCallback \<noteq> None \<and> amiEvlRecord s \<noteq> None
      then let (st, r, d, p, x) = iEVL_BindCallback (amiOs env) (amiEvlRecord s) pxCallback
                 (amiEvlData s) (amiThis s, amiWorld s)
           in (st, s\<lparr>amiEvlRecord := r, amiEvlData := d, amiWorld := x,
                amiThis := (if st = ERROR then ami_fail AMI_PROXY_BIND_CB_FAILED p else p)\<rparr>)
      else (ERROR, s\<lparr>amiThis := ami_inc_error AMI_PROXY_VALIDATION_FAILED (amiThis s)\<rparr>))"

section \<open>Answers of the application\<close>

text \<open>
  The answers and the fetches below are called from a callback or from another task; they act
  on the private data and the world. A \<^term>\<open>None\<close> signal or identity is a NULL pointer.
\<close>

definition post_answer ::
  "('cb, 'x) ami_env \<Rightarrow> AMI_PROXY_STATS \<Rightarrow> AMI_MBOX_MSG \<Rightarrow> AMI_PRIVATE_DATA \<times> 'x
   \<Rightarrow> int \<times> AMI_PRIVATE_DATA \<times> 'x" where
  "post_answer env stat msg w = (case w of (p, x) \<Rightarrow>
     (case amiMBoxPost env msg x of (posted, x1) \<Rightarrow>
        if posted then (OK, ami_inc_stat stat p, x1)
        else (ERROR, ami_fail AMI_PROXY_ERRORS_MAILBOX_POST_FAILED p, x1)))"

definition set_response ::
  "('cb, 'x) ami_env \<Rightarrow> AMI_PROXY_STATS \<Rightarrow> AMI_MSG_TYPES \<Rightarrow> EVL_SIGNAL option \<Rightarrow> u32
   \<Rightarrow> AMI_PRIVATE_DATA \<times> 'x \<Rightarrow> int \<times> AMI_PRIVATE_DATA \<times> 'x" where
  "set_response env stat ty pxSignal xResult w =
     (case pxSignal of
        Some sig \<Rightarrow> if ami_ready (fst w)
          then post_answer env stat \<lparr>eMsgType = ty, ucRxDataIndex = ucInstance sig,
                 mbResult = xResult, mbData = ZeroData\<rparr> w
          else (ERROR, ami_inc_error AMI_PROXY_VALIDATION_FAILED (fst w), snd w)
      | None \<Rightarrow> (ERROR, ami_inc_error AMI_PROXY_VALIDATION_FAILED (fst w), snd w))"

definition iAMI_SetPdiDownloadCompleteResponse ::
  "('cb, 'x) ami_env \<Rightarrow> EVL_SIGNAL option \<Rightarrow> u32 \<Rightarrow> AMI_PRIVATE_DATA \<times> 'x
   \<Rightarrow> int \<times> AMI_PRIVATE_DATA \<times> 'x" where
  "iAMI_SetPdiDownloadCompleteResponse env =
     set_response env AMI_PROXY_STATS_PDI_DOWNLOAD_MBOX_POST AMI_MSG_TYPE_PDI_DOWNLOAD_COMPLETE"

definition iAMI_SetPdiCopyCompleteResponse ::
  "('cb, 'x) ami_env \<Rightarrow> EVL_SIGNAL option \<Rightarrow> u32 \<Rightarrow> AMI_PRIVATE_DATA \<times> 'x
   \<Rightarrow> int \<times> AMI_PRIVATE_DATA \<times> 'x" where
  "iAMI_SetPdiCopyCompleteResponse env =
     set_response env AMI_PROXY_STATS_PDI_COPY_MBOX_POST AMI_MSG_TYPE_PDI_COPY_COMPLETE"

definition iAMI_SetSensorCompleteResponse ::
  "('cb, 'x) ami_env \<Rightarrow> EVL_SIGNAL option \<Rightarrow> u32 \<Rightarrow> AMI_PRIVATE_DATA \<times> 'x
   \<Rightarrow> int \<times> AMI_PRIVATE_DATA \<times> 'x" where
  "iAMI_SetSensorCompleteResponse env =
     set_response env AMI_PROXY_STATS_SENSOR_MBOX_POST AMI_MSG_TYPE_SENSOR_COMPLETE"

definition iAMI_SetIdentityResponse ::
  "('cb, 'x) ami_env \<Rightarrow> EVL_SIGNAL option \<Rightarrow> u32 \<Rightarrow> AMI_IDENTITY_RESPONSE option
   \<Rightarrow> AMI_PRIVATE_DATA \<times> 'x \<Rightarrow> int \<times> AMI_PRIVATE_DATA \<times> 'x" where
  "iAMI_SetIdentityResponse env pxSignal xResult pxIdentity w =
     (case (pxSignal, pxIdentity) of
        (Some sig, Some ident) \<Rightarrow> if ami_ready (fst w)
          then post_answer env AMI_PROXY_STATS_IDENTITY_MBOX_POST
                 \<lparr>eMsgType = AMI_MSG_TYPE_IDENTITY_COMPLETE, ucRxDataIndex = ucInstance sig,
                  mbResult = xResult, mbData = xIdentity ident\<rparr> w
          else (ERROR, ami_inc_error AMI_PROXY_VALIDATION_FAILED (fst w), snd w)
      | _ \<Rightarrow> (ERROR, ami_inc_error AMI_PROXY_VALIDATION_FAILED (fst w), snd w))"

definition iAMI_SetBootSelectCompleteResponse ::
  "('cb, 'x) ami_env \<Rightarrow> EVL_SIGNAL option \<Rightarrow> u32 \<Rightarrow> AMI_PRIVATE_DATA \<times> 'x
   \<Rightarrow> int \<times> AMI_PRIVATE_DATA \<times> 'x" where
  "iAMI_SetBootSelectCompleteResponse env =
     set_response env AMI_PROXY_STATS_BOOT_SELECT_MBOX_POST AMI_MSG_TYPE_BOOT_SELECT_COMPLETE"

definition iAMI_SetEepromReadWriteCompleteResponse ::
  "('cb, 'x) ami_env \<Rightarrow> EVL_SIGNAL option \<Rightarrow> u32 \<Rightarrow> AMI_PRIVATE_DATA \<times> 'x
   \<Rightarrow> int \<times> AMI_PRIVATE_DATA \<times> 'x" where
  "iAMI_SetEepromReadWriteCompleteResponse env =
     set_response env AMI_PROXY_STATS_EEPROM_RW_MBOX_POST AMI_MSG_TYPE_EEPROM_RW_COMPLETE"

definition iAMI_SetModuleReadWriteCompleteResponse ::
  "('cb, 'x) ami_env \<Rightarrow> EVL_SIGNAL option \<Rightarrow> u32 \<Rightarrow> AMI_PRIVATE_DATA \<times> 'x
   \<Rightarrow> int \<times> AMI_PRIVATE_DATA \<times> 'x" where
  "iAMI_SetModuleReadWriteCompleteResponse env =
     set_response env AMI_PROXY_STATS_MODULE_RW_MBOX_POST AMI_MSG_TYPE_MODULE_RW_COMPLETE"

text \<open>The post of a debug verbosity answer is counted as one of a module.\<close>

definition iAMI_SetDebugVerbosityResponse ::
  "('cb, 'x) ami_env \<Rightarrow> EVL_SIGNAL option \<Rightarrow> u32 \<Rightarrow> AMI_PRIVATE_DATA \<times> 'x
   \<Rightarrow> int \<times> AMI_PRIVATE_DATA \<times> 'x" where
  "iAMI_SetDebugVerbosityResponse env =
     set_response env AMI_PROXY_STATS_MODULE_RW_MBOX_POST AMI_MSG_TYPE_DEBUG_VERBOSITY_COMPLETE"

section \<open>Requests fetched by the application\<close>

text \<open>
  \<open>out\<close> says whether the caller gives a place for the request; the request is written before
  the mutex is released, so it is there even if the release fails.
\<close>

definition get_request ::
  "('cb, 'x) ami_env \<Rightarrow> AMI_PROXY_STATS \<Rightarrow> u32 \<Rightarrow> AMI_PROXY_ERRORS
   \<Rightarrow> (AMI_REQUEST_DATA option \<Rightarrow> 'r option) \<Rightarrow> EVL_SIGNAL option \<Rightarrow> bool
   \<Rightarrow> AMI_PRIVATE_DATA \<times> 'x \<Rightarrow> (int \<times> 'r option \<times> AMI_PRIVATE_DATA \<times> 'x) option" where
  "get_request env stat opcode err member pxSignal out w =
     (case (w, pxSignal) of
        ((p, x), Some sig) \<Rightarrow>
          if ami_ready p \<and> out
          then let p1 = ami_inc_stat stat p; (taken, x1) = amiMutexTake env x in
            if taken
            then let i = unat (ucInstance sig); p2 = ami_inc_stat AMI_PROXY_STATS_TAKE_MUTEX p1 in do {
              (st, r, p3) \<leftarrow>
                (if i < AMI_RXDATA_SIZE \<and> rxInUse (amiRxData p2 ! i) \<and> opcode = rxOpCode (amiRxData p2 ! i)
                 then do { r \<leftarrow> member (rxRequest (amiRxData p2 ! i)); Some (OK, Some r, p2) }
                 else Some (ERROR, None, ami_fail err p2));
              let (released, x2) = amiMutexRelease env x1;
              Some (if released then (st, r, ami_inc_stat AMI_PROXY_STATS_RELEASE_MUTEX p3, x2)
                    else (ERROR, r, ami_fail AMI_PROXY_ERRORS_MUTEX_RELEASE_FAILED p3, x2)) }
            else Some (ERROR, None, ami_fail AMI_PROXY_ERRORS_MUTEX_TAKE_FAILED p1, x1)
          else Some (ERROR, None, ami_inc_error AMI_PROXY_VALIDATION_FAILED p, x)
      | ((p, x), None) \<Rightarrow> Some (ERROR, None, ami_inc_error AMI_PROXY_VALIDATION_FAILED p, x))"

definition iAMI_GetPdiDownloadRequest ::
  "('cb, 'x) ami_env \<Rightarrow> EVL_SIGNAL option \<Rightarrow> bool \<Rightarrow> AMI_PRIVATE_DATA \<times> 'x
   \<Rightarrow> (int \<times> AMI_PDI_DOWNLOAD_REQUEST option \<times> AMI_PRIVATE_DATA \<times> 'x) option" where
  "iAMI_GetPdiDownloadRequest env =
     get_request env AMI_PROXY_STATS_GET_PDI_DOWNLOAD_REQUEST AMI_CMD_OPCODE_PDI_DOWNLOAD_REQ
       AMI_PROXY_ERRORS_PDI_DOWNLOAD_REQUEST download_member"

definition iAMI_GetPdiCopyRequest ::
  "('cb, 'x) ami_env \<Rightarrow> EVL_SIGNAL option \<Rightarrow> bool \<Rightarrow> AMI_PRIVATE_DATA \<times> 'x
   \<Rightarrow> (int \<times> AMI_PDI_COPY_REQUEST option \<times> AMI_PRIVATE_DATA \<times> 'x) option" where
  "iAMI_GetPdiCopyRequest env =
     get_request env AMI_PROXY_STATS_GET_PDI_COPY_REQUEST AMI_CMD_OPCODE_PDI_COPY_REQ
       AMI_PROXY_ERRORS_PDI_COPY_REQUEST copy_member"

definition iAMI_GetSensorRequest ::
  "('cb, 'x) ami_env \<Rightarrow> EVL_SIGNAL option \<Rightarrow> bool \<Rightarrow> AMI_PRIVATE_DATA \<times> 'x
   \<Rightarrow> (int \<times> AMI_SENSOR_REQUEST option \<times> AMI_PRIVATE_DATA \<times> 'x) option" where
  "iAMI_GetSensorRequest env =
     get_request env AMI_PROXY_STATS_GET_SENSOR_REQUEST AMI_CMD_OPCODE_SENSOR_REQ
       AMI_PROXY_ERRORS_GET_SENSOR_REQUEST sensor_member"

definition iAMI_GetBootSelectRequest ::
  "('cb, 'x) ami_env \<Rightarrow> EVL_SIGNAL option \<Rightarrow> bool \<Rightarrow> AMI_PRIVATE_DATA \<times> 'x
   \<Rightarrow> (int \<times> u32 option \<times> AMI_PRIVATE_DATA \<times> 'x) option" where
  "iAMI_GetBootSelectRequest env =
     get_request env AMI_PROXY_STATS_GET_BOOT_SELECT_REQUEST AMI_CMD_OPCODE_BOOT_SEL_REQ
       AMI_PROXY_ERRORS_GET_BOOT_SELECT_REQUEST boot_member"

definition iAMI_GetEepromReadWriteRequest ::
  "('cb, 'x) ami_env \<Rightarrow> EVL_SIGNAL option \<Rightarrow> bool \<Rightarrow> AMI_PRIVATE_DATA \<times> 'x
   \<Rightarrow> (int \<times> AMI_EEPROM_RW_REQUEST option \<times> AMI_PRIVATE_DATA \<times> 'x) option" where
  "iAMI_GetEepromReadWriteRequest env =
     get_request env AMI_PROXY_STATS_GET_EEPROM_RW_REQUEST AMI_CMD_OPCODE_EEPROM_RW_REQ
       AMI_PROXY_ERRORS_EEPROM_RW_REQUEST eeprom_member"

definition iAMI_GetModuleReadWriteRequest ::
  "('cb, 'x) ami_env \<Rightarrow> EVL_SIGNAL option \<Rightarrow> bool \<Rightarrow> AMI_PRIVATE_DATA \<times> 'x
   \<Rightarrow> (int \<times> AMI_MODULE_RW_REQUEST option \<times> AMI_PRIVATE_DATA \<times> 'x) option" where
  "iAMI_GetModuleReadWriteRequest env =
     get_request env AMI_PROXY_STATS_GET_MODULE_RW_REQUEST AMI_CMD_OPCODE_MODULE_RW_REQ
       AMI_PROXY_ERRORS_MODULE_RW_REQUEST module_member"

text \<open>The fetch of a debug verbosity request is counted as one of a module.\<close>

definition iAMI_GetDebugVerbosityRequest ::
  "('cb, 'x) ami_env \<Rightarrow> EVL_SIGNAL option \<Rightarrow> bool \<Rightarrow> AMI_PRIVATE_DATA \<times> 'x
   \<Rightarrow> (int \<times> u8 option \<times> AMI_PRIVATE_DATA \<times> 'x) option" where
  "iAMI_GetDebugVerbosityRequest env =
     get_request env AMI_PROXY_STATS_GET_MODULE_RW_REQUEST AMI_CMD_OPCODE_DEBUG_VERBOSITY_REQ
       AMI_PROXY_ERRORS_DEBUG_VERBOSITY_REQUEST debug_member"

section \<open>Statistics and state\<close>

definition ami_all_stats :: "AMI_PROXY_STATS list" where
  "ami_all_stats =
     [AMI_PROXY_STATS_INIT_OVERALL_COMPLETE, AMI_PROXY_STATS_CREATE_MUTEX,
      AMI_PROXY_STATS_CREATE_MBOX, AMI_PROXY_STATS_TAKE_MUTEX, AMI_PROXY_STATS_RELEASE_MUTEX,
      AMI_PROXY_STATS_PDI_DOWNLOAD_MBOX_POST, AMI_PROXY_STATS_PDI_COPY_MBOX_POST,
      AMI_PROXY_STATS_SENSOR_MBOX_POST, AMI_PROXY_STATS_IDENTITY_MBOX_POST,
      AMI_PROXY_STATS_BOOT_SELECT_MBOX_POST, AMI_PROXY_STATS_HEARTBEAT_MBOX_POST,
      AMI_PROXY_STATS_EEPROM_RW_MBOX_POST, AMI_PROXY_STATS_MODULE_RW_MBOX_POST,
      AMI_PROXY_STATS_DEBUG_VERBOSITY_MBOX_PEND, AMI_PROXY_STATS_PDI_DOWNLOAD_MBOX_PEND,
      AMI_PROXY_STATS_PDI_COPY_MBOX_PEND, AMI_PROXY_STATS_SENSOR_MBOX_PEND,
      AMI_PROXY_STATS_IDENTITY_MBOX_PEND, AMI_PROXY_STATS_BOOT_SELECT_MBOX_PEND,
      AMI_PROXY_STATS_HEARTBEAT_MBOX_PEND, AMI_PROXY_STATS_EEPROM_RW_MBOX_PEND,
      AMI_PROXY_STATS_MODULE_RW_MBOX_PEND, AMI_PROXY_STATS_GET_PDI_DOWNLOAD_REQUEST,
      AMI_PROXY_STATS_GET_PDI_COPY_REQUEST, AMI_PROXY_STATS_GET_SENSOR_REQUEST,
      AMI_PROXY_STATS_GET_BOOT_SELECT_REQUEST, AMI_PROXY_STATS_TASK_TIME_MS,
      AMI_PROXY_STATS_GET_EEPROM_RW_REQUEST, AMI_PROXY_STATS_STATUS_RETRIEVAL,
      AMI_PROXY_STATS_GET_MODULE_RW_REQUEST]"

definition ami_all_errors :: "AMI_PROXY_ERRORS list" where
  "ami_all_errors =
     [AMI_PROXY_ERRORS_MUTEX_RELEASE_FAILED, AMI_PROXY_ERRORS_MUTEX_TAKE_FAILED,
      AMI_PROXY_ERRORS_MAILBOX_POST_FAILED, AMI_PROXY_ERRORS_PDI_DOWNLOAD_REQUEST,
      AMI_PROXY_ERRORS_PDI_COPY_REQUEST, AMI_PROXY_ERRORS_EEPROM_RW_REQUEST,
      AMI_PROXY_ERRORS_MODULE_RW_REQUEST, AMI_PROXY_ERRORS_DEBUG_VERBOSITY_REQUEST,
      AMI_PROXY_ERRORS_GET_SENSOR_REQUEST, AMI_PROXY_ERRORS_GET_BOOT_SELECT_REQUEST,
      AMI_PROXY_ERRORS_GET_HEARTBEAT_REQUEST, AMI_PROXY_ERRORS_GET_EEPROM_RW_REQUEST,
      AMI_PROXY_ERRORS_GET_MODULE_RW_REQUEST, AMI_PROXY_ERRORS_GET_DEBUG_VERBOSITY_REQUEST,
      AMI_PROXY_RAISE_EVENT_PDI_DOWNLOAD_FAILED, AMI_PROXY_RAISE_EVENT_PDI_COPY_FAILED,
      AMI_PROXY_RAISE_EVENT_GET_IDENTIFY_FAILED, AMI_PROXY_RAISE_EVENT_SENSOR_READ_FAILED,
      AMI_PROXY_RAISE_EVENT_BOOT_SELECT_FAILED, AMI_PROXY_RAISE_EVENT_HEARTBEAT_FAILED,
      AMI_PROXY_RAISE_EVENT_EEPROM_RW_FAILED, AMI_PROXY_RAISE_EVENT_MODULE_RW_FAILED,
      AMI_PROXY_RAISE_EVENT_DEBUG_VERBOSITY_FAILED, AMI_PROXY_INIT_FW_IF_OPEN_FAILED,
      AMI_PROXY_INIT_MUTEX_CREATE_FAILED, AMI_PROXY_INIT_MBOX_CREATE_FAILED,
      AMI_PROXY_INIT_TASK_CREATE_FAILED, AMI_PROXY_VALIDATION_FAILED,
      AMI_PROXY_UNSUPPORTED_OPCODE_RX, AMI_PROXY_UNKNOWN_MAILBOX_MSG,
      AMI_PROXY_UNKNOWN_RETURN_CODE, AMI_PROXY_FW_IF_WRITE_FAILED, AMI_PROXY_BIND_CB_FAILED,
      AMI_PROXY_RX_DATA_INDEX_FAILED, AMI_PROXY_ERRORS_INIT_EVL_RECORD_FAILED]"

definition iAMI_PrintStatistics ::
  "AMI_PRIVATE_DATA
   \<Rightarrow> int \<times> (AMI_PROXY_STATS \<times> u32) list \<times> (AMI_PROXY_ERRORS \<times> u32) list \<times> AMI_PRIVATE_DATA" where
  "iAMI_PrintStatistics p =
     (if ami_firewalls p
      then (OK, map (\<lambda>c. (c, amiStats p c)) ami_all_stats,
            map (\<lambda>c. (c, amiErrors p c)) ami_all_errors, p)
      else (ERROR, [], [], ami_inc_error AMI_PROXY_VALIDATION_FAILED p))"

definition iAMI_ClearStatistics :: "AMI_PRIVATE_DATA \<Rightarrow> int \<times> AMI_PRIVATE_DATA" where
  "iAMI_ClearStatistics p =
     (if ami_ready p then (OK, p\<lparr>amiStats := (\<lambda>_. 0), amiErrors := (\<lambda>_. 0)\<rparr>)
      else (ERROR, ami_inc_error AMI_PROXY_VALIDATION_FAILED p))"

text \<open>The mutex is released even when it was not taken.\<close>

definition iAMI_GetState ::
  "('cb, 'x) ami_env \<Rightarrow> bool \<Rightarrow> AMI_PRIVATE_DATA \<times> 'x
   \<Rightarrow> int \<times> MODULE_STATE option \<times> AMI_PRIVATE_DATA \<times> 'x" where
  "iAMI_GetState env out w =
     (case w of (p, x) \<Rightarrow>
        if ami_firewalls p \<and> out
        then let (taken, x1) = amiMutexTake env x;
                 (st, r, p1) = (if taken
                   then (OK, Some (amiState p), ami_inc_stat AMI_PROXY_STATS_STATUS_RETRIEVAL p)
                   else (ERROR, None, ami_fail AMI_PROXY_ERRORS_MUTEX_TAKE_FAILED p));
                 (released, x2) = amiMutexRelease env x1
             in if released then (st, r, ami_inc_stat AMI_PROXY_STATS_RELEASE_MUTEX p1, x2)
                else (ERROR, r, ami_fail AMI_PROXY_ERRORS_MUTEX_RELEASE_FAILED p1, x2)
        else (ERROR, None, ami_inc_error AMI_PROXY_VALIDATION_FAILED p, x))"

section \<open>Requests read by the task\<close>

definition iFindNextFreeRxDataIndex :: "AMI_PRIVATE_DATA \<Rightarrow> int \<times> nat \<times> AMI_PRIVATE_DATA" where
  "iFindNextFreeRxDataIndex p =
     (if ami_ready p
      then case find (\<lambda>i. \<not> rxInUse (amiRxData p ! i)) [0..<AMI_RXDATA_SIZE] of
             Some i \<Rightarrow> (OK, i, p) | None \<Rightarrow> (ERROR, 0, p)
      else (ERROR, 0, ami_inc_error AMI_PROXY_VALIDATION_FAILED p))"

text \<open>
  A request without a member leaves the union of the slot as it was.
\<close>

definition store_request ::
  "nat \<Rightarrow> u8 list \<Rightarrow> AMI_REQUEST_DATA option \<Rightarrow> AMI_PRIVATE_DATA \<Rightarrow> AMI_PRIVATE_DATA" where
  "store_request i req member p = p\<lparr>amiRxData := (amiRxData p)[i :=
     \<lparr>rxInUse = True, rxOpCode = ulOpCode req, rxCid = usCid req,
      rxRequest = (case member of None \<Rightarrow> rxRequest (amiRxData p ! i) | Some m \<Rightarrow> Some m)\<rparr>]\<rparr>"

definition raise_request ::
  "('cb, 'x) ami_env \<Rightarrow> AMI_PROXY_DRIVER_EVENTS \<Rightarrow> AMI_PROXY_ERRORS \<Rightarrow> u8 \<Rightarrow> ('cb, 'x) ami_state
   \<Rightarrow> (int \<times> ('cb, 'x) ami_state) option" where
  "raise_request env ev err inst s = do {
     (st, d, p, x) \<leftarrow> iEVL_RaiseEvent (amiOs env) (amiCall env) (amiEvlRecord s)
       (Some \<lparr>ucModule = amiMyId (amiThis s), ucEventType = ami_event_value ev,
              ucInstance = inst, ucAdditionalData = 0\<rparr>)
       (amiEvlData s) (amiThis s, amiWorld s);
     Some (st, ami_step (if st = ERROR then ami_fail err p else p) x (s\<lparr>amiEvlData := d\<rparr>)) }"

text \<open>
  The steps every request goes through: a slot is searched and filled under the mutex, then
  the event is raised, with the index of the slot as its instance when \<open>inst\<close> is
  \<^term>\<open>None\<close>. Returns the status, the index and the state.
\<close>

definition accept_request ::
  "('cb, 'x) ami_env \<Rightarrow> AMI_PROXY_DRIVER_EVENTS \<Rightarrow> AMI_PROXY_ERRORS \<Rightarrow> u8 option
   \<Rightarrow> AMI_REQUEST_DATA option \<Rightarrow> u8 list \<Rightarrow> ('cb, 'x) ami_state
   \<Rightarrow> (int \<times> nat \<times> ('cb, 'x) ami_state) option" where
  "accept_request env ev err inst member req s =
     (let (taken, x1) = amiMutexTake env (amiWorld s) in
      if \<not> taken
      then Some (ERROR, 0, ami_step (ami_fail AMI_PROXY_ERRORS_MUTEX_TAKE_FAILED (amiThis s)) x1 s)
      else let (found, i, p1) = iFindNextFreeRxDataIndex
                 (ami_inc_stat AMI_PROXY_STATS_TAKE_MUTEX (amiThis s));
               p2 = (if found \<noteq> ERROR then store_request i req member p1
                     else ami_fail AMI_PROXY_RX_DATA_INDEX_FAILED p1);
               (released, x2) = amiMutexRelease env x1;
               p3 = (if released then p2 else ami_fail AMI_PROXY_ERRORS_MUTEX_RELEASE_FAILED p2)
           in if found = ERROR then Some (ERROR, i, ami_step p3 x2 s)
              else do {
                (st, s1) \<leftarrow> raise_request env ev err (case inst of None \<Rightarrow> of_nat i | Some n \<Rightarrow> n)
                  (ami_step (ami_inc_stat AMI_PROXY_STATS_RELEASE_MUTEX p3) x2 s);
                Some (st, i, s1) })"

definition accept_pdi_download ::
  "('cb, 'x) ami_env \<Rightarrow> u8 list \<Rightarrow> ('cb, 'x) ami_state \<Rightarrow> ('cb, 'x) ami_state option" where
  "accept_pdi_download env req s = do {
     (st, i, s1) \<leftarrow> accept_request env AMI_PROXY_DRIVER_E_PDI_DOWNLOAD_START
       AMI_PROXY_RAISE_EVENT_PDI_DOWNLOAD_FAILED None (Some (xDownloadRequest (download_payload req))) req s;
     Some s1 }"

definition accept_pdi_copy ::
  "('cb, 'x) ami_env \<Rightarrow> u8 list \<Rightarrow> ('cb, 'x) ami_state \<Rightarrow> ('cb, 'x) ami_state option" where
  "accept_pdi_copy env req s = do {
     (st, i, s1) \<leftarrow> accept_request env AMI_PROXY_DRIVER_E_PDI_COPY_START
       AMI_PROXY_RAISE_EVENT_PDI_COPY_FAILED None (Some (xCopyRequest (copy_payload req))) req s;
     Some s1 }"

definition accept_sensor ::
  "('cb, 'x) ami_env \<Rightarrow> u8 list \<Rightarrow> ('cb, 'x) ami_state \<Rightarrow> ('cb, 'x) ami_state option" where
  "accept_sensor env req s = do {
     (st, i, s1) \<leftarrow> accept_request env AMI_PROXY_DRIVER_E_SENSOR_READ
       AMI_PROXY_RAISE_EVENT_SENSOR_READ_FAILED None (Some (xSensorRequest (sensor_payload req))) req s;
     Some s1 }"

definition accept_identify ::
  "('cb, 'x) ami_env \<Rightarrow> u8 list \<Rightarrow> ('cb, 'x) ami_state \<Rightarrow> ('cb, 'x) ami_state option" where
  "accept_identify env req s = do {
     (st, i, s1) \<leftarrow> accept_request env AMI_PROXY_DRIVER_E_GET_IDENTITY
       AMI_PROXY_RAISE_EVENT_GET_IDENTIFY_FAILED None None req s;
     Some s1 }"

definition accept_boot_select ::
  "('cb, 'x) ami_env \<Rightarrow> u8 list \<Rightarrow> ('cb, 'x) ami_state \<Rightarrow> ('cb, 'x) ami_state option" where
  "accept_boot_select env req s = do {
     (st, i, s1) \<leftarrow> accept_request env AMI_PROXY_DRIVER_E_BOOT_SELECT
       AMI_PROXY_RAISE_EVENT_BOOT_SELECT_FAILED None (Some (xBootSelectRequest (boot_payload req))) req s;
     Some s1 }"

text \<open>
  The handlers of the other requests test the private data first. The heartbeat announces its
  count in place of the index of the slot and posts its answer itself; a failed post is no
  error of the handler.
\<close>

definition iHandleHeartbeatRequest ::
  "('cb, 'x) ami_env \<Rightarrow> u8 list \<Rightarrow> ('cb, 'x) ami_state \<Rightarrow> (int \<times> ('cb, 'x) ami_state) option" where
  "iHandleHeartbeatRequest env req s =
     (if ami_ready (amiThis s)
      then do {
        (st, i, s1) \<leftarrow> accept_request env AMI_PROXY_DRIVER_E_HEARTBEAT
          AMI_PROXY_RAISE_EVENT_HEARTBEAT_FAILED (Some (heartbeat_payload req)) None req s;
        Some (if st = OK
          then case post_answer env AMI_PROXY_STATS_HEARTBEAT_MBOX_POST
                 \<lparr>eMsgType = AMI_MSG_TYPE_HEARTBEAT_COMPLETE, ucRxDataIndex = of_nat i,
                  mbResult = AMI_PROXY_RESULT_SUCCESS, mbData = xHeartbeat (heartbeat_payload req)\<rparr>
                 (amiThis s1, amiWorld s1) of (posted, p, x) \<Rightarrow> (OK, ami_step p x s1)
          else (st, s1)) }
      else Some (ERROR, s))"

definition iHandleEepromRequest ::
  "('cb, 'x) ami_env \<Rightarrow> u8 list \<Rightarrow> ('cb, 'x) ami_state \<Rightarrow> (int \<times> ('cb, 'x) ami_state) option" where
  "iHandleEepromRequest env req s =
     (if ami_ready (amiThis s)
      then do {
        (st, i, s1) \<leftarrow> accept_request env AMI_PROXY_DRIVER_E_EEPROM_READ_WRITE
          AMI_PROXY_RAISE_EVENT_EEPROM_RW_FAILED None (Some (xEepromReadWriteRequest (eeprom_payload req))) req s;
        Some (st, s1) }
      else Some (ERROR, s))"

definition iHandleModuleRequest ::
  "('cb, 'x) ami_env \<Rightarrow> u8 list \<Rightarrow> ('cb, 'x) ami_state \<Rightarrow> (int \<times> ('cb, 'x) ami_state) option" where
  "iHandleModuleRequest env req s =
     (if ami_ready (amiThis s)
      then do {
        (st, i, s1) \<leftarrow> accept_request env AMI_PROXY_DRIVER_E_MODULE_READ_WRITE
          AMI_PROXY_RAISE_EVENT_MODULE_RW_FAILED None (Some (xModuleReadWriteRequest (module_payload req))) req s;
        Some (st, s1) }
      else Some (ERROR, s))"

definition iHandleDebugVerbosityRequest ::
  "('cb, 'x) ami_env \<Rightarrow> u8 list \<Rightarrow> ('cb, 'x) ami_state \<Rightarrow> (int \<times> ('cb, 'x) ami_state) option" where
  "iHandleDebugVerbosityRequest env req s =
     (if ami_ready (amiThis s)
      then do {
        (st, i, s1) \<leftarrow> accept_request env AMI_PROXY_DRIVER_E_DEBUG_VERBOSITY
          AMI_PROXY_RAISE_EVENT_DEBUG_VERBOSITY_FAILED None (Some (ucDebugVerbosityRequest (debug_payload req))) req s;
        Some (st, s1) }
      else Some (ERROR, s))"

text \<open>A handler's error is counted once more by the task.\<close>

definition handled ::
  "AMI_PROXY_ERRORS \<Rightarrow> (int \<times> ('cb, 'x) ami_state) option \<Rightarrow> ('cb, 'x) ami_state option" where
  "handled err r = map_option (\<lambda>(st, s).
     if st = ERROR then s\<lparr>amiThis := ami_fail err (amiThis s)\<rparr> else s) r"

definition dispatch_request ::
  "('cb, 'x) ami_env \<Rightarrow> u8 list \<Rightarrow> ('cb, 'x) ami_state \<Rightarrow> ('cb, 'x) ami_state option" where
  "dispatch_request env req s =
     (let oc = ulOpCode req in
      if oc = AMI_CMD_OPCODE_PDI_DOWNLOAD_REQ then accept_pdi_download env req s
      else if oc = AMI_CMD_OPCODE_PDI_COPY_REQ then accept_pdi_copy env req s
      else if oc = AMI_CMD_OPCODE_SENSOR_REQ then accept_sensor env req s
      else if oc = AMI_CMD_OPCODE_IDENTIFY_REQ then accept_identify env req s
      else if oc = AMI_CMD_OPCODE_BOOT_SEL_REQ then accept_boot_select env req s
      else if oc = AMI_CMD_OPCODE_HEARTBEAT_REQ
        then handled AMI_PROXY_ERRORS_GET_HEARTBEAT_REQUEST (iHandleHeartbeatRequest env req s)
      else if oc = AMI_CMD_OPCODE_EEPROM_RW_REQ
        then handled AMI_PROXY_ERRORS_GET_EEPROM_RW_REQUEST (iHandleEepromRequest env req s)
      else if oc = AMI_CMD_OPCODE_MODULE_RW_REQ
        then handled AMI_PROXY_ERRORS_GET_MODULE_RW_REQUEST (iHandleModuleRequest env req s)
      else if oc = AMI_CMD_OPCODE_DEBUG_VERBOSITY_REQ
        then handled AMI_PROXY_ERRORS_GET_DEBUG_VERBOSITY_REQUEST (iHandleDebugVerbosityRequest env req s)
      else Some (s\<lparr>amiThis := ami_fail AMI_PROXY_UNSUPPORTED_OPCODE_RX (amiThis s)\<rparr>))"

text \<open>The request buffer of the task keeps its bytes from one pass to the next.\<close>

definition read_pass ::
  "('cb, 'x) ami_env \<Rightarrow> u8 list \<Rightarrow> ('cb, 'x) ami_state \<Rightarrow> (u8 list \<times> ('cb, 'x) ami_state) option" where
  "read_pass env buf s =
     (case amiFwIfRead env (ucast (amiFwIfPort (amiThis s))) buf (of_nat sizeof_AMI_CMD_REQUEST)
             (amiWorld s) of
        (ok, buf1, x) \<Rightarrow> let s1 = s\<lparr>amiWorld := x\<rparr> in
          if ok then map_option (Pair buf1) (dispatch_request env buf1 s1) else Some (buf1, s1))"

section \<open>Responses written by the task\<close>

definition identity_words :: "AMI_IDENTITY_RESPONSE \<Rightarrow> u32 \<times> u32" where
  "identity_words r =
     ((ucast (idVerMajor r) AND 0x000000FF) OR (push_bit 8 (ucast (idVerMinor r)) AND 0x0000FF00)
        OR (push_bit 16 (ucast (idVerPatch r)) AND 0x00FF0000)
        OR (push_bit 24 (ucast (idLocalChanges r)) AND 0xFF000000),
      (ucast (idDevCommits r) AND 0x0000FFFF) OR (push_bit 16 (ucast (idLinkVerMajor r)) AND 0x00FF0000)
        OR (push_bit 24 (ucast (idLinkVerMinor r)) AND 0xFF000000))"

text \<open>The counter of a message and the payload words of its response.\<close>

fun message_payload :: "AMI_MBOX_MSG \<Rightarrow> (AMI_PROXY_STATS \<times> u32 \<times> u32) option option" where
  "message_payload msg = (case eMsgType msg of
     AMI_MSG_TYPE_IDENTITY_COMPLETE \<Rightarrow> map_option
       (\<lambda>r. Some (AMI_PROXY_STATS_IDENTITY_MBOX_PEND, identity_words r)) (identity_member (mbData msg))
   | AMI_MSG_TYPE_SENSOR_COMPLETE \<Rightarrow> Some (Some (AMI_PROXY_STATS_SENSOR_MBOX_PEND, 0, 0))
   | AMI_MSG_TYPE_PDI_DOWNLOAD_COMPLETE \<Rightarrow> Some (Some (AMI_PROXY_STATS_PDI_DOWNLOAD_MBOX_PEND, 0, 0))
   | AMI_MSG_TYPE_PDI_COPY_COMPLETE \<Rightarrow> Some (Some (AMI_PROXY_STATS_PDI_COPY_MBOX_PEND, 0, 0))
   | AMI_MSG_TYPE_BOOT_SELECT_COMPLETE \<Rightarrow> Some (Some (AMI_PROXY_STATS_BOOT_SELECT_MBOX_PEND, 0, 0))
   | AMI_MSG_TYPE_HEARTBEAT_COMPLETE \<Rightarrow> map_option
       (\<lambda>n. Some (AMI_PROXY_STATS_HEARTBEAT_MBOX_PEND, ucast n, 0)) (heartbeat_member (mbData msg))
   | AMI_MSG_TYPE_EEPROM_RW_COMPLETE \<Rightarrow> Some (Some (AMI_PROXY_STATS_EEPROM_RW_MBOX_PEND, 0, 0))
   | AMI_MSG_TYPE_MODULE_RW_COMPLETE \<Rightarrow> Some (Some (AMI_PROXY_STATS_MODULE_RW_MBOX_PEND, 0, 0))
   | AMI_MSG_TYPE_DEBUG_VERBOSITY_COMPLETE \<Rightarrow>
       Some (Some (AMI_PROXY_STATS_DEBUG_VERBOSITY_MBOX_PEND, 0, 0))
   | MAX_AMI_MSG_TYPE \<Rightarrow> Some None)"

text \<open>
  The index of the message is not checked: one beyond the slots is undefined. The slot is
  freed only when the response was written.
\<close>

definition release_slot ::
  "('cb, 'x) ami_env \<Rightarrow> nat \<Rightarrow> AMI_PRIVATE_DATA \<times> 'x \<Rightarrow> AMI_PRIVATE_DATA \<times> 'x" where
  "release_slot env i w = (case w of (p, x) \<Rightarrow>
     (case amiMutexTake env x of (taken, x1) \<Rightarrow>
        if taken
        then let p1 = ami_inc_stat AMI_PROXY_STATS_TAKE_MUTEX p;
                 p2 = p1\<lparr>amiRxData := (amiRxData p1)[i := (amiRxData p1 ! i)\<lparr>rxInUse := False\<rparr>]\<rparr>;
                 (released, x2) = amiMutexRelease env x1
             in (if released then ami_inc_stat AMI_PROXY_STATS_RELEASE_MUTEX p2
                 else ami_fail AMI_PROXY_ERRORS_MUTEX_RELEASE_FAILED p2, x2)
        else (ami_fail AMI_PROXY_ERRORS_MUTEX_TAKE_FAILED p, x1)))"

definition ami_respond ::
  "('cb, 'x) ami_env \<Rightarrow> AMI_MBOX_MSG \<Rightarrow> AMI_PRIVATE_DATA \<times> 'x \<Rightarrow> (AMI_PRIVATE_DATA \<times> 'x) option" where
  "ami_respond env msg w = (case w of (p, x) \<Rightarrow> do {
     content \<leftarrow> message_payload msg;
     case content of
       None \<Rightarrow> Some (ami_fail AMI_PROXY_UNKNOWN_MAILBOX_MSG p, x)
     | Some (stat, p0, p1) \<Rightarrow>
         let i = unat (ucRxDataIndex msg); q = ami_inc_stat stat p in
         if AMI_RXDATA_SIZE \<le> i then None
         else let (written, x1) = amiFwIfWrite env (ucast (amiFwIfPort q))
                    (ami_response (rxCid (amiRxData q ! i)) p0 p1 (mbResult msg)) x
              in Some (if written then release_slot env i (q, x1)
                       else (ami_fail AMI_PROXY_FW_IF_WRITE_FAILED q, x1)) })"

definition write_pass ::
  "('cb, 'x) ami_env \<Rightarrow> ('cb, 'x) ami_state \<Rightarrow> ('cb, 'x) ami_state option" where
  "write_pass env s =
     (case amiMBoxPend env (amiWorld s) of
        (None, x) \<Rightarrow> Some (s\<lparr>amiWorld := x\<rparr>)
      | (Some msg, x) \<Rightarrow> map_option (\<lambda>(p, x1). ami_step p x1 s) (ami_respond env msg (amiThis s, x)))"

definition AMI_TASK_SLEEP_MS :: u32 where "AMI_TASK_SLEEP_MS = 100"

text \<open>One pass of the endless loop of the task.\<close>

definition ami_task_pass ::
  "('cb, 'x) ami_env \<Rightarrow> u8 list \<Rightarrow> ('cb, 'x) ami_state \<Rightarrow> (u8 list \<times> ('cb, 'x) ami_state) option" where
  "ami_task_pass env buf s = (let start = amiUptimeMs env (amiWorld s) in do {
     (buf1, s1) \<leftarrow> read_pass env buf s;
     s2 \<leftarrow> write_pass env s1;
     let p = amiThis s2;
     Some (buf1, s2\<lparr>amiThis := p\<lparr>amiStats := (amiStats p)
               (AMI_PROXY_STATS_TASK_TIME_MS := amiUptimeMs env (amiWorld s2) - start)\<rparr>,
             amiWorld := amiSleepMs env AMI_TASK_SLEEP_MS (amiWorld s2)\<rparr>) })"

end
