(* ===== verification/AmcProxy.thy ===== *)
theory AmcProxy
  imports Bytes
begin

text \<open>
  The AMC proxy of the host driver (src/sw/AMI/driver/amc_proxy.c): it writes the requests of
  the driver into the command queue and keeps the commands in the list of their instance until
  the response with the same command identifier arrives. A command and a firmware interface are
  pointers, numbers here; the commands are a store. A callback acts on the store and on the
  rest of the world \<open>'x\<close>; it runs under the lock of the instance, so that it cannot change the
  list. Undefined behaviour is the value \<^term>\<open>None\<close>.
\<close>

abbreviation (input) AMC_EPERM :: int where "AMC_EPERM \<equiv> 1"
abbreviation (input) AMC_EIO :: int where "AMC_EIO \<equiv> 5"
abbreviation (input) AMC_EINVAL :: int where "AMC_EINVAL \<equiv> 22"
abbreviation (input) AMC_ENODATA :: int where "AMC_ENODATA \<equiv> 61"
abbreviation (input) AMC_ETIME :: int where "AMC_ETIME \<equiv> 62"
abbreviation (input) AMC_EPROTO :: int where "AMC_EPROTO \<equiv> 71"
abbreviation (input) AMC_EALREADY :: int where "AMC_EALREADY \<equiv> 114"

section \<open>Commands and instances\<close>

text \<open>
  The completions and the opaque argument of a command belong to the callback. The response is
  the eight bytes of its payload.
\<close>

record amc_proxy_cmd_struct =
  cmd_timeout_jiffies :: u64
  cmd_rcode :: int
  cmd_cid :: u16
  cmd_response :: "u8 list"
  cmd_response_code :: u32
  cmd_fw_if_gcq :: "nat option"

record 'cb amc_proxy_instance =
  fw_if_handle :: nat
  proxy_id :: u8
  event_cb :: "'cb option"
  response_thread_created :: bool
  submitted_cmds :: "nat list"
  initialised :: bool

type_synonym amc_cmds = "nat \<Rightarrow> amc_proxy_cmd_struct"

record ('cb, 'x) amc_state =
  amc_proxy_list :: "'cb amc_proxy_instance list"
  amc_cmds :: amc_cmds
  amc_world :: 'x

text \<open>The functions of a firmware interface and of the kernel; an int of 0 is success.\<close>

record ('cb, 'x) amc_env =
  amcOpen :: "nat \<Rightarrow> 'x \<Rightarrow> int \<times> 'x"
  amcClose :: "nat \<Rightarrow> 'x \<Rightarrow> int \<times> 'x"
  amcRead :: "nat \<Rightarrow> 'x \<Rightarrow> int \<times> u8 list \<times> 'x"
  amcWrite :: "nat \<Rightarrow> u8 list \<Rightarrow> 'x \<Rightarrow> int \<times> 'x"
  amcAlloc :: "'x \<Rightarrow> bool \<times> 'x"
  amcThreadCreate :: "'x \<Rightarrow> int \<times> 'x"
  amcThreadStop :: "'x \<Rightarrow> int \<times> 'x"
  amcShouldStop :: "'x \<Rightarrow> bool"
  amcJiffies :: "'x \<Rightarrow> u64"
  amcSleep :: "'x \<Rightarrow> 'x"
  amcEvent :: "'cb \<Rightarrow> u8 \<Rightarrow> u8 \<Rightarrow> nat \<Rightarrow> amc_cmds \<times> 'x \<Rightarrow> amc_cmds \<times> 'x"

definition FW_IF_ERRORS_NONE :: int where [simp]: "FW_IF_ERRORS_NONE = 0"
definition AMC_PROXY_EVENT_RESPONSE_COMPLETE :: u8 where "AMC_PROXY_EVENT_RESPONSE_COMPLETE = 0"
definition AMC_PROXY_EVENT_RESPONSE_TIMEOUT :: u8 where "AMC_PROXY_EVENT_RESPONSE_TIMEOUT = 1"

definition AMC_PROXY_RESULT_SUCCESS :: u32 where [simp]: "AMC_PROXY_RESULT_SUCCESS = 0"
definition AMC_PROXY_RESULT_FAILURE :: u32 where [simp]: "AMC_PROXY_RESULT_FAILURE = 1"
definition AMC_PROXY_RESULT_INVALID_VALUE :: u32 where [simp]: "AMC_PROXY_RESULT_INVALID_VALUE = 2"
definition AMC_PROXY_RESULT_GET_REQUEST_FAILED :: u32 where
  [simp]: "AMC_PROXY_RESULT_GET_REQUEST_FAILED = 3"
definition AMC_PROXY_RESULT_PROCESS_REQUEST_FAILED :: u32 where
  [simp]: "AMC_PROXY_RESULT_PROCESS_REQUEST_FAILED = 4"
definition AMC_PROXY_RESULT_ALREADY_IN_PROGRESS :: u32 where
  [simp]: "AMC_PROXY_RESULT_ALREADY_IN_PROGRESS = 5"
definition AMC_PROXY_RESULT_INVALID_CONFIGURATION :: u32 where
  [simp]: "AMC_PROXY_RESULT_INVALID_CONFIGURATION = 6"

definition amc_result_to_linux_errno :: "u32 \<Rightarrow> int" where
  "amc_result_to_linux_errno res =
     (if res = AMC_PROXY_RESULT_SUCCESS then 0
      else if res = AMC_PROXY_RESULT_FAILURE then - AMC_EIO
      else if res = AMC_PROXY_RESULT_INVALID_VALUE then - AMC_EINVAL
      else if res = AMC_PROXY_RESULT_GET_REQUEST_FAILED then - AMC_EPROTO
      else if res = AMC_PROXY_RESULT_PROCESS_REQUEST_FAILED then - AMC_EPROTO
      else if res = AMC_PROXY_RESULT_ALREADY_IN_PROGRESS then - AMC_EALREADY
      else if res = AMC_PROXY_RESULT_INVALID_CONFIGURATION then - AMC_ENODATA
      else - AMC_EINVAL)"

section \<open>Request entries\<close>

text \<open>
  The 32 bytes of a request: eight bytes of header, then the payload, zero where no member is
  set. A value is cut to the width of its bit field.
\<close>

definition amc_field :: "nat \<Rightarrow> nat \<Rightarrow> ('a :: len) word \<Rightarrow> 'a word" where
  "amc_field lo n v = push_bit lo (take_bit n v)"

definition le64 :: "u64 \<Rightarrow> u8 list" where
  "le64 a = le_bytes (ucast a) @ le_bytes (ucast (drop_bit 32 a))"

definition AMC_PROXY_REQUEST_CMD_NEW :: u32 where "AMC_PROXY_REQUEST_CMD_NEW = 1"

definition AMC_PROXY_CMD_OPCODE_DEVICE_BOOT :: u32 where "AMC_PROXY_CMD_OPCODE_DEVICE_BOOT = 0x0"
definition AMC_PROXY_CMD_OPCODE_HEARTBEAT :: u32 where "AMC_PROXY_CMD_OPCODE_HEARTBEAT = 0x2"
definition AMC_PROXY_CMD_OPCODE_EEPROM_READ_WRITE :: u32 where
  "AMC_PROXY_CMD_OPCODE_EEPROM_READ_WRITE = 0x3"
definition AMC_PROXY_CMD_OPCODE_MODULE_READ_WRITE :: u32 where
  "AMC_PROXY_CMD_OPCODE_MODULE_READ_WRITE = 0x4"
definition AMC_PROXY_CMD_OPCODE_DEBUG_VERBOSITY :: u32 where
  "AMC_PROXY_CMD_OPCODE_DEBUG_VERBOSITY = 0x5"
definition AMC_PROXY_CMD_OPCODE_PDI_DOWNLOAD :: u32 where "AMC_PROXY_CMD_OPCODE_PDI_DOWNLOAD = 0xA"
definition AMC_PROXY_CMD_OPCODE_SENSOR :: u32 where "AMC_PROXY_CMD_OPCODE_SENSOR = 0xC"
definition AMC_PROXY_CMD_OPCODE_PARTITION_COPY :: u32 where
  "AMC_PROXY_CMD_OPCODE_PARTITION_COPY = 0xD"
definition AMC_PROXY_CMD_OPCODE_IDENTIFY :: u32 where "AMC_PROXY_CMD_OPCODE_IDENTIFY = 0x202"

lemmas amc_opcodes = AMC_PROXY_CMD_OPCODE_DEVICE_BOOT_def AMC_PROXY_CMD_OPCODE_HEARTBEAT_def
  AMC_PROXY_CMD_OPCODE_EEPROM_READ_WRITE_def AMC_PROXY_CMD_OPCODE_MODULE_READ_WRITE_def
  AMC_PROXY_CMD_OPCODE_DEBUG_VERBOSITY_def AMC_PROXY_CMD_OPCODE_PDI_DOWNLOAD_def
  AMC_PROXY_CMD_OPCODE_SENSOR_def AMC_PROXY_CMD_OPCODE_PARTITION_COPY_def
  AMC_PROXY_CMD_OPCODE_IDENTIFY_def

definition sizeof_amc_payload :: nat where "sizeof_amc_payload = 24"

definition amc_request_entry :: "u32 \<Rightarrow> u32 \<Rightarrow> u16 \<Rightarrow> u8 list \<Rightarrow> u8 list" where
  "amc_request_entry opcode count cid payload =
     le_bytes (amc_field 0 16 opcode OR amc_field 16 15 count OR amc_field 31 1 AMC_PROXY_REQUEST_CMD_NEW)
     @ le16 cid @ le16 0 @ payload @ replicate (sizeof_amc_payload - length payload) 0"

record amc_proxy_sensor_request =
  sr_req :: u32
  sr_repo :: u32
  sr_sensor_id :: u32
  sr_length :: u32
  sr_address :: u64

record amc_proxy_pdi_download_request =
  pd_length :: u32
  pd_address :: u64
  pd_boot_device :: u32
  pd_partition :: u32
  pd_last_chunk :: u16
  pd_chunk :: u16
  pd_chunk_size :: u16

record amc_proxy_partition_copy_request =
  pc_src_device :: u32
  pc_src_part :: u32
  pc_dest_device :: u32
  pc_dest_part :: u32
  pc_length :: u32
  pc_address :: u64

record amc_proxy_eeprom_rw_request =
  er_type :: u32
  er_address :: u64
  er_length :: u8
  er_offset :: u8

record amc_proxy_module_rw_request =
  mr_type :: u32
  mr_address :: u64
  mr_device_id :: u8
  mr_page :: u8
  mr_offset :: u8
  mr_length :: u8

definition FPT_UPDATE_MAGIC :: u32 where "FPT_UPDATE_MAGIC = 0xAAAAAAAA"

definition identity_entry :: "u16 \<Rightarrow> u8 list" where
  "identity_entry cid = amc_request_entry AMC_PROXY_CMD_OPCODE_IDENTIFY 0 cid []"

definition sensor_entry :: "u16 \<Rightarrow> amc_proxy_sensor_request \<Rightarrow> u8 list" where
  "sensor_entry cid r = amc_request_entry AMC_PROXY_CMD_OPCODE_SENSOR 24 cid
     (le64 (sr_address r) @ le_bytes (sr_length r) @ le_bytes 0
      @ le_bytes (amc_field 0 8 (sr_req r) OR amc_field 8 8 (sr_repo r) OR amc_field 16 3 0
                  OR amc_field 19 8 (sr_sensor_id r)) @ le_bytes 0)"

definition download_entry :: "u16 \<Rightarrow> amc_proxy_pdi_download_request \<Rightarrow> u8 list" where
  "download_entry cid r = amc_request_entry AMC_PROXY_CMD_OPCODE_PDI_DOWNLOAD 24 cid
     (le64 (pd_address r) @ le_bytes (pd_length r) @ le_bytes 0
      @ le_bytes ((if pd_partition r = FPT_UPDATE_MAGIC then amc_field 12 1 1
                   else amc_field 12 1 0 OR amc_field 8 4 (pd_partition r))
                  OR amc_field 13 1 (pd_boot_device r))
      @ le16 (amc_field 0 1 (pd_last_chunk r) OR amc_field 1 15 (pd_chunk r)) @ le16 (pd_chunk_size r))"

definition boot_entry :: "u16 \<Rightarrow> amc_proxy_pdi_download_request \<Rightarrow> u8 list" where
  "boot_entry cid r = amc_request_entry AMC_PROXY_CMD_OPCODE_DEVICE_BOOT 24 cid
     (le64 0 @ le_bytes 0 @ le_bytes 0 @ le_bytes (amc_field 8 4 (pd_partition r)) @ le16 0 @ le16 0)"

definition copy_entry :: "u16 \<Rightarrow> amc_proxy_partition_copy_request \<Rightarrow> u8 list" where
  "copy_entry cid r = amc_request_entry AMC_PROXY_CMD_OPCODE_PARTITION_COPY 24 cid
     (le64 (pc_address r) @ le_bytes (pc_length r) @ le_bytes 0
      @ le_bytes (amc_field 14 1 (pc_src_device r) OR amc_field 0 4 (pc_src_part r)
                  OR amc_field 15 1 (pc_dest_device r) OR amc_field 4 4 (pc_dest_part r))
      @ le16 0 @ le16 0)"

definition heartbeat_entry :: "u16 \<Rightarrow> u8 \<Rightarrow> u8 list" where
  "heartbeat_entry cid request_id = amc_request_entry AMC_PROXY_CMD_OPCODE_HEARTBEAT 1 cid [request_id]"

definition eeprom_entry :: "u16 \<Rightarrow> amc_proxy_eeprom_rw_request \<Rightarrow> u8 list" where
  "eeprom_entry cid r = amc_request_entry AMC_PROXY_CMD_OPCODE_EEPROM_READ_WRITE 16 cid
     (le64 (er_address r)
      @ le_bytes (amc_field 0 1 (er_type r) OR amc_field 1 8 (ucast (er_length r))
                  OR amc_field 9 8 (ucast (er_offset r))))"

definition module_entry :: "u16 \<Rightarrow> amc_proxy_module_rw_request \<Rightarrow> u8 list" where
  "module_entry cid r = amc_request_entry AMC_PROXY_CMD_OPCODE_MODULE_READ_WRITE 16 cid
     (le64 (mr_address r) @ [mr_device_id r, mr_page r, mr_offset r, mr_length r]
      @ le_bytes (amc_field 0 1 (mr_type r)))"

definition debug_entry :: "u16 \<Rightarrow> u8 \<Rightarrow> u8 list" where
  "debug_entry cid verbosity = amc_request_entry AMC_PROXY_CMD_OPCODE_DEBUG_VERBOSITY 1 cid [verbosity]"

section \<open>Instances\<close>

text \<open>
  The position of the first instance of an interface; none of a NULL interface.
\<close>

definition amc_proxy_find_matching_proxy_instance ::
  "nat option \<Rightarrow> ('cb, 'x) amc_state \<Rightarrow> nat option" where
  "amc_proxy_find_matching_proxy_instance h s =
     (case h of None \<Rightarrow> None
      | Some h \<Rightarrow> find (\<lambda>i. fw_if_handle (amc_proxy_list s ! i) = h) [0..<length (amc_proxy_list s)])"

definition ready_instance :: "nat option \<Rightarrow> ('cb, 'x) amc_state \<Rightarrow> nat option" where
  "ready_instance h s = (case amc_proxy_find_matching_proxy_instance h s of
     Some i \<Rightarrow> if initialised (amc_proxy_list s ! i) then Some i else None | None \<Rightarrow> None)"

definition upd_instance ::
  "nat \<Rightarrow> ('cb amc_proxy_instance \<Rightarrow> 'cb amc_proxy_instance) \<Rightarrow> ('cb, 'x) amc_state
   \<Rightarrow> ('cb, 'x) amc_state" where
  "upd_instance i f s = s\<lparr>amc_proxy_list := (amc_proxy_list s)[i := f (amc_proxy_list s ! i)]\<rparr>"

definition upd_cmd ::
  "nat \<Rightarrow> (amc_proxy_cmd_struct \<Rightarrow> amc_proxy_cmd_struct) \<Rightarrow> ('cb, 'x) amc_state \<Rightarrow> ('cb, 'x) amc_state" where
  "upd_cmd c f s = s\<lparr>amc_cmds := (amc_cmds s)(c := f (amc_cmds s c))\<rparr>"

text \<open>On a failure the entry and the opened interface are left behind.\<close>

definition amc_proxy_init ::
  "('cb, 'x) amc_env \<Rightarrow> u8 \<Rightarrow> nat option \<Rightarrow> ('cb, 'x) amc_state \<Rightarrow> int \<times> ('cb, 'x) amc_state" where
  "amc_proxy_init env pid handle s = (case handle of
     None \<Rightarrow> (- AMC_EINVAL, s)
   | Some h \<Rightarrow>
       let (ret, x1) = amcOpen env h (amc_world s) in
       if ret = FW_IF_ERRORS_NONE
       then let (allocated, x2) = amcAlloc env x1 in
         if \<not> allocated then (- AMC_EINVAL, s\<lparr>amc_world := x2\<rparr>)
         else let (err, x3) = amcThreadCreate env x2 in
           if err \<noteq> 0 then (err, s\<lparr>amc_world := x3\<rparr>)
           else (0, s\<lparr>amc_world := x3, amc_proxy_list := amc_proxy_list s @
                  [\<lparr>fw_if_handle = h, proxy_id = pid, event_cb = None, response_thread_created = True,
                    submitted_cmds = [], initialised = True\<rparr>]\<rparr>)
       else (- AMC_EIO, s\<lparr>amc_world := x1\<rparr>))"

definition amc_proxy_bind_callback ::
  "nat option \<Rightarrow> 'cb option \<Rightarrow> ('cb, 'x) amc_state \<Rightarrow> int \<times> ('cb, 'x) amc_state" where
  "amc_proxy_bind_callback handle cb s =
     (if handle = None \<or> cb = None then (- AMC_EINVAL, s)
      else case ready_instance handle s of
        Some i \<Rightarrow> (0, upd_instance i (\<lambda>r. r\<lparr>event_cb := cb\<rparr>) s)
      | None \<Rightarrow> (- AMC_EPERM, s))"

section \<open>Requests\<close>

text \<open>
  What every request does with its entry: a \<^term>\<open>None\<close> command is a NULL pointer; adding a
  command that is in a list already corrupts the lists.
\<close>

definition submit_request ::
  "('cb, 'x) amc_env \<Rightarrow> nat option \<Rightarrow> (u16 \<Rightarrow> u8 list) option \<Rightarrow> ('cb, 'x) amc_state
   \<Rightarrow> (int \<times> ('cb, 'x) amc_state) option" where
  "submit_request env cmd entry s = (case (cmd, entry) of
     (Some c, Some bytes) \<Rightarrow> (case ready_instance (cmd_fw_if_gcq (amc_cmds s c)) s of
        None \<Rightarrow> Some (- AMC_EPERM, s)
      | Some i \<Rightarrow>
          let (ret, x) = amcWrite env (fw_if_handle (amc_proxy_list s ! i))
                (bytes (cmd_cid (amc_cmds s c))) (amc_world s);
              s1 = s\<lparr>amc_world := x\<rparr>
          in if ret \<noteq> FW_IF_ERRORS_NONE then Some (- AMC_EIO, s1)
             else if list_ex (\<lambda>r. c \<in> set (submitted_cmds r)) (amc_proxy_list s1) then None
             else Some (0, upd_instance i (\<lambda>r. r\<lparr>submitted_cmds := submitted_cmds r @ [c]\<rparr>) s1))
   | _ \<Rightarrow> Some (- AMC_EINVAL, s))"

definition amc_proxy_request_identity ::
  "('cb, 'x) amc_env \<Rightarrow> nat option \<Rightarrow> ('cb, 'x) amc_state \<Rightarrow> (int \<times> ('cb, 'x) amc_state) option" where
  "amc_proxy_request_identity env cmd = submit_request env cmd (Some identity_entry)"

definition amc_proxy_request_sensor ::
  "('cb, 'x) amc_env \<Rightarrow> nat option \<Rightarrow> amc_proxy_sensor_request option \<Rightarrow> ('cb, 'x) amc_state
   \<Rightarrow> (int \<times> ('cb, 'x) amc_state) option" where
  "amc_proxy_request_sensor env cmd req =
     submit_request env cmd (map_option (\<lambda>r cid. sensor_entry cid r) req)"

definition amc_proxy_request_pdi_download ::
  "('cb, 'x) amc_env \<Rightarrow> nat option \<Rightarrow> amc_proxy_pdi_download_request option \<Rightarrow> ('cb, 'x) amc_state
   \<Rightarrow> (int \<times> ('cb, 'x) amc_state) option" where
  "amc_proxy_request_pdi_download env cmd req =
     submit_request env cmd (map_option (\<lambda>r cid. download_entry cid r) req)"

definition amc_proxy_request_device_boot ::
  "('cb, 'x) amc_env \<Rightarrow> nat option \<Rightarrow> amc_proxy_pdi_download_request option \<Rightarrow> ('cb, 'x) amc_state
   \<Rightarrow> (int \<times> ('cb, 'x) amc_state) option" where
  "amc_proxy_request_device_boot env cmd req =
     submit_request env cmd (map_option (\<lambda>r cid. boot_entry cid r) req)"

definition amc_proxy_request_partition_copy ::
  "('cb, 'x) amc_env \<Rightarrow> nat option \<Rightarrow> amc_proxy_partition_copy_request option \<Rightarrow> ('cb, 'x) amc_state
   \<Rightarrow> (int \<times> ('cb, 'x) amc_state) option" where
  "amc_proxy_request_partition_copy env cmd req =
     submit_request env cmd (map_option (\<lambda>r cid. copy_entry cid r) req)"

definition amc_proxy_request_heartbeat ::
  "('cb, 'x) amc_env \<Rightarrow> nat option \<Rightarrow> u8 option \<Rightarrow> ('cb, 'x) amc_state
   \<Rightarrow> (int \<times> ('cb, 'x) amc_state) option" where
  "amc_proxy_request_heartbeat env cmd req =
     submit_request env cmd (map_option (\<lambda>n cid. heartbeat_entry cid n) req)"

definition amc_proxy_request_eeprom_read_write ::
  "('cb, 'x) amc_env \<Rightarrow> nat option \<Rightarrow> amc_proxy_eeprom_rw_request option \<Rightarrow> ('cb, 'x) amc_state
   \<Rightarrow> (int \<times> ('cb, 'x) amc_state) option" where
  "amc_proxy_request_eeprom_read_write env cmd req =
     submit_request env cmd (map_option (\<lambda>r cid. eeprom_entry cid r) req)"

definition amc_proxy_request_module_read_write ::
  "('cb, 'x) amc_env \<Rightarrow> nat option \<Rightarrow> amc_proxy_module_rw_request option \<Rightarrow> ('cb, 'x) amc_state
   \<Rightarrow> (int \<times> ('cb, 'x) amc_state) option" where
  "amc_proxy_request_module_read_write env cmd req =
     submit_request env cmd (map_option (\<lambda>r cid. module_entry cid r) req)"

definition amc_proxy_request_debug_verbosity ::
  "('cb, 'x) amc_env \<Rightarrow> nat option \<Rightarrow> u8 \<Rightarrow> ('cb, 'x) amc_state
   \<Rightarrow> (int \<times> ('cb, 'x) amc_state) option" where
  "amc_proxy_request_debug_verbosity env cmd verbosity =
     submit_request env cmd (Some (\<lambda>cid. debug_entry cid verbosity))"

section \<open>Completion, timeout and abort\<close>

text \<open>The 16 bytes of a response: identifier and flags, payload, return code.\<close>

definition response_cid :: "u8 list \<Rightarrow> u16" where "response_cid e = of_le16 (take 2 e)"
definition response_payload :: "u8 list \<Rightarrow> u8 list" where "response_payload e = take 8 (drop 4 e)"
definition response_ret :: "u8 list \<Rightarrow> u32" where "response_ret e = of_le32 (take 4 (drop 12 e))"

definition send_event ::
  "('cb, 'x) amc_env \<Rightarrow> 'cb amc_proxy_instance \<Rightarrow> u8 \<Rightarrow> nat \<Rightarrow> ('cb, 'x) amc_state
   \<Rightarrow> ('cb, 'x) amc_state" where
  "send_event env r ev c s = (case event_cb r of
     None \<Rightarrow> s
   | Some cb \<Rightarrow> let (cs, x) = amcEvent env cb (proxy_id r) ev c (amc_cmds s, amc_world s)
                in s\<lparr>amc_cmds := cs, amc_world := x\<rparr>)"

definition amc_proxy_cmd_complete ::
  "('cb, 'x) amc_env \<Rightarrow> nat \<Rightarrow> u8 list \<Rightarrow> ('cb, 'x) amc_state \<Rightarrow> ('cb, 'x) amc_state" where
  "amc_proxy_cmd_complete env i entry s =
     (let r = amc_proxy_list s ! i in
      case find (\<lambda>c. cmd_cid (amc_cmds s c) = response_cid entry) (submitted_cmds r) of
        None \<Rightarrow> s
      | Some c \<Rightarrow> send_event env r AMC_PROXY_EVENT_RESPONSE_COMPLETE c
          (upd_instance i (\<lambda>r. r\<lparr>submitted_cmds := remove1 c (submitted_cmds r)\<rparr>)
            (upd_cmd c (\<lambda>cmd. cmd\<lparr>cmd_response := response_payload entry,
                                   cmd_response_code := response_ret entry\<rparr>) s)))"

definition amc_proxy_submitted_cmds_empty :: "nat \<Rightarrow> ('cb, 'x) amc_state \<Rightarrow> bool" where
  "amc_proxy_submitted_cmds_empty i s \<longleftrightarrow> submitted_cmds (amc_proxy_list s ! i) = []"

definition time_before :: "u64 \<Rightarrow> u64 \<Rightarrow> bool" where
  "time_before a b \<longleftrightarrow> sint (a - b) < 0"

definition timed_out :: "('cb, 'x) amc_env \<Rightarrow> nat \<Rightarrow> ('cb, 'x) amc_state \<Rightarrow> bool" where
  "timed_out env c s \<longleftrightarrow> time_before (cmd_timeout_jiffies (amc_cmds s c)) (amcJiffies env (amc_world s))"

text \<open>A walk over the commands submitted when it began; the drain removes what it times out.\<close>

fun drain_cmds :: "('cb, 'x) amc_env \<Rightarrow> nat \<Rightarrow> nat list \<Rightarrow> ('cb, 'x) amc_state \<Rightarrow> ('cb, 'x) amc_state" where
  "drain_cmds env i [] s = s"
| "drain_cmds env i (c # cs) s = drain_cmds env i cs
     (if timed_out env c s
      then send_event env (amc_proxy_list s ! i) AMC_PROXY_EVENT_RESPONSE_TIMEOUT c
             (upd_cmd c (\<lambda>cmd. cmd\<lparr>cmd_rcode := - AMC_ETIME\<rparr>)
               (upd_instance i (\<lambda>r. r\<lparr>submitted_cmds := remove1 c (submitted_cmds r)\<rparr>) s))
      else s)"

definition amc_proxy_submitted_cmds_drain ::
  "('cb, 'x) amc_env \<Rightarrow> nat \<Rightarrow> ('cb, 'x) amc_state \<Rightarrow> ('cb, 'x) amc_state" where
  "amc_proxy_submitted_cmds_drain env i s = drain_cmds env i (submitted_cmds (amc_proxy_list s ! i)) s"

fun check_cmds :: "('cb, 'x) amc_env \<Rightarrow> nat \<Rightarrow> nat list \<Rightarrow> ('cb, 'x) amc_state \<Rightarrow> ('cb, 'x) amc_state" where
  "check_cmds env i [] s = s"
| "check_cmds env i (c # cs) s = check_cmds env i cs
     (if timed_out env c s
      then send_event env (amc_proxy_list s ! i) AMC_PROXY_EVENT_RESPONSE_TIMEOUT c
             (upd_cmd c (\<lambda>cmd. cmd\<lparr>cmd_rcode := - AMC_ETIME\<rparr>) s)
      else s)"

text \<open>A command that timed out stays in the list and is reported again.\<close>

definition amc_proxy_submitted_cmd_check_timeout ::
  "('cb, 'x) amc_env \<Rightarrow> nat \<Rightarrow> ('cb, 'x) amc_state \<Rightarrow> ('cb, 'x) amc_state" where
  "amc_proxy_submitted_cmd_check_timeout env i s =
     check_cmds env i (submitted_cmds (amc_proxy_list s ! i)) s"

definition amc_proxy_remove_submitted_cmd :: "nat \<Rightarrow> nat \<Rightarrow> ('cb, 'x) amc_state \<Rightarrow> ('cb, 'x) amc_state" where
  "amc_proxy_remove_submitted_cmd i c s =
     (if c \<in> set (submitted_cmds (amc_proxy_list s ! i))
      then upd_cmd c (\<lambda>cmd. cmd\<lparr>cmd_rcode := - AMC_EIO\<rparr>)
             (upd_instance i (\<lambda>r. r\<lparr>submitted_cmds := removeAll c (submitted_cmds r)\<rparr>) s)
      else s)"

definition amc_proxy_request_abort ::
  "nat option \<Rightarrow> ('cb, 'x) amc_state \<Rightarrow> int \<times> ('cb, 'x) amc_state" where
  "amc_proxy_request_abort cmd s = (case cmd of
     None \<Rightarrow> (- AMC_EINVAL, s)
   | Some c \<Rightarrow> (case ready_instance (cmd_fw_if_gcq (amc_cmds s c)) s of
        Some i \<Rightarrow> (0, amc_proxy_remove_submitted_cmd i c s) | None \<Rightarrow> (0, s)))"

section \<open>The response thread\<close>

definition response_pass :: "('cb, 'x) amc_env \<Rightarrow> nat \<Rightarrow> ('cb, 'x) amc_state \<Rightarrow> ('cb, 'x) amc_state" where
  "response_pass env i s =
     (let (ret, entry, x) = amcRead env (fw_if_handle (amc_proxy_list s ! i)) (amc_world s);
          s1 = s\<lparr>amc_world := x\<rparr>;
          s2 = (if ret = FW_IF_ERRORS_NONE then amc_proxy_cmd_complete env i entry s1 else s1)
      in amc_proxy_submitted_cmd_check_timeout env i s2)"

text \<open>\<^term>\<open>None\<close>: the thread is not told to stop.\<close>

partial_function (option) complete_response_thread ::
  "('cb, 'x) amc_env \<Rightarrow> nat option \<Rightarrow> ('cb, 'x) amc_state \<Rightarrow> ('cb, 'x) amc_state option" where
  "complete_response_thread env data s =
     (let s1 = (case data of Some i \<Rightarrow> response_pass env i s | None \<Rightarrow> s) in
      if amcShouldStop env (amc_world s1) then Some s1
      else complete_response_thread env data (s1\<lparr>amc_world := amcSleep env (amc_world s1)\<rparr>))"

text \<open>
  The wait of the close for an empty list, with no pass of the thread in between;
  \<^term>\<open>None\<close> when a command never times out.
\<close>

partial_function (option) wait_empty ::
  "('cb, 'x) amc_env \<Rightarrow> nat \<Rightarrow> ('cb, 'x) amc_state \<Rightarrow> ('cb, 'x) amc_state option" where
  "wait_empty env i s =
     (if amc_proxy_submitted_cmds_empty i s then Some s
      else wait_empty env i
             (amc_proxy_submitted_cmds_drain env i (s\<lparr>amc_world := amcSleep env (amc_world s)\<rparr>)))"

text \<open>
  The entry leaves the list and is freed whatever the thread and the interface answer. The
  write of the flag \<open>initialised\<close> through the freed pointer is left out.
\<close>

definition amc_proxy_close ::
  "('cb, 'x) amc_env \<Rightarrow> nat option \<Rightarrow> ('cb, 'x) amc_state \<Rightarrow> (int \<times> ('cb, 'x) amc_state) option" where
  "amc_proxy_close env handle s =
     (case find (\<lambda>i. initialised (amc_proxy_list s ! i) \<and> Some (fw_if_handle (amc_proxy_list s ! i)) = handle)
             [0..<length (amc_proxy_list s)] of
        None \<Rightarrow> Some (- AMC_EPERM, s)
      | Some i \<Rightarrow> do {
          s1 \<leftarrow> wait_empty env i s;
          let r = amc_proxy_list s1 ! i;
          let (ret, x) = (if response_thread_created r
             then let (ret, x1) = amcThreadStop env (amc_world s1) in
               if ret = 0
               then let (ret2, x2) = amcClose env (fw_if_handle r) x1
                    in (if ret2 \<noteq> 0 then - AMC_EIO else 0, x2)
               else (ret, x1)
             else (- AMC_EPERM, amc_world s1));
          Some (ret, s1\<lparr>amc_world := x,
                 amc_proxy_list := take i (amc_proxy_list s1) @ drop (i + 1) (amc_proxy_list s1)\<rparr>) })"

section \<open>Responses\<close>

definition get_response ::
  "nat option \<Rightarrow> (amc_proxy_cmd_struct \<Rightarrow> int) \<Rightarrow> ('cb, 'x) amc_state \<Rightarrow> int" where
  "get_response cmd result s = (case cmd of
     None \<Rightarrow> - AMC_EINVAL
   | Some c \<Rightarrow> (case ready_instance (cmd_fw_if_gcq (amc_cmds s c)) s of
        Some i \<Rightarrow> result (amc_cmds s c) | None \<Rightarrow> - AMC_EPERM))"

definition response_errno :: "amc_proxy_cmd_struct \<Rightarrow> int" where
  "response_errno cmd = amc_result_to_linux_errno (cmd_response_code cmd)"

text \<open>The sensor response is the first word of the payload, not the return code.\<close>

definition amc_proxy_get_response_sensor :: "nat option \<Rightarrow> ('cb, 'x) amc_state \<Rightarrow> int" where
  "amc_proxy_get_response_sensor cmd = get_response cmd (\<lambda>c. sint (of_le32 (take 4 (cmd_response c))))"

definition amc_proxy_get_response_pdi_download :: "nat option \<Rightarrow> ('cb, 'x) amc_state \<Rightarrow> int" where
  "amc_proxy_get_response_pdi_download cmd = get_response cmd response_errno"
definition amc_proxy_get_response_device_boot :: "nat option \<Rightarrow> ('cb, 'x) amc_state \<Rightarrow> int" where
  "amc_proxy_get_response_device_boot cmd = get_response cmd response_errno"
definition amc_proxy_get_response_partition_copy :: "nat option \<Rightarrow> ('cb, 'x) amc_state \<Rightarrow> int" where
  "amc_proxy_get_response_partition_copy cmd = get_response cmd response_errno"
definition amc_proxy_get_response_eeprom_read_write :: "nat option \<Rightarrow> ('cb, 'x) amc_state \<Rightarrow> int" where
  "amc_proxy_get_response_eeprom_read_write cmd = get_response cmd response_errno"
definition amc_proxy_get_response_module_read_write :: "nat option \<Rightarrow> ('cb, 'x) amc_state \<Rightarrow> int" where
  "amc_proxy_get_response_module_read_write cmd = get_response cmd response_errno"
definition amc_proxy_get_response_debug_verbosity :: "nat option \<Rightarrow> ('cb, 'x) amc_state \<Rightarrow> int" where
  "amc_proxy_get_response_debug_verbosity cmd = get_response cmd response_errno"

text \<open>
  The identity is returned when the command is answered by a ready instance. A heartbeat
  without a place for it (\<open>out\<close> is false) is written through NULL.
\<close>

record amc_proxy_identify_response =
  ir_ver_major :: u8
  ir_ver_minor :: u8
  ir_ver_patch :: u8
  ir_local_changes :: u8
  ir_dev_commits :: u16
  ir_link_ver_major :: u8
  ir_link_ver_minor :: u8

definition identify_payload :: "u8 list \<Rightarrow> amc_proxy_identify_response" where
  "identify_payload b = \<lparr>ir_ver_major = b ! 0, ir_ver_minor = b ! 1, ir_ver_patch = b ! 2,
     ir_local_changes = b ! 3, ir_dev_commits = of_le16 (take 2 (drop 4 b)),
     ir_link_ver_major = b ! 6, ir_link_ver_minor = b ! 7\<rparr>"

definition amc_proxy_get_response_identity ::
  "nat option \<Rightarrow> bool \<Rightarrow> ('cb, 'x) amc_state \<Rightarrow> int \<times> amc_proxy_identify_response option" where
  "amc_proxy_get_response_identity cmd out s = (case cmd of
     Some c \<Rightarrow> if \<not> out then (- AMC_EINVAL, None)
       else (case ready_instance (cmd_fw_if_gcq (amc_cmds s c)) s of
         Some i \<Rightarrow> (0, Some (identify_payload (cmd_response (amc_cmds s c))))
       | None \<Rightarrow> (- AMC_EPERM, None))
   | None \<Rightarrow> (- AMC_EINVAL, None))"

definition amc_proxy_get_response_heartbeat ::
  "nat option \<Rightarrow> bool \<Rightarrow> ('cb, 'x) amc_state \<Rightarrow> (int \<times> u8 option) option" where
  "amc_proxy_get_response_heartbeat cmd out s = (case cmd of
     None \<Rightarrow> Some (- AMC_EINVAL, None)
   | Some c \<Rightarrow> (case ready_instance (cmd_fw_if_gcq (amc_cmds s c)) s of
        None \<Rightarrow> Some (- AMC_EPERM, None)
      | Some i \<Rightarrow> if \<not> out then None
          else Some (response_errno (amc_cmds s c),
                     Some (ucast (of_le32 (take 4 (cmd_response (amc_cmds s c))) :: u32)))))"

end
