(* ===== verification/AmiCommands.thy ===== *)
theory AmiCommands
  imports AmiProxy AmcProxy
begin

text \<open>
  A command of the host on its way to the card and back: what the driver (AmcProxy) writes and
  the firmware (AmiProxy) stores, what an application fetches, and the response.
\<close>

section \<open>What the host asks\<close>

datatype host_request =
    HostIdentity
  | HostSensor amc_proxy_sensor_request
  | HostDownload amc_proxy_pdi_download_request
  | HostBoot amc_proxy_pdi_download_request
  | HostCopy amc_proxy_partition_copy_request
  | HostHeartbeat u8
  | HostEeprom amc_proxy_eeprom_rw_request
  | HostModule amc_proxy_module_rw_request
  | HostDebug u8

primrec host_entry :: "u16 \<Rightarrow> host_request \<Rightarrow> u8 list" where
  "host_entry cid HostIdentity = identity_entry cid"
| "host_entry cid (HostSensor r) = sensor_entry cid r"
| "host_entry cid (HostDownload r) = download_entry cid r"
| "host_entry cid (HostBoot r) = boot_entry cid r"
| "host_entry cid (HostCopy r) = copy_entry cid r"
| "host_entry cid (HostHeartbeat n) = heartbeat_entry cid n"
| "host_entry cid (HostEeprom r) = eeprom_entry cid r"
| "host_entry cid (HostModule r) = module_entry cid r"
| "host_entry cid (HostDebug v) = debug_entry cid v"

primrec host_opcode :: "host_request \<Rightarrow> u32" where
  "host_opcode HostIdentity = AMI_CMD_OPCODE_IDENTIFY_REQ"
| "host_opcode (HostSensor r) = AMI_CMD_OPCODE_SENSOR_REQ"
| "host_opcode (HostDownload r) = AMI_CMD_OPCODE_PDI_DOWNLOAD_REQ"
| "host_opcode (HostBoot r) = AMI_CMD_OPCODE_BOOT_SEL_REQ"
| "host_opcode (HostCopy r) = AMI_CMD_OPCODE_PDI_COPY_REQ"
| "host_opcode (HostHeartbeat n) = AMI_CMD_OPCODE_HEARTBEAT_REQ"
| "host_opcode (HostEeprom r) = AMI_CMD_OPCODE_EEPROM_RW_REQ"
| "host_opcode (HostModule r) = AMI_CMD_OPCODE_MODULE_RW_REQ"
| "host_opcode (HostDebug v) = AMI_CMD_OPCODE_DEBUG_VERBOSITY_REQ"

primrec host_event :: "host_request \<Rightarrow> AMI_PROXY_DRIVER_EVENTS" where
  "host_event HostIdentity = AMI_PROXY_DRIVER_E_GET_IDENTITY"
| "host_event (HostSensor r) = AMI_PROXY_DRIVER_E_SENSOR_READ"
| "host_event (HostDownload r) = AMI_PROXY_DRIVER_E_PDI_DOWNLOAD_START"
| "host_event (HostBoot r) = AMI_PROXY_DRIVER_E_BOOT_SELECT"
| "host_event (HostCopy r) = AMI_PROXY_DRIVER_E_PDI_COPY_START"
| "host_event (HostHeartbeat n) = AMI_PROXY_DRIVER_E_HEARTBEAT"
| "host_event (HostEeprom r) = AMI_PROXY_DRIVER_E_EEPROM_READ_WRITE"
| "host_event (HostModule r) = AMI_PROXY_DRIVER_E_MODULE_READ_WRITE"
| "host_event (HostDebug v) = AMI_PROXY_DRIVER_E_DEBUG_VERBOSITY"

text \<open>
  The request as the firmware keeps it: numbers in the width of their field, and a partition
  number of 0 beside the mark of an update of the partition table.
\<close>

primrec host_member :: "host_request \<Rightarrow> AMI_REQUEST_DATA option" where
  "host_member HostIdentity = None"
| "host_member (HostSensor r) = Some (xSensorRequest
     \<lparr>snRequest = take_bit 8 (sr_req r), snRepo = take_bit 8 (sr_repo r),
      snSensorId = take_bit 8 (sr_sensor_id r), snLength = sr_length r, snAddress = sr_address r\<rparr>)"
| "host_member (HostDownload r) = Some (xDownloadRequest
     \<lparr>dlBootDevice = take_bit 1 (pd_boot_device r),
      dlUpdateFpt = (if pd_partition r = FPT_UPDATE_MAGIC then 1 else 0),
      dlLastPacket = take_bit 1 (pd_last_chunk r), dlAddress = pd_address r, dlLength = pd_length r,
      dlPartitionSel = (if pd_partition r = FPT_UPDATE_MAGIC then 0 else take_bit 4 (pd_partition r)),
      dlPacketNum = take_bit 15 (pd_chunk r), dlPacketSize = pd_chunk_size r\<rparr>)"
| "host_member (HostBoot r) = Some (xBootSelectRequest (take_bit 4 (pd_partition r)))"
| "host_member (HostCopy r) = Some (xCopyRequest
     \<lparr>cpAddress = pc_address r, cpMaxLength = pc_length r,
      cpSrcDevice = take_bit 1 (pc_src_device r), cpSrcPartition = take_bit 4 (pc_src_part r),
      cpDestDevice = take_bit 1 (pc_dest_device r), cpDestPartition = take_bit 4 (pc_dest_part r)\<rparr>)"
| "host_member (HostHeartbeat n) = None"
| "host_member (HostEeprom r) = Some (xEepromReadWriteRequest
     \<lparr>eeRequest = take_bit 1 (er_type r), eeAddress = er_address r,
      eeLength = ucast (er_length r), eeOffset = ucast (er_offset r)\<rparr>)"
| "host_member (HostModule r) = Some (xModuleReadWriteRequest
     \<lparr>moRequest = take_bit 1 (mr_type r), moAddress = mr_address r, moExDeviceId = mr_device_id r,
      moPage = mr_page r, moByteOffset = mr_offset r, moLength = mr_length r\<rparr>)"
| "host_member (HostDebug v) = Some (ucDebugVerbosityRequest v)"

section \<open>Decoding of an entry\<close>

lemma of_le64_le64 [simp]: "of_le64 (le64 a) = a"
proof (rule bit_word_eqI)
  fix n assume n: "n < LENGTH(64)"
  then show "bit (of_le64 (le64 a)) n = bit a n"
    by (cases "n < 32") (auto simp: of_le64_def le64_def bit_simps)
qed

lemma length_le64 [simp]: "length (le64 a) = 8"
  by (simp add: le64_def)

lemmas entries = identity_entry_def sensor_entry_def download_entry_def boot_entry_def copy_entry_def
  heartbeat_entry_def eeprom_entry_def module_entry_def debug_entry_def amc_request_entry_def
  sizeof_amc_payload_def

lemma bit_field_amc_field:
  "n + lo \<le> LENGTH('a) \<Longrightarrow> bit_field lo n (amc_field lo n v) = take_bit n (v :: 'a :: len word)"
  by (rule bit_word_eqI) (auto simp: bit_field_def amc_field_def bit_simps)

lemma bit_field_other:
  "lo + n \<le> l \<or> l + m \<le> lo \<Longrightarrow> bit_field lo n (amc_field l m v) = (0 :: 'a :: len word)"
  by (rule bit_word_eqI) (auto simp: bit_field_def amc_field_def bit_simps)

lemma take_bit_byte: "take_bit 8 (ucast (b :: u8)) = (ucast b :: u32)"
  by (rule bit_word_eqI) (auto simp: bit_simps dest: bit_imp_le_length)

lemma bit_field_OR: "bit_field lo n (v OR w) = bit_field lo n v OR bit_field lo n w"
  by (simp add: bit_field_def)

lemmas fields = bit_field_OR bit_field_amc_field bit_field_other

lemma entry_cid: "usCid (host_entry cid q @ pad) = cid"
  by (cases q) (simp_all add: entries usCid_def half_at_def)

lemma entry_opcode: "ulOpCode (host_entry cid q @ pad) = host_opcode q"
  by (cases q) (simp_all add: entries ulOpCode_def word_at_def fields amc_opcodes)

lemma payload_sensor:
  "Some (xSensorRequest (sensor_payload (sensor_entry cid r @ pad))) = host_member (HostSensor r)"
  by (simp add: entries sensor_payload_def word_at_def ullAddress_def fields Let_def)

lemma payload_download:
  "Some (xDownloadRequest (download_payload (download_entry cid r @ pad))) = host_member (HostDownload r)"
  by (simp add: entries download_payload_def word_at_def half_at_def ullAddress_def fields Let_def)

lemma payload_boot:
  "Some (xBootSelectRequest (boot_payload (boot_entry cid r @ pad))) = host_member (HostBoot r)"
  by (simp add: entries boot_payload_def word_at_def fields)

lemma payload_copy:
  "Some (xCopyRequest (copy_payload (copy_entry cid r @ pad))) = host_member (HostCopy r)"
  by (simp add: entries copy_payload_def word_at_def ullAddress_def fields Let_def)

lemma payload_eeprom:
  "Some (xEepromReadWriteRequest (eeprom_payload (eeprom_entry cid r @ pad))) = host_member (HostEeprom r)"
  by (simp add: entries eeprom_payload_def word_at_def ullAddress_def fields take_bit_byte Let_def)

lemma payload_module:
  "Some (xModuleReadWriteRequest (module_payload (module_entry cid r @ pad))) = host_member (HostModule r)"
  by (simp add: entries module_payload_def word_at_def ullAddress_def fields nth_append)

lemma payload_bytes:
  "heartbeat_payload (heartbeat_entry cid n @ pad) = n"
  "debug_payload (debug_entry cid n @ pad) = n"
  by (simp_all add: entries heartbeat_payload_def debug_payload_def nth_append)

lemmas payloads = payload_sensor payload_download payload_boot payload_copy payload_eeprom
  payload_module payload_bytes

section \<open>Storing a request\<close>

definition services_ok :: "('cb, 'x) ami_env \<Rightarrow> bool" where
  "services_ok env \<longleftrightarrow> (\<forall>x. fst (amiMutexTake env x)) \<and> (\<forall>x. fst (amiMutexRelease env x))"

definition free_slot :: "AMI_PRIVATE_DATA \<Rightarrow> nat \<Rightarrow> bool" where
  "free_slot p i \<longleftrightarrow> i < AMI_RXDATA_SIZE \<and> \<not> rxInUse (amiRxData p ! i) \<and> (\<forall>j<i. rxInUse (amiRxData p ! j))"

definition stored :: "u16 \<Rightarrow> host_request \<Rightarrow> AMI_RX_DATA \<Rightarrow> AMI_RX_DATA" where
  "stored cid q old = \<lparr>rxInUse = True, rxOpCode = host_opcode q, rxCid = cid,
     rxRequest = (case host_member q of None \<Rightarrow> rxRequest old | Some m \<Rightarrow> Some m)\<rparr>"

lemma services:
  "services_ok env \<Longrightarrow> fst (amiMutexTake env x)" "services_ok env \<Longrightarrow> fst (amiMutexRelease env x)"
  by (simp_all add: services_ok_def)

lemma counters [simp]:
  "amiRxData (ami_inc_stat c p) = amiRxData p" "amiRxData (ami_inc_error e p) = amiRxData p"
  "amiRxData (ami_fail e p) = amiRxData p" "amiFwIfPort (ami_inc_stat c p) = amiFwIfPort p"
  "ami_ready (ami_inc_stat c p) = ami_ready p" "ami_ready (ami_inc_error e p) = ami_ready p"
  "ami_ready (ami_fail e p) = ami_ready p" "ami_ready (p\<lparr>amiRxData := rx\<rparr>) = ami_ready p"
  by (simp_all add: ami_inc_stat_def ami_inc_error_def ami_fail_def ami_ready_def ami_firewalls_def)

lemma step_simps [simp]:
  "amiThis (ami_step p x s) = p" "amiWorld (ami_step p x s) = x"
  "amiEvlData (ami_step p x s) = amiEvlData s" "amiEvlRecord (ami_step p x s) = amiEvlRecord s"
  by (simp_all add: ami_step_def)

lemma find_slot:
  "ami_ready p \<Longrightarrow> free_slot p i \<Longrightarrow> iFindNextFreeRxDataIndex p = (OK, i, p)"
  by (auto simp: iFindNextFreeRxDataIndex_def free_slot_def find_Some_iff split: option.splits
      simp: find_None_iff) (metis less_trans linorder_neqE_nat nth_upt add_0)

lemma free_slot_stat: "free_slot (ami_inc_stat c p) i = free_slot p i"
  by (simp add: free_slot_def)

text \<open>
  The state in which the event of a request is raised: the mutex has been taken and released,
  and slot \<open>i\<close> holds the request.
\<close>

definition slot_stored ::
  "('cb, 'x) ami_env \<Rightarrow> AMI_RX_DATA \<Rightarrow> nat \<Rightarrow> ('cb, 'x) ami_state \<Rightarrow> ('cb, 'x) ami_state" where
  "slot_stored env rx i s =
     ami_step (ami_inc_stat AMI_PROXY_STATS_RELEASE_MUTEX
         ((ami_inc_stat AMI_PROXY_STATS_TAKE_MUTEX (amiThis s))\<lparr>amiRxData := (amiRxData (amiThis s))[i := rx]\<rparr>))
       (snd (amiMutexRelease env (snd (amiMutexTake env (amiWorld s))))) s"

definition request_stored ::
  "('cb, 'x) ami_env \<Rightarrow> u16 \<Rightarrow> host_request \<Rightarrow> nat \<Rightarrow> ('cb, 'x) ami_state \<Rightarrow> ('cb, 'x) ami_state" where
  "request_stored env cid q i s = slot_stored env (stored cid q (amiRxData (amiThis s) ! i)) i s"

lemma slot_stored_simps [simp]:
  "amiRxData (amiThis (slot_stored env rx i s)) = (amiRxData (amiThis s))[i := rx]"
  "ami_ready (amiThis (slot_stored env rx i s)) = ami_ready (amiThis s)"
  "amiEvlData (slot_stored env rx i s) = amiEvlData s"
  "amiEvlRecord (slot_stored env rx i s) = amiEvlRecord s"
  "amiMyId (amiThis (slot_stored env rx i s)) = amiMyId (amiThis s)"
  by (simp_all add: slot_stored_def) (simp add: ami_inc_stat_def)

lemma accept_stores:
  assumes "services_ok env" "ami_ready (amiThis s)" "free_slot (amiThis s) i"
  shows "accept_request env ev err inst member req s = map_option (\<lambda>(st, s1). (st, i, s1))
     (raise_request env ev err (case inst of None \<Rightarrow> of_nat i | Some n \<Rightarrow> n)
       (slot_stored env \<lparr>rxInUse = True, rxOpCode = ulOpCode req, rxCid = usCid req,
          rxRequest = (case member of None \<Rightarrow> rxRequest (amiRxData (amiThis s) ! i) | Some m \<Rightarrow> Some m)\<rparr> i s))"
proof -
  have found: "iFindNextFreeRxDataIndex (ami_inc_stat AMI_PROXY_STATS_TAKE_MUTEX (amiThis s)) =
      (OK, i, ami_inc_stat AMI_PROXY_STATS_TAKE_MUTEX (amiThis s))"
    using assms by (simp add: find_slot free_slot_stat)
  show ?thesis
    using services[OF assms(1)]
    by (cases inst; cases member)
      (auto simp: accept_request_def found case_prod_beta Let_def slot_stored_def store_request_def
        split: bind_splits)
qed

text \<open>The place of the event in which the application looks for the request.\<close>

primrec host_instance :: "nat \<Rightarrow> host_request \<Rightarrow> u8" where
  "host_instance i HostIdentity = of_nat i"
| "host_instance i (HostSensor r) = of_nat i"
| "host_instance i (HostDownload r) = of_nat i"
| "host_instance i (HostBoot r) = of_nat i"
| "host_instance i (HostCopy r) = of_nat i"
| "host_instance i (HostHeartbeat n) = n"
| "host_instance i (HostEeprom r) = of_nat i"
| "host_instance i (HostModule r) = of_nat i"
| "host_instance i (HostDebug v) = of_nat i"

definition as_request ::
  "('r \<Rightarrow> AMI_REQUEST_DATA) \<Rightarrow> (int \<times> 'r option \<times> AMI_PRIVATE_DATA \<times> 'x) option
   \<Rightarrow> (int \<times> AMI_REQUEST_DATA option) option" where
  "as_request f r = map_option (\<lambda>(st, q, w). (st, map_option f q)) r"

text \<open>The function an application fetches a request with; two requests have nothing to fetch.\<close>

primrec host_fetch ::
  "('cb, 'x) ami_env \<Rightarrow> host_request \<Rightarrow> EVL_SIGNAL \<Rightarrow> AMI_PRIVATE_DATA \<times> 'x
   \<Rightarrow> (int \<times> AMI_REQUEST_DATA option) option" where
  "host_fetch env HostIdentity sig w = Some (OK, None)"
| "host_fetch env (HostSensor r) sig w =
     as_request xSensorRequest (iAMI_GetSensorRequest env (Some sig) True w)"
| "host_fetch env (HostDownload r) sig w =
     as_request xDownloadRequest (iAMI_GetPdiDownloadRequest env (Some sig) True w)"
| "host_fetch env (HostBoot r) sig w =
     as_request xBootSelectRequest (iAMI_GetBootSelectRequest env (Some sig) True w)"
| "host_fetch env (HostCopy r) sig w =
     as_request xCopyRequest (iAMI_GetPdiCopyRequest env (Some sig) True w)"
| "host_fetch env (HostHeartbeat n) sig w = Some (OK, None)"
| "host_fetch env (HostEeprom r) sig w =
     as_request xEepromReadWriteRequest (iAMI_GetEepromReadWriteRequest env (Some sig) True w)"
| "host_fetch env (HostModule r) sig w =
     as_request xModuleReadWriteRequest (iAMI_GetModuleReadWriteRequest env (Some sig) True w)"
| "host_fetch env (HostDebug v) sig w =
     as_request ucDebugVerbosityRequest (iAMI_GetDebugVerbosityRequest env (Some sig) True w)"

lemma fetch_stored:
  assumes "services_ok env" "ami_ready p" "unat (ucInstance sig) < AMI_RXDATA_SIZE"
    "amiRxData p ! unat (ucInstance sig) = stored cid q old"
  shows "host_fetch env q sig (p, x) = Some (OK, host_member q)"
  using assms
  by (cases q)
     (simp_all add: as_request_def iAMI_GetSensorRequest_def iAMI_GetPdiDownloadRequest_def
       iAMI_GetBootSelectRequest_def iAMI_GetPdiCopyRequest_def iAMI_GetEepromReadWriteRequest_def
       iAMI_GetModuleReadWriteRequest_def iAMI_GetDebugVerbosityRequest_def get_request_def
       services case_prod_beta Let_def stored_def)

text \<open>What the task does after the event changes no slot.\<close>

definition only_counts :: "(int \<times> ('cb, 'x) ami_state \<Rightarrow> ('cb, 'x) ami_state) \<Rightarrow> bool" where
  "only_counts post \<longleftrightarrow> (\<forall>r. amiRxData (amiThis (post r)) = amiRxData (amiThis (snd r)))"

lemma accepted:
  assumes "acc = map_option (\<lambda>(st, s1). (st, i, s1)) R"
  shows "acc \<bind> (\<lambda>(st, j, s1). Some s1) = map_option snd R"
    and "acc \<bind> (\<lambda>(st, j, s1). Some (st, s1)) = R"
    and "acc \<bind> (\<lambda>(st, j, s1). Some (g j (st, s1))) = map_option (g i) R"
  using assms by (cases R; auto)+

text \<open>What follows the event of each request.\<close>

definition count_failed :: "AMI_PROXY_ERRORS \<Rightarrow> int \<times> ('cb, 'x) ami_state \<Rightarrow> ('cb, 'x) ami_state" where
  "count_failed err r = (case r of (st, s) \<Rightarrow>
     if st = ERROR then s\<lparr>amiThis := ami_fail err (amiThis s)\<rparr> else s)"

definition answer_heartbeat ::
  "('cb, 'x) ami_env \<Rightarrow> u8 \<Rightarrow> nat \<Rightarrow> int \<times> ('cb, 'x) ami_state \<Rightarrow> int \<times> ('cb, 'x) ami_state" where
  "answer_heartbeat env n i r = (case r of (st, s1) \<Rightarrow>
     if st = OK
     then case post_answer env AMI_PROXY_STATS_HEARTBEAT_MBOX_POST
            \<lparr>eMsgType = AMI_MSG_TYPE_HEARTBEAT_COMPLETE, ucRxDataIndex = of_nat i,
             mbResult = AMI_PROXY_RESULT_SUCCESS, mbData = xHeartbeat n\<rparr>
            (amiThis s1, amiWorld s1) of (posted, p, x) \<Rightarrow> (OK, ami_step p x s1)
     else (st, s1))"

lemma handle_heartbeat:
  "iHandleHeartbeatRequest env req s = (if ami_ready (amiThis s)
     then accept_request env AMI_PROXY_DRIVER_E_HEARTBEAT AMI_PROXY_RAISE_EVENT_HEARTBEAT_FAILED
            (Some (heartbeat_payload req)) None req s
          \<bind> (\<lambda>(st, j, s1). Some (answer_heartbeat env (heartbeat_payload req) j (st, s1)))
     else Some (ERROR, s))"
  by (simp add: iHandleHeartbeatRequest_def answer_heartbeat_def)

lemma handled_count: "handled err r = map_option (count_failed err) r"
  by (cases r) (auto simp: handled_def count_failed_def)

lemma post_answer_slots: "amiRxData (fst (snd (post_answer env stat msg w))) = amiRxData (fst w)"
  by (simp add: post_answer_def split: prod.splits)

lemma only_counts:
  "only_counts snd" "only_counts (count_failed err)"
  "only_counts (count_failed err \<circ> answer_heartbeat env n i)"
  using post_answer_slots[of env AMI_PROXY_STATS_HEARTBEAT_MBOX_POST]
  by (auto simp: only_counts_def count_failed_def answer_heartbeat_def split: prod.splits)
    (metis fst_conv snd_conv)+

text \<open>The error counted when the event cannot be raised, and what follows the event.\<close>

primrec host_error :: "host_request \<Rightarrow> AMI_PROXY_ERRORS" where
  "host_error HostIdentity = AMI_PROXY_RAISE_EVENT_GET_IDENTIFY_FAILED"
| "host_error (HostSensor r) = AMI_PROXY_RAISE_EVENT_SENSOR_READ_FAILED"
| "host_error (HostDownload r) = AMI_PROXY_RAISE_EVENT_PDI_DOWNLOAD_FAILED"
| "host_error (HostBoot r) = AMI_PROXY_RAISE_EVENT_BOOT_SELECT_FAILED"
| "host_error (HostCopy r) = AMI_PROXY_RAISE_EVENT_PDI_COPY_FAILED"
| "host_error (HostHeartbeat n) = AMI_PROXY_RAISE_EVENT_HEARTBEAT_FAILED"
| "host_error (HostEeprom r) = AMI_PROXY_RAISE_EVENT_EEPROM_RW_FAILED"
| "host_error (HostModule r) = AMI_PROXY_RAISE_EVENT_MODULE_RW_FAILED"
| "host_error (HostDebug v) = AMI_PROXY_RAISE_EVENT_DEBUG_VERBOSITY_FAILED"

definition after_event ::
  "('cb, 'x) ami_env \<Rightarrow> host_request \<Rightarrow> nat \<Rightarrow> int \<times> ('cb, 'x) ami_state \<Rightarrow> ('cb, 'x) ami_state" where
  "after_event env q i = (case q of
      HostHeartbeat n \<Rightarrow> count_failed AMI_PROXY_ERRORS_GET_HEARTBEAT_REQUEST \<circ> answer_heartbeat env n i
    | HostEeprom _ \<Rightarrow> count_failed AMI_PROXY_ERRORS_GET_EEPROM_RW_REQUEST
    | HostModule _ \<Rightarrow> count_failed AMI_PROXY_ERRORS_GET_MODULE_RW_REQUEST
    | HostDebug _ \<Rightarrow> count_failed AMI_PROXY_ERRORS_GET_DEBUG_VERBOSITY_REQUEST
    | _ \<Rightarrow> snd)"

lemma after_event_counts: "only_counts (after_event env q i)"
  by (cases q) (simp_all add: after_event_def only_counts)

lemma after_event_ok:
  "after_event env q i (OK, v) = (case q of HostHeartbeat n \<Rightarrow> snd (answer_heartbeat env n i (OK, v)) | _ \<Rightarrow> v)"
  by (cases q) (auto simp: after_event_def count_failed_def answer_heartbeat_def split: prod.splits)

lemma dispatch_raises:
  assumes ok: "services_ok env" "ami_ready (amiThis s)" "free_slot (amiThis s) i"
  shows "dispatch_request env (host_entry cid q @ pad) s = map_option (after_event env q i)
     (raise_request env (host_event q) (host_error q) (host_instance i q) (request_stored env cid q i s))"
proof -
  let ?req = "host_entry cid q @ pad"
  let ?inst = "case q of HostHeartbeat n \<Rightarrow> Some n | _ \<Rightarrow> None"
  have inst: "(case ?inst of None \<Rightarrow> of_nat i | Some n \<Rightarrow> n) = host_instance i q" by (cases q) auto
  have acc: "accept_request env (host_event q) (host_error q) ?inst (host_member q) ?req s =
      map_option (\<lambda>(st, s1). (st, i, s1)) (raise_request env (host_event q) (host_error q)
        (host_instance i q) (request_stored env cid q i s))"
    unfolding accept_stores[OF ok] inst request_stored_def stored_def entry_opcode entry_cid ..
  show ?thesis
    using entry_opcode[of cid q pad] accepted(1-2)[OF acc] ok(2)
      accepted(3)[OF acc, of "answer_heartbeat env (heartbeat_payload ?req)"]
    by (cases q)
       (simp_all add: dispatch_request_def after_event_def payloads[simplified] handled_count
         handle_heartbeat accept_pdi_download_def accept_pdi_copy_def accept_sensor_def
         accept_identify_def accept_boot_select_def iHandleEepromRequest_def iHandleModuleRequest_def
         iHandleDebugVerbosityRequest_def option.map_comp comp_def)
qed

lemma dispatch_stores:
  assumes "services_ok env" "ami_ready (amiThis s)" "free_slot (amiThis s) i"
  obtains s' err post where
    "dispatch_request env (host_entry cid q @ pad) s =
       map_option post (raise_request env (host_event q) err (host_instance i q) s')"
    "amiRxData (amiThis s') = (amiRxData (amiThis s))[i := stored cid q (amiRxData (amiThis s) ! i)]"
    "ami_ready (amiThis s')" "only_counts post"
proof (rule that)
  show "dispatch_request env (host_entry cid q @ pad) s = map_option (after_event env q i)
     (raise_request env (host_event q) (host_error q) (host_instance i q) (request_stored env cid q i s))"
    by (rule dispatch_raises[OF assms])
qed (simp_all add: request_stored_def assms after_event_counts)

section \<open>A response to the host\<close>

definition host_submit ::
  "('cb, 'x) amc_env \<Rightarrow> nat \<Rightarrow> host_request \<Rightarrow> ('cb, 'x) amc_state \<Rightarrow> (int \<times> ('cb, 'x) amc_state) option" where
  "host_submit env c q = (case q of
     HostIdentity \<Rightarrow> amc_proxy_request_identity env (Some c)
   | HostSensor r \<Rightarrow> amc_proxy_request_sensor env (Some c) (Some r)
   | HostDownload r \<Rightarrow> amc_proxy_request_pdi_download env (Some c) (Some r)
   | HostBoot r \<Rightarrow> amc_proxy_request_device_boot env (Some c) (Some r)
   | HostCopy r \<Rightarrow> amc_proxy_request_partition_copy env (Some c) (Some r)
   | HostHeartbeat n \<Rightarrow> amc_proxy_request_heartbeat env (Some c) (Some n)
   | HostEeprom r \<Rightarrow> amc_proxy_request_eeprom_read_write env (Some c) (Some r)
   | HostModule r \<Rightarrow> amc_proxy_request_module_read_write env (Some c) (Some r)
   | HostDebug v \<Rightarrow> amc_proxy_request_debug_verbosity env (Some c) v)"

lemma host_submits: "host_submit env c q = submit_request env (Some c) (Some (\<lambda>cid. host_entry cid q))"
  by (cases q)
     (simp_all add: host_submit_def amc_proxy_request_identity_def amc_proxy_request_sensor_def
       amc_proxy_request_pdi_download_def amc_proxy_request_device_boot_def
       amc_proxy_request_partition_copy_def amc_proxy_request_heartbeat_def
       amc_proxy_request_eeprom_read_write_def amc_proxy_request_module_read_write_def
       amc_proxy_request_debug_verbosity_def)

lemma ready_instance_less: "ready_instance h s = Some k \<Longrightarrow> k < length (amc_proxy_list s)"
  by (auto simp: ready_instance_def amc_proxy_find_matching_proxy_instance_def find_Some_iff
      split: option.splits if_splits)

lemma ready_instance_cong:
  "amc_proxy_list s = amc_proxy_list s' \<Longrightarrow> ready_instance h s = ready_instance h s'"
  by (auto simp: ready_instance_def amc_proxy_find_matching_proxy_instance_def split: option.split)

lemma response_parts:
  "response_cid (ami_response cid p0 p1 r) = cid"
  "response_payload (ami_response cid p0 p1 r) = le_bytes p0 @ le_bytes p1"
  "response_ret (ami_response cid p0 p1 r) = r"
  by (simp_all add: ami_response_def response_cid_def response_payload_def response_ret_def)

lemma byte_masks:
  "(0xFF :: u32) = mask 8" "(0xFF00 :: u32) = push_bit 8 (mask 8)"
  "(0xFF0000 :: u32) = push_bit 16 (mask 8)" "(0xFF000000 :: u32) = push_bit 24 (mask 8)"
  "(0xFFFF :: u32) = mask 16"
  by (simp_all add: mask_eq_exp_minus_1 push_bit_eq_mult)

lemma identity_roundtrip:
  "identify_payload (le_bytes (fst (identity_words r)) @ le_bytes (snd (identity_words r))) =
     \<lparr>ir_ver_major = idVerMajor r, ir_ver_minor = idVerMinor r, ir_ver_patch = idVerPatch r,
      ir_local_changes = idLocalChanges r, ir_dev_commits = idDevCommits r,
      ir_link_ver_major = idLinkVerMajor r, ir_link_ver_minor = idLinkVerMinor r\<rparr>"
proof -
  have eqI: "v = w" if "\<And>n. n < 8 \<Longrightarrow> bit v n = bit w n" for v w :: u8
    using that by (auto intro: bit_word_eqI)
  have half: "of_le16 [ucast w, ucast (drop_bit 8 w)] = (ucast (w :: u32) :: u16)" for w
    by (rule bit_word_eqI) (auto simp: of_le16_def bit_simps)
  have commits: "(ucast (snd (identity_words r)) :: u16) = idDevCommits r"
    by (rule bit_word_eqI)
       (auto simp: identity_words_def byte_masks bit_simps dest: bit_imp_le_length)
  show ?thesis
    by (simp add: identify_payload_def le_bytes_def half commits)
       (intro conjI eqI; auto simp: identity_words_def byte_masks bit_simps dest: bit_imp_le_length)
qed

lemma release_slot_frees:
  assumes "services_ok env"
  shows "amiRxData (fst (release_slot env i (p, x))) = (amiRxData p)[i := (amiRxData p ! i)\<lparr>rxInUse := False\<rparr>]"
  using services[OF assms] by (simp add: release_slot_def case_prod_beta Let_def)

lemma responds:
  assumes "services_ok env" "message_payload msg = Some (Some (stat, p0, p1))"
    "unat (ucRxDataIndex msg) < AMI_RXDATA_SIZE"
    "amiFwIfWrite env (ucast (amiFwIfPort p))
       (ami_response (rxCid (amiRxData p ! unat (ucRxDataIndex msg))) p0 p1 (mbResult msg)) x = (True, x1)"
  obtains p' x' where "ami_respond env msg (p, x) = Some (p', x')"
    "amiRxData p' = (amiRxData p)[unat (ucRxDataIndex msg) :=
       (amiRxData p ! unat (ucRxDataIndex msg))\<lparr>rxInUse := False\<rparr>]"
proof -
  let ?r = "release_slot env (unat (ucRxDataIndex msg)) (ami_inc_stat stat p, x1)"
  have "ami_respond env msg (p, x) = Some (fst ?r, snd ?r)"
    using assms by (simp add: ami_respond_def Let_def del: message_payload.simps)
  then show thesis
    using that[of "fst ?r" "snd ?r"] release_slot_frees[OF assms(1), of _ "ami_inc_stat stat p"] by simp
qed

lemma find_last: "\<forall>x\<in>set xs. \<not> P x \<Longrightarrow> P y \<Longrightarrow> find P (xs @ [y]) = Some y"
  by (induction xs) auto

lemma submitted_and_completed:
  assumes k: "ready_instance (cmd_fw_if_gcq (amc_cmds h c)) h = Some k"
    and new: "\<forall>r\<in>set (amc_proxy_list h). c \<notin> set (submitted_cmds r)"
    and cid: "\<forall>d\<in>set (submitted_cmds (amc_proxy_list h ! k)). cmd_cid (amc_cmds h d) \<noteq> cmd_cid (amc_cmds h c)"
    and sent: "amcWrite henv (fw_if_handle (amc_proxy_list h ! k))
        (host_entry (cmd_cid (amc_cmds h c)) q) (amc_world h) = (0, y)"
    and entry: "response_cid entry = cmd_cid (amc_cmds h c)"
  obtains h1 where "host_submit henv c q h = Some (0, h1)"
    "c \<in> set (submitted_cmds (amc_proxy_list h1 ! k))"
    "amc_proxy_cmd_complete henv k entry h1 =
       send_event henv (amc_proxy_list h1 ! k) AMC_PROXY_EVENT_RESPONSE_COMPLETE c
         (upd_cmd c (\<lambda>cmd. cmd\<lparr>cmd_response := response_payload entry,
                               cmd_response_code := response_ret entry\<rparr>) (h\<lparr>amc_world := y\<rparr>))"
proof -
  let ?h1 = "upd_instance k (\<lambda>r. r\<lparr>submitted_cmds := submitted_cmds r @ [c]\<rparr>) (h\<lparr>amc_world := y\<rparr>)"
  note less = ready_instance_less[OF k]
  have "host_submit henv c q h = Some (0, ?h1)"
    using k new sent by (auto simp: host_submits submit_request_def list_ex_iff)
  moreover have "find (\<lambda>d. cmd_cid (amc_cmds h d) = cmd_cid (amc_cmds h c))
      (submitted_cmds (amc_proxy_list h ! k) @ [c]) = Some c"
    using cid by (intro find_last) auto
  moreover have "remove1 c (submitted_cmds (amc_proxy_list h ! k) @ [c]) = submitted_cmds (amc_proxy_list h ! k)"
    using new less by (simp add: remove1_append)
  ultimately show thesis
    using that[of ?h1] less entry
    by (simp add: amc_proxy_cmd_complete_def upd_instance_def upd_cmd_def)
qed

end
