(* ===== verification/AmiProperties.thy ===== *)
theory AmiProperties
  imports AmiCommands
begin

text \<open>
  The commands of the host from its driver to the applications of the card and back: a request
  written by amc_proxy.c is stored and fetched as it was made, its response ends the command it
  belongs to, and the slots of the firmware stay typed and keep a request until it is answered.
\<close>

section \<open>What applications do\<close>

text \<open>One call of an application on the interface, or a change of the world outside.\<close>

inductive app_step ::
  "('cb, 'x) ami_env \<Rightarrow> AMI_PRIVATE_DATA \<times> 'x \<Rightarrow> AMI_PRIVATE_DATA \<times> 'x \<Rightarrow> bool" for env where
  outside: "app_step env (p, x) (p, x')"
| set_identity: "iAMI_SetIdentityResponse env sig res ident w = (st, w') \<Longrightarrow> app_step env w w'"
| get_state: "iAMI_GetState env out w = (st, r, w') \<Longrightarrow> app_step env w w'"
| clear: "iAMI_ClearStatistics p = (st, p') \<Longrightarrow> app_step env (p, x) (p', x)"
| set_PdiDownload: "iAMI_SetPdiDownloadCompleteResponse env sig res w = (st, w') \<Longrightarrow> app_step env w w'"
| set_PdiCopy: "iAMI_SetPdiCopyCompleteResponse env sig res w = (st, w') \<Longrightarrow> app_step env w w'"
| set_Sensor: "iAMI_SetSensorCompleteResponse env sig res w = (st, w') \<Longrightarrow> app_step env w w'"
| set_BootSelect: "iAMI_SetBootSelectCompleteResponse env sig res w = (st, w') \<Longrightarrow> app_step env w w'"
| set_EepromReadWrite: "iAMI_SetEepromReadWriteCompleteResponse env sig res w = (st, w') \<Longrightarrow> app_step env w w'"
| set_ModuleReadWrite: "iAMI_SetModuleReadWriteCompleteResponse env sig res w = (st, w') \<Longrightarrow> app_step env w w'"
| set_DebugVerbosity: "iAMI_SetDebugVerbosityResponse env sig res w = (st, w') \<Longrightarrow> app_step env w w'"
| get_PdiDownload: "iAMI_GetPdiDownloadRequest env sig out w = Some (st, rPdiDownload, w') \<Longrightarrow> app_step env w w'"
| get_PdiCopy: "iAMI_GetPdiCopyRequest env sig out w = Some (st, rPdiCopy, w') \<Longrightarrow> app_step env w w'"
| get_Sensor: "iAMI_GetSensorRequest env sig out w = Some (st, rSensor, w') \<Longrightarrow> app_step env w w'"
| get_BootSelect: "iAMI_GetBootSelectRequest env sig out w = Some (st, rBootSelect, w') \<Longrightarrow> app_step env w w'"
| get_EepromReadWrite: "iAMI_GetEepromReadWriteRequest env sig out w = Some (st, rEepromReadWrite, w') \<Longrightarrow> app_step env w w'"
| get_ModuleReadWrite: "iAMI_GetModuleReadWriteRequest env sig out w = Some (st, rModuleReadWrite, w') \<Longrightarrow> app_step env w w'"
| get_DebugVerbosity: "iAMI_GetDebugVerbosityRequest env sig out w = Some (st, rDebugVerbosity, w') \<Longrightarrow> app_step env w w'"

definition ami_kept :: "AMI_PRIVATE_DATA \<Rightarrow> AMI_PRIVATE_DATA \<Rightarrow> bool" where
  "ami_kept p p' \<longleftrightarrow> amiRxData p' = amiRxData p \<and> ami_ready p' = ami_ready p"

lemma ami_kept_refl [simp]: "ami_kept p p"
  by (simp add: ami_kept_def)

lemma ami_kept_trans: "ami_kept p q \<Longrightarrow> ami_kept q r \<Longrightarrow> ami_kept p r"
  by (simp add: ami_kept_def)

lemma ami_kept_counters [simp]:
  "ami_kept p (ami_inc_stat c q) = ami_kept p q" "ami_kept p (ami_inc_error e q) = ami_kept p q"
  "ami_kept p (ami_fail e q) = ami_kept p q"
  by (simp_all add: ami_kept_def)

lemma post_answer_kept: "post_answer env stat msg w = (st, w') \<Longrightarrow> ami_kept (fst w) (fst w')"
  by (auto simp: post_answer_def split: prod.splits if_splits)

lemma set_response_kept: "set_response env stat ty sig res w = (st, w') \<Longrightarrow> ami_kept (fst w) (fst w')"
  by (auto simp: set_response_def dest: post_answer_kept split: option.splits if_splits)

lemma set_identity_kept:
  "iAMI_SetIdentityResponse env sig res ident w = (st, w') \<Longrightarrow> ami_kept (fst w) (fst w')"
  by (auto simp: iAMI_SetIdentityResponse_def dest: post_answer_kept split: option.splits if_splits)

lemma get_request_kept:
  "get_request env stat opc err mem sig out w = Some (st, r, w') \<Longrightarrow> ami_kept (fst w) (fst w')"
  by (auto simp: get_request_def Let_def split: prod.splits option.splits if_splits bind_splits)

lemma get_state_kept: "iAMI_GetState env out w = (st, r, w') \<Longrightarrow> ami_kept (fst w) (fst w')"
  by (auto simp: iAMI_GetState_def Let_def split: prod.splits if_splits)

lemma clear_kept: "iAMI_ClearStatistics p = (st, p') \<Longrightarrow> ami_kept p p'"
  by (auto simp: iAMI_ClearStatistics_def ami_kept_def ami_ready_def ami_firewalls_def
      ami_inc_error_def split: if_splits)

lemma app_step_kept: "app_step env w w' \<Longrightarrow> ami_kept (fst w) (fst w')"
  by (induction rule: app_step.induct)
     (auto simp: iAMI_SetPdiDownloadCompleteResponse_def iAMI_SetPdiCopyCompleteResponse_def
       iAMI_SetSensorCompleteResponse_def iAMI_SetBootSelectCompleteResponse_def
       iAMI_SetEepromReadWriteCompleteResponse_def iAMI_SetModuleReadWriteCompleteResponse_def
       iAMI_SetDebugVerbosityResponse_def iAMI_GetPdiDownloadRequest_def iAMI_GetPdiCopyRequest_def
       iAMI_GetSensorRequest_def iAMI_GetBootSelectRequest_def iAMI_GetEepromReadWriteRequest_def
       iAMI_GetModuleReadWriteRequest_def iAMI_GetDebugVerbosityRequest_def
       dest: set_response_kept set_identity_kept get_request_kept get_state_kept clear_kept)

lemma app_steps_kept: "(app_step env)\<^sup>*\<^sup>* w w' \<Longrightarrow> ami_kept (fst w) (fst w')"
  by (induction rule: rtranclp_induct) (auto dest: app_step_kept intro: ami_kept_trans)

text \<open>
  The callbacks use the interface only, and the services of the operating system leave the
  private data of the proxy alone.
\<close>

definition ami_env_ok :: "('cb, 'x) ami_env \<Rightarrow> bool" where
  "ami_env_ok env \<longleftrightarrow>
     (\<forall>cb sig w. (app_step env)\<^sup>*\<^sup>* w (snd (amiCall env cb sig w))) \<and>
     (\<forall>m w. fst (snd (osMutexCreate (amiOs env) m w)) = fst w) \<and>
     (\<forall>m w. fst (snd (osMutexTake (amiOs env) m w)) = fst w) \<and>
     (\<forall>m w. fst (snd (osMutexRelease (amiOs env) m w)) = fst w) \<and>
     (\<forall>w. fst (snd (osMemAlloc (amiOs env) w)) = fst w) \<and>
     (\<forall>w. fst (snd (osUptimeMs (amiOs env) w)) = fst w)"

lemma env_ok:
  assumes "ami_env_ok env"
  shows "ami_kept (fst w) (fst (snd (amiCall env cb sig w)))"
    "fst (snd (osMutexCreate (amiOs env) m w)) = fst w"
    "fst (snd (osMutexTake (amiOs env) m w)) = fst w"
    "fst (snd (osMutexRelease (amiOs env) m w)) = fst w"
    "fst (snd (osMemAlloc (amiOs env) w)) = fst w"
    "fst (snd (osUptimeMs (amiOs env) w)) = fst w"
  using assms app_steps_kept unfolding ami_env_ok_def by blast+

lemma callbacks_kept:
  assumes "ami_env_ok env"
  shows "ami_kept p (fst w) \<Longrightarrow> ami_kept p (fst (snd (raise_callbacks (amiCall env) cbs sig d w)))"
proof (induction cbs arbitrary: d w)
  case (Cons cb cbs)
  show ?case
    using Cons.IH[of "snd (amiCall env cb sig w)"] ami_kept_trans[OF Cons.prems env_ok(1)[OF assms]]
    by (simp add: Let_def case_prod_beta)
qed simp

lemma ami_raise_kept:
  assumes ok: "ami_env_ok env"
    and raised: "iEVL_RaiseEvent (amiOs env) (amiCall env) r sig d w = Some (st, d', w')"
  shows "ami_kept (fst w) (fst w')"
  using raised
  by (auto simp: iEVL_RaiseEvent_def Let_def case_prod_beta env_ok(3,4,6)[OF ok] callbacks_kept[OF ok]
      split: option.splits if_splits bind_splits)

lemma raise_request_kept:
  assumes "ami_env_ok env" "raise_request env ev err inst s = Some (st, s')"
  shows "ami_kept (amiThis s) (amiThis s')"
  using assms(2) ami_raise_kept[OF assms(1)]
  by (fastforce simp: raise_request_def split: bind_splits)

section \<open>What every step does to the slots\<close>

text \<open>A step that is \<^term>\<open>None\<close> is undefined; the others are judged by the slots they leave.\<close>

definition slot_typed :: "AMI_RX_DATA \<Rightarrow> bool" where
  "slot_typed r \<longleftrightarrow> rxInUse r \<longrightarrow>
     (rxOpCode r = AMI_CMD_OPCODE_PDI_DOWNLOAD_REQ \<longrightarrow> download_member (rxRequest r) \<noteq> None) \<and>
     (rxOpCode r = AMI_CMD_OPCODE_PDI_COPY_REQ \<longrightarrow> copy_member (rxRequest r) \<noteq> None) \<and>
     (rxOpCode r = AMI_CMD_OPCODE_SENSOR_REQ \<longrightarrow> sensor_member (rxRequest r) \<noteq> None) \<and>
     (rxOpCode r = AMI_CMD_OPCODE_BOOT_SEL_REQ \<longrightarrow> boot_member (rxRequest r) \<noteq> None) \<and>
     (rxOpCode r = AMI_CMD_OPCODE_EEPROM_RW_REQ \<longrightarrow> eeprom_member (rxRequest r) \<noteq> None) \<and>
     (rxOpCode r = AMI_CMD_OPCODE_MODULE_RW_REQ \<longrightarrow> module_member (rxRequest r) \<noteq> None) \<and>
     (rxOpCode r = AMI_CMD_OPCODE_DEBUG_VERBOSITY_REQ \<longrightarrow> debug_member (rxRequest r) \<noteq> None)"

definition slots_typed :: "AMI_PRIVATE_DATA \<Rightarrow> bool" where
  "slots_typed p \<longleftrightarrow> length (amiRxData p) = AMI_RXDATA_SIZE \<and> list_all slot_typed (amiRxData p)"

lemma slots_typed_kept: "ami_kept p p' \<Longrightarrow> slots_typed p \<Longrightarrow> slots_typed p'"
  by (simp add: ami_kept_def slots_typed_def)

lemma slots_typed_counters [simp]:
  "slots_typed (ami_inc_stat c p) = slots_typed p" "slots_typed (ami_inc_error e p) = slots_typed p"
  "slots_typed (ami_fail e p) = slots_typed p"
  by (simp_all add: slots_typed_def)

lemma slots_typed_upd:
  "slots_typed p \<Longrightarrow> slot_typed r \<Longrightarrow> slots_typed (p\<lparr>amiRxData := (amiRxData p)[i := r]\<rparr>)"
  using set_update_subset_insert[of "amiRxData p" i r] by (auto simp: slots_typed_def list_all_iff)

lemma find_next_cases:
  obtains i where "iFindNextFreeRxDataIndex p = (OK, i, p)" "free_slot p i" "ami_ready p"
    | "iFindNextFreeRxDataIndex p = (ERROR, 0, p)" "\<forall>i<AMI_RXDATA_SIZE. rxInUse (amiRxData p ! i)" "ami_ready p"
    | "iFindNextFreeRxDataIndex p = (ERROR, 0, ami_inc_error AMI_PROXY_VALIDATION_FAILED p)" "\<not> ami_ready p"
proof (cases "ami_ready p")
  case rdy: True
  show thesis
  proof (cases "\<forall>i<AMI_RXDATA_SIZE. rxInUse (amiRxData p ! i)")
    case True
    with rdy show thesis
      by (intro that(2)) (auto simp: iFindNextFreeRxDataIndex_def find_None_iff split: option.splits
          dest: find_Some_iff[THEN iffD1])
  next
    case False
    define i where "i = (LEAST i. i < AMI_RXDATA_SIZE \<and> \<not> rxInUse (amiRxData p ! i))"
    from False have "i < AMI_RXDATA_SIZE \<and> \<not> rxInUse (amiRxData p ! i)"
      unfolding i_def by (metis (mono_tags, lifting) LeastI)
    moreover have "rxInUse (amiRxData p ! j)" if "j < i" for j
      using not_less_Least[of j] that calculation unfolding i_def by fastforce
    ultimately have "free_slot p i" by (simp add: free_slot_def)
    with rdy show thesis using that(1) find_slot by blast
  qed
qed (simp add: that(3) iFindNextFreeRxDataIndex_def)

lemma accept_typed:
  assumes ok: "ami_env_ok env" and typed: "slots_typed (amiThis s)"
    and member: "\<And>old. slot_typed \<lparr>rxInUse = True, rxOpCode = ulOpCode req, rxCid = usCid req,
        rxRequest = (case member of None \<Rightarrow> old | Some m \<Rightarrow> Some m)\<rparr>"
    and acc: "accept_request env ev err inst member req s = Some (st, i, s')"
  shows "slots_typed (amiThis s')"
proof -
  have store: "slots_typed (store_request j req member p)" if "slots_typed p" for j p
    using slots_typed_upd[OF that] member by (simp add: store_request_def)
  have raise: "slots_typed (amiThis t')" if "slots_typed (amiThis t)"
      "raise_request env ev err n t = Some (st', t')" for t t' n st'
    using raise_request_kept[OF ok that(2)] that(1) slots_typed_kept by blast
  show ?thesis
    using acc typed
    by (cases rule: find_next_cases[of "ami_inc_stat AMI_PROXY_STATS_TAKE_MUTEX (amiThis s)"])
       (auto simp: accept_request_def Let_def case_prod_beta store
         split: if_splits bind_splits elim!: raise[rotated])
qed

lemma accepts_typed:
  assumes ok: "ami_env_ok env" and typed: "slots_typed (amiThis s)"
  shows
    "ulOpCode req = AMI_CMD_OPCODE_PDI_DOWNLOAD_REQ \<Longrightarrow> accept_pdi_download env req s = Some s' \<Longrightarrow>
       slots_typed (amiThis s')"
    "ulOpCode req = AMI_CMD_OPCODE_PDI_COPY_REQ \<Longrightarrow> accept_pdi_copy env req s = Some s' \<Longrightarrow>
       slots_typed (amiThis s')"
    "ulOpCode req = AMI_CMD_OPCODE_SENSOR_REQ \<Longrightarrow> accept_sensor env req s = Some s' \<Longrightarrow>
       slots_typed (amiThis s')"
    "ulOpCode req = AMI_CMD_OPCODE_IDENTIFY_REQ \<Longrightarrow> accept_identify env req s = Some s' \<Longrightarrow>
       slots_typed (amiThis s')"
    "ulOpCode req = AMI_CMD_OPCODE_BOOT_SEL_REQ \<Longrightarrow> accept_boot_select env req s = Some s' \<Longrightarrow>
       slots_typed (amiThis s')"
  by (auto simp: accept_pdi_download_def accept_pdi_copy_def accept_sensor_def accept_identify_def
      accept_boot_select_def slot_typed_def split: bind_splits elim!: accept_typed[OF ok typed, rotated])

lemma handlers_typed:
  assumes ok: "ami_env_ok env" and typed: "slots_typed (amiThis s)"
  shows
    "ulOpCode req = AMI_CMD_OPCODE_HEARTBEAT_REQ \<Longrightarrow> iHandleHeartbeatRequest env req s = Some (st, s') \<Longrightarrow>
       slots_typed (amiThis s')"
    "ulOpCode req = AMI_CMD_OPCODE_EEPROM_RW_REQ \<Longrightarrow> iHandleEepromRequest env req s = Some (st, s') \<Longrightarrow>
       slots_typed (amiThis s')"
    "ulOpCode req = AMI_CMD_OPCODE_MODULE_RW_REQ \<Longrightarrow> iHandleModuleRequest env req s = Some (st, s') \<Longrightarrow>
       slots_typed (amiThis s')"
    "ulOpCode req = AMI_CMD_OPCODE_DEBUG_VERBOSITY_REQ \<Longrightarrow>
       iHandleDebugVerbosityRequest env req s = Some (st, s') \<Longrightarrow> slots_typed (amiThis s')"
proof -
  assume oc: "ulOpCode req = AMI_CMD_OPCODE_HEARTBEAT_REQ"
    and h: "iHandleHeartbeatRequest env req s = Some (st, s')"
  show "slots_typed (amiThis s')"
  proof (cases "ami_ready (amiThis s)")
    case True
    with h obtain st1 j s1 where acc: "accept_request env AMI_PROXY_DRIVER_E_HEARTBEAT
          AMI_PROXY_RAISE_EVENT_HEARTBEAT_FAILED (Some (heartbeat_payload req)) None req s = Some (st1, j, s1)"
      and s': "(st, s') = answer_heartbeat env (heartbeat_payload req) j (st1, s1)"
      by (auto simp: handle_heartbeat split: bind_splits)
    have "slots_typed (amiThis s1)"
      by (rule accept_typed[OF ok typed _ acc]) (simp add: slot_typed_def oc)
    then show ?thesis
      using s' slots_typed_kept[OF post_answer_kept]
      by (fastforce simp: answer_heartbeat_def split: if_splits prod.splits)
  qed (use h typed in \<open>simp add: handle_heartbeat\<close>)
qed (insert typed, auto simp: iHandleEepromRequest_def iHandleModuleRequest_def iHandleDebugVerbosityRequest_def
      slot_typed_def split: bind_splits if_splits elim!: accept_typed[OF ok typed, rotated])

lemma dispatch_typed:
  assumes "ami_env_ok env" "slots_typed (amiThis s)" "dispatch_request env req s = Some s'"
  shows "slots_typed (amiThis s')"
  using assms(3) accepts_typed[OF assms(1,2)] handlers_typed[OF assms(1,2)] assms(2)
  by (auto simp: dispatch_request_def Let_def handled_count count_failed_def split: if_splits prod.splits)

lemma release_slot_typed:
  assumes typed: "slots_typed p" and released: "release_slot env i (p, x) = (p', x')"
  shows "slots_typed p'"
proof -
  have "slots_typed (p\<lparr>amiRxData := (amiRxData p)[i := (amiRxData p ! i)\<lparr>rxInUse := False\<rparr>]\<rparr>)"
    using slots_typed_upd[OF typed] by (simp add: slot_typed_def)
  then have "slots_typed (q\<lparr>amiRxData := (amiRxData p)[i := (amiRxData p ! i)\<lparr>rxInUse := False\<rparr>]\<rparr>)" for q
    by (simp add: slots_typed_def)
  then show ?thesis
    using released typed by (auto simp: release_slot_def Let_def split: prod.splits if_splits)
qed

lemma respond_typed:
  assumes "slots_typed p" "ami_respond env msg (p, x) = Some (p', x')"
  shows "slots_typed p'"
  using assms(2) assms(1)
  by (auto simp: ami_respond_def Let_def case_prod_beta simp del: message_payload.simps
      split: bind_splits option.splits if_splits elim!: release_slot_typed[rotated])

lemma task_pass_typed:
  assumes ok: "ami_env_ok env" and typed: "slots_typed (amiThis s)"
    and pass: "ami_task_pass env buf s = Some (buf', s')"
  shows "slots_typed (amiThis s')"
proof -
  from pass obtain buf1 s1 s2 where
    r: "read_pass env buf s = Some (buf1, s1)" and w: "write_pass env s1 = Some s2" and
    s': "amiRxData (amiThis s') = amiRxData (amiThis s2)"
    by (auto simp: ami_task_pass_def Let_def split: bind_splits)
  have "slots_typed (amiThis s1)"
    using r typed dispatch_typed[OF ok]
    by (auto simp: read_pass_def Let_def split: prod.splits if_splits)
      (metis ami_state.simps(1) ami_state.surjective ami_state.update_convs(4))
  then have "slots_typed (amiThis s2)"
    using w respond_typed by (auto simp: write_pass_def split: prod.splits option.splits)
  then show ?thesis using s' by (simp add: slots_typed_def)
qed

section \<open>Reachable states\<close>

text \<open>
  The states of the proxy: as loaded, then any order of initialisations, bindings, passes of
  the task over any bytes, and calls of the applications.
\<close>

inductive ami_reachable :: "('cb, 'x) ami_env \<Rightarrow> ('cb, 'x) ami_state \<Rightarrow> bool" for env where
  loaded: "amiThis s = ami_local_data \<Longrightarrow> ami_reachable env s"
| initialise: "ami_reachable env s \<Longrightarrow> iAMI_Initialise env pid given port s = (st, s') \<Longrightarrow>
    ami_reachable env s'"
| bind: "ami_reachable env s \<Longrightarrow> iAMI_BindCallback env cb s = (st, s') \<Longrightarrow> ami_reachable env s'"
| pass: "ami_reachable env s \<Longrightarrow> ami_task_pass env buf s = Some (buf', s') \<Longrightarrow> ami_reachable env s'"
| call: "ami_reachable env s \<Longrightarrow> app_step env (amiThis s, amiWorld s) (p', x') \<Longrightarrow>
    ami_reachable env (ami_step p' x' s)"

lemma create_record_fst:
  assumes "ami_env_ok env" "iEVL_CreateRecord (amiOs env) r d w = (st, r', d', w')"
  shows "fst w' = fst w"
  using assms(2)
  by (auto simp: iEVL_CreateRecord_def Let_def case_prod_beta env_ok(2,5)[OF assms(1)] split: if_splits)

lemma bind_callback_fst:
  assumes "ami_env_ok env" "iEVL_BindCallback (amiOs env) r cb d w = (st, r', d', w')"
  shows "fst w' = fst w"
  using assms(2)
  by (auto simp: iEVL_BindCallback_def bind_locked_def Let_def case_prod_beta
      env_ok(3,4,5)[OF assms(1)] split: if_splits option.splits)

lemma slots_typed_fields [simp]:
  "slots_typed (p\<lparr>amiMyId := a, amiFwIfPort := b\<rparr>) = slots_typed p"
  "slots_typed (p\<lparr>amiInitialised := c, amiState := d\<rparr>) = slots_typed p"
  by (simp_all add: slots_typed_def)

lemma initialise_typed:
  assumes ok: "ami_env_ok env" and typed: "slots_typed (amiThis s)"
    and init: "iAMI_Initialise env pid given port s = (st, s')"
  shows "slots_typed (amiThis s')"
proof -
  have *: "slots_typed p" if "iEVL_CreateRecord (amiOs env) r d
      (amiThis s\<lparr>amiMyId := pid, amiFwIfPort := port\<rparr>, y) = (st', r', d', p, x)" for st' r r' d d' p x y
    using create_record_fst[OF ok that] typed by simp
  show ?thesis
    using init typed *
    by (auto simp: iAMI_Initialise_def Let_def split: if_splits prod.splits)
qed

lemma bind_typed:
  assumes ok: "ami_env_ok env" and typed: "slots_typed (amiThis s)"
    and bind: "iAMI_BindCallback env cb s = (st, s')"
  shows "slots_typed (amiThis s')"
  using bind typed bind_callback_fst[OF ok]
  by (fastforce simp: iAMI_BindCallback_def split: if_splits prod.splits)

lemma ami_typed_everywhere:
  assumes "ami_env_ok env" "ami_reachable env s"
  shows "slots_typed (amiThis s)"
  using assms(2)
proof (induction rule: ami_reachable.induct)
  case (loaded s)
  then show ?case by (simp add: slots_typed_def ami_local_data_def ami_empty_slot_def slot_typed_def list_all_length)
next
  case (call s p' x')
  then show ?case using slots_typed_kept app_step_kept by fastforce
qed (auto intro: initialise_typed bind_typed task_pass_typed assms(1))

lemma get_request_defined:
  assumes "slots_typed (fst w)"
    and "\<And>r. slot_typed r \<Longrightarrow> rxInUse r \<Longrightarrow> rxOpCode r = opc \<Longrightarrow> mem (rxRequest r) \<noteq> None"
  shows "get_request env stat opc err mem sig out w \<noteq> None"
proof -
  have "mem (rxRequest (amiRxData (fst w) ! i)) \<noteq> None"
    if "i < AMI_RXDATA_SIZE" "rxInUse (amiRxData (fst w) ! i)" "opc = rxOpCode (amiRxData (fst w) ! i)" for i
    using assms that by (auto simp: slots_typed_def list_all_length)
  then show ?thesis
    by (fastforce simp: get_request_def Let_def case_prod_beta split: prod.splits option.splits bind_splits)
qed

section \<open>No free slot\<close>

lemma find_full:
  "ami_ready p \<Longrightarrow> \<forall>i<AMI_RXDATA_SIZE. rxInUse (amiRxData p ! i) \<Longrightarrow>
   iFindNextFreeRxDataIndex p = (ERROR, 0, p)"
  by (cases rule: find_next_cases[of p]) (auto simp: free_slot_def)

lemma fail_state [simp]: "amiState (ami_fail e p) = MODULE_STATE_ERROR"
  by (simp add: ami_fail_def ami_inc_error_def)

lemma dispatch_full:
  assumes ok: "services_ok env" "ami_ready (amiThis s)" "\<forall>i<AMI_RXDATA_SIZE. rxInUse (amiRxData (amiThis s) ! i)"
    and d: "dispatch_request env (host_entry cid q @ pad) s = Some s'"
  shows "amiRxData (amiThis s') = amiRxData (amiThis s)" "amiEvlData s' = amiEvlData s"
    "amiWorld s' = snd (amiMutexRelease env (snd (amiMutexTake env (amiWorld s))))"
    "amiState (amiThis s') = MODULE_STATE_ERROR"
proof -
  define s1 where "s1 = ami_step (ami_fail AMI_PROXY_RX_DATA_INDEX_FAILED
      (ami_inc_stat AMI_PROXY_STATS_TAKE_MUTEX (amiThis s)))
      (snd (amiMutexRelease env (snd (amiMutexTake env (amiWorld s))))) s"
  have acc: "accept_request env ev err inst member req s = Some (ERROR, 0, s1)" for ev err inst member req
    using services[OF ok(1)] find_full[of "ami_inc_stat AMI_PROXY_STATS_TAKE_MUTEX (amiThis s)"] ok(2,3)
    by (simp add: accept_request_def case_prod_beta Let_def s1_def)
  have "\<exists>e. s' = s1 \<or> s' = s1\<lparr>amiThis := ami_fail e (amiThis s1)\<rparr>"
    using d entry_opcode[of cid q pad] ok(2)
    by (cases q)
       (auto simp: dispatch_request_def handled_count handle_heartbeat acc count_failed_def
         answer_heartbeat_def accept_pdi_download_def accept_pdi_copy_def accept_sensor_def
         accept_identify_def accept_boot_select_def iHandleEepromRequest_def iHandleModuleRequest_def
         iHandleDebugVerbosityRequest_def)
  then show "amiRxData (amiThis s') = amiRxData (amiThis s)" "amiEvlData s' = amiEvlData s"
    "amiWorld s' = snd (amiMutexRelease env (snd (amiMutexTake env (amiWorld s))))"
    "amiState (amiThis s') = MODULE_STATE_ERROR"
    by (auto simp: s1_def)
qed

section \<open>An instance\<close>

text \<open>Services that succeed, with an empty mailbox and a quiet firmware interface.\<close>

definition sample_ami_env :: "(unit, unit) ami_env" where
  "sample_ami_env = \<lparr>amiOs = sample_osal, amiCall = (\<lambda>cb sig w. (OK, w)),
     amiMutexTake = (\<lambda>x. (True, x)), amiMutexRelease = (\<lambda>x. (True, x)),
     amiMBoxPost = (\<lambda>m x. (True, x)), amiMBoxPend = (\<lambda>x. (None, x)), amiFwIfOpen = (\<lambda>x. (True, x)),
     amiFwIfRead = (\<lambda>port b n x. (False, b, x)), amiFwIfWrite = (\<lambda>port b x. (True, x)),
     amiMutexCreate = (\<lambda>x. (True, x)), amiMBoxCreate = (\<lambda>x. (True, x)),
     amiTaskCreate = (\<lambda>x. (True, x)), amiUptimeMs = (\<lambda>x. 0), amiSleepMs = (\<lambda>n x. x)\<rparr>"

definition sample_ami :: "(unit, unit) ami_state" where
  "sample_ami = \<lparr>amiThis = ami_local_data\<lparr>amiInitialised := True\<rparr>, amiEvlRecord = None,
     amiEvlData = evl_local_data, amiWorld = ()\<rparr>"

definition sample_amc_env :: "(unit, unit) amc_env" where
  "sample_amc_env = \<lparr>amcOpen = (\<lambda>h x. (0, x)), amcClose = (\<lambda>h x. (0, x)),
     amcRead = (\<lambda>h x. (1, [], x)), amcWrite = (\<lambda>h b x. (0, x)), amcAlloc = (\<lambda>x. (True, x)),
     amcThreadCreate = (\<lambda>x. (0, x)), amcThreadStop = (\<lambda>x. (0, x)), amcShouldStop = (\<lambda>x. True),
     amcJiffies = (\<lambda>x. 0), amcSleep = (\<lambda>x. x), amcEvent = (\<lambda>cb p e c w. w)\<rparr>"

definition sample_amc :: "(unit, unit) amc_state" where
  "sample_amc = \<lparr>amc_proxy_list = [\<lparr>fw_if_handle = 0, proxy_id = 1, event_cb = None,
       response_thread_created = True, submitted_cmds = [], initialised = True\<rparr>],
     amc_cmds = (\<lambda>c. \<lparr>cmd_timeout_jiffies = 0, cmd_rcode = 0, cmd_cid = 0, cmd_response = [],
       cmd_response_code = 0, cmd_fw_if_gcq = Some 0\<rparr>), amc_world = ()\<rparr>"

definition sample_download :: amc_proxy_pdi_download_request where
  "sample_download = \<lparr>pd_length = 0x1000, pd_address = 0x4000, pd_boot_device = 1, pd_partition = 2,
     pd_last_chunk = 1, pd_chunk = 7, pd_chunk_size = 4\<rparr>"

definition sample_answer :: AMI_MBOX_MSG where
  "sample_answer = \<lparr>eMsgType = AMI_MSG_TYPE_PDI_DOWNLOAD_COMPLETE, ucRxDataIndex = 0, mbResult = 1,
     mbData = ZeroData\<rparr>"

lemma sample_services: "services_ok sample_ami_env"
  by (simp add: services_ok_def sample_ami_env_def)

lemma sample_env_ok: "ami_env_ok sample_ami_env"
  by (simp add: ami_env_ok_def sample_ami_env_def sample_osal_def)

lemma sample_ready: "ami_ready (amiThis sample_ami)"
  by (simp add: sample_ami_def ami_ready_def ami_firewalls_def ami_local_data_def)

lemma sample_free: "free_slot (amiThis sample_ami) 0"
  by (simp add: sample_ami_def free_slot_def ami_local_data_def ami_empty_slot_def)

section \<open>Properties\<close>

text \<open>
  C5: A request the host driver writes, with any bytes behind it, reaches the application. It is
  stored in the first free slot with its command identifier; then every callback bound to the
  proxy is called once, in the order of binding, with the signal of the kind of the request
  and the slot as its instance (the heartbeat: its count), and the signal is logged; after
  that only the heartbeat is answered. In the state in which the first callback is called, a
  fetch with the slot as instance returns the fields the host gave, each cut to its width.
\<close>

theorem ami_request_reaches_application:
  fixes env :: "('cb, 'x) ami_env" and cid :: u16 and q :: host_request
  assumes "services_ok env" "ami_ready (amiThis s)" "free_slot (amiThis s) i"
    "length (amiRxData (amiThis s)) = AMI_RXDATA_SIZE"
    "evl_inv (amiEvlData s)" "evlIsInitialised (amiEvlData s)"
    "osal_ok (amiOs env)" "osal_transparent (amiOs env)" "amiEvlRecord s = Some r"
  defines "u \<equiv> request_stored env cid q i s"
    and "sig \<equiv> \<lparr>ucModule = amiMyId (amiThis s), ucEventType = ami_event_value (host_event q),
      ucInstance = host_instance i q, ucAdditionalData = 0\<rparr>"
  shows "amiRxData (amiThis u) = (amiRxData (amiThis s))[i := stored cid q (amiRxData (amiThis s) ! i)] \<and>
    (\<exists>d v. dispatch_request env (host_entry cid q @ pad) s =
         Some (case q of HostHeartbeat n \<Rightarrow> snd (answer_heartbeat env n i (OK, v)) | _ \<Rightarrow> v) \<and>
       (amiThis v, amiWorld v) =
         fold (\<lambda>cb w. snd (amiCall env cb sig w)) (evlBindings r) (amiThis u, amiWorld u) \<and>
       amiEvlRecord v = Some r \<and> amiEvlData v = d \<and>
       evl_history d = tl (evl_history (amiEvlData s)) @
         [(fst (osUptimeMs (amiOs env) (amiThis u, amiWorld u)), sig)]) \<and>
    (\<forall>sig'. ucInstance sig' = of_nat i \<longrightarrow>
       host_fetch env q sig' (amiThis u, amiWorld u) = Some (OK, host_member q))"
proof -
  have rx: "amiRxData (amiThis u) = (amiRxData (amiThis s))[i := stored cid q (amiRxData (amiThis s) ! i)]"
    by (simp add: u_def request_stored_def)
  have i: "i < AMI_RXDATA_SIZE" using assms(3) by (simp add: free_slot_def)
  have "ami_ready (amiThis u)" using assms(2) by (simp add: u_def request_stored_def)
  then have fetch: "host_fetch env q sig' (amiThis u, amiWorld u) = Some (OK, host_member q)"
    if "ucInstance sig' = of_nat i" for sig'
    using that fetch_stored[OF assms(1) \<open>ami_ready (amiThis u)\<close>, of sig' cid q] rx i assms(4)
    by (simp add: unat_of_nat)
  obtain p x where w: "fold (\<lambda>cb w. snd (amiCall env cb sig w)) (evlBindings r) (amiThis u, amiWorld u) = (p, x)"
    by fastforce
  obtain d where d: "iEVL_RaiseEvent (amiOs env) (amiCall env) (Some r) (Some sig) (amiEvlData s)
      (amiThis u, amiWorld u) = Some (OK, d, p, x)"
    "evl_history d = tl (evl_history (amiEvlData s)) @
       [(fst (osUptimeMs (amiOs env) (amiThis u, amiWorld u)), sig)]"
    using raise_event_ok[OF assms(5-8), of "amiCall env" r sig "(amiThis u, amiWorld u)"] w by auto
  let ?v = "ami_step p x (u\<lparr>amiEvlData := d\<rparr>)"
  have "raise_request env (host_event q) (host_error q) (host_instance i q) u = Some (OK, ?v)"
    using d(1) assms(9) by (simp add: raise_request_def sig_def u_def request_stored_def)
  then have "dispatch_request env (host_entry cid q @ pad) s =
      Some (case q of HostHeartbeat n \<Rightarrow> snd (answer_heartbeat env n i (OK, ?v)) | _ \<Rightarrow> ?v)"
    using dispatch_raises[OF assms(1-3), of cid q pad, folded u_def] by (simp add: after_event_ok)
  moreover have "(amiThis ?v, amiWorld ?v) = (p, x)" "amiEvlRecord ?v = Some r" "amiEvlData ?v = d"
    using assms(9) by (simp_all add: u_def request_stored_def ami_step_def)
  ultimately show ?thesis using rx fetch d(2) w by metis
qed

text \<open>An application that keeps the type of the last signal it got.\<close>

definition sample_listening_env :: "(unit, unit) ami_env" where
  "sample_listening_env = sample_ami_env\<lparr>amiCall := (\<lambda>cb sig w. (OK, (fst w)\<lparr>amiMyId := ucEventType sig\<rparr>, snd w))\<rparr>"

definition sample_listening :: "(unit, unit) ami_state" where
  "sample_listening = sample_ami\<lparr>amiEvlData := sample_evl,
     amiEvlRecord := Some \<lparr>evlBindings = [()], iNumBindings = 1\<rparr>\<rparr>"

lemma ami_request_reaches_application_witness:
  "\<exists>v. dispatch_request sample_listening_env
       (host_entry 5 (HostDownload sample_download) @ replicate 8 0xFF) sample_listening = Some v \<and>
     amiMyId (amiThis v) = ami_event_value AMI_PROXY_DRIVER_E_PDI_DOWNLOAD_START \<and>
     rxCid (amiRxData (amiThis v) ! 0) = 5"
proof -
  have a: "services_ok sample_listening_env" "ami_ready (amiThis sample_listening)"
    "free_slot (amiThis sample_listening) 0" "length (amiRxData (amiThis sample_listening)) = AMI_RXDATA_SIZE"
    "evl_inv (amiEvlData sample_listening)" "evlIsInitialised (amiEvlData sample_listening)"
    "osal_ok (amiOs sample_listening_env)" "osal_transparent (amiOs sample_listening_env)"
    "amiEvlRecord sample_listening = Some \<lparr>evlBindings = [()], iNumBindings = 1\<rparr>"
    using sample_services sample_ready sample_free sample_evl_ok sample_osal_ok
    by (simp_all add: sample_listening_env_def sample_listening_def services_ok_def sample_ami_env_def)
      (simp add: sample_ami_def ami_local_data_def)
  have "amiRxData (amiThis sample_listening) \<noteq> []"
    using a(4) by (auto simp: AMI_RXDATA_SIZE_def)
  then show ?thesis
    using ami_request_reaches_application[OF a, of 5 "HostDownload sample_download" "replicate 8 0xFF"]
    by (auto simp: sample_listening_env_def stored_def)
qed

text \<open>
  C6: A command the host submits is ended by the response the firmware writes for its slot:
  the slot is free again, the command leaves the list it was added to, no other command
  changes, and the host reads the errno of the result; the identity arrives as it was given,
  and a sensor command succeeds whatever the result.
\<close>

theorem ami_command_completes:
  assumes "ready_instance (cmd_fw_if_gcq (amc_cmds h c)) h = Some k"
    "\<forall>r\<in>set (amc_proxy_list h). c \<notin> set (submitted_cmds r)"
    "\<forall>d\<in>set (submitted_cmds (amc_proxy_list h ! k)). cmd_cid (amc_cmds h d) \<noteq> cmd_cid (amc_cmds h c)"
    "amcWrite henv (fw_if_handle (amc_proxy_list h ! k))
       (host_entry (cmd_cid (amc_cmds h c)) q) (amc_world h) = (0, y)"
    "services_ok env" "message_payload msg = Some (Some (stat, p0, p1))"
    "unat (ucRxDataIndex msg) = i" "i < AMI_RXDATA_SIZE"
    "rxCid (amiRxData p ! i) = cmd_cid (amc_cmds h c)"
    "bytes = ami_response (rxCid (amiRxData p ! i)) p0 p1 (mbResult msg)"
    "amiFwIfWrite env (ucast (amiFwIfPort p)) bytes x = (True, x1)"
  shows "\<exists>h1 h2 p' x'. host_submit henv c q h = Some (0, h1) \<and>
     ami_respond env msg (p, x) = Some (p', x') \<and>
     amiRxData p' = (amiRxData p)[i := (amiRxData p ! i)\<lparr>rxInUse := False\<rparr>] \<and>
     amc_proxy_cmd_complete henv k bytes h1 =
       send_event henv (amc_proxy_list h1 ! k) AMC_PROXY_EVENT_RESPONSE_COMPLETE c h2 \<and>
     c \<in> set (submitted_cmds (amc_proxy_list h1 ! k)) \<and> amc_proxy_list h2 = amc_proxy_list h \<and>
     (\<forall>d. d \<noteq> c \<longrightarrow> amc_cmds h2 d = amc_cmds h d) \<and>
     amc_proxy_get_response_pdi_download (Some c) h2 = amc_result_to_linux_errno (mbResult msg) \<and>
     (eMsgType msg = AMI_MSG_TYPE_SENSOR_COMPLETE \<longrightarrow> amc_proxy_get_response_sensor (Some c) h2 = 0) \<and>
     (\<forall>r. eMsgType msg = AMI_MSG_TYPE_IDENTITY_COMPLETE \<and> mbData msg = xIdentity r \<longrightarrow>
        amc_proxy_get_response_identity (Some c) True h2 = (0, Some
          \<lparr>ir_ver_major = idVerMajor r, ir_ver_minor = idVerMinor r, ir_ver_patch = idVerPatch r,
           ir_local_changes = idLocalChanges r, ir_dev_commits = idDevCommits r,
           ir_link_ver_major = idLinkVerMajor r, ir_link_ver_minor = idLinkVerMinor r\<rparr>))"
proof -
  note bytes = response_parts[of "cmd_cid (amc_cmds h c)" p0 p1 "mbResult msg"]
  have cid: "response_cid bytes = cmd_cid (amc_cmds h c)" using assms(9,10) bytes(1) by simp
  define h2 where "h2 = upd_cmd c (\<lambda>cmd. cmd\<lparr>cmd_response := response_payload bytes,
      cmd_response_code := response_ret bytes\<rparr>) (h\<lparr>amc_world := y\<rparr>)"
  obtain h1 where sub: "host_submit henv c q h = Some (0, h1)" "c \<in> set (submitted_cmds (amc_proxy_list h1 ! k))"
    and fin: "amc_proxy_cmd_complete henv k bytes h1 =
       send_event henv (amc_proxy_list h1 ! k) AMC_PROXY_EVENT_RESPONSE_COMPLETE c h2"
    using submitted_and_completed[OF assms(1-4) cid] unfolding h2_def by metis
  obtain p' x' where fw: "ami_respond env msg (p, x) = Some (p', x')"
    "amiRxData p' = (amiRxData p)[i := (amiRxData p ! i)\<lparr>rxInUse := False\<rparr>]"
    using responds[OF assms(5,6)] assms(7-11) by metis
  have cmd: "ready_instance (cmd_fw_if_gcq (amc_cmds h2 c)) h2 = Some k"
    "cmd_response (amc_cmds h2 c) = le_bytes p0 @ le_bytes p1"
    "cmd_response_code (amc_cmds h2 c) = mbResult msg"
    using assms(1,10) ready_instance_cong[of h2 h]
    by (simp_all add: h2_def upd_cmd_def response_parts)
  have "amc_proxy_get_response_sensor (Some c) h2 = 0" if "eMsgType msg = AMI_MSG_TYPE_SENSOR_COMPLETE"
    using assms(6) that cmd by (simp add: amc_proxy_get_response_sensor_def get_response_def)
  moreover have "amc_proxy_get_response_identity (Some c) True h2 = (0, Some
        \<lparr>ir_ver_major = idVerMajor r, ir_ver_minor = idVerMinor r, ir_ver_patch = idVerPatch r,
         ir_local_changes = idLocalChanges r, ir_dev_commits = idDevCommits r,
         ir_link_ver_major = idLinkVerMajor r, ir_link_ver_minor = idLinkVerMinor r\<rparr>)"
    if "eMsgType msg = AMI_MSG_TYPE_IDENTITY_COMPLETE" "mbData msg = xIdentity r" for r
    using assms(6) that cmd identity_roundtrip[of r]
    by (auto simp: amc_proxy_get_response_identity_def)
  ultimately show ?thesis
    using sub fin fw cmd
    by (intro exI[of _ h1] exI[of _ h2] exI[of _ p'] exI[of _ x'])
       (simp add: h2_def upd_cmd_def amc_proxy_get_response_pdi_download_def get_response_def response_errno_def)
qed

lemma ami_command_completes_witness:
  "\<exists>h1 h2 p' x'. host_submit sample_amc_env 3 (HostDownload sample_download) sample_amc = Some (0, h1) \<and>
     ami_respond sample_ami_env sample_answer (amiThis sample_ami, ()) = Some (p', x') \<and>
     amc_proxy_cmd_complete sample_amc_env 0 (ami_response 0 0 0 1) h1 =
       send_event sample_amc_env (amc_proxy_list h1 ! 0) AMC_PROXY_EVENT_RESPONSE_COMPLETE 3 h2 \<and>
     amc_proxy_get_response_pdi_download (Some 3) h2 = - AMC_EIO"
proof -
  have host: "ready_instance (cmd_fw_if_gcq (amc_cmds sample_amc 3)) sample_amc = Some 0"
    "\<forall>r\<in>set (amc_proxy_list sample_amc). 3 \<notin> set (submitted_cmds r)"
    "\<forall>d\<in>set (submitted_cmds (amc_proxy_list sample_amc ! 0)).
       cmd_cid (amc_cmds sample_amc d) \<noteq> cmd_cid (amc_cmds sample_amc 3)"
    "cmd_cid (amc_cmds sample_amc 3) = 0"
    by (simp_all add: sample_amc_def ready_instance_def amc_proxy_find_matching_proxy_instance_def)
  have sent: "amcWrite sample_amc_env h bs x = (0, ())" for h bs x by (simp add: sample_amc_env_def)
  have fw: "message_payload sample_answer = Some (Some (AMI_PROXY_STATS_PDI_DOWNLOAD_MBOX_PEND, 0, 0))"
    "unat (ucRxDataIndex sample_answer) = 0" "rxCid (amiRxData (amiThis sample_ami) ! 0) = 0"
    "mbResult sample_answer = 1" "eMsgType sample_answer = AMI_MSG_TYPE_PDI_DOWNLOAD_COMPLETE"
    by (simp_all add: sample_answer_def sample_ami_def ami_local_data_def ami_empty_slot_def)
  have written: "amiFwIfWrite sample_ami_env port bs x = (True, ())" for port bs x
    by (simp add: sample_ami_env_def)
  show ?thesis
    using ami_command_completes[OF host(1-3) sent sample_services fw(1,2) _ _ refl written,
        where q = "HostDownload sample_download" and p = "amiThis sample_ami" and x = "()"]
    by (simp add: host(4) fw(3,4,5) amc_result_to_linux_errno_def) blast
qed

text \<open>
  C22: Every request takes a slot and keeps it, whether or not its event can be raised; when no
  slot is free the request is dropped: no event, no answer, and the proxy is in error.
\<close>

theorem ami_request_takes_slot:
  assumes "services_ok env" "ami_env_ok env" "ami_ready (amiThis s)"
    "dispatch_request env (host_entry cid q @ pad) s = Some s'"
  shows "(\<forall>i. free_slot (amiThis s) i \<longrightarrow>
       amiRxData (amiThis s') = (amiRxData (amiThis s))[i := stored cid q (amiRxData (amiThis s) ! i)]) \<and>
     ((\<forall>i<AMI_RXDATA_SIZE. rxInUse (amiRxData (amiThis s) ! i)) \<longrightarrow>
       amiRxData (amiThis s') = amiRxData (amiThis s) \<and> amiEvlData s' = amiEvlData s \<and>
       amiWorld s' = snd (amiMutexRelease env (snd (amiMutexTake env (amiWorld s)))) \<and>
       amiState (amiThis s') = MODULE_STATE_ERROR)"
proof (intro conjI allI impI)
  fix i assume free: "free_slot (amiThis s) i"
  obtain s1 err post where d: "dispatch_request env (host_entry cid q @ pad) s =
       map_option post (raise_request env (host_event q) err (host_instance i q) s1)"
    and rx: "amiRxData (amiThis s1) = (amiRxData (amiThis s))[i := stored cid q (amiRxData (amiThis s) ! i)]"
    and post: "only_counts post"
    using dispatch_stores[OF assms(1,3) free] by metis
  from d assms(4) obtain st s2 where r: "raise_request env (host_event q) err (host_instance i q) s1 = Some (st, s2)"
    and s': "s' = post (st, s2)" by (auto simp: map_option_eq_Some[symmetric] eq_commute[of "Some _"])
  show "amiRxData (amiThis s') = (amiRxData (amiThis s))[i := stored cid q (amiRxData (amiThis s) ! i)]"
    using raise_request_kept[OF assms(2) r] post rx by (simp add: s' ami_kept_def only_counts_def)
qed (use dispatch_full[OF assms(1,3)] assms(4) in auto)

lemma ami_request_takes_slot_witness:
  "\<exists>s'. dispatch_request sample_ami_env (host_entry 5 HostIdentity @ []) sample_ami = Some s' \<and>
     rxCid (amiRxData (amiThis s') ! 0) = 5 \<and> rxInUse (amiRxData (amiThis s') ! 0)"
proof -
  have raised: "raise_request sample_ami_env ev err n (ami_step p x sample_ami) \<noteq> None" for ev err n p x
    by (simp add: raise_request_def iEVL_RaiseEvent_def sample_ami_def ami_step_def)
  have found: "iFindNextFreeRxDataIndex (ami_inc_stat c (amiThis sample_ami)) =
      (OK, 0, ami_inc_stat c (amiThis sample_ami))" for c
    using sample_ready sample_free by (simp add: find_slot free_slot_stat)
  have "dispatch_request sample_ami_env (host_entry 5 HostIdentity @ []) sample_ami \<noteq> None"
    unfolding dispatch_request_def Let_def entry_opcode
    using raised found services[OF sample_services]
    by (auto simp: accept_identify_def accept_request_def case_prod_beta Let_def split: bind_splits)
  then obtain s' where d: "dispatch_request sample_ami_env (host_entry 5 HostIdentity @ []) sample_ami = Some s'"
    by blast
  have "amiRxData (amiThis s') = (amiRxData (amiThis sample_ami))
      [0 := stored 5 HostIdentity (amiRxData (amiThis sample_ami) ! 0)]"
    using ami_request_takes_slot[OF sample_services sample_env_ok sample_ready d] sample_free by blast
  then show ?thesis using d by (simp add: stored_def sample_ami_def ami_local_data_def)
qed

text \<open>
  C11: In every reachable state there are eight slots, and a slot in use holds the member of its
  request; so every fetch is defined, whatever the signal.
\<close>

theorem ami_reachable_typed:
  assumes "ami_env_ok env" "ami_reachable env s"
  shows "slots_typed (amiThis s) \<and>
     (\<forall>sig out. iAMI_GetPdiDownloadRequest env sig out (amiThis s, amiWorld s) \<noteq> None \<and>
       iAMI_GetPdiCopyRequest env sig out (amiThis s, amiWorld s) \<noteq> None \<and>
       iAMI_GetSensorRequest env sig out (amiThis s, amiWorld s) \<noteq> None \<and>
       iAMI_GetBootSelectRequest env sig out (amiThis s, amiWorld s) \<noteq> None \<and>
       iAMI_GetEepromReadWriteRequest env sig out (amiThis s, amiWorld s) \<noteq> None \<and>
       iAMI_GetModuleReadWriteRequest env sig out (amiThis s, amiWorld s) \<noteq> None \<and>
       iAMI_GetDebugVerbosityRequest env sig out (amiThis s, amiWorld s) \<noteq> None)"
proof -
  have typed: "slots_typed (fst (amiThis s, amiWorld s))" using ami_typed_everywhere[OF assms] by simp
  show ?thesis
    unfolding iAMI_GetPdiDownloadRequest_def iAMI_GetPdiCopyRequest_def iAMI_GetSensorRequest_def
      iAMI_GetBootSelectRequest_def iAMI_GetEepromReadWriteRequest_def
      iAMI_GetModuleReadWriteRequest_def iAMI_GetDebugVerbosityRequest_def
    using typed by (intro conjI allI get_request_defined[OF typed]) (simp_all add: slot_typed_def)
qed

lemma ami_reachable_typed_witness:
  "slots_typed (amiThis (sample_ami\<lparr>amiThis := ami_local_data\<rparr>))"
  using ami_reachable_typed[OF sample_env_ok ami_reachable.loaded[of "sample_ami\<lparr>amiThis := ami_local_data\<rparr>"]]
  by simp

end
