(* ===== verification/Spec2Isabelle.thy ===== *)
theory Spec2Isabelle
  imports GcqProperties SmbusProperties PldmProperties PdrRepository MctpProperties DalProperties AsdmProperties
    AmiProperties
begin

text \<open>
  Verification library for AVED, the Alveo Versal example design, whose card runs the AMC
  firmware (src/fw/AMC) and whose host runs the AMI driver and tools (src/sw/AMI).

  The program. The AMC firmware is layered. Core libraries (src/fw/AMC/src/common/core_libs)
  give events between modules (EVL), a debug menu on a terminal (DAL) and printing (PLL).
  Device drivers (src/fw/AMC/src/device_drivers) talk to hardware: the generic command queue
  (GCQ) is the ring pair in shared memory between the host and the card, the SMBus driver the
  link to the management controller of the server. Firmware interfaces (fal) wrap the drivers
  behind function pointers. Proxy drivers (proxy_drivers) turn the traffic of one peer into
  events and answers: the BMC proxy carries MCTP packets over SMBus, PLDM and MCTP control
  messages in them, and asks the applications (apps) for sensors by raising EVL events. The
  sensor data model keeps the sensors in repositories and answers the host, whose kernel driver
  (src/sw/AMI/driver) parses the answers and keeps a copy.

  Conventions (Prelude, Bytes, CText). Machine integers are words of their width. A status is
  the int OK or ERROR; what a function writes through pointers is part of its result, and so
  is the state it changes. Undefined behaviour, and not returning, is the value None of an
  option result, so that a theorem that concludes a value says that the code is free of both.
  Functions outside of the repository, the operating system, callbacks and the hardware are
  parameters: functions over a world. Prints are results where they matter and are otherwise
  left out. Every static variable of a module is a field of its state record.

  The command queue. GcqIo, GcqRing, GcqHw, GcqDriver and GcqIp follow gcq_regmap.h and
  gcq_features.c, gcq_ring.h, gcq_hw.c, gcq_driver.c, and the registers of the IP block.
  GcqQueue states one ring seen from its two ends over free-running counters; GcqTransfer relates producing and consuming to it; GcqLink
  composes two driver instances over one shared memory into a link that satisfies the contract
  of a bounded queue, the locale of Fifo; GcqBringUp proves that initialisation and attachment
  establish the link; GcqInstances treats the slot allocation and the instance table. GcqProperties states what the clients rely on.

  Events. Evl models evl.c: records of callbacks, raising, the circular log.

  The SMBus driver. SmbusNames, SmbusLog, SmbusEventBuffer and SmbusEvents model the
  enumerations and names, smbus_circular_log.c, smbus_event_buffer.c and smbus_event.c; the
  event buffer is a second interpretation of Fifo. SmbusRegisters, SmbusDriverState and
  SmbusHwAccess hold the register map (smbus_hardware.h), the profile with its instances
  (smbus_internal.h) and the accessors of the IP (smbus_hardware_access.c); SmbusAction follows
  smbus_action.c. The state machine of an instance (smbus_state.c) is a function from an event
  to the next state of the driver: SmbusFsmBase has what the states share, SmbusArp the address
  resolution, SmbusFsmTarget and SmbusFsmDone the states of a target,
  SmbusFsmController and SmbusFsmRead those of a controller and the dispatch. SmbusInterrupt has
  the interrupt handler and the event queue, SmbusInit and SmbusDriver the interface
  (smbus_driver.c). SmbusFrameActions and SmbusFrameFsm show what no operation
  changes, SmbusReach that this typing of the state holds in every state that steps without
  undefined behaviour reach (an access outside an array is no step, so it is not excluded),
  SmbusRecovery that bus errors are recovered from, SmbusUdid that the smallest UDID wins;
  SmbusProperties states the results.

  The management controller. BmcState holds the static data of bmc_proxy_driver.c and its
  services; BmcProxy the requests it raises and the answers it takes; BmcDriver its
  initialisation, statistics, reception and task. Crc, PldmPdr, PldmCommands and PldmProcessor
  model the check sums, the record repository (pldm_pdr.c), the command tables
  (pldm_commands.c) and the commands (pldm_processor.c, pldm_parser.c); PdrRepository,
  PldmTransfer and PldmProperties show that the repository is consistent, that a multi-part
  transfer gives the record, and what each command answers. MctpInterpreter
  models mctp_commands.c, mctp_parser.c and mctp_interpreter.c; MctpReceive, MctpTransfer and
  MctpProperties show reassembly, fragmentation and the control protocol.

  The debug menu. Dal, DalMenu, DalInput and DalCommand model dal.c: the heap of options, the
  functions that add, print and select them, the functions that ask for numbers and text, and
  the command line. DalTree has the invariant of the menu and its preservation, DalPrint the
  equality of the printed menu with a rendering of the tree, DalRun the execution of lines,
  DalProperties the guarantees.

  Sensor data. AsdmState, AsdmPopulate, AsdmInit, AsdmRespond and AsdmEvents model asdm.c: its
  static data and services, the functions that fill the records, the tables and the
  initialisation, the answers to the host, and the updates by events of the proxies. HostSensor
  models the reader of these answers on the host (src/sw/AMI/driver/ami_sensor.c). AsdmCodec
  relates the two by the locale codec, a writer of bytes and a reader of the same bytes, with
  the interpretations for sensor records, partition tables and board information; AsdmTransport
  composes them to whole repositories. AsdmReady and AsdmBuilt show what an initialisation
  leaves behind, AsdmReadings how the values are refreshed, AsdmSensors which sensors are listed
  and updated, what the total power is and what a record shows. AsdmProperties states the
  results from the firmware to the host.

  The commands of the host. AmiProxy models ami_proxy_driver.c, the eight slots of requests, the
  events that announce them, the mailbox of answers and a pass of the task; AmcProxy models the
  other end, amc_proxy.c of the host driver: the entries it writes, the list of submitted
  commands, completion, timeout and the response thread. AmiCommands relates the two byte by
  byte; AmiProperties shows that a request reaches the application that fetches it, that a
  response ends its command, that slots stay typed under every call of the applications, and
  when requests are dropped.

  Bounds. Loops that the C code bounds by a count recurse on it; loops that end only by data
  (the slot allocation, the wait for a valid number, the payload of sensor values) recurse on a
  measure that is proved to fall, or return None when the code does not return. Loops that wait
  for the SMBus device are partial functions into option, and recovery is proved under the
  hypothesis that its FIFOs can be emptied; so are the thread of the host driver and its wait
  for the last command. The printing of the menu recurses without a bound
  of its own and is proved to end on well-formed menus. No fuel is used except the number of
  requests a PLDM requester sends, where the length of the record is proved enough.

  Not modelled. The printing library and the OS layer are thin wrappers of services whose code
  is not in the repository; the FAL and the drivers for I2C, OSPI, EMMC, EEPROM and the sensor
  chips are input and output on devices and vendor libraries. The proxies for the flash (APC),
  the sensors (ASC) and the modules (AXC), and the applications over them, move requests and
  events between the layers above; where a modelled part calls them they are parameters. The terminal menus, the profiles, the rest of the host driver and the host tools
  are front ends and constant tables. Within the modelled files, functions that only print, such
  as iASDM_PrintAsdmRepoData, are left out. Concurrency is the interleaving of whole operations:
  mutexes are services that succeed or fail, and the interleaving of two tasks inside one
  operation is not modelled.
\<close>

end
